(* ===== verification/Prelude.thy ===== *)
theory Prelude
  imports Main "HOL-Library.Word" "HOL-Library.Multiset"
begin

text \<open>
  Shared material of the development: names for the machine types of the C++ code, the
  collections of rewrite rules the component theories extend, and the generic lemmas on
  words, lists and options that more than one component uses. Nothing here models a
  particular source file.
\<close>

unbundle bit_operations_syntax

subsection \<open>Machine types\<close>

text \<open>
  \<^verbatim>\<open>std::uint64_t\<close>, \<^verbatim>\<open>std::size_t\<close> and \<^verbatim>\<open>std::uintptr_t\<close> have 64 bits on the only supported
  target (x86-64 Linux). Pointers are their addresses; the null pointer is address 0.
\<close>

type_synonym u8 = "8 word"
type_synonym u32 = "32 word"
type_synonym u64 = "64 word"
type_synonym usize = "64 word"
type_synonym addr = "64 word"

abbreviation (input) nullptr :: addr where
  "nullptr \<equiv> 0"

text \<open>\<^verbatim>\<open>std::numeric_limits<std::uint64_t>::max()\<close>.\<close>

abbreviation (input) u64_max :: u64 where
  "u64_max \<equiv> - 1"

named_theorems word_nat \<open>transfer of word comparisons and arithmetic to natural numbers\<close>
named_theorems overflow_guard \<open>meaning of the overflow guards of the checked operations\<close>

subsection \<open>Words and natural numbers\<close>

lemma unat_u64_max [simp]: "unat u64_max = 2 ^ 64 - 1"
  by (simp add: unsigned_minus_1_eq_mask mask_eq_exp_minus_1)

lemma unat_u64_lt: "unat (w :: u64) < 2 ^ 64"
  using unsigned_less [of w] by simp

lemma unat_u64_lt_num: "unat (w :: u64) < 18446744073709551616"
  using unsigned_less [of w] by simp

lemma unat_of_nat_u64: "n < 2 ^ 64 \<Longrightarrow> unat (of_nat n :: u64) = n"
  by (simp add: unat_of_nat take_bit_nat_eq_self)

lemma unat_plus_u64: "unat a + unat b < 2 ^ 64 \<Longrightarrow> unat (a + b :: u64) = unat a + unat b"
  by (simp add: unat_word_ariths)

lemma unat_times_u64: "unat a * unat b < 2 ^ 64 \<Longrightarrow> unat (a * b :: u64) = unat a * unat b"
  by (simp add: unat_word_ariths)

lemma unat_minus_u64: "b \<le> a \<Longrightarrow> unat (a - b :: u64) = unat a - unat b"
  by (rule unat_sub)

lemma word_eq_unat: "(a = b) = (unat a = unat (b :: 'a::len word))"
  by (simp add: word_unat_eq_iff)

lemma unat_Suc_u64: "unat (p :: u64) < unat (c :: u64) \<Longrightarrow> unat (p + 1) = Suc (unat p)"
  using unat_u64_lt_num [of c] by (simp add: unat_word_ariths)

lemma unat_Suc_not_max: "n \<noteq> u64_max \<Longrightarrow> unat (n + 1) = Suc (unat n)"
  using word_eq_unat [of n u64_max] unat_u64_lt_num [of n] by (simp add: unat_word_ariths)

lemma unat_neg_u64:
  assumes "b \<noteq> 0"
  shows "unat (0 - b :: u64) = 2 ^ 64 - unat b"
proof -
  have pos: "0 < unat b" using assms by (simp add: word_eq_unat)
  have "unat (u64_max - b) = 18446744073709551615 - unat b" by (simp add: unat_minus_u64)
  moreover from this have "u64_max - b \<noteq> u64_max" using assms by simp
  from unat_Suc_not_max [OF this] have "unat (0 - b) = Suc (unat (u64_max - b))" by simp
  ultimately show ?thesis using pos unat_u64_lt_num [of b] by simp
qed

lemma cyclic_successor_nat:
  assumes "unat (p :: u64) < unat (c :: u64)"
  shows "unat (let next = p + 1 in if next = c then 0 else next) = Suc (unat p) mod unat c"
proof -
  have s: "unat (p + 1) = Suc (unat p)" using assms by (rule unat_Suc_u64)
  show ?thesis
  proof (cases "p + 1 = c")
    case True
    with s show ?thesis by simp
  next
    case False
    with s assms have "Suc (unat p) < unat c" by (metis Suc_lessI word_eq_unat)
    with False s show ?thesis by simp
  qed
qed

lemmas unat_order [word_nat] = word_le_nat_alt word_less_nat_alt

lemma add_guard [overflow_guard]:
  "(u64_max - left < right) = (2 ^ 64 \<le> unat left + unat (right :: u64))"
proof -
  have "unat (u64_max - left) = 18446744073709551615 - unat left"
    by (simp add: unat_minus_u64)
  then have "(u64_max - left < right) = (18446744073709551616 \<le> unat left + unat right)"
    using unat_u64_lt_num [of left]
    unfolding word_less_nat_alt by arith
  then show ?thesis by simp
qed

lemma mul_guard [overflow_guard]:
  assumes "left \<noteq> 0"
  shows "(u64_max div left < right) = (2 ^ 64 \<le> unat left * unat (right :: u64))"
proof -
  from assms have pos: "0 < unat left"
    by (simp add: word_eq_unat)
  have "(u64_max div left < right) = ((2 ^ 64 - 1) div unat left < unat right)"
    by (simp add: word_less_nat_alt unat_div)
  also have "\<dots> = (2 ^ 64 - 1 < unat right * unat left)"
    using pos by (simp add: div_less_iff_less_mult)
  also have "\<dots> = (2 ^ 64 \<le> unat left * unat right)"
    by (auto simp: mult.commute)
  finally show ?thesis .
qed

lemma mul_guard' [overflow_guard]:
  "(left \<noteq> 0 \<and> u64_max div left < right) = (2 ^ 64 \<le> unat left * unat (right :: u64))"
  by (cases "left = 0") (auto simp: mul_guard)

text \<open>Multiplication by a unit and exclusive or can be undone.\<close>

lemma mult_unit_cancel:
  assumes "c * m = 1" and "m * a = m * (b :: 'a::comm_monoid_mult)"
  shows "a = b"
  by (metis assms mult.assoc mult_1)

lemma xor_left_cancel: "a XOR b = a XOR c \<longleftrightarrow> b = (c :: 'a::len word)"
  by (metis xor.left_commute xor_self_eq xor.right_neutral)

lemma xor_right_cancel: "b XOR a = c XOR a \<longleftrightarrow> b = (c :: 'a::len word)"
  by (simp add: xor.commute [of _ a] xor_left_cancel)

lemma xor_shift_cancel:
  assumes "0 < k" and "x XOR drop_bit k x = y XOR drop_bit k (y :: 'a::len word)"
  shows "x = y"
proof (rule bit_word_eqI)
  fix n
  assume "n < LENGTH('a)"
  then show "bit x n = bit y n"
  proof (induction "LENGTH('a) - n" arbitrary: n rule: less_induct)
    case less
    have "bit (x XOR drop_bit k x) n = bit (y XOR drop_bit k y) n" using assms(2) by simp
    then have eq: "(bit x n \<noteq> bit x (k + n)) = (bit y n \<noteq> bit y (k + n))"
      by (simp add: bit_simps)
    show ?case
    proof (cases "k + n < LENGTH('a)")
      case True
      with less.hyps [of "k + n"] less.prems assms(1) have "bit x (k + n) = bit y (k + n)" by simp
      with eq show ?thesis by auto
    next
      case False
      then have "\<not> bit x (k + n)" and "\<not> bit y (k + n)" by (auto dest: bit_imp_le_length)
      with eq show ?thesis by auto
    qed
  qed
qed

subsection \<open>Powers of two\<close>

text \<open>The bit trick \<open>v \<noteq> 0 \<and> v AND (v - 1) = 0\<close> recognises exactly the powers of two.\<close>

lemma power_two_bits:
  assumes "k < 64"
  shows "(2 ^ k :: u64) AND (2 ^ k - 1) = 0"
proof -
  have "(2 ^ k :: u64) AND mask k = 0"
    by (rule bit_word_eqI) (auto simp: bit_simps)
  then show ?thesis by (simp add: mask_eq_exp_minus_1)
qed

lemma nat_and_pred_zero:
  "0 < n \<Longrightarrow> n AND (n - 1) = 0 \<Longrightarrow> \<exists>k. n = (2 :: nat) ^ k"
proof (induction n rule: less_induct)
  case (less n)
  show ?case
  proof (cases "even n")
    case True
    then obtain m where m: "n = 2 * m" by (elim evenE)
    with less.prems have pos: "0 < m" by simp
    have "n - 1 = 2 * (m - 1) + 1" using m pos by simp
    with less.prems(2) m have "m AND (m - 1) = 0"
      by (simp add: and_nat_rec [of "2 * m"])
    with less.IH [of m] m pos obtain k where "m = 2 ^ k" by auto
    then have "n = 2 ^ Suc k" using m by simp
    then show ?thesis ..
  next
    case False
    then obtain m where m: "n = 2 * m + 1" by (elim oddE)
    with less.prems(2) have "m = 0" by (simp add: and_nat_rec [of "Suc (2 * m)"])
    then have "n = 2 ^ 0" using m by simp
    then show ?thesis ..
  qed
qed

lemma power_two_iff:
  "(v \<noteq> 0 \<and> v AND (v - 1) = 0) = (\<exists>k < 64. v = (2 ^ k :: u64))"
proof
  assume v: "v \<noteq> 0 \<and> v AND (v - 1) = 0"
  then have pos: "0 < unat v" by (simp add: word_eq_unat)
  have "unat (v - 1) = unat v - 1"
    using v by (simp add: unat_minus_one)
  then have "unat v AND (unat v - 1) = unat (v AND (v - 1))"
    by (simp add: unsigned_and_eq)
  with v have "unat v AND (unat v - 1) = 0" by simp
  with pos obtain k where k: "unat v = 2 ^ k"
    using nat_and_pred_zero by blast
  have "(2 :: nat) ^ k < 2 ^ 64"
    using unat_u64_lt [of v] k by simp
  then have "k < 64"
    by (rule power_less_imp_less_exp [rotated]) simp
  moreover have "unat (2 ^ k :: u64) = 2 ^ k"
    using unat_of_nat_u64 [OF \<open>(2 :: nat) ^ k < 2 ^ 64\<close>] by simp
  then have "v = 2 ^ k"
    using k by (simp add: word_eq_unat)
  ultimately show "\<exists>k < 64. v = 2 ^ k" by blast
next
  assume "\<exists>k < 64. v = (2 ^ k :: u64)"
  then show "v \<noteq> 0 \<and> v AND (v - 1) = 0"
    by (auto simp: power_two_bits)
qed

subsection \<open>Rounding up to a multiple\<close>

definition round_up_nat :: "nat \<Rightarrow> nat \<Rightarrow> nat" where
  "round_up_nat v a = (if v mod a = 0 then v else v + (a - v mod a))"

lemma round_up_nat_eq:
  assumes "0 < a"
  shows "round_up_nat v a = (if v mod a = 0 then a * (v div a) else a * Suc (v div a))"
proof -
  have v: "v = a * q + m \<Longrightarrow> m < a \<Longrightarrow> v + (a - m) = a * Suc q" for q m
    by simp
  have "v + (a - v mod a) = a * Suc (v div a)"
    by (rule v) (use assms in auto)
  then show ?thesis
    by (auto simp: round_up_nat_def)
qed

lemma round_up_nat_least:
  assumes "0 < a"
  shows round_up_nat_dvd: "a dvd round_up_nat v a"
    and round_up_nat_ge: "v \<le> round_up_nat v a"
    and round_up_nat_lt: "round_up_nat v a < v + a"
    and round_up_nat_le: "a dvd m \<Longrightarrow> v \<le> m \<Longrightarrow> round_up_nat v a \<le> m"
proof -
  show "a dvd round_up_nat v a"
    by (auto simp: round_up_nat_eq [OF assms])
  show "v \<le> round_up_nat v a"
    by (simp add: round_up_nat_def)
  show "round_up_nat v a < v + a"
    using assms by (auto simp: round_up_nat_def)
  assume "a dvd m" and vm: "v \<le> m"
  then obtain k where k: "m = a * k" by (elim dvdE)
  show "round_up_nat v a \<le> m"
  proof (cases "v mod a = 0")
    case True
    with vm show ?thesis by (simp add: round_up_nat_def)
  next
    case False
    have "v div a < k"
    proof (rule ccontr)
      assume "\<not> v div a < k"
      then have "a * k \<le> a * (v div a)" by simp
      also have "\<dots> < v" using False
        by (metis mult_div_mod_eq less_add_same_cancel1 neq0_conv)
      finally show False using vm k by simp
    qed
    then have "a * Suc (v div a) \<le> a * k" by (intro mult_le_mono2) simp
    with False k show ?thesis by (simp add: round_up_nat_eq [OF assms])
  qed
qed

subsection \<open>Decimal rendering\<close>

text \<open>\<^verbatim>\<open>std::to_string\<close> of an unsigned integer, used in the paths of validation errors.\<close>

fun std_to_string :: "nat \<Rightarrow> string" where
  "std_to_string n =
     (if n < 10 then [char_of (48 + n)]
      else std_to_string (n div 10) @ [char_of (48 + n mod 10)])"

declare std_to_string.simps [simp del]

subsection \<open>Errors as values\<close>

text \<open>A call whose exception is passed on, and the rest of the function.\<close>

lemma case_sum_Inr [simp]:
  "(case r of Inl e \<Rightarrow> Inl (f e) | Inr x \<Rightarrow> g x) = Inr y \<longleftrightarrow> (\<exists>x. r = Inr x \<and> g x = Inr y)"
  by (cases r) auto

lemma case_option_Inr [simp]:
  "(case r of None \<Rightarrow> Inl e | Some x \<Rightarrow> g x) = Inr y \<longleftrightarrow> (\<exists>x. r = Some x \<and> g x = Inr y)"
  by (cases r) auto

lemma if_Inl_Inr [simp]:
  "(if b then Inl e else r) = Inr y \<longleftrightarrow> \<not> b \<and> r = Inr y"
  by auto

subsection \<open>Lists\<close>

lemma mset_rotate [simp]: "mset (rotate n xs) = mset xs"
proof -
  have "mset (rotate n xs) = mset (drop (n mod length xs) xs) + mset (take (n mod length xs) xs)"
    by (simp add: rotate_drop_take)
  also have "\<dots> = mset (take (n mod length xs) xs @ drop (n mod length xs) xs)"
    by (simp only: mset_append add.commute)
  finally show ?thesis by simp
qed

lemma rotate_Suc_Cons: "rotate (Suc k) (x # xs) = rotate k (xs @ [x])"
  by (simp add: rotate1_rotate_swap)

lemma mod_shift_inj:
  assumes "i < n" and "j < (n :: nat)"
  shows "((a + i) mod n = (a + j) mod n) = (i = j)"
proof -
  have *: "i = j" if "(a + i) mod n = (a + j) mod n" "i \<le> j" "j < n" for i j
  proof -
    from that have "n dvd (a + j) - (a + i)"
      by (subst mod_eq_dvd_iff_nat [symmetric]) auto
    then show ?thesis
      using that by (auto dest: dvd_imp_le)
  qed
  show ?thesis
    using *[of i j] *[of j i] assms by (metis nat_le_linear)
qed

lemma rotate_list_update:
  assumes "i < length xs"
  shows "rotate n (xs[(n + i) mod length xs := v]) = (rotate n xs)[i := v]"
proof (rule nth_equalityI)
  show "length (rotate n (xs[(n + i) mod length xs := v])) = length ((rotate n xs)[i := v])"
    by simp
next
  fix j
  assume "j < length (rotate n (xs[(n + i) mod length xs := v]))"
  then have j: "j < length xs" by simp
  have inj: "((n + i) mod length xs = (n + j) mod length xs) = (i = j)"
    using assms j by (rule mod_shift_inj)
  have "0 < length xs" using assms by linarith
  then have "(n + i) mod length xs < length xs" by (rule mod_less_divisor)
  then show "rotate n (xs[(n + i) mod length xs := v]) ! j = (rotate n xs)[i := v] ! j"
    using j inj by (simp add: nth_rotate nth_list_update)
qed

subsection \<open>Checking that a list of indices is a permutation\<close>

text \<open>
  The loop two constructors use: walk over the indices with a vector of flags, and stop at
  an index out of range or already seen.
\<close>

fun seen_check :: "usize \<Rightarrow> bool list \<Rightarrow> usize list \<Rightarrow> bool" where
  "seen_check limit seen [] \<longleftrightarrow> True"
| "seen_check limit seen (index # rest) \<longleftrightarrow>
     (if index \<ge> limit \<or> seen ! unat index then False
      else seen_check limit (seen[unat index := True]) rest)"

lemma seen_check_iff:
  assumes "length seen = unat limit"
  shows "seen_check limit seen order \<longleftrightarrow>
    distinct order \<and> (\<forall>i \<in> set order. i < limit \<and> \<not> seen ! unat i)"
  using assms
proof (induction order arbitrary: seen)
  case Nil
  then show ?case by simp
next
  case (Cons i order)
  have "seen_check limit seen (i # order) \<longleftrightarrow>
      i < limit \<and> \<not> seen ! unat i \<and> distinct order \<and>
      (\<forall>j \<in> set order. j < limit \<and> \<not> seen[unat i := True] ! unat j)"
    using Cons by (auto simp: not_le)
  also have "\<dots> \<longleftrightarrow> i < limit \<and> \<not> seen ! unat i \<and> distinct order \<and>
      (\<forall>j \<in> set order. j < limit \<and> j \<noteq> i \<and> \<not> seen ! unat j)"
    using Cons.prems
    by (auto simp: nth_list_update word_less_nat_alt word_eq_unat split: if_splits)
  finally show ?case by auto
qed

lemma seen_check_permutation:
  "seen_check limit (replicate (unat limit) False) order \<longleftrightarrow>
     distinct order \<and> (\<forall>i \<in> set order. i < limit)"
  using seen_check_iff [of "replicate (unat limit) False" limit order]
  by (auto simp: word_less_nat_alt)

subsection \<open>Loops that stop at the first error\<close>

fun map_result :: "('a \<Rightarrow> 'e + 'b) \<Rightarrow> 'a list \<Rightarrow> 'e + 'b list" where
  "map_result f [] = Inr []"
| "map_result f (x # xs) =
     (case f x of Inl e \<Rightarrow> Inl e | Inr y \<Rightarrow>
     (case map_result f xs of Inl e \<Rightarrow> Inl e | Inr ys \<Rightarrow> Inr (y # ys)))"

lemma map_result_Inr: "map_result f xs = Inr ys \<longleftrightarrow> list_all2 (\<lambda>x y. f x = Inr y) xs ys"
  by (induction xs arbitrary: ys) (auto simp: list_all2_Cons1)

end
