(* ===== verification/Cyclic_Buffer.thy ===== *)
theory Cyclic_Buffer
  imports Prelude
begin

text \<open>
  Reasoning about a fixed array of pointer cells used as a ring: a consumer position, a
  producer position, and null cells for the free places. The bounded ring queue and the
  recycler of the linked queue are both of this shape, so the step lemmas are proved once
  here, over natural-number positions, and used by both.
\<close>

subsection \<open>The representation relation\<close>

text \<open>
  \<open>cyc_repr slots c p xs\<close>: reading the cells from position \<open>c\<close> around the ring gives the
  non-null entries \<open>xs\<close> and then only null cells, and \<open>p\<close> is the position after them.
\<close>

definition cyc_repr :: "'a::zero list \<Rightarrow> nat \<Rightarrow> nat \<Rightarrow> 'a list \<Rightarrow> bool" where
  "cyc_repr slots c p xs \<longleftrightarrow>
     c < length slots \<and> 0 \<notin> set xs \<and>
     rotate c slots = xs @ replicate (length slots - length xs) 0 \<and>
     p = (c + length xs) mod length slots"

text \<open>The entries, computed from the cells and the consumer position.\<close>

definition cyc_list :: "'a::zero list \<Rightarrow> nat \<Rightarrow> 'a list" where
  "cyc_list slots c = takeWhile (\<lambda>x. x \<noteq> 0) (rotate c slots)"

named_theorems cyc \<open>facts about the ring representation\<close>

lemma cyc_list_eq [cyc]: "cyc_repr slots c p xs \<Longrightarrow> cyc_list slots c = xs"
  by (auto simp: cyc_repr_def cyc_list_def takeWhile_append takeWhile_replicate)

lemma cyc_repr_unique: "cyc_repr slots c p xs \<Longrightarrow> cyc_repr slots c p' ys \<Longrightarrow> xs = ys \<and> p = p'"
  by (metis cyc_list_eq cyc_repr_def)

lemma cyc_repr_length [cyc]: "cyc_repr slots c p xs \<Longrightarrow> length xs \<le> length slots"
  by (metis cyc_repr_def length_append length_rotate le_add1)

lemma cyc_repr_bounds [cyc]:
  assumes "cyc_repr slots c p xs"
  shows "c < length slots" and "p < length slots"
proof -
  from assms show c: "c < length slots" by (simp add: cyc_repr_def)
  then have "0 < length slots" by linarith
  with assms show "p < length slots" by (auto simp: cyc_repr_def)
qed

lemma cyc_repr_init [cyc]:
  "0 < n \<Longrightarrow> cyc_repr (replicate n 0) 0 0 []"
  by (simp add: cyc_repr_def)

lemma cyc_repr_full_init [cyc]:
  "xs \<noteq> [] \<Longrightarrow> 0 \<notin> set xs \<Longrightarrow> cyc_repr xs 0 0 xs"
  by (simp add: cyc_repr_def)

subsection \<open>Reading a cell\<close>

lemma cyc_nth:
  assumes "cyc_repr slots c p xs" and "i < length slots"
  shows "slots ! ((c + i) mod length slots) = (if i < length xs then xs ! i else 0)"
proof -
  have "slots ! ((c + i) mod length slots) = rotate c slots ! i"
    using assms(2) by (simp add: nth_rotate)
  also have "\<dots> = (if i < length xs then xs ! i else 0)"
    using assms cyc_repr_length [OF assms(1)]
    by (auto simp: cyc_repr_def nth_append)
  finally show ?thesis .
qed

lemma cyc_read_consumer [cyc]:
  assumes "cyc_repr slots c p xs"
  shows "slots ! c = (if xs = [] then 0 else hd xs)"
proof -
  have c: "c < length slots" using assms by (rule cyc_repr_bounds)
  then have "slots \<noteq> []" by auto
  with c show ?thesis
    using cyc_nth [OF assms, of 0] by (cases xs) auto
qed

lemma cyc_read_producer [cyc]:
  assumes "cyc_repr slots c p xs"
  shows "(slots ! p = 0) = (length xs < length slots)"
proof (cases "length xs < length slots")
  case True
  then show ?thesis
    using assms cyc_nth [OF assms, of "length xs"] by (simp add: cyc_repr_def)
next
  case False
  then have "length xs = length slots"
    using cyc_repr_length [OF assms] by simp
  moreover have c: "c < length slots" using assms by (rule cyc_repr_bounds)
  ultimately have "p = c" and "xs \<noteq> []"
    using assms by (auto simp: cyc_repr_def)
  moreover have "hd xs \<noteq> 0"
    using \<open>xs \<noteq> []\<close> assms by (metis cyc_repr_def hd_in_set)
  ultimately show ?thesis
    using False cyc_read_consumer [OF assms] by simp
qed

subsection \<open>Writing a cell\<close>

lemma cyc_push [cyc]:
  assumes "cyc_repr slots c p xs" and "length xs < length slots" and "e \<noteq> 0"
  shows "cyc_repr (slots[p := e]) c (Suc p mod length slots) (xs @ [e])"
proof -
  have "rotate c (slots[p := e]) = (rotate c slots)[length xs := e]"
    using assms(1,2) rotate_list_update [of "length xs" slots c e]
    by (simp add: cyc_repr_def)
  also have "\<dots> = xs @ (replicate (length slots - length xs) 0)[0 := e]"
    using assms(1) by (simp add: cyc_repr_def list_update_append)
  also have "\<dots> = (xs @ [e]) @ replicate (length slots - Suc (length xs)) 0"
    using assms(2) by (cases "length slots - length xs") (auto simp: Suc_diff_Suc)
  finally show ?thesis
    using assms by (auto simp: cyc_repr_def mod_Suc_eq)
qed

lemma cyc_pop [cyc]:
  assumes "cyc_repr slots c p (x # xs)"
  shows "cyc_repr (slots[c := 0]) (Suc c mod length slots) p xs"
proof -
  have c: "c < length slots" using assms by (rule cyc_repr_bounds)
  have "rotate c (slots[c := 0]) = (rotate c slots)[0 := 0]"
    using rotate_list_update [of 0 slots c 0] c by (cases slots) auto
  also have "\<dots> = 0 # xs @ replicate (length slots - Suc (length xs)) 0"
    using assms by (simp add: cyc_repr_def)
  finally have r: "rotate c (slots[c := 0]) = 0 # xs @ replicate (length slots - Suc (length xs)) 0" .
  have "rotate (Suc c mod length slots) (slots[c := 0]) = rotate (Suc c) (slots[c := 0])"
    using rotate_conv_mod [of "Suc c" "slots[c := 0]"] by simp
  also have "\<dots> = xs @ replicate (length slots - Suc (length xs)) 0 @ [0]"
    using r by (simp flip: rotate1_rotate_swap)
  also have "\<dots> = xs @ replicate (length slots - length xs) 0"
    using cyc_repr_length [OF assms] by (simp add: replicate_append_same flip: replicate_Suc)
  finally have "rotate (Suc c mod length slots) (slots[c := 0]) =
    xs @ replicate (length slots - length xs) 0" .
  moreover have "Suc c mod length slots < length slots"
    using c by (intro mod_less_divisor) linarith
  ultimately show ?thesis
    using assms by (auto simp: cyc_repr_def mod_simps)
qed

end
