(* ===== verification/Queue_Common.thy ===== *)
theory Queue_Common
  imports Prelude
begin

text \<open>
  The declarations both queues share: \<^verbatim>\<open>include/cpu_prefetch/queue/common.hpp\<close> and
  \<^verbatim>\<open>src/queue/common.cpp\<close>. Exceptions are values: a constructor returns \<open>Inl\<close> of the
  exception it throws. \<^verbatim>\<open>operator new\<close> belongs to the C++ runtime, so the address it returns
  (or \<open>None\<close> for \<^verbatim>\<open>std::bad_alloc\<close>) is an argument of the definitions that allocate.
\<close>

subsection \<open>Event pointers and results\<close>

datatype EventPointer = EventPointer (get_ptr: addr)

definition EventPointer_from :: "addr \<Rightarrow> EventPointer option" where
  "EventPointer_from value = (if value = nullptr then None else Some (EventPointer value))"

datatype EnqueueResult = Enq_accepted | Enq_full

datatype DequeueStatus = Deq_item | Deq_empty | Deq_recycler_invariant_failure

record DequeueResult =
  dr_status :: DequeueStatus
  dr_event :: addr

datatype BoundaryCaptureStatus = Boundary_complete | Boundary_capture_failed

record BoundaryEnqueueResult =
  be_status :: BoundaryCaptureStatus
  be_result :: EnqueueResult

record BoundaryDequeueResult =
  bd_status :: BoundaryCaptureStatus
  bd_result :: DequeueResult

record AtomicLockFreeEvidence =
  abi_pointer_width_bytes :: usize
  atomic_pointer_width_bytes :: usize
  atomic_pointer_alignment_bytes :: usize
  always_lock_free :: bool
  runtime_lock_free :: bool

record LayoutEvidence =
  requested_cache_line_bytes :: usize
  mutable_line_count :: usize
  storage_bytes :: usize
  bases_aligned :: bool
  ownership_lines_separated :: bool

datatype setup_error = QueueSetupError string | bad_alloc

text \<open>\<^verbatim>\<open>sizeof(const void*)\<close> and \<^verbatim>\<open>alignof(std::max_align_t)\<close> of the x86-64 ABI.\<close>

definition sizeof_pointer :: usize where
  "sizeof_pointer = 8"

definition alignof_max_align_t :: usize where
  "alignof_max_align_t = 16"

subsection \<open>Checked sizes and alignment\<close>

definition is_power_of_two :: "usize \<Rightarrow> bool" where
  "is_power_of_two value \<longleftrightarrow> value \<noteq> 0 \<and> value AND (value - 1) = 0"

definition validate_cache_line_bytes :: "usize \<Rightarrow> setup_error + unit" where
  "validate_cache_line_bytes cache_line_bytes =
     (if \<not> is_power_of_two cache_line_bytes \<or> cache_line_bytes < alignof_max_align_t
      then Inl (QueueSetupError
        ''cache-line bytes must be a power of two and satisfy max alignment'')
      else Inr ())"

definition queue_checked_add :: "usize \<Rightarrow> usize \<Rightarrow> setup_error + usize" where
  "queue_checked_add left right =
     (if right > u64_max - left
      then Inl (QueueSetupError ''queue storage size overflows size_t'')
      else Inr (left + right))"

definition queue_checked_multiply :: "usize \<Rightarrow> usize \<Rightarrow> setup_error + usize" where
  "queue_checked_multiply left right =
     (if left \<noteq> 0 \<and> right > u64_max div left
      then Inl (QueueSetupError ''queue storage size overflows size_t'')
      else Inr (left * right))"

definition round_up :: "usize \<Rightarrow> usize \<Rightarrow> setup_error + usize" where
  "round_up value alignment =
     (let remainder = value mod alignment in
      if remainder = 0 then Inr value
      else queue_checked_add value (alignment - remainder))"

definition is_aligned :: "addr \<Rightarrow> usize \<Rightarrow> bool" where
  "is_aligned pointer alignment \<longleftrightarrow> pointer mod alignment = 0"

subsection \<open>Owned aligned storage\<close>

text \<open>
  \<^verbatim>\<open>AlignedBlock\<close>: a moved-from block is empty, and releasing an empty block frees nothing.
  The operations that may free return the list of \<^verbatim>\<open>operator delete\<close> calls they make.
\<close>

record AlignedBlock =
  block_data :: addr
  block_size :: usize
  block_alignment :: usize

definition AlignedBlock_empty :: AlignedBlock where
  "AlignedBlock_empty = \<lparr>block_data = nullptr, block_size = 0, block_alignment = 0\<rparr>"

definition AlignedBlock_create :: "addr option \<Rightarrow> usize \<Rightarrow> usize \<Rightarrow> setup_error + AlignedBlock" where
  "AlignedBlock_create allocated bytes alignment =
     (case allocated of
        None \<Rightarrow> Inl bad_alloc
      | Some base \<Rightarrow> Inr \<lparr>block_data = base, block_size = bytes, block_alignment = alignment\<rparr>)"

definition AlignedBlock_release :: "AlignedBlock \<Rightarrow> (addr \<times> usize) list \<times> AlignedBlock" where
  "AlignedBlock_release b =
     ((if block_data b \<noteq> nullptr then [(block_data b, block_alignment b)] else []), AlignedBlock_empty)"

text \<open>The move constructor: the new block and the emptied source.\<close>

definition AlignedBlock_move :: "AlignedBlock \<Rightarrow> AlignedBlock \<times> AlignedBlock" where
  "AlignedBlock_move other = (other, AlignedBlock_empty)"

text \<open>
  Move assignment to another object: the target's block is released first. Self-assignment
  (\<open>same\<close>) leaves the block alone. The result is the deletions, the target and the source.
\<close>

definition AlignedBlock_move_assign ::
  "bool \<Rightarrow> AlignedBlock \<Rightarrow> AlignedBlock \<Rightarrow> (addr \<times> usize) list \<times> AlignedBlock \<times> AlignedBlock" where
  "AlignedBlock_move_assign same target other =
     (if same then ([], target, target)
      else (fst (AlignedBlock_release target), other, AlignedBlock_empty))"

subsection \<open>Facts about the checked operations\<close>

lemma EventPointer_from_nonnull [simp]:
  "EventPointer_from p = Some e \<longleftrightarrow> p \<noteq> nullptr \<and> e = EventPointer p"
  by (auto simp: EventPointer_from_def)

lemma is_power_of_two_iff: "is_power_of_two v \<longleftrightarrow> (\<exists>k < 64. v = 2 ^ k)"
  unfolding is_power_of_two_def by (rule power_two_iff)

lemma queue_checked_add_Inr [simp]:
  "queue_checked_add l r = Inr s \<longleftrightarrow> unat l + unat r < 2 ^ 64 \<and> s = l + r"
  by (auto simp: queue_checked_add_def overflow_guard)

lemma queue_checked_multiply_Inr [simp]:
  "queue_checked_multiply l r = Inr s \<longleftrightarrow> unat l * unat r < 2 ^ 64 \<and> s = l * r"
  by (auto simp: queue_checked_multiply_def overflow_guard)

lemma validate_cache_line_bytes_Inr [simp]:
  "validate_cache_line_bytes c = Inr u \<longleftrightarrow> is_power_of_two c \<and> 16 \<le> c"
  by (auto simp: validate_cache_line_bytes_def alignof_max_align_t_def)

lemma is_aligned_nat: "is_aligned p a \<longleftrightarrow> unat a dvd unat p"
  by (simp add: is_aligned_def word_eq_unat unat_mod dvd_eq_mod_eq_0)

text \<open>
  \<^verbatim>\<open>round_up\<close> returns the least multiple of the alignment that is not below the value.
\<close>

lemma round_up_Inr:
  assumes "a \<noteq> 0"
  shows "round_up v a = Inr r \<longleftrightarrow>
    round_up_nat (unat v) (unat a) < 2 ^ 64 \<and> unat r = round_up_nat (unat v) (unat a)"
proof -
  have pos: "0 < unat a" using assms by (simp add: word_eq_unat)
  then have le: "v mod a \<le> a" by (simp add: word_le_nat_alt unat_mod)
  have z: "v mod a = 0 \<longleftrightarrow> unat v mod unat a = 0"
    by (simp add: word_eq_unat unat_mod)
  show ?thesis
  proof (cases "v mod a = 0")
    case True
    with z show ?thesis
      by (auto simp: round_up_def round_up_nat_def word_eq_unat unat_u64_lt_num)
  next
    case False
    have "unat (a - v mod a) = unat a - unat v mod unat a"
      using le by (simp add: unat_minus_u64 unat_mod)
    with False z show ?thesis
      by (auto simp: round_up_def Let_def round_up_nat_def word_eq_unat unat_word_ariths)
  qed
qed

lemma round_up_least:
  assumes "round_up v a = Inr r" and "a \<noteq> 0"
  shows "unat a dvd unat r" and "v \<le> r" and "unat r < unat v + unat a"
    and "unat a dvd m \<Longrightarrow> unat v \<le> m \<Longrightarrow> unat r \<le> m"
proof -
  have pos: "0 < unat a" using assms(2) by (simp add: word_eq_unat)
  have r: "unat r = round_up_nat (unat v) (unat a)"
    using assms by (simp add: round_up_Inr)
  show "unat a dvd unat r" and "v \<le> r" and "unat r < unat v + unat a"
    using round_up_nat_dvd [OF pos] round_up_nat_ge [OF pos] round_up_nat_lt [OF pos]
    by (simp_all add: r word_le_nat_alt)
  show "unat a dvd m \<Longrightarrow> unat v \<le> m \<Longrightarrow> unat r \<le> m"
    using round_up_nat_le [OF pos] by (simp add: r)
qed

end
