(* ===== verification/Bounded_Fifo.thy ===== *)
theory Bounded_Fifo
  imports Queue_Common
begin

text \<open>
  What a queue promises its clients: the bounded FIFO of event pointers that
  \<^verbatim>\<open>docs/QUEUE_CORRECTNESS.md\<close> takes as the abstract state, as functions on lists, and two
  interfaces over it. \<open>bounded_fifo\<close> is the contract of \<^verbatim>\<open>try_enqueue\<close>/\<^verbatim>\<open>try_dequeue\<close>;
  \<open>observed_fifo\<close> is the contract of the calls with a boundary observer, which may veto the
  operation. Both are interpreted on the ring and on the linked queue.
\<close>

subsection \<open>The abstract queue\<close>

definition fifo_enqueue :: "nat \<Rightarrow> addr list \<Rightarrow> addr \<Rightarrow> EnqueueResult \<times> addr list" where
  "fifo_enqueue n xs e = (if length xs < n then (Enq_accepted, xs @ [e]) else (Enq_full, xs))"

definition fifo_dequeue :: "addr list \<Rightarrow> DequeueResult \<times> addr list" where
  "fifo_dequeue xs =
     (case xs of
        [] \<Rightarrow> (\<lparr>dr_status = Deq_empty, dr_event = nullptr\<rparr>, [])
      | x # ys \<Rightarrow> (\<lparr>dr_status = Deq_item, dr_event = x\<rparr>, ys))"

datatype queue_op = Try_enqueue EventPointer | Try_dequeue

datatype queue_out = Enqueue_out EnqueueResult | Dequeue_out DequeueResult

fun op_ok :: "queue_op \<Rightarrow> bool" where
  "op_ok (Try_enqueue e) \<longleftrightarrow> get_ptr e \<noteq> nullptr"
| "op_ok Try_dequeue \<longleftrightarrow> True"

text \<open>A history of operations on any queue, with the result of each.\<close>

fun run_ops :: "('q \<Rightarrow> EventPointer \<Rightarrow> EnqueueResult \<times> 'q) \<Rightarrow> ('q \<Rightarrow> DequeueResult \<times> 'q) \<Rightarrow>
    'q \<Rightarrow> queue_op list \<Rightarrow> queue_out list \<times> 'q" where
  "run_ops enq deq q [] = ([], q)"
| "run_ops enq deq q (Try_enqueue e # ops) =
     (let (r, q1) = enq q e; (outs, q2) = run_ops enq deq q1 ops in (Enqueue_out r # outs, q2))"
| "run_ops enq deq q (Try_dequeue # ops) =
     (let (r, q1) = deq q; (outs, q2) = run_ops enq deq q1 ops in (Dequeue_out r # outs, q2))"

abbreviation fifo_run :: "nat \<Rightarrow> addr list \<Rightarrow> queue_op list \<Rightarrow> queue_out list \<times> addr list" where
  "fifo_run n \<equiv> run_ops (\<lambda>xs e. fifo_enqueue n xs (get_ptr e)) fifo_dequeue"

text \<open>The events a history put in and the events it took out.\<close>

fun accepted_events :: "queue_op list \<Rightarrow> queue_out list \<Rightarrow> addr list" where
  "accepted_events (Try_enqueue e # ops) (Enqueue_out Enq_accepted # outs) =
     get_ptr e # accepted_events ops outs"
| "accepted_events (_ # ops) (_ # outs) = accepted_events ops outs"
| "accepted_events _ _ = []"

fun dequeued_events :: "queue_out list \<Rightarrow> addr list" where
  "dequeued_events [] = []"
| "dequeued_events (Dequeue_out r # outs) =
     (if dr_status r = Deq_item then [dr_event r] else []) @ dequeued_events outs"
| "dequeued_events (Enqueue_out r # outs) = dequeued_events outs"

lemma fifo_run_conserves:
  "fifo_run n xs ops = (outs, ys) \<Longrightarrow>
     xs @ accepted_events ops outs = dequeued_events outs @ ys"
proof (induction ops arbitrary: xs outs ys)
  case Nil
  then show ?case by simp
next
  case (Cons p ops)
  then show ?case
  proof (cases p)
    case (Try_enqueue e)
    obtain r xs1 outs1 where 1: "fifo_enqueue n xs (get_ptr e) = (r, xs1)"
      and 2: "fifo_run n xs1 ops = (outs1, ys)" and 3: "outs = Enqueue_out r # outs1"
      using Cons.prems Try_enqueue by (auto split: prod.splits)
    show ?thesis
      using Cons.IH [OF 2] 1 3 Try_enqueue
      by (cases r) (auto simp: fifo_enqueue_def split: if_splits)
  next
    case Try_dequeue
    obtain r xs1 outs1 where 1: "fifo_dequeue xs = (r, xs1)"
      and 2: "fifo_run n xs1 ops = (outs1, ys)" and 3: "outs = Dequeue_out r # outs1"
      using Cons.prems Try_dequeue by (auto split: prod.splits)
    show ?thesis
      using Cons.IH [OF 2] 1 3 Try_dequeue
      by (auto simp: fifo_dequeue_def split: list.splits)
  qed
qed

subsection \<open>The interface of the plain operations\<close>

locale bounded_fifo =
  fixes invar :: "'q \<Rightarrow> bool"
    and contents :: "'q \<Rightarrow> addr list"
    and bound :: "'q \<Rightarrow> nat"
    and enqueue :: "'q \<Rightarrow> EventPointer \<Rightarrow> EnqueueResult \<times> 'q"
    and dequeue :: "'q \<Rightarrow> DequeueResult \<times> 'q"
  assumes enqueue_refines: "invar q \<Longrightarrow> get_ptr e \<noteq> nullptr \<Longrightarrow> enqueue q e = (r, q') \<Longrightarrow>
      invar q' \<and> bound q' = bound q \<and>
      fifo_enqueue (bound q) (contents q) (get_ptr e) = (r, contents q')"
    and dequeue_refines: "invar q \<Longrightarrow> dequeue q = (d, q') \<Longrightarrow>
      invar q' \<and> bound q' = bound q \<and> fifo_dequeue (contents q) = (d, contents q')"
    and contents_bounded: "invar q \<Longrightarrow> length (contents q) \<le> bound q"
begin

lemma run_refines:
  assumes "invar q" and "list_all op_ok ops" and "run_ops enqueue dequeue q ops = (outs, q')"
  shows "invar q' \<and> bound q' = bound q \<and> fifo_run (bound q) (contents q) ops = (outs, contents q')"
  using assms
proof (induction ops arbitrary: q outs)
  case Nil
  then show ?case by simp
next
  case (Cons p ops)
  show ?case
  proof (cases p)
    case (Try_enqueue e)
    obtain r q1 outs1 where 1: "enqueue q e = (r, q1)"
      and 2: "run_ops enqueue dequeue q1 ops = (outs1, q')" and 3: "outs = Enqueue_out r # outs1"
      using Cons.prems(3) Try_enqueue by (auto split: prod.splits)
    note step = enqueue_refines [OF Cons.prems(1) _ 1]
    show ?thesis
      using step Cons.IH [OF _ _ 2] Cons.prems(2) 3 Try_enqueue by auto
  next
    case Try_dequeue
    obtain r q1 outs1 where 1: "dequeue q = (r, q1)"
      and 2: "run_ops enqueue dequeue q1 ops = (outs1, q')" and 3: "outs = Dequeue_out r # outs1"
      using Cons.prems(3) Try_dequeue by (auto split: prod.splits)
    note step = dequeue_refines [OF Cons.prems(1) 1]
    show ?thesis
      using step Cons.IH [OF _ _ 2] Cons.prems(2) 3 Try_dequeue by auto
  qed
qed

lemma run_fifo_order:
  assumes "invar q" and "list_all op_ok ops" and "run_ops enqueue dequeue q ops = (outs, q')"
  shows "contents q @ accepted_events ops outs = dequeued_events outs @ contents q'"
  using run_refines [OF assms] fifo_run_conserves by blast

lemma no_invariant_failure:
  assumes "invar q" and "dequeue q = (d, q')"
  shows "dr_status d \<noteq> Deq_recycler_invariant_failure"
  using dequeue_refines [OF assms] by (auto simp: fifo_dequeue_def split: list.splits)

end

subsection \<open>The interface of the observed operations\<close>

text \<open>
  The observer is a hook on a state of its own: it is called exactly once, at the boundary,
  when the operation can go ahead, and never otherwise. A hook that returns \<open>False\<close> stops
  the operation, and the queue then holds what it held before.
\<close>

locale observed_fifo =
  fixes invar :: "'q \<Rightarrow> bool"
    and contents :: "'q \<Rightarrow> addr list"
    and bound :: "'q \<Rightarrow> nat"
    and enqueue_ob :: "('s \<Rightarrow> bool \<times> 's) \<Rightarrow> 'q \<Rightarrow> EventPointer \<Rightarrow> 's \<Rightarrow>
      BoundaryEnqueueResult \<times> 'q \<times> 's"
    and dequeue_ob :: "('s \<Rightarrow> bool \<times> 's) \<Rightarrow> 'q \<Rightarrow> 's \<Rightarrow> BoundaryDequeueResult \<times> 'q \<times> 's"
  assumes enqueue_full: "invar q \<Longrightarrow> get_ptr e \<noteq> nullptr \<Longrightarrow> length (contents q) = bound q \<Longrightarrow>
      \<exists>q'. invar q' \<and> bound q' = bound q \<and> contents q' = contents q \<and>
        enqueue_ob hook q e s = (\<lparr>be_status = Boundary_complete, be_result = Enq_full\<rparr>, q', s)"
    and enqueue_room: "invar q \<Longrightarrow> get_ptr e \<noteq> nullptr \<Longrightarrow> length (contents q) < bound q \<Longrightarrow>
      hook s = (ok, s') \<Longrightarrow> \<exists>q'. invar q' \<and>
        (if ok
         then enqueue_ob hook q e s =
                (\<lparr>be_status = Boundary_complete, be_result = Enq_accepted\<rparr>, q', s') \<and>
              contents q' = contents q @ [get_ptr e] \<and> bound q' = bound q
         else enqueue_ob hook q e s =
                (\<lparr>be_status = Boundary_capture_failed, be_result = Enq_full\<rparr>, q', s') \<and>
              contents q' = contents q)"
    and dequeue_none: "invar q \<Longrightarrow> contents q = [] \<Longrightarrow>
      \<exists>q'. invar q' \<and> bound q' = bound q \<and> contents q' = [] \<and>
        dequeue_ob hook q s = (\<lparr>bd_status = Boundary_complete,
          bd_result = \<lparr>dr_status = Deq_empty, dr_event = nullptr\<rparr>\<rparr>, q', s)"
    and dequeue_some: "invar q \<Longrightarrow> contents q = x # xs \<Longrightarrow> hook s = (ok, s') \<Longrightarrow>
      \<exists>q'. invar q' \<and> bound q' = bound q \<and>
        (if ok
         then dequeue_ob hook q s = (\<lparr>bd_status = Boundary_complete,
                bd_result = \<lparr>dr_status = Deq_item, dr_event = x\<rparr>\<rparr>, q', s') \<and> contents q' = xs
         else dequeue_ob hook q s = (\<lparr>bd_status = Boundary_capture_failed,
                bd_result = \<lparr>dr_status = Deq_empty, dr_event = nullptr\<rparr>\<rparr>, q', s') \<and>
              contents q' = x # xs)"
    and room: "invar q \<Longrightarrow> length (contents q) \<le> bound q"
    and contents_nonnull: "invar q \<Longrightarrow> x \<in> set (contents q) \<Longrightarrow> x \<noteq> nullptr"
begin

text \<open>An accepted event is appended; every other outcome leaves the contents alone.\<close>

lemma enqueue_ob_contents:
  assumes "invar q" and "get_ptr e \<noteq> nullptr" and "enqueue_ob hook q e s = (r, q', s')"
  shows "invar q' \<and> contents q' =
    (if be_status r = Boundary_complete \<and> be_result r = Enq_accepted
     then contents q @ [get_ptr e] else contents q)"
proof (cases "length (contents q) < bound q")
  case True
  obtain ok s1 where "hook s = (ok, s1)" by fastforce
  from enqueue_room [where hook = hook and s = s, OF assms(1,2) True this] assms(3)
  show ?thesis by (auto split: if_splits)
next
  case False
  with room [OF assms(1)] have "length (contents q) = bound q" by simp
  from enqueue_full [OF assms(1,2) this, of hook s] assms(1,3) show ?thesis by auto
qed

lemma dequeue_ob_contents:
  assumes "invar q" and "dequeue_ob hook q s = (r, q', s')"
  shows "invar q' \<and> contents q =
    (if dr_status (bd_result r) = Deq_item then dr_event (bd_result r) # contents q'
     else contents q')"
proof (cases "contents q")
  case Nil
  from dequeue_none [OF assms(1) Nil, of hook s] assms Nil show ?thesis by auto
next
  case (Cons x xs)
  obtain ok s1 where "hook s = (ok, s1)" by fastforce
  from dequeue_some [where hook = hook and s = s, OF assms(1) Cons this] assms(2) Cons
  show ?thesis by (auto split: if_splits)
qed

lemma dequeue_ob_capture_failed:
  assumes "invar q" and "dequeue_ob hook q s = (r, q', s')"
    and "bd_status r = Boundary_capture_failed"
  shows "\<not> fst (hook s) \<and> s' = snd (hook s)"
proof (cases "contents q")
  case Nil
  from dequeue_none [OF assms(1) Nil, of hook s] assms show ?thesis by auto
next
  case (Cons x xs)
  obtain ok s1 where h: "hook s = (ok, s1)" by fastforce
  from dequeue_some [where hook = hook and s = s, OF assms(1) Cons h] assms(2,3) h
  show ?thesis by (auto split: if_splits)
qed

text \<open>The hook runs exactly when an event passes: what it did is in the final state.\<close>

lemma enqueue_ob_cases:
  assumes "invar q" and "get_ptr e \<noteq> nullptr" and "enqueue_ob hook q e s = (r, q', s')"
  obtains (full) "r = \<lparr>be_status = Boundary_complete, be_result = Enq_full\<rparr>" "s' = s"
      "length (contents q) = bound q" "invar q'" "contents q' = contents q"
    | (accepted) "r = \<lparr>be_status = Boundary_complete, be_result = Enq_accepted\<rparr>"
      "hook s = (True, s')" "length (contents q) < bound q" "invar q'"
      "contents q' = contents q @ [get_ptr e]"
    | (vetoed) "r = \<lparr>be_status = Boundary_capture_failed, be_result = Enq_full\<rparr>"
      "hook s = (False, s')" "invar q'" "contents q' = contents q"
proof (cases "length (contents q) < bound q")
  case True
  obtain ok s1 where h: "hook s = (ok, s1)" by fastforce
  from enqueue_room [where hook = hook and s = s, OF assms(1,2) True h] assms(3) h True
  show ?thesis by (cases ok) (auto intro: accepted vetoed)
next
  case False
  with room [OF assms(1)] have l: "length (contents q) = bound q" by simp
  from enqueue_full [OF assms(1,2) l, of hook s] assms(3) l show ?thesis by (auto intro: full)
qed

lemma dequeue_ob_cases:
  assumes "invar q" and "dequeue_ob hook q s = (r, q', s')"
  obtains (none) "r = \<lparr>bd_status = Boundary_complete,
        bd_result = \<lparr>dr_status = Deq_empty, dr_event = nullptr\<rparr>\<rparr>" "s' = s"
      "contents q = []" "contents q' = []" "invar q'"
    | (item) x where "r = \<lparr>bd_status = Boundary_complete,
        bd_result = \<lparr>dr_status = Deq_item, dr_event = x\<rparr>\<rparr>" "hook s = (True, s')"
      "contents q = x # contents q'" "invar q'"
    | (vetoed) "r = \<lparr>bd_status = Boundary_capture_failed,
        bd_result = \<lparr>dr_status = Deq_empty, dr_event = nullptr\<rparr>\<rparr>" "hook s = (False, s')"
      "contents q' = contents q" "invar q'"
proof (cases "contents q")
  case Nil
  from dequeue_none [OF assms(1) Nil, of hook s] assms(2) Nil show ?thesis by (auto intro: none)
next
  case (Cons x xs)
  obtain ok s1 where h: "hook s = (ok, s1)" by fastforce
  from dequeue_some [where hook = hook and s = s, OF assms(1) Cons h] assms(2) h Cons
  show ?thesis by (cases ok) (auto intro: item vetoed)
qed

end

end
