(* ===== verification/Ring_Spsc.thy ===== *)
theory Ring_Spsc
  imports Cyclic_Buffer Bounded_Fifo
begin

text \<open>
  The bounded ring queue: \<^verbatim>\<open>include/cpu_prefetch/queue/ring_spsc.hpp\<close> and
  \<^verbatim>\<open>src/queue/ring_spsc.cpp\<close>. Each operation is run to completion here; the interleaving of
  one producer and one consumer at the granularity of the atomic accesses is in the theory
  \<open>Ring_Interleaving\<close>. The template observers are hooks on a state of their own.
\<close>

subsection \<open>State and construction\<close>

record RingSpscQueue =
  rq_capacity :: usize
  rq_cache_line_bytes :: usize
  rq_slot_storage :: AlignedBlock
  rq_cursor_storage :: AlignedBlock
  rq_slots :: "addr list"
  rq_producer_position :: usize
  rq_consumer_position :: usize

record RingQuiescentAudit =
  ra_occupied_slots :: usize
  ra_producer_position :: usize
  ra_consumer_position :: usize
  ra_positions_in_range :: bool

text \<open>
  \<open>slot_base\<close> and \<open>cursor_base\<close> are what \<^verbatim>\<open>operator new\<close> returns for the two blocks.
\<close>

definition RingSpscQueue_create ::
  "addr option \<Rightarrow> addr option \<Rightarrow> usize \<Rightarrow> usize \<Rightarrow> setup_error + RingSpscQueue" where
  "RingSpscQueue_create slot_base cursor_base capacity cache_line_bytes =
     (case validate_cache_line_bytes cache_line_bytes of
        Inl e \<Rightarrow> Inl e
      | Inr _ \<Rightarrow>
        if capacity = 0 then Inl (QueueSetupError ''ring capacity must be nonzero'')
        else
          (case queue_checked_multiply capacity sizeof_pointer of
             Inl e \<Rightarrow> Inl e
           | Inr slot_bytes \<Rightarrow>
          (case AlignedBlock_create slot_base slot_bytes cache_line_bytes of
             Inl e \<Rightarrow> Inl e
           | Inr slot_storage \<Rightarrow>
          (case queue_checked_multiply 2 cache_line_bytes of
             Inl e \<Rightarrow> Inl e
           | Inr cursor_bytes \<Rightarrow>
          (case AlignedBlock_create cursor_base cursor_bytes cache_line_bytes of
             Inl e \<Rightarrow> Inl e
           | Inr cursor_storage \<Rightarrow>
             Inr \<lparr>rq_capacity = capacity, rq_cache_line_bytes = cache_line_bytes,
                  rq_slot_storage = slot_storage, rq_cursor_storage = cursor_storage,
                  rq_slots = replicate (unat capacity) nullptr,
                  rq_producer_position = 0, rq_consumer_position = 0\<rparr>)))))"

subsection \<open>Positions\<close>

definition ring_next_position :: "RingSpscQueue \<Rightarrow> usize \<Rightarrow> usize" where
  "ring_next_position q position =
     (let next = position + 1 in if next = rq_capacity q then 0 else next)"

definition position_at_distance :: "RingSpscQueue \<Rightarrow> usize \<Rightarrow> usize \<Rightarrow> usize" where
  "position_at_distance q position distance =
     (let reduced = distance mod rq_capacity q in
      if reduced = 0 then position
      else
        let until_wrap = rq_capacity q - position in
        if reduced < until_wrap then position + reduced else reduced - until_wrap)"

text \<open>The addresses of the slot array and of the two cursors.\<close>

definition slot_address :: "RingSpscQueue \<Rightarrow> usize \<Rightarrow> addr" where
  "slot_address q position = block_data (rq_slot_storage q) + position * sizeof_pointer"

definition producer_slot_target :: "RingSpscQueue \<Rightarrow> usize \<Rightarrow> addr" where
  "producer_slot_target q distance_slots =
     slot_address q (position_at_distance q (rq_producer_position q) distance_slots)"

definition consumer_slot_target :: "RingSpscQueue \<Rightarrow> usize \<Rightarrow> addr" where
  "consumer_slot_target q distance_slots =
     slot_address q (position_at_distance q (rq_consumer_position q) distance_slots)"

subsection \<open>The operations\<close>

record 's ring_enqueue_observer =
  reo_before_slot_acquire :: "'s \<Rightarrow> 's"
  reo_after_slot_acquire :: "'s \<Rightarrow> 's"
  before_slot_publication :: "'s \<Rightarrow> 's"
  before_enqueue_publication :: "'s \<Rightarrow> bool \<times> 's"

record 's ring_dequeue_observer =
  rdo_before_slot_acquire :: "'s \<Rightarrow> 's"
  rdo_after_slot_acquire :: "'s \<Rightarrow> 's"
  after_dequeue_observation :: "'s \<Rightarrow> bool \<times> 's"
  before_slot_reuse_release :: "'s \<Rightarrow> 's"

definition ring_try_enqueue_observed ::
  "'s ring_enqueue_observer \<Rightarrow> RingSpscQueue \<Rightarrow> EventPointer \<Rightarrow> 's \<Rightarrow>
     BoundaryEnqueueResult \<times> RingSpscQueue \<times> 's" where
  "ring_try_enqueue_observed ob q event s =
     (let position = rq_producer_position q;
          s1 = reo_before_slot_acquire ob s;
          observed = rq_slots q ! unat position;
          s2 = reo_after_slot_acquire ob s1
      in if observed \<noteq> nullptr
         then (\<lparr>be_status = Boundary_complete, be_result = Enq_full\<rparr>, q, s2)
         else
           let s3 = before_slot_publication ob s2;
               (ok, s4) = before_enqueue_publication ob s3
           in if \<not> ok
              then (\<lparr>be_status = Boundary_capture_failed, be_result = Enq_full\<rparr>, q, s4)
              else (\<lparr>be_status = Boundary_complete, be_result = Enq_accepted\<rparr>,
                    q\<lparr>rq_slots := (rq_slots q)[unat position := get_ptr event],
                      rq_producer_position := ring_next_position q position\<rparr>, s4))"

definition ring_try_dequeue_observed ::
  "'s ring_dequeue_observer \<Rightarrow> RingSpscQueue \<Rightarrow> 's \<Rightarrow>
     BoundaryDequeueResult \<times> RingSpscQueue \<times> 's" where
  "ring_try_dequeue_observed ob q s =
     (let position = rq_consumer_position q;
          s1 = rdo_before_slot_acquire ob s;
          event = rq_slots q ! unat position;
          s2 = rdo_after_slot_acquire ob s1
      in if event = nullptr
         then (\<lparr>bd_status = Boundary_complete,
                bd_result = \<lparr>dr_status = Deq_empty, dr_event = nullptr\<rparr>\<rparr>, q, s2)
         else
           let (ok, s3) = after_dequeue_observation ob s2
           in if \<not> ok
              then (\<lparr>bd_status = Boundary_capture_failed,
                     bd_result = \<lparr>dr_status = Deq_empty, dr_event = nullptr\<rparr>\<rparr>, q, s3)
              else
                let s4 = before_slot_reuse_release ob s3
                in (\<lparr>bd_status = Boundary_complete,
                     bd_result = \<lparr>dr_status = Deq_item, dr_event = event\<rparr>\<rparr>,
                    q\<lparr>rq_slots := (rq_slots q)[unat position := nullptr],
                      rq_consumer_position := ring_next_position q position\<rparr>, s4))"

definition ring_enqueue_boundary_observer ::
  "('s \<Rightarrow> bool \<times> 's) \<Rightarrow> 's ring_enqueue_observer" where
  "ring_enqueue_boundary_observer hook =
     \<lparr>reo_before_slot_acquire = id, reo_after_slot_acquire = id,
      before_slot_publication = id, before_enqueue_publication = hook\<rparr>"

definition ring_dequeue_boundary_observer ::
  "('s \<Rightarrow> bool \<times> 's) \<Rightarrow> 's ring_dequeue_observer" where
  "ring_dequeue_boundary_observer hook =
     \<lparr>rdo_before_slot_acquire = id, rdo_after_slot_acquire = id,
      after_dequeue_observation = hook, before_slot_reuse_release = id\<rparr>"

definition ring_try_enqueue_with_boundary_observer ::
  "('s \<Rightarrow> bool \<times> 's) \<Rightarrow> RingSpscQueue \<Rightarrow> EventPointer \<Rightarrow> 's \<Rightarrow>
     BoundaryEnqueueResult \<times> RingSpscQueue \<times> 's" where
  "ring_try_enqueue_with_boundary_observer hook =
     ring_try_enqueue_observed (ring_enqueue_boundary_observer hook)"

definition ring_try_dequeue_with_boundary_observer ::
  "('s \<Rightarrow> bool \<times> 's) \<Rightarrow> RingSpscQueue \<Rightarrow> 's \<Rightarrow> BoundaryDequeueResult \<times> RingSpscQueue \<times> 's" where
  "ring_try_dequeue_with_boundary_observer hook =
     ring_try_dequeue_observed (ring_dequeue_boundary_observer hook)"

definition ring_try_enqueue_with_slot_demand_observer ::
  "('s \<Rightarrow> 's) \<Rightarrow> ('s \<Rightarrow> 's) \<Rightarrow> RingSpscQueue \<Rightarrow> EventPointer \<Rightarrow> 's \<Rightarrow>
     EnqueueResult \<times> RingSpscQueue \<times> 's" where
  "ring_try_enqueue_with_slot_demand_observer before after q event s =
     (let (r, q', s') = ring_try_enqueue_observed
            ((ring_enqueue_boundary_observer (\<lambda>s. (True, s)))
               \<lparr>reo_before_slot_acquire := before, reo_after_slot_acquire := after\<rparr>) q event s
      in (be_result r, q', s'))"

definition ring_try_dequeue_with_slot_demand_observer ::
  "('s \<Rightarrow> 's) \<Rightarrow> ('s \<Rightarrow> 's) \<Rightarrow> RingSpscQueue \<Rightarrow> 's \<Rightarrow> DequeueResult \<times> RingSpscQueue \<times> 's" where
  "ring_try_dequeue_with_slot_demand_observer before after q s =
     (let (r, q', s') = ring_try_dequeue_observed
            ((ring_dequeue_boundary_observer (\<lambda>s. (True, s)))
               \<lparr>rdo_before_slot_acquire := before, rdo_after_slot_acquire := after\<rparr>) q s
      in (bd_result r, q', s'))"

definition ring_try_enqueue :: "RingSpscQueue \<Rightarrow> EventPointer \<Rightarrow> EnqueueResult \<times> RingSpscQueue" where
  "ring_try_enqueue q event =
     (let (r, q', _) = ring_try_enqueue_observed
            (ring_enqueue_boundary_observer (\<lambda>s. (True, s))) q event ()
      in (be_result r, q'))"

definition ring_try_dequeue :: "RingSpscQueue \<Rightarrow> DequeueResult \<times> RingSpscQueue" where
  "ring_try_dequeue q =
     (let (r, q', _) = ring_try_dequeue_observed
            (ring_dequeue_boundary_observer (\<lambda>s. (True, s))) q ()
      in (bd_result r, q'))"

subsection \<open>Evidence\<close>

definition ring_atomic_lock_free_evidence ::
  "(addr \<Rightarrow> bool) \<Rightarrow> RingSpscQueue \<Rightarrow> AtomicLockFreeEvidence" where
  \<comment> \<open>\<open>is_lock_free\<close> is the runtime's answer for the atomic at an address\<close>
  "ring_atomic_lock_free_evidence is_lock_free q =
     \<lparr>abi_pointer_width_bytes = sizeof_pointer, atomic_pointer_width_bytes = sizeof_pointer,
      atomic_pointer_alignment_bytes = sizeof_pointer, always_lock_free = True,
      runtime_lock_free = list_all (\<lambda>i. is_lock_free (slot_address q (of_nat i)))
        [0..<unat (rq_capacity q)]\<rparr>"

definition ring_layout_evidence :: "RingSpscQueue \<Rightarrow> LayoutEvidence" where
  "ring_layout_evidence q =
     (let slots = block_data (rq_slot_storage q);
          producer = block_data (rq_cursor_storage q);
          consumer = block_data (rq_cursor_storage q) + rq_cache_line_bytes q;
          cursor_distance = consumer - producer
      in \<lparr>requested_cache_line_bytes = rq_cache_line_bytes q, mutable_line_count = 2,
          storage_bytes = block_size (rq_slot_storage q) + block_size (rq_cursor_storage q),
          bases_aligned = is_aligned slots (rq_cache_line_bytes q) \<and>
            is_aligned producer (rq_cache_line_bytes q) \<and>
            is_aligned consumer (rq_cache_line_bytes q),
          ownership_lines_separated = cursor_distance \<ge> rq_cache_line_bytes q\<rparr>)"

definition ring_audit_quiescent :: "RingSpscQueue \<Rightarrow> RingQuiescentAudit" where
  "ring_audit_quiescent q =
     \<lparr>ra_occupied_slots = of_nat (length (filter (\<lambda>v. v \<noteq> nullptr) (rq_slots q))),
      ra_producer_position = rq_producer_position q,
      ra_consumer_position = rq_consumer_position q,
      ra_positions_in_range = rq_producer_position q < rq_capacity q \<and>
        rq_consumer_position q < rq_capacity q\<rparr>"

subsection \<open>Positions stay in range\<close>

lemma ring_next_position_nat:
  "unat p < unat (rq_capacity q) \<Longrightarrow>
     unat (ring_next_position q p) = Suc (unat p) mod unat (rq_capacity q)"
  unfolding ring_next_position_def by (rule cyclic_successor_nat)

lemma position_at_distance_nat:
  assumes "unat p < unat (rq_capacity q)"
  shows "unat (position_at_distance q p d) = (unat p + unat d) mod unat (rq_capacity q)"
proof -
  let ?n = "unat (rq_capacity q)" and ?r = "unat d mod unat (rq_capacity q)"
  have n: "0 < ?n" using assms by linarith
  have r: "unat (d mod rq_capacity q) = ?r" by (simp add: unat_mod)
  have rlt: "?r < ?n" using n by simp
  have nlt: "?n < 18446744073709551616" by (rule unat_u64_lt_num)
  have w: "unat (rq_capacity q - p) = ?n - unat p"
    using assms by (simp add: unat_minus_u64 word_le_nat_alt)
  have sum: "(unat p + unat d) mod ?n = (unat p + ?r) mod ?n" by (simp add: mod_simps)
  consider (zero) "?r = 0" | (low) "?r \<noteq> 0" "?r < ?n - unat p" | (wrap) "?r \<noteq> 0" "\<not> ?r < ?n - unat p"
    by blast
  then show ?thesis
  proof cases
    case zero
    then have "d mod rq_capacity q = 0" using r by (simp add: word_eq_unat)
    with zero sum assms show ?thesis by (simp add: position_at_distance_def)
  next
    case low
    have "unat (p + d mod rq_capacity q) = unat p + ?r"
      using low nlt r by (subst unat_plus_u64) auto
    moreover from low have "d mod rq_capacity q \<noteq> 0" using r by (metis unat_0)
    moreover have "d mod rq_capacity q < rq_capacity q - p"
      using low r w by (simp add: word_less_nat_alt)
    ultimately show ?thesis
      using low sum by (simp add: position_at_distance_def Let_def)
  next
    case wrap
    have "unat (d mod rq_capacity q - (rq_capacity q - p)) = ?r - (?n - unat p)"
      using wrap r w by (subst unat_minus_u64) (auto simp: word_le_nat_alt)
    moreover from wrap have "d mod rq_capacity q \<noteq> 0" using r by (metis unat_0)
    moreover have "\<not> d mod rq_capacity q < rq_capacity q - p"
      using wrap r w by (simp add: word_less_nat_alt)
    moreover have "(unat p + ?r) mod ?n = ?r - (?n - unat p)"
    proof -
      have "unat p + ?r = (?r - (?n - unat p)) + ?n" using wrap assms by linarith
      moreover have "?r - (?n - unat p) < ?n" using rlt by linarith
      ultimately show ?thesis by (metis mod_add_self2 mod_less)
    qed
    ultimately show ?thesis
      using sum by (simp add: position_at_distance_def Let_def)
  qed
qed

subsection \<open>Invariant and abstraction\<close>

definition ring_contents :: "RingSpscQueue \<Rightarrow> addr list" where
  "ring_contents q = cyc_list (rq_slots q) (unat (rq_consumer_position q))"

definition ring_bound :: "RingSpscQueue \<Rightarrow> nat" where
  "ring_bound q = unat (rq_capacity q)"

definition ring_invar :: "RingSpscQueue \<Rightarrow> bool" where
  "ring_invar q \<longleftrightarrow>
     length (rq_slots q) = unat (rq_capacity q) \<and>
     cyc_repr (rq_slots q) (unat (rq_consumer_position q)) (unat (rq_producer_position q))
       (ring_contents q)"

lemma ring_invarI:
  assumes "length (rq_slots q) = unat (rq_capacity q)"
    and "cyc_repr (rq_slots q) (unat (rq_consumer_position q)) (unat (rq_producer_position q)) xs"
  shows "ring_invar q \<and> ring_contents q = xs"
  using assms cyc_list_eq [OF assms(2)] by (simp add: ring_invar_def ring_contents_def)

lemma ring_invar_facts:
  assumes "ring_invar q"
  shows ring_repr: "cyc_repr (rq_slots q) (unat (rq_consumer_position q))
      (unat (rq_producer_position q)) (ring_contents q)"
    and ring_length: "length (rq_slots q) = ring_bound q"
    and ring_consumer_lt: "unat (rq_consumer_position q) < unat (rq_capacity q)"
    and ring_producer_lt: "unat (rq_producer_position q) < unat (rq_capacity q)"
    and ring_contents_le: "length (ring_contents q) \<le> ring_bound q"
    and ring_contents_nonnull: "nullptr \<notin> set (ring_contents q)"
proof -
  show r: "cyc_repr (rq_slots q) (unat (rq_consumer_position q))
      (unat (rq_producer_position q)) (ring_contents q)"
    and l: "length (rq_slots q) = ring_bound q"
    using assms by (simp_all add: ring_invar_def ring_bound_def)
  show "unat (rq_consumer_position q) < unat (rq_capacity q)"
    and "unat (rq_producer_position q) < unat (rq_capacity q)"
    and "length (ring_contents q) \<le> ring_bound q"
    and "nullptr \<notin> set (ring_contents q)"
    using cyc_repr_bounds [OF r] cyc_repr_length [OF r] r l
    by (simp_all add: ring_bound_def cyc_repr_def)
qed

lemma ring_bound_simps [simp]:
  "ring_bound (q\<lparr>rq_slots := sl, rq_producer_position := pp\<rparr>) = ring_bound q"
  "ring_bound (q\<lparr>rq_slots := sl, rq_consumer_position := cp\<rparr>) = ring_bound q"
  by (simp_all add: ring_bound_def)

lemma ring_slot_free:
  "ring_invar q \<Longrightarrow>
     (rq_slots q ! unat (rq_producer_position q) = nullptr) = (length (ring_contents q) < ring_bound q)"
  using cyc_read_producer [OF ring_repr] ring_length by metis

lemma ring_slot_head:
  "ring_invar q \<Longrightarrow>
     rq_slots q ! unat (rq_consumer_position q) =
       (if ring_contents q = [] then nullptr else hd (ring_contents q))"
  by (rule cyc_read_consumer) (rule ring_repr)

lemma ring_push:
  assumes "ring_invar q" and "length (ring_contents q) < ring_bound q" and "e \<noteq> nullptr"
  shows "ring_invar (q\<lparr>rq_slots := (rq_slots q)[unat (rq_producer_position q) := e],
           rq_producer_position := ring_next_position q (rq_producer_position q)\<rparr>) \<and>
         ring_contents (q\<lparr>rq_slots := (rq_slots q)[unat (rq_producer_position q) := e],
           rq_producer_position := ring_next_position q (rq_producer_position q)\<rparr>) =
         ring_contents q @ [e]"
proof (rule ring_invarI)
  note push = cyc_push [OF ring_repr [OF assms(1)], of e]
  then show "cyc_repr
      (rq_slots (q\<lparr>rq_slots := (rq_slots q)[unat (rq_producer_position q) := e],
           rq_producer_position := ring_next_position q (rq_producer_position q)\<rparr>))
      (unat (rq_consumer_position (q\<lparr>rq_slots := (rq_slots q)[unat (rq_producer_position q) := e],
           rq_producer_position := ring_next_position q (rq_producer_position q)\<rparr>)))
      (unat (rq_producer_position (q\<lparr>rq_slots := (rq_slots q)[unat (rq_producer_position q) := e],
           rq_producer_position := ring_next_position q (rq_producer_position q)\<rparr>)))
      (ring_contents q @ [e])"
    using assms ring_next_position_nat [OF ring_producer_lt [OF assms(1)]]
      ring_length [OF assms(1)]
    by (simp add: ring_bound_def)
qed (use ring_length [OF assms(1)] in \<open>simp add: ring_bound_def\<close>)

lemma ring_pop:
  assumes "ring_invar q" and "ring_contents q = x # xs"
  shows "ring_invar (q\<lparr>rq_slots := (rq_slots q)[unat (rq_consumer_position q) := nullptr],
           rq_consumer_position := ring_next_position q (rq_consumer_position q)\<rparr>) \<and>
         ring_contents (q\<lparr>rq_slots := (rq_slots q)[unat (rq_consumer_position q) := nullptr],
           rq_consumer_position := ring_next_position q (rq_consumer_position q)\<rparr>) = xs"
proof (rule ring_invarI)
  note pop = cyc_pop [of "rq_slots q" _ _ x xs]
  show "cyc_repr
      (rq_slots (q\<lparr>rq_slots := (rq_slots q)[unat (rq_consumer_position q) := nullptr],
           rq_consumer_position := ring_next_position q (rq_consumer_position q)\<rparr>))
      (unat (rq_consumer_position (q\<lparr>rq_slots := (rq_slots q)[unat (rq_consumer_position q) := nullptr],
           rq_consumer_position := ring_next_position q (rq_consumer_position q)\<rparr>)))
      (unat (rq_producer_position (q\<lparr>rq_slots := (rq_slots q)[unat (rq_consumer_position q) := nullptr],
           rq_consumer_position := ring_next_position q (rq_consumer_position q)\<rparr>))) xs"
    using pop ring_repr [OF assms(1)] assms(2) ring_next_position_nat [OF ring_consumer_lt [OF assms(1)]]
      ring_length [OF assms(1)]
    by (simp add: ring_bound_def)
qed (use ring_length [OF assms(1)] in \<open>simp add: ring_bound_def\<close>)

subsection \<open>The operations refine the bounded FIFO\<close>

interpretation ring_observed: observed_fifo ring_invar ring_contents ring_bound
  ring_try_enqueue_with_boundary_observer ring_try_dequeue_with_boundary_observer
proof (unfold_locales, goal_cases)
  case (1 q e hook s)
  then show ?case
    using ring_slot_free [of q]
    by (simp add: ring_try_enqueue_with_boundary_observer_def ring_try_enqueue_observed_def
        ring_enqueue_boundary_observer_def Let_def)
next
  case (2 q e hook s ok s')
  then show ?case
    using ring_slot_free [of q] ring_push [of q "get_ptr e"]
    by (cases ok) (auto simp: ring_try_enqueue_with_boundary_observer_def ring_try_enqueue_observed_def
        ring_enqueue_boundary_observer_def Let_def)
next
  case (3 q hook s)
  then show ?case
    using ring_slot_head [of q]
    by (simp add: ring_try_dequeue_with_boundary_observer_def ring_try_dequeue_observed_def
        ring_dequeue_boundary_observer_def Let_def)
next
  case (4 q x xs hook s ok s')
  then have "x \<noteq> nullptr" using ring_contents_nonnull [of q] by auto
  with 4 show ?case
    using ring_slot_head [of q] ring_pop [of q x xs]
    by (cases ok) (auto simp: ring_try_dequeue_with_boundary_observer_def ring_try_dequeue_observed_def
        ring_dequeue_boundary_observer_def Let_def)
next
  case (5 q)
  then show ?case by (rule ring_contents_le)
next
  case (6 q x)
  then show ?case using ring_contents_nonnull [of q] by auto
qed

text \<open>The plain operations are the observed ones with a hook that always agrees.\<close>

lemma ring_try_enqueue_eq:
  assumes "ring_invar q" and "get_ptr e \<noteq> nullptr"
  shows "ring_try_enqueue q e =
    (if length (ring_contents q) < ring_bound q
     then (Enq_accepted, q\<lparr>rq_slots := (rq_slots q)[unat (rq_producer_position q) := get_ptr e],
             rq_producer_position := ring_next_position q (rq_producer_position q)\<rparr>)
     else (Enq_full, q))"
  using ring_slot_free [OF assms(1)]
  by (auto simp: ring_try_enqueue_def ring_try_enqueue_observed_def
      ring_enqueue_boundary_observer_def Let_def)

lemma ring_try_dequeue_eq:
  assumes "ring_invar q"
  shows "ring_try_dequeue q =
    (case ring_contents q of
       [] \<Rightarrow> (\<lparr>dr_status = Deq_empty, dr_event = nullptr\<rparr>, q)
     | x # xs \<Rightarrow> (\<lparr>dr_status = Deq_item, dr_event = x\<rparr>,
         q\<lparr>rq_slots := (rq_slots q)[unat (rq_consumer_position q) := nullptr],
           rq_consumer_position := ring_next_position q (rq_consumer_position q)\<rparr>))"
  using ring_slot_head [OF assms] ring_contents_nonnull [OF assms]
  by (auto simp: ring_try_dequeue_def ring_try_dequeue_observed_def
      ring_dequeue_boundary_observer_def Let_def split: list.split)

interpretation ring_plain: bounded_fifo ring_invar ring_contents ring_bound
  ring_try_enqueue ring_try_dequeue
proof (unfold_locales, goal_cases)
  case (1 q e r q')
  then show ?case
    using ring_push [of q "get_ptr e"]
    by (auto simp: ring_try_enqueue_eq fifo_enqueue_def split: if_splits)
next
  case (2 q d q')
  then show ?case
    using ring_pop [of q]
    by (auto simp: ring_try_dequeue_eq fifo_dequeue_def split: list.splits)
next
  case (3 q)
  then show ?case by (rule ring_contents_le)
qed

subsection \<open>Construction\<close>

lemma RingSpscQueue_create_Inr:
  "RingSpscQueue_create sb cb cap line = Inr q \<longleftrightarrow>
     is_power_of_two line \<and> 16 \<le> line \<and> cap \<noteq> 0 \<and> unat cap * 8 < 2 ^ 64 \<and>
     2 * unat line < 2 ^ 64 \<and>
     (\<exists>s c. sb = Some s \<and> cb = Some c \<and>
        q = \<lparr>rq_capacity = cap, rq_cache_line_bytes = line,
             rq_slot_storage = \<lparr>block_data = s, block_size = cap * 8, block_alignment = line\<rparr>,
             rq_cursor_storage = \<lparr>block_data = c, block_size = 2 * line, block_alignment = line\<rparr>,
             rq_slots = replicate (unat cap) nullptr,
             rq_producer_position = 0, rq_consumer_position = 0\<rparr>)"
  by (auto simp: RingSpscQueue_create_def AlignedBlock_create_def sizeof_pointer_def)

lemma ring_create_invar:
  assumes "RingSpscQueue_create sb cb cap line = Inr q"
  shows "ring_invar q \<and> ring_contents q = [] \<and> ring_bound q = unat cap"
proof -
  have "0 < unat cap"
    using assms by (auto simp: RingSpscQueue_create_Inr word_eq_unat)
  then have "ring_invar q \<and> ring_contents q = []"
    using assms cyc_repr_init [of "unat cap"]
    by (intro ring_invarI) (auto simp: RingSpscQueue_create_Inr)
  then show ?thesis
    using assms by (auto simp: RingSpscQueue_create_Inr ring_bound_def)
qed

lemma ring_occupied:
  assumes "ring_invar q"
  shows "length (filter (\<lambda>v. v \<noteq> nullptr) (rq_slots q)) = length (ring_contents q)"
proof -
  let ?c = "unat (rq_consumer_position q)"
  have "mset (rq_slots q) = mset (rotate ?c (rq_slots q))" by simp
  also have "\<dots> = mset (ring_contents q @ replicate (length (rq_slots q) - length (ring_contents q)) 0)"
    using ring_repr [OF assms] by (metis cyc_repr_def)
  finally have "size (filter_mset (\<lambda>v. v \<noteq> nullptr) (mset (rq_slots q))) =
      size (filter_mset (\<lambda>v. v \<noteq> nullptr) (mset (ring_contents q)))"
    by simp
  moreover have "filter (\<lambda>v. v \<noteq> nullptr) (ring_contents q) = ring_contents q"
    using ring_contents_nonnull [OF assms] by (auto intro: filter_True)
  ultimately show ?thesis
    by (metis mset_filter size_mset)
qed

subsection \<open>Properties\<close>

text \<open>
  A concrete ring for the witnesses: capacity 2, cache line 64, blocks at 4096 and 8192.
\<close>

definition ring_example :: RingSpscQueue where
  "ring_example =
     \<lparr>rq_capacity = 2, rq_cache_line_bytes = 64,
      rq_slot_storage = \<lparr>block_data = 4096, block_size = 16, block_alignment = 64\<rparr>,
      rq_cursor_storage = \<lparr>block_data = 8192, block_size = 128, block_alignment = 64\<rparr>,
      rq_slots = [0, 0], rq_producer_position = 0, rq_consumer_position = 0\<rparr>"

lemma is_power_of_two_64: "is_power_of_two 64"
  by (simp add: is_power_of_two_def)

lemma ring_example_create:
  "RingSpscQueue_create (Some 4096) (Some 8192) 2 64 = Inr ring_example"
proof -
  have "replicate 2 (0 :: addr) = [0, 0]" by (simp add: numeral_2_eq_2)
  then show ?thesis
    by (simp add: RingSpscQueue_create_Inr ring_example_def is_power_of_two_64)
qed

text \<open>
  C14. Refinement of the ring: from a freshly constructed queue, any history of try_enqueue
  and try_dequeue calls gives exactly the results the bounded FIFO of the same capacity
  gives, and the queue then holds exactly what the FIFO holds.
\<close>

theorem ring_history_refines_fifo:
  assumes "RingSpscQueue_create slot_base cursor_base capacity line = Inr q"
    and "list_all op_ok ops"
    and "run_ops ring_try_enqueue ring_try_dequeue q ops = (outs, q')"
  shows "fifo_run (unat capacity) [] ops = (outs, ring_contents q') \<and> ring_invar q'"
  using ring_plain.run_refines [OF _ assms(2,3)] ring_create_invar [OF assms(1)] by auto

theorem ring_history_refines_fifo_witness:
  "\<exists>outs q'. run_ops ring_try_enqueue ring_try_dequeue ring_example
       [Try_dequeue, Try_enqueue (EventPointer 16), Try_enqueue (EventPointer 32),
        Try_enqueue (EventPointer 48), Try_dequeue] = (outs, q') \<and>
     fifo_run 2 [] [Try_dequeue, Try_enqueue (EventPointer 16), Try_enqueue (EventPointer 32),
        Try_enqueue (EventPointer 48), Try_dequeue] = (outs, ring_contents q') \<and>
     outs ! 3 = Enqueue_out Enq_full"
proof -
  let ?ops = "[Try_dequeue, Try_enqueue (EventPointer 16), Try_enqueue (EventPointer 32),
        Try_enqueue (EventPointer 48), Try_dequeue]"
  obtain outs q' where run: "run_ops ring_try_enqueue ring_try_dequeue ring_example ?ops = (outs, q')"
    by fastforce
  from ring_history_refines_fifo [OF ring_example_create _ run]
  have f: "fifo_run 2 [] ?ops = (outs, ring_contents q')" by simp
  moreover from f have "outs ! 3 = Enqueue_out Enq_full"
    by (auto simp: fifo_enqueue_def fifo_dequeue_def)
  ultimately show ?thesis using run by blast
qed

text \<open>
  The quiescent audit of the ring is exact after every history: the occupied slots it
  counts are the queued events, and both positions are in range.
\<close>

theorem ring_audit_exact:
  assumes "RingSpscQueue_create slot_base cursor_base capacity line = Inr q"
    and "list_all op_ok ops"
    and "run_ops ring_try_enqueue ring_try_dequeue q ops = (outs, q')"
  shows "unat (ra_occupied_slots (ring_audit_quiescent q')) + length (dequeued_events outs) =
           length (accepted_events ops outs) \<and>
         ra_positions_in_range (ring_audit_quiescent q')"
proof -
  note create = ring_create_invar [OF assms(1)]
  have inv: "ring_invar q'"
    using ring_plain.run_refines [OF _ assms(2,3)] create by auto
  have "length (ring_contents q') < 2 ^ 64"
    using ring_contents_le [OF inv] unat_u64_lt [of "rq_capacity q'"] by (simp add: ring_bound_def)
  then have "unat (ra_occupied_slots (ring_audit_quiescent q')) = length (ring_contents q')"
    by (simp add: ring_audit_quiescent_def ring_occupied [OF inv] unat_of_nat_u64)
  moreover have "accepted_events ops outs = dequeued_events outs @ ring_contents q'"
    using ring_plain.run_fifo_order [OF _ assms(2,3)] create by auto
  ultimately show ?thesis
    using ring_producer_lt [OF inv] ring_consumer_lt [OF inv]
    by (simp add: ring_audit_quiescent_def word_less_nat_alt)
qed

theorem ring_audit_exact_witness:
  "\<exists>outs q'. run_ops ring_try_enqueue ring_try_dequeue ring_example
       [Try_enqueue (EventPointer 16)] = (outs, q') \<and>
     unat (ra_occupied_slots (ring_audit_quiescent q')) = 1"
proof -
  obtain outs q' where run: "run_ops ring_try_enqueue ring_try_dequeue ring_example
      [Try_enqueue (EventPointer 16)] = (outs, q')"
    by fastforce
  have "accepted_events [Try_enqueue (EventPointer 16)] outs = [16]" and "dequeued_events outs = []"
    using run by (auto simp: ring_try_enqueue_def ring_try_enqueue_observed_def
        ring_enqueue_boundary_observer_def ring_example_def Let_def)
  then show ?thesis
    using ring_audit_exact [OF ring_example_create _ run] run by auto
qed

text \<open>
  Storage layout of the ring: when the allocator returns blocks aligned as requested, the
  layout evidence reports aligned bases and the two cursors on separate cache lines, and the
  slot array is large enough for the capacity.
\<close>

theorem ring_layout_sound:
  assumes "RingSpscQueue_create (Some slot_base) (Some cursor_base) capacity line = Inr q"
    and "is_aligned slot_base line" and "is_aligned cursor_base line"
    and "unat cursor_base + 2 * unat line \<le> 2 ^ 64"
  shows "bases_aligned (ring_layout_evidence q) \<and>
         ownership_lines_separated (ring_layout_evidence q) \<and>
         unat (block_size (rq_slot_storage q)) = 8 * length (rq_slots q)"
proof -
  have line: "line \<noteq> 0"
    using assms(1) by (auto simp: RingSpscQueue_create_Inr is_power_of_two_def)
  then have "unat cursor_base + unat line < 2 ^ 64"
    using assms(4) by (simp add: word_eq_unat)
  then have "is_aligned (cursor_base + line) line"
    using assms(3) by (simp add: is_aligned_nat unat_plus_u64)
  moreover have "unat (capacity * 8) = unat capacity * 8"
    using assms(1) by (simp add: RingSpscQueue_create_Inr unat_times_u64)
  ultimately show ?thesis
    using assms by (auto simp: RingSpscQueue_create_Inr ring_layout_evidence_def)
qed

theorem ring_layout_sound_witness:
  "is_aligned 4096 64 \<and> bases_aligned (ring_layout_evidence ring_example)"
  using ring_layout_sound [OF ring_example_create] by (simp add: is_aligned_def)

subsection \<open>Prefetch targets\<close>

text \<open>
  The slot at a distance lies \<open>distance\<close> places ahead modulo the capacity, inside the slot
  array. The producer's and the consumer's targets are instances.
\<close>

lemma slot_target_in_ring:
  assumes "position < rq_capacity q"
    and "unat (block_data (rq_slot_storage q)) + unat (rq_capacity q) * 8 \<le> 2 ^ 64"
  shows "unat (slot_address q (position_at_distance q position distance)) =
      unat (block_data (rq_slot_storage q)) +
        8 * ((unat position + unat distance) mod unat (rq_capacity q))"
    and "unat (slot_address q (position_at_distance q position distance)) + 8 \<le>
      unat (block_data (rq_slot_storage q)) + unat (rq_capacity q) * 8"
proof -
  let ?i = "(unat position + unat distance) mod unat (rq_capacity q)"
  have p: "unat position < unat (rq_capacity q)" using assms(1) by (simp add: word_less_nat_alt)
  have pos: "unat (position_at_distance q position distance) = ?i"
    by (rule position_at_distance_nat) (use p assms(1) in simp)
  have lt: "?i < unat (rq_capacity q)" using p by (intro mod_less_divisor) linarith
  have "unat (position_at_distance q position distance * 8) = ?i * 8"
    using assms(2) lt pos by (subst unat_times_u64) auto
  then show eq: "unat (slot_address q (position_at_distance q position distance)) =
      unat (block_data (rq_slot_storage q)) + 8 * ?i"
    unfolding slot_address_def sizeof_pointer_def
    using assms(2) lt by (subst unat_plus_u64) auto
  show "unat (slot_address q (position_at_distance q position distance)) + 8 \<le>
      unat (block_data (rq_slot_storage q)) + unat (rq_capacity q) * 8"
    using lt by (simp add: eq)
qed

end
