(* ===== verification/Ring_Interleaving.thy ===== *)
theory Ring_Interleaving
  imports Ring_Spsc
begin

text \<open>
  One producer thread and one consumer thread on the same ring. Each operation of
  \<^verbatim>\<open>ring_spsc.hpp\<close> is cut at its shared-memory accesses: the acquire load of the slot, the
  release store to the slot, and the update of the thread's own cursor. A step is one thread
  moving past one such access; which thread moves is left open, so the relation contains
  every interleaving. The logs record the events published and the events returned. Accesses
  are taken in one total order; the release/acquire pairs of the code are what makes that
  order visible to both threads, and weaker orders of the hardware are not modelled.
\<close>

datatype producer_pc =
    P_idle
  | P_loaded EventPointer addr  \<comment> \<open>slot observed, outcome not yet decided\<close>
  | P_published                 \<comment> \<open>slot stored, cursor not yet moved\<close>

datatype consumer_pc =
    C_idle
  | C_loaded addr
  | C_cleared

record ring_sys =
  sys_queue :: RingSpscQueue
  sys_producer :: producer_pc
  sys_consumer :: consumer_pc
  log_in :: "addr list"
  log_out :: "addr list"

definition ring_sys_init :: "RingSpscQueue \<Rightarrow> ring_sys" where
  "ring_sys_init q =
     \<lparr>sys_queue = q, sys_producer = P_idle, sys_consumer = C_idle, log_in = [], log_out = []\<rparr>"

inductive ring_step :: "ring_sys \<Rightarrow> ring_sys \<Rightarrow> bool" where
  p_load: "sys_producer s = P_idle \<Longrightarrow> get_ptr e \<noteq> nullptr \<Longrightarrow> q = sys_queue s \<Longrightarrow>
     ring_step s (s\<lparr>sys_producer := P_loaded e (rq_slots q ! unat (rq_producer_position q))\<rparr>)"
| p_full: "sys_producer s = P_loaded e v \<Longrightarrow> v \<noteq> nullptr \<Longrightarrow>
     ring_step s (s\<lparr>sys_producer := P_idle\<rparr>)"
| p_veto: "sys_producer s = P_loaded e v \<Longrightarrow> v = nullptr \<Longrightarrow>
     ring_step s (s\<lparr>sys_producer := P_idle\<rparr>)"
| p_publish: "sys_producer s = P_loaded e v \<Longrightarrow> v = nullptr \<Longrightarrow> q = sys_queue s \<Longrightarrow>
     ring_step s (s\<lparr>sys_queue := q\<lparr>rq_slots := (rq_slots q)[unat (rq_producer_position q) := get_ptr e]\<rparr>,
       sys_producer := P_published, log_in := log_in s @ [get_ptr e]\<rparr>)"
| p_advance: "sys_producer s = P_published \<Longrightarrow> q = sys_queue s \<Longrightarrow>
     ring_step s (s\<lparr>sys_queue := q\<lparr>rq_producer_position := ring_next_position q (rq_producer_position q)\<rparr>,
       sys_producer := P_idle\<rparr>)"
| c_load: "sys_consumer s = C_idle \<Longrightarrow> q = sys_queue s \<Longrightarrow>
     ring_step s (s\<lparr>sys_consumer := C_loaded (rq_slots q ! unat (rq_consumer_position q))\<rparr>)"
| c_empty: "sys_consumer s = C_loaded v \<Longrightarrow> v = nullptr \<Longrightarrow>
     ring_step s (s\<lparr>sys_consumer := C_idle\<rparr>)"
| c_veto: "sys_consumer s = C_loaded v \<Longrightarrow> v \<noteq> nullptr \<Longrightarrow>
     ring_step s (s\<lparr>sys_consumer := C_idle\<rparr>)"
| c_release: "sys_consumer s = C_loaded v \<Longrightarrow> v \<noteq> nullptr \<Longrightarrow> q = sys_queue s \<Longrightarrow>
     ring_step s (s\<lparr>sys_queue := q\<lparr>rq_slots := (rq_slots q)[unat (rq_consumer_position q) := nullptr]\<rparr>,
       sys_consumer := C_cleared, log_out := log_out s @ [v]\<rparr>)"
| c_advance: "sys_consumer s = C_cleared \<Longrightarrow> q = sys_queue s \<Longrightarrow>
     ring_step s (s\<lparr>sys_queue := q\<lparr>rq_consumer_position := ring_next_position q (rq_consumer_position q)\<rparr>,
       sys_consumer := C_idle\<rparr>)"

inductive ring_reachable :: "RingSpscQueue \<Rightarrow> ring_sys \<Rightarrow> bool" for q0 where
  start: "ring_reachable q0 (ring_sys_init q0)"
| step: "ring_reachable q0 s \<Longrightarrow> ring_step s t \<Longrightarrow> ring_reachable q0 t"

subsection \<open>The invariant\<close>

text \<open>
  Between a slot store and the cursor update the cursor lags by one place, so the positions
  the representation speaks of are the positions the cursors are about to take.
\<close>

definition due_producer :: "ring_sys \<Rightarrow> nat" where
  "due_producer s =
     (let q = sys_queue s in
      if sys_producer s = P_published
      then Suc (unat (rq_producer_position q)) mod length (rq_slots q)
      else unat (rq_producer_position q))"

definition due_consumer :: "ring_sys \<Rightarrow> nat" where
  "due_consumer s =
     (let q = sys_queue s in
      if sys_consumer s = C_cleared
      then Suc (unat (rq_consumer_position q)) mod length (rq_slots q)
      else unat (rq_consumer_position q))"

definition in_flight :: "ring_sys \<Rightarrow> addr list" where
  "in_flight s = drop (length (log_out s)) (log_in s)"

definition ring_sys_invar :: "RingSpscQueue \<Rightarrow> ring_sys \<Rightarrow> bool" where
  "ring_sys_invar q0 s \<longleftrightarrow>
     rq_capacity (sys_queue s) = rq_capacity q0 \<and>
     length (rq_slots (sys_queue s)) = unat (rq_capacity q0) \<and>
     unat (rq_producer_position (sys_queue s)) < unat (rq_capacity q0) \<and>
     unat (rq_consumer_position (sys_queue s)) < unat (rq_capacity q0) \<and>
     log_in s = log_out s @ in_flight s \<and>
     cyc_repr (rq_slots (sys_queue s)) (due_consumer s) (due_producer s) (in_flight s) \<and>
     (\<forall>e v. sys_producer s = P_loaded e v \<longrightarrow> get_ptr e \<noteq> nullptr \<and>
        (v = nullptr \<longrightarrow> length (in_flight s) < unat (rq_capacity q0))) \<and>
     (\<forall>v. sys_consumer s = C_loaded v \<longrightarrow> v \<noteq> nullptr \<longrightarrow> (\<exists>xs. in_flight s = v # xs))"

lemma in_flight_split: "log_in s = log_out s @ xs \<Longrightarrow> in_flight s = xs"
  by (simp add: in_flight_def)

lemma ring_sys_invar_init:
  assumes "ring_invar q0" and "ring_contents q0 = []"
  shows "ring_sys_invar q0 (ring_sys_init q0)"
  using ring_repr [OF assms(1)] ring_producer_lt [OF assms(1)] ring_consumer_lt [OF assms(1)]
    ring_length [OF assms(1)] assms(2)
  by (simp add: ring_sys_invar_def ring_sys_init_def in_flight_def due_producer_def
      due_consumer_def ring_bound_def)

text \<open>Each access keeps the invariant. The two stores are the only steps that move entries.\<close>

lemmas ring_sys_defs = ring_sys_invar_def in_flight_def due_producer_def due_consumer_def Let_def

lemma p_load_keeps:
  assumes "ring_sys_invar q0 s" and "sys_producer s = P_idle" and "get_ptr e \<noteq> nullptr"
  shows "ring_sys_invar q0 (s\<lparr>sys_producer :=
    P_loaded e (rq_slots (sys_queue s) ! unat (rq_producer_position (sys_queue s)))\<rparr>)"
proof -
  have "cyc_repr (rq_slots (sys_queue s)) (due_consumer s)
      (unat (rq_producer_position (sys_queue s))) (in_flight s)"
    using assms(1,2) by (simp add: ring_sys_invar_def due_producer_def Let_def)
  from cyc_read_producer [OF this] show ?thesis
    using assms by (simp add: ring_sys_defs)
qed

lemma p_publish_keeps:
  assumes inv: "ring_sys_invar q0 s" and pc: "sys_producer s = P_loaded e nullptr"
  shows "ring_sys_invar q0 (s\<lparr>sys_queue := (sys_queue s)\<lparr>rq_slots :=
      (rq_slots (sys_queue s))[unat (rq_producer_position (sys_queue s)) := get_ptr e]\<rparr>,
    sys_producer := P_published, log_in := log_in s @ [get_ptr e]\<rparr>)"
    (is "ring_sys_invar q0 ?t")
proof -
  let ?q = "sys_queue s"
  have room: "length (in_flight s) < length (rq_slots ?q)" and e: "get_ptr e \<noteq> nullptr"
    using inv pc by (auto simp: ring_sys_invar_def)
  have log: "log_in s = log_out s @ in_flight s"
    using inv by (simp add: ring_sys_invar_def)
  have fl: "in_flight ?t = in_flight s @ [get_ptr e]"
    by (rule in_flight_split) (simp add: log)
  have "cyc_repr (rq_slots ?q) (due_consumer s) (unat (rq_producer_position ?q)) (in_flight s)"
    using inv pc by (simp add: ring_sys_invar_def due_producer_def Let_def)
  from cyc_push [OF this room e] show ?thesis
    using inv pc log unfolding ring_sys_invar_def fl
    by (auto simp: due_producer_def due_consumer_def Let_def)
qed

lemma p_advance_keeps:
  assumes "ring_sys_invar q0 s" and "sys_producer s = P_published"
  shows "ring_sys_invar q0 (s\<lparr>sys_queue := (sys_queue s)\<lparr>rq_producer_position :=
      ring_next_position (sys_queue s) (rq_producer_position (sys_queue s))\<rparr>,
    sys_producer := P_idle\<rparr>)"
proof -
  have "unat (ring_next_position (sys_queue s) (rq_producer_position (sys_queue s))) =
      Suc (unat (rq_producer_position (sys_queue s))) mod unat (rq_capacity q0)"
    using assms(1) ring_next_position_nat [of "rq_producer_position (sys_queue s)" "sys_queue s"]
    by (simp add: ring_sys_invar_def)
  moreover have "0 < unat (rq_capacity q0)"
    using assms(1) by (auto simp: ring_sys_invar_def)
  ultimately show ?thesis
    using assms by (auto simp: ring_sys_defs)
qed

lemma c_load_keeps:
  assumes "ring_sys_invar q0 s" and "sys_consumer s = C_idle"
  shows "ring_sys_invar q0 (s\<lparr>sys_consumer :=
    C_loaded (rq_slots (sys_queue s) ! unat (rq_consumer_position (sys_queue s)))\<rparr>)"
proof -
  have "cyc_repr (rq_slots (sys_queue s)) (unat (rq_consumer_position (sys_queue s)))
      (due_producer s) (in_flight s)"
    using assms by (simp add: ring_sys_invar_def due_consumer_def Let_def)
  from cyc_read_consumer [OF this]
  have "rq_slots (sys_queue s) ! unat (rq_consumer_position (sys_queue s)) \<noteq> 0 \<longrightarrow>
      (\<exists>xs. in_flight s =
        rq_slots (sys_queue s) ! unat (rq_consumer_position (sys_queue s)) # xs)"
    by (cases "in_flight s") auto
  then show ?thesis
    using assms by (simp add: ring_sys_defs)
qed

lemma c_release_keeps:
  assumes inv: "ring_sys_invar q0 s" and pc: "sys_consumer s = C_loaded v" and v: "v \<noteq> nullptr"
  shows "ring_sys_invar q0 (s\<lparr>sys_queue := (sys_queue s)\<lparr>rq_slots :=
      (rq_slots (sys_queue s))[unat (rq_consumer_position (sys_queue s)) := nullptr]\<rparr>,
    sys_consumer := C_cleared, log_out := log_out s @ [v]\<rparr>)"
    (is "ring_sys_invar q0 ?t")
proof -
  let ?q = "sys_queue s"
  obtain xs where xs: "in_flight s = v # xs"
    using inv pc v by (auto simp: ring_sys_invar_def)
  have log: "log_in s = log_out s @ v # xs"
    using inv xs by (simp add: ring_sys_invar_def)
  have fl: "in_flight ?t = xs"
    by (rule in_flight_split) (simp add: log)
  have "cyc_repr (rq_slots ?q) (unat (rq_consumer_position ?q)) (due_producer s) (v # xs)"
    using inv pc xs by (simp add: ring_sys_invar_def due_consumer_def Let_def)
  from cyc_pop [OF this] show ?thesis
    using inv pc log xs unfolding ring_sys_invar_def fl
    by (auto simp: due_producer_def due_consumer_def Let_def)
qed

lemma c_advance_keeps:
  assumes "ring_sys_invar q0 s" and "sys_consumer s = C_cleared"
  shows "ring_sys_invar q0 (s\<lparr>sys_queue := (sys_queue s)\<lparr>rq_consumer_position :=
      ring_next_position (sys_queue s) (rq_consumer_position (sys_queue s))\<rparr>,
    sys_consumer := C_idle\<rparr>)"
proof -
  have "unat (ring_next_position (sys_queue s) (rq_consumer_position (sys_queue s))) =
      Suc (unat (rq_consumer_position (sys_queue s))) mod unat (rq_capacity q0)"
    using assms(1) ring_next_position_nat [of "rq_consumer_position (sys_queue s)" "sys_queue s"]
    by (simp add: ring_sys_invar_def)
  moreover have "0 < unat (rq_capacity q0)"
    using assms(1) by (auto simp: ring_sys_invar_def)
  ultimately show ?thesis
    using assms by (auto simp: ring_sys_defs)
qed

lemma ring_step_keeps: "ring_step s t \<Longrightarrow> ring_sys_invar q0 s \<Longrightarrow> ring_sys_invar q0 t"
proof (induction rule: ring_step.induct)
  case (p_load s e q)
  then show ?case by (simp add: p_load_keeps)
next
  case (p_publish s e v q)
  then show ?case by (simp add: p_publish_keeps)
next
  case (p_advance s q)
  then show ?case by (simp add: p_advance_keeps)
next
  case (c_load s q)
  then show ?case by (simp add: c_load_keeps)
next
  case (c_release s v q)
  then show ?case by (simp add: c_release_keeps)
next
  case (c_advance s q)
  then show ?case by (simp add: c_advance_keeps)
qed (simp_all add: ring_sys_defs)

lemma ring_reachable_invar:
  assumes "ring_reachable q0 s" and "ring_invar q0" and "ring_contents q0 = []"
  shows "ring_sys_invar q0 s"
  using assms(1) by induction (auto intro: ring_sys_invar_init ring_step_keeps assms(2,3))

subsection \<open>Properties\<close>

text \<open>
  C15. Linearizable FIFO under every interleaving of one producer and one consumer: the events
  returned so far are exactly the oldest of the events published so far, in order, nothing is
  lost or duplicated, and at most \<open>capacity\<close> events are in flight.
\<close>

theorem ring_interleaving_fifo:
  assumes "RingSpscQueue_create slot_base cursor_base capacity line = Inr q"
    and "ring_reachable q s"
  shows "\<exists>xs. log_in s = log_out s @ xs \<and> length xs \<le> unat capacity"
proof -
  have c: "rq_capacity q = capacity"
    using assms(1) by (auto simp: RingSpscQueue_create_Inr)
  have inv: "ring_sys_invar q s"
    using ring_reachable_invar [OF assms(2)] ring_create_invar [OF assms(1)] by simp
  have repr: "cyc_repr (rq_slots (sys_queue s)) (due_consumer s) (due_producer s) (in_flight s)"
    and "log_in s = log_out s @ in_flight s"
    and "length (rq_slots (sys_queue s)) = unat capacity"
    using inv c by (auto simp: ring_sys_invar_def)
  then show ?thesis
    using cyc_repr_length [OF repr] by auto
qed

definition ring_example_sys1 :: ring_sys where
  "ring_example_sys1 = (ring_sys_init ring_example)
     \<lparr>sys_producer := P_loaded (EventPointer 16) nullptr\<rparr>"

definition ring_example_sys2 :: ring_sys where
  "ring_example_sys2 = ring_example_sys1\<lparr>sys_queue := ring_example\<lparr>rq_slots := [16, 0]\<rparr>,
     sys_producer := P_published, log_in := [16]\<rparr>"

definition ring_example_sys3 :: ring_sys where
  "ring_example_sys3 = ring_example_sys2\<lparr>sys_queue :=
     ring_example\<lparr>rq_slots := [16, 0], rq_producer_position := 1\<rparr>, sys_producer := P_idle\<rparr>"

definition ring_example_sys4 :: ring_sys where
  "ring_example_sys4 = ring_example_sys3\<lparr>sys_producer := P_loaded (EventPointer 32) nullptr\<rparr>"

definition ring_example_sys5 :: ring_sys where
  "ring_example_sys5 = ring_example_sys4\<lparr>sys_consumer := C_loaded 16\<rparr>"

lemmas ring_example_sys_defs = ring_example_sys1_def ring_example_sys2_def ring_example_sys3_def
  ring_example_sys4_def ring_example_sys5_def ring_sys_init_def ring_example_def

lemma ring_example_step1: "ring_step (ring_sys_init ring_example) ring_example_sys1"
  using ring_step.p_load [of "ring_sys_init ring_example" "EventPointer 16" ring_example]
  by (simp add: ring_example_sys_defs)

lemma ring_example_step2: "ring_step ring_example_sys1 ring_example_sys2"
  using ring_step.p_publish [of ring_example_sys1 "EventPointer 16" nullptr ring_example]
  by (simp add: ring_example_sys_defs)

lemma ring_example_step3: "ring_step ring_example_sys2 ring_example_sys3"
  using ring_step.p_advance [of ring_example_sys2 "sys_queue ring_example_sys2"]
  by (simp add: ring_example_sys_defs ring_next_position_def)

lemma ring_example_step4: "ring_step ring_example_sys3 ring_example_sys4"
  using ring_step.p_load [of ring_example_sys3 "EventPointer 32" "sys_queue ring_example_sys3"]
  by (simp add: ring_example_sys_defs)

lemma ring_example_step5: "ring_step ring_example_sys4 ring_example_sys5"
  using ring_step.c_load [of ring_example_sys4 "sys_queue ring_example_sys4"]
  by (simp add: ring_example_sys_defs)

lemma ring_example_reachable2: "ring_reachable ring_example ring_example_sys2"
  by (rule ring_reachable.intros(2) [OF ring_reachable.intros(2) [OF ring_reachable.intros(1)
        ring_example_step1] ring_example_step2])

lemma ring_example_reachable5: "ring_reachable ring_example ring_example_sys5"
  by (rule ring_reachable.intros(2) [OF ring_reachable.intros(2) [OF ring_reachable.intros(2)
        [OF ring_example_reachable2 ring_example_step3] ring_example_step4] ring_example_step5])

theorem ring_interleaving_fifo_witness:
  "log_in ring_example_sys2 = [16] \<and>
   (\<exists>xs. log_in ring_example_sys2 = log_out ring_example_sys2 @ xs \<and> length xs \<le> 2)"
  using ring_interleaving_fifo [OF ring_example_create ring_example_reachable2]
  by (simp add: ring_example_sys_defs)

text \<open>
  C16. Exactness of the two observations under every interleaving: the producer's acquire load
  sees an occupied slot exactly when \<open>capacity\<close> events are in flight (the linearization point
  of a full result), and the consumer's acquire load sees an empty slot exactly when every
  published event has been returned.
\<close>

theorem ring_observations_exact:
  assumes "RingSpscQueue_create slot_base cursor_base capacity line = Inr q"
    and "ring_reachable q s"
  shows "(sys_producer s = P_idle \<longrightarrow>
            (rq_slots (sys_queue s) ! unat (rq_producer_position (sys_queue s)) \<noteq> nullptr \<longleftrightarrow>
             length (log_in s) = length (log_out s) + unat capacity)) \<and>
         (sys_consumer s = C_idle \<longrightarrow>
            (rq_slots (sys_queue s) ! unat (rq_consumer_position (sys_queue s)) = nullptr \<longleftrightarrow>
             log_in s = log_out s))"
proof -
  have c: "rq_capacity q = capacity"
    using assms(1) by (auto simp: RingSpscQueue_create_Inr)
  have inv: "ring_sys_invar q s"
    using ring_reachable_invar [OF assms(2)] ring_create_invar [OF assms(1)] by simp
  have repr: "cyc_repr (rq_slots (sys_queue s)) (due_consumer s) (due_producer s) (in_flight s)"
    and log: "log_in s = log_out s @ in_flight s"
    and len: "length (rq_slots (sys_queue s)) = unat capacity"
    using inv c by (auto simp: ring_sys_invar_def)
  have "hd (in_flight s) \<noteq> nullptr" if "in_flight s \<noteq> []"
    using repr that by (metis cyc_repr_def hd_in_set)
  then show ?thesis
    using cyc_read_producer [OF repr] cyc_read_consumer [OF repr] cyc_repr_length [OF repr] len
    by (auto simp: due_producer_def due_consumer_def Let_def log split: if_splits)
qed

theorem ring_observations_exact_witness:
  "rq_slots ring_example ! unat (rq_consumer_position ring_example) = nullptr"
  using ring_observations_exact [OF ring_example_create ring_reachable.start]
  by (simp add: ring_sys_init_def)

text \<open>
  C17. No conflicting accesses: while the producer is about to store into a slot it observed
  empty and the consumer is about to clear a slot it observed occupied, the two slots differ.
\<close>

theorem ring_no_slot_conflict:
  assumes "RingSpscQueue_create slot_base cursor_base capacity line = Inr q"
    and "ring_reachable q s"
    and "sys_producer s = P_loaded e nullptr" and "sys_consumer s = C_loaded v" and "v \<noteq> nullptr"
  shows "rq_producer_position (sys_queue s) \<noteq> rq_consumer_position (sys_queue s)"
proof -
  have inv: "ring_sys_invar q s"
    using ring_reachable_invar [OF assms(2)] ring_create_invar [OF assms(1)] by simp
  have repr: "cyc_repr (rq_slots (sys_queue s)) (unat (rq_consumer_position (sys_queue s)))
      (unat (rq_producer_position (sys_queue s))) (in_flight s)"
    and room: "length (in_flight s) < length (rq_slots (sys_queue s))"
    and some: "in_flight s \<noteq> []"
    using inv assms(3-5) by (auto simp: ring_sys_invar_def due_producer_def due_consumer_def Let_def)
  have "hd (in_flight s) \<noteq> nullptr"
    using repr some by (metis cyc_repr_def hd_in_set)
  then show ?thesis
    using cyc_read_producer [OF repr] cyc_read_consumer [OF repr] room some by auto
qed

theorem ring_no_slot_conflict_witness:
  "sys_producer ring_example_sys5 = P_loaded (EventPointer 32) nullptr \<and>
   sys_consumer ring_example_sys5 = C_loaded 16 \<and>
   rq_producer_position (sys_queue ring_example_sys5) \<noteq>
     rq_consumer_position (sys_queue ring_example_sys5)"
  using ring_no_slot_conflict [OF ring_example_create ring_example_reachable5,
      of "EventPointer 32" 16]
  by (simp add: ring_example_sys_defs)

end
