(* ===== verification/Validation.thy ===== *)
theory Validation
  imports Prelude
begin

text \<open>
  Validation errors and results: \<^verbatim>\<open>include/cpu_prefetch/protocol/validation.hpp\<close>,
  \<^verbatim>\<open>src/protocol/validation.cpp\<close> and the identifiers of
  \<^verbatim>\<open>include/cpu_prefetch/protocol/model.hpp\<close>. A \<^verbatim>\<open>Result<T>\<close> is a sum: the errors on the left
  or the value on the right. Validators that collect several errors return the list; each
  check contributes \<open>fail_if condition error\<close>.
\<close>

datatype ErrorCategory =
    parse_error | missing_field | unknown_field | invalid_type | unknown_enum
  | unsupported_version | invalid_id | invalid_hash | invalid_unit | out_of_range
  | duplicate_value | cross_field | missing_evidence | reference_mismatch
  | immutable_configuration | unsupported_number

fun ErrorCategory_to_string :: "ErrorCategory \<Rightarrow> string" where
  "ErrorCategory_to_string parse_error = ''PARSE_ERROR''"
| "ErrorCategory_to_string missing_field = ''MISSING_FIELD''"
| "ErrorCategory_to_string unknown_field = ''UNKNOWN_FIELD''"
| "ErrorCategory_to_string invalid_type = ''INVALID_TYPE''"
| "ErrorCategory_to_string unknown_enum = ''UNKNOWN_ENUM''"
| "ErrorCategory_to_string unsupported_version = ''UNSUPPORTED_VERSION''"
| "ErrorCategory_to_string invalid_id = ''INVALID_ID''"
| "ErrorCategory_to_string invalid_hash = ''INVALID_HASH''"
| "ErrorCategory_to_string invalid_unit = ''INVALID_UNIT''"
| "ErrorCategory_to_string out_of_range = ''OUT_OF_RANGE''"
| "ErrorCategory_to_string duplicate_value = ''DUPLICATE_VALUE''"
| "ErrorCategory_to_string cross_field = ''CROSS_FIELD''"
| "ErrorCategory_to_string missing_evidence = ''MISSING_EVIDENCE''"
| "ErrorCategory_to_string reference_mismatch = ''REFERENCE_MISMATCH''"
| "ErrorCategory_to_string immutable_configuration = ''IMMUTABLE_CONFIGURATION''"
| "ErrorCategory_to_string unsupported_number = ''UNSUPPORTED_NUMBER''"

datatype ValidationError = ValidationError
  (ve_category: ErrorCategory) (ve_path: string) (ve_rule_id: string) (ve_message: string)

type_synonym 'a Result = "ValidationError list + 'a"

text \<open>One check of a validator.\<close>

definition fail_if :: "bool \<Rightarrow> ValidationError \<Rightarrow> ValidationError list" where
  "fail_if b e = (if b then [e] else [])"

text \<open>The end of a validator that returns a value when it collected no error.\<close>

definition result_of :: "ValidationError list \<Rightarrow> 'a \<Rightarrow> 'a Result" where
  "result_of errors v = (if errors \<noteq> [] then Inl errors else Inr v)"

lemma fail_if_Nil [simp]: "fail_if b e = [] \<longleftrightarrow> \<not> b"
  by (auto simp: fail_if_def)

lemma fail_if_simps [simp]: "fail_if True e = [e]" "fail_if False e = []"
  by (simp_all add: fail_if_def)

lemma fail_if_cong [cong]: "b = b' \<Longrightarrow> fail_if b e = fail_if b' e"
  by simp

lemma fail_if_set: "x \<in> set (fail_if b e) \<longleftrightarrow> b \<and> x = e"
  by (auto simp: fail_if_def)

lemma result_of_Inr [simp]: "result_of es v = Inr w \<longleftrightarrow> es = [] \<and> w = v"
  by (auto simp: result_of_def)

lemma result_of_Inl [simp]: "result_of es v = Inl fs \<longleftrightarrow> es \<noteq> [] \<and> fs = es"
  by (auto simp: result_of_def)

subsection \<open>Identifiers\<close>

text \<open>
  \<^verbatim>\<open>Identifier<Tag>\<close>: the tags only keep the kinds of identifier apart, so one type serves for
  all of them.
\<close>

datatype Identifier = Identifier (id_value: string)

definition Identifier_parse :: "string \<Rightarrow> string \<Rightarrow> Identifier Result" where
  "Identifier_parse value path =
     (if value = [] then Inl [ValidationError invalid_id path ''DAT-ID-NONEMPTY''
        ''identifier must not be empty'']
      else Inr (Identifier value))"

end
