(* ===== verification/State_Machine.thy ===== *)
theory State_Machine
  imports Validation
begin

text \<open>
  The run lifecycle: \<^verbatim>\<open>include/cpu_prefetch/lifecycle/state_machine.hpp\<close> and
  \<^verbatim>\<open>src/lifecycle/state_machine.cpp\<close>. The machine keeps the current phase, its projection to the
  protocol's lifecycle states, and three journals that only grow.
\<close>

subsection \<open>Phases\<close>

datatype RunPhase =
    planned | preflight | pre_run_failure | preparation | warmup | warmup_failure
  | logical_reset | reset_failure | measurement_started | measurement_failure
  | producer_complete | drain | drain_failure | completed | finalized_invalid | finalized_valid

datatype LifecycleState =
    LS_planned | LS_pre_run_failure | LS_warmup_failure | LS_reset_failure
  | LS_measurement_started | LS_measurement_failure | LS_drain_failure | LS_completed

fun RunPhase_to_string :: "RunPhase \<Rightarrow> string" where
  "RunPhase_to_string planned = ''PLANNED''"
| "RunPhase_to_string preflight = ''PREFLIGHT''"
| "RunPhase_to_string pre_run_failure = ''PRE_RUN_FAILURE''"
| "RunPhase_to_string preparation = ''PREPARATION''"
| "RunPhase_to_string warmup = ''WARMUP''"
| "RunPhase_to_string warmup_failure = ''WARMUP_FAILURE''"
| "RunPhase_to_string logical_reset = ''LOGICAL_RESET''"
| "RunPhase_to_string reset_failure = ''RESET_FAILURE''"
| "RunPhase_to_string measurement_started = ''MEASUREMENT_STARTED''"
| "RunPhase_to_string measurement_failure = ''MEASUREMENT_FAILURE''"
| "RunPhase_to_string producer_complete = ''PRODUCER_COMPLETE''"
| "RunPhase_to_string drain = ''DRAIN''"
| "RunPhase_to_string drain_failure = ''DRAIN_FAILURE''"
| "RunPhase_to_string completed = ''COMPLETED''"
| "RunPhase_to_string finalized_invalid = ''FINALIZED_INVALID''"
| "RunPhase_to_string finalized_valid = ''FINALIZED_VALID''"

fun is_legal_transition :: "RunPhase \<Rightarrow> RunPhase \<Rightarrow> bool" where
  "is_legal_transition planned to \<longleftrightarrow> to = preflight"
| "is_legal_transition preflight to \<longleftrightarrow> to = preparation \<or> to = pre_run_failure"
| "is_legal_transition preparation to \<longleftrightarrow> to = warmup \<or> to = pre_run_failure"
| "is_legal_transition warmup to \<longleftrightarrow> to = logical_reset \<or> to = warmup_failure"
| "is_legal_transition logical_reset to \<longleftrightarrow> to = measurement_started \<or> to = reset_failure"
| "is_legal_transition measurement_started to \<longleftrightarrow> to = producer_complete \<or> to = measurement_failure"
| "is_legal_transition producer_complete to \<longleftrightarrow> to = drain \<or> to = measurement_failure"
| "is_legal_transition drain to \<longleftrightarrow> to = completed \<or> to = drain_failure"
| "is_legal_transition completed to \<longleftrightarrow> to = finalized_valid \<or> to = finalized_invalid"
| "is_legal_transition pre_run_failure to \<longleftrightarrow> to = finalized_invalid"
| "is_legal_transition warmup_failure to \<longleftrightarrow> to = finalized_invalid"
| "is_legal_transition reset_failure to \<longleftrightarrow> to = finalized_invalid"
| "is_legal_transition measurement_failure to \<longleftrightarrow> to = finalized_invalid"
| "is_legal_transition drain_failure to \<longleftrightarrow> to = finalized_invalid"
| "is_legal_transition finalized_invalid to \<longleftrightarrow> False"
| "is_legal_transition finalized_valid to \<longleftrightarrow> False"

definition is_failure_phase :: "RunPhase \<Rightarrow> bool" where
  "is_failure_phase phase \<longleftrightarrow>
     phase = pre_run_failure \<or> phase = warmup_failure \<or> phase = reset_failure \<or>
     phase = measurement_failure \<or> phase = drain_failure"

definition is_early_failure :: "RunPhase \<Rightarrow> bool" where
  "is_early_failure phase \<longleftrightarrow>
     phase = pre_run_failure \<or> phase = warmup_failure \<or> phase = reset_failure"

definition terminal :: "RunPhase \<Rightarrow> bool" where
  "terminal phase \<longleftrightarrow> phase = finalized_invalid \<or> phase = finalized_valid"

fun protocol_projection :: "RunPhase \<Rightarrow> LifecycleState \<Rightarrow> LifecycleState" where
  "protocol_projection planned retained = LS_planned"
| "protocol_projection preflight retained = LS_planned"
| "protocol_projection preparation retained = LS_planned"
| "protocol_projection warmup retained = LS_planned"
| "protocol_projection logical_reset retained = LS_planned"
| "protocol_projection pre_run_failure retained = LS_pre_run_failure"
| "protocol_projection warmup_failure retained = LS_warmup_failure"
| "protocol_projection reset_failure retained = LS_reset_failure"
| "protocol_projection measurement_started retained = LS_measurement_started"
| "protocol_projection producer_complete retained = LS_measurement_started"
| "protocol_projection drain retained = LS_measurement_started"
| "protocol_projection measurement_failure retained = LS_measurement_failure"
| "protocol_projection drain_failure retained = LS_drain_failure"
| "protocol_projection completed retained = LS_completed"
| "protocol_projection finalized_valid retained = LS_completed"
| "protocol_projection finalized_invalid retained = retained"

subsection \<open>Artifact consequences\<close>

datatype LifecycleArtifactKind =
    plan | warmup_schedule | measurement_schedule | reset_evidence | producer_observations
  | consumer_observations | counts | phase_integrity | failure_evidence | transition_journal
  | recovery_evidence

datatype ArtifactAction = retain | append_partial | append_complete | declare_absent

fun LifecycleArtifactKind_to_string :: "LifecycleArtifactKind \<Rightarrow> string" where
  "LifecycleArtifactKind_to_string plan = ''PLAN''"
| "LifecycleArtifactKind_to_string warmup_schedule = ''WARMUP_SCHEDULE''"
| "LifecycleArtifactKind_to_string measurement_schedule = ''MEASUREMENT_SCHEDULE''"
| "LifecycleArtifactKind_to_string reset_evidence = ''RESET_EVIDENCE''"
| "LifecycleArtifactKind_to_string producer_observations = ''PRODUCER_OBSERVATIONS''"
| "LifecycleArtifactKind_to_string consumer_observations = ''CONSUMER_OBSERVATIONS''"
| "LifecycleArtifactKind_to_string counts = ''COUNTS''"
| "LifecycleArtifactKind_to_string phase_integrity = ''PHASE_INTEGRITY''"
| "LifecycleArtifactKind_to_string failure_evidence = ''FAILURE_EVIDENCE''"
| "LifecycleArtifactKind_to_string transition_journal = ''TRANSITION_JOURNAL''"
| "LifecycleArtifactKind_to_string recovery_evidence = ''RECOVERY_EVIDENCE''"

fun ArtifactAction_to_string :: "ArtifactAction \<Rightarrow> string" where
  "ArtifactAction_to_string retain = ''RETAIN''"
| "ArtifactAction_to_string append_partial = ''APPEND_PARTIAL''"
| "ArtifactAction_to_string append_complete = ''APPEND_COMPLETE''"
| "ArtifactAction_to_string declare_absent = ''DECLARE_ABSENT''"

record ArtifactConsequence =
  ac_kind :: LifecycleArtifactKind
  ac_action :: ArtifactAction
  ac_artifact_id :: string
  ac_row_count :: u64

definition has_artifact_kind :: "ArtifactConsequence list \<Rightarrow> LifecycleArtifactKind \<Rightarrow> bool" where
  "has_artifact_kind consequences kind = list_ex (\<lambda>c. ac_kind c = kind) consequences"

definition has_present_artifact_kind ::
  "ArtifactConsequence list \<Rightarrow> LifecycleArtifactKind \<Rightarrow> bool" where
  "has_present_artifact_kind consequences kind =
     list_ex (\<lambda>c. ac_kind c = kind \<and> ac_action c \<noteq> declare_absent) consequences"

text \<open>The loop over the consequences, with its index and the set of kinds seen so far.\<close>

fun consequence_errors ::
  "nat \<Rightarrow> LifecycleArtifactKind set \<Rightarrow> ArtifactConsequence list \<Rightarrow> ValidationError list" where
  "consequence_errors index seen [] = []"
| "consequence_errors index seen (c # rest) =
     (let path = ''$transition/artifact_consequences/'' @ std_to_string index in
      fail_if (ac_kind c \<in> seen) (ValidationError duplicate_value path
        ''LIF-TRANSITION-ARTIFACT-UNIQUE''
        ''one transition cannot state two consequences for one artifact kind'') @
      (if ac_action c = declare_absent
       then fail_if (ac_artifact_id c \<noteq> [] \<or> ac_row_count c \<noteq> 0)
         (ValidationError cross_field path ''LIF-ABSENT-ARTIFACT''
           ''an explicitly absent artifact has no ID and zero rows'')
       else fail_if (ac_artifact_id c = [])
         (ValidationError missing_field (path @ ''/artifact_id'') ''LIF-ARTIFACT-ID''
           ''retained or appended artifact evidence requires an ID'')) @
      consequence_errors (Suc index) (insert (ac_kind c) seen) rest)"

text \<open>The four artifacts only a started measurement can have.\<close>

definition measurement_kinds :: "LifecycleArtifactKind list" where
  "measurement_kinds = [producer_observations, consumer_observations, counts, phase_integrity]"

definition validate_consequences ::
  "RunPhase \<Rightarrow> ArtifactConsequence list \<Rightarrow> ValidationError list" where
  "validate_consequences target consequences =
     (if consequences = []
      then [ValidationError missing_evidence ''$transition/artifact_consequences''
        ''LIF-TRANSITION-CONSEQUENCE''
        ''every lifecycle transition requires explicit artifact consequences'']
      else
        consequence_errors 0 {} consequences @
        fail_if (is_failure_phase target \<and> \<not> has_present_artifact_kind consequences failure_evidence)
          (ValidationError missing_evidence ''$transition/artifact_consequences''
            ''LIF-FAILURE-EVIDENCE'' ''a failure transition must append or retain failure evidence'') @
        (if is_early_failure target
         then concat (map (\<lambda>kind.
           fail_if (has_present_artifact_kind consequences kind)
             (ValidationError cross_field ''$transition/artifact_consequences'' ''LIF-NO-FABRICATION''
               ''pre-measurement failure cannot claim measurement artifacts'') @
           fail_if (\<not> has_artifact_kind consequences kind)
             (ValidationError missing_evidence ''$transition/artifact_consequences''
               ''LIF-ABSENCE-EXPLICIT''
               ''pre-measurement failure must explicitly declare measurement artifacts absent''))
           measurement_kinds)
         else []) @
        (if target = completed
         then concat (map (\<lambda>kind.
           fail_if (\<not> has_present_artifact_kind consequences kind)
             (ValidationError missing_evidence ''$transition/artifact_consequences''
               ''LIF-COMPLETED-CANDIDATES''
               ''completed execution requires every Stage 10 artifact candidate''))
           measurement_kinds)
         else []) @
        fail_if (target = finalized_invalid \<and>
            \<not> has_present_artifact_kind consequences failure_evidence)
          (ValidationError missing_evidence ''$transition/artifact_consequences''
            ''LIF-INVALID-EVIDENCE'' ''finalized invalid execution must retain failure evidence''))"

subsection \<open>The machine\<close>

record LifecycleContext =
  lc_run_id :: Identifier
  lc_block_id :: Identifier
  lc_warmup_schedule_id :: Identifier
  lc_measurement_schedule_id :: Identifier
  lc_warmup_namespace_id :: Identifier
  lc_measurement_namespace_id :: Identifier
  lc_transition_clock_id :: string
  lc_transition_time_unit :: string

record TransitionRequest =
  treq_next :: RunPhase
  treq_timestamp :: u64
  treq_actor :: string
  treq_reason :: string
  treq_artifact_consequences :: "ArtifactConsequence list"

record TransitionRecord =
  tr_sequence :: u64
  tr_from :: "RunPhase option"
  tr_to :: RunPhase
  tr_protocol_lifecycle_state :: LifecycleState
  tr_timestamp :: u64
  tr_actor :: string
  tr_reason :: string
  tr_artifact_consequences :: "ArtifactConsequence list"

datatype NonFailureOutcome = reconciled_full | genuine_low_effective_tail

fun NonFailureOutcome_to_string :: "NonFailureOutcome \<Rightarrow> string" where
  "NonFailureOutcome_to_string reconciled_full = ''RECONCILED_FULL''"
| "NonFailureOutcome_to_string genuine_low_effective_tail = ''GENUINE_LOW_EFFECTIVE_TAIL''"

record OutcomeAnnotation =
  oa_outcome :: NonFailureOutcome
  oa_timestamp :: u64
  oa_actor :: string
  oa_reason :: string
  oa_lifecycle_failure :: bool
  oa_replacement_trigger :: bool

text \<open>\<^verbatim>\<open>RecoveryRequest\<close> and \<^verbatim>\<open>RecoveryRecord\<close> have the same fields.\<close>

record RecoveryRequest =
  rr_policy_id :: string
  rr_duration_ticks :: u64
  rr_started_at :: u64
  rr_completed_at :: u64
  rr_actor :: string
  rr_reason :: string
  rr_evidence_artifact_id :: string

type_synonym RecoveryRecord = RecoveryRequest

record RunStateMachine =
  sm_context :: LifecycleContext
  sm_phase :: RunPhase
  sm_protocol_state :: LifecycleState
  sm_last_timestamp :: u64
  sm_transitions :: "TransitionRecord list"
  sm_outcomes :: "OutcomeAnnotation list"
  sm_recoveries :: "RecoveryRecord list"

definition RunStateMachine_create ::
  "LifecycleContext \<Rightarrow> TransitionRequest \<Rightarrow> RunStateMachine Result" where
  "RunStateMachine_create context genesis =
     result_of
       (fail_if (lc_warmup_namespace_id context = lc_measurement_namespace_id context)
          (ValidationError cross_field ''$lifecycle/namespaces'' ''LIF-NAMESPACE-SEPARATION''
            ''warm-up and measurement namespaces must be distinct'') @
        fail_if (lc_warmup_schedule_id context = lc_measurement_schedule_id context)
          (ValidationError cross_field ''$lifecycle/schedules'' ''LIF-SCHEDULE-SEPARATION''
            ''warm-up and measurement schedules must have distinct identities'') @
        fail_if (lc_transition_clock_id context = [] \<or> lc_transition_time_unit context = [])
          (ValidationError missing_field ''$lifecycle/transition_clock'' ''LIF-TRANSITION-CLOCK''
            ''transition clock identity and unit are explicit required values'') @
        fail_if (treq_next genesis \<noteq> planned)
          (ValidationError cross_field ''$transition/next'' ''LIF-GENESIS-PLANNED''
            ''the initial lifecycle record must create PLANNED'') @
        fail_if (treq_actor genesis = [] \<or> treq_reason genesis = [])
          (ValidationError missing_field ''$transition'' ''LIF-TRANSITION-WHO-WHY''
            ''every transition requires a nonempty actor and reason'') @
        validate_consequences (treq_next genesis) (treq_artifact_consequences genesis))
       \<lparr>sm_context = context, sm_phase = planned, sm_protocol_state = LS_planned,
        sm_last_timestamp = treq_timestamp genesis,
        sm_transitions = [\<lparr>tr_sequence = 0, tr_from = None, tr_to = planned,
          tr_protocol_lifecycle_state = LS_planned, tr_timestamp = treq_timestamp genesis,
          tr_actor = treq_actor genesis, tr_reason = treq_reason genesis,
          tr_artifact_consequences = treq_artifact_consequences genesis\<rparr>],
        sm_outcomes = [], sm_recoveries = []\<rparr>"

definition transition_errors :: "RunStateMachine \<Rightarrow> TransitionRequest \<Rightarrow> ValidationError list" where
  "transition_errors m request =
     fail_if (\<not> is_legal_transition (sm_phase m) (treq_next request))
       (ValidationError cross_field ''$transition/next'' ''LIF-ILLEGAL-TRANSITION''
         ''transition is not in the accepted Stage 10 state graph'') @
     fail_if (treq_actor request = [] \<or> treq_reason request = [])
       (ValidationError missing_field ''$transition'' ''LIF-TRANSITION-WHO-WHY''
         ''every transition requires a nonempty actor and reason'') @
     fail_if (treq_timestamp request < sm_last_timestamp m)
       (ValidationError cross_field ''$transition/timestamp'' ''LIF-TRANSITION-TIME''
         ''transition timestamps must be nondecreasing'') @
     validate_consequences (treq_next request) (treq_artifact_consequences request)"

definition transition ::
  "RunStateMachine \<Rightarrow> TransitionRequest \<Rightarrow> ValidationError list \<times> RunStateMachine" where
  "transition m request =
     (let errors = transition_errors m request in
      if errors \<noteq> [] then (errors, m)
      else
        let previous = sm_phase m;
            state = protocol_projection (treq_next request) (sm_protocol_state m)
        in ([], m\<lparr>sm_protocol_state := state, sm_phase := treq_next request,
             sm_last_timestamp := treq_timestamp request,
             sm_transitions := sm_transitions m @
               [\<lparr>tr_sequence = of_nat (length (sm_transitions m)), tr_from = Some previous,
                 tr_to = treq_next request, tr_protocol_lifecycle_state = state,
                 tr_timestamp = treq_timestamp request, tr_actor = treq_actor request,
                 tr_reason = treq_reason request,
                 tr_artifact_consequences = treq_artifact_consequences request\<rparr>]\<rparr>))"

definition outcome_errors :: "RunStateMachine \<Rightarrow> OutcomeAnnotation \<Rightarrow> ValidationError list" where
  "outcome_errors m annotation =
     fail_if (sm_phase m \<noteq> completed \<and> sm_phase m \<noteq> finalized_valid)
       (ValidationError cross_field ''$outcome'' ''LIF-OUTCOME-PHASE''
         ''FULL and effective-tail outcomes are recorded only after completion'') @
     fail_if (oa_actor annotation = [] \<or> oa_reason annotation = [])
       (ValidationError missing_field ''$outcome'' ''LIF-OUTCOME-WHO-WHY''
         ''outcome annotation requires actor and reason'') @
     fail_if (oa_timestamp annotation < sm_last_timestamp m)
       (ValidationError cross_field ''$outcome/timestamp'' ''LIF-OUTCOME-TIME''
         ''outcome timestamp precedes lifecycle evidence'') @
     fail_if (oa_lifecycle_failure annotation \<or> oa_replacement_trigger annotation)
       (ValidationError cross_field ''$outcome'' ''LIF-OUTCOME-NOT-FAILURE''
         ''reconciled FULL and genuine low N_eff are not lifecycle or replacement triggers'')"

definition record_non_failure_outcome ::
  "RunStateMachine \<Rightarrow> OutcomeAnnotation \<Rightarrow> ValidationError list \<times> RunStateMachine" where
  "record_non_failure_outcome m annotation =
     (let errors = outcome_errors m annotation in
      if errors \<noteq> [] then (errors, m)
      else ([], m\<lparr>sm_last_timestamp := oa_timestamp annotation,
                  sm_outcomes := sm_outcomes m @ [annotation]\<rparr>))"

definition recovery_errors :: "RunStateMachine \<Rightarrow> RecoveryRequest \<Rightarrow> ValidationError list" where
  "recovery_errors m request =
     fail_if (\<not> terminal (sm_phase m))
       (ValidationError cross_field ''$recovery'' ''LIF-RECOVERY-OUTSIDE-RUN''
         ''recovery may begin only after lifecycle finalization'') @
     fail_if (rr_policy_id request = [] \<or> rr_actor request = [] \<or> rr_reason request = [] \<or>
         rr_evidence_artifact_id request = [] \<or> rr_duration_ticks request = 0)
       (ValidationError missing_field ''$recovery'' ''LIF-RECOVERY-EXPLICIT''
         ''recovery policy, positive duration, actor, reason, and evidence are required'') @
     fail_if (rr_started_at request < sm_last_timestamp m \<or>
         rr_completed_at request < rr_started_at request \<or>
         rr_completed_at request - rr_started_at request < rr_duration_ticks request)
       (ValidationError cross_field ''$recovery/timestamps'' ''LIF-RECOVERY-DURATION''
         ''recovery must occur after finalization and cover its explicit duration'')"

definition record_recovery ::
  "RunStateMachine \<Rightarrow> RecoveryRequest \<Rightarrow> ValidationError list \<times> RunStateMachine" where
  "record_recovery m request =
     (let errors = recovery_errors m request in
      if errors \<noteq> [] then (errors, m)
      else ([], m\<lparr>sm_last_timestamp := rr_completed_at request,
                  sm_recoveries := sm_recoveries m @ [request]\<rparr>))"

subsection \<open>Reachable machines\<close>

text \<open>
  A machine is created once and then driven by its three operations, in any order and with
  any arguments; an operation that reports errors is also a step.
\<close>

inductive lifecycle_reachable :: "RunStateMachine \<Rightarrow> bool" where
  created: "RunStateMachine_create ctx genesis = Inr m \<Longrightarrow> lifecycle_reachable m"
| transition: "lifecycle_reachable m \<Longrightarrow> lifecycle_reachable (snd (transition m request))"
| outcome: "lifecycle_reachable m \<Longrightarrow>
    lifecycle_reachable (snd (record_non_failure_outcome m annotation))"
| recovery: "lifecycle_reachable m \<Longrightarrow> lifecycle_reachable (snd (record_recovery m recovery_request))"

subsection \<open>What each validator accepts\<close>

lemma has_present_imp_has [simp]:
  "has_present_artifact_kind cs k \<Longrightarrow> has_artifact_kind cs k"
  by (auto simp: has_present_artifact_kind_def has_artifact_kind_def list_ex_iff)

lemma consequence_errors_Nil:
  "consequence_errors n seen cs = [] \<longleftrightarrow>
     distinct (map ac_kind cs) \<and> ac_kind ` set cs \<inter> seen = {} \<and>
     (\<forall>c \<in> set cs. if ac_action c = declare_absent
        then ac_artifact_id c = [] \<and> ac_row_count c = 0 else ac_artifact_id c \<noteq> [])"
  by (induction cs arbitrary: n seen) (auto simp: Let_def)

lemma validate_consequences_Nil:
  "validate_consequences target cs = [] \<longleftrightarrow>
     cs \<noteq> [] \<and> consequence_errors 0 {} cs = [] \<and>
     (is_failure_phase target \<or> target = finalized_invalid \<longrightarrow>
        has_present_artifact_kind cs failure_evidence) \<and>
     (is_early_failure target \<longrightarrow>
        (\<forall>k \<in> set measurement_kinds. has_artifact_kind cs k \<and> \<not> has_present_artifact_kind cs k)) \<and>
     (target = completed \<longrightarrow> (\<forall>k \<in> set measurement_kinds. has_present_artifact_kind cs k))"
  by (auto simp: validate_consequences_def)

lemma RunStateMachine_create_Inr:
  "RunStateMachine_create context genesis = Inr m \<longleftrightarrow>
     lc_warmup_namespace_id context \<noteq> lc_measurement_namespace_id context \<and>
     lc_warmup_schedule_id context \<noteq> lc_measurement_schedule_id context \<and>
     lc_transition_clock_id context \<noteq> [] \<and> lc_transition_time_unit context \<noteq> [] \<and>
     treq_next genesis = planned \<and> treq_actor genesis \<noteq> [] \<and> treq_reason genesis \<noteq> [] \<and>
     validate_consequences planned (treq_artifact_consequences genesis) = [] \<and>
     m = \<lparr>sm_context = context, sm_phase = planned, sm_protocol_state = LS_planned,
        sm_last_timestamp = treq_timestamp genesis,
        sm_transitions = [\<lparr>tr_sequence = 0, tr_from = None, tr_to = planned,
          tr_protocol_lifecycle_state = LS_planned, tr_timestamp = treq_timestamp genesis,
          tr_actor = treq_actor genesis, tr_reason = treq_reason genesis,
          tr_artifact_consequences = treq_artifact_consequences genesis\<rparr>],
        sm_outcomes = [], sm_recoveries = []\<rparr>"
  by (auto simp: RunStateMachine_create_def)

lemma transition_errors_Nil:
  "transition_errors m r = [] \<longleftrightarrow>
     is_legal_transition (sm_phase m) (treq_next r) \<and> treq_actor r \<noteq> [] \<and> treq_reason r \<noteq> [] \<and>
     sm_last_timestamp m \<le> treq_timestamp r \<and>
     validate_consequences (treq_next r) (treq_artifact_consequences r) = []"
  by (auto simp: transition_errors_def)

lemma outcome_errors_Nil:
  "outcome_errors m a = [] \<longleftrightarrow>
     (sm_phase m = completed \<or> sm_phase m = finalized_valid) \<and> oa_actor a \<noteq> [] \<and> oa_reason a \<noteq> [] \<and>
     sm_last_timestamp m \<le> oa_timestamp a \<and>
     \<not> oa_lifecycle_failure a \<and> \<not> oa_replacement_trigger a"
  by (auto simp: outcome_errors_def)

lemma recovery_errors_Nil:
  "recovery_errors m r = [] \<longleftrightarrow>
     terminal (sm_phase m) \<and> rr_policy_id r \<noteq> [] \<and> rr_actor r \<noteq> [] \<and> rr_reason r \<noteq> [] \<and>
     rr_evidence_artifact_id r \<noteq> [] \<and> rr_duration_ticks r \<noteq> 0 \<and>
     sm_last_timestamp m \<le> rr_started_at r \<and> rr_started_at r \<le> rr_completed_at r \<and>
     rr_duration_ticks r \<le> rr_completed_at r - rr_started_at r"
  by (auto simp: recovery_errors_def)

lemmas lifecycle_ops = transition_def record_non_failure_outcome_def record_recovery_def

subsection \<open>The journal\<close>

text \<open>
  A well-formed journal: it starts with the creation of \<open>planned\<close>, numbers its records from
  0, chains them along legal transitions, and keeps time, projection and consequence rules.
\<close>

definition record_ok :: "TransitionRecord \<Rightarrow> bool" where
  "record_ok r \<longleftrightarrow> tr_actor r \<noteq> [] \<and> tr_reason r \<noteq> [] \<and>
     validate_consequences (tr_to r) (tr_artifact_consequences r) = []"

definition record_follows :: "TransitionRecord \<Rightarrow> TransitionRecord \<Rightarrow> bool" where
  "record_follows r s \<longleftrightarrow> tr_from s = Some (tr_to r) \<and> is_legal_transition (tr_to r) (tr_to s) \<and>
     tr_timestamp r \<le> tr_timestamp s \<and>
     tr_protocol_lifecycle_state s =
       protocol_projection (tr_to s) (tr_protocol_lifecycle_state r)"

definition journal_ok :: "TransitionRecord list \<Rightarrow> bool" where
  "journal_ok rs \<longleftrightarrow>
     rs \<noteq> [] \<and> tr_from (hd rs) = None \<and> tr_to (hd rs) = planned \<and>
     tr_protocol_lifecycle_state (hd rs) = LS_planned \<and>
     (\<forall>i < length rs. tr_sequence (rs ! i) = of_nat i) \<and>
     successively record_follows rs \<and> list_all record_ok rs"

definition machine_ok :: "RunStateMachine \<Rightarrow> bool" where
  "machine_ok m \<longleftrightarrow>
     journal_ok (sm_transitions m) \<and>
     tr_to (last (sm_transitions m)) = sm_phase m \<and>
     tr_protocol_lifecycle_state (last (sm_transitions m)) = sm_protocol_state m \<and>
     tr_timestamp (last (sm_transitions m)) \<le> sm_last_timestamp m"

lemma journal_ok_append:
  assumes "journal_ok rs" and "record_follows (last rs) r" and "record_ok r"
    and "tr_sequence r = of_nat (length rs)"
  shows "journal_ok (rs @ [r])"
  using assms
  by (auto simp: journal_ok_def successively_append_iff nth_append less_Suc_eq)

lemma machine_ok_create: "RunStateMachine_create context genesis = Inr m \<Longrightarrow> machine_ok m"
  by (auto simp: RunStateMachine_create_Inr machine_ok_def journal_ok_def record_ok_def)

lemma machine_ok_transition:
  assumes "machine_ok m"
  shows "machine_ok (snd (transition m r))"
proof (cases "transition_errors m r = []")
  case True
  with assms show ?thesis
    by (auto simp: machine_ok_def transition_def Let_def transition_errors_Nil record_ok_def
        record_follows_def intro!: journal_ok_append)
qed (use assms in \<open>simp add: transition_def\<close>)

lemma machine_ok_outcome: "machine_ok m \<Longrightarrow> machine_ok (snd (record_non_failure_outcome m a))"
  by (auto simp: machine_ok_def record_non_failure_outcome_def Let_def outcome_errors_Nil)

lemma machine_ok_recovery: "machine_ok m \<Longrightarrow> machine_ok (snd (record_recovery m r))"
  by (auto simp: machine_ok_def record_recovery_def Let_def recovery_errors_Nil)

lemma lifecycle_reachable_ok: "lifecycle_reachable m \<Longrightarrow> machine_ok m"
  by (induction rule: lifecycle_reachable.induct)
    (auto intro: machine_ok_create machine_ok_transition machine_ok_outcome machine_ok_recovery)

subsection \<open>Paths of phases\<close>

definition phase_path :: "RunPhase list \<Rightarrow> bool" where
  "phase_path ps \<longleftrightarrow> ps \<noteq> [] \<and> hd ps = planned \<and> successively is_legal_transition ps"

lemma phase_path_induct [consumes 1, case_names start step]:
  assumes "phase_path ps"
    and "P [planned]"
    and "\<And>ps p. phase_path ps \<Longrightarrow> P ps \<Longrightarrow> is_legal_transition (last ps) p \<Longrightarrow> P (ps @ [p])"
  shows "P ps"
  using assms(1)
proof (induction ps rule: rev_induct)
  case Nil
  then show ?case by (simp add: phase_path_def)
next
  case (snoc p ps)
  show ?case
  proof (cases "ps = []")
    case True
    with snoc.prems assms(2) show ?thesis by (simp add: phase_path_def)
  next
    case False
    then have "phase_path ps" and "is_legal_transition (last ps) p"
      using snoc.prems by (auto simp: phase_path_def successively_append_iff)
    then show ?thesis using assms(3) snoc.IH by blast
  qed
qed

lemma journal_phase_path:
  assumes "journal_ok rs"
  shows "phase_path (map tr_to rs)"
proof -
  have "successively record_follows rs \<Longrightarrow> successively is_legal_transition (map tr_to rs)"
    unfolding successively_map by (erule successively_mono) (simp add: record_follows_def)
  then show ?thesis
    using assms by (auto simp: journal_ok_def phase_path_def hd_map)
qed

text \<open>
  The phases of a run without failure have one history each; the rank counts the steps from
  \<open>planned\<close> and bounds every path.
\<close>

definition main_line :: "RunPhase list" where
  "main_line = [planned, preflight, preparation, warmup, logical_reset, measurement_started,
     producer_complete, drain, completed, finalized_valid]"

definition spine :: "RunPhase \<Rightarrow> RunPhase list" where
  "spine p = (if p \<in> set main_line then takeWhile (\<lambda>q. q \<noteq> p) main_line @ [p] else [])"

lemmas spine_simps = spine_def main_line_def

fun phase_rank :: "RunPhase \<Rightarrow> nat" where
  "phase_rank planned = 0"
| "phase_rank preflight = 1"
| "phase_rank preparation = 2"
| "phase_rank warmup = 3"
| "phase_rank logical_reset = 4"
| "phase_rank measurement_started = 5"
| "phase_rank producer_complete = 6"
| "phase_rank drain = 7"
| "phase_rank finalized_valid = 9"
| "phase_rank finalized_invalid = 9"
| "phase_rank p = 8"

lemma phase_path_spine: "phase_path ps \<Longrightarrow> spine (last ps) \<noteq> [] \<Longrightarrow> ps = spine (last ps)"
proof (induction rule: phase_path_induct)
  case start
  then show ?case by (simp add: spine_simps)
next
  case (step ps p)
  from step.hyps(2) step.prems have "spine p = spine (last ps) @ [p]" and "spine (last ps) \<noteq> []"
    by (cases p; cases "last ps"; simp add: spine_simps)+
  with step.IH show ?case by simp
qed

lemma phase_path_rank: "phase_path ps \<Longrightarrow> length ps \<le> Suc (phase_rank (last ps))"
proof (induction rule: phase_path_induct)
  case start
  then show ?case by simp
next
  case (step ps p)
  from step.hyps(2) have "phase_rank (last ps) < phase_rank p"
    by (cases "last ps"; cases p; simp)
  with step.IH show ?case by simp
qed

lemma phase_path_early:
  "phase_path ps \<Longrightarrow> f \<in> set ps \<Longrightarrow> is_early_failure f \<Longrightarrow>
     (is_early_failure (last ps) \<or> last ps = finalized_invalid) \<and> measurement_started \<notin> set ps"
proof (induction rule: phase_path_induct)
  case start
  then show ?case by (simp add: is_early_failure_def)
next
  case (step ps p)
  show ?case
  proof (cases "f \<in> set ps")
    case True
    with step have "is_early_failure (last ps) \<or> last ps = finalized_invalid"
      and "measurement_started \<notin> set ps" by auto
    with step.hyps(2) show ?thesis
      by (auto simp: is_early_failure_def)
  next
    case False
    with step.prems have p: "is_early_failure p" by auto
    with step.hyps(2) have "last ps \<in> {preflight, preparation, warmup, logical_reset}"
      by (cases "last ps") (auto simp: is_early_failure_def)
    moreover from this have "ps = spine (last ps)"
      using phase_path_spine [OF step.hyps(1)] by (auto simp: spine_simps)
    ultimately have "measurement_started \<notin> set (spine (last ps))" and "ps = spine (last ps)"
      by (auto simp: spine_simps)
    then have "measurement_started \<notin> set ps" by metis
    with p show ?thesis by (auto simp: is_early_failure_def)
  qed
qed

subsection \<open>Outcomes and recoveries\<close>

definition recoveries_ok :: "RunStateMachine \<Rightarrow> bool" where
  "recoveries_ok m \<longleftrightarrow>
     (sm_recoveries m \<noteq> [] \<longrightarrow> terminal (sm_phase m) \<and>
        tr_timestamp (last (sm_transitions m)) \<le> rr_started_at (hd (sm_recoveries m)) \<and>
        rr_completed_at (last (sm_recoveries m)) \<le> sm_last_timestamp m) \<and>
     successively (\<lambda>r s. rr_completed_at r \<le> rr_started_at s) (sm_recoveries m) \<and>
     list_all (\<lambda>r. 0 < rr_duration_ticks r \<and>
        unat (rr_started_at r) + unat (rr_duration_ticks r) \<le> unat (rr_completed_at r))
       (sm_recoveries m) \<and>
     (sm_outcomes m \<noteq> [] \<longrightarrow> completed \<in> tr_to ` set (sm_transitions m))"

lemma no_transition_from_terminal: "terminal p \<Longrightarrow> \<not> is_legal_transition p q"
  by (auto simp: terminal_def)

lemma recovery_interval:
  assumes "s \<le> c" and "d \<le> c - (s :: u64)"
  shows "unat s + unat d \<le> unat c"
proof -
  have "unat d \<le> unat c - unat s" and "unat s \<le> unat c"
    using assms by (simp_all add: word_le_nat_alt unat_minus_u64)
  then show ?thesis by linarith
qed

lemma recoveries_ok_recovery:
  assumes ok: "machine_ok m" "recoveries_ok m"
  shows "recoveries_ok (snd (record_recovery m r))"
proof (cases "recovery_errors m r = []")
  case True
  then have le: "sm_last_timestamp m \<le> rr_started_at r" and d: "0 < rr_duration_ticks r"
    and i: "unat (rr_started_at r) + unat (rr_duration_ticks r) \<le> unat (rr_completed_at r)"
    and t: "terminal (sm_phase m)"
    using recovery_interval [of "rr_started_at r" "rr_completed_at r" "rr_duration_ticks r"]
    by (simp_all add: recovery_errors_Nil word_gt_0)
  have "tr_timestamp (last (sm_transitions m)) \<le> rr_started_at r"
    using ok(1) le by (auto simp: machine_ok_def)
  with True ok(2) le d i t show ?thesis
    by (auto simp: recoveries_ok_def record_recovery_def successively_append_iff hd_append)
qed (use ok in \<open>simp add: record_recovery_def\<close>)

lemma recoveries_ok_transition:
  assumes "recoveries_ok m"
  shows "recoveries_ok (snd (transition m r))"
proof (cases "transition_errors m r = []")
  case True
  then have "sm_recoveries m = []"
    using assms no_transition_from_terminal [of "sm_phase m" "treq_next r"]
    by (auto simp: recoveries_ok_def transition_errors_Nil)
  with assms show ?thesis
    by (auto simp: recoveries_ok_def transition_def Let_def)
qed (use assms in \<open>simp add: transition_def\<close>)

lemma recoveries_ok_outcome:
  assumes "machine_ok m" and "recoveries_ok m"
  shows "recoveries_ok (snd (record_non_failure_outcome m a))"
proof (cases "outcome_errors m a = []")
  case True
  then have "sm_phase m = completed \<or> sm_phase m = finalized_valid"
    and le: "sm_last_timestamp m \<le> oa_timestamp a" by (auto simp: outcome_errors_Nil)
  moreover have path: "phase_path (map tr_to (sm_transitions m))"
    and "last (map tr_to (sm_transitions m)) = sm_phase m"
    using assms(1) journal_phase_path by (auto simp: machine_ok_def journal_ok_def last_map)
  ultimately have "map tr_to (sm_transitions m) = spine completed \<or>
      map tr_to (sm_transitions m) = spine finalized_valid"
    using phase_path_spine [OF path] by (auto simp: spine_simps)
  then have "completed \<in> set (map tr_to (sm_transitions m))"
    by (elim disjE) (simp_all add: spine_simps del: set_map)
  with True assms le show ?thesis
    by (auto simp: recoveries_ok_def record_non_failure_outcome_def)
qed (use assms in \<open>simp add: record_non_failure_outcome_def\<close>)

lemma lifecycle_reachable_recoveries: "lifecycle_reachable m \<Longrightarrow> recoveries_ok m"
proof (induction rule: lifecycle_reachable.induct)
  case (created ctx genesis m)
  then show ?case by (auto simp: RunStateMachine_create_Inr recoveries_ok_def)
qed (auto intro: recoveries_ok_transition recoveries_ok_outcome recoveries_ok_recovery
    lifecycle_reachable_ok)

subsection \<open>Properties\<close>

text \<open>A run for the witnesses: its context, one request per phase, and the finished machine.\<close>

definition example_context :: LifecycleContext where
  "example_context =
     \<lparr>lc_run_id = Identifier ''run'', lc_block_id = Identifier ''block'',
      lc_warmup_schedule_id = Identifier ''ws'', lc_measurement_schedule_id = Identifier ''ms'',
      lc_warmup_namespace_id = Identifier ''wn'', lc_measurement_namespace_id = Identifier ''mn'',
      lc_transition_clock_id = ''clock'', lc_transition_time_unit = ''ns''\<rparr>"

definition example_present :: "LifecycleArtifactKind \<Rightarrow> ArtifactConsequence" where
  "example_present k =
     \<lparr>ac_kind = k, ac_action = append_complete, ac_artifact_id = ''a'', ac_row_count = 1\<rparr>"

definition example_absent :: "LifecycleArtifactKind \<Rightarrow> ArtifactConsequence" where
  "example_absent k =
     \<lparr>ac_kind = k, ac_action = declare_absent, ac_artifact_id = [], ac_row_count = 0\<rparr>"

definition example_request :: "RunPhase \<Rightarrow> TransitionRequest" where
  "example_request p =
     \<lparr>treq_next = p, treq_timestamp = of_nat (phase_rank p), treq_actor = ''controller'',
      treq_reason = ''step'',
      treq_artifact_consequences =
        example_present failure_evidence #
        map (if is_early_failure p then example_absent else example_present) measurement_kinds\<rparr>"

fun example_run :: "RunStateMachine \<Rightarrow> RunPhase list \<Rightarrow> RunStateMachine" where
  "example_run m [] = m"
| "example_run m (p # ps) = example_run (snd (transition m (example_request p))) ps"

definition example_machine :: "RunPhase list \<Rightarrow> RunStateMachine" where
  "example_machine ps =
     (case RunStateMachine_create example_context (example_request planned) of
        Inr m \<Rightarrow> example_run m ps)"

definition example_recovery :: RecoveryRequest where
  "example_recovery =
     \<lparr>rr_policy_id = ''p'', rr_duration_ticks = 5, rr_started_at = 20, rr_completed_at = 30,
      rr_actor = ''controller'', rr_reason = ''cool down'', rr_evidence_artifact_id = ''e''\<rparr>"

lemmas example_defs = example_context_def example_present_def example_absent_def
  example_request_def measurement_kinds_def is_early_failure_def is_failure_phase_def

lemma example_consequences: "validate_consequences p (treq_artifact_consequences (example_request p)) = []"
  by (auto simp: validate_consequences_Nil consequence_errors_Nil has_artifact_kind_def
      has_present_artifact_kind_def example_defs)

lemma example_created:
  "\<exists>m. RunStateMachine_create example_context (example_request planned) = Inr m \<and>
     sm_phase m = planned \<and> sm_last_timestamp m = 0"
  using example_consequences [of planned]
  by (auto simp: RunStateMachine_create_Inr example_context_def example_request_def)

lemma example_step:
  assumes "is_legal_transition (sm_phase m) p" and "sm_last_timestamp m \<le> of_nat (phase_rank p)"
  shows "sm_phase (snd (transition m (example_request p))) = p"
    and "sm_last_timestamp (snd (transition m (example_request p))) = of_nat (phase_rank p)"
    and "sm_transitions (snd (transition m (example_request p))) \<noteq> []"
proof -
  have "transition_errors m (example_request p) = []"
    using assms example_consequences [of p] by (simp add: transition_errors_Nil example_request_def)
  then show "sm_phase (snd (transition m (example_request p))) = p"
    and "sm_last_timestamp (snd (transition m (example_request p))) = of_nat (phase_rank p)"
    and "sm_transitions (snd (transition m (example_request p))) \<noteq> []"
    by (simp_all add: transition_def example_request_def Let_def)
qed

lemma example_run_reachable: "lifecycle_reachable m \<Longrightarrow> lifecycle_reachable (example_run m ps)"
  by (induction ps arbitrary: m) (auto intro: lifecycle_reachable.transition)

lemma example_machine_reachable: "lifecycle_reachable (example_machine ps)"
  using example_created by (auto simp: example_machine_def intro!: example_run_reachable
      intro: lifecycle_reachable.created)

lemma example_machine_valid: "sm_phase (example_machine (tl main_line)) = finalized_valid"
  using example_created by (auto simp: example_machine_def main_line_def example_step)

lemma example_machine_early:
  "sm_phase (example_machine [preflight, pre_run_failure]) = pre_run_failure"
  using example_created by (auto simp: example_machine_def example_step)

text \<open>
  C21. The transition journal of every reachable machine is a legal run: it begins with the
  creation of PLANNED, its records are numbered consecutively from 0, each record starts
  where the previous one ended along an edge of the state graph, timestamps do not decrease,
  each record's protocol state is the projection of its phase, every record has passed the
  consequence rules, and the machine's phase and state are those of the last record.
\<close>

theorem lifecycle_journal_sound:
  assumes "lifecycle_reachable m"
  shows "journal_ok (sm_transitions m) \<and>
    tr_to (last (sm_transitions m)) = sm_phase m \<and>
    tr_protocol_lifecycle_state (last (sm_transitions m)) = sm_protocol_state m \<and>
    tr_timestamp (last (sm_transitions m)) \<le> sm_last_timestamp m"
  using lifecycle_reachable_ok [OF assms] by (simp add: machine_ok_def)

theorem lifecycle_journal_sound_witness:
  "journal_ok (sm_transitions (example_machine (tl main_line))) \<and>
   tr_to (last (sm_transitions (example_machine (tl main_line)))) = finalized_valid"
  using lifecycle_journal_sound [OF example_machine_reachable [of "tl main_line"]]
    example_machine_valid by simp

text \<open>
  C22. A run can end as FINALIZED_VALID in one way only: its journal is the ten phases from
  PLANNED through COMPLETED in order, its protocol state is COMPLETED, and the COMPLETED
  record presents all four measurement artifacts.
\<close>

theorem finalized_valid_history:
  assumes "lifecycle_reachable m" and "sm_phase m = finalized_valid"
  shows "map tr_to (sm_transitions m) =
           [planned, preflight, preparation, warmup, logical_reset, measurement_started,
            producer_complete, drain, completed, finalized_valid] \<and>
         sm_protocol_state m = LS_completed \<and>
         (\<forall>k \<in> set measurement_kinds.
            has_present_artifact_kind (tr_artifact_consequences (sm_transitions m ! 8)) k)"
proof -
  let ?rs = "sm_transitions m"
  have ok: "journal_ok ?rs" and l: "tr_to (last ?rs) = finalized_valid"
    and st: "tr_protocol_lifecycle_state (last ?rs) = sm_protocol_state m"
    using lifecycle_reachable_ok [OF assms(1)] assms(2) by (auto simp: machine_ok_def)
  then have "last (map tr_to ?rs) = finalized_valid"
    by (simp add: last_map journal_ok_def)
  then have rs: "map tr_to ?rs = main_line"
    using phase_path_spine [OF journal_phase_path [OF ok]] by (simp add: spine_simps)
  from arg_cong [OF rs, of length] have len: "length ?rs = 10" by (simp add: main_line_def)
  have last: "last ?rs = ?rs ! 9"
    using ok len by (simp add: journal_ok_def last_conv_nth)
  have "tr_to (?rs ! 8) = completed"
    using arg_cong [OF rs, of "\<lambda>l. l ! 8"] len by (simp add: main_line_def)
  moreover have "record_ok (?rs ! 8)"
    using ok len by (simp add: journal_ok_def list_all_length)
  ultimately have "\<forall>k \<in> set measurement_kinds.
      has_present_artifact_kind (tr_artifact_consequences (?rs ! 8)) k"
    by (simp add: record_ok_def validate_consequences_Nil)
  moreover have "record_follows (?rs ! 8) (?rs ! Suc 8)"
    using ok len successively_nth [of record_follows ?rs 8] by (simp add: journal_ok_def)
  then have "tr_protocol_lifecycle_state (?rs ! 9) = LS_completed"
    using l by (auto simp: record_follows_def last)
  then have "sm_protocol_state m = LS_completed"
    using st by (simp add: last)
  ultimately show ?thesis using rs by (simp add: main_line_def)
qed

theorem finalized_valid_history_witness:
  "sm_phase (example_machine (tl main_line)) = finalized_valid \<and>
   map tr_to (sm_transitions (example_machine (tl main_line))) = main_line"
  using finalized_valid_history [OF example_machine_reachable example_machine_valid]
    example_machine_valid by (simp add: main_line_def)

text \<open>
  No fabrication: when a run failed before its measurement started, no measurement phase
  is in its journal, and the failure record declares each of the four measurement artifacts
  absent and presents failure evidence.
\<close>

theorem early_failure_no_measurement:
  assumes "lifecycle_reachable m" and "r \<in> set (sm_transitions m)" and "is_early_failure (tr_to r)"
  shows "measurement_started \<notin> tr_to ` set (sm_transitions m) \<and>
    has_present_artifact_kind (tr_artifact_consequences r) failure_evidence \<and>
    (\<forall>k \<in> set measurement_kinds. has_artifact_kind (tr_artifact_consequences r) k \<and>
       \<not> has_present_artifact_kind (tr_artifact_consequences r) k)"
proof -
  have ok: "journal_ok (sm_transitions m)"
    using lifecycle_reachable_ok [OF assms(1)] by (simp add: machine_ok_def)
  then have "validate_consequences (tr_to r) (tr_artifact_consequences r) = []"
    using assms(2) by (auto simp: journal_ok_def list_all_iff record_ok_def)
  moreover have "is_failure_phase (tr_to r)"
    using assms(3) by (auto simp: is_early_failure_def is_failure_phase_def)
  moreover have "measurement_started \<notin> set (map tr_to (sm_transitions m))"
    using phase_path_early [OF journal_phase_path [OF ok], of "tr_to r"] assms(2,3) by simp
  ultimately show ?thesis
    using assms(3) by (simp add: validate_consequences_Nil)
qed

theorem early_failure_no_measurement_witness:
  "is_early_failure (sm_phase (example_machine [preflight, pre_run_failure])) \<and>
   measurement_started \<notin> tr_to ` set (sm_transitions (example_machine [preflight, pre_run_failure]))"
proof -
  let ?m = "example_machine [preflight, pre_run_failure]"
  have ok: "machine_ok ?m" by (rule lifecycle_reachable_ok [OF example_machine_reachable])
  have early: "is_early_failure (sm_phase ?m)"
    by (simp add: example_machine_early is_early_failure_def)
  have "last (sm_transitions ?m) \<in> set (sm_transitions ?m)"
    using ok by (simp add: machine_ok_def journal_ok_def)
  from early_failure_no_measurement [OF example_machine_reachable this] early ok
  show ?thesis by (simp add: machine_ok_def)
qed


text \<open>
  Every run is finite and ends for good: a reachable machine has at most ten transition
  records, and once it is finalized every further transition is rejected.
\<close>

theorem lifecycle_bounded:
  assumes "lifecycle_reachable m"
  shows "length (sm_transitions m) \<le> 10 \<and>
    (if terminal (sm_phase m) then \<forall>r. fst (transition m r) \<noteq> [] \<and> snd (transition m r) = m
     else True)"
proof -
  have "phase_path (map tr_to (sm_transitions m))"
    using lifecycle_reachable_ok [OF assms] journal_phase_path by (simp add: machine_ok_def)
  from phase_path_rank [OF this]
  have "length (sm_transitions m) \<le> Suc (phase_rank (last (map tr_to (sm_transitions m))))" by simp
  moreover have "phase_rank p \<le> 9" for p by (cases p) auto
  from this [of "last (map tr_to (sm_transitions m))"]
  have "Suc (phase_rank (last (map tr_to (sm_transitions m)))) \<le> 10" by simp
  ultimately have "length (sm_transitions m) \<le> 10" by (rule le_trans)
  moreover have "transition_errors m r \<noteq> []" if "terminal (sm_phase m)" for r
    using no_transition_from_terminal [OF that] by (simp add: transition_errors_Nil)
  ultimately show ?thesis by (auto simp: transition_def)
qed

theorem lifecycle_bounded_witness:
  "length (sm_transitions (example_machine (tl main_line))) \<le> 10 \<and>
   (\<forall>r. fst (transition (example_machine (tl main_line)) r) \<noteq> [])"
  using lifecycle_bounded [OF example_machine_reachable [of "tl main_line"]] example_machine_valid
  by (simp add: terminal_def)

text \<open>
  Recoveries lie outside the run: if a reachable machine has recoveries it is finalized,
  they start after its last transition, do not overlap, and each covers its stated positive
  duration; outcomes are recorded only on a run that completed.
\<close>

theorem recoveries_after_run:
  assumes "lifecycle_reachable m"
  shows "(if sm_recoveries m = [] then True
          else terminal (sm_phase m) \<and>
               tr_timestamp (last (sm_transitions m)) \<le> rr_started_at (hd (sm_recoveries m))) \<and>
         successively (\<lambda>r s. rr_completed_at r \<le> rr_started_at s) (sm_recoveries m) \<and>
         list_all (\<lambda>r. 0 < rr_duration_ticks r \<and>
             unat (rr_started_at r) + unat (rr_duration_ticks r) \<le> unat (rr_completed_at r))
           (sm_recoveries m) \<and>
         (sm_outcomes m = [] \<or> completed \<in> tr_to ` set (sm_transitions m))"
  using lifecycle_reachable_recoveries [OF assms] by (auto simp: recoveries_ok_def)

theorem recoveries_after_run_witness:
  "sm_recoveries (snd (record_recovery (example_machine (tl main_line)) example_recovery)) \<noteq> [] \<and>
   terminal (sm_phase (snd (record_recovery (example_machine (tl main_line)) example_recovery)))"
proof -
  have "sm_last_timestamp (example_machine (tl main_line)) = 9"
    using example_created by (auto simp: example_machine_def main_line_def example_step)
  then have "recovery_errors (example_machine (tl main_line)) example_recovery = []"
    by (simp add: recovery_errors_Nil example_machine_valid terminal_def example_recovery_def)
  then have "sm_recoveries (snd (record_recovery (example_machine (tl main_line)) example_recovery)) \<noteq> []"
    by (simp add: record_recovery_def)
  then show ?thesis
    using recoveries_after_run [OF lifecycle_reachable.recovery [OF example_machine_reachable],
        of "tl main_line" example_recovery] by simp
qed

end
