(* ===== verification/Deterministic.thy ===== *)
theory Deterministic
  imports Prelude
begin

text \<open>
  Deterministic streams and permutations: \<^verbatim>\<open>include/cpu_prefetch/workload/deterministic.hpp\<close> and
  \<^verbatim>\<open>src/workload/deterministic.cpp\<close>. The two OpenSSL calls (\<^verbatim>\<open>EVP_Q_mac\<close> and \<^verbatim>\<open>EVP_Q_digest\<close>) are
  parameters \<open>hmac\<close> and \<open>digest\<close> that return \<open>None\<close> where the call fails or gives an output
  of another size than 32 bytes.
\<close>

datatype workload_error = WorkloadSetupError string | Workload_bad_alloc

subsection \<open>Hexadecimal seeds and digests\<close>

definition hex_nibble :: "char \<Rightarrow> workload_error + u8" where
  "hex_nibble value =
     (let v = (of_char value :: nat) in
      if 48 \<le> v \<and> v \<le> 57 then Inr (of_nat (v - 48))
      else if 97 \<le> v \<and> v \<le> 102 then Inr (of_nat (v - 97 + 10))
      else if 65 \<le> v \<and> v \<le> 70 then Inr (of_nat (v - 65 + 10))
      else Inl (WorkloadSetupError ''master seed must contain exactly 64 hexadecimal digits''))"

datatype MasterSeed = MasterSeed (seed_bytes: "u8 list")

text \<open>The loop of \<^verbatim>\<open>from_hex\<close>, two digits at a time.\<close>

fun hex_bytes :: "string \<Rightarrow> workload_error + u8 list" where
  "hex_bytes (a # b # rest) =
     (case hex_nibble a of Inl e \<Rightarrow> Inl e | Inr high \<Rightarrow>
     (case hex_nibble b of Inl e \<Rightarrow> Inl e | Inr low \<Rightarrow>
     (case hex_bytes rest of Inl e \<Rightarrow> Inl e | Inr bytes \<Rightarrow>
        Inr ((push_bit 4 high OR low) # bytes))))"
| "hex_bytes _ = Inr []"

definition MasterSeed_from_hex :: "string \<Rightarrow> workload_error + MasterSeed" where
  "MasterSeed_from_hex text =
     (if length text \<noteq> 64
      then Inl (WorkloadSetupError ''master seed must contain exactly 64 hexadecimal digits'')
      else (case hex_bytes text of Inl e \<Rightarrow> Inl e | Inr bytes \<Rightarrow> Inr (MasterSeed bytes)))"

datatype Sha256Digest = Sha256Digest (digest_bytes: "u8 list")

definition hex_digits :: string where
  "hex_digits = ''0123456789abcdef''"

definition Sha256Digest_hex :: "Sha256Digest \<Rightarrow> string" where
  "Sha256Digest_hex d =
     concat (map (\<lambda>byte. [hex_digits ! unat (drop_bit 4 byte), hex_digits ! unat (byte AND 15)])
       (digest_bytes d))"

definition workload_sha256 ::
  "(u8 list \<Rightarrow> u8 list option) \<Rightarrow> u8 list \<Rightarrow> workload_error + Sha256Digest" where
  "workload_sha256 digest input =
     (case digest input of
        None \<Rightarrow> Inl (WorkloadSetupError ''OpenSSL SHA-256 failed'')
      | Some output \<Rightarrow> Inr (Sha256Digest output))"

subsection \<open>Stream keys\<close>

datatype StreamPurpose =
    event_order | node_order | event_payload | initial_consumer_state | arrival_schedule

fun purpose_label :: "StreamPurpose \<Rightarrow> string" where
  "purpose_label event_order = ''event-order''"
| "purpose_label node_order = ''node-order''"
| "purpose_label event_payload = ''event-payload''"
| "purpose_label initial_consumer_state = ''initial-consumer-state''"
| "purpose_label arrival_schedule = ''arrival-schedule''"

definition kDeterministicSuite :: string where
  "kDeterministicSuite = ''PHILOX4X32-10-HMAC-SHA256-v1''"

definition kDerivationDomainProtocolVersion :: string where
  "kDerivationDomainProtocolVersion = ''2.0.0-pre.1''"

definition append_u64_be :: "u8 list \<Rightarrow> u64 \<Rightarrow> u8 list" where
  "append_u64_be output value =
     output @ map (\<lambda>shift. ucast (drop_bit (shift - 8) value AND 255)) [64, 56, 48, 40, 32, 24, 16, 8]"

definition string_bytes :: "string \<Rightarrow> u8 list" where
  "string_bytes s = map of_char s"

definition append_field :: "u8 list \<Rightarrow> string \<Rightarrow> u8 list" where
  "append_field output value =
     append_u64_be output (of_nat (length value)) @ string_bytes value"

definition read_u32_be :: "u8 list \<Rightarrow> u32" where
  "read_u32_be input =
     push_bit 24 (ucast (input ! 0)) OR push_bit 16 (ucast (input ! 1)) OR
     push_bit 8 (ucast (input ! 2)) OR ucast (input ! 3)"

record PhiloxKey =
  key0 :: u32
  key1 :: u32

record PhiloxBlock =
  word0 :: u32
  word1 :: u32
  word2 :: u32
  word3 :: u32

definition derivation_message :: "string \<Rightarrow> StreamPurpose \<Rightarrow> u8 list" where
  "derivation_message name_space purpose =
     append_field (append_field (append_field (append_field []
       kDerivationDomainProtocolVersion) kDeterministicSuite) name_space) (purpose_label purpose)"

definition derive_stream_key ::
  "(u8 list \<Rightarrow> u8 list \<Rightarrow> u8 list option) \<Rightarrow> MasterSeed \<Rightarrow> string \<Rightarrow> StreamPurpose \<Rightarrow>
     workload_error + PhiloxKey" where
  "derive_stream_key hmac master_seed name_space purpose =
     (if name_space = []
      then Inl (WorkloadSetupError ''deterministic stream namespace must not be empty'')
      else if purpose_label purpose = []
      then Inl (WorkloadSetupError ''deterministic stream purpose is unknown'')
      else (case hmac (seed_bytes master_seed) (derivation_message name_space purpose) of
              None \<Rightarrow> Inl (WorkloadSetupError ''OpenSSL HMAC-SHA-256 derivation failed'')
            | Some digest \<Rightarrow>
                Inr \<lparr>key0 = read_u32_be digest, key1 = read_u32_be (drop 4 digest)\<rparr>))"

subsection \<open>Philox 4x32-10\<close>

definition kPhiloxMultiplier0 :: u32 where "kPhiloxMultiplier0 = 0xd2511f53"
definition kPhiloxMultiplier1 :: u32 where "kPhiloxMultiplier1 = 0xcd9e8d57"
definition kPhiloxWeyl0 :: u32 where "kPhiloxWeyl0 = 0x9e3779b9"
definition kPhiloxWeyl1 :: u32 where "kPhiloxWeyl1 = 0xbb67ae85"

definition philox_round :: "PhiloxBlock \<Rightarrow> PhiloxKey \<Rightarrow> PhiloxBlock" where
  "philox_round counter key =
     (let product0 = (ucast kPhiloxMultiplier0 :: u64) * ucast (word0 counter);
          product1 = (ucast kPhiloxMultiplier1 :: u64) * ucast (word2 counter);
          high0 = (ucast (drop_bit 32 product0) :: u32);
          high1 = (ucast (drop_bit 32 product1) :: u32);
          low0 = (ucast product0 :: u32);
          low1 = (ucast product1 :: u32)
      in \<lparr>word0 = high1 XOR word1 counter XOR key0 key, word1 = low1,
          word2 = high0 XOR word3 counter XOR key1 key, word3 = low0\<rparr>)"

text \<open>The ten rounds: after each but the last the key is bumped by the Weyl constants.\<close>

fun philox_rounds :: "nat \<Rightarrow> PhiloxBlock \<Rightarrow> PhiloxKey \<Rightarrow> PhiloxBlock" where
  "philox_rounds 0 counter key = counter"
| "philox_rounds (Suc n) counter key =
     (let counter' = philox_round counter key;
          key' = (if n \<noteq> 0
                  then \<lparr>key0 = key0 key + kPhiloxWeyl0, key1 = key1 key + kPhiloxWeyl1\<rparr> else key)
      in philox_rounds n counter' key')"

definition philox4x32_10 :: "u64 \<Rightarrow> PhiloxKey \<Rightarrow> PhiloxBlock" where
  "philox4x32_10 block_ordinal key =
     philox_rounds 10
       \<lparr>word0 = ucast (drop_bit 32 block_ordinal), word1 = ucast block_ordinal, word2 = 0, word3 = 0\<rparr>
       key"

definition combine_words :: "u32 \<Rightarrow> u32 \<Rightarrow> u64" where
  "combine_words high low = push_bit 32 (ucast high) OR ucast low"

definition stream_draw :: "PhiloxKey \<Rightarrow> u64 \<Rightarrow> u64" where
  "stream_draw key draw_ordinal =
     (let block = philox4x32_10 (draw_ordinal div 2) key in
      if draw_ordinal AND 1 = 0 then combine_words (word0 block) (word1 block)
      else combine_words (word2 block) (word3 block))"

subsection \<open>Permutations\<close>

text \<open>
  The inner \<^verbatim>\<open>do\<close>-loop: draw until the value is not below the threshold, or until the draw
  ordinals are used up. The stream is any function of the ordinal.
\<close>

function draw_at_least :: "(u64 \<Rightarrow> u64) \<Rightarrow> u64 \<Rightarrow> u64 \<Rightarrow> workload_error + u64 \<times> u64" where
  "draw_at_least stream threshold draw_ordinal =
     (if draw_ordinal = u64_max
      then Inl (WorkloadSetupError ''permutation draw ordinal exhausted'')
      else
        let draw = stream draw_ordinal in
        if draw < threshold then draw_at_least stream threshold (draw_ordinal + 1)
        else Inr (draw, draw_ordinal + 1))"
  by pat_completeness auto
termination
proof (relation "measure (\<lambda>(stream, threshold, ordinal). unat (u64_max - ordinal))", goal_cases)
  case 1
  then show ?case by simp
next
  case (2 stream threshold ordinal draw)
  then have "unat (ordinal + 1) = Suc (unat ordinal)" by (intro unat_Suc_not_max) simp
  then show ?case using unat_u64_lt_num [of "ordinal + 1"] by (simp add: unat_minus_u64)
qed

declare draw_at_least.simps [simp del]

definition draw_threshold :: "u64 \<Rightarrow> u64" where
  "draw_threshold bound = (0 - bound) mod bound"

text \<open>The outer loop, from \<^verbatim>\<open>remaining\<close> down to 2.\<close>

fun shuffle_from :: "(u64 \<Rightarrow> u64) \<Rightarrow> nat \<Rightarrow> usize list \<Rightarrow> u64 \<Rightarrow> workload_error + usize list" where
  "shuffle_from stream remaining result draw_ordinal =
     (if remaining \<le> 1 then Inr result
      else
        let bound = (of_nat remaining :: u64);
            threshold = draw_threshold bound
        in (case draw_at_least stream threshold draw_ordinal of
              Inl e \<Rightarrow> Inl e
            | Inr (draw, ordinal') \<Rightarrow>
                let selected = unat (draw mod bound);
                    a = result ! (remaining - 1);
                    b = result ! selected
                in shuffle_from stream (remaining - 1)
                     (result[remaining - 1 := b, selected := a]) ordinal'))"

declare shuffle_from.simps [simp del]

definition make_permutation :: "usize \<Rightarrow> (u64 \<Rightarrow> u64) \<Rightarrow> workload_error + usize list" where
  "make_permutation cardinality stream =
     (if cardinality = 0 then Inl (WorkloadSetupError ''permutation cardinality must be nonzero'')
      else shuffle_from stream (unat cardinality) (map of_nat [0..<unat cardinality]) 0)"

subsection \<open>Permutations: correctness\<close>

lemma draw_at_least_Inr:
  "draw_at_least stream threshold n = Inr (d, n') \<Longrightarrow>
     threshold \<le> d \<and> n < n' \<and> d = stream (n' - 1)"
proof (induction stream threshold n rule: draw_at_least.induct)
  case (1 stream threshold n)
  have n: "n \<noteq> u64_max" using "1.prems" by (auto simp: draw_at_least.simps)
  then have lt: "n < n + 1" using unat_Suc_not_max [of n] by (simp add: word_less_nat_alt)
  show ?case
  proof (cases "stream n < threshold")
    case True
    then have "draw_at_least stream threshold (n + 1) = Inr (d, n')"
      using "1.prems" n by (simp add: draw_at_least.simps [of stream threshold n])
    from "1.IH" [OF n refl True this] lt show ?thesis by auto
  next
    case False
    then show ?thesis using "1.prems" n lt
      by (auto simp: draw_at_least.simps [of stream threshold n])
  qed
qed

lemma shuffle_from_mset:
  "shuffle_from stream remaining result n = Inr out \<Longrightarrow> remaining \<le> length result \<Longrightarrow>
   length result < 2 ^ 64 \<Longrightarrow> mset out = mset result"
proof (induction stream remaining result n rule: shuffle_from.induct)
  case (1 stream remaining result n)
  show ?case
  proof (cases "remaining \<le> 1")
    case True
    with "1.prems" show ?thesis by (simp add: shuffle_from.simps [of stream remaining])
  next
    case False
    let ?b = "of_nat remaining :: u64"
    obtain d n' where d: "draw_at_least stream (draw_threshold ?b) n = Inr (d, n')"
      and rest: "shuffle_from stream (remaining - 1)
        (result[remaining - 1 := result ! unat (d mod ?b),
                unat (d mod ?b) := result ! (remaining - 1)]) n' = Inr out"
      using "1.prems"(1) False
      by (auto simp: shuffle_from.simps [of stream remaining] Let_def)
    have b: "unat ?b = remaining" using "1.prems"(2,3) by (intro unat_of_nat_u64) linarith
    have sel: "unat (d mod ?b) < length result"
    proof -
      have "unat d mod remaining < remaining" using False by (intro mod_less_divisor) simp
      with b "1.prems"(2) show ?thesis by (simp add: unat_mod)
    qed
    have "mset out = mset (result[remaining - 1 := result ! unat (d mod ?b),
        unat (d mod ?b) := result ! (remaining - 1)])"
      using "1.IH" [OF False refl refl d refl refl refl refl] rest "1.prems"(2,3) by simp
    also have "\<dots> = mset result"
      using sel "1.prems"(2) False by (intro mset_swap) auto
    finally show ?thesis .
  qed
qed

lemma make_permutation_mset:
  assumes "make_permutation cardinality stream = Inr order"
  shows "mset order = mset (map of_nat [0..<unat cardinality])"
  using assms shuffle_from_mset [of stream "unat cardinality" "map of_nat [0..<unat cardinality]" 0 order]
    unat_u64_lt [of cardinality]
  by (simp add: make_permutation_def)

text \<open>What users of a permutation rely on: every index below the cardinality, once.\<close>

lemma make_permutation_complete:
  assumes "make_permutation cardinality stream = Inr order"
  shows "length order = unat cardinality" and "distinct order"
    and "i \<in> set order \<longleftrightarrow> i < cardinality" and "cardinality \<noteq> 0"
proof -
  note m = make_permutation_mset [OF assms]
  from arg_cong [OF m, of size] show "length order = unat cardinality" by simp
  have inj: "inj_on (of_nat :: nat \<Rightarrow> u64) (set [0..<unat cardinality])"
    using unat_u64_lt [of cardinality] by (intro inj_onI) (metis atLeastLessThan_iff less_trans set_upt
        unat_of_nat_u64)
  then have "distinct (map of_nat [0..<unat cardinality] :: u64 list)" by (simp add: distinct_map)
  then show "distinct order" using m by (metis mset_eq_imp_distinct_iff)
  have "set order = (of_nat :: nat \<Rightarrow> u64) ` {0..<unat cardinality}" using m by (metis mset_eq_setD set_map set_upt)
  moreover have "(of_nat :: nat \<Rightarrow> u64) ` {0..<unat cardinality} = {i. i < cardinality}"
  proof (rule set_eqI)
    fix i :: u64
    have "i = of_nat (unat i)" by simp
    then show "(i \<in> of_nat ` {0..<unat cardinality}) = (i \<in> {i. i < cardinality})"
      using unat_u64_lt [of cardinality]
      by (auto simp: word_less_nat_alt unat_of_nat_u64 intro!: image_eqI [of i of_nat "unat i"])
  qed
  ultimately show "i \<in> set order \<longleftrightarrow> i < cardinality" by auto
  show "cardinality \<noteq> 0" using assms by (auto simp: make_permutation_def)
qed

text \<open>
  The rejection threshold is \<open>2 ^ 64 mod bound\<close>, so the accepted draws
  are a whole number of rounds through the residues.
\<close>

lemma draw_threshold_nat:
  assumes "bound \<noteq> 0"
  shows "unat (draw_threshold bound) = 2 ^ 64 mod unat bound"
proof -
  have "unat (draw_threshold bound) = (2 ^ 64 - unat bound) mod unat bound"
    by (simp only: draw_threshold_def unat_mod unat_neg_u64 [OF assms])
  also have "\<dots> = 2 ^ 64 mod unat bound"
    using unat_u64_lt [of bound] by (intro le_mod_geq [symmetric]) simp
  finally show ?thesis .
qed

lemma first_draw_accepted:
  "draw_at_least (\<lambda>_. d) threshold 0 = Inr (d, 1) \<longleftrightarrow> threshold \<le> d"
  using draw_at_least_Inr [of "\<lambda>_. d" threshold 0 d 1]
  by (auto simp: draw_at_least.simps [of _ _ 0])

lemma residue_in_window:
  assumes "k < (b :: nat)"
  shows "card {x. s \<le> x \<and> x < s + b \<and> x mod b = k} = 1"
proof -
  have "inj_on (\<lambda>i. (s + i) mod b) {..<b}"
    by (intro inj_onI) (simp add: mod_shift_inj)
  then have "(\<lambda>i. (s + i) mod b) ` {..<b} = {..<b}"
    using assms by (intro endo_inj_surj) auto
  then have "k \<in> (\<lambda>i. (s + i) mod b) ` {..<b}" using assms by simp
  then obtain i where i: "i < b" "(s + i) mod b = k" by auto
  have "{x. s \<le> x \<and> x < s + b \<and> x mod b = k} = {s + i}"
  proof (intro equalityI subsetI)
    fix x
    assume "x \<in> {x. s \<le> x \<and> x < s + b \<and> x mod b = k}"
    then obtain j where "x = s + j" "j < b" "(s + j) mod b = k"
      by (auto simp: le_iff_add)
    with i mod_shift_inj [of i b j s] show "x \<in> {s + i}" by auto
  qed (use i in auto)
  then show ?thesis by simp
qed

lemma residues_in_rounds:
  assumes "k < (b :: nat)"
  shows "card {x. s \<le> x \<and> x < s + b * q \<and> x mod b = k} = q"
proof (induction q)
  case 0
  then show ?case by simp
next
  case (Suc q)
  have "{x. s \<le> x \<and> x < s + b * Suc q \<and> x mod b = k} =
      {x. s \<le> x \<and> x < s + b * q \<and> x mod b = k} \<union>
      {x. s + b * q \<le> x \<and> x < (s + b * q) + b \<and> x mod b = k}"
    by auto
  moreover have "finite {x. s \<le> x \<and> x < s + b * q \<and> x mod b = k}"
    and "finite {x. s + b * q \<le> x \<and> x < (s + b * q) + b \<and> x mod b = k}"
    by (rule finite_subset [of _ "{..< s + b * q + b}"]; auto)+
  ultimately show ?case
    using Suc residue_in_window [OF assms, of "s + b * q"]
    by (simp add: card_Un_disjoint disjoint_iff)
qed

lemma card_u64: "card {d :: u64. P (unat d)} = card {x. x < 2 ^ 64 \<and> P x}"
proof -
  have "unat ` {d :: u64. P (unat d)} = {x. x < 2 ^ 64 \<and> P x}"
  proof (intro equalityI subsetI)
    fix x
    assume "x \<in> {x. x < 2 ^ 64 \<and> P x}"
    then show "x \<in> unat ` {d :: u64. P (unat d)}"
      by (intro image_eqI [of _ _ "of_nat x"]) (auto simp: unat_of_nat_u64)
  qed (auto intro: unat_u64_lt_num)
  moreover have "inj_on unat {d :: u64. P (unat d)}" by (auto intro: inj_onI simp: word_eq_unat)
  ultimately show ?thesis by (metis card_image)
qed

subsection \<open>Philox blocks are distinct\<close>

text \<open>Both multipliers are odd, so the low half of a product determines the factor.\<close>

lemma ucast_product_low: "(ucast ((ucast a :: u64) * ucast b) :: u32) = a * (b :: u32)"
proof -
  have "unat (ucast ((ucast a :: u64) * ucast b) :: u32) = (unat a * unat b) mod 2 ^ 64 mod 2 ^ 32"
    by (simp add: unsigned_ucast_eq take_bit_eq_mod unat_word_ariths mod_simps)
  also have "\<dots> = (unat a * unat b) mod 2 ^ 32"
    by (rule mod_mod_cancel) simp
  finally show ?thesis by (simp add: word_eq_unat unat_word_ariths)
qed

lemma multiplier0_cancel: "kPhiloxMultiplier0 * a = kPhiloxMultiplier0 * b \<Longrightarrow> a = b"
  by (rule mult_unit_cancel [of 2568649947]) (simp_all add: kPhiloxMultiplier0_def)

lemma multiplier1_cancel: "kPhiloxMultiplier1 * a = kPhiloxMultiplier1 * b \<Longrightarrow> a = b"
  by (rule mult_unit_cancel [of 1836887655]) (simp_all add: kPhiloxMultiplier1_def)

lemma philox_round_inj:
  assumes "philox_round c key = philox_round d key"
  shows "c = d"
proof -
  have w0: "word0 c = word0 d" and w2: "word2 c = word2 d"
    using assms by (auto simp: philox_round_def Let_def ucast_product_low
        dest: multiplier0_cancel multiplier1_cancel)
  have "word1 c XOR key0 key = word1 d XOR key0 key" and "word3 c XOR key1 key = word3 d XOR key1 key"
    using assms w0 w2 by (auto simp: philox_round_def Let_def xor.assoc xor_left_cancel)
  then have "word1 c = word1 d" and "word3 c = word3 d"
    by (simp_all add: xor_right_cancel)
  with w0 w2 show ?thesis by simp
qed

lemma philox_rounds_inj: "philox_rounds n c key = philox_rounds n d key \<Longrightarrow> c = d"
  by (induction n arbitrary: c d key) (auto simp: Let_def dest: philox_round_inj)

lemma u64_halves:
  assumes "(ucast (drop_bit 32 a) :: u32) = ucast (drop_bit 32 b)" and "(ucast a :: u32) = ucast b"
  shows "a = (b :: u64)"
proof (rule bit_word_eqI)
  fix n
  assume n: "n < LENGTH(64)"
  show "bit a n = bit b n"
  proof (cases "n < 32")
    case True
    have "bit (ucast a :: u32) n = bit (ucast b :: u32) n" using assms(2) by simp
    with True show ?thesis by (simp add: bit_simps)
  next
    case False
    have "bit (ucast (drop_bit 32 a) :: u32) (n - 32) = bit (ucast (drop_bit 32 b) :: u32) (n - 32)"
      using assms(1) by simp
    moreover have "n - 32 < 32" using n False by simp
    ultimately show ?thesis using False by (simp add: bit_simps)
  qed
qed

subsection \<open>Field encodings\<close>

definition u64_be :: "u64 \<Rightarrow> u8 list" where
  "u64_be value = append_u64_be [] value"

lemma append_u64_be_eq: "append_u64_be output value = output @ u64_be value"
  by (simp add: append_u64_be_def u64_be_def)

lemma length_u64_be [simp]: "length (u64_be v) = 8"
  by (simp add: u64_be_def append_u64_be_def)

lemma byte_bits:
  assumes "(ucast (drop_bit k v AND (255 :: u64)) :: u8) = ucast (drop_bit k w AND (255 :: u64))"
    and "i < 8"
    and "k + i < 64"
  shows "bit v (k + i) = bit w (k + i)"
proof -
  have m: "(255 :: u64) = mask 8" by (simp add: mask_eq_exp_minus_1)
  have "bit (ucast (drop_bit k v AND (255 :: u64)) :: u8) i =
      bit (ucast (drop_bit k w AND (255 :: u64)) :: u8) i"
    using assms(1) by simp
  with assms(2,3) show ?thesis by (simp add: m bit_simps)
qed

lemma u64_be_inj: "u64_be v = u64_be w \<longleftrightarrow> v = w"
proof
  assume "u64_be v = u64_be w"
  then have eq: "(ucast (drop_bit k v AND 255) :: u8) = ucast (drop_bit k w AND 255)"
    if "k \<in> {0, 8, 16, 24, 32, 40, 48, 56}" for k
    using that by (auto simp: u64_be_def append_u64_be_def)
  show "v = w"
  proof (rule bit_word_eqI)
    fix n
    assume "n < LENGTH(64)"
    then have n: "n < 64" by simp
    have "8 * (n div 8) \<in> {0, 8, 16, 24, 32, 40, 48, 56}"
    proof -
      have "n div 8 < 8" using n by simp
      then have "n div 8 \<in> {0, 1, 2, 3, 4, 5, 6, 7}" by auto
      then show ?thesis by auto
    qed
    from byte_bits [OF eq [OF this], of "n mod 8"] n show "bit v n = bit w n" by simp
  qed
qed simp

text \<open>A length-prefixed field: the fields of a concatenation can be told apart.\<close>

definition field_bytes :: "u8 list \<Rightarrow> u8 list" where
  "field_bytes bytes = u64_be (of_nat (length bytes)) @ bytes"

lemma field_bytes_split:
  assumes "field_bytes a @ x = field_bytes b @ y" and "length a < 2 ^ 64" and "length b < 2 ^ 64"
  shows "a = b \<and> x = y"
proof -
  have "u64_be (of_nat (length a)) = u64_be (of_nat (length b))" and r: "a @ x = b @ y"
    using assms(1) by (auto simp: field_bytes_def)
  then have "length a = length b"
    using assms(2,3) by (metis u64_be_inj unat_of_nat_u64)
  with r show ?thesis by simp
qed

lemma append_field_eq: "append_field output value = output @ field_bytes (string_bytes value)"
  by (simp add: append_field_def append_u64_be_eq field_bytes_def string_bytes_def)

lemma string_bytes_inj: "string_bytes s = string_bytes t \<longleftrightarrow> s = t"
proof -
  have "inj (of_char :: char \<Rightarrow> u8)"
  proof (rule injI)
    fix c d :: char
    assume "(of_char c :: u8) = of_char d"
    then have "unat (of_nat (of_char c) :: u8) = unat (of_nat (of_char d) :: u8)"
      by (simp only: of_nat_of_char)
    moreover have "(of_char x :: nat) < 256" for x :: char by (rule nat_of_char_less_256)
    ultimately have "(of_char c :: nat) = of_char d"
      by (simp only: unat_of_nat) (simp add: take_bit_nat_eq_self)
    then show "c = d" by (simp add: of_char_eq_iff)
  qed
  then show ?thesis by (auto simp: string_bytes_def inj_map_eq_map)
qed

subsection \<open>Hexadecimal text\<close>

lemma hex_nibble_digit:
  assumes "n < 16"
  shows "hex_nibble (hex_digits ! n) = Inr (of_nat n)"
proof -
  from assms have "n \<in> set [0..<16]" by simp
  then show ?thesis by (auto simp: upt_rec hex_nibble_def hex_digits_def)
qed

lemma byte_nibbles: "push_bit 4 (drop_bit 4 byte) OR (byte AND 15) = (byte :: u8)"
proof -
  have m: "(15 :: u8) = mask 4" by (simp add: mask_eq_exp_minus_1)
  show ?thesis unfolding m by (rule bit_word_eqI) (auto simp: bit_simps)
qed

lemma unat_nibbles:
  "unat (drop_bit 4 (byte :: u8)) < 16" "unat ((byte :: u8) AND 15) < 16"
proof -
  have "unat byte < 256" using unsigned_less [of byte] by simp
  then show "unat (drop_bit 4 byte) < 16" by (simp add: drop_bit_eq_div unat_div)
  have m: "(15 :: u8) = mask 4" by (simp add: mask_eq_exp_minus_1)
  show "unat (byte AND 15) < 16"
    by (simp add: m unsigned_and_eq flip: take_bit_eq_mask) (simp add: take_bit_eq_mod unat_mod)
qed

lemma hex_bytes_round_trip:
  "hex_bytes (Sha256Digest_hex (Sha256Digest bytes)) = Inr bytes"
proof (induction bytes)
  case Nil
  then show ?case by (simp add: Sha256Digest_hex_def)
next
  case (Cons byte bytes)
  then show ?case
    by (simp add: Sha256Digest_hex_def hex_nibble_digit unat_nibbles byte_nibbles)
qed

subsection \<open>Properties\<close>

text \<open>
  A permutation that is produced is one: its entries are exactly the indices below the
  requested cardinality, each once, whatever the stream of draws.
\<close>

theorem make_permutation_permutes:
  assumes "make_permutation n stream = Inr order"
  shows "distinct order \<and> length order = unat n \<and> set order = {i. i < n}"
  using make_permutation_complete [OF assms] by auto

theorem make_permutation_permutes_witness:
  "make_permutation 3 (\<lambda>ordinal. ordinal + 7) = Inr [2, 0, 1] \<and> set [2, 0, 1] = {i. i < (3 :: u64)}"
proof -
  have run: "make_permutation 3 (\<lambda>ordinal. ordinal + 7) = Inr [2, 0, 1]" by code_simp
  then show ?thesis using make_permutation_permutes [OF run] by simp
qed

text \<open>
  Rejection sampling is unbiased: of the \<open>2 ^ 64\<close> possible draws, the number that is
  accepted and selects a given index is the same for every index below the bound.
\<close>

theorem permutation_draw_unbiased:
  assumes "bound \<noteq> 0" and "k < unat bound"
  shows "card {d. draw_at_least (\<lambda>_. d) (draw_threshold bound) 0 = Inr (d, 1) \<and>
                unat (d mod bound) = k} = 2 ^ 64 div unat bound"
proof -
  let ?b = "unat bound" and ?t = "2 ^ 64 mod unat bound"
  have "{d. draw_at_least (\<lambda>_. d) (draw_threshold bound) 0 = Inr (d, 1) \<and> unat (d mod bound) = k} =
      {d. ?t \<le> unat d \<and> unat d mod ?b = k}"
    by (simp only: first_draw_accepted word_le_nat_alt draw_threshold_nat [OF assms(1)] unat_mod)
  then have "card {d. draw_at_least (\<lambda>_. d) (draw_threshold bound) 0 = Inr (d, 1) \<and>
      unat (d mod bound) = k} = card {x. x < 2 ^ 64 \<and> ?t \<le> x \<and> x mod ?b = k}"
    by (simp only: card_u64 [of "\<lambda>x. ?t \<le> x \<and> x mod ?b = k"])
  also have "{x. x < 2 ^ 64 \<and> ?t \<le> x \<and> x mod ?b = k} =
      {x. ?t \<le> x \<and> x < ?t + ?b * (2 ^ 64 div ?b) \<and> x mod ?b = k}"
    by (simp only: mod_mult_div_eq) blast
  also have "card \<dots> = 2 ^ 64 div ?b" by (rule residues_in_rounds [OF assms(2)])
  finally show ?thesis .
qed

theorem permutation_draw_unbiased_witness:
  "card {d. draw_at_least (\<lambda>_. d) (draw_threshold 3) 0 = Inr (d, 1) \<and> unat (d mod 3) = 1} =
     2 ^ 64 div 3"
  using permutation_draw_unbiased [of 3 1] by simp

text \<open>
  The generator never repeats a block: under one key, different block ordinals give
  different Philox blocks.
\<close>

theorem philox_blocks_distinct: "philox4x32_10 a key = philox4x32_10 b key \<longleftrightarrow> a = b"
proof
  assume "philox4x32_10 a key = philox4x32_10 b key"
  from philox_rounds_inj [OF this [unfolded philox4x32_10_def]]
  show "a = b" by (auto intro: u64_halves)
qed simp

text \<open>
  Domain separation of the derived streams: the message authenticated for a stream key
  determines both the namespace and the purpose.
\<close>

theorem derivation_message_injective:
  assumes "length m < 2 ^ 64" and "length n < 2 ^ 64"
  shows "derivation_message m p = derivation_message n q \<longleftrightarrow> m = n \<and> p = q"
proof
  assume "derivation_message m p = derivation_message n q"
  then have eq: "field_bytes (string_bytes m) @ field_bytes (string_bytes (purpose_label p)) =
      field_bytes (string_bytes n) @ field_bytes (string_bytes (purpose_label q))"
    by (simp add: derivation_message_def append_field_eq)
  from field_bytes_split [OF eq] assms have "m = n"
    and f: "field_bytes (string_bytes (purpose_label p)) = field_bytes (string_bytes (purpose_label q))"
    by (auto simp: string_bytes_inj) (auto simp: string_bytes_def)
  have "length (string_bytes (purpose_label r)) < 2 ^ 64" for r
    by (cases r) (simp_all add: string_bytes_def)
  then have "purpose_label p = purpose_label q"
    using field_bytes_split [of "string_bytes (purpose_label p)" "[]"
        "string_bytes (purpose_label q)" "[]"] f
    by (simp add: string_bytes_inj)
  then have "p = q" by (cases p; cases q) auto
  with \<open>m = n\<close> show "m = n \<and> p = q" ..
qed simp

theorem derivation_message_injective_witness:
  "derivation_message ''warmup'' event_order \<noteq> derivation_message ''warmup'' node_order"
  using derivation_message_injective [of "''warmup''" "''warmup''" event_order node_order] by simp

text \<open>
  Seeds and digests in text form: the hexadecimal rendering of 32 bytes is read back as
  the same 32 bytes.
\<close>

theorem hex_round_trip:
  assumes "length bytes = 32"
  shows "MasterSeed_from_hex (Sha256Digest_hex (Sha256Digest bytes)) = Inr (MasterSeed bytes)"
proof -
  have "length (Sha256Digest_hex (Sha256Digest bs)) = 2 * length bs" for bs
    by (induction bs) (auto simp: Sha256Digest_hex_def)
  with assms show ?thesis by (simp add: MasterSeed_from_hex_def hex_bytes_round_trip)
qed

theorem hex_round_trip_witness:
  "MasterSeed_from_hex (Sha256Digest_hex (Sha256Digest (replicate 32 0xa5))) =
     Inr (MasterSeed (replicate 32 0xa5))"
  using hex_round_trip [of "replicate 32 0xa5"] by simp

end
