(* ===== verification/Records.thy ===== *)
theory Records
  imports Deterministic
begin

text \<open>
  The event arena: \<^verbatim>\<open>include/cpu_prefetch/workload/records.hpp\<close> and
  \<^verbatim>\<open>src/workload/records.cpp\<close>. The arena's memory is the list of its cache lines, each with the
  two record fields and the padding behind them. Canonical digests are modelled up to the
  bytes that are hashed: \<open>sha\<close> is OpenSSL's incremental SHA-256 over the concatenation of
  the updates, with the exception it raises on failure.
\<close>

type_synonym sha_fun = "u8 list \<Rightarrow> workload_error + u8 list"

type_synonym hmac_fun = "u8 list \<Rightarrow> u8 list \<Rightarrow> u8 list option"

subsection \<open>Canonical fields\<close>

text \<open>\<^verbatim>\<open>CanonicalSha256\<close>: each field is its length as eight big-endian bytes, then its bytes.\<close>

definition encode_u64 :: "u64 \<Rightarrow> u8 list" where
  "encode_u64 value =
     map (\<lambda>index. ucast (drop_bit ((7 - index) * 8) value AND 255)) [0, 1, 2, 3, 4, 5, 6, 7]"

definition canonical_field :: "u8 list \<Rightarrow> u8 list" where
  "canonical_field bytes = encode_u64 (of_nat (length bytes)) @ bytes"

definition canonical_field_u64 :: "u64 \<Rightarrow> u8 list" where
  "canonical_field_u64 value = canonical_field (encode_u64 value)"

definition canonical_field_i64 :: "int \<Rightarrow> u8 list" where
  "canonical_field_i64 value = canonical_field_u64 (of_int value)"

definition canonical_finish :: "sha_fun \<Rightarrow> u8 list \<Rightarrow> workload_error + Sha256Digest" where
  "canonical_finish sha message =
     (case sha message of Inl e \<Rightarrow> Inl e | Inr output \<Rightarrow> Inr (Sha256Digest output))"

definition kContentDomain :: string where
  "kContentDomain = ''cpu-prefetch/event-record-content-sha256/v1''"

definition kOrderedIndexDomain :: string where
  "kOrderedIndexDomain = ''cpu-prefetch/ordered-index-sha256/v1''"

definition kAddressDeltaDomain :: string where
  "kAddressDeltaDomain = ''cpu-prefetch/address-delta-sha256/v1''"

subsection \<open>Orders and address deltas\<close>

definition workload_is_power_of_two :: "usize \<Rightarrow> bool" where
  "workload_is_power_of_two value \<longleftrightarrow> value \<noteq> 0 \<and> value AND (value - 1) = 0"

definition arena_checked_multiply :: "usize \<Rightarrow> usize \<Rightarrow> workload_error + usize" where
  "arena_checked_multiply left right =
     (if left \<noteq> 0 \<and> right > u64_max div left
      then Inl (WorkloadSetupError ''event arena size overflows size_t'')
      else Inr (left * right))"

definition validate_permutation :: "usize list \<Rightarrow> workload_error + unit" where
  "validate_permutation order =
     (if order = [] then Inl (WorkloadSetupError ''ordered-index input must not be empty'')
      else if seen_check (of_nat (length order)) (replicate (length order) False) order then Inr ()
      else Inl (WorkloadSetupError ''ordered-index input must be a complete permutation''))"

definition int64_max :: u64 where
  "int64_max = 0x7fffffffffffffff"

definition signed_delta :: "usize \<Rightarrow> usize \<Rightarrow> usize \<Rightarrow> workload_error + int" where
  "signed_delta from to stride =
     (case arena_checked_multiply from stride of Inl e \<Rightarrow> Inl e | Inr from_offset \<Rightarrow>
     (case arena_checked_multiply to stride of Inl e \<Rightarrow> Inl e | Inr to_offset \<Rightarrow>
      if to_offset \<ge> from_offset
      then
        let difference = to_offset - from_offset in
        if difference > int64_max
        then Inl (WorkloadSetupError ''positive address delta exceeds int64'')
        else Inr (uint difference)
      else
        let magnitude = from_offset - to_offset in
        if magnitude > int64_max
        then Inl (WorkloadSetupError ''negative address delta exceeds int64'')
        else Inr (- uint magnitude)))"

definition make_cyclic_address_deltas :: "usize list \<Rightarrow> usize \<Rightarrow> workload_error + int list" where
  "make_cyclic_address_deltas order stride_bytes =
     (case validate_permutation order of Inl e \<Rightarrow> Inl e | Inr _ \<Rightarrow>
      if stride_bytes = 0 then Inl (WorkloadSetupError ''address-delta stride must be nonzero'')
      else map_result (\<lambda>index.
          let next = (if index + 1 = length order then 0 else index + 1)
          in signed_delta (order ! index) (order ! next) stride_bytes) [0..<length order])"

definition ordered_index_message :: "usize list \<Rightarrow> u8 list" where
  "ordered_index_message order =
     canonical_field (string_bytes kOrderedIndexDomain) @
     canonical_field_u64 (of_nat (length order)) @ concat (map canonical_field_u64 order)"

definition ordered_index_sha256 :: "sha_fun \<Rightarrow> usize list \<Rightarrow> workload_error + Sha256Digest" where
  "ordered_index_sha256 sha order =
     (case validate_permutation order of Inl e \<Rightarrow> Inl e | Inr _ \<Rightarrow>
        canonical_finish sha (ordered_index_message order))"

definition address_delta_message :: "int list \<Rightarrow> u8 list" where
  "address_delta_message deltas =
     canonical_field (string_bytes kAddressDeltaDomain) @
     canonical_field_u64 (of_nat (length deltas)) @ concat (map canonical_field_i64 deltas)"

definition address_delta_sha256 :: "sha_fun \<Rightarrow> int list \<Rightarrow> workload_error + Sha256Digest" where
  "address_delta_sha256 sha deltas =
     (if deltas = [] then Inl (WorkloadSetupError ''address-delta input must not be empty'')
      else canonical_finish sha (address_delta_message deltas))"

subsection \<open>Mixing the consumer state\<close>

definition mix_consumer_state :: "u64 \<Rightarrow> u64 \<Rightarrow> u64 \<Rightarrow> u64" where
  "mix_consumer_state state record_index payload =
     (let v1 = state + 0x9e3779b97f4a7c15;
          v2 = v1 XOR record_index;
          v3 = (v2 XOR drop_bit 30 v2) * 0xbf58476d1ce4e5b9;
          v4 = v3 XOR payload;
          v5 = (v4 XOR drop_bit 27 v4) * 0x94d049bb133111eb
      in v5 XOR drop_bit 31 v5)"

definition initial_consumer_state_of ::
  "hmac_fun \<Rightarrow> MasterSeed \<Rightarrow> string \<Rightarrow> workload_error + u64" where
  "initial_consumer_state_of hmac master_seed name_space =
     (case derive_stream_key hmac master_seed name_space initial_consumer_state of
        Inl e \<Rightarrow> Inl e | Inr key \<Rightarrow> Inr (stream_draw key 0))"

subsection \<open>The arena\<close>

record arena_line =
  al_record_index :: u64
  al_payload :: u64
  al_padding :: "u8 list"

record EventArenaConfig =
  ec_capacity :: usize
  ec_cache_line_bytes :: usize
  ec_base_page_bytes :: usize
  ec_master_seed :: MasterSeed
  ec_seed_namespace :: string

record EventArena =
  ea_capacity :: usize
  ea_cache_line_bytes :: usize
  ea_base_page_bytes :: usize
  ea_allocated_bytes :: usize
  ea_storage :: addr
  ea_lines :: "arena_line list"
  ea_record_order :: "usize list"
  ea_prepared_content_checksum :: Sha256Digest

datatype RecordAccessStatus = RA_valid | RA_outside_arena | RA_not_record_start | RA_record_index_corrupt

record RecordAccessResult =
  ra_status :: RecordAccessStatus
  ra_record_index :: u64
  ra_payload :: u64

record EventSelection =
  es_record_index :: u64
  es_record :: addr

record EventArenaLayout =
  el_capacity :: usize
  el_cache_line_bytes :: usize
  el_base_page_bytes :: usize
  el_allocated_bytes :: usize
  el_distinct_cache_lines :: usize
  el_distinct_pages :: usize
  el_base_page_aligned :: bool
  el_every_record_line_aligned :: bool
  el_padding_initialized :: bool

definition sizeof_EventRecord :: usize where
  "sizeof_EventRecord = 16"

definition line_at :: "EventArena \<Rightarrow> usize \<Rightarrow> addr" where
  "line_at a index = ea_storage a + index * ea_cache_line_bytes a"

definition content_message :: "EventArena \<Rightarrow> u8 list" where
  "content_message a =
     (let padding_size = ea_cache_line_bytes a - sizeof_EventRecord in
      canonical_field (string_bytes kContentDomain) @
      canonical_field_u64 (ea_cache_line_bytes a) @ canonical_field_u64 (ea_capacity a) @
      concat (map (\<lambda>line.
        canonical_field_u64 (al_record_index line) @ canonical_field_u64 (al_payload line) @
        canonical_field_u64 padding_size @ canonical_field (al_padding line)) (ea_lines a)))"

definition content_checksum :: "sha_fun \<Rightarrow> EventArena \<Rightarrow> workload_error + Sha256Digest" where
  "content_checksum sha a = canonical_finish sha (content_message a)"

definition EventArena_create ::
  "hmac_fun \<Rightarrow> sha_fun \<Rightarrow> addr option \<Rightarrow> EventArenaConfig \<Rightarrow> workload_error + EventArena" where
  "EventArena_create hmac sha allocated config =
     (let capacity = ec_capacity config;
          line = ec_cache_line_bytes config;
          page = ec_base_page_bytes config
      in
      if \<not> workload_is_power_of_two capacity
      then Inl (WorkloadSetupError ''event arena capacity must be a nonzero power of two'')
      else if \<not> workload_is_power_of_two line \<or> line < sizeof_EventRecord
      then Inl (WorkloadSetupError ''event cache-line bytes must be a power of two that fits the record'')
      else if \<not> workload_is_power_of_two page \<or> page < line
      then Inl (WorkloadSetupError ''event base-page bytes must be a power of two at least one cache line'')
      else if ec_seed_namespace config = []
      then Inl (WorkloadSetupError ''event arena seed namespace must not be empty'')
      else
     (case derive_stream_key hmac (ec_master_seed config) (ec_seed_namespace config) event_order of
        Inl e \<Rightarrow> Inl e | Inr order_key \<Rightarrow>
     (case derive_stream_key hmac (ec_master_seed config) (ec_seed_namespace config) event_payload of
        Inl e \<Rightarrow> Inl e | Inr payload_key \<Rightarrow>
     (case make_permutation capacity (stream_draw order_key) of Inl e \<Rightarrow> Inl e | Inr record_order \<Rightarrow>
     (case arena_checked_multiply capacity line of Inl e \<Rightarrow> Inl e | Inr allocated_bytes \<Rightarrow>
     (case allocated of None \<Rightarrow> Inl Workload_bad_alloc | Some storage \<Rightarrow>
        let arena = \<lparr>ea_capacity = capacity, ea_cache_line_bytes = line, ea_base_page_bytes = page,
              ea_allocated_bytes = allocated_bytes, ea_storage = storage,
              ea_lines = map (\<lambda>index.
                \<lparr>al_record_index = of_nat index, al_payload = stream_draw payload_key (of_nat index),
                 al_padding = replicate (unat line - unat sizeof_EventRecord) 0\<rparr>) [0..<unat capacity],
              ea_record_order = record_order,
              ea_prepared_content_checksum = Sha256Digest (replicate 32 0)\<rparr>
        in (case content_checksum sha arena of
              Inl e \<Rightarrow> Inl e
            | Inr d \<Rightarrow> Inr (arena\<lparr>ea_prepared_content_checksum := d\<rparr>))))))))"

definition physical_record :: "EventArena \<Rightarrow> usize \<Rightarrow> workload_error + arena_line" where
  "physical_record a index =
     (if index \<ge> ea_capacity a
      then Inl (WorkloadSetupError ''physical record index is outside the event arena'')
      else Inr (ea_lines a ! unat index))"

definition select :: "EventArena \<Rightarrow> u64 \<Rightarrow> EventSelection" where
  "select a sequence =
     (let position = sequence mod ea_capacity a;
          record_index = ea_record_order a ! unat position
      in \<lparr>es_record_index = record_index, es_record = line_at a record_index\<rparr>)"

definition access_and_mix :: "EventArena \<Rightarrow> addr \<Rightarrow> u64 \<Rightarrow> RecordAccessResult \<times> u64" where
  "access_and_mix a pointer state =
     (let base = ea_storage a in
      if pointer < base
      then (\<lparr>ra_status = RA_outside_arena, ra_record_index = 0, ra_payload = 0\<rparr>, state)
      else
        let offset = pointer - base in
        if offset \<ge> ea_allocated_bytes a
        then (\<lparr>ra_status = RA_outside_arena, ra_record_index = 0, ra_payload = 0\<rparr>, state)
        else if offset mod ea_cache_line_bytes a \<noteq> 0
        then (\<lparr>ra_status = RA_not_record_start, ra_record_index = 0, ra_payload = 0\<rparr>, state)
        else
          let physical_index = offset div ea_cache_line_bytes a;
              record = ea_lines a ! unat physical_index;
              observed_index = al_record_index record;
              payload = al_payload record
          in if observed_index \<noteq> physical_index
             then (\<lparr>ra_status = RA_record_index_corrupt, ra_record_index = observed_index,
                    ra_payload = payload\<rparr>, state)
             else (\<lparr>ra_status = RA_valid, ra_record_index = observed_index, ra_payload = payload\<rparr>,
                   mix_consumer_state state observed_index payload))"

definition arena_layout :: "EventArena \<Rightarrow> EventArenaLayout" where
  "arena_layout a =
     \<lparr>el_capacity = ea_capacity a, el_cache_line_bytes = ea_cache_line_bytes a,
      el_base_page_bytes = ea_base_page_bytes a, el_allocated_bytes = ea_allocated_bytes a,
      el_distinct_cache_lines = ea_capacity a,
      el_distinct_pages = ea_allocated_bytes a div ea_base_page_bytes a +
        (if ea_allocated_bytes a mod ea_base_page_bytes a = 0 then 0 else 1),
      el_base_page_aligned = (ea_storage a mod ea_base_page_bytes a = 0),
      el_every_record_line_aligned =
        list_all (\<lambda>i. line_at a (of_nat i) mod ea_cache_line_bytes a = 0) [0..<unat (ea_capacity a)],
      el_padding_initialized =
        list_all (\<lambda>i. list_all (\<lambda>b. b = 0) (al_padding (ea_lines a ! i))) [0..<unat (ea_capacity a)]\<rparr>"

definition address_deltas :: "EventArena \<Rightarrow> workload_error + int list" where
  "address_deltas a = make_cyclic_address_deltas (ea_record_order a) (ea_cache_line_bytes a)"

definition ordered_index_checksum :: "sha_fun \<Rightarrow> EventArena \<Rightarrow> workload_error + Sha256Digest" where
  "ordered_index_checksum sha a = ordered_index_sha256 sha (ea_record_order a)"

definition address_delta_checksum :: "sha_fun \<Rightarrow> EventArena \<Rightarrow> workload_error + Sha256Digest" where
  "address_delta_checksum sha a =
     (case address_deltas a of Inl e \<Rightarrow> Inl e | Inr deltas \<Rightarrow> address_delta_sha256 sha deltas)"

subsection \<open>Mixing loses nothing\<close>

lemma mix_multiplier1: "a * (0xbf58476d1ce4e5b9 :: u64) = b * 0xbf58476d1ce4e5b9 \<longleftrightarrow> a = b"
  using mult_unit_cancel [of 10871156337175269513 "0xbf58476d1ce4e5b9 :: u64" a b]
  by (auto simp: mult.commute)

lemma mix_multiplier2: "a * (0x94d049bb133111eb :: u64) = b * 0x94d049bb133111eb \<longleftrightarrow> a = b"
  using mult_unit_cancel [of 3573116690164977347 "0x94d049bb133111eb :: u64" a b]
  by (auto simp: mult.commute)

lemma xor_shift_iff: "0 < k \<Longrightarrow> x XOR drop_bit k x = y XOR drop_bit k (y :: u64) \<longleftrightarrow> x = y"
  using xor_shift_cancel by blast

lemmas mix_undo = xor_shift_iff mix_multiplier1 mix_multiplier2 xor_left_cancel xor_right_cancel

subsection \<open>Orders and deltas\<close>

lemma workload_is_power_of_two_iff: "workload_is_power_of_two v \<longleftrightarrow> (\<exists>k < 64. v = 2 ^ k)"
  unfolding workload_is_power_of_two_def by (rule power_two_iff)

lemma arena_checked_multiply_Inr [simp]:
  "arena_checked_multiply l r = Inr s \<longleftrightarrow> unat l * unat r < 2 ^ 64 \<and> s = l * r"
  by (auto simp: arena_checked_multiply_def overflow_guard)

lemma validate_permutation_Inr:
  assumes "length order < 2 ^ 64"
  shows "validate_permutation order = Inr u \<longleftrightarrow>
    order \<noteq> [] \<and> distinct order \<and> (\<forall>i \<in> set order. unat i < length order)"
proof -
  have len: "unat (of_nat (length order) :: u64) = length order"
    using assms by (rule unat_of_nat_u64)
  have "seen_check (of_nat (length order)) (replicate (length order) False) order \<longleftrightarrow>
      distinct order \<and> (\<forall>i \<in> set order. i < of_nat (length order))"
    using seen_check_permutation [of "of_nat (length order)" order] by (simp add: len)
  then show ?thesis by (auto simp: validate_permutation_def word_less_nat_alt len)
qed

lemma signed_delta_Inr:
  assumes "signed_delta from to stride = Inr d"
  shows "d = (int (unat to) - int (unat from)) * int (unat stride)"
proof -
  have f: "unat from * unat stride < 2 ^ 64" and t: "unat to * unat stride < 2 ^ 64"
    using assms by (auto simp: signed_delta_def)
  note u = unat_times_u64 [OF f] unat_times_u64 [OF t]
  have d: "d = (if from * stride \<le> to * stride then int (unat (to * stride - from * stride))
      else - int (unat (from * stride - to * stride)))"
    using assms by (auto simp: signed_delta_def Let_def split: if_splits)
  show ?thesis
  proof (cases "from * stride \<le> to * stride")
    case True
    then have "unat from * unat stride \<le> unat to * unat stride" by (simp add: word_le_nat_alt u)
    with True d show ?thesis
      by (simp add: unat_minus_u64 u of_nat_diff left_diff_distrib)
  next
    case False
    then have "to * stride \<le> from * stride" by simp
    moreover from this have "unat to * unat stride \<le> unat from * unat stride"
      by (simp add: word_le_nat_alt u)
    ultimately show ?thesis
      using False d by (simp add: unat_minus_u64 u of_nat_diff left_diff_distrib)
  qed
qed

lemma make_cyclic_address_deltas_Inr:
  assumes "make_cyclic_address_deltas order stride = Inr deltas"
  shows "length deltas = length order"
    and "i < length order \<Longrightarrow> deltas ! i =
      (int (unat (order ! (Suc i mod length order))) - int (unat (order ! i))) * int (unat stride)"
proof -
  have all: "list_all2 (\<lambda>index d.
      signed_delta (order ! index) (order ! (if index + 1 = length order then 0 else index + 1)) stride
        = Inr d) [0..<length order] deltas"
    using assms by (auto simp: make_cyclic_address_deltas_def map_result_Inr Let_def)
  then show "length deltas = length order" by (auto dest: list_all2_lengthD)
  assume i: "i < length order"
  then have "signed_delta (order ! i) (order ! (if i + 1 = length order then 0 else i + 1)) stride =
      Inr (deltas ! i)"
    using list_all2_nthD [OF all, of i] by (auto split: if_splits)
  moreover have eq: "(if i + 1 = length order then 0 else i + 1) = Suc i mod length order"
    using i by auto
  ultimately show "deltas ! i =
      (int (unat (order ! (Suc i mod length order))) - int (unat (order ! i))) * int (unat stride)"
    by (simp only: eq signed_delta_Inr)
qed

lemma cyclic_differences_sum: "0 < n \<Longrightarrow> (\<Sum>i<n. f (Suc i mod n) - f i) = (0 :: int)"
proof -
  assume "0 < n"
  then obtain m where n: "n = Suc m" by (cases n) auto
  have "(\<Sum>i<Suc m. f (Suc i mod Suc m)) = (\<Sum>i<m. f (Suc i)) + f 0"
    by simp
  also have "\<dots> = (\<Sum>i<Suc m. f i)" by (simp only: sum.lessThan_Suc_shift add.commute)
  finally show ?thesis unfolding n by (simp add: sum_subtractf)
qed

subsection \<open>The arena after construction\<close>

lemma EventArena_create_Inr:
  assumes "EventArena_create hmac sha allocated config = Inr a"
  shows "workload_is_power_of_two (ea_capacity a)" and "workload_is_power_of_two (ea_cache_line_bytes a)"
    and "16 \<le> ea_cache_line_bytes a" and "ea_cache_line_bytes a \<le> ea_base_page_bytes a"
    and "ea_allocated_bytes a = ea_capacity a * ea_cache_line_bytes a"
    and "unat (ea_capacity a) * unat (ea_cache_line_bytes a) < 2 ^ 64"
    and "length (ea_lines a) = unat (ea_capacity a)"
    and "i < unat (ea_capacity a) \<Longrightarrow> al_record_index (ea_lines a ! i) = of_nat i"
    and "\<exists>key. derive_stream_key hmac (ec_master_seed config) (ec_seed_namespace config) event_payload =
           Inr key \<and> (\<forall>i < unat (ea_capacity a).
             al_payload (ea_lines a ! i) = stream_draw key (of_nat i))"
    and "\<exists>key. make_permutation (ea_capacity a) (stream_draw key) = Inr (ea_record_order a)"
    and "i < unat (ea_capacity a) \<Longrightarrow> list_all (\<lambda>b. b = 0) (al_padding (ea_lines a ! i))"
  using assms
  by (auto simp: EventArena_create_def Let_def sizeof_EventRecord_def not_less list_all_iff)

definition arena_in_memory :: "EventArena \<Rightarrow> bool" where
  "arena_in_memory a \<longleftrightarrow> unat (ea_storage a) + unat (ea_allocated_bytes a) \<le> 2 ^ 64"

lemma line_offset:
  assumes create: "EventArena_create hmac sha allocated config = Inr a" and mem: "arena_in_memory a"
    and i: "i < ea_capacity a"
  shows "ea_storage a \<le> line_at a i"
    and "unat (line_at a i - ea_storage a) = unat i * unat (ea_cache_line_bytes a)"
    and "line_at a i - ea_storage a < ea_allocated_bytes a"
    and "(line_at a i - ea_storage a) mod ea_cache_line_bytes a = 0"
    and "(line_at a i - ea_storage a) div ea_cache_line_bytes a = i"
proof -
  note c = EventArena_create_Inr [OF create]
  let ?l = "unat (ea_cache_line_bytes a)"
  have l: "0 < ?l" using c(3) by (simp add: word_le_nat_alt)
  have all: "unat (ea_allocated_bytes a) = unat (ea_capacity a) * ?l"
    using c(5,6) by (simp add: unat_times_u64)
  have lt: "unat i * ?l < unat (ea_capacity a) * ?l" using i l by (simp add: word_less_nat_alt)
  have mul: "unat (i * ea_cache_line_bytes a) = unat i * ?l"
    using lt c(6) by (intro unat_times_u64) linarith
  have at: "unat (line_at a i) = unat (ea_storage a) + unat i * ?l"
  proof -
    have "unat (ea_storage a) + unat i * ?l < 2 ^ 64"
      using lt all mem unfolding arena_in_memory_def by linarith
    then show ?thesis unfolding line_at_def using mul by (subst unat_plus_u64) simp_all
  qed
  show le: "ea_storage a \<le> line_at a i" by (simp add: word_le_nat_alt at)
  show off: "unat (line_at a i - ea_storage a) = unat i * ?l"
    using le by (simp add: unat_minus_u64 at)
  show "line_at a i - ea_storage a < ea_allocated_bytes a"
    using lt by (simp add: word_less_nat_alt off all)
  show "(line_at a i - ea_storage a) mod ea_cache_line_bytes a = 0"
    and "(line_at a i - ea_storage a) div ea_cache_line_bytes a = i"
    using l by (simp_all add: word_eq_unat unat_mod unat_div off)
qed

lemma power_of_two_mod:
  assumes "workload_is_power_of_two n"
  shows "unat ((s + of_nat i) mod n) = (unat s + i) mod unat n"
proof -
  obtain k where k: "k < 64" "n = 2 ^ k" using assms by (auto simp: workload_is_power_of_two_iff)
  then have n: "unat n = 2 ^ k"
    using unat_of_nat_u64 [of "2 ^ k"] power_strict_increasing [of k 64 "2 :: nat"] by simp
  have "unat ((s + of_nat i) mod n) = (unat s + i) mod 2 ^ 64 mod 2 ^ k"
    by (simp add: unat_mod n unat_word_ariths unat_of_nat take_bit_eq_mod mod_simps)
  also have "\<dots> = (unat s + i) mod 2 ^ k"
    using k by (intro mod_mod_cancel le_imp_power_dvd) simp
  finally show ?thesis by (simp add: n)
qed

lemma record_order_facts:
  assumes "EventArena_create hmac sha allocated config = Inr a"
  shows "length (ea_record_order a) = unat (ea_capacity a)"
    and "mset (ea_record_order a) = mset (map of_nat [0..<unat (ea_capacity a)])"
    and "i < unat (ea_capacity a) \<Longrightarrow> ea_record_order a ! i < ea_capacity a"
proof -
  obtain key where p: "make_permutation (ea_capacity a) (stream_draw key) = Inr (ea_record_order a)"
    using EventArena_create_Inr(10) [OF assms] by blast
  show len: "length (ea_record_order a) = unat (ea_capacity a)"
    by (rule make_permutation_complete(1) [OF p])
  show "mset (ea_record_order a) = mset (map of_nat [0..<unat (ea_capacity a)])"
    by (rule make_permutation_mset [OF p])
  assume "i < unat (ea_capacity a)"
  with len have "ea_record_order a ! i \<in> set (ea_record_order a)" by simp
  then show "ea_record_order a ! i < ea_capacity a"
    using make_permutation_complete(3) [OF p] by blast
qed

lemma select_facts:
  assumes "EventArena_create hmac sha allocated config = Inr a"
  shows "es_record_index (select a sequence) < ea_capacity a"
    and "es_record (select a sequence) = line_at a (es_record_index (select a sequence))"
proof -
  have "ea_capacity a \<noteq> 0"
    using EventArena_create_Inr(1) [OF assms] by (simp add: workload_is_power_of_two_def)
  then have "unat (sequence mod ea_capacity a) < unat (ea_capacity a)"
    by (simp add: unat_mod word_eq_unat)
  then show "es_record_index (select a sequence) < ea_capacity a"
    using record_order_facts(3) [OF assms] by (simp add: select_def Let_def)
  show "es_record (select a sequence) = line_at a (es_record_index (select a sequence))"
    by (simp add: select_def Let_def)
qed

lemma access_and_mix_line:
  assumes "EventArena_create hmac sha allocated config = Inr a" and "arena_in_memory a"
    and i: "i < ea_capacity a"
  shows "access_and_mix a (line_at a i) state =
    (\<lparr>ra_status = RA_valid, ra_record_index = i, ra_payload = al_payload (ea_lines a ! unat i)\<rparr>,
     mix_consumer_state state i (al_payload (ea_lines a ! unat i)))"
proof -
  have n: "unat i < unat (ea_capacity a)" using i by (simp add: word_less_nat_alt)
  have "al_record_index (ea_lines a ! unat i) = i"
    using EventArena_create_Inr(8) [OF assms(1) n] by simp
  then show ?thesis
    using line_offset(1,3,4,5) [OF assms]
    by (simp add: access_and_mix_def Let_def not_less not_le)
qed

subsection \<open>Canonical messages\<close>

lemma encode_u64_eq: "encode_u64 v = u64_be v"
  by (simp add: encode_u64_def u64_be_def append_u64_be_def)

lemma canonical_field_eq: "canonical_field bytes = field_bytes bytes"
  by (simp add: canonical_field_def field_bytes_def encode_u64_eq)

lemma canonical_field_u64_split:
  "canonical_field_u64 v @ x = canonical_field_u64 w @ y \<longleftrightarrow> v = w \<and> x = y"
  using field_bytes_split [of "u64_be v" x "u64_be w" y]
  by (auto simp: canonical_field_u64_def canonical_field_eq encode_u64_eq u64_be_inj)

lemma canonical_field_u64_nonempty [simp]: "canonical_field_u64 v \<noteq> []"
  by (simp add: canonical_field_u64_def canonical_field_def encode_u64_def)

lemma canonical_fields_inj:
  "concat (map canonical_field_u64 xs) = concat (map canonical_field_u64 ys) \<longleftrightarrow> xs = ys"
proof (induction xs arbitrary: ys)
  case Nil
  then show ?case by (cases ys) simp_all
next
  case (Cons x xs)
  then show ?case by (cases ys) (simp_all add: canonical_field_u64_split)
qed

subsection \<open>Properties\<close>

text \<open>
  A concrete arena for the witnesses: two records on 64-byte lines at address 4096, with
  constant functions in the place of the two cryptographic primitives.
\<close>

definition example_hmac :: hmac_fun where
  "example_hmac key message = Some (replicate 32 0)"

definition example_sha :: sha_fun where
  "example_sha message = Inr (replicate 32 0)"

definition example_arena_config :: EventArenaConfig where
  "example_arena_config =
     \<lparr>ec_capacity = 2, ec_cache_line_bytes = 64, ec_base_page_bytes = 4096,
      ec_master_seed = MasterSeed (replicate 32 0), ec_seed_namespace = ''m''\<rparr>"

lemma make_permutation_two: "\<exists>order. make_permutation 2 stream = Inr order"
proof -
  have "draw_at_least stream (draw_threshold 2) 0 = Inr (stream 0, 1)"
    by (simp add: draw_at_least.simps [of _ _ 0] draw_threshold_def)
  then show ?thesis
    by (simp add: make_permutation_def shuffle_from.simps [of _ 2] shuffle_from.simps [of _ "Suc 0"] Let_def)
qed

lemma example_arena:
  "\<exists>a. EventArena_create example_hmac example_sha (Some 4096) example_arena_config = Inr a \<and>
     ea_capacity a = 2 \<and> arena_in_memory a"
proof -
  have pow: "workload_is_power_of_two 2" "workload_is_power_of_two 64" "workload_is_power_of_two 4096"
    by (simp_all add: workload_is_power_of_two_def)
  have key: "\<exists>key. derive_stream_key example_hmac s ''m'' p = Inr key" for s p
    by (cases p) (simp_all add: derive_stream_key_def example_hmac_def)
  obtain k1 k2 where "derive_stream_key example_hmac (MasterSeed (replicate 32 0)) ''m'' event_order = Inr k1"
    "derive_stream_key example_hmac (MasterSeed (replicate 32 0)) ''m'' event_payload = Inr k2"
    using key by blast
  moreover obtain order where "make_permutation 2 (stream_draw k1) = Inr order"
    using make_permutation_two by blast
  moreover have "arena_checked_multiply 2 64 = Inr 128" by (simp add: arena_checked_multiply_def)
  ultimately show ?thesis
    by (simp add: EventArena_create_def example_arena_config_def pow Let_def content_checksum_def
        canonical_finish_def example_sha_def sizeof_EventRecord_def arena_in_memory_def)
qed

text \<open>
  Selection and access agree: whatever the sequence number, the pointer selected for it
  is accepted by the access routine, which finds the selected record index and the payload
  the payload stream has for it, and mixes exactly these into the consumer state.
\<close>

theorem arena_selection_accessible:
  assumes "EventArena_create hmac sha allocated config = Inr a" and "arena_in_memory a"
  shows "\<exists>key. derive_stream_key hmac (ec_master_seed config) (ec_seed_namespace config) event_payload =
           Inr key \<and>
         access_and_mix a (es_record (select a sequence)) state =
           (\<lparr>ra_status = RA_valid, ra_record_index = es_record_index (select a sequence),
             ra_payload = stream_draw key (es_record_index (select a sequence))\<rparr>,
            mix_consumer_state state (es_record_index (select a sequence))
              (stream_draw key (es_record_index (select a sequence))))"
proof -
  let ?i = "es_record_index (select a sequence)"
  note i = select_facts [OF assms(1), of sequence]
  then have "unat ?i < unat (ea_capacity a)" by (simp add: word_less_nat_alt)
  then obtain key where "derive_stream_key hmac (ec_master_seed config) (ec_seed_namespace config)
      event_payload = Inr key" "al_payload (ea_lines a ! unat ?i) = stream_draw key ?i"
    using EventArena_create_Inr(9) [OF assms(1)] by fastforce
  then show ?thesis using access_and_mix_line [OF assms i(1), of state] i(2) by simp
qed

theorem arena_selection_accessible_witness:
  "\<exists>a. EventArena_create example_hmac example_sha (Some 4096) example_arena_config = Inr a \<and>
     ra_status (fst (access_and_mix a (es_record (select a 5)) 0)) = RA_valid"
proof -
  obtain a where a: "EventArena_create example_hmac example_sha (Some 4096) example_arena_config = Inr a"
    "arena_in_memory a" using example_arena by blast
  from arena_selection_accessible [OF a, of 5 0] a(1) show ?thesis by auto
qed

text \<open>
  Every window of \<open>capacity\<close> consecutive sequence numbers visits every record exactly
  once, also where the sequence number wraps around.
\<close>

theorem arena_window_complete:
  assumes "EventArena_create hmac sha allocated config = Inr a"
  shows "mset (map (\<lambda>i. es_record_index (select a (first + of_nat i))) [0..<unat (ea_capacity a)]) =
         mset (map of_nat [0..<unat (ea_capacity a)])"
proof -
  note c = EventArena_create_Inr [OF assms] and o = record_order_facts [OF assms]
  have "map (\<lambda>i. es_record_index (select a (first + of_nat i))) [0..<unat (ea_capacity a)] =
      rotate (unat first) (ea_record_order a)"
    by (rule nth_equalityI)
      (auto simp: select_def Let_def power_of_two_mod [OF c(1)] o(1) nth_rotate)
  then show ?thesis using o(2) by simp
qed

theorem arena_window_complete_witness:
  "\<exists>a. EventArena_create example_hmac example_sha (Some 4096) example_arena_config = Inr a \<and>
     mset (map (\<lambda>i. es_record_index (select a (u64_max + of_nat i))) [0..<2]) = mset [0, 1]"
proof -
  obtain a where a: "EventArena_create example_hmac example_sha (Some 4096) example_arena_config = Inr a"
    "ea_capacity a = 2" using example_arena by blast
  have "[0..<2] = [0, 1 :: nat]" by (simp add: upt_rec)
  with arena_window_complete [OF a(1), of u64_max] a show ?thesis by auto
qed

text \<open>
  Mixing is reversible in each argument: with the other two fixed, different states,
  different record indices or different payloads give different new states.
\<close>

theorem mix_consumer_state_injective:
  "(mix_consumer_state s i p = mix_consumer_state t i p \<longleftrightarrow> s = t) \<and>
   (mix_consumer_state s i p = mix_consumer_state s j p \<longleftrightarrow> i = j) \<and>
   (mix_consumer_state s i p = mix_consumer_state s i r \<longleftrightarrow> p = r)"
  by (simp only: mix_consumer_state_def Let_def mix_undo zero_less_numeral add_right_cancel)

text \<open>
  Address deltas close the cycle: delta \<open>i\<close> is the signed byte distance from the \<open>i\<close>-th
  index to its successor around the order, and all deltas together sum to zero.
\<close>

theorem address_deltas_close:
  assumes "make_cyclic_address_deltas order stride = Inr deltas"
  shows "length deltas = length order \<and>
    (\<forall>i < length order. deltas ! i =
       (int (unat (order ! (Suc i mod length order))) - int (unat (order ! i))) * int (unat stride)) \<and>
    sum_list deltas = 0"
proof -
  note d = make_cyclic_address_deltas_Inr [OF assms]
  have "order \<noteq> []"
    using assms by (auto simp: make_cyclic_address_deltas_def validate_permutation_def)
  then have pos: "0 < length order" by simp
  have "sum_list deltas = (\<Sum>i<length order. deltas ! i)"
    by (simp add: sum_list_sum_nth d(1) atLeast0LessThan)
  also have "\<dots> = (\<Sum>i<length order.
      int (unat (order ! (Suc i mod length order))) - int (unat (order ! i))) * int (unat stride)"
    by (simp add: d(2) sum_distrib_right)
  also have "\<dots> = 0"
    using cyclic_differences_sum [OF pos, of "\<lambda>i. int (unat (order ! i))"] by simp
  finally show ?thesis using d by simp
qed

theorem address_deltas_close_witness:
  "make_cyclic_address_deltas [1, 0, 2] 64 = Inr [-64, 128, -64] \<and> sum_list [-64, 128, -64 :: int] = 0"
proof -
  have run: "make_cyclic_address_deltas [1, 0, 2] 64 = Inr [-64, 128, -64]" by code_simp
  from address_deltas_close [OF run] run show ?thesis by simp
qed

text \<open>
  The ordered-index digest covers the order: different orders are hashed from different
  messages.
\<close>

theorem ordered_index_message_injective:
  "ordered_index_message xs = ordered_index_message ys \<longleftrightarrow> xs = ys"
  by (auto simp: ordered_index_message_def canonical_field_u64_split canonical_fields_inj)

end
