(* ===== verification/Working_Set.thy ===== *)
theory Working_Set
  imports Records
begin

text \<open>
  Choice of a common capacity and the node order of the linked queue:
  \<^verbatim>\<open>include/cpu_prefetch/workload/working_set.hpp\<close> and \<^verbatim>\<open>src/workload/working_set.cpp\<close>.
\<close>

subsection \<open>Footprints\<close>

datatype WorkingSetClass = l2_resident | llc_resident | beyond_llc | WS_not_applicable

record SharedFootprintCandidate =
  sf_capacity :: usize
  sf_ring_bytes :: u64
  sf_linked_bytes :: u64

record CacheCapacityEvidence =
  cc_cache_line_bytes :: u64
  cc_smaller_usable_l2_bytes :: u64
  cc_producer_home_usable_llc_bytes :: u64

record CapacitySelection =
  cs_working_set_class :: WorkingSetClass
  cs_selected :: SharedFootprintCandidate

definition checked_product :: "u64 \<Rightarrow> u64 \<Rightarrow> string \<Rightarrow> workload_error + u64" where
  "checked_product left right field =
     (if left \<noteq> 0 \<and> right > u64_max div left
      then Inl (WorkloadSetupError (field @ '' overflows uint64''))
      else Inr (left * right))"

definition checked_sum :: "u64 \<Rightarrow> u64 \<Rightarrow> string \<Rightarrow> workload_error + u64" where
  "checked_sum left right field =
     (if right > u64_max - left
      then Inl (WorkloadSetupError (field @ '' overflows uint64''))
      else Inr (left + right))"

definition make_shared_footprint_candidate ::
  "usize \<Rightarrow> u64 \<Rightarrow> u64 \<Rightarrow> u64 \<Rightarrow> workload_error + SharedFootprintCandidate" where
  "make_shared_footprint_candidate capacity event_arena_bytes ring_queue_bytes linked_queue_bytes =
     (if \<not> workload_is_power_of_two capacity \<or> event_arena_bytes = 0 \<or> ring_queue_bytes = 0 \<or>
         linked_queue_bytes = 0
      then Inl (WorkloadSetupError
        ''footprint accounting requires a power-of-two capacity and actual nonzero byte counts'')
      else
     (case checked_sum event_arena_bytes ring_queue_bytes ''ring shared footprint'' of
        Inl e \<Rightarrow> Inl e | Inr ring_bytes \<Rightarrow>
     (case checked_sum event_arena_bytes linked_queue_bytes ''linked shared footprint'' of
        Inl e \<Rightarrow> Inl e | Inr linked_bytes \<Rightarrow>
        Inr \<lparr>sf_capacity = capacity, sf_ring_bytes = ring_bytes, sf_linked_bytes = linked_bytes\<rparr>)))"

text \<open>The \<^verbatim>\<open>matches\<close> lambda of \<^verbatim>\<open>both_match\<close>, with the bounds it captures.\<close>

fun footprint_matches ::
  "WorkingSetClass \<Rightarrow> CacheCapacityEvidence \<Rightarrow> u64 \<Rightarrow> u64 \<Rightarrow> u64 \<Rightarrow> u64 \<Rightarrow> bool" where
  "footprint_matches l2_resident cache lower_l2 twice_l2 twice_llc footprint \<longleftrightarrow>
     footprint > lower_l2 \<and> footprint \<le> cc_smaller_usable_l2_bytes cache div 2"
| "footprint_matches llc_resident cache lower_l2 twice_l2 twice_llc footprint \<longleftrightarrow>
     footprint > twice_l2 \<and> footprint \<le> cc_producer_home_usable_llc_bytes cache div 2"
| "footprint_matches beyond_llc cache lower_l2 twice_l2 twice_llc footprint \<longleftrightarrow> footprint \<ge> twice_llc"
| "footprint_matches WS_not_applicable cache lower_l2 twice_l2 twice_llc footprint \<longleftrightarrow> False"

definition both_match ::
  "SharedFootprintCandidate \<Rightarrow> CacheCapacityEvidence \<Rightarrow> WorkingSetClass \<Rightarrow> workload_error + bool" where
  "both_match candidate cache ws =
     (case checked_product 4 (cc_cache_line_bytes cache) ''four-cache-line lower bound'' of
        Inl e \<Rightarrow> Inl e | Inr lower_l2 \<Rightarrow>
     (case checked_product 2 (cc_smaller_usable_l2_bytes cache) ''two-L2 lower bound'' of
        Inl e \<Rightarrow> Inl e | Inr twice_l2 \<Rightarrow>
     (case checked_product 2 (cc_producer_home_usable_llc_bytes cache) ''two-LLC lower bound'' of
        Inl e \<Rightarrow> Inl e | Inr twice_llc \<Rightarrow>
        let matches = footprint_matches ws cache lower_l2 twice_l2 twice_llc
        in Inr (matches (sf_ring_bytes candidate) \<and> matches (sf_linked_bytes candidate)))))"

text \<open>The loop over the candidates, with the capacities seen and the choice so far.\<close>

fun select_loop ::
  "WorkingSetClass \<Rightarrow> CacheCapacityEvidence \<Rightarrow> usize set \<Rightarrow> SharedFootprintCandidate option \<Rightarrow>
     SharedFootprintCandidate list \<Rightarrow> workload_error + SharedFootprintCandidate option" where
  "select_loop ws cache seen selected [] = Inr selected"
| "select_loop ws cache seen selected (candidate # rest) =
     (if \<not> workload_is_power_of_two (sf_capacity candidate) \<or> sf_ring_bytes candidate = 0 \<or>
         sf_linked_bytes candidate = 0
      then Inl (WorkloadSetupError
        ''every footprint candidate needs a unique power-of-two capacity and nonzero bytes'')
      else if sf_capacity candidate \<in> seen
      then Inl (WorkloadSetupError ''footprint candidate capacities must be unique'')
      else
     (case both_match candidate cache ws of Inl e \<Rightarrow> Inl e | Inr matched \<Rightarrow>
        select_loop ws cache (insert (sf_capacity candidate) seen)
          (if \<not> matched then selected
           else (case selected of
                   None \<Rightarrow> Some candidate
                 | Some s \<Rightarrow>
                     if (if ws = beyond_llc then sf_capacity candidate < sf_capacity s
                         else sf_capacity candidate > sf_capacity s)
                     then Some candidate else selected)) rest))"

definition select_common_capacity ::
  "WorkingSetClass \<Rightarrow> CacheCapacityEvidence \<Rightarrow> SharedFootprintCandidate list \<Rightarrow>
     workload_error + CapacitySelection" where
  "select_common_capacity ws cache_evidence candidates =
     (if ws = WS_not_applicable
      then Inl (WorkloadSetupError ''Stage A working-set class must be applicable'')
      else if cc_cache_line_bytes cache_evidence = 0 \<or>
        \<not> workload_is_power_of_two (cc_cache_line_bytes cache_evidence) \<or>
        cc_smaller_usable_l2_bytes cache_evidence = 0 \<or>
        cc_producer_home_usable_llc_bytes cache_evidence = 0
      then Inl (WorkloadSetupError ''capacity selection requires explicit nonzero cache facts'')
      else if candidates = []
      then Inl (WorkloadSetupError ''capacity selection requires footprint candidates'')
      else
     (case select_loop ws cache_evidence {} None candidates of Inl e \<Rightarrow> Inl e | Inr selected \<Rightarrow>
     (case selected of
        None \<Rightarrow> Inl (WorkloadSetupError
          ''no common logical capacity satisfies both queue footprint rules'')
      | Some s \<Rightarrow> Inr \<lparr>cs_working_set_class = ws, cs_selected = s\<rparr>)))"

subsection \<open>Address patterns\<close>

record AddressPatternSummary =
  ap_transition_count :: nat
  ap_distinct_line_count :: nat
  ap_distinct_page_count :: u64
  ap_shortest_period :: nat
  ap_adjacent_line_transition_count :: nat
  ap_modal_nonzero_delta_count :: nat
  ap_modal_nonzero_delta :: "int option"
  ap_adjacent_fraction_at_most_one_percent :: bool
  ap_modal_fraction_at_most_one_percent :: bool

definition one_percent_or_less :: "nat \<Rightarrow> nat \<Rightarrow> bool" where
  "one_percent_or_less n total_count \<longleftrightarrow> n \<le> total_count div 100"

definition delta_magnitude :: "int \<Rightarrow> u64" where
  "delta_magnitude delta =
     (if delta < 0 then of_int (- (delta + 1)) + 1 else of_int delta)"

text \<open>
  The \<^verbatim>\<open>std::map\<close> of nonzero deltas is walked in ascending order of the key; a later delta wins
  only with a larger number of occurrences.
\<close>

definition delta_occurrences :: "int list \<Rightarrow> int \<Rightarrow> nat" where
  "delta_occurrences deltas d = length (filter (\<lambda>x. x = d) deltas)"

fun modal_loop :: "(int \<Rightarrow> nat) \<Rightarrow> int list \<Rightarrow> int option \<Rightarrow> nat \<Rightarrow> int option \<times> nat" where
  "modal_loop occ [] modal_delta modal_count = (modal_delta, modal_count)"
| "modal_loop occ (d # rest) modal_delta modal_count =
     (if occ d > modal_count then modal_loop occ rest (Some d) (occ d)
      else modal_loop occ rest modal_delta modal_count)"

definition nonzero_keys :: "int list \<Rightarrow> int list" where
  "nonzero_keys deltas = remdups (sort (filter (\<lambda>d. d \<noteq> 0) deltas))"

definition summarize ::
  "usize list \<Rightarrow> int list \<Rightarrow> usize \<Rightarrow> usize \<Rightarrow> workload_error + AddressPatternSummary" where
  "summarize order deltas stride_bytes base_page_bytes =
     (let adjacent_count = length (filter (\<lambda>d. delta_magnitude d = stride_bytes) deltas);
          (modal_delta, modal_count) =
            modal_loop (delta_occurrences deltas) (nonzero_keys deltas) None 0
      in
     (case checked_product (of_nat (length order)) stride_bytes ''node arena byte count'' of
        Inl e \<Rightarrow> Inl e | Inr allocated_bytes \<Rightarrow>
        let page_count = allocated_bytes div base_page_bytes +
              (if allocated_bytes mod base_page_bytes = 0 then 0 else 1)
        in Inr \<lparr>ap_transition_count = length deltas, ap_distinct_line_count = length order,
             ap_distinct_page_count = page_count, ap_shortest_period = length order,
             ap_adjacent_line_transition_count = adjacent_count,
             ap_modal_nonzero_delta_count = modal_count, ap_modal_nonzero_delta = modal_delta,
             ap_adjacent_fraction_at_most_one_percent =
               one_percent_or_less adjacent_count (length deltas),
             ap_modal_fraction_at_most_one_percent =
               one_percent_or_less modal_count (length deltas)\<rparr>))"

record NodeOrderConfig =
  no_logical_capacity :: usize
  no_node_stride_bytes :: usize
  no_cache_line_bytes :: usize
  no_base_page_bytes :: usize

record NodeOrderPlan =
  np_node_stride_bytes :: usize
  np_cache_line_bytes :: usize
  np_base_page_bytes :: usize
  np_order :: "usize list"
  np_deltas :: "int list"
  np_ordered_index_checksum :: Sha256Digest
  np_address_delta_checksum :: Sha256Digest
  np_summary :: AddressPatternSummary

definition NodeOrderPlan_create ::
  "hmac_fun \<Rightarrow> sha_fun \<Rightarrow> NodeOrderConfig \<Rightarrow> MasterSeed \<Rightarrow> string \<Rightarrow> workload_error + NodeOrderPlan" where
  "NodeOrderPlan_create hmac sha config master_seed seed_namespace =
     (let stride = no_node_stride_bytes config;
          line = no_cache_line_bytes config;
          page = no_base_page_bytes config
      in
      if \<not> workload_is_power_of_two (no_logical_capacity config)
      then Inl (WorkloadSetupError ''linked logical capacity must be a nonzero power of two'')
      else if \<not> workload_is_power_of_two line \<or> line < 8 \<or> stride = 0 \<or> stride mod line \<noteq> 0 \<or>
        page = 0 \<or> page mod line \<noteq> 0
      then Inl (WorkloadSetupError
        ''node stride must contain integral cache lines and page bytes must be cache-line compatible'')
      else if seed_namespace = []
      then Inl (WorkloadSetupError ''node-order seed namespace must not be empty'')
      else if no_logical_capacity config = u64_max
      then Inl (WorkloadSetupError ''linked node count overflows size_t'')
      else
     (case derive_stream_key hmac master_seed seed_namespace node_order of Inl e \<Rightarrow> Inl e | Inr key \<Rightarrow>
     (case make_permutation (no_logical_capacity config + 1) (stream_draw key) of
        Inl e \<Rightarrow> Inl e | Inr order \<Rightarrow>
     (case make_cyclic_address_deltas order stride of Inl e \<Rightarrow> Inl e | Inr deltas \<Rightarrow>
     (case ordered_index_sha256 sha order of Inl e \<Rightarrow> Inl e | Inr index_checksum \<Rightarrow>
     (case address_delta_sha256 sha deltas of Inl e \<Rightarrow> Inl e | Inr delta_checksum \<Rightarrow>
     (case summarize order deltas stride page of Inl e \<Rightarrow> Inl e | Inr summary \<Rightarrow>
        Inr \<lparr>np_node_stride_bytes = stride, np_cache_line_bytes = line, np_base_page_bytes = page,
             np_order = order, np_deltas = deltas, np_ordered_index_checksum = index_checksum,
             np_address_delta_checksum = delta_checksum, np_summary = summary\<rparr>)))))))"

subsection \<open>The selection loop\<close>

definition at_least_as_good :: "WorkingSetClass \<Rightarrow> usize \<Rightarrow> usize \<Rightarrow> bool" where
  "at_least_as_good ws a b \<longleftrightarrow> (if ws = beyond_llc then a \<le> b else b \<le> a)"

lemma at_least_as_good_trans:
  "at_least_as_good ws a b \<Longrightarrow> at_least_as_good ws b c \<Longrightarrow> at_least_as_good ws a c"
  by (auto simp: at_least_as_good_def split: if_splits)

lemma at_least_as_good_refl [simp]: "at_least_as_good ws a a"
  by (simp add: at_least_as_good_def)

definition choose_better ::
  "WorkingSetClass \<Rightarrow> SharedFootprintCandidate option \<Rightarrow> SharedFootprintCandidate \<Rightarrow>
     SharedFootprintCandidate option" where
  "choose_better ws selected candidate =
     (case selected of
        None \<Rightarrow> Some candidate
      | Some s \<Rightarrow>
          if (if ws = beyond_llc then sf_capacity candidate < sf_capacity s
              else sf_capacity candidate > sf_capacity s)
          then Some candidate else selected)"

lemma choose_better_spec:
  "\<exists>s. choose_better ws selected c = Some s \<and> (s = c \<or> selected = Some s) \<and>
     at_least_as_good ws (sf_capacity s) (sf_capacity c) \<and>
     (\<forall>t. selected = Some t \<longrightarrow> at_least_as_good ws (sf_capacity s) (sf_capacity t))"
  by (cases selected) (auto simp: choose_better_def at_least_as_good_def)

lemma select_loop_Cons:
  "select_loop ws cache seen selected (c # rest) = Inr out \<longleftrightarrow>
     workload_is_power_of_two (sf_capacity c) \<and> sf_ring_bytes c \<noteq> 0 \<and> sf_linked_bytes c \<noteq> 0 \<and>
     sf_capacity c \<notin> seen \<and>
     (\<exists>matched. both_match c cache ws = Inr matched \<and>
        select_loop ws cache (insert (sf_capacity c) seen)
          (if matched then choose_better ws selected c else selected) rest = Inr out)"
  by (auto simp: choose_better_def)

lemma select_loop_spec:
  assumes "select_loop ws cache seen selected cs = Inr out"
  shows "(case out of
      None \<Rightarrow> selected = None \<and> (\<forall>c \<in> set cs. both_match c cache ws = Inr False)
    | Some s \<Rightarrow> (selected = Some s \<or> s \<in> set cs \<and> both_match s cache ws = Inr True) \<and>
        (\<forall>c \<in> set cs. both_match c cache ws = Inr True \<longrightarrow>
           at_least_as_good ws (sf_capacity s) (sf_capacity c)) \<and>
        (\<forall>t. selected = Some t \<longrightarrow> at_least_as_good ws (sf_capacity s) (sf_capacity t)))"
  using assms
proof (induction cs arbitrary: seen selected)
  case Nil
  then show ?case by (auto split: option.splits)
next
  case (Cons c cs)
  from Cons.prems obtain matched where m: "both_match c cache ws = Inr matched"
    and rest: "select_loop ws cache (insert (sf_capacity c) seen)
      (if matched then choose_better ws selected c else selected) cs = Inr out"
    unfolding select_loop_Cons by blast
  obtain s where s: "choose_better ws selected c = Some s" "s = c \<or> selected = Some s"
    "at_least_as_good ws (sf_capacity s) (sf_capacity c)"
    "\<forall>t. selected = Some t \<longrightarrow> at_least_as_good ws (sf_capacity s) (sf_capacity t)"
    using choose_better_spec [of ws selected c] by (elim exE conjE) (rule that)
  show ?case
  proof (cases matched)
    case True
    have "select_loop ws cache (insert (sf_capacity c) seen) (Some s) cs = Inr out"
      using rest True s(1) by simp
    note ih = Cons.IH [OF this]
    then obtain u where u: "out = Some u" by (cases out) auto
    with ih have su: "at_least_as_good ws (sf_capacity u) (sf_capacity s)" by simp
    have "at_least_as_good ws (sf_capacity u) (sf_capacity c)"
      by (rule at_least_as_good_trans [OF su s(3)])
    moreover have "\<forall>t. selected = Some t \<longrightarrow> at_least_as_good ws (sf_capacity u) (sf_capacity t)"
      using at_least_as_good_trans [OF su] s(4) by blast
    ultimately show ?thesis using ih u s(2) m True by auto
  next
    case False
    with Cons.IH [OF rest] m show ?thesis by (cases out) auto
  qed
qed

subsection \<open>The modal delta\<close>

lemma modal_loop_spec:
  assumes "modal_loop occ keys m n = (m', n')" and "sorted keys"
  shows "n \<le> n' \<and> (\<forall>k \<in> set keys. occ k \<le> n') \<and>
    (if n' = n then m' = m
     else \<exists>d \<in> set keys. m' = Some d \<and> occ d = n' \<and> (\<forall>k \<in> set keys. occ k = n' \<longrightarrow> d \<le> k))"
  using assms
proof (induction keys arbitrary: m n)
  case Nil
  then show ?case by simp
next
  case (Cons k keys)
  have sorted: "sorted keys" and le: "\<forall>j \<in> set keys. k \<le> j" using Cons.prems(2) by auto
  show ?case
  proof (cases "occ k > n")
    case True
    with Cons.prems(1) have "modal_loop occ keys (Some k) (occ k) = (m', n')" by simp
    from Cons.IH [OF this sorted] True le show ?thesis by (auto split: if_splits)
  next
    case False
    with Cons.prems(1) have "modal_loop occ keys m n = (m', n')" by simp
    from Cons.IH [OF this sorted] False show ?thesis by (auto split: if_splits)
  qed
qed

lemma nonzero_keys_set [simp]: "set (nonzero_keys deltas) = {d \<in> set deltas. d \<noteq> 0}"
  by (auto simp: nonzero_keys_def)

lemma nonzero_keys_sorted [simp]: "sorted (nonzero_keys deltas)"
  by (simp add: nonzero_keys_def sorted_remdups)

lemma delta_occurrences_pos: "0 < delta_occurrences deltas d \<longleftrightarrow> d \<in> set deltas"
  by (induction deltas) (auto simp: delta_occurrences_def)

subsection \<open>Properties\<close>

text \<open>
  C24. The selected capacity is the best common one: the selected candidate is among the
  candidates, its ring and linked footprints both satisfy the rule of the class, and no other
  candidate that satisfies the rule has a larger capacity (a smaller one for BEYOND_LLC).
\<close>

theorem select_common_capacity_optimal:
  assumes "select_common_capacity ws cache candidates = Inr selection"
  shows "cs_selected selection \<in> set candidates \<and>
    both_match (cs_selected selection) cache ws = Inr True \<and>
    (\<forall>c \<in> set candidates. both_match c cache ws = Inr True \<longrightarrow>
       (if ws = beyond_llc then sf_capacity (cs_selected selection) \<le> sf_capacity c
        else sf_capacity c \<le> sf_capacity (cs_selected selection)))"
proof -
  obtain s where "select_loop ws cache {} None candidates = Inr (Some s)"
    and sel: "selection = \<lparr>cs_working_set_class = ws, cs_selected = s\<rparr>"
    using assms by (auto simp: select_common_capacity_def)
  from select_loop_spec [OF this(1)] sel show ?thesis by (simp add: at_least_as_good_def)
qed

definition example_cache :: CacheCapacityEvidence where
  "example_cache = \<lparr>cc_cache_line_bytes = 64, cc_smaller_usable_l2_bytes = 1048576,
     cc_producer_home_usable_llc_bytes = 33554432\<rparr>"

definition example_candidate :: "usize \<Rightarrow> SharedFootprintCandidate" where
  "example_candidate n = \<lparr>sf_capacity = n, sf_ring_bytes = n * 72, sf_linked_bytes = n * 136\<rparr>"

theorem select_common_capacity_optimal_witness:
  "\<exists>selection. select_common_capacity l2_resident example_cache
       [example_candidate 1024, example_candidate 2048, example_candidate 8192] = Inr selection \<and>
     sf_capacity (cs_selected selection) = 2048 \<and>
     both_match (cs_selected selection) example_cache l2_resident = Inr True"
proof -
  have run: "select_common_capacity l2_resident example_cache
      [example_candidate 1024, example_candidate 2048, example_candidate 8192] =
      Inr \<lparr>cs_working_set_class = l2_resident, cs_selected = example_candidate 2048\<rparr>"
    by code_simp
  from select_common_capacity_optimal [OF run] run show ?thesis by (auto simp: example_candidate_def)
qed

text \<open>
  The address-pattern summary reports the mode: no nonzero delta occurs more often than
  the modal count, and when some delta is nonzero the modal delta occurs exactly that often
  and is the smallest that does.
\<close>

theorem summarize_modal:
  assumes "summarize order deltas stride page = Inr summary"
  shows "(\<forall>d \<in> set deltas. d \<noteq> 0 \<longrightarrow>
            delta_occurrences deltas d \<le> ap_modal_nonzero_delta_count summary) \<and>
         (if \<forall>d \<in> set deltas. d = 0
          then ap_modal_nonzero_delta summary = None \<and> ap_modal_nonzero_delta_count summary = 0
          else \<exists>d \<in> set deltas. ap_modal_nonzero_delta summary = Some d \<and> d \<noteq> 0 \<and>
            delta_occurrences deltas d = ap_modal_nonzero_delta_count summary \<and>
            (\<forall>k \<in> set deltas. k \<noteq> 0 \<and>
               delta_occurrences deltas k = ap_modal_nonzero_delta_count summary \<longrightarrow> d \<le> k))"
proof -
  obtain m n where run: "modal_loop (delta_occurrences deltas) (nonzero_keys deltas) None 0 = (m, n)"
    by fastforce
  then have s: "ap_modal_nonzero_delta summary = m" "ap_modal_nonzero_delta_count summary = n"
    using assms by (auto simp: summarize_def Let_def)
  note spec = modal_loop_spec [OF run nonzero_keys_sorted]
  show ?thesis
  proof (cases "\<forall>d \<in> set deltas. d = 0")
    case True
    then have "nonzero_keys deltas = []" by (metis (mono_tags, lifting) Collect_empty_eq nonzero_keys_set
          set_empty)
    with run True show ?thesis by (simp add: s)
  next
    case False
    then obtain d where "d \<in> set deltas" "d \<noteq> 0" by blast
    with spec have "0 < n" using delta_occurrences_pos [of deltas d] by fastforce
    with spec False show ?thesis by (auto simp: s)
  qed
qed

theorem summarize_modal_witness:
  "\<exists>summary. summarize [1, 0, 2] [-64, 128, -64] 64 4096 = Inr summary \<and>
     ap_modal_nonzero_delta summary = Some (-64) \<and> ap_modal_nonzero_delta_count summary = 2"
proof -
  let ?s = "\<lparr>ap_transition_count = 3, ap_distinct_line_count = 3, ap_distinct_page_count = 1,
    ap_shortest_period = 3, ap_adjacent_line_transition_count = 2,
    ap_modal_nonzero_delta_count = 2, ap_modal_nonzero_delta = Some (-64),
    ap_adjacent_fraction_at_most_one_percent = False,
    ap_modal_fraction_at_most_one_percent = False\<rparr>"
  have run: "summarize [1, 0, 2] [-64, 128, -64] 64 4096 = Inr ?s" by code_simp
  from summarize_modal [OF run] run show ?thesis by auto
qed

end
