(* ===== verification/Lifecycle_Runtime.thy ===== *)
theory Lifecycle_Runtime
  imports Validation Queue_Common
begin

text \<open>
  The controls a measurement runs under: \<^verbatim>\<open>lifecycle/runtime.hpp\<close> and \<^verbatim>\<open>lifecycle/runtime.cpp\<close>.
  The termination word and the start barrier are records whose operations are the atomic
  accesses of the code; the waiting loops of the barrier are given by their iterations, which
  theory \<open>Executor\<close> interleaves with the other threads. The validators collect their errors
  in the order of the source.
\<close>

subsection \<open>Termination control\<close>

record TerminationEvidence =
  te_value_width_bytes :: usize
  te_atomic_width_bytes :: usize
  te_atomic_alignment_bytes :: usize
  te_requested_cache_line_bytes :: usize
  te_always_lock_free :: bool
  te_runtime_lock_free :: bool
  te_dedicated_cache_line :: bool

record TerminationControl =
  tc_storage :: AlignedBlock
  tc_value :: "32 word"
  tc_cache_line_bytes :: usize

text \<open>\<^verbatim>\<open>sizeof\<close> and \<^verbatim>\<open>alignof\<close> of \<^verbatim>\<open>std::atomic<std::uint32_t>\<close>.\<close>

definition sizeof_atomic_u32 :: usize where
  "sizeof_atomic_u32 = 4"

definition TerminationControl_create ::
  "addr option \<Rightarrow> usize \<Rightarrow> setup_error + TerminationControl" where
  "TerminationControl_create allocated cache_line_bytes =
     (case AlignedBlock_create allocated cache_line_bytes cache_line_bytes of
        Inl e \<Rightarrow> Inl e | Inr storage \<Rightarrow>
     (case validate_cache_line_bytes cache_line_bytes of Inl e \<Rightarrow> Inl e | Inr _ \<Rightarrow>
      if block_size storage < sizeof_atomic_u32
      then Inl (QueueSetupError ''termination cache line is smaller than its atomic value'')
      else Inr \<lparr>tc_storage = storage, tc_value = 0, tc_cache_line_bytes = cache_line_bytes\<rparr>))"

definition reset_quiescent :: "bool \<Rightarrow> TerminationControl \<Rightarrow> bool \<times> TerminationControl" where
  "reset_quiescent workers_quiescent t =
     (if \<not> workers_quiescent then (False, t) else (True, t\<lparr>tc_value := 0\<rparr>))"

definition publish_arrivals_finished :: "TerminationControl \<Rightarrow> TerminationControl" where
  "publish_arrivals_finished t = t\<lparr>tc_value := 1\<rparr>"

definition arrivals_finished :: "TerminationControl \<Rightarrow> bool" where
  "arrivals_finished t \<longleftrightarrow> tc_value t = 1"

definition termination_evidence :: "bool \<Rightarrow> bool \<Rightarrow> TerminationControl \<Rightarrow> TerminationEvidence" where
  "termination_evidence is_always_lock_free is_lock_free t =
     \<lparr>te_value_width_bytes = 4, te_atomic_width_bytes = sizeof_atomic_u32,
      te_atomic_alignment_bytes = sizeof_atomic_u32,
      te_requested_cache_line_bytes = tc_cache_line_bytes t,
      te_always_lock_free = is_always_lock_free, te_runtime_lock_free = is_lock_free,
      te_dedicated_cache_line =
        (block_size (tc_storage t) = tc_cache_line_bytes t \<and>
         is_aligned (block_data (tc_storage t)) (tc_cache_line_bytes t))\<rparr>"

subsection \<open>The start barrier\<close>

datatype StartBarrierStatus =
  SB_ready | SB_released | SB_cancelled | SB_watchdog_expired | SB_duplicate_worker

datatype WorkerRole = Role_producer | Role_consumer

fun role_bit :: "WorkerRole \<Rightarrow> 32 word" where
  "role_bit Role_producer = push_bit 0 1"
| "role_bit Role_consumer = push_bit 1 1"

record WorkerStartBarrier =
  arrived_mask :: "32 word"
  barrier_released :: bool
  barrier_cancelled :: bool
  measurement_origin_ticks :: u64

definition WorkerStartBarrier_init :: WorkerStartBarrier where
  "WorkerStartBarrier_init =
     \<lparr>arrived_mask = 0, barrier_released = False, barrier_cancelled = False,
      measurement_origin_ticks = 0\<rparr>"

definition barrier_cancel :: "WorkerStartBarrier \<Rightarrow> WorkerStartBarrier" where
  "barrier_cancel b = b\<lparr>barrier_cancelled := True\<rparr>"

definition arrive :: "WorkerRole \<Rightarrow> WorkerStartBarrier \<Rightarrow> StartBarrierStatus \<times> WorkerStartBarrier" where
  "arrive role b =
     (let bit = role_bit role;
          previous = arrived_mask b;
          b1 = b\<lparr>arrived_mask := previous OR bit\<rparr>
      in if previous AND bit \<noteq> 0 then (SB_duplicate_worker, barrier_cancel b1) else (SB_ready, b1))"

definition all_workers_ready :: "WorkerStartBarrier \<Rightarrow> bool" where
  "all_workers_ready b \<longleftrightarrow> arrived_mask b = 3"

definition release_with_measurement_origin ::
  "u64 \<Rightarrow> WorkerStartBarrier \<Rightarrow> StartBarrierStatus \<times> WorkerStartBarrier" where
  "release_with_measurement_origin origin b =
     (if barrier_cancelled b then (SB_cancelled, b)
      else if \<not> all_workers_ready b then (SB_watchdog_expired, b)
      else (SB_released, b\<lparr>measurement_origin_ticks := origin, barrier_released := True\<rparr>))"

text \<open>
  One iteration of \<^verbatim>\<open>controller_wait\<close> and of \<^verbatim>\<open>worker_wait\<close>: the status it returns, or \<open>None\<close>
  when the loop goes on after \<^verbatim>\<open>relax()\<close>. The loops return \<open>SB_watchdog_expired\<close> once the
  number of iterations reaches the limit.
\<close>

definition controller_wait_poll :: "u64 \<Rightarrow> u64 \<Rightarrow> WorkerStartBarrier \<Rightarrow> StartBarrierStatus option" where
  "controller_wait_poll poll_limit poll b =
     (if \<not> poll < poll_limit then Some SB_watchdog_expired
      else if barrier_cancelled b then Some SB_cancelled
      else if all_workers_ready b then Some SB_ready
      else None)"

definition worker_wait_poll :: "u64 \<Rightarrow> u64 \<Rightarrow> WorkerStartBarrier \<Rightarrow> StartBarrierStatus option" where
  "worker_wait_poll poll_limit poll b =
     (if \<not> poll < poll_limit then Some SB_watchdog_expired
      else if barrier_cancelled b then Some SB_cancelled
      else if barrier_released b then Some SB_released
      else None)"

subsection \<open>Prepared schedules\<close>

record PreparedScheduleView =
  ps_deadline_ticks :: "u64 list"
  ps_origin_ticks :: u64
  ps_horizon_ticks :: u64

definition check_deadline :: "PreparedScheduleView \<Rightarrow> nat \<Rightarrow> ValidationError list" where
  "check_deadline schedule index =
     (let deadline = ps_deadline_ticks schedule ! index;
          path = ''$schedule/deadline_ticks/'' @ std_to_string index
      in fail_if (deadline < ps_origin_ticks schedule \<or> deadline \<ge> ps_horizon_ticks schedule)
           (ValidationError out_of_range path ''LIF-SCHEDULE-HALF-OPEN''
             ''each deadline must be in [origin_ticks, horizon_ticks)'') @
         fail_if (index \<noteq> 0 \<and> deadline < ps_deadline_ticks schedule ! (index - 1))
           (ValidationError cross_field path ''LIF-SCHEDULE-NONDECREASING''
             ''prepared deadlines must be nondecreasing''))"

definition validate_prepared_schedule :: "PreparedScheduleView \<Rightarrow> ValidationError list" where
  "validate_prepared_schedule schedule =
     fail_if (ps_origin_ticks schedule > ps_horizon_ticks schedule)
       (ValidationError cross_field ''$schedule/horizon_ticks'' ''LIF-SCHEDULE-HORIZON''
         ''schedule origin must not exceed its frozen horizon'') @
     concat (map (check_deadline schedule) [0..<length (ps_deadline_ticks schedule)])"

subsection \<open>Preparation and warm-up evidence\<close>

record PreparationEvidence =
  pe_warmup_schedule_id :: Identifier
  pe_measurement_schedule_id :: Identifier
  pe_warmup_namespace_id :: Identifier
  pe_measurement_namespace_id :: Identifier
  pe_deterministic_initialization_id :: string
  pe_scientific_configuration_frozen :: bool
  pe_platform_state_independently_verified :: bool
  pe_queue_initialized :: bool
  pe_record_storage_initialized :: bool
  pe_schedules_fully_decoded :: bool
  pe_observation_storage_preallocated :: bool
  pe_termination_reset_while_quiescent :: bool
  pe_measurement_origin_unset :: bool
  pe_allocation_count_at_preparation_end :: u64

record WarmupCompletionEvidence =
  wc_schedule_id :: Identifier
  wc_namespace_id :: Identifier
  wc_offered_count :: u64
  wc_attempted_count :: u64
  wc_producer_complete :: bool
  wc_warm_arrivals_stopped :: bool
  wc_queue_drained :: bool
  wc_both_workers_at_reset_barrier :: bool
  wc_measurement_observations_emitted :: bool
  wc_resumed_prior_measurement :: bool
  wc_regenerated_schedule :: bool
  wc_allocation_count_delta :: u64

definition validate_preparation ::
  "Identifier \<Rightarrow> Identifier \<Rightarrow> Identifier \<Rightarrow> Identifier \<Rightarrow> PreparationEvidence \<Rightarrow>
     ValidationError list" where
  "validate_preparation expected_warmup_schedule_id expected_measurement_schedule_id
       expected_warmup_namespace_id expected_measurement_namespace_id evidence =
     fail_if (expected_warmup_schedule_id = expected_measurement_schedule_id \<or>
         expected_warmup_namespace_id = expected_measurement_namespace_id \<or>
         pe_warmup_schedule_id evidence \<noteq> expected_warmup_schedule_id \<or>
         pe_measurement_schedule_id evidence \<noteq> expected_measurement_schedule_id \<or>
         pe_warmup_namespace_id evidence \<noteq> expected_warmup_namespace_id \<or>
         pe_measurement_namespace_id evidence \<noteq> expected_measurement_namespace_id)
       (ValidationError reference_mismatch ''$preparation/schedule_identity'' ''LIF-PREP-SCHEDULES''
         (''preparation must retain distinct, explicitly planned warm-up and '' @
          ''measurement schedule and namespace identities'')) @
     fail_if (pe_deterministic_initialization_id evidence = [])
       (ValidationError missing_field ''$preparation/deterministic_initialization_id'' ''LIF-PREP-ID''
         ''deterministic initialization requires an evidence identity'') @
     fail_if (\<not> pe_scientific_configuration_frozen evidence \<or>
         \<not> pe_platform_state_independently_verified evidence \<or>
         \<not> pe_queue_initialized evidence \<or> \<not> pe_record_storage_initialized evidence \<or>
         \<not> pe_schedules_fully_decoded evidence \<or>
         \<not> pe_observation_storage_preallocated evidence \<or>
         \<not> pe_termination_reset_while_quiescent evidence \<or>
         \<not> pe_measurement_origin_unset evidence)
       (ValidationError missing_evidence ''$preparation/readiness'' ''LIF-PREP-READY''
         (''configuration, verified platform state, queue, records, schedules, '' @
          ''observation storage, termination, and unset origin are all required''))"

definition validate_warmup_completion ::
  "Identifier \<Rightarrow> Identifier \<Rightarrow> WarmupCompletionEvidence \<Rightarrow> ValidationError list" where
  "validate_warmup_completion expected_schedule_id expected_namespace_id evidence =
     fail_if (wc_schedule_id evidence \<noteq> expected_schedule_id \<or>
         wc_namespace_id evidence \<noteq> expected_namespace_id)
       (ValidationError reference_mismatch ''$warmup/schedule_identity'' ''LIF-WARMUP-SCHEDULE''
         ''warm-up must consume only its planned schedule and namespace'') @
     fail_if (wc_attempted_count evidence \<noteq> wc_offered_count evidence \<or>
         \<not> wc_producer_complete evidence \<or> \<not> wc_warm_arrivals_stopped evidence \<or>
         \<not> wc_queue_drained evidence \<or> \<not> wc_both_workers_at_reset_barrier evidence)
       (ValidationError cross_field ''$warmup/completion'' ''LIF-WARMUP-COMPLETE''
         (''all warm-up arrivals must be attempted, then stopped and drained '' @
          ''before both workers enter the reset barrier'')) @
     fail_if (wc_measurement_observations_emitted evidence \<or>
         wc_resumed_prior_measurement evidence \<or> wc_regenerated_schedule evidence \<or>
         wc_allocation_count_delta evidence \<noteq> 0)
       (ValidationError cross_field ''$warmup/isolation'' ''LIF-WARMUP-ISOLATED''
         (''warm-up cannot emit measurement rows, continue a prior measurement, '' @
          ''regenerate a schedule, or allocate after preparation''))"

subsection \<open>Logical reset\<close>

datatype QueueResetKind = Reset_ring | Reset_linked

record WarmStartIdentity =
  ws_allocation_id :: string
  ws_virtual_mapping_id :: string
  ws_data_home_id :: string
  ws_record_permutation_id :: string
  ws_payload_content_id :: string

record LogicalResetRequest =
  lr_queue_kind :: QueueResetKind
  lr_capacity_events :: u64
  lr_initial_consumer_checksum :: u64
  lr_warm_identity :: WarmStartIdentity

record LogicalResetEvidence =
  le_queue_kind :: QueueResetKind
  le_capacity_events :: u64
  le_warm_arrivals_stopped :: bool
  le_queue_drained :: bool
  le_workers_at_reset_barrier :: bool
  le_occupancy_after_reset :: u64
  le_ring_slots_empty :: bool
  le_ring_producer_position_zero :: bool
  le_ring_consumer_position_zero :: bool
  le_linked_sentinel_is_pi0 :: bool
  le_linked_recycler_order_is_pi1_to_pi_c :: bool
  le_linked_recycler_node_count :: u64
  le_logical_sequence :: u64
  le_accepted_ordinal :: u64
  le_producer_attempted :: u64
  le_producer_accepted :: u64
  le_producer_full :: u64
  le_consumer_consumed :: u64
  le_producer_sample_position :: u64
  le_consumer_sample_position :: u64
  le_consumer_checksum :: u64
  le_measurement_origin_cleared :: bool
  le_identity_after_reset :: WarmStartIdentity
  le_allocation_count_delta :: u64
  le_regenerated_schedule :: bool
  le_remapped_memory :: bool
  le_retouched_payload :: bool

definition identity_complete :: "WarmStartIdentity \<Rightarrow> bool" where
  "identity_complete identity \<longleftrightarrow>
     ws_allocation_id identity \<noteq> [] \<and> ws_virtual_mapping_id identity \<noteq> [] \<and>
     ws_data_home_id identity \<noteq> [] \<and> ws_record_permutation_id identity \<noteq> [] \<and>
     ws_payload_content_id identity \<noteq> []"

definition validate_logical_reset ::
  "LogicalResetRequest \<Rightarrow> LogicalResetEvidence \<Rightarrow> ValidationError list" where
  "validate_logical_reset request evidence =
     fail_if (lr_capacity_events request = 0)
       (ValidationError out_of_range ''$reset_request/capacity_events'' ''LIF-RESET-CAPACITY''
         ''queue capacity must be positive'') @
     fail_if (\<not> identity_complete (lr_warm_identity request) \<or>
         \<not> identity_complete (le_identity_after_reset evidence))
       (ValidationError missing_field ''$reset/identity'' ''LIF-WARM-IDENTITY''
         (''allocation, mapping, data-home, permutation, and payload identities '' @
          ''must all be explicit'')) @
     fail_if (le_queue_kind evidence \<noteq> lr_queue_kind request \<or>
         le_capacity_events evidence \<noteq> lr_capacity_events request)
       (ValidationError cross_field ''$reset/queue'' ''LIF-RESET-QUEUE-MATCH''
         ''reset evidence must identify the requested queue kind and capacity'') @
     fail_if (\<not> le_warm_arrivals_stopped evidence \<or> \<not> le_queue_drained evidence \<or>
         \<not> le_workers_at_reset_barrier evidence)
       (ValidationError missing_evidence ''$reset/warmup_boundary'' ''LIF-WARMUP-BOUNDARY''
         (''warm arrivals must stop, the queue must drain, and both workers must '' @
          ''reach the reset barrier'')) @
     fail_if (le_occupancy_after_reset evidence \<noteq> 0)
       (ValidationError cross_field ''$reset/occupancy_after_reset'' ''LIF-RESET-EMPTY''
         ''logical reset must leave zero queue occupancy'') @
     fail_if (lr_queue_kind request = Reset_ring \<and>
         (\<not> le_ring_slots_empty evidence \<or> \<not> le_ring_producer_position_zero evidence \<or>
          \<not> le_ring_consumer_position_zero evidence))
       (ValidationError missing_evidence ''$reset/ring'' ''LIF-RING-RESET''
         ''ring reset requires empty slots and zero producer/consumer positions'') @
     fail_if (lr_queue_kind request = Reset_linked \<and>
         (\<not> le_linked_sentinel_is_pi0 evidence \<or>
          \<not> le_linked_recycler_order_is_pi1_to_pi_c evidence \<or>
          le_linked_recycler_node_count evidence \<noteq> lr_capacity_events request))
       (ValidationError missing_evidence ''$reset/linked'' ''LIF-LINKED-RESET''
         ''linked reset requires sentinel pi0 and recycler pi1..piC'') @
     fail_if (le_logical_sequence evidence \<noteq> 0 \<or> le_accepted_ordinal evidence \<noteq> 0 \<or>
         le_producer_attempted evidence \<noteq> 0 \<or> le_producer_accepted evidence \<noteq> 0 \<or>
         le_producer_full evidence \<noteq> 0 \<or> le_consumer_consumed evidence \<noteq> 0 \<or>
         le_producer_sample_position evidence \<noteq> 0 \<or>
         le_consumer_sample_position evidence \<noteq> 0)
       (ValidationError cross_field ''$reset/logical_state'' ''LIF-LOGICAL-ZERO''
         ''sequence, ordinal, counts, and sample positions must reset to zero'') @
     fail_if (le_consumer_checksum evidence \<noteq> lr_initial_consumer_checksum request)
       (ValidationError cross_field ''$reset/consumer_checksum'' ''LIF-CHECKSUM-RESET''
         ''consumer checksum must equal the explicitly requested initial value'') @
     fail_if (\<not> le_measurement_origin_cleared evidence)
       (ValidationError cross_field ''$reset/measurement_origin_cleared'' ''LIF-ORIGIN-RESET''
         ''measurement origin must be unset until the post-reset start barrier'') @
     fail_if (le_identity_after_reset evidence \<noteq> lr_warm_identity request \<or>
         le_allocation_count_delta evidence \<noteq> 0 \<or> le_regenerated_schedule evidence \<or>
         le_remapped_memory evidence \<or> le_retouched_payload evidence)
       (ValidationError cross_field ''$reset/warm_start'' ''LIF-WARM-START-PRESERVE''
         (''reset must preserve allocation, mappings, data homes, permutation, '' @
          ''payload, and pre-generated schedules''))"

text \<open>The reset backend is an interface of the code: its \<^verbatim>\<open>perform\<close> is an argument.\<close>

definition perform_and_verify_logical_reset ::
  "('s \<Rightarrow> LogicalResetRequest \<Rightarrow> LogicalResetEvidence Result \<times> 's) \<Rightarrow> 's \<Rightarrow> LogicalResetRequest \<Rightarrow>
     LogicalResetEvidence Result \<times> 's" where
  "perform_and_verify_logical_reset perform backend request =
     (let (result, backend') = perform backend request in
      (case result of
         Inl errors \<Rightarrow> (Inl errors, backend')
       | Inr evidence \<Rightarrow>
           let errors = validate_logical_reset request evidence in
           if errors \<noteq> [] then (Inl errors, backend') else (Inr evidence, backend')))"

subsection \<open>Valid schedules\<close>

lemma check_deadline_Nil:
  "check_deadline s i = [] \<longleftrightarrow>
     ps_origin_ticks s \<le> ps_deadline_ticks s ! i \<and> ps_deadline_ticks s ! i < ps_horizon_ticks s \<and>
     (i \<noteq> 0 \<longrightarrow> ps_deadline_ticks s ! (i - 1) \<le> ps_deadline_ticks s ! i)"
  by (auto simp: check_deadline_def Let_def not_less not_le)

text \<open>
  A prepared schedule passes exactly when it is sorted and lies in the half-open interval
  between its origin and its horizon.
\<close>

lemma validate_prepared_schedule_Nil:
  "validate_prepared_schedule s = [] \<longleftrightarrow>
     ps_origin_ticks s \<le> ps_horizon_ticks s \<and> sorted (ps_deadline_ticks s) \<and>
     (\<forall>d \<in> set (ps_deadline_ticks s). ps_origin_ticks s \<le> d \<and> d < ps_horizon_ticks s)"
proof -
  let ?ds = "ps_deadline_ticks s"
  have "(\<forall>i < length ?ds. check_deadline s i = []) \<longleftrightarrow>
      (\<forall>i < length ?ds. ps_origin_ticks s \<le> ?ds ! i \<and> ?ds ! i < ps_horizon_ticks s) \<and>
      (\<forall>i. Suc i < length ?ds \<longrightarrow> ?ds ! i \<le> ?ds ! Suc i)"
    by (auto simp: check_deadline_Nil) (metis Suc_pred not_gr_zero)
  also have "(\<forall>i. Suc i < length ?ds \<longrightarrow> ?ds ! i \<le> ?ds ! Suc i) \<longleftrightarrow> sorted ?ds"
    by (simp add: sorted_iff_nth_Suc)
  finally show ?thesis
    by (auto simp: validate_prepared_schedule_def not_less all_set_conv_all_nth)
qed

lemma perform_and_verify_Inr:
  assumes "perform_and_verify_logical_reset perform b request = (Inr evidence, b')"
  shows "perform b request = (Inr evidence, b')" and "validate_logical_reset request evidence = []"
  using assms
  by (auto simp: perform_and_verify_logical_reset_def Let_def split: prod.splits sum.splits if_splits)

subsection \<open>The barrier\<close>

lemma role_bits: "role_bit r \<noteq> 0" "role_bit Role_producer OR role_bit Role_consumer = 3"
  by (cases r) simp_all

end
