(* ===== verification/Executor.thy ===== *)
theory Executor
  imports Lifecycle_Runtime
begin

text \<open>
  The measurement executor: \<^verbatim>\<open>lifecycle/executor.hpp\<close>. \<^verbatim>\<open>execute_measurement\<close> runs a producer
  thread, a consumer thread and the controller over shared atomics; here each thread is a
  program counter with its local variables, a step of a thread is one access to shared state
  together with the local code around it, and an execution is any interleaving of the three.
  A call of the backend (one complete captured attempt or poll) is one step, as is an
  operation of the start barrier. The clock, the backend and \<^verbatim>\<open>Relax\<close> are template parameters:
  the clock and the backend are arguments here, and \<^verbatim>\<open>relax()\<close> touches no state of the model.
\<close>

subsection \<open>Results, limits and reports\<close>

record TickRead =
  tick_ok :: bool
  tick_value :: u64

datatype AttemptStatus = Attempt_complete | Attempt_failure

record ProducerAttemptResult =
  at_status :: AttemptStatus
  at_outcome :: EnqueueResult

record ProducerAttempt =
  pa_logical_sequence :: u64
  pa_scheduled_deadline :: u64
  pa_candidate_accepted_ordinal :: u64

datatype ConsumerPollStatus = Poll_item | Poll_empty | Poll_failure

record ConsumerPollResult =
  po_status :: ConsumerPollStatus

record ExecutionLimits =
  controller_start_poll_limit :: u64
  worker_start_poll_limit :: u64
  producer_due_poll_limit_per_arrival :: u64
  consumer_empty_poll_limit_before_finish :: u64
  drain_poll_limit :: u64

datatype ExecutionFailurePhase =
  Phase_none | Phase_pre_run | Phase_start_barrier | Phase_measurement | Phase_drain

datatype ExecutionFailureReason =
    Reason_none | Reason_invalid_schedule | Reason_invalid_limits | Reason_termination_reset
  | Reason_start_watchdog | Reason_clock_read | Reason_deadline_overflow
  | Reason_producer_wait_watchdog | Reason_producer_attempt | Reason_consumer_poll
  | Reason_consumer_wait_watchdog | Reason_drain_watchdog | Reason_cancelled

record MeasurementExecutionReport =
  er_failure_phase :: ExecutionFailurePhase
  er_failure_reason :: ExecutionFailureReason
  er_measurement_origin_ticks :: u64
  er_offered :: u64
  er_attempted :: u64
  er_accepted :: u64
  er_full :: u64
  er_consumed :: u64
  er_producer_wait_polls :: u64
  er_consumer_empty_polls :: u64
  er_drain_polls :: u64
  er_producer_completed :: bool
  er_consumer_drained :: bool
  er_arrivals_finished_published :: bool
  er_cancellation_requested :: bool

record DeadlineMapping =
  dm_measurement_origin :: u64
  dm_schedule_origin :: u64
  dm_schedule_deadline :: u64

record ProducerWorkerState =
  pw_failure :: ExecutionFailureReason
  pw_attempted :: u64
  pw_accepted :: u64
  pw_full :: u64
  pw_wait_polls :: u64
  pw_completed :: bool
  pw_arrivals_finished_published :: bool

record ConsumerWorkerState =
  cw_failure :: ExecutionFailureReason
  cw_failure_phase :: ExecutionFailurePhase
  cw_consumed :: u64
  cw_empty_polls :: u64
  cw_drain_polls :: u64
  cw_drained :: bool

definition ProducerWorkerState_init :: ProducerWorkerState where
  "ProducerWorkerState_init =
     \<lparr>pw_failure = Reason_none, pw_attempted = 0, pw_accepted = 0, pw_full = 0, pw_wait_polls = 0,
      pw_completed = False, pw_arrivals_finished_published = False\<rparr>"

definition ConsumerWorkerState_init :: ConsumerWorkerState where
  "ConsumerWorkerState_init =
     \<lparr>cw_failure = Reason_none, cw_failure_phase = Phase_none, cw_consumed = 0, cw_empty_polls = 0,
      cw_drain_polls = 0, cw_drained = False\<rparr>"

definition failure_report ::
  "ExecutionFailurePhase \<Rightarrow> ExecutionFailureReason \<Rightarrow> u64 \<Rightarrow> MeasurementExecutionReport" where
  "failure_report phase reason offered =
     \<lparr>er_failure_phase = phase, er_failure_reason = reason, er_measurement_origin_ticks = 0,
      er_offered = offered, er_attempted = 0, er_accepted = 0, er_full = 0, er_consumed = 0,
      er_producer_wait_polls = 0, er_consumer_empty_polls = 0, er_drain_polls = 0,
      er_producer_completed = False, er_consumer_drained = False,
      er_arrivals_finished_published = False, er_cancellation_requested = False\<rparr>"

definition checked_measurement_deadline :: "DeadlineMapping \<Rightarrow> u64 option" where
  "checked_measurement_deadline mapping =
     (let offset = dm_schedule_deadline mapping - dm_schedule_origin mapping in
      if offset > u64_max - dm_measurement_origin mapping then None
      else Some (dm_measurement_origin mapping + offset))"

subsection \<open>Threads and shared state\<close>

record ('c, 'b) exec_config =
  cfg_schedule :: PreparedScheduleView
  cfg_limits :: ExecutionLimits
  cfg_read_ticks :: "'c \<Rightarrow> TickRead \<times> 'c"
  cfg_attempt :: "ProducerAttempt \<Rightarrow> 'b \<Rightarrow> ProducerAttemptResult \<times> 'b"
  cfg_poll :: "u64 \<Rightarrow> 'b \<Rightarrow> ConsumerPollResult \<times> 'b"

text \<open>
  Where the producer thread is. The loop over the deadlines carries the remaining ones, the
  due loop also the current deadline, its target and the number of polls.
\<close>

datatype producer_pc =
    PP_arrive
  | PP_wait u64
  | PP_start_failed
  | PP_loop "u64 list"
  | PP_due u64 "u64 list" u64 u64
  | PP_read u64 "u64 list" u64 u64
  | PP_attempt u64 "u64 list"
  | PP_after
  | PP_cancel
  | PP_publish
  | PP_done

text \<open>Where the consumer thread is; \<open>CO_poll\<close> carries \<^verbatim>\<open>finished\<close>.\<close>

datatype consumer_pc =
  CO_arrive | CO_wait u64 | CO_top | CO_check_failed | CO_poll bool | CO_fail_phase | CO_cancel | CO_done

datatype controller_pc =
    K_wait u64 | K_origin | K_release u64 | K_join
  | K_abort_cancel ExecutionFailureReason | K_abort_barrier ExecutionFailureReason
  | K_abort_join ExecutionFailureReason | K_done

text \<open>\<open>x_attempts\<close> records the calls of \<^verbatim>\<open>try_producer_attempt\<close>; no step reads it.\<close>

record ('c, 'b) exec_state =
  x_clock :: 'c
  x_backend :: 'b
  x_termination :: TerminationControl
  x_barrier :: WorkerStartBarrier
  x_cancellation :: bool
  x_producer_failed :: bool
  x_ppc :: producer_pc
  x_producer :: ProducerWorkerState
  x_origin :: u64
  x_accepted_ordinal :: u64
  x_logical_sequence :: u64
  x_cpc :: consumer_pc
  x_consumer :: ConsumerWorkerState
  x_candidate :: u64
  x_empty :: u64
  x_kpc :: controller_pc
  x_report :: MeasurementExecutionReport
  x_attempts :: "ProducerAttempt list"

text \<open>The part of \<^verbatim>\<open>execute_measurement\<close> before the threads start.\<close>

definition execute_prepare ::
  "('c, 'b) exec_config \<Rightarrow> 'c \<Rightarrow> 'b \<Rightarrow> TerminationControl \<Rightarrow>
     MeasurementExecutionReport + ('c, 'b) exec_state" where
  "execute_prepare cfg clock backend termination =
     (let schedule = cfg_schedule cfg;
          limits = cfg_limits cfg;
          offered = of_nat (length (ps_deadline_ticks schedule));
          (reset, termination') = reset_quiescent True termination
      in
      if validate_prepared_schedule schedule \<noteq> []
      then Inl (failure_report Phase_pre_run Reason_invalid_schedule offered)
      else if controller_start_poll_limit limits = 0 \<or> worker_start_poll_limit limits = 0 \<or>
        producer_due_poll_limit_per_arrival limits = 0 \<or>
        consumer_empty_poll_limit_before_finish limits = 0 \<or> drain_poll_limit limits = 0
      then Inl (failure_report Phase_pre_run Reason_invalid_limits offered)
      else if \<not> reset
      then Inl (failure_report Phase_start_barrier Reason_termination_reset offered)
      else Inr
        \<lparr>x_clock = clock, x_backend = backend, x_termination = termination',
         x_barrier = WorkerStartBarrier_init, x_cancellation = False, x_producer_failed = False,
         x_ppc = PP_arrive, x_producer = ProducerWorkerState_init, x_origin = 0,
         x_accepted_ordinal = 0, x_logical_sequence = 0,
         x_cpc = CO_arrive, x_consumer = ConsumerWorkerState_init, x_candidate = 0, x_empty = 0,
         x_kpc = K_wait 0, x_report = failure_report Phase_none Reason_none offered,
         x_attempts = []\<rparr>)"

definition producer_fail ::
  "ExecutionFailureReason \<Rightarrow> producer_pc \<Rightarrow> ('c, 'b) exec_state \<Rightarrow> ('c, 'b) exec_state" where
  "producer_fail reason pc s = s\<lparr>x_producer := (x_producer s)\<lparr>pw_failure := reason\<rparr>, x_ppc := pc\<rparr>"

definition producer_attempt ::
  "('c, 'b) exec_config \<Rightarrow> u64 \<Rightarrow> u64 list \<Rightarrow> ('c, 'b) exec_state \<Rightarrow> ('c, 'b) exec_state" where
  "producer_attempt cfg schedule_deadline rest s =
     (let request = \<lparr>pa_logical_sequence = x_logical_sequence s,
            pa_scheduled_deadline = schedule_deadline,
            pa_candidate_accepted_ordinal = x_accepted_ordinal s\<rparr>;
          (attempt, backend') = cfg_attempt cfg request (x_backend s);
          local = (x_producer s)\<lparr>pw_attempted := pw_attempted (x_producer s) + 1\<rparr>;
          s1 = s\<lparr>x_backend := backend', x_producer := local, x_attempts := x_attempts s @ [request]\<rparr>
      in if at_status attempt \<noteq> Attempt_complete then producer_fail Reason_producer_attempt PP_after s1
         else if at_outcome attempt = Enq_accepted
         then s1\<lparr>x_producer := local\<lparr>pw_accepted := pw_accepted local + 1\<rparr>,
                 x_accepted_ordinal := x_accepted_ordinal s + 1,
                 x_logical_sequence := x_logical_sequence s + 1, x_ppc := PP_loop rest\<rparr>
         else s1\<lparr>x_producer := local\<lparr>pw_full := pw_full local + 1\<rparr>,
                 x_logical_sequence := x_logical_sequence s + 1, x_ppc := PP_loop rest\<rparr>)"

definition producer_read ::
  "('c, 'b) exec_config \<Rightarrow> u64 \<Rightarrow> u64 list \<Rightarrow> u64 \<Rightarrow> u64 \<Rightarrow> ('c, 'b) exec_state \<Rightarrow>
     ('c, 'b) exec_state" where
  "producer_read cfg schedule_deadline rest target poll s =
     (let (reading, clock') = cfg_read_ticks cfg (x_clock s);
          s1 = s\<lparr>x_clock := clock'\<rparr>
      in if \<not> tick_ok reading then producer_fail Reason_clock_read PP_after s1
         else if tick_value reading \<ge> target then s1\<lparr>x_ppc := PP_attempt schedule_deadline rest\<rparr>
         else s1\<lparr>x_producer := (x_producer s)\<lparr>pw_wait_polls := pw_wait_polls (x_producer s) + 1\<rparr>,
                 x_ppc := PP_due schedule_deadline rest target (poll + 1)\<rparr>)"

fun producer_step ::
  "('c, 'b) exec_config \<Rightarrow> producer_pc \<Rightarrow> ('c, 'b) exec_state \<Rightarrow> ('c, 'b) exec_state option" where
  "producer_step cfg PP_arrive s =
     (let (status, b) = arrive Role_producer (x_barrier s);
          s1 = s\<lparr>x_barrier := b\<rparr>
      in Some (if status \<noteq> SB_ready then producer_fail Reason_cancelled PP_start_failed s1
               else s1\<lparr>x_ppc := PP_wait 0\<rparr>))"
| "producer_step cfg (PP_wait poll) s =
     Some (case worker_wait_poll (worker_start_poll_limit (cfg_limits cfg)) poll (x_barrier s) of
        None \<Rightarrow> s\<lparr>x_ppc := PP_wait (poll + 1)\<rparr>
      | Some status \<Rightarrow>
          if status \<noteq> SB_released then producer_fail Reason_start_watchdog PP_start_failed s
          else s\<lparr>x_origin := measurement_origin_ticks (x_barrier s),
                 x_ppc := PP_loop (ps_deadline_ticks (cfg_schedule cfg))\<rparr>)"
| "producer_step cfg PP_start_failed s = Some (s\<lparr>x_producer_failed := True, x_ppc := PP_done\<rparr>)"
| "producer_step cfg (PP_loop []) s = Some (s\<lparr>x_ppc := PP_after\<rparr>)"
| "producer_step cfg (PP_loop (schedule_deadline # rest)) s =
     Some (if x_cancellation s then producer_fail Reason_cancelled PP_after s
       else (case checked_measurement_deadline
               \<lparr>dm_measurement_origin = x_origin s,
                dm_schedule_origin = ps_origin_ticks (cfg_schedule cfg),
                dm_schedule_deadline = schedule_deadline\<rparr> of
          None \<Rightarrow> producer_fail Reason_deadline_overflow PP_after s
        | Some target \<Rightarrow> s\<lparr>x_ppc := PP_due schedule_deadline rest target 0\<rparr>))"
| "producer_step cfg (PP_due schedule_deadline rest target poll) s =
     Some (if \<not> poll < producer_due_poll_limit_per_arrival (cfg_limits cfg)
       then producer_fail Reason_producer_wait_watchdog PP_after s
       else if x_cancellation s then producer_fail Reason_cancelled PP_after s
       else s\<lparr>x_ppc := PP_read schedule_deadline rest target poll\<rparr>)"
| "producer_step cfg (PP_read schedule_deadline rest target poll) s =
     Some (producer_read cfg schedule_deadline rest target poll s)"
| "producer_step cfg (PP_attempt schedule_deadline rest) s =
     Some (producer_attempt cfg schedule_deadline rest s)"
| "producer_step cfg PP_after s =
     Some (if pw_failure (x_producer s) \<noteq> Reason_none
       then s\<lparr>x_producer_failed := True, x_ppc := PP_cancel\<rparr>
       else s\<lparr>x_producer := (x_producer s)\<lparr>pw_completed := True\<rparr>, x_ppc := PP_publish\<rparr>)"
| "producer_step cfg PP_cancel s = Some (s\<lparr>x_cancellation := True, x_ppc := PP_publish\<rparr>)"
| "producer_step cfg PP_publish s =
     Some (s\<lparr>x_termination := publish_arrivals_finished (x_termination s),
             x_producer := (x_producer s)\<lparr>pw_arrivals_finished_published := True\<rparr>,
             x_ppc := PP_done\<rparr>)"
| "producer_step cfg PP_done s = None"

definition consumer_fail ::
  "ExecutionFailureReason \<Rightarrow> ExecutionFailurePhase \<Rightarrow> consumer_pc \<Rightarrow> ('c, 'b) exec_state \<Rightarrow>
     ('c, 'b) exec_state" where
  "consumer_fail reason phase pc s =
     s\<lparr>x_consumer := (x_consumer s)\<lparr>cw_failure := reason, cw_failure_phase := phase\<rparr>, x_cpc := pc\<rparr>"

text \<open>One poll and what the loop does with its result, up to the next shared access.\<close>

definition consumer_poll ::
  "('c, 'b) exec_config \<Rightarrow> bool \<Rightarrow> ('c, 'b) exec_state \<Rightarrow> ('c, 'b) exec_state" where
  "consumer_poll cfg finished s =
     (let limits = cfg_limits cfg;
          (poll, backend') = cfg_poll cfg (x_candidate s) (x_backend s);
          local = (x_consumer s)
            \<lparr>cw_drain_polls := cw_drain_polls (x_consumer s) + (if finished then 1 else 0)\<rparr>;
          s1 = s\<lparr>x_backend := backend', x_consumer := local\<rparr>
      in if finished \<and> cw_drain_polls local > drain_poll_limit limits
         then consumer_fail Reason_drain_watchdog Phase_drain CO_cancel s1
         else (case po_status poll of
            Poll_item \<Rightarrow> s1\<lparr>x_consumer := local\<lparr>cw_consumed := cw_consumed local + 1\<rparr>,
                             x_candidate := x_candidate s + 1, x_empty := 0, x_cpc := CO_top\<rparr>
          | Poll_failure \<Rightarrow>
              (if finished then consumer_fail Reason_consumer_poll Phase_drain CO_cancel s1
               else consumer_fail Reason_consumer_poll Phase_none CO_fail_phase s1)
          | Poll_empty \<Rightarrow>
              if finished then s1\<lparr>x_consumer := local\<lparr>cw_drained := True\<rparr>, x_cpc := CO_done\<rparr>
              else
                let empty_before_finish = x_empty s + 1;
                    s2 = s1\<lparr>x_empty := empty_before_finish,
                            x_consumer := local\<lparr>cw_empty_polls := cw_empty_polls local + 1\<rparr>\<rparr>
                in if empty_before_finish \<ge> consumer_empty_poll_limit_before_finish limits
                   then consumer_fail Reason_consumer_wait_watchdog Phase_measurement CO_cancel s2
                   else s2\<lparr>x_cpc := CO_top\<rparr>))"

fun consumer_step ::
  "('c, 'b) exec_config \<Rightarrow> consumer_pc \<Rightarrow> ('c, 'b) exec_state \<Rightarrow> ('c, 'b) exec_state option" where
  "consumer_step cfg CO_arrive s =
     (let (status, b) = arrive Role_consumer (x_barrier s);
          s1 = s\<lparr>x_barrier := b\<rparr>
      in Some (if status \<noteq> SB_ready
           then consumer_fail Reason_cancelled Phase_start_barrier CO_cancel s1
           else s1\<lparr>x_cpc := CO_wait 0\<rparr>))"
| "consumer_step cfg (CO_wait poll) s =
     Some (case worker_wait_poll (worker_start_poll_limit (cfg_limits cfg)) poll (x_barrier s) of
        None \<Rightarrow> s\<lparr>x_cpc := CO_wait (poll + 1)\<rparr>
      | Some status \<Rightarrow>
          if status \<noteq> SB_released
          then consumer_fail Reason_start_watchdog Phase_start_barrier CO_cancel s
          else s\<lparr>x_cpc := CO_top\<rparr>)"
| "consumer_step cfg CO_top s =
     Some (s\<lparr>x_cpc := (if arrivals_finished (x_termination s) then CO_check_failed else CO_poll False)\<rparr>)"
| "consumer_step cfg CO_check_failed s =
     Some (s\<lparr>x_cpc := (if x_producer_failed s then CO_done else CO_poll True)\<rparr>)"
| "consumer_step cfg (CO_poll finished) s = Some (consumer_poll cfg finished s)"
| "consumer_step cfg CO_fail_phase s =
     Some (s\<lparr>x_consumer := (x_consumer s)\<lparr>cw_failure_phase :=
               (if arrivals_finished (x_termination s) then Phase_drain else Phase_measurement)\<rparr>,
             x_cpc := CO_cancel\<rparr>)"
| "consumer_step cfg CO_cancel s = Some (s\<lparr>x_cancellation := True, x_cpc := CO_done\<rparr>)"
| "consumer_step cfg CO_done s = None"

text \<open>The report after both threads have been joined.\<close>

definition joined_report :: "('c, 'b) exec_state \<Rightarrow> MeasurementExecutionReport" where
  "joined_report s =
     (let p = x_producer s;
          c = x_consumer s;
          report = (x_report s)
            \<lparr>er_cancellation_requested := x_cancellation s, er_attempted := pw_attempted p,
             er_accepted := pw_accepted p, er_full := pw_full p,
             er_producer_wait_polls := pw_wait_polls p, er_producer_completed := pw_completed p,
             er_arrivals_finished_published := pw_arrivals_finished_published p,
             er_consumed := cw_consumed c, er_consumer_empty_polls := cw_empty_polls c,
             er_drain_polls := cw_drain_polls c, er_consumer_drained := cw_drained c\<rparr>
      in if pw_failure p \<noteq> Reason_none \<and>
            \<not> (pw_failure p = Reason_cancelled \<and> cw_failure c \<noteq> Reason_none)
         then report\<lparr>er_failure_phase :=
                 (if pw_failure p = Reason_start_watchdog then Phase_start_barrier
                  else Phase_measurement),
               er_failure_reason := pw_failure p\<rparr>
         else if cw_failure c \<noteq> Reason_none
         then report\<lparr>er_failure_phase := cw_failure_phase c, er_failure_reason := cw_failure c\<rparr>
         else report)"

fun controller_step ::
  "('c, 'b) exec_config \<Rightarrow> controller_pc \<Rightarrow> ('c, 'b) exec_state \<Rightarrow> ('c, 'b) exec_state option" where
  "controller_step cfg (K_wait poll) s =
     Some (case controller_wait_poll (controller_start_poll_limit (cfg_limits cfg)) poll (x_barrier s) of
        None \<Rightarrow> s\<lparr>x_kpc := K_wait (poll + 1)\<rparr>
      | Some status \<Rightarrow>
          s\<lparr>x_kpc := (if status \<noteq> SB_ready then K_abort_cancel Reason_start_watchdog else K_origin)\<rparr>)"
| "controller_step cfg K_origin s =
     (let (origin_reading, clock') = cfg_read_ticks cfg (x_clock s)
      in Some (s\<lparr>x_clock := clock',
                 x_kpc := (if \<not> tick_ok origin_reading then K_abort_cancel Reason_clock_read
                           else K_release (tick_value origin_reading))\<rparr>))"
| "controller_step cfg (K_release origin) s =
     (let (status, b) = release_with_measurement_origin origin (x_barrier s);
          s1 = s\<lparr>x_barrier := b\<rparr>
      in Some (if status \<noteq> SB_released then s1\<lparr>x_kpc := K_abort_cancel Reason_start_watchdog\<rparr>
               else s1\<lparr>x_report := (x_report s)\<lparr>er_measurement_origin_ticks := origin\<rparr>,
                       x_kpc := K_join\<rparr>))"
| "controller_step cfg K_join s =
     (if x_ppc s = PP_done \<and> x_cpc s = CO_done
      then Some (s\<lparr>x_report := joined_report s, x_kpc := K_done\<rparr>) else None)"
| "controller_step cfg (K_abort_cancel reason) s =
     Some (s\<lparr>x_cancellation := True, x_kpc := K_abort_barrier reason\<rparr>)"
| "controller_step cfg (K_abort_barrier reason) s =
     Some (s\<lparr>x_barrier := barrier_cancel (x_barrier s), x_kpc := K_abort_join reason\<rparr>)"
| "controller_step cfg (K_abort_join reason) s =
     (if x_ppc s = PP_done \<and> x_cpc s = CO_done
      then Some (s\<lparr>x_report := (x_report s)\<lparr>er_failure_phase := Phase_start_barrier,
                     er_failure_reason := reason, er_cancellation_requested := True\<rparr>,
                   x_kpc := K_done\<rparr>) else None)"
| "controller_step cfg K_done s = None"

text \<open>Any thread may take the next step.\<close>

inductive exec_step :: "('c, 'b) exec_config \<Rightarrow> ('c, 'b) exec_state \<Rightarrow> ('c, 'b) exec_state \<Rightarrow> bool"
  for cfg where
  by_producer: "producer_step cfg (x_ppc s) s = Some s' \<Longrightarrow> exec_step cfg s s'"
| by_consumer: "consumer_step cfg (x_cpc s) s = Some s' \<Longrightarrow> exec_step cfg s s'"
| by_controller: "controller_step cfg (x_kpc s) s = Some s' \<Longrightarrow> exec_step cfg s s'"

inductive exec_path :: "('c, 'b) exec_config \<Rightarrow> ('c, 'b) exec_state \<Rightarrow> nat \<Rightarrow> ('c, 'b) exec_state \<Rightarrow> bool"
  for cfg s0 where
  path_start: "exec_path cfg s0 0 s0"
| path_step: "exec_path cfg s0 n s \<Longrightarrow> exec_step cfg s s' \<Longrightarrow> exec_path cfg s0 (Suc n) s'"

subsection \<open>What the executor needs of its backend\<close>

text \<open>
  A backend holds a sequence of records: a complete accepted attempt appends one, a complete
  full attempt none; an item poll takes the oldest, an empty poll means there is none. After
  a failure nothing is known but that an attempt adds at most one record and a poll none.
\<close>

locale measurement_backend =
  fixes backend_invar :: "'b \<Rightarrow> bool"
    and contents :: "'b \<Rightarrow> addr list"
    and attempt :: "ProducerAttempt \<Rightarrow> 'b \<Rightarrow> ProducerAttemptResult \<times> 'b"
    and poll :: "u64 \<Rightarrow> 'b \<Rightarrow> ConsumerPollResult \<times> 'b"
  assumes attempt_effect: "backend_invar b \<Longrightarrow> attempt a b = (r, b') \<Longrightarrow>
      backend_invar b' \<and>
      (at_status r = Attempt_complete \<longrightarrow>
         (if at_outcome r = Enq_accepted then \<exists>x. contents b' = contents b @ [x]
          else contents b' = contents b)) \<and>
      length (contents b') \<le> Suc (length (contents b))"
    and poll_effect: "backend_invar b \<Longrightarrow> poll n b = (q, b') \<Longrightarrow>
      backend_invar b' \<and>
      (po_status q = Poll_item \<longrightarrow> (\<exists>x. contents b = x # contents b')) \<and>
      (po_status q = Poll_empty \<longrightarrow> contents b = [] \<and> contents b' = []) \<and>
      length (contents b') \<le> length (contents b)"

fun remaining_deadlines :: "u64 list \<Rightarrow> producer_pc \<Rightarrow> u64 list" where
  "remaining_deadlines ds PP_arrive = ds"
| "remaining_deadlines ds (PP_wait poll) = ds"
| "remaining_deadlines ds (PP_loop rest) = rest"
| "remaining_deadlines ds (PP_due d rest target poll) = d # rest"
| "remaining_deadlines ds (PP_read d rest target poll) = d # rest"
| "remaining_deadlines ds (PP_attempt d rest) = d # rest"
| "remaining_deadlines ds pc = []"

fun producer_working :: "producer_pc \<Rightarrow> bool" where
  "producer_working PP_start_failed = False"
| "producer_working PP_after = False"
| "producer_working PP_cancel = False"
| "producer_working PP_publish = False"
| "producer_working PP_done = False"
| "producer_working pc = True"

fun consumer_working :: "consumer_pc \<Rightarrow> bool" where
  "consumer_working CO_fail_phase = False"
| "consumer_working CO_cancel = False"
| "consumer_working CO_done = False"
| "consumer_working pc = True"

text \<open>The producer has attempted, in order and once each, the deadlines it is past.\<close>

definition producer_counts :: "u64 list \<Rightarrow> ('c, 'b) exec_state \<Rightarrow> bool" where
  "producer_counts ds s \<longleftrightarrow>
     unat (pw_attempted (x_producer s)) = length (x_attempts s) \<and>
     unat (pw_accepted (x_producer s)) + unat (pw_full (x_producer s)) +
       (if pw_failure (x_producer s) = Reason_producer_attempt then 1 else 0) =
       length (x_attempts s) \<and>
     map pa_logical_sequence (x_attempts s) = map of_nat [0..<length (x_attempts s)] \<and>
     (\<exists>rest. map pa_scheduled_deadline (x_attempts s) @ rest = ds \<and>
        (pw_failure (x_producer s) = Reason_none \<longrightarrow> rest = remaining_deadlines ds (x_ppc s))) \<and>
     (producer_working (x_ppc s) \<longrightarrow> pw_failure (x_producer s) = Reason_none \<and>
        x_logical_sequence s = pw_attempted (x_producer s) \<and>
        x_accepted_ordinal s = pw_accepted (x_producer s))"

definition producer_flags :: "('c, 'b) exec_config \<Rightarrow> ('c, 'b) exec_state \<Rightarrow> bool" where
  "producer_flags cfg s \<longleftrightarrow>
     (pw_completed (x_producer s) \<longrightarrow>
        pw_failure (x_producer s) = Reason_none \<and> (x_ppc s = PP_publish \<or> x_ppc s = PP_done)) \<and>
     (x_ppc s = PP_start_failed \<or> x_ppc s = PP_cancel \<longrightarrow> pw_failure (x_producer s) \<noteq> Reason_none) \<and>
     (x_ppc s = PP_publish \<or> x_ppc s = PP_done \<longrightarrow>
        pw_completed (x_producer s) \<or> pw_failure (x_producer s) \<noteq> Reason_none) \<and>
     (x_producer_failed s \<longrightarrow> pw_failure (x_producer s) \<noteq> Reason_none) \<and>
     (arrivals_finished (x_termination s) \<longrightarrow> x_ppc s = PP_done) \<and>
     (\<forall>d rest target n. x_ppc s = PP_read d rest target n \<longrightarrow>
        n < producer_due_poll_limit_per_arrival (cfg_limits cfg))"

definition consumer_flags ::
  "('c, 'b) exec_config \<Rightarrow> ('b \<Rightarrow> addr list) \<Rightarrow> ('c, 'b) exec_state \<Rightarrow> bool" where
  "consumer_flags cfg contents s \<longleftrightarrow>
     (x_cpc s = CO_check_failed \<or> x_cpc s = CO_poll True \<longrightarrow> arrivals_finished (x_termination s)) \<and>
     (cw_drained (x_consumer s) \<longrightarrow> x_cpc s = CO_done \<and> arrivals_finished (x_termination s) \<and>
        contents (x_backend s) = []) \<and>
     (x_cpc s = CO_done \<longrightarrow> cw_drained (x_consumer s) \<or> cw_failure (x_consumer s) \<noteq> Reason_none \<or>
        x_producer_failed s) \<and>
     (consumer_working (x_cpc s) \<longrightarrow> cw_failure (x_consumer s) = Reason_none \<and>
        x_candidate s = cw_consumed (x_consumer s) \<and>
        x_empty s < consumer_empty_poll_limit_before_finish (cfg_limits cfg)) \<and>
     (x_cpc s = CO_fail_phase \<or> x_cpc s = CO_cancel \<longrightarrow> cw_failure (x_consumer s) \<noteq> Reason_none)"

definition records_accounted :: "('b \<Rightarrow> addr list) \<Rightarrow> ('c, 'b) exec_state \<Rightarrow> bool" where
  "records_accounted contents s \<longleftrightarrow>
     (pw_failure (x_producer s) \<noteq> Reason_producer_attempt \<and> cw_failure (x_consumer s) = Reason_none \<longrightarrow>
        unat (pw_accepted (x_producer s)) =
          unat (cw_consumed (x_consumer s)) + length (contents (x_backend s)))"

fun abort_reason :: "controller_pc \<Rightarrow> ExecutionFailureReason option" where
  "abort_reason (K_abort_cancel reason) = Some reason"
| "abort_reason (K_abort_barrier reason) = Some reason"
| "abort_reason (K_abort_join reason) = Some reason"
| "abort_reason _ = None"

definition report_kept :: "u64 list \<Rightarrow> ('c, 'b) exec_state \<Rightarrow> bool" where
  "report_kept ds s \<longleftrightarrow>
     er_offered (x_report s) = of_nat (length ds) \<and>
     abort_reason (x_kpc s) \<noteq> Some Reason_none \<and>
     (x_kpc s \<noteq> K_done \<longrightarrow> er_failure_reason (x_report s) = Reason_none) \<and>
     (x_kpc s = K_done \<longrightarrow> x_ppc s = PP_done \<and> x_cpc s = CO_done \<and>
        (er_failure_reason (x_report s) = Reason_none \<longrightarrow>
           pw_failure (x_producer s) = Reason_none \<and> cw_failure (x_consumer s) = Reason_none \<and>
           er_producer_completed (x_report s) = pw_completed (x_producer s) \<and>
           er_consumer_drained (x_report s) = cw_drained (x_consumer s) \<and>
           er_attempted (x_report s) = pw_attempted (x_producer s) \<and>
           er_accepted (x_report s) = pw_accepted (x_producer s) \<and>
           er_full (x_report s) = pw_full (x_producer s) \<and>
           er_consumed (x_report s) = cw_consumed (x_consumer s)))"

lemmas exec_inv_defs = producer_counts_def producer_flags_def consumer_flags_def
  records_accounted_def report_kept_def

definition exec_inv ::
  "('c, 'b) exec_config \<Rightarrow> ('b \<Rightarrow> bool) \<Rightarrow> ('b \<Rightarrow> addr list) \<Rightarrow> ('c, 'b) exec_state \<Rightarrow> bool" where
  "exec_inv cfg backend_invar contents s \<longleftrightarrow>
     backend_invar (x_backend s) \<and> producer_counts (ps_deadline_ticks (cfg_schedule cfg)) s \<and>
     producer_flags cfg s \<and> consumer_flags cfg contents s \<and> records_accounted contents s \<and>
     report_kept (ps_deadline_ticks (cfg_schedule cfg)) s"

lemma arrivals_finished_publish [simp]: "arrivals_finished (publish_arrivals_finished t)"
  by (simp add: arrivals_finished_def publish_arrivals_finished_def)

subsection \<open>The controller keeps the invariant\<close>

lemma joined_report_kept:
  assumes "er_failure_reason (x_report s) = Reason_none"
    and "er_failure_reason (joined_report s) = Reason_none"
  shows "pw_failure (x_producer s) = Reason_none" and "cw_failure (x_consumer s) = Reason_none"
  using assms by (auto simp: joined_report_def Let_def split: if_splits)

lemma joined_report_fields [simp]:
  "er_producer_completed (joined_report s) = pw_completed (x_producer s)"
  "er_consumer_drained (joined_report s) = cw_drained (x_consumer s)"
  "er_attempted (joined_report s) = pw_attempted (x_producer s)"
  "er_accepted (joined_report s) = pw_accepted (x_producer s)"
  "er_full (joined_report s) = pw_full (x_producer s)"
  "er_consumed (joined_report s) = cw_consumed (x_consumer s)"
  "er_offered (joined_report s) = er_offered (x_report s)"
  by (simp_all add: joined_report_def Let_def)

lemma controller_keeps:
  assumes "controller_step cfg (x_kpc s) s = Some s'"
  shows "x_backend s' = x_backend s \<and> x_termination s' = x_termination s \<and>
    x_producer_failed s' = x_producer_failed s \<and> x_ppc s' = x_ppc s \<and> x_producer s' = x_producer s \<and>
    x_accepted_ordinal s' = x_accepted_ordinal s \<and> x_logical_sequence s' = x_logical_sequence s \<and>
    x_cpc s' = x_cpc s \<and> x_consumer s' = x_consumer s \<and> x_candidate s' = x_candidate s \<and>
    x_empty s' = x_empty s \<and> x_attempts s' = x_attempts s"
  using assms by (cases "x_kpc s") (auto simp: Let_def split: if_splits option.splits prod.splits)

lemma controller_report:
  assumes "controller_step cfg (x_kpc s) s = Some s'" and "report_kept ds s"
  shows "report_kept ds s'"
proof (cases "x_kpc s")
  case K_join
  then show ?thesis
    using assms joined_report_kept [of s] by (auto simp: report_kept_def split: if_splits)
qed (use assms in \<open>auto simp: report_kept_def Let_def split: if_splits option.splits prod.splits\<close>)

lemma controller_step_inv:
  assumes "controller_step cfg (x_kpc s) s = Some s'" and "exec_inv cfg backend_invar ct s"
  shows "exec_inv cfg backend_invar ct s'"
proof -
  note k = controller_keeps [OF assms(1)]
  have "producer_counts ds s' = producer_counts ds s" for ds by (simp add: producer_counts_def k)
  moreover have "producer_flags cfg s' = producer_flags cfg s" by (simp add: producer_flags_def k)
  moreover have "consumer_flags cfg ct s' = consumer_flags cfg ct s" by (simp add: consumer_flags_def k)
  moreover have "records_accounted ct s' = records_accounted ct s" by (simp add: records_accounted_def k)
  ultimately show ?thesis
    using controller_report [OF assms(1)] assms(2) k by (simp add: exec_inv_def)
qed

subsection \<open>The producer keeps the invariant\<close>

lemmas producer_step_defs = Let_def producer_fail_def producer_read_def producer_attempt_def

lemma producer_keeps:
  assumes "producer_step cfg (x_ppc s) s = Some s'"
  shows "x_kpc s' = x_kpc s \<and> x_report s' = x_report s \<and> x_cpc s' = x_cpc s \<and>
    x_consumer s' = x_consumer s \<and> x_candidate s' = x_candidate s \<and> x_empty s' = x_empty s \<and>
    x_ppc s \<noteq> PP_done \<and> (x_producer_failed s \<longrightarrow> x_producer_failed s') \<and>
    (arrivals_finished (x_termination s) \<longrightarrow> arrivals_finished (x_termination s')) \<and>
    (arrivals_finished (x_termination s') \<longrightarrow>
       arrivals_finished (x_termination s) \<or> x_ppc s' = PP_done)"
  using assms
  by (cases "(cfg, x_ppc s, s)" rule: producer_step.cases)
    (auto simp: producer_step_defs split: if_splits option.splits prod.splits)

text \<open>Only an attempt touches the backend and the counters.\<close>

fun at_attempt :: "producer_pc \<Rightarrow> bool" where
  "at_attempt (PP_attempt d rest) = True"
| "at_attempt _ = False"

lemma producer_quiet:
  assumes "producer_step cfg (x_ppc s) s = Some s'" and "\<not> at_attempt (x_ppc s)"
  shows "x_backend s' = x_backend s \<and> x_attempts s' = x_attempts s \<and>
    pw_accepted (x_producer s') = pw_accepted (x_producer s) \<and>
    pw_attempted (x_producer s') = pw_attempted (x_producer s) \<and>
    pw_full (x_producer s') = pw_full (x_producer s) \<and>
    x_logical_sequence s' = x_logical_sequence s \<and> x_accepted_ordinal s' = x_accepted_ordinal s"
  using assms
  by (cases "(cfg, x_ppc s, s)" rule: producer_step.cases)
    (auto simp: producer_step_defs split: if_splits option.splits prod.splits)

text \<open>A step that reports no failure moves on in the schedule without skipping a deadline.\<close>

lemma producer_moves:
  assumes "producer_step cfg (x_ppc s) s = Some s'" and "\<not> at_attempt (x_ppc s)"
    and "producer_working (x_ppc s) \<longrightarrow> pw_failure (x_producer s) = Reason_none"
  shows "(pw_failure (x_producer s') = Reason_none \<longrightarrow> pw_failure (x_producer s) = Reason_none \<and>
      remaining_deadlines (ps_deadline_ticks (cfg_schedule cfg)) (x_ppc s') =
        remaining_deadlines (ps_deadline_ticks (cfg_schedule cfg)) (x_ppc s)) \<and>
    (producer_working (x_ppc s') \<longrightarrow>
       producer_working (x_ppc s) \<and> pw_failure (x_producer s') = Reason_none) \<and>
    (pw_failure (x_producer s') = Reason_producer_attempt \<longleftrightarrow>
       pw_failure (x_producer s) = Reason_producer_attempt)"
  using assms
  by (cases "(cfg, x_ppc s, s)" rule: producer_step.cases)
    (auto simp: producer_step_defs split: if_splits option.splits prod.splits)

lemma producer_flags_step:
  assumes "producer_step cfg (x_ppc s) s = Some s'" and "producer_flags cfg s"
    and "producer_working (x_ppc s) \<longrightarrow> pw_failure (x_producer s) = Reason_none"
  shows "producer_flags cfg s'"
  using assms
  by (cases "(cfg, x_ppc s, s)" rule: producer_step.cases)
    (auto simp: producer_flags_def producer_step_defs split: if_splits option.splits prod.splits)

lemma producer_counts_quiet:
  assumes "producer_step cfg (x_ppc s) s = Some s'" and "\<not> at_attempt (x_ppc s)"
    and "producer_counts (ps_deadline_ticks (cfg_schedule cfg)) s"
  shows "producer_counts (ps_deadline_ticks (cfg_schedule cfg)) s'"
proof -
  have w: "producer_working (x_ppc s) \<longrightarrow> pw_failure (x_producer s) = Reason_none"
    using assms(3) by (simp add: producer_counts_def)
  note q = producer_quiet [OF assms(1,2)] and m = producer_moves [OF assms(1,2) w]
  have f: "pw_failure (x_producer s') = Reason_producer_attempt \<longleftrightarrow>
      pw_failure (x_producer s) = Reason_producer_attempt" using m by blast
  obtain rest where "map pa_scheduled_deadline (x_attempts s) @ rest = ps_deadline_ticks (cfg_schedule cfg)"
    "pw_failure (x_producer s) = Reason_none \<longrightarrow>
      rest = remaining_deadlines (ps_deadline_ticks (cfg_schedule cfg)) (x_ppc s)"
    using assms(3) unfolding producer_counts_def by blast
  then have "\<exists>rest. map pa_scheduled_deadline (x_attempts s') @ rest =
      ps_deadline_ticks (cfg_schedule cfg) \<and> (pw_failure (x_producer s') = Reason_none \<longrightarrow>
      rest = remaining_deadlines (ps_deadline_ticks (cfg_schedule cfg)) (x_ppc s'))"
    using m by (intro exI [of _ rest]) (simp add: q)
  then show ?thesis
    using assms(3) m unfolding producer_counts_def f by (simp add: q)
qed

text \<open>An attempt moves one deadline from the rest of the schedule to the attempts made.\<close>

lemma producer_counts_attempt:
  assumes "x_ppc s = PP_attempt d rest" and "producer_counts ds s" and "length ds < 2 ^ 64"
    and "ds = ps_deadline_ticks (cfg_schedule cfg)"
  shows "producer_counts ds (producer_attempt cfg d rest s)"
proof -
  let ?n = "length (x_attempts s)"
  have c: "unat (pw_attempted (x_producer s)) = ?n"
      "unat (pw_accepted (x_producer s)) + unat (pw_full (x_producer s)) = ?n"
      "map pa_logical_sequence (x_attempts s) = map of_nat [0..<?n]"
      "map pa_scheduled_deadline (x_attempts s) @ d # rest = ds"
      "pw_failure (x_producer s) = Reason_none"
      "x_logical_sequence s = pw_attempted (x_producer s)"
      "x_accepted_ordinal s = pw_accepted (x_producer s)"
    using assms(1,2) by (auto simp: producer_counts_def)
  have "Suc ?n \<le> length ds" using arg_cong [OF c(4), of length] by simp
  then have n: "Suc ?n < 2 ^ 64" using assms(3) by linarith
  have a: "unat (pw_attempted (x_producer s) + 1) = Suc ?n"
    using n c(1) by (subst unat_plus_u64) simp_all
  have b: "unat (pw_accepted (x_producer s) + 1) = Suc (unat (pw_accepted (x_producer s)))"
    and f: "unat (pw_full (x_producer s) + 1) = Suc (unat (pw_full (x_producer s)))"
    using n c(2) by (subst unat_plus_u64; simp)+
  have seq: "pw_attempted (x_producer s) = of_nat ?n"
    using n unat_of_nat_u64 [of ?n] by (simp add: word_eq_unat c(1))
  show ?thesis
    using a b f c
    by (auto simp: producer_counts_def producer_attempt_def producer_fail_def Let_def seq
        split: prod.splits)
qed

context measurement_backend
begin

lemma producer_attempt_backend:
  assumes "backend_invar (x_backend s)" and "cfg_attempt cfg = attempt"
    and "records_accounted contents s" and "pw_failure (x_producer s) = Reason_none"
    and "unat (pw_accepted (x_producer s)) + 1 < 2 ^ 64"
  shows "backend_invar (x_backend (producer_attempt cfg d rest s)) \<and>
    records_accounted contents (producer_attempt cfg d rest s) \<and>
    length (contents (x_backend (producer_attempt cfg d rest s))) \<le>
      Suc (length (contents (x_backend s)))"
proof -
  let ?a = "\<lparr>pa_logical_sequence = x_logical_sequence s, pa_scheduled_deadline = d,
    pa_candidate_accepted_ordinal = x_accepted_ordinal s\<rparr>"
  obtain r b where r: "attempt ?a (x_backend s) = (r, b)" by fastforce
  have u: "unat (pw_accepted (x_producer s) + 1) = Suc (unat (pw_accepted (x_producer s)))"
    using assms(5) by (subst unat_plus_u64) simp_all
  show ?thesis
    using attempt_effect [OF assms(1) r] assms(2-4) r u
    by (cases "at_status r"; cases "at_outcome r")
      (auto simp: producer_attempt_def producer_fail_def records_accounted_def Let_def)
qed

lemma producer_step_inv:
  assumes step: "producer_step cfg (x_ppc s) s = Some s'" and inv: "exec_inv cfg backend_invar contents s"
    and cfg: "cfg_attempt cfg = attempt" and len: "length (ps_deadline_ticks (cfg_schedule cfg)) < 2 ^ 64"
  shows "exec_inv cfg backend_invar contents s'"
proof -
  let ?ds = "ps_deadline_ticks (cfg_schedule cfg)"
  note k = producer_keeps [OF step]
  have i: "backend_invar (x_backend s)" "producer_counts ?ds s" "producer_flags cfg s"
      "consumer_flags cfg contents s" "records_accounted contents s" "report_kept ?ds s"
    using inv by (simp_all add: exec_inv_def)
  have w: "producer_working (x_ppc s) \<longrightarrow> pw_failure (x_producer s) = Reason_none"
    using i(2) by (simp add: producer_counts_def)
  have "backend_invar (x_backend s') \<and> producer_counts ?ds s' \<and> records_accounted contents s'"
  proof (cases "at_attempt (x_ppc s)")
    case True
    then obtain d rest where pc: "x_ppc s = PP_attempt d rest" by (cases "x_ppc s") auto
    have s': "s' = producer_attempt cfg d rest s" using step pc by simp
    have "map pa_scheduled_deadline (x_attempts s) @ d # rest = ?ds"
      and "unat (pw_accepted (x_producer s)) \<le> length (x_attempts s)"
      using i(2) pc by (auto simp: producer_counts_def)
    from arg_cong [OF this(1), of length] this(2) len
    have "unat (pw_accepted (x_producer s)) + 1 < 2 ^ 64" by simp
    then show ?thesis
      using producer_attempt_backend [OF i(1) cfg i(5)] producer_counts_attempt [OF pc i(2) len refl]
        w pc s' by simp
  next
    case False
    note q = producer_quiet [OF step False] and m = producer_moves [OF step False w]
    have "records_accounted contents s'"
      using i(5) m k by (simp add: records_accounted_def q)
    then show ?thesis using producer_counts_quiet [OF step False i(2)] i(1) q by simp
  qed
  moreover have "consumer_flags cfg contents s'"
  proof -
    have "\<not> cw_drained (x_consumer s)" using i(3,4) k by (auto simp: consumer_flags_def producer_flags_def)
    then show ?thesis using i(4) k unfolding consumer_flags_def by (simp add: k)
  qed
  moreover have "report_kept ?ds s'"
    using i(6) k unfolding report_kept_def by simp
  ultimately show ?thesis using producer_flags_step [OF step i(3) w] by (simp add: exec_inv_def)
qed

subsection \<open>The consumer keeps the invariant\<close>

lemma consumer_poll_inv:
  assumes pc: "x_cpc s = CO_poll finished" and cfg: "cfg_poll cfg = poll"
    and inv: "backend_invar (x_backend s)" "consumer_flags cfg contents s" "records_accounted contents s"
    and lt: "unat (pw_accepted (x_producer s)) < 2 ^ 64"
    and empty_limit: "0 < consumer_empty_poll_limit_before_finish (cfg_limits cfg)"
  shows "backend_invar (x_backend (consumer_poll cfg finished s)) \<and>
    consumer_flags cfg contents (consumer_poll cfg finished s) \<and>
    (pw_failure (x_producer s) \<noteq> Reason_producer_attempt \<longrightarrow>
       records_accounted contents (consumer_poll cfg finished s))"
proof -
  obtain q b where q: "poll (x_candidate s) (x_backend s) = (q, b)" by fastforce
  note e = poll_effect [OF inv(1) q]
  have f: "cw_failure (x_consumer s) = Reason_none" "x_candidate s = cw_consumed (x_consumer s)"
    "finished \<longrightarrow> arrivals_finished (x_termination s)" "\<not> cw_drained (x_consumer s)"
    using inv(2) pc by (auto simp: consumer_flags_def)
  show ?thesis
  proof (cases "po_status q")
    case Poll_item
    then obtain x where x: "contents (x_backend s) = x # contents b" using e by auto
    have u: "unat (cw_consumed (x_consumer s) + 1) = Suc (unat (cw_consumed (x_consumer s)))"
      if "pw_failure (x_producer s) \<noteq> Reason_producer_attempt"
      using that inv(3) f(1) x lt by (subst unat_plus_u64) (simp_all add: records_accounted_def)
    show ?thesis
      using e f x u Poll_item inv(3) cfg q empty_limit
      by (auto simp: consumer_poll_def consumer_fail_def consumer_flags_def records_accounted_def Let_def)
  next
    case Poll_empty
    then show ?thesis
      using e f inv(3) cfg q
      by (auto simp: consumer_poll_def consumer_fail_def consumer_flags_def records_accounted_def
          Let_def not_le split: if_splits)
  next
    case Poll_failure
    then show ?thesis
      using e f inv(3) cfg q
      by (auto simp: consumer_poll_def consumer_fail_def consumer_flags_def records_accounted_def
          Let_def split: if_splits)
  qed
qed

lemma consumer_keeps:
  assumes "consumer_step cfg (x_cpc s) s = Some s'"
  shows "x_kpc s' = x_kpc s \<and> x_report s' = x_report s \<and> x_ppc s' = x_ppc s \<and>
    x_producer s' = x_producer s \<and> x_termination s' = x_termination s \<and>
    x_producer_failed s' = x_producer_failed s \<and> x_attempts s' = x_attempts s \<and>
    x_logical_sequence s' = x_logical_sequence s \<and> x_accepted_ordinal s' = x_accepted_ordinal s \<and>
    x_cpc s \<noteq> CO_done"
  using assms
  by (cases "x_cpc s")
    (auto simp: Let_def consumer_fail_def consumer_poll_def
      split: if_splits option.splits prod.splits ConsumerPollStatus.splits)

lemma consumer_step_inv:
  assumes step: "consumer_step cfg (x_cpc s) s = Some s'" and inv: "exec_inv cfg backend_invar contents s"
    and cfg: "cfg_poll cfg = poll"
    and empty_limit: "0 < consumer_empty_poll_limit_before_finish (cfg_limits cfg)"
  shows "exec_inv cfg backend_invar contents s'"
proof -
  let ?ds = "ps_deadline_ticks (cfg_schedule cfg)"
  note k = consumer_keeps [OF step]
  have i: "backend_invar (x_backend s)" "producer_counts ?ds s" "producer_flags cfg s"
      "consumer_flags cfg contents s" "records_accounted contents s" "report_kept ?ds s"
    using inv by (simp_all add: exec_inv_def)
  have "backend_invar (x_backend s') \<and> consumer_flags cfg contents s' \<and> records_accounted contents s'"
  proof (cases "\<exists>finished. x_cpc s = CO_poll finished")
    case True
    then obtain finished where pc: "x_cpc s = CO_poll finished" by blast
    then have s': "s' = consumer_poll cfg finished s" using step by simp
    have "unat (pw_accepted (x_producer s)) < 2 ^ 64" by (rule unat_u64_lt)
    from consumer_poll_inv [OF pc cfg i(1,4,5) this empty_limit] k show ?thesis
      unfolding s' by (auto simp: records_accounted_def)
  next
    case False
    have f: "cw_failure (x_consumer s') = Reason_none \<longrightarrow> cw_failure (x_consumer s) = Reason_none"
      and c: "cw_consumed (x_consumer s') = cw_consumed (x_consumer s)" "x_backend s' = x_backend s"
      using step False i(4)
      by (cases "x_cpc s"; auto simp: Let_def consumer_fail_def consumer_flags_def
          split: if_splits option.splits prod.splits)+
    have "consumer_flags cfg contents s'"
      using step False i(4) empty_limit
      by (cases "x_cpc s")
        (auto simp: Let_def consumer_fail_def consumer_flags_def split: if_splits option.splits prod.splits)
    then show ?thesis using i(1,5) f k by (auto simp: records_accounted_def c)
  qed
  moreover have "producer_counts ?ds s'" using i(2) by (simp add: producer_counts_def k)
  moreover have "producer_flags cfg s'" using i(3) by (simp add: producer_flags_def k)
  moreover have "report_kept ?ds s'" using i(6) k by (auto simp: report_kept_def)
  ultimately show ?thesis by (simp add: exec_inv_def)
qed

end

end
