(* ===== verification/Executor_Correct.thy ===== *)
theory Executor_Correct
  imports Executor
begin

text \<open>
  What the executor guarantees over any backend that keeps the contract
  \<open>measurement_backend\<close>: the report is sound, every deadline is attempted once and in order,
  and every interleaving ends. The lemmas are proved once in the locale; theory
  \<open>Capture_Backend\<close> applies them to the capturing backend.
\<close>

subsection \<open>Executions\<close>

lemma execute_prepare_Inr:
  assumes "execute_prepare cfg clock backend termination = Inr s"
  shows "validate_prepared_schedule (cfg_schedule cfg) = []"
    and "0 < worker_start_poll_limit (cfg_limits cfg)"
    and "0 < producer_due_poll_limit_per_arrival (cfg_limits cfg)"
    and "0 < consumer_empty_poll_limit_before_finish (cfg_limits cfg)"
    and "0 < drain_poll_limit (cfg_limits cfg)"
    and "s = \<lparr>x_clock = clock, x_backend = backend, x_termination = termination\<lparr>tc_value := 0\<rparr>,
         x_barrier = WorkerStartBarrier_init, x_cancellation = False, x_producer_failed = False,
         x_ppc = PP_arrive, x_producer = ProducerWorkerState_init, x_origin = 0,
         x_accepted_ordinal = 0, x_logical_sequence = 0,
         x_cpc = CO_arrive, x_consumer = ConsumerWorkerState_init, x_candidate = 0, x_empty = 0,
         x_kpc = K_wait 0, x_report = failure_report Phase_none Reason_none
           (of_nat (length (ps_deadline_ticks (cfg_schedule cfg)))),
         x_attempts = []\<rparr>"
  using assms
  by (simp_all add: execute_prepare_def reset_quiescent_def Let_def word_neq_0_conv split: if_splits)

text \<open>The executions of a configuration from a prepared start.\<close>

definition executes ::
  "('c, 'b) exec_config \<Rightarrow> 'c \<Rightarrow> 'b \<Rightarrow> TerminationControl \<Rightarrow> nat \<Rightarrow> ('c, 'b) exec_state \<Rightarrow> bool" where
  "executes cfg clock backend termination n s \<longleftrightarrow>
     (\<exists>s0. execute_prepare cfg clock backend termination = Inr s0 \<and> exec_path cfg s0 n s)"

subsection \<open>A measure that every step decreases\<close>

text \<open>
  The producer's part: what is left of the waiting loop, and per remaining deadline two steps
  for each poll of the due loop and three around it.
\<close>

definition producer_rest :: "ExecutionLimits \<Rightarrow> nat \<Rightarrow> nat" where
  "producer_rest limits n = n * (2 * unat (producer_due_poll_limit_per_arrival limits) + 4) + 4"

fun producer_measure :: "ExecutionLimits \<Rightarrow> nat \<Rightarrow> producer_pc \<Rightarrow> nat" where
  "producer_measure limits total_count PP_arrive =
     unat (worker_start_poll_limit limits) + producer_rest limits total_count + 3"
| "producer_measure limits total_count (PP_wait poll) =
     (unat (worker_start_poll_limit limits) - unat poll) + producer_rest limits total_count + 2"
| "producer_measure limits total_count PP_start_failed = 1"
| "producer_measure limits total_count (PP_loop rest) = producer_rest limits (length rest)"
| "producer_measure limits total_count (PP_due d rest target poll) =
     producer_rest limits (length rest) +
       2 * (unat (producer_due_poll_limit_per_arrival limits) - unat poll) + 3"
| "producer_measure limits total_count (PP_read d rest target poll) =
     producer_rest limits (length rest) +
       2 * (unat (producer_due_poll_limit_per_arrival limits) - unat poll) + 2"
| "producer_measure limits total_count (PP_attempt d rest) = producer_rest limits (length rest) + 1"
| "producer_measure limits total_count PP_after = 3"
| "producer_measure limits total_count PP_cancel = 2"
| "producer_measure limits total_count PP_publish = 1"
| "producer_measure limits total_count PP_done = 0"

text \<open>
  The consumer's part: between two items it sees at most the limit of empty polls, and there
  are no more items than records in the queue and deadlines still to attempt.
\<close>

definition consumer_rounds :: "ExecutionLimits \<Rightarrow> nat \<Rightarrow> u64 \<Rightarrow> nat" where
  "consumer_rounds limits items empty_polls =
     items * (unat (consumer_empty_poll_limit_before_finish limits) + 1) +
       (unat (consumer_empty_poll_limit_before_finish limits) - unat empty_polls)"

fun consumer_measure :: "ExecutionLimits \<Rightarrow> nat \<Rightarrow> consumer_pc \<Rightarrow> nat" where
  "consumer_measure limits rounds CO_arrive =
     unat (worker_start_poll_limit limits) + 3 * rounds + 8"
| "consumer_measure limits rounds (CO_wait poll) =
     (unat (worker_start_poll_limit limits) - unat poll) + 3 * rounds + 7"
| "consumer_measure limits rounds CO_top = 3 * rounds + 6"
| "consumer_measure limits rounds CO_check_failed = 3 * rounds + 5"
| "consumer_measure limits rounds (CO_poll finished) = 3 * rounds + 4"
| "consumer_measure limits rounds CO_fail_phase = 2"
| "consumer_measure limits rounds CO_cancel = 1"
| "consumer_measure limits rounds CO_done = 0"

fun controller_measure :: "ExecutionLimits \<Rightarrow> controller_pc \<Rightarrow> nat" where
  "controller_measure limits (K_wait poll) = (unat (controller_start_poll_limit limits) - unat poll) + 6"
| "controller_measure limits K_origin = 5"
| "controller_measure limits (K_release origin) = 4"
| "controller_measure limits (K_abort_cancel reason) = 3"
| "controller_measure limits (K_abort_barrier reason) = 2"
| "controller_measure limits (K_abort_join reason) = 1"
| "controller_measure limits K_join = 1"
| "controller_measure limits K_done = 0"

definition items_left ::
  "('c, 'b) exec_config \<Rightarrow> ('b \<Rightarrow> addr list) \<Rightarrow> ('c, 'b) exec_state \<Rightarrow> nat" where
  "items_left cfg contents s =
     length (contents (x_backend s)) +
       length (remaining_deadlines (ps_deadline_ticks (cfg_schedule cfg)) (x_ppc s))"

definition exec_measure ::
  "('c, 'b) exec_config \<Rightarrow> ('b \<Rightarrow> addr list) \<Rightarrow> ('c, 'b) exec_state \<Rightarrow> nat" where
  "exec_measure cfg contents s =
     producer_measure (cfg_limits cfg) (length (ps_deadline_ticks (cfg_schedule cfg))) (x_ppc s) +
     consumer_measure (cfg_limits cfg)
       (consumer_rounds (cfg_limits cfg) (items_left cfg contents s) (x_empty s)) (x_cpc s) +
     controller_measure (cfg_limits cfg) (x_kpc s)"

lemma consumer_rounds_mono:
  "m \<le> n \<Longrightarrow> consumer_rounds limits m e \<le> consumer_rounds limits n e"
  unfolding consumer_rounds_def by (intro add_mono mult_le_mono1) auto

lemma consumer_measure_mono:
  "m \<le> n \<Longrightarrow> consumer_measure limits m pc \<le> consumer_measure limits n pc"
  by (cases pc) simp_all

lemma limit_poll_Suc:
  "poll < limit \<Longrightarrow> unat (limit :: u64) - unat (poll + 1) < unat limit - unat poll"
proof -
  assume "poll < limit"
  then have lt: "unat poll < unat limit" by (simp add: word_less_nat_alt)
  then have "unat (poll + 1) = Suc (unat poll)"
    using unat_u64_lt [of limit] by (subst unat_plus_u64) simp_all
  with lt show ?thesis by simp
qed

lemma producer_rest_Suc:
  "producer_rest limits (Suc n) =
     producer_rest limits n + 2 * unat (producer_due_poll_limit_per_arrival limits) + 4"
  by (simp add: producer_rest_def)

lemma worker_wait_poll_None: "worker_wait_poll limit poll b = None \<Longrightarrow> poll < limit"
  by (auto simp: worker_wait_poll_def split: if_splits)

lemma controller_wait_poll_None: "controller_wait_poll limit poll b = None \<Longrightarrow> poll < limit"
  by (auto simp: controller_wait_poll_def split: if_splits)

lemma controller_measure_step:
  assumes "controller_step cfg (x_kpc s) s = Some s'"
  shows "controller_measure (cfg_limits cfg) (x_kpc s') < controller_measure (cfg_limits cfg) (x_kpc s)"
  using assms
  by (cases "x_kpc s")
    (auto simp: Let_def split: if_splits option.splits prod.splits
      dest!: controller_wait_poll_None limit_poll_Suc)

lemma producer_measure_step:
  assumes "producer_step cfg (x_ppc s) s = Some s'" and "producer_flags cfg s"
  shows "producer_measure (cfg_limits cfg) (length (ps_deadline_ticks (cfg_schedule cfg))) (x_ppc s') <
    producer_measure (cfg_limits cfg) (length (ps_deadline_ticks (cfg_schedule cfg))) (x_ppc s)"
proof (cases "x_ppc s")
  case (PP_wait poll)
  then show ?thesis
    using assms(1) worker_wait_poll_None [of _ poll] limit_poll_Suc [of poll]
    by (fastforce simp: producer_fail_def producer_rest_def split: option.splits if_splits)
next
  case (PP_loop rest)
  then show ?thesis
    using assms(1)
    by (cases rest) (auto simp: producer_fail_def producer_rest_Suc producer_rest_def
        split: option.splits if_splits)
next
  case (PP_read d rest target poll)
  then have "poll < producer_due_poll_limit_per_arrival (cfg_limits cfg)"
    using assms(2) by (auto simp: producer_flags_def)
  from limit_poll_Suc [OF this] PP_read assms(1) show ?thesis
    by (auto simp: producer_read_def producer_fail_def producer_rest_def Let_def
        split: prod.splits if_splits)
qed (use assms(1) in \<open>auto simp: producer_step_defs producer_rest_def split: if_splits prod.splits\<close>)

text \<open>No step of the producer adds to what the consumer can still see.\<close>

lemma producer_items:
  assumes "producer_step cfg (x_ppc s) s = Some s'" and "\<not> at_attempt (x_ppc s)"
  shows "items_left cfg contents s' \<le> items_left cfg contents s"
  using assms producer_quiet [OF assms]
  by (cases "(cfg, x_ppc s, s)" rule: producer_step.cases)
    (auto simp: items_left_def producer_step_defs split: if_splits option.splits prod.splits)

lemma consumer_rounds_item:
  "consumer_rounds limits n 0 < consumer_rounds limits (Suc n) e"
  by (simp add: consumer_rounds_def)

lemma consumer_rounds_empty:
  assumes "e + 1 < consumer_empty_poll_limit_before_finish limits"
    and "e < consumer_empty_poll_limit_before_finish limits" and "m \<le> n"
  shows "consumer_rounds limits m (e + 1) < consumer_rounds limits n e"
proof -
  have "consumer_rounds limits m (e + 1) < consumer_rounds limits m e"
    using limit_poll_Suc [OF assms(2)] by (simp add: consumer_rounds_def)
  then show ?thesis using consumer_rounds_mono [OF assms(3)] by (rule less_le_trans)
qed

context measurement_backend
begin

subsection \<open>The invariant holds throughout\<close>

lemma prepare_inv:
  assumes "execute_prepare cfg clock b termination = Inr s" and "backend_invar b" and "contents b = []"
  shows "exec_inv cfg backend_invar contents s"
  using assms(2,3) execute_prepare_Inr [OF assms(1)]
  by (simp add: exec_inv_def exec_inv_defs ProducerWorkerState_init_def ConsumerWorkerState_init_def
      failure_report_def arrivals_finished_def)

lemma exec_step_inv:
  assumes "exec_step cfg s s'" and "exec_inv cfg backend_invar contents s"
    and "cfg_attempt cfg = attempt" and "cfg_poll cfg = poll"
    and "length (ps_deadline_ticks (cfg_schedule cfg)) < 2 ^ 64"
    and "0 < consumer_empty_poll_limit_before_finish (cfg_limits cfg)"
  shows "exec_inv cfg backend_invar contents s'"
  using assms(1)
  by cases (auto intro: producer_step_inv consumer_step_inv controller_step_inv assms(2-6))

lemma executes_inv:
  assumes "executes cfg clock b termination n s" and "backend_invar b" and "contents b = []"
    and "cfg_attempt cfg = attempt" and "cfg_poll cfg = poll"
    and "length (ps_deadline_ticks (cfg_schedule cfg)) < 2 ^ 64"
  shows "exec_inv cfg backend_invar contents s"
proof -
  obtain s0 where s0: "execute_prepare cfg clock b termination = Inr s0" and path: "exec_path cfg s0 n s"
    using assms(1) by (auto simp: executes_def)
  note e = execute_prepare_Inr(4) [OF s0]
  from path show ?thesis
  proof (induction rule: exec_path.induct)
    case path_start
    show ?case by (rule prepare_inv [OF s0 assms(2,3)])
  next
    case (path_step n s s')
    then show ?case using exec_step_inv assms(4-6) e by blast
  qed
qed

subsection \<open>The report is sound\<close>

lemma report_sound:
  assumes "executes cfg clock b termination n s" and "backend_invar b" and "contents b = []"
    and "cfg_attempt cfg = attempt" and "cfg_poll cfg = poll"
    and "length (ps_deadline_ticks (cfg_schedule cfg)) < 2 ^ 64"
    and "x_kpc s = K_done" and "er_failure_reason (x_report s) = Reason_none"
  shows "er_producer_completed (x_report s) \<and> er_consumer_drained (x_report s) \<and>
    contents (x_backend s) = [] \<and>
    er_offered (x_report s) = er_attempted (x_report s) \<and>
    unat (er_attempted (x_report s)) = length (ps_deadline_ticks (cfg_schedule cfg)) \<and>
    unat (er_accepted (x_report s)) + unat (er_full (x_report s)) = unat (er_attempted (x_report s)) \<and>
    er_consumed (x_report s) = er_accepted (x_report s) \<and>
    map pa_scheduled_deadline (x_attempts s) = ps_deadline_ticks (cfg_schedule cfg)"
proof -
  let ?ds = "ps_deadline_ticks (cfg_schedule cfg)"
  note inv = executes_inv [OF assms(1-6)]
  have r: "x_ppc s = PP_done" "x_cpc s = CO_done" "pw_failure (x_producer s) = Reason_none"
      "cw_failure (x_consumer s) = Reason_none" "er_offered (x_report s) = of_nat (length ?ds)"
      "er_producer_completed (x_report s) = pw_completed (x_producer s)"
      "er_consumer_drained (x_report s) = cw_drained (x_consumer s)"
      "er_attempted (x_report s) = pw_attempted (x_producer s)"
      "er_accepted (x_report s) = pw_accepted (x_producer s)"
      "er_full (x_report s) = pw_full (x_producer s)"
      "er_consumed (x_report s) = cw_consumed (x_consumer s)"
    using inv assms(7,8) by (auto simp: exec_inv_def report_kept_def)
  have p: "pw_completed (x_producer s)" "\<not> x_producer_failed s"
    using inv r(1,3) by (auto simp: exec_inv_def producer_flags_def)
  then have c: "cw_drained (x_consumer s)" "contents (x_backend s) = []"
    using inv r(2,4) by (auto simp: exec_inv_def consumer_flags_def)
  have n: "unat (pw_attempted (x_producer s)) = length (x_attempts s)"
      "unat (pw_accepted (x_producer s)) + unat (pw_full (x_producer s)) = length (x_attempts s)"
      "map pa_scheduled_deadline (x_attempts s) = ?ds"
    using inv r(1,3) by (auto simp: exec_inv_def producer_counts_def)
  have "length (x_attempts s) = length ?ds" using arg_cong [OF n(3), of length] by simp
  moreover have "unat (cw_consumed (x_consumer s)) = unat (pw_accepted (x_producer s))"
    using inv r(3,4) c(2) by (simp add: exec_inv_def records_accounted_def)
  ultimately show ?thesis
    using r p c n unat_of_nat_u64 [OF assms(6)] by (simp add: word_eq_unat)
qed

text \<open>Whatever happens, the attempts made are a prefix of the schedule, numbered in order.\<close>

lemma attempts_in_order:
  assumes "executes cfg clock b termination n s" and "backend_invar b" and "contents b = []"
    and "cfg_attempt cfg = attempt" and "cfg_poll cfg = poll"
    and "length (ps_deadline_ticks (cfg_schedule cfg)) < 2 ^ 64"
  shows "\<exists>rest. map pa_scheduled_deadline (x_attempts s) @ rest = ps_deadline_ticks (cfg_schedule cfg)"
    and "map pa_logical_sequence (x_attempts s) = map of_nat [0..<length (x_attempts s)]"
  using executes_inv [OF assms] by (auto simp: exec_inv_def producer_counts_def)

subsection \<open>Every execution ends\<close>

lemma consumer_measure_step:
  assumes "consumer_step cfg (x_cpc s) s = Some s'" and "exec_inv cfg backend_invar contents s"
    and "cfg_poll cfg = poll"
  shows "consumer_measure (cfg_limits cfg)
      (consumer_rounds (cfg_limits cfg) (items_left cfg contents s') (x_empty s')) (x_cpc s') <
    consumer_measure (cfg_limits cfg)
      (consumer_rounds (cfg_limits cfg) (items_left cfg contents s) (x_empty s)) (x_cpc s)"
proof (cases "x_cpc s")
  case (CO_wait n)
  have "items_left cfg contents s' = items_left cfg contents s" "x_empty s' = x_empty s"
    using assms(1) CO_wait
    by (auto simp: items_left_def consumer_fail_def split: option.splits if_splits)
  then show ?thesis
    using assms(1) CO_wait worker_wait_poll_None [of _ n] limit_poll_Suc [of n]
    by (fastforce simp: consumer_fail_def split: option.splits if_splits)
next
  case (CO_poll finished)
  obtain q b where q: "poll (x_candidate s) (x_backend s) = (q, b)" by fastforce
  have inv: "backend_invar (x_backend s)"
      "x_empty s < consumer_empty_poll_limit_before_finish (cfg_limits cfg)"
    using assms(2) CO_poll by (auto simp: exec_inv_def consumer_flags_def)
  note e = poll_effect [OF inv(1) q]
  have s': "s' = consumer_poll cfg finished s" using assms(1) CO_poll by simp
  have b: "x_backend s' = b" "x_ppc s' = x_ppc s"
    using q assms(3) unfolding s' consumer_poll_def
    by (auto simp: Let_def consumer_fail_def split: ConsumerPollStatus.splits)
  have le: "items_left cfg contents s' \<le> items_left cfg contents s" using e b by (simp add: items_left_def)
  show ?thesis
  proof (cases "x_cpc s' = CO_top")
    case True
    have "consumer_rounds (cfg_limits cfg) (items_left cfg contents s') (x_empty s') <
        consumer_rounds (cfg_limits cfg) (items_left cfg contents s) (x_empty s)"
    proof (cases "po_status q")
      case Poll_item
      then have i: "items_left cfg contents s = Suc (items_left cfg contents s')"
        using e b by (auto simp: items_left_def)
      have "x_empty s' = 0"
        using True Poll_item q assms(3) unfolding s' consumer_poll_def
        by (auto simp: Let_def consumer_fail_def split: if_splits)
      then show ?thesis unfolding i by (simp only: consumer_rounds_item)
    next
      case Poll_empty
      then have "x_empty s' = x_empty s + 1"
        "x_empty s + 1 < consumer_empty_poll_limit_before_finish (cfg_limits cfg)"
        using True q assms(3) unfolding s' consumer_poll_def
        by (auto simp: Let_def consumer_fail_def not_le split: if_splits)
      then show ?thesis using consumer_rounds_empty [OF _ inv(2) le] by simp
    next
      case Poll_failure
      then show ?thesis
        using True q assms(3) unfolding s' consumer_poll_def
        by (auto simp: Let_def consumer_fail_def split: if_splits)
    qed
    then show ?thesis using True CO_poll by simp
  next
    case False
    then have "x_cpc s' = CO_cancel \<or> x_cpc s' = CO_fail_phase \<or> x_cpc s' = CO_done"
      using q assms(3) unfolding s' consumer_poll_def
      by (auto simp: Let_def consumer_fail_def split: ConsumerPollStatus.splits if_splits)
    then show ?thesis using CO_poll by auto
  qed
qed (use assms(1) in \<open>auto simp: items_left_def consumer_fail_def Let_def split: if_splits prod.splits\<close>)

lemma producer_items_attempt:
  assumes "x_ppc s = PP_attempt d rest" and "backend_invar (x_backend s)" and "cfg_attempt cfg = attempt"
  shows "items_left cfg contents (producer_attempt cfg d rest s) \<le> items_left cfg contents s"
proof -
  obtain r b where r: "attempt \<lparr>pa_logical_sequence = x_logical_sequence s, pa_scheduled_deadline = d,
      pa_candidate_accepted_ordinal = x_accepted_ordinal s\<rparr> (x_backend s) = (r, b)" by fastforce
  show ?thesis
    using attempt_effect [OF assms(2) r] r assms(1,3)
    by (auto simp: items_left_def producer_attempt_def producer_fail_def Let_def)
qed

lemma exec_measure_step:
  assumes "exec_step cfg s s'" and "exec_inv cfg backend_invar contents s"
    and "cfg_attempt cfg = attempt" and "cfg_poll cfg = poll"
  shows "exec_measure cfg contents s' < exec_measure cfg contents s"
  using assms(1)
proof cases
  case by_producer
  have i: "backend_invar (x_backend s)" "producer_flags cfg s" using assms(2) by (simp_all add: exec_inv_def)
  note k = producer_keeps [OF by_producer]
  have "items_left cfg contents s' \<le> items_left cfg contents s"
  proof (cases "at_attempt (x_ppc s)")
    case True
    then obtain d rest where pc: "x_ppc s = PP_attempt d rest" by (cases "x_ppc s") auto
    then show ?thesis
      using producer_items_attempt [OF pc i(1) assms(3)] by_producer by simp
  next
    case False
    then show ?thesis by (rule producer_items [OF by_producer])
  qed
  from consumer_measure_mono [OF consumer_rounds_mono [OF this]] producer_measure_step [OF by_producer i(2)]
  show ?thesis unfolding exec_measure_def by (simp add: k add_less_le_mono)
next
  case by_consumer
  then show ?thesis
    using consumer_measure_step [OF by_consumer assms(2,4)] consumer_keeps [OF by_consumer]
    by (simp add: exec_measure_def)
next
  case by_controller
  note k = controller_keeps [OF by_controller]
  then have "items_left cfg contents s' = items_left cfg contents s" by (simp add: items_left_def)
  with k show ?thesis
    using controller_measure_step [OF by_controller] by (simp add: exec_measure_def)
qed

lemma executes_bounded:
  assumes "execute_prepare cfg clock b termination = Inr s0" and "exec_path cfg s0 n s"
    and "backend_invar b" and "contents b = []"
    and "cfg_attempt cfg = attempt" and "cfg_poll cfg = poll"
    and "length (ps_deadline_ticks (cfg_schedule cfg)) < 2 ^ 64"
  shows "n + exec_measure cfg contents s \<le> exec_measure cfg contents s0"
  using assms(2)
proof (induction rule: exec_path.induct)
  case path_start
  then show ?case by simp
next
  case (path_step n s s')
  have "executes cfg clock b termination n s"
    using assms(1) path_step.hyps(1) by (auto simp: executes_def)
  from exec_measure_step [OF path_step.hyps(2) executes_inv [OF this assms(3-7)] assms(5,6)]
  show ?case using path_step.IH by linarith
qed

end

text \<open>Only the end of the controller leaves no step to take.\<close>

lemma exec_progress:
  assumes "x_kpc s \<noteq> K_done"
  shows "\<exists>s'. exec_step cfg s s'"
proof (cases "x_ppc s = PP_done \<and> x_cpc s = CO_done")
  case True
  then have "\<exists>s'. controller_step cfg (x_kpc s) s = Some s'"
    using assms by (cases "x_kpc s") (auto simp: Let_def split: prod.split)
  then show ?thesis by (blast intro: by_controller)
next
  case False
  have "x_ppc s \<noteq> PP_done \<Longrightarrow> \<exists>s'. producer_step cfg (x_ppc s) s = Some s'"
    by (cases "(cfg, x_ppc s, s)" rule: producer_step.cases) (auto simp: Let_def split: prod.split)
  moreover have "x_cpc s \<noteq> CO_done \<Longrightarrow> \<exists>s'. consumer_step cfg (x_cpc s) s = Some s'"
    by (cases "x_cpc s") (auto simp: Let_def split: prod.split)
  ultimately show ?thesis using False by (blast intro: by_producer by_consumer)
qed

end
