(* ===== verification/Execution_History.thy ===== *)
theory Execution_History
  imports Executor_Correct
begin

text \<open>
  Backends that record what they did. A history relates the requests made so far, the number
  of accepted attempts and of items polled to the state of the backend; the executor keeps it
  as long as no attempt and no poll fails, because it numbers attempts and items without gaps.
\<close>

lemma exec_path_Cons:
  "exec_path cfg s1 m s' \<Longrightarrow> exec_step cfg s s1 \<Longrightarrow> exec_path cfg s (Suc m) s'"
  by (induction rule: exec_path.induct) (auto intro: exec_path.intros)

lemma executes_step:
  "executes cfg clock b termination n s \<Longrightarrow> exec_step cfg s s' \<Longrightarrow> executes cfg clock b termination (Suc n) s'"
  by (auto simp: executes_def intro: path_step)

text \<open>The number of steps of any execution over a schedule of \<open>n\<close> deadlines.\<close>

definition execution_bound :: "ExecutionLimits \<Rightarrow> nat \<Rightarrow> nat" where
  "execution_bound limits n =
     unat (controller_start_poll_limit limits) + 2 * unat (worker_start_poll_limit limits) +
     n * (2 * unat (producer_due_poll_limit_per_arrival limits) + 4) +
     3 * (n * (unat (consumer_empty_poll_limit_before_finish limits) + 1) +
          unat (consumer_empty_poll_limit_before_finish limits)) + 21"

context measurement_backend
begin

lemma prepared_measure:
  assumes "execute_prepare cfg clock b termination = Inr s0" and "contents b = []"
  shows "exec_measure cfg contents s0 =
    execution_bound (cfg_limits cfg) (length (ps_deadline_ticks (cfg_schedule cfg)))"
  using execute_prepare_Inr(6) [OF assms(1)] assms(2)
  by (simp add: exec_measure_def execution_bound_def items_left_def producer_rest_def consumer_rounds_def)

lemma executes_within_bound:
  assumes "executes cfg clock b termination n s" and "backend_invar b" and "contents b = []"
    and "cfg_attempt cfg = attempt" and "cfg_poll cfg = poll"
    and "length (ps_deadline_ticks (cfg_schedule cfg)) < 2 ^ 64"
  shows "n + exec_measure cfg contents s \<le>
    execution_bound (cfg_limits cfg) (length (ps_deadline_ticks (cfg_schedule cfg)))"
proof -
  obtain s0 where s0: "execute_prepare cfg clock b termination = Inr s0" "exec_path cfg s0 n s"
    using assms(1) by (auto simp: executes_def)
  from executes_bounded [OF s0 assms(2-6)] prepared_measure [OF s0(1) assms(3)] show ?thesis by simp
qed

lemma done_is_final:
  assumes "exec_inv cfg backend_invar contents s" and "x_kpc s = K_done"
  shows "\<not> exec_step cfg s s'"
proof -
  have "x_ppc s = PP_done" "x_cpc s = CO_done" using assms by (auto simp: exec_inv_def report_kept_def)
  then show ?thesis using assms(2) by (auto elim: exec_step.cases)
qed

lemma executes_complete:
  assumes "executes cfg clock b termination n s" and "backend_invar b" and "contents b = []"
    and "cfg_attempt cfg = attempt" and "cfg_poll cfg = poll"
    and "length (ps_deadline_ticks (cfg_schedule cfg)) < 2 ^ 64"
  shows "\<exists>m s'. exec_path cfg s m s' \<and> x_kpc s' = K_done \<and> (\<forall>s''. \<not> exec_step cfg s' s'')"
  using assms(1)
proof (induction "exec_measure cfg contents s" arbitrary: n s rule: less_induct)
  case less
  note inv = executes_inv [OF less.prems assms(2-6)]
  show ?case
  proof (cases "x_kpc s = K_done")
    case True
    then show ?thesis using done_is_final [OF inv] path_start by blast
  next
    case False
    then obtain s1 where step: "exec_step cfg s s1" using exec_progress by blast
    from less.hyps [OF exec_measure_step [OF step inv assms(4,5)] executes_step [OF less.prems step]]
    show ?thesis using exec_path_Cons [OF _ step] by blast
  qed
qed

end

definition history_kept ::
  "(ProducerAttempt list \<Rightarrow> nat \<Rightarrow> nat \<Rightarrow> 'b \<Rightarrow> bool) \<Rightarrow> ('c, 'b) exec_state \<Rightarrow> bool" where
  "history_kept history s \<longleftrightarrow>
     (pw_failure (x_producer s) \<noteq> Reason_producer_attempt \<and> cw_failure (x_consumer s) = Reason_none \<longrightarrow>
        history (x_attempts s) (unat (pw_accepted (x_producer s))) (unat (cw_consumed (x_consumer s)))
          (x_backend s))"

lemma of_nat_count: "unat (w :: u64) = n \<Longrightarrow> w = of_nat n"
  using unat_u64_lt [of w] by (simp add: word_eq_unat unat_of_nat_u64)

locale recording_backend = measurement_backend +
  fixes history :: "ProducerAttempt list \<Rightarrow> nat \<Rightarrow> nat \<Rightarrow> 'b \<Rightarrow> bool"
  assumes history_attempt: "\<lbrakk>backend_invar b; history requests accepted consumed b;
      attempt request b = (r, b'); at_status r = Attempt_complete;
      pa_logical_sequence request = of_nat (length requests);
      pa_candidate_accepted_ordinal request = of_nat accepted\<rbrakk> \<Longrightarrow>
      history (requests @ [request]) (if at_outcome r = Enq_accepted then Suc accepted else accepted)
        consumed b'"
    and history_item: "\<lbrakk>backend_invar b; history requests accepted consumed b;
      poll (of_nat consumed) b = (q, b'); po_status q = Poll_item\<rbrakk> \<Longrightarrow>
      history requests accepted (Suc consumed) b'"
    and history_empty: "\<lbrakk>backend_invar b; history requests accepted consumed b;
      poll (of_nat consumed) b = (q, b'); po_status q = Poll_empty\<rbrakk> \<Longrightarrow>
      history requests accepted consumed b'"
begin

lemma producer_history:
  assumes step: "producer_step cfg (x_ppc s) s = Some s'" and inv: "exec_inv cfg backend_invar contents s"
    and hist: "history_kept history s" and cfg: "cfg_attempt cfg = attempt"
    and len: "length (ps_deadline_ticks (cfg_schedule cfg)) < 2 ^ 64"
  shows "history_kept history s'"
proof -
  note k = producer_keeps [OF step]
  have i: "backend_invar (x_backend s)" "producer_counts (ps_deadline_ticks (cfg_schedule cfg)) s"
    using inv by (simp_all add: exec_inv_def)
  have w: "producer_working (x_ppc s) \<longrightarrow> pw_failure (x_producer s) = Reason_none"
    using i(2) by (simp add: producer_counts_def)
  show ?thesis
  proof (cases "at_attempt (x_ppc s)")
    case False
    note q = producer_quiet [OF step False] and m = producer_moves [OF step False w]
    show ?thesis using hist k q m by (simp add: history_kept_def)
  next
    case True
    then obtain d rest where pc: "x_ppc s = PP_attempt d rest" by (cases "x_ppc s") auto
    let ?a = "\<lparr>pa_logical_sequence = x_logical_sequence s, pa_scheduled_deadline = d,
      pa_candidate_accepted_ordinal = x_accepted_ordinal s\<rparr>"
    obtain r b where r: "attempt ?a (x_backend s) = (r, b)" by fastforce
    have c: "map pa_scheduled_deadline (x_attempts s) @ d # rest = ps_deadline_ticks (cfg_schedule cfg)"
      "unat (pw_accepted (x_producer s)) \<le> length (x_attempts s)"
      "x_logical_sequence s = of_nat (length (x_attempts s))"
      "x_accepted_ordinal s = of_nat (unat (pw_accepted (x_producer s)))"
      "pw_failure (x_producer s) = Reason_none"
      using i(2) pc by (auto simp: producer_counts_def of_nat_count)
    from arg_cong [OF c(1), of length] c(2) len
    have "unat (pw_accepted (x_producer s)) + 1 < 2 ^ 64" by simp
    then have u: "unat (pw_accepted (x_producer s) + 1) = Suc (unat (pw_accepted (x_producer s)))"
      by (subst unat_plus_u64) simp_all
    have s': "s' = producer_attempt cfg d rest s" using step pc by simp
    have h: "history (x_attempts s @ [?a])
        (if at_outcome r = Enq_accepted then Suc (unat (pw_accepted (x_producer s)))
         else unat (pw_accepted (x_producer s))) (unat (cw_consumed (x_consumer s))) b"
      if "at_status r = Attempt_complete" "cw_failure (x_consumer s) = Reason_none"
      using hist that c(3,4,5) by (intro history_attempt [OF i(1) _ r]) (simp_all add: history_kept_def)
    show ?thesis
      using h r cfg u k
      by (auto simp: history_kept_def s' producer_attempt_def producer_fail_def Let_def)
  qed
qed

lemma consumer_history:
  assumes step: "consumer_step cfg (x_cpc s) s = Some s'" and inv: "exec_inv cfg backend_invar contents s"
    and hist: "history_kept history s" and cfg: "cfg_poll cfg = poll"
  shows "history_kept history s'"
proof (cases "\<exists>finished. x_cpc s = CO_poll finished")
  case False
  then have "x_backend s' = x_backend s" "cw_consumed (x_consumer s') = cw_consumed (x_consumer s)"
    "cw_failure (x_consumer s') = Reason_none \<longrightarrow> cw_failure (x_consumer s) = Reason_none"
    using step inv by (cases "x_cpc s"; auto simp: exec_inv_def consumer_flags_def consumer_fail_def Let_def
        split: option.splits if_splits prod.splits)+
  then show ?thesis using hist consumer_keeps [OF step] by (simp add: history_kept_def)
next
  case True
  then obtain finished where pc: "x_cpc s = CO_poll finished" by blast
  obtain q b where q: "poll (x_candidate s) (x_backend s) = (q, b)" by fastforce
  have s': "s' = consumer_poll cfg finished s" using step pc by simp
  have i: "backend_invar (x_backend s)" "records_accounted contents s"
    "cw_failure (x_consumer s) = Reason_none"
    "x_candidate s = of_nat (unat (cw_consumed (x_consumer s)))"
    using inv pc by (auto simp: exec_inv_def consumer_flags_def)
  show ?thesis
  proof (cases "pw_failure (x_producer s) = Reason_producer_attempt")
    case True
    then show ?thesis using consumer_keeps [OF step] by (simp add: history_kept_def)
  next
    case False
    then have h: "history (x_attempts s) (unat (pw_accepted (x_producer s)))
        (unat (cw_consumed (x_consumer s))) (x_backend s)"
      using hist i(3) by (simp add: history_kept_def)
    note q' = q [unfolded i(4)]
    have item: "po_status q = Poll_item \<Longrightarrow> history (x_attempts s) (unat (pw_accepted (x_producer s)))
        (unat (cw_consumed (x_consumer s) + 1)) b"
    proof -
      assume item: "po_status q = Poll_item"
      then have "contents (x_backend s) \<noteq> []" using poll_effect [OF i(1) q] by auto
      then have "unat (cw_consumed (x_consumer s)) < unat (pw_accepted (x_producer s))"
        using i(2,3) False by (simp add: records_accounted_def)
      then have "unat (cw_consumed (x_consumer s) + 1) = Suc (unat (cw_consumed (x_consumer s)))"
        by (rule unat_Suc_u64)
      then show ?thesis using history_item [OF i(1) h q' item] by simp
    qed
    show ?thesis
      using item history_empty [OF i(1) h q'] q cfg consumer_keeps [OF step]
      by (cases "po_status q") (auto simp: history_kept_def s' consumer_poll_def consumer_fail_def Let_def)
  qed
qed

lemma executes_history:
  assumes run: "executes cfg clock b termination n s" and b: "backend_invar b" "contents b = []"
    and start: "history [] 0 0 b"
    and cfg: "cfg_attempt cfg = attempt" "cfg_poll cfg = poll"
    and len: "length (ps_deadline_ticks (cfg_schedule cfg)) < 2 ^ 64"
  shows "history_kept history s"
proof -
  obtain s0 where s0: "execute_prepare cfg clock b termination = Inr s0" and path: "exec_path cfg s0 n s"
    using run by (auto simp: executes_def)
  from path show ?thesis
  proof (induction rule: exec_path.induct)
    case path_start
    show ?case using start execute_prepare_Inr(6) [OF s0]
      by (simp add: history_kept_def ProducerWorkerState_init_def ConsumerWorkerState_init_def)
  next
    case (path_step n s s')
    have "executes cfg clock b termination n s"
      using s0 path_step.hyps(1) by (auto simp: executes_def)
    note inv = executes_inv [OF this b cfg len]
    from path_step.hyps(2) show ?case
    proof cases
      case by_producer
      then show ?thesis using producer_history inv path_step.IH cfg(1) len by blast
    next
      case by_consumer
      then show ?thesis using consumer_history inv path_step.IH cfg(2) by blast
    next
      case by_controller
      then show ?thesis using path_step.IH controller_keeps [OF by_controller] by (simp add: history_kept_def)
    qed
  qed
qed

text \<open>A run that reports no failure has a complete history.\<close>

lemma complete_history:
  assumes "executes cfg clock b termination n s" and "backend_invar b" and "contents b = []"
    and "history [] 0 0 b" and "cfg_attempt cfg = attempt" and "cfg_poll cfg = poll"
    and "length (ps_deadline_ticks (cfg_schedule cfg)) < 2 ^ 64"
    and "x_kpc s = K_done" and "er_failure_reason (x_report s) = Reason_none"
  shows "history (x_attempts s) (unat (er_accepted (x_report s))) (unat (er_consumed (x_report s)))
      (x_backend s)"
proof -
  have "report_kept (ps_deadline_ticks (cfg_schedule cfg)) s"
    using executes_inv [OF assms(1-3,5-7)] by (simp add: exec_inv_def)
  then show ?thesis
    using executes_history [OF assms(1-7)] assms(8,9) by (simp add: report_kept_def history_kept_def)
qed

end

end
