(* ===== verification/Timing_Clock.thy ===== *)
theory Timing_Clock
  imports Validation
begin

text \<open>
  Clock conversion and derived intervals: \<^verbatim>\<open>timing/clock.hpp\<close>, \<^verbatim>\<open>timing/clock.cpp\<close>,
  \<^verbatim>\<open>timing/intervals.cpp\<close> and the observation rows of \<^verbatim>\<open>protocol/model.hpp\<close>. The system calls
  \<^verbatim>\<open>clock_gettime\<close> and \<^verbatim>\<open>clock_getres\<close> are parameters: functions on a state of their own that
  return seconds and nanoseconds, or nothing when the call fails. A value of type
  \<^verbatim>\<open>std::int64_t\<close> is an \<open>int\<close>.
\<close>

subsection \<open>Reading the clock\<close>

datatype ClockReadStatus =
  Clock_ok | Clock_call_failed | Clock_invalid_timespec | Clock_before_origin | Clock_overflow

record AbsoluteClockReadResult =
  abs_status :: ClockReadStatus
  abs_nanoseconds :: u64

record ClockSample =
  absolute_nanoseconds :: u64
  relative_picoseconds :: u64

record ClockReadResult =
  clock_status :: ClockReadStatus
  clock_sample :: ClockSample

record ClockResolutionResult =
  resolution_status :: ClockReadStatus
  resolution_picoseconds :: u64

definition no_sample :: ClockSample where
  "no_sample = \<lparr>absolute_nanoseconds = 0, relative_picoseconds = 0\<rparr>"

definition absolute_nanoseconds_from_timespec :: "int \<Rightarrow> int \<Rightarrow> AbsoluteClockReadResult" where
  "absolute_nanoseconds_from_timespec seconds nanoseconds =
     (let nanoseconds_per_second = (1000000000 :: u64) in
      if seconds < 0 \<or> nanoseconds < 0 \<or> nanoseconds \<ge> 1000000000
      then \<lparr>abs_status = Clock_invalid_timespec, abs_nanoseconds = 0\<rparr>
      else
        let unsigned_seconds = (of_int seconds :: u64) in
        if unsigned_seconds > u64_max div nanoseconds_per_second
        then \<lparr>abs_status = Clock_overflow, abs_nanoseconds = 0\<rparr>
        else
          let whole_seconds = unsigned_seconds * nanoseconds_per_second;
              subsecond = (of_int nanoseconds :: u64)
          in if subsecond > u64_max - whole_seconds
             then \<lparr>abs_status = Clock_overflow, abs_nanoseconds = 0\<rparr>
             else \<lparr>abs_status = Clock_ok, abs_nanoseconds = whole_seconds + subsecond\<rparr>)"

definition relative_clock_sample :: "u64 \<Rightarrow> u64 \<Rightarrow> ClockReadResult" where
  "relative_clock_sample origin absolute =
     (if absolute < origin then \<lparr>clock_status = Clock_before_origin, clock_sample = no_sample\<rparr>
      else
        let relative_nanoseconds = absolute - origin in
        if relative_nanoseconds > u64_max div 1000
        then \<lparr>clock_status = Clock_overflow, clock_sample = no_sample\<rparr>
        else \<lparr>clock_status = Clock_ok,
               clock_sample = \<lparr>absolute_nanoseconds = absolute,
                 relative_picoseconds = relative_nanoseconds * 1000\<rparr>\<rparr>)"

definition monotonic_raw_resolution :: "(int \<times> int) option \<Rightarrow> ClockResolutionResult" where
  "monotonic_raw_resolution getres =
     (case getres of
        None \<Rightarrow> \<lparr>resolution_status = Clock_call_failed, resolution_picoseconds = 0\<rparr>
      | Some (sec, nsec) \<Rightarrow>
          let absolute = absolute_nanoseconds_from_timespec sec nsec in
          if abs_status absolute \<noteq> Clock_ok
          then \<lparr>resolution_status = abs_status absolute, resolution_picoseconds = 0\<rparr>
          else if abs_nanoseconds absolute > u64_max div 1000
          then \<lparr>resolution_status = Clock_overflow, resolution_picoseconds = 0\<rparr>
          else \<lparr>resolution_status = Clock_ok,
                 resolution_picoseconds = abs_nanoseconds absolute * 1000\<rparr>)"

definition read_monotonic_raw_absolute ::
  "('c \<Rightarrow> (int \<times> int) option \<times> 'c) \<Rightarrow> 'c \<Rightarrow> AbsoluteClockReadResult \<times> 'c" where
  "read_monotonic_raw_absolute gettime c =
     (let (value, c') = gettime c in
      (case value of
         None \<Rightarrow> (\<lparr>abs_status = Clock_call_failed, abs_nanoseconds = 0\<rparr>, c')
       | Some (sec, nsec) \<Rightarrow> (absolute_nanoseconds_from_timespec sec nsec, c')))"

definition capture_origin ::
  "('c \<Rightarrow> (int \<times> int) option \<times> 'c) \<Rightarrow> 'c \<Rightarrow> AbsoluteClockReadResult \<times> 'c" where
  "capture_origin gettime c = read_monotonic_raw_absolute gettime c"

definition MonotonicRawClock_read ::
  "('c \<Rightarrow> (int \<times> int) option \<times> 'c) \<Rightarrow> u64 \<Rightarrow> 'c \<Rightarrow> ClockReadResult \<times> 'c" where
  "MonotonicRawClock_read gettime origin c =
     (let (absolute, c') = read_monotonic_raw_absolute gettime c in
      if abs_status absolute \<noteq> Clock_ok
      then (\<lparr>clock_status = abs_status absolute, clock_sample = no_sample\<rparr>, c')
      else (relative_clock_sample origin (abs_nanoseconds absolute), c'))"

subsection \<open>Observation rows\<close>

datatype ProducerOutcome = Outcome_accepted | Outcome_full

record ProducerRecord =
  pr_run_id :: Identifier
  pr_logical_sequence :: u64
  pr_record_index :: u64
  pr_scheduled_arrival :: u64
  pr_producer_handle_begin :: u64
  pr_record_lookup_completion :: u64
  pr_enqueue_invocation :: u64
  pr_enqueue_linearization :: "u64 option"
  pr_enqueue_attempt_completion :: u64
  pr_outcome :: ProducerOutcome
  pr_accepted_ordinal :: "u64 option"

record ConsumerRecord =
  cr_run_id :: Identifier
  cr_consumed_ordinal :: u64
  cr_observed_record_index :: u64
  cr_dequeue_invocation :: u64
  cr_dequeue_linearization :: u64
  cr_dequeue_completion :: u64
  cr_consumer_action_completion :: u64

record JoinedRecord =
  jr_run_id :: Identifier
  jr_accepted_ordinal :: u64
  jr_logical_sequence :: u64
  jr_record_index :: u64
  jr_producer_row_ordinal :: u64
  jr_consumer_row_ordinal :: u64
  jr_scheduled_arrival :: u64
  jr_producer_handle_begin :: u64
  jr_record_lookup_completion :: u64
  jr_enqueue_invocation :: u64
  jr_enqueue_linearization :: u64
  jr_enqueue_attempt_completion :: u64
  jr_dequeue_invocation :: u64
  jr_dequeue_linearization :: u64
  jr_dequeue_completion :: u64
  jr_consumer_action_completion :: u64
  jr_producer_lateness :: u64
  jr_pointer_lookup_interval :: u64
  jr_enqueue_service_time :: u64
  jr_admission_delay :: u64
  jr_queue_residence :: u64
  jr_dequeue_service_time :: u64
  jr_post_dequeue_delivery_interval :: u64
  jr_consumer_action_interval :: u64
  jr_end_to_end_latency :: u64

subsection \<open>Derived intervals\<close>

fun nondecreasing :: "u64 list \<Rightarrow> bool" where
  "nondecreasing (previous # current # rest) \<longleftrightarrow>
     (if current < previous then False else nondecreasing (current # rest))"
| "nondecreasing _ \<longleftrightarrow> True"

definition joined_failure :: "string \<Rightarrow> string \<Rightarrow> JoinedRecord Result" where
  "joined_failure rule_id message = Inl [ValidationError cross_field ''$joined'' rule_id message]"

definition derive_joined_record ::
  "ProducerRecord \<Rightarrow> u64 \<Rightarrow> ConsumerRecord \<Rightarrow> u64 \<Rightarrow> JoinedRecord Result" where
  "derive_joined_record producer producer_row_ordinal consumer consumer_row_ordinal =
     (case (pr_outcome producer, pr_enqueue_linearization producer, pr_accepted_ordinal producer) of
        (Outcome_accepted, Some enqueue_linearization, Some accepted_ordinal) \<Rightarrow>
          if pr_run_id producer \<noteq> cr_run_id consumer \<or>
             accepted_ordinal \<noteq> cr_consumed_ordinal consumer \<or>
             pr_record_index producer \<noteq> cr_observed_record_index consumer
          then joined_failure ''TIM-DERIVE-IDENTITY''
            ''run identity, accepted ordinal, and record index must match''
          else if \<not> nondecreasing [pr_scheduled_arrival producer, pr_producer_handle_begin producer,
               pr_record_lookup_completion producer, pr_enqueue_invocation producer,
               enqueue_linearization, pr_enqueue_attempt_completion producer] \<or>
             \<not> nondecreasing [cr_dequeue_invocation consumer, cr_dequeue_linearization consumer,
               cr_dequeue_completion consumer, cr_consumer_action_completion consumer] \<or>
             cr_dequeue_linearization consumer < enqueue_linearization
          then joined_failure ''TIM-DERIVE-ORDER''
            ''timestamp boundaries violate their required partial order''
          else
            let producer_lateness = pr_producer_handle_begin producer - pr_scheduled_arrival producer;
                pointer_lookup_interval =
                  pr_record_lookup_completion producer - pr_producer_handle_begin producer;
                enqueue_service_time =
                  pr_enqueue_attempt_completion producer - pr_enqueue_invocation producer;
                admission_delay = enqueue_linearization - pr_scheduled_arrival producer;
                queue_residence = cr_dequeue_linearization consumer - enqueue_linearization;
                dequeue_service_time =
                  cr_dequeue_completion consumer - cr_dequeue_invocation consumer;
                post_dequeue_delivery_interval =
                  cr_consumer_action_completion consumer - cr_dequeue_linearization consumer;
                consumer_action_interval =
                  cr_consumer_action_completion consumer - cr_dequeue_completion consumer;
                end_to_end_latency =
                  cr_consumer_action_completion consumer - pr_scheduled_arrival producer
            in if admission_delay > end_to_end_latency \<or>
                  queue_residence > end_to_end_latency - admission_delay \<or>
                  post_dequeue_delivery_interval \<noteq>
                    end_to_end_latency - admission_delay - queue_residence
               then joined_failure ''TIM-DERIVE-ADDITIVE''
                 ''additive end-to-end components do not reconcile exactly''
               else Inr \<lparr>jr_run_id = pr_run_id producer, jr_accepted_ordinal = accepted_ordinal,
                 jr_logical_sequence = pr_logical_sequence producer,
                 jr_record_index = pr_record_index producer,
                 jr_producer_row_ordinal = producer_row_ordinal,
                 jr_consumer_row_ordinal = consumer_row_ordinal,
                 jr_scheduled_arrival = pr_scheduled_arrival producer,
                 jr_producer_handle_begin = pr_producer_handle_begin producer,
                 jr_record_lookup_completion = pr_record_lookup_completion producer,
                 jr_enqueue_invocation = pr_enqueue_invocation producer,
                 jr_enqueue_linearization = enqueue_linearization,
                 jr_enqueue_attempt_completion = pr_enqueue_attempt_completion producer,
                 jr_dequeue_invocation = cr_dequeue_invocation consumer,
                 jr_dequeue_linearization = cr_dequeue_linearization consumer,
                 jr_dequeue_completion = cr_dequeue_completion consumer,
                 jr_consumer_action_completion = cr_consumer_action_completion consumer,
                 jr_producer_lateness = producer_lateness,
                 jr_pointer_lookup_interval = pointer_lookup_interval,
                 jr_enqueue_service_time = enqueue_service_time,
                 jr_admission_delay = admission_delay, jr_queue_residence = queue_residence,
                 jr_dequeue_service_time = dequeue_service_time,
                 jr_post_dequeue_delivery_interval = post_dequeue_delivery_interval,
                 jr_consumer_action_interval = consumer_action_interval,
                 jr_end_to_end_latency = end_to_end_latency\<rparr>
      | _ \<Rightarrow> joined_failure ''TIM-DERIVE-ACCEPTED-ONLY''
          ''only a complete ACCEPTED producer row has latency fields'')"

subsection \<open>Conversions are exact\<close>

lemma unat_of_int_u64: "0 \<le> i \<Longrightarrow> i < 2 ^ 64 \<Longrightarrow> unat (of_int i :: u64) = nat i"
proof -
  assume i: "0 \<le> i" "i < 2 ^ 64"
  have "(of_int i :: u64) = of_int (int (nat i))" by (simp only: int_nat_eq i(1) if_True)
  then have "(of_int i :: u64) = of_nat (nat i)" by (simp only: of_int_of_nat_eq)
  moreover have "nat i < 2 ^ 64" using i by (simp add: nat_less_iff)
  ultimately show ?thesis by (simp only: unat_of_nat_u64)
qed

lemma relative_clock_sample_ok:
  assumes "clock_status (relative_clock_sample origin absolute) = Clock_ok"
  shows "origin \<le> absolute"
    and "absolute_nanoseconds (clock_sample (relative_clock_sample origin absolute)) = absolute"
    and "unat (relative_picoseconds (clock_sample (relative_clock_sample origin absolute))) =
      1000 * (unat absolute - unat origin)"
proof -
  have le: "origin \<le> absolute" and g: "\<not> u64_max div 1000 < absolute - origin"
    using assms by (auto simp: relative_clock_sample_def Let_def not_less split: if_splits)
  have nl: "\<not> absolute < origin" using le by simp
  show "origin \<le> absolute"
    and "absolute_nanoseconds (clock_sample (relative_clock_sample origin absolute)) = absolute"
    using le nl g by (simp_all add: relative_clock_sample_def Let_def)
  have "unat (1000 :: u64) * unat (absolute - origin) < 2 ^ 64"
    using g mul_guard [of 1000 "absolute - origin"] by simp
  then have "unat ((absolute - origin) * 1000) = 1000 * unat (absolute - origin)"
    using unat_times_u64 [of 1000 "absolute - origin"] by (simp add: mult.commute)
  with le nl g show "unat (relative_picoseconds (clock_sample (relative_clock_sample origin absolute))) =
      1000 * (unat absolute - unat origin)"
    by (simp add: relative_clock_sample_def Let_def unat_minus_u64)
qed

subsection \<open>Chains of timestamps\<close>

lemma additive_intervals:
  assumes "s \<le> l" and "l \<le> d" and "d \<le> (a :: u64)"
  shows "l - s \<le> a - s" and "d - l \<le> a - s - (l - s)" and "a - d = a - s - (l - s) - (d - l)"
    and "unat (a - s) = unat (l - s) + unat (d - l) + unat (a - d)"
proof -
  have "s \<le> d" "s \<le> a" "l \<le> a" using assms by auto
  note u = unat_minus_u64 [OF assms(1)] unat_minus_u64 [OF assms(2)] unat_minus_u64 [OF assms(3)]
    unat_minus_u64 [OF \<open>s \<le> a\<close>]
  have n: "unat s \<le> unat l" "unat l \<le> unat d" "unat d \<le> unat a"
    using assms by (simp_all add: word_le_nat_alt)
  show 1: "l - s \<le> a - s" using n by (simp add: word_le_nat_alt u)
  then show "d - l \<le> a - s - (l - s)"
    using n by (simp add: word_le_nat_alt u unat_minus_u64 [OF \<open>l \<le> a\<close>])
  show "a - d = a - s - (l - s) - (d - l)" by simp
  show "unat (a - s) = unat (l - s) + unat (d - l) + unat (a - d)" using n by (simp add: u)
qed

text \<open>The conditions under which a pair of rows has latency fields.\<close>

definition joinable :: "ProducerRecord \<Rightarrow> ConsumerRecord \<Rightarrow> bool" where
  "joinable p c \<longleftrightarrow>
     pr_outcome p = Outcome_accepted \<and>
     (\<exists>l n. pr_enqueue_linearization p = Some l \<and> pr_accepted_ordinal p = Some n \<and>
        pr_run_id p = cr_run_id c \<and> n = cr_consumed_ordinal c \<and>
        pr_record_index p = cr_observed_record_index c \<and>
        nondecreasing [pr_scheduled_arrival p, pr_producer_handle_begin p,
          pr_record_lookup_completion p, pr_enqueue_invocation p, l,
          pr_enqueue_attempt_completion p] \<and>
        nondecreasing [cr_dequeue_invocation c, cr_dequeue_linearization c,
          cr_dequeue_completion c, cr_consumer_action_completion c] \<and>
        l \<le> cr_dequeue_linearization c)"

lemma nondecreasing_sorted: "nondecreasing xs \<longleftrightarrow> sorted xs"
  by (induction xs rule: nondecreasing.induct) (auto simp: not_less)

lemma joinable_additive:
  assumes "joinable p c" and "pr_enqueue_linearization p = Some l"
  shows "pr_scheduled_arrival p \<le> l" and "l \<le> cr_dequeue_linearization c"
    and "cr_dequeue_linearization c \<le> cr_consumer_action_completion c"
  using assms by (auto simp: joinable_def nondecreasing_sorted)

lemma derive_joined_record_joinable:
  assumes "derive_joined_record p i c k = Inr j"
  shows "joinable p c"
  using assms unfolding derive_joined_record_def joinable_def joined_failure_def
  by (cases "pr_outcome p"; cases "pr_enqueue_linearization p"; cases "pr_accepted_ordinal p")
    (auto simp: Let_def not_less simp del: nondecreasing.simps split: if_splits)

lemma derive_joined_record_Inr:
  assumes "joinable p c"
  shows "\<exists>j. derive_joined_record p i c k = Inr j"
proof -
  obtain l n where l: "pr_enqueue_linearization p = Some l" and n: "pr_accepted_ordinal p = Some n"
    using assms by (auto simp: joinable_def)
  note add = additive_intervals [OF joinable_additive [OF assms l]]
  have "\<not> cr_consumer_action_completion c - pr_scheduled_arrival p < l - pr_scheduled_arrival p"
    and "\<not> cr_consumer_action_completion c - pr_scheduled_arrival p - (l - pr_scheduled_arrival p) <
      cr_dequeue_linearization c - l"
    and "\<not> cr_dequeue_linearization c < l"
    using add(1,2) joinable_additive(2) [OF assms l] by (simp_all only: not_less)
  then show ?thesis
    using assms l n unfolding derive_joined_record_def joinable_def
    by (simp add: Let_def del: nondecreasing.simps)
qed

lemma derive_joined_record_fields:
  assumes "derive_joined_record p i c k = Inr j"
  shows "\<exists>l. pr_enqueue_linearization p = Some l \<and>
    jr_admission_delay j = l - pr_scheduled_arrival p \<and>
    jr_queue_residence j = cr_dequeue_linearization c - l \<and>
    jr_post_dequeue_delivery_interval j =
      cr_consumer_action_completion c - cr_dequeue_linearization c \<and>
    jr_end_to_end_latency j = cr_consumer_action_completion c - pr_scheduled_arrival p"
  using assms unfolding derive_joined_record_def joined_failure_def
  by (cases "pr_outcome p"; cases "pr_enqueue_linearization p"; cases "pr_accepted_ordinal p")
    (auto simp: Let_def simp del: nondecreasing.simps split: if_splits)

subsection \<open>Properties\<close>

text \<open>
  Conversion of a \<open>timespec\<close> with 64-bit fields: negative or unnormalised values are
  rejected; otherwise the result is the exact number of nanoseconds, or an overflow report
  exactly when it does not fit 64 bits.
\<close>

theorem timespec_conversion_exact:
  assumes "- (2 ^ 63) \<le> seconds" and "seconds < 2 ^ 63"
  shows "absolute_nanoseconds_from_timespec seconds nanoseconds =
    (if seconds < 0 \<or> nanoseconds < 0 \<or> 1000000000 \<le> nanoseconds
     then \<lparr>abs_status = Clock_invalid_timespec, abs_nanoseconds = 0\<rparr>
     else if seconds * 1000000000 + nanoseconds < 2 ^ 64
     then \<lparr>abs_status = Clock_ok, abs_nanoseconds = of_int (seconds * 1000000000 + nanoseconds)\<rparr>
     else \<lparr>abs_status = Clock_overflow, abs_nanoseconds = 0\<rparr>)"
proof (cases "seconds < 0 \<or> nanoseconds < 0 \<or> 1000000000 \<le> nanoseconds")
  case True
  then show ?thesis by (auto simp: absolute_nanoseconds_from_timespec_def)
next
  case False
  let ?s = "of_int seconds :: u64" and ?n = "of_int nanoseconds :: u64"
  have s: "unat ?s = nat seconds" and n: "unat ?n = nat nanoseconds"
    using False assms by (auto intro!: unat_of_int_u64)
  have g1: "u64_max div 1000000000 < ?s \<longleftrightarrow> 2 ^ 64 \<le> 1000000000 * nat seconds"
    using mul_guard [of 1000000000 ?s] s by simp
  show ?thesis
  proof (cases "2 ^ 64 \<le> 1000000000 * nat seconds")
    case True
    then have "int (2 ^ 64) \<le> int (1000000000 * nat seconds)" by (simp only: of_nat_le_iff)
    then have "\<not> seconds * 1000000000 + nanoseconds < 2 ^ 64" using False by simp
    with True False g1 show ?thesis by (simp add: absolute_nanoseconds_from_timespec_def Let_def)
  next
    case lt: False
    then have m: "unat (?s * 1000000000) = nat seconds * 1000000000"
      using unat_times_u64 [of ?s 1000000000] s by (simp add: mult.commute)
    have "u64_max - ?s * 1000000000 < ?n \<longleftrightarrow> 2 ^ 64 \<le> nat seconds * 1000000000 + nat nanoseconds"
      using add_guard [of "?s * 1000000000" ?n] m n by simp
    also have "\<dots> \<longleftrightarrow> \<not> seconds * 1000000000 + nanoseconds < 2 ^ 64"
      using False by (auto simp: nat_less_iff)
    finally show ?thesis
      using False lt g1 by (simp add: absolute_nanoseconds_from_timespec_def Let_def)
  qed
qed

theorem timespec_conversion_exact_witness:
  "absolute_nanoseconds_from_timespec 3 5 =
     \<lparr>abs_status = Clock_ok, abs_nanoseconds = 3000000005\<rparr>"
  using timespec_conversion_exact [of 3 5] by simp

text \<open>
  Relative samples keep order and distance: for two accepted readings against one
  origin, the picosecond values differ by exactly a thousand times the nanoseconds between
  them, and are ordered as the readings are.
\<close>

theorem relative_samples_exact:
  assumes "clock_status (relative_clock_sample origin a) = Clock_ok"
    and "clock_status (relative_clock_sample origin b) = Clock_ok"
    and "a \<le> b"
  shows "unat (relative_picoseconds (clock_sample (relative_clock_sample origin b))) =
           unat (relative_picoseconds (clock_sample (relative_clock_sample origin a))) +
             1000 * (unat b - unat a) \<and>
         relative_picoseconds (clock_sample (relative_clock_sample origin a)) \<le>
           relative_picoseconds (clock_sample (relative_clock_sample origin b))"
proof -
  have "unat origin \<le> unat a" and "unat a \<le> unat b"
    using relative_clock_sample_ok(1) [OF assms(1)] assms(3) by (simp_all add: word_le_nat_alt)
  then show ?thesis
    by (simp add: word_le_nat_alt relative_clock_sample_ok(3) [OF assms(1)]
        relative_clock_sample_ok(3) [OF assms(2)] diff_mult_distrib2)
qed

theorem relative_samples_exact_witness:
  "unat (relative_picoseconds (clock_sample (relative_clock_sample 100 107))) =
     unat (relative_picoseconds (clock_sample (relative_clock_sample 100 105))) + 2000"
  using relative_samples_exact [of 100 105 107] by (simp add: relative_clock_sample_def Let_def)

text \<open>
  Exactly the matching rows are joined: a joined row is derived if and only if the
  producer row is a complete accepted one, the identities agree, and the timestamps respect
  their partial order. The final additivity check never fails on such rows.
\<close>

theorem derive_joined_exactly:
  "(\<exists>j. derive_joined_record p i c k = Inr j) \<longleftrightarrow> joinable p c"
  using derive_joined_record_joinable [of p i c k] derive_joined_record_Inr [of p c i k] by blast

text \<open>
  The latency decomposition is exact: in every derived row the end-to-end latency is the
  sum of admission delay, queue residence and post-dequeue delivery, with no wrap-around.
\<close>

theorem derive_joined_additive:
  assumes "derive_joined_record p i c k = Inr j"
  shows "unat (jr_end_to_end_latency j) =
    unat (jr_admission_delay j) + unat (jr_queue_residence j) +
    unat (jr_post_dequeue_delivery_interval j)"
proof -
  have "joinable p c" by (rule derive_joined_record_joinable [OF assms])
  moreover obtain l where "pr_enqueue_linearization p = Some l"
    "jr_admission_delay j = l - pr_scheduled_arrival p"
    "jr_queue_residence j = cr_dequeue_linearization c - l"
    "jr_post_dequeue_delivery_interval j = cr_consumer_action_completion c - cr_dequeue_linearization c"
    "jr_end_to_end_latency j = cr_consumer_action_completion c - pr_scheduled_arrival p"
    using derive_joined_record_fields [OF assms] by auto
  ultimately show ?thesis
    using additive_intervals(4) [OF joinable_additive] by metis
qed

definition example_producer_row :: ProducerRecord where
  "example_producer_row =
     \<lparr>pr_run_id = Identifier ''r'', pr_logical_sequence = 0, pr_record_index = 4,
      pr_scheduled_arrival = 10, pr_producer_handle_begin = 12, pr_record_lookup_completion = 13,
      pr_enqueue_invocation = 14, pr_enqueue_linearization = Some 15,
      pr_enqueue_attempt_completion = 16, pr_outcome = Outcome_accepted,
      pr_accepted_ordinal = Some 0\<rparr>"

definition example_consumer_row :: ConsumerRecord where
  "example_consumer_row =
     \<lparr>cr_run_id = Identifier ''r'', cr_consumed_ordinal = 0, cr_observed_record_index = 4,
      cr_dequeue_invocation = 18, cr_dequeue_linearization = 19, cr_dequeue_completion = 21,
      cr_consumer_action_completion = 30\<rparr>"

theorem derive_joined_additive_witness:
  "\<exists>j. derive_joined_record example_producer_row 0 example_consumer_row 0 = Inr j \<and>
     unat (jr_end_to_end_latency j) = 20 \<and>
     unat (jr_end_to_end_latency j) = unat (jr_admission_delay j) + unat (jr_queue_residence j) +
       unat (jr_post_dequeue_delivery_interval j)"
proof -
  have "joinable example_producer_row example_consumer_row"
    by (simp add: joinable_def example_producer_row_def example_consumer_row_def)
  then obtain j where j: "derive_joined_record example_producer_row 0 example_consumer_row 0 = Inr j"
    using derive_joined_record_Inr by blast
  from derive_joined_additive [OF j] derive_joined_record_fields [OF j] j show ?thesis
    by (auto simp: example_producer_row_def example_consumer_row_def)
qed

end
