(* ===== verification/Protocol_Rows.thy ===== *)
theory Protocol_Rows
  imports Timing_Clock Deterministic
begin

text \<open>
  Raw observation envelopes and the validation of their rows: the hashes, versions and the
  envelope of \<^verbatim>\<open>protocol/model.hpp\<close> and \<^verbatim>\<open>protocol/model.cpp\<close>, and \<^verbatim>\<open>validate_producer\<close>,
  \<^verbatim>\<open>validate_consumer\<close>, \<^verbatim>\<open>validate_joined\<close> and \<^verbatim>\<open>validate_raw\<close> of \<^verbatim>\<open>protocol/semantic.cpp\<close>. The
  member \<^verbatim>\<open>source_document\<close> of the envelope (the JSON it was read from) is left out: nothing
  modelled here reads it.
\<close>

subsection \<open>Hashes and versions\<close>

datatype ProtocolVersion = V2_0_0_pre_1 | V2_0_0_pre_2

definition kProtocolVersion :: string where
  "kProtocolVersion = ''2.0.0-pre.2''"

definition kPreviousProtocolVersion :: string where
  "kPreviousProtocolVersion = ''2.0.0-pre.1''"

definition parse_protocol_version :: "string \<Rightarrow> string \<Rightarrow> ProtocolVersion Result" where
  "parse_protocol_version text path =
     (if text = kPreviousProtocolVersion then Inr V2_0_0_pre_1
      else if text = kProtocolVersion then Inr V2_0_0_pre_2
      else Inl [ValidationError unsupported_version path ''GOV-004''
        (''only protocol/schema versions 2.0.0-pre.1 and 2.0.0-pre.2 are readable; '' @
         ''no implicit migration exists'')])"

text \<open>The class \<^verbatim>\<open>Sha256\<close> of the protocol model; only lowercase digits are accepted.\<close>

datatype Sha256 = Sha256 (sha256_bytes: "u8 list")

definition hex_value :: "char \<Rightarrow> u8 option" where
  "hex_value value =
     (let v = (of_char value :: nat) in
      if 48 \<le> v \<and> v \<le> 57 then Some (of_nat (v - 48))
      else if 97 \<le> v \<and> v \<le> 102 then Some (of_nat (v - 97 + 10))
      else None)"

fun sha256_digits :: "string \<Rightarrow> u8 list option" where
  "sha256_digits (a # b # rest) =
     (case (hex_value a, hex_value b) of
        (Some high, Some low) \<Rightarrow> map_option (\<lambda>bytes. (push_bit 4 high OR low) # bytes) (sha256_digits rest)
      | _ \<Rightarrow> None)"
| "sha256_digits _ = Some []"

definition Sha256_parse :: "string \<Rightarrow> string \<Rightarrow> Sha256 Result" where
  "Sha256_parse text path =
     (if length text \<noteq> 64
      then Inl [ValidationError invalid_hash path ''DAT-SHA256''
        ''SHA-256 must contain 64 lowercase hex digits'']
      else (case sha256_digits text of
          None \<Rightarrow> Inl [ValidationError invalid_hash path ''DAT-SHA256''
            ''SHA-256 must contain only lowercase hexadecimal digits'']
        | Some bytes \<Rightarrow> Inr (Sha256 bytes)))"

definition Sha256_hex :: "Sha256 \<Rightarrow> string" where
  "Sha256_hex h =
     concat (map (\<lambda>byte. [hex_digits ! unat (drop_bit 4 byte AND 15), hex_digits ! unat (byte AND 15)])
       (sha256_bytes h))"

subsection \<open>Envelopes\<close>

datatype StreamKind = Stream_producer | Stream_consumer | Stream_joined_derived

datatype Endianness = Little_endian | Big_endian | Endianness_not_applicable

record ArtifactReference =
  ar_artifact_id :: Identifier
  ar_sha256 :: Sha256

datatype InlineObservationRows =
    Producer_rows "ProducerRecord list"
  | Consumer_rows "ConsumerRecord list"
  | Joined_rows "JoinedRecord list"

datatype ObservationStorage =
    External_storage string
  | Inline_rows InlineObservationRows

record RawObservationEnvelope =
  re_schema_version :: ProtocolVersion
  re_protocol_version :: ProtocolVersion
  re_artifact_id :: Identifier
  re_run_id :: Identifier
  re_stream_kind :: StreamKind
  re_logical_row_schema_version :: ProtocolVersion
  re_physical_format_record_id :: Identifier
  re_encoding :: string
  re_time_unit :: string
  re_endianness :: Endianness
  re_compression :: string
  re_row_count :: u64
  re_byte_count :: u64
  re_storage :: ObservationStorage
  re_source_artifacts :: "ArtifactReference list"
  re_integrity_artifact_ref :: ArtifactReference
  re_artifact_sha256 :: Sha256

subsection \<open>Semantic validation of rows\<close>

definition semantic_checked_add :: "u64 \<Rightarrow> u64 \<Rightarrow> u64 option" where
  "semantic_checked_add left right = (if right > u64_max - left then None else Some (left + right))"

definition validate_producer :: "ProducerRecord \<Rightarrow> Identifier \<Rightarrow> string \<Rightarrow> ValidationError list" where
  "validate_producer row envelope_run_id path =
     fail_if (pr_run_id row \<noteq> envelope_run_id)
       (ValidationError reference_mismatch (path @ ''/run_id'') ''DAT-RUN-ID-MATCH''
         ''row run_id must match its envelope'') @
     fail_if (\<not> (pr_scheduled_arrival row \<le> pr_producer_handle_begin row \<and>
         pr_producer_handle_begin row \<le> pr_record_lookup_completion row \<and>
         pr_record_lookup_completion row \<le> pr_enqueue_invocation row \<and>
         pr_enqueue_invocation row \<le> pr_enqueue_attempt_completion row))
       (ValidationError cross_field path ''TIM-PRODUCER-ORDER''
         ''producer timestamps violate their protocol order'') @
     (if pr_outcome row = Outcome_accepted
      then (case (pr_enqueue_linearization row, pr_accepted_ordinal row) of
          (Some linearization, Some _) \<Rightarrow>
            fail_if (linearization < pr_enqueue_invocation row \<or>
                linearization > pr_enqueue_attempt_completion row)
              (ValidationError cross_field (path @ ''/enqueue_linearization'')
                ''TIM-ENQUEUE-LINEARIZATION''
                ''enqueue linearization must lie between invocation and completion'')
        | _ \<Rightarrow> [ValidationError missing_field path ''RAW-ACCEPTED-FIELDS''
            ''accepted row requires linearization and accepted ordinal''])
      else fail_if (pr_enqueue_linearization row \<noteq> None \<or> pr_accepted_ordinal row \<noteq> None)
        (ValidationError cross_field path ''RAW-FULL-FIELDS''
          ''FULL row must not have accepted-only fields''))"

definition validate_consumer :: "ConsumerRecord \<Rightarrow> Identifier \<Rightarrow> string \<Rightarrow> ValidationError list" where
  "validate_consumer row envelope_run_id path =
     fail_if (cr_run_id row \<noteq> envelope_run_id)
       (ValidationError reference_mismatch (path @ ''/run_id'') ''DAT-RUN-ID-MATCH''
         ''row run_id must match its envelope'') @
     fail_if (\<not> (cr_dequeue_invocation row \<le> cr_dequeue_linearization row \<and>
         cr_dequeue_linearization row \<le> cr_dequeue_completion row \<and>
         cr_dequeue_completion row \<le> cr_consumer_action_completion row))
       (ValidationError cross_field path ''TIM-CONSUMER-ORDER''
         ''consumer timestamps violate their protocol order'')"

definition expect_interval ::
  "string \<Rightarrow> u64 \<Rightarrow> u64 \<Rightarrow> string \<Rightarrow> string \<Rightarrow> ValidationError list" where
  "expect_interval path actual calculated field rule =
     fail_if (actual \<noteq> calculated)
       (ValidationError cross_field (path @ ''/'' @ field) rule
         ''derived interval does not equal its timestamp equation'')"

definition joined_order :: "JoinedRecord \<Rightarrow> bool" where
  "joined_order row \<longleftrightarrow>
     jr_scheduled_arrival row \<le> jr_producer_handle_begin row \<and>
     jr_producer_handle_begin row \<le> jr_record_lookup_completion row \<and>
     jr_record_lookup_completion row \<le> jr_enqueue_invocation row \<and>
     jr_enqueue_invocation row \<le> jr_enqueue_linearization row \<and>
     jr_enqueue_linearization row \<le> jr_enqueue_attempt_completion row \<and>
     jr_dequeue_invocation row \<le> jr_dequeue_linearization row \<and>
     jr_dequeue_linearization row \<le> jr_dequeue_completion row \<and>
     jr_dequeue_completion row \<le> jr_consumer_action_completion row \<and>
     jr_enqueue_linearization row \<le> jr_dequeue_linearization row"

definition validate_joined :: "JoinedRecord \<Rightarrow> Identifier \<Rightarrow> string \<Rightarrow> ValidationError list" where
  "validate_joined row envelope_run_id path =
     fail_if (jr_run_id row \<noteq> envelope_run_id)
       (ValidationError reference_mismatch (path @ ''/run_id'') ''DAT-RUN-ID-MATCH''
         ''row run_id must match its envelope'') @
     (if \<not> joined_order row
      then [ValidationError cross_field path ''TIM-JOINED-ORDER''
        ''joined timestamps violate producer, consumer, or queue order'']
      else
        expect_interval path (jr_producer_lateness row)
          (jr_producer_handle_begin row - jr_scheduled_arrival row)
          ''producer_lateness'' ''TIM-EQ-PRODUCER-LATENESS'' @
        expect_interval path (jr_pointer_lookup_interval row)
          (jr_record_lookup_completion row - jr_producer_handle_begin row)
          ''pointer_lookup_interval'' ''TIM-EQ-POINTER-LOOKUP'' @
        expect_interval path (jr_enqueue_service_time row)
          (jr_enqueue_attempt_completion row - jr_enqueue_invocation row)
          ''enqueue_service_time'' ''TIM-EQ-ENQUEUE-SERVICE'' @
        expect_interval path (jr_admission_delay row)
          (jr_enqueue_linearization row - jr_scheduled_arrival row)
          ''admission_delay'' ''TIM-EQ-ADMISSION'' @
        expect_interval path (jr_queue_residence row)
          (jr_dequeue_linearization row - jr_enqueue_linearization row)
          ''queue_residence'' ''TIM-EQ-RESIDENCE'' @
        expect_interval path (jr_dequeue_service_time row)
          (jr_dequeue_completion row - jr_dequeue_invocation row)
          ''dequeue_service_time'' ''TIM-EQ-DEQUEUE-SERVICE'' @
        expect_interval path (jr_post_dequeue_delivery_interval row)
          (jr_consumer_action_completion row - jr_dequeue_linearization row)
          ''post_dequeue_delivery_interval'' ''TIM-EQ-DELIVERY'' @
        expect_interval path (jr_consumer_action_interval row)
          (jr_consumer_action_completion row - jr_dequeue_completion row)
          ''consumer_action_interval'' ''TIM-EQ-CONSUMER-ACTION'' @
        expect_interval path (jr_end_to_end_latency row)
          (jr_consumer_action_completion row - jr_scheduled_arrival row)
          ''end_to_end_latency'' ''TIM-EQ-END-TO-END'' @
        fail_if (Option.bind (semantic_checked_add (jr_admission_delay row) (jr_queue_residence row))
            (\<lambda>partial. semantic_checked_add partial (jr_post_dequeue_delivery_interval row)) \<noteq>
            Some (jr_end_to_end_latency row))
          (ValidationError cross_field (path @ ''/end_to_end_latency'') ''TIM-EQ-ADDITIVE''
            ''end-to-end latency must equal admission + residence + delivery''))"

definition inline_path :: "nat \<Rightarrow> string" where
  "inline_path index = ''$out/storage/inline_rows/'' @ std_to_string index"

definition validate_rows ::
  "('r \<Rightarrow> Identifier \<Rightarrow> string \<Rightarrow> ValidationError list) \<Rightarrow> 'r list \<Rightarrow> RawObservationEnvelope \<Rightarrow>
     ValidationError list" where
  "validate_rows validate rows envelope =
     fail_if (of_nat (length rows) \<noteq> re_row_count envelope)
       (ValidationError cross_field ''$out/row_count'' ''DAT-RAW-ROW-COUNT''
         ''envelope row_count must equal the inline logical row count'') @
     concat (map (\<lambda>index. validate (rows ! index) (re_run_id envelope) (inline_path index))
       [0..<length rows])"

definition validate_raw :: "RawObservationEnvelope \<Rightarrow> ValidationError list" where
  "validate_raw envelope =
     (case re_storage envelope of
        External_storage uri \<Rightarrow> []
      | Inline_rows (Producer_rows rows) \<Rightarrow> validate_rows validate_producer rows envelope
      | Inline_rows (Consumer_rows rows) \<Rightarrow> validate_rows validate_consumer rows envelope
      | Inline_rows (Joined_rows rows) \<Rightarrow> validate_rows validate_joined rows envelope)"

subsection \<open>What the validators accept\<close>

lemma semantic_checked_add_Some [simp]:
  "semantic_checked_add l r = Some s \<longleftrightarrow> unat l + unat r < 2 ^ 64 \<and> s = l + r"
  by (auto simp: semantic_checked_add_def overflow_guard)

lemma expect_interval_Nil [simp]: "expect_interval path a c f r = [] \<longleftrightarrow> a = c"
  by (simp add: expect_interval_def)

lemma validate_rows_Nil:
  assumes "length rows = unat (re_row_count envelope)"
    and "\<And>row path. row \<in> set rows \<Longrightarrow> validate row (re_run_id envelope) path = []"
  shows "validate_rows validate rows envelope = []"
proof -
  have "(of_nat (length rows) :: u64) = re_row_count envelope"
    using unat_u64_lt [of "re_row_count envelope"]
    by (simp add: word_eq_unat unat_of_nat_u64 assms(1))
  then show ?thesis using assms(2) by (simp add: validate_rows_def)
qed

lemma validate_joined_Nil:
  assumes "jr_run_id row = run" and "joined_order row"
    and "jr_producer_lateness row = jr_producer_handle_begin row - jr_scheduled_arrival row"
    and "jr_pointer_lookup_interval row = jr_record_lookup_completion row - jr_producer_handle_begin row"
    and "jr_enqueue_service_time row = jr_enqueue_attempt_completion row - jr_enqueue_invocation row"
    and "jr_admission_delay row = jr_enqueue_linearization row - jr_scheduled_arrival row"
    and "jr_queue_residence row = jr_dequeue_linearization row - jr_enqueue_linearization row"
    and "jr_dequeue_service_time row = jr_dequeue_completion row - jr_dequeue_invocation row"
    and "jr_post_dequeue_delivery_interval row =
      jr_consumer_action_completion row - jr_dequeue_linearization row"
    and "jr_consumer_action_interval row = jr_consumer_action_completion row - jr_dequeue_completion row"
    and "jr_end_to_end_latency row = jr_consumer_action_completion row - jr_scheduled_arrival row"
  shows "validate_joined row run path = []"
proof -
  have "jr_scheduled_arrival row \<le> jr_enqueue_linearization row"
    "jr_enqueue_linearization row \<le> jr_dequeue_linearization row"
    "jr_dequeue_linearization row \<le> jr_consumer_action_completion row"
    using assms(2) by (auto simp: joined_order_def)
  from additive_intervals(4) [OF this] have "unat (jr_end_to_end_latency row) =
      unat (jr_admission_delay row) + unat (jr_queue_residence row) +
      unat (jr_post_dequeue_delivery_interval row)"
    by (simp only: assms)
  then have sum: "unat (jr_admission_delay row) + unat (jr_queue_residence row) < 2 ^ 64"
    "unat (jr_admission_delay row + jr_queue_residence row) +
      unat (jr_post_dequeue_delivery_interval row) < 2 ^ 64"
    "jr_admission_delay row + jr_queue_residence row + jr_post_dequeue_delivery_interval row =
      jr_end_to_end_latency row"
    using unat_u64_lt [of "jr_end_to_end_latency row"]
    by (simp_all add: unat_plus_u64 word_eq_unat)
  then have "Option.bind (semantic_checked_add (jr_admission_delay row) (jr_queue_residence row))
      (\<lambda>partial. semantic_checked_add partial (jr_post_dequeue_delivery_interval row)) =
      Some (jr_end_to_end_latency row)"
    by (simp add: semantic_checked_add_def overflow_guard)
  then show ?thesis using assms by (simp add: validate_joined_def)
qed

lemma derive_joined_record_rows:
  assumes "derive_joined_record p i c k = Inr j"
  shows "jr_run_id j = pr_run_id p" and "joined_order j" and "validate_joined j (pr_run_id p) path = []"
proof -
  have join: "joinable p c" by (rule derive_joined_record_joinable [OF assms])
  obtain l n where l: "pr_enqueue_linearization p = Some l" and n: "pr_accepted_ordinal p = Some n"
    and o: "pr_outcome p = Outcome_accepted"
    using join by (auto simp: joinable_def)
  have j: "jr_run_id j = pr_run_id p" "jr_scheduled_arrival j = pr_scheduled_arrival p"
    "jr_producer_handle_begin j = pr_producer_handle_begin p"
    "jr_record_lookup_completion j = pr_record_lookup_completion p"
    "jr_enqueue_invocation j = pr_enqueue_invocation p" "jr_enqueue_linearization j = l"
    "jr_enqueue_attempt_completion j = pr_enqueue_attempt_completion p"
    "jr_dequeue_invocation j = cr_dequeue_invocation c"
    "jr_dequeue_linearization j = cr_dequeue_linearization c"
    "jr_dequeue_completion j = cr_dequeue_completion c"
    "jr_consumer_action_completion j = cr_consumer_action_completion c"
    "jr_producer_lateness j = pr_producer_handle_begin p - pr_scheduled_arrival p"
    "jr_pointer_lookup_interval j = pr_record_lookup_completion p - pr_producer_handle_begin p"
    "jr_enqueue_service_time j = pr_enqueue_attempt_completion p - pr_enqueue_invocation p"
    "jr_admission_delay j = l - pr_scheduled_arrival p"
    "jr_queue_residence j = cr_dequeue_linearization c - l"
    "jr_dequeue_service_time j = cr_dequeue_completion c - cr_dequeue_invocation c"
    "jr_post_dequeue_delivery_interval j = cr_consumer_action_completion c - cr_dequeue_linearization c"
    "jr_consumer_action_interval j = cr_consumer_action_completion c - cr_dequeue_completion c"
    "jr_end_to_end_latency j = cr_consumer_action_completion c - pr_scheduled_arrival p"
    using assms l n o unfolding derive_joined_record_def joined_failure_def
    by (simp_all add: Let_def del: nondecreasing.simps split: if_splits)
      (auto simp del: nondecreasing.simps)
  show "jr_run_id j = pr_run_id p" by (rule j)
  show order: "joined_order j"
    using join l by (auto simp: joined_order_def joinable_def nondecreasing_sorted j)
  show "validate_joined j (pr_run_id p) path = []"
    by (rule validate_joined_Nil) (simp_all add: order j(1), simp_all add: j)
qed

end
