(* ===== verification/Linked_Spsc.thy ===== *)
theory Linked_Spsc
  imports Cyclic_Buffer Bounded_Fifo
begin

text \<open>
  The linked queue with its node recycler: \<^verbatim>\<open>include/cpu_prefetch/queue/linked_spsc.hpp\<close> and
  \<^verbatim>\<open>src/queue/linked_spsc.cpp\<close>. The nodes live in an explicit heap from addresses to node
  contents, so that the chain, the recycler and the audit speak of the same pointers the code
  does. Construction writes every node of the arena; what the arena held before is a
  parameter.
\<close>

subsection \<open>State and construction\<close>

record linked_node =
  ln_next :: addr
  ln_event :: addr
  ln_arena_index :: usize

type_synonym node_heap = "addr \<Rightarrow> linked_node"

record LinkedSpscQueue =
  lq_capacity :: usize
  lq_cache_line_bytes :: usize
  lq_node_stride_bytes :: usize
  lq_node_arena_alignment_bytes :: usize
  lq_node_storage :: AlignedBlock
  lq_recycler_storage :: AlignedBlock
  lq_ownership_storage :: AlignedBlock
  lq_heap :: node_heap
  lq_recycler_slots :: "addr list"
  lq_tail :: addr
  lq_head :: addr
  lq_recycler_producer :: usize
  lq_recycler_consumer :: usize

record LinkedQuiescentAudit =
  la_reachable_nodes :: nat
  la_queued_events :: nat
  la_recycler_nodes :: nat
  la_reachable_order :: "usize list"
  la_recycler_order :: "usize list"
  la_chain_acyclic :: bool
  la_tail_reachable :: bool
  la_every_node_owned_once :: bool
  la_recycler_fifo_shape :: bool
  la_positions_in_range :: bool

text \<open>\<^verbatim>\<open>sizeof(Node)\<close>: two pointers and a \<^verbatim>\<open>std::size_t\<close>.\<close>

definition sizeof_Node :: usize where
  "sizeof_Node = 24"

definition arena_node_at :: "addr \<Rightarrow> usize \<Rightarrow> usize \<Rightarrow> addr" where
  "arena_node_at base stride index = base + index * stride"

definition node_at :: "LinkedSpscQueue \<Rightarrow> usize \<Rightarrow> addr" where
  "node_at q index = arena_node_at (block_data (lq_node_storage q)) (lq_node_stride_bytes q) index"

definition index_of :: "LinkedSpscQueue \<Rightarrow> addr \<Rightarrow> usize option" where
  "index_of q node =
     (let base = block_data (lq_node_storage q) in
      if node < base then None
      else
        let offset = node - base in
        if offset mod lq_node_stride_bytes q \<noteq> 0 then None
        else
          let index = offset div lq_node_stride_bytes q in
          if index > lq_capacity q then None else Some index)"

text \<open>The loop over \<^verbatim>\<open>node_order\<close> with its \<^verbatim>\<open>seen\<close> vector.\<close>

definition check_node_order :: "usize \<Rightarrow> usize list \<Rightarrow> setup_error + unit" where
  "check_node_order node_count order =
     (if seen_check node_count (replicate (unat node_count) False) order then Inr ()
      else Inl (QueueSetupError ''linked node order must be a permutation''))"

text \<open>The loop that constructs the nodes, over the indices still to do.\<close>

fun construct_nodes :: "addr \<Rightarrow> usize \<Rightarrow> nat list \<Rightarrow> node_heap \<Rightarrow> node_heap" where
  "construct_nodes base stride [] heap = heap"
| "construct_nodes base stride (i # rest) heap =
     construct_nodes base stride rest
       (heap(arena_node_at base stride (of_nat i) :=
          \<lparr>ln_next = nullptr, ln_event = nullptr, ln_arena_index = of_nat i\<rparr>))"

definition LinkedSpscQueue_create ::
  "node_heap \<Rightarrow> addr option \<Rightarrow> addr option \<Rightarrow> addr option \<Rightarrow> usize \<Rightarrow> usize \<Rightarrow> usize \<Rightarrow>
     usize list \<Rightarrow> setup_error + LinkedSpscQueue" where
  "LinkedSpscQueue_create raw node_base recycler_base ownership_base
       capacity cache_line_bytes arena_alignment_bytes node_order =
     (case validate_cache_line_bytes cache_line_bytes of Inl e \<Rightarrow> Inl e | Inr _ \<Rightarrow>
     (case validate_cache_line_bytes arena_alignment_bytes of Inl e \<Rightarrow> Inl e | Inr _ \<Rightarrow>
      if arena_alignment_bytes < cache_line_bytes
      then Inl (QueueSetupError ''linked node-arena alignment must be at least the cache-line size'')
      else if capacity = 0 then Inl (QueueSetupError ''linked capacity must be nonzero'')
      else
     (case queue_checked_add capacity 1 of Inl e \<Rightarrow> Inl e | Inr node_count \<Rightarrow>
      if length node_order \<noteq> unat node_count
      then Inl (QueueSetupError ''linked node order must contain capacity plus one nodes'')
      else
     (case check_node_order node_count node_order of
        Inl e \<Rightarrow> Inl e | Inr _ \<Rightarrow>
     (case round_up sizeof_Node cache_line_bytes of Inl e \<Rightarrow> Inl e | Inr stride \<Rightarrow>
     (case queue_checked_multiply node_count stride of Inl e \<Rightarrow> Inl e | Inr node_bytes \<Rightarrow>
     (case AlignedBlock_create node_base node_bytes arena_alignment_bytes of
        Inl e \<Rightarrow> Inl e | Inr node_storage \<Rightarrow>
     (case queue_checked_multiply capacity sizeof_pointer of Inl e \<Rightarrow> Inl e | Inr recycler_bytes \<Rightarrow>
     (case AlignedBlock_create recycler_base recycler_bytes cache_line_bytes of
        Inl e \<Rightarrow> Inl e | Inr recycler_storage \<Rightarrow>
     (case queue_checked_multiply 4 cache_line_bytes of Inl e \<Rightarrow> Inl e | Inr ownership_bytes \<Rightarrow>
     (case AlignedBlock_create ownership_base ownership_bytes cache_line_bytes of
        Inl e \<Rightarrow> Inl e | Inr ownership_storage \<Rightarrow>
        let at = arena_node_at (block_data node_storage) stride;
            sentinel = at (node_order ! 0)
        in Inr \<lparr>lq_capacity = capacity, lq_cache_line_bytes = cache_line_bytes,
             lq_node_stride_bytes = stride,
             lq_node_arena_alignment_bytes = arena_alignment_bytes,
             lq_node_storage = node_storage, lq_recycler_storage = recycler_storage,
             lq_ownership_storage = ownership_storage,
             lq_heap = construct_nodes (block_data node_storage) stride [0..<unat node_count] raw,
             lq_recycler_slots = map (\<lambda>i. at (node_order ! (i + 1))) [0..<unat capacity],
             lq_tail = sentinel, lq_head = sentinel,
             lq_recycler_producer = 0, lq_recycler_consumer = 0\<rparr>)))))))))))"

subsection \<open>The operations\<close>

definition linked_next_position :: "LinkedSpscQueue \<Rightarrow> usize \<Rightarrow> usize" where
  "linked_next_position q position =
     (let next = position + 1 in if next = lq_capacity q then 0 else next)"

record 's linked_enqueue_observer =
  after_recycler_obtain :: "'s \<Rightarrow> 's"
  linked_before_enqueue_publication :: "'s \<Rightarrow> bool \<times> 's"

record 's linked_dequeue_observer =
  linked_after_dequeue_observation :: "'s \<Rightarrow> bool \<times> 's"
  successor_header :: "addr \<Rightarrow> 's \<Rightarrow> 's"
  before_recycler_return :: "'s \<Rightarrow> 's"

text \<open>
  The producer first takes a node out of the recycler, fills it, asks the boundary observer,
  and only then links it behind the tail.
\<close>

definition linked_try_enqueue_observed ::
  "'s linked_enqueue_observer \<Rightarrow> LinkedSpscQueue \<Rightarrow> EventPointer \<Rightarrow> 's \<Rightarrow>
     BoundaryEnqueueResult \<times> LinkedSpscQueue \<times> 's" where
  "linked_try_enqueue_observed ob q event s =
     (let recycler_position = lq_recycler_consumer q;
          node = lq_recycler_slots q ! unat recycler_position
      in if node = nullptr
         then (\<lparr>be_status = Boundary_complete, be_result = Enq_full\<rparr>, q, s)
         else
           let q1 = q\<lparr>lq_recycler_slots := (lq_recycler_slots q)[unat recycler_position := nullptr],
                      lq_recycler_consumer := linked_next_position q recycler_position\<rparr>;
               s1 = after_recycler_obtain ob s;
               h1 = (lq_heap q1)(node := (lq_heap q1 node)\<lparr>ln_event := get_ptr event\<rparr>);
               h2 = h1(node := (h1 node)\<lparr>ln_next := nullptr\<rparr>);
               (ok, s2) = linked_before_enqueue_publication ob s1
           in if \<not> ok
              then (\<lparr>be_status = Boundary_capture_failed, be_result = Enq_full\<rparr>,
                    q1\<lparr>lq_heap := h2\<rparr>, s2)
              else (\<lparr>be_status = Boundary_complete, be_result = Enq_accepted\<rparr>,
                    q1\<lparr>lq_heap := h2(lq_tail q1 := (h2 (lq_tail q1))\<lparr>ln_next := node\<rparr>),
                       lq_tail := node\<rparr>, s2))"

definition linked_try_dequeue_observed ::
  "'s linked_dequeue_observer \<Rightarrow> LinkedSpscQueue \<Rightarrow> 's \<Rightarrow>
     BoundaryDequeueResult \<times> LinkedSpscQueue \<times> 's" where
  "linked_try_dequeue_observed ob q s =
     (let old_sentinel = lq_head q;
          successor = ln_next (lq_heap q old_sentinel)
      in if successor = nullptr
         then (\<lparr>bd_status = Boundary_complete,
                bd_result = \<lparr>dr_status = Deq_empty, dr_event = nullptr\<rparr>\<rparr>, q, s)
         else
           let (ok, s1) = linked_after_dequeue_observation ob s
           in if \<not> ok
              then (\<lparr>bd_status = Boundary_capture_failed,
                     bd_result = \<lparr>dr_status = Deq_empty, dr_event = nullptr\<rparr>\<rparr>, q, s1)
              else
                let s2 = successor_header ob successor s1;
                    recycler_position = lq_recycler_producer q
                in if lq_recycler_slots q ! unat recycler_position \<noteq> nullptr
                   then (\<lparr>bd_status = Boundary_complete,
                          bd_result = \<lparr>dr_status = Deq_recycler_invariant_failure,
                                       dr_event = nullptr\<rparr>\<rparr>, q, s2)
                   else
                     let event = ln_event (lq_heap q successor);
                         s3 = before_recycler_return ob s2
                     in (\<lparr>bd_status = Boundary_complete,
                          bd_result = \<lparr>dr_status = Deq_item, dr_event = event\<rparr>\<rparr>,
                         q\<lparr>lq_head := successor,
                           lq_recycler_slots :=
                             (lq_recycler_slots q)[unat recycler_position := old_sentinel],
                           lq_recycler_producer := linked_next_position q recycler_position\<rparr>, s3))"

definition linked_try_enqueue_with_boundary_observer ::
  "('s \<Rightarrow> bool \<times> 's) \<Rightarrow> LinkedSpscQueue \<Rightarrow> EventPointer \<Rightarrow> 's \<Rightarrow>
     BoundaryEnqueueResult \<times> LinkedSpscQueue \<times> 's" where
  "linked_try_enqueue_with_boundary_observer hook =
     linked_try_enqueue_observed
       \<lparr>after_recycler_obtain = id, linked_before_enqueue_publication = hook\<rparr>"

definition linked_try_dequeue_with_boundary_and_prefetch ::
  "('s \<Rightarrow> bool \<times> 's) \<Rightarrow> (addr \<Rightarrow> 's \<Rightarrow> 's) \<Rightarrow> LinkedSpscQueue \<Rightarrow> 's \<Rightarrow>
     BoundaryDequeueResult \<times> LinkedSpscQueue \<times> 's" where
  "linked_try_dequeue_with_boundary_and_prefetch hook prefetch =
     linked_try_dequeue_observed
       \<lparr>linked_after_dequeue_observation = hook, successor_header = prefetch,
        before_recycler_return = id\<rparr>"

definition linked_try_dequeue_with_boundary_observer ::
  "('s \<Rightarrow> bool \<times> 's) \<Rightarrow> LinkedSpscQueue \<Rightarrow> 's \<Rightarrow> BoundaryDequeueResult \<times> LinkedSpscQueue \<times> 's" where
  "linked_try_dequeue_with_boundary_observer hook =
     linked_try_dequeue_observed
       \<lparr>linked_after_dequeue_observation = hook, successor_header = (\<lambda>_. id),
        before_recycler_return = id\<rparr>"

definition linked_try_dequeue_with_successor_prefetch ::
  "(addr \<Rightarrow> 's \<Rightarrow> 's) \<Rightarrow> LinkedSpscQueue \<Rightarrow> 's \<Rightarrow> DequeueResult \<times> LinkedSpscQueue \<times> 's" where
  "linked_try_dequeue_with_successor_prefetch prefetch q s =
     (let (r, q', s') = linked_try_dequeue_observed
            \<lparr>linked_after_dequeue_observation = (\<lambda>s. (True, s)), successor_header = prefetch,
             before_recycler_return = id\<rparr> q s
      in (bd_result r, q', s'))"

definition linked_try_enqueue ::
  "LinkedSpscQueue \<Rightarrow> EventPointer \<Rightarrow> EnqueueResult \<times> LinkedSpscQueue" where
  "linked_try_enqueue q event =
     (let (r, q', _) = linked_try_enqueue_observed
            \<lparr>after_recycler_obtain = id, linked_before_enqueue_publication = (\<lambda>s. (True, s))\<rparr>
            q event ()
      in (be_result r, q'))"

definition linked_try_dequeue :: "LinkedSpscQueue \<Rightarrow> DequeueResult \<times> LinkedSpscQueue" where
  "linked_try_dequeue q =
     (let (r, q', _) = linked_try_dequeue_observed
            \<lparr>linked_after_dequeue_observation = (\<lambda>s. (True, s)), successor_header = (\<lambda>_. id),
             before_recycler_return = id\<rparr> q ()
      in (bd_result r, q'))"

subsection \<open>Evidence and audit\<close>

definition linked_atomic_lock_free_evidence ::
  "(addr \<Rightarrow> bool) \<Rightarrow> LinkedSpscQueue \<Rightarrow> AtomicLockFreeEvidence" where
  \<comment> \<open>\<open>is_lock_free\<close> is the runtime's answer for the atomic at an address\<close>
  "linked_atomic_lock_free_evidence is_lock_free q =
     \<lparr>abi_pointer_width_bytes = sizeof_pointer, atomic_pointer_width_bytes = sizeof_pointer,
      atomic_pointer_alignment_bytes = sizeof_pointer, always_lock_free = True,
      runtime_lock_free =
        list_all (\<lambda>i. is_lock_free
            (block_data (lq_recycler_storage q) + of_nat i * sizeof_pointer))
          [0..<unat (lq_capacity q)] \<and>
        list_all (\<lambda>i. is_lock_free (node_at q (of_nat i))) [0..<unat (lq_capacity q + 1)]\<rparr>"

definition linked_layout_evidence :: "LinkedSpscQueue \<Rightarrow> LayoutEvidence" where
  "linked_layout_evidence q =
     (let line = lq_cache_line_bytes q;
          ownership = block_data (lq_ownership_storage q);
          producer = ownership;
          consumer = ownership + line;
          recycler_producer = ownership + 2 * line;
          recycler_consumer = ownership + 3 * line;
          separated = consumer - producer \<ge> line \<and>
            recycler_producer - consumer \<ge> line \<and>
            recycler_consumer - recycler_producer \<ge> line;
          nodes_aligned = lq_node_stride_bytes q mod line = 0 \<and>
            list_all (\<lambda>i. is_aligned (node_at q (of_nat i)) line) [0..<unat (lq_capacity q + 1)]
      in \<lparr>requested_cache_line_bytes = line, mutable_line_count = 4,
          storage_bytes = block_size (lq_node_storage q) + block_size (lq_recycler_storage q) +
            block_size (lq_ownership_storage q),
          bases_aligned = nodes_aligned \<and>
            is_aligned (block_data (lq_recycler_storage q)) line \<and>
            is_aligned producer line \<and> is_aligned consumer line \<and>
            is_aligned recycler_producer line \<and> is_aligned recycler_consumer line,
          ownership_lines_separated = separated\<rparr>)"

text \<open>
  The audit's walk along the chain. Each round either stops or marks one more node as owned,
  so it runs at most once per node of the arena and once more; the recursion counts the
  unmarked nodes (an index of \<^verbatim>\<open>index_of\<close> is at most the capacity, so the range test
  written out here never decides). The result is the owned flags, the order, \<^verbatim>\<open>chain_acyclic\<close> (which the code
  clears together with \<^verbatim>\<open>every_node_owned_once\<close>) and \<^verbatim>\<open>tail_reachable\<close>.
\<close>

function audit_chain :: "LinkedSpscQueue \<Rightarrow> addr \<Rightarrow> bool list \<Rightarrow> usize list \<Rightarrow> bool \<Rightarrow>
    bool list \<times> usize list \<times> bool \<times> bool" where
  "audit_chain q current owned order tail_reachable =
     (if current = nullptr then (owned, order, True, tail_reachable)
      else
        (case index_of q current of
           None \<Rightarrow> (owned, order, False, tail_reachable)
         | Some index \<Rightarrow>
             if unat index \<ge> length owned \<or> owned ! unat index
             then (owned, order, False, tail_reachable)
             else audit_chain q (ln_next (lq_heap q current)) (owned[unat index := True])
                    (order @ [index]) (tail_reachable \<or> current = lq_tail q)))"
  by pat_completeness auto
termination
proof (relation "measure (\<lambda>(q, current, owned, order, t). length (filter Not owned))", goal_cases)
  case 1
  then show ?case by simp
next
  case (2 q current owned order t index)
  then have "unat index < length owned" and "\<not> owned ! unat index" by auto
  then have "length (filter Not (owned[unat index := True])) < length (filter Not owned)"
    by (simp add: upd_conv_take_nth_drop
        arg_cong [OF id_take_nth_drop [of "unat index" owned], of "\<lambda>l. length (filter Not l)"])
  then show ?case by simp
qed

declare audit_chain.simps [simp del]

text \<open>The loop over the recycler slots, from the consumer position around the ring.\<close>

fun audit_recycler :: "LinkedSpscQueue \<Rightarrow> addr list \<Rightarrow> bool \<Rightarrow> bool \<Rightarrow> bool \<Rightarrow> bool list \<Rightarrow> usize list \<Rightarrow>
    bool \<times> bool \<times> bool list \<times> usize list" where
  "audit_recycler q [] encountered_empty fifo_shape owned_once owned order =
     (fifo_shape, owned_once, owned, order)"
| "audit_recycler q (node # rest) encountered_empty fifo_shape owned_once owned order =
     (if node = nullptr then audit_recycler q rest True fifo_shape owned_once owned order
      else
        let fifo_shape' = (if encountered_empty then False else fifo_shape) in
        (case index_of q node of
           None \<Rightarrow> audit_recycler q rest encountered_empty fifo_shape' False owned order
         | Some index \<Rightarrow>
             if owned ! unat index
             then audit_recycler q rest encountered_empty fifo_shape' False owned order
             else audit_recycler q rest encountered_empty fifo_shape' owned_once
                    (owned[unat index := True]) (order @ [index])))"

definition linked_audit_quiescent :: "LinkedSpscQueue \<Rightarrow> LinkedQuiescentAudit" where
  "linked_audit_quiescent q =
     (let node_count = lq_capacity q + 1;
          owned0 = replicate (unat node_count) False;
          (owned1, reachable_order, chain_acyclic, tail_reachable) =
            audit_chain q (lq_head q) owned0 [] False;
          recycler_start = lq_recycler_consumer q;
          slots = map (\<lambda>offset.
              lq_recycler_slots q ! unat ((recycler_start + of_nat offset) mod lq_capacity q))
            [0..<unat (lq_capacity q)];
          (fifo_shape, owned_once, owned2, recycler_order) =
            audit_recycler q slots False True chain_acyclic owned1 []
      in \<lparr>la_reachable_nodes = length reachable_order,
          la_queued_events = (if reachable_order = [] then 0 else length reachable_order - 1),
          la_recycler_nodes = length recycler_order,
          la_reachable_order = reachable_order, la_recycler_order = recycler_order,
          la_chain_acyclic = chain_acyclic, la_tail_reachable = tail_reachable,
          la_every_node_owned_once = owned_once \<and> list_all id owned2,
          la_recycler_fifo_shape = fifo_shape,
          la_positions_in_range = lq_recycler_producer q < lq_capacity q \<and>
            lq_recycler_consumer q < lq_capacity q\<rparr>)"

subsection \<open>Node addresses\<close>

text \<open>
  What the allocator promises of the node block: it is not null and does not wrap around the
  address space. Node addresses are then distinct, non-null, and found again by \<open>index_of\<close>.
\<close>

definition linked_geometry :: "LinkedSpscQueue \<Rightarrow> bool" where
  "linked_geometry q \<longleftrightarrow>
     block_data (lq_node_storage q) \<noteq> nullptr \<and> lq_node_stride_bytes q \<noteq> 0 \<and>
     unat (lq_capacity q) < 2 ^ 60 \<and> lq_capacity q \<noteq> 0 \<and>
     unat (block_data (lq_node_storage q)) +
       (unat (lq_capacity q) + 1) * unat (lq_node_stride_bytes q) \<le> 2 ^ 64"

lemma node_at_nat:
  assumes "linked_geometry q" and "i \<le> lq_capacity q"
  shows "unat (node_at q i) =
    unat (block_data (lq_node_storage q)) + unat i * unat (lq_node_stride_bytes q)"
proof -
  let ?b = "unat (block_data (lq_node_storage q))" and ?s = "unat (lq_node_stride_bytes q)"
  have s: "0 < ?s" using assms(1) by (simp add: linked_geometry_def word_eq_unat)
  have "unat i * ?s \<le> unat (lq_capacity q) * ?s"
    using assms(2) by (simp add: word_le_nat_alt)
  moreover have "?b + unat (lq_capacity q) * ?s + ?s \<le> 2 ^ 64"
    using assms(1) by (simp add: linked_geometry_def)
  ultimately have lt: "?b + unat i * ?s < 2 ^ 64" using s by linarith
  then have "unat (i * lq_node_stride_bytes q) = unat i * ?s"
    by (intro unat_times_u64) linarith
  then show ?thesis
    using lt unfolding node_at_def arena_node_at_def by (subst unat_plus_u64) simp_all
qed

lemma node_at_nonnull:
  assumes "linked_geometry q" and "i \<le> lq_capacity q"
  shows "node_at q i \<noteq> nullptr"
  using node_at_nat [OF assms] assms(1) by (auto simp: linked_geometry_def word_eq_unat)

lemma index_of_node_at:
  assumes "linked_geometry q" and "i \<le> lq_capacity q"
  shows "index_of q (node_at q i) = Some i"
proof -
  let ?b = "block_data (lq_node_storage q)" and ?s = "lq_node_stride_bytes q"
  have s: "0 < unat ?s" using assms(1) by (simp add: linked_geometry_def word_eq_unat)
  note at = node_at_nat [OF assms]
  have le: "?b \<le> node_at q i" by (simp add: word_le_nat_alt at)
  then have off: "unat (node_at q i - ?b) = unat i * unat ?s"
    by (simp add: unat_minus_u64 at)
  then have "(node_at q i - ?b) mod ?s = 0" and "(node_at q i - ?b) div ?s = i"
    using s by (simp_all add: word_eq_unat unat_mod unat_div)
  with le assms(2) show ?thesis
    by (simp add: index_of_def Let_def not_less)
qed

lemma node_at_inj:
  assumes "linked_geometry q" and "i \<le> lq_capacity q" and "j \<le> lq_capacity q"
  shows "(node_at q i = node_at q j) = (i = j)"
  using index_of_node_at [OF assms(1,2)] index_of_node_at [OF assms(1,3)]
  by (metis option.inject)

lemma linked_geometry_cong:
  "lq_capacity q' = lq_capacity q \<Longrightarrow> lq_node_storage q' = lq_node_storage q \<Longrightarrow>
   lq_node_stride_bytes q' = lq_node_stride_bytes q \<Longrightarrow> linked_geometry q' = linked_geometry q"
  by (simp only: linked_geometry_def)

lemma linked_next_position_nat:
  "unat p < unat (lq_capacity q) \<Longrightarrow>
     unat (linked_next_position q p) = Suc (unat p) mod unat (lq_capacity q)"
  unfolding linked_next_position_def by (rule cyclic_successor_nat)

subsection \<open>The chain\<close>

fun linked_path :: "node_heap \<Rightarrow> addr \<Rightarrow> addr list \<Rightarrow> bool" where
  "linked_path h p [] \<longleftrightarrow> p = nullptr"
| "linked_path h p (x # xs) \<longleftrightarrow> p = x \<and> x \<noteq> nullptr \<and> linked_path h (ln_next (h x)) xs"

text \<open>The nodes from an address on, at most a given number of them.\<close>

fun linked_walk :: "node_heap \<Rightarrow> nat \<Rightarrow> addr \<Rightarrow> addr list" where
  "linked_walk h 0 p = []"
| "linked_walk h (Suc n) p = (if p = nullptr then [] else p # linked_walk h n (ln_next (h p)))"

lemma linked_walk_eq:
  "linked_path h p xs \<Longrightarrow> length xs \<le> n \<Longrightarrow> linked_walk h n p = xs"
proof (induction xs arbitrary: n p)
  case Nil
  then show ?case by (cases n) auto
next
  case (Cons x xs)
  then show ?case by (cases n) auto
qed

lemma linked_path_frame:
  "linked_path h p xs \<Longrightarrow> (\<And>x. x \<in> set xs \<Longrightarrow> ln_next (h' x) = ln_next (h x)) \<Longrightarrow> linked_path h' p xs"
  by (induction xs arbitrary: p) auto

lemma linked_path_append:
  assumes "linked_path h p xs" and "xs \<noteq> []" and "distinct (xs @ [n])" and "n \<noteq> nullptr"
    and "ln_next (h' (last xs)) = n" and "ln_next (h' n) = nullptr"
    and "\<And>x. x \<in> set (butlast xs) \<Longrightarrow> ln_next (h' x) = ln_next (h x)"
  shows "linked_path h' p (xs @ [n])"
  using assms
proof (induction xs arbitrary: p)
  case Nil
  then show ?case by simp
next
  case (Cons x xs)
  then show ?case by (cases "xs = []") auto
qed

subsection \<open>Invariant and abstraction\<close>

text \<open>
  \<open>linked_repr q ns rs\<close>: the chain from the head is \<open>ns\<close> and ends in the tail, the recycler
  holds \<open>rs\<close> in FIFO order, no node is in both or twice, and the events behind the sentinel
  are not null. Nodes lost by a failed boundary capture are in neither list.
\<close>

definition linked_repr :: "LinkedSpscQueue \<Rightarrow> addr list \<Rightarrow> addr list \<Rightarrow> bool" where
  "linked_repr q ns rs \<longleftrightarrow>
     linked_path (lq_heap q) (lq_head q) ns \<and> ns \<noteq> [] \<and> lq_tail q = last ns \<and>
     distinct (ns @ rs) \<and> length ns + length rs \<le> Suc (unat (lq_capacity q)) \<and>
     cyc_repr (lq_recycler_slots q) (unat (lq_recycler_consumer q))
       (unat (lq_recycler_producer q)) rs \<and>
     length (lq_recycler_slots q) = unat (lq_capacity q) \<and>
     (\<forall>n \<in> set (tl ns). ln_event (lq_heap q n) \<noteq> nullptr)"

definition linked_chain :: "LinkedSpscQueue \<Rightarrow> addr list" where
  "linked_chain q = linked_walk (lq_heap q) (Suc (unat (lq_capacity q))) (lq_head q)"

definition linked_recycler :: "LinkedSpscQueue \<Rightarrow> addr list" where
  "linked_recycler q = cyc_list (lq_recycler_slots q) (unat (lq_recycler_consumer q))"

definition linked_invar :: "LinkedSpscQueue \<Rightarrow> bool" where
  "linked_invar q \<longleftrightarrow> linked_repr q (linked_chain q) (linked_recycler q)"

definition linked_contents :: "LinkedSpscQueue \<Rightarrow> addr list" where
  "linked_contents q = map (\<lambda>n. ln_event (lq_heap q n)) (tl (linked_chain q))"

definition linked_bound :: "LinkedSpscQueue \<Rightarrow> nat" where
  "linked_bound q = length (tl (linked_chain q)) + length (linked_recycler q)"

lemma linked_reprD:
  assumes "linked_repr q ns rs"
  shows "linked_chain q = ns" and "linked_recycler q = rs" and "linked_invar q"
    and "linked_contents q = map (\<lambda>n. ln_event (lq_heap q n)) (tl ns)"
    and "linked_bound q = length (tl ns) + length rs"
proof -
  have path: "linked_path (lq_heap q) (lq_head q) ns"
    and le: "length ns \<le> Suc (unat (lq_capacity q))"
    and cyc: "cyc_repr (lq_recycler_slots q) (unat (lq_recycler_consumer q))
      (unat (lq_recycler_producer q)) rs"
    using assms by (simp_all add: linked_repr_def)
  show n: "linked_chain q = ns"
    unfolding linked_chain_def using path le by (rule linked_walk_eq)
  show r: "linked_recycler q = rs"
    unfolding linked_recycler_def using cyc by (rule cyc_list_eq)
  show "linked_invar q" and "linked_contents q = map (\<lambda>n. ln_event (lq_heap q n)) (tl ns)"
    and "linked_bound q = length (tl ns) + length rs"
    using assms by (simp_all add: linked_invar_def linked_contents_def linked_bound_def n r)
qed

lemma linked_repr_facts:
  assumes "linked_repr q ns rs"
  shows linked_head: "lq_head q = hd ns" and linked_tail: "lq_tail q = last ns"
    and linked_chain_nonempty: "ns \<noteq> []"
    and linked_successor: "ln_next (lq_heap q (hd ns)) = (if tl ns = [] then nullptr else hd (tl ns))"
    and linked_nodes_nonnull: "nullptr \<notin> set ns"
    and linked_recycler_nonnull: "nullptr \<notin> set rs"
    and linked_consumer_lt: "unat (lq_recycler_consumer q) < unat (lq_capacity q)"
    and linked_producer_lt: "unat (lq_recycler_producer q) < unat (lq_capacity q)"
    and linked_obtain: "lq_recycler_slots q ! unat (lq_recycler_consumer q) =
      (if rs = [] then nullptr else hd rs)"
    and linked_return: "(lq_recycler_slots q ! unat (lq_recycler_producer q) = nullptr) =
      (length rs < unat (lq_capacity q))"
proof -
  have nn: "linked_path h p xs \<Longrightarrow> nullptr \<notin> set xs" for h p xs
    by (induction xs arbitrary: p) auto
  have path: "linked_path (lq_heap q) (lq_head q) ns" and ne: "ns \<noteq> []"
    and cyc: "cyc_repr (lq_recycler_slots q) (unat (lq_recycler_consumer q))
      (unat (lq_recycler_producer q)) rs"
    and len: "length (lq_recycler_slots q) = unat (lq_capacity q)"
    and tail: "lq_tail q = last ns"
    using assms by (simp_all add: linked_repr_def)
  from path ne obtain x xs where ns: "ns = x # xs" "lq_head q = x"
    "linked_path (lq_heap q) (ln_next (lq_heap q x)) xs"
    by (cases ns) auto
  show "lq_head q = hd ns" and "lq_tail q = last ns" and "ns \<noteq> []" using ns tail by auto
  show "ln_next (lq_heap q (hd ns)) = (if tl ns = [] then nullptr else hd (tl ns))"
    using ns by (cases xs) auto
  show "nullptr \<notin> set ns" using nn [OF path] .
  show "nullptr \<notin> set rs" using cyc by (simp add: cyc_repr_def)
  show "unat (lq_recycler_consumer q) < unat (lq_capacity q)"
    and "unat (lq_recycler_producer q) < unat (lq_capacity q)"
    using cyc_repr_bounds [OF cyc] len by simp_all
  show "lq_recycler_slots q ! unat (lq_recycler_consumer q) = (if rs = [] then nullptr else hd rs)"
    by (rule cyc_read_consumer [OF cyc])
  show "(lq_recycler_slots q ! unat (lq_recycler_producer q) = nullptr) =
      (length rs < unat (lq_capacity q))"
    using cyc_read_producer [OF cyc] len by simp
qed

text \<open>The state after the producer took a node from the recycler and filled it.\<close>

definition linked_obtained :: "LinkedSpscQueue \<Rightarrow> addr \<Rightarrow> addr \<Rightarrow> LinkedSpscQueue" where
  "linked_obtained q r e =
     q\<lparr>lq_recycler_slots := (lq_recycler_slots q)[unat (lq_recycler_consumer q) := nullptr],
       lq_recycler_consumer := linked_next_position q (lq_recycler_consumer q),
       lq_heap := (lq_heap q)(r := (lq_heap q r)\<lparr>ln_event := e, ln_next := nullptr\<rparr>)\<rparr>"

definition linked_linked :: "LinkedSpscQueue \<Rightarrow> addr \<Rightarrow> addr \<Rightarrow> LinkedSpscQueue" where
  "linked_linked q r e =
     (let q1 = linked_obtained q r e
      in q1\<lparr>lq_heap := (lq_heap q1)(lq_tail q := (lq_heap q1 (lq_tail q))\<lparr>ln_next := r\<rparr>),
            lq_tail := r\<rparr>)"

definition linked_returned :: "LinkedSpscQueue \<Rightarrow> addr \<Rightarrow> LinkedSpscQueue" where
  "linked_returned q m =
     q\<lparr>lq_head := m,
       lq_recycler_slots := (lq_recycler_slots q)[unat (lq_recycler_producer q) := lq_head q],
       lq_recycler_producer := linked_next_position q (lq_recycler_producer q)\<rparr>"

lemma linked_obtained_repr:
  assumes "linked_repr q ns (r # rs)"
  shows "linked_repr (linked_obtained q r e) ns rs"
proof -
  have cyc: "cyc_repr (lq_recycler_slots q) (unat (lq_recycler_consumer q))
      (unat (lq_recycler_producer q)) (r # rs)"
    and "length (lq_recycler_slots q) = unat (lq_capacity q)" and r: "r \<notin> set ns"
    and path: "linked_path (lq_heap q) (lq_head q) ns"
    using assms by (auto simp: linked_repr_def)
  have "linked_path (lq_heap (linked_obtained q r e)) (lq_head q) ns"
    using path r by (elim linked_path_frame) (auto simp: linked_obtained_def)
  with cyc_pop [OF cyc] show ?thesis
    using assms r linked_next_position_nat [OF linked_consumer_lt [OF assms]]
    by (auto simp: linked_repr_def linked_obtained_def dest: list.set_sel(2))
qed

lemma linked_linked_repr:
  assumes repr: "linked_repr q ns (r # rs)" and e: "e \<noteq> nullptr"
  shows "linked_repr (linked_linked q r e) (ns @ [r]) rs"
proof -
  let ?q = "linked_obtained q r e"
  have o: "linked_repr ?q ns rs" by (rule linked_obtained_repr [OF repr])
  have r: "r \<notin> set ns" "r \<notin> set rs" "distinct (ns @ rs)" and ne: "ns \<noteq> []"
    and tail: "lq_tail q = last ns"
    using repr by (auto simp: linked_repr_def)
  have rnn: "r \<noteq> nullptr" using linked_recycler_nonnull [OF repr] by auto
  have last: "last ns \<in> set ns" using ne by simp
  have path: "linked_path (lq_heap ?q) (lq_head ?q) ns" using o by (simp add: linked_repr_def)
  have "linked_path (lq_heap (linked_linked q r e)) (lq_head ?q) (ns @ [r])"
  proof (rule linked_path_append [OF path ne])
    fix x
    assume "x \<in> set (butlast ns)"
    moreover have "last ns \<notin> set (butlast ns)"
      using r(3) ne by (metis distinct_append append_butlast_last_id distinct.simps(2)
          disjoint_iff list.set_intros(1))
    ultimately show "ln_next (lq_heap (linked_linked q r e) x) = ln_next (lq_heap ?q x)"
      by (auto simp: linked_linked_def Let_def tail)
  qed (use r rnn last in \<open>auto simp: linked_linked_def Let_def tail linked_obtained_def\<close>)
  moreover have "ln_event (lq_heap (linked_linked q r e) n) \<noteq> nullptr" if "n \<in> set (tl (ns @ [r]))" for n
  proof (cases "n = r")
    case True
    with e last r show ?thesis by (auto simp: linked_linked_def Let_def linked_obtained_def tail)
  next
    case False
    with that ne have "n \<in> set (tl ns)" by (cases ns) auto
    with repr have "ln_event (lq_heap q n) \<noteq> nullptr" by (simp add: linked_repr_def)
    with False show ?thesis by (auto simp: linked_linked_def Let_def linked_obtained_def)
  qed
  moreover have "lq_head (linked_linked q r e) = lq_head ?q" "lq_tail (linked_linked q r e) = r"
    "lq_recycler_slots (linked_linked q r e) = lq_recycler_slots ?q"
    "lq_recycler_consumer (linked_linked q r e) = lq_recycler_consumer ?q"
    "lq_recycler_producer (linked_linked q r e) = lq_recycler_producer ?q"
    "lq_capacity (linked_linked q r e) = lq_capacity ?q" "lq_capacity ?q = lq_capacity q"
    by (simp_all add: linked_linked_def Let_def linked_obtained_def)
  ultimately show ?thesis
    using o repr r by (simp add: linked_repr_def)
qed

lemma linked_returned_repr:
  assumes repr: "linked_repr q (n # m # ns) rs"
  shows "linked_repr (linked_returned q m) (m # ns) (rs @ [n])"
proof -
  have cyc: "cyc_repr (lq_recycler_slots q) (unat (lq_recycler_consumer q))
      (unat (lq_recycler_producer q)) rs"
    and len: "length (lq_recycler_slots q) = unat (lq_capacity q)"
    and lt: "length rs < unat (lq_capacity q)"
    using repr by (auto simp: linked_repr_def)
  have nn: "n \<noteq> nullptr" using linked_nodes_nonnull [OF repr] by auto
  from cyc_push [OF cyc _ nn] lt len
  have "cyc_repr ((lq_recycler_slots q)[unat (lq_recycler_producer q) := n])
      (unat (lq_recycler_consumer q)) (Suc (unat (lq_recycler_producer q)) mod unat (lq_capacity q))
      (rs @ [n])"
    by simp
  with repr show ?thesis
    using linked_next_position_nat [OF linked_producer_lt [OF repr]]
    by (auto simp: linked_repr_def linked_returned_def)
qed

subsection \<open>The operations refine the bounded FIFO\<close>

lemma linked_enqueue_eq:
  assumes "linked_repr q ns rs"
  shows "linked_try_enqueue_observed ob q e s =
    (case rs of
       [] \<Rightarrow> (\<lparr>be_status = Boundary_complete, be_result = Enq_full\<rparr>, q, s)
     | r # _ \<Rightarrow>
         let (ok, s2) = linked_before_enqueue_publication ob (after_recycler_obtain ob s)
         in if ok
            then (\<lparr>be_status = Boundary_complete, be_result = Enq_accepted\<rparr>,
                  linked_linked q r (get_ptr e), s2)
            else (\<lparr>be_status = Boundary_capture_failed, be_result = Enq_full\<rparr>,
                  linked_obtained q r (get_ptr e), s2))"
proof (cases rs)
  case Nil
  with linked_obtain [OF assms] show ?thesis by (simp add: linked_try_enqueue_observed_def)
next
  case (Cons r rs')
  with linked_recycler_nonnull [OF assms] have "r \<noteq> nullptr" by auto
  with Cons linked_obtain [OF assms] show ?thesis
    by (auto simp: linked_try_enqueue_observed_def linked_linked_def linked_obtained_def Let_def
        split: prod.split)
qed

lemma linked_dequeue_eq:
  assumes "linked_repr q ns rs"
  shows "linked_try_dequeue_observed ob q s =
    (case tl ns of
       [] \<Rightarrow> (\<lparr>bd_status = Boundary_complete,
               bd_result = \<lparr>dr_status = Deq_empty, dr_event = nullptr\<rparr>\<rparr>, q, s)
     | m # _ \<Rightarrow>
         let (ok, s1) = linked_after_dequeue_observation ob s
         in if ok
            then (\<lparr>bd_status = Boundary_complete,
                   bd_result = \<lparr>dr_status = Deq_item, dr_event = ln_event (lq_heap q m)\<rparr>\<rparr>,
                  linked_returned q m, before_recycler_return ob (successor_header ob m s1))
            else (\<lparr>bd_status = Boundary_capture_failed,
                   bd_result = \<lparr>dr_status = Deq_empty, dr_event = nullptr\<rparr>\<rparr>, q, s1))"
proof (cases "tl ns")
  case Nil
  with linked_successor [OF assms] linked_head [OF assms] show ?thesis
    by (simp add: linked_try_dequeue_observed_def)
next
  case (Cons m ms)
  then obtain n where ns: "ns = n # m # ms" using linked_chain_nonempty [OF assms] by (cases ns) auto
  have m: "m \<noteq> nullptr" using linked_nodes_nonnull [OF assms] ns by auto
  have free: "lq_recycler_slots q ! unat (lq_recycler_producer q) = nullptr"
    using linked_return [OF assms] assms ns by (auto simp: linked_repr_def)
  have "ln_next (lq_heap q (lq_head q)) = m"
    using linked_successor [OF assms] linked_head [OF assms] ns by simp
  with m free ns show ?thesis
    by (simp add: linked_try_dequeue_observed_def linked_returned_def Let_def split: prod.split)
qed

text \<open>What an operation leaves of the events and of the geometry.\<close>

lemma linked_linked_contents:
  assumes "linked_repr q ns (r # rs)"
  shows "map (\<lambda>n. ln_event (lq_heap (linked_linked q r e) n)) (tl (ns @ [r])) =
    map (\<lambda>n. ln_event (lq_heap q n)) (tl ns) @ [e]"
proof -
  have "r \<notin> set ns" "ns \<noteq> []" "lq_tail q = last ns" using assms by (auto simp: linked_repr_def)
  then show ?thesis
    by (cases ns) (auto simp: linked_linked_def linked_obtained_def Let_def)
qed

lemma linked_obtained_contents:
  assumes "linked_repr q ns (r # rs)"
  shows "map (\<lambda>n. ln_event (lq_heap (linked_obtained q r e) n)) (tl ns) =
    map (\<lambda>n. ln_event (lq_heap q n)) (tl ns)"
proof -
  have "r \<notin> set ns" "ns \<noteq> []" using assms by (auto simp: linked_repr_def)
  then show ?thesis by (cases ns) (auto simp: linked_obtained_def)
qed

lemma linked_returned_heap [simp]: "lq_heap (linked_returned q m) = lq_heap q"
  by (simp add: linked_returned_def)

lemma linked_static [simp]:
  "lq_capacity (linked_linked q r e) = lq_capacity q"
  "lq_capacity (linked_obtained q r e) = lq_capacity q"
  "lq_capacity (linked_returned q m) = lq_capacity q"
  "lq_node_storage (linked_linked q r e) = lq_node_storage q"
  "lq_node_storage (linked_obtained q r e) = lq_node_storage q"
  "lq_node_storage (linked_returned q m) = lq_node_storage q"
  "lq_node_stride_bytes (linked_linked q r e) = lq_node_stride_bytes q"
  "lq_node_stride_bytes (linked_obtained q r e) = lq_node_stride_bytes q"
  "lq_node_stride_bytes (linked_returned q m) = lq_node_stride_bytes q"
  by (simp_all add: linked_linked_def linked_obtained_def linked_returned_def Let_def)

interpretation linked_observed: observed_fifo linked_invar linked_contents linked_bound
  linked_try_enqueue_with_boundary_observer linked_try_dequeue_with_boundary_observer
proof (unfold_locales, goal_cases)
  case (1 q e hook s)
  then have repr: "linked_repr q (linked_chain q) (linked_recycler q)" by (simp add: linked_invar_def)
  from 1 have "linked_recycler q = []" by (simp add: linked_contents_def linked_bound_def)
  with 1 show ?case
    by (simp add: linked_try_enqueue_with_boundary_observer_def linked_enqueue_eq [OF repr])
next
  case (2 q e hook s ok s')
  then have repr: "linked_repr q (linked_chain q) (linked_recycler q)" by (simp add: linked_invar_def)
  from 2 obtain r rs where rs: "linked_recycler q = r # rs"
    by (cases "linked_recycler q") (auto simp: linked_contents_def linked_bound_def)
  let ?l = "linked_linked q r (get_ptr e)" and ?o = "linked_obtained q r (get_ptr e)"
  have l: "linked_repr ?l (linked_chain q @ [r]) rs" and o: "linked_repr ?o (linked_chain q) rs"
    using linked_linked_repr linked_obtained_repr repr rs 2 by auto
  have "linked_contents ?l = linked_contents q @ [get_ptr e] \<and> linked_bound ?l = linked_bound q"
    using linked_linked_contents [of q "linked_chain q" r rs "get_ptr e"] repr rs
      linked_chain_nonempty [OF repr]
    by (simp add: linked_reprD [OF l] linked_contents_def linked_bound_def)
  moreover have "linked_contents ?o = linked_contents q"
    using linked_obtained_contents [of q "linked_chain q" r rs "get_ptr e"] repr rs
    by (simp add: linked_reprD [OF o] linked_contents_def)
  ultimately show ?case
    using 2 linked_enqueue_eq [OF repr, of _ e s] rs linked_reprD(3) [OF l] linked_reprD(3) [OF o]
    by (cases ok) (auto simp: linked_try_enqueue_with_boundary_observer_def)
next
  case (3 q hook s)
  then have repr: "linked_repr q (linked_chain q) (linked_recycler q)" by (simp add: linked_invar_def)
  from 3 have "tl (linked_chain q) = []" by (simp add: linked_contents_def)
  with 3 show ?case
    by (simp add: linked_try_dequeue_with_boundary_observer_def linked_dequeue_eq [OF repr])
next
  case (4 q x xs hook s ok s')
  then have repr: "linked_repr q (linked_chain q) (linked_recycler q)" by (simp add: linked_invar_def)
  with 4 obtain n m ms where ns: "linked_chain q = n # m # ms" and x: "x = ln_event (lq_heap q m)"
    and xs: "xs = map (\<lambda>n. ln_event (lq_heap q n)) ms"
    by (cases "linked_chain q"; cases "tl (linked_chain q)") (auto simp: linked_contents_def)
  have r: "linked_repr (linked_returned q m) (m # ms) (linked_recycler q @ [n])"
    using linked_returned_repr repr ns by simp
  have "linked_contents (linked_returned q m) = xs \<and> linked_bound (linked_returned q m) = linked_bound q"
    using xs ns by (simp add: linked_reprD [OF r] linked_bound_def)
  then show ?case
    using 4 ns x linked_reprD(3) [OF r]
    by (cases ok) (auto simp: linked_try_dequeue_with_boundary_observer_def linked_dequeue_eq [OF repr])
next
  case (5 q)
  then show ?case by (simp add: linked_contents_def linked_bound_def)
next
  case (6 q x)
  then show ?case by (auto simp: linked_contents_def linked_invar_def linked_repr_def)
qed

lemma linked_try_enqueue_eq:
  assumes "linked_repr q ns rs"
  shows "linked_try_enqueue q e =
    (case rs of [] \<Rightarrow> (Enq_full, q) | r # _ \<Rightarrow> (Enq_accepted, linked_linked q r (get_ptr e)))"
  by (simp add: linked_try_enqueue_def linked_enqueue_eq [OF assms] split: list.split)

lemma linked_try_dequeue_eq:
  assumes "linked_repr q ns rs"
  shows "linked_try_dequeue q =
    (case tl ns of
       [] \<Rightarrow> (\<lparr>dr_status = Deq_empty, dr_event = nullptr\<rparr>, q)
     | m # _ \<Rightarrow> (\<lparr>dr_status = Deq_item, dr_event = ln_event (lq_heap q m)\<rparr>, linked_returned q m))"
  by (simp add: linked_try_dequeue_def linked_dequeue_eq [OF assms] split: list.split)

interpretation linked_plain: bounded_fifo linked_invar linked_contents linked_bound
  linked_try_enqueue linked_try_dequeue
proof (unfold_locales, goal_cases)
  case (1 q e r q')
  then have repr: "linked_repr q (linked_chain q) (linked_recycler q)" by (simp add: linked_invar_def)
  show ?case
  proof (cases "linked_recycler q")
    case Nil
    with 1 show ?thesis
      by (simp add: linked_try_enqueue_eq [OF repr] fifo_enqueue_def linked_contents_def linked_bound_def)
  next
    case (Cons n rs)
    have l: "linked_repr (linked_linked q n (get_ptr e)) (linked_chain q @ [n]) rs"
      using linked_linked_repr repr Cons 1 by simp
    show ?thesis
      using 1 Cons linked_chain_nonempty [OF repr] repr
        linked_linked_contents [of q "linked_chain q" n rs "get_ptr e"]
      by (auto simp: linked_try_enqueue_eq [OF repr] fifo_enqueue_def linked_reprD [OF l]
          linked_contents_def linked_bound_def)
  qed
next
  case (2 q d q')
  then have repr: "linked_repr q (linked_chain q) (linked_recycler q)" by (simp add: linked_invar_def)
  show ?case
  proof (cases "tl (linked_chain q)")
    case Nil
    with 2 show ?thesis
      by (simp add: linked_try_dequeue_eq [OF repr] fifo_dequeue_def linked_contents_def)
  next
    case (Cons m ms)
    with linked_chain_nonempty [OF repr] obtain n where ns: "linked_chain q = n # m # ms"
      by (cases "linked_chain q") auto
    have r: "linked_repr (linked_returned q m) (m # ms) (linked_recycler q @ [n])"
      using linked_returned_repr repr ns by simp
    show ?thesis
      using 2 ns by (auto simp: linked_try_dequeue_eq [OF repr] fifo_dequeue_def linked_reprD [OF r]
          linked_contents_def linked_bound_def)
  qed
next
  case (3 q)
  then show ?case by (simp add: linked_contents_def linked_bound_def)
qed

subsection \<open>Circulation of the nodes\<close>

text \<open>
  An accepted enqueue moves the oldest recycler node to the end of the chain, which leaves
  the sequence chain-then-recycler as it was; a dequeue moves the old sentinel behind the
  recycler, which rotates the sequence by one.
\<close>

lemma linked_run_rotates:
  assumes "linked_repr q ns rs" and "list_all op_ok ops"
    and "run_ops linked_try_enqueue linked_try_dequeue q ops = (outs, q')"
  shows "\<exists>ns' rs'. linked_repr q' ns' rs' \<and>
    ns' @ rs' = rotate (length (dequeued_events outs)) (ns @ rs) \<and>
    lq_capacity q' = lq_capacity q \<and> lq_node_storage q' = lq_node_storage q \<and>
    lq_node_stride_bytes q' = lq_node_stride_bytes q"
  using assms
proof (induction ops arbitrary: q ns rs outs)
  case Nil
  then show ?case by auto
next
  case (Cons p ops)
  show ?case
  proof (cases p)
    case (Try_enqueue e)
    obtain r q1 outs1 where 1: "linked_try_enqueue q e = (r, q1)"
      and 2: "run_ops linked_try_enqueue linked_try_dequeue q1 ops = (outs1, q')"
      and 3: "outs = Enqueue_out r # outs1"
      using Cons.prems(3) Try_enqueue by (auto split: prod.splits)
    have e: "get_ptr e \<noteq> nullptr" and ops: "list_all op_ok ops"
      using Cons.prems(2) Try_enqueue by auto
    show ?thesis
    proof (cases rs)
      case Nil
      with 1 have "q1 = q" by (simp add: linked_try_enqueue_eq [OF Cons.prems(1)])
      with Cons.IH [OF Cons.prems(1) ops] 2 3 show ?thesis by auto
    next
      case (Cons n rs1)
      with 1 have q1: "q1 = linked_linked q n (get_ptr e)"
        by (simp add: linked_try_enqueue_eq [OF Cons.prems(1)])
      have "linked_repr q1 (ns @ [n]) rs1"
        using linked_linked_repr [OF _ e] Cons.prems(1) Cons q1 by simp
      from Cons.IH [OF this ops 2] 3 Cons show ?thesis by (auto simp: q1)
    qed
  next
    case Try_dequeue
    obtain r q1 outs1 where 1: "linked_try_dequeue q = (r, q1)"
      and 2: "run_ops linked_try_enqueue linked_try_dequeue q1 ops = (outs1, q')"
      and 3: "outs = Dequeue_out r # outs1"
      using Cons.prems(3) Try_dequeue by (auto split: prod.splits)
    have ops: "list_all op_ok ops" using Cons.prems(2) by simp
    show ?thesis
    proof (cases "tl ns")
      case Nil
      with 1 have "q1 = q" "dr_status r \<noteq> Deq_item"
        by (auto simp: linked_try_dequeue_eq [OF Cons.prems(1)])
      with Cons.IH [OF Cons.prems(1) ops] 2 3 show ?thesis by auto
    next
      case (Cons m ms)
      with linked_chain_nonempty [OF Cons.prems(1)] obtain n where ns: "ns = n # m # ms"
        by (cases ns) auto
      from 1 Cons have q1: "q1 = linked_returned q m" and item: "dr_status r = Deq_item"
        by (auto simp: linked_try_dequeue_eq [OF Cons.prems(1)])
      have "linked_repr q1 (m # ms) (rs @ [n])"
        using linked_returned_repr Cons.prems(1) ns q1 by simp
      from Cons.IH [OF this ops 2] 3 item ns show ?thesis
        by (auto simp: q1 rotate_Suc_Cons simp del: rotate_Suc)
    qed
  qed
qed

subsection \<open>Construction\<close>

lemma check_node_order_Inr:
  "check_node_order node_count order = Inr u \<longleftrightarrow> distinct order \<and> (\<forall>i \<in> set order. i < node_count)"
  by (simp add: check_node_order_def seen_check_permutation)

lemma construct_nodes_null:
  "ln_next (construct_nodes base stride is heap a) =
     (if a \<in> (\<lambda>i. arena_node_at base stride (of_nat i)) ` set is then nullptr else ln_next (heap a))"
  by (induction "is" arbitrary: heap) auto

text \<open>The facts a successful construction gives.\<close>

lemma LinkedSpscQueue_create_Inr:
  assumes "LinkedSpscQueue_create raw nb rb ob cap line align order = Inr q"
  shows "cap \<noteq> 0" and "unat cap * 8 < 2 ^ 64" and "4 * unat line < 2 ^ 64"
    and "is_power_of_two line" and "16 \<le> line" and "line \<le> align"
    and "unat (cap + 1) = Suc (unat cap)"
    and "length order = Suc (unat cap)" and "distinct order" and "\<forall>i \<in> set order. i \<le> cap"
    and "lq_capacity q = cap" and "lq_cache_line_bytes q = line"
    and "round_up sizeof_Node line = Inr (lq_node_stride_bytes q)"
    and "nb = Some (block_data (lq_node_storage q))"
    and "rb = Some (block_data (lq_recycler_storage q))"
    and "ob = Some (block_data (lq_ownership_storage q))"
    and "lq_heap q = construct_nodes (block_data (lq_node_storage q)) (lq_node_stride_bytes q)
      [0..<Suc (unat cap)] raw"
    and "lq_head q = node_at q (order ! 0)" and "lq_tail q = node_at q (order ! 0)"
    and "lq_recycler_slots q = map (node_at q) (tl order)"
    and "lq_recycler_producer q = 0" and "lq_recycler_consumer q = 0"
proof -
  obtain stride nbase rbase obase where
    c: "cap \<noteq> 0" "unat cap * 8 < 2 ^ 64" "4 * unat line < 2 ^ 64"
      "is_power_of_two line" "16 \<le> line" "line \<le> align" "unat cap + 1 < 2 ^ 64"
      "length order = unat (cap + 1)"
      "check_node_order (cap + 1) order = Inr ()"
      "round_up sizeof_Node line = Inr stride"
      "nb = Some nbase" "rb = Some rbase" "ob = Some obase"
    and q: "q = \<lparr>lq_capacity = cap, lq_cache_line_bytes = line, lq_node_stride_bytes = stride,
      lq_node_arena_alignment_bytes = align,
      lq_node_storage = \<lparr>block_data = nbase, block_size = (cap + 1) * stride, block_alignment = align\<rparr>,
      lq_recycler_storage = \<lparr>block_data = rbase, block_size = cap * 8, block_alignment = line\<rparr>,
      lq_ownership_storage = \<lparr>block_data = obase, block_size = 4 * line, block_alignment = line\<rparr>,
      lq_heap = construct_nodes nbase stride [0..<unat (cap + 1)] raw,
      lq_recycler_slots = map (\<lambda>i. arena_node_at nbase stride (order ! (i + 1))) [0..<unat cap],
      lq_tail = arena_node_at nbase stride (order ! 0),
      lq_head = arena_node_at nbase stride (order ! 0),
      lq_recycler_producer = 0, lq_recycler_consumer = 0\<rparr>"
    using assms by (auto simp: LinkedSpscQueue_create_def AlignedBlock_create_def
        sizeof_pointer_def Let_def not_less)
  show suc: "unat (cap + 1) = Suc (unat cap)"
    using c(7) by (subst unat_plus_u64) auto
  have dist: "distinct order \<and> (\<forall>i \<in> set order. i < cap + 1)"
    using check_node_order_Inr c(9) by blast
  then show "distinct order" and "\<forall>i \<in> set order. i \<le> cap"
    using suc by (auto simp: word_less_nat_alt word_le_nat_alt)
  show len: "length order = Suc (unat cap)" using c(8) suc by simp
  have "map (\<lambda>i. arena_node_at nbase stride (order ! (i + 1))) [0..<unat cap] =
      map (arena_node_at nbase stride) (tl order)"
    using len by (intro nth_equalityI) (auto simp: nth_tl)
  then show "lq_recycler_slots q = map (node_at q) (tl order)"
    by (simp add: q node_at_def [abs_def])
  show "cap \<noteq> 0" and "unat cap * 8 < 2 ^ 64" and "4 * unat line < 2 ^ 64"
    and "is_power_of_two line" and "16 \<le> line" and "line \<le> align"
    and "lq_capacity q = cap" and "lq_cache_line_bytes q = line"
    and "round_up sizeof_Node line = Inr (lq_node_stride_bytes q)"
    and "nb = Some (block_data (lq_node_storage q))"
    and "rb = Some (block_data (lq_recycler_storage q))"
    and "ob = Some (block_data (lq_ownership_storage q))"
    and "lq_recycler_producer q = 0" and "lq_recycler_consumer q = 0"
    using c by (simp_all add: q)
  show "lq_heap q = construct_nodes (block_data (lq_node_storage q)) (lq_node_stride_bytes q)
      [0..<Suc (unat cap)] raw"
    by (simp add: q suc del: upt_Suc)
  show "lq_head q = node_at q (order ! 0)" and "lq_tail q = node_at q (order ! 0)"
    by (simp_all add: q node_at_def)
qed

lemma linked_create_geometry:
  assumes "LinkedSpscQueue_create raw nb rb ob cap line align order = Inr q"
    and "block_data (lq_node_storage q) \<noteq> nullptr"
    and "unat (block_data (lq_node_storage q)) +
      (unat cap + 1) * unat (lq_node_stride_bytes q) \<le> 2 ^ 64"
  shows "linked_geometry q"
proof -
  note c = LinkedSpscQueue_create_Inr [OF assms(1)]
  have line: "line \<noteq> 0" using c(4) by (auto simp: is_power_of_two_def)
  have "sizeof_Node \<le> lq_node_stride_bytes q" by (rule round_up_least(2) [OF c(13) line])
  then have stride: "24 \<le> unat (lq_node_stride_bytes q)"
    by (simp add: sizeof_Node_def word_le_nat_alt)
  have "(unat cap + 1) * 24 \<le> (unat cap + 1) * unat (lq_node_stride_bytes q)"
    using stride by (rule mult_le_mono2)
  then have "(unat cap + 1) * 24 \<le> 2 ^ 64" using assms(3) by linarith
  then have "unat cap < 2 ^ 60" by simp
  with stride assms(2,3) c(1,11) show ?thesis
    by (auto simp: linked_geometry_def)
qed

lemma linked_create_repr:
  assumes create: "LinkedSpscQueue_create raw nb rb ob cap line align order = Inr q"
    and geo: "linked_geometry q"
  shows "linked_repr q [node_at q (hd order)] (map (node_at q) (tl order))"
proof -
  note c = LinkedSpscQueue_create_Inr [OF create]
  obtain i js where o: "order = i # js" using c(8) by (cases order) auto
  have le: "j \<le> lq_capacity q" if "j \<in> set order" for j using c(10,11) that by simp
  have dist: "distinct (map (node_at q) order)"
    using c(9) le node_at_inj [OF geo] by (auto simp: distinct_map inj_on_def)
  have nn: "nullptr \<notin> set (map (node_at q) order)"
    using node_at_nonnull [OF geo] le by fastforce
  have "unat i < Suc (unat cap)" using c(10) o by (simp add: word_le_nat_alt)
  then have "node_at q i \<in> (\<lambda>k. arena_node_at (block_data (lq_node_storage q))
      (lq_node_stride_bytes q) (of_nat k)) ` set [0..<Suc (unat cap)]"
    by (intro image_eqI [of _ _ "unat i"]) (auto simp: node_at_def simp del: upt_Suc)
  then have null: "ln_next (lq_heap q (node_at q i)) = nullptr"
    by (simp add: c(17) construct_nodes_null del: upt_Suc)
  have "js \<noteq> []" using c(1,8) o by (auto simp: word_eq_unat)
  then have cyc: "cyc_repr (map (node_at q) js) 0 0 (map (node_at q) js)"
    using nn o by (intro cyc_repr_full_init) auto
  have "length js = unat (lq_capacity q)" using c(8,11) o by simp
  then show ?thesis
    using o nn dist null cyc c(18-22) by (auto simp: linked_repr_def)
qed

lemma linked_create_invar:
  assumes "LinkedSpscQueue_create raw nb rb ob cap line align order = Inr q"
    and "linked_geometry q"
  shows "linked_invar q \<and> linked_contents q = [] \<and> linked_bound q = unat cap"
  using linked_reprD [OF linked_create_repr [OF assms]] LinkedSpscQueue_create_Inr [OF assms(1)]
  by simp

subsection \<open>The audit\<close>

text \<open>The owned flags after a list of node indices has been marked.\<close>

fun mark_owned :: "usize list \<Rightarrow> bool list \<Rightarrow> bool list" where
  "mark_owned [] owned = owned"
| "mark_owned (i # rest) owned = mark_owned rest (owned[unat i := True])"

lemma mark_owned_length [simp]: "length (mark_owned xs owned) = length owned"
  by (induction xs arbitrary: owned) auto

lemma mark_owned_append [simp]: "mark_owned (xs @ ys) owned = mark_owned ys (mark_owned xs owned)"
  by (induction xs arbitrary: owned) auto

lemma mark_owned_nth:
  "k < length owned \<Longrightarrow> mark_owned xs owned ! k \<longleftrightarrow> owned ! k \<or> k \<in> unat ` set xs"
proof (induction xs arbitrary: owned)
  case (Cons i xs)
  then show ?case by (cases "k = unat i") auto
qed simp

lemma nth_update_other: "j \<noteq> i \<Longrightarrow> owned[unat i := v] ! unat (j :: usize) = owned ! unat j"
  by (simp add: word_eq_unat)

lemma still_free:
  "i \<notin> set js \<Longrightarrow> \<forall>j \<in> set js. P j \<and> \<not> owned ! unat (j :: usize) \<Longrightarrow>
   \<forall>j \<in> set js. P j \<and> \<not> owned[unat i := True] ! unat j"
  by (metis nth_update_other)

lemma mark_owned_all:
  assumes "distinct xs" and "\<forall>i \<in> set xs. unat i < n"
  shows "list_all id (mark_owned xs (replicate n False)) \<longleftrightarrow> length xs = n"
proof -
  have sub: "unat ` set xs \<subseteq> {..<n}" using assms(2) by auto
  have "card (unat ` set xs) = length xs"
    using assms(1) by (subst card_image) (auto simp: inj_on_def word_eq_unat distinct_card)
  moreover have "list_all id (mark_owned xs (replicate n False)) \<longleftrightarrow> {..<n} \<subseteq> unat ` set xs"
    by (auto simp: list_all_length mark_owned_nth)
  ultimately show ?thesis
    using sub by (metis card_lessThan card_subset_eq finite_lessThan subset_antisym subset_refl)
qed

lemma audit_chain_path:
  assumes "linked_geometry q" and "linked_path (lq_heap q) p (map (node_at q) js)"
    and "distinct js" and "\<forall>i \<in> set js. i \<le> lq_capacity q \<and> \<not> owned ! unat i"
    and "length owned = Suc (unat (lq_capacity q))"
  shows "audit_chain q p owned order t =
    (mark_owned js owned, order @ js, True, t \<or> lq_tail q \<in> set (map (node_at q) js))"
  using assms
proof (induction js arbitrary: p owned order t)
  case Nil
  then show ?case by (simp add: audit_chain.simps)
next
  case (Cons i js)
  have i: "i \<le> lq_capacity q" "p = node_at q i" "unat i < length owned"
    using Cons.prems by (auto simp: word_le_nat_alt)
  have free: "\<forall>j \<in> set js. j \<le> lq_capacity q \<and> \<not> owned[unat i := True] ! unat j"
    using Cons.prems by (intro still_free) auto
  have "audit_chain q p owned order t =
      audit_chain q (ln_next (lq_heap q p)) (owned[unat i := True]) (order @ [i])
        (t \<or> p = lq_tail q)"
    using i Cons.prems node_at_nonnull [OF Cons.prems(1) i(1)] index_of_node_at [OF Cons.prems(1) i(1)]
    by (subst audit_chain.simps) (auto simp: not_le)
  also have "\<dots> = (mark_owned js (owned[unat i := True]), (order @ [i]) @ js, True,
      (t \<or> p = lq_tail q) \<or> lq_tail q \<in> set (map (node_at q) js))"
    using Cons.prems i free by (intro Cons.IH) auto
  finally show ?case using i by auto
qed

lemma audit_recycler_nulls:
  "audit_recycler q (replicate k nullptr) b shape once owned order = (shape, once, owned, order)"
  by (induction k arbitrary: b) auto

lemma audit_recycler_nodes:
  assumes "linked_geometry q"
    and "distinct js" and "\<forall>i \<in> set js. i \<le> lq_capacity q \<and> \<not> owned ! unat i"
    and "length owned = Suc (unat (lq_capacity q))"
  shows "audit_recycler q (map (node_at q) js @ replicate k nullptr) False shape once owned order =
    (shape, once, mark_owned js owned, order @ js)"
  using assms
proof (induction js arbitrary: owned order)
  case Nil
  then show ?case by (simp add: audit_recycler_nulls)
next
  case (Cons i js)
  have i: "i \<le> lq_capacity q" using Cons.prems by auto
  have free: "\<forall>j \<in> set js. j \<le> lq_capacity q \<and> \<not> owned[unat i := True] ! unat j"
    using Cons.prems by (intro still_free) auto
  show ?case
    using Cons.prems free Cons.IH [of "owned[unat i := True]"] node_at_nonnull [OF Cons.prems(1) i]
      index_of_node_at [OF Cons.prems(1) i]
    by simp
qed

lemma audit_slots_rotate:
  assumes "linked_geometry q" and "length (lq_recycler_slots q) = unat (lq_capacity q)"
    and "unat start < unat (lq_capacity q)"
  shows "map (\<lambda>offset. lq_recycler_slots q ! unat ((start + of_nat offset) mod lq_capacity q))
      [0..<unat (lq_capacity q)] = rotate (unat start) (lq_recycler_slots q)"
proof (rule nth_equalityI)
  fix k
  assume "k < length (map (\<lambda>offset. lq_recycler_slots q !
      unat ((start + of_nat offset) mod lq_capacity q)) [0..<unat (lq_capacity q)])"
  then have k: "k < unat (lq_capacity q)" by simp
  have cap: "unat (lq_capacity q) < 2 ^ 60" using assms(1) by (simp add: linked_geometry_def)
  then have "unat (of_nat k :: u64) = k" using k by (intro unat_of_nat_u64) simp
  moreover from this have "unat (start + of_nat k) = unat start + k"
    using k cap assms(3) by (subst unat_plus_u64) auto
  ultimately show "map (\<lambda>offset. lq_recycler_slots q !
      unat ((start + of_nat offset) mod lq_capacity q)) [0..<unat (lq_capacity q)] ! k =
      rotate (unat start) (lq_recycler_slots q) ! k"
    using k assms(2) by (simp add: unat_mod nth_rotate)
qed (simp add: assms(2))

lemma linked_audit_eq:
  assumes geo: "linked_geometry q" and repr: "linked_repr q (map (node_at q) as) (map (node_at q) bs)"
    and le: "\<forall>i \<in> set (as @ bs). i \<le> lq_capacity q"
  shows "linked_audit_quiescent q =
    \<lparr>la_reachable_nodes = length as, la_queued_events = length as - 1,
     la_recycler_nodes = length bs, la_reachable_order = as, la_recycler_order = bs,
     la_chain_acyclic = True, la_tail_reachable = True,
     la_every_node_owned_once = (length as + length bs = Suc (unat (lq_capacity q))),
     la_recycler_fifo_shape = True, la_positions_in_range = True\<rparr>"
proof -
  have path: "linked_path (lq_heap q) (lq_head q) (map (node_at q) as)"
    and dist: "distinct (as @ bs)"
    and cyc: "cyc_repr (lq_recycler_slots q) (unat (lq_recycler_consumer q))
      (unat (lq_recycler_producer q)) (map (node_at q) bs)"
    and len: "length (lq_recycler_slots q) = unat (lq_capacity q)"
    using repr by (auto simp: linked_repr_def distinct_map)
  have tail: "lq_tail q \<in> set (map (node_at q) as)"
    using linked_tail [OF repr] linked_chain_nonempty [OF repr] by (metis last_in_set)
  have count: "unat (lq_capacity q + 1) = Suc (unat (lq_capacity q))"
    using geo by (subst unat_plus_u64) (auto simp: linked_geometry_def)
  let ?o = "replicate (Suc (unat (lq_capacity q))) False"
  have chain: "audit_chain q (lq_head q) ?o [] False = (mark_owned as ?o, as, True, True)"
    using audit_chain_path [OF geo path, of ?o "[]" False] dist le tail
    by (auto simp: word_le_nat_alt less_Suc_eq_le simp del: replicate_Suc)
  have slots: "map (\<lambda>offset. lq_recycler_slots q !
      unat ((lq_recycler_consumer q + of_nat offset) mod lq_capacity q)) [0..<unat (lq_capacity q)] =
      map (node_at q) bs @ replicate (unat (lq_capacity q) - length bs) nullptr"
    using audit_slots_rotate [OF geo len linked_consumer_lt [OF repr]] cyc len
    by (simp add: cyc_repr_def)
  have recycler: "audit_recycler q
      (map (node_at q) bs @ replicate (unat (lq_capacity q) - length bs) nullptr)
      False True True (mark_owned as ?o) [] = (True, True, mark_owned bs (mark_owned as ?o), bs)"
    using dist le by (subst audit_recycler_nodes [OF geo])
      (auto simp: mark_owned_nth word_le_nat_alt less_Suc_eq_le simp flip: word_eq_unat
        simp del: replicate_Suc)
  have "list_all id (mark_owned (as @ bs) ?o) = (length (as @ bs) = Suc (unat (lq_capacity q)))"
    using dist le by (intro mark_owned_all) (auto simp: word_le_nat_alt less_Suc_eq_le)
  then show ?thesis
    using linked_consumer_lt [OF repr] linked_producer_lt [OF repr] linked_chain_nonempty [OF repr]
    by (simp add: linked_audit_quiescent_def Let_def count chain slots recycler word_less_nat_alt
        del: replicate_Suc)
qed

subsection \<open>Properties\<close>

text \<open>
  A concrete queue for the witnesses: capacity 2, node order 1, 0, 2, cache line 64, blocks at
  4096, 8192 and 12288, in an arena that held null pointers.
\<close>

definition linked_example_raw :: node_heap where
  "linked_example_raw = (\<lambda>_. \<lparr>ln_next = 0, ln_event = 0, ln_arena_index = 0\<rparr>)"

definition linked_example :: LinkedSpscQueue where
  "linked_example =
     \<lparr>lq_capacity = 2, lq_cache_line_bytes = 64, lq_node_stride_bytes = 64,
      lq_node_arena_alignment_bytes = 64,
      lq_node_storage = \<lparr>block_data = 4096, block_size = 192, block_alignment = 64\<rparr>,
      lq_recycler_storage = \<lparr>block_data = 8192, block_size = 16, block_alignment = 64\<rparr>,
      lq_ownership_storage = \<lparr>block_data = 12288, block_size = 256, block_alignment = 64\<rparr>,
      lq_heap = construct_nodes 4096 64 [0, 1, 2] linked_example_raw,
      lq_recycler_slots = [4096, 4224], lq_tail = 4160, lq_head = 4160,
      lq_recycler_producer = 0, lq_recycler_consumer = 0\<rparr>"

lemma linked_example_create:
  "LinkedSpscQueue_create linked_example_raw (Some 4096) (Some 8192) (Some 12288) 2 64 64 [1, 0, 2] =
     Inr linked_example"
proof -
  have pow: "validate_cache_line_bytes 64 = Inr ()"
    by (simp add: validate_cache_line_bytes_def is_power_of_two_def alignof_max_align_t_def)
  have "check_node_order 3 [1, 0, 2] = Inr ()"
    by (simp add: check_node_order_Inr)
  moreover have "[0..<3] = [0, 1, 2]" "[0..<2] = [0, 1]"
    by (simp_all add: numeral_3_eq_3 numeral_2_eq_2 upt_rec)
  ultimately show ?thesis
    by (simp add: LinkedSpscQueue_create_def pow queue_checked_add_def queue_checked_multiply_def
        round_up_def sizeof_Node_def sizeof_pointer_def AlignedBlock_create_def Let_def
        arena_node_at_def linked_example_def)
qed

lemma linked_example_geometry: "linked_geometry linked_example"
  by (simp add: linked_geometry_def linked_example_def)

text \<open>
  C18. Refinement of the linked queue: from a freshly constructed queue, any history of
  try_enqueue and try_dequeue calls gives exactly the results of the bounded FIFO of the same
  capacity. In particular the recycler-invariant failure is never returned.
\<close>

theorem linked_history_refines_fifo:
  assumes "LinkedSpscQueue_create raw nb rb ob capacity line align order = Inr q"
    and "linked_geometry q"
    and "list_all op_ok ops"
    and "run_ops linked_try_enqueue linked_try_dequeue q ops = (outs, q')"
  shows "fifo_run (unat capacity) [] ops = (outs, linked_contents q') \<and> linked_invar q'"
  using linked_plain.run_refines [OF _ assms(3,4)] linked_create_invar [OF assms(1,2)] by auto

theorem linked_history_refines_fifo_witness:
  "\<exists>outs q'. run_ops linked_try_enqueue linked_try_dequeue linked_example
       [Try_enqueue (EventPointer 16), Try_enqueue (EventPointer 32),
        Try_enqueue (EventPointer 48), Try_dequeue] = (outs, q') \<and>
     fifo_run 2 [] [Try_enqueue (EventPointer 16), Try_enqueue (EventPointer 32),
        Try_enqueue (EventPointer 48), Try_dequeue] = (outs, linked_contents q') \<and>
     linked_contents q' = [32]"
proof -
  obtain outs q' where run: "run_ops linked_try_enqueue linked_try_dequeue linked_example
      [Try_enqueue (EventPointer 16), Try_enqueue (EventPointer 32),
       Try_enqueue (EventPointer 48), Try_dequeue] = (outs, q')"
    by fastforce
  from linked_history_refines_fifo [OF linked_example_create linked_example_geometry _ run]
  have "fifo_run 2 [] [Try_enqueue (EventPointer 16), Try_enqueue (EventPointer 32),
        Try_enqueue (EventPointer 48), Try_dequeue] = (outs, linked_contents q')"
    by simp
  with run show ?thesis by (auto simp: fifo_enqueue_def fifo_dequeue_def)
qed

text \<open>
  C19. Circulation of the nodes: after any history the audit finds the chain acyclic with the
  tail on it, the recycler in FIFO shape, every node owned exactly once and as many queued
  events as were accepted and not yet returned; and the chain followed by the recycler is
  the node order of the constructor, rotated by the number of events returned.
\<close>

theorem linked_audit_circulation:
  assumes "LinkedSpscQueue_create raw nb rb ob capacity line align order = Inr q"
    and "linked_geometry q"
    and "list_all op_ok ops"
    and "run_ops linked_try_enqueue linked_try_dequeue q ops = (outs, q')"
  shows "la_reachable_order (linked_audit_quiescent q') @ la_recycler_order (linked_audit_quiescent q')
           = rotate (length (dequeued_events outs)) order \<and>
         la_chain_acyclic (linked_audit_quiescent q') \<and>
         la_tail_reachable (linked_audit_quiescent q') \<and>
         la_every_node_owned_once (linked_audit_quiescent q') \<and>
         la_recycler_fifo_shape (linked_audit_quiescent q') \<and>
         la_positions_in_range (linked_audit_quiescent q') \<and>
         length (accepted_events ops outs) =
           length (dequeued_events outs) + la_queued_events (linked_audit_quiescent q')"
proof -
  note c = LinkedSpscQueue_create_Inr [OF assms(1)]
  have repr: "linked_repr q [node_at q (hd order)] (map (node_at q) (tl order))"
    by (rule linked_create_repr [OF assms(1,2)])
  obtain i js where order: "order = i # js" using c(8) by (cases order) auto
  obtain ns rs where r: "linked_repr q' ns rs"
    and rot: "ns @ rs = rotate (length (dequeued_events outs)) (map (node_at q) order)"
    and st: "lq_capacity q' = lq_capacity q" "lq_node_storage q' = lq_node_storage q"
      "lq_node_stride_bytes q' = lq_node_stride_bytes q"
    using linked_run_rotates [OF repr assms(3,4)] order by auto
  have at: "node_at q = node_at q'" using st by (simp add: node_at_def fun_eq_iff)
  have geo: "linked_geometry q'" using linked_geometry_cong [OF st] assms(2) by simp
  from rot obtain as bs where ab: "rotate (length (dequeued_events outs)) order = as @ bs"
    "ns = map (node_at q') as" "rs = map (node_at q') bs"
    by (auto simp: rotate_map at append_eq_map_conv)
  have "set (as @ bs) = set order" and len: "length (as @ bs) = length order"
    using ab(1) by (metis set_rotate, metis length_rotate)
  then have "\<forall>i \<in> set (as @ bs). i \<le> lq_capacity q'" using c(10,11) st by simp
  note audit = linked_audit_eq [OF geo r [unfolded ab] this]
  have "accepted_events ops outs = dequeued_events outs @ linked_contents q'"
    using linked_plain.run_fifo_order [OF _ assms(3,4)] linked_create_invar [OF assms(1,2)] by auto
  then show ?thesis
    using ab len c(8,11) st by (simp add: audit linked_reprD(4) [OF r])
qed

theorem linked_audit_circulation_witness:
  "\<exists>outs q'. run_ops linked_try_enqueue linked_try_dequeue linked_example
       [Try_enqueue (EventPointer 16), Try_dequeue] = (outs, q') \<and>
     dequeued_events outs = [16] \<and>
     la_reachable_order (linked_audit_quiescent q') @ la_recycler_order (linked_audit_quiescent q')
       = [0, 2, 1]"
proof -
  obtain outs q' where run: "run_ops linked_try_enqueue linked_try_dequeue linked_example
      [Try_enqueue (EventPointer 16), Try_dequeue] = (outs, q')"
    by fastforce
  have "fifo_run 2 [] [Try_enqueue (EventPointer 16), Try_dequeue] = (outs, linked_contents q')"
    using linked_plain.run_refines [OF _ _ run]
      linked_create_invar [OF linked_example_create linked_example_geometry] by simp
  then have "dequeued_events outs = [16]" by (auto simp: fifo_enqueue_def fifo_dequeue_def)
  then show ?thesis
    using linked_audit_circulation [OF linked_example_create linked_example_geometry _ run] run by auto
qed



text \<open>
  Storage layout of the linked queue: with blocks aligned as the constructor requests,
  the evidence reports every node and every base aligned to the cache line and the four
  ownership fields on separate lines.
\<close>

theorem linked_layout_sound:
  assumes "LinkedSpscQueue_create raw nb rb ob capacity line align order = Inr q"
    and "linked_geometry q"
    and "is_aligned (block_data (lq_node_storage q)) line"
    and "is_aligned (block_data (lq_recycler_storage q)) line"
    and "is_aligned (block_data (lq_ownership_storage q)) line"
    and "unat (block_data (lq_ownership_storage q)) + 4 * unat line \<le> 2 ^ 64"
  shows "bases_aligned (linked_layout_evidence q) \<and>
         ownership_lines_separated (linked_layout_evidence q)"
proof -
  note c = LinkedSpscQueue_create_Inr [OF assms(1)]
  let ?own = "block_data (lq_ownership_storage q)"
  have line: "line \<noteq> 0" using c(4) by (auto simp: is_power_of_two_def)
  then have pos: "0 < unat line" by (simp add: word_eq_unat)
  have stride: "unat line dvd unat (lq_node_stride_bytes q)" by (rule round_up_least(1) [OF c(13) line])
  have node: "is_aligned (node_at q (of_nat i)) line" if "i < Suc (unat capacity)" for i
  proof -
    have "unat (of_nat i :: u64) = i"
      using that unat_u64_lt_num [of capacity] c(2) by (intro unat_of_nat_u64) simp
    then have "of_nat i \<le> lq_capacity q" using that c(11) by (simp add: word_le_nat_alt)
    from node_at_nat [OF assms(2) this] show ?thesis
      using assms(3) stride by (simp add: is_aligned_nat)
  qed
  have k: "is_aligned (?own + k * line) line" if "k = 2 \<or> k = 3" for k
  proof -
    have "unat (k * line) = unat k * unat line"
      using that c(3) by (intro unat_times_u64) auto
    then have "unat (?own + k * line) = unat ?own + unat k * unat line"
      using that assms(6) pos by (subst unat_plus_u64) auto
    then show ?thesis using assms(5) by (simp add: is_aligned_nat)
  qed
  have "unat (?own + line) = unat ?own + unat line"
    using assms(6) pos by (intro unat_plus_u64) simp
  then have "is_aligned (?own + line) line" using assms(5) by (simp add: is_aligned_nat)
  moreover have "lq_node_stride_bytes q mod line = 0"
    using stride by (simp add: word_eq_unat unat_mod)
  ultimately show ?thesis
    using node k [of 2] k [of 3] assms(4,5) c(7,11,12)
    by (auto simp: linked_layout_evidence_def Let_def list_all_iff simp del: upt_Suc)
qed

theorem linked_layout_sound_witness:
  "bases_aligned (linked_layout_evidence linked_example) \<and>
   ownership_lines_separated (linked_layout_evidence linked_example)"
  using linked_layout_sound [OF linked_example_create linked_example_geometry]
  by (simp add: linked_example_def is_aligned_def)

end
