(* ===== verification/Packages.thy ===== *)
theory Packages
  imports Ring_Spsc Linked_Spsc Deterministic
begin

text \<open>
  The queue packages under comparison: \<^verbatim>\<open>workload/packages.hpp\<close> and
  \<^verbatim>\<open>workload/packages.cpp\<close>. R0 and L0 are the bare queues, R1 and R2 prefetch a ring slot some
  distance ahead before every operation, L1 prefetches the header of the successor node. The
  prefetch emitter is a template parameter of the packages: here a pair of functions (a
  single one for L1) on a state of type \<open>'e\<close> of its own, kept in the package.
\<close>

subsection \<open>Ring distances\<close>

record RingDistance =
  rd_slots :: usize
  rd_cache_lines :: usize

record CalibratedRingDistance =
  cd_distance :: RingDistance
  calibration_evidence_id :: string

record RingGeometry =
  rg_capacity :: usize
  rg_cache_line_bytes :: usize
  rg_slot_bytes :: usize

definition packages_is_power_of_two :: "usize \<Rightarrow> bool" where
  "packages_is_power_of_two value \<longleftrightarrow> value \<noteq> 0 \<and> value AND (value - 1) = 0"

definition distance_checked_multiply :: "usize \<Rightarrow> usize \<Rightarrow> workload_error + usize" where
  "distance_checked_multiply left right =
     (if left \<noteq> 0 \<and> right > u64_max div left
      then Inl (WorkloadSetupError ''ring distance overflows size_t'')
      else Inr (left * right))"

definition ring_one_line_distance :: "RingGeometry \<Rightarrow> workload_error + RingDistance" where
  "ring_one_line_distance geometry =
     (if \<not> packages_is_power_of_two (rg_capacity geometry) \<or> rg_cache_line_bytes geometry = 0 \<or>
         rg_slot_bytes geometry = 0
      then Inl (WorkloadSetupError
        ''ring distance requires power-of-two capacity and explicit nonzero units'')
      else
        let slots = rg_cache_line_bytes geometry div rg_slot_bytes geometry +
              (if rg_cache_line_bytes geometry mod rg_slot_bytes geometry = 0 then 0 else 1)
        in if slots = 0 \<or> slots \<ge> rg_capacity geometry
           then Inl (WorkloadSetupError
             ''one-line ring lookahead must name a distinct future slot line'')
           else Inr \<lparr>rd_slots = slots, rd_cache_lines = 1\<rparr>)"

definition resolve_calibrated_ring_distance ::
  "RingGeometry \<Rightarrow> usize \<Rightarrow> string \<Rightarrow> workload_error + CalibratedRingDistance" where
  "resolve_calibrated_ring_distance geometry calibrated_cache_lines evidence_id =
     (case ring_one_line_distance geometry of Inl e \<Rightarrow> Inl e | Inr one_line \<Rightarrow>
      if evidence_id = []
      then Inl (WorkloadSetupError ''R2 distance requires calibration evidence identity'')
      else if calibrated_cache_lines < 2
      then Inl (WorkloadSetupError ''R2 distance must be at least two cache lines'')
      else
     (case distance_checked_multiply (rd_slots one_line) calibrated_cache_lines of
        Inl e \<Rightarrow> Inl e | Inr slots \<Rightarrow>
      if slots > rg_capacity geometry div 4
      then Inl (WorkloadSetupError ''R2 distance exceeds the one-quarter capacity cap'')
      else if slots = rd_slots one_line
      then Inl (WorkloadSetupError ''R2 cap collapses to R1; the cell is ineligible'')
      else Inr \<lparr>cd_distance = \<lparr>rd_slots = slots, rd_cache_lines = calibrated_cache_lines\<rparr>,
                 calibration_evidence_id = evidence_id\<rparr>))"

subsection \<open>R0: the bare ring\<close>

record R0Package =
  r0_queue :: RingSpscQueue

definition R0Package_try_enqueue :: "R0Package \<Rightarrow> EventPointer \<Rightarrow> EnqueueResult \<times> R0Package" where
  "R0Package_try_enqueue p event =
     (let (r, q) = ring_try_enqueue (r0_queue p) event in (r, p\<lparr>r0_queue := q\<rparr>))"

definition R0Package_try_dequeue :: "R0Package \<Rightarrow> DequeueResult \<times> R0Package" where
  "R0Package_try_dequeue p =
     (let (r, q) = ring_try_dequeue (r0_queue p) in (r, p\<lparr>r0_queue := q\<rparr>))"

definition R0Package_try_enqueue_with_boundary_observer ::
  "('s \<Rightarrow> bool \<times> 's) \<Rightarrow> R0Package \<Rightarrow> EventPointer \<Rightarrow> 's \<Rightarrow>
     BoundaryEnqueueResult \<times> R0Package \<times> 's" where
  "R0Package_try_enqueue_with_boundary_observer hook p event s =
     (let (r, q, s') = ring_try_enqueue_with_boundary_observer hook (r0_queue p) event s
      in (r, p\<lparr>r0_queue := q\<rparr>, s'))"

definition R0Package_try_dequeue_with_boundary_observer ::
  "('s \<Rightarrow> bool \<times> 's) \<Rightarrow> R0Package \<Rightarrow> 's \<Rightarrow> BoundaryDequeueResult \<times> R0Package \<times> 's" where
  "R0Package_try_dequeue_with_boundary_observer hook p s =
     (let (r, q, s') = ring_try_dequeue_with_boundary_observer hook (r0_queue p) s
      in (r, p\<lparr>r0_queue := q\<rparr>, s'))"

subsection \<open>R1: one line ahead\<close>

record 'e ring_emitter =
  ring_producer_write :: "addr \<Rightarrow> 'e \<Rightarrow> 'e"
  ring_consumer_read :: "addr \<Rightarrow> 'e \<Rightarrow> 'e"

record 'e R1Package =
  r1_queue :: RingSpscQueue
  r1_emitter :: 'e
  r1_distance :: RingDistance

definition R1Package_create :: "RingSpscQueue \<Rightarrow> 'e \<Rightarrow> RingDistance \<Rightarrow> 'e R1Package" where
  "R1Package_create queue emitter distance =
     \<lparr>r1_queue = queue, r1_emitter = emitter, r1_distance = distance\<rparr>"

definition R1Package_try_enqueue ::
  "'e ring_emitter \<Rightarrow> 'e R1Package \<Rightarrow> EventPointer \<Rightarrow> EnqueueResult \<times> 'e R1Package" where
  "R1Package_try_enqueue em p event =
     (let p1 = p\<lparr>r1_emitter := ring_producer_write em
            (producer_slot_target (r1_queue p) (rd_slots (r1_distance p))) (r1_emitter p)\<rparr>;
          (r, q) = ring_try_enqueue (r1_queue p1) event
      in (r, p1\<lparr>r1_queue := q\<rparr>))"

definition R1Package_try_dequeue ::
  "'e ring_emitter \<Rightarrow> 'e R1Package \<Rightarrow> DequeueResult \<times> 'e R1Package" where
  "R1Package_try_dequeue em p =
     (let p1 = p\<lparr>r1_emitter := ring_consumer_read em
            (consumer_slot_target (r1_queue p) (rd_slots (r1_distance p))) (r1_emitter p)\<rparr>;
          (r, q) = ring_try_dequeue (r1_queue p1)
      in (r, p1\<lparr>r1_queue := q\<rparr>))"

definition R1Package_try_enqueue_with_boundary_observer ::
  "'e ring_emitter \<Rightarrow> ('s \<Rightarrow> bool \<times> 's) \<Rightarrow> 'e R1Package \<Rightarrow> EventPointer \<Rightarrow> 's \<Rightarrow>
     BoundaryEnqueueResult \<times> 'e R1Package \<times> 's" where
  "R1Package_try_enqueue_with_boundary_observer em hook p event s =
     (let p1 = p\<lparr>r1_emitter := ring_producer_write em
            (producer_slot_target (r1_queue p) (rd_slots (r1_distance p))) (r1_emitter p)\<rparr>;
          (r, q, s') = ring_try_enqueue_with_boundary_observer hook (r1_queue p1) event s
      in (r, p1\<lparr>r1_queue := q\<rparr>, s'))"

definition R1Package_try_dequeue_with_boundary_observer ::
  "'e ring_emitter \<Rightarrow> ('s \<Rightarrow> bool \<times> 's) \<Rightarrow> 'e R1Package \<Rightarrow> 's \<Rightarrow>
     BoundaryDequeueResult \<times> 'e R1Package \<times> 's" where
  "R1Package_try_dequeue_with_boundary_observer em hook p s =
     (let p1 = p\<lparr>r1_emitter := ring_consumer_read em
            (consumer_slot_target (r1_queue p) (rd_slots (r1_distance p))) (r1_emitter p)\<rparr>;
          (r, q, s') = ring_try_dequeue_with_boundary_observer hook (r1_queue p1) s
      in (r, p1\<lparr>r1_queue := q\<rparr>, s'))"

subsection \<open>R2: a calibrated distance ahead\<close>

record 'e R2Package =
  r2_queue :: RingSpscQueue
  r2_emitter :: 'e
  r2_distance :: RingDistance

definition R2Package_create :: "RingSpscQueue \<Rightarrow> 'e \<Rightarrow> CalibratedRingDistance \<Rightarrow> 'e R2Package" where
  "R2Package_create queue emitter calibrated_distance =
     \<lparr>r2_queue = queue, r2_emitter = emitter, r2_distance = cd_distance calibrated_distance\<rparr>"

definition R2Package_try_enqueue ::
  "'e ring_emitter \<Rightarrow> 'e R2Package \<Rightarrow> EventPointer \<Rightarrow> EnqueueResult \<times> 'e R2Package" where
  "R2Package_try_enqueue em p event =
     (let p1 = p\<lparr>r2_emitter := ring_producer_write em
            (producer_slot_target (r2_queue p) (rd_slots (r2_distance p))) (r2_emitter p)\<rparr>;
          (r, q) = ring_try_enqueue (r2_queue p1) event
      in (r, p1\<lparr>r2_queue := q\<rparr>))"

definition R2Package_try_dequeue ::
  "'e ring_emitter \<Rightarrow> 'e R2Package \<Rightarrow> DequeueResult \<times> 'e R2Package" where
  "R2Package_try_dequeue em p =
     (let p1 = p\<lparr>r2_emitter := ring_consumer_read em
            (consumer_slot_target (r2_queue p) (rd_slots (r2_distance p))) (r2_emitter p)\<rparr>;
          (r, q) = ring_try_dequeue (r2_queue p1)
      in (r, p1\<lparr>r2_queue := q\<rparr>))"

definition R2Package_try_enqueue_with_boundary_observer ::
  "'e ring_emitter \<Rightarrow> ('s \<Rightarrow> bool \<times> 's) \<Rightarrow> 'e R2Package \<Rightarrow> EventPointer \<Rightarrow> 's \<Rightarrow>
     BoundaryEnqueueResult \<times> 'e R2Package \<times> 's" where
  "R2Package_try_enqueue_with_boundary_observer em hook p event s =
     (let p1 = p\<lparr>r2_emitter := ring_producer_write em
            (producer_slot_target (r2_queue p) (rd_slots (r2_distance p))) (r2_emitter p)\<rparr>;
          (r, q, s') = ring_try_enqueue_with_boundary_observer hook (r2_queue p1) event s
      in (r, p1\<lparr>r2_queue := q\<rparr>, s'))"

definition R2Package_try_dequeue_with_boundary_observer ::
  "'e ring_emitter \<Rightarrow> ('s \<Rightarrow> bool \<times> 's) \<Rightarrow> 'e R2Package \<Rightarrow> 's \<Rightarrow>
     BoundaryDequeueResult \<times> 'e R2Package \<times> 's" where
  "R2Package_try_dequeue_with_boundary_observer em hook p s =
     (let p1 = p\<lparr>r2_emitter := ring_consumer_read em
            (consumer_slot_target (r2_queue p) (rd_slots (r2_distance p))) (r2_emitter p)\<rparr>;
          (r, q, s') = ring_try_dequeue_with_boundary_observer hook (r2_queue p1) s
      in (r, p1\<lparr>r2_queue := q\<rparr>, s'))"

subsection \<open>L0 and L1: the linked queue\<close>

record L0Package =
  l0_queue :: LinkedSpscQueue

definition L0Package_try_enqueue :: "L0Package \<Rightarrow> EventPointer \<Rightarrow> EnqueueResult \<times> L0Package" where
  "L0Package_try_enqueue p event =
     (let (r, q) = linked_try_enqueue (l0_queue p) event in (r, p\<lparr>l0_queue := q\<rparr>))"

definition L0Package_try_dequeue :: "L0Package \<Rightarrow> DequeueResult \<times> L0Package" where
  "L0Package_try_dequeue p =
     (let (r, q) = linked_try_dequeue (l0_queue p) in (r, p\<lparr>l0_queue := q\<rparr>))"

definition L0Package_try_enqueue_with_boundary_observer ::
  "('s \<Rightarrow> bool \<times> 's) \<Rightarrow> L0Package \<Rightarrow> EventPointer \<Rightarrow> 's \<Rightarrow>
     BoundaryEnqueueResult \<times> L0Package \<times> 's" where
  "L0Package_try_enqueue_with_boundary_observer hook p event s =
     (let (r, q, s') = linked_try_enqueue_with_boundary_observer hook (l0_queue p) event s
      in (r, p\<lparr>l0_queue := q\<rparr>, s'))"

definition L0Package_try_dequeue_with_boundary_observer ::
  "('s \<Rightarrow> bool \<times> 's) \<Rightarrow> L0Package \<Rightarrow> 's \<Rightarrow> BoundaryDequeueResult \<times> L0Package \<times> 's" where
  "L0Package_try_dequeue_with_boundary_observer hook p s =
     (let (r, q, s') = linked_try_dequeue_with_boundary_observer hook (l0_queue p) s
      in (r, p\<lparr>l0_queue := q\<rparr>, s'))"

record 'e L1Package =
  l1_queue :: LinkedSpscQueue
  l1_emitter :: 'e

definition L1Package_try_enqueue :: "'e L1Package \<Rightarrow> EventPointer \<Rightarrow> EnqueueResult \<times> 'e L1Package" where
  "L1Package_try_enqueue p event =
     (let (r, q) = linked_try_enqueue (l1_queue p) event in (r, p\<lparr>l1_queue := q\<rparr>))"

definition L1Package_try_dequeue ::
  "(addr \<Rightarrow> 'e \<Rightarrow> 'e) \<Rightarrow> 'e L1Package \<Rightarrow> DequeueResult \<times> 'e L1Package" where
  "L1Package_try_dequeue prefetch p =
     (let (r, q, em) = linked_try_dequeue_with_successor_prefetch prefetch (l1_queue p) (l1_emitter p)
      in (r, p\<lparr>l1_queue := q, l1_emitter := em\<rparr>))"

definition L1Package_try_enqueue_with_boundary_observer ::
  "('s \<Rightarrow> bool \<times> 's) \<Rightarrow> 'e L1Package \<Rightarrow> EventPointer \<Rightarrow> 's \<Rightarrow>
     BoundaryEnqueueResult \<times> 'e L1Package \<times> 's" where
  "L1Package_try_enqueue_with_boundary_observer hook p event s =
     (let (r, q, s') = linked_try_enqueue_with_boundary_observer hook (l1_queue p) event s
      in (r, p\<lparr>l1_queue := q\<rparr>, s'))"

text \<open>The observer and the emitter are separate objects: the queue runs on the pair.\<close>

definition L1Package_try_dequeue_with_boundary_observer ::
  "(addr \<Rightarrow> 'e \<Rightarrow> 'e) \<Rightarrow> ('s \<Rightarrow> bool \<times> 's) \<Rightarrow> 'e L1Package \<Rightarrow> 's \<Rightarrow>
     BoundaryDequeueResult \<times> 'e L1Package \<times> 's" where
  "L1Package_try_dequeue_with_boundary_observer prefetch hook p s =
     (let (r, q, s', em) = linked_try_dequeue_with_boundary_and_prefetch
            (\<lambda>(s, em). let (ok, s') = hook s in (ok, s', em))
            (\<lambda>a (s, em). (s, prefetch a em)) (l1_queue p) (s, l1_emitter p)
      in (r, p\<lparr>l1_queue := q, l1_emitter := em\<rparr>, s'))"

subsection \<open>A package that only adds hints to its queue\<close>

locale transparent_package =
  fixes queue_of :: "'p \<Rightarrow> 'q"
    and enqueue :: "'q \<Rightarrow> EventPointer \<Rightarrow> EnqueueResult \<times> 'q"
    and dequeue :: "'q \<Rightarrow> DequeueResult \<times> 'q"
    and package_enqueue :: "'p \<Rightarrow> EventPointer \<Rightarrow> EnqueueResult \<times> 'p"
    and package_dequeue :: "'p \<Rightarrow> DequeueResult \<times> 'p"
  assumes enqueue_same: "map_prod id queue_of (package_enqueue p e) = enqueue (queue_of p) e"
    and dequeue_same: "map_prod id queue_of (package_dequeue p) = dequeue (queue_of p)"
begin

lemma run_same:
  "map_prod id queue_of (run_ops package_enqueue package_dequeue p ops) =
     run_ops enqueue dequeue (queue_of p) ops"
proof (induction ops arbitrary: p)
  case Nil
  then show ?case by simp
next
  case (Cons a ops)
  show ?case
  proof (cases a)
    case (Try_enqueue e)
    obtain r p1 where 1: "package_enqueue p e = (r, p1)" by fastforce
    then have "enqueue (queue_of p) e = (r, queue_of p1)" using enqueue_same [of p e] by simp
    then show ?thesis
      using 1 Cons.IH [of p1, symmetric] Try_enqueue by (simp add: map_prod_def split: prod.split)
  next
    case Try_dequeue
    obtain r p1 where 1: "package_dequeue p = (r, p1)" by fastforce
    then have "dequeue (queue_of p) = (r, queue_of p1)" using dequeue_same [of p] by simp
    then show ?thesis
      using 1 Cons.IH [of p1, symmetric] Try_dequeue by (simp add: map_prod_def split: prod.split)
  qed
qed

end

text \<open>The same for the operations with a boundary observer: the package is an observed FIFO.\<close>

locale observed_package =
  observed_fifo invar contents bound enqueue_ob dequeue_ob
  for invar :: "'q \<Rightarrow> bool"
    and contents :: "'q \<Rightarrow> addr list"
    and bound :: "'q \<Rightarrow> nat"
    and enqueue_ob :: "('s \<Rightarrow> bool \<times> 's) \<Rightarrow> 'q \<Rightarrow> EventPointer \<Rightarrow> 's \<Rightarrow>
      BoundaryEnqueueResult \<times> 'q \<times> 's"
    and dequeue_ob :: "('s \<Rightarrow> bool \<times> 's) \<Rightarrow> 'q \<Rightarrow> 's \<Rightarrow> BoundaryDequeueResult \<times> 'q \<times> 's" +
  fixes queue_of :: "'p \<Rightarrow> 'q"
    and package_enqueue_ob :: "('s \<Rightarrow> bool \<times> 's) \<Rightarrow> 'p \<Rightarrow> EventPointer \<Rightarrow> 's \<Rightarrow>
      BoundaryEnqueueResult \<times> 'p \<times> 's"
    and package_dequeue_ob :: "('s \<Rightarrow> bool \<times> 's) \<Rightarrow> 'p \<Rightarrow> 's \<Rightarrow> BoundaryDequeueResult \<times> 'p \<times> 's"
  assumes enqueue_ob_same: "map_prod id (map_prod queue_of id) (package_enqueue_ob hook p e s) =
      enqueue_ob hook (queue_of p) e s"
    and dequeue_ob_same: "map_prod id (map_prod queue_of id) (package_dequeue_ob hook p s) =
      dequeue_ob hook (queue_of p) s"
begin

lemma package_enqueue_lift:
  assumes "enqueue_ob hook (queue_of p) e s = (r, q', s')"
  obtains p' where "package_enqueue_ob hook p e s = (r, p', s')" and "queue_of p' = q'"
  using assms enqueue_ob_same [of hook p e s]
  by (cases "package_enqueue_ob hook p e s") auto

lemma package_dequeue_lift:
  assumes "dequeue_ob hook (queue_of p) s = (r, q', s')"
  obtains p' where "package_dequeue_ob hook p s = (r, p', s')" and "queue_of p' = q'"
  using assms dequeue_ob_same [of hook p s]
  by (cases "package_dequeue_ob hook p s") auto

end

sublocale observed_package \<subseteq> package: observed_fifo "\<lambda>p. invar (queue_of p)"
  "\<lambda>p. contents (queue_of p)" "\<lambda>p. bound (queue_of p)" package_enqueue_ob package_dequeue_ob
proof (unfold_locales, goal_cases)
  case (1 p e hook s)
  then show ?case using enqueue_full [of "queue_of p" e hook s] package_enqueue_lift by metis
next
  case (2 p e hook s ok s')
  then obtain q' where q': "invar q'" "if ok
      then enqueue_ob hook (queue_of p) e s =
          (\<lparr>be_status = Boundary_complete, be_result = Enq_accepted\<rparr>, q', s') \<and>
        contents q' = contents (queue_of p) @ [get_ptr e] \<and> bound q' = bound (queue_of p)
      else enqueue_ob hook (queue_of p) e s =
          (\<lparr>be_status = Boundary_capture_failed, be_result = Enq_full\<rparr>, q', s') \<and>
        contents q' = contents (queue_of p)"
    using enqueue_room [of "queue_of p" e hook s ok s'] by blast
  then show ?case by (cases ok) (auto elim!: package_enqueue_lift [where p = p])
next
  case (3 p hook s)
  then show ?case using dequeue_none [of "queue_of p" hook s] package_dequeue_lift by metis
next
  case (4 p x xs hook s ok s')
  then obtain q' where q': "invar q'" "bound q' = bound (queue_of p)" "if ok
      then dequeue_ob hook (queue_of p) s = (\<lparr>bd_status = Boundary_complete,
          bd_result = \<lparr>dr_status = Deq_item, dr_event = x\<rparr>\<rparr>, q', s') \<and> contents q' = xs
      else dequeue_ob hook (queue_of p) s = (\<lparr>bd_status = Boundary_capture_failed,
          bd_result = \<lparr>dr_status = Deq_empty, dr_event = nullptr\<rparr>\<rparr>, q', s') \<and>
        contents q' = x # xs"
    using dequeue_some [of "queue_of p" x xs hook s ok s'] by blast
  then show ?case by (cases ok) (auto elim!: package_dequeue_lift [where p = p])
next
  case (5 p)
  then show ?case by (rule room)
next
  case (6 p x)
  then show ?case by (rule contents_nonnull)
qed

interpretation r0: observed_package ring_invar ring_contents ring_bound
  ring_try_enqueue_with_boundary_observer ring_try_dequeue_with_boundary_observer
  r0_queue R0Package_try_enqueue_with_boundary_observer R0Package_try_dequeue_with_boundary_observer
  by unfold_locales
    (simp_all add: R0Package_try_enqueue_with_boundary_observer_def
      R0Package_try_dequeue_with_boundary_observer_def split: prod.split)

interpretation r1: observed_package ring_invar ring_contents ring_bound
  ring_try_enqueue_with_boundary_observer ring_try_dequeue_with_boundary_observer r1_queue
  "R1Package_try_enqueue_with_boundary_observer em" "R1Package_try_dequeue_with_boundary_observer em"
  for em :: "'e ring_emitter"
  by unfold_locales
    (simp_all add: R1Package_try_enqueue_with_boundary_observer_def
      R1Package_try_dequeue_with_boundary_observer_def Let_def split: prod.split)

interpretation r2: observed_package ring_invar ring_contents ring_bound
  ring_try_enqueue_with_boundary_observer ring_try_dequeue_with_boundary_observer r2_queue
  "R2Package_try_enqueue_with_boundary_observer em" "R2Package_try_dequeue_with_boundary_observer em"
  for em :: "'e ring_emitter"
  by unfold_locales
    (simp_all add: R2Package_try_enqueue_with_boundary_observer_def
      R2Package_try_dequeue_with_boundary_observer_def Let_def split: prod.split)

interpretation l0: observed_package linked_invar linked_contents linked_bound
  linked_try_enqueue_with_boundary_observer linked_try_dequeue_with_boundary_observer
  l0_queue L0Package_try_enqueue_with_boundary_observer L0Package_try_dequeue_with_boundary_observer
  by unfold_locales
    (simp_all add: L0Package_try_enqueue_with_boundary_observer_def
      L0Package_try_dequeue_with_boundary_observer_def split: prod.split)

interpretation l1: observed_package linked_invar linked_contents linked_bound
  linked_try_enqueue_with_boundary_observer linked_try_dequeue_with_boundary_observer
  l1_queue L1Package_try_enqueue_with_boundary_observer
  "L1Package_try_dequeue_with_boundary_observer prefetch"
  for prefetch :: "addr \<Rightarrow> 'e \<Rightarrow> 'e"
  by unfold_locales
    (simp_all add: L1Package_try_enqueue_with_boundary_observer_def
      L1Package_try_dequeue_with_boundary_observer_def
      linked_try_dequeue_with_boundary_and_prefetch_def
      linked_try_dequeue_with_boundary_observer_def linked_try_dequeue_observed_def Let_def
      split: prod.split)

interpretation r1_plain: transparent_package r1_queue ring_try_enqueue ring_try_dequeue
  "R1Package_try_enqueue em" "R1Package_try_dequeue em" for em :: "'e ring_emitter"
  by unfold_locales
    (simp_all add: R1Package_try_enqueue_def R1Package_try_dequeue_def Let_def split: prod.split)

interpretation r2_plain: transparent_package r2_queue ring_try_enqueue ring_try_dequeue
  "R2Package_try_enqueue em" "R2Package_try_dequeue em" for em :: "'e ring_emitter"
  by unfold_locales
    (simp_all add: R2Package_try_enqueue_def R2Package_try_dequeue_def Let_def split: prod.split)

interpretation r0_plain: transparent_package r0_queue ring_try_enqueue ring_try_dequeue
  R0Package_try_enqueue R0Package_try_dequeue
  by unfold_locales
    (simp_all add: R0Package_try_enqueue_def R0Package_try_dequeue_def split: prod.split)

interpretation l0_plain: transparent_package l0_queue linked_try_enqueue linked_try_dequeue
  L0Package_try_enqueue L0Package_try_dequeue
  by unfold_locales
    (simp_all add: L0Package_try_enqueue_def L0Package_try_dequeue_def split: prod.split)

interpretation l1_plain: transparent_package l1_queue linked_try_enqueue linked_try_dequeue
  L1Package_try_enqueue "L1Package_try_dequeue prefetch" for prefetch :: "addr \<Rightarrow> 'e \<Rightarrow> 'e"
  by unfold_locales
    (simp_all add: L1Package_try_enqueue_def L1Package_try_dequeue_def
      linked_try_dequeue_with_successor_prefetch_def linked_try_dequeue_def
      linked_try_dequeue_observed_def Let_def split: prod.split)

subsection \<open>Distances\<close>

lemma div_round_up:
  assumes "0 < (m :: nat)"
  shows "n \<le> (n div m + (if n mod m = 0 then 0 else 1)) * m"
proof -
  have n: "n div m * m + n mod m = n" by (rule div_mult_mod_eq)
  show ?thesis
  proof (cases "n mod m = 0")
    case True
    with n show ?thesis by simp
  next
    case False
    have "n mod m < m" using assms by simp
    with n have "n \<le> n div m * m + m" by linarith
    with False show ?thesis by (simp add: add_mult_distrib)
  qed
qed

lemma ring_one_line_distance_Inr:
  assumes "ring_one_line_distance g = Inr d"
  shows "rd_cache_lines d = 1" and "rd_slots d \<noteq> 0" and "rd_slots d < rg_capacity g"
    and "unat (rg_cache_line_bytes g) \<le> unat (rd_slots d) * unat (rg_slot_bytes g)"
proof -
  let ?l = "rg_cache_line_bytes g" and ?b = "rg_slot_bytes g"
  have b: "0 < unat ?b" and d: "rd_slots d = ?l div ?b + (if ?l mod ?b = 0 then 0 else 1)"
    and "rd_cache_lines d = 1" "rd_slots d \<noteq> 0" "rd_slots d < rg_capacity g"
    using assms by (auto simp: ring_one_line_distance_def Let_def word_eq_unat split: if_splits)
  then show "rd_cache_lines d = 1" "rd_slots d \<noteq> 0" "rd_slots d < rg_capacity g" by auto
  have z: "?l mod ?b = 0 \<longleftrightarrow> unat ?l mod unat ?b = 0" by (simp add: word_eq_unat unat_mod)
  have "unat (rd_slots d) = unat ?l div unat ?b + (if unat ?l mod unat ?b = 0 then 0 else 1)"
  proof (cases "?l mod ?b = 0")
    case True
    then show ?thesis using z by (simp add: d unat_div)
  next
    case False
    then have "unat ?l mod unat ?b \<noteq> 0" using z by simp
    then have "unat ?b \<noteq> 1" by auto
    then have "unat ?l div unat ?b + 1 < 2 ^ 64"
      using b unat_u64_lt_num [of ?l] div_le_mono2 [of 2 "unat ?b" "unat ?l"] by simp
    then show ?thesis
      using False z by (simp add: d unat_div unat_plus_u64)
  qed
  then show "unat ?l \<le> unat (rd_slots d) * unat ?b" using div_round_up [OF b] by simp
qed

subsection \<open>Properties\<close>


text \<open>
  A calibrated distance is at least two cache lines of slots, covers that many lines
  without wrapping, is at most a quarter of the ring, and so never names the slot in use.
\<close>

theorem calibrated_distance_sound:
  assumes "resolve_calibrated_ring_distance g lines evidence = Inr d"
    and "rq_capacity q = rg_capacity g" and "position < rq_capacity q"
  shows "evidence \<noteq> [] \<and> 2 \<le> unat lines \<and> rd_cache_lines (cd_distance d) = lines \<and>
    unat lines * unat (rg_cache_line_bytes g) \<le>
      unat (rd_slots (cd_distance d)) * unat (rg_slot_bytes g) \<and>
    4 * unat (rd_slots (cd_distance d)) \<le> unat (rg_capacity g) \<and>
    position_at_distance q position (rd_slots (cd_distance d)) \<noteq> position"
proof -
  obtain one where one: "ring_one_line_distance g = Inr one"
    and evidence: "evidence \<noteq> []" and lines: "2 \<le> lines"
    and mul: "unat (rd_slots one) * unat lines < 2 ^ 64"
    and cap: "rd_slots one * lines \<le> rg_capacity g div 4"
    and d: "d = \<lparr>cd_distance = \<lparr>rd_slots = rd_slots one * lines, rd_cache_lines = lines\<rparr>,
      calibration_evidence_id = evidence\<rparr>"
    using assms(1)
    by (auto simp: resolve_calibrated_ring_distance_def distance_checked_multiply_def overflow_guard
        split: sum.splits if_splits)
  let ?n = "unat (rd_slots one) * unat lines"
  note o = ring_one_line_distance_Inr [OF one]
  have n: "unat (rd_slots one * lines) = ?n" by (rule unat_times_u64) (rule mul)
  have l2: "2 \<le> unat lines" using lines by (simp add: word_le_nat_alt)
  have pos: "0 < ?n" using o(2) l2 by (simp add: word_eq_unat)
  have q: "4 * ?n \<le> unat (rg_capacity g)"
    using cap by (simp add: word_le_nat_alt n unat_div)
  have "unat position < unat (rq_capacity q)" using assms(3) by (simp add: word_less_nat_alt)
  then have "unat (position_at_distance q position (rd_slots one * lines)) =
      (unat position + ?n) mod unat (rq_capacity q)"
    using position_at_distance_nat [of position q "rd_slots one * lines"] n by simp
  moreover have "(unat position + ?n) mod unat (rq_capacity q) \<noteq> unat position"
    using pos q assms(2) \<open>unat position < unat (rq_capacity q)\<close>
    by (cases "unat position + ?n < unat (rq_capacity q)") (auto simp: mod_if)
  moreover have "unat lines * unat (rg_cache_line_bytes g) \<le> ?n * unat (rg_slot_bytes g)"
    using mult_le_mono2 [OF o(4), of "unat lines"] by (simp add: ac_simps)
  ultimately show ?thesis
    using evidence l2 q d n by (auto simp: word_eq_unat)
qed

theorem calibrated_distance_sound_witness:
  "resolve_calibrated_ring_distance
     \<lparr>rg_capacity = 128, rg_cache_line_bytes = 64, rg_slot_bytes = 8\<rparr> 3 ''cal'' =
     Inr \<lparr>cd_distance = \<lparr>rd_slots = 24, rd_cache_lines = 3\<rparr>, calibration_evidence_id = ''cal''\<rparr> \<and>
   position_at_distance (ring_example\<lparr>rq_capacity := 128\<rparr>) 120 24 \<noteq> 120"
proof -
  have r: "resolve_calibrated_ring_distance
     \<lparr>rg_capacity = 128, rg_cache_line_bytes = 64, rg_slot_bytes = 8\<rparr> 3 ''cal'' =
     Inr \<lparr>cd_distance = \<lparr>rd_slots = 24, rd_cache_lines = 3\<rparr>, calibration_evidence_id = ''cal''\<rparr>"
    by code_simp
  from calibrated_distance_sound [OF r, of "ring_example\<lparr>rq_capacity := 128\<rparr>" 120] r
  show ?thesis by simp
qed

text \<open>An emitter that records the addresses it is given.\<close>

definition tracing_emitter :: "addr list ring_emitter" where
  "tracing_emitter =
     \<lparr>ring_producer_write = (\<lambda>a tr. tr @ [a]), ring_consumer_read = (\<lambda>a tr. tr @ [a])\<rparr>"

definition slot_addresses :: "RingSpscQueue \<Rightarrow> addr set" where
  "slot_addresses q = {a. \<exists>i < unat (rq_capacity q). unat a = unat (block_data (rq_slot_storage q)) + 8 * i}"

lemma ring_targets_in_slots:
  assumes "ring_invar q"
    and "unat (block_data (rq_slot_storage q)) + unat (rq_capacity q) * 8 \<le> 2 ^ 64"
  shows "producer_slot_target q d \<in> slot_addresses q" and "consumer_slot_target q d \<in> slot_addresses q"
proof -
  have p: "rq_producer_position q < rq_capacity q" and c: "rq_consumer_position q < rq_capacity q"
    using ring_producer_lt [OF assms(1)] ring_consumer_lt [OF assms(1)]
    by (simp_all add: word_less_nat_alt)
  have n: "0 < unat (rq_capacity q)" using ring_producer_lt [OF assms(1)] by linarith
  show "producer_slot_target q d \<in> slot_addresses q"
    using slot_target_in_ring(1) [OF p assms(2), of d] mod_less_divisor [OF n]
    unfolding producer_slot_target_def slot_addresses_def by blast
  show "consumer_slot_target q d \<in> slot_addresses q"
    using slot_target_in_ring(1) [OF c assms(2), of d] mod_less_divisor [OF n]
    unfolding consumer_slot_target_def slot_addresses_def by blast
qed

lemma ring_ops_static:
  "ring_try_enqueue q e = (r, q') \<Longrightarrow>
     rq_capacity q' = rq_capacity q \<and> rq_slot_storage q' = rq_slot_storage q"
  "ring_try_dequeue q = (d, q') \<Longrightarrow>
     rq_capacity q' = rq_capacity q \<and> rq_slot_storage q' = rq_slot_storage q"
  by (auto simp: ring_try_enqueue_def ring_try_enqueue_observed_def ring_try_dequeue_def
      ring_try_dequeue_observed_def ring_enqueue_boundary_observer_def
      ring_dequeue_boundary_observer_def Let_def split: if_splits)

lemma slot_addresses_static:
  "rq_capacity q' = rq_capacity q \<Longrightarrow> rq_slot_storage q' = rq_slot_storage q \<Longrightarrow>
     slot_addresses q' = slot_addresses q"
  by (simp add: slot_addresses_def)

lemma R1_trace:
  assumes "ring_invar (r1_queue p)" and "list_all op_ok ops"
    and "unat (block_data (rq_slot_storage (r1_queue p))) + unat (rq_capacity (r1_queue p)) * 8 \<le> 2 ^ 64"
    and "run_ops (R1Package_try_enqueue tracing_emitter) (R1Package_try_dequeue tracing_emitter) p ops =
      (outs, p')"
  shows "\<exists>tr. r1_emitter p' = r1_emitter p @ tr \<and> length tr = length ops \<and>
    set tr \<subseteq> slot_addresses (r1_queue p)"
  using assms
proof (induction ops arbitrary: p outs)
  case Nil
  then show ?case by simp
next
  case (Cons a ops)
  show ?case
  proof (cases a)
    case (Try_enqueue e)
    obtain r q1 where e: "ring_try_enqueue (r1_queue p) e = (r, q1)" by fastforce
    let ?t = "producer_slot_target (r1_queue p) (rd_slots (r1_distance p))"
    let ?p = "p\<lparr>r1_emitter := r1_emitter p @ [?t], r1_queue := q1\<rparr>"
    have "R1Package_try_enqueue tracing_emitter p e = (r, ?p)"
      using e by (simp add: R1Package_try_enqueue_def tracing_emitter_def)
    with Cons.prems(4) Try_enqueue obtain outs1 where
      run: "run_ops (R1Package_try_enqueue tracing_emitter) (R1Package_try_dequeue tracing_emitter)
        ?p ops = (outs1, p')" by (auto split: prod.splits)
    have st: "rq_capacity q1 = rq_capacity (r1_queue p)"
        "rq_slot_storage q1 = rq_slot_storage (r1_queue p)"
      and inv: "ring_invar q1"
      using ring_ops_static(1) [OF e] ring_plain.enqueue_refines [OF Cons.prems(1) _ e]
        Cons.prems(2) Try_enqueue by auto
    have "slot_addresses q1 = slot_addresses (r1_queue p)" by (rule slot_addresses_static) (fact st)+
    with Cons.IH [OF _ _ _ run] inv Cons.prems(2,3) st obtain tr where
      "r1_emitter p' = (r1_emitter p @ [?t]) @ tr" "length tr = length ops"
      "set tr \<subseteq> slot_addresses (r1_queue p)"
      by auto
    then show ?thesis
      using ring_targets_in_slots(1) [OF Cons.prems(1,3)] by (intro exI [of _ "?t # tr"]) auto
  next
    case Try_dequeue
    obtain r q1 where e: "ring_try_dequeue (r1_queue p) = (r, q1)" by fastforce
    let ?t = "consumer_slot_target (r1_queue p) (rd_slots (r1_distance p))"
    let ?p = "p\<lparr>r1_emitter := r1_emitter p @ [?t], r1_queue := q1\<rparr>"
    have "R1Package_try_dequeue tracing_emitter p = (r, ?p)"
      using e by (simp add: R1Package_try_dequeue_def tracing_emitter_def)
    with Cons.prems(4) Try_dequeue obtain outs1 where
      run: "run_ops (R1Package_try_enqueue tracing_emitter) (R1Package_try_dequeue tracing_emitter)
        ?p ops = (outs1, p')" by (auto split: prod.splits)
    have st: "rq_capacity q1 = rq_capacity (r1_queue p)"
        "rq_slot_storage q1 = rq_slot_storage (r1_queue p)"
      and inv: "ring_invar q1"
      using ring_ops_static(2) [OF e] ring_plain.dequeue_refines [OF Cons.prems(1) e] by auto
    have "slot_addresses q1 = slot_addresses (r1_queue p)" by (rule slot_addresses_static) (fact st)+
    with Cons.IH [OF _ _ _ run] inv Cons.prems(2,3) st obtain tr where
      "r1_emitter p' = (r1_emitter p @ [?t]) @ tr" "length tr = length ops"
      "set tr \<subseteq> slot_addresses (r1_queue p)"
      by auto
    then show ?thesis
      using ring_targets_in_slots(2) [OF Cons.prems(1,3)] by (intro exI [of _ "?t # tr"]) auto
  qed
qed

text \<open>
  Every prefetch of R1 hits the ring: from a fresh ring whose slot array does not wrap
  around the address space, any history issues exactly one prefetch per call, each at the
  address of a slot of the array.
\<close>

theorem R1_prefetches_in_ring:
  assumes "RingSpscQueue_create (Some base) cursors capacity line = Inr q"
    and "unat base + unat capacity * 8 \<le> 2 ^ 64" and "list_all op_ok ops"
    and "run_ops (R1Package_try_enqueue tracing_emitter) (R1Package_try_dequeue tracing_emitter)
      (R1Package_create q [] distance) ops = (outs, p)"
  shows "length (r1_emitter p) = length ops \<and>
    (\<forall>a \<in> set (r1_emitter p). \<exists>i < unat capacity. unat a = unat base + 8 * i)"
proof -
  have q: "ring_invar q" "block_data (rq_slot_storage q) = base" "rq_capacity q = capacity"
    using ring_create_invar [OF assms(1)] assms(1) by (auto simp: RingSpscQueue_create_Inr)
  from R1_trace [of "R1Package_create q [] distance" ops outs p] assms(2-4) q show ?thesis
    by (auto simp: R1Package_create_def slot_addresses_def)
qed

theorem R1_prefetches_in_ring_witness:
  "\<exists>outs p. run_ops (R1Package_try_enqueue tracing_emitter) (R1Package_try_dequeue tracing_emitter)
      (R1Package_create ring_example [] \<lparr>rd_slots = 1, rd_cache_lines = 1\<rparr>)
      [Try_enqueue (EventPointer 64), Try_dequeue] = (outs, p) \<and> length (r1_emitter p) = 2"
proof -
  let ?ops = "[Try_enqueue (EventPointer 64), Try_dequeue]"
  obtain outs p where run: "run_ops (R1Package_try_enqueue tracing_emitter)
      (R1Package_try_dequeue tracing_emitter)
      (R1Package_create ring_example [] \<lparr>rd_slots = 1, rd_cache_lines = 1\<rparr>) ?ops = (outs, p)"
    by fastforce
  from R1_prefetches_in_ring [OF ring_example_create _ _ run] run show ?thesis by auto
qed

end
