(* ===== verification/Timing_Capture.thy ===== *)
theory Timing_Capture
  imports Timing_Clock Records Packages
begin

text \<open>
  Capture of one producer attempt and of one consumer poll: \<^verbatim>\<open>timing/capture.hpp\<close> and
  \<^verbatim>\<open>timing/capture.cpp\<close>. Both functions are templates over the clock and the queue package, so
  the clock's \<^verbatim>\<open>read\<close> and the package's observed operations are arguments of the definitions;
  \<open>'c\<close> is the state of the clock, \<open>'p\<close> the package. The local \<^verbatim>\<open>BoundaryObserver\<close> is a hook on
  the clock's state and its member \<^verbatim>\<open>reading\<close>.
\<close>

subsection \<open>Observations and results\<close>

datatype CaptureStatus =
  Capture_complete | Capture_empty | Capture_clock_failure | Capture_queue_failure
  | Capture_record_failure

datatype TimestampBoundary =
  TB_producer_handle_begin | TB_record_lookup_completion | TB_enqueue_invocation
  | TB_enqueue_linearization | TB_enqueue_attempt_completion | TB_dequeue_invocation
  | TB_dequeue_linearization | TB_dequeue_completion | TB_consumer_action_completion

record ProducerObservation =
  po_logical_sequence :: u64
  po_record_index :: u64
  po_scheduled_arrival :: u64
  po_producer_handle_begin :: ClockSample
  po_record_lookup_completion :: ClockSample
  po_enqueue_invocation :: ClockSample
  po_enqueue_linearization :: "ClockSample option"
  po_enqueue_attempt_completion :: ClockSample
  po_outcome :: ProducerOutcome
  po_accepted_ordinal :: "u64 option"

record ConsumerObservation =
  co_consumed_ordinal :: u64
  co_observed_record_index :: u64
  co_dequeue_invocation :: ClockSample
  co_dequeue_linearization :: ClockSample
  co_dequeue_completion :: ClockSample
  co_consumer_action_completion :: ClockSample

record ProducerCaptureResult =
  pc_status :: CaptureStatus
  pc_failed_boundary :: "TimestampBoundary option"
  pc_clock_status :: ClockReadStatus
  pc_observation :: "ProducerObservation option"

record ConsumerCaptureResult =
  cc_status :: CaptureStatus
  cc_failed_boundary :: "TimestampBoundary option"
  cc_clock_status :: ClockReadStatus
  cc_record_status :: RecordAccessStatus
  cc_observation :: "ConsumerObservation option"

definition producer_clock_failure ::
  "TimestampBoundary \<Rightarrow> ClockReadStatus \<Rightarrow> ProducerCaptureResult" where
  "producer_clock_failure boundary status =
     \<lparr>pc_status = Capture_clock_failure, pc_failed_boundary = Some boundary,
      pc_clock_status = status, pc_observation = None\<rparr>"

definition consumer_clock_failure ::
  "TimestampBoundary \<Rightarrow> ClockReadStatus \<Rightarrow> ConsumerCaptureResult" where
  "consumer_clock_failure boundary status =
     \<lparr>cc_status = Capture_clock_failure, cc_failed_boundary = Some boundary,
      cc_clock_status = status, cc_record_status = RA_valid, cc_observation = None\<rparr>"

subsection \<open>The capture functions\<close>

type_synonym 'c boundary_state = "'c \<times> ClockReadResult"

type_synonym ('c, 'p) enqueue_fun =
  "('c boundary_state \<Rightarrow> bool \<times> 'c boundary_state) \<Rightarrow> 'p \<Rightarrow> EventPointer \<Rightarrow> 'c boundary_state \<Rightarrow>
     BoundaryEnqueueResult \<times> 'p \<times> 'c boundary_state"

type_synonym ('c, 'p) dequeue_fun =
  "('c boundary_state \<Rightarrow> bool \<times> 'c boundary_state) \<Rightarrow> 'p \<Rightarrow> 'c boundary_state \<Rightarrow>
     BoundaryDequeueResult \<times> 'p \<times> 'c boundary_state"

definition unread :: ClockReadResult where
  "unread = \<lparr>clock_status = Clock_call_failed, clock_sample = no_sample\<rparr>"

definition BoundaryObserver_hook ::
  "('c \<Rightarrow> ClockReadResult \<times> 'c) \<Rightarrow> 'c boundary_state \<Rightarrow> bool \<times> 'c boundary_state" where
  "BoundaryObserver_hook clock s =
     (let (reading, c) = clock (fst s) in (clock_status reading = Clock_ok, c, reading))"

definition capture_due_producer_attempt ::
  "('c \<Rightarrow> ClockReadResult \<times> 'c) \<Rightarrow> ('c, 'p) enqueue_fun \<Rightarrow> EventArena \<Rightarrow> 'p \<Rightarrow> u64 \<Rightarrow> u64 \<Rightarrow> u64 \<Rightarrow>
     'c \<Rightarrow> ProducerCaptureResult \<times> 'p \<times> 'c" where
  "capture_due_producer_attempt clock enqueue_ob arena package logical_sequence scheduled_arrival
       candidate_accepted_ordinal c =
     (let (handle_begin, c1) = clock c in
      if clock_status handle_begin \<noteq> Clock_ok
      then (producer_clock_failure TB_producer_handle_begin (clock_status handle_begin), package, c1)
      else
        let selection = select arena logical_sequence;
            (lookup_completion, c2) = clock c1
        in if clock_status lookup_completion \<noteq> Clock_ok
           then (producer_clock_failure TB_record_lookup_completion (clock_status lookup_completion),
                 package, c2)
           else
            (case EventPointer_from (es_record selection) of
               None \<Rightarrow> (\<lparr>pc_status = Capture_record_failure, pc_failed_boundary = None,
                          pc_clock_status = Clock_ok, pc_observation = None\<rparr>, package, c2)
             | Some pointer \<Rightarrow>
                let (enqueue_invocation, c3) = clock c2 in
                if clock_status enqueue_invocation \<noteq> Clock_ok
                then (producer_clock_failure TB_enqueue_invocation (clock_status enqueue_invocation),
                      package, c3)
                else
                  let (queue_result, package', c4, reading) =
                        enqueue_ob (BoundaryObserver_hook clock) package pointer (c3, unread)
                  in if be_status queue_result = Boundary_capture_failed
                     then (producer_clock_failure TB_enqueue_linearization (clock_status reading),
                           package', c4)
                     else
                       let (attempt_completion, c5) = clock c4 in
                       if clock_status attempt_completion \<noteq> Clock_ok
                       then (producer_clock_failure TB_enqueue_attempt_completion
                               (clock_status attempt_completion), package', c5)
                       else
                         let accepted = (be_result queue_result = Enq_accepted)
                         in (\<lparr>pc_status = Capture_complete, pc_failed_boundary = None,
                              pc_clock_status = Clock_ok,
                              pc_observation = Some
                               \<lparr>po_logical_sequence = logical_sequence,
                                po_record_index = es_record_index selection,
                                po_scheduled_arrival = scheduled_arrival,
                                po_producer_handle_begin = clock_sample handle_begin,
                                po_record_lookup_completion = clock_sample lookup_completion,
                                po_enqueue_invocation = clock_sample enqueue_invocation,
                                po_enqueue_linearization =
                                  (if accepted then Some (clock_sample reading) else None),
                                po_enqueue_attempt_completion = clock_sample attempt_completion,
                                po_outcome = (if accepted then Outcome_accepted else Outcome_full),
                                po_accepted_ordinal =
                                  (if accepted then Some candidate_accepted_ordinal else None)\<rparr>\<rparr>,
                             package', c5)))"

definition capture_dequeue_poll ::
  "('c \<Rightarrow> ClockReadResult \<times> 'c) \<Rightarrow> ('c, 'p) dequeue_fun \<Rightarrow> EventArena \<Rightarrow> 'p \<Rightarrow> u64 \<Rightarrow> u64 \<Rightarrow>
     'c \<Rightarrow> ConsumerCaptureResult \<times> 'p \<times> u64 \<times> 'c" where
  "capture_dequeue_poll clock dequeue_ob arena package consumer_state consumed_ordinal c =
     (let (dequeue_invocation, c1) = clock c in
      if clock_status dequeue_invocation \<noteq> Clock_ok
      then (consumer_clock_failure TB_dequeue_invocation (clock_status dequeue_invocation),
            package, consumer_state, c1)
      else
        let (queue_result, package', c2, reading) =
              dequeue_ob (BoundaryObserver_hook clock) package (c1, unread)
        in if bd_status queue_result = Boundary_capture_failed
           then (consumer_clock_failure TB_dequeue_linearization (clock_status reading),
                 package', consumer_state, c2)
           else if dr_status (bd_result queue_result) = Deq_empty
           then (\<lparr>cc_status = Capture_empty, cc_failed_boundary = None, cc_clock_status = Clock_ok,
                  cc_record_status = RA_valid, cc_observation = None\<rparr>, package', consumer_state, c2)
           else if dr_status (bd_result queue_result) \<noteq> Deq_item
           then (\<lparr>cc_status = Capture_queue_failure, cc_failed_boundary = None,
                  cc_clock_status = Clock_ok, cc_record_status = RA_valid, cc_observation = None\<rparr>,
                 package', consumer_state, c2)
           else
             let (dequeue_completion, c3) = clock c2 in
             if clock_status dequeue_completion \<noteq> Clock_ok
             then (consumer_clock_failure TB_dequeue_completion (clock_status dequeue_completion),
                   package', consumer_state, c3)
             else
               let (access, consumer_state') =
                     access_and_mix arena (dr_event (bd_result queue_result)) consumer_state
               in if ra_status access \<noteq> RA_valid
                  then (\<lparr>cc_status = Capture_record_failure, cc_failed_boundary = None,
                         cc_clock_status = Clock_ok, cc_record_status = ra_status access,
                         cc_observation = None\<rparr>, package', consumer_state', c3)
                  else
                    let (action_completion, c4) = clock c3 in
                    if clock_status action_completion \<noteq> Clock_ok
                    then (consumer_clock_failure TB_consumer_action_completion
                            (clock_status action_completion), package', consumer_state', c4)
                    else (\<lparr>cc_status = Capture_complete, cc_failed_boundary = None,
                           cc_clock_status = Clock_ok, cc_record_status = RA_valid,
                           cc_observation = Some
                             \<lparr>co_consumed_ordinal = consumed_ordinal,
                              co_observed_record_index = ra_record_index access,
                              co_dequeue_invocation = clock_sample dequeue_invocation,
                              co_dequeue_linearization = clock_sample reading,
                              co_dequeue_completion = clock_sample dequeue_completion,
                              co_consumer_action_completion = clock_sample action_completion\<rparr>\<rparr>,
                          package', consumer_state', c4))"

definition make_producer_record :: "Identifier \<Rightarrow> ProducerObservation \<Rightarrow> ProducerRecord" where
  "make_producer_record run_id observation =
     \<lparr>pr_run_id = run_id, pr_logical_sequence = po_logical_sequence observation,
      pr_record_index = po_record_index observation,
      pr_scheduled_arrival = po_scheduled_arrival observation,
      pr_producer_handle_begin = relative_picoseconds (po_producer_handle_begin observation),
      pr_record_lookup_completion = relative_picoseconds (po_record_lookup_completion observation),
      pr_enqueue_invocation = relative_picoseconds (po_enqueue_invocation observation),
      pr_enqueue_linearization =
        map_option relative_picoseconds (po_enqueue_linearization observation),
      pr_enqueue_attempt_completion = relative_picoseconds (po_enqueue_attempt_completion observation),
      pr_outcome = po_outcome observation,
      pr_accepted_ordinal = po_accepted_ordinal observation\<rparr>"

definition make_consumer_record :: "Identifier \<Rightarrow> ConsumerObservation \<Rightarrow> ConsumerRecord" where
  "make_consumer_record run_id observation =
     \<lparr>cr_run_id = run_id, cr_consumed_ordinal = co_consumed_ordinal observation,
      cr_observed_record_index = co_observed_record_index observation,
      cr_dequeue_invocation = relative_picoseconds (co_dequeue_invocation observation),
      cr_dequeue_linearization = relative_picoseconds (co_dequeue_linearization observation),
      cr_dequeue_completion = relative_picoseconds (co_dequeue_completion observation),
      cr_consumer_action_completion =
        relative_picoseconds (co_consumer_action_completion observation)\<rparr>"

subsection \<open>What a capture does to the queue\<close>

text \<open>An arena that was constructed, at addresses that do not wrap around or include null.\<close>

definition arena_ready :: "EventArena \<Rightarrow> bool" where
  "arena_ready a \<longleftrightarrow> arena_in_memory a \<and> ea_storage a \<noteq> nullptr \<and>
     (\<exists>hmac sha allocated config. EventArena_create hmac sha allocated config = Inr a)"

definition arena_pointers :: "EventArena \<Rightarrow> addr set" where
  "arena_pointers a = line_at a ` {i. i < ea_capacity a}"

lemma arena_pointer_nonnull: "arena_ready a \<Longrightarrow> x \<in> arena_pointers a \<Longrightarrow> x \<noteq> nullptr"
  unfolding arena_ready_def arena_pointers_def
  by (metis (no_types, lifting) imageE line_offset(1) mem_Collect_eq word_le_0_iff)

lemma select_pointer:
  assumes "arena_ready a"
  shows "es_record (select a n) \<in> arena_pointers a"
    and "es_record (select a n) = line_at a (es_record_index (select a n))"
    and "EventPointer_from (es_record (select a n)) = Some (EventPointer (es_record (select a n)))"
proof -
  obtain hmac sha allocated config where "EventArena_create hmac sha allocated config = Inr a"
    using assms by (auto simp: arena_ready_def)
  note s = select_facts [OF this, of n]
  show "es_record (select a n) = line_at a (es_record_index (select a n))" by (rule s(2))
  show p: "es_record (select a n) \<in> arena_pointers a" using s by (auto simp: arena_pointers_def)
  show "EventPointer_from (es_record (select a n)) = Some (EventPointer (es_record (select a n)))"
    using arena_pointer_nonnull [OF assms p] by simp
qed

lemma access_pointer:
  assumes "arena_ready a" and "x \<in> arena_pointers a"
  obtains i where "i < ea_capacity a" and "x = line_at a i"
    and "access_and_mix a x st =
      (\<lparr>ra_status = RA_valid, ra_record_index = i, ra_payload = al_payload (ea_lines a ! unat i)\<rparr>,
       mix_consumer_state st i (al_payload (ea_lines a ! unat i)))"
  using assms access_and_mix_line by (force simp: arena_ready_def arena_pointers_def)

lemma select_index: "arena_ready a \<Longrightarrow> es_record_index (select a n) < ea_capacity a"
  using select_facts(1) by (auto simp: arena_ready_def)

lemma line_at_inj:
  assumes "arena_ready a" and "i < ea_capacity a" and "j < ea_capacity a"
    and "line_at a i = line_at a j"
  shows "i = j"
proof -
  obtain hmac sha allocated config where c: "EventArena_create hmac sha allocated config = Inr a"
    "arena_in_memory a" using assms(1) by (auto simp: arena_ready_def)
  show ?thesis
    using line_offset(5) [OF c assms(2)] line_offset(5) [OF c assms(3)] unfolding assms(4) by blast
qed

lemma BoundaryObserver_hook_eq:
  "BoundaryObserver_hook clock (c, r) = (ok, c', r') \<longleftrightarrow>
     clock c = (r', c') \<and> (ok \<longleftrightarrow> clock_status r' = Clock_ok)"
  by (auto simp: BoundaryObserver_hook_def split: prod.split)

text \<open>
  A clock whose readings never go back, as \<^verbatim>\<open>CLOCK_MONOTONIC_RAW\<close> documents: \<open>time\<close> is the value
  of its last successful reading.
\<close>

definition monotone_clock :: "('c \<Rightarrow> ClockReadResult \<times> 'c) \<Rightarrow> ('c \<Rightarrow> u64) \<Rightarrow> bool" where
  "monotone_clock clock time \<longleftrightarrow>
     (\<forall>c r c'. clock c = (r, c') \<longrightarrow> time c \<le> time c' \<and>
        (clock_status r = Clock_ok \<longrightarrow> relative_picoseconds (clock_sample r) = time c'))"

lemma monotone_clockD:
  assumes "monotone_clock clock time" and "clock c = (r, c')"
  shows "time c \<le> time c'"
    and "clock_status r = Clock_ok \<Longrightarrow> relative_picoseconds (clock_sample r) = time c'"
  using assms by (auto simp: monotone_clock_def)

locale capturing_queue = observed_fifo invar contents bound enqueue_ob dequeue_ob
  for invar :: "'p \<Rightarrow> bool"
    and contents :: "'p \<Rightarrow> addr list"
    and bound :: "'p \<Rightarrow> nat"
    and enqueue_ob :: "('c, 'p) enqueue_fun"
    and dequeue_ob :: "('c, 'p) dequeue_fun"
begin

lemma producer_effect:
  assumes "invar p" and "arena_ready a"
    and "capture_due_producer_attempt clock enqueue_ob a p n arrival ordinal c = (res, p', c')"
  obtains (failed) "pc_status res = Capture_clock_failure" "pc_observation res = None" "invar p'"
      "contents p' = contents p \<or> contents p' = contents p @ [es_record (select a n)]"
    | (accepted) ob c1 c2 c3 c4 r1 r2 r3 r4 r5 where "pc_status res = Capture_complete"
      "pc_observation res = Some ob" "invar p'"
      "contents p' = contents p @ [es_record (select a n)]" "length (contents p) < bound p"
      "clock c = (r1, c1)" "clock c1 = (r2, c2)" "clock c2 = (r3, c3)" "clock c3 = (r4, c4)"
      "clock c4 = (r5, c')"
      "list_all (\<lambda>r. clock_status r = Clock_ok) [r1, r2, r3, r4, r5]"
      "ob = \<lparr>po_logical_sequence = n, po_record_index = es_record_index (select a n),
         po_scheduled_arrival = arrival, po_producer_handle_begin = clock_sample r1,
         po_record_lookup_completion = clock_sample r2, po_enqueue_invocation = clock_sample r3,
         po_enqueue_linearization = Some (clock_sample r4),
         po_enqueue_attempt_completion = clock_sample r5, po_outcome = Outcome_accepted,
         po_accepted_ordinal = Some ordinal\<rparr>"
    | (full) ob where "pc_status res = Capture_complete" "pc_observation res = Some ob" "invar p'"
      "contents p' = contents p" "length (contents p) = bound p"
      "po_record_index ob = es_record_index (select a n)" "po_outcome ob = Outcome_full"
      "po_accepted_ordinal ob = None" "po_enqueue_linearization ob = None"
      "po_logical_sequence ob = n" "po_scheduled_arrival ob = arrival"
proof -
  let ?e = "EventPointer (es_record (select a n))"
  have e: "get_ptr ?e \<noteq> nullptr"
    using arena_pointer_nonnull [OF assms(2) select_pointer(1) [OF assms(2)]] by simp
  obtain r1 c1 where 1: "clock c = (r1, c1)" by fastforce
  obtain r2 c2 where 2: "clock c1 = (r2, c2)" by fastforce
  obtain r3 c3 where 3: "clock c2 = (r3, c3)" by fastforce
  obtain b p1 c4 r4 where 4: "enqueue_ob (BoundaryObserver_hook clock) p ?e (c3, unread) = (b, p1, c4, r4)"
    by (metis prod.exhaust)
  obtain r5 c5 where 5: "clock c4 = (r5, c5)" by fastforce
  note run = assms(3) [unfolded capture_due_producer_attempt_def Let_def select_pointer(3) [OF assms(2)],
      simplified 1 2 3 4 5 prod.case option.case]
  show ?thesis
  proof (cases "clock_status r1 = Clock_ok \<and> clock_status r2 = Clock_ok \<and> clock_status r3 = Clock_ok")
    case False
    then show ?thesis
      using run assms(1) by (intro failed) (auto simp: producer_clock_failure_def split: if_splits)
  next
    case True
    show ?thesis
    proof (cases rule: enqueue_ob_cases [OF assms(1) e 4, case_names full accepted vetoed])
      case full
      then show ?thesis
        using run True assms(1) that(1) that(3)
        by (cases "clock_status r5 = Clock_ok") (auto simp: producer_clock_failure_def)
    next
      case accepted
      then have h: "clock c3 = (r4, c4)" "clock_status r4 = Clock_ok"
        by (auto simp: BoundaryObserver_hook_eq)
      show ?thesis
      proof (cases "clock_status r5 = Clock_ok")
        case ok: True
        with run True accepted have c': "clock c4 = (r5, c')" using 5 by auto
        from ok run True accepted h show ?thesis
          by (intro that(2) [OF _ _ _ _ _ 1 2 3 h(1) c']) auto
      next
        case False
        with run True accepted show ?thesis
          by (intro failed) (auto simp: producer_clock_failure_def)
      qed
    next
      case vetoed
      with run True show ?thesis by (intro failed) (auto simp: producer_clock_failure_def)
    qed
  qed
qed

lemma consumer_effect:
  assumes "invar p" and "arena_ready a" and "set (contents p) \<subseteq> arena_pointers a"
    and "capture_dequeue_poll clock dequeue_ob a p st ordinal c = (res, p', st', c')"
  obtains (failed) "cc_status res = Capture_clock_failure" "cc_observation res = None" "invar p'"
      "contents p' = contents p \<or> contents p' = tl (contents p)"
    | (none) "cc_status res = Capture_empty" "cc_observation res = None" "invar p'"
      "contents p = []" "contents p' = []" "st' = st"
    | (item) ob i c1 c2 c3 r1 r2 r3 r4 where "cc_status res = Capture_complete"
      "cc_observation res = Some ob" "invar p'" "i < ea_capacity a"
      "contents p = line_at a i # contents p'"
      "st' = mix_consumer_state st i (al_payload (ea_lines a ! unat i))"
      "clock c = (r1, c1)" "clock c1 = (r2, c2)" "clock c2 = (r3, c3)" "clock c3 = (r4, c')"
      "list_all (\<lambda>r. clock_status r = Clock_ok) [r1, r2, r3, r4]"
      "ob = \<lparr>co_consumed_ordinal = ordinal, co_observed_record_index = i,
         co_dequeue_invocation = clock_sample r1, co_dequeue_linearization = clock_sample r2,
         co_dequeue_completion = clock_sample r3, co_consumer_action_completion = clock_sample r4\<rparr>"
proof -
  obtain r1 c1 where 1: "clock c = (r1, c1)" by fastforce
  obtain b p1 c2 r2 where 2: "dequeue_ob (BoundaryObserver_hook clock) p (c1, unread) = (b, p1, c2, r2)"
    by (metis prod.exhaust)
  obtain r3 c3 where 3: "clock c2 = (r3, c3)" by fastforce
  obtain r4 c4 where 4: "clock c3 = (r4, c4)" by fastforce
  obtain acc st1 where 5: "access_and_mix a (dr_event (bd_result b)) st = (acc, st1)" by fastforce
  note run = assms(4) [unfolded capture_dequeue_poll_def Let_def,
      simplified 1 2 3 4 5 prod.case]
  show ?thesis
  proof (cases "clock_status r1 = Clock_ok")
    case False
    then show ?thesis
      using run assms(1) by (intro failed) (auto simp: consumer_clock_failure_def)
  next
    case True
    show ?thesis
    proof (cases rule: dequeue_ob_cases [OF assms(1) 2, case_names none item vetoed])
      case none
      with run True show ?thesis by (intro that(2)) auto
    next
      case vetoed
      with run True show ?thesis by (intro failed) (auto simp: consumer_clock_failure_def)
    next
      case (item x)
      then have h: "clock c1 = (r2, c2)" "clock_status r2 = Clock_ok"
        by (auto simp: BoundaryObserver_hook_eq)
      have "x \<in> arena_pointers a" using assms(3) item by simp
      from access_pointer [OF assms(2) this, of st] obtain i where
        i: "i < ea_capacity a" "x = line_at a i" and acc: "access_and_mix a x st =
          (\<lparr>ra_status = RA_valid, ra_record_index = i, ra_payload = al_payload (ea_lines a ! unat i)\<rparr>,
           mix_consumer_state st i (al_payload (ea_lines a ! unat i)))" by blast
      have a5: "acc = \<lparr>ra_status = RA_valid, ra_record_index = i,
            ra_payload = al_payload (ea_lines a ! unat i)\<rparr>"
          "st1 = mix_consumer_state st i (al_payload (ea_lines a ! unat i))"
        using 5 acc item by simp_all
      show ?thesis
      proof (cases "clock_status r3 = Clock_ok \<and> clock_status r4 = Clock_ok")
        case ok: True
        with run True item a5 have c': "clock c3 = (r4, c')" using 4 by auto
        from ok run True item h a5 i show ?thesis
          by (intro that(3) [OF _ _ _ i(1) _ _ 1 h(1) 3 c']) auto
      next
        case False
        with run True item a5 show ?thesis
          by (intro failed) (auto simp: consumer_clock_failure_def split: if_splits)
      qed
    qed
  qed
qed

text \<open>Rows captured with a monotone clock have the order that joining requires.\<close>

lemma captured_rows_joinable:
  assumes "monotone_clock clock time" and "arena_ready a" and "invar p"
    and "capture_due_producer_attempt clock enqueue_ob a p n arrival ordinal c = (pres, p', c')"
    and "pc_observation pres = Some po" and "po_outcome po = Outcome_accepted"
    and "arrival \<le> time c"
    and "invar p2" and "set (contents p2) \<subseteq> arena_pointers a"
    and "capture_dequeue_poll clock dequeue_ob a p2 st ordinal c2 = (cres, p2', st', c2')"
    and "cc_observation cres = Some co" and "co_observed_record_index co = po_record_index po"
    and "time c' \<le> time c2"
  shows "joinable (make_producer_record run po) (make_consumer_record run co)"
proof (cases rule: producer_effect [OF assms(3,2,4), case_names failed accepted full])
  case (accepted ob c1 c2' c3 c4 r1 r2 r3 r4 r5)
  note P = accepted
  note t1 = monotone_clockD [OF assms(1) P(6)] and t2 = monotone_clockD [OF assms(1) P(7)]
    and t3 = monotone_clockD [OF assms(1) P(8)] and t4 = monotone_clockD [OF assms(1) P(9)]
    and t5 = monotone_clockD [OF assms(1) P(10)]
  show ?thesis
  proof (cases rule: consumer_effect [OF assms(8,2,9,10), case_names failed none item])
    case (item co' i d1 d2 d3 s1 s2 s3 s4)
    note u1 = monotone_clockD [OF assms(1) item(7)] and u2 = monotone_clockD [OF assms(1) item(8)]
      and u3 = monotone_clockD [OF assms(1) item(9)] and u4 = monotone_clockD [OF assms(1) item(10)]
    have "po = ob" "co = co'" using assms(5,11) P(2) item(2) by auto
    then show ?thesis
      using P(11,12) item(11,12) t1 t2 t3 t4 t5 u1 u2 u3 u4 assms(7,12,13)
      by (auto simp: joinable_def make_producer_record_def make_consumer_record_def
          nondecreasing_sorted)
  qed (use assms(11) in auto)
qed (use assms(5,6) in auto)

end

interpretation r0_capture: capturing_queue "\<lambda>p. ring_invar (r0_queue p)"
  "\<lambda>p. ring_contents (r0_queue p)" "\<lambda>p. ring_bound (r0_queue p)"
  R0Package_try_enqueue_with_boundary_observer R0Package_try_dequeue_with_boundary_observer
  by (rule capturing_queue.intro) unfold_locales

interpretation r1_capture: capturing_queue "\<lambda>p. ring_invar (r1_queue p)"
  "\<lambda>p. ring_contents (r1_queue p)" "\<lambda>p. ring_bound (r1_queue p)"
  "R1Package_try_enqueue_with_boundary_observer em" "R1Package_try_dequeue_with_boundary_observer em"
  for em :: "'e ring_emitter"
  by (rule capturing_queue.intro) unfold_locales

interpretation r2_capture: capturing_queue "\<lambda>p. ring_invar (r2_queue p)"
  "\<lambda>p. ring_contents (r2_queue p)" "\<lambda>p. ring_bound (r2_queue p)"
  "R2Package_try_enqueue_with_boundary_observer em" "R2Package_try_dequeue_with_boundary_observer em"
  for em :: "'e ring_emitter"
  by (rule capturing_queue.intro) unfold_locales

interpretation l0_capture: capturing_queue "\<lambda>p. linked_invar (l0_queue p)"
  "\<lambda>p. linked_contents (l0_queue p)" "\<lambda>p. linked_bound (l0_queue p)"
  L0Package_try_enqueue_with_boundary_observer L0Package_try_dequeue_with_boundary_observer
  by (rule capturing_queue.intro) unfold_locales

interpretation l1_capture: capturing_queue "\<lambda>p. linked_invar (l1_queue p)"
  "\<lambda>p. linked_contents (l1_queue p)" "\<lambda>p. linked_bound (l1_queue p)"
  L1Package_try_enqueue_with_boundary_observer
  "L1Package_try_dequeue_with_boundary_observer prefetch"
  for prefetch :: "addr \<Rightarrow> 'e \<Rightarrow> 'e"
  by (rule capturing_queue.intro) unfold_locales

subsection \<open>Properties\<close>

text \<open>
  A concrete setting for the witnesses: a clock that ticks once per reading and stops at its
  last value, and an R1 package on a fresh ring of two slots.
\<close>

definition example_clock :: "u64 \<Rightarrow> ClockReadResult \<times> u64" where
  "example_clock c =
     (let c' = (if c = u64_max then c else c + 1)
      in (\<lparr>clock_status = Clock_ok,
           clock_sample = \<lparr>absolute_nanoseconds = c', relative_picoseconds = c'\<rparr>\<rparr>, c'))"

definition silent_emitter :: "unit ring_emitter" where
  "silent_emitter = \<lparr>ring_producer_write = (\<lambda>_. id), ring_consumer_read = (\<lambda>_. id)\<rparr>"

definition example_package :: "unit R1Package" where
  "example_package = R1Package_create ring_example () \<lparr>rd_slots = 1, rd_cache_lines = 1\<rparr>"

lemma example_clock_monotone: "monotone_clock example_clock id"
proof -
  have "c \<noteq> u64_max \<Longrightarrow> c \<le> c + 1" for c :: u64
    using add_guard [of c 1] unat_u64_lt_num [of c] by (simp add: word_le_nat_alt unat_word_ariths word_eq_unat)
  then show ?thesis by (auto simp: monotone_clock_def example_clock_def Let_def)
qed

lemma example_arena_ready: "\<exists>a. arena_ready a"
proof -
  obtain a where a: "EventArena_create example_hmac example_sha (Some 4096) example_arena_config = Inr a"
    "arena_in_memory a" using example_arena by blast
  then have "ea_storage a = 4096"
    by (auto simp: EventArena_create_def Let_def split: if_splits sum.splits)
  then have "arena_ready a" unfolding arena_ready_def using a by simp blast
  then show ?thesis by blast
qed

lemma example_produce:
  assumes "arena_ready a"
  shows "\<exists>res p' ob. capture_due_producer_attempt example_clock
      (R1Package_try_enqueue_with_boundary_observer silent_emitter) a example_package n arrival ordinal 0 =
      (res, p', 5) \<and>
    pc_status res = Capture_complete \<and> pc_observation res = Some ob \<and> po_outcome ob = Outcome_accepted \<and>
    po_accepted_ordinal ob = Some ordinal \<and> po_enqueue_linearization ob \<noteq> None \<and>
    po_record_index ob = es_record_index (select a n) \<and>
    p' = example_package\<lparr>r1_queue := ring_example\<lparr>rq_slots := [es_record (select a n), 0],
      rq_producer_position := 1\<rparr>\<rparr>"
  by (simp add: capture_due_producer_attempt_def select_pointer(3) [OF assms] example_clock_def
      R1Package_try_enqueue_with_boundary_observer_def ring_try_enqueue_with_boundary_observer_def
      ring_try_enqueue_observed_def ring_enqueue_boundary_observer_def BoundaryObserver_hook_def
      example_package_def R1Package_create_def silent_emitter_def ring_example_def
      ring_next_position_def Let_def)

lemma example_consume:
  assumes "arena_ready a"
    and "p = example_package\<lparr>r1_queue := ring_example\<lparr>rq_slots := [es_record (select a n), 0],
      rq_producer_position := 1\<rparr>\<rparr>"
  shows "\<exists>res p' st ob. capture_dequeue_poll example_clock
      (R1Package_try_dequeue_with_boundary_observer silent_emitter) a p 7 ordinal 5 = (res, p', st, 9) \<and>
    cc_observation res = Some ob \<and> cc_status res = Capture_complete"
proof -
  have nn: "es_record (select a n) \<noteq> 0"
    using arena_pointer_nonnull [OF assms(1) select_pointer(1) [OF assms(1)]] by simp
  obtain i where acc: "access_and_mix a (es_record (select a n)) 7 =
      (\<lparr>ra_status = RA_valid, ra_record_index = i, ra_payload = al_payload (ea_lines a ! unat i)\<rparr>,
       mix_consumer_state 7 i (al_payload (ea_lines a ! unat i)))"
    using access_pointer [OF assms(1) select_pointer(1) [OF assms(1)]] by blast
  show ?thesis
    using nn
    by (simp add: assms(2) capture_dequeue_poll_def acc example_clock_def
        R1Package_try_dequeue_with_boundary_observer_def ring_try_dequeue_with_boundary_observer_def
        ring_try_dequeue_observed_def ring_dequeue_boundary_observer_def BoundaryObserver_hook_def
        example_package_def R1Package_create_def silent_emitter_def ring_example_def Let_def)
qed

text \<open>
  C26. A captured producer attempt on a ring package accounts for its queue: only clock
  readings can fail; a complete ACCEPTED observation means the selected record was appended
  and carries the offered ordinal; a complete FULL one means the queue was full and is
  unchanged.
\<close>

theorem ring_producer_capture_exact:
  assumes "ring_invar (r1_queue p)" and "arena_ready a"
    and "capture_due_producer_attempt clock (R1Package_try_enqueue_with_boundary_observer em) a p
      n arrival ordinal c = (res, p', c')"
  shows "ring_invar (r1_queue p') \<and>
    (case pc_observation res of
       None \<Rightarrow> pc_status res = Capture_clock_failure
     | Some ob \<Rightarrow> pc_status res = Capture_complete \<and>
         po_record_index ob = es_record_index (select a n) \<and>
         (if po_outcome ob = Outcome_accepted
          then po_accepted_ordinal ob = Some ordinal \<and>
               ring_contents (r1_queue p') = ring_contents (r1_queue p) @ [line_at a (po_record_index ob)]
          else po_accepted_ordinal ob = None \<and>
               length (ring_contents (r1_queue p)) = ring_bound (r1_queue p) \<and>
               ring_contents (r1_queue p') = ring_contents (r1_queue p)))"
  by (cases rule: r1_capture.producer_effect [OF assms]) (simp_all add: select_pointer(2) [OF assms(2)])

theorem ring_producer_capture_exact_witness:
  "\<exists>a res p' ob. arena_ready a \<and> capture_due_producer_attempt example_clock
      (R1Package_try_enqueue_with_boundary_observer silent_emitter) a example_package 3 0 0 0 =
      (res, p', 5) \<and>
    pc_observation res = Some ob \<and> po_accepted_ordinal ob = Some 0 \<and>
    ring_contents (r1_queue p') = [line_at a (po_record_index ob)]"
proof -
  obtain a where a: "arena_ready a" using example_arena_ready by blast
  obtain res p' ob where run: "capture_due_producer_attempt example_clock
      (R1Package_try_enqueue_with_boundary_observer silent_emitter) a example_package 3 0 0 0 =
      (res, p', 5)" and ob: "pc_observation res = Some ob" "po_outcome ob = Outcome_accepted"
    using example_produce [OF a] by blast
  have q: "ring_invar (r1_queue example_package)" "ring_contents (r1_queue example_package) = []"
    using ring_create_invar [OF ring_example_create]
    by (simp_all add: example_package_def R1Package_create_def)
  from ring_producer_capture_exact [OF q(1) a run] ob q(2) run a show ?thesis by auto
qed

text \<open>
  A captured poll on a linked package accounts for its queue: only clock readings can
  fail, never the queue or the record; a complete observation means the oldest record was
  taken, the index observed is that record's, and exactly its index and payload were mixed
  into the consumer state; an empty poll means the queue was empty and nothing changed.
\<close>

theorem linked_poll_capture_exact:
  assumes "linked_invar (l1_queue p)" and "arena_ready a"
    and "set (linked_contents (l1_queue p)) \<subseteq> arena_pointers a"
    and "capture_dequeue_poll clock (L1Package_try_dequeue_with_boundary_observer prefetch) a p
      st ordinal c = (res, p', st', c')"
  shows "linked_invar (l1_queue p') \<and>
    (case cc_observation res of
       None \<Rightarrow> cc_status res = Capture_clock_failure \<or>
         cc_status res = Capture_empty \<and> linked_contents (l1_queue p) = [] \<and>
           linked_contents (l1_queue p') = [] \<and> st' = st
     | Some ob \<Rightarrow> cc_status res = Capture_complete \<and> co_consumed_ordinal ob = ordinal \<and>
         linked_contents (l1_queue p) =
           line_at a (co_observed_record_index ob) # linked_contents (l1_queue p') \<and>
         st' = mix_consumer_state st (co_observed_record_index ob)
           (al_payload (ea_lines a ! unat (co_observed_record_index ob))))"
  by (cases rule: l1_capture.consumer_effect [OF assms]) simp_all

theorem linked_poll_capture_exact_witness:
  "\<exists>a q res p' st' c'. arena_ready a \<and> linked_contents q = [es_record (select a 3)] \<and>
     capture_dequeue_poll example_clock (L1Package_try_dequeue_with_boundary_observer (\<lambda>_. id)) a
       \<lparr>l1_queue = q, l1_emitter = ()\<rparr> 7 0 0 = (res, p', st', c') \<and>
     linked_invar (l1_queue p') \<and> cc_status res \<noteq> Capture_queue_failure \<and>
     cc_status res \<noteq> Capture_record_failure"
proof -
  obtain a where a: "arena_ready a" using example_arena_ready by blast
  let ?e = "EventPointer (es_record (select a 3))"
  have e: "get_ptr ?e \<noteq> nullptr"
    using arena_pointer_nonnull [OF a select_pointer(1) [OF a]] by simp
  note ex = linked_create_invar [OF linked_example_create linked_example_geometry]
  obtain r q where "linked_try_enqueue linked_example ?e = (r, q)" by fastforce
  from linked_plain.enqueue_refines [OF _ e this] ex
  have q: "linked_invar q" "linked_contents q = [es_record (select a 3)]"
    by (simp_all add: fifo_enqueue_def)
  obtain res p' st' c' where run: "capture_dequeue_poll example_clock
      (L1Package_try_dequeue_with_boundary_observer (\<lambda>_. id)) a
       \<lparr>l1_queue = q, l1_emitter = ()\<rparr> 7 0 0 = (res, p', st', c')" by (metis prod.exhaust)
  from linked_poll_capture_exact [OF _ a _ run] q select_pointer(1) [OF a, of 3]
  have "linked_invar (l1_queue p') \<and> cc_status res \<noteq> Capture_queue_failure \<and>
     cc_status res \<noteq> Capture_record_failure"
    by (cases "cc_observation res") auto
  with a q(2) run show ?thesis by blast
qed



end
