(* ===== verification/Raw_Observations.thy ===== *)
theory Raw_Observations
  imports Protocol_Rows Timing_Capture
begin

text \<open>
  Raw observation streams: the row layout, the little-endian codec and the two preallocated
  streams of \<^verbatim>\<open>storage/raw_observations.hpp\<close> and \<^verbatim>\<open>storage/raw_observations.cpp\<close>. A buffer is the
  list of its bytes; what \<^verbatim>\<open>operator new\<close> returns (uninitialised bytes, or nothing when it
  throws) is an argument of the constructors.
\<close>

subsection \<open>Checked arithmetic\<close>

definition raw_checked_add :: "u64 \<Rightarrow> u64 \<Rightarrow> u64 option" where
  "raw_checked_add left right = (if right > u64_max - left then None else Some (left + right))"

definition raw_checked_multiply :: "u64 \<Rightarrow> u64 \<Rightarrow> u64 option" where
  "raw_checked_multiply left right =
     (if left \<noteq> 0 \<and> right > u64_max div left then None else Some (left * right))"

subsection \<open>UTF-8\<close>

text \<open>The first byte of a sequence gives its length and the leading bits of the code point.\<close>

definition utf8_first :: "u8 \<Rightarrow> (u32 \<times> nat) option" where
  "utf8_first first =
     (if first \<le> 0x7f then Some (ucast first, 1)
      else if first AND 0xe0 = 0xc0 then Some (ucast (first AND 0x1f), 2)
      else if first AND 0xf0 = 0xe0 then Some (ucast (first AND 0x0f), 3)
      else if first AND 0xf8 = 0xf0 then Some (ucast (first AND 0x07), 4)
      else None)"

text \<open>The loop over the continuation bytes.\<close>

fun utf8_continue :: "u32 \<Rightarrow> u8 list \<Rightarrow> u32 option" where
  "utf8_continue code_point [] = Some code_point"
| "utf8_continue code_point (next # rest) =
     (if next AND 0xc0 \<noteq> 0x80 then None
      else utf8_continue (push_bit 6 code_point OR ucast (next AND 0x3f)) rest)"

definition utf8_scalar :: "nat \<Rightarrow> u32 \<Rightarrow> bool" where
  "utf8_scalar len code_point \<longleftrightarrow>
     \<not> ((len = 2 \<and> code_point < 0x80) \<or> (len = 3 \<and> code_point < 0x800) \<or>
        (len = 4 \<and> code_point < 0x10000)) \<and>
     \<not> (code_point > 0x10ffff \<or> (code_point \<ge> 0xd800 \<and> code_point \<le> 0xdfff))"

lemma utf8_first_length: "utf8_first b = Some (c, n) \<Longrightarrow> 1 \<le> n"
  by (auto simp: utf8_first_def split: if_splits)

function valid_utf8 :: "u8 list \<Rightarrow> bool" where
  "valid_utf8 [] = True"
| "valid_utf8 (first # rest) =
     (case utf8_first first of
        None \<Rightarrow> False
      | Some (code_point, len) \<Rightarrow>
          if len > Suc (length rest) then False
          else (case utf8_continue code_point (take (len - 1) rest) of
              None \<Rightarrow> False
            | Some scalar \<Rightarrow>
                if \<not> utf8_scalar len scalar then False else valid_utf8 (drop (len - 1) rest)))"
  by pat_completeness auto
termination by (relation "measure length") auto

subsection \<open>Little-endian codec\<close>

definition u32_le :: "u32 \<Rightarrow> u8 list" where
  "u32_le value = map (\<lambda>index. ucast (drop_bit (index * 8) value AND 0xff)) [0, 1, 2, 3]"

definition u64_le :: "u64 \<Rightarrow> u8 list" where
  "u64_le value =
     map (\<lambda>index. ucast (drop_bit (index * 8) value AND 0xff)) [0, 1, 2, 3, 4, 5, 6, 7]"

text \<open>A write of consecutive bytes at an offset of the buffer.\<close>

definition store_bytes :: "nat \<Rightarrow> u8 list \<Rightarrow> u8 list \<Rightarrow> u8 list" where
  "store_bytes output bytes buffer =
     take output buffer @ bytes @ drop (output + length bytes) buffer"

definition store_u32_le :: "nat \<Rightarrow> u32 \<Rightarrow> u8 list \<Rightarrow> u8 list" where
  "store_u32_le output value buffer = store_bytes output (u32_le value) buffer"

definition store_u64_le :: "nat \<Rightarrow> u64 \<Rightarrow> u8 list \<Rightarrow> u8 list" where
  "store_u64_le output value buffer = store_bytes output (u64_le value) buffer"

definition load_u32_le :: "u8 list \<Rightarrow> u32" where
  "load_u32_le input =
     foldl (\<lambda>value index. value OR push_bit (index * 8) (ucast (input ! index))) 0 [0, 1, 2, 3]"

definition load_u64_le :: "u8 list \<Rightarrow> u64" where
  "load_u64_le input =
     foldl (\<lambda>value index. value OR push_bit (index * 8) (ucast (input ! index))) 0
       [0, 1, 2, 3, 4, 5, 6, 7]"

fun store_words :: "nat \<Rightarrow> u64 list \<Rightarrow> u8 list \<Rightarrow> u8 list" where
  "store_words output [] buffer = buffer"
| "store_words output (word # words) buffer =
     store_words (output + 8) words (store_u64_le output word buffer)"

subsection \<open>Row layout\<close>

datatype storage_error = StorageSetupError string | Storage_bad_alloc

record RowLayout =
  rl_run_id_bytes :: u64
  rl_prefix_bytes :: u64
  rl_producer_row_bytes :: u64
  rl_consumer_row_bytes :: u64
  rl_joined_row_bytes :: u64

definition kProducerBodyBytes :: u64 where
  "kProducerBodyBytes = 15 * 8"

definition kConsumerBodyBytes :: u64 where
  "kConsumerBodyBytes = 10 * 8"

definition kJoinedBodyBytes :: u64 where
  "kJoinedBodyBytes = 24 * 8"

definition make_row_layout :: "string \<Rightarrow> storage_error + RowLayout" where
  "make_row_layout run_id =
     (if run_id = [] then Inl (StorageSetupError ''raw-observation run_id must not be empty'')
      else if \<not> valid_utf8 (string_bytes run_id)
      then Inl (StorageSetupError ''raw-observation run_id must be valid UTF-8'')
      else if (of_nat (length run_id) :: u64) > 0xffffffff
      then Inl (StorageSetupError ''raw-observation run_id exceeds uint32 length'')
      else
        let len = (of_nat (length run_id) :: u64) in
        (case raw_checked_add 4 len of
           None \<Rightarrow> Inl (StorageSetupError ''raw-observation row prefix size overflows uint64'')
         | Some with_length \<Rightarrow>
             if with_length > u64_max - 7
             then Inl (StorageSetupError ''raw-observation row prefix size overflows uint64'')
             else
               let prefix = (with_length + 7) AND NOT 7 in
               (case (raw_checked_add prefix kProducerBodyBytes,
                      raw_checked_add prefix kConsumerBodyBytes,
                      raw_checked_add prefix kJoinedBodyBytes) of
                  (Some producer, Some consumer, Some joined) \<Rightarrow>
                    Inr \<lparr>rl_run_id_bytes = len, rl_prefix_bytes = prefix,
                         rl_producer_row_bytes = producer, rl_consumer_row_bytes = consumer,
                         rl_joined_row_bytes = joined\<rparr>
                | _ \<Rightarrow> Inl (StorageSetupError ''raw-observation row size exceeds host size_t''))))"

text \<open>One row's prefix: length, bytes of the run identifier, zeros up to the prefix size.\<close>

definition initialize_prefix :: "nat \<Rightarrow> u64 \<Rightarrow> string \<Rightarrow> u8 list \<Rightarrow> u8 list" where
  "initialize_prefix output prefix_bytes run_id buffer =
     (let buffer1 = store_u32_le output (of_nat (length run_id)) buffer;
          buffer2 = store_bytes (output + 4) (string_bytes run_id) buffer1
      in store_bytes (output + 4 + length run_id)
           (replicate (unat prefix_bytes - (4 + length run_id)) 0) buffer2)"

definition initialize_prefixes :: "u64 \<Rightarrow> u64 \<Rightarrow> u64 \<Rightarrow> string \<Rightarrow> u8 list \<Rightarrow> u8 list" where
  "initialize_prefixes capacity row_bytes prefix_bytes run_id buffer =
     fold (\<lambda>row buffer. initialize_prefix (unat ((of_nat row :: u64) * row_bytes)) prefix_bytes run_id buffer)
       [0..<unat capacity] buffer"

subsection \<open>Streams\<close>

datatype AppendStatus =
  Appended | Append_buffer_overflow | Append_invalid_observation | Append_stream_unprepared
  | Append_stream_sealed

datatype StreamCompleteness = Writing | Sealed_complete | Sealed_incomplete

fun StreamCompleteness_to_string :: "StreamCompleteness \<Rightarrow> string" where
  "StreamCompleteness_to_string Writing = ''WRITING''"
| "StreamCompleteness_to_string Sealed_complete = ''SEALED_COMPLETE''"
| "StreamCompleteness_to_string Sealed_incomplete = ''SEALED_INCOMPLETE''"

record RawStreamSnapshot =
  sn_stream_kind :: StreamKind
  sn_run_id :: string
  sn_bytes :: "u8 list"
  sn_row_count :: u64
  sn_row_capacity :: u64
  sn_row_bytes :: u64
  sn_completeness :: StreamCompleteness
  sn_overflowed :: bool

text \<open>The members of both stream classes: they are the same, the control block included.\<close>

record ProducerObservationStream =
  os_run_id :: string
  os_layout :: RowLayout
  os_storage :: "u8 list"
  os_allocated_bytes :: u64
  os_row_count :: u64
  os_row_capacity :: u64
  os_row_bytes :: u64
  os_completeness :: StreamCompleteness
  os_overflowed :: bool
  os_prepared :: bool

type_synonym ConsumerObservationStream = ProducerObservationStream

text \<open>
  The part the two constructors share: \<open>row_bytes\<close> is the row size of the stream, \<open>message\<close> the
  text of its exception.
\<close>

definition stream_create ::
  "(RowLayout \<Rightarrow> u64) \<Rightarrow> string \<Rightarrow> (u64 \<Rightarrow> u8 list option) \<Rightarrow> Identifier \<Rightarrow> u64 \<Rightarrow>
     storage_error + ProducerObservationStream" where
  "stream_create row_bytes message allocate run_id row_capacity =
     (case make_row_layout (id_value run_id) of Inl e \<Rightarrow> Inl e | Inr layout \<Rightarrow>
     (case raw_checked_multiply row_capacity (row_bytes layout) of
        None \<Rightarrow> Inl (StorageSetupError message)
      | Some allocated_bytes \<Rightarrow>
          (case (if allocated_bytes \<noteq> 0 then allocate allocated_bytes else Some []) of
             None \<Rightarrow> Inl Storage_bad_alloc
           | Some storage \<Rightarrow>
               Inr \<lparr>os_run_id = id_value run_id, os_layout = layout, os_storage = storage,
                    os_allocated_bytes = allocated_bytes, os_row_count = 0,
                    os_row_capacity = row_capacity, os_row_bytes = row_bytes layout,
                    os_completeness = Writing, os_overflowed = False, os_prepared = False\<rparr>)))"

definition ProducerObservationStream_create ::
  "(u64 \<Rightarrow> u8 list option) \<Rightarrow> Identifier \<Rightarrow> u64 \<Rightarrow> storage_error + ProducerObservationStream" where
  "ProducerObservationStream_create =
     stream_create rl_producer_row_bytes ''producer raw buffer size overflows host size_t''"

definition ConsumerObservationStream_create ::
  "(u64 \<Rightarrow> u8 list option) \<Rightarrow> Identifier \<Rightarrow> u64 \<Rightarrow> storage_error + ConsumerObservationStream" where
  "ConsumerObservationStream_create =
     stream_create rl_consumer_row_bytes ''consumer raw buffer size overflows host size_t''"

definition stream_prepare_for_owner ::
  "(RowLayout \<Rightarrow> u64) \<Rightarrow> ProducerObservationStream \<Rightarrow> bool \<times> ProducerObservationStream" where
  "stream_prepare_for_owner row_bytes s =
     (if os_prepared s \<or> os_completeness s \<noteq> Writing then (False, s)
      else
        (True, s\<lparr>os_storage :=
             (if os_allocated_bytes s \<noteq> 0
              then initialize_prefixes (os_row_capacity s) (row_bytes (os_layout s))
                     (rl_prefix_bytes (os_layout s)) (os_run_id s)
                     (replicate (unat (os_allocated_bytes s)) 0)
              else os_storage s),
           os_prepared := True\<rparr>))"

definition producer_prepare_for_owner ::
  "ProducerObservationStream \<Rightarrow> bool \<times> ProducerObservationStream" where
  "producer_prepare_for_owner = stream_prepare_for_owner rl_producer_row_bytes"

definition consumer_prepare_for_owner ::
  "ConsumerObservationStream \<Rightarrow> bool \<times> ConsumerObservationStream" where
  "consumer_prepare_for_owner = stream_prepare_for_owner rl_consumer_row_bytes"

definition kProducerAcceptedFlags :: u64 where
  "kProducerAcceptedFlags = 15"

definition kProducerFullFlags :: u64 where
  "kProducerFullFlags = 1"

definition producer_words :: "ProducerObservation \<Rightarrow> u64 list" where
  "producer_words observation =
     (let accepted = (po_outcome observation = Outcome_accepted);
          linearization = (case po_enqueue_linearization observation of
            None \<Rightarrow> no_sample | Some sample \<Rightarrow> sample)
      in [po_logical_sequence observation, po_record_index observation,
          po_scheduled_arrival observation,
          absolute_nanoseconds (po_producer_handle_begin observation),
          relative_picoseconds (po_producer_handle_begin observation),
          absolute_nanoseconds (po_record_lookup_completion observation),
          relative_picoseconds (po_record_lookup_completion observation),
          absolute_nanoseconds (po_enqueue_invocation observation),
          relative_picoseconds (po_enqueue_invocation observation),
          absolute_nanoseconds linearization, relative_picoseconds linearization,
          absolute_nanoseconds (po_enqueue_attempt_completion observation),
          relative_picoseconds (po_enqueue_attempt_completion observation),
          (case po_accepted_ordinal observation of Some ordinal \<Rightarrow> if accepted then ordinal else 0 | None \<Rightarrow> 0),
          (if accepted then kProducerAcceptedFlags else kProducerFullFlags)])"

definition consumer_words :: "ConsumerObservation \<Rightarrow> u64 list" where
  "consumer_words observation =
     [co_consumed_ordinal observation, co_observed_record_index observation,
      absolute_nanoseconds (co_dequeue_invocation observation),
      relative_picoseconds (co_dequeue_invocation observation),
      absolute_nanoseconds (co_dequeue_linearization observation),
      relative_picoseconds (co_dequeue_linearization observation),
      absolute_nanoseconds (co_dequeue_completion observation),
      relative_picoseconds (co_dequeue_completion observation),
      absolute_nanoseconds (co_consumer_action_completion observation),
      relative_picoseconds (co_consumer_action_completion observation)]"

text \<open>The end of both \<^verbatim>\<open>append\<close>s: the row's body is written behind its prefix.\<close>

definition stream_commit ::
  "(RowLayout \<Rightarrow> u64) \<Rightarrow> u64 list \<Rightarrow> ProducerObservationStream \<Rightarrow> AppendStatus \<times> ProducerObservationStream" where
  "stream_commit row_bytes words s =
     (if os_row_count s = os_row_capacity s
      then (Append_buffer_overflow,
            s\<lparr>os_overflowed := True, os_completeness := Sealed_incomplete\<rparr>)
      else
        (Appended,
         s\<lparr>os_storage := store_words
             (unat (os_row_count s * row_bytes (os_layout s) + rl_prefix_bytes (os_layout s)))
             words (os_storage s),
           os_row_count := os_row_count s + 1\<rparr>))"

definition producer_append ::
  "ProducerObservation \<Rightarrow> ProducerObservationStream \<Rightarrow> AppendStatus \<times> ProducerObservationStream" where
  "producer_append observation s =
     (if \<not> os_prepared s then (Append_stream_unprepared, s)
      else if os_completeness s \<noteq> Writing then (Append_stream_sealed, s)
      else
        let accepted = (po_outcome observation = Outcome_accepted) in
        if accepted \<noteq> (po_enqueue_linearization observation \<noteq> None) \<or>
           accepted \<noteq> (po_accepted_ordinal observation \<noteq> None)
        then (Append_invalid_observation, s)
        else stream_commit rl_producer_row_bytes (producer_words observation) s)"

definition consumer_append ::
  "ConsumerObservation \<Rightarrow> ConsumerObservationStream \<Rightarrow> AppendStatus \<times> ConsumerObservationStream" where
  "consumer_append observation s =
     (if \<not> os_prepared s then (Append_stream_unprepared, s)
      else if os_completeness s \<noteq> Writing then (Append_stream_sealed, s)
      else stream_commit rl_consumer_row_bytes (consumer_words observation) s)"

definition seal_complete :: "ProducerObservationStream \<Rightarrow> bool \<times> ProducerObservationStream" where
  "seal_complete s =
     (if \<not> os_prepared s \<or> os_completeness s \<noteq> Writing \<or> os_overflowed s then (False, s)
      else (True, s\<lparr>os_completeness := Sealed_complete\<rparr>))"

definition seal_incomplete :: "ProducerObservationStream \<Rightarrow> ProducerObservationStream" where
  "seal_incomplete s =
     (if os_completeness s = Writing then s\<lparr>os_completeness := Sealed_incomplete\<rparr> else s)"

definition stream_snapshot :: "StreamKind \<Rightarrow> ProducerObservationStream \<Rightarrow> RawStreamSnapshot" where
  "stream_snapshot kind s =
     \<lparr>sn_stream_kind = kind, sn_run_id = os_run_id s,
      sn_bytes = take (unat (os_row_count s * os_row_bytes s)) (os_storage s),
      sn_row_count = os_row_count s, sn_row_capacity = os_row_capacity s,
      sn_row_bytes = os_row_bytes s, sn_completeness = os_completeness s,
      sn_overflowed = os_overflowed s\<rparr>"

definition producer_snapshot :: "ProducerObservationStream \<Rightarrow> RawStreamSnapshot" where
  "producer_snapshot = stream_snapshot Stream_producer"

definition consumer_snapshot :: "ConsumerObservationStream \<Rightarrow> RawStreamSnapshot" where
  "consumer_snapshot = stream_snapshot Stream_consumer"

end
