(* ===== verification/Raw_Streams.thy ===== *)
theory Raw_Streams
  imports Raw_Observations
begin

text \<open>
  What the raw streams hold: the codec is invertible, a prepared stream is a table of rows,
  \<^verbatim>\<open>append\<close> fills in the next row and nothing else, and a snapshot is the image of the rows
  appended so far.
\<close>

subsection \<open>The codec\<close>

lemma length_u64_le [simp]: "length (u64_le v) = 8"
  by (simp add: u64_le_def)

lemma length_u32_le [simp]: "length (u32_le v) = 4"
  by (simp add: u32_le_def)

lemma u64_le_0: "u64_le 0 = replicate 8 0"
  by (simp add: u64_le_def eval_nat_numeral)

lemma length_string_bytes [simp]: "length (string_bytes s) = length s"
  by (simp add: string_bytes_def)

text \<open>Each byte of the encoding carries eight bits of the value.\<close>

lemma byte_of_u64:
  "bit (push_bit k (ucast (ucast (drop_bit k v AND (0xff :: u64)) :: u8) :: u64)) n \<longleftrightarrow>
     k \<le> n \<and> n < k + 8 \<and> n < 64 \<and> bit v n"
proof -
  have m: "(0xff :: u64) = mask 8" by (simp add: mask_eq_exp_minus_1)
  show ?thesis unfolding m by (cases "k \<le> n") (auto simp: bit_simps)
qed

lemma byte_of_u32:
  "bit (push_bit k (ucast (ucast (drop_bit k v AND (0xff :: u32)) :: u8) :: u32)) n \<longleftrightarrow>
     k \<le> n \<and> n < k + 8 \<and> n < 32 \<and> bit v n"
proof -
  have m: "(0xff :: u32) = mask 8" by (simp add: mask_eq_exp_minus_1)
  show ?thesis unfolding m by (cases "k \<le> n") (auto simp: bit_simps)
qed

lemma load_u64_le_append [simp]: "load_u64_le (u64_le v @ rest) = v"
proof (rule bit_word_eqI)
  let ?b = "\<lambda>k. push_bit k (ucast (ucast (drop_bit k v AND (0xff :: u64)) :: u8) :: u64)"
  fix n assume "n < LENGTH(64)"
  then have n: "n < 64" by simp
  have "load_u64_le (u64_le v @ rest) =
      0 OR ?b 0 OR ?b 8 OR ?b 16 OR ?b 24 OR ?b 32 OR ?b 40 OR ?b 48 OR ?b 56"
    by (simp add: load_u64_le_def u64_le_def or.assoc)
  then have "bit (load_u64_le (u64_le v @ rest)) n \<longleftrightarrow>
      (\<exists>k \<in> {0, 8, 16, 24, 32, 40, 48, 56}. k \<le> n \<and> n < k + 8 \<and> n < 64 \<and> bit v n)"
    by (simp only: bit_or_iff byte_of_u64 bit_0_eq bot_apply) auto
  also have "\<dots> \<longleftrightarrow> bit v n"
  proof -
    have "\<exists>k \<in> {0, 8, 16, 24, 32, 40, 48, 56}. k \<le> n \<and> n < k + 8" using n by auto
    with n show ?thesis by blast
  qed
  finally show "bit (load_u64_le (u64_le v @ rest)) n = bit v n" .
qed

lemma load_u32_le_append [simp]: "load_u32_le (u32_le v @ rest) = v"
proof (rule bit_word_eqI)
  let ?b = "\<lambda>k. push_bit k (ucast (ucast (drop_bit k v AND (0xff :: u32)) :: u8) :: u32)"
  fix n assume "n < LENGTH(32)"
  then have n: "n < 32" by simp
  have "load_u32_le (u32_le v @ rest) = 0 OR ?b 0 OR ?b 8 OR ?b 16 OR ?b 24"
    by (simp add: load_u32_le_def u32_le_def or.assoc)
  then have "bit (load_u32_le (u32_le v @ rest)) n \<longleftrightarrow>
      (\<exists>k \<in> {0, 8, 16, 24}. k \<le> n \<and> n < k + 8 \<and> n < 32 \<and> bit v n)"
    by (simp only: bit_or_iff byte_of_u32 bit_0_eq bot_apply) auto
  also have "\<dots> \<longleftrightarrow> bit v n"
  proof -
    have "\<exists>k \<in> {0, 8, 16, 24}. k \<le> n \<and> n < k + 8" using n by auto
    with n show ?thesis by blast
  qed
  finally show "bit (load_u32_le (u32_le v @ rest)) n = bit v n" .
qed

subsection \<open>Writing into the buffer\<close>

lemma length_store_bytes [simp]:
  "off + length bytes \<le> length buffer \<Longrightarrow> length (store_bytes off bytes buffer) = length buffer"
  by (simp add: store_bytes_def)

lemma store_bytes_append:
  assumes "off + length a + length b \<le> length buffer"
  shows "store_bytes (off + length a) b (store_bytes off a buffer) =
    store_bytes off (a @ b) buffer"
  using assms by (cases a) (simp_all add: store_bytes_def min_def ac_simps)

lemma store_bytes_middle:
  "length old = length new \<Longrightarrow> store_bytes (length before) new (before @ old @ after) = before @ new @ after"
  by (simp add: store_bytes_def)

lemma store_words_eq:
  "off + 8 * length words \<le> length buffer \<Longrightarrow>
     store_words off words buffer = store_bytes off (concat (map u64_le words)) buffer"
proof (induction words arbitrary: off buffer)
  case Nil
  then show ?case by (simp add: store_bytes_def)
next
  case (Cons w words)
  have l: "length (concat (map u64_le words)) = 8 * length words"
    by (simp add: length_concat comp_def sum_list_triv)
  have "store_words off (w # words) buffer =
      store_bytes (off + 8) (concat (map u64_le words)) (store_bytes off (u64_le w) buffer)"
    using Cons.IH [of "off + 8" "store_u64_le off w buffer"] Cons.prems
    by (simp add: store_u64_le_def)
  also have "\<dots> = store_bytes off (u64_le w @ concat (map u64_le words)) buffer"
    using store_bytes_append [of off "u64_le w" "concat (map u64_le words)" buffer] Cons.prems l
    by simp
  finally show ?case by simp
qed

lemma length_words_le: "length (concat (map u64_le words)) = 8 * length words"
  by (simp add: length_concat comp_def sum_list_triv)

subsection \<open>Row images\<close>

definition row_prefix :: "nat \<Rightarrow> string \<Rightarrow> u8 list" where
  "row_prefix prefix run_id =
     u32_le (of_nat (length run_id)) @ string_bytes run_id @ replicate (prefix - (4 + length run_id)) 0"

definition row_image :: "nat \<Rightarrow> string \<Rightarrow> u64 list \<Rightarrow> u8 list" where
  "row_image prefix run_id words = row_prefix prefix run_id @ concat (map u64_le words)"

lemma length_row_prefix: "4 + length run_id \<le> prefix \<Longrightarrow> length (row_prefix prefix run_id) = prefix"
  by (simp add: row_prefix_def)

lemma length_row_image:
  "4 + length run_id \<le> prefix \<Longrightarrow> length (row_image prefix run_id words) = prefix + 8 * length words"
  by (simp add: row_image_def length_row_prefix length_words_le)

lemma zero_words: "concat (replicate n (u64_le 0)) = replicate (8 * n) 0"
  by (induction n) (simp_all add: u64_le_0 replicate_add)

lemma initialize_prefix_eq:
  assumes "4 + length run_id \<le> unat prefix" and "off + unat prefix \<le> length buffer"
  shows "initialize_prefix off prefix run_id buffer =
    store_bytes off (row_prefix (unat prefix) run_id) buffer"
proof -
  have "store_bytes (off + 4) (string_bytes run_id)
      (store_bytes off (u32_le (of_nat (length run_id))) buffer) =
      store_bytes off (u32_le (of_nat (length run_id)) @ string_bytes run_id) buffer"
    using store_bytes_append [of off "u32_le (of_nat (length run_id))" "string_bytes run_id" buffer]
      assms by simp
  then show ?thesis
    using store_bytes_append [of off "u32_le (of_nat (length run_id)) @ string_bytes run_id"
        "replicate (unat prefix - (4 + length run_id)) 0" buffer] assms
    by (simp add: initialize_prefix_def store_u32_le_def row_prefix_def add.assoc)
qed

text \<open>A table of rows of equal size, and the write of one of its rows.\<close>

lemma length_table:
  assumes "4 + length run_id \<le> prefix" and "list_all (\<lambda>r. length r = n) rows"
  shows "length (concat (map (row_image prefix run_id) rows)) = length rows * (prefix + 8 * n)"
  using assms(2) by (induction rows) (simp_all add: length_row_image [OF assms(1)])

lemma table_write_row:
  assumes "4 + length run_id \<le> prefix" and "list_all (\<lambda>r. length r = n) rows" and "i < length rows"
    and "length words = n"
  shows "store_words (i * (prefix + 8 * n) + prefix) words (concat (map (row_image prefix run_id) rows)) =
    concat (map (row_image prefix run_id) (rows[i := words]))"
proof -
  let ?img = "row_image prefix run_id"
  let ?before = "concat (map ?img (take i rows)) @ row_prefix prefix run_id"
  let ?after = "concat (map ?img (drop (Suc i) rows))"
  have rows: "rows = take i rows @ rows ! i # drop (Suc i) rows" using assms(3) by (rule id_take_nth_drop)
  have li: "length (rows ! i) = n" using assms(2,3) by (simp add: list_all_length)
  have "list_all (\<lambda>r. length r = n) (take i rows)"
    using assms(2) by (metis append_take_drop_id list_all_append)
  then have lb: "length ?before = i * (prefix + 8 * n) + prefix"
    using length_table [OF assms(1)] length_row_prefix [OF assms(1)] assms(3) by simp
  have buf: "concat (map ?img rows) = ?before @ concat (map u64_le (rows ! i)) @ ?after"
    by (subst rows) (simp add: row_image_def)
  have "store_words (length ?before) words (concat (map ?img rows)) =
      store_bytes (length ?before) (concat (map u64_le words)) (concat (map ?img rows))"
    using li assms(4) by (intro store_words_eq) (simp add: buf length_words_le)
  also have "\<dots> = ?before @ concat (map u64_le words) @ ?after"
    unfolding buf using li assms(4) by (intro store_bytes_middle) (simp add: length_words_le)
  also have "\<dots> = concat (map ?img (rows[i := words]))"
    using assms(3) by (simp add: upd_conv_take_nth_drop row_image_def)
  finally show ?thesis by (simp only: lb)
qed

subsection \<open>The layout of a run's rows\<close>

lemma raw_checked_add_Some:
  "raw_checked_add a b = Some c \<longleftrightarrow> unat a + unat b < 2 ^ 64 \<and> c = a + b"
  by (auto simp: raw_checked_add_def overflow_guard)

lemma raw_checked_multiply_Some:
  "raw_checked_multiply a b = Some c \<longleftrightarrow> unat a * unat b < 2 ^ 64 \<and> c = a * b"
  by (auto simp: raw_checked_multiply_def overflow_guard)

lemma unat_clear_low_3: "unat (y AND NOT 7 :: u64) = 8 * (unat y div 8)"
proof -
  have m: "(7 :: u64) = mask 3" by (simp add: mask_eq_exp_minus_1)
  have "y AND NOT 7 = push_bit 3 (drop_bit 3 y)"
    unfolding m by (auto intro!: bit_word_eqI simp: bit_simps)
  also have "\<dots> = y - take_bit 3 y" using bits_ident [of 3 y] by (simp add: eq_diff_eq)
  finally have eq: "y AND NOT 7 = y - take_bit 3 y" .
  have t: "unat (take_bit 3 y) = unat y mod 8"
    by (simp only: take_bit_eq_mod) (simp add: unat_mod_distrib)
  then have "take_bit 3 y \<le> y" by (simp only: word_le_nat_alt t mod_less_eq_dividend)
  then show ?thesis unfolding eq by (simp only: unat_minus_u64 t minus_mod_eq_mult_div)
qed

text \<open>The size of the prefix: four bytes and the identifier, rounded up to a multiple of eight.\<close>

definition prefix_size :: "string \<Rightarrow> nat" where
  "prefix_size run_id = 8 * ((length run_id + 11) div 8)"

lemma prefix_size_fits: "4 + length run_id \<le> prefix_size run_id"
  by (simp add: prefix_size_def)

lemma prefix_size_bound: "length run_id < 2 ^ 32 \<Longrightarrow> prefix_size run_id + 1000 < 2 ^ 64"
  by (simp add: prefix_size_def)

lemma make_row_layout_cases:
  assumes "length run_id < 2 ^ 64"
  shows "make_row_layout run_id =
     (if run_id = [] then Inl (StorageSetupError ''raw-observation run_id must not be empty'')
      else if \<not> valid_utf8 (string_bytes run_id)
      then Inl (StorageSetupError ''raw-observation run_id must be valid UTF-8'')
      else if 2 ^ 32 \<le> length run_id
      then Inl (StorageSetupError ''raw-observation run_id exceeds uint32 length'')
      else Inr \<lparr>rl_run_id_bytes = of_nat (length run_id), rl_prefix_bytes = of_nat (prefix_size run_id),
             rl_producer_row_bytes = of_nat (prefix_size run_id + 120),
             rl_consumer_row_bytes = of_nat (prefix_size run_id + 80),
             rl_joined_row_bytes = of_nat (prefix_size run_id + 192)\<rparr>)"
proof (cases "2 ^ 32 \<le> length run_id")
  case True
  then have "(of_nat (length run_id) :: u64) > 0xffffffff"
    using assms by (simp add: word_less_nat_alt unat_of_nat_u64)
  then show ?thesis using True by (simp add: make_row_layout_def)
next
  case False
  define n where "n = length run_id"
  have n: "n < 2 ^ 32" using False n_def by simp
  have len: "unat (of_nat n :: u64) = n" using n by (simp add: unat_of_nat_u64)
  have small: "\<not> (of_nat n :: u64) > 0xffffffff" using n len by (simp add: word_less_nat_alt)
  have w: "unat (4 + of_nat n :: u64) = 4 + n" using n len by (simp add: unat_plus_u64)
  have w7: "unat (4 + of_nat n + 7 :: u64) = n + 11" using n len by (simp add: unat_plus_u64 add.assoc [symmetric])
  have le: "\<not> (4 + of_nat n :: u64) > u64_max - 7"
    using n w by (simp add: word_less_nat_alt unat_minus_u64)
  let ?p = "(4 + of_nat n + 7 :: u64) AND NOT 7"
  have p: "unat ?p = prefix_size run_id"
    unfolding unat_clear_low_3 w7 by (simp add: prefix_size_def n_def)
  have pb: "prefix_size run_id + 1000 < 2 ^ 64" using False by (intro prefix_size_bound) simp
  have P: "?p = of_nat (prefix_size run_id)"
    by (simp only: word_eq_unat p unat_of_nat_u64 [OF add_lessD1 [OF pb]])
  have up: "unat (of_nat (prefix_size run_id) :: u64) = prefix_size run_id"
    by (rule unat_of_nat_u64 [OF add_lessD1 [OF pb]])
  show ?thesis using False small le pb
    by (simp add: make_row_layout_def n_def [symmetric] raw_checked_add_Some w len P [simplified] up Let_def
        kProducerBodyBytes_def kConsumerBodyBytes_def kJoinedBodyBytes_def)
qed

text \<open>The sizes a computed layout has.\<close>

lemma layout_facts:
  assumes "make_row_layout run_id = Inr layout" and "length run_id < 2 ^ 64"
  shows "length run_id < 2 ^ 32" and "unat (rl_prefix_bytes layout) = prefix_size run_id"
    and "unat (rl_run_id_bytes layout) = length run_id"
    and "unat (rl_producer_row_bytes layout) = prefix_size run_id + 8 * 15"
    and "unat (rl_consumer_row_bytes layout) = prefix_size run_id + 8 * 10"
    and "unat (rl_joined_row_bytes layout) = prefix_size run_id + 8 * 24"
proof -
  have l: "length run_id < 2 ^ 32" and e: "layout = \<lparr>rl_run_id_bytes = of_nat (length run_id),
      rl_prefix_bytes = of_nat (prefix_size run_id),
      rl_producer_row_bytes = of_nat (prefix_size run_id + 120),
      rl_consumer_row_bytes = of_nat (prefix_size run_id + 80),
      rl_joined_row_bytes = of_nat (prefix_size run_id + 192)\<rparr>"
    using assms(1) unfolding make_row_layout_cases [OF assms(2)] by (auto split: if_splits)
  have u: "unat (of_nat (prefix_size run_id + k) :: u64) = prefix_size run_id + k" if "k < 1000" for k
    using that prefix_size_bound [OF l] by (intro unat_of_nat_u64) linarith
  show "length run_id < 2 ^ 32" by (rule l)
  show "unat (rl_run_id_bytes layout) = length run_id"
    using l by (simp add: e unat_of_nat_u64)
  show "unat (rl_prefix_bytes layout) = prefix_size run_id" using u [of 0] by (simp add: e)
  show "unat (rl_producer_row_bytes layout) = prefix_size run_id + 8 * 15"
    "unat (rl_consumer_row_bytes layout) = prefix_size run_id + 8 * 10"
    "unat (rl_joined_row_bytes layout) = prefix_size run_id + 8 * 24"
    using u [of 120] u [of 80] u [of 192] by (simp_all add: e)
qed

subsection \<open>The stream as a table of rows\<close>

text \<open>A row whose body has not been written yet.\<close>

abbreviation blank_row :: "nat \<Rightarrow> u64 list" where
  "blank_row n \<equiv> replicate n 0"

lemma initialize_prefixes_upto:
  fixes capacity prefix row_bytes :: u64
  assumes fit: "4 + length run_id \<le> unat prefix" and row: "unat row_bytes = unat prefix + 8 * n"
    and bound: "unat capacity * unat row_bytes < 2 ^ 64" and k: "k \<le> unat capacity"
  shows "fold (\<lambda>row buffer. initialize_prefix (unat ((of_nat row :: u64) * row_bytes)) prefix run_id buffer)
      [0..<k] (replicate (unat capacity * unat row_bytes) 0) =
    concat (map (row_image (unat prefix) run_id) (replicate k (blank_row n))) @
      replicate ((unat capacity - k) * unat row_bytes) 0"
  using k
proof (induction k)
  case 0
  then show ?case by simp
next
  case (Suc k)
  let ?before = "concat (map (row_image (unat prefix) run_id) (replicate k (blank_row n)))"
  have lb: "length ?before = k * unat row_bytes"
    using length_table [OF fit, of n "replicate k (blank_row n)"] row by (simp add: list_all_length)
  have lt: "k * unat row_bytes < 2 ^ 64"
    using bound Suc.prems by (meson Suc_leD le_less_trans mult_le_mono1)
  have kn: "unat (of_nat k :: u64) = k"
    using Suc.prems unat_u64_lt [of capacity] by (intro unat_of_nat_u64) linarith
  have off: "unat ((of_nat k :: u64) * row_bytes) = k * unat row_bytes"
    using unat_times_u64 [of "of_nat k" row_bytes] lt kn by simp
  have snoc: "replicate (Suc k) (blank_row n) = replicate k (blank_row n) @ [blank_row n]"
    by (simp add: replicate_append_same)
  define rest where "rest = (unat capacity - Suc k) * unat row_bytes"
  have split: "(unat capacity - k) * unat row_bytes = unat prefix + (8 * n + rest)"
    using Suc.prems row by (simp add: rest_def Suc_diff_Suc [symmetric] algebra_simps)
  have zeros: "replicate ((unat capacity - k) * unat row_bytes) (0 :: u8) =
      replicate (unat prefix) 0 @ replicate (8 * n) 0 @ replicate rest 0"
    unfolding split by (simp add: replicate_add)
  have "initialize_prefix (k * unat row_bytes) prefix run_id
      (?before @ replicate ((unat capacity - k) * unat row_bytes) 0) =
      store_bytes (length ?before) (row_prefix (unat prefix) run_id)
        (?before @ replicate (unat prefix) 0 @ replicate (8 * n) 0 @ replicate rest 0)"
    unfolding zeros by (subst initialize_prefix_eq [OF fit]) (simp_all add: lb [simplified])
  also have "\<dots> = ?before @ row_prefix (unat prefix) run_id @ replicate (8 * n) 0 @ replicate rest 0"
    by (rule store_bytes_middle) (simp add: length_row_prefix [OF fit])
  also have "\<dots> = concat (map (row_image (unat prefix) run_id) (replicate (Suc k) (blank_row n))) @
      replicate rest 0"
    unfolding snoc by (simp add: row_image_def zero_words)
  finally show ?case using Suc by (simp add: off rest_def del: replicate_Suc)
qed

text \<open>
  The invariant of a stream, relating it to the list of the rows appended so far: \<open>row_bytes\<close>
  is the row size of its kind of stream and \<open>n\<close> the number of words in a row's body.
\<close>

definition stream_geometry :: "(RowLayout \<Rightarrow> u64) \<Rightarrow> nat \<Rightarrow> ProducerObservationStream \<Rightarrow> bool" where
  "stream_geometry row_bytes n s \<longleftrightarrow>
     unat (rl_prefix_bytes (os_layout s)) = prefix_size (os_run_id s) \<and>
     row_bytes (os_layout s) = os_row_bytes s \<and>
     unat (os_row_bytes s) = prefix_size (os_run_id s) + 8 * n \<and>
     unat (os_row_capacity s) * unat (os_row_bytes s) < 2 ^ 64 \<and>
     unat (os_allocated_bytes s) = unat (os_row_capacity s) * unat (os_row_bytes s)"

definition stream_rows :: "nat \<Rightarrow> u64 list list \<Rightarrow> ProducerObservationStream \<Rightarrow> bool" where
  "stream_rows n rows s \<longleftrightarrow>
     unat (os_row_count s) = length rows \<and> length rows \<le> unat (os_row_capacity s) \<and>
     list_all (\<lambda>r. length r = n) rows \<and>
     (if os_prepared s
      then os_storage s = concat (map (row_image (prefix_size (os_run_id s)) (os_run_id s))
             (rows @ replicate (unat (os_row_capacity s) - length rows) (blank_row n)))
      else rows = [] \<and> (os_allocated_bytes s = 0 \<longrightarrow> os_storage s = []))"

lemma stream_flags [simp]:
  "stream_geometry row_bytes n (s\<lparr>os_overflowed := b\<rparr>) = stream_geometry row_bytes n s"
  "stream_geometry row_bytes n (s\<lparr>os_completeness := c\<rparr>) = stream_geometry row_bytes n s"
  "stream_rows n rows (s\<lparr>os_overflowed := b\<rparr>) = stream_rows n rows s"
  "stream_rows n rows (s\<lparr>os_completeness := c\<rparr>) = stream_rows n rows s"
  by (simp_all add: stream_geometry_def stream_rows_def)

lemma stream_create_rows:
  assumes "stream_create row_bytes message allocate run_id capacity = Inr s"
    and "length (id_value run_id) < 2 ^ 64"
    and "\<And>layout. make_row_layout (id_value run_id) = Inr layout \<Longrightarrow>
           unat (row_bytes layout) = prefix_size (id_value run_id) + 8 * n"
  shows "stream_geometry row_bytes n s" and "stream_rows n [] s" and "\<not> os_prepared s"
    and "os_completeness s = Writing" and "os_run_id s = id_value run_id" and "os_row_capacity s = capacity"
    and "\<not> os_overflowed s"
proof -
  obtain layout allocated storage where l: "make_row_layout (id_value run_id) = Inr layout"
    and a: "raw_checked_multiply capacity (row_bytes layout) = Some allocated"
    and s: "s = \<lparr>os_run_id = id_value run_id, os_layout = layout, os_storage = storage,
        os_allocated_bytes = allocated, os_row_count = 0, os_row_capacity = capacity,
        os_row_bytes = row_bytes layout, os_completeness = Writing, os_overflowed = False,
        os_prepared = False\<rparr>"
    using assms(1) by (auto simp: stream_create_def split: sum.splits option.splits)
  have "unat (rl_prefix_bytes layout) = prefix_size (id_value run_id)"
    using l prefix_size_bound [of "id_value run_id"]
    by (auto simp: make_row_layout_cases [OF assms(2)] unat_of_nat_u64 split: if_splits)
  then show "stream_geometry row_bytes n s" using a assms(3) [OF l]
    by (simp add: s stream_geometry_def raw_checked_multiply_Some unat_times_u64)
qed (use assms(1) in \<open>auto simp: stream_create_def stream_rows_def split: sum.splits option.splits\<close>)

lemma stream_prepare_rows:
  assumes "stream_geometry row_bytes n s" and "stream_rows n [] s"
    and "stream_prepare_for_owner row_bytes s = (True, s')"
  shows "stream_rows n [] s'" and "os_prepared s'" and "os_completeness s' = Writing"
proof -
  have g: "unat (rl_prefix_bytes (os_layout s)) = prefix_size (os_run_id s)"
    "row_bytes (os_layout s) = os_row_bytes s"
    "unat (os_row_bytes s) = unat (rl_prefix_bytes (os_layout s)) + 8 * n"
    "unat (os_row_capacity s) * unat (os_row_bytes s) < 2 ^ 64"
    "unat (os_allocated_bytes s) = unat (os_row_capacity s) * unat (os_row_bytes s)"
    using assms(1) by (auto simp: stream_geometry_def)
  have fit: "4 + length (os_run_id s) \<le> unat (rl_prefix_bytes (os_layout s))"
    using prefix_size_fits g(1) by simp
  have z: "os_allocated_bytes s = 0 \<longleftrightarrow> os_row_capacity s = 0"
    using g(1,3,5) fit by (simp add: word_eq_unat)
  have st: "\<not> os_prepared s" "os_completeness s = Writing"
    and s': "s' = s\<lparr>os_storage := (if os_allocated_bytes s \<noteq> 0
              then initialize_prefixes (os_row_capacity s) (row_bytes (os_layout s))
                     (rl_prefix_bytes (os_layout s)) (os_run_id s)
                     (replicate (unat (os_allocated_bytes s)) 0)
              else os_storage s), os_prepared := True\<rparr>"
    using assms(3) by (auto simp: stream_prepare_for_owner_def split: if_splits)
  have init: "initialize_prefixes (os_row_capacity s) (os_row_bytes s) (rl_prefix_bytes (os_layout s))
      (os_run_id s) (replicate (unat (os_allocated_bytes s)) 0) =
      concat (map (row_image (prefix_size (os_run_id s)) (os_run_id s))
        (replicate (unat (os_row_capacity s)) (blank_row n)))"
    using initialize_prefixes_upto [OF fit g(3,4) order_refl] g(1,5) by (simp add: initialize_prefixes_def)
  show "stream_rows n [] s'" using assms(2) init g(2) z by (auto simp: stream_rows_def s' st)
qed (use assms(3) in \<open>auto simp: stream_prepare_for_owner_def split: if_splits\<close>)

lemma stream_commit_rows:
  assumes "stream_geometry row_bytes n s" and "stream_rows n rows s" and "os_prepared s"
    and "length words = n" and "length rows < unat (os_row_capacity s)"
  obtains s' where "stream_commit row_bytes words s = (Appended, s')"
    and "stream_geometry row_bytes n s'" and "stream_rows n (rows @ [words]) s'"
    and "os_prepared s'" and "os_completeness s' = os_completeness s" and "os_run_id s' = os_run_id s"
    and "os_row_capacity s' = os_row_capacity s" and "os_overflowed s' = os_overflowed s"
proof -
  let ?P = "prefix_size (os_run_id s)" and ?cap = "unat (os_row_capacity s)"
  let ?rows = "rows @ replicate (?cap - length rows) (blank_row n)"
  let ?off = "os_row_count s * row_bytes (os_layout s) + rl_prefix_bytes (os_layout s)"
  note r = assms(2) [unfolded stream_rows_def] and g = assms(1) [unfolded stream_geometry_def]
  have cnt: "unat (os_row_count s) = length rows" using r by simp
  then have more: "os_row_count s \<noteq> os_row_capacity s"
    and suc: "unat (os_row_count s + 1) = Suc (length rows)"
    using assms(5) unat_Suc_u64 [of "os_row_count s" "os_row_capacity s"] by auto
  have "length rows * (?P + 8 * n) + ?P \<le> Suc (length rows) * (?P + 8 * n)" by simp
  also have "\<dots> \<le> ?cap * (?P + 8 * n)" using assms(5) by (intro mult_le_mono1) simp
  also have "\<dots> < 2 ^ 64" using g by auto
  finally have bound: "length rows * (?P + 8 * n) + ?P < 2 ^ 64" .
  have "unat (os_row_count s * row_bytes (os_layout s)) = length rows * (?P + 8 * n)"
    using g cnt bound unat_times_u64 [of "os_row_count s" "row_bytes (os_layout s)"] by simp
  then have off: "unat ?off = length rows * (?P + 8 * n) + ?P"
    using g bound unat_plus_u64 [of "os_row_count s * row_bytes (os_layout s)" "rl_prefix_bytes (os_layout s)"]
    by simp
  have "store_words (unat ?off) words (concat (map (row_image ?P (os_run_id s)) ?rows)) =
      concat (map (row_image ?P (os_run_id s)) (?rows[length rows := words]))"
    unfolding off using r assms(4,5)
    by (intro table_write_row) (auto simp: prefix_size_fits list_all_iff)
  moreover have "?rows[length rows := words] =
      (rows @ [words]) @ replicate (?cap - length (rows @ [words])) (blank_row n)"
    using assms(5) by (simp add: list_update_append Suc_diff_Suc [symmetric])
  ultimately show ?thesis
    using that [of "snd (stream_commit row_bytes words s)"] more suc assms r g
    by (simp add: stream_commit_def stream_geometry_def stream_rows_def)
qed

lemma stream_commit_full:
  assumes "stream_rows n rows s" and "length rows = unat (os_row_capacity s)"
  shows "stream_commit row_bytes words s =
    (Append_buffer_overflow, s\<lparr>os_overflowed := True, os_completeness := Sealed_incomplete\<rparr>)"
  using assms by (simp add: stream_commit_def stream_rows_def word_eq_unat)

lemma stream_snapshot_rows:
  assumes "stream_geometry row_bytes n s" and "stream_rows n rows s"
  shows "sn_bytes (stream_snapshot kind s) =
      concat (map (row_image (prefix_size (os_run_id s)) (os_run_id s)) rows)"
    and "unat (sn_row_count (stream_snapshot kind s)) = length rows"
proof -
  let ?P = "prefix_size (os_run_id s)" and ?img = "row_image (prefix_size (os_run_id s)) (os_run_id s)"
  note r = assms(2) [unfolded stream_rows_def] and g = assms(1) [unfolded stream_geometry_def]
  have "length rows * unat (os_row_bytes s) \<le> unat (os_row_capacity s) * unat (os_row_bytes s)"
    using r by (intro mult_le_mono1) simp
  also have "\<dots> < 2 ^ 64" using g by auto
  finally have sz: "unat (os_row_count s * os_row_bytes s) = length rows * (?P + 8 * n)"
    using g r unat_times_u64 [of "os_row_count s" "os_row_bytes s"] by simp
  have len: "length (concat (map ?img rows)) = length rows * (?P + 8 * n)"
    using r by (intro length_table) (simp_all add: prefix_size_fits)
  show "sn_bytes (stream_snapshot kind s) = concat (map ?img rows)"
  proof (cases "os_prepared s")
    case True
    then have "os_storage s = concat (map ?img rows) @
        concat (map ?img (replicate (unat (os_row_capacity s) - length rows) (blank_row n)))"
      using r by simp
    then show ?thesis by (simp add: stream_snapshot_def sz len)
  next
    case False
    then show ?thesis using r sz by (simp add: stream_snapshot_def)
  qed
  show "unat (sn_row_count (stream_snapshot kind s)) = length rows"
    using r by (simp add: stream_snapshot_def)
qed

subsection \<open>The contract of an observation stream\<close>

fun append_all ::
  "('o \<Rightarrow> ProducerObservationStream \<Rightarrow> AppendStatus \<times> ProducerObservationStream) \<Rightarrow> 'o list \<Rightarrow>
     ProducerObservationStream \<Rightarrow> AppendStatus list \<times> ProducerObservationStream" where
  "append_all push [] s = ([], s)"
| "append_all push (x # xs) s =
     (let (status, s1) = push x s; (statuses, s2) = append_all push xs s1 in (status # statuses, s2))"

text \<open>What the client may rely on: the log of the rows that fitted, and one status per call.\<close>

definition append_statuses :: "nat \<Rightarrow> nat \<Rightarrow> AppendStatus list" where
  "append_statuses room calls =
     (if calls \<le> room then replicate calls Appended
      else replicate room Appended @ Append_buffer_overflow # replicate (calls - room - 1) Append_stream_sealed)"

lemma append_statuses_simps [simp]:
  "append_statuses room 0 = []"
  "append_statuses (Suc room) (Suc calls) = Appended # append_statuses room calls"
  "append_statuses 0 (Suc calls) = Append_buffer_overflow # replicate calls Append_stream_sealed"
  by (simp_all add: append_statuses_def)

locale observation_stream =
  fixes row_bytes :: "RowLayout \<Rightarrow> u64" and n :: nat
    and push :: "'o \<Rightarrow> ProducerObservationStream \<Rightarrow> AppendStatus \<times> ProducerObservationStream"
    and row_words :: "'o \<Rightarrow> u64 list" and well_formed :: "'o \<Rightarrow> bool"
  assumes words_length: "length (row_words x) = n"
    and append_writing: "\<lbrakk>os_prepared s; os_completeness s = Writing; well_formed x\<rbrakk> \<Longrightarrow>
      push x s = stream_commit row_bytes (row_words x) s"
    and append_sealed: "\<lbrakk>os_prepared s; os_completeness s \<noteq> Writing\<rbrakk> \<Longrightarrow>
      push x s = (Append_stream_sealed, s)"
begin

lemma append_all_sealed:
  "\<lbrakk>os_prepared s; os_completeness s \<noteq> Writing\<rbrakk> \<Longrightarrow>
     append_all push xs s = (replicate (length xs) Append_stream_sealed, s)"
  by (induction xs) (simp_all add: append_sealed)

lemma append_all_log:
  assumes "stream_geometry row_bytes n s" and "stream_rows n rows s" and "os_prepared s"
    and "os_completeness s = Writing" and "list_all well_formed xs"
    and "unat (os_row_capacity s) - length rows = room"
  obtains s' where "append_all push xs s = (append_statuses room (length xs), s')"
    and "stream_geometry row_bytes n s'"
    and "stream_rows n (rows @ map row_words (take room xs)) s'"
    and "os_run_id s' = os_run_id s" and "os_row_capacity s' = os_row_capacity s" and "os_prepared s'"
    and "if length xs \<le> room
         then os_completeness s' = Writing \<and> os_overflowed s' = os_overflowed s
         else os_completeness s' = Sealed_incomplete \<and> os_overflowed s'"
  using assms
proof (induction xs arbitrary: s rows room thesis)
  case Nil
  then show ?case by simp
next
  case (Cons x xs)
  have step: "push x s = stream_commit row_bytes (row_words x) s"
    using Cons.prems by (simp add: append_writing)
  show ?case
  proof (cases room)
    case 0
    then have full: "length rows = unat (os_row_capacity s)"
      using Cons.prems by (simp add: stream_rows_def)
    let ?s = "s\<lparr>os_overflowed := True, os_completeness := Sealed_incomplete\<rparr>"
    have "append_all push (x # xs) s =
        (Append_buffer_overflow # replicate (length xs) Append_stream_sealed, ?s)"
      using Cons.prems(4) full stream_commit_full [OF Cons.prems(3) full] append_all_sealed [of ?s xs]
      by (simp add: step)
    then show ?thesis using Cons.prems 0
      by (intro Cons.prems(1) [of ?s]) simp_all
  next
    case (Suc m)
    then have "length rows < unat (os_row_capacity s)" using Cons.prems by simp
    then obtain s1 where s1: "stream_commit row_bytes (row_words x) s = (Appended, s1)"
      "stream_geometry row_bytes n s1" "stream_rows n (rows @ [row_words x]) s1" "os_prepared s1"
      "os_completeness s1 = os_completeness s" "os_run_id s1 = os_run_id s"
      "os_row_capacity s1 = os_row_capacity s" "os_overflowed s1 = os_overflowed s"
      using stream_commit_rows Cons.prems words_length by metis
    have m: "unat (os_row_capacity s) - Suc (length rows) = m" using Suc Cons.prems by linarith
    obtain s' where s': "append_all push xs s1 = (append_statuses m (length xs), s')"
      "stream_geometry row_bytes n s'"
      "stream_rows n ((rows @ [row_words x]) @ map row_words (take m xs)) s'"
      "os_run_id s' = os_run_id s1" "os_row_capacity s' = os_row_capacity s1" "os_prepared s'"
      "if length xs \<le> m then os_completeness s' = Writing \<and> os_overflowed s' = os_overflowed s1
         else os_completeness s' = Sealed_incomplete \<and> os_overflowed s'"
      using Cons.IH [where s = s1 and rows = "rows @ [row_words x]" and room = m] s1 m Cons.prems(5,6) by auto
    show ?thesis using s1 s' Suc by (intro Cons.prems(1) [of s']) (simp_all add: step)
  qed
qed

lemma recorded_stream:
  assumes create: "stream_create row_bytes message allocate run_id capacity = Inr s0"
    and len: "length (id_value run_id) < 2 ^ 64"
    and size: "\<And>layout. make_row_layout (id_value run_id) = Inr layout \<Longrightarrow>
           unat (row_bytes layout) = prefix_size (id_value run_id) + 8 * n"
    and prepare: "stream_prepare_for_owner row_bytes s0 = (True, s1)"
    and xs: "list_all well_formed xs" "length xs \<le> unat capacity"
    and app: "append_all push xs s1 = (statuses, s2)" and seal: "seal_complete s2 = (sealed, s3)"
  shows "statuses = replicate (length xs) Appended" and "sealed"
    and "sn_bytes (stream_snapshot kind s3) =
      concat (map (row_image (prefix_size (id_value run_id)) (id_value run_id)) (map row_words xs))"
    and "length xs * (prefix_size (id_value run_id) + 8 * n) < 2 ^ 64"
proof -
  note c = stream_create_rows [OF create len size]
  note pr = stream_prepare_rows [OF c(1,2) prepare]
  have k: "stream_geometry row_bytes n s1" "os_run_id s1 = id_value run_id" "os_row_capacity s1 = capacity"
    "\<not> os_overflowed s1"
    using prepare c by (auto simp: stream_prepare_for_owner_def stream_geometry_def split: if_splits)
  obtain s' where s': "append_all push xs s1 = (append_statuses (unat capacity) (length xs), s')"
    "stream_geometry row_bytes n s'" "stream_rows n ([] @ map row_words (take (unat capacity) xs)) s'"
    "os_run_id s' = os_run_id s1" "os_row_capacity s' = os_row_capacity s1" "os_prepared s'"
    "if length xs \<le> unat capacity then os_completeness s' = Writing \<and> os_overflowed s' = os_overflowed s1
     else os_completeness s' = Sealed_incomplete \<and> os_overflowed s'"
    by (rule append_all_log [OF k(1) pr xs(1), of "unat capacity"]) (simp_all add: k)
  have s2: "s2 = s'" using app s'(1) by simp
  show "statuses = replicate (length xs) Appended" using app s'(1) xs(2) by (simp add: append_statuses_def)
  have s3: "sealed" "s3 = s2\<lparr>os_completeness := Sealed_complete\<rparr>"
    using seal s' xs(2) k(4) by (simp_all add: s2 seal_complete_def)
  show "sealed" by (rule s3)
  have g3: "stream_geometry row_bytes n s3" "stream_rows n (map row_words xs) s3"
    using s' xs(2) by (simp_all add: s3 s2)
  show "sn_bytes (stream_snapshot kind s3) =
      concat (map (row_image (prefix_size (id_value run_id)) (id_value run_id)) (map row_words xs))"
    using stream_snapshot_rows(1) [OF g3] s'(4) k(2) by (simp add: s3 s2)
  have "length xs * unat (os_row_bytes s3) \<le> unat capacity * unat (os_row_bytes s3)"
    using xs(2) by (rule mult_le_mono1)
  also have "\<dots> < 2 ^ 64" using g3(1) s'(5) k(3) by (auto simp: stream_geometry_def s3 s2)
  finally show "length xs * (prefix_size (id_value run_id) + 8 * n) < 2 ^ 64"
    using g3(1) s'(4) k(2) by (simp add: stream_geometry_def s3 s2)
qed

end

interpretation producer_stream: observation_stream rl_producer_row_bytes 15 producer_append producer_words
  "\<lambda>x. (po_outcome x = Outcome_accepted) = (po_enqueue_linearization x \<noteq> None) \<and>
       (po_outcome x = Outcome_accepted) = (po_accepted_ordinal x \<noteq> None)"
  by unfold_locales (auto simp: producer_words_def producer_append_def Let_def)

interpretation consumer_stream: observation_stream rl_consumer_row_bytes 10 consumer_append consumer_words
  "\<lambda>x. True"
  by unfold_locales (auto simp: consumer_words_def consumer_append_def)

end
