(* ===== verification/Raw_Decode.thy ===== *)
theory Raw_Decode
  imports Raw_Streams
begin

text \<open>
  The decoder of raw artifacts, \<^verbatim>\<open>decode_external_raw\<close> of \<^verbatim>\<open>storage/raw_observations.cpp\<close>, and the
  codec of joined rows. The SHA-256 digest of OpenSSL is an argument. The theorems are round
  trips: what a stream recorded is what the decoder returns.
\<close>

definition kRawFormatId :: string where
  "kRawFormatId = ''RAW-OBS-U64LE-LP-RUNID-v1''"

definition kRawEncoding :: string where
  "kRawEncoding = ''FIXED_U64_LE_LENGTH_PREFIXED_UTF8_RUN_ID''"

definition kRawTimeUnit :: string where
  "kRawTimeUnit = ''PICOSECONDS''"

definition kRawCompression :: string where
  "kRawCompression = ''NONE''"

record DecodedProducerRow =
  dp_run_id :: string
  dp_observation :: ProducerObservation

record DecodedConsumerRow =
  dc_run_id :: string
  dc_observation :: ConsumerObservation

datatype DecodedRows =
    Decoded_producer "DecodedProducerRow list"
  | Decoded_consumer "DecodedConsumerRow list"
  | Decoded_joined "JoinedRecord list"

record DecodedRawStream =
  dr_stream_kind :: StreamKind
  dr_rows :: DecodedRows

definition decode_failure :: "ErrorCategory \<Rightarrow> string \<Rightarrow> string \<Rightarrow> string \<Rightarrow> 'a Result" where
  "decode_failure category path rule message = Inl [ValidationError category path rule message]"

definition expected_row_bytes :: "StreamKind \<Rightarrow> RowLayout \<Rightarrow> u64" where
  "expected_row_bytes kind layout =
     (case kind of
        Stream_producer \<Rightarrow> rl_producer_row_bytes layout
      | Stream_consumer \<Rightarrow> rl_consumer_row_bytes layout
      | Stream_joined_derived \<Rightarrow> rl_joined_row_bytes layout)"

definition verify_prefix :: "u8 list \<Rightarrow> RowLayout \<Rightarrow> string \<Rightarrow> bool" where
  "verify_prefix row layout expected_run_id \<longleftrightarrow>
     ucast (load_u32_le row) = rl_run_id_bytes layout \<and>
     list_all (\<lambda>index. row ! (4 + index) = of_char (expected_run_id ! index))
       [0..<length expected_run_id] \<and>
     list_all (\<lambda>index. row ! index = 0)
       [unat (4 + rl_run_id_bytes layout)..<unat (rl_prefix_bytes layout)]"

definition joined_words :: "JoinedRecord \<Rightarrow> u64 list" where
  "joined_words row =
     [jr_accepted_ordinal row, jr_logical_sequence row, jr_record_index row,
      jr_producer_row_ordinal row, jr_consumer_row_ordinal row, jr_scheduled_arrival row,
      jr_producer_handle_begin row, jr_record_lookup_completion row, jr_enqueue_invocation row,
      jr_enqueue_linearization row, jr_enqueue_attempt_completion row, jr_dequeue_invocation row,
      jr_dequeue_linearization row, jr_dequeue_completion row, jr_consumer_action_completion row,
      jr_producer_lateness row, jr_pointer_lookup_interval row, jr_enqueue_service_time row,
      jr_admission_delay row, jr_queue_residence row, jr_dequeue_service_time row,
      jr_post_dequeue_delivery_interval row, jr_consumer_action_interval row,
      jr_end_to_end_latency row]"

subsection \<open>Decoding\<close>

definition sample_of :: "u64 \<Rightarrow> u64 \<Rightarrow> ClockSample" where
  "sample_of absolute relative = \<lparr>absolute_nanoseconds = absolute, relative_picoseconds = relative\<rparr>"

definition load_words :: "nat \<Rightarrow> u8 list \<Rightarrow> u64 list" where
  "load_words n body = map (\<lambda>word. load_u64_le (drop (word * 8) body)) [0..<n]"

record DecodeState =
  ds_producer_rows :: "DecodedProducerRow list"
  ds_consumer_rows :: "DecodedConsumerRow list"
  ds_joined_rows :: "JoinedRecord list"
  ds_expected_accepted :: u64

definition row_path :: "nat \<Rightarrow> string" where
  "row_path index = ''$out/rows/'' @ std_to_string index"

definition decode_producer_row ::
  "RawObservationEnvelope \<Rightarrow> nat \<Rightarrow> u64 list \<Rightarrow> DecodeState \<Rightarrow> DecodeState Result" where
  "decode_producer_row envelope index words st =
     (if words ! 0 \<noteq> of_nat index \<or>
         (words ! 14 \<noteq> kProducerAcceptedFlags \<and> words ! 14 \<noteq> kProducerFullFlags)
      then decode_failure cross_field (row_path index) ''RAW-PRODUCER-ORDER-FLAGS''
        ''producer logical sequence or flags are noncanonical''
      else
        let accepted = (words ! 14 = kProducerAcceptedFlags) in
        if (accepted \<and> words ! 13 \<noteq> ds_expected_accepted st) \<or>
           (\<not> accepted \<and> (words ! 9 \<noteq> 0 \<or> words ! 10 \<noteq> 0 \<or> words ! 13 \<noteq> 0))
        then decode_failure cross_field (row_path index) ''RAW-PRODUCER-ABSENCE-ORDINAL''
          ''producer ordinal or accepted-only absent values are noncanonical''
        else
          let linearization = (if accepted then Some (sample_of (words ! 9) (words ! 10)) else None);
              ordinal = (if accepted then Some (words ! 13) else None)
          in Inr (st\<lparr>ds_producer_rows := ds_producer_rows st @
               [\<lparr>dp_run_id = id_value (re_run_id envelope),
                 dp_observation =
                   \<lparr>po_logical_sequence = words ! 0, po_record_index = words ! 1,
                    po_scheduled_arrival = words ! 2,
                    po_producer_handle_begin = sample_of (words ! 3) (words ! 4),
                    po_record_lookup_completion = sample_of (words ! 5) (words ! 6),
                    po_enqueue_invocation = sample_of (words ! 7) (words ! 8),
                    po_enqueue_linearization = linearization,
                    po_enqueue_attempt_completion = sample_of (words ! 11) (words ! 12),
                    po_outcome = (if accepted then Outcome_accepted else Outcome_full),
                    po_accepted_ordinal = ordinal\<rparr>\<rparr>],
               ds_expected_accepted := ds_expected_accepted st + (if accepted then 1 else 0)\<rparr>))"

definition decode_consumer_row ::
  "RawObservationEnvelope \<Rightarrow> nat \<Rightarrow> u64 list \<Rightarrow> DecodeState \<Rightarrow> DecodeState Result" where
  "decode_consumer_row envelope index words st =
     (if words ! 0 \<noteq> of_nat index
      then decode_failure cross_field (row_path index @ ''/consumed_ordinal'') ''RAW-CONSUMER-ORDER''
        ''consumer rows must be in contiguous successful-dequeue order''
      else Inr (st\<lparr>ds_consumer_rows := ds_consumer_rows st @
             [\<lparr>dc_run_id = id_value (re_run_id envelope),
               dc_observation =
                 \<lparr>co_consumed_ordinal = words ! 0, co_observed_record_index = words ! 1,
                  co_dequeue_invocation = sample_of (words ! 2) (words ! 3),
                  co_dequeue_linearization = sample_of (words ! 4) (words ! 5),
                  co_dequeue_completion = sample_of (words ! 6) (words ! 7),
                  co_consumer_action_completion = sample_of (words ! 8) (words ! 9)\<rparr>\<rparr>]\<rparr>))"

definition decode_joined_row ::
  "RawObservationEnvelope \<Rightarrow> nat \<Rightarrow> u64 list \<Rightarrow> DecodeState \<Rightarrow> DecodeState Result" where
  "decode_joined_row envelope index words st =
     (if words ! 0 \<noteq> of_nat index
      then decode_failure cross_field (row_path index @ ''/accepted_ordinal'') ''RAW-JOINED-ORDER''
        ''joined rows must be in contiguous accepted-ordinal order''
      else Inr (st\<lparr>ds_joined_rows := ds_joined_rows st @
             [\<lparr>jr_run_id = re_run_id envelope, jr_accepted_ordinal = words ! 0,
               jr_logical_sequence = words ! 1, jr_record_index = words ! 2,
               jr_producer_row_ordinal = words ! 3, jr_consumer_row_ordinal = words ! 4,
               jr_scheduled_arrival = words ! 5, jr_producer_handle_begin = words ! 6,
               jr_record_lookup_completion = words ! 7, jr_enqueue_invocation = words ! 8,
               jr_enqueue_linearization = words ! 9, jr_enqueue_attempt_completion = words ! 10,
               jr_dequeue_invocation = words ! 11, jr_dequeue_linearization = words ! 12,
               jr_dequeue_completion = words ! 13, jr_consumer_action_completion = words ! 14,
               jr_producer_lateness = words ! 15, jr_pointer_lookup_interval = words ! 16,
               jr_enqueue_service_time = words ! 17, jr_admission_delay = words ! 18,
               jr_queue_residence = words ! 19, jr_dequeue_service_time = words ! 20,
               jr_post_dequeue_delivery_interval = words ! 21,
               jr_consumer_action_interval = words ! 22, jr_end_to_end_latency = words ! 23\<rparr>]\<rparr>))"

text \<open>One turn of the loop over the rows, and the loop.\<close>

definition decode_row ::
  "RawObservationEnvelope \<Rightarrow> RowLayout \<Rightarrow> u64 \<Rightarrow> u8 list \<Rightarrow> nat \<Rightarrow> DecodeState \<Rightarrow> DecodeState Result" where
  "decode_row envelope layout row_bytes bytes index st =
     (let row = drop (unat ((of_nat index :: u64) * row_bytes)) bytes in
      if \<not> verify_prefix row layout (id_value (re_run_id envelope))
      then decode_failure reference_mismatch (row_path index @ ''/run_id'') ''RAW-ROW-RUN-ID''
        ''row prefix is noncanonical or disagrees with the envelope run_id''
      else
        let body = drop (unat (rl_prefix_bytes layout)) row in
        (case re_stream_kind envelope of
           Stream_producer \<Rightarrow> decode_producer_row envelope index (load_words 15 body) st
         | Stream_consumer \<Rightarrow> decode_consumer_row envelope index (load_words 10 body) st
         | Stream_joined_derived \<Rightarrow> decode_joined_row envelope index (load_words 24 body) st))"

fun decode_rows ::
  "RawObservationEnvelope \<Rightarrow> RowLayout \<Rightarrow> u64 \<Rightarrow> u8 list \<Rightarrow> nat list \<Rightarrow> DecodeState \<Rightarrow> DecodeState Result" where
  "decode_rows envelope layout row_bytes bytes [] st = Inr st"
| "decode_rows envelope layout row_bytes bytes (index # rest) st =
     (case decode_row envelope layout row_bytes bytes index st of
        Inl errors \<Rightarrow> Inl errors
      | Inr st' \<Rightarrow> decode_rows envelope layout row_bytes bytes rest st')"

text \<open>The rows collected by the loop, and the same rows as logical records.\<close>

definition decoded_stream :: "RawObservationEnvelope \<Rightarrow> DecodeState \<Rightarrow> DecodedRawStream" where
  "decoded_stream envelope st =
     \<lparr>dr_stream_kind = re_stream_kind envelope,
      dr_rows = (case re_stream_kind envelope of
          Stream_producer \<Rightarrow> Decoded_producer (ds_producer_rows st)
        | Stream_consumer \<Rightarrow> Decoded_consumer (ds_consumer_rows st)
        | Stream_joined_derived \<Rightarrow> Decoded_joined (ds_joined_rows st))\<rparr>"

definition logical_rows :: "RawObservationEnvelope \<Rightarrow> DecodeState \<Rightarrow> InlineObservationRows" where
  "logical_rows envelope st =
     (case re_stream_kind envelope of
        Stream_producer \<Rightarrow> Producer_rows
          (map (\<lambda>row. make_producer_record (re_run_id envelope) (dp_observation row)) (ds_producer_rows st))
      | Stream_consumer \<Rightarrow> Consumer_rows
          (map (\<lambda>row. make_consumer_record (re_run_id envelope) (dc_observation row)) (ds_consumer_rows st))
      | Stream_joined_derived \<Rightarrow> Joined_rows (ds_joined_rows st))"

text \<open>
  The second half of \<^verbatim>\<open>decode_external_raw\<close>, once the envelope and the hash are accepted. (The
  layout is computed without allocating, so its only exception is \<^verbatim>\<open>StorageSetupError\<close>.)
\<close>

definition decode_body :: "RawObservationEnvelope \<Rightarrow> u8 list \<Rightarrow> DecodedRawStream Result" where
  "decode_body envelope bytes =
     (case make_row_layout (id_value (re_run_id envelope)) of
        Inl (StorageSetupError what) \<Rightarrow> decode_failure invalid_id ''$out/run_id'' ''RAW-RUN-ID'' what
      | Inl Storage_bad_alloc \<Rightarrow> decode_failure invalid_id ''$out/run_id'' ''RAW-RUN-ID'' []
      | Inr layout \<Rightarrow>
          let row_bytes = expected_row_bytes (re_stream_kind envelope) layout in
          (case raw_checked_multiply (re_row_count envelope) row_bytes of
             Some exact_bytes \<Rightarrow>
               if exact_bytes \<noteq> re_byte_count envelope \<or> exact_bytes \<noteq> of_nat (length bytes)
               then decode_failure cross_field ''$out/byte_count'' ''RAW-EXACT-SIZE''
                 ''row count, physical row size, byte count, and artifact size disagree''
               else
                 (case decode_rows envelope layout row_bytes bytes [0..<unat (re_row_count envelope)]
                    \<lparr>ds_producer_rows = [], ds_consumer_rows = [], ds_joined_rows = [],
                     ds_expected_accepted = 0\<rparr> of
                    Inl errors \<Rightarrow> Inl errors
                  | Inr st \<Rightarrow>
                      let errors = validate_raw (envelope\<lparr>re_storage := Inline_rows (logical_rows envelope st)\<rparr>)
                      in if errors \<noteq> [] then Inl errors else Inr (decoded_stream envelope st))
           | None \<Rightarrow> decode_failure cross_field ''$out/byte_count'' ''RAW-EXACT-SIZE''
               ''row count, physical row size, byte count, and artifact size disagree''))"

definition decode_external_raw ::
  "(u8 list \<Rightarrow> u8 list option) \<Rightarrow> RawObservationEnvelope \<Rightarrow> u8 list \<Rightarrow>
     workload_error + DecodedRawStream Result" where
  "decode_external_raw digest envelope bytes =
     (case re_storage envelope of
        Inline_rows _ \<Rightarrow> Inr (decode_failure cross_field ''$out/storage'' ''RAW-EXTERNAL''
          ''physical decoder accepts only external immutable raw artifacts'')
      | External_storage _ \<Rightarrow>
     if id_value (re_physical_format_record_id envelope) \<noteq> kRawFormatId \<or>
        re_encoding envelope \<noteq> kRawEncoding \<or> re_time_unit envelope \<noteq> kRawTimeUnit \<or>
        re_endianness envelope \<noteq> Little_endian \<or> re_compression envelope \<noteq> kRawCompression
     then Inr (decode_failure unsupported_version ''$out'' ''RAW-FORMAT-SUITE''
       ''raw envelope does not select the accepted Stage 11 format suite'')
     else if re_logical_row_schema_version envelope \<noteq> re_protocol_version envelope
     then Inr (decode_failure unsupported_version ''$out/logical_row_schema_version''
       ''RAW-LOGICAL-VERSION'' ''logical row schema and envelope protocol versions must match'')
     else if re_stream_kind envelope \<noteq> Stream_joined_derived \<and> re_source_artifacts envelope \<noteq> []
     then Inr (decode_failure cross_field ''$out/source_artifacts'' ''RAW-SOURCE-ARTIFACTS''
       ''producer and consumer raw streams must not name source artifacts'')
     else (case workload_sha256 digest bytes of
         Inl e \<Rightarrow> Inl e
       | Inr actual \<Rightarrow>
           if Sha256Digest_hex actual \<noteq> Sha256_hex (re_artifact_sha256 envelope)
           then Inr (decode_failure invalid_hash ''$out/artifact_sha256'' ''RAW-SHA256''
             ''raw artifact SHA-256 does not match its envelope'')
           else Inr (decode_body envelope bytes)))"

subsection \<open>Encoding joined rows\<close>

fun encode_joined_loop ::
  "Identifier \<Rightarrow> RowLayout \<Rightarrow> nat \<Rightarrow> JoinedRecord list \<Rightarrow> u8 list \<Rightarrow> storage_error + u8 list" where
  "encode_joined_loop run_id layout index [] buffer = Inr buffer"
| "encode_joined_loop run_id layout index (row # rows) buffer =
     (if jr_run_id row \<noteq> run_id
      then Inl (StorageSetupError ''joined format-test row run_id mismatch'')
      else encode_joined_loop run_id layout (Suc index) rows
        (store_words (unat ((of_nat index :: u64) * rl_joined_row_bytes layout + rl_prefix_bytes layout))
           (joined_words row) buffer))"

definition encode_joined_rows_for_format_test ::
  "Identifier \<Rightarrow> JoinedRecord list \<Rightarrow> storage_error + u8 list" where
  "encode_joined_rows_for_format_test run_id rows =
     (case make_row_layout (id_value run_id) of Inl e \<Rightarrow> Inl e | Inr layout \<Rightarrow>
      (case raw_checked_multiply (of_nat (length rows)) (rl_joined_row_bytes layout) of
         None \<Rightarrow> Inl (StorageSetupError ''joined format-test buffer size overflows size_t'')
       | Some bytes \<Rightarrow>
           encode_joined_loop run_id layout 0 rows
             (initialize_prefixes (of_nat (length rows)) (rl_joined_row_bytes layout)
                (rl_prefix_bytes layout) (id_value run_id) (replicate (unat bytes) 0))))"

subsection \<open>Reading a table of rows\<close>

lemma drop_words: "drop (k * 8) (concat (map u64_le words)) = concat (map u64_le (drop k words))"
proof (induction words arbitrary: k)
  case (Cons w words)
  then show ?case by (cases k) simp_all
qed simp

lemma load_words_le:
  assumes "length words = n"
  shows "load_words n (concat (map u64_le words) @ rest) = words"
proof (rule nth_equalityI)
  fix k assume "k < length (load_words n (concat (map u64_le words) @ rest))"
  then have k: "k < length words" using assms by (simp add: load_words_def)
  have "drop (k * 8) (concat (map u64_le words) @ rest) =
      u64_le (words ! k) @ concat (map u64_le (drop (Suc k) words)) @ rest"
    using k by (simp add: drop_words length_words_le Cons_nth_drop_Suc [symmetric])
  then show "load_words n (concat (map u64_le words) @ rest) ! k = words ! k"
    using k assms by (simp add: load_words_def)
qed (use assms in \<open>simp add: load_words_def\<close>)

lemma drop_table:
  assumes "4 + length run_id \<le> prefix" and "list_all (\<lambda>r. length r = n) rows" and "i < length rows"
  shows "drop (i * (prefix + 8 * n)) (concat (map (row_image prefix run_id) rows)) =
    row_image prefix run_id (rows ! i) @ concat (map (row_image prefix run_id) (drop (Suc i) rows))"
  using assms(2,3)
proof (induction rows arbitrary: i)
  case (Cons r rows)
  then show ?case by (cases i) (simp_all add: length_row_image [OF assms(1)])
qed simp

text \<open>The prefix check on a row image.\<close>

lemma verify_prefix_image:
  assumes "make_row_layout run_id = Inr layout" and "length run_id < 2 ^ 64"
  shows "verify_prefix (row_image (prefix_size run_id) run_id words @ rest) layout run_id"
proof -
  note l = layout_facts [OF assms]
  let ?row = "row_image (prefix_size run_id) run_id words @ rest"
  have row: "?row = u32_le (of_nat (length run_id)) @ string_bytes run_id @
      replicate (prefix_size run_id - (4 + length run_id)) 0 @ concat (map u64_le words) @ rest"
    by (simp add: row_image_def row_prefix_def)
  have "load_u32_le ?row = of_nat (length run_id)" by (simp add: row)
  moreover have "unat (ucast (of_nat (length run_id) :: u32) :: u64) = length run_id"
    using l(1) by (simp add: unsigned_ucast_eq take_bit_eq_mod unsigned_of_nat)
  ultimately have "ucast (load_u32_le ?row) = rl_run_id_bytes layout"
    by (simp add: word_eq_unat [of _ "rl_run_id_bytes layout"] l(3))
  moreover have "unat (4 + rl_run_id_bytes layout) = 4 + length run_id"
    using l(1,3) unat_plus_u64 [of 4 "rl_run_id_bytes layout"] by simp
  ultimately show ?thesis
    by (auto simp: verify_prefix_def list_all_iff l(2) row nth_append string_bytes_def)
qed

definition body_words :: "StreamKind \<Rightarrow> nat" where
  "body_words kind = (case kind of Stream_producer \<Rightarrow> 15 | Stream_consumer \<Rightarrow> 10 | Stream_joined_derived \<Rightarrow> 24)"

definition decode_words ::
  "RawObservationEnvelope \<Rightarrow> nat \<Rightarrow> u64 list \<Rightarrow> DecodeState \<Rightarrow> DecodeState Result" where
  "decode_words envelope =
     (case re_stream_kind envelope of
        Stream_producer \<Rightarrow> decode_producer_row envelope
      | Stream_consumer \<Rightarrow> decode_consumer_row envelope
      | Stream_joined_derived \<Rightarrow> decode_joined_row envelope)"

definition initial_decode_state :: DecodeState where
  "initial_decode_state =
     \<lparr>ds_producer_rows = [], ds_consumer_rows = [], ds_joined_rows = [], ds_expected_accepted = 0\<rparr>"

text \<open>A table of rows of the envelope's kind, under the envelope's run identifier.\<close>

definition table_image :: "RawObservationEnvelope \<Rightarrow> u64 list list \<Rightarrow> u8 list" where
  "table_image envelope rows =
     concat (map (row_image (prefix_size (id_value (re_run_id envelope))) (id_value (re_run_id envelope))) rows)"

lemma expected_row_bytes_eq:
  assumes "make_row_layout run_id = Inr layout" and "length run_id < 2 ^ 64"
  shows "unat (expected_row_bytes kind layout) = prefix_size run_id + 8 * body_words kind"
  using layout_facts [OF assms] by (cases kind) (simp_all add: expected_row_bytes_def body_words_def)

lemma decode_row_table:
  fixes envelope rows
  defines "run \<equiv> id_value (re_run_id envelope)" and "n \<equiv> body_words (re_stream_kind envelope)"
  assumes layout: "make_row_layout run = Inr layout" and len: "length run < 2 ^ 64"
    and rows: "list_all (\<lambda>r. length r = n) rows" and i: "i < length rows"
    and bound: "length rows * (prefix_size run + 8 * n) < 2 ^ 64"
  shows "decode_row envelope layout (expected_row_bytes (re_stream_kind envelope) layout)
      (table_image envelope rows) i st = decode_words envelope i (rows ! i) st"
proof -
  let ?b = "expected_row_bytes (re_stream_kind envelope) layout"
  let ?rest = "concat (map (row_image (prefix_size run) run) (drop (Suc i) rows))"
  have b: "unat ?b = prefix_size run + 8 * n"
    unfolding n_def by (rule expected_row_bytes_eq [OF layout len])
  have lt: "i * (prefix_size run + 8 * n) < 2 ^ 64"
    using bound i by (meson le_less_trans less_or_eq_imp_le mult_le_mono1)
  have "prefix_size run \<ge> 8" by (simp add: prefix_size_def)
  then have "i * 8 \<le> i * (prefix_size run + 8 * n)" by (intro mult_le_mono2) simp
  then have "unat (of_nat i :: u64) = i" using lt by (intro unat_of_nat_u64) linarith
  then have off: "unat ((of_nat i :: u64) * ?b) = i * (prefix_size run + 8 * n)"
    using unat_times_u64 [of "of_nat i" ?b] b lt by simp
  have row: "drop (unat ((of_nat i :: u64) * ?b)) (table_image envelope rows) =
      row_image (prefix_size run) run (rows ! i) @ ?rest"
    unfolding off table_image_def run_def [symmetric] by (rule drop_table [OF prefix_size_fits rows i])
  have li: "length (rows ! i) = n" using rows i by (simp add: list_all_length)
  have p: "unat (rl_prefix_bytes layout) = length (row_prefix (prefix_size run) run)"
    using layout_facts(2) [OF layout len] by (simp add: length_row_prefix [OF prefix_size_fits])
  have body: "drop (unat (rl_prefix_bytes layout)) (row_image (prefix_size run) run (rows ! i) @ ?rest) =
      concat (map u64_le (rows ! i)) @ ?rest"
    by (simp add: row_image_def p)
  have "load_words n (concat (map u64_le (rows ! i)) @ ?rest) = rows ! i" by (rule load_words_le [OF li])
  then show ?thesis
    using verify_prefix_image [OF layout len]
    unfolding decode_row_def row Let_def body run_def [symmetric]
    by (cases "re_stream_kind envelope") (simp_all add: decode_words_def n_def body_words_def)
qed

lemma decode_rows_steps:
  assumes "\<And>i. \<lbrakk>k \<le> i; i < k + m\<rbrakk> \<Longrightarrow> decode_row envelope layout b bytes i (f i) = Inr (f (Suc i))"
  shows "decode_rows envelope layout b bytes [k..<k + m] (f k) = Inr (f (k + m))"
  using assms
proof (induction m arbitrary: k)
  case (Suc m)
  have "decode_rows envelope layout b bytes [Suc k..<Suc k + m] (f (Suc k)) = Inr (f (Suc k + m))"
    by (rule Suc.IH) (use Suc.prems in auto)
  then show ?case using Suc.prems [of k] by (simp add: upt_rec)
qed simp

text \<open>The decoder on a table whose rows it reads one by one.\<close>

lemma decode_body_table:
  fixes envelope rows
  defines "run \<equiv> id_value (re_run_id envelope)" and "n \<equiv> body_words (re_stream_kind envelope)"
  assumes layout: "make_row_layout run = Inr layout" and len: "length run < 2 ^ 64"
    and rows: "list_all (\<lambda>r. length r = n) rows"
    and bound: "length rows * (prefix_size run + 8 * n) < 2 ^ 64"
    and row_count: "unat (re_row_count envelope) = length rows"
    and byte_count: "unat (re_byte_count envelope) = length (table_image envelope rows)"
    and step: "\<And>i. i < length rows \<Longrightarrow> decode_words envelope i (rows ! i) (f i) = Inr (f (Suc i))"
    and start: "f 0 = initial_decode_state"
    and valid: "validate_raw (envelope\<lparr>re_storage := Inline_rows (logical_rows envelope (f (length rows)))\<rparr>) = []"
  shows "decode_body envelope (table_image envelope rows) = Inr (decoded_stream envelope (f (length rows)))"
proof -
  let ?b = "expected_row_bytes (re_stream_kind envelope) layout"
  have size: "length (table_image envelope rows) = length rows * (prefix_size run + 8 * n)"
    unfolding table_image_def run_def [symmetric] by (rule length_table [OF prefix_size_fits rows])
  have b: "unat ?b = prefix_size run + 8 * n"
    unfolding n_def by (rule expected_row_bytes_eq [OF layout len])
  have mult: "raw_checked_multiply (re_row_count envelope) ?b = Some (re_row_count envelope * ?b)"
    using bound by (simp add: raw_checked_multiply_Some row_count b)
  have prod: "unat (re_row_count envelope * ?b) = length (table_image envelope rows)"
    using unat_times_u64 [of "re_row_count envelope" ?b] bound by (simp add: row_count b size)
  have exact: "re_row_count envelope * ?b = re_byte_count envelope"
    "re_row_count envelope * ?b = of_nat (length (table_image envelope rows))"
    using prod byte_count bound by (simp_all only: word_eq_unat size unat_of_nat_u64)
  have "decode_rows envelope layout ?b (table_image envelope rows) [0..<0 + length rows] (f 0) =
      Inr (f (0 + length rows))"
  proof (rule decode_rows_steps)
    fix i assume "i < 0 + length rows"
    then show "decode_row envelope layout ?b (table_image envelope rows) i (f i) = Inr (f (Suc i))"
      using decode_row_table [OF layout [unfolded run_def] len [unfolded run_def] rows [unfolded n_def]]
        bound step by (simp add: run_def n_def)
  qed
  then show ?thesis
    using layout mult exact valid
    by (simp add: decode_body_def run_def row_count start initial_decode_state_def)
qed

lemma decode_external_raw_accepts:
  assumes "re_storage envelope = External_storage uri"
    and "id_value (re_physical_format_record_id envelope) = kRawFormatId"
    and "re_encoding envelope = kRawEncoding" and "re_time_unit envelope = kRawTimeUnit"
    and "re_endianness envelope = Little_endian" and "re_compression envelope = kRawCompression"
    and "re_logical_row_schema_version envelope = re_protocol_version envelope"
    and "re_stream_kind envelope = Stream_joined_derived \<or> re_source_artifacts envelope = []"
    and "digest bytes = Some d" and "Sha256Digest_hex (Sha256Digest d) = Sha256_hex (re_artifact_sha256 envelope)"
  shows "decode_external_raw digest envelope bytes = Inr (decode_body envelope bytes)"
  using assms by (auto simp: decode_external_raw_def workload_sha256_def)

text \<open>An envelope that describes an artifact of the accepted format.\<close>

definition envelope_describes ::
  "(u8 list \<Rightarrow> u8 list option) \<Rightarrow> RawObservationEnvelope \<Rightarrow> u8 list \<Rightarrow> nat \<Rightarrow> bool" where
  "envelope_describes digest envelope bytes rows \<longleftrightarrow>
     (case re_storage envelope of External_storage _ \<Rightarrow> True | Inline_rows _ \<Rightarrow> False) \<and>
     id_value (re_physical_format_record_id envelope) = kRawFormatId \<and>
     re_encoding envelope = kRawEncoding \<and> re_time_unit envelope = kRawTimeUnit \<and>
     re_endianness envelope = Little_endian \<and> re_compression envelope = kRawCompression \<and>
     re_logical_row_schema_version envelope = re_protocol_version envelope \<and>
     re_source_artifacts envelope = [] \<and>
     (case digest bytes of None \<Rightarrow> False
      | Some d \<Rightarrow> Sha256Digest_hex (Sha256Digest d) = Sha256_hex (re_artifact_sha256 envelope)) \<and>
     re_row_count envelope = of_nat rows \<and> re_byte_count envelope = of_nat (length bytes)"

lemma envelope_describes_accepts:
  "envelope_describes digest envelope bytes rows \<Longrightarrow>
     decode_external_raw digest envelope bytes = Inr (decode_body envelope bytes)"
  by (auto simp: envelope_describes_def intro: decode_external_raw_accepts
      split: ObservationStorage.splits option.splits)

subsection \<open>Round trips\<close>

text \<open>
  The attempts of a run, as the executor records them: numbered from 0, the accepted ones
  numbered among themselves, and with ordered timestamps.
\<close>

definition accepted_before :: "nat \<Rightarrow> ProducerObservation list \<Rightarrow> nat" where
  "accepted_before i xs = length (filter (\<lambda>x. po_outcome x = Outcome_accepted) (take i xs))"

definition recorded_attempt :: "nat \<Rightarrow> nat \<Rightarrow> ProducerObservation \<Rightarrow> bool" where
  "recorded_attempt i accepted x \<longleftrightarrow>
     po_logical_sequence x = of_nat i \<and>
     po_scheduled_arrival x \<le> relative_picoseconds (po_producer_handle_begin x) \<and>
     relative_picoseconds (po_producer_handle_begin x) \<le> relative_picoseconds (po_record_lookup_completion x) \<and>
     relative_picoseconds (po_record_lookup_completion x) \<le> relative_picoseconds (po_enqueue_invocation x) \<and>
     relative_picoseconds (po_enqueue_invocation x) \<le> relative_picoseconds (po_enqueue_attempt_completion x) \<and>
     (if po_outcome x = Outcome_accepted
      then po_accepted_ordinal x = Some (of_nat accepted) \<and>
        (case po_enqueue_linearization x of
           None \<Rightarrow> False
         | Some l \<Rightarrow> relative_picoseconds (po_enqueue_invocation x) \<le> relative_picoseconds l \<and>
             relative_picoseconds l \<le> relative_picoseconds (po_enqueue_attempt_completion x))
      else po_accepted_ordinal x = None \<and> po_enqueue_linearization x = None)"

definition recorded_attempts :: "ProducerObservation list \<Rightarrow> bool" where
  "recorded_attempts xs \<longleftrightarrow>
     list_all (\<lambda>i. recorded_attempt i (accepted_before i xs) (xs ! i)) [0..<length xs]"

definition recorded_poll :: "nat \<Rightarrow> ConsumerObservation \<Rightarrow> bool" where
  "recorded_poll i x \<longleftrightarrow>
     co_consumed_ordinal x = of_nat i \<and>
     relative_picoseconds (co_dequeue_invocation x) \<le> relative_picoseconds (co_dequeue_linearization x) \<and>
     relative_picoseconds (co_dequeue_linearization x) \<le> relative_picoseconds (co_dequeue_completion x) \<and>
     relative_picoseconds (co_dequeue_completion x) \<le> relative_picoseconds (co_consumer_action_completion x)"

definition recorded_polls :: "ConsumerObservation list \<Rightarrow> bool" where
  "recorded_polls xs \<longleftrightarrow> list_all (\<lambda>i. recorded_poll i (xs ! i)) [0..<length xs]"

definition producer_state :: "Identifier \<Rightarrow> ProducerObservation list \<Rightarrow> nat \<Rightarrow> DecodeState" where
  "producer_state run xs i = initial_decode_state
     \<lparr>ds_producer_rows := map (\<lambda>x. \<lparr>dp_run_id = id_value run, dp_observation = x\<rparr>) (take i xs),
      ds_expected_accepted := of_nat (accepted_before i xs)\<rparr>"

definition consumer_state :: "Identifier \<Rightarrow> ConsumerObservation list \<Rightarrow> nat \<Rightarrow> DecodeState" where
  "consumer_state run xs i = initial_decode_state
     \<lparr>ds_consumer_rows := map (\<lambda>x. \<lparr>dc_run_id = id_value run, dc_observation = x\<rparr>) (take i xs)\<rparr>"

lemma sample_of_eq [simp]: "sample_of (absolute_nanoseconds c) (relative_picoseconds c) = c"
  by (simp add: sample_of_def)

lemma decode_producer_words:
  assumes "recorded_attempt i a x" and "ds_expected_accepted st = of_nat a"
  shows "decode_producer_row envelope i (producer_words x) st =
    Inr (st\<lparr>ds_producer_rows := ds_producer_rows st @
           [\<lparr>dp_run_id = id_value (re_run_id envelope), dp_observation = x\<rparr>],
         ds_expected_accepted := of_nat (a + (if po_outcome x = Outcome_accepted then 1 else 0))\<rparr>)"
proof (cases "po_outcome x")
  case Outcome_accepted
  then show ?thesis using assms
    by (cases x) (auto simp: recorded_attempt_def decode_producer_row_def producer_words_def
        kProducerAcceptedFlags_def kProducerFullFlags_def Let_def split: option.splits)
next
  case Outcome_full
  then show ?thesis using assms
    by (cases x) (auto simp: recorded_attempt_def decode_producer_row_def producer_words_def
        kProducerAcceptedFlags_def kProducerFullFlags_def Let_def no_sample_def split: option.splits)
qed

lemma decode_consumer_words:
  "recorded_poll i x \<Longrightarrow>
     decode_consumer_row envelope i (consumer_words x) st =
     Inr (st\<lparr>ds_consumer_rows := ds_consumer_rows st @
       [\<lparr>dc_run_id = id_value (re_run_id envelope), dc_observation = x\<rparr>]\<rparr>)"
  by (cases x) (simp add: recorded_poll_def decode_consumer_row_def consumer_words_def)

lemma accepted_before_Suc:
  "i < length xs \<Longrightarrow> accepted_before (Suc i) xs =
     accepted_before i xs + (if po_outcome (xs ! i) = Outcome_accepted then 1 else 0)"
  by (simp add: accepted_before_def take_Suc_conv_app_nth)

lemma recorded_attempt_valid:
  "recorded_attempt i a x \<Longrightarrow> validate_producer (make_producer_record run x) run path = []"
  by (auto simp: recorded_attempt_def validate_producer_def make_producer_record_def
      split: option.splits if_splits)

lemma recorded_poll_valid:
  "recorded_poll i x \<Longrightarrow> validate_consumer (make_consumer_record run x) run path = []"
  by (auto simp: recorded_poll_def validate_consumer_def make_consumer_record_def)

lemma decode_producer_table:
  fixes envelope xs
  defines "run \<equiv> re_run_id envelope" and "bytes \<equiv> table_image envelope (map producer_words xs)"
  assumes kind: "re_stream_kind envelope = Stream_producer"
    and layout: "make_row_layout (id_value run) = Inr layout" and len: "length (id_value run) < 2 ^ 64"
    and xs: "recorded_attempts xs"
    and bound: "length xs * (prefix_size (id_value run) + 8 * 15) < 2 ^ 64"
    and counts: "unat (re_row_count envelope) = length xs" "unat (re_byte_count envelope) = length bytes"
  shows "decode_body envelope bytes = Inr \<lparr>dr_stream_kind = Stream_producer,
      dr_rows = Decoded_producer (map (\<lambda>x. \<lparr>dp_run_id = id_value run, dp_observation = x\<rparr>) xs)\<rparr>"
proof -
  let ?f = "producer_state run xs"
  have each: "recorded_attempt i (accepted_before i xs) (xs ! i)" if "i < length xs" for i
    using xs that by (simp add: recorded_attempts_def list_all_iff)
  have step: "decode_words envelope i (map producer_words xs ! i) (?f i) = Inr (?f (Suc i))"
    if "i < length (map producer_words xs)" for i
    using that decode_producer_words [OF each, of i "?f i" envelope]
    by (simp add: decode_words_def kind producer_state_def accepted_before_Suc take_Suc_conv_app_nth run_def)
  have valid: "validate_raw (envelope\<lparr>re_storage :=
      Inline_rows (logical_rows envelope (?f (length (map producer_words xs))))\<rparr>) = []"
  proof -
    have "validate_producer (make_producer_record run x) run path = []" if "x \<in> set xs" for x path
      using that each recorded_attempt_valid by (metis in_set_conv_nth)
    then show ?thesis using counts(1)
      by (auto simp: validate_raw_def logical_rows_def kind producer_state_def run_def
          intro!: validate_rows_Nil)
  qed
  have "decode_body envelope bytes = Inr (decoded_stream envelope (?f (length (map producer_words xs))))"
    unfolding bytes_def
    by (rule decode_body_table [where layout = layout, OF _ _ _ _ _ _ step _ valid])
      (use layout len bound counts in \<open>simp_all add: run_def kind body_words_def bytes_def
         list_all_iff producer_stream.words_length producer_state_def accepted_before_def
         initial_decode_state_def\<close>)
  then show ?thesis by (simp add: decoded_stream_def kind producer_state_def)
qed

lemma decode_consumer_table:
  fixes envelope xs
  defines "run \<equiv> re_run_id envelope" and "bytes \<equiv> table_image envelope (map consumer_words xs)"
  assumes kind: "re_stream_kind envelope = Stream_consumer"
    and layout: "make_row_layout (id_value run) = Inr layout" and len: "length (id_value run) < 2 ^ 64"
    and xs: "recorded_polls xs"
    and bound: "length xs * (prefix_size (id_value run) + 8 * 10) < 2 ^ 64"
    and counts: "unat (re_row_count envelope) = length xs" "unat (re_byte_count envelope) = length bytes"
  shows "decode_body envelope bytes = Inr \<lparr>dr_stream_kind = Stream_consumer,
      dr_rows = Decoded_consumer (map (\<lambda>x. \<lparr>dc_run_id = id_value run, dc_observation = x\<rparr>) xs)\<rparr>"
proof -
  let ?f = "consumer_state run xs"
  have each: "recorded_poll i (xs ! i)" if "i < length xs" for i
    using xs that by (simp add: recorded_polls_def list_all_iff)
  have step: "decode_words envelope i (map consumer_words xs ! i) (?f i) = Inr (?f (Suc i))"
    if "i < length (map consumer_words xs)" for i
    using that decode_consumer_words [OF each, of i envelope "?f i"]
    by (simp add: decode_words_def kind consumer_state_def take_Suc_conv_app_nth run_def)
  have valid: "validate_raw (envelope\<lparr>re_storage :=
      Inline_rows (logical_rows envelope (?f (length (map consumer_words xs))))\<rparr>) = []"
  proof -
    have "validate_consumer (make_consumer_record run x) run path = []" if "x \<in> set xs" for x path
      using that each recorded_poll_valid by (metis in_set_conv_nth)
    then show ?thesis using counts(1)
      by (auto simp: validate_raw_def logical_rows_def kind consumer_state_def run_def
          intro!: validate_rows_Nil)
  qed
  have "decode_body envelope bytes = Inr (decoded_stream envelope (?f (length (map consumer_words xs))))"
    unfolding bytes_def
    by (rule decode_body_table [where layout = layout, OF _ _ _ _ _ _ step _ valid])
      (use layout len bound counts in \<open>simp_all add: run_def kind body_words_def bytes_def
         list_all_iff consumer_stream.words_length consumer_state_def initial_decode_state_def\<close>)
  then show ?thesis by (simp add: decoded_stream_def kind consumer_state_def)
qed

lemma stream_create_layout:
  assumes "stream_create row_bytes message allocate run_id capacity = Inr s"
  obtains layout where "make_row_layout (id_value run_id) = Inr layout"
  using assms by (auto simp: stream_create_def split: sum.splits)

lemma envelope_describes_counts:
  assumes "envelope_describes digest envelope bytes rows" and "rows < 2 ^ 64" and "length bytes < 2 ^ 64"
  shows "unat (re_row_count envelope) = rows" and "unat (re_byte_count envelope) = length bytes"
  using assms by (simp_all add: envelope_describes_def unat_of_nat_u64)

lemma table_image_length:
  "list_all (\<lambda>r. length r = n) rows \<Longrightarrow> length (table_image envelope rows) =
     length rows * (prefix_size (id_value (re_run_id envelope)) + 8 * n)"
  unfolding table_image_def by (rule length_table [OF prefix_size_fits])

text \<open>
  C13. The producer's raw stream round-trips. Create a stream, prepare it for its owner, append the
  attempts of a run that fit its capacity, and seal it: every append succeeds, the seal succeeds,
  and the decoder, given the snapshot's bytes and an envelope of the accepted format whose hash
  and counts describe them, returns exactly the appended observations, in order.
\<close>

theorem producer_stream_roundtrip:
  assumes create: "ProducerObservationStream_create allocate run_id capacity = Inr s0"
    and len: "length (id_value run_id) < 2 ^ 64"
    and prepare: "producer_prepare_for_owner s0 = (True, s1)"
    and xs: "recorded_attempts xs" "length xs \<le> unat capacity"
    and app: "append_all producer_append xs s1 = (statuses, s2)"
    and seal: "seal_complete s2 = (sealed, s3)"
    and env: "re_run_id envelope = run_id" "re_stream_kind envelope = Stream_producer"
      "envelope_describes digest envelope (sn_bytes (producer_snapshot s3)) (length xs)"
  shows "statuses = replicate (length xs) Appended \<and> sealed \<and>
    decode_external_raw digest envelope (sn_bytes (producer_snapshot s3)) =
      Inr (Inr \<lparr>dr_stream_kind = Stream_producer, dr_rows = Decoded_producer
        (map (\<lambda>x. \<lparr>dp_run_id = id_value run_id, dp_observation = x\<rparr>) xs)\<rparr>)"
proof -
  obtain layout where layout: "make_row_layout (id_value run_id) = Inr layout"
    using create unfolding ProducerObservationStream_create_def by (rule stream_create_layout)
  have wf: "list_all (\<lambda>x. (po_outcome x = Outcome_accepted) = (po_enqueue_linearization x \<noteq> None) \<and>
      (po_outcome x = Outcome_accepted) = (po_accepted_ordinal x \<noteq> None)) xs"
    using xs(1) by (fastforce simp: recorded_attempts_def list_all_length recorded_attempt_def
        split: if_splits option.splits)
  note r = producer_stream.recorded_stream [OF create [unfolded ProducerObservationStream_create_def]
      len layout_facts(4) [OF _ len] prepare [unfolded producer_prepare_for_owner_def] wf xs(2) app seal]
  have img: "sn_bytes (producer_snapshot s3) = table_image envelope (map producer_words xs)"
    unfolding producer_snapshot_def table_image_def env(1) by (rule r(3))
  have "length (table_image envelope (map producer_words xs)) < 2 ^ 64"
    using r(4) env(1) by (subst table_image_length [where n = 15])
      (simp_all add: list_all_iff producer_stream.words_length)
  moreover have "length xs < 2 ^ 64" using xs(2) unat_u64_lt [of capacity] by linarith
  ultimately have "decode_body envelope (table_image envelope (map producer_words xs)) =
      Inr \<lparr>dr_stream_kind = Stream_producer, dr_rows = Decoded_producer
        (map (\<lambda>x. \<lparr>dp_run_id = id_value (re_run_id envelope), dp_observation = x\<rparr>) xs)\<rparr>"
    using env layout len xs(1) r(4) envelope_describes_counts [OF env(3)] img
    by (intro decode_producer_table) simp_all
  then show ?thesis using r(1,2) envelope_describes_accepts [OF env(3)] by (simp add: img env(1))
qed

text \<open>
  The consumer's raw stream round-trips in the same way: the decoder returns exactly the
  successful polls that were appended, in order.
\<close>

theorem consumer_stream_roundtrip:
  assumes create: "ConsumerObservationStream_create allocate run_id capacity = Inr s0"
    and len: "length (id_value run_id) < 2 ^ 64"
    and prepare: "consumer_prepare_for_owner s0 = (True, s1)"
    and xs: "recorded_polls xs" "length xs \<le> unat capacity"
    and app: "append_all consumer_append xs s1 = (statuses, s2)"
    and seal: "seal_complete s2 = (sealed, s3)"
    and env: "re_run_id envelope = run_id" "re_stream_kind envelope = Stream_consumer"
      "envelope_describes digest envelope (sn_bytes (consumer_snapshot s3)) (length xs)"
  shows "statuses = replicate (length xs) Appended \<and> sealed \<and>
    decode_external_raw digest envelope (sn_bytes (consumer_snapshot s3)) =
      Inr (Inr \<lparr>dr_stream_kind = Stream_consumer, dr_rows = Decoded_consumer
        (map (\<lambda>x. \<lparr>dc_run_id = id_value run_id, dc_observation = x\<rparr>) xs)\<rparr>)"
proof -
  obtain layout where layout: "make_row_layout (id_value run_id) = Inr layout"
    using create unfolding ConsumerObservationStream_create_def by (rule stream_create_layout)
  have wf: "list_all (\<lambda>x. True) xs" by (simp add: list_all_iff)
  note r = consumer_stream.recorded_stream [OF create [unfolded ConsumerObservationStream_create_def]
      len layout_facts(5) [OF _ len] prepare [unfolded consumer_prepare_for_owner_def] wf xs(2) app seal]
  have img: "sn_bytes (consumer_snapshot s3) = table_image envelope (map consumer_words xs)"
    unfolding consumer_snapshot_def table_image_def env(1) by (rule r(3))
  have "length (table_image envelope (map consumer_words xs)) < 2 ^ 64"
    using r(4) env(1) by (subst table_image_length [where n = 10])
      (simp_all add: list_all_iff consumer_stream.words_length)
  moreover have "length xs < 2 ^ 64" using xs(2) unat_u64_lt [of capacity] by linarith
  ultimately have "decode_body envelope (table_image envelope (map consumer_words xs)) =
      Inr \<lparr>dr_stream_kind = Stream_consumer, dr_rows = Decoded_consumer
        (map (\<lambda>x. \<lparr>dc_run_id = id_value (re_run_id envelope), dc_observation = x\<rparr>) xs)\<rparr>"
    using env layout len xs(1) r(4) envelope_describes_counts [OF env(3)] img
    by (intro decode_consumer_table) simp_all
  then show ?thesis using r(1,2) envelope_describes_accepts [OF env(3)] by (simp add: img env(1))
qed

text \<open>A run of two attempts, the second one refused, and an envelope for its bytes.\<close>

definition example_attempts :: "ProducerObservation list" where
  "example_attempts =
     [\<lparr>po_logical_sequence = 0, po_record_index = 5, po_scheduled_arrival = 10,
       po_producer_handle_begin = sample_of 1 11, po_record_lookup_completion = sample_of 2 12,
       po_enqueue_invocation = sample_of 3 13, po_enqueue_linearization = Some (sample_of 4 14),
       po_enqueue_attempt_completion = sample_of 5 15, po_outcome = Outcome_accepted,
       po_accepted_ordinal = Some 0\<rparr>,
      \<lparr>po_logical_sequence = 1, po_record_index = 7, po_scheduled_arrival = 20,
       po_producer_handle_begin = sample_of 6 21, po_record_lookup_completion = sample_of 7 22,
       po_enqueue_invocation = sample_of 8 23, po_enqueue_linearization = None,
       po_enqueue_attempt_completion = sample_of 9 24, po_outcome = Outcome_full,
       po_accepted_ordinal = None\<rparr>]"

definition example_polls :: "ConsumerObservation list" where
  "example_polls =
     [\<lparr>co_consumed_ordinal = 0, co_observed_record_index = 5, co_dequeue_invocation = sample_of 5 16,
       co_dequeue_linearization = sample_of 6 17, co_dequeue_completion = sample_of 7 18,
       co_consumer_action_completion = sample_of 8 19\<rparr>]"

lemma example_lengths: "length example_attempts = 2" "length example_polls = 1"
  by (simp_all add: example_attempts_def example_polls_def)

definition example_digest :: "u8 list \<Rightarrow> u8 list option" where
  "example_digest bytes = Some (replicate 32 0x5a)"

definition example_envelope :: "StreamKind \<Rightarrow> nat \<Rightarrow> u8 list \<Rightarrow> RawObservationEnvelope" where
  "example_envelope kind rows bytes =
     \<lparr>re_schema_version = V2_0_0_pre_2, re_protocol_version = V2_0_0_pre_2,
      re_artifact_id = Identifier ''artifact'', re_run_id = Identifier ''run-1'',
      re_stream_kind = kind, re_logical_row_schema_version = V2_0_0_pre_2,
      re_physical_format_record_id = Identifier kRawFormatId, re_encoding = kRawEncoding,
      re_time_unit = kRawTimeUnit, re_endianness = Little_endian, re_compression = kRawCompression,
      re_row_count = of_nat rows, re_byte_count = of_nat (length bytes),
      re_storage = External_storage ''file'', re_source_artifacts = [],
      re_integrity_artifact_ref =
        \<lparr>ar_artifact_id = Identifier ''integrity'', ar_sha256 = Sha256 (replicate 32 0)\<rparr>,
      re_artifact_sha256 = Sha256 (replicate 32 0x5a)\<rparr>"

lemma example_envelope_describes:
  "envelope_describes example_digest (example_envelope kind rows bytes) bytes rows"
proof -
  have "Sha256Digest_hex (Sha256Digest (replicate 32 0x5a)) = Sha256_hex (Sha256 (replicate 32 0x5a))"
    by code_simp
  then show ?thesis by (simp add: envelope_describes_def example_envelope_def example_digest_def)
qed

definition example_allocate :: "u64 \<Rightarrow> u8 list option" where
  "example_allocate bytes = Some (replicate (unat bytes) 0xaa)"

definition example_stream ::
  "(RowLayout \<Rightarrow> u64) \<Rightarrow> ('o \<Rightarrow> ProducerObservationStream \<Rightarrow> AppendStatus \<times> ProducerObservationStream) \<Rightarrow>
     ProducerObservationStream \<Rightarrow> 'o list \<Rightarrow> ProducerObservationStream" where
  "example_stream row_bytes push s xs =
     snd (seal_complete (snd (append_all push xs (snd (stream_prepare_for_owner row_bytes s)))))"

definition example_created :: "u64 \<Rightarrow> u64 \<Rightarrow> ProducerObservationStream" where
  "example_created row_bytes capacity =
     \<lparr>os_run_id = ''run-1'',
      os_layout = \<lparr>rl_run_id_bytes = 5, rl_prefix_bytes = 16, rl_producer_row_bytes = 136,
        rl_consumer_row_bytes = 96, rl_joined_row_bytes = 208\<rparr>,
      os_storage = replicate (unat (capacity * row_bytes)) 0xaa,
      os_allocated_bytes = capacity * row_bytes, os_row_count = 0, os_row_capacity = capacity,
      os_row_bytes = row_bytes, os_completeness = Writing, os_overflowed = False, os_prepared = False\<rparr>"

lemma example_layout:
  "make_row_layout ''run-1'' = Inr \<lparr>rl_run_id_bytes = 5, rl_prefix_bytes = 16,
     rl_producer_row_bytes = 136, rl_consumer_row_bytes = 96, rl_joined_row_bytes = 208\<rparr>"
  by (simp add: make_row_layout_cases prefix_size_def string_bytes_def utf8_first_def utf8_scalar_def)

lemma example_create:
  "ProducerObservationStream_create example_allocate (Identifier ''run-1'') 3 = Inr (example_created 136 3)"
  "ConsumerObservationStream_create example_allocate (Identifier ''run-1'') 3 = Inr (example_created 96 3)"
  by (simp_all add: ProducerObservationStream_create_def ConsumerObservationStream_create_def
      stream_create_def example_layout raw_checked_multiply_def example_allocate_def example_created_def)

theorem producer_stream_roundtrip_witness:
  "let bytes = sn_bytes (producer_snapshot
       (example_stream rl_producer_row_bytes producer_append (example_created 136 3) example_attempts))
   in decode_external_raw example_digest (example_envelope Stream_producer 2 bytes) bytes =
     Inr (Inr \<lparr>dr_stream_kind = Stream_producer, dr_rows = Decoded_producer
       (map (\<lambda>x. \<lparr>dp_run_id = ''run-1'', dp_observation = x\<rparr>) example_attempts)\<rparr>)"
proof -
  let ?s1 = "snd (producer_prepare_for_owner (example_created 136 3))"
  let ?r = "append_all producer_append example_attempts ?s1"
  let ?b = "sn_bytes (producer_snapshot (snd (seal_complete (snd ?r))))"
  have "producer_prepare_for_owner (example_created 136 3) = (True, ?s1)"
    by (simp add: producer_prepare_for_owner_def stream_prepare_for_owner_def example_created_def)
  moreover have "recorded_attempts example_attempts" by code_simp
  moreover have "length example_attempts \<le> unat (3 :: u64)" by (simp add: example_lengths)
  ultimately have "decode_external_raw example_digest (example_envelope Stream_producer (length example_attempts) ?b) ?b =
     Inr (Inr \<lparr>dr_stream_kind = Stream_producer, dr_rows = Decoded_producer
       (map (\<lambda>x. \<lparr>dp_run_id = id_value (Identifier ''run-1''), dp_observation = x\<rparr>) example_attempts)\<rparr>)"
    using producer_stream_roundtrip [of example_allocate "Identifier ''run-1''" 3 "example_created 136 3"
        ?s1 example_attempts "fst ?r" "snd ?r" "fst (seal_complete (snd ?r))"
        "snd (seal_complete (snd ?r))" "example_envelope Stream_producer (length example_attempts) ?b"
        example_digest] example_create(1) example_envelope_describes
    by (simp add: example_envelope_def)
  then show ?thesis
    by (simp add: example_stream_def producer_prepare_for_owner_def Let_def example_lengths)
qed

theorem consumer_stream_roundtrip_witness:
  "let bytes = sn_bytes (consumer_snapshot
       (example_stream rl_consumer_row_bytes consumer_append (example_created 96 3) example_polls))
   in decode_external_raw example_digest (example_envelope Stream_consumer 1 bytes) bytes =
     Inr (Inr \<lparr>dr_stream_kind = Stream_consumer, dr_rows = Decoded_consumer
       (map (\<lambda>x. \<lparr>dc_run_id = ''run-1'', dc_observation = x\<rparr>) example_polls)\<rparr>)"
proof -
  let ?s1 = "snd (consumer_prepare_for_owner (example_created 96 3))"
  let ?r = "append_all consumer_append example_polls ?s1"
  let ?b = "sn_bytes (consumer_snapshot (snd (seal_complete (snd ?r))))"
  have "consumer_prepare_for_owner (example_created 96 3) = (True, ?s1)"
    by (simp add: consumer_prepare_for_owner_def stream_prepare_for_owner_def example_created_def)
  moreover have "recorded_polls example_polls" by code_simp
  moreover have "length example_polls \<le> unat (3 :: u64)" by (simp add: example_lengths)
  ultimately have "decode_external_raw example_digest (example_envelope Stream_consumer (length example_polls) ?b) ?b =
     Inr (Inr \<lparr>dr_stream_kind = Stream_consumer, dr_rows = Decoded_consumer
       (map (\<lambda>x. \<lparr>dc_run_id = id_value (Identifier ''run-1''), dc_observation = x\<rparr>) example_polls)\<rparr>)"
    using consumer_stream_roundtrip [of example_allocate "Identifier ''run-1''" 3 "example_created 96 3"
        ?s1 example_polls "fst ?r" "snd ?r" "fst (seal_complete (snd ?r))"
        "snd (seal_complete (snd ?r))" "example_envelope Stream_consumer (length example_polls) ?b"
        example_digest] example_create(2) example_envelope_describes
    by (simp add: example_envelope_def)
  then show ?thesis
    by (simp add: example_stream_def consumer_prepare_for_owner_def Let_def example_lengths)
qed

end
