(* ===== verification/Capture_Backend.thy ===== *)
theory Capture_Backend
  imports Execution_History Raw_Decode
begin

text \<open>
  The capturing backend of \<^verbatim>\<open>storage/capture_backend.hpp\<close>: every attempt and every successful
  poll the executor makes is captured with timestamps and appended to its stream before it is
  reported. The contract \<open>recording_backend\<close> is proved once for every package whose queue keeps
  \<open>capturing_queue\<close>; with it, a run that reports no failure leaves one producer row per deadline
  and one consumer row per accepted attempt, and the rows match.
\<close>

record ('c, 'p) CapturingObservationBackend =
  cb_clock :: 'c
  cb_package :: 'p
  cb_consumer_state :: u64
  cb_producer_stream :: ProducerObservationStream
  cb_consumer_stream :: ConsumerObservationStream

definition observed_outcome :: "ProducerObservation \<Rightarrow> EnqueueResult" where
  "observed_outcome observation =
     (if po_outcome observation = Outcome_accepted then Enq_accepted else Enq_full)"

definition try_producer_attempt ::
  "('c \<Rightarrow> ClockReadResult \<times> 'c) \<Rightarrow> ('c, 'p) enqueue_fun \<Rightarrow> EventArena \<Rightarrow> ProducerAttempt \<Rightarrow>
     ('c, 'p) CapturingObservationBackend \<Rightarrow>
     ProducerAttemptResult \<times> ('c, 'p) CapturingObservationBackend" where
  "try_producer_attempt clock enqueue_ob arena attempt b =
     (let (captured, package', clock') = capture_due_producer_attempt clock enqueue_ob arena (cb_package b)
            (pa_logical_sequence attempt) (pa_scheduled_deadline attempt)
            (pa_candidate_accepted_ordinal attempt) (cb_clock b);
          b1 = b\<lparr>cb_package := package', cb_clock := clock'\<rparr>
      in if pc_status captured \<noteq> Capture_complete
         then (\<lparr>at_status = Attempt_failure, at_outcome = Enq_full\<rparr>, b1)
         else (case pc_observation captured of
             None \<Rightarrow> (\<lparr>at_status = Attempt_failure, at_outcome = Enq_full\<rparr>, b1)
           | Some observation \<Rightarrow>
               let (append_status, stream) = producer_append observation (cb_producer_stream b1);
                   b2 = b1\<lparr>cb_producer_stream := stream\<rparr>
               in (\<lparr>at_status = (if append_status \<noteq> Appended then Attempt_failure else Attempt_complete),
                    at_outcome = observed_outcome observation\<rparr>, b2)))"

definition try_consumer_poll ::
  "('c \<Rightarrow> ClockReadResult \<times> 'c) \<Rightarrow> ('c, 'p) dequeue_fun \<Rightarrow> EventArena \<Rightarrow> u64 \<Rightarrow>
     ('c, 'p) CapturingObservationBackend \<Rightarrow>
     ConsumerPollResult \<times> ('c, 'p) CapturingObservationBackend" where
  "try_consumer_poll clock dequeue_ob arena candidate_consumed_ordinal b =
     (let (captured, package', state', clock') = capture_dequeue_poll clock dequeue_ob arena (cb_package b)
            (cb_consumer_state b) candidate_consumed_ordinal (cb_clock b);
          b1 = b\<lparr>cb_package := package', cb_consumer_state := state', cb_clock := clock'\<rparr>
      in if cc_status captured = Capture_empty then (\<lparr>po_status = Poll_empty\<rparr>, b1)
         else if cc_status captured \<noteq> Capture_complete then (\<lparr>po_status = Poll_failure\<rparr>, b1)
         else (case cc_observation captured of
             None \<Rightarrow> (\<lparr>po_status = Poll_failure\<rparr>, b1)
           | Some observation \<Rightarrow>
               let (append_status, stream) = consumer_append observation (cb_consumer_stream b1);
                   b2 = b1\<lparr>cb_consumer_stream := stream\<rparr>
               in if append_status \<noteq> Appended then (\<lparr>po_status = Poll_failure\<rparr>, b2)
                  else (\<lparr>po_status = Poll_item\<rparr>, b2)))"

subsection \<open>What the streams say about the queue\<close>

definition accepted_rows :: "ProducerObservation list \<Rightarrow> ProducerObservation list" where
  "accepted_rows xs = filter (\<lambda>x. po_outcome x = Outcome_accepted) xs"

text \<open>The producer's rows answer the requests one by one, the accepted ones numbered from 0.\<close>

definition attempt_rows :: "ProducerAttempt list \<Rightarrow> ProducerObservation list \<Rightarrow> bool" where
  "attempt_rows requests xs \<longleftrightarrow>
     map po_logical_sequence xs = map pa_logical_sequence requests \<and>
     map po_scheduled_arrival xs = map pa_scheduled_deadline requests \<and>
     map po_accepted_ordinal (accepted_rows xs) = map (\<lambda>k. Some (of_nat k)) [0..<length (accepted_rows xs)]"

definition poll_rows :: "ConsumerObservation list \<Rightarrow> bool" where
  "poll_rows ys \<longleftrightarrow> map co_consumed_ordinal ys = map of_nat [0..<length ys]"

text \<open>A stream that holds the given rows and can take more.\<close>

definition open_stream :: "(RowLayout \<Rightarrow> u64) \<Rightarrow> nat \<Rightarrow> u64 list list \<Rightarrow> ProducerObservationStream \<Rightarrow> bool" where
  "open_stream row_bytes n rows s \<longleftrightarrow>
     stream_geometry row_bytes n s \<and> stream_rows n rows s \<and> os_prepared s \<and>
     os_completeness s = Writing \<and> \<not> os_overflowed s"

lemma commit_Appended:
  assumes "open_stream row_bytes n rows s" and "stream_commit row_bytes words s = (Appended, s')"
    and "length words = n"
  shows "open_stream row_bytes n (rows @ [words]) s'"
proof -
  have o: "stream_geometry row_bytes n s" "stream_rows n rows s" "os_prepared s"
    "os_completeness s = Writing" "\<not> os_overflowed s"
    using assms(1) by (simp_all add: open_stream_def)
  have "length rows \<noteq> unat (os_row_capacity s)"
    using assms(2) stream_commit_full [OF o(2), of row_bytes words] by auto
  then have "length rows < unat (os_row_capacity s)" using o(2) by (simp add: stream_rows_def)
  from stream_commit_rows [OF o(1-3) assms(3) this] show ?thesis
    using assms(2) o(4,5) by (auto simp: open_stream_def)
qed

definition capture_invar ::
  "EventArena \<Rightarrow> ('p \<Rightarrow> bool) \<Rightarrow> ('p \<Rightarrow> addr list) \<Rightarrow> ('c, 'p) CapturingObservationBackend \<Rightarrow> bool" where
  "capture_invar arena invar contents b \<longleftrightarrow>
     arena_ready arena \<and> invar (cb_package b) \<and> set (contents (cb_package b)) \<subseteq> arena_pointers arena"

text \<open>The accepted rows are the rows consumed so far followed by what the queue still holds.\<close>

definition rows_match ::
  "EventArena \<Rightarrow> addr list \<Rightarrow> ProducerObservation list \<Rightarrow> ConsumerObservation list \<Rightarrow> bool" where
  "rows_match arena queued xs ys \<longleftrightarrow>
     (\<exists>rest. map po_record_index (accepted_rows xs) = map co_observed_record_index ys @ rest \<and>
        queued = map (line_at arena) rest \<and> list_all (\<lambda>i. i < ea_capacity arena) rest)"

definition capture_history ::
  "EventArena \<Rightarrow> ('p \<Rightarrow> addr list) \<Rightarrow> ProducerAttempt list \<Rightarrow> nat \<Rightarrow> nat \<Rightarrow>
     ('c, 'p) CapturingObservationBackend \<Rightarrow> bool" where
  "capture_history arena contents requests accepted consumed b \<longleftrightarrow>
     (\<exists>xs ys. open_stream rl_producer_row_bytes 15 (map producer_words xs) (cb_producer_stream b) \<and>
        open_stream rl_consumer_row_bytes 10 (map consumer_words ys) (cb_consumer_stream b) \<and>
        attempt_rows requests xs \<and> poll_rows ys \<and>
        length (accepted_rows xs) = accepted \<and> length ys = consumed \<and>
        rows_match arena (contents (cb_package b)) xs ys)"

lemma rows_match_accept:
  assumes "rows_match arena queued xs ys" and "po_outcome x = Outcome_accepted"
    and "po_record_index x < ea_capacity arena"
  shows "rows_match arena (queued @ [line_at arena (po_record_index x)]) (xs @ [x]) ys"
proof -
  obtain rest where "map po_record_index (accepted_rows xs) = map co_observed_record_index ys @ rest"
    "queued = map (line_at arena) rest" "list_all (\<lambda>i. i < ea_capacity arena) rest"
    using assms(1) by (auto simp: rows_match_def)
  then show ?thesis using assms(2,3)
    by (auto simp: rows_match_def accepted_rows_def intro!: exI [of _ "rest @ [po_record_index x]"])
qed

lemma rows_match_full:
  "rows_match arena queued xs ys \<Longrightarrow> po_outcome x \<noteq> Outcome_accepted \<Longrightarrow>
     rows_match arena queued (xs @ [x]) ys"
  by (simp add: rows_match_def accepted_rows_def)

lemma rows_match_take:
  assumes "rows_match arena (line_at arena i # queued) xs ys" and "arena_ready arena"
    and "i < ea_capacity arena" and "co_observed_record_index y = i"
  shows "rows_match arena queued xs (ys @ [y])"
proof -
  obtain rest where r: "map po_record_index (accepted_rows xs) = map co_observed_record_index ys @ rest"
    "line_at arena i # queued = map (line_at arena) rest" "list_all (\<lambda>i. i < ea_capacity arena) rest"
    using assms(1) by (auto simp: rows_match_def)
  then obtain j rest' where rest: "rest = j # rest'" by (cases rest) auto
  then have "i = j" using line_at_inj [OF assms(2,3)] r by auto
  then show ?thesis using r rest assms(4) by (auto simp: rows_match_def intro!: exI [of _ rest'])
qed

lemma producer_append_open:
  assumes "open_stream rl_producer_row_bytes 15 rows s" and "producer_append x s = (Appended, s')"
  shows "open_stream rl_producer_row_bytes 15 (rows @ [producer_words x]) s'"
  using assms(2)
  by (intro commit_Appended [OF assms(1)])
    (auto simp: producer_append_def Let_def producer_stream.words_length split: if_splits)

lemma consumer_append_open:
  assumes "open_stream rl_consumer_row_bytes 10 rows s" and "consumer_append y s = (Appended, s')"
  shows "open_stream rl_consumer_row_bytes 10 (rows @ [consumer_words y]) s'"
  using assms(2)
  by (intro commit_Appended [OF assms(1)])
    (auto simp: consumer_append_def consumer_stream.words_length split: if_splits)

subsection \<open>The backend keeps the executor's contract\<close>

context capturing_queue
begin

lemma attempt_captured:
  assumes inv: "capture_invar arena invar contents b"
    and run: "try_producer_attempt clock enqueue_ob arena request b = (r, b')"
  obtains (failed) "at_status r = Attempt_failure" "capture_invar arena invar contents b'"
      "length (contents (cb_package b')) \<le> Suc (length (contents (cb_package b)))"
    | (accepted) x where "at_status r = Attempt_complete" "at_outcome r = Enq_accepted"
      "capture_invar arena invar contents b'"
      "contents (cb_package b') = contents (cb_package b) @ [line_at arena (po_record_index x)]"
      "po_record_index x < ea_capacity arena" "po_outcome x = Outcome_accepted"
      "po_accepted_ordinal x = Some (pa_candidate_accepted_ordinal request)"
      "po_logical_sequence x = pa_logical_sequence request"
      "po_scheduled_arrival x = pa_scheduled_deadline request"
      "producer_append x (cb_producer_stream b) = (Appended, cb_producer_stream b')"
      "cb_consumer_stream b' = cb_consumer_stream b"
    | (full) x where "at_status r = Attempt_complete" "at_outcome r = Enq_full"
      "capture_invar arena invar contents b'" "contents (cb_package b') = contents (cb_package b)"
      "po_outcome x = Outcome_full"
      "po_logical_sequence x = pa_logical_sequence request"
      "po_scheduled_arrival x = pa_scheduled_deadline request"
      "producer_append x (cb_producer_stream b) = (Appended, cb_producer_stream b')"
      "cb_consumer_stream b' = cb_consumer_stream b"
proof -
  obtain res p' c' where cap: "capture_due_producer_attempt clock enqueue_ob arena (cb_package b)
      (pa_logical_sequence request) (pa_scheduled_deadline request)
      (pa_candidate_accepted_ordinal request) (cb_clock b) = (res, p', c')" by (metis prod.exhaust)
  have i: "arena_ready arena" "invar (cb_package b)" "set (contents (cb_package b)) \<subseteq> arena_pointers arena"
    using inv by (simp_all add: capture_invar_def)
  note run' = run [unfolded try_producer_attempt_def Let_def cap prod.case]
  note sel = select_pointer [OF i(1)]
  show ?thesis
  proof (cases rule: producer_effect [OF i(2,1) cap, case_names failed accepted full])
    case failed
    then show ?thesis using run' i sel(1) by (intro that(1)) (auto simp: capture_invar_def)
  next
    case (accepted ob c1 c2 c3 c4 r1 r2 r3 r4 r5)
    obtain st stream where app: "producer_append ob (cb_producer_stream b) = (st, stream)" by fastforce
    have ob: "po_record_index ob < ea_capacity arena"
      "contents p' = contents (cb_package b) @ [line_at arena (po_record_index ob)]"
      "line_at arena (po_record_index ob) \<in> arena_pointers arena"
      "po_outcome ob = Outcome_accepted"
      "po_accepted_ordinal ob = Some (pa_candidate_accepted_ordinal request)"
      "po_logical_sequence ob = pa_logical_sequence request"
      "po_scheduled_arrival ob = pa_scheduled_deadline request"
      using accepted(4,12) select_index [OF i(1)] sel(1,2) [of "pa_logical_sequence request"] by simp_all
    show ?thesis
    proof (cases "st = Appended")
      case True
      then show ?thesis using run' accepted(1-3) i app ob
        by (intro that(2) [of ob]) (auto simp: capture_invar_def observed_outcome_def)
    next
      case False
      then show ?thesis using run' accepted(1-3) i app ob
        by (intro that(1)) (auto simp: capture_invar_def)
    qed
  next
    case (full ob)
    obtain st stream where app: "producer_append ob (cb_producer_stream b) = (st, stream)" by fastforce
    show ?thesis
    proof (cases "st = Appended")
      case True
      then show ?thesis using run' full i app
        by (intro that(3) [of ob]) (auto simp: capture_invar_def observed_outcome_def)
    next
      case False
      then show ?thesis using run' full i app by (intro that(1)) (auto simp: capture_invar_def)
    qed
  qed
qed

lemma poll_captured:
  assumes inv: "capture_invar arena invar contents b"
    and run: "try_consumer_poll clock dequeue_ob arena ordinal b = (q, b')"
  obtains (failed) "po_status q = Poll_failure" "capture_invar arena invar contents b'"
      "length (contents (cb_package b')) \<le> length (contents (cb_package b))"
    | (none) "po_status q = Poll_empty" "capture_invar arena invar contents b'"
      "contents (cb_package b) = []" "contents (cb_package b') = []"
      "cb_producer_stream b' = cb_producer_stream b" "cb_consumer_stream b' = cb_consumer_stream b"
    | (item) y where "po_status q = Poll_item" "capture_invar arena invar contents b'"
      "co_observed_record_index y < ea_capacity arena"
      "contents (cb_package b) = line_at arena (co_observed_record_index y) # contents (cb_package b')"
      "co_consumed_ordinal y = ordinal" "cb_producer_stream b' = cb_producer_stream b"
      "consumer_append y (cb_consumer_stream b) = (Appended, cb_consumer_stream b')"
proof -
  obtain res p' st' c' where cap: "capture_dequeue_poll clock dequeue_ob arena (cb_package b)
      (cb_consumer_state b) ordinal (cb_clock b) = (res, p', st', c')" by (metis prod.exhaust)
  have i: "arena_ready arena" "invar (cb_package b)" "set (contents (cb_package b)) \<subseteq> arena_pointers arena"
    using inv by (simp_all add: capture_invar_def)
  note run' = run [unfolded try_consumer_poll_def Let_def cap prod.case]
  show ?thesis
  proof (cases rule: consumer_effect [OF i(2,1,3) cap, case_names failed none item])
    case failed
    have "set (tl (contents (cb_package b))) \<subseteq> arena_pointers arena"
      using i(3) by (cases "contents (cb_package b)") auto
    then show ?thesis using failed run' i by (intro that(1)) (auto simp: capture_invar_def)
  next
    case none
    then show ?thesis using run' i by (intro that(2)) (auto simp: capture_invar_def)
  next
    case (item ob j c1 c2 c3 r1 r2 r3 r4)
    obtain st stream where app: "consumer_append ob (cb_consumer_stream b) = (st, stream)" by fastforce
    show ?thesis
    proof (cases "st = Appended")
      case True
      then show ?thesis using run' item(1-5,12) i app
        by (intro that(3) [of ob]) (auto simp: capture_invar_def)
    next
      case False
      then show ?thesis using run' item(1-5) i app by (intro that(1)) (auto simp: capture_invar_def)
    qed
  qed
qed

lemma history_attempt_captured:
  assumes inv: "capture_invar arena invar contents b"
    and hist: "capture_history arena contents requests accepted consumed b"
    and run: "try_producer_attempt clock enqueue_ob arena request b = (r, b')"
    and r: "at_status r = Attempt_complete"
    and seq: "pa_logical_sequence request = of_nat (length requests)"
    and ordinal: "pa_candidate_accepted_ordinal request = of_nat accepted"
  shows "capture_history arena contents (requests @ [request])
    (if at_outcome r = Enq_accepted then Suc accepted else accepted) consumed b'"
proof -
  obtain xs ys where
    h: "open_stream rl_producer_row_bytes 15 (map producer_words xs) (cb_producer_stream b)"
      "open_stream rl_consumer_row_bytes 10 (map consumer_words ys) (cb_consumer_stream b)"
      "attempt_rows requests xs" "poll_rows ys" "length (accepted_rows xs) = accepted"
      "length ys = consumed" "rows_match arena (contents (cb_package b)) xs ys"
    using hist by (auto simp: capture_history_def)
  show ?thesis
  proof (cases rule: attempt_captured [OF inv run, case_names failed accepted full])
    case failed
    then show ?thesis using r by simp
  next
    case (accepted x)
    have "open_stream rl_producer_row_bytes 15 (map producer_words (xs @ [x])) (cb_producer_stream b')"
      using producer_append_open [OF h(1) accepted(10)] by simp
    moreover have "attempt_rows (requests @ [request]) (xs @ [x])"
      using h(3,5) accepted(6-9) ordinal by (simp add: attempt_rows_def accepted_rows_def)
    moreover have "rows_match arena (contents (cb_package b')) (xs @ [x]) ys"
      using rows_match_accept [OF h(7) accepted(6,5)] accepted(4) by simp
    ultimately show ?thesis using h accepted(2,6,11)
      unfolding capture_history_def by (intro exI [of _ "xs @ [x]"] exI [of _ ys]) (simp add: accepted_rows_def)
  next
    case (full x)
    have "open_stream rl_producer_row_bytes 15 (map producer_words (xs @ [x])) (cb_producer_stream b')"
      using producer_append_open [OF h(1) full(8)] by simp
    moreover have "attempt_rows (requests @ [request]) (xs @ [x])"
      using h(3) full(5-7) by (simp add: attempt_rows_def accepted_rows_def)
    moreover have "rows_match arena (contents (cb_package b')) (xs @ [x]) ys"
      using rows_match_full [OF h(7)] full(4,5) by simp
    ultimately show ?thesis using h full(2,5,9)
      unfolding capture_history_def by (intro exI [of _ "xs @ [x]"] exI [of _ ys]) (simp add: accepted_rows_def)
  qed
qed

lemma history_item_captured:
  assumes inv: "capture_invar arena invar contents b"
    and hist: "capture_history arena contents requests accepted consumed b"
    and run: "try_consumer_poll clock dequeue_ob arena (of_nat consumed) b = (q, b')"
    and q: "po_status q = Poll_item"
  shows "capture_history arena contents requests accepted (Suc consumed) b'"
proof -
  obtain xs ys where
    h: "open_stream rl_producer_row_bytes 15 (map producer_words xs) (cb_producer_stream b)"
      "open_stream rl_consumer_row_bytes 10 (map consumer_words ys) (cb_consumer_stream b)"
      "attempt_rows requests xs" "poll_rows ys" "length (accepted_rows xs) = accepted"
      "length ys = consumed" "rows_match arena (contents (cb_package b)) xs ys"
    using hist by (auto simp: capture_history_def)
  show ?thesis
  proof (cases rule: poll_captured [OF inv run, case_names failed none item])
    case (item y)
    have "open_stream rl_consumer_row_bytes 10 (map consumer_words (ys @ [y])) (cb_consumer_stream b')"
      using consumer_append_open [OF h(2) item(7)] by simp
    moreover have "poll_rows (ys @ [y])" using h(4,6) item(5) by (simp add: poll_rows_def)
    moreover have "rows_match arena (contents (cb_package b')) xs (ys @ [y])"
      using h(7) inv item(3,4) by (intro rows_match_take) (simp_all add: capture_invar_def)
    ultimately show ?thesis using h item(6)
      unfolding capture_history_def by (intro exI [of _ xs] exI [of _ "ys @ [y]"]) simp
  qed (use q in simp_all)
qed

lemma history_empty_captured:
  assumes "capture_invar arena invar contents b"
    and "capture_history arena contents requests accepted consumed b"
    and "try_consumer_poll clock dequeue_ob arena ordinal b = (q, b')" and "po_status q = Poll_empty"
  shows "capture_history arena contents requests accepted consumed b'"
proof (cases rule: poll_captured [OF assms(1,3), case_names failed none item])
  case none
  then show ?thesis using assms(2) by (simp add: capture_history_def)
qed (use assms(4) in simp_all)

end

sublocale capturing_queue < backend: recording_backend "capture_invar arena invar contents"
  "\<lambda>b. contents (cb_package b)" "try_producer_attempt clock enqueue_ob arena"
  "try_consumer_poll clock dequeue_ob arena" "capture_history arena contents"
  for arena clock
proof
  show "capture_invar arena invar contents b' \<and>
      (at_status r = Attempt_complete \<longrightarrow>
         (if at_outcome r = Enq_accepted then \<exists>x. contents (cb_package b') = contents (cb_package b) @ [x]
          else contents (cb_package b') = contents (cb_package b))) \<and>
      length (contents (cb_package b')) \<le> Suc (length (contents (cb_package b)))"
    if "capture_invar arena invar contents b"
      and "try_producer_attempt clock enqueue_ob arena a b = (r, b')" for b b' a r
    by (cases rule: attempt_captured [OF that]) auto
  show "capture_invar arena invar contents b' \<and>
      (po_status q = Poll_item \<longrightarrow> (\<exists>x. contents (cb_package b) = x # contents (cb_package b'))) \<and>
      (po_status q = Poll_empty \<longrightarrow> contents (cb_package b) = [] \<and> contents (cb_package b') = []) \<and>
      length (contents (cb_package b')) \<le> length (contents (cb_package b))"
    if "capture_invar arena invar contents b"
      and "try_consumer_poll clock dequeue_ob arena n b = (q, b')" for b b' n q
    by (cases rule: poll_captured [OF that]) auto
qed (fact history_attempt_captured history_item_captured history_empty_captured)+

subsection \<open>Properties\<close>

text \<open>
  The configuration of a run on the R1 package: \<open>cfg\<close> carries the schedule, the limits and the
  tick reader, the backend captures with \<open>clock\<close> and the prefetch emitter \<open>em\<close>.
\<close>

definition captures_ring ::
  "EventArena \<Rightarrow> ('k \<Rightarrow> ClockReadResult \<times> 'k) \<Rightarrow> 'e ring_emitter \<Rightarrow>
     ('c, ('k, 'e R1Package) CapturingObservationBackend) exec_config \<Rightarrow> bool" where
  "captures_ring arena clock em cfg \<longleftrightarrow>
     cfg_attempt cfg =
       try_producer_attempt clock (R1Package_try_enqueue_with_boundary_observer em) arena \<and>
     cfg_poll cfg =
       try_consumer_poll clock (R1Package_try_dequeue_with_boundary_observer em) arena \<and>
     length (ps_deadline_ticks (cfg_schedule cfg)) < 2 ^ 64"

definition captures_linked ::
  "EventArena \<Rightarrow> ('k \<Rightarrow> ClockReadResult \<times> 'k) \<Rightarrow> (addr \<Rightarrow> 'e \<Rightarrow> 'e) \<Rightarrow>
     ('c, ('k, 'e L1Package) CapturingObservationBackend) exec_config \<Rightarrow> bool" where
  "captures_linked arena clock prefetch cfg \<longleftrightarrow>
     cfg_attempt cfg =
       try_producer_attempt clock L1Package_try_enqueue_with_boundary_observer arena \<and>
     cfg_poll cfg =
       try_consumer_poll clock (L1Package_try_dequeue_with_boundary_observer prefetch) arena \<and>
     length (ps_deadline_ticks (cfg_schedule cfg)) < 2 ^ 64"

text \<open>A backend ready for a run: an empty queue in its invariant and two empty, prepared streams.\<close>

definition ring_backend_ready ::
  "EventArena \<Rightarrow> ('k, 'e R1Package) CapturingObservationBackend \<Rightarrow> bool" where
  "ring_backend_ready arena b \<longleftrightarrow>
     arena_ready arena \<and> ring_invar (r1_queue (cb_package b)) \<and> ring_contents (r1_queue (cb_package b)) = [] \<and>
     open_stream rl_producer_row_bytes 15 [] (cb_producer_stream b) \<and>
     open_stream rl_consumer_row_bytes 10 [] (cb_consumer_stream b)"

definition linked_backend_ready ::
  "EventArena \<Rightarrow> ('k, 'e L1Package) CapturingObservationBackend \<Rightarrow> bool" where
  "linked_backend_ready arena b \<longleftrightarrow>
     arena_ready arena \<and> linked_invar (l1_queue (cb_package b)) \<and>
     linked_contents (l1_queue (cb_package b)) = [] \<and>
     open_stream rl_producer_row_bytes 15 [] (cb_producer_stream b) \<and>
     open_stream rl_consumer_row_bytes 10 [] (cb_consumer_stream b)"

lemma empty_history:
  "open_stream rl_producer_row_bytes 15 [] (cb_producer_stream b) \<Longrightarrow>
   open_stream rl_consumer_row_bytes 10 [] (cb_consumer_stream b) \<Longrightarrow>
   contents (cb_package b) = [] \<Longrightarrow> capture_history arena contents [] 0 0 b"
  unfolding capture_history_def
  by (intro exI [of _ "[] :: ProducerObservation list"] exI [of _ "[] :: ConsumerObservation list"])
    (simp add: attempt_rows_def poll_rows_def accepted_rows_def rows_match_def)

lemma ring_ready:
  assumes "ring_backend_ready arena b"
  shows "capture_invar arena (\<lambda>p. ring_invar (r1_queue p)) (\<lambda>p. ring_contents (r1_queue p)) b"
    and "ring_contents (r1_queue (cb_package b)) = []"
    and "capture_history arena (\<lambda>p. ring_contents (r1_queue p)) [] 0 0 b"
  using assms empty_history [of b "\<lambda>p. ring_contents (r1_queue p)"]
  by (simp_all add: ring_backend_ready_def capture_invar_def)

lemma linked_ready:
  assumes "linked_backend_ready arena b"
  shows "capture_invar arena (\<lambda>p. linked_invar (l1_queue p)) (\<lambda>p. linked_contents (l1_queue p)) b"
    and "linked_contents (l1_queue (cb_package b)) = []"
    and "capture_history arena (\<lambda>p. linked_contents (l1_queue p)) [] 0 0 b"
  using assms empty_history [of b "\<lambda>p. linked_contents (l1_queue p)"]
  by (simp_all add: linked_backend_ready_def capture_invar_def)

lemma captures_ringD:
  assumes "captures_ring arena clock em cfg"
  shows "cfg_attempt cfg = try_producer_attempt clock (R1Package_try_enqueue_with_boundary_observer em) arena"
    and "cfg_poll cfg = try_consumer_poll clock (R1Package_try_dequeue_with_boundary_observer em) arena"
    and "length (ps_deadline_ticks (cfg_schedule cfg)) < 2 ^ 64"
  using assms by (simp_all add: captures_ring_def)

lemma captures_linkedD:
  assumes "captures_linked arena clock prefetch cfg"
  shows "cfg_attempt cfg = try_producer_attempt clock L1Package_try_enqueue_with_boundary_observer arena"
    and "cfg_poll cfg = try_consumer_poll clock (L1Package_try_dequeue_with_boundary_observer prefetch) arena"
    and "length (ps_deadline_ticks (cfg_schedule cfg)) < 2 ^ 64"
  using assms by (simp_all add: captures_linked_def)

text \<open>
  C2. The executor's report is sound on the R1 package: whatever the interleaving of the three
  threads, when the run has ended and no failure is reported, the producer completed, the
  consumer drained the queue, every offered deadline was attempted exactly once and in order,
  every attempt was accepted or refused as full, and exactly the accepted records were consumed.
\<close>

theorem execution_report_sound:
  assumes "captures_ring arena clock em cfg" and "ring_backend_ready arena b"
    and "executes cfg ticks b termination n s"
    and "x_kpc s = K_done" and "er_failure_reason (x_report s) = Reason_none"
  shows "er_producer_completed (x_report s) \<and> er_consumer_drained (x_report s) \<and>
    ring_contents (r1_queue (cb_package (x_backend s))) = [] \<and>
    er_offered (x_report s) = er_attempted (x_report s) \<and>
    unat (er_attempted (x_report s)) = length (ps_deadline_ticks (cfg_schedule cfg)) \<and>
    unat (er_accepted (x_report s)) + unat (er_full (x_report s)) = unat (er_attempted (x_report s)) \<and>
    er_consumed (x_report s) = er_accepted (x_report s) \<and>
    map pa_scheduled_deadline (x_attempts s) = ps_deadline_ticks (cfg_schedule cfg)"
  by (rule r1_capture.backend.report_sound
      [OF assms(3) ring_ready(1,2) [OF assms(2)] captures_ringD [OF assms(1)] assms(4,5)])

text \<open>
  C1. What a run leaves in the raw streams. When a run on the R1 package has ended and no failure
  is reported, the producer stream holds exactly one row per scheduled deadline, numbered in
  order and carrying its deadline; the consumer stream holds exactly one row per accepted
  attempt; and the records observed by the consumer are the records of the accepted attempts,
  in the same order.
\<close>

theorem execution_rows_match:
  assumes "captures_ring arena clock em cfg" and "ring_backend_ready arena b"
    and "executes cfg ticks b termination n s"
    and "x_kpc s = K_done" and "er_failure_reason (x_report s) = Reason_none"
  shows "\<exists>xs ys.
    open_stream rl_producer_row_bytes 15 (map producer_words xs) (cb_producer_stream (x_backend s)) \<and>
    open_stream rl_consumer_row_bytes 10 (map consumer_words ys) (cb_consumer_stream (x_backend s)) \<and>
    map po_scheduled_arrival xs = ps_deadline_ticks (cfg_schedule cfg) \<and>
    map po_logical_sequence xs = map of_nat [0..<length xs] \<and>
    map po_accepted_ordinal (accepted_rows xs) = map (\<lambda>k. Some (of_nat k)) [0..<length ys] \<and>
    map co_consumed_ordinal ys = map of_nat [0..<length ys] \<and>
    map co_observed_record_index ys = map po_record_index (accepted_rows xs)"
proof -
  note r = ring_ready [OF assms(2)] and c = captures_ringD [OF assms(1)]
  note sound = r1_capture.backend.report_sound [OF assms(3) r(1,2) c assms(4,5)]
  note order = r1_capture.backend.attempts_in_order(2) [OF assms(3) r(1,2) c]
  have "capture_history arena (\<lambda>p. ring_contents (r1_queue p)) (x_attempts s)
      (unat (er_accepted (x_report s))) (unat (er_consumed (x_report s))) (x_backend s)"
    by (rule r1_capture.backend.complete_history [OF assms(3) r c assms(4,5)])
  then obtain xs ys where h: "attempt_rows (x_attempts s) xs" "poll_rows ys"
      "length (accepted_rows xs) = length ys"
      "rows_match arena (ring_contents (r1_queue (cb_package (x_backend s)))) xs ys"
      "open_stream rl_producer_row_bytes 15 (map producer_words xs) (cb_producer_stream (x_backend s))"
      "open_stream rl_consumer_row_bytes 10 (map consumer_words ys) (cb_consumer_stream (x_backend s))"
    using sound by (auto simp: capture_history_def)
  have "length xs = length (x_attempts s)"
    using h(1) unfolding attempt_rows_def by (metis length_map)
  then show ?thesis
    using h sound order
    by (intro exI [of _ xs] exI [of _ ys]) (simp add: attempt_rows_def poll_rows_def rows_match_def)
qed

text \<open>
  C3. Every execution ends: on the linked queue, every interleaving of the three threads makes
  at most \<open>execution_bound\<close> steps, a number computed from the watchdog limits and the length of
  the schedule, and it can only stop when the controller has returned its report.
\<close>

theorem execution_terminates:
  assumes "captures_linked arena clock prefetch cfg" and "linked_backend_ready arena b"
    and "executes cfg ticks b termination n s"
  shows "n \<le> execution_bound (cfg_limits cfg) (length (ps_deadline_ticks (cfg_schedule cfg))) \<and>
    (x_kpc s = K_done \<or> (\<exists>s'. exec_step cfg s s'))"
  using l1_capture.backend.executes_within_bound
      [OF assms(3) linked_ready(1,2) [OF assms(2)] captures_linkedD [OF assms(1)]] exec_progress
  by auto


subsection \<open>A concrete run\<close>

text \<open>The threads in the order given by a list, to exhibit one execution.\<close>

datatype thread = T_producer | T_consumer | T_controller

fun thread_step :: "('c, 'b) exec_config \<Rightarrow> thread \<Rightarrow> ('c, 'b) exec_state \<Rightarrow> ('c, 'b) exec_state option" where
  "thread_step cfg T_producer s = producer_step cfg (x_ppc s) s"
| "thread_step cfg T_consumer s = consumer_step cfg (x_cpc s) s"
| "thread_step cfg T_controller s = controller_step cfg (x_kpc s) s"

fun thread_run ::
  "('c, 'b) exec_config \<Rightarrow> thread list \<Rightarrow> ('c, 'b) exec_state \<Rightarrow> ('c, 'b) exec_state option" where
  "thread_run cfg [] s = Some s"
| "thread_run cfg (t # ts) s = Option.bind (thread_step cfg t s) (thread_run cfg ts)"

lemma thread_run_path: "thread_run cfg ts s = Some s' \<Longrightarrow> exec_path cfg s (length ts) s'"
proof (induction ts arbitrary: s)
  case Nil
  then show ?case by (simp add: path_start)
next
  case (Cons t ts)
  then obtain s1 where s1: "thread_step cfg t s = Some s1" "thread_run cfg ts s1 = Some s'"
    by (auto simp: bind_eq_Some_conv)
  then have "exec_step cfg s s1" by (cases t) (auto intro: exec_step.intros)
  then show ?case using exec_path_Cons [OF Cons.IH [OF s1(2)]] by simp
qed

definition example_limits :: ExecutionLimits where
  "example_limits = \<lparr>controller_start_poll_limit = 4, worker_start_poll_limit = 4,
     producer_due_poll_limit_per_arrival = 4, consumer_empty_poll_limit_before_finish = 4,
     drain_poll_limit = 4\<rparr>"

definition example_schedule :: PreparedScheduleView where
  "example_schedule = \<lparr>ps_deadline_ticks = [5], ps_origin_ticks = 0, ps_horizon_ticks = 100\<rparr>"

text \<open>A schedule of the threads that delivers one record and drains the queue.\<close>

definition example_threads :: "thread list" where
  "example_threads =
     [T_producer, T_consumer, T_controller, T_controller, T_controller, T_producer, T_consumer,
      T_producer, T_producer, T_producer, T_producer, T_consumer, T_consumer,
      T_producer, T_producer, T_producer, T_consumer, T_consumer, T_consumer, T_controller]"

lemma example_run:
  assumes "cfg_schedule cfg = example_schedule" and "cfg_limits cfg = example_limits"
    and "cfg_read_ticks cfg = (\<lambda>c. (\<lparr>tick_ok = True, tick_value = c\<rparr>, c + 10))"
    and "cfg_attempt cfg \<lparr>pa_logical_sequence = 0, pa_scheduled_deadline = 5,
      pa_candidate_accepted_ordinal = 0\<rparr> b = (\<lparr>at_status = Attempt_complete, at_outcome = Enq_accepted\<rparr>, b1)"
    and "cfg_poll cfg 0 b1 = (\<lparr>po_status = Poll_item\<rparr>, b2)"
    and "cfg_poll cfg 1 b2 = (\<lparr>po_status = Poll_empty\<rparr>, b3)"
  shows "\<exists>s. executes cfg (7 :: u64) b termination (length example_threads) s \<and> x_kpc s = K_done \<and>
    er_failure_reason (x_report s) = Reason_none \<and> er_consumed (x_report s) = 1 \<and> x_backend s = b3"
proof -
  obtain s0 where s0: "execute_prepare cfg 7 b termination = Inr s0"
    using assms(1,2) by (simp add: execute_prepare_def example_limits_def example_schedule_def
        reset_quiescent_def validate_prepared_schedule_def check_deadline_def Let_def)
  have "\<exists>s. thread_run cfg example_threads s0 = Some s \<and> x_kpc s = K_done \<and>
      er_failure_reason (x_report s) = Reason_none \<and> er_consumed (x_report s) = 1 \<and> x_backend s = b3"
    using assms execute_prepare_Inr(6) [OF s0]
    by (simp add: example_threads_def example_schedule_def example_limits_def Let_def arrive_def
        WorkerStartBarrier_init_def controller_wait_poll_def worker_wait_poll_def all_workers_ready_def
        release_with_measurement_origin_def checked_measurement_deadline_def producer_read_def
        producer_attempt_def consumer_poll_def joined_report_def failure_report_def
        ProducerWorkerState_init_def ConsumerWorkerState_init_def publish_arrivals_finished_def
        arrivals_finished_def)
  then show ?thesis using s0 thread_run_path by (fastforce simp: executes_def)
qed

text \<open>The example package after one record was delivered: the next poll finds it empty.\<close>

lemma example_polls_drain:
  assumes "arena_ready a"
    and "p = example_package\<lparr>r1_queue := ring_example\<lparr>rq_slots := [es_record (select a n), 0],
      rq_producer_position := 1\<rparr>\<rparr>"
  shows "\<exists>res p' st ob res' p'' st' c. capture_dequeue_poll example_clock
      (R1Package_try_dequeue_with_boundary_observer silent_emitter) a p 7 ordinal 5 = (res, p', st, 9) \<and>
    cc_observation res = Some ob \<and> cc_status res = Capture_complete \<and>
    capture_dequeue_poll example_clock (R1Package_try_dequeue_with_boundary_observer silent_emitter)
      a p' st ordinal' 9 = (res', p'', st', c) \<and> cc_status res' = Capture_empty"
proof -
  have nn: "es_record (select a n) \<noteq> 0"
    using arena_pointer_nonnull [OF assms(1) select_pointer(1) [OF assms(1)]] by simp
  obtain i where acc: "access_and_mix a (es_record (select a n)) 7 =
      (\<lparr>ra_status = RA_valid, ra_record_index = i, ra_payload = al_payload (ea_lines a ! unat i)\<rparr>,
       mix_consumer_state 7 i (al_payload (ea_lines a ! unat i)))"
    using access_pointer [OF assms(1) select_pointer(1) [OF assms(1)]] by blast
  show ?thesis
    using nn
    by (simp add: assms(2) capture_dequeue_poll_def acc example_clock_def
        R1Package_try_dequeue_with_boundary_observer_def ring_try_dequeue_with_boundary_observer_def
        ring_try_dequeue_observed_def ring_dequeue_boundary_observer_def BoundaryObserver_hook_def
        example_package_def R1Package_create_def silent_emitter_def ring_example_def
        ring_next_position_def Let_def)
qed

definition example_backend :: "(u64, unit R1Package) CapturingObservationBackend" where
  "example_backend = \<lparr>cb_clock = 0, cb_package = example_package, cb_consumer_state = 7,
     cb_producer_stream = snd (producer_prepare_for_owner (example_created 136 3)),
     cb_consumer_stream = snd (consumer_prepare_for_owner (example_created 96 3))\<rparr>"

definition example_config ::
  "EventArena \<Rightarrow> (u64, (u64, unit R1Package) CapturingObservationBackend) exec_config" where
  "example_config arena =
     \<lparr>cfg_schedule = example_schedule, cfg_limits = example_limits,
      cfg_read_ticks = (\<lambda>c. (\<lparr>tick_ok = True, tick_value = c\<rparr>, c + 10)),
      cfg_attempt = try_producer_attempt example_clock
        (R1Package_try_enqueue_with_boundary_observer silent_emitter) arena,
      cfg_poll = try_consumer_poll example_clock
        (R1Package_try_dequeue_with_boundary_observer silent_emitter) arena\<rparr>"

lemma example_config_fields:
  "cfg_schedule (example_config a) = example_schedule"
  "cfg_limits (example_config a) = example_limits"
  "cfg_read_ticks (example_config a) = (\<lambda>c. (\<lparr>tick_ok = True, tick_value = c\<rparr>, c + 10))"
  by (simp_all add: example_config_def)

lemma example_config_deadlines: "ps_deadline_ticks (cfg_schedule (example_config a)) = [5]"
  by (simp add: example_config_fields example_schedule_def)

lemma example_streams_open:
  "open_stream rl_producer_row_bytes 15 [] (snd (producer_prepare_for_owner (example_created 136 3)))"
  "open_stream rl_consumer_row_bytes 10 [] (snd (consumer_prepare_for_owner (example_created 96 3)))"
  "os_row_capacity (snd (producer_prepare_for_owner (example_created 136 3))) = 3"
  "os_row_capacity (snd (consumer_prepare_for_owner (example_created 96 3))) = 3"
proof -
  have p: "stream_prepare_for_owner rl_producer_row_bytes (example_created 136 3) =
      (True, snd (producer_prepare_for_owner (example_created 136 3)))"
    and c: "stream_prepare_for_owner rl_consumer_row_bytes (example_created 96 3) =
      (True, snd (consumer_prepare_for_owner (example_created 96 3)))"
    by (simp_all add: producer_prepare_for_owner_def consumer_prepare_for_owner_def
        stream_prepare_for_owner_def example_created_def)
  show "open_stream rl_producer_row_bytes 15 [] (snd (producer_prepare_for_owner (example_created 136 3)))"
    using stream_prepare_rows [OF _ _ p, of 15]
    by (simp add: open_stream_def stream_geometry_def stream_rows_def producer_prepare_for_owner_def
        stream_prepare_for_owner_def example_created_def prefix_size_def)
  show "open_stream rl_consumer_row_bytes 10 [] (snd (consumer_prepare_for_owner (example_created 96 3)))"
    using stream_prepare_rows [OF _ _ c, of 10]
    by (simp add: open_stream_def stream_geometry_def stream_rows_def consumer_prepare_for_owner_def
        stream_prepare_for_owner_def example_created_def prefix_size_def)
qed (simp_all add: producer_prepare_for_owner_def consumer_prepare_for_owner_def
        stream_prepare_for_owner_def example_created_def)

lemma example_backend_ready: "arena_ready a \<Longrightarrow> ring_backend_ready a example_backend"
  using ring_create_invar [OF ring_example_create] example_streams_open
  by (simp add: ring_backend_ready_def example_backend_def example_package_def R1Package_create_def)

lemma example_captures: "captures_ring a example_clock silent_emitter (example_config a)"
  by (simp add: captures_ring_def example_config_def example_schedule_def)

lemma producer_append_room:
  assumes "open_stream rl_producer_row_bytes 15 rows s" and "length rows < unat (os_row_capacity s)"
    and "po_outcome x = Outcome_accepted" and "po_enqueue_linearization x \<noteq> None"
    and "po_accepted_ordinal x \<noteq> None"
  shows "\<exists>s'. producer_append x s = (Appended, s')"
proof -
  have "producer_append x s = stream_commit rl_producer_row_bytes (producer_words x) s"
    using assms by (intro producer_stream.append_writing) (simp_all add: open_stream_def)
  moreover have "\<exists>s'. stream_commit rl_producer_row_bytes (producer_words x) s = (Appended, s')"
    using assms(1,2) by (auto simp: stream_commit_def open_stream_def stream_rows_def)
  ultimately show ?thesis by simp
qed

lemma consumer_append_room:
  assumes "open_stream rl_consumer_row_bytes 10 rows s" and "length rows < unat (os_row_capacity s)"
  shows "\<exists>s'. consumer_append y s = (Appended, s')"
proof -
  have "consumer_append y s = stream_commit rl_consumer_row_bytes (consumer_words y) s"
    using assms by (intro consumer_stream.append_writing) (simp_all add: open_stream_def)
  moreover have "\<exists>s'. stream_commit rl_consumer_row_bytes (consumer_words y) s = (Appended, s')"
    using assms by (auto simp: stream_commit_def open_stream_def stream_rows_def)
  ultimately show ?thesis by simp
qed

lemma example_execution:
  assumes a: "arena_ready a"
  shows "\<exists>s. executes (example_config a) 7 example_backend termination (length example_threads) s \<and>
    x_kpc s = K_done \<and> er_failure_reason (x_report s) = Reason_none \<and> er_consumed (x_report s) = 1"
proof -
  let ?p1 = "example_package\<lparr>r1_queue := ring_example\<lparr>rq_slots := [es_record (select a 0), 0],
      rq_producer_position := 1\<rparr>\<rparr>"
  obtain res ob where produce: "capture_due_producer_attempt example_clock
      (R1Package_try_enqueue_with_boundary_observer silent_emitter) a example_package 0 5 0 0 = (res, ?p1, 5)"
    "pc_status res = Capture_complete" "pc_observation res = Some ob" "po_outcome ob = Outcome_accepted"
    "po_accepted_ordinal ob = Some 0" "po_enqueue_linearization ob \<noteq> None"
    using example_produce [OF a, of 0 5 0] by blast
  obtain cres p2 st cob cres' p3 st' c3 where consume: "capture_dequeue_poll example_clock
      (R1Package_try_dequeue_with_boundary_observer silent_emitter) a ?p1 7 0 5 = (cres, p2, st, 9)"
    "cc_observation cres = Some cob" "cc_status cres = Capture_complete"
    "capture_dequeue_poll example_clock (R1Package_try_dequeue_with_boundary_observer silent_emitter)
      a p2 st 1 9 = (cres', p3, st', c3)" "cc_status cres' = Capture_empty"
    using example_polls_drain [OF a refl, of 0 0 1] by blast
  have "\<exists>ps. producer_append ob (cb_producer_stream example_backend) = (Appended, ps)"
    using producer_append_room [OF example_streams_open(1), of ob] example_streams_open(3) produce(4-6)
    by (simp add: example_backend_def)
  then obtain ps where ps: "producer_append ob (cb_producer_stream example_backend) = (Appended, ps)"
    by blast
  have "\<exists>cs. consumer_append cob (cb_consumer_stream example_backend) = (Appended, cs)"
    using consumer_append_room [OF example_streams_open(2), of cob] example_streams_open(4)
    by (simp add: example_backend_def)
  then obtain cs where cs: "consumer_append cob (cb_consumer_stream example_backend) = (Appended, cs)"
    by blast
  let ?b1 = "example_backend\<lparr>cb_package := ?p1, cb_clock := 5, cb_producer_stream := ps\<rparr>"
  let ?b2 = "?b1\<lparr>cb_package := p2, cb_consumer_state := st, cb_clock := 9, cb_consumer_stream := cs\<rparr>"
  have b0: "cb_package example_backend = example_package" "cb_clock example_backend = 0"
    "cb_consumer_state example_backend = 7" by (simp_all add: example_backend_def)
  have 1: "cfg_attempt (example_config a) \<lparr>pa_logical_sequence = 0, pa_scheduled_deadline = 5,
      pa_candidate_accepted_ordinal = 0\<rparr> example_backend =
      (\<lparr>at_status = Attempt_complete, at_outcome = Enq_accepted\<rparr>, ?b1)"
    using produce ps by (simp add: example_config_def try_producer_attempt_def observed_outcome_def b0)
  have 2: "cfg_poll (example_config a) 0 ?b1 = (\<lparr>po_status = Poll_item\<rparr>, ?b2)"
    using consume(1-3) cs by (simp add: example_config_def try_consumer_poll_def b0)
  have 3: "cfg_poll (example_config a) 1 ?b2 =
      (\<lparr>po_status = Poll_empty\<rparr>, ?b2\<lparr>cb_package := p3, cb_consumer_state := st', cb_clock := c3\<rparr>)"
    using consume(4,5) by (simp add: example_config_def try_consumer_poll_def)
  show ?thesis using example_run [OF example_config_fields 1 2 3] by blast
qed

theorem execution_report_sound_witness:
  "\<exists>a s termination. executes (example_config a) 7 example_backend termination (length example_threads) s \<and>
     er_consumer_drained (x_report s) \<and> er_consumed (x_report s) = er_accepted (x_report s) \<and>
     map pa_scheduled_deadline (x_attempts s) = [5]"
proof -
  obtain a where a: "arena_ready a" using example_arena_ready by blast
  fix t :: TerminationControl
  obtain s where s: "executes (example_config a) 7 example_backend t (length example_threads) s"
    "x_kpc s = K_done" "er_failure_reason (x_report s) = Reason_none"
    using example_execution [OF a] by blast
  from execution_report_sound [OF example_captures example_backend_ready [OF a] s] s(1)
  show ?thesis unfolding example_config_deadlines
    by (intro exI [of _ a] exI [of _ s] exI [of _ t]) simp
qed

theorem execution_rows_match_witness:
  "\<exists>a s termination xs ys.
     executes (example_config a) 7 example_backend termination (length example_threads) s \<and>
     map po_scheduled_arrival xs = [5] \<and>
     map co_observed_record_index ys = map po_record_index (accepted_rows xs) \<and>
     open_stream rl_producer_row_bytes 15 (map producer_words xs) (cb_producer_stream (x_backend s)) \<and>
     open_stream rl_consumer_row_bytes 10 (map consumer_words ys) (cb_consumer_stream (x_backend s))"
proof -
  obtain a where a: "arena_ready a" using example_arena_ready by blast
  fix t :: TerminationControl
  obtain s where s: "executes (example_config a) 7 example_backend t (length example_threads) s"
    "x_kpc s = K_done" "er_failure_reason (x_report s) = Reason_none"
    using example_execution [OF a] by blast
  from execution_rows_match [OF example_captures example_backend_ready [OF a] s] obtain xs ys where
    "open_stream rl_producer_row_bytes 15 (map producer_words xs) (cb_producer_stream (x_backend s))"
    "map po_scheduled_arrival xs = [5]"
    "map co_observed_record_index ys = map po_record_index (accepted_rows xs)"
    "open_stream rl_consumer_row_bytes 10 (map consumer_words ys) (cb_consumer_stream (x_backend s))"
    unfolding example_config_deadlines by (elim exE conjE) (rule that)
  with s(1) show ?thesis
    by (intro exI [of _ a] exI [of _ s] exI [of _ t] exI [of _ xs] exI [of _ ys]) simp
qed

text \<open>A linked package under the same schedule, at the start of its run.\<close>

definition example_linked_backend :: "(u64, unit L1Package) CapturingObservationBackend" where
  "example_linked_backend = \<lparr>cb_clock = 0, cb_package = \<lparr>l1_queue = linked_example, l1_emitter = ()\<rparr>,
     cb_consumer_state = 7,
     cb_producer_stream = snd (producer_prepare_for_owner (example_created 136 3)),
     cb_consumer_stream = snd (consumer_prepare_for_owner (example_created 96 3))\<rparr>"

definition example_linked_config ::
  "EventArena \<Rightarrow> (u64, (u64, unit L1Package) CapturingObservationBackend) exec_config" where
  "example_linked_config arena =
     \<lparr>cfg_schedule = example_schedule, cfg_limits = example_limits,
      cfg_read_ticks = (\<lambda>c. (\<lparr>tick_ok = True, tick_value = c\<rparr>, c + 10)),
      cfg_attempt = try_producer_attempt example_clock L1Package_try_enqueue_with_boundary_observer arena,
      cfg_poll = try_consumer_poll example_clock
        (L1Package_try_dequeue_with_boundary_observer (\<lambda>_. id)) arena\<rparr>"

lemma example_linked_ready:
  "arena_ready a \<Longrightarrow> linked_backend_ready a example_linked_backend"
  "captures_linked a example_clock (\<lambda>_. id) (example_linked_config a)"
  using linked_create_invar [OF linked_example_create linked_example_geometry] example_streams_open
  by (simp_all add: linked_backend_ready_def example_linked_backend_def captures_linked_def
      example_linked_config_def example_schedule_def)

lemma example_linked_start:
  "\<exists>s. executes (example_linked_config a) 7 example_linked_backend termination 0 s"
proof -
  have "\<exists>s. execute_prepare (example_linked_config a) 7 example_linked_backend termination = Inr s"
    by (simp add: execute_prepare_def example_linked_config_def example_limits_def example_schedule_def
        reset_quiescent_def validate_prepared_schedule_def check_deadline_def Let_def)
  then show ?thesis using path_start by (fastforce simp: executes_def)
qed

theorem execution_terminates_witness:
  "\<exists>a termination s. arena_ready a \<and>
     executes (example_linked_config a) 7 example_linked_backend termination 0 s \<and>
     (x_kpc s = K_done \<or> (\<exists>s'. exec_step (example_linked_config a) s s'))"
proof -
  obtain a where a: "arena_ready a" using example_arena_ready by blast
  fix t :: TerminationControl
  obtain s where s: "executes (example_linked_config a) 7 example_linked_backend t 0 s"
    using example_linked_start by blast
  from execution_terminates [OF example_linked_ready(2) example_linked_ready(1) [OF a] s] a s
  show ?thesis by blast
qed


end
