(* ===== verification/Storage_Budget.thy ===== *)
theory Storage_Budget
  imports Raw_Streams "HOL-Library.Monad_Syntax"
begin

text \<open>
  Storage budgets, \<^verbatim>\<open>storage/budget.hpp\<close> and \<^verbatim>\<open>storage/budget.cpp\<close>: the bytes a run and a Stage A plan
  need, computed with checked 64-bit arithmetic. The chain of checked operations joined by
  \<^verbatim>\<open>&&\<close> is a sequence in the option monad. The theorems say that the budgets are the exact sizes
  over the natural numbers and that the overflow errors are given exactly when these do not fit.
\<close>

definition kStageACellsPerBlock :: u64 where
  "kStageACellsPerBlock = 180"

definition kTemporaryRawCopies :: u64 where
  "kTemporaryRawCopies = 1"

definition kDurableRawCopies :: u64 where
  "kDurableRawCopies = 2"

record RunStorageInput =
  ri_run_id :: string
  ri_scheduled_rows :: u64
  ri_accepted_rows :: u64
  ri_effective_rows :: "u64 option"

record RunStorageBudget =
  rb_run_id :: string
  rb_producer_row_bytes :: u64
  rb_consumer_row_bytes :: u64
  rb_joined_row_bytes :: u64
  rb_producer_payload_bytes :: u64
  rb_consumer_payload_bytes :: u64
  rb_joined_payload_bytes :: u64
  rb_actual_hot_payload_bytes :: u64
  rb_conservative_hot_payload_bytes :: u64
  rb_producer_mapped_bytes :: u64
  rb_consumer_mapped_bytes :: u64
  rb_conservative_mapped_hot_bytes :: u64
  rb_raw_storage_bytes :: u64
  rb_primary_tail_count_possible :: bool
  rb_secondary_tail_count_possible :: bool

record AuxiliaryStorageBytes =
  ax_envelopes :: u64
  ax_integrity_records :: u64
  ax_copy_ledgers :: u64
  ax_schedules :: u64
  ax_manifests :: u64
  ax_filesystem_overhead :: u64
  ax_operator_reserve :: u64

record StageAStorageBudgetRequest =
  sa_runs :: "RunStorageInput list"
  sa_r_total :: u64
  sa_block_count :: u64
  sa_verified_base_page_bytes :: u64
  sa_auxiliary :: AuxiliaryStorageBytes
  sa_available_bytes :: u64

record StageAStorageBudget =
  sb_run_count :: u64
  sb_block_count :: u64
  sb_r_total :: u64
  sb_temporary_raw_copies :: u64
  sb_durable_raw_copies :: u64
  sb_raw_storage_bytes :: u64
  sb_auxiliary_and_reserve_bytes :: u64
  sb_required_bytes :: u64
  sb_available_bytes :: u64
  sb_capacity_pass :: bool
  sb_runs :: "RunStorageBudget list"

definition budget_checked_add :: "u64 \<Rightarrow> u64 \<Rightarrow> u64 option" where
  "budget_checked_add left right = (if right > u64_max - left then None else Some (left + right))"

definition budget_checked_multiply :: "u64 \<Rightarrow> u64 \<Rightarrow> u64 option" where
  "budget_checked_multiply left right =
     (if left \<noteq> 0 \<and> right > u64_max div left then None else Some (left * right))"

definition budget_checked_round_up :: "u64 \<Rightarrow> u64 \<Rightarrow> u64 option" where
  "budget_checked_round_up value alignment =
     (if alignment = 0 then None
      else
        let remainder = value mod alignment in
        if remainder = 0 then Some value else budget_checked_add value (alignment - remainder))"

definition budget_fail :: "string \<Rightarrow> string \<Rightarrow> string \<Rightarrow> 'a Result" where
  "budget_fail path rule message = Inl [ValidationError out_of_range path rule message]"

fun sum_checked :: "u64 \<Rightarrow> u64 list \<Rightarrow> u64 option" where
  "sum_checked acc [] = Some acc"
| "sum_checked acc (value # rest) =
     (case budget_checked_add acc value of None \<Rightarrow> None | Some acc' \<Rightarrow> sum_checked acc' rest)"

definition auxiliary_values :: "AuxiliaryStorageBytes \<Rightarrow> u64 list" where
  "auxiliary_values auxiliary =
     [ax_envelopes auxiliary, ax_integrity_records auxiliary, ax_copy_ledgers auxiliary,
      ax_schedules auxiliary, ax_manifests auxiliary, ax_filesystem_overhead auxiliary,
      ax_operator_reserve auxiliary]"

definition sum_auxiliary :: "AuxiliaryStorageBytes \<Rightarrow> u64 option" where
  "sum_auxiliary auxiliary = sum_checked 0 (auxiliary_values auxiliary)"

definition run_budget_arithmetic ::
  "RunStorageInput \<Rightarrow> RowLayout \<Rightarrow> u64 \<Rightarrow> RunStorageBudget option" where
  "run_budget_arithmetic input layout base_page_bytes =
     do {
       producer \<leftarrow> budget_checked_multiply (ri_scheduled_rows input) (rl_producer_row_bytes layout);
       consumer \<leftarrow> budget_checked_multiply (ri_accepted_rows input) (rl_consumer_row_bytes layout);
       joined \<leftarrow> budget_checked_multiply (ri_accepted_rows input) (rl_joined_row_bytes layout);
       actual_hot \<leftarrow> budget_checked_add producer consumer;
       conservative_row_pair \<leftarrow> budget_checked_add (rl_producer_row_bytes layout) (rl_consumer_row_bytes layout);
       conservative_hot \<leftarrow> budget_checked_multiply (ri_scheduled_rows input) conservative_row_pair;
       producer_mapped \<leftarrow> budget_checked_round_up producer base_page_bytes;
       consumer_conservative \<leftarrow> budget_checked_multiply (ri_scheduled_rows input) (rl_consumer_row_bytes layout);
       consumer_mapped \<leftarrow> budget_checked_round_up consumer_conservative base_page_bytes;
       mapped_hot \<leftarrow> budget_checked_add producer_mapped consumer_mapped;
       raw_pair \<leftarrow> budget_checked_add producer consumer;
       raw_three \<leftarrow> budget_checked_multiply (kTemporaryRawCopies + kDurableRawCopies) raw_pair;
       joined_two \<leftarrow> budget_checked_multiply kDurableRawCopies joined;
       raw_total \<leftarrow> budget_checked_add raw_three joined_two;
       Some
         \<lparr>rb_run_id = ri_run_id input, rb_producer_row_bytes = rl_producer_row_bytes layout,
          rb_consumer_row_bytes = rl_consumer_row_bytes layout,
          rb_joined_row_bytes = rl_joined_row_bytes layout, rb_producer_payload_bytes = producer,
          rb_consumer_payload_bytes = consumer, rb_joined_payload_bytes = joined,
          rb_actual_hot_payload_bytes = actual_hot,
          rb_conservative_hot_payload_bytes = conservative_hot,
          rb_producer_mapped_bytes = producer_mapped, rb_consumer_mapped_bytes = consumer_mapped,
          rb_conservative_mapped_hot_bytes = mapped_hot, rb_raw_storage_bytes = raw_total,
          rb_primary_tail_count_possible =
            (case ri_effective_rows input of None \<Rightarrow> False | Some effective \<Rightarrow> effective \<ge> 200000),
          rb_secondary_tail_count_possible =
            (case ri_effective_rows input of None \<Rightarrow> False | Some effective \<Rightarrow> effective \<ge> 2000000)\<rparr>
     }"

definition checked_run_storage_budget :: "RunStorageInput \<Rightarrow> u64 \<Rightarrow> RunStorageBudget Result" where
  "checked_run_storage_budget input base_page_bytes =
     (if base_page_bytes = 0
      then budget_fail ''$input/verified_base_page_bytes'' ''STO-PAGE-NONZERO''
        ''verified base-page bytes must be explicit and nonzero''
      else if ri_accepted_rows input > ri_scheduled_rows input
      then budget_fail ''$input/accepted_rows'' ''STO-ACCEPTED-BOUND''
        ''accepted rows cannot exceed scheduled rows''
      else if (case ri_effective_rows input of None \<Rightarrow> False
               | Some effective \<Rightarrow> effective > ri_accepted_rows input)
      then budget_fail ''$input/effective_rows'' ''STO-NEFF-BOUND''
        ''effective rows cannot exceed accepted rows''
      else
        (case make_row_layout (ri_run_id input) of
           Inl (StorageSetupError what) \<Rightarrow> budget_fail ''$input/run_id'' ''STO-RUN-ID'' what
         | Inl Storage_bad_alloc \<Rightarrow> budget_fail ''$input/run_id'' ''STO-RUN-ID'' []
         | Inr layout \<Rightarrow>
             (case run_budget_arithmetic input layout base_page_bytes of
                None \<Rightarrow> budget_fail ''$input'' ''STO-RUN-BUDGET-OVERFLOW''
                  ''run storage budget arithmetic overflows uint64''
              | Some budget \<Rightarrow> Inr budget)))"

definition relocate_error :: "nat \<Rightarrow> ValidationError \<Rightarrow> ValidationError" where
  "relocate_error index e =
     (case e of ValidationError category path rule message \<Rightarrow>
        ValidationError category (''$input/runs/'' @ std_to_string index @ drop 6 path) rule message)"

fun stage_a_runs ::
  "u64 \<Rightarrow> nat \<Rightarrow> RunStorageInput list \<Rightarrow> u64 \<Rightarrow> RunStorageBudget list \<Rightarrow> (u64 \<times> RunStorageBudget list) Result" where
  "stage_a_runs base_page_bytes index [] raw_total run_budgets = Inr (raw_total, run_budgets)"
| "stage_a_runs base_page_bytes index (input # rest) raw_total run_budgets =
     (case checked_run_storage_budget input base_page_bytes of
        Inl errors \<Rightarrow> Inl (map (relocate_error index) errors)
      | Inr run \<Rightarrow>
          (case budget_checked_add raw_total (rb_raw_storage_bytes run) of
             None \<Rightarrow> budget_fail ''$input/runs'' ''STO-PLAN-RAW-OVERFLOW''
               ''aggregate raw-storage bytes overflow uint64''
           | Some raw_total' \<Rightarrow>
               stage_a_runs base_page_bytes (Suc index) rest raw_total' (run_budgets @ [run])))"

definition checked_stage_a_storage_budget ::
  "StageAStorageBudgetRequest \<Rightarrow> StageAStorageBudget Result" where
  "checked_stage_a_storage_budget request =
     (if sa_r_total request = 0 \<or> sa_block_count request = 0
      then budget_fail ''$input/r_total'' ''STO-RUN-PLAN-NONZERO''
        ''Rtotal and block count must be explicit and nonzero''
      else if sa_r_total request \<noteq> sa_block_count request
      then budget_fail ''$input/block_count'' ''STO-BLOCK-RUN-PLAN''
        ''the Stage A plan must explicitly bind one 180-cell block per Rtotal unit''
      else if budget_checked_multiply kStageACellsPerBlock (sa_r_total request) \<noteq>
        Some (of_nat (length (sa_runs request)))
      then budget_fail ''$input/runs'' ''STO-STAGE-A-RUN-COUNT''
        ''Stage A storage proof requires exactly 180*Rtotal concrete run terms''
      else if sa_available_bytes request = 0
      then budget_fail ''$input/available_bytes'' ''STO-AVAILABLE-EXPLICIT''
        ''available storage must be independently observed and explicitly nonzero''
      else
        (case stage_a_runs (sa_verified_base_page_bytes request) 0 (sa_runs request) 0 [] of
           Inl errors \<Rightarrow> Inl errors
         | Inr (raw_total, run_budgets) \<Rightarrow>
             (case do {
                 auxiliary \<leftarrow> sum_auxiliary (sa_auxiliary request);
                 required \<leftarrow> budget_checked_add raw_total auxiliary;
                 Some (auxiliary, required)
               } of
                None \<Rightarrow> budget_fail ''$input/auxiliary'' ''STO-PLAN-AUX-OVERFLOW''
                  ''aggregate auxiliary/reserve bytes overflow uint64''
              | Some (auxiliary, required) \<Rightarrow>
                  Inr \<lparr>sb_run_count = of_nat (length (sa_runs request)),
                       sb_block_count = sa_block_count request, sb_r_total = sa_r_total request,
                       sb_temporary_raw_copies = kTemporaryRawCopies,
                       sb_durable_raw_copies = kDurableRawCopies, sb_raw_storage_bytes = raw_total,
                       sb_auxiliary_and_reserve_bytes = auxiliary, sb_required_bytes = required,
                       sb_available_bytes = sa_available_bytes request,
                       sb_capacity_pass = (sa_available_bytes request \<ge> required),
                       sb_runs = run_budgets\<rparr>)))"

subsection \<open>Checked arithmetic over the natural numbers\<close>

lemma budget_checked_add_Some:
  "budget_checked_add a b = Some c \<longleftrightarrow> unat a + unat b < 2 ^ 64 \<and> c = a + b"
  by (auto simp: budget_checked_add_def overflow_guard)

lemma budget_checked_multiply_Some:
  "budget_checked_multiply a b = Some c \<longleftrightarrow> unat a * unat b < 2 ^ 64 \<and> c = a * b"
  by (auto simp: budget_checked_multiply_def overflow_guard)

lemma budget_checked_round_up_Some:
  assumes "a \<noteq> 0"
  shows "budget_checked_round_up v a = Some r \<longleftrightarrow> round_up_nat (unat v) (unat a) = unat r"
proof -
  have a: "unat a \<noteq> 0" using assms by (simp add: word_eq_unat)
  have m: "unat (v mod a) = unat v mod unat a" by (rule unat_mod_distrib)
  have le: "v mod a \<le> a" using a by (simp add: word_le_nat_alt m)
  have z: "v mod a = 0 \<longleftrightarrow> unat v mod unat a = 0" by (simp add: word_eq_unat m)
  have d: "unat (a - v mod a) = unat a - unat v mod unat a" by (simp add: unat_minus_u64 [OF le] m)
  show ?thesis
  proof (cases "unat v mod unat a = 0")
    case True
    then show ?thesis using assms z
      by (auto simp: budget_checked_round_up_def round_up_nat_def Let_def word_eq_unat)
  next
    case False
    let ?k = "a - v mod a"
    have "budget_checked_round_up v a = Some r \<longleftrightarrow> unat v + unat ?k < 2 ^ 64 \<and> r = v + ?k"
      using False assms z by (simp add: budget_checked_round_up_def Let_def budget_checked_add_Some)
    also have "\<dots> \<longleftrightarrow> unat v + unat ?k = unat r"
      using unat_plus_u64 [of v ?k] unat_u64_lt [of r] by (auto simp: word_eq_unat)
    finally show ?thesis using False by (simp add: round_up_nat_def d)
  qed
qed

lemma sum_checked_Some:
  "sum_checked s xs = Some t \<longleftrightarrow> unat s + sum_list (map unat xs) = unat t"
proof (induction xs arbitrary: s)
  case Nil
  then show ?case by (auto simp: word_eq_unat)
next
  case (Cons x xs)
  show ?case
  proof (cases "unat s + unat x < 2 ^ 64")
    case True
    then have "budget_checked_add s x = Some (s + x)" by (simp add: budget_checked_add_Some)
    then show ?thesis using Cons [of "s + x"] unat_plus_u64 [OF True] by (simp add: add.assoc)
  next
    case False
    then have "budget_checked_add s x = None" by (simp add: budget_checked_add_def overflow_guard)
    then show ?thesis using False unat_u64_lt [of t] by auto
  qed
qed

lemma budget_add_cases:
  "budget_checked_add a b = (if unat a + unat b < 2 ^ 64 then Some (a + b) else None)"
  by (simp add: budget_checked_add_def overflow_guard)

lemma budget_multiply_cases:
  "budget_checked_multiply a b = (if unat a * unat b < 2 ^ 64 then Some (a * b) else None)"
  by (simp add: budget_checked_multiply_def overflow_guard)

lemma budget_round_up_cases:
  assumes "a \<noteq> 0"
  shows "budget_checked_round_up v a =
    (if round_up_nat (unat v) (unat a) < 2 ^ 64
     then Some (of_nat (round_up_nat (unat v) (unat a))) else None)"
proof (cases "budget_checked_round_up v a")
  case None
  have "\<not> round_up_nat (unat v) (unat a) < 2 ^ 64"
  proof
    assume lt: "round_up_nat (unat v) (unat a) < 2 ^ 64"
    from unat_of_nat_u64 [OF this]
    have "budget_checked_round_up v a = Some (of_nat (round_up_nat (unat v) (unat a)))"
      by (simp add: budget_checked_round_up_Some [OF assms])
    then show False using None by simp
  qed
  then show ?thesis using None by simp
next
  case (Some r)
  then have "round_up_nat (unat v) (unat a) = unat r" by (simp add: budget_checked_round_up_Some [OF assms])
  then show ?thesis using Some unat_u64_lt [of r] by simp
qed

text \<open>The bytes of a run, over the natural numbers.\<close>

definition run_raw_bytes :: "RunStorageInput \<Rightarrow> nat" where
  "run_raw_bytes input =
     3 * (unat (ri_scheduled_rows input) * (prefix_size (ri_run_id input) + 120) +
          unat (ri_accepted_rows input) * (prefix_size (ri_run_id input) + 80)) +
     2 * (unat (ri_accepted_rows input) * (prefix_size (ri_run_id input) + 192))"

definition run_mapped_bytes :: "RunStorageInput \<Rightarrow> u64 \<Rightarrow> nat" where
  "run_mapped_bytes input page =
     round_up_nat (unat (ri_scheduled_rows input) * (prefix_size (ri_run_id input) + 120)) (unat page) +
     round_up_nat (unat (ri_scheduled_rows input) * (prefix_size (ri_run_id input) + 80)) (unat page)"

lemma run_budget_arithmetic_exact:
  fixes input page
  defines "P \<equiv> prefix_size (ri_run_id input) + 120" and "C \<equiv> prefix_size (ri_run_id input) + 80"
    and "J \<equiv> prefix_size (ri_run_id input) + 192"
    and "S \<equiv> unat (ri_scheduled_rows input)" and "A \<equiv> unat (ri_accepted_rows input)"
  assumes layout: "unat (rl_producer_row_bytes layout) = P" "unat (rl_consumer_row_bytes layout) = C"
      "unat (rl_joined_row_bytes layout) = J"
    and page: "page \<noteq> 0" and le: "A \<le> S" and id: "length (ri_run_id input) < 2 ^ 32"
  shows "run_raw_bytes input < 2 ^ 64 \<and> run_mapped_bytes input page < 2 ^ 64 \<Longrightarrow>
      \<exists>b. run_budget_arithmetic input layout page = Some b \<and>
        unat (rb_raw_storage_bytes b) = run_raw_bytes input \<and>
        unat (rb_conservative_mapped_hot_bytes b) = run_mapped_bytes input page \<and>
        unat (rb_producer_payload_bytes b) = S * P \<and> unat (rb_consumer_payload_bytes b) = A * C \<and>
        unat (rb_joined_payload_bytes b) = A * J \<and>
        unat (rb_conservative_hot_payload_bytes b) = S * (P + C)"
    and "\<not> (run_raw_bytes input < 2 ^ 64 \<and> run_mapped_bytes input page < 2 ^ 64) \<Longrightarrow>
      run_budget_arithmetic input layout page = None"
proof -
  have page': "0 < unat page" using page by (simp add: word_eq_unat)
  have ac: "A * C \<le> S * C" using le by (rule mult_le_mono1)
  have raw: "run_raw_bytes input = 3 * (S * P + A * C) + 2 * (A * J)"
    and mapped: "run_mapped_bytes input page = round_up_nat (S * P) (unat page) + round_up_nat (S * C) (unat page)"
    by (simp_all add: run_raw_bytes_def run_mapped_bytes_def P_def C_def J_def S_def A_def)
  have up: "S * P \<le> round_up_nat (S * P) (unat page)" "S * C \<le> round_up_nat (S * C) (unat page)"
    using round_up_nat_ge [OF page'] by blast+
  have "prefix_size (ri_run_id input) \<le> length (ri_run_id input) + 11"
    unfolding prefix_size_def by (rule times_div_less_eq_dividend)
  then have pc: "P + C < 2 ^ 64" using id unfolding P_def C_def by simp
  have dist: "S * (P + C) = S * P + S * C" by (simp add: algebra_simps)
  have three: "unat (kTemporaryRawCopies + kDurableRawCopies) = 3" "unat kDurableRawCopies = 2"
    by (simp_all add: kTemporaryRawCopies_def kDurableRawCopies_def)
  note u = unat_plus_u64 unat_times_u64 unat_of_nat_u64
  {
    assume *: "run_raw_bytes input < 2 ^ 64 \<and> run_mapped_bytes input page < 2 ^ 64"
    have b: "S * P < 2 ^ 64" "A * C < 2 ^ 64" "A * J < 2 ^ 64" "S * P + A * C < 2 ^ 64"
      "S * (P + C) < 2 ^ 64" "S * C < 2 ^ 64" "round_up_nat (S * P) (unat page) < 2 ^ 64"
      "round_up_nat (S * C) (unat page) < 2 ^ 64"
      "round_up_nat (S * P) (unat page) + round_up_nat (S * C) (unat page) < 2 ^ 64"
      "3 * (S * P + A * C) < 2 ^ 64" "2 * (A * J) < 2 ^ 64" "3 * (S * P + A * C) + 2 * (A * J) < 2 ^ 64"
      using * up ac dist unfolding raw mapped by linarith+
    show "\<exists>b. run_budget_arithmetic input layout page = Some b \<and>
        unat (rb_raw_storage_bytes b) = run_raw_bytes input \<and>
        unat (rb_conservative_mapped_hot_bytes b) = run_mapped_bytes input page \<and>
        unat (rb_producer_payload_bytes b) = S * P \<and> unat (rb_consumer_payload_bytes b) = A * C \<and>
        unat (rb_joined_payload_bytes b) = A * J \<and>
        unat (rb_conservative_hot_payload_bytes b) = S * (P + C)"
      using b pc unfolding raw mapped run_budget_arithmetic_def
      by (simp add: budget_multiply_cases budget_add_cases budget_round_up_cases [OF page] layout three
          u S_def [symmetric] A_def [symmetric])
  }
  assume *: "\<not> (run_raw_bytes input < 2 ^ 64 \<and> run_mapped_bytes input page < 2 ^ 64)"
  show "run_budget_arithmetic input layout page = None"
    using * unfolding raw mapped run_budget_arithmetic_def
    by (auto simp: budget_multiply_cases budget_add_cases budget_round_up_cases [OF page] layout three
          u S_def [symmetric] A_def [symmetric] split: if_splits)
qed

subsection \<open>Properties\<close>

lemma checked_run_budget_guards:
  assumes "checked_run_storage_budget input page = Inr b"
  obtains layout where "page \<noteq> 0" and "ri_accepted_rows input \<le> ri_scheduled_rows input"
    and "make_row_layout (ri_run_id input) = Inr layout"
    and "run_budget_arithmetic input layout page = Some b"
  using assms
  by (auto simp: checked_run_storage_budget_def budget_fail_def not_less
      split: if_splits sum.splits storage_error.splits option.splits)

lemma checked_run_budget_Inr:
  assumes "checked_run_storage_budget input page = Inr b" and "length (ri_run_id input) < 2 ^ 64"
  shows "unat (rb_raw_storage_bytes b) = run_raw_bytes input"
    and "unat (rb_conservative_mapped_hot_bytes b) = run_mapped_bytes input page"
proof -
  obtain layout where g: "page \<noteq> 0" "ri_accepted_rows input \<le> ri_scheduled_rows input"
    "make_row_layout (ri_run_id input) = Inr layout" "run_budget_arithmetic input layout page = Some b"
    using assms(1) by (rule checked_run_budget_guards)
  note l = layout_facts [OF g(3) assms(2)]
  note e = run_budget_arithmetic_exact [of layout input page, simplified, OF l(4-6) [simplified] g(1)
      g(2) [unfolded word_le_nat_alt] l(1) [simplified]]
  have fits: "run_raw_bytes input < 2 ^ 64 \<and> run_mapped_bytes input page < 2 ^ 64"
    using e(2) g(4) by fastforce
  then show "unat (rb_raw_storage_bytes b) = run_raw_bytes input"
    and "unat (rb_conservative_mapped_hot_bytes b) = run_mapped_bytes input page"
    using e(1) g(4) by auto
qed

text \<open>
  C28. The budget of a run is exact: for a valid run identifier, a nonzero page size and consistent
  row counts, the budget is computed exactly when the bytes of the three raw and two joined
  copies and of the mapped buffers fit in 64 bits, its fields are these sizes, and otherwise the
  overflow error is returned; nothing wraps around.
\<close>

theorem run_budget_exact:
  assumes "page \<noteq> 0" and "ri_accepted_rows input \<le> ri_scheduled_rows input"
    and "case ri_effective_rows input of None \<Rightarrow> True | Some n \<Rightarrow> n \<le> ri_accepted_rows input"
    and "make_row_layout (ri_run_id input) = Inr layout" and "length (ri_run_id input) < 2 ^ 64"
  shows "if run_raw_bytes input < 2 ^ 64 \<and> run_mapped_bytes input page < 2 ^ 64
    then \<exists>b. checked_run_storage_budget input page = Inr b \<and>
      unat (rb_raw_storage_bytes b) = run_raw_bytes input \<and>
      unat (rb_conservative_mapped_hot_bytes b) = run_mapped_bytes input page \<and>
      unat (rb_producer_payload_bytes b) =
        unat (ri_scheduled_rows input) * (prefix_size (ri_run_id input) + 120)
    else checked_run_storage_budget input page =
      budget_fail ''$input'' ''STO-RUN-BUDGET-OVERFLOW'' ''run storage budget arithmetic overflows uint64''"
proof -
  note l = layout_facts [OF assms(4,5)]
  note e = run_budget_arithmetic_exact [of layout input page, simplified, OF l(4-6) [simplified] assms(1)
      assms(2) [unfolded word_le_nat_alt] l(1) [simplified]]
  have c: "checked_run_storage_budget input page =
      (case run_budget_arithmetic input layout page of
         None \<Rightarrow> budget_fail ''$input'' ''STO-RUN-BUDGET-OVERFLOW'' ''run storage budget arithmetic overflows uint64''
       | Some budget \<Rightarrow> Inr budget)"
    using assms by (auto simp: checked_run_storage_budget_def split: option.splits)
  show ?thesis using e unfolding c by auto
qed

theorem run_budget_exact_witness:
  "let input = \<lparr>ri_run_id = ''run-1'', ri_scheduled_rows = 10, ri_accepted_rows = 4,
      ri_effective_rows = None\<rparr>
   in run_raw_bytes input = 6896 \<and>
     (\<exists>b. checked_run_storage_budget input 4096 = Inr b \<and> unat (rb_raw_storage_bytes b) = 6896 \<and>
        unat (rb_conservative_mapped_hot_bytes b) = 8192)"
proof -
  let ?i = "\<lparr>ri_run_id = ''run-1'', ri_scheduled_rows = 10, ri_accepted_rows = 4,
      ri_effective_rows = None\<rparr> :: RunStorageInput"
  have n: "run_raw_bytes ?i = 6896" "run_mapped_bytes ?i 4096 = 8192"
    by (simp_all add: run_raw_bytes_def run_mapped_bytes_def prefix_size_def round_up_nat_def)
  obtain layout where "make_row_layout ''run-1'' = Inr layout"
    by (simp add: make_row_layout_cases string_bytes_def utf8_first_def utf8_scalar_def)
  then show ?thesis using run_budget_exact [of 4096 ?i layout] n by auto
qed

lemma stage_a_runs_Inr:
  assumes "stage_a_runs page index inputs acc runs = Inr (acc', runs')"
    and "list_all (\<lambda>input. length (ri_run_id input) < 2 ^ 64) inputs"
  shows "unat acc' = unat acc + sum_list (map run_raw_bytes inputs)"
    and "length runs' = length runs + length inputs"
  using assms
proof (induction inputs arbitrary: index acc runs)
  case Nil
  {
    case 1
    then show ?case by simp
  next
    case 2
    then show ?case by simp
  }
next
  case (Cons input inputs)
  {
    case 1
    then obtain run t where r: "checked_run_storage_budget input page = Inr run"
      "budget_checked_add acc (rb_raw_storage_bytes run) = Some t"
      "stage_a_runs page (Suc index) inputs t (runs @ [run]) = Inr (acc', runs')"
      by (auto simp: budget_fail_def split: sum.splits option.splits)
    have "unat t = unat acc + run_raw_bytes input"
      using r(2) checked_run_budget_Inr(1) [OF r(1)] 1(2)
      by (simp add: budget_checked_add_Some unat_plus_u64)
    then show ?case using Cons.IH(1) [OF r(3)] 1(2) by simp
  next
    case 2
    then obtain run t where r: "stage_a_runs page (Suc index) inputs t (runs @ [run]) = Inr (acc', runs')"
      by (auto simp: budget_fail_def split: sum.splits option.splits)
    then show ?case using Cons.IH(2) [OF r] 2(2) by simp
  }
qed

text \<open>
  A Stage A plan that passes has the storage it needs: when a budget is returned there is one
  run term for each of the 180 cells of every block, the required bytes are exactly the sum of
  the raw bytes of all runs and of the seven auxiliary terms, and the plan passes exactly when
  the available bytes cover them.
\<close>

theorem stage_a_budget_exact:
  assumes "checked_stage_a_storage_budget request = Inr budget"
    and "list_all (\<lambda>input. length (ri_run_id input) < 2 ^ 64) (sa_runs request)"
    and "length (sa_runs request) < 2 ^ 64"
  shows "length (sa_runs request) = 180 * unat (sa_r_total request) \<and>
    length (sb_runs budget) = length (sa_runs request) \<and>
    unat (sb_required_bytes budget) =
      sum_list (map run_raw_bytes (sa_runs request)) +
      sum_list (map unat (auxiliary_values (sa_auxiliary request))) \<and>
    (sb_capacity_pass budget \<longleftrightarrow>
       sum_list (map run_raw_bytes (sa_runs request)) +
       sum_list (map unat (auxiliary_values (sa_auxiliary request))) \<le> unat (sa_available_bytes request))"
proof -
  obtain raw_total runs aux where
    n: "budget_checked_multiply kStageACellsPerBlock (sa_r_total request) =
        Some (of_nat (length (sa_runs request)))"
    and r: "stage_a_runs (sa_verified_base_page_bytes request) 0 (sa_runs request) 0 [] = Inr (raw_total, runs)"
    and a: "sum_auxiliary (sa_auxiliary request) = Some aux"
    and q: "unat raw_total + unat aux < 2 ^ 64"
    and b: "sb_required_bytes budget = raw_total + aux" "sb_runs budget = runs"
      "sb_capacity_pass budget \<longleftrightarrow> sa_available_bytes request \<ge> raw_total + aux"
    using assms(1)
    by (auto simp: checked_stage_a_storage_budget_def budget_fail_def budget_checked_add_Some
        split: if_splits sum.splits option.splits bind_splits)
  have "180 * unat (sa_r_total request) < 2 ^ 64"
    "of_nat (length (sa_runs request)) = kStageACellsPerBlock * sa_r_total request"
    using n by (simp_all add: budget_checked_multiply_Some kStageACellsPerBlock_def)
  then have "unat (of_nat (length (sa_runs request)) :: u64) = 180 * unat (sa_r_total request)"
    by (simp add: unat_times_u64 kStageACellsPerBlock_def)
  then have len: "length (sa_runs request) = 180 * unat (sa_r_total request)"
    using assms(3) by (simp add: unat_of_nat_u64)
  have aux: "unat aux = sum_list (map unat (auxiliary_values (sa_auxiliary request)))"
    using a by (simp add: sum_auxiliary_def sum_checked_Some)
  have raw: "unat raw_total = sum_list (map run_raw_bytes (sa_runs request))" "length runs = length (sa_runs request)"
    using stage_a_runs_Inr [OF r assms(2)] by simp_all
  show ?thesis using len raw aux q b by (simp add: unat_plus_u64 word_le_nat_alt)
qed

text \<open>A plan of one block whose runs all have the same shape succeeds when its bytes fit.\<close>

lemma stage_a_runs_ok:
  assumes "list_all (\<lambda>input. \<exists>b. checked_run_storage_budget input page = Inr b) inputs"
    and "list_all (\<lambda>input. length (ri_run_id input) < 2 ^ 64) inputs"
    and "unat acc + sum_list (map run_raw_bytes inputs) < 2 ^ 64"
  shows "\<exists>r. stage_a_runs page index inputs acc runs = Inr r"
  using assms
proof (induction inputs arbitrary: index acc runs)
  case (Cons input inputs)
  then obtain b where b: "checked_run_storage_budget input page = Inr b" by auto
  note raw = checked_run_budget_Inr(1) [OF b]
  have fits: "unat acc + unat (rb_raw_storage_bytes b) < 2 ^ 64" using Cons.prems raw by simp
  then have "budget_checked_add acc (rb_raw_storage_bytes b) = Some (acc + rb_raw_storage_bytes b)"
    by (simp add: budget_checked_add_Some)
  then show ?case
    using b Cons.IH [of "acc + rb_raw_storage_bytes b"] Cons.prems raw unat_plus_u64 [OF fits] by simp
qed simp

definition example_run_input :: RunStorageInput where
  "example_run_input = \<lparr>ri_run_id = ''run-1'', ri_scheduled_rows = 10, ri_accepted_rows = 4,
     ri_effective_rows = None\<rparr>"

definition example_stage_a :: StageAStorageBudgetRequest where
  "example_stage_a =
     \<lparr>sa_runs = replicate 180 example_run_input, sa_r_total = 1, sa_block_count = 1,
      sa_verified_base_page_bytes = 4096,
      sa_auxiliary = \<lparr>ax_envelopes = 1, ax_integrity_records = 2, ax_copy_ledgers = 3,
        ax_schedules = 4, ax_manifests = 5, ax_filesystem_overhead = 6, ax_operator_reserve = 7\<rparr>,
      sa_available_bytes = 2000000\<rparr>"

lemma example_run_ok:
  "\<exists>b. checked_run_storage_budget example_run_input 4096 = Inr b" "run_raw_bytes example_run_input = 6896"
proof -
  let ?l = "\<lparr>rl_run_id_bytes = 5, rl_prefix_bytes = 16, rl_producer_row_bytes = 136,
       rl_consumer_row_bytes = 96, rl_joined_row_bytes = 208\<rparr> :: RowLayout"
  have l: "make_row_layout (ri_run_id example_run_input) = Inr ?l"
    by (simp add: example_run_input_def make_row_layout_cases string_bytes_def utf8_first_def
        utf8_scalar_def prefix_size_def)
  have n: "prefix_size (ri_run_id example_run_input) = 16" "unat (ri_scheduled_rows example_run_input) = 10"
    "unat (ri_accepted_rows example_run_input) = 4" "ri_effective_rows example_run_input = None"
    "length (ri_run_id example_run_input) < 2 ^ 32"
    by (simp_all add: example_run_input_def prefix_size_def)
  have "\<exists>b. run_budget_arithmetic example_run_input ?l 4096 = Some b"
    using run_budget_arithmetic_exact(1) [of ?l example_run_input 4096] n
    by (simp add: run_raw_bytes_def run_mapped_bytes_def round_up_nat_def)
      blast
  then show "\<exists>b. checked_run_storage_budget example_run_input 4096 = Inr b"
    using l n by (auto simp: checked_run_storage_budget_def word_less_nat_alt)
  show "run_raw_bytes example_run_input = 6896"
    by (simp add: run_raw_bytes_def example_run_input_def prefix_size_def)
qed

lemma sum_same: "sum_list (map f (replicate n x)) = n * (f x :: nat)"
  by (induction n) simp_all

theorem stage_a_budget_exact_witness:
  "\<exists>b. checked_stage_a_storage_budget example_stage_a = Inr b \<and>
     unat (sb_required_bytes b) = 1241308 \<and> sb_capacity_pass b"
proof -
  let ?runs = "replicate 180 example_run_input"
  have ids: "list_all (\<lambda>input. length (ri_run_id input) < 2 ^ 64) ?runs"
    by (simp only: list_all_iff in_set_replicate) (simp add: example_run_input_def)
  have sum: "sum_list (map run_raw_bytes ?runs) = 1241280"
    unfolding sum_same example_run_ok(2) by simp
  have "\<exists>r. stage_a_runs 4096 0 ?runs 0 [] = Inr r"
  proof (rule stage_a_runs_ok [OF _ ids])
    show "list_all (\<lambda>input. \<exists>b. checked_run_storage_budget input 4096 = Inr b) ?runs"
      using example_run_ok(1) by (simp only: list_all_iff in_set_replicate) simp
    show "unat (0 :: u64) + sum_list (map run_raw_bytes ?runs) < 2 ^ 64" unfolding sum by simp
  qed
  then obtain raw_total runs where r: "stage_a_runs 4096 0 ?runs 0 [] = Inr (raw_total, runs)" by auto
  have raw: "unat raw_total = 1241280" using stage_a_runs_Inr(1) [OF r ids] sum by simp
  have fields: "sa_runs example_stage_a = ?runs" "sa_r_total example_stage_a = 1"
    "sa_block_count example_stage_a = 1" "sa_available_bytes example_stage_a = 2000000"
    "sa_verified_base_page_bytes example_stage_a = 4096"
    "auxiliary_values (sa_auxiliary example_stage_a) = [1, 2, 3, 4, 5, 6, 7]"
    by (simp_all add: example_stage_a_def auxiliary_values_def)
  have "\<exists>b. checked_stage_a_storage_budget example_stage_a = Inr b"
    by (simp add: checked_stage_a_storage_budget_def fields r kStageACellsPerBlock_def
        budget_multiply_cases sum_auxiliary_def budget_add_cases raw)
  then obtain b where b: "checked_stage_a_storage_budget example_stage_a = Inr b" by blast
  from stage_a_budget_exact [OF b] ids sum b show ?thesis by (auto simp: fields)
qed

end
