(* ===== verification/Json.thy ===== *)
theory Json
  imports Validation
begin

text \<open>
  The JSON reader and the JCS canonicaliser, \<^verbatim>\<open>protocol/json.hpp\<close> and \<^verbatim>\<open>protocol/json.cpp\<close>. A
  \<^verbatim>\<open>std::string\<close> is the list of its bytes; the parser's position is the rest of its input. An object
  (\<^verbatim>\<open>std::map\<close>) is the list of its members in key order. Binary64 numbers are values of a type
  parameter: what the C++ library does with them (\<^verbatim>\<open>from_chars\<close>, \<^verbatim>\<open>to_chars\<close>, \<^verbatim>\<open>isfinite\<close>, comparisons)
  is the argument \<open>binary64_ops\<close>; integers are exact.
\<close>

subsection \<open>Values\<close>

record 'd binary64_ops =
  fp_from_chars :: "string \<Rightarrow> 'd option"
  fp_isfinite :: "'d \<Rightarrow> bool"
  fp_is_zero :: "'d \<Rightarrow> bool"
  fp_to_chars :: "'d \<Rightarrow> string option"
  fp_positional :: "'d \<Rightarrow> bool"

text \<open>The value held by a \<^verbatim>\<open>Number\<close>; its constructor is the member \<^verbatim>\<open>kind\<close>.\<close>

datatype 'd Number_value = Signed_integer int | Unsigned_integer u64 | Binary64 'd

datatype 'd Number = Number (lexical: string) (number_value: "'d Number_value")

datatype 'd Value =
    JNull
  | JBool bool
  | JNumber "'d Number"
  | JString string
  | JArray "'d Value list"
  | JObject "(string \<times> 'd Value) list"

fun is_null :: "'d Value \<Rightarrow> bool" where
  "is_null JNull = True"
| "is_null _ = False"

fun as_bool :: "'d Value \<Rightarrow> bool option" where
  "as_bool (JBool b) = Some b"
| "as_bool _ = None"

fun as_number :: "'d Value \<Rightarrow> 'd Number option" where
  "as_number (JNumber n) = Some n"
| "as_number _ = None"

fun as_string :: "'d Value \<Rightarrow> string option" where
  "as_string (JString s) = Some s"
| "as_string _ = None"

fun as_array :: "'d Value \<Rightarrow> 'd Value list option" where
  "as_array (JArray xs) = Some xs"
| "as_array _ = None"

fun as_object :: "'d Value \<Rightarrow> (string \<times> 'd Value) list option" where
  "as_object (JObject ms) = Some ms"
| "as_object _ = None"

subsection \<open>Characters and UTF-8\<close>

definition byte :: "char \<Rightarrow> u32" where
  "byte c = of_char c"

definition to_char :: "u32 \<Rightarrow> char" where
  "to_char w = char_of (unat w)"

definition is_digit :: "char \<Rightarrow> bool" where
  "is_digit c \<longleftrightarrow> 48 \<le> byte c \<and> byte c \<le> 57"

text \<open>The bytes \<^verbatim>\<open>append_utf8\<close> appends, \<open>None\<close> when it returns \<^verbatim>\<open>false\<close>.\<close>

definition append_utf8 :: "u32 \<Rightarrow> string option" where
  "append_utf8 code_point =
     (if code_point \<le> 0x7f then Some [to_char code_point]
      else if code_point \<le> 0x7ff
      then Some [to_char (0xc0 OR drop_bit 6 code_point), to_char (0x80 OR (code_point AND 0x3f))]
      else if code_point \<le> 0xffff
      then (if code_point \<ge> 0xd800 \<and> code_point \<le> 0xdfff then None
            else Some [to_char (0xe0 OR drop_bit 12 code_point),
              to_char (0x80 OR (drop_bit 6 code_point AND 0x3f)),
              to_char (0x80 OR (code_point AND 0x3f))])
      else if code_point \<le> 0x10ffff
      then Some [to_char (0xf0 OR drop_bit 18 code_point),
             to_char (0x80 OR (drop_bit 12 code_point AND 0x3f)),
             to_char (0x80 OR (drop_bit 6 code_point AND 0x3f)),
             to_char (0x80 OR (code_point AND 0x3f))]
      else None)"

definition utf8_error :: "string \<Rightarrow> ValidationError list" where
  "utf8_error message = [ValidationError parse_error ''$'' ''JCS-UTF8'' message]"

definition utf8_lead :: "u32 \<Rightarrow> (u32 \<times> nat) option" where
  "utf8_lead first =
     (if first \<le> 0x7f then Some (first, 1)
      else if first AND 0xe0 = 0xc0 then Some (first AND 0x1f, 2)
      else if first AND 0xf0 = 0xe0 then Some (first AND 0x0f, 3)
      else if first AND 0xf8 = 0xf0 then Some (first AND 0x07, 4)
      else None)"

fun utf8_tail :: "u32 \<Rightarrow> string \<Rightarrow> u32 option" where
  "utf8_tail code_point [] = Some code_point"
| "utf8_tail code_point (c # rest) =
     (if byte c AND 0xc0 \<noteq> 0x80 then None
      else utf8_tail (push_bit 6 code_point OR (byte c AND 0x3f)) rest)"

definition utf8_accept :: "nat \<Rightarrow> u32 \<Rightarrow> bool" where
  "utf8_accept len code_point \<longleftrightarrow>
     \<not> ((len = 2 \<and> code_point < 0x80) \<or> (len = 3 \<and> code_point < 0x800) \<or>
        (len = 4 \<and> code_point < 0x10000)) \<and>
     code_point \<le> 0x10ffff \<and> \<not> (code_point \<ge> 0xd800 \<and> code_point \<le> 0xdfff)"

function decode_utf8 :: "string \<Rightarrow> u32 list Result" where
  "decode_utf8 [] = Inr []"
| "decode_utf8 (c # rest) =
     (case utf8_lead (byte c) of
        None \<Rightarrow> Inl (utf8_error ''invalid UTF-8 lead byte'')
      | Some (code_point, len) \<Rightarrow>
          if len > Suc (length rest) then Inl (utf8_error ''truncated UTF-8 sequence'')
          else (case utf8_tail code_point (take (len - 1) rest) of
              None \<Rightarrow> Inl (utf8_error ''invalid UTF-8 continuation byte'')
            | Some scalar \<Rightarrow>
                if \<not> utf8_accept len scalar then Inl (utf8_error ''invalid UTF-8 scalar value'')
                else (case decode_utf8 (drop (len - 1) rest) of
                    Inl errors \<Rightarrow> Inl errors
                  | Inr code_points \<Rightarrow> Inr (scalar # code_points))))"
  by pat_completeness auto
termination by (relation "measure length") auto

subsection \<open>Parsing strings\<close>

definition json_error :: "string \<Rightarrow> string \<Rightarrow> string \<Rightarrow> ValidationError list" where
  "json_error path rule message = [ValidationError parse_error path rule message]"

definition json_fail :: "string \<Rightarrow> string \<Rightarrow> ValidationError list" where
  "json_fail path message = json_error path ''JSON-PARSE'' message"

definition is_space :: "char \<Rightarrow> bool" where
  "is_space c \<longleftrightarrow> c = CHR 0x20 \<or> c = CHR 0x09 \<or> c = CHR 0x0A \<or> c = CHR 0x0D"

definition skip_space :: "string \<Rightarrow> string" where
  "skip_space rest = dropWhile is_space rest"

definition hex_digit :: "char \<Rightarrow> u32 option" where
  "hex_digit c =
     (if 48 \<le> byte c \<and> byte c \<le> 57 then Some (byte c - 48)
      else if 97 \<le> byte c \<and> byte c \<le> 102 then Some (10 + (byte c - 97))
      else if 65 \<le> byte c \<and> byte c \<le> 70 then Some (10 + (byte c - 65))
      else None)"

fun hex_digits_value :: "u32 \<Rightarrow> string \<Rightarrow> u32 option" where
  "hex_digits_value value [] = Some value"
| "hex_digits_value value (c # rest) =
     (case hex_digit c of None \<Rightarrow> None
      | Some digit \<Rightarrow> hex_digits_value (push_bit 4 value OR digit) rest)"

text \<open>On success the position has moved four bytes.\<close>

definition parse_hex4 :: "string \<Rightarrow> string \<Rightarrow> u32 Result" where
  "parse_hex4 path rest =
     (if length rest < 4 then Inl (json_error path ''JSON-UNICODE'' ''truncated Unicode escape'')
      else (case hex_digits_value 0 (take 4 rest) of
          None \<Rightarrow> Inl (json_error path ''JSON-UNICODE'' ''non-hexadecimal Unicode escape'')
        | Some value \<Rightarrow> Inr value))"

definition simple_escape :: "char \<Rightarrow> char option" where
  "simple_escape c =
     (if c = CHR 0x22 \<or> c = CHR 0x5C \<or> c = CHR ''/'' then Some c
      else if c = CHR ''b'' then Some (CHR 0x08)
      else if c = CHR ''f'' then Some (CHR 0x0C)
      else if c = CHR ''n'' then Some (CHR 0x0A)
      else if c = CHR ''r'' then Some (CHR 0x0D)
      else if c = CHR ''t'' then Some (CHR 0x09)
      else None)"

text \<open>
  A \<open>\u\<close> escape, from the byte behind the \<^verbatim>\<open>u\<close>: the code point and the number of bytes read.
\<close>

definition unicode_escape :: "string \<Rightarrow> string \<Rightarrow> (u32 \<times> nat) Result" where
  "unicode_escape path rest =
     (case parse_hex4 path rest of
        Inl errors \<Rightarrow> Inl errors
      | Inr code_point \<Rightarrow>
          if code_point \<ge> 0xd800 \<and> code_point \<le> 0xdbff
          then
            (let rest2 = drop 4 rest in
             if take 2 rest2 \<noteq> [CHR 0x5C, CHR ''u'']
             then Inl (json_error path ''JSON-UNICODE''
               ''high surrogate is not followed by a low surrogate'')
             else (case parse_hex4 path (drop 2 rest2) of
                 Inl errors \<Rightarrow> Inl errors
               | Inr second \<Rightarrow>
                   if second < 0xdc00 \<or> second > 0xdfff
                   then Inl (json_error path ''JSON-UNICODE'' ''invalid low surrogate'')
                   else Inr (0x10000 + push_bit 10 (code_point - 0xd800) + (second - 0xdc00), 10)))
          else if code_point \<ge> 0xdc00 \<and> code_point \<le> 0xdfff
          then Inl (json_error path ''JSON-UNICODE'' ''unpaired low surrogate'')
          else Inr (code_point, 4))"

definition relocate_first :: "string \<Rightarrow> ValidationError list \<Rightarrow> ValidationError list" where
  "relocate_first path errors =
     (case errors of [] \<Rightarrow> []
      | ValidationError category _ rule message # rest \<Rightarrow> ValidationError category path rule message # rest)"

text \<open>The loop of \<^verbatim>\<open>parse_string\<close>, behind the opening quote.\<close>

function parse_string_loop :: "string \<Rightarrow> string \<Rightarrow> string \<Rightarrow> (string \<times> string) Result" where
  "parse_string_loop path out [] = Inl (json_error path ''JSON-STRING'' ''unterminated string'')"
| "parse_string_loop path out (c # rest) =
     (if c = CHR 0x22
      then (case decode_utf8 out of
          Inl errors \<Rightarrow> Inl (relocate_first path errors)
        | Inr _ \<Rightarrow> Inr (out, rest))
      else if byte c < 0x20
      then Inl (json_error path ''JSON-STRING'' ''unescaped control byte in string'')
      else if c \<noteq> CHR 0x5C then parse_string_loop path (out @ [c]) rest
      else (case rest of
          [] \<Rightarrow> Inl (json_error path ''JSON-STRING'' ''truncated string escape'')
        | escaped # rest1 \<Rightarrow>
            (case simple_escape escaped of
               Some d \<Rightarrow> parse_string_loop path (out @ [d]) rest1
             | None \<Rightarrow>
                 if escaped \<noteq> CHR ''u''
                 then Inl (json_error path ''JSON-STRING'' ''unknown string escape'')
                 else (case unicode_escape path rest1 of
                     Inl errors \<Rightarrow> Inl errors
                   | Inr (code_point, used) \<Rightarrow>
                       (case append_utf8 code_point of
                          None \<Rightarrow> Inl (json_error path ''JSON-UNICODE'' ''invalid Unicode scalar value'')
                        | Some bytes \<Rightarrow> parse_string_loop path (out @ bytes) (drop used rest1))))))"
  by pat_completeness auto
termination by (relation "measure (\<lambda>(path, out, rest). length rest)") auto

definition parse_string :: "string \<Rightarrow> string \<Rightarrow> (string \<times> string) Result" where
  "parse_string path rest = parse_string_loop path [] (tl rest)"

subsection \<open>Parsing numbers\<close>

definition digits_value :: "string \<Rightarrow> nat" where
  "digits_value ds = foldl (\<lambda>v c. 10 * v + unat (byte c - 48)) 0 ds"

text \<open>\<^verbatim>\<open>std::from_chars\<close> for \<^verbatim>\<open>uint64_t\<close> and \<^verbatim>\<open>int64_t\<close> on a text that is all digits, with a sign in front.\<close>

definition from_chars_u64 :: "string \<Rightarrow> u64 option" where
  "from_chars_u64 ds = (if digits_value ds < 2 ^ 64 then Some (of_nat (digits_value ds)) else None)"

definition from_chars_i64 :: "string \<Rightarrow> int option" where
  "from_chars_i64 ds = (if digits_value ds \<le> 2 ^ 63 then Some (- int (digits_value ds)) else None)"

text \<open>The three parts of a number's text; each returns what it read and the rest.\<close>

definition scan_integer :: "string \<Rightarrow> string \<Rightarrow> (string \<times> string) Result" where
  "scan_integer path rest =
     (case rest of
        [] \<Rightarrow> Inl (json_fail path ''invalid number integer part'')
      | c # rest1 \<Rightarrow>
          if c = CHR ''0''
          then (if rest1 \<noteq> [] \<and> is_digit (hd rest1) then Inl (json_fail path ''leading zero in number'')
                else Inr ([c], rest1))
          else if is_digit c then Inr (takeWhile is_digit rest, dropWhile is_digit rest)
          else Inl (json_fail path ''invalid number integer part''))"

definition scan_fraction :: "string \<Rightarrow> string \<Rightarrow> (string \<times> string) Result" where
  "scan_fraction path rest =
     (case rest of
        c # rest1 \<Rightarrow>
          if c = CHR ''.''
          then (if rest1 = [] \<or> \<not> is_digit (hd rest1)
                then Inl (json_fail path ''fraction requires at least one digit'')
                else Inr (c # takeWhile is_digit rest1, dropWhile is_digit rest1))
          else Inr ([], rest)
      | [] \<Rightarrow> Inr ([], rest))"

definition scan_exponent :: "string \<Rightarrow> string \<Rightarrow> (string \<times> string) Result" where
  "scan_exponent path rest =
     (case rest of
        c # rest1 \<Rightarrow>
          if c = CHR ''e'' \<or> c = CHR ''E''
          then
            (let sign = takeWhile (\<lambda>d. d = CHR ''+'' \<or> d = CHR ''-'') (take 1 rest1);
                 rest2 = drop (length sign) rest1
             in if rest2 = [] \<or> \<not> is_digit (hd rest2)
                then Inl (json_fail path ''exponent requires at least one digit'')
                else Inr (c # sign @ takeWhile is_digit rest2, dropWhile is_digit rest2))
          else Inr ([], rest)
      | [] \<Rightarrow> Inr ([], rest))"

definition make_number ::
  "'d binary64_ops \<Rightarrow> string \<Rightarrow> bool \<Rightarrow> bool \<Rightarrow> string \<Rightarrow> 'd Value Result" where
  "make_number ops path negative binary64 text =
     (if binary64
      then (case fp_from_chars ops text of
          Some value \<Rightarrow>
            if fp_isfinite ops value then Inr (JNumber (Number text (Binary64 value)))
            else Inl [ValidationError out_of_range path ''JSON-NUMBER-RANGE''
              ''number is outside finite binary64 range'']
        | None \<Rightarrow> Inl [ValidationError out_of_range path ''JSON-NUMBER-RANGE''
            ''number is outside finite binary64 range''])
      else if negative
      then (case from_chars_i64 (tl text) of
          Some value \<Rightarrow> Inr (JNumber (Number text (Signed_integer value)))
        | None \<Rightarrow> Inl [ValidationError out_of_range path ''JCS-I64-RANGE''
            ''negative integer is outside signed 64-bit range''])
      else (case from_chars_u64 text of
          Some value \<Rightarrow> Inr (JNumber (Number text (Unsigned_integer value)))
        | None \<Rightarrow> Inl [ValidationError out_of_range path ''JCS-I64-RANGE''
            ''nonnegative integer is outside unsigned 64-bit range'']))"

definition parse_number ::
  "'d binary64_ops \<Rightarrow> string \<Rightarrow> string \<Rightarrow> ('d Value \<times> string) Result" where
  "parse_number ops path rest =
     (let negative = (rest \<noteq> [] \<and> hd rest = CHR ''-'');
          sign = (if negative then [CHR ''-''] else []);
          rest1 = (if negative then tl rest else rest)
      in if negative \<and> rest1 = [] then Inl (json_fail path ''truncated number'')
         else
           (case scan_integer path rest1 of Inl errors \<Rightarrow> Inl errors | Inr (integer, rest2) \<Rightarrow>
           (case scan_fraction path rest2 of Inl errors \<Rightarrow> Inl errors | Inr (fraction, rest3) \<Rightarrow>
           (case scan_exponent path rest3 of Inl errors \<Rightarrow> Inl errors | Inr (exponent, rest4) \<Rightarrow>
           (case make_number ops path negative (fraction \<noteq> [] \<or> exponent \<noteq> [])
                   (sign @ integer @ fraction @ exponent) of
              Inl errors \<Rightarrow> Inl errors
            | Inr value \<Rightarrow> Inr (value, rest4))))))"

subsection \<open>Parsing values\<close>

definition parse_literal ::
  "string \<Rightarrow> 'd Value \<Rightarrow> string \<Rightarrow> string \<Rightarrow> ('d Value \<times> string) Result" where
  "parse_literal literal value path rest =
     (if take (length literal) rest \<noteq> literal then Inl (json_fail path ''invalid JSON literal'')
      else Inr (value, drop (length literal) rest))"

text \<open>\<^verbatim>\<open>std::string\<close> compares bytes as unsigned numbers, and \<^verbatim>\<open>std::map::emplace\<close> keeps the key order.\<close>

fun string_less :: "string \<Rightarrow> string \<Rightarrow> bool" where
  "string_less _ [] = False"
| "string_less [] (_ # _) = True"
| "string_less (c # s) (d # t) = (byte c < byte d \<or> (c = d \<and> string_less s t))"

fun map_emplace :: "string \<Rightarrow> 'v \<Rightarrow> (string \<times> 'v) list \<Rightarrow> (string \<times> 'v) list option" where
  "map_emplace key value [] = Some [(key, value)]"
| "map_emplace key value ((k, v) # rest) =
     (if key = k then None
      else if string_less key k then Some ((key, value) # (k, v) # rest)
      else (case map_emplace key value rest of None \<Rightarrow> None | Some rest' \<Rightarrow> Some ((k, v) # rest')))"

text \<open>
  The recursive descent. The loops of \<^verbatim>\<open>parse_array\<close> and \<^verbatim>\<open>parse_object\<close> take the parser of their
  elements; \<open>n\<close> bounds the depth of the calls and the turns of the loops. A parse that exhausts it
  returns the empty list of errors, which no other path does, and \<^verbatim>\<open>parse_document\<close> starts with a
  bound that is never exhausted.
\<close>

primrec parse_elements ::
  "nat \<Rightarrow> (string \<Rightarrow> string \<Rightarrow> ('d Value \<times> string) Result) \<Rightarrow> string \<Rightarrow> nat \<Rightarrow> 'd Value list \<Rightarrow> string \<Rightarrow>
     ('d Value \<times> string) Result" where
  "parse_elements 0 element path index values rest = Inl []"
| "parse_elements (Suc n) element path index values rest =
     (case element (path @ ''/'' @ std_to_string index) rest of
        Inl errors \<Rightarrow> Inl errors
      | Inr (value, rest1) \<Rightarrow>
          (case skip_space rest1 of
             [] \<Rightarrow> Inl (json_fail path ''unterminated array'')
           | c # rest2 \<Rightarrow>
               if c = CHR '']'' then Inr (JArray (values @ [value]), rest2)
               else if c \<noteq> CHR '','' then Inl (json_fail path ''expected comma in array'')
               else parse_elements n element path (Suc index) (values @ [value]) (skip_space rest2)))"

definition parse_array ::
  "nat \<Rightarrow> (string \<Rightarrow> string \<Rightarrow> ('d Value \<times> string) Result) \<Rightarrow> string \<Rightarrow> string \<Rightarrow> ('d Value \<times> string) Result" where
  "parse_array n element path rest =
     (let rest1 = skip_space (tl rest) in
      if rest1 \<noteq> [] \<and> hd rest1 = CHR '']'' then Inr (JArray [], tl rest1)
      else parse_elements n element path 0 [] rest1)"

text \<open>One member of an object: its key and value, and the rest behind it.\<close>

definition parse_member ::
  "(string \<Rightarrow> string \<Rightarrow> ('d Value \<times> string) Result) \<Rightarrow> string \<Rightarrow> string \<Rightarrow> (string \<times> 'd Value \<times> string) Result" where
  "parse_member element path rest =
     (if rest = [] \<or> hd rest \<noteq> CHR 0x22 then Inl (json_fail path ''object key must be a string'')
      else (case parse_string path rest of
          Inl errors \<Rightarrow> Inl errors
        | Inr (key, rest1) \<Rightarrow>
            (let rest2 = skip_space rest1 in
             if rest2 = [] \<or> hd rest2 \<noteq> CHR '':'' then Inl (json_fail path ''expected colon after object key'')
             else (case element (path @ ''/'' @ key) (skip_space (tl rest2)) of
                 Inl errors \<Rightarrow> Inl errors
               | Inr (value, rest3) \<Rightarrow> Inr (key, value, rest3)))))"

primrec parse_members ::
  "nat \<Rightarrow> (string \<Rightarrow> string \<Rightarrow> ('d Value \<times> string) Result) \<Rightarrow> string \<Rightarrow> (string \<times> 'd Value) list \<Rightarrow> string \<Rightarrow>
     ('d Value \<times> string) Result" where
  "parse_members 0 element path members rest = Inl []"
| "parse_members (Suc n) element path members rest =
     (case parse_member element path rest of
        Inl errors \<Rightarrow> Inl errors
      | Inr (key, value, rest3) \<Rightarrow>
          (case map_emplace key value members of
             None \<Rightarrow> Inl [ValidationError duplicate_value (path @ ''/'' @ key) ''JSON-DUPLICATE-KEY''
               ''duplicate object member'']
           | Some members' \<Rightarrow>
               (case skip_space rest3 of
                  [] \<Rightarrow> Inl (json_fail path ''unterminated object'')
                | c # rest4 \<Rightarrow>
                    if c = CHR ''}'' then Inr (JObject members', rest4)
                    else if c \<noteq> CHR '','' then Inl (json_fail path ''expected comma in object'')
                    else parse_members n element path members' (skip_space rest4))))"

definition parse_object ::
  "nat \<Rightarrow> (string \<Rightarrow> string \<Rightarrow> ('d Value \<times> string) Result) \<Rightarrow> string \<Rightarrow> string \<Rightarrow> ('d Value \<times> string) Result" where
  "parse_object n element path rest =
     (let rest1 = skip_space (tl rest) in
      if rest1 \<noteq> [] \<and> hd rest1 = CHR ''}'' then Inr (JObject [], tl rest1)
      else parse_members n element path [] rest1)"

primrec parse_value :: "nat \<Rightarrow> 'd binary64_ops \<Rightarrow> string \<Rightarrow> string \<Rightarrow> ('d Value \<times> string) Result" where
  "parse_value 0 ops path rest = Inl []"
| "parse_value (Suc n) ops path rest =
     (case rest of
        [] \<Rightarrow> Inl (json_fail path ''expected a JSON value'')
      | c # _ \<Rightarrow>
          if c = CHR ''n'' then parse_literal ''null'' JNull path rest
          else if c = CHR ''t'' then parse_literal ''true'' (JBool True) path rest
          else if c = CHR ''f'' then parse_literal ''false'' (JBool False) path rest
          else if c = CHR 0x22
          then (case parse_string path rest of
              Inl errors \<Rightarrow> Inl errors
            | Inr (text, rest1) \<Rightarrow> Inr (JString text, rest1))
          else if c = CHR ''['' then parse_array n (parse_value n ops) path rest
          else if c = CHR ''{'' then parse_object n (parse_value n ops) path rest
          else if c = CHR ''-'' \<or> is_digit c then parse_number ops path rest
          else Inl (json_fail path ''unexpected byte while parsing JSON value''))"

definition parse_document :: "'d binary64_ops \<Rightarrow> string \<Rightarrow> 'd Value Result" where
  "parse_document ops input =
     (case parse_value (length input + 1) ops ''$'' (skip_space input) of
        Inl errors \<Rightarrow> Inl errors
      | Inr (value, rest) \<Rightarrow>
          if skip_space rest \<noteq> [] then Inl (json_fail ''$'' ''trailing content after the JSON value'')
          else Inr value)"

definition json_parse :: "'d binary64_ops \<Rightarrow> string \<Rightarrow> 'd Value Result" where
  "json_parse ops input = parse_document ops input"

subsection \<open>Canonical text\<close>

text \<open>The UTF-16 code units of one code point.\<close>

definition utf16_units :: "u32 \<Rightarrow> 16 word list" where
  "utf16_units code_point =
     (if code_point \<le> 0xffff then [ucast code_point]
      else
        let c = code_point - 0x10000
        in [ucast (0xd800 + drop_bit 10 c), ucast (0xdc00 + (c AND 0x3ff))])"

definition utf16_key :: "string \<Rightarrow> 16 word list Result" where
  "utf16_key text =
     (case decode_utf8 text of
        Inl errors \<Rightarrow> Inl errors
      | Inr code_points \<Rightarrow> Inr (concat (map utf16_units code_points)))"

definition hex_char :: "u32 \<Rightarrow> char" where
  "hex_char w = ''0123456789abcdef'' ! unat w"

text \<open>The escape of a control byte, a quote or a backslash.\<close>

definition escape_byte :: "char \<Rightarrow> string" where
  "escape_byte c =
     (if c = CHR 0x22 then [CHR 0x5C, CHR 0x22]
      else if c = CHR 0x5C then [CHR 0x5C, CHR 0x5C]
      else if c = CHR 0x08 then [CHR 0x5C, CHR ''b'']
      else if c = CHR 0x09 then [CHR 0x5C, CHR ''t'']
      else if c = CHR 0x0A then [CHR 0x5C, CHR ''n'']
      else if c = CHR 0x0C then [CHR 0x5C, CHR ''f'']
      else if c = CHR 0x0D then [CHR 0x5C, CHR ''r'']
      else [CHR 0x5C, CHR ''u'', CHR ''0'', CHR ''0'', hex_char (drop_bit 4 (byte c) AND 0x0f),
            hex_char (byte c AND 0x0f)])"

function escape_text :: "string \<Rightarrow> string" where
  "escape_text [] = []"
| "escape_text (c # rest) =
     (if byte c \<ge> 0x20 \<and> c \<noteq> CHR 0x22 \<and> c \<noteq> CHR 0x5C
      then
        (if byte c < 0x80 then c # escape_text rest
         else
           let len = (if byte c AND 0xf0 = 0xe0 then 3 else if byte c AND 0xf8 = 0xf0 then 4 else 2)
           in take len (c # rest) @ escape_text (drop (len - 1) rest))
      else escape_byte c @ escape_text rest)"
  by pat_completeness auto
termination by (relation "measure length") auto

definition append_string :: "string \<Rightarrow> string Result" where
  "append_string text =
     (case decode_utf8 text of
        Inl errors \<Rightarrow> Inl errors
      | Inr _ \<Rightarrow> Inr ([CHR 0x22] @ escape_text text @ [CHR 0x22]))"

text \<open>\<^verbatim>\<open>std::from_chars\<close> for \<^verbatim>\<open>int\<close>: it reads a sign and as many digits as follow.\<close>

definition from_chars_int :: "string \<Rightarrow> int option" where
  "from_chars_int text =
     (let negative = (text \<noteq> [] \<and> hd text = CHR ''-'');
          digits = takeWhile is_digit (if negative then tl text else text);
          value = (if negative then - int (digits_value digits) else int (digits_value digits))
      in if digits = [] \<or> value < - (2 ^ 31) \<or> value \<ge> 2 ^ 31 then None else Some value)"

definition binary64_error :: "string \<Rightarrow> string \<Rightarrow> ValidationError list" where
  "binary64_error rule message = [ValidationError unsupported_number ''$'' rule message]"

text \<open>The layout of the shortest digits: the digits, the position of the decimal point, the sign.\<close>

definition binary64_layout :: "bool \<Rightarrow> bool \<Rightarrow> string \<Rightarrow> int \<Rightarrow> string" where
  "binary64_layout positional negative digits decimal_position =
     (let sign = (if negative then ''-'' else [])
      in if positional
         then
           (if decimal_position \<le> 0
            then sign @ ''0.'' @ replicate (nat (- decimal_position)) (CHR ''0'') @ digits
            else if decimal_position \<ge> int (length digits)
            then sign @ digits @ replicate (nat decimal_position - length digits) (CHR ''0'')
            else sign @ take (nat decimal_position) digits @ ''.'' @ drop (nat decimal_position) digits)
         else
           (let scientific_exponent = decimal_position - 1
            in sign @ take 1 digits @ (if length digits > 1 then ''.'' @ drop 1 digits else []) @ ''e'' @
               (if scientific_exponent \<ge> 0 then ''+'' else ''-'') @
               std_to_string (nat (abs scientific_exponent))))"

definition canonical_binary64 :: "'d binary64_ops \<Rightarrow> 'd \<Rightarrow> string Result" where
  "canonical_binary64 ops value =
     (if \<not> fp_isfinite ops value
      then Inl (binary64_error ''JCS-NONFINITE'' ''JCS does not encode non-finite numbers'')
      else if fp_is_zero ops value then Inr ''0''
      else (case fp_to_chars ops value of
          None \<Rightarrow> Inl (binary64_error ''JCS-BINARY64'' ''binary64 shortest conversion failed'')
        | Some shortest \<Rightarrow>
            let negative = (shortest \<noteq> [] \<and> hd shortest = CHR ''-'');
                body = (if negative then tl shortest else shortest);
                is_exponent = (\<lambda>c. c = CHR ''e'' \<or> c = CHR ''E'');
                coefficient = takeWhile (\<lambda>c. \<not> is_exponent c) body;
                marker = dropWhile (\<lambda>c. \<not> is_exponent c) body;
                integer_digits = length (takeWhile (\<lambda>c. c \<noteq> CHR ''.'') coefficient);
                digits = filter (\<lambda>c. c \<noteq> CHR ''.'') coefficient;
                exponent_text = (case tl marker of c # rest \<Rightarrow> if c = CHR ''+'' then rest else c # rest | [] \<Rightarrow> [])
            in (case (if marker = [] then Some 0 else from_chars_int exponent_text) of
                  None \<Rightarrow> Inl (binary64_error ''JCS-BINARY64'' ''binary64 exponent conversion failed'')
                | Some exponent \<Rightarrow>
                    Inr (binary64_layout (fp_positional ops value) negative digits
                      (int integer_digits + exponent)))))"

definition canonical_number :: "'d binary64_ops \<Rightarrow> 'd Number \<Rightarrow> string Result" where
  "canonical_number ops number =
     (case number_value number of
        Signed_integer value \<Rightarrow>
          Inr ((if value < 0 then ''-'' else []) @ std_to_string (nat (abs value)))
      | Unsigned_integer value \<Rightarrow> Inr (std_to_string (unat value))
      | Binary64 value \<Rightarrow> canonical_binary64 ops value)"

fun units_less :: "16 word list \<Rightarrow> 16 word list \<Rightarrow> bool" where
  "units_less _ [] = False"
| "units_less [] (_ # _) = True"
| "units_less (u # us) (v # vs) = (u < v \<or> (u = v \<and> units_less us vs))"

text \<open>\<^verbatim>\<open>std::sort\<close> by the UTF-16 keys, which are distinct.\<close>

fun insert_member :: "(16 word list \<times> 'v) \<Rightarrow> (16 word list \<times> 'v) list \<Rightarrow> (16 word list \<times> 'v) list" where
  "insert_member m [] = [m]"
| "insert_member m (m' # ms) = (if units_less (fst m) (fst m') then m # m' # ms else m' # insert_member m ms)"

definition sort_members :: "(16 word list \<times> 'v) list \<Rightarrow> (16 word list \<times> 'v) list" where
  "sort_members ms = foldr insert_member ms []"

text \<open>Texts joined by commas; the first error in order is the result.\<close>

fun join_results :: "string Result list \<Rightarrow> string Result" where
  "join_results [] = Inr []"
| "join_results [r] = r"
| "join_results (r # rs) =
     (case r of Inl errors \<Rightarrow> Inl errors
      | Inr text \<Rightarrow> (case join_results rs of Inl errors \<Rightarrow> Inl errors | Inr rest \<Rightarrow> Inr (text @ '','' @ rest)))"

definition member_text :: "string \<Rightarrow> string Result \<Rightarrow> string Result" where
  "member_text key child =
     (case append_string key of Inl errors \<Rightarrow> Inl errors
      | Inr key_text \<Rightarrow>
          (case child of Inl errors \<Rightarrow> Inl errors | Inr child_text \<Rightarrow> Inr (key_text @ '':'' @ child_text)))"

text \<open>The members of an object in the order of their UTF-16 keys.\<close>

definition ordered_members :: "(string \<times> 'v) list \<Rightarrow> (string \<times> 'v) list Result" where
  "ordered_members members =
     (case map_result (\<lambda>(key, child). case utf16_key key of Inl e \<Rightarrow> Inl e | Inr units \<Rightarrow> Inr (units, key, child))
             members of
        Inl errors \<Rightarrow> Inl errors
      | Inr keyed \<Rightarrow> Inr (map snd (sort_members keyed)))"

fun append_canonical :: "'d binary64_ops \<Rightarrow> 'd Value \<Rightarrow> string Result" where
  "append_canonical ops JNull = Inr ''null''"
| "append_canonical ops (JBool b) = Inr (if b then ''true'' else ''false'')"
| "append_canonical ops (JNumber n) = canonical_number ops n"
| "append_canonical ops (JString s) = append_string s"
| "append_canonical ops (JArray xs) =
     (case join_results (map (append_canonical ops) xs) of
        Inl errors \<Rightarrow> Inl errors
      | Inr text \<Rightarrow> Inr (''['' @ text @ '']''))"
| "append_canonical ops (JObject ms) =
     (case ordered_members (map (\<lambda>m. (fst m, append_canonical ops (snd m))) ms) of
        Inl errors \<Rightarrow> Inl errors
      | Inr members \<Rightarrow>
          (case join_results (map (\<lambda>(key, child). member_text key child) members) of
             Inl errors \<Rightarrow> Inl errors
           | Inr text \<Rightarrow> Inr (''{'' @ text @ ''}'')))"

definition canonicalize :: "'d binary64_ops \<Rightarrow> 'd Value \<Rightarrow> string Result" where
  "canonicalize ops value = append_canonical ops value"

end
