(* ===== verification/Json_Parse.thy ===== *)
theory Json_Parse
  imports Json
begin

text \<open>
  What the JSON reader guarantees. Every parser of a value consumes input, gives a well-formed value
  and never runs out of its bound when the bound exceeds the input; the locale \<open>element_parser\<close> states
  this contract, under which the loops of arrays and objects are verified once, and \<open>parse_value\<close>
  interprets it. Hence the reader is total, and what it accepts is well formed.
\<close>

subsection \<open>Well-formed values\<close>

definition utf8 :: "string \<Rightarrow> bool" where
  "utf8 s \<longleftrightarrow> (case decode_utf8 s of Inl _ \<Rightarrow> False | Inr _ \<Rightarrow> True)"

fun number_in_range :: "'d binary64_ops \<Rightarrow> 'd Number_value \<Rightarrow> bool" where
  "number_in_range ops (Signed_integer i) \<longleftrightarrow> - (2 ^ 63) \<le> i \<and> i < 2 ^ 63"
| "number_in_range ops (Unsigned_integer u) \<longleftrightarrow> True"
| "number_in_range ops (Binary64 d) \<longleftrightarrow> fp_isfinite ops d"

fun well_formed :: "'d binary64_ops \<Rightarrow> 'd Value \<Rightarrow> bool" where
  "well_formed ops JNull \<longleftrightarrow> True"
| "well_formed ops (JBool b) \<longleftrightarrow> True"
| "well_formed ops (JNumber n) \<longleftrightarrow> number_in_range ops (number_value n)"
| "well_formed ops (JString s) \<longleftrightarrow> utf8 s"
| "well_formed ops (JArray vs) \<longleftrightarrow> list_all (well_formed ops) vs"
| "well_formed ops (JObject ms) \<longleftrightarrow>
     sorted_wrt string_less (map fst ms) \<and> list_all (\<lambda>m. utf8 (fst m) \<and> well_formed ops (snd m)) ms"

subsection \<open>Strings\<close>

lemma case_sum_Inl:
  "(case r of Inl e \<Rightarrow> Inl e | Inr x \<Rightarrow> g x) = Inl y \<longleftrightarrow> r = Inl y \<or> (\<exists>x. r = Inr x \<and> g x = Inl y)"
  by (cases r) auto

lemma case_list_Inr:
  "(case xs of [] \<Rightarrow> Inl e | c # r \<Rightarrow> g c r) = Inr y \<longleftrightarrow> (\<exists>c r. xs = c # r \<and> g c r = Inr y)"
  by (cases xs) auto

lemma utf8_iff: "utf8 s \<longleftrightarrow> (\<exists>cps. decode_utf8 s = Inr cps)"
  by (cases "decode_utf8 s") (auto simp: utf8_def)

lemma decode_utf8_errors: "decode_utf8 s \<noteq> Inl []"
  by (induction s rule: decode_utf8.induct)
    (fastforce simp: utf8_error_def split: option.splits sum.splits prod.splits if_splits)+

lemma relocate_first_Nil: "relocate_first path errors = [] \<longleftrightarrow> errors = []"
  by (auto simp: relocate_first_def split: list.splits ValidationError.splits)

lemmas json_errors = json_error_def json_fail_def

lemma parse_hex4_errors: "parse_hex4 path rest \<noteq> Inl []"
  by (auto simp: parse_hex4_def json_errors split: option.splits)

lemma unicode_escape_errors: "unicode_escape path rest \<noteq> Inl []"
  using parse_hex4_errors
  by (auto simp: unicode_escape_def json_errors Let_def split: sum.splits if_splits)

lemma parse_string_loop_errors: "parse_string_loop path out rest \<noteq> Inl []"
proof (induction path out rest rule: parse_string_loop.induct)
  case (2 path out c rest)
  then show ?case
    using decode_utf8_errors [of out] unicode_escape_errors [of path]
    by (auto simp: json_errors relocate_first_Nil split: sum.splits list.splits option.splits)
qed (simp add: json_errors)

lemma parse_string_loop_consumes:
  "parse_string_loop path out rest = Inr (s, rest') \<Longrightarrow> length rest' < length rest \<and> utf8 s"
proof (induction rest arbitrary: out rule: length_induct)
  case (1 rest)
  have IH: "length rest' < length ys \<and> utf8 s"
    if "parse_string_loop path out' ys = Inr (s, rest')" "length ys < length rest" for ys out'
    using 1(1) that by blast
  show ?case
  proof (cases rest)
    case Nil
    with 1(2) show ?thesis by simp
  next
    case (Cons c ys)
    with 1(2) show ?thesis
      by (auto simp: utf8_iff split: if_splits list.splits option.splits dest!: IH)
  qed
qed

lemma parse_string_consumes:
  "parse_string path rest = Inr (s, rest') \<Longrightarrow> length rest' < length rest \<and> utf8 s"
  using parse_string_loop_consumes [of path "[]" "tl rest" s rest'] by (auto simp: parse_string_def)

lemma parse_string_errors: "parse_string path rest \<noteq> Inl []"
  by (simp add: parse_string_def parse_string_loop_errors)

subsection \<open>Numbers\<close>

lemma length_skip_space: "length (skip_space rest) \<le> length rest"
  by (simp add: skip_space_def length_dropWhile_le)

lemma scan_integer_Inr:
  "scan_integer path rest = Inr (t, rest') \<Longrightarrow> rest = t @ rest' \<and> t \<noteq> []"
  by (auto simp: scan_integer_def split: list.splits if_splits)

lemma scan_fraction_Inr: "scan_fraction path rest = Inr (t, rest') \<Longrightarrow> rest = t @ rest'"
  by (auto simp: scan_fraction_def split: list.splits if_splits)

lemma takeWhile_take_drop: "takeWhile P (take n xs) @ drop (length (takeWhile P (take n xs))) xs = xs"
  by (induction xs arbitrary: n) (simp_all add: take_Cons' )

lemma scan_exponent_Inr: "scan_exponent path rest = Inr (t, rest') \<Longrightarrow> rest = t @ rest'"
  by (auto simp: scan_exponent_def Let_def takeWhile_take_drop simp del: drop_eq_Nil
      split: list.splits if_splits)

lemma scan_errors:
  "scan_integer path rest \<noteq> Inl []" "scan_fraction path rest \<noteq> Inl []" "scan_exponent path rest \<noteq> Inl []"
  by (auto simp: scan_integer_def scan_fraction_def scan_exponent_def json_errors Let_def split: list.splits)

lemma make_number_errors: "make_number ops path negative binary64 text \<noteq> Inl []"
  by (auto simp: make_number_def split: option.splits)

lemma make_number_Inr:
  "make_number ops path negative binary64 text = Inr v \<Longrightarrow> well_formed ops v"
  by (auto simp: make_number_def from_chars_i64_def split: option.splits if_splits)

lemma parse_number_Inr:
  assumes "parse_number ops path rest = Inr (v, rest')"
  shows "length rest' < length rest \<and> well_formed ops v"
proof (cases rest)
  case Nil
  with assms show ?thesis by (simp add: parse_number_def scan_integer_def)
next
  case (Cons c r)
  with assms show ?thesis
    by (cases "c = CHR ''-''") (auto simp: parse_number_def Let_def
        dest!: scan_integer_Inr scan_fraction_Inr scan_exponent_Inr make_number_Inr arg_cong [of "c # r" _ length])
qed

lemma parse_number_errors: "parse_number ops path rest \<noteq> Inl []"
  by (simp add: parse_number_def Let_def json_errors case_sum_Inl scan_errors make_number_errors
      del: case_sum_Inr split: prod.splits)

subsection \<open>Members in key order\<close>

lemma string_less_irrefl [simp]: "\<not> string_less s s"
  by (induction s) auto

lemma unat_byte: "unat (byte c) = of_char c"
proof -
  have "byte c = of_nat (of_char c)" by (simp only: byte_def of_nat_of_char)
  moreover have "of_char c < (2 :: nat) ^ 32"
    using nat_of_char_less_256 [of c] by (rule less_trans) simp
  ultimately show ?thesis by (simp add: unat_of_nat take_bit_nat_eq_self)
qed

lemma byte_inject: "byte c = byte d \<longleftrightarrow> c = d"
  by (metis of_char_eq_iff unat_byte)

lemma to_char_byte [simp]: "to_char (byte c) = c"
  by (simp add: to_char_def unat_byte)

lemma string_less_Cons: "string_less s (d # t) \<longleftrightarrow>
  s = [] \<or> byte (hd s) < byte d \<or> (hd s = d \<and> string_less (tl s) t)"
  by (cases s) auto

lemma string_less_trans: "string_less s t \<Longrightarrow> string_less t u \<Longrightarrow> string_less s u"
proof (induction s t arbitrary: u rule: string_less.induct)
  case (3 c s d t)
  then show ?case by (cases u) (auto intro: less_trans)
next
  case (2 d t)
  then show ?case by (cases u) auto
qed simp

lemma string_less_linear: "\<not> string_less s t \<Longrightarrow> s \<noteq> t \<Longrightarrow> string_less t s"
proof (induction s t rule: string_less.induct)
  case (1 s)
  then show ?case by (cases s) auto
next
  case (3 c s d t)
  then show ?case by (cases "byte d < byte c") (auto simp: byte_inject not_less dest: antisym)
qed auto

lemma map_emplace_Some:
  assumes "map_emplace key value ms = Some ms'" and "sorted_wrt string_less (map fst ms)"
  shows "sorted_wrt string_less (map fst ms') \<and> set ms' = insert (key, value) (set ms) \<and> key \<notin> fst ` set ms"
  using assms
proof (induction ms arbitrary: ms')
  case (Cons m ms)
  obtain k v where m: "m = (k, v)" by (cases m)
  show ?case
  proof (cases "string_less key k")
    case True
    with Cons.prems m show ?thesis
      by (fastforce dest: string_less_trans split: if_splits)
  next
    case False
    with Cons.prems m obtain ms1 where e: "map_emplace key value ms = Some ms1" "ms' = (k, v) # ms1" "key \<noteq> k"
      by (auto split: if_splits option.splits)
    from Cons.IH [OF e(1)] Cons.prems m e False show ?thesis
      by (auto dest: string_less_linear)
  qed
qed simp

lemma map_emplace_fresh: "key \<notin> fst ` set ms \<Longrightarrow> \<exists>ms'. map_emplace key value ms = Some ms'"
  by (induction ms rule: map_emplace.induct) (auto split: option.splits)

lemma sorted_keys_unique:
  assumes "sorted_wrt string_less (map fst ms)" and "sorted_wrt string_less (map fst ms')" and "set ms = set ms'"
  shows "ms = ms'"
  using assms
proof (induction ms arbitrary: ms')
  case (Cons m ms)
  then obtain m' rest' where ms': "ms' = m' # rest'" by (cases ms') auto
  have "m = m'"
  proof (rule ccontr)
    assume "m \<noteq> m'"
    with Cons.prems ms' have "m \<in> set rest'" "m' \<in> set ms" by auto
    with Cons.prems ms' show False using string_less_trans string_less_irrefl by fastforce
  qed
  moreover have "set ms = set rest'" "m \<notin> set ms" "m' \<notin> set rest'"
  proof -
    show "m \<notin> set ms" "m' \<notin> set rest'" using Cons.prems ms' by auto
    with Cons.prems(3) ms' \<open>m = m'\<close> show "set ms = set rest'" by auto
  qed
  ultimately show ?case using Cons.IH [of rest'] Cons.prems ms' by simp
qed simp

subsection \<open>The contract of a value parser\<close>

locale element_parser =
  fixes ops :: "'d binary64_ops" and element :: "string \<Rightarrow> string \<Rightarrow> ('d Value \<times> string) Result" and bound :: nat
  assumes consumes: "element path rest = Inr (v, rest') \<Longrightarrow> length rest' < length rest"
    and typed: "element path rest = Inr (v, rest') \<Longrightarrow> well_formed ops v"
    and answers: "length rest < bound \<Longrightarrow> element path rest \<noteq> Inl []"
begin

lemma elements_Inr:
  "parse_elements n element path index vs rest = Inr (v, rest') \<Longrightarrow> list_all (well_formed ops) vs \<Longrightarrow>
   length rest' < length rest \<and> well_formed ops v"
proof (induction n arbitrary: index vs rest)
  case (Suc n)
  then obtain v1 rest1 c rest2 where e: "element (path @ CHR ''/'' # std_to_string index) rest = Inr (v1, rest1)"
    "skip_space rest1 = c # rest2"
    by (auto simp: case_list_Inr)
  have "length rest2 < length rest1" using length_skip_space [of rest1] e(2) by simp
  with consumes [OF e(1)] typed [OF e(1)] Suc e length_skip_space [of rest2] show ?case
    by (fastforce split: if_splits)
qed simp

lemma elements_answer:
  "length rest < n \<Longrightarrow> n \<le> bound \<Longrightarrow> parse_elements n element path index vs rest \<noteq> Inl []"
proof (induction n arbitrary: index vs rest)
  case (Suc n)
  show ?case
  proof (cases "element (path @ CHR ''/'' # std_to_string index) rest")
    case (Inl errors)
    with answers [of rest "path @ CHR ''/'' # std_to_string index"] Suc.prems show ?thesis by auto
  next
    case (Inr p)
    obtain v1 rest1 where p: "p = (v1, rest1)" by (cases p)
    show ?thesis
    proof (cases "skip_space rest1")
      case (Cons c rest2)
      have "length (skip_space rest2) < n"
        using consumes [OF Inr [unfolded p]] length_skip_space [of rest1] length_skip_space [of rest2] Cons Suc.prems
        by simp
      with Suc.IH Suc.prems(2) Inr p Cons show ?thesis by (simp add: json_errors)
    qed (simp add: Inr p json_errors)
  qed
qed simp

lemma member_Inr:
  assumes "parse_member element path rest = Inr (key, v, rest')"
  shows "length rest' < length rest \<and> utf8 key \<and> well_formed ops v"
proof -
  obtain rest1 where s: "parse_string path rest = Inr (key, rest1)" "skip_space rest1 \<noteq> []"
    and e: "element (path @ ''/'' @ key) (skip_space (tl (skip_space rest1))) = Inr (v, rest')"
    using assms by (auto simp: parse_member_def Let_def)
  have "length (skip_space (tl (skip_space rest1))) \<le> length rest1"
    using length_skip_space [of rest1] length_skip_space [of "tl (skip_space rest1)"] by simp
  with parse_string_consumes [OF s(1)] consumes [OF e] typed [OF e] show ?thesis by simp
qed

lemma member_answers:
  assumes "length rest < bound"
  shows "parse_member element path rest \<noteq> Inl []"
proof (cases "parse_string path rest")
  case (Inl errors)
  with parse_string_errors [of path rest] show ?thesis by (auto simp: parse_member_def json_errors)
next
  case (Inr p)
  obtain key rest1 where p: "p = (key, rest1)" by (cases p)
  have "length (skip_space (tl (skip_space rest1))) < bound"
    using length_skip_space [of rest1] length_skip_space [of "tl (skip_space rest1)"]
      length_tl [of "skip_space rest1"] parse_string_consumes [OF Inr [unfolded p], THEN conjunct1] assms
    by linarith
  from answers [OF this] show ?thesis
    by (auto simp: parse_member_def Inr p Let_def json_errors case_sum_Inl simp del: case_sum_Inr)
qed

lemma members_Inr:
  "parse_members n element path ms rest = Inr (v, rest') \<Longrightarrow> well_formed ops (JObject ms) \<Longrightarrow>
   length rest' < length rest \<and> well_formed ops v"
proof (induction n arbitrary: ms rest)
  case (Suc n)
  then obtain key v1 rest3 ms' c rest4 where m: "parse_member element path rest = Inr (key, v1, rest3)"
    and e: "map_emplace key v1 ms = Some ms'" "skip_space rest3 = c # rest4"
    by (auto simp: case_list_Inr)
  have ms': "well_formed ops (JObject ms')"
    using map_emplace_Some [OF e(1)] Suc.prems(2) member_Inr [OF m] by (simp add: list_all_iff)
  have "length rest4 < length rest"
    using length_skip_space [of rest3] e(2) member_Inr [OF m] by simp
  with Suc.IH [OF _ ms'] Suc.prems(1) m e length_skip_space [of rest4] ms' show ?case
    by (fastforce split: if_splits)
qed simp

lemma members_answer:
  "length rest < n \<Longrightarrow> n \<le> bound \<Longrightarrow> parse_members n element path ms rest \<noteq> Inl []"
proof (induction n arbitrary: ms rest)
  case (Suc n)
  show ?case
  proof (cases "parse_member element path rest")
    case (Inl errors)
    with member_answers [of rest path] Suc.prems show ?thesis by auto
  next
    case (Inr p)
    obtain key v1 rest3 where p: "p = (key, v1, rest3)" by (cases p)
    show ?thesis
    proof (cases "skip_space rest3")
      case (Cons c rest4)
      have "length (skip_space rest4) < n"
        using member_Inr [OF Inr [unfolded p]] length_skip_space [of rest3] length_skip_space [of rest4] Cons Suc.prems
        by simp
      with Suc.IH Suc.prems(2) Inr p Cons show ?thesis by (simp add: json_errors split: option.split)
    qed (simp add: Inr p json_errors split: option.split)
  qed
qed simp

lemma array_Inr:
  assumes "parse_array n element path (c # rest) = Inr (v, rest')"
  shows "length rest' < Suc (length rest) \<and> well_formed ops v"
  using assms elements_Inr [of n path 0 "[]" "skip_space rest" v rest'] length_skip_space [of rest]
  by (cases "skip_space rest") (auto simp: parse_array_def Let_def split: if_splits)

lemma object_Inr:
  assumes "parse_object n element path (c # rest) = Inr (v, rest')"
  shows "length rest' < Suc (length rest) \<and> well_formed ops v"
  using assms members_Inr [of n path "[]" "skip_space rest" v rest'] length_skip_space [of rest]
  by (cases "skip_space rest") (auto simp: parse_object_def Let_def split: if_splits)

lemma containers_answer:
  assumes "length rest < bound"
  shows "parse_array bound element path (c # rest) \<noteq> Inl []" "parse_object bound element path (c # rest) \<noteq> Inl []"
proof -
  have "length (skip_space rest) < bound" using assms length_skip_space [of rest] by linarith
  from elements_answer [OF this order_refl] members_answer [OF this order_refl] show
    "parse_array bound element path (c # rest) \<noteq> Inl []" "parse_object bound element path (c # rest) \<noteq> Inl []"
    by (simp_all add: parse_array_def parse_object_def Let_def)
qed

end

subsection \<open>Values and documents\<close>

lemma parse_literal_Inr:
  "parse_literal literal v0 path rest = Inr (v, rest') \<Longrightarrow> literal \<noteq> [] \<Longrightarrow> v = v0 \<and> length rest' < length rest"
  by (cases rest) (auto simp: parse_literal_def split: if_splits)

lemma parse_literal_errors: "parse_literal literal v0 path rest \<noteq> Inl []"
  by (simp add: parse_literal_def json_errors)

lemma parse_value_SucE:
  assumes "parse_value (Suc n) ops path (c # r) = Inr (v, rest')"
  obtains (literal) l v0 where "parse_literal l v0 path (c # r) = Inr (v, rest')" "l \<noteq> []" "well_formed ops v0"
  | (string) s where "parse_string path (c # r) = Inr (s, rest')" "v = JString s"
  | (array) "parse_array n (parse_value n ops) path (c # r) = Inr (v, rest')"
  | (object) "parse_object n (parse_value n ops) path (c # r) = Inr (v, rest')"
  | (number) "parse_number ops path (c # r) = Inr (v, rest')"
proof -
  note e = assms [unfolded parse_value.simps list.case]
  consider "c = CHR ''n''" | "c = CHR ''t''" | "c = CHR ''f''" | "c = CHR 0x22" | "c = CHR ''[''" | "c = CHR ''{''"
    | "c \<notin> {CHR ''n'', CHR ''t'', CHR ''f'', CHR 0x22, CHR ''['', CHR ''{''}"
    by blast
  then show ?thesis
  proof cases
    case 1
    with e literal [of "''null''" JNull] show ?thesis by simp
  next
    case 2
    with e literal [of "''true''" "JBool True"] show ?thesis by simp
  next
    case 3
    with e literal [of "''false''" "JBool False"] show ?thesis by simp
  next
    case 4
    with e string show ?thesis by auto
  next
    case 5
    with e array show ?thesis by simp
  next
    case 6
    with e object show ?thesis by simp
  next
    case 7
    with e number show ?thesis by (simp split: if_splits)
  qed
qed

lemma parse_value_contract: "element_parser ops (parse_value n ops) n"
proof (induction n)
  case 0
  show ?case by unfold_locales simp_all
next
  case (Suc n)
  note array = element_parser.array_Inr [OF Suc] and object = element_parser.object_Inr [OF Suc]
    and containers = element_parser.containers_answer [OF Suc]
  have r: "length rest' < length rest \<and> well_formed ops v"
    if "parse_value (Suc n) ops path rest = Inr (v, rest')" for path rest v rest'
  proof (cases rest)
    case (Cons c r)
    from that [unfolded Cons] show ?thesis
      by (cases rule: parse_value_SucE)
        (auto simp: Cons dest: array object parse_literal_Inr parse_string_consumes parse_number_Inr)
  qed (use that in simp)
  have "parse_value (Suc n) ops path rest \<noteq> Inl []" if "length rest < Suc n" for path rest
  proof (cases rest)
    case (Cons c r)
    with that have "length r < n" by simp
    with Cons containers [of r path] show ?thesis
      by (simp add: json_errors case_sum_Inl parse_string_errors parse_number_errors parse_literal_errors
          del: case_sum_Inr split: prod.split)
  qed (simp add: json_errors)
  with r show ?case by unfold_locales blast+
qed

interpretation json: element_parser ops "parse_value n ops" n for ops :: "'d binary64_ops" and n
  by (rule parse_value_contract)

text \<open>C30. The JSON reader always answers: it returns a well-formed value, or at least one error.\<close>

theorem json_parse_total:
  "case json_parse ops input of Inl errors \<Rightarrow> errors \<noteq> [] | Inr v \<Rightarrow> well_formed ops v"
proof -
  define n where "n = length input + 1"
  have "length (skip_space input) < n" using length_skip_space [of input] by (simp add: n_def)
  from json.answers [OF this, of ops "''$''"] show ?thesis
    unfolding json_parse_def parse_document_def n_def [symmetric]
    by (auto simp: json_errors split: sum.split dest: json.typed)
qed

end
