(* ===== verification/Json_Canonical.thy ===== *)
theory Json_Canonical
  imports Json_Parse "HOL-Library.Multiset"
begin

text \<open>
  The canonical text of a value read back: the writer escapes exactly what the reader unescapes,
  writes integers in decimal and orders members, and the reader restores the value. The reader and
  the writer agree for every value without binary64 numbers, whose text is left to the C++ library.
\<close>

subsection \<open>Bytes and escapes\<close>

lemma hex_char_digit:
  assumes "w < 16"
  shows "hex_digit (hex_char w) = Some w"
proof -
  have "unat w < 16" using assms by (simp add: word_less_nat_alt)
  then have "w = of_nat (unat w)" and "unat w \<in> set [0..<16]" by simp_all
  moreover have "\<forall>n \<in> set [0..<16]. hex_digit (hex_char (of_nat n)) = Some (of_nat n)"
    by code_simp
  ultimately show ?thesis by metis
qed

text \<open>One byte of a string in canonical text.\<close>

definition escaped :: "char \<Rightarrow> string" where
  "escaped c = (if byte c \<ge> 0x20 \<and> c \<noteq> CHR 0x22 \<and> c \<noteq> CHR 0x5C then [c] else escape_byte c)"

lemma utf8_tail_continuation:
  "utf8_tail code_point cs = Some scalar \<Longrightarrow> c \<in> set cs \<Longrightarrow> byte c AND 0xc0 = 0x80"
  by (induction code_point cs rule: utf8_tail.induct) (auto split: if_splits)

lemma escaped_high: "0x80 \<le> byte c \<Longrightarrow> escaped c = [c]"
  using order_trans [of "0x20" "0x80" "byte c"] by (auto simp: escaped_def byte_def)

lemma continuation_high:
  assumes "byte c AND 0xc0 = 0x80"
  shows "0x80 \<le> byte c"
  using word_and_le2 [of "byte c" "0xc0"] assms by simp

lemma concat_map_single: "\<forall>x \<in> set xs. f x = [x] \<Longrightarrow> concat (map f xs) = xs"
  by (induction xs) auto

lemma lead_length:
  assumes "utf8_lead (byte c) = Some (code_point, len)" and "0x80 \<le> byte c"
  shows "len = (if byte c AND 0xf0 = 0xe0 then 3 else if byte c AND 0xf8 = 0xf0 then 4 else 2)"
proof -
  have m: "(byte c AND 0xf0) AND 0xe0 = byte c AND 0xe0" "(byte c AND 0xf8) AND 0xe0 = byte c AND 0xe0"
    by (simp_all add: and.assoc)
  have "\<not> byte c \<le> 0x7f" using assms(2) by (simp add: not_le word_less_nat_alt word_le_nat_alt)
  with assms(1) m show ?thesis by (auto simp: utf8_lead_def split: if_splits)
qed

lemma decode_utf8_Cons:
  assumes "utf8 (c # rest)"
  obtains (ascii) "byte c < 0x80" "utf8 rest"
  | (long) len where "0x80 \<le> byte c" "1 < len" "len \<le> Suc (length rest)"
      "len = (if byte c AND 0xf0 = 0xe0 then 3 else if byte c AND 0xf8 = 0xf0 then 4 else 2)"
      "\<forall>d \<in> set (take (len - 1) rest). 0x80 \<le> byte d" "utf8 (drop (len - 1) rest)"
proof -
  from assms obtain code_point len scalar where l: "utf8_lead (byte c) = Some (code_point, len)"
    "len \<le> Suc (length rest)" "utf8_tail code_point (take (len - 1) rest) = Some scalar"
    "utf8 (drop (len - 1) rest)"
    by (auto simp: utf8_iff split: option.splits)
  show ?thesis
  proof (cases "byte c < 0x80")
    case True
    then have "byte c \<le> 0x7f" by (simp add: word_less_nat_alt word_le_nat_alt)
    with l(1) have "len = 1" by (simp add: utf8_lead_def)
    with ascii True l(4) show ?thesis by simp
  next
    case False
    then have h: "0x80 \<le> byte c" by simp
    have "1 < len" using lead_length [OF l(1) h] by simp
    with long [OF h _ l(2) lead_length [OF l(1) h] _ l(4)] utf8_tail_continuation [OF l(3)] continuation_high
    show ?thesis by blast
  qed
qed

lemma escape_text_escaped: "utf8 s \<Longrightarrow> escape_text s = concat (map escaped s)"
proof (induction s rule: length_induct)
  case (1 s)
  show ?case
  proof (cases s)
    case (Cons c rest)
    from 1(2) [unfolded Cons] show ?thesis
    proof (cases rule: decode_utf8_Cons)
      case ascii
      with 1(1) Cons show ?thesis by (auto simp: escaped_def)
    next
      case (long len)
      let ?t = "take (len - 1) rest"
      have low: "0x20 \<le> byte c" using long(1) order_trans [of "0x20" "0x80" "byte c"] by simp
      have "escape_text (c # rest) = (c # ?t) @ escape_text (drop (len - 1) rest)"
      proof -
        have "c \<noteq> CHR 0x22" "c \<noteq> CHR 0x5C" using long(1) by (auto simp: byte_def)
        moreover have "take len (c # rest) = c # ?t" using long(2) by (simp add: take_Cons')
        ultimately show ?thesis
          using long(1) low unfolding escape_text.simps(2) Let_def long(4) [symmetric] by simp
      qed
      also have "escape_text (drop (len - 1) rest) = concat (map escaped (drop (len - 1) rest))"
        using 1(1) long(6) Cons by simp
      also have "c # ?t = concat (map escaped (c # ?t))"
      proof -
        have "\<forall>d \<in> set (c # ?t). escaped d = [d]" using long(1,5) by (auto simp: escaped_high)
        then show ?thesis by (rule concat_map_single [symmetric])
      qed
      finally show ?thesis unfolding Cons by (simp flip: map_append concat_append)
    qed
  qed simp
qed

lemma hex4_control:
  assumes "byte c < 0x20"
  shows "parse_hex4 path (CHR ''0'' # CHR ''0'' # hex_char (drop_bit 4 (byte c) AND 0x0f) #
    hex_char (byte c AND 0x0f) # rest) = Inr (byte c)"
proof -
  let ?h = "drop_bit 4 (byte c) AND 0x0f" and ?l = "byte c AND 0x0f"
  have lt: "?h < 16" "?l < 16"
    using word_and_le1 [of "drop_bit 4 (byte c)" "0x0f"] word_and_le1 [of "byte c" "0x0f"]
    by (auto intro: le_less_trans)
  have zero: "hex_digit (CHR ''0'') = Some 0" by (simp add: hex_digit_def byte_def)
  have "push_bit 4 ?h OR ?l = byte c"
  proof -
    have "unat (byte c) < 32" using assms by (simp add: word_less_nat_alt)
    then have "byte c = of_nat (unat (byte c))" and "unat (byte c) \<in> set [0..<32]" by simp_all
    moreover have "\<forall>n \<in> set [0..<32]. push_bit 4 (drop_bit 4 (of_nat n :: u32) AND 0x0f) OR (of_nat n AND 0x0f) = of_nat n"
      by code_simp
    ultimately show ?thesis by metis
  qed
  then show ?thesis by (simp add: parse_hex4_def zero hex_char_digit [OF lt(1)] hex_char_digit [OF lt(2)])
qed

lemma parse_escaped:
  "parse_string_loop path out (escaped c @ rest) = parse_string_loop path (out @ [c]) rest"
proof (cases "byte c \<ge> 0x20 \<and> c \<noteq> CHR 0x22 \<and> c \<noteq> CHR 0x5C")
  case True
  then show ?thesis by (auto simp: escaped_def)
next
  case False
  show ?thesis
  proof (cases "c \<in> {CHR 0x22, CHR 0x5C, CHR 0x08, CHR 0x09, CHR 0x0A, CHR 0x0C, CHR 0x0D}")
    case True
    then show ?thesis by (auto simp: escaped_def escape_byte_def simple_escape_def byte_def)
  next
    case other: False
    with False have c: "byte c < 0x20" by auto
    let ?t = "CHR ''0'' # CHR ''0'' # hex_char (drop_bit 4 (byte c) AND 0x0f) # hex_char (byte c AND 0x0f) # rest"
    have e: "escaped c @ rest = CHR 0x5C # CHR ''u'' # ?t"
      using False other by (simp add: escaped_def escape_byte_def)
    have "\<not> 0xd800 \<le> byte c" "\<not> 0xdc00 \<le> byte c" "byte c \<le> 0x7f"
      using c by (simp_all add: word_le_nat_alt word_less_nat_alt)
    then have "unicode_escape path ?t = Inr (byte c, 4)" and "append_utf8 (byte c) = Some [c]"
      unfolding unicode_escape_def hex4_control [OF c] by (simp_all add: append_utf8_def)
    then show ?thesis unfolding e by (simp add: simple_escape_def byte_def)
  qed
qed

lemma parse_escaped_text:
  "parse_string_loop path out (concat (map escaped s) @ CHR 0x22 # rest) =
    (case decode_utf8 (out @ s) of Inl errors \<Rightarrow> Inl (relocate_first path errors) | Inr _ \<Rightarrow> Inr (out @ s, rest))"
  by (induction s arbitrary: out) (simp_all add: parse_escaped split: sum.split)

lemma parse_string_append_string:
  assumes "append_string s = Inr t"
  shows "parse_string path (t @ rest) = Inr (s, rest)" and "utf8 s" and "\<exists>t'. t = CHR 0x22 # t'"
proof -
  from assms show "utf8 s" and "\<exists>t'. t = CHR 0x22 # t'" by (auto simp: append_string_def utf8_iff)
  with assms show "parse_string path (t @ rest) = Inr (s, rest)"
    by (auto simp: append_string_def parse_string_def escape_text_escaped parse_escaped_text utf8_iff)
qed

lemma append_string_Some: "utf8 s \<Longrightarrow> \<exists>t. append_string s = Inr t"
  by (auto simp: append_string_def utf8_iff)

subsection \<open>Decimal integers\<close>

lemma digits_value_snoc: "digits_value (ds @ [c]) = 10 * digits_value ds + unat (byte c - 48)"
  by (simp add: digits_value_def)

lemma digit_char:
  assumes "n < 10"
  shows "is_digit (char_of (48 + n))" and "unat (byte (char_of (48 + n)) - 48) = n"
    and "char_of (48 + n) = CHR ''0'' \<longleftrightarrow> n = 0"
proof -
  have b: "unat (byte (char_of (48 + n))) = 48 + n" using assms by (simp add: unat_byte)
  then show "is_digit (char_of (48 + n))" using assms by (simp add: is_digit_def word_le_nat_alt)
  have "48 \<le> byte (char_of (48 + n))" using b by (simp add: word_le_nat_alt)
  then show "unat (byte (char_of (48 + n)) - 48) = n" using b by (simp add: unat_sub)
  show "char_of (48 + n) = CHR ''0'' \<longleftrightarrow> n = 0"
    using assms by (simp add: char_of_eq_iff take_bit_eq_mod)
qed

lemma std_to_string_0: "std_to_string 0 = ''0''"
  using digit_char(3) [of 0] by (simp add: std_to_string.simps [of 0])

lemma std_to_string_digits:
  "list_all is_digit (std_to_string n) \<and> digits_value (std_to_string n) = n \<and> std_to_string n \<noteq> [] \<and>
   (hd (std_to_string n) = CHR ''0'' \<longrightarrow> std_to_string n = ''0'')"
proof (induction n rule: std_to_string.induct)
  case (1 n)
  show ?case
  proof (cases "n < 10")
    case True
    with digit_char [OF True] show ?thesis
      by (simp add: std_to_string.simps [of n] digits_value_snoc [of "[]", simplified] digits_value_def [of "[]"]
          std_to_string_0)
  next
    case False
    have "digits_value ''0'' = 0" by (simp add: digits_value_def byte_def)
    with 1 False digit_char [of "n mod 10"] show ?thesis
      by (auto simp: std_to_string.simps [of n] digits_value_snoc)
  qed
qed

text \<open>What may stand behind a value in canonical text.\<close>

definition follows :: "string \<Rightarrow> bool" where
  "follows rest \<longleftrightarrow> rest = [] \<or> hd rest \<in> {CHR '','', CHR '']'', CHR ''}''}"

lemma follows_no_number:
  assumes "follows rest"
  shows "rest = [] \<or> \<not> is_digit (hd rest) \<and> hd rest \<noteq> CHR ''.'' \<and> hd rest \<noteq> CHR ''e'' \<and> hd rest \<noteq> CHR ''E''"
  using assms by (auto simp: follows_def is_digit_def byte_def)

lemma scan_decimal:
  assumes "follows rest"
  shows "scan_integer path (std_to_string n @ rest) = Inr (std_to_string n, rest)"
    and "scan_fraction path rest = Inr ([], rest)" and "scan_exponent path rest = Inr ([], rest)"
proof -
  note f = follows_no_number [OF assms] and d = std_to_string_digits [of n]
  obtain c ds where t: "std_to_string n = c # ds" using d by (cases "std_to_string n") auto
  have split: "takeWhile is_digit (std_to_string n @ rest) = std_to_string n"
    "dropWhile is_digit (std_to_string n @ rest) = rest"
    using d f by (cases rest; auto simp: takeWhile_append dropWhile_append list_all_iff)+
  show "scan_integer path (std_to_string n @ rest) = Inr (std_to_string n, rest)"
    using d f split t by (auto simp: scan_integer_def)
  show "scan_fraction path rest = Inr ([], rest)" "scan_exponent path rest = Inr ([], rest)"
    using f by (auto simp: scan_fraction_def scan_exponent_def split: list.splits)
qed

subsection \<open>Values without binary64 numbers\<close>

fun exact :: "'d Value \<Rightarrow> bool" where
  "exact (JNumber n) \<longleftrightarrow> (case number_value n of Binary64 d \<Rightarrow> False | _ \<Rightarrow> True)"
| "exact (JArray vs) \<longleftrightarrow> list_all exact vs"
| "exact (JObject ms) \<longleftrightarrow> list_all (\<lambda>m. exact (snd m)) ms"
| "exact _ \<longleftrightarrow> True"

text \<open>
  The number that canonical text stands for: a nonnegative integer is read as an unsigned one, and
  the lexical form is the canonical one.
\<close>

definition normal_number :: "'d Number \<Rightarrow> 'd Number" where
  "normal_number n =
     (case number_value n of
        Signed_integer i \<Rightarrow>
          if i < 0 then Number (''-'' @ std_to_string (nat (- i))) (Signed_integer i)
          else Number (std_to_string (nat i)) (Unsigned_integer (of_nat (nat i)))
      | Unsigned_integer u \<Rightarrow> Number (std_to_string (unat u)) (Unsigned_integer u)
      | Binary64 d \<Rightarrow> n)"

fun normal :: "'d Value \<Rightarrow> 'd Value" where
  "normal (JNumber n) = JNumber (normal_number n)"
| "normal (JArray vs) = JArray (map normal vs)"
| "normal (JObject ms) = JObject (map (\<lambda>m. (fst m, normal (snd m))) ms)"
| "normal JNull = JNull"
| "normal (JBool b) = JBool b"
| "normal (JString s) = JString s"

text \<open>A text that the reader takes for a value, whatever stands behind it.\<close>

definition reads :: "'d binary64_ops \<Rightarrow> 'd Value \<Rightarrow> string \<Rightarrow> bool" where
  "reads ops v t \<longleftrightarrow>
     t \<noteq> [] \<and> \<not> is_space (hd t) \<and> hd t \<noteq> CHR '']'' \<and>
     (\<forall>path rest n. follows rest \<longrightarrow> length t < n \<longrightarrow> parse_value n ops path (t @ rest) = Inr (v, rest))"

lemma readsD: "reads ops v t \<Longrightarrow> follows rest \<Longrightarrow> length t < n \<Longrightarrow> parse_value n ops path (t @ rest) = Inr (v, rest)"
  by (simp add: reads_def)

lemma digit_not_special:
  assumes "is_digit c"
  shows "c \<notin> {CHR ''n'', CHR ''t'', CHR ''f'', CHR 0x22, CHR ''['', CHR ''{'', CHR ''-'', CHR '']''}" "\<not> is_space c"
  using assms by (auto simp: is_digit_def byte_def is_space_def)

lemma reads_number:
  assumes "number_in_range ops (number_value n)" and "exact (JNumber n)"
  shows "\<exists>t. canonical_number ops n = Inr t \<and> reads ops (JNumber (normal_number n)) t"
proof -
  have unsigned: "reads ops (JNumber (Number (std_to_string k) (Unsigned_integer (of_nat k)))) (std_to_string k)"
    if "k < 2 ^ 64" for k
  proof -
    obtain c ds where t: "std_to_string k = c # ds" "is_digit c"
      using std_to_string_digits [of k] by (cases "std_to_string k") auto
    have "parse_value m ops path (std_to_string k @ rest) =
        Inr (JNumber (Number (std_to_string k) (Unsigned_integer (of_nat k))), rest)"
      if "follows rest" "length (std_to_string k) < m" for path rest m
    proof -
      from that(2) obtain m' where m: "m = Suc m'" by (cases m) auto
      have "parse_value m ops path (std_to_string k @ rest) = parse_number ops path (std_to_string k @ rest)"
        using t digit_not_special [OF t(2)] by (simp add: m)
      also have "\<dots> = Inr (JNumber (Number (std_to_string k) (Unsigned_integer (of_nat k))), rest)"
      proof -
        have "hd (std_to_string k @ rest) \<noteq> CHR ''-''" using t digit_not_special [OF t(2)] by auto
        with scan_decimal [OF that(1)] std_to_string_digits [of k] \<open>k < 2 ^ 64\<close> show ?thesis
          by (simp add: parse_number_def make_number_def from_chars_u64_def)
      qed
      finally show ?thesis .
    qed
    with t digit_not_special [OF t(2)] show ?thesis by (simp add: reads_def)
  qed
  have signed: "reads ops (JNumber (Number (CHR ''-'' # std_to_string k) (Signed_integer (- int k)))) (CHR ''-'' # std_to_string k)"
    if "k \<le> 2 ^ 63" for k
  proof -
    have "parse_value m ops path (CHR ''-'' # std_to_string k @ rest) =
        Inr (JNumber (Number (CHR ''-'' # std_to_string k) (Signed_integer (- int k))), rest)"
      if "follows rest" "Suc (length (std_to_string k)) < m" for path rest m
    proof -
      from that(2) obtain m' where m: "m = Suc m'" by (cases m) auto
      show ?thesis
        using scan_decimal [OF that(1)] std_to_string_digits [of k] \<open>k \<le> 2 ^ 63\<close>
        by (simp add: m parse_number_def make_number_def from_chars_i64_def)
    qed
    then show ?thesis by (simp add: reads_def is_space_def)
  qed
  show ?thesis
  proof (cases "number_value n")
    case (Signed_integer i)
    show ?thesis
    proof (cases "i < 0")
      case True
      with signed [of "nat (- i)"] assms Signed_integer show ?thesis
        by (simp add: canonical_number_def normal_number_def)
    next
      case False
      with unsigned [of "nat i"] assms Signed_integer show ?thesis
        by (simp add: canonical_number_def normal_number_def)
    qed
  next
    case (Unsigned_integer u)
    with unsigned [of "unat u"] show ?thesis
      by (simp add: canonical_number_def normal_number_def unat_u64_lt_num)
  qed (use assms in simp)
qed

subsection \<open>Arrays\<close>

fun commas :: "string list \<Rightarrow> string" where
  "commas [] = []"
| "commas [t] = t"
| "commas (t # ts) = t @ CHR '','' # commas ts"

lemma join_results_Inr: "join_results (map Inr ts) = Inr (commas ts)"
  by (induction ts rule: commas.induct) simp_all

lemma skip_space_id: "rest \<noteq> [] \<Longrightarrow> \<not> is_space (hd rest) \<Longrightarrow> skip_space rest = rest"
  by (cases rest) (simp_all add: skip_space_def)

lemma skip_space_mark [simp]:
  "skip_space (CHR '','' # r) = CHR '','' # r" "skip_space (CHR '']'' # r) = CHR '']'' # r"
  "skip_space (CHR ''}'' # r) = CHR ''}'' # r" "skip_space (CHR '':'' # r) = CHR '':'' # r"
  "skip_space (CHR 0x22 # r) = CHR 0x22 # r"
  by (simp_all add: skip_space_id is_space_def)

lemma follows_mark [simp]: "follows (CHR '','' # r)" "follows (CHR '']'' # r)" "follows (CHR ''}'' # r)"
  by (simp_all add: follows_def)

lemma skip_space_reads: "reads ops v t \<Longrightarrow> skip_space (t @ rest) = t @ rest"
  by (auto simp: reads_def intro!: skip_space_id)

lemma hd_commas: "t \<noteq> [] \<Longrightarrow> commas (t # ts) \<noteq> [] \<and> hd (commas (t # ts)) = hd t"
  by (cases ts) auto

lemma parse_elements_commas:
  assumes "list_all2 (reads ops) vs ts" and "ts \<noteq> []" and "length (commas ts) < m" and "length (commas ts) < n"
  shows "parse_elements m (parse_value n ops) path index acc (commas ts @ CHR '']'' # rest) =
    Inr (JArray (acc @ vs), rest)"
  using assms
proof (induction vs ts arbitrary: m index acc rule: list_all2_induct)
  case (Cons v vs t ts)
  from Cons.prems(2) obtain m' where m: "m = Suc m'" by (cases m) auto
  show ?case
  proof (cases ts)
    case Nil
    with Cons readsD [OF Cons.hyps(1), of "CHR '']'' # rest" n] show ?thesis by (simp add: m)
  next
    case (Cons t2 ts2)
    have c: "commas (t # ts) = t @ CHR '','' # commas ts" by (simp add: Cons)
    obtain v2 vs2 where "vs = v2 # vs2" "reads ops v2 t2"
      using Cons.hyps(2) Cons by (auto simp: list_all2_Cons2)
    then have s: "skip_space (commas ts @ r) = commas ts @ r" for r
      using hd_commas [of t2 ts2] by (intro skip_space_id) (auto simp: Cons reads_def)
    have "length (commas ts) < m'" "length (commas ts) < n" "length t < n" "ts \<noteq> []"
      using Cons.prems Cons m c by simp_all
    with Cons.IH [of m' "Suc index" "acc @ [v]"] readsD [OF Cons.hyps(1)] show ?thesis
      unfolding c m by (simp add: s)
  qed
qed simp

lemma reads_array:
  assumes "list_all2 (reads ops) vs ts"
  shows "reads ops (JArray vs) (''['' @ commas ts @ '']'')"
proof -
  have "parse_value n ops path (CHR ''['' # commas ts @ CHR '']'' # rest) = Inr (JArray vs, rest)"
    if len: "length (commas ts) + 2 < n" for n path rest
  proof -
    from len obtain n' where n: "n = Suc n'" by (cases n) auto
    show ?thesis
    proof (cases ts)
      case Nil
      with assms show ?thesis by (simp add: n parse_array_def)
    next
      case (Cons t ts2)
      with assms obtain v where t: "reads ops v t" by (auto simp: list_all2_Cons2)
      with Cons hd_commas [of t ts2] have h: "commas ts \<noteq> []" "hd (commas ts) = hd t"
        by (auto simp: reads_def)
      with t have "skip_space (commas ts @ CHR '']'' # rest) = commas ts @ CHR '']'' # rest"
        by (intro skip_space_id) (auto simp: reads_def)
      with parse_elements_commas [OF assms, of n' n' path 0 "[]" rest] Cons h t len show ?thesis
        by (simp add: n parse_array_def Let_def reads_def)
    qed
  qed
  then show ?thesis by (simp add: reads_def is_space_def)
qed

subsection \<open>Objects\<close>

definition member_reads :: "'d binary64_ops \<Rightarrow> string \<times> 'd Value \<Rightarrow> string \<Rightarrow> bool" where
  "member_reads ops m text \<longleftrightarrow>
     (\<exists>kt t. append_string (fst m) = Inr kt \<and> reads ops (snd m) t \<and> text = kt @ CHR '':'' # t)"

lemma member_reads_quote: "member_reads ops m text \<Longrightarrow> \<exists>r. text = CHR 0x22 # r"
  by (auto simp: member_reads_def dest!: parse_string_append_string(3))

lemma parse_member_text:
  assumes "member_reads ops m text" and "follows rest" and "length text < n"
  shows "parse_member (parse_value n ops) path (text @ rest) = Inr (fst m, snd m, rest)"
proof -
  from assms(1) obtain kt t where t: "append_string (fst m) = Inr kt" "reads ops (snd m) t"
    "text = kt @ CHR '':'' # t"
    by (auto simp: member_reads_def)
  have "length t < n" using assms(3) t(3) by simp
  note p = readsD [OF t(2) assms(2) this]
  from parse_string_append_string(3) [OF t(1)] have "\<exists>r. kt = CHR 0x22 # r" .
  with t(3) parse_string_append_string(1) [OF t(1)] p skip_space_reads [OF t(2)] show ?thesis
    by (auto simp: parse_member_def Let_def)
qed

lemma parse_members_commas:
  assumes "list_all2 (member_reads ops) kvs texts" and "texts \<noteq> []"
    and "length (commas texts) < m" and "length (commas texts) < n" and "sorted_wrt string_less (map fst acc)"
    and "distinct (map fst kvs)" and "fst ` set kvs \<inter> fst ` set acc = {}"
  shows "\<exists>acc'. parse_members m (parse_value n ops) path acc (commas texts @ CHR ''}'' # rest) =
      Inr (JObject acc', rest) \<and> sorted_wrt string_less (map fst acc') \<and> set acc' = set acc \<union> set kvs"
  using assms
proof (induction kvs texts arbitrary: m acc rule: list_all2_induct)
  case (Cons kv kvs t ts)
  from Cons.prems(2) obtain m' where m: "m = Suc m'" by (cases m) auto
  obtain acc1 where e: "map_emplace (fst kv) (snd kv) acc = Some acc1"
    using map_emplace_fresh [of "fst kv" acc "snd kv"] Cons.prems(6) by auto
  note a = map_emplace_Some [OF e Cons.prems(4)]
  show ?case
  proof (cases ts)
    case Nil
    with Cons.hyps(2) have "kvs = []" by simp
    with Nil Cons.prems parse_member_text [OF Cons.hyps(1), of "CHR ''}'' # rest" n] a e show ?thesis
      by (simp add: m)
  next
    case (Cons t2 ts2)
    have c: "commas (t # ts) = t @ CHR '','' # commas ts" by (simp add: Cons)
    obtain kv2 kvs2 where kv2: "kvs = kv2 # kvs2" "member_reads ops kv2 t2"
      using Cons.hyps(2) Cons by (auto simp: list_all2_Cons2)
    from member_reads_quote [OF kv2(2)] hd_commas [of t2 ts2]
    have s: "skip_space (commas ts @ r) = commas ts @ r" for r
      by (intro skip_space_id) (auto simp: Cons is_space_def)
    have "length (commas ts) < m'" "length (commas ts) < n" "length t < n" "ts \<noteq> []"
      using Cons.prems Cons m c by simp_all
    moreover have "fst ` set kvs \<inter> fst ` set acc1 = {}" "distinct (map fst kvs)"
      using a Cons.prems(5,6) by auto
    ultimately obtain acc' where
      "parse_members m' (parse_value n ops) path acc1 (commas ts @ CHR ''}'' # rest) = Inr (JObject acc', rest)"
      "sorted_wrt string_less (map fst acc')" "set acc' = set acc1 \<union> set kvs"
      using Cons.IH [of m' acc1] a by blast
    with parse_member_text [OF Cons.hyps(1), of "CHR '','' # commas ts @ CHR ''}'' # rest" n] \<open>length t < n\<close> a e
    show ?thesis unfolding c m by (auto simp: s)
  qed
qed simp

lemma reads_object:
  assumes kvs: "list_all2 (member_reads ops) kvs texts" and "distinct (map fst kvs)"
    and "sorted_wrt string_less (map fst ms)" and "set ms = set kvs"
  shows "reads ops (JObject ms) (''{'' @ commas texts @ ''}'')"
proof -
  have "parse_value n ops path (CHR ''{'' # commas texts @ CHR ''}'' # rest) = Inr (JObject ms, rest)"
    if len: "length (commas texts) + 2 < n" for n path rest
  proof -
    from len obtain n' where n: "n = Suc n'" by (cases n) auto
    show ?thesis
    proof (cases texts)
      case Nil
      with assms show ?thesis by (simp add: n parse_object_def)
    next
      case (Cons t ts2)
      with kvs obtain kv where t: "member_reads ops kv t" by (auto simp: list_all2_Cons2)
      with Cons hd_commas [of t ts2] member_reads_quote [OF t] have h: "commas texts \<noteq> []" "hd (commas texts) = CHR 0x22"
        by auto
      then have s: "skip_space (commas texts @ CHR ''}'' # rest) = commas texts @ CHR ''}'' # rest"
        by (intro skip_space_id) (auto simp: is_space_def)
      obtain acc' where p: "parse_members n' (parse_value n' ops) path [] (commas texts @ CHR ''}'' # rest) =
          Inr (JObject acc', rest)" and acc': "sorted_wrt string_less (map fst acc')" "set acc' = set kvs"
        using parse_members_commas [OF kvs, of n' n' "[]" path rest] assms(2) Cons len n by auto
      have "acc' = ms" using sorted_keys_unique [OF acc'(1) assms(3)] acc'(2) assms(4) by simp
      with p s h show ?thesis by (simp add: n parse_object_def Let_def)
    qed
  qed
  then show ?thesis by (simp add: reads_def is_space_def)
qed

lemma insert_member_map:
  "\<exists>ms'. insert_member (g m) (map g ms) = map g ms' \<and> mset ms' = add_mset m (mset ms)"
proof (induction ms)
  case (Cons m2 ms)
  then obtain ms' where "insert_member (g m) (map g ms) = map g ms'" "mset ms' = add_mset m (mset ms)" by blast
  then show ?case
    by (cases "units_less (fst (g m)) (fst (g m2))") (auto intro: exI [of _ "m # m2 # ms"] exI [of _ "m2 # ms'"])
qed (auto intro: exI [of _ "[m]"])

lemma sort_members_map: "\<exists>ms'. sort_members (map g ms) = map g ms' \<and> mset ms' = mset ms"
proof (induction ms)
  case (Cons m ms)
  then obtain ms' where s: "sort_members (map g ms) = map g ms'" "mset ms' = mset ms" by blast
  from insert_member_map [of g m ms'] s show ?case by (auto simp: sort_members_def)
qed (simp add: sort_members_def)

lemma ordered_members_map:
  assumes "\<forall>m \<in> set ms. utf8 (fst m)"
  shows "\<exists>ms'. ordered_members (map (\<lambda>m. (fst m, f m)) ms) = Inr (map (\<lambda>m. (fst m, f m)) ms') \<and> mset ms' = mset ms"
proof -
  define U where "U m = (case utf16_key (fst m) of Inl _ \<Rightarrow> [] | Inr units \<Rightarrow> units)" for m :: "string \<times> 'a"
  have U: "\<forall>m \<in> set ms. utf16_key (fst m) = Inr (U m)"
  proof
    fix m
    assume "m \<in> set ms"
    with assms obtain cps where "decode_utf8 (fst m) = Inr cps" by (auto simp: utf8_iff)
    then show "utf16_key (fst m) = Inr (U m)" by (simp add: U_def utf16_key_def)
  qed
  let ?g = "\<lambda>m. (U m, fst m, f m)"
  obtain ms' where s: "sort_members (map ?g ms) = map ?g ms'" "mset ms' = mset ms"
    using sort_members_map [of ?g ms] by blast
  have "map_result (\<lambda>(key, child). case utf16_key key of Inl e \<Rightarrow> Inl e | Inr units \<Rightarrow> Inr (units, key, child))
      (map (\<lambda>m. (fst m, f m)) ms) = Inr (map ?g ms)"
    using U by (simp add: map_result_Inr list_all2_conv_all_nth)
  with s show ?thesis by (intro exI [of _ ms']) (simp add: ordered_members_def comp_def)
qed

subsection \<open>The round trip\<close>

lemma sorted_keys_distinct: "sorted_wrt string_less ks \<Longrightarrow> distinct ks"
  by (induction ks) auto

lemma canonical_reads_object:
  assumes wf: "well_formed ops (JObject ms)"
    and children: "\<forall>m \<in> set ms. \<exists>t. append_canonical ops (snd m) = Inr t \<and> reads ops (normal (snd m)) t"
  shows "\<exists>t. append_canonical ops (JObject ms) = Inr t \<and> reads ops (normal (JObject ms)) t"
proof -
  let ?n = "\<lambda>m. (fst m, normal (snd m))"
  obtain ms' where o: "ordered_members (map (\<lambda>m. (fst m, append_canonical ops (snd m))) ms) =
      Inr (map (\<lambda>m. (fst m, append_canonical ops (snd m))) ms')" and p: "mset ms' = mset ms"
    using ordered_members_map [of ms "\<lambda>m. append_canonical ops (snd m)"] wf by (auto simp: list_all_iff)
  have set: "set ms' = set ms" using p by (metis set_mset_mset)
  have "\<forall>m \<in> set ms'. \<exists>t. member_text (fst m) (append_canonical ops (snd m)) = Inr t \<and> member_reads ops (?n m) t"
  proof
    fix m
    assume "m \<in> set ms'"
    with set children wf obtain t where "append_canonical ops (snd m) = Inr t" "reads ops (normal (snd m)) t" "utf8 (fst m)"
      by (auto simp: list_all_iff)
    with append_string_Some [of "fst m"] show "\<exists>t. member_text (fst m) (append_canonical ops (snd m)) = Inr t \<and>
        member_reads ops (?n m) t"
      by (auto simp: member_text_def member_reads_def)
  qed
  then obtain T where T: "\<forall>m \<in> set ms'. member_text (fst m) (append_canonical ops (snd m)) = Inr (T m) \<and>
      member_reads ops (?n m) (T m)"
    by (rule bchoice [THEN exE])
  have "join_results (map (\<lambda>m. member_text (fst m) (append_canonical ops (snd m))) ms') = Inr (commas (map T ms'))"
    using T join_results_Inr [of "map T ms'"] by (simp add: comp_def cong: map_cong)
  then have "append_canonical ops (JObject ms) = Inr (''{'' @ commas (map T ms') @ ''}'')"
    using o by (simp add: comp_def)
  moreover have "reads ops (JObject (map ?n ms)) (''{'' @ commas (map T ms') @ ''}'')"
  proof (rule reads_object)
    show "list_all2 (member_reads ops) (map ?n ms') (map T ms')"
      using T by (simp add: list_all2_conv_all_nth)
    have "sorted_wrt string_less (map fst ms)" using wf by simp
    then have "distinct (map fst ms)" by (rule sorted_keys_distinct)
    then show "distinct (map fst (map ?n ms'))"
      using p by (simp add: comp_def) (metis distinct_map mset_eq_imp_distinct_iff set)
  qed (use wf set in \<open>simp_all add: comp_def\<close>)
  ultimately show ?thesis unfolding normal.simps by blast
qed

lemma canonical_reads:
  "well_formed ops v \<Longrightarrow> exact v \<Longrightarrow> \<exists>t. append_canonical ops v = Inr t \<and> reads ops (normal v) t"
proof (induction v)
  case (JNumber n)
  then show ?case using reads_number [of ops n] by simp
next
  case (JString s)
  then obtain t where t: "append_string s = Inr t" using append_string_Some [of s] by auto
  obtain t' where t': "t = CHR 0x22 # t'" using parse_string_append_string(3) [OF t] by blast
  have "parse_value n ops path (t @ rest) = Inr (JString s, rest)" if len: "length t < n" for n path rest
  proof -
    from len obtain n' where n: "n = Suc n'" by (cases n) auto
    with parse_string_append_string(1) [OF t, of path rest] t' show ?thesis by simp
  qed
  with t t' show ?case by (auto simp: reads_def is_space_def)
next
  case (JArray vs)
  then have "\<forall>v \<in> set vs. \<exists>t. append_canonical ops v = Inr t \<and> reads ops (normal v) t"
    by (auto simp: list_all_iff)
  then obtain T where T: "\<forall>v \<in> set vs. append_canonical ops v = Inr (T v) \<and> reads ops (normal v) (T v)"
    by (rule bchoice [THEN exE])
  then have "join_results (map (append_canonical ops) vs) = Inr (commas (map T vs))"
    using join_results_Inr [of "map T vs"] by (simp add: comp_def cong: map_cong)
  moreover have "reads ops (JArray (map normal vs)) (''['' @ commas (map T vs) @ '']'')"
    using T by (intro reads_array) (simp add: list_all2_conv_all_nth)
  ultimately show ?case by simp
next
  case (JObject ms)
  then show ?case
    by (intro canonical_reads_object) (fastforce simp: list_all_iff)+
qed (auto simp: reads_def is_space_def parse_literal_def less_Suc_eq_0_disj elim: lessE)

lemma unat_word_of_int_u64: "0 \<le> i \<Longrightarrow> i < 9223372036854775808 \<Longrightarrow> unat (word_of_int i :: u64) = nat i"
  by (simp add: unat_eq_nat_uint uint_word_of_int_eq take_bit_int_eq_self)

lemma canonicalize_normal:
  "canonicalize ops (normal v) = canonicalize ops v" if "well_formed ops v" "exact v"
proof -
  have "append_canonical ops (normal v) = append_canonical ops v" if "well_formed ops v" "exact v" for v
    using that
  proof (induction v)
    case (JNumber n)
    then show ?case
      by (auto simp: canonical_number_def normal_number_def unat_word_of_int_u64 split: Number_value.splits)
  next
    case (JArray vs)
    then have "map (append_canonical ops \<circ> normal) vs = map (append_canonical ops) vs"
      by (auto simp: list_all_iff)
    then show ?case by (simp only: normal.simps append_canonical.simps map_map)
  next
    case (JObject ms)
    then have "map ((\<lambda>m. (fst m, append_canonical ops (snd m))) \<circ> (\<lambda>m. (fst m, normal (snd m)))) ms =
        map (\<lambda>m. (fst m, append_canonical ops (snd m))) ms"
      by (fastforce simp: list_all_iff)
    then show ?case by (simp only: normal.simps append_canonical.simps map_map)
  qed simp_all
  then show ?thesis using that by (simp add: canonicalize_def)
qed

lemma canonicalize_parse:
  assumes "well_formed ops v" and "exact v"
  shows "\<exists>t. canonicalize ops v = Inr t \<and> json_parse ops t = Inr (normal v)"
proof -
  obtain t where t: "append_canonical ops v = Inr t" "reads ops (normal v) t"
    using canonical_reads [OF assms] by blast
  have "follows []" by (simp add: follows_def)
  from readsD [OF t(2) this, of "length t + 1" "''$''"] skip_space_reads [OF t(2), of "[]"]
  have "json_parse ops t = Inr (normal v)"
    unfolding json_parse_def parse_document_def by (simp del: parse_value.simps add: skip_space_def [of "[]"])
  with t(1) show ?thesis by (simp add: canonicalize_def)
qed

text \<open>
  C29. Every well-formed value without binary64 numbers has a canonical text, and the reader reads
  that text back as the same value, up to the spelling of its integers; writing that value again
  gives the same text.
\<close>

theorem canonical_round_trip:
  assumes "well_formed ops v" and "exact v"
  shows "\<exists>t. canonicalize ops v = Inr t \<and> json_parse ops t = Inr (normal v) \<and>
    canonicalize ops (normal v) = Inr t"
  using canonicalize_parse [OF assms] canonicalize_normal [OF assms] by auto

text \<open>
  The canonical text identifies a value: two well-formed values without binary64 numbers have
  the same canonical text exactly when they are equal up to the spelling of their integers.
\<close>

theorem canonical_text_identifies:
  assumes "well_formed ops v" and "exact v" and "well_formed ops w" and "exact w"
  shows "canonicalize ops v = canonicalize ops w \<longleftrightarrow> normal v = normal w"
  using canonicalize_parse [OF assms(1,2)] canonicalize_parse [OF assms(3,4)]
    canonicalize_normal [OF assms(1,2)] canonicalize_normal [OF assms(3,4)]
  by auto

subsection \<open>Examples and the binary64 gap\<close>

definition example_ops :: "unit binary64_ops" where
  "example_ops = \<lparr>fp_from_chars = (\<lambda>t. if t = ''1e20'' then Some () else None), fp_isfinite = (\<lambda>_. True),
     fp_is_zero = (\<lambda>_. False), fp_to_chars = (\<lambda>_. Some ''1e+20''), fp_positional = (\<lambda>_. True)\<rparr>"

definition example_value :: "unit Value" where
  "example_value = JObject [(''a'', JNumber (Number ''-0'' (Signed_integer 0))),
     (''b'', JArray [JNull, JString ''x'', JNumber (Number ''-7'' (Signed_integer (- 7)))])]"

lemma utf8_ascii: "utf8 ''a''" "utf8 ''b''" "utf8 ''x''"
  by (simp_all add: utf8_def utf8_lead_def byte_def utf8_accept_def)

lemma example_value_ok: "well_formed example_ops example_value" "exact example_value"
  by (simp_all add: example_value_def utf8_ascii byte_def)

theorem canonical_round_trip_witness:
  "\<exists>t. canonicalize example_ops example_value = Inr t \<and>
     json_parse example_ops t = Inr (JObject [(''a'', JNumber (Number ''0'' (Unsigned_integer 0))),
       (''b'', JArray [JNull, JString ''x'', JNumber (Number ''-7'' (Signed_integer (- 7)))])])"
proof -
  have "std_to_string 7 = ''7''" by (simp add: std_to_string.simps char_of_eq_iff)
  then have "normal example_value = JObject [(''a'', JNumber (Number ''0'' (Unsigned_integer 0))),
       (''b'', JArray [JNull, JString ''x'', JNumber (Number ''-7'' (Signed_integer (- 7)))])]"
    by (simp add: example_value_def normal_number_def std_to_string_0)
  with canonical_round_trip [OF example_value_ok] show ?thesis by auto
qed

theorem canonical_text_identifies_witness:
  "canonicalize example_ops example_value \<noteq> canonicalize example_ops JNull \<and>
   canonicalize example_ops (JNumber (Number ''-0'' (Signed_integer 0))) =
   canonicalize example_ops (JNumber (Number ''0'' (Unsigned_integer 0)))"
  using canonical_text_identifies [OF example_value_ok, of JNull]
    canonical_text_identifies [of example_ops "JNumber (Number ''-0'' (Signed_integer 0))" "JNumber (Number ''0'' (Unsigned_integer 0))"]
  by (simp add: example_value_def normal_number_def)

text \<open>
  Canonical text of a binary64 number need not be readable: a value the reader accepts from the
  literal \<^verbatim>\<open>1e20\<close>, whose shortest form is \<open>1e+20\<close>, is written without exponent as RFC 8785 asks, and the
  reader then takes the text for an integer outside the 64-bit range and rejects it.
\<close>

theorem canonical_binary64_unreadable:
  assumes "fp_from_chars ops ''1e20'' = Some d" and "fp_isfinite ops d" and "\<not> fp_is_zero ops d"
    and "fp_to_chars ops d = Some ''1e+20''" and "fp_positional ops d"
  shows "json_parse ops ''1e20'' = Inr (JNumber (Number ''1e20'' (Binary64 d))) \<and>
    canonicalize ops (JNumber (Number ''1e20'' (Binary64 d))) = Inr ''100000000000000000000'' \<and>
    json_parse ops ''100000000000000000000'' =
      Inl [ValidationError out_of_range ''$'' ''JCS-I64-RANGE'' ''nonnegative integer is outside unsigned 64-bit range'']"
proof (intro conjI)
  have digit: "is_digit (CHR ''0'')" "is_digit (CHR ''1'')" "is_digit (CHR ''2'')" "\<not> is_digit (CHR ''e'')"
    by (simp_all add: is_digit_def byte_def)
  note parse = json_parse_def parse_document_def skip_space_def is_space_def parse_number_def scan_integer_def
    scan_fraction_def scan_exponent_def make_number_def Let_def digit
  show "json_parse ops ''1e20'' = Inr (JNumber (Number ''1e20'' (Binary64 d)))"
    using assms by (simp add: parse)
  show "json_parse ops ''100000000000000000000'' = Inl [ValidationError out_of_range ''$'' ''JCS-I64-RANGE''
      ''nonnegative integer is outside unsigned 64-bit range'']"
    by (simp add: parse from_chars_u64_def digits_value_def byte_def)
  have "from_chars_int ''20'' = Some 20"
    by (simp add: from_chars_int_def digits_value_def byte_def digit)
  moreover have "replicate 20 (CHR ''0'') = ''00000000000000000000''" by (simp add: numeral_eq_Suc)
  ultimately show "canonicalize ops (JNumber (Number ''1e20'' (Binary64 d))) = Inr ''100000000000000000000''"
    using assms by (simp add: canonicalize_def canonical_number_def canonical_binary64_def binary64_layout_def Let_def)
qed

theorem canonical_binary64_unreadable_witness:
  "canonicalize example_ops (JNumber (Number ''1e20'' (Binary64 ()))) = Inr ''100000000000000000000''"
  using canonical_binary64_unreadable [of example_ops "()"] by (simp add: example_ops_def)

end
