(* ===== verification/Json_Utf8.thy ===== *)
theory Json_Utf8
  imports Json_Parse Raw_Observations
begin

text \<open>
  UTF-8 in the program: the JSON layer's decoder accepts exactly the encodings of sequences of
  Unicode scalar values, inverts the encoder it uses for escapes, and accepts the same strings as
  the independent check of the raw-observation layer.
\<close>

subsection \<open>Single bytes\<close>

lemma small_cases:
  assumes "\<forall>n \<in> set [0..<m]. P (of_nat n :: u32)" and "unat w < m"
  shows "P w"
proof -
  have "w = of_nat (unat w)" "unat w \<in> set [0..<m]" using assms(2) by simp_all
  with assms(1) show ?thesis by metis
qed

lemma byte_to_char: "w < 256 \<Longrightarrow> byte (to_char w) = w"
  by (simp add: word_eq_unat unat_byte to_char_def word_less_nat_alt)

lemma byte_ucast: "byte c = ucast (of_char c :: u8)"
proof -
  have "byte c = of_nat (of_char c)" "(of_char c :: u8) = of_nat (of_char c)"
    by (simp_all only: byte_def of_nat_of_char)
  then show ?thesis by (simp only: unsigned_of_nat) (simp add: take_bit_nat_eq_self)
qed

lemma byte_and_ff: "byte c AND 0xff = byte c"
proof -
  have "(0xff :: u32) = mask 8" by (simp add: mask_eq_exp_minus_1)
  moreover have "take_bit 8 (byte c) = byte c"
    by (simp add: byte_ucast take_bit_word_eq_self flip: unsigned_take_bit_eq)
  ultimately show ?thesis by (simp add: take_bit_eq_mask)
qed

lemma byte_split:
  assumes "high OR low = (0xff :: u32)" and "byte c AND high = v"
  shows "byte c = v OR (byte c AND low)"
proof -
  have "byte c = byte c AND (high OR low)" by (simp add: assms(1) byte_and_ff)
  then show ?thesis using assms(2) by (simp add: bit.conj_disj_distrib)
qed

lemma byte_and:
  "byte c AND 0xe0 = ucast ((of_char c :: u8) AND 0xe0)" "byte c AND 0xf0 = ucast ((of_char c :: u8) AND 0xf0)"
  "byte c AND 0xf8 = ucast ((of_char c :: u8) AND 0xf8)" "byte c AND 0x1f = ucast ((of_char c :: u8) AND 0x1f)"
  "byte c AND 0x0f = ucast ((of_char c :: u8) AND 0x0f)" "byte c AND 0x07 = ucast ((of_char c :: u8) AND 0x07)"
  "byte c AND 0xc0 = ucast ((of_char c :: u8) AND 0xc0)" "byte c AND 0x3f = ucast ((of_char c :: u8) AND 0x3f)"
  by (simp_all add: byte_ucast unsigned_and_eq)

lemma sextet_mask: "t AND 0x3f = take_bit 6 (t :: u32)"
  by (simp add: take_bit_eq_mask mask_eq_exp_minus_1)

text \<open>One more continuation byte behind the bits read so far.\<close>

lemma sextet:
  assumes "take_bit 26 l = l"
  shows "drop_bit 6 (push_bit 6 l OR (t AND 0x3f)) = (l :: u32)"
    and "(push_bit 6 l OR (t AND 0x3f)) AND 0x3f = t AND 0x3f"
    and "unat (push_bit 6 l OR (t AND 0x3f)) = 64 * unat l + unat (t AND 0x3f)"
proof -
  have l: "bit l n \<Longrightarrow> n < 26" for n using assms by (metis bit_take_bit_iff)
  show "drop_bit 6 (push_bit 6 l OR (t AND 0x3f)) = l"
    unfolding sextet_mask by (rule bit_word_eqI) (use l in \<open>auto simp: bit_simps\<close>)
  show "(push_bit 6 l OR (t AND 0x3f)) AND 0x3f = t AND 0x3f"
    unfolding sextet_mask by (rule bit_word_eqI) (auto simp: bit_simps)
  have "push_bit 6 l AND take_bit 6 t = 0" by (rule bit_word_eqI) (auto simp: bit_simps)
  then have "push_bit 6 l OR (t AND 0x3f) = push_bit 6 l + take_bit 6 t"
    unfolding sextet_mask by (simp add: disjunctive_add_eq_or)
  also have "\<dots> = of_nat (64 * unat l + unat (take_bit 6 t))" by (simp add: push_bit_eq_mult)
  finally have "push_bit 6 l OR (t AND 0x3f) = of_nat (64 * unat l + unat (take_bit 6 t))" .
  moreover have "unat l < 2 ^ 26" by (metis assms unsigned_take_bit_eq take_bit_nat_less_exp)
  moreover have "unat (take_bit 6 t) < 2 ^ 6" by (metis unsigned_take_bit_eq take_bit_nat_less_exp)
  ultimately show "unat (push_bit 6 l OR (t AND 0x3f)) = 64 * unat l + unat (t AND 0x3f)"
    unfolding sextet_mask by (intro of_nat_inverse [OF sym]) simp_all
qed

lemma sextet_join: "push_bit 6 (drop_bit 6 w) OR (w AND 0x3f) = (w :: u32)"
  unfolding sextet_mask by (rule bit_word_eqI) (auto simp: bit_simps)

subsection \<open>The encoder's bytes\<close>

text \<open>The bits of one lead byte and of one continuation byte.\<close>

lemma lead_bits2:
  assumes "unat w < 32"
  shows "(0xc0 OR w) AND 0xe0 = 0xc0 \<and> (0xc0 OR w) AND 0x1f = w \<and> \<not> 0xc0 OR w \<le> 0x7f \<and> 0xc0 OR w < (256 :: u32)"
  using assms by (rule small_cases [rotated]) code_simp

lemma lead_bits3:
  assumes "unat w < 16"
  shows "(0xe0 OR w) AND 0xf0 = 0xe0 \<and> (0xe0 OR w) AND 0x0f = w \<and> (0xe0 OR w) AND 0xe0 \<noteq> 0xc0 \<and>
     \<not> 0xe0 OR w \<le> 0x7f \<and> 0xe0 OR w < (256 :: u32)"
  using assms by (rule small_cases [rotated]) code_simp

lemma lead_bits4:
  assumes "unat w < 8"
  shows "(0xf0 OR w) AND 0xf8 = 0xf0 \<and> (0xf0 OR w) AND 0x07 = w \<and> (0xf0 OR w) AND 0xe0 \<noteq> 0xc0 \<and>
     (0xf0 OR w) AND 0xf0 \<noteq> 0xe0 \<and> \<not> 0xf0 OR w \<le> 0x7f \<and> 0xf0 OR w < (256 :: u32)"
  using assms by (rule small_cases [rotated]) code_simp

lemma continuation_bits:
  "byte (to_char (0x80 OR (w AND 0x3f))) AND 0xc0 = 0x80"
  "byte (to_char (0x80 OR (w AND 0x3f))) AND 0x3f = w AND 0x3f"
proof -
  have "unat (w AND 0x3f) < 64"
    unfolding sextet_mask using take_bit_nat_less_exp [of 6 "unat w"] by (simp flip: unsigned_take_bit_eq)
  then have "(0x80 OR (w AND 0x3f)) AND 0xc0 = 0x80 \<and> (0x80 OR (w AND 0x3f)) AND 0x3f = w AND 0x3f \<and>
      0x80 OR (w AND 0x3f) < 256"
    by (rule small_cases [rotated]) code_simp
  then show "byte (to_char (0x80 OR (w AND 0x3f))) AND 0xc0 = 0x80"
    "byte (to_char (0x80 OR (w AND 0x3f))) AND 0x3f = w AND 0x3f"
    by (simp_all add: byte_to_char)
qed

lemma drop_bit_split: "drop_bit 12 w = drop_bit 6 (drop_bit 6 w)" "drop_bit 18 w = drop_bit 6 (drop_bit 6 (drop_bit 6 (w :: u32)))"
  by simp_all

lemma unat_drop_bit: "unat (drop_bit n w) = unat (w :: u32) div 2 ^ n"
  using unsigned_less [of w, where 'a = nat]
  by (simp add: unsigned_drop_bit_eq drop_bit_eq_div [where 'a = nat] take_bit_nat_eq_self)

lemma utf8_tail_join:
  "utf8_tail (drop_bit 6 w) [to_char (0x80 OR (w AND 0x3f))] = Some w"
  "utf8_tail (drop_bit 12 w) [to_char (0x80 OR (drop_bit 6 w AND 0x3f)), to_char (0x80 OR (w AND 0x3f))] = Some w"
  "utf8_tail (drop_bit 18 w) [to_char (0x80 OR (drop_bit 12 w AND 0x3f)),
     to_char (0x80 OR (drop_bit 6 w AND 0x3f)), to_char (0x80 OR (w AND 0x3f))] = Some w"
  using sextet_join [of w] sextet_join [of "drop_bit 6 w"] sextet_join [of "drop_bit 12 w"]
  by (simp_all add: continuation_bits)

lemma decode_append:
  assumes "append_utf8 cp = Some bytes"
  shows "decode_utf8 (bytes @ rest) = (case decode_utf8 rest of Inl errors \<Rightarrow> Inl errors | Inr cps \<Rightarrow> Inr (cp # cps))"
proof -
  consider (one) "cp \<le> 0x7f" | (two) "\<not> cp \<le> 0x7f" "cp \<le> 0x7ff" | (three) "\<not> cp \<le> 0x7ff" "cp \<le> 0xffff" "\<not> (cp \<ge> 0xd800 \<and> cp \<le> 0xdfff)"
    | (four) "\<not> cp \<le> 0xffff" "cp \<le> 0x10ffff"
    using assms by (auto simp: append_utf8_def split: if_splits)
  then show ?thesis
  proof cases
    case one
    then have "byte (to_char cp) = cp" by (intro byte_to_char) (simp add: word_le_nat_alt word_less_nat_alt)
    moreover have "utf8_accept 1 cp" using one by (simp add: utf8_accept_def word_le_nat_alt word_less_nat_alt)
    ultimately show ?thesis using assms one by (auto simp: append_utf8_def utf8_lead_def)
  next
    case two
    have "unat (drop_bit 6 cp) < 32" using two by (simp add: unat_drop_bit word_le_nat_alt div_less_iff_less_mult)
    note l = lead_bits2 [OF this]
    have "utf8_accept 2 cp" using two by (simp add: utf8_accept_def word_le_nat_alt word_less_nat_alt)
    with l assms two show ?thesis
      by (auto simp: append_utf8_def utf8_lead_def byte_to_char utf8_tail_join simp del: utf8_tail.simps)
  next
    case three
    have "unat (drop_bit 12 cp) < 16" using three by (simp add: unat_drop_bit word_le_nat_alt div_less_iff_less_mult)
    note l = lead_bits3 [OF this]
    have "utf8_accept 3 cp" "\<not> cp \<le> 0x7f" using three by (auto simp: utf8_accept_def word_le_nat_alt word_less_nat_alt)
    with l assms three show ?thesis
      by (auto simp: append_utf8_def utf8_lead_def byte_to_char utf8_tail_join simp del: utf8_tail.simps)
  next
    case four
    have "unat (drop_bit 18 cp) < 8" using four by (simp add: unat_drop_bit word_le_nat_alt div_less_iff_less_mult)
    note l = lead_bits4 [OF this]
    have "utf8_accept 4 cp" "\<not> cp \<le> 0x7f" "\<not> cp \<le> 0x7ff"
      using four by (auto simp: utf8_accept_def word_le_nat_alt word_less_nat_alt)
    with l assms four show ?thesis
      by (auto simp: append_utf8_def utf8_lead_def byte_to_char utf8_tail_join simp del: utf8_tail.simps)
  qed
qed

subsection \<open>The decoder accepts only encodings\<close>

lemma unat_and_le: "unat (w AND m) \<le> unat (m :: u32)"
  using word_and_le1 [of w m] by (simp add: word_le_nat_alt)

lemma small_take_bit: "unat (w :: u32) < 2 ^ n \<Longrightarrow> take_bit n w = w"
  by (simp add: word_eq_unat unsigned_take_bit_eq take_bit_nat_eq_self)

lemma append_join2:
  assumes "byte c AND 0xe0 = 0xc0" and "byte d AND 0xc0 = 0x80"
    and "cp = push_bit 6 (byte c AND 0x1f) OR (byte d AND 0x3f)" and "utf8_accept 2 cp"
  shows "append_utf8 cp = Some [c, d]"
proof -
  have b: "unat (byte c AND 0x1f) \<le> 31" "unat (byte d AND 0x3f) \<le> 63"
    using unat_and_le [of "byte c" "0x1f"] unat_and_le [of "byte d" "0x3f"] by simp_all
  then have "take_bit 26 (byte c AND 0x1f) = byte c AND 0x1f" by (intro small_take_bit) simp
  note s = sextet [OF this, of "byte d", folded assms(3)]
  have "cp \<le> 0x7ff" using s(3) b by (simp add: word_le_nat_alt)
  moreover have "\<not> cp \<le> 0x7f" using assms(4) by (simp add: utf8_accept_def word_le_nat_alt word_less_nat_alt)
  moreover have "0xc0 OR (byte c AND 0x1f) = byte c" "0x80 OR (byte d AND 0x3f) = byte d"
    using byte_split [of "0xe0" "0x1f" c] byte_split [of "0xc0" "0x3f" d] assms(1,2) by simp_all
  ultimately show ?thesis using s(1,2) by (simp add: append_utf8_def)
qed

lemma append_join3:
  assumes "byte c AND 0xf0 = 0xe0" and "byte d AND 0xc0 = 0x80" and "byte e AND 0xc0 = 0x80"
    and "m = push_bit 6 (byte c AND 0x0f) OR (byte d AND 0x3f)"
    and "cp = push_bit 6 m OR (byte e AND 0x3f)" and "utf8_accept 3 cp"
  shows "append_utf8 cp = Some [c, d, e]"
proof -
  have b: "unat (byte c AND 0x0f) \<le> 15" "unat (byte d AND 0x3f) \<le> 63" "unat (byte e AND 0x3f) \<le> 63"
    using unat_and_le [of "byte c" "0x0f"] unat_and_le [of "byte d" "0x3f"] unat_and_le [of "byte e" "0x3f"] by simp_all
  then have "take_bit 26 (byte c AND 0x0f) = byte c AND 0x0f" by (intro small_take_bit) simp
  note m = sextet [OF this, of "byte d", folded assms(4)]
  then have "take_bit 26 m = m" using b by (intro small_take_bit) simp
  note s = sextet [OF this, of "byte e", folded assms(5)]
  have "cp \<le> 0xffff" using s(3) m(3) b by (simp add: word_le_nat_alt)
  moreover have "\<not> cp \<le> 0x7f" "\<not> cp \<le> 0x7ff" "\<not> (cp \<ge> 0xd800 \<and> cp \<le> 0xdfff)"
    using assms(6) by (auto simp: utf8_accept_def word_le_nat_alt word_less_nat_alt)
  moreover have "0xe0 OR (byte c AND 0x0f) = byte c" "0x80 OR (byte d AND 0x3f) = byte d" "0x80 OR (byte e AND 0x3f) = byte e"
    using byte_split [of "0xf0" "0x0f" c] byte_split [of "0xc0" "0x3f" d] byte_split [of "0xc0" "0x3f" e] assms(1-3)
    by simp_all
  moreover have "drop_bit 12 cp = byte c AND 0x0f" unfolding drop_bit_split using s(1) m(1) by simp
  ultimately show ?thesis using s(1,2) m(1,2) by (simp add: append_utf8_def)
qed

lemma append_join4:
  assumes "byte c AND 0xf8 = 0xf0" and "byte d AND 0xc0 = 0x80" and "byte e AND 0xc0 = 0x80" and "byte f AND 0xc0 = 0x80"
    and "l = push_bit 6 (byte c AND 0x07) OR (byte d AND 0x3f)" and "m = push_bit 6 l OR (byte e AND 0x3f)"
    and "cp = push_bit 6 m OR (byte f AND 0x3f)" and "utf8_accept 4 cp"
  shows "append_utf8 cp = Some [c, d, e, f]"
proof -
  have b: "unat (byte c AND 0x07) \<le> 7" "unat (byte d AND 0x3f) \<le> 63" "unat (byte e AND 0x3f) \<le> 63"
    using unat_and_le [of "byte c" "0x07"] unat_and_le [of "byte d" "0x3f"] unat_and_le [of "byte e" "0x3f"] by simp_all
  then have "take_bit 26 (byte c AND 0x07) = byte c AND 0x07" by (intro small_take_bit) simp
  note l = sextet [OF this, of "byte d", folded assms(5)]
  then have "take_bit 26 l = l" using b by (intro small_take_bit) simp
  note m = sextet [OF this, of "byte e", folded assms(6)]
  then have "take_bit 26 m = m" using b l(3) by (intro small_take_bit) simp
  note s = sextet [OF this, of "byte f", folded assms(7)]
  have "cp \<le> 0x10ffff" "\<not> cp \<le> 0x7f" "\<not> cp \<le> 0x7ff" "\<not> cp \<le> 0xffff"
    using assms(8) by (auto simp: utf8_accept_def word_le_nat_alt word_less_nat_alt)
  moreover have "0xf0 OR (byte c AND 0x07) = byte c" "0x80 OR (byte d AND 0x3f) = byte d"
    "0x80 OR (byte e AND 0x3f) = byte e" "0x80 OR (byte f AND 0x3f) = byte f"
    using byte_split [of "0xf8" "0x07" c] byte_split [of "0xc0" "0x3f" d] byte_split [of "0xc0" "0x3f" e]
      byte_split [of "0xc0" "0x3f" f] assms(1-4)
    by simp_all
  moreover have "drop_bit 12 cp = l" "drop_bit 18 cp = byte c AND 0x07"
    unfolding drop_bit_split using s(1) m(1) l(1) by simp_all
  ultimately show ?thesis using s(1,2) m(1,2) l(1,2) by (simp add: append_utf8_def)
qed

lemma take_Suc_tl: "n \<le> length xs \<Longrightarrow> take n xs = (case n of 0 \<Rightarrow> [] | Suc k \<Rightarrow> hd xs # take k (tl xs))"
  by (cases xs) (auto split: nat.split)

lemma utf8_lead_cases:
  "utf8_lead b = Some (lead, len) \<Longrightarrow>
     b \<le> 0x7f \<and> len = 1 \<and> lead = b \<or> b AND 0xe0 = 0xc0 \<and> len = 2 \<and> lead = b AND 0x1f \<or>
     b AND 0xf0 = 0xe0 \<and> len = 3 \<and> lead = b AND 0x0f \<or> b AND 0xf8 = 0xf0 \<and> len = 4 \<and> lead = b AND 0x07"
  unfolding utf8_lead_def by (simp split: if_split_asm)

lemma decode_Cons:
  assumes "decode_utf8 (c # rest) = Inr cps"
  obtains bytes cp rest' cps' where "c # rest = bytes @ rest'" "append_utf8 cp = Some bytes" "cps = cp # cps'"
    "decode_utf8 rest' = Inr cps'" "length rest' < Suc (length rest)"
proof -
  from assms obtain lead len cp cps' where l: "utf8_lead (byte c) = Some (lead, len)" "len \<le> Suc (length rest)"
    and t: "utf8_tail lead (take (len - 1) rest) = Some cp" "utf8_accept len cp"
    and d: "decode_utf8 (drop (len - 1) rest) = Inr cps'" "cps = cp # cps'"
    by (auto split: option.splits)
  have "append_utf8 cp = Some (c # take (len - 1) rest)"
  proof -
    consider (one) "byte c \<le> 0x7f" "len = 1" "lead = byte c"
      | (two) "byte c AND 0xe0 = 0xc0" "len = 2" "lead = byte c AND 0x1f"
      | (three) "byte c AND 0xf0 = 0xe0" "len = 3" "lead = byte c AND 0x0f"
      | (four) "byte c AND 0xf8 = 0xf0" "len = 4" "lead = byte c AND 0x07"
      using utf8_lead_cases [OF l(1)] by blast
    then show ?thesis
    proof cases
      case one
      with t show ?thesis by (auto simp: append_utf8_def)
    next
      case two
      then obtain e r where "rest = e # r" using l(2) by (cases rest) auto
      with two t show ?thesis by (auto intro!: append_join2 split: if_splits)
    next
      case three
      then obtain e f r where "rest = e # f # r" using l(2) by (auto simp: numeral_eq_Suc Suc_le_length_iff)
      with three t show ?thesis by (auto simp: numeral_eq_Suc intro!: append_join3 split: if_splits)
    next
      case four
      then obtain e f g r where "rest = e # f # g # r" using l(2) by (auto simp: numeral_eq_Suc Suc_le_length_iff)
      with four t show ?thesis by (auto simp: numeral_eq_Suc intro!: append_join4 split: if_splits)
    qed
  qed
  from that [OF _ this d(2,1)] show ?thesis by simp
qed

text \<open>
  C31. The decoder is the inverse of the encoder: it returns a list of code points exactly for the
  concatenation of their encodings, so overlong, truncated and surrogate sequences are rejected.
\<close>

theorem decode_utf8_exact:
  "decode_utf8 s = Inr cps \<longleftrightarrow> (\<exists>encodings. map append_utf8 cps = map Some encodings \<and> s = concat encodings)"
proof (induction s arbitrary: cps rule: length_induct)
  case (1 s)
  show ?case
  proof
    assume d: "decode_utf8 s = Inr cps"
    show "\<exists>encodings. map append_utf8 cps = map Some encodings \<and> s = concat encodings"
    proof (cases s)
      case (Cons c rest)
      from d [unfolded Cons] show ?thesis
      proof (cases rule: decode_Cons)
        case (1 bytes cp rest' cps')
        with "1.IH" Cons obtain encodings where "map append_utf8 cps' = map Some encodings" "rest' = concat encodings"
          by (metis length_Cons)
        with 1 Cons show ?thesis by (intro exI [of _ "bytes # encodings"]) simp
      qed
    qed (use d in simp)
  next
    assume "\<exists>encodings. map append_utf8 cps = map Some encodings \<and> s = concat encodings"
    then obtain encodings where e: "map append_utf8 cps = map Some encodings" "s = concat encodings" by blast
    have "decode_utf8 (concat encodings) = Inr cps" if "map append_utf8 cps = map Some encodings" for cps encodings
      using that by (induction cps arbitrary: encodings) (auto simp: decode_append)
    with e show "decode_utf8 s = Inr cps" by simp
  qed
qed

subsection \<open>The check of the raw-observation layer\<close>

lemma unat_ucast_u8: "unat (ucast (w :: u8) :: u32) = unat w"
proof -
  have "unat w < 2 ^ 32" using unsigned_less [of w, where 'a = nat] by simp
  then show ?thesis by (simp add: unsigned_ucast_eq take_bit_nat_eq_self)
qed

lemma ucast_eq_numeral:
  "(ucast (w :: u8) = (0xc0 :: u32)) = (w = 0xc0)" "(ucast (w :: u8) = (0xe0 :: u32)) = (w = 0xe0)"
  "(ucast (w :: u8) = (0xf0 :: u32)) = (w = 0xf0)" "(ucast (w :: u8) = (0x80 :: u32)) = (w = 0x80)"
  "(ucast (w :: u8) \<le> (0x7f :: u32)) = (w \<le> 0x7f)"
  by (simp_all add: word_eq_unat word_le_nat_alt unat_ucast_u8)

lemma utf8_first_lead: "utf8_first (of_char c) = utf8_lead (byte c)"
  unfolding utf8_first_def utf8_lead_def byte_and ucast_eq_numeral
  by (simp only: byte_ucast [of c] ucast_eq_numeral)

lemma utf8_continue_tail: "utf8_continue cp (string_bytes s) = utf8_tail cp s"
  by (induction cp s rule: utf8_tail.induct) (simp_all add: string_bytes_def byte_and ucast_eq_numeral)

lemma utf8_scalar_accept: "utf8_scalar len cp = utf8_accept len cp"
  by (auto simp: utf8_scalar_def utf8_accept_def)

text \<open>
  The two UTF-8 checks of the program agree: the raw-observation layer accepts a run identifier
  as UTF-8 exactly when the JSON layer does.
\<close>

theorem valid_utf8_decode: "valid_utf8 (string_bytes s) \<longleftrightarrow> utf8 s"
proof (induction s rule: length_induct)
  case (1 s)
  show ?case
  proof (cases s)
    case (Cons c rest)
    have drop: "valid_utf8 (drop n (string_bytes rest)) = utf8 (drop n rest)" for n
      using 1 Cons by (simp add: string_bytes_def drop_map)
    have tail: "utf8_continue cp (take n (string_bytes rest)) = utf8_tail cp (take n rest)" for cp n
      using utf8_continue_tail [of cp "take n rest"] by (simp add: string_bytes_def take_map)
    have len: "length (string_bytes rest) = length rest" by (simp add: string_bytes_def)
    show ?thesis
      unfolding Cons by (simp add: string_bytes_def [of "c # rest"] utf8_first_lead utf8_scalar_accept drop tail len utf8_def
          flip: string_bytes_def split: option.split sum.split)
  qed (simp add: string_bytes_def utf8_def)
qed

end
