(* ===== verification/Protocol_Model.thy ===== *)
theory Protocol_Model
  imports Protocol_Rows State_Machine Working_Set Json
begin

text \<open>
  The protocol's record model, \<^verbatim>\<open>protocol/model.hpp\<close> and \<^verbatim>\<open>protocol/model.cpp\<close>: its enumerations with
  their parsers, and its records. What \<open>Protocol_Rows\<close>, \<open>State_Machine\<close> and \<open>Working_Set\<close> have of the
  model is imported. A record keeps the JSON document it was read from, a \<open>'d Value\<close>; the raw
  envelope's document stands beside it in the variant \<open>ProtocolRecord\<close>. A \<^verbatim>\<open>std::map\<close> is the list of its
  members in key order.
\<close>

subsection \<open>Enumerations\<close>

datatype Stage =
    Stage_calibration | Stage_pilot | Stage_stage_a | Stage_stage_b | Stage_stage_c
  | Stage_diagnostic

datatype RunMode =
    Mode_latency | Mode_service_rate_calibration | Mode_d2_calibration
  | Mode_counter_diagnostic | Mode_exploratory

datatype JoinStatus = Join_not_attempted | Join_failed | Join_passed

datatype BlockRole =
    Block_h3_train | Block_h3_validation | Block_h1h2_supplemental | Block_not_applicable

datatype QueuePackage =
    Package_r0 | Package_r1 | Package_r2 | Package_l0 | Package_l1 | Package_nblfq_mpsc
  | Package_not_applicable

datatype RequestedHardwareState = Requested_h0 | Requested_h1 | Requested_not_applicable

datatype VerifiedHardwareState =
    HW_verified_default | HW_verified_changed | HW_verification_failed | HW_unknown
  | HW_not_applicable

datatype Placement =
    Placement_near | Placement_far | Placement_stage_c_other | Placement_not_applicable

datatype LoadLevel =
    Load_l025 | Load_l050 | Load_l075 | Load_calibration_ready | Load_stage_c_other
  | Load_not_applicable

datatype RunValidity = Validity_not_evaluated | Validity_valid | Validity_invalid

datatype GateStatus = Gate_not_evaluated | Gate_pass | Gate_fail | Gate_not_applicable

datatype ConfirmatoryEstimability =
    Est_not_evaluated | Est_estimable | Est_blocked_zero_loss | Est_blocked_effective_tail
  | Est_blocked_invalid_run | Est_blocked_incomplete_block | Est_blocked_access_leakage
  | Est_blocked_multiple | Est_not_applicable

datatype ConfirmatoryBlocker =
    Blocker_blocked_access_leakage | Blocker_blocked_effective_tail
  | Blocker_blocked_incomplete_block | Blocker_blocked_invalid_run
  | Blocker_blocked_zero_loss

datatype BlockCompleteness =
    Completeness_not_evaluated | Completeness_complete | Completeness_incomplete
  | Completeness_not_applicable

datatype AccessState =
    Access_planned | Access_collected_sealed | Access_training_open
  | Access_selection_frozen | Access_validation_unsealed | Access_h3_evaluated
  | Access_h1h2_released | Access_archived

datatype StorageMode = Storage_external_immutable_artifact | Storage_inline_test_only

datatype ScheduleKind =
    Schedule_warmup | Schedule_calibration | Schedule_pilot | Schedule_confirmatory
  | Schedule_diagnostic | Schedule_stage_b | Schedule_stage_c

datatype ArrivalFamily =
    Arrival_poisson_exponential | Arrival_continuous_ready | Arrival_predeclared_burst
  | Arrival_predeclared_other

datatype DeadlineEncoding = Deadline_absolute_integer_ticks | Deadline_delta_integer_ticks

datatype FailureScope =
    Scope_run | Scope_block | Scope_platform | Scope_build | Scope_protocol | Scope_access

datatype FailureCategory =
    Failure_correctness | Failure_count_reconciliation | Failure_clock | Failure_affinity
  | Failure_numa | Failure_hardware_state | Failure_process_interruption
  | Failure_sample_loss | Failure_buffer_overflow | Failure_corrupt_output
  | Failure_manifest | Failure_address_pattern | Failure_phase_reset | Failure_environment
  | Failure_access_leakage | Failure_other_measurement

datatype DetectedPhase =
    Detected_pre_run | Detected_warmup | Detected_reset | Detected_measurement
  | Detected_drain | Detected_post_run | Detected_analysis | Detected_access_audit

datatype BlockConsequence =
    Consequence_none | Consequence_original_block_incomplete | Consequence_study_unresolved
  | Consequence_not_applicable

datatype ResolutionStatus =
    Resolution_open | Resolution_retained_diagnostic_only
  | Resolution_replacement_authorized | Resolution_replacement_denied
  | Resolution_resolved_before_measurement | Resolution_study_stopped

datatype ArtifactRelationship =
    Rel_producer_raw | Rel_consumer_raw | Rel_join_audit | Rel_joined_derived
  | Rel_phase_integrity_report | Rel_schedule | Rel_counter | Rel_derived | Rel_provenance
  | Rel_failure_evidence

datatype RecordKind =
    Kind_protocol_freeze | Kind_selection_freeze | Kind_validation_unseal
  | Kind_h3_evaluated | Kind_h1h2_released | Kind_replacement_authorization
  | Kind_amendment

datatype ReadinessBoundary =
    Readiness_ready_for_implementation | Readiness_blocked_before_implementation
  | Readiness_blocked_before_pilot | Readiness_blocked_before_confirmatory_execution
  | Readiness_submission_only

datatype FreezeStatus =
    Freeze_open | Freeze_frozen | Freeze_authorized | Freeze_rejected | Freeze_superseded

datatype AuthorizationStatus =
    Authorization_not_applicable | Authorization_pending | Authorization_authorized
  | Authorization_rejected

datatype AuthorityRole =
    Authority_protocol_owner | Authority_freeze_authority | Authority_validation_custodian
  | Authority_confirmatory_analyst | Authority_replacement_authority
  | Authority_platform_operator | Authority_author

datatype AccessClass =
    Class_treatment_blind | Class_training_only | Class_validation_sealed
  | Class_validation_unsealed | Class_public_protocol | Class_platform_evidence

datatype H3Context =
    Context_near_l2_l050 | Context_near_llc_l050 | Context_near_beyond_llc_l050
  | Context_far_l2_l050 | Context_far_llc_l050 | Context_far_beyond_llc_l050

datatype DocumentKind =
    Document_platform | Document_schedule | Document_raw_observation | Document_run_manifest
  | Document_block_plan | Document_failure_record | Document_freeze_record

subsection \<open>Parsing enumerations\<close>

fun parse_enum_value :: "string \<Rightarrow> string \<Rightarrow> string \<Rightarrow> (string \<times> 'e) list \<Rightarrow> 'e Result" where
  "parse_enum_value text path rule_id [] =
     Inl [ValidationError unknown_enum path rule_id (''unknown enum value: '' @ text)]"
| "parse_enum_value text path rule_id ((name, value) # rest) =
     (if name = text then Inr value else parse_enum_value text path rule_id rest)"

definition parse_stage :: "string \<Rightarrow> string \<Rightarrow> Stage Result" where
  "parse_stage text path = parse_enum_value text path ''DAT-STAGE''
     [(''CALIBRATION'', Stage_calibration), (''PILOT'', Stage_pilot),
      (''STAGE_A'', Stage_stage_a), (''STAGE_B'', Stage_stage_b),
      (''STAGE_C'', Stage_stage_c), (''DIAGNOSTIC'', Stage_diagnostic)]"

definition parse_run_mode :: "string \<Rightarrow> string \<Rightarrow> RunMode Result" where
  "parse_run_mode text path = parse_enum_value text path ''DAT-RUN-MODE''
     [(''LATENCY'', Mode_latency),
      (''SERVICE_RATE_CALIBRATION'', Mode_service_rate_calibration),
      (''D2_CALIBRATION'', Mode_d2_calibration),
      (''COUNTER_DIAGNOSTIC'', Mode_counter_diagnostic),
      (''EXPLORATORY'', Mode_exploratory)]"

definition parse_lifecycle_state :: "string \<Rightarrow> string \<Rightarrow> LifecycleState Result" where
  "parse_lifecycle_state text path = parse_enum_value text path ''LIF-001''
     [(''PLANNED'', LS_planned), (''PRE_RUN_FAILURE'', LS_pre_run_failure),
      (''WARMUP_FAILURE'', LS_warmup_failure), (''RESET_FAILURE'', LS_reset_failure),
      (''MEASUREMENT_STARTED'', LS_measurement_started),
      (''MEASUREMENT_FAILURE'', LS_measurement_failure),
      (''DRAIN_FAILURE'', LS_drain_failure), (''COMPLETED'', LS_completed)]"

definition parse_join_status :: "string \<Rightarrow> string \<Rightarrow> JoinStatus Result" where
  "parse_join_status text path = parse_enum_value text path ''DAT-JOIN''
     [(''NOT_ATTEMPTED'', Join_not_attempted), (''FAILED'', Join_failed),
      (''PASSED'', Join_passed)]"

definition parse_block_role :: "string \<Rightarrow> string \<Rightarrow> BlockRole Result" where
  "parse_block_role text path = parse_enum_value text path ''BLK-ROLE''
     [(''H3_TRAIN'', Block_h3_train), (''H3_VALIDATION'', Block_h3_validation),
      (''H1H2_SUPPLEMENTAL'', Block_h1h2_supplemental),
      (''NOT_APPLICABLE'', Block_not_applicable)]"

definition parse_queue_package :: "string \<Rightarrow> string \<Rightarrow> QueuePackage Result" where
  "parse_queue_package text path = parse_enum_value text path ''DAT-PACKAGE''
     [(''R0'', Package_r0), (''R1'', Package_r1), (''R2'', Package_r2),
      (''L0'', Package_l0), (''L1'', Package_l1), (''NBLFQ_MPSC'', Package_nblfq_mpsc),
      (''NOT_APPLICABLE'', Package_not_applicable)]"

definition parse_requested_hardware_state :: "string \<Rightarrow> string \<Rightarrow> RequestedHardwareState Result" where
  "parse_requested_hardware_state text path = parse_enum_value text path ''HWP-REQUESTED''
     [(''H0'', Requested_h0), (''H1'', Requested_h1),
      (''NOT_APPLICABLE'', Requested_not_applicable)]"

definition parse_verified_hardware_state :: "string \<Rightarrow> string \<Rightarrow> VerifiedHardwareState Result" where
  "parse_verified_hardware_state text path = parse_enum_value text path ''HWP-VERIFIED''
     [(''VERIFIED_DEFAULT'', HW_verified_default),
      (''VERIFIED_CHANGED'', HW_verified_changed),
      (''VERIFICATION_FAILED'', HW_verification_failed), (''UNKNOWN'', HW_unknown),
      (''NOT_APPLICABLE'', HW_not_applicable)]"

definition parse_placement :: "string \<Rightarrow> string \<Rightarrow> Placement Result" where
  "parse_placement text path = parse_enum_value text path ''DAT-PLACEMENT''
     [(''NEAR'', Placement_near), (''FAR'', Placement_far),
      (''STAGE_C_OTHER'', Placement_stage_c_other),
      (''NOT_APPLICABLE'', Placement_not_applicable)]"

definition parse_working_set_class :: "string \<Rightarrow> string \<Rightarrow> WorkingSetClass Result" where
  "parse_working_set_class text path = parse_enum_value text path ''DAT-WORKING-SET''
     [(''L2_RESIDENT'', l2_resident), (''LLC_RESIDENT'', llc_resident),
      (''BEYOND_LLC'', beyond_llc), (''NOT_APPLICABLE'', WS_not_applicable)]"

definition parse_load_level :: "string \<Rightarrow> string \<Rightarrow> LoadLevel Result" where
  "parse_load_level text path = parse_enum_value text path ''DAT-LOAD''
     [(''L025'', Load_l025), (''L050'', Load_l050), (''L075'', Load_l075),
      (''CALIBRATION_READY'', Load_calibration_ready),
      (''STAGE_C_OTHER'', Load_stage_c_other), (''NOT_APPLICABLE'', Load_not_applicable)]"

definition parse_run_validity :: "string \<Rightarrow> string \<Rightarrow> RunValidity Result" where
  "parse_run_validity text path = parse_enum_value text path ''LIF-VALIDITY''
     [(''NOT_EVALUATED'', Validity_not_evaluated), (''VALID'', Validity_valid),
      (''INVALID'', Validity_invalid)]"

definition parse_gate_status :: "string \<Rightarrow> string \<Rightarrow> GateStatus Result" where
  "parse_gate_status text path = parse_enum_value text path ''LIF-GATE''
     [(''NOT_EVALUATED'', Gate_not_evaluated), (''PASS'', Gate_pass),
      (''FAIL'', Gate_fail), (''NOT_APPLICABLE'', Gate_not_applicable)]"

definition parse_confirmatory_estimability :: "string \<Rightarrow> string \<Rightarrow> ConfirmatoryEstimability Result" where
  "parse_confirmatory_estimability text path = parse_enum_value text path ''LIF-ESTIMABILITY''
     [(''NOT_EVALUATED'', Est_not_evaluated), (''ESTIMABLE'', Est_estimable),
      (''BLOCKED_ZERO_LOSS'', Est_blocked_zero_loss),
      (''BLOCKED_EFFECTIVE_TAIL'', Est_blocked_effective_tail),
      (''BLOCKED_INVALID_RUN'', Est_blocked_invalid_run),
      (''BLOCKED_INCOMPLETE_BLOCK'', Est_blocked_incomplete_block),
      (''BLOCKED_ACCESS_LEAKAGE'', Est_blocked_access_leakage),
      (''BLOCKED_MULTIPLE'', Est_blocked_multiple),
      (''NOT_APPLICABLE'', Est_not_applicable)]"

definition parse_confirmatory_blocker :: "string \<Rightarrow> string \<Rightarrow> ConfirmatoryBlocker Result" where
  "parse_confirmatory_blocker text path = parse_enum_value text path ''LIF-CONFIRMATORY-BLOCKER''
     [(''BLOCKED_ACCESS_LEAKAGE'', Blocker_blocked_access_leakage),
      (''BLOCKED_EFFECTIVE_TAIL'', Blocker_blocked_effective_tail),
      (''BLOCKED_INCOMPLETE_BLOCK'', Blocker_blocked_incomplete_block),
      (''BLOCKED_INVALID_RUN'', Blocker_blocked_invalid_run),
      (''BLOCKED_ZERO_LOSS'', Blocker_blocked_zero_loss)]"

definition parse_block_completeness :: "string \<Rightarrow> string \<Rightarrow> BlockCompleteness Result" where
  "parse_block_completeness text path = parse_enum_value text path ''BLK-COMPLETENESS''
     [(''NOT_EVALUATED'', Completeness_not_evaluated),
      (''COMPLETE'', Completeness_complete), (''INCOMPLETE'', Completeness_incomplete),
      (''NOT_APPLICABLE'', Completeness_not_applicable)]"

definition parse_access_state :: "string \<Rightarrow> string \<Rightarrow> AccessState Result" where
  "parse_access_state text path = parse_enum_value text path ''ACC-STATE''
     [(''PLANNED'', Access_planned), (''COLLECTED_SEALED'', Access_collected_sealed),
      (''TRAINING_OPEN'', Access_training_open),
      (''SELECTION_FROZEN'', Access_selection_frozen),
      (''VALIDATION_UNSEALED'', Access_validation_unsealed),
      (''H3_EVALUATED'', Access_h3_evaluated), (''H1H2_RELEASED'', Access_h1h2_released),
      (''ARCHIVED'', Access_archived)]"

subsection \<open>Records\<close>

record TypedArtifactReference =
  ta_artifact :: ArtifactReference
  ta_relationship :: ArtifactRelationship

record ExactRate =
  er_numerator_events :: u64
  er_denominator_ticks :: u64

record RequestedAndVerifiedHardwareState =
  hv_requested :: RequestedHardwareState
  hv_verified :: VerifiedHardwareState
  hv_readback_artifact_id :: Identifier
  hv_behavioral_probe_artifact_id :: Identifier
  hv_privileged_authority_id :: Identifier

record RngMetadata =
  rng_algorithm :: string
  rng_version :: string
  rng_seed_id :: Identifier
  rng_derivation_record_id :: Identifier
  rng_parent_namespace_id :: Identifier

record ExternalScheduleStorage =
  es_artifact_id :: Identifier
  es_artifact_uri :: string
  es_row_count :: u64
  es_byte_count :: u64
  es_artifact_sha256 :: Sha256

datatype DeadlineStorage = External_deadlines ExternalScheduleStorage | Inline_deadlines "u64 list"

record 'd ScheduleRecord =
  sc_schema_version :: ProtocolVersion
  sc_protocol_version :: ProtocolVersion
  sc_schedule_id :: Identifier
  sc_schedule_kind :: ScheduleKind
  sc_arrival_family :: ArrivalFamily
  sc_namespace_id :: Identifier
  sc_rng :: RngMetadata
  sc_time_unit :: string
  sc_deadline_encoding :: DeadlineEncoding
  sc_origin_ticks :: u64
  sc_horizon_ticks :: u64
  sc_offered_count :: u64
  sc_nominal_offered_rate :: ExactRate
  sc_overflow_rule_record_id :: Identifier
  sc_deadline_storage :: DeadlineStorage
  sc_decoded_deadlines_sha256 :: Sha256
  sc_schedule_sha256 :: Sha256
  sc_source_document :: "'d Value"

record ChecksumEvidence =
  ce_algorithm_record_id :: Identifier
  ce_algorithm_version :: string
  ce_value_hex :: string

record PhaseIntegrityRecord =
  pi_report_artifact :: ArtifactReference
  pi_final_consumer_rolling_checksum :: ChecksumEvidence
  pi_event_records_pre_checksum :: ChecksumEvidence
  pi_event_records_post_checksum :: ChecksumEvidence
  pi_ordered_index_checksum :: ChecksumEvidence
  pi_address_delta_checksum :: ChecksumEvidence

record 'd RunCounts =
  rn_offered :: "u64 option"
  rn_attempted :: "u64 option"
  rn_accepted :: "u64 option"
  rn_full :: "u64 option"
  rn_consumed :: "u64 option"
  rn_final_occupancy :: "u64 option"
  rn_raw_sample_count :: "u64 option"
  rn_n_eff_p999 :: "'d Number option"

record RunProvenance =
  rp_paper_repository_revision :: string
  rp_implementation_repository_revision :: string
  rp_build_artifact_sha256 :: Sha256
  rp_compiler_identity :: string
  rp_compiler_flags :: "string list"
  rp_standard_library :: string
  rp_dependency_record_id :: Identifier

record RunScheduleReferences =
  rs_measurement :: ArtifactReference
  rs_warmup :: ArtifactReference

record RunSeedReferences =
  sd_arrival :: Identifier
  sd_node_order :: "Identifier option"
  sd_event_order :: Identifier
  sd_warmup :: Identifier
  sd_derivation_record_id :: Identifier

record 'd RunManifest =
  rm_schema_version :: ProtocolVersion
  rm_protocol_version :: ProtocolVersion
  rm_run_id :: Identifier
  rm_platform_id :: Identifier
  rm_build_id :: Identifier
  rm_within_cell_ordinal :: u64
  rm_queue_provenance_id :: Identifier
  rm_provenance :: RunProvenance
  rm_stage :: Stage
  rm_run_mode :: RunMode
  rm_lifecycle_state :: LifecycleState
  rm_block_id :: Identifier
  rm_block_role :: BlockRole
  rm_package :: QueuePackage
  rm_requested_hardware_state :: RequestedHardwareState
  rm_verified_hardware_state :: VerifiedHardwareState
  rm_placement :: Placement
  rm_working_set_class :: WorkingSetClass
  rm_load_level :: LoadLevel
  rm_capacity_events :: u64
  rm_time_unit :: string
  rm_schedule_refs :: RunScheduleReferences
  rm_seed_refs :: RunSeedReferences
  rm_validity :: RunValidity
  rm_count_reconciliation :: GateStatus
  rm_zero_loss_status :: GateStatus
  rm_effective_tail_status :: GateStatus
  rm_confirmatory_estimability :: ConfirmatoryEstimability
  rm_confirmatory_blockers :: "ConfirmatoryBlocker list"
  rm_block_completeness :: BlockCompleteness
  rm_join_status :: JoinStatus
  rm_counts :: "'d RunCounts option"
  rm_integrity_evidence :: "PhaseIntegrityRecord option"
  rm_failure_record_ids :: "Identifier list"
  rm_artifact_refs :: "TypedArtifactReference list"
  rm_manifest_sha256 :: Sha256
  rm_source_document :: "'d Value"

record StageACell =
  cell_cell_ordinal :: u64
  cell_package :: QueuePackage
  cell_requested_hardware_state :: RequestedHardwareState
  cell_placement :: Placement
  cell_working_set_class :: WorkingSetClass
  cell_load_level :: LoadLevel
  cell_arrival_seed_ref :: Identifier
  cell_node_seed_ref :: "Identifier option"
  cell_event_seed_ref :: Identifier

record ReplacementLineage =
  ln_replaced_block_ordinal :: u64
  ln_replaced_block_role :: BlockRole
  ln_replaced_seed_subspace_id :: Identifier

record 'd BlockPlan =
  bp_schema_version :: ProtocolVersion
  bp_protocol_version :: ProtocolVersion
  bp_block_id :: Identifier
  bp_platform_id :: Identifier
  bp_build_id :: Identifier
  bp_stage :: Stage
  bp_block_role :: BlockRole
  bp_block_ordinal :: u64
  bp_seed_subspace_id :: Identifier
  bp_replaces_block_id :: "Identifier option"
  bp_replacement_authorization_id :: "Identifier option"
  bp_replacement_lineage :: "ReplacementLineage option"
  bp_whole_plot_order :: "RequestedHardwareState \<times> RequestedHardwareState"
  bp_cells :: "StageACell list"
  bp_access_state :: AccessState
  bp_plan_sha256 :: Sha256
  bp_source_document :: "'d Value"

record 'd FailureRecord =
  fr_schema_version :: ProtocolVersion
  fr_protocol_version :: ProtocolVersion
  fr_failure_record_id :: Identifier
  fr_platform_id :: Identifier
  fr_stage :: Stage
  fr_scope :: FailureScope
  fr_run_id :: "Identifier option"
  fr_block_id :: "Identifier option"
  fr_build_id :: "Identifier option"
  fr_category :: FailureCategory
  fr_detected_phase :: DetectedPhase
  fr_observed_at_utc :: string
  fr_description :: string
  fr_invalidates_run :: bool
  fr_block_consequence :: BlockConsequence
  fr_resolution_status :: ResolutionStatus
  fr_replacement_authorization_id :: "Identifier option"
  fr_replacement_block_id :: "Identifier option"
  fr_supersedes_id :: "Identifier option"
  fr_evidence_refs :: "ArtifactReference list"
  fr_record_sha256 :: Sha256
  fr_source_document :: "'d Value"

record H3Candidate =
  hc_package :: QueuePackage
  hc_requested_hardware_state :: RequestedHardwareState

record Authority =
  au_authority_id :: Identifier
  au_role :: AuthorityRole
  au_attestation :: string
  au_signature_artifact_id :: "Identifier option"

record AccessInputArtifact =
  ai_artifact :: ArtifactReference
  ai_access_class :: AccessClass

record ReplacementAuthorization =
  ra_original_block_id :: Identifier
  ra_replacement_block_id :: Identifier
  ra_replacement_block_ordinal :: u64
  ra_block_role :: BlockRole
  ra_replacement_seed_subspace_id :: Identifier
  ra_failure_record_id :: Identifier
  ra_replacement_budget_record_id :: Identifier

record 'd FreezeRecord =
  fz_schema_version :: ProtocolVersion
  fz_protocol_version :: ProtocolVersion
  fz_record_id :: Identifier
  fz_record_kind :: RecordKind
  fz_decision_id :: string
  fz_readiness_boundary :: ReadinessBoundary
  fz_status :: FreezeStatus
  fz_authorization_status :: AuthorizationStatus
  fz_created_at_utc :: string
  fz_authority :: Authority
  fz_decision_value :: "'d Value option"
  fz_rationale :: "string option"
  fz_access_state_before :: AccessState
  fz_access_state_after :: AccessState
  fz_outcome_access_prohibited :: bool
  fz_affected_block_ids :: "Identifier list"
  fz_h3_selections :: "(H3Context \<times> H3Candidate) list"
  fz_training_input_artifacts :: "ArtifactReference list"
  fz_selection_rule_version :: "string option"
  fz_selection_record_checksum_sha256 :: "Sha256 option"
  fz_selection_record_ref :: "ArtifactReference option"
  fz_validation_namespace_id :: "Identifier option"
  fz_validation_artifact_ref :: "ArtifactReference option"
  fz_validation_unseal_record_ref :: "ArtifactReference option"
  fz_h3_evaluation_artifact_ref :: "ArtifactReference option"
  fz_h3_access_record_ref :: "ArtifactReference option"
  fz_replacement :: "ReplacementAuthorization option"
  fz_supersedes_id :: "Identifier option"
  fz_prior_protocol_version :: "string option"
  fz_new_protocol_version :: "string option"
  fz_affected_documents :: "string list"
  fz_affected_schema_ids :: "string list"
  fz_affected_estimands :: "string list"
  fz_affected_contrast_ids :: "string list"
  fz_pilot_record_disposition :: "string option"
  fz_prior_authoritative_hashes :: "ArtifactReference list"
  fz_input_artifacts :: "AccessInputArtifact list"
  fz_record_sha256 :: Sha256
  fz_source_document :: "'d Value"

record AmendmentRecord =
  am_record_id :: Identifier
  am_supersedes_id :: Identifier
  am_prior_protocol_version :: string
  am_new_protocol_version :: string
  am_affected_documents :: "string list"
  am_affected_schema_ids :: "string list"
  am_affected_estimands :: "string list"
  am_affected_contrast_ids :: "string list"
  am_prior_authoritative_hashes :: "ArtifactReference list"
  am_record_sha256 :: Sha256

record PlatformCpu =
  cpu_vendor :: string
  cpu_model :: string
  cpu_stepping :: string
  cpu_microcode :: string
  cpu_cache_line_bytes :: u64
  cpu_atomic_width_bits :: u64
  cpu_atomic_alignment_bytes :: u64

record PlatformTopology =
  top_sockets :: u64
  top_numa_nodes :: u64
  top_physical_cores :: u64
  top_smt_enabled :: bool
  top_cache_domains :: "string list"
  top_near_core_pair :: "u64 \<times> u64"
  top_far_core_pair :: "u64 \<times> u64"

record PlatformMemory =
  mem_population :: string
  mem_base_page_bytes :: u64
  mem_residency_verification_method :: string

record PlatformSoftware =
  sw_operating_system :: string
  sw_kernel :: string
  sw_compiler :: string
  sw_standard_library :: string
  sw_language_standard :: string
  sw_flags :: "string list"
  sw_link_mode :: string

record PlatformClock =
  ck_source :: string
  ck_time_unit :: string
  ck_conversion_record_id :: Identifier
  ck_serialization_record_id :: Identifier
  ck_acceptance_record_id :: Identifier

record 'd PlatformRecord =
  pf_schema_version :: ProtocolVersion
  pf_protocol_version :: ProtocolVersion
  pf_platform_id :: Identifier
  pf_cpu :: PlatformCpu
  pf_topology :: PlatformTopology
  pf_memory :: PlatformMemory
  pf_software :: PlatformSoftware
  pf_clock :: PlatformClock
  pf_hardware_prefetch_states :: "RequestedAndVerifiedHardwareState list"
  pf_record_sha256 :: Sha256
  pf_source_document :: "'d Value"

datatype 'd ProtocolRecord =
    Record_platform "'d PlatformRecord"
  | Record_schedule "'d ScheduleRecord"
  | Record_raw RawObservationEnvelope "'d Value"
  | Record_manifest "'d RunManifest"
  | Record_block "'d BlockPlan"
  | Record_failure "'d FailureRecord"
  | Record_freeze "'d FreezeRecord"

end
