(* ===== verification/Semantic.thy ===== *)
theory Semantic
  imports Protocol_Model
begin

text \<open>
  The record-local validators of \<^verbatim>\<open>protocol/semantic.cpp\<close> for schedules, run manifests, block plans,
  failures, freezes and platforms, and their dispatch \<^verbatim>\<open>Stage4SemanticValidator::validate\<close> (the
  validators of raw rows are in \<open>Protocol_Rows\<close>). The comparison of a binary64 number with the
  effective-tail threshold is the argument \<open>fp_at_least_200000\<close>.
\<close>

subsection \<open>Order of the blockers\<close>

text \<open>The built-in order of the enumeration is that of its declaration.\<close>

fun blocker_rank :: "ConfirmatoryBlocker \<Rightarrow> nat" where
  "blocker_rank Blocker_blocked_access_leakage = 0"
| "blocker_rank Blocker_blocked_effective_tail = 1"
| "blocker_rank Blocker_blocked_incomplete_block = 2"
| "blocker_rank Blocker_blocked_invalid_run = 3"
| "blocker_rank Blocker_blocked_zero_loss = 4"

lemma blocker_rank_inject: "blocker_rank b = blocker_rank c \<longleftrightarrow> b = c"
  by (cases b; cases c) simp_all

instantiation ConfirmatoryBlocker :: linorder
begin

definition less_eq_ConfirmatoryBlocker :: "ConfirmatoryBlocker \<Rightarrow> ConfirmatoryBlocker \<Rightarrow> bool" where
  "less_eq_ConfirmatoryBlocker b c \<longleftrightarrow> blocker_rank b \<le> blocker_rank c"

definition less_ConfirmatoryBlocker :: "ConfirmatoryBlocker \<Rightarrow> ConfirmatoryBlocker \<Rightarrow> bool" where
  "less_ConfirmatoryBlocker b c \<longleftrightarrow> blocker_rank b < blocker_rank c"

instance
  by standard (auto simp: less_eq_ConfirmatoryBlocker_def less_ConfirmatoryBlocker_def
      simp flip: blocker_rank_inject)

end

subsection \<open>Helpers\<close>

definition has_relationship :: "'d RunManifest \<Rightarrow> ArtifactRelationship \<Rightarrow> bool" where
  "has_relationship manifest relationship \<longleftrightarrow>
     list_ex (\<lambda>artifact. ta_relationship artifact = relationship) (rm_artifact_refs manifest)"

definition at_least_200000 :: "('d \<Rightarrow> bool) \<Rightarrow> 'd Number \<Rightarrow> bool" where
  "at_least_200000 fp_at_least_200000 number =
     (case number_value number of
        Signed_integer i \<Rightarrow> i \<ge> 200000
      | Unsigned_integer u \<Rightarrow> u \<ge> 200000
      | Binary64 d \<Rightarrow> fp_at_least_200000 d)"

definition is_failure_lifecycle :: "LifecycleState \<Rightarrow> bool" where
  "is_failure_lifecycle state \<longleftrightarrow>
     state = LS_pre_run_failure \<or> state = LS_warmup_failure \<or> state = LS_reset_failure \<or>
     state = LS_measurement_failure \<or> state = LS_drain_failure"

definition is_early_failure :: "LifecycleState \<Rightarrow> bool" where
  "is_early_failure state \<longleftrightarrow>
     state = LS_pre_run_failure \<or> state = LS_warmup_failure \<or> state = LS_reset_failure"

subsection \<open>Schedules\<close>

text \<open>The loop over the inline deadlines; \<open>previous\<close> is \<open>None\<close> while \<^verbatim>\<open>have_previous\<close> is false.\<close>

fun validate_deadlines ::
  "DeadlineEncoding \<Rightarrow> u64 \<Rightarrow> u64 \<Rightarrow> nat \<Rightarrow> u64 option \<Rightarrow> u64 \<Rightarrow> u64 list \<Rightarrow> ValidationError list" where
  "validate_deadlines encoding origin horizon_end index previous accumulated [] = []"
| "validate_deadlines encoding origin horizon_end index previous accumulated (encoded # rest) =
     (let path = ''$out/deadline_storage/deadline_ticks/'' @ std_to_string index;
          delta = (encoding = Deadline_delta_integer_ticks)
      in (case (if delta then semantic_checked_add accumulated encoded else Some encoded) of
            None \<Rightarrow>
              ValidationError out_of_range path ''SCH-DELTA-OVERFLOW''
                ''delta decoding overflows the 64-bit tick domain'' #
              validate_deadlines encoding origin horizon_end (Suc index) previous accumulated rest
          | Some deadline \<Rightarrow>
              fail_if (case previous of None \<Rightarrow> False | Some p \<Rightarrow> deadline < p)
                (ValidationError cross_field path ''SCH-NONDECREASING''
                  ''decoded deadlines must be nondecreasing'') @
              fail_if (deadline < origin \<or> deadline \<ge> horizon_end)
                (ValidationError cross_field path ''SCH-HALF-OPEN''
                  ''decoded deadline is outside [origin, origin+horizon)'') @
              validate_deadlines encoding origin horizon_end (Suc index) (Some deadline)
                (if delta then deadline else accumulated) rest))"

definition validate_schedule :: "'d ScheduleRecord \<Rightarrow> ValidationError list" where
  "validate_schedule schedule =
     fail_if (sc_horizon_ticks schedule = 0)
       (ValidationError out_of_range ''$out/horizon_ticks'' ''SCH-HORIZON''
         ''schedule horizon must be positive'') @
     fail_if (er_denominator_ticks (sc_nominal_offered_rate schedule) = 0)
       (ValidationError out_of_range ''$out/nominal_offered_rate/denominator_ticks''
         ''SCH-RATE-DENOMINATOR'' ''exact rate denominator must be positive'') @
     fail_if (sc_schedule_kind schedule = Schedule_confirmatory \<and>
         sc_arrival_family schedule \<noteq> Arrival_poisson_exponential)
       (ValidationError cross_field ''$out/arrival_family'' ''SCH-CONFIRMATORY-FAMILY''
         ''confirmatory schedules require POISSON_EXPONENTIAL arrivals'') @
     (case sc_deadline_storage schedule of
        External_deadlines external \<Rightarrow>
          fail_if (es_row_count external \<noteq> sc_offered_count schedule)
            (ValidationError cross_field ''$out/deadline_storage/row_count'' ''SCH-ROW-COUNT''
              ''external schedule row count must equal offered_count'')
      | Inline_deadlines encoded \<Rightarrow>
          fail_if (of_nat (length encoded) \<noteq> sc_offered_count schedule)
            (ValidationError cross_field ''$out/deadline_storage/deadline_ticks'' ''SCH-DECODED-COUNT''
              ''decoded deadline count must equal offered_count'') @
          (case semantic_checked_add (sc_origin_ticks schedule) (sc_horizon_ticks schedule) of
             None \<Rightarrow> [ValidationError out_of_range ''$out/horizon_ticks'' ''SCH-HORIZON-OVERFLOW''
               ''origin plus horizon overflows the 64-bit tick domain'']
           | Some horizon_end \<Rightarrow>
               validate_deadlines (sc_deadline_encoding schedule) (sc_origin_ticks schedule) horizon_end 0
                 None (sc_origin_ticks schedule) encoded))"

subsection \<open>Run manifests\<close>

fun blocker_summary :: "ConfirmatoryBlocker \<Rightarrow> ConfirmatoryEstimability" where
  "blocker_summary Blocker_blocked_access_leakage = Est_blocked_access_leakage"
| "blocker_summary Blocker_blocked_effective_tail = Est_blocked_effective_tail"
| "blocker_summary Blocker_blocked_incomplete_block = Est_blocked_incomplete_block"
| "blocker_summary Blocker_blocked_invalid_run = Est_blocked_invalid_run"
| "blocker_summary Blocker_blocked_zero_loss = Est_blocked_zero_loss"

definition evidence_pending :: "'d RunManifest \<Rightarrow> bool" where
  "evidence_pending manifest \<longleftrightarrow>
     rm_validity manifest = Validity_not_evaluated \<or>
     rm_zero_loss_status manifest = Gate_not_evaluated \<or>
     rm_effective_tail_status manifest = Gate_not_evaluated \<or>
     rm_block_completeness manifest = Completeness_not_evaluated"

definition local_mismatch :: "'d RunManifest \<Rightarrow> bool" where
  "local_mismatch manifest \<longleftrightarrow>
     (let blockers = rm_confirmatory_blockers manifest in
      (Blocker_blocked_zero_loss \<in> set blockers) \<noteq> (rm_zero_loss_status manifest = Gate_fail) \<or>
      (Blocker_blocked_effective_tail \<in> set blockers) \<noteq> (rm_effective_tail_status manifest = Gate_fail) \<or>
      (Blocker_blocked_invalid_run \<in> set blockers) \<noteq> (rm_validity manifest = Validity_invalid) \<or>
      (Blocker_blocked_incomplete_block \<in> set blockers) \<noteq>
        (rm_block_completeness manifest = Completeness_incomplete))"

definition expected_summary :: "'d RunManifest \<Rightarrow> ConfirmatoryEstimability" where
  "expected_summary manifest =
     (let blockers = rm_confirmatory_blockers manifest in
      if evidence_pending manifest then Est_not_evaluated
      else if blockers = [] then Est_estimable
      else if length blockers > 1 then Est_blocked_multiple
      else blocker_summary (hd blockers))"

definition validate_blockers :: "'d RunManifest \<Rightarrow> ValidationError list" where
  "validate_blockers manifest =
     (let blockers = rm_confirmatory_blockers manifest in
      fail_if (\<not> sorted blockers \<or> \<not> successively (\<noteq>) blockers)
        (ValidationError duplicate_value ''$out/confirmatory_blockers'' ''LIF-BLOCKER-CANONICAL-ORDER''
          ''confirmatory blockers must be unique and in ascending UTF-8 token order'') @
      fail_if (evidence_pending manifest \<and>
          (rm_confirmatory_estimability manifest \<noteq> Est_not_evaluated \<or> blockers \<noteq> []))
        (ValidationError cross_field ''$out/confirmatory_estimability'' ''LIF-BLOCKER-EVIDENCE-COMPLETE''
          (''final estimability and blocker values require authoritative evidence for '' @
           ''every applicable gate'')) @
      fail_if (\<not> evidence_pending manifest \<and> local_mismatch manifest)
        (ValidationError cross_field ''$out/confirmatory_blockers'' ''LIF-BLOCKER-EXHAUSTIVE-LOCAL''
          (''the blocker array must exactly reflect every locally represented '' @ ''failed gate'')) @
      fail_if (rm_confirmatory_estimability manifest \<noteq> expected_summary manifest)
        (ValidationError cross_field ''$out/confirmatory_estimability'' ''LIF-BLOCKER-SUMMARY''
          ''estimability summary does not match the exhaustive blocker array''))"

definition stage_a_factors_invalid :: "'d RunManifest \<Rightarrow> bool" where
  "stage_a_factors_invalid manifest \<longleftrightarrow>
     rm_run_mode manifest \<noteq> Mode_latency \<or> rm_block_role manifest = Block_not_applicable \<or>
     rm_package manifest = Package_nblfq_mpsc \<or> rm_package manifest = Package_not_applicable \<or>
     rm_requested_hardware_state manifest = Requested_not_applicable \<or>
     rm_placement manifest = Placement_not_applicable \<or>
     rm_placement manifest = Placement_stage_c_other \<or>
     rm_working_set_class manifest = WS_not_applicable \<or>
     rm_load_level manifest = Load_not_applicable \<or>
     rm_load_level manifest = Load_calibration_ready \<or>
     rm_load_level manifest = Load_stage_c_other"

definition fabricated :: "'d RunManifest \<Rightarrow> bool" where
  "fabricated manifest \<longleftrightarrow>
     rm_counts manifest \<noteq> None \<or> rm_integrity_evidence manifest \<noteq> None \<or>
     has_relationship manifest Rel_producer_raw \<or> has_relationship manifest Rel_consumer_raw \<or>
     has_relationship manifest Rel_join_audit \<or> has_relationship manifest Rel_joined_derived \<or>
     has_relationship manifest Rel_phase_integrity_report"

definition required_relationships :: "ArtifactRelationship list" where
  "required_relationships =
     [Rel_producer_raw, Rel_consumer_raw, Rel_join_audit, Rel_joined_derived,
      Rel_phase_integrity_report, Rel_provenance]"

text \<open>Whether the estimability summary of a \<^verbatim>\<open>2.0.0-pre.1\<close> manifest cannot apply.\<close>

definition estimability_inapplicable :: "'d RunManifest \<Rightarrow> GateStatus \<Rightarrow> GateStatus \<Rightarrow> bool" where
  "estimability_inapplicable manifest expected_zero expected_tail \<longleftrightarrow>
     (let estimability = rm_confirmatory_estimability manifest in
      (estimability = Est_estimable \<and>
        (expected_zero = Gate_fail \<or> expected_tail = Gate_fail \<or>
         rm_block_completeness manifest = Completeness_incomplete)) \<or>
      (estimability = Est_blocked_zero_loss \<and> expected_zero \<noteq> Gate_fail) \<or>
      (estimability = Est_blocked_effective_tail \<and> expected_tail \<noteq> Gate_fail) \<or>
      (estimability = Est_blocked_invalid_run \<and> rm_validity manifest \<noteq> Validity_invalid) \<or>
      (estimability = Est_blocked_incomplete_block \<and>
        rm_block_completeness manifest \<noteq> Completeness_incomplete))"

text \<open>The end of \<^verbatim>\<open>validate_manifest\<close>: the counts of a valid completed Stage A run.\<close>

definition validate_counts :: "('d \<Rightarrow> bool) \<Rightarrow> 'd RunManifest \<Rightarrow> 'd RunCounts \<Rightarrow> ValidationError list" where
  "validate_counts fp_at_least_200000 manifest run_counts =
     (case (rn_offered run_counts, rn_attempted run_counts, rn_accepted run_counts, rn_full run_counts, rn_consumed run_counts,
            rn_final_occupancy run_counts, rn_raw_sample_count run_counts, rn_n_eff_p999 run_counts) of
        (Some offered, Some attempted, Some accepted, Some full, Some consumed, Some final_occupancy,
         Some raw_sample_count, Some n_eff_p999) \<Rightarrow>
          (let expected_zero = (if full = 0 then Gate_pass else Gate_fail);
               expected_tail = (if at_least_200000 fp_at_least_200000 n_eff_p999 then Gate_pass else Gate_fail)
           in
             fail_if (offered \<noteq> attempted \<or> semantic_checked_add accepted full \<noteq> Some attempted \<or>
                 consumed \<noteq> accepted \<or> final_occupancy \<noteq> 0 \<or> raw_sample_count \<noteq> accepted)
               (ValidationError cross_field ''$out/counts'' ''DAT-COUNT-IDENTITIES''
                 ''completed count identities or zero final occupancy do not reconcile'') @
             fail_if (rm_zero_loss_status manifest \<noteq> expected_zero)
               (ValidationError cross_field ''$out/zero_loss_status'' ''LIF-ZERO-LOSS''
                 ''zero-loss status must be independent and derived from the FULL count'') @
             fail_if (rm_effective_tail_status manifest \<noteq> expected_tail)
               (ValidationError cross_field ''$out/effective_tail_status'' ''LIF-EFFECTIVE-TAIL''
                 ''effective-tail status must use the fixed N_eff=200000 threshold'') @
             fail_if (rm_protocol_version manifest = V2_0_0_pre_1 \<and>
                 estimability_inapplicable manifest expected_zero expected_tail)
               (ValidationError cross_field ''$out/confirmatory_estimability''
                 ''LIF-ESTIMABILITY-APPLICABILITY''
                 (''estimability must remain blocked when a local gate fails and any selected '' @
                  ''blocking reason must apply; Stage 4 does not invent precedence among '' @
                  ''simultaneous blockers'')))
      | _ \<Rightarrow> [ValidationError missing_field ''$out/counts'' ''LIF-COMPLETE-COUNTS''
          ''valid completed Stage A run requires every registered count''])"

definition validate_manifest :: "('d \<Rightarrow> bool) \<Rightarrow> 'd RunManifest \<Rightarrow> ValidationError list" where
  "validate_manifest fp_at_least_200000 manifest =
     (if rm_protocol_version manifest = V2_0_0_pre_2 then validate_blockers manifest else []) @
     fail_if (rm_stage manifest = Stage_stage_a \<and> stage_a_factors_invalid manifest)
       (ValidationError cross_field ''$out'' ''LIF-STAGE-A-FACTORS''
         ''Stage A manifest factors must use the exact registered Stage A levels'') @
     fail_if (is_failure_lifecycle (rm_lifecycle_state manifest) \<and>
         (rm_validity manifest \<noteq> Validity_invalid \<or> rm_failure_record_ids manifest = []))
       (ValidationError missing_evidence ''$out/failure_record_ids'' ''LIF-FAILURE-EVIDENCE''
         ''failure lifecycle requires INVALID and a failure record'') @
     fail_if (rm_validity manifest = Validity_invalid \<and> rm_failure_record_ids manifest = [])
       (ValidationError missing_evidence ''$out/failure_record_ids'' ''LIF-INVALID-EVIDENCE''
         ''invalid run requires a failure record'') @
     fail_if (is_early_failure (rm_lifecycle_state manifest) \<and> fabricated manifest)
       (ValidationError cross_field ''$out/artifact_refs'' ''LIF-NO-FABRICATION''
         ''early failure must not fabricate measurement, join, or integrity artifacts'') @
     fail_if (rm_join_status manifest = Join_failed \<and>
         (rm_validity manifest \<noteq> Validity_invalid \<or> rm_failure_record_ids manifest = [] \<or>
          \<not> has_relationship manifest Rel_join_audit \<or> has_relationship manifest Rel_joined_derived))
       (ValidationError cross_field ''$out/join_status'' ''DAT-FAILED-JOIN''
         (''failed join requires invalidity, failure evidence, a join audit, and no '' @ ''joined data'')) @
     (if \<not> (rm_stage manifest = Stage_stage_a \<and> rm_lifecycle_state manifest = LS_completed \<and>
           rm_validity manifest = Validity_valid)
      then []
      else
        fail_if (rm_counts manifest = None \<or> rm_integrity_evidence manifest = None \<or>
            rm_join_status manifest \<noteq> Join_passed \<or> rm_count_reconciliation manifest \<noteq> Gate_pass)
          (ValidationError missing_evidence ''$out'' ''LIF-COMPLETED-EVIDENCE''
            (''valid completed Stage A run requires counts, integrity, passed join and '' @
             ''reconciliation'')) @
        concat (map (\<lambda>relationship. fail_if (\<not> has_relationship manifest relationship)
            (ValidationError missing_evidence ''$out/artifact_refs'' ''LIF-COMPLETED-ARTIFACTS''
              ''valid completed Stage A run is missing a required artifact relationship''))
          required_relationships) @
        (case rm_counts manifest of None \<Rightarrow> []
         | Some run_counts \<Rightarrow> validate_counts fp_at_least_200000 manifest run_counts))"

subsection \<open>Block plans\<close>

type_synonym CellKey =
  "QueuePackage \<times> RequestedHardwareState \<times> Placement \<times> WorkingSetClass \<times> LoadLevel"

definition cell_key :: "StageACell \<Rightarrow> CellKey" where
  "cell_key cell =
     (cell_package cell, cell_requested_hardware_state cell, cell_placement cell,
      cell_working_set_class cell, cell_load_level cell)"

definition whole_plots_invalid :: "RequestedHardwareState \<times> RequestedHardwareState \<Rightarrow> bool" where
  "whole_plots_invalid order \<longleftrightarrow>
     fst order = snd order \<or> (fst order \<noteq> Requested_h0 \<and> snd order \<noteq> Requested_h0) \<or>
     (fst order \<noteq> Requested_h1 \<and> snd order \<noteq> Requested_h1)"

definition validate_block :: "'d BlockPlan \<Rightarrow> ValidationError list" where
  "validate_block block =
     fail_if (whole_plots_invalid (bp_whole_plot_order block))
       (ValidationError duplicate_value ''$out/whole_plot_order'' ''BLK-WHOLE-PLOTS''
         ''whole plots must contain H0 and H1 exactly once'') @
     fail_if (length (bp_cells block) \<noteq> 180)
       (ValidationError out_of_range ''$out/cells'' ''BLK-180-CELLS''
         ''Stage A block requires exactly 180 cells'') @
     concat (map (\<lambda>(index, cell).
         fail_if ((cell_package cell = Package_l0 \<or> cell_package cell = Package_l1) \<noteq>
             (cell_node_seed_ref cell \<noteq> None))
           (ValidationError cross_field (''$out/cells/'' @ std_to_string index @ ''/node_seed_ref'')
             ''BLK-NODE-SEED'' ''node seed is required only for linked packages''))
       (enumerate 0 (bp_cells block))) @
     fail_if (length (remdups (map cell_key (bp_cells block))) \<noteq> 180)
       (ValidationError duplicate_value ''$out/cells'' ''BLK-FACTORIAL-PRODUCT''
         (''cells must contain every registered Stage A Cartesian-product tuple exactly '' @ ''once'')) @
     fail_if (\<not> (length (remdups (map cell_cell_ordinal (bp_cells block))) = 180 \<and>
         list_all (\<lambda>ordinal. of_nat ordinal \<in> set (map cell_cell_ordinal (bp_cells block))) [0..<180]))
       (ValidationError cross_field ''$out/cells'' ''BLK-CELL-ORDINALS''
         ''cell ordinals must be exactly 0 through 179'') @
     fail_if ((bp_replaces_block_id block \<noteq> None) \<noteq> (bp_replacement_authorization_id block \<noteq> None) \<or>
         (bp_replaces_block_id block \<noteq> None) \<noteq> (bp_replacement_lineage block \<noteq> None))
       (ValidationError cross_field ''$out/replaces_block_id'' ''BLK-REPLACEMENT-SHAPE''
         ''replacement fields must be all absent or all present'') @
     (case (bp_replacement_lineage block, bp_replaces_block_id block) of
        (Some lineage, Some replaces) \<Rightarrow>
          fail_if (bp_block_id block = replaces \<or>
              bp_block_ordinal block = ln_replaced_block_ordinal lineage \<or>
              bp_seed_subspace_id block = ln_replaced_seed_subspace_id lineage \<or>
              bp_block_role block \<noteq> ln_replaced_block_role lineage)
            (ValidationError cross_field ''$out/replacement_lineage'' ''BLK-REPLACEMENT-LINEAGE''
              ''replacement requires new ID/ordinal/subspace and the same immutable role'')
      | _ \<Rightarrow> [])"

subsection \<open>Failures, freezes and platforms\<close>

definition validate_failure :: "'d FailureRecord \<Rightarrow> ValidationError list" where
  "validate_failure failure =
     fail_if (fr_scope failure = Scope_run \<and> (fr_run_id failure = None \<or> fr_block_id failure = None))
       (ValidationError missing_field ''$out/run_id'' ''FAIL-RUN-IDENTITY''
         ''run-scoped failure requires run_id and block_id'') @
     fail_if (fr_invalidates_run failure \<and> fr_stage failure = Stage_stage_a \<and>
         fr_block_consequence failure \<noteq> Consequence_original_block_incomplete \<and>
         fr_block_consequence failure \<noteq> Consequence_study_unresolved)
       (ValidationError cross_field ''$out/block_consequence'' ''FAIL-STAGE-A-CONSEQUENCE''
         ''invalid Stage A run makes its original block incomplete or study unresolved'') @
     fail_if (fr_resolution_status failure = Resolution_replacement_authorized \<and>
         (fr_replacement_authorization_id failure = None \<or> fr_replacement_block_id failure = None))
       (ValidationError missing_evidence ''$out/replacement_authorization_id''
         ''FAIL-REPLACEMENT-EVIDENCE''
         ''authorized replacement requires authorization and replacement block IDs'')"

definition require_blocks :: "'d FreezeRecord \<Rightarrow> ValidationError list" where
  "require_blocks record =
     fail_if (fz_affected_block_ids record = [])
       (ValidationError missing_evidence ''$out/affected_block_ids'' ''ACC-AFFECTED-BLOCKS''
         ''this record kind requires a nonempty affected block list'')"

fun validate_freeze_kind :: "RecordKind \<Rightarrow> 'd FreezeRecord \<Rightarrow> ValidationError list" where
  "validate_freeze_kind Kind_selection_freeze r =
     require_blocks r @
     fail_if (fz_status r \<noteq> Freeze_frozen \<or> fz_authorization_status r \<noteq> Authorization_authorized \<or>
         au_role (fz_authority r) \<noteq> Authority_freeze_authority \<or>
         fz_access_state_before r \<noteq> Access_training_open \<or>
         fz_access_state_after r \<noteq> Access_selection_frozen \<or>
         \<not> fz_outcome_access_prohibited r \<or> length (fz_h3_selections r) \<noteq> 6 \<or>
         fz_training_input_artifacts r = [] \<or> fz_selection_rule_version r = None \<or>
         fz_selection_record_checksum_sha256 r = None)
       (ValidationError missing_evidence ''$out'' ''ACC-SELECTION-FREEZE''
         (''selection freeze lacks exact contexts, evidence, authority, or state '' @ ''transition''))"
| "validate_freeze_kind Kind_validation_unseal r =
     require_blocks r @
     fail_if (fz_status r \<noteq> Freeze_authorized \<or> fz_authorization_status r \<noteq> Authorization_authorized \<or>
         au_role (fz_authority r) \<noteq> Authority_validation_custodian \<or>
         fz_access_state_before r \<noteq> Access_selection_frozen \<or>
         fz_access_state_after r \<noteq> Access_validation_unsealed \<or>
         fz_outcome_access_prohibited r \<or> fz_selection_record_ref r = None \<or>
         fz_validation_namespace_id r = None \<or> fz_validation_artifact_ref r = None)
       (ValidationError missing_evidence ''$out'' ''ACC-VALIDATION-UNSEAL''
         (''validation unseal requires selection and validation IDs/hashes and exact '' @
          ''custody transition''))"
| "validate_freeze_kind Kind_h3_evaluated r =
     require_blocks r @
     fail_if (au_role (fz_authority r) \<noteq> Authority_confirmatory_analyst \<or>
         fz_access_state_before r \<noteq> Access_validation_unsealed \<or>
         fz_access_state_after r \<noteq> Access_h3_evaluated \<or> fz_selection_record_ref r = None \<or>
         fz_validation_namespace_id r = None \<or> fz_validation_artifact_ref r = None \<or>
         fz_validation_unseal_record_ref r = None \<or> fz_h3_evaluation_artifact_ref r = None)
       (ValidationError missing_evidence ''$out'' ''ACC-H3-EVALUATED''
         ''H3 evaluation lacks a required predecessor or evaluation artifact hash'')"
| "validate_freeze_kind Kind_h1h2_released r =
     require_blocks r @
     fail_if (au_role (fz_authority r) \<noteq> Authority_validation_custodian \<or>
         fz_access_state_before r \<noteq> Access_h3_evaluated \<or>
         fz_access_state_after r \<noteq> Access_h1h2_released \<or> fz_h3_access_record_ref r = None \<or>
         fz_h3_evaluation_artifact_ref r = None)
       (ValidationError missing_evidence ''$out'' ''ACC-H1H2-RELEASE''
         ''H1/H2 release lacks sealed H3 access/evaluation evidence'')"
| "validate_freeze_kind Kind_replacement_authorization r =
     require_blocks r @
     fail_if (length (fz_affected_block_ids r) \<noteq> 1 \<or> fz_replacement r = None \<or>
         au_role (fz_authority r) \<noteq> Authority_replacement_authority \<or>
         fz_access_state_before r \<noteq> Access_planned \<or> fz_access_state_after r \<noteq> Access_planned \<or>
         \<not> fz_outcome_access_prohibited r)
       (ValidationError missing_evidence ''$out'' ''BLK-REPLACEMENT-AUTHORITY''
         (''replacement authorization requires one block, budget/failure lineage, and '' @ ''authority''))"
| "validate_freeze_kind Kind_amendment r =
     fail_if (au_role (fz_authority r) \<noteq> Authority_protocol_owner \<or> fz_supersedes_id r = None \<or>
         fz_prior_protocol_version r = None \<or> fz_new_protocol_version r = None \<or>
         fz_rationale r = None \<or> fz_affected_documents r = [] \<or> fz_affected_schema_ids r = [] \<or>
         fz_affected_estimands r = [] \<or> fz_pilot_record_disposition r = None \<or>
         fz_prior_authoritative_hashes r = [] \<or> \<not> fz_outcome_access_prohibited r)
       (ValidationError missing_evidence ''$out'' ''GOV-AMENDMENT-SHAPE''
         (''amendment lacks owner, lineage, impact, disposition, or prior hash '' @ ''evidence''))"
| "validate_freeze_kind Kind_protocol_freeze r = []"

definition validate_freeze :: "'d FreezeRecord \<Rightarrow> ValidationError list" where
  "validate_freeze record = validate_freeze_kind (fz_record_kind record) record"

definition validate_platform :: "'d PlatformRecord \<Rightarrow> ValidationError list" where
  "validate_platform platform =
     (let states = pf_hardware_prefetch_states platform in
      fail_if (cpu_cache_line_bytes (pf_cpu platform) = 0 \<or> cpu_atomic_width_bits (pf_cpu platform) = 0 \<or>
          cpu_atomic_alignment_bytes (pf_cpu platform) = 0 \<or> top_sockets (pf_topology platform) = 0 \<or>
          top_numa_nodes (pf_topology platform) = 0 \<or> top_physical_cores (pf_topology platform) < 2 \<or>
          mem_base_page_bytes (pf_memory platform) = 0)
        (ValidationError out_of_range ''$out'' ''PLATFORM-POSITIVE-QUANTITIES''
          ''platform quantities violate imported schema minima'') @
      concat (map (\<lambda>state.
          fail_if (hv_requested state = Requested_not_applicable \<or> hv_verified state = HW_not_applicable)
            (ValidationError unknown_enum ''$out/hardware_prefetch_states'' ''HWP-PLATFORM-STATES''
              ''platform hardware state records require H0/H1 and verification'')) states) @
      fail_if (\<not> list_ex (\<lambda>state. hv_requested state = Requested_h0) states \<or>
          \<not> list_ex (\<lambda>state. hv_requested state = Requested_h1) states)
        (ValidationError cross_field ''$out/hardware_prefetch_states'' ''HWP-PLATFORM-STATES''
          ''platform record must explicitly include requested H0 and H1''))"

fun stage4_validate :: "('d \<Rightarrow> bool) \<Rightarrow> 'd ProtocolRecord \<Rightarrow> ValidationError list" where
  "stage4_validate fp (Record_platform r) = validate_platform r"
| "stage4_validate fp (Record_schedule r) = validate_schedule r"
| "stage4_validate fp (Record_raw r document) = validate_raw r"
| "stage4_validate fp (Record_manifest r) = validate_manifest fp r"
| "stage4_validate fp (Record_block r) = validate_block r"
| "stage4_validate fp (Record_failure r) = validate_failure r"
| "stage4_validate fp (Record_freeze r) = validate_freeze r"

end
