(* ===== verification/Json_Objects.thy ===== *)
theory Json_Objects
  imports Json_Canonical Protocol_Rows
begin

text \<open>
  JSON objects built member by member, as the writers of audit documents and block plans build them:
  \<^verbatim>\<open>emplace\<close> and \<^verbatim>\<open>operator[]\<close> of the object's \<^verbatim>\<open>std::map\<close>, the values whose canonical text is read back
  unchanged, and the hash members that are zeroed before a document is hashed.
\<close>

subsection \<open>Building objects\<close>

definition uint_value :: "u64 \<Rightarrow> 'd Value" where
  "uint_value value = JNumber (Number (std_to_string (unat value)) (Unsigned_integer value))"

text \<open>\<^verbatim>\<open>emplace\<close> leaves an object that has the key unchanged; \<^verbatim>\<open>operator[]\<close> replaces the member.\<close>

definition emplace :: "(string \<times> 'v) \<Rightarrow> (string \<times> 'v) list \<Rightarrow> (string \<times> 'v) list" where
  "emplace m obj = (case map_emplace (fst m) (snd m) obj of None \<Rightarrow> obj | Some obj' \<Rightarrow> obj')"

definition json_object :: "(string \<times> 'd Value) list \<Rightarrow> (string \<times> 'd Value) list" where
  "json_object members = fold emplace members []"

definition assign_member :: "string \<Rightarrow> 'v \<Rightarrow> (string \<times> 'v) list \<Rightarrow> (string \<times> 'v) list" where
  "assign_member key value obj =
     (case map_emplace key value obj of
        Some obj' \<Rightarrow> obj'
      | None \<Rightarrow> map (\<lambda>(k, v). (k, if k = key then value else v)) obj)"

definition zero_hash :: string where
  "zero_hash = replicate 64 (CHR ''0'')"

subsection \<open>Text that is plain ASCII\<close>

definition ascii :: "string \<Rightarrow> bool" where
  "ascii s \<longleftrightarrow> list_all (\<lambda>c. byte c < 0x80) s"

lemma ascii_simps [simp]:
  "ascii []" "ascii (c # s) \<longleftrightarrow> byte c < 0x80 \<and> ascii s" "ascii (s @ t) \<longleftrightarrow> ascii s \<and> ascii t"
  by (simp_all add: ascii_def)

lemma ascii_utf8: "ascii s \<Longrightarrow> utf8 s"
proof (induction s)
  case (Cons c s)
  then have "unat (byte c) < 128" "utf8 s" by (simp_all add: word_less_nat_alt)
  then have c: "byte c \<le> 0x7f" "byte c \<le> 0x10ffff" "\<not> 0xd800 \<le> byte c"
    by (simp_all add: word_le_nat_alt word_less_nat_alt)
  with \<open>utf8 s\<close> show ?case by (auto simp: utf8_iff utf8_lead_def utf8_accept_def)
qed (simp add: utf8_def)

lemma ascii_concat: "\<forall>s \<in> set ss. ascii s \<Longrightarrow> ascii (concat ss)"
  by (induction ss) simp_all

lemma ascii_std_to_string: "ascii (std_to_string n)"
proof -
  have "is_digit c \<Longrightarrow> byte c < 0x80" for c
    by (auto simp: is_digit_def word_less_nat_alt word_le_nat_alt)
  then show ?thesis using std_to_string_digits [of n] by (auto simp: ascii_def list_all_iff)
qed

lemma ascii_hex_digit: "n < 16 \<Longrightarrow> byte (hex_digits ! n) < 0x80"
proof -
  assume "n < 16"
  then have "n \<in> set [0..<16]" by simp
  then show ?thesis by (auto simp: upt_rec hex_digits_def byte_def)
qed

lemma Sha256Digest_hex_ascii: "ascii (Sha256Digest_hex d)"
  unfolding Sha256Digest_hex_def by (intro ascii_concat) (auto simp: ascii_hex_digit unat_nibbles)

lemma Sha256_hex_ascii: "ascii (Sha256_hex h)"
  unfolding Sha256_hex_def by (intro ascii_concat) (auto simp: ascii_hex_digit unat_nibbles)

lemma Sha256Digest_hex_length: "length (Sha256Digest_hex (Sha256Digest bytes)) = 2 * length bytes"
  by (induction bytes) (simp_all add: Sha256Digest_hex_def)

lemma zero_hash_ascii: "ascii zero_hash"
  by (simp add: zero_hash_def ascii_def list_all_iff byte_def)

subsection \<open>Objects\<close>

lemma emplace_sorted:
  assumes "sorted_wrt string_less (map fst obj)"
  shows "sorted_wrt string_less (map fst (emplace m obj))"
    and "fst m \<notin> fst ` set obj \<Longrightarrow> set (emplace m obj) = insert m (set obj)"
    and "fst ` set (emplace m obj) = insert (fst m) (fst ` set obj)"
proof -
  have "fst m \<in> fst ` set obj" if "map_emplace (fst m) (snd m) obj = None"
    using map_emplace_fresh that by (metis option.distinct(1))
  then show "sorted_wrt string_less (map fst (emplace m obj))"
    and "fst m \<notin> fst ` set obj \<Longrightarrow> set (emplace m obj) = insert m (set obj)"
    and "fst ` set (emplace m obj) = insert (fst m) (fst ` set obj)"
    using assms map_emplace_Some [of "fst m" "snd m" obj]
    by (auto simp: emplace_def split: option.splits)
qed

lemma json_object_sorted: "sorted_wrt string_less (map fst (json_object ms))"
proof -
  have "sorted_wrt string_less (map fst obj) \<Longrightarrow> sorted_wrt string_less (map fst (fold emplace ms obj))" for obj
    by (induction ms arbitrary: obj) (simp_all add: emplace_sorted)
  then show ?thesis by (simp add: json_object_def)
qed

lemma json_object_set:
  assumes "distinct (map fst ms)"
  shows "set (json_object ms) = set ms"
proof -
  have "sorted_wrt string_less (map fst obj) \<Longrightarrow> fst ` set ms \<inter> fst ` set obj = {} \<Longrightarrow>
      set (fold emplace ms obj) = set ms \<union> set obj" for obj
    using assms
  proof (induction ms arbitrary: obj)
    case (Cons m ms)
    have "fst ` set ms \<inter> fst ` set (emplace m obj) = {}"
      using Cons.prems by (auto simp: emplace_sorted(3))
    then show ?case
      using Cons.IH [of "emplace m obj"] Cons.prems by (auto simp: emplace_sorted)
  qed simp
  then show ?thesis by (simp add: json_object_def)
qed

lemma json_object_lookup:
  assumes "distinct (map fst ms)"
  shows "map_of (json_object ms) = map_of ms"
  using json_object_set [OF assms] sorted_keys_distinct [OF json_object_sorted [of ms]] assms
  by (simp add: map_of_inject_set)

lemma assign_member_known:
  assumes "sorted_wrt string_less (map fst obj)" and "key \<in> fst ` set obj"
  shows "assign_member key v obj = map (\<lambda>m. (fst m, if fst m = key then v else snd m)) obj"
proof -
  have "map_emplace key v obj = None"
  proof (rule ccontr)
    assume "map_emplace key v obj \<noteq> None"
    then obtain obj' where "map_emplace key v obj = Some obj'" by blast
    from map_emplace_Some [OF this assms(1)] assms(2) show False by simp
  qed
  then show ?thesis by (simp add: assign_member_def case_prod_unfold)
qed

lemma map_of_values:
  "map_of (map (\<lambda>m. (fst m, f (fst m) (snd m))) obj) k = map_option (f k) (map_of obj k)"
  by (induction obj) auto

lemma assign_member_lookup:
  assumes "sorted_wrt string_less (map fst obj)" and "key \<in> fst ` set obj"
  shows "map_of (assign_member key v obj) = (map_of obj)(key \<mapsto> v)"
proof
  fix k
  obtain w where "map_of obj key = Some w" using assms(2) by (metis domD dom_map_of_conv_image_fst)
  then show "map_of (assign_member key v obj) k = ((map_of obj)(key \<mapsto> v)) k"
    unfolding assign_member_known [OF assms] map_of_values [where f = "\<lambda>k w. if k = key then v else w"]
    by (cases "map_of obj k") auto
qed

text \<open>Setting a member that holds the value already, or setting it twice.\<close>

lemma assign_member_same:
  assumes "sorted_wrt string_less (map fst obj)" and "map_of obj key = Some v"
  shows "assign_member key v obj = obj"
proof -
  have "key \<in> fst ` set obj" using assms(2) by (metis domI dom_map_of_conv_image_fst)
  moreover have "snd m = v" if "m \<in> set obj" "fst m = key" for m
    using that assms(2) sorted_keys_distinct [OF assms(1)] by (metis map_of_is_SomeI option.inject prod.collapse)
  ultimately show ?thesis by (simp add: assign_member_known [OF assms(1)] map_idI prod_eq_iff)
qed

lemma assign_member_twice:
  assumes "sorted_wrt string_less (map fst obj)" and "key \<in> fst ` set obj"
  shows "assign_member key w (assign_member key v obj) = assign_member key w obj"
proof -
  let ?obj = "assign_member key v obj"
  have "map fst ?obj = map fst obj" by (simp add: assign_member_known [OF assms])
  then have "sorted_wrt string_less (map fst ?obj)" "key \<in> fst ` set ?obj"
    using assms by (simp, metis list.set_map)
  from assign_member_known [OF this] show ?thesis
    by (simp add: assign_member_known [OF assms] comp_def)
qed

lemma well_formed_assign:
  assumes "well_formed ops (JObject obj)" and "key \<in> fst ` set obj" and "well_formed ops v"
  shows "well_formed ops (JObject (assign_member key v obj))"
proof -
  have s: "sorted_wrt string_less (map fst obj)" using assms(1) by simp
  show ?thesis using assms by (auto simp: assign_member_known [OF s assms(2)] comp_def list_all_iff)
qed

lemma exact_assign:
  assumes "sorted_wrt string_less (map fst obj)" and "exact (JObject obj)" and "key \<in> fst ` set obj" and "exact v"
  shows "exact (JObject (assign_member key v obj))"
  using assms by (auto simp: assign_member_known list_all_iff)

text \<open>Setting a member of an object gives the object of the changed members.\<close>

lemma json_object_assign:
  assumes "distinct (map fst ms)" and "key \<in> fst ` set ms"
  shows "assign_member key v (json_object ms) = json_object (map (\<lambda>m. (fst m, if fst m = key then v else snd m)) ms)"
    (is "?l = json_object ?ms")
proof -
  have d: "distinct (map fst ?ms)" using assms(1) by (simp add: comp_def)
  have key: "key \<in> fst ` set (json_object ms)" using assms by (simp add: json_object_set)
  obtain w where w: "map_of ms key = Some w" using assms(2) by (metis domD dom_map_of_conv_image_fst)
  have "((map_of ms)(key \<mapsto> v)) k = map_option (\<lambda>w. if k = key then v else w) (map_of ms k)" for k
    using w by (cases "map_of ms k") auto
  then have "map_of ?l = map_of (json_object ?ms)"
    unfolding assign_member_lookup [OF json_object_sorted key] json_object_lookup [OF assms(1)]
      json_object_lookup [OF d] fun_eq_iff map_of_values [where f = "\<lambda>k w. if k = key then v else w"]
    by simp
  note lookup = this
  have sorted: "sorted_wrt string_less (map fst ?l)"
    using json_object_sorted [of ms] by (simp add: assign_member_known [OF json_object_sorted key] comp_def)
  show ?thesis
    by (rule sorted_keys_unique [OF sorted json_object_sorted iffD1 [OF map_of_inject_set lookup]])
      (rule sorted_keys_distinct [OF sorted] sorted_keys_distinct [OF json_object_sorted])+
qed

subsection \<open>Values that are read back unchanged\<close>

definition plain :: "'d binary64_ops \<Rightarrow> 'd Value \<Rightarrow> bool" where
  "plain ops v \<longleftrightarrow> well_formed ops v \<and> exact v \<and> normal v = v"

lemma plain_simps [simp]:
  "plain ops JNull" "plain ops (JString s) \<longleftrightarrow> utf8 s" "plain ops (uint_value u)"
  "plain ops (JArray vs) \<longleftrightarrow> list_all (plain ops) vs"
proof -
  have "map normal vs = vs \<longleftrightarrow> list_all (\<lambda>v. normal v = v) vs" by (induction vs) auto
  then show "plain ops (JArray vs) \<longleftrightarrow> list_all (plain ops) vs" by (auto simp: plain_def list_all_iff)
qed (simp_all add: plain_def uint_value_def normal_number_def)

lemma plain_object:
  "plain ops (JObject ms) \<longleftrightarrow>
     sorted_wrt string_less (map fst ms) \<and> (\<forall>m \<in> set ms. utf8 (fst m) \<and> plain ops (snd m))"
proof -
  have "map (\<lambda>m. (fst m, normal (snd m))) ms = ms \<longleftrightarrow> (\<forall>m \<in> set ms. normal (snd m) = snd m)"
    by (induction ms) auto
  then show ?thesis by (auto simp: plain_def list_all_iff)
qed

lemma plain_json_object:
  assumes "distinct (map fst ms)" and "\<forall>m \<in> set ms. utf8 (fst m) \<and> plain ops (snd m)"
  shows "plain ops (JObject (json_object ms))"
  using assms by (simp add: plain_object json_object_sorted json_object_set)

lemma plain_text: "plain ops v \<Longrightarrow> \<exists>t. canonicalize ops v = Inr t \<and> json_parse ops t = Inr v"
  using canonicalize_parse [of ops v] by (auto simp: plain_def)

subsection \<open>Digests\<close>

text \<open>The digest of the C library has 32 bytes.\<close>

definition digest_32 :: "(u8 list \<Rightarrow> u8 list option) \<Rightarrow> bool" where
  "digest_32 digest \<longleftrightarrow> (\<forall>bytes d. digest bytes = Some d \<longrightarrow> length d = 32)"

lemma workload_sha256_hex:
  assumes "digest_32 digest" and "workload_sha256 digest bytes = Inr d"
  shows "length (Sha256Digest_hex d) = 64"
  using assms Sha256Digest_hex_length by (auto simp: digest_32_def workload_sha256_def split: option.splits)

end
