(* ===== verification/Reconciliation.thy ===== *)
theory Reconciliation
  imports Semantic Raw_Decode Json_Objects
begin

text \<open>
  Reconciliation of the two raw streams of a run, \<^verbatim>\<open>reconciliation/reconciliation.hpp\<close> and
  \<^verbatim>\<open>reconciliation/reconciliation.cpp\<close>: the exact join audit \<^verbatim>\<open>reconcile\<close>, the run gates
  \<^verbatim>\<open>evaluate_run_status\<close> and the canonical audit document \<^verbatim>\<open>make_join_audit\<close>. SHA-256 is the argument
  \<open>digest\<close>; where it throws, the error is on the left of the outer sum.
\<close>

subsection \<open>Issues and results\<close>

datatype FailureClass =
    FC_producer_count | FC_producer_run_identity | FC_producer_logical_sequence
  | FC_producer_record_mapping | FC_producer_outcome_shape | FC_accepted_ordinal
  | FC_consumer_count | FC_consumer_run_identity | FC_consumer_ordinal
  | FC_consumer_record_index | FC_timestamp_order

fun FailureClass_to_string :: "FailureClass \<Rightarrow> string" where
  "FailureClass_to_string FC_producer_count = ''PRODUCER_COUNT''"
| "FailureClass_to_string FC_producer_run_identity = ''PRODUCER_RUN_IDENTITY''"
| "FailureClass_to_string FC_producer_logical_sequence = ''PRODUCER_LOGICAL_SEQUENCE''"
| "FailureClass_to_string FC_producer_record_mapping = ''PRODUCER_RECORD_MAPPING''"
| "FailureClass_to_string FC_producer_outcome_shape = ''PRODUCER_OUTCOME_SHAPE''"
| "FailureClass_to_string FC_accepted_ordinal = ''ACCEPTED_ORDINAL''"
| "FailureClass_to_string FC_consumer_count = ''CONSUMER_COUNT''"
| "FailureClass_to_string FC_consumer_run_identity = ''CONSUMER_RUN_IDENTITY''"
| "FailureClass_to_string FC_consumer_ordinal = ''CONSUMER_ORDINAL''"
| "FailureClass_to_string FC_consumer_record_index = ''CONSUMER_RECORD_INDEX''"
| "FailureClass_to_string FC_timestamp_order = ''TIMESTAMP_ORDER''"

datatype Issue = Issue (issue_failure: FailureClass) (issue_error: ValidationError)

record ReconciliationResult =
  rr_status :: JoinStatus
  rr_producer_rows :: u64
  rr_accepted_rows :: u64
  rr_full_rows :: u64
  rr_consumer_rows :: u64
  rr_joined_rows :: "JoinedRecord list"
  rr_issues :: "Issue list"

definition issue_if ::
  "bool \<Rightarrow> FailureClass \<Rightarrow> ErrorCategory \<Rightarrow> string \<Rightarrow> string \<Rightarrow> string \<Rightarrow> Issue list" where
  "issue_if b failure category path rule message =
     (if b then [Issue failure (ValidationError category path rule message)] else [])"

subsection \<open>The exact join\<close>

text \<open>
  One turn of the loop over the producer rows, without the bookkeeping of accepted rows.
\<close>

definition producer_row_issues ::
  "Identifier \<Rightarrow> u64 list \<Rightarrow> nat \<Rightarrow> u64 \<Rightarrow> ProducerRecord \<Rightarrow> Issue list" where
  "producer_row_issues run_id expected index next_accepted row =
     (let path = ''$reconciliation/producer/'' @ std_to_string index in
      issue_if (pr_run_id row \<noteq> run_id) FC_producer_run_identity reference_mismatch
        (path @ ''/run_id'') ''REC-PRODUCER-RUN-ID''
        ''producer row run identity differs from the reconciled run'' @
      issue_if (pr_logical_sequence row \<noteq> of_nat index) FC_producer_logical_sequence cross_field
        (path @ ''/logical_sequence'') ''REC-LOGICAL-SEQUENCE''
        ''producer logical sequence must be contiguous in stream order'' @
      issue_if (index < length expected \<and> pr_record_index row \<noteq> expected ! index)
        FC_producer_record_mapping reference_mismatch
        (path @ ''/record_index'') ''REC-RECORD-MAPPING''
        ''record index disagrees with the outcome-independent Stage 6 mapping'' @
      (if pr_outcome row = Outcome_accepted
       then (case (pr_accepted_ordinal row, pr_enqueue_linearization row) of
           (Some ordinal, Some _) \<Rightarrow>
             issue_if (ordinal \<noteq> next_accepted) FC_accepted_ordinal cross_field
               (path @ ''/accepted_ordinal'') ''REC-ACCEPTED-ORDINAL''
               ''accepted ordinals must be contiguous in producer logical order''
         | _ \<Rightarrow> issue_if True FC_producer_outcome_shape missing_field path ''REC-ACCEPTED-SHAPE''
             ''ACCEPTED requires accepted ordinal and enqueue linearization'')
       else
         issue_if (pr_accepted_ordinal row \<noteq> None \<or> pr_enqueue_linearization row \<noteq> None)
           FC_producer_outcome_shape cross_field path ''REC-FULL-SHAPE''
           ''FULL cannot contain accepted ordinal or enqueue linearization''))"

definition counts_as_accepted :: "ProducerRecord \<Rightarrow> bool" where
  "counts_as_accepted row \<longleftrightarrow>
     pr_outcome row = Outcome_accepted \<and> pr_accepted_ordinal row \<noteq> None \<and>
     pr_enqueue_linearization row \<noteq> None"

text \<open>The loop: its issues, the number of full rows, and the accepted rows with their positions.\<close>

fun reconcile_producers ::
  "Identifier \<Rightarrow> u64 list \<Rightarrow> nat \<Rightarrow> u64 \<Rightarrow> ProducerRecord list \<Rightarrow>
     Issue list \<times> u64 \<times> (nat \<times> ProducerRecord) list" where
  "reconcile_producers run_id expected index next_accepted [] = ([], 0, [])"
| "reconcile_producers run_id expected index next_accepted (row # rows) =
     (let here = producer_row_issues run_id expected index next_accepted row;
          next_accepted' = (if counts_as_accepted row then next_accepted + 1 else next_accepted);
          (issues, full, accepted) = reconcile_producers run_id expected (Suc index) next_accepted' rows
      in (here @ issues,
          if pr_outcome row = Outcome_accepted then full else full + 1,
          if counts_as_accepted row then (index, row) # accepted else accepted))"

definition consumer_row_issues ::
  "Identifier \<Rightarrow> nat \<Rightarrow> ConsumerRecord \<Rightarrow> ProducerRecord \<Rightarrow> Issue list" where
  "consumer_row_issues run_id index consumer producer =
     (let path = ''$reconciliation/consumer/'' @ std_to_string index in
      issue_if (cr_run_id consumer \<noteq> run_id) FC_consumer_run_identity reference_mismatch
        (path @ ''/run_id'') ''REC-CONSUMER-RUN-ID''
        ''consumer row run identity differs from the reconciled run'' @
      issue_if (cr_consumed_ordinal consumer \<noteq> of_nat index \<or>
          pr_accepted_ordinal producer \<noteq> Some (cr_consumed_ordinal consumer))
        FC_consumer_ordinal cross_field (path @ ''/consumed_ordinal'') ''REC-KTH-ORDINAL''
        ''the k-th consumer row must match the k-th accepted producer row'' @
      issue_if (cr_observed_record_index consumer \<noteq> pr_record_index producer)
        FC_consumer_record_index reference_mismatch
        (path @ ''/observed_record_index'') ''REC-KTH-RECORD-INDEX''
        ''consumer record index must match its accepted producer event'')"

fun reconcile_consumers ::
  "Identifier \<Rightarrow> nat \<Rightarrow> ConsumerRecord list \<Rightarrow> (nat \<times> ProducerRecord) list \<Rightarrow> Issue list" where
  "reconcile_consumers run_id index (consumer # consumers) ((_, producer) # accepted) =
     consumer_row_issues run_id index consumer producer @
     reconcile_consumers run_id (Suc index) consumers accepted"
| "reconcile_consumers run_id index _ _ = []"

text \<open>The loop that derives the joined rows: the issues and the rows.\<close>

fun derive_rows ::
  "nat \<Rightarrow> (nat \<times> ProducerRecord) list \<Rightarrow> ConsumerRecord list \<Rightarrow> Issue list \<times> JoinedRecord list" where
  "derive_rows index ((position, producer) # accepted) (consumer # consumers) =
     (let (issues, rows) = derive_rows (Suc index) accepted consumers in
      (case derive_joined_record producer (of_nat position) consumer (of_nat index) of
         Inl errors \<Rightarrow> (map (Issue FC_timestamp_order) errors @ issues, rows)
       | Inr joined \<Rightarrow> (issues, joined # rows)))"
| "derive_rows index _ _ = ([], [])"

text \<open>
  When the audit found no issue, the consumer rows are as many as the accepted ones, so the pairs
  of the last loop are within both lists.
\<close>

definition reconcile ::
  "Identifier \<Rightarrow> ProducerRecord list \<Rightarrow> ConsumerRecord list \<Rightarrow> u64 list \<Rightarrow> ReconciliationResult" where
  "reconcile run_id producer_rows consumer_rows expected_record_indices =
     (let (producer_issues, full, accepted) =
            reconcile_producers run_id expected_record_indices 0 0 producer_rows;
          issues =
            issue_if (length producer_rows \<noteq> length expected_record_indices) FC_producer_count
              reference_mismatch ''$reconciliation/producer_rows'' ''REC-PRODUCER-MAPPING-COUNT''
              ''producer row count differs from the immutable record-index mapping'' @
            producer_issues @
            issue_if (length consumer_rows \<noteq> length accepted) FC_consumer_count cross_field
              ''$reconciliation/consumer_rows'' ''REC-CONSUMER-COUNT''
              ''consumer count must equal the accepted producer count'' @
            reconcile_consumers run_id 0 consumer_rows accepted;
          result = \<lparr>rr_status = Join_failed, rr_producer_rows = of_nat (length producer_rows),
            rr_accepted_rows = of_nat (length accepted), rr_full_rows = full,
            rr_consumer_rows = of_nat (length consumer_rows), rr_joined_rows = [], rr_issues = issues\<rparr>
      in if issues \<noteq> [] then result
         else
           (let (timestamp_issues, rows) = derive_rows 0 accepted consumer_rows in
            if timestamp_issues \<noteq> [] then result\<lparr>rr_issues := timestamp_issues\<rparr>
            else result\<lparr>rr_status := Join_passed, rr_joined_rows := rows\<rparr>))"

subsection \<open>Run gates\<close>

datatype LifecycleCompletion = LC_not_evaluated | LC_incomplete | LC_complete

record AuthoritativeGate =
  ag_status :: GateStatus
  ag_authoritative :: bool

record AuthoritativeBlockCompleteness =
  ab_status :: BlockCompleteness
  ab_authoritative :: bool

record 'd RunStatusInput =
  si_stage :: Stage
  si_lifecycle_state :: LifecycleState
  si_join_status :: JoinStatus
  si_counts :: "'d RunCounts option"
  si_invalidating_failure_record_present :: bool
  si_block_completeness :: AuthoritativeBlockCompleteness
  si_access_integrity :: AuthoritativeGate

record RunStatus =
  st_lifecycle_completion :: LifecycleCompletion
  st_validity :: RunValidity
  st_join_status :: JoinStatus
  st_count_reconciliation :: GateStatus
  st_zero_loss :: GateStatus
  st_effective_tail :: GateStatus
  st_confirmatory_estimability :: ConfirmatoryEstimability
  st_block_completeness :: BlockCompleteness
  st_confirmatory_blockers :: "ConfirmatoryBlocker list"

definition n_eff_at_least_threshold :: "('d \<Rightarrow> bool) \<Rightarrow> 'd Number \<Rightarrow> bool" where
  "n_eff_at_least_threshold fp_at_least_200000 number =
     (case number_value number of
        Signed_integer i \<Rightarrow> i \<ge> 200000
      | Unsigned_integer u \<Rightarrow> u \<ge> 200000
      | Binary64 d \<Rightarrow> fp_at_least_200000 d)"

definition complete_count_identities :: "'d RunCounts \<Rightarrow> bool" where
  "complete_count_identities c =
     (case (rn_offered c, rn_attempted c, rn_accepted c, rn_full c, rn_consumed c, rn_final_occupancy c,
            rn_raw_sample_count c, rn_n_eff_p999 c) of
        (Some offered, Some attempted, Some accepted, Some full, Some consumed, Some final_occupancy,
         Some raw_sample_count, Some _) \<Rightarrow>
          \<not> accepted > u64_max - full \<and> offered = attempted \<and> attempted = accepted + full \<and>
          consumed = accepted \<and> final_occupancy = 0 \<and> raw_sample_count = accepted
      | _ \<Rightarrow> False)"

definition summary_for :: "ConfirmatoryBlocker list \<Rightarrow> ConfirmatoryEstimability" where
  "summary_for blockers =
     (if blockers = [] then Est_estimable
      else if length blockers > 1 then Est_blocked_multiple
      else (case hd blockers of
          Blocker_blocked_access_leakage \<Rightarrow> Est_blocked_access_leakage
        | Blocker_blocked_effective_tail \<Rightarrow> Est_blocked_effective_tail
        | Blocker_blocked_incomplete_block \<Rightarrow> Est_blocked_incomplete_block
        | Blocker_blocked_invalid_run \<Rightarrow> Est_blocked_invalid_run
        | Blocker_blocked_zero_loss \<Rightarrow> Est_blocked_zero_loss))"

definition initial_status :: "'d RunStatusInput \<Rightarrow> RunStatus" where
  "initial_status input =
     \<lparr>st_lifecycle_completion = LC_not_evaluated, st_validity = Validity_not_evaluated,
      st_join_status = si_join_status input, st_count_reconciliation = Gate_not_evaluated,
      st_zero_loss = Gate_not_evaluated, st_effective_tail = Gate_not_evaluated,
      st_confirmatory_estimability = Est_not_evaluated,
      st_block_completeness = ab_status (si_block_completeness input), st_confirmatory_blockers = []\<rparr>"

text \<open>The gates of a completed lifecycle, from its counts.\<close>

definition completed_gates :: "('d \<Rightarrow> bool) \<Rightarrow> 'd RunStatusInput \<Rightarrow> 'd RunCounts \<Rightarrow> RunStatus \<Rightarrow> RunStatus" where
  "completed_gates fp_at_least_200000 input c output =
     (let reconciled = (complete_count_identities c \<and> si_join_status input = Join_passed) in
      output\<lparr>st_count_reconciliation := (if reconciled then Gate_pass else Gate_fail),
        st_validity := (if reconciled then Validity_valid else Validity_invalid),
        st_zero_loss := (case rn_full c of None \<Rightarrow> st_zero_loss output
          | Some full \<Rightarrow> if full = 0 then Gate_pass else Gate_fail),
        st_effective_tail := (case rn_n_eff_p999 c of None \<Rightarrow> st_effective_tail output
          | Some n \<Rightarrow> if n_eff_at_least_threshold fp_at_least_200000 n then Gate_pass else Gate_fail)\<rparr>)"

definition status_blockers :: "'d RunStatusInput \<Rightarrow> RunStatus \<Rightarrow> ConfirmatoryBlocker list" where
  "status_blockers input output =
     (if ag_status (si_access_integrity input) = Gate_fail then [Blocker_blocked_access_leakage] else []) @
     (if st_effective_tail output = Gate_fail then [Blocker_blocked_effective_tail] else []) @
     (if ab_status (si_block_completeness input) = Completeness_incomplete
      then [Blocker_blocked_incomplete_block] else []) @
     (if st_validity output = Validity_invalid then [Blocker_blocked_invalid_run] else []) @
     (if st_zero_loss output = Gate_fail then [Blocker_blocked_zero_loss] else [])"

text \<open>From the check for failure evidence to the end of \<^verbatim>\<open>evaluate_run_status\<close>.\<close>

definition finish_status :: "'d RunStatusInput \<Rightarrow> RunStatus \<Rightarrow> RunStatus Result" where
  "finish_status input output =
     (if st_validity output = Validity_invalid \<and> \<not> si_invalidating_failure_record_present input
      then Inl [ValidationError missing_evidence ''$status/failure_record_ids''
        ''REC-INVALID-FAILURE-EVIDENCE'' ''INVALID requires an invalidating failure record'']
      else if si_stage input \<noteq> Stage_stage_a
      then Inr (output\<lparr>st_confirmatory_estimability := Est_not_applicable\<rparr>)
      else if \<not> (st_lifecycle_completion output \<noteq> LC_not_evaluated \<and>
            st_validity output \<noteq> Validity_not_evaluated \<and> st_zero_loss output \<noteq> Gate_not_evaluated \<and>
            st_effective_tail output \<noteq> Gate_not_evaluated) \<or>
          \<not> ab_authoritative (si_block_completeness input) \<or> \<not> ag_authoritative (si_access_integrity input)
      then Inr (output\<lparr>st_confirmatory_estimability := Est_not_evaluated\<rparr>)
      else
        (let blockers = status_blockers input output in
         Inr (output\<lparr>st_confirmatory_blockers := blockers,
           st_confirmatory_estimability := summary_for blockers\<rparr>)))"

definition evaluate_run_status :: "('d \<Rightarrow> bool) \<Rightarrow> 'd RunStatusInput \<Rightarrow> RunStatus Result" where
  "evaluate_run_status fp_at_least_200000 input =
     (let output = initial_status input in
      if si_lifecycle_state input = LS_planned \<or> si_lifecycle_state input = LS_measurement_started
      then Inr output
      else if si_lifecycle_state input = LS_completed
      then (case si_counts input of
          None \<Rightarrow> Inl [ValidationError missing_evidence ''$status/counts'' ''REC-STATUS-COUNTS''
            ''completed lifecycle requires complete counts'']
        | Some c \<Rightarrow>
            finish_status input (completed_gates fp_at_least_200000 input c
              (output\<lparr>st_lifecycle_completion := LC_complete\<rparr>)))
      else finish_status input
        (output\<lparr>st_lifecycle_completion := LC_incomplete, st_validity := Validity_invalid\<rparr>))"

subsection \<open>The join audit\<close>

record JoinAuditInput =
  ja_producer_source :: ArtifactReference
  ja_consumer_source :: ArtifactReference
  ja_joined_artifact :: "ArtifactReference option"

definition artifact_value :: "ArtifactReference \<Rightarrow> 'd Value" where
  "artifact_value reference =
     JObject (json_object
       [(''artifact_id'', JString (id_value (ar_artifact_id reference))),
        (''sha256'', JString (Sha256_hex (ar_sha256 reference)))])"

definition issue_value :: "Issue \<Rightarrow> 'd Value" where
  "issue_value issue =
     JObject (json_object
       [(''failure_class'', JString (FailureClass_to_string (issue_failure issue))),
        (''category'', JString (ErrorCategory_to_string (ve_category (issue_error issue)))),
        (''path'', JString (ve_path (issue_error issue))),
        (''rule_id'', JString (ve_rule_id (issue_error issue))),
        (''message'', JString (ve_message (issue_error issue)))])"

definition audit_object ::
  "Identifier \<Rightarrow> ReconciliationResult \<Rightarrow> JoinAuditInput \<Rightarrow> (string \<times> 'd Value) list" where
  "audit_object run_id result artifacts =
     json_object
       [(''schema_version'', JString ''cpu-prefetch-join-audit/1''),
        (''protocol_version'', JString kProtocolVersion),
        (''run_id'', JString (id_value run_id)),
        (''join_status'', JString (if rr_status result = Join_passed then ''PASSED'' else ''FAILED'')),
        (''producer_rows'', uint_value (rr_producer_rows result)),
        (''accepted_rows'', uint_value (rr_accepted_rows result)),
        (''full_rows'', uint_value (rr_full_rows result)),
        (''consumer_rows'', uint_value (rr_consumer_rows result)),
        (''source_artifacts'', JArray [artifact_value (ja_producer_source artifacts),
           artifact_value (ja_consumer_source artifacts)]),
        (''issues'', JArray (map issue_value (rr_issues result))),
        (''joined_artifact'', case ja_joined_artifact artifacts of
           Some joined \<Rightarrow> artifact_value joined | None \<Rightarrow> JNull),
        (''record_sha256'', JString zero_hash)]"

definition make_join_audit ::
  "'d binary64_ops \<Rightarrow> (u8 list \<Rightarrow> u8 list option) \<Rightarrow> Identifier \<Rightarrow> ReconciliationResult \<Rightarrow> JoinAuditInput \<Rightarrow>
     workload_error + string Result" where
  "make_join_audit ops digest run_id result artifacts =
     (if rr_status result = Join_not_attempted
      then Inr (Inl [ValidationError cross_field ''$audit/join_status'' ''REC-AUDIT-FINAL''
        ''join audit requires PASSED or FAILED status''])
      else if (rr_status result = Join_passed) \<noteq> (ja_joined_artifact artifacts \<noteq> None)
      then Inr (Inl [ValidationError cross_field ''$audit/joined_artifact'' ''REC-AUDIT-JOINED''
        (''passed audit requires joined artifact; failed audit '' @ ''forbids it'')])
      else if (rr_status result = Join_passed \<and> rr_issues result \<noteq> []) \<or>
          (rr_status result = Join_failed \<and> rr_issues result = [])
      then Inr (Inl [ValidationError cross_field ''$audit/issues'' ''REC-AUDIT-ISSUES''
        ''audit issue cardinality disagrees with join status''])
      else
        (let object = audit_object run_id result artifacts in
         (case canonicalize ops (JObject object) of
            Inl errors \<Rightarrow> Inr (Inl errors)
          | Inr canonical_zero \<Rightarrow>
              (case workload_sha256 digest (string_bytes canonical_zero) of
                 Inl e \<Rightarrow> Inl e
               | Inr actual \<Rightarrow>
                   Inr (canonicalize ops
                     (JObject (assign_member ''record_sha256'' (JString (Sha256Digest_hex actual)) object)))))))"

end
