(* ===== verification/Cross_Record.thy ===== *)
theory Cross_Record
  imports Reconciliation
begin

text \<open>
  The cross-record validator of Stage 12, \<^verbatim>\<open>Stage12CrossRecordSemanticValidator::validate\<close> of
  \<^verbatim>\<open>reconciliation/reconciliation.cpp\<close>. The locals that its lambdas capture are the record
  \<open>stage12\<close>; every section of the loop over the manifests is a function to a list of errors, or
  to the exception of a failed digest.
\<close>

subsection \<open>Inputs\<close>

record ArtifactBytes =
  ab_artifact_id :: Identifier
  ab_bytes :: "u8 list"

record RunEvidence =
  ev_run_id :: Identifier
  ev_expected_record_indices :: "u64 list"
  ev_block_completeness :: AuthoritativeBlockCompleteness
  ev_access_integrity :: AuthoritativeGate

record 'd stage12 =
  s12_ops :: "'d binary64_ops"
  s12_at_least :: "'d \<Rightarrow> bool"
  s12_digest :: "u8 list \<Rightarrow> u8 list option"
  s12_artifacts :: "ArtifactBytes list"
  s12_evidence :: "RunEvidence list"
  s12_raw_envelopes :: "RawObservationEnvelope list"
  s12_schedules :: "'d ScheduleRecord list"
  s12_failures :: "'d FailureRecord list"

type_synonym checked = "workload_error + ValidationError list"

text \<open>Checks in sequence: their errors, or the first exception.\<close>

definition seq_checks :: "checked list \<Rightarrow> checked" where
  "seq_checks cs = (case map_result (\<lambda>c. c) cs of Inl e \<Rightarrow> Inl e | Inr ess \<Rightarrow> Inr (concat ess))"

definition check_that :: "workload_error + bool \<Rightarrow> ValidationError \<Rightarrow> checked" where
  "check_that ok e = (case ok of Inl exc \<Rightarrow> Inl exc | Inr b \<Rightarrow> Inr (fail_if (\<not> b) e))"

fun protocol_version_of :: "'d ProtocolRecord \<Rightarrow> ProtocolVersion" where
  "protocol_version_of (Record_platform r) = pf_protocol_version r"
| "protocol_version_of (Record_schedule r) = sc_protocol_version r"
| "protocol_version_of (Record_raw r document) = re_protocol_version r"
| "protocol_version_of (Record_manifest r) = rm_protocol_version r"
| "protocol_version_of (Record_block r) = bp_protocol_version r"
| "protocol_version_of (Record_failure r) = fr_protocol_version r"
| "protocol_version_of (Record_freeze r) = fz_protocol_version r"

fun schema_version_of :: "'d ProtocolRecord \<Rightarrow> ProtocolVersion" where
  "schema_version_of (Record_platform r) = pf_schema_version r"
| "schema_version_of (Record_schedule r) = sc_schema_version r"
| "schema_version_of (Record_raw r document) = re_schema_version r"
| "schema_version_of (Record_manifest r) = rm_schema_version r"
| "schema_version_of (Record_block r) = bp_schema_version r"
| "schema_version_of (Record_failure r) = fr_schema_version r"
| "schema_version_of (Record_freeze r) = fz_schema_version r"

definition find_artifact :: "ArtifactBytes list \<Rightarrow> string \<Rightarrow> ArtifactBytes option" where
  "find_artifact artifacts artifact_id =
     find (\<lambda>artifact. id_value (ab_artifact_id artifact) = artifact_id) artifacts"

definition find_evidence :: "RunEvidence list \<Rightarrow> string \<Rightarrow> RunEvidence option" where
  "find_evidence evidence run_id = find (\<lambda>item. id_value (ev_run_id item) = run_id) evidence"

definition bytes_string :: "u8 list \<Rightarrow> string" where
  "bytes_string bytes = map (\<lambda>b. char_of (unat b)) bytes"

definition parse_artifact_json :: "'d binary64_ops \<Rightarrow> ArtifactBytes \<Rightarrow> 'd Value Result" where
  "parse_artifact_json ops artifact = json_parse ops (bytes_string (ab_bytes artifact))"

text \<open>The object of a document that parsed to an object.\<close>

definition parsed_object :: "'d Value Result \<Rightarrow> (string \<times> 'd Value) list option" where
  "parsed_object document = (case document of Inl _ \<Rightarrow> None | Inr v \<Rightarrow> as_object v)"

definition string_member :: "(string \<times> 'd Value) list \<Rightarrow> string \<Rightarrow> string" where
  "string_member obj name =
     (case Option.bind (map_of obj name) as_string of None \<Rightarrow> [] | Some text \<Rightarrow> text)"

definition uint_member :: "(string \<times> 'd Value) list \<Rightarrow> string \<Rightarrow> u64 option" where
  "uint_member obj name =
     (case Option.bind (map_of obj name) as_number of
        None \<Rightarrow> None
      | Some number \<Rightarrow>
          (case number_value number of
             Unsigned_integer u \<Rightarrow> Some u
           | Signed_integer i \<Rightarrow> if i \<ge> 0 then Some (of_int i) else None
           | Binary64 _ \<Rightarrow> None))"

definition zero_self_hash_matches ::
  "'d binary64_ops \<Rightarrow> (u8 list \<Rightarrow> u8 list option) \<Rightarrow> 'd Value \<Rightarrow> string \<Rightarrow> workload_error + bool" where
  "zero_self_hash_matches ops digest document field =
     (case as_object document of
        None \<Rightarrow> Inr False
      | Some source \<Rightarrow>
          (let declared = string_member source field in
           if length declared \<noteq> 64 then Inr False
           else (case canonicalize ops (JObject (assign_member field (JString zero_hash) source)) of
               Inl _ \<Rightarrow> Inr False
             | Inr canonical \<Rightarrow>
                 (case workload_sha256 digest (string_bytes canonical) of
                    Inl e \<Rightarrow> Inl e
                  | Inr actual \<Rightarrow> Inr (Sha256Digest_hex actual = declared)))))"

definition json_artifact_matches :: "'d Value \<Rightarrow> ArtifactReference \<Rightarrow> bool" where
  "json_artifact_matches value expected =
     (case as_object value of
        None \<Rightarrow> False
      | Some obj \<Rightarrow>
          string_member obj ''artifact_id'' = id_value (ar_artifact_id expected) \<and>
          string_member obj ''sha256'' = Sha256_hex (ar_sha256 expected))"

definition checksum_matches :: "'d Value \<Rightarrow> ChecksumEvidence \<Rightarrow> bool" where
  "checksum_matches value expected =
     (case as_object value of
        None \<Rightarrow> False
      | Some obj \<Rightarrow>
          string_member obj ''algorithm_record_id'' = id_value (ce_algorithm_record_id expected) \<and>
          string_member obj ''algorithm_version'' = ce_algorithm_version expected \<and>
          string_member obj ''value_hex'' = ce_value_hex expected)"

definition same_joined_row :: "JoinedRecord \<Rightarrow> JoinedRecord \<Rightarrow> bool" where
  "same_joined_row left right \<longleftrightarrow>
     jr_run_id left = jr_run_id right \<and>
     jr_accepted_ordinal left = jr_accepted_ordinal right \<and>
     jr_logical_sequence left = jr_logical_sequence right \<and>
     jr_record_index left = jr_record_index right \<and>
     jr_producer_row_ordinal left = jr_producer_row_ordinal right \<and>
     jr_consumer_row_ordinal left = jr_consumer_row_ordinal right \<and>
     jr_scheduled_arrival left = jr_scheduled_arrival right \<and>
     jr_producer_handle_begin left = jr_producer_handle_begin right \<and>
     jr_record_lookup_completion left = jr_record_lookup_completion right \<and>
     jr_enqueue_invocation left = jr_enqueue_invocation right \<and>
     jr_enqueue_linearization left = jr_enqueue_linearization right \<and>
     jr_enqueue_attempt_completion left = jr_enqueue_attempt_completion right \<and>
     jr_dequeue_invocation left = jr_dequeue_invocation right \<and>
     jr_dequeue_linearization left = jr_dequeue_linearization right \<and>
     jr_dequeue_completion left = jr_dequeue_completion right \<and>
     jr_consumer_action_completion left = jr_consumer_action_completion right \<and>
     jr_producer_lateness left = jr_producer_lateness right \<and>
     jr_pointer_lookup_interval left = jr_pointer_lookup_interval right \<and>
     jr_enqueue_service_time left = jr_enqueue_service_time right \<and>
     jr_admission_delay left = jr_admission_delay right \<and>
     jr_queue_residence left = jr_queue_residence right \<and>
     jr_dequeue_service_time left = jr_dequeue_service_time right \<and>
     jr_post_dequeue_delivery_interval left = jr_post_dequeue_delivery_interval right \<and>
     jr_consumer_action_interval left = jr_consumer_action_interval right \<and>
     jr_end_to_end_latency left = jr_end_to_end_latency right"

text \<open>Whether the bytes of an artifact have the SHA-256 of a reference.\<close>

definition bytes_have_hash :: "(u8 list \<Rightarrow> u8 list option) \<Rightarrow> u8 list \<Rightarrow> Sha256 \<Rightarrow> workload_error + bool" where
  "bytes_have_hash digest bytes expected =
     (case workload_sha256 digest bytes of
        Inl e \<Rightarrow> Inl e
      | Inr actual \<Rightarrow> Inr (Sha256Digest_hex actual = Sha256_hex expected))"

definition reference_resolves :: "'d stage12 \<Rightarrow> ArtifactReference \<Rightarrow> workload_error + bool" where
  "reference_resolves ctx reference =
     (case find_artifact (s12_artifacts ctx) (id_value (ar_artifact_id reference)) of
        None \<Rightarrow> Inr False
      | Some artifact \<Rightarrow> bytes_have_hash (s12_digest ctx) (ab_bytes artifact) (ar_sha256 reference))"

subsection \<open>Records and duplicates\<close>

definition record_checks :: "('d \<Rightarrow> bool) \<Rightarrow> 'd ProtocolRecord \<Rightarrow> ValidationError list" where
  "record_checks fp_at_least_200000 r =
     stage4_validate fp_at_least_200000 r @
     fail_if (protocol_version_of r \<noteq> V2_0_0_pre_2 \<or> schema_version_of r \<noteq> V2_0_0_pre_2)
       (ValidationError unsupported_version ''$records/protocol_version'' ''REC-PRE2-REQUIRED''
         ''Stage 12 final semantics require matching protocol/schema 2.0.0-pre.2'')"

fun reject_duplicate :: "string list \<Rightarrow> ValidationError \<Rightarrow> string list \<Rightarrow> ValidationError list" where
  "reject_duplicate seen e [] = []"
| "reject_duplicate seen e (key # keys) =
     (if key \<in> set seen then e # reject_duplicate seen e keys else reject_duplicate (key # seen) e keys)"

definition duplicate_checks :: "'d stage12 \<Rightarrow> 'd RunManifest list \<Rightarrow> ValidationError list" where
  "duplicate_checks ctx manifests =
     reject_duplicate [] (ValidationError duplicate_value ''$records/raw_observation''
         ''REC-DUPLICATE-RAW-ENVELOPE''
         ''raw-envelope artifact IDs must be unique in a record graph'')
       (map (\<lambda>v. id_value (re_artifact_id v)) (s12_raw_envelopes ctx)) @
     reject_duplicate [] (ValidationError duplicate_value ''$records/schedule''
         ''REC-DUPLICATE-SCHEDULE-ID'' ''schedule IDs must be unique in a record graph'')
       (map (\<lambda>v. id_value (sc_schedule_id v)) (s12_schedules ctx)) @
     reject_duplicate [] (ValidationError duplicate_value ''$records/failure''
         ''REC-DUPLICATE-FAILURE-ID'' ''failure record IDs must be unique in a record graph'')
       (map (\<lambda>v. id_value (fr_failure_record_id v)) (s12_failures ctx)) @
     reject_duplicate [] (ValidationError duplicate_value ''$records/run_manifest''
         ''REC-DUPLICATE-RUN-MANIFEST''
         ''each run identity can have only one manifest in a record graph'')
       (map (\<lambda>v. id_value (rm_run_id v)) manifests) @
     reject_duplicate [] (ValidationError duplicate_value ''$evidence'' ''REC-DUPLICATE-RUN-EVIDENCE''
         ''each run identity can have only one injected evidence record'')
       (map (\<lambda>v. id_value (ev_run_id v)) (s12_evidence ctx))"

subsection \<open>Failures\<close>

text \<open>Typed and source hash agree, and the source hash is the zero-self digest.\<close>

definition self_hash_ok :: "'d stage12 \<Rightarrow> 'd Value \<Rightarrow> string \<Rightarrow> Sha256 \<Rightarrow> workload_error + bool" where
  "self_hash_ok ctx document field typed =
     (case as_object document of
        None \<Rightarrow> Inr False
      | Some obj \<Rightarrow>
          if string_member obj field \<noteq> Sha256_hex typed then Inr False
          else zero_self_hash_matches (s12_ops ctx) (s12_digest ctx) document field)"

definition failure_checks :: "'d stage12 \<Rightarrow> 'd FailureRecord \<Rightarrow> checked" where
  "failure_checks ctx failure =
     seq_checks
       (check_that (self_hash_ok ctx (fr_source_document failure) ''record_sha256'' (fr_record_sha256 failure))
          (ValidationError invalid_hash ''$records/failure/record_sha256'' ''REC-FAILURE-SELF-HASH''
            ''typed and source failure SHA-256 must agree with its zero-self digest'') #
        map (\<lambda>reference. check_that (reference_resolves ctx reference)
            (ValidationError invalid_hash ''$records/failure/evidence_refs'' ''REC-FAILURE-EVIDENCE-HASH''
              ''failure evidence must resolve to exact immutable bytes''))
          (fr_evidence_refs failure))"

subsection \<open>The sections of a manifest\<close>

definition manifest_base :: "'d RunManifest \<Rightarrow> string" where
  "manifest_base manifest = ''$runs/'' @ id_value (rm_run_id manifest)"

definition manifest_self_hash :: "'d stage12 \<Rightarrow> 'd RunManifest \<Rightarrow> checked" where
  "manifest_self_hash ctx manifest =
     check_that (self_hash_ok ctx (rm_source_document manifest) ''manifest_sha256'' (rm_manifest_sha256 manifest))
       (ValidationError invalid_hash (manifest_base manifest @ ''/manifest_sha256'') ''REC-MANIFEST-SELF-HASH''
         (''typed and source manifest SHA-256 must agree with the JCS-I64-v1 '' @ ''zero-self digest''))"

fun artifact_ref_checks ::
  "'d stage12 \<Rightarrow> string \<Rightarrow> ArtifactRelationship list \<Rightarrow> TypedArtifactReference list \<Rightarrow> checked list" where
  "artifact_ref_checks ctx base seen [] = []"
| "artifact_ref_checks ctx base seen (reference # rest) =
     Inr (fail_if (ta_relationship reference \<in> set seen)
       (ValidationError duplicate_value (base @ ''/artifact_refs'') ''REC-DUPLICATE-RELATIONSHIP''
         ''a run manifest can name each artifact relationship only once'')) #
     (case find_artifact (s12_artifacts ctx) (id_value (ar_artifact_id (ta_artifact reference))) of
        None \<Rightarrow> Inr [ValidationError missing_evidence (base @ ''/artifact_refs'') ''REC-ARTIFACT-MISSING''
          ''manifest artifact bytes are unavailable'']
      | Some artifact \<Rightarrow>
          check_that (bytes_have_hash (s12_digest ctx) (ab_bytes artifact) (ar_sha256 (ta_artifact reference)))
            (ValidationError invalid_hash (base @ ''/artifact_refs'') ''REC-ARTIFACT-HASH''
              ''artifact bytes do not match the manifest SHA-256'')) #
     artifact_ref_checks ctx base (ta_relationship reference # seen) rest"

text \<open>The failure records of this run that a manifest names.\<close>

definition resolved_failure :: "'d stage12 \<Rightarrow> 'd RunManifest \<Rightarrow> Identifier \<Rightarrow> 'd FailureRecord option" where
  "resolved_failure ctx manifest failure_id =
     (case find (\<lambda>failure. id_value (fr_failure_record_id failure) = id_value failure_id) (s12_failures ctx) of
        None \<Rightarrow> None
      | Some failure \<Rightarrow>
          (case fr_run_id failure of
             None \<Rightarrow> None
           | Some run \<Rightarrow> if id_value run \<noteq> id_value (rm_run_id manifest) then None else Some failure))"

definition failure_relation_checks :: "'d stage12 \<Rightarrow> 'd RunManifest \<Rightarrow> ValidationError list" where
  "failure_relation_checks ctx manifest =
     concat (map (\<lambda>failure_id. fail_if (resolved_failure ctx manifest failure_id = None)
         (ValidationError reference_mismatch (manifest_base manifest @ ''/failure_record_ids'')
           ''REC-FAILURE-RELATION'' ''failure reference does not resolve to this run''))
       (rm_failure_record_ids manifest))"

definition invalidating_failure :: "'d stage12 \<Rightarrow> 'd RunManifest \<Rightarrow> bool" where
  "invalidating_failure ctx manifest =
     list_ex (\<lambda>failure_id. case resolved_failure ctx manifest failure_id of
         None \<Rightarrow> False | Some failure \<Rightarrow> fr_invalidates_run failure)
       (rm_failure_record_ids manifest)"

definition relationship :: "'d RunManifest \<Rightarrow> ArtifactRelationship \<Rightarrow> TypedArtifactReference option" where
  "relationship manifest wanted =
     find (\<lambda>reference. ta_relationship reference = wanted) (rm_artifact_refs manifest)"

definition raw_for :: "'d stage12 \<Rightarrow> TypedArtifactReference option \<Rightarrow> RawObservationEnvelope option" where
  "raw_for ctx reference =
     (case reference of
        None \<Rightarrow> None
      | Some r \<Rightarrow>
          find (\<lambda>envelope. id_value (re_artifact_id envelope) = id_value (ar_artifact_id (ta_artifact r)))
            (s12_raw_envelopes ctx))"

definition require_raw_envelope :: "'d stage12 \<Rightarrow> 'd RunManifest \<Rightarrow> ArtifactRelationship \<Rightarrow> string \<Rightarrow> ValidationError list" where
  "require_raw_envelope ctx manifest wanted name =
     (let reference = relationship manifest wanted in
      fail_if (reference \<noteq> None \<and> raw_for ctx reference = None)
        (ValidationError missing_evidence (manifest_base manifest @ ''/artifact_refs/'' @ name)
          ''REC-RAW-ENVELOPE''
          ''raw artifact relationship does not resolve to a typed envelope record''))"

text \<open>The bytes of the artifact in a relationship, if both are there.\<close>

definition related_bytes :: "'d stage12 \<Rightarrow> 'd RunManifest \<Rightarrow> ArtifactRelationship \<Rightarrow> ArtifactBytes option" where
  "related_bytes ctx manifest wanted =
     (case relationship manifest wanted of
        None \<Rightarrow> None
      | Some r \<Rightarrow> find_artifact (s12_artifacts ctx) (id_value (ar_artifact_id (ta_artifact r))))"

definition provenance_checks :: "'d stage12 \<Rightarrow> 'd RunManifest \<Rightarrow> ValidationError list" where
  "provenance_checks ctx manifest =
     (case related_bytes ctx manifest Rel_provenance of
        None \<Rightarrow> []
      | Some bytes \<Rightarrow>
          fail_if (case parsed_object (parse_artifact_json (s12_ops ctx) bytes) of
              None \<Rightarrow> True
            | Some obj \<Rightarrow>
                string_member obj ''schema_version'' \<noteq> ''cpu-prefetch-queue-provenance/1'' \<or>
                string_member obj ''protocol_version'' \<noteq> kPreviousProtocolVersion \<or>
                string_member obj ''queue_id'' \<noteq> id_value (rm_queue_provenance_id manifest))
            (ValidationError reference_mismatch (manifest_base manifest @ ''/provenance'')
              ''REC-QUEUE-PROVENANCE''
              ''queue provenance identity and accepted historical suite must match''))"

text \<open>The lambda \<^verbatim>\<open>decode\<close>: the errors of the decoder, or the decoded stream.\<close>

definition decode_related ::
  "'d stage12 \<Rightarrow> 'd RunManifest \<Rightarrow> ArtifactRelationship \<Rightarrow>
     workload_error + ValidationError list \<times> DecodedRawStream option" where
  "decode_related ctx manifest wanted =
     (case (raw_for ctx (relationship manifest wanted), related_bytes ctx manifest wanted) of
        (Some envelope, Some bytes) \<Rightarrow>
          (case decode_external_raw (s12_digest ctx) envelope (ab_bytes bytes) of
             Inl e \<Rightarrow> Inl e
           | Inr (Inl errors) \<Rightarrow> Inr (errors, None)
           | Inr (Inr decoded) \<Rightarrow> Inr ([], Some decoded))
      | _ \<Rightarrow> Inr ([], None))"

definition audit_content_ok :: "'d stage12 \<Rightarrow> 'd RunManifest \<Rightarrow> 'd Value \<Rightarrow> (string \<times> 'd Value) list \<Rightarrow>
     workload_error + bool" where
  "audit_content_ok ctx manifest document obj =
     (let expected_status = (if rm_join_status manifest = Join_passed then ''PASSED'' else ''FAILED'');
          sources = Option.bind (map_of obj ''source_artifacts'') as_array;
          joined_value = map_of obj ''joined_artifact'';
          counts_valid =
            (case (uint_member obj ''producer_rows'', uint_member obj ''accepted_rows'',
                   uint_member obj ''full_rows'', uint_member obj ''consumer_rows'') of
               (Some producer_count, Some accepted_count, Some full_count, Some _) \<Rightarrow>
                 accepted_count \<le> u64_max - full_count \<and> producer_count = accepted_count + full_count
             | _ \<Rightarrow> False);
          sources_match =
            (case (relationship manifest Rel_producer_raw, relationship manifest Rel_consumer_raw, sources) of
               (Some producer, Some consumer, Some [first, second]) \<Rightarrow>
                 json_artifact_matches first (ta_artifact producer) \<and>
                 json_artifact_matches second (ta_artifact consumer)
             | _ \<Rightarrow> False);
          joined_matches =
            (if rm_join_status manifest = Join_passed
             then (case (relationship manifest Rel_joined_derived, joined_value) of
                 (Some joined, Some value) \<Rightarrow> json_artifact_matches value (ta_artifact joined)
               | _ \<Rightarrow> False)
             else (case joined_value of None \<Rightarrow> False | Some value \<Rightarrow> is_null value))
      in if string_member obj ''schema_version'' \<noteq> ''cpu-prefetch-join-audit/1'' \<or>
            string_member obj ''protocol_version'' \<noteq> kProtocolVersion \<or>
            string_member obj ''run_id'' \<noteq> id_value (rm_run_id manifest) \<or>
            string_member obj ''join_status'' \<noteq> expected_status \<or>
            \<not> sources_match \<or> \<not> joined_matches \<or> \<not> counts_valid
         then Inr False
         else zero_self_hash_matches (s12_ops ctx) (s12_digest ctx) document ''record_sha256'')"

definition audit_checks :: "'d stage12 \<Rightarrow> 'd RunManifest \<Rightarrow> checked" where
  "audit_checks ctx manifest =
     (case related_bytes ctx manifest Rel_join_audit of
        None \<Rightarrow> Inr []
      | Some bytes \<Rightarrow>
          (case parse_artifact_json (s12_ops ctx) bytes of
             Inr (JObject obj) \<Rightarrow>
               check_that (audit_content_ok ctx manifest (JObject obj) obj)
                 (ValidationError reference_mismatch (manifest_base manifest @ ''/join_audit'')
                   ''REC-AUDIT-CONTENT''
                   (''join audit version, identity, status, sources, or self-hash '' @
                    ''disagrees with the manifest''))
           | _ \<Rightarrow> Inr [ValidationError parse_error (manifest_base manifest @ ''/join_audit'')
               ''REC-AUDIT-JSON'' ''join audit is not a valid JSON object'']))"

definition integrity_report_ok ::
  "'d RunManifest \<Rightarrow> PhaseIntegrityRecord \<Rightarrow> TypedArtifactReference \<Rightarrow> (string \<times> 'd Value) list \<Rightarrow> bool" where
  "integrity_report_ok manifest expected reference obj \<longleftrightarrow>
     string_member obj ''protocol_version'' = kProtocolVersion \<and>
     string_member obj ''artifact_id'' = id_value (ar_artifact_id (ta_artifact reference)) \<and>
     string_member obj ''run_id'' = id_value (rm_run_id manifest) \<and>
     Option.bind (map_of obj ''content_checksum_match'') as_bool = Some True \<and>
     list_all (\<lambda>(name, checksum). case map_of obj name of
         None \<Rightarrow> False | Some value \<Rightarrow> checksum_matches value checksum)
       [(''final_consumer_rolling_checksum'', pi_final_consumer_rolling_checksum expected),
        (''event_records_pre_checksum'', pi_event_records_pre_checksum expected),
        (''event_records_post_checksum'', pi_event_records_post_checksum expected),
        (''ordered_index_checksum'', pi_ordered_index_checksum expected),
        (''address_delta_checksum'', pi_address_delta_checksum expected)]"

definition integrity_checks :: "'d stage12 \<Rightarrow> 'd RunManifest \<Rightarrow> ValidationError list" where
  "integrity_checks ctx manifest =
     (case (rm_integrity_evidence manifest, relationship manifest Rel_phase_integrity_report) of
        (Some expected, Some reference) \<Rightarrow>
          fail_if (pi_report_artifact expected \<noteq> ta_artifact reference)
            (ValidationError reference_mismatch
              (manifest_base manifest @ ''/integrity_evidence/report_artifact'') ''REC-INTEGRITY-REFERENCE''
              ''integrity evidence and artifact relationship disagree'') @
          (case related_bytes ctx manifest Rel_phase_integrity_report of
             None \<Rightarrow> []
           | Some bytes \<Rightarrow>
               fail_if (case parsed_object (parse_artifact_json (s12_ops ctx) bytes) of
                   None \<Rightarrow> True
                 | Some obj \<Rightarrow> \<not> integrity_report_ok manifest expected reference obj)
                 (ValidationError reference_mismatch (manifest_base manifest @ ''/integrity_evidence'')
                   ''REC-INTEGRITY-CONTENT''
                   ''phase/integrity report identity or checksum evidence disagrees'')) @
          concat (map (\<lambda>wanted. case raw_for ctx (relationship manifest wanted) of
              None \<Rightarrow> []
            | Some envelope \<Rightarrow>
                fail_if (re_integrity_artifact_ref envelope \<noteq> ta_artifact reference)
                  (ValidationError reference_mismatch (manifest_base manifest @ ''/raw/integrity_artifact_ref'')
                    ''REC-RAW-INTEGRITY'' ''raw envelope does not reference the manifest integrity report''))
            [Rel_producer_raw, Rel_consumer_raw, Rel_joined_derived])
      | _ \<Rightarrow> [])"

text \<open>The exact join of the decoded streams, when both have rows of their kind and a mapping is known.\<close>

definition reconciled_streams ::
  "'d stage12 \<Rightarrow> 'd RunManifest \<Rightarrow> DecodedRawStream option \<Rightarrow> DecodedRawStream option \<Rightarrow>
     ValidationError list \<times> ReconciliationResult option" where
  "reconciled_streams ctx manifest producer_decoded consumer_decoded =
     (case (map_option dr_rows producer_decoded, map_option dr_rows consumer_decoded) of
        (Some (Decoded_producer producer), Some (Decoded_consumer consumer)) \<Rightarrow>
          (case find_evidence (s12_evidence ctx) (id_value (rm_run_id manifest)) of
             None \<Rightarrow>
               ([ValidationError missing_evidence (manifest_base manifest @ ''/record_mapping'')
                  ''REC-STAGE6-MAPPING''
                  ''exact reconciliation requires immutable Stage 6 record mapping''], None)
           | Some evidence \<Rightarrow>
               (let reconciled = reconcile (rm_run_id manifest)
                      (map (\<lambda>row. make_producer_record (rm_run_id manifest) (dp_observation row)) producer)
                      (map (\<lambda>row. make_consumer_record (rm_run_id manifest) (dc_observation row)) consumer)
                      (ev_expected_record_indices evidence)
                in (fail_if (rr_status reconciled \<noteq> rm_join_status manifest)
                      (ValidationError cross_field (manifest_base manifest @ ''/join_status'')
                        ''REC-JOIN-STATUS'' ''manifest join status disagrees with exact join'') @
                    map issue_error (rr_issues reconciled), Some reconciled)))
      | _ \<Rightarrow> ([], None))"

definition counts_disagree :: "'d RunCounts \<Rightarrow> ReconciliationResult \<Rightarrow> bool" where
  "counts_disagree c reconciled \<longleftrightarrow>
     rn_attempted c \<noteq> Some (rr_producer_rows reconciled) \<or>
     rn_accepted c \<noteq> Some (rr_accepted_rows reconciled) \<or>
     rn_full c \<noteq> Some (rr_full_rows reconciled) \<or>
     rn_consumed c \<noteq> Some (rr_consumer_rows reconciled) \<or>
     rn_raw_sample_count c \<noteq> Some (of_nat (length (rr_joined_rows reconciled)))"

definition passed_join_checks ::
  "'d stage12 \<Rightarrow> 'd RunManifest \<Rightarrow> ReconciliationResult option \<Rightarrow> DecodedRawStream option \<Rightarrow> ValidationError list" where
  "passed_join_checks ctx manifest reconciled joined_decoded =
     (case reconciled of
        None \<Rightarrow> []
      | Some result \<Rightarrow>
          if rr_status result \<noteq> Join_passed then []
          else
            fail_if (case map_option dr_rows joined_decoded of
                Some (Decoded_joined rows) \<Rightarrow> \<not> list_all2 same_joined_row rows (rr_joined_rows result)
              | _ \<Rightarrow> True)
              (ValidationError reference_mismatch (manifest_base manifest @ ''/joined_derived'')
                ''REC-JOINED-EXACT'' ''joined artifact is absent or differs from exact post-run derivation'') @
            (case (raw_for ctx (relationship manifest Rel_joined_derived),
                   relationship manifest Rel_producer_raw, relationship manifest Rel_consumer_raw) of
               (Some envelope, Some producer, Some consumer) \<Rightarrow>
                 fail_if (re_source_artifacts envelope \<noteq> [ta_artifact producer, ta_artifact consumer])
                   (ValidationError reference_mismatch
                     (manifest_base manifest @ ''/joined_derived/source_artifacts'') ''REC-JOINED-SOURCES''
                     ''joined envelope must name producer then consumer raw artifacts'')
             | _ \<Rightarrow> []) @
            (case rm_counts manifest of
               None \<Rightarrow> []
             | Some c \<Rightarrow>
                 fail_if (counts_disagree c result)
                   (ValidationError cross_field (manifest_base manifest @ ''/counts'') ''REC-RAW-COUNTS''
                     ''manifest counts disagree with reconciled raw and joined rows'')))"

definition exact_audit_checks ::
  "'d stage12 \<Rightarrow> 'd RunManifest \<Rightarrow> ReconciliationResult option \<Rightarrow> checked" where
  "exact_audit_checks ctx manifest reconciled =
     (case (reconciled, relationship manifest Rel_join_audit, relationship manifest Rel_producer_raw,
            relationship manifest Rel_consumer_raw) of
        (Some result, Some audit, Some producer, Some consumer) \<Rightarrow>
          (let actual = (case related_bytes ctx manifest Rel_join_audit of
                 None \<Rightarrow> [] | Some bytes \<Rightarrow> bytes_string (ab_bytes bytes));
               artifacts = \<lparr>ja_producer_source = ta_artifact producer, ja_consumer_source = ta_artifact consumer,
                 ja_joined_artifact =
                   (if rr_status result = Join_passed
                    then map_option ta_artifact (relationship manifest Rel_joined_derived) else None)\<rparr>
           in check_that
                (case make_join_audit (s12_ops ctx) (s12_digest ctx) (rm_run_id manifest) result artifacts of
                   Inl e \<Rightarrow> Inl e
                 | Inr (Inl _) \<Rightarrow> Inr False
                 | Inr (Inr expected) \<Rightarrow> Inr (actual = expected))
                (ValidationError reference_mismatch (manifest_base manifest @ ''/join_audit'')
                  ''REC-AUDIT-EXACT'' ''join audit must exactly equal the independently regenerated audit''))
      | _ \<Rightarrow> Inr [])"

definition schedule_for :: "'d stage12 \<Rightarrow> ArtifactReference \<Rightarrow> 'd ScheduleRecord option" where
  "schedule_for ctx reference =
     find (\<lambda>schedule. case sc_deadline_storage schedule of
         External_deadlines external \<Rightarrow>
           es_artifact_id external = ar_artifact_id reference \<and>
           es_artifact_sha256 external = ar_sha256 reference
       | Inline_deadlines _ \<Rightarrow> False) (s12_schedules ctx)"

definition schedule_checks :: "'d stage12 \<Rightarrow> 'd RunManifest \<Rightarrow> checked" where
  "schedule_checks ctx manifest =
     (let refs = rm_schedule_refs manifest;
          measurement_schedule = schedule_for ctx (rs_measurement refs);
          warmup_schedule = schedule_for ctx (rs_warmup refs)
      in seq_checks
        (map (\<lambda>reference. check_that (reference_resolves ctx reference)
            (ValidationError invalid_hash (manifest_base manifest @ ''/schedule_refs'') ''REC-SCHEDULE-ARTIFACT''
              ''schedule reference does not resolve to exact immutable bytes''))
          [rs_measurement refs, rs_warmup refs] @
         [Inr (fail_if (rm_lifecycle_state manifest = LS_completed \<and>
              (measurement_schedule = None \<or> warmup_schedule = None))
            (ValidationError missing_evidence (manifest_base manifest @ ''/schedule_refs'')
              ''REC-SCHEDULE-RELATION''
              ''completed run schedule references must resolve to exact schedule records'')),
          Inr (case (Option.bind (rm_counts manifest) rn_offered, measurement_schedule) of
              (Some offered, Some schedule) \<Rightarrow>
                fail_if (offered \<noteq> sc_offered_count schedule)
                  (ValidationError cross_field (manifest_base manifest @ ''/counts/offered'')
                    ''REC-SCHEDULE-COUNT''
                    ''manifest offered count differs from the frozen measurement schedule'')
            | _ \<Rightarrow> [])]))"

definition manifest_status_input :: "'d stage12 \<Rightarrow> 'd RunManifest \<Rightarrow> 'd RunStatusInput" where
  "manifest_status_input ctx manifest =
     (let evidence = find_evidence (s12_evidence ctx) (id_value (rm_run_id manifest)) in
      \<lparr>si_stage = rm_stage manifest, si_lifecycle_state = rm_lifecycle_state manifest,
       si_join_status = rm_join_status manifest, si_counts = rm_counts manifest,
       si_invalidating_failure_record_present = invalidating_failure ctx manifest,
       si_block_completeness = (case evidence of
          None \<Rightarrow> \<lparr>ab_status = Completeness_not_evaluated, ab_authoritative = False\<rparr>
        | Some e \<Rightarrow> ev_block_completeness e),
       si_access_integrity = (case evidence of
          None \<Rightarrow> \<lparr>ag_status = Gate_not_evaluated, ag_authoritative = False\<rparr>
        | Some e \<Rightarrow> ev_access_integrity e)\<rparr>)"

definition status_checks :: "'d stage12 \<Rightarrow> 'd RunManifest \<Rightarrow> ValidationError list" where
  "status_checks ctx manifest =
     (case evaluate_run_status (s12_at_least ctx) (manifest_status_input ctx manifest) of
        Inl errors \<Rightarrow> errors
      | Inr status \<Rightarrow>
          fail_if (rm_validity manifest \<noteq> st_validity status \<or>
              rm_count_reconciliation manifest \<noteq> st_count_reconciliation status \<or>
              rm_zero_loss_status manifest \<noteq> st_zero_loss status \<or>
              rm_effective_tail_status manifest \<noteq> st_effective_tail status \<or>
              rm_block_completeness manifest \<noteq> st_block_completeness status \<or>
              rm_confirmatory_estimability manifest \<noteq> st_confirmatory_estimability status \<or>
              rm_confirmatory_blockers manifest \<noteq> st_confirmatory_blockers status)
            (ValidationError cross_field (manifest_base manifest @ ''/status'') ''REC-INDEPENDENT-GATES''
              ''manifest independent run gates disagree with Stage 12 evaluation''))"

text \<open>The sections from the decoded streams to the exact audit.\<close>

definition stream_checks :: "'d stage12 \<Rightarrow> 'd RunManifest \<Rightarrow> checked" where
  "stream_checks ctx manifest =
     (case decode_related ctx manifest Rel_producer_raw of Inl e \<Rightarrow> Inl e | Inr (e1, producer) \<Rightarrow>
     (case decode_related ctx manifest Rel_consumer_raw of Inl e \<Rightarrow> Inl e | Inr (e2, consumer) \<Rightarrow>
     (case decode_related ctx manifest Rel_joined_derived of Inl e \<Rightarrow> Inl e | Inr (e3, joined) \<Rightarrow>
       (let (e4, reconciled) = reconciled_streams ctx manifest producer consumer in
        seq_checks
          [Inr (e1 @ e2 @ e3), audit_checks ctx manifest, Inr (integrity_checks ctx manifest),
           Inr e4, Inr (passed_join_checks ctx manifest reconciled joined),
           exact_audit_checks ctx manifest reconciled]))))"

definition manifest_checks :: "'d stage12 \<Rightarrow> 'd RunManifest \<Rightarrow> checked" where
  "manifest_checks ctx manifest =
     seq_checks
       (manifest_self_hash ctx manifest #
        artifact_ref_checks ctx (manifest_base manifest) [] (rm_artifact_refs manifest) @
        [Inr (failure_relation_checks ctx manifest),
         Inr (require_raw_envelope ctx manifest Rel_producer_raw ''producer_raw'' @
           require_raw_envelope ctx manifest Rel_consumer_raw ''consumer_raw'' @
           require_raw_envelope ctx manifest Rel_joined_derived ''joined_derived''),
         Inr (provenance_checks ctx manifest), stream_checks ctx manifest,
         schedule_checks ctx manifest, Inr (status_checks ctx manifest)])"

subsection \<open>The validator\<close>

definition stage12_context ::
  "'d binary64_ops \<Rightarrow> ('d \<Rightarrow> bool) \<Rightarrow> (u8 list \<Rightarrow> u8 list option) \<Rightarrow> ArtifactBytes list \<Rightarrow> RunEvidence list \<Rightarrow>
     'd ProtocolRecord list \<Rightarrow> 'd stage12" where
  "stage12_context ops fp_at_least_200000 digest artifacts evidence records =
     \<lparr>s12_ops = ops, s12_at_least = fp_at_least_200000, s12_digest = digest, s12_artifacts = artifacts,
      s12_evidence = evidence,
      s12_raw_envelopes = List.map_filter (\<lambda>r. case r of Record_raw v d \<Rightarrow> Some v | _ \<Rightarrow> None) records,
      s12_schedules = List.map_filter (\<lambda>r. case r of Record_schedule v \<Rightarrow> Some v | _ \<Rightarrow> None) records,
      s12_failures = List.map_filter (\<lambda>r. case r of Record_failure v \<Rightarrow> Some v | _ \<Rightarrow> None) records\<rparr>"

definition manifests_of :: "'d ProtocolRecord list \<Rightarrow> 'd RunManifest list" where
  "manifests_of records = List.map_filter (\<lambda>r. case r of Record_manifest v \<Rightarrow> Some v | _ \<Rightarrow> None) records"

definition stage12_validate ::
  "'d binary64_ops \<Rightarrow> ('d \<Rightarrow> bool) \<Rightarrow> (u8 list \<Rightarrow> u8 list option) \<Rightarrow> ArtifactBytes list \<Rightarrow> RunEvidence list \<Rightarrow>
     'd ProtocolRecord list \<Rightarrow> checked" where
  "stage12_validate ops fp_at_least_200000 digest artifacts evidence records =
     (let ctx = stage12_context ops fp_at_least_200000 digest artifacts evidence records;
          manifests = manifests_of records
      in seq_checks
        (Inr (concat (map (record_checks fp_at_least_200000) records) @
           reject_duplicate [] (ValidationError duplicate_value ''$artifacts'' ''REC-DUPLICATE-ARTIFACT-ID''
               ''artifact IDs must be unique'') (map (\<lambda>a. id_value (ab_artifact_id a)) artifacts) @
           duplicate_checks ctx manifests) #
         map (failure_checks ctx) (s12_failures ctx) @ map (manifest_checks ctx) manifests))"

end
