(* ===== verification/Reconciliation_Correct.thy ===== *)
theory Reconciliation_Correct
  imports Cross_Record
begin

text \<open>
  What the exact join of \<^verbatim>\<open>reconciliation/reconciliation.cpp\<close> accepts: the loops of \<open>reconcile\<close> against the
  declarative join of two streams, the rows it derives, the run gates, and the agreement of the
  cross-record validator with the record-local one.
\<close>

subsection \<open>The exact join, declaratively\<close>

text \<open>The rows of the accepted attempts, in stream order, with their positions in the stream.\<close>

definition accepted_at :: "ProducerRecord list \<Rightarrow> (nat \<times> ProducerRecord) list" where
  "accepted_at rows = filter (\<lambda>(i, row). pr_outcome row = Outcome_accepted) (enumerate 0 rows)"

definition accepted_records :: "ProducerRecord list \<Rightarrow> ProducerRecord list" where
  "accepted_records rows = filter (\<lambda>row. pr_outcome row = Outcome_accepted) rows"

text \<open>
  The two streams of a run join exactly: the producer stream has the rows of this run in logical
  order with the records of the mapping; an accepted row is complete and carries its number among
  the accepted ones, and a full row carries neither number nor linearization; the consumer stream
  has the rows of this run in order, and its k-th row can be joined with the k-th accepted row.
\<close>

definition exact_join ::
  "Identifier \<Rightarrow> ProducerRecord list \<Rightarrow> ConsumerRecord list \<Rightarrow> u64 list \<Rightarrow> bool" where
  "exact_join run_id producers consumers expected \<longleftrightarrow>
     map pr_record_index producers = expected \<and>
     map pr_logical_sequence producers = map of_nat [0..<length producers] \<and>
     (\<forall>row\<in>set producers. pr_run_id row = run_id \<and>
        (pr_outcome row \<noteq> Outcome_accepted \<longrightarrow>
           pr_accepted_ordinal row = None \<and> pr_enqueue_linearization row = None)) \<and>
     map pr_accepted_ordinal (accepted_records producers) =
       map (\<lambda>k. Some (of_nat k)) [0..<length (accepted_records producers)] \<and>
     map cr_consumed_ordinal consumers = map of_nat [0..<length consumers] \<and>
     list_all2 joinable (accepted_records producers) consumers"

subsection \<open>The loops\<close>

lemma issue_if_Nil [simp]: "issue_if b f c p r m = [] \<longleftrightarrow> \<not> b"
  by (simp add: issue_if_def)

text \<open>What one producer row must be to raise no issue.\<close>

definition producer_row_exact :: "Identifier \<Rightarrow> u64 list \<Rightarrow> nat \<Rightarrow> u64 \<Rightarrow> ProducerRecord \<Rightarrow> bool" where
  "producer_row_exact run_id expected index next_accepted row \<longleftrightarrow>
     pr_run_id row = run_id \<and> pr_logical_sequence row = of_nat index \<and>
     (index < length expected \<longrightarrow> pr_record_index row = expected ! index) \<and>
     (if pr_outcome row = Outcome_accepted
      then pr_accepted_ordinal row = Some next_accepted \<and> pr_enqueue_linearization row \<noteq> None
      else pr_accepted_ordinal row = None \<and> pr_enqueue_linearization row = None)"

lemma producer_row_issues_Nil:
  "producer_row_issues run_id expected index next_accepted row = [] \<longleftrightarrow>
     producer_row_exact run_id expected index next_accepted row"
  by (auto simp: producer_row_issues_def producer_row_exact_def Let_def split: option.splits)

lemma producer_row_exact_counts:
  "producer_row_exact run_id expected index next_accepted row \<Longrightarrow>
     counts_as_accepted row \<longleftrightarrow> pr_outcome row = Outcome_accepted"
  by (auto simp: producer_row_exact_def counts_as_accepted_def split: if_splits)

text \<open>The loop over the producer rows without an issue.\<close>

fun producers_exact :: "Identifier \<Rightarrow> u64 list \<Rightarrow> nat \<Rightarrow> u64 \<Rightarrow> ProducerRecord list \<Rightarrow> bool" where
  "producers_exact run_id expected index next_accepted [] = True"
| "producers_exact run_id expected index next_accepted (row # rows) \<longleftrightarrow>
     producer_row_exact run_id expected index next_accepted row \<and>
     producers_exact run_id expected (Suc index)
       (if pr_outcome row = Outcome_accepted then next_accepted + 1 else next_accepted) rows"

lemma reconcile_producers_Nil:
  "fst (reconcile_producers run_id expected index next_accepted rows) = [] \<longleftrightarrow>
     producers_exact run_id expected index next_accepted rows"
  by (induction rows arbitrary: index next_accepted)
    (auto simp: Let_def split_beta producer_row_issues_Nil producer_row_exact_counts)

lemma reconcile_producers_exact:
  assumes "producers_exact run_id expected index next_accepted rows"
  shows "reconcile_producers run_id expected index next_accepted rows =
    ([], of_nat (length rows - length (accepted_records rows)),
     filter (\<lambda>(i, row). pr_outcome row = Outcome_accepted) (enumerate index rows))"
  using assms
proof (induction rows arbitrary: index next_accepted)
  case Nil
  show ?case by (simp add: accepted_records_def)
next
  case (Cons row rows)
  have le: "length (accepted_records rows) \<le> length rows"
    by (simp add: accepted_records_def)
  from Cons.prems have here: "producer_row_issues run_id expected index next_accepted row = []"
    and ca: "counts_as_accepted row \<longleftrightarrow> pr_outcome row = Outcome_accepted"
    by (auto simp: producer_row_issues_Nil producer_row_exact_counts)
  from Cons.prems have "producers_exact run_id expected (Suc index)
      (if pr_outcome row = Outcome_accepted then next_accepted + 1 else next_accepted) rows"
    by simp
  from Cons.IH [OF this] show ?case
    using le by (simp add: here ca Let_def accepted_records_def Suc_diff_le add.commute)
qed

lemma accepted_at_snd: "map snd (accepted_at rows) = accepted_records rows"
proof -
  have "map snd (filter (\<lambda>(i, row). P row) (enumerate n rows)) = filter P rows" for P n
    by (induction rows arbitrary: n) auto
  then show ?thesis by (simp add: accepted_at_def accepted_records_def)
qed

text \<open>The ordinals of the accepted rows from any start.\<close>

lemma producers_exact_iff:
  "producers_exact run_id expected index next_accepted rows \<longleftrightarrow>
     (\<forall>i<length rows. pr_run_id (rows ! i) = run_id \<and> pr_logical_sequence (rows ! i) = of_nat (index + i) \<and>
        (index + i < length expected \<longrightarrow> pr_record_index (rows ! i) = expected ! (index + i)) \<and>
        (pr_outcome (rows ! i) \<noteq> Outcome_accepted \<longrightarrow>
           pr_accepted_ordinal (rows ! i) = None \<and> pr_enqueue_linearization (rows ! i) = None)) \<and>
     map pr_accepted_ordinal (accepted_records rows) =
       map (\<lambda>k. Some (next_accepted + of_nat k)) [0..<length (accepted_records rows)] \<and>
     list_all (\<lambda>row. pr_enqueue_linearization row \<noteq> None) (accepted_records rows)"
proof (induction rows arbitrary: index next_accepted)
  case Nil
  show ?case by (simp add: accepted_records_def)
next
  case (Cons row rows)
  have shift: "map (\<lambda>k. Some (next_accepted + of_nat k)) [0..<Suc n] =
      Some next_accepted # map (\<lambda>k. Some (next_accepted + 1 + of_nat k)) [0..<n]" for n
    by (simp add: upt_conv_Cons map_Suc_upt [symmetric] comp_def add.assoc del: upt_Suc)
  show ?case
    unfolding producers_exact.simps Cons.IH producer_row_exact_def
    by (cases "pr_outcome row")
      (auto simp: accepted_records_def All_less_Suc2 shift simp del: upt_Suc)
qed

text \<open>The loop over the consumer rows, on as many rows as were accepted.\<close>

lemma consumer_row_issues_Nil:
  "consumer_row_issues run_id index consumer producer = [] \<longleftrightarrow>
     cr_run_id consumer = run_id \<and> cr_consumed_ordinal consumer = of_nat index \<and>
     pr_accepted_ordinal producer = Some (cr_consumed_ordinal consumer) \<and>
     cr_observed_record_index consumer = pr_record_index producer"
  by (auto simp: consumer_row_issues_def Let_def)

lemma reconcile_consumers_Nil:
  assumes "length consumers = length accepted"
  shows "reconcile_consumers run_id index consumers accepted = [] \<longleftrightarrow>
    map cr_consumed_ordinal consumers = map of_nat [index..<index + length consumers] \<and>
    list_all2 (\<lambda>p c. cr_run_id c = run_id \<and> pr_accepted_ordinal p = Some (cr_consumed_ordinal c) \<and>
      cr_observed_record_index c = pr_record_index p) (map snd accepted) consumers"
  using assms
proof (induction consumers accepted arbitrary: index rule: list_induct2)
  case Nil
  show ?case by simp
next
  case (Cons c cs a as)
  obtain i p where a: "a = (i, p)" by force
  show ?case by (auto simp: a Cons.IH consumer_row_issues_Nil upt_conv_Cons simp del: upt_Suc)
qed

lemma derive_rows_Nil:
  assumes "length accepted = length consumers"
  shows "fst (derive_rows index accepted consumers) = [] \<longleftrightarrow>
    list_all2 joinable (map snd accepted) consumers"
  using assms
proof (induction accepted consumers arbitrary: index rule: list_induct2)
  case Nil
  show ?case by simp
next
  case (Cons a as c cs)
  obtain i p where a: "a = (i, p)" by force
  show ?case
  proof (cases "derive_joined_record p (of_nat i) c (of_nat index)")
    case (Inl es)
    then have "es \<noteq> []"
      by (auto simp: derive_joined_record_def joined_failure_def Let_def split: ProducerOutcome.splits
          option.splits if_splits)
    moreover have "\<not> joinable p c" using Inl derive_joined_record_Inr [of p c "of_nat i" "of_nat index"] by auto
    ultimately show ?thesis by (simp add: a Inl split_beta)
  next
    case (Inr j)
    then show ?thesis using derive_joined_record_joinable [OF Inr] by (simp add: a split_beta Cons.IH)
  qed
qed

lemma derive_rows_rows:
  assumes "list_all2 joinable (map snd accepted) consumers"
  shows "list_all2 (\<lambda>((i, p), (k, c)) row. derive_joined_record p (of_nat i) c (of_nat k) = Inr row)
    (zip accepted (enumerate index consumers)) (snd (derive_rows index accepted consumers))"
  using assms
proof (induction accepted arbitrary: index consumers)
  case Nil
  then show ?case by simp
next
  case (Cons a as)
  obtain i p where a: "a = (i, p)" by force
  from Cons.prems a obtain c cs where cs: "consumers = c # cs" and "joinable p c"
    and rest: "list_all2 joinable (map snd as) cs"
    by (auto simp: list_all2_Cons1)
  then obtain j where "derive_joined_record p (of_nat i) c (of_nat index) = Inr j"
    using derive_joined_record_Inr by blast
  with Cons.IH [OF rest, of "Suc index"] show ?case by (simp add: a cs split_beta)
qed

subsection \<open>The whole join\<close>

text \<open>The audit before the derivation raises no issue.\<close>

definition audit_exact ::
  "Identifier \<Rightarrow> ProducerRecord list \<Rightarrow> ConsumerRecord list \<Rightarrow> u64 list \<Rightarrow> bool" where
  "audit_exact run_id producers consumers expected \<longleftrightarrow>
     length producers = length expected \<and> producers_exact run_id expected 0 0 producers \<and>
     length consumers = length (accepted_records producers) \<and>
     reconcile_consumers run_id 0 consumers (accepted_at producers) = []"

lemma audit_exact_join:
  "audit_exact run_id producers consumers expected \<and>
     list_all2 joinable (accepted_records producers) consumers \<longleftrightarrow>
   exact_join run_id producers consumers expected"
proof -
  let ?acc = "accepted_records producers"
  have len: "length (accepted_at producers) = length ?acc"
    using accepted_at_snd [of producers] by (metis length_map)
  have eqs: "map f xs = ys \<longleftrightarrow> length xs = length ys \<and> (\<forall>i<length xs. f (xs ! i) = ys ! i)"
      "map g xs = map of_nat [0..<length xs] \<longleftrightarrow> (\<forall>i<length xs. g (xs ! i) = of_nat i)"
    for f :: "ProducerRecord \<Rightarrow> u64" and g :: "ProducerRecord \<Rightarrow> u64" and xs ys
    unfolding list_eq_iff_nth_eq by simp_all
  have rows: "(length producers = length expected \<and> (\<forall>i<length producers. P (producers ! i) \<and>
        pr_logical_sequence (producers ! i) = of_nat i \<and>
        (i < length expected \<longrightarrow> pr_record_index (producers ! i) = expected ! i) \<and> Q (producers ! i))) \<longleftrightarrow>
      map pr_record_index producers = expected \<and>
      map pr_logical_sequence producers = map of_nat [0..<length producers] \<and>
      (\<forall>row\<in>set producers. P row \<and> Q row)" for P Q
    unfolding eqs all_set_conv_all_nth by auto
  show ?thesis
  proof (cases "list_all2 joinable ?acc consumers")
    case True
    have lin: "list_all (\<lambda>row. pr_enqueue_linearization row \<noteq> None) ?acc"
      using True by (auto simp: list_all2_conv_all_nth list_all_length joinable_def)
    have same: "list_all2 (\<lambda>p c. cr_run_id c = run_id \<and>
        pr_accepted_ordinal p = Some (cr_consumed_ordinal c) \<and>
        cr_observed_record_index c = pr_record_index p) ?acc consumers"
      if "\<forall>row\<in>set producers. pr_run_id row = run_id \<and> Q row" for Q
      by (rule list.rel_mono_strong [OF True]) (use that in \<open>auto simp: joinable_def accepted_records_def\<close>)
    have consumers: "length consumers = length ?acc" using True by (auto dest: list_all2_lengthD)
    let ?Q = "\<lambda>row. pr_outcome row \<noteq> Outcome_accepted \<longrightarrow>
      pr_accepted_ordinal row = None \<and> pr_enqueue_linearization row = None"
    note rows' = rows [of "\<lambda>row. pr_run_id row = run_id" ?Q]
    have join: "reconcile_consumers run_id 0 consumers (accepted_at producers) = [] \<longleftrightarrow>
        map cr_consumed_ordinal consumers = map of_nat [0..<length consumers]"
      if "\<forall>row\<in>set producers. pr_run_id row = run_id \<and> ?Q row"
      using reconcile_consumers_Nil [of consumers "accepted_at producers" run_id 0] same [OF that]
      by (simp add: consumers len accepted_at_snd)
    show ?thesis
      unfolding audit_exact_def exact_join_def producers_exact_iff add_0 of_nat_0
      using rows' join True lin consumers by blast
  next
    case False
    then show ?thesis by (simp add: exact_join_def)
  qed
qed

text \<open>The issues of the audit, as \<open>reconcile\<close> collects them before any interval is derived.\<close>

definition audit_issues ::
  "Identifier \<Rightarrow> ProducerRecord list \<Rightarrow> ConsumerRecord list \<Rightarrow> u64 list \<Rightarrow> Issue list" where
  "audit_issues run_id producers consumers expected =
     (let (producer_issues, full, accepted) = reconcile_producers run_id expected 0 0 producers in
      issue_if (length producers \<noteq> length expected) FC_producer_count
        reference_mismatch ''$reconciliation/producer_rows'' ''REC-PRODUCER-MAPPING-COUNT''
        ''producer row count differs from the immutable record-index mapping'' @
      producer_issues @
      issue_if (length consumers \<noteq> length accepted) FC_consumer_count cross_field
        ''$reconciliation/consumer_rows'' ''REC-CONSUMER-COUNT''
        ''consumer count must equal the accepted producer count'' @
      reconcile_consumers run_id 0 consumers accepted)"

lemma reconcile_producers_cases:
  assumes "producers_exact run_id expected 0 0 producers"
  shows "reconcile_producers run_id expected 0 0 producers =
    ([], of_nat (length producers - length (accepted_records producers)), accepted_at producers)"
  using reconcile_producers_exact [OF assms] by (simp add: accepted_at_def)

lemma accepted_at_length: "length (accepted_at rows) = length (accepted_records rows)"
  using accepted_at_snd [of rows] by (metis length_map)

lemma audit_issues_Nil:
  "audit_issues run_id producers consumers expected = [] \<longleftrightarrow> audit_exact run_id producers consumers expected"
proof (cases "producers_exact run_id expected 0 0 producers")
  case True
  show ?thesis
    by (simp add: audit_issues_def audit_exact_def reconcile_producers_cases [OF True] True accepted_at_length)
next
  case False
  then have "fst (reconcile_producers run_id expected 0 0 producers) \<noteq> []"
    by (simp add: reconcile_producers_Nil)
  with False show ?thesis by (auto simp: audit_issues_def audit_exact_def split: prod.splits)
qed

lemma reconcile_audit_failed:
  assumes "\<not> audit_exact run_id producers consumers expected"
  shows "rr_status (reconcile run_id producers consumers expected) = Join_failed"
    and "rr_issues (reconcile run_id producers consumers expected) =
      audit_issues run_id producers consumers expected"
    and "rr_joined_rows (reconcile run_id producers consumers expected) = []"
proof -
  obtain pi full acc where r: "reconcile_producers run_id expected 0 0 producers = (pi, full, acc)"
    by (metis prod_cases3)
  have "audit_issues run_id producers consumers expected \<noteq> []"
    using assms by (simp add: audit_issues_Nil)
  then show "rr_status (reconcile run_id producers consumers expected) = Join_failed"
    and "rr_issues (reconcile run_id producers consumers expected) =
      audit_issues run_id producers consumers expected"
    and "rr_joined_rows (reconcile run_id producers consumers expected) = []"
    by (simp_all only: reconcile_def audit_issues_def r Let_def prod.case if_True
        ReconciliationResult.select_convs not_False_eq_True)
qed

lemma reconcile_audit_passed:
  assumes "audit_exact run_id producers consumers expected"
    and "derive_rows 0 (accepted_at producers) consumers = (issues, rows)"
  shows "reconcile run_id producers consumers expected =
    \<lparr>rr_status = (if issues = [] then Join_passed else Join_failed),
     rr_producer_rows = of_nat (length producers),
     rr_accepted_rows = of_nat (length (accepted_records producers)),
     rr_full_rows = of_nat (length producers - length (accepted_records producers)),
     rr_consumer_rows = of_nat (length consumers),
     rr_joined_rows = (if issues = [] then rows else []), rr_issues = issues\<rparr>"
proof -
  have exact: "producers_exact run_id expected 0 0 producers" using assms(1) by (simp add: audit_exact_def)
  show ?thesis
    using assms(1) audit_issues_Nil [of run_id producers consumers expected]
    by (simp add: reconcile_def audit_issues_def audit_exact_def reconcile_producers_cases [OF exact]
        accepted_at_length assms(2))
qed

text \<open>The status, the issues and the declarative join agree.\<close>

lemma reconcile_status:
  "rr_status (reconcile run_id producers consumers expected) =
     (if exact_join run_id producers consumers expected then Join_passed else Join_failed)"
  "rr_issues (reconcile run_id producers consumers expected) = [] \<longleftrightarrow>
     exact_join run_id producers consumers expected"
proof -
  obtain issues rows where d: "derive_rows 0 (accepted_at producers) consumers = (issues, rows)"
    by fastforce
  have "rr_status (reconcile run_id producers consumers expected) =
       (if exact_join run_id producers consumers expected then Join_passed else Join_failed) \<and>
     (rr_issues (reconcile run_id producers consumers expected) = [] \<longleftrightarrow>
       exact_join run_id producers consumers expected)"
  proof (cases "audit_exact run_id producers consumers expected")
    case True
    then have "length (accepted_at producers) = length consumers"
      by (simp add: audit_exact_def accepted_at_length)
    from derive_rows_Nil [OF this, of 0] True show ?thesis
      using audit_exact_join [of run_id producers consumers expected]
      by (auto simp: reconcile_audit_passed [OF True d] d accepted_at_snd)
  next
    case False
    then show ?thesis
      using audit_exact_join [of run_id producers consumers expected]
      by (auto simp: reconcile_audit_failed audit_issues_Nil)
  qed
  then show "rr_status (reconcile run_id producers consumers expected) =
      (if exact_join run_id producers consumers expected then Join_passed else Join_failed)"
    "rr_issues (reconcile run_id producers consumers expected) = [] \<longleftrightarrow>
      exact_join run_id producers consumers expected"
    by auto
qed

lemma exact_join_audit: "exact_join run_id ps cs es \<Longrightarrow> audit_exact run_id ps cs es"
  using audit_exact_join by blast

subsection \<open>Properties of the join\<close>

text \<open>
  C8. The exact join accepts exactly the streams that join: \<open>reconcile\<close> reports PASSED, and raises no
  issue, if and only if the producer stream lists the rows of the run in logical order with the
  records of the mapping, every accepted row is complete and numbered in order, every full row is
  empty, and the k-th consumer row belongs to the k-th accepted row and follows it in time.
  Otherwise it reports FAILED with at least one issue and no joined row.
\<close>

theorem reconcile_exact:
  "(rr_status (reconcile run_id producers consumers expected) = Join_passed \<longleftrightarrow>
      exact_join run_id producers consumers expected) \<and>
   (rr_status (reconcile run_id producers consumers expected) = Join_failed \<longleftrightarrow>
      rr_issues (reconcile run_id producers consumers expected) \<noteq> [] \<and>
      rr_joined_rows (reconcile run_id producers consumers expected) = [])"
proof (cases "exact_join run_id producers consumers expected")
  case True
  then show ?thesis by (simp add: reconcile_status)
next
  case False
  obtain issues rows where d: "derive_rows 0 (accepted_at producers) consumers = (issues, rows)"
    by fastforce
  have "rr_joined_rows (reconcile run_id producers consumers expected) = []"
    using False reconcile_status [of run_id producers consumers expected]
      reconcile_audit_passed [OF _ d] reconcile_audit_failed(3)
    by (cases "audit_exact run_id producers consumers expected") auto
  with False show ?thesis by (simp add: reconcile_status)
qed

text \<open>
  C9. What a passed join derives: one joined row per consumer row, each derived from the k-th
  consumer row and the k-th accepted producer row with their positions in the two streams, and each
  accepted by the record-local validator of the joined stream. The counters are the lengths of the
  streams, and accepted and full rows add up to the producer rows.
\<close>

theorem reconcile_joined_rows:
  assumes "exact_join run_id producers consumers expected" and "length producers < 2 ^ 64"
    and "reconcile run_id producers consumers expected = result"
  shows "length (rr_joined_rows result) = length consumers \<and>
    (\<forall>k<length consumers.
      derive_joined_record (snd (accepted_at producers ! k)) (of_nat (fst (accepted_at producers ! k)))
        (consumers ! k) (of_nat k) = Inr (rr_joined_rows result ! k) \<and>
      validate_joined (rr_joined_rows result ! k) run_id path = []) \<and>
    unat (rr_producer_rows result) = length producers \<and>
    unat (rr_accepted_rows result) + unat (rr_full_rows result) = length producers \<and>
    rr_consumer_rows result = rr_accepted_rows result"
proof -
  note audit = exact_join_audit [OF assms(1)]
  have len: "length (accepted_at producers) = length consumers"
    using audit by (simp add: audit_exact_def accepted_at_length)
  have joins: "list_all2 joinable (map snd (accepted_at producers)) consumers"
    using assms(1) by (simp add: exact_join_def accepted_at_snd)
  obtain issues rows where d: "derive_rows 0 (accepted_at producers) consumers = (issues, rows)"
    by fastforce
  have "issues = []" using derive_rows_Nil [OF len, of 0] joins d by simp
  then have r: "result = \<lparr>rr_status = Join_passed, rr_producer_rows = of_nat (length producers),
      rr_accepted_rows = of_nat (length (accepted_records producers)),
      rr_full_rows = of_nat (length producers - length (accepted_records producers)),
      rr_consumer_rows = of_nat (length consumers), rr_joined_rows = rows, rr_issues = []\<rparr>"
    using reconcile_audit_passed [OF audit d] assms(3) by simp
  have derived: "length rows = length consumers \<and> (\<forall>k<length consumers.
      derive_joined_record (snd (accepted_at producers ! k)) (of_nat (fst (accepted_at producers ! k)))
        (consumers ! k) (of_nat k) = Inr (rows ! k))"
    using derive_rows_rows [OF joins, of 0] d len
    by (auto simp: list_all2_conv_all_nth nth_enumerate_eq split_beta)
  have run: "pr_run_id (snd (accepted_at producers ! k)) = run_id" if "k < length consumers" for k
  proof -
    have "snd (accepted_at producers ! k) \<in> set (map snd (accepted_at producers))"
      using that len by auto
    then show ?thesis using assms(1) by (auto simp: accepted_at_snd accepted_records_def exact_join_def)
  qed
  have valid: "validate_joined (rows ! k) run_id path = []" if "k < length consumers" for k
    using derived run [OF that] that derive_joined_record_rows(3) by metis
  have "length (accepted_records producers) \<le> length producers" by (simp add: accepted_records_def)
  then show ?thesis
    using derived valid assms(2) len by (simp add: r unat_of_nat_u64 accepted_at_length del: of_nat_diff)
qed

text \<open>Two streams that join: an accepted and a full row, and the row of the consumer.\<close>

definition example_producers :: "ProducerRecord list" where
  "example_producers =
     [example_producer_row,
      example_producer_row\<lparr>pr_logical_sequence := 1, pr_outcome := Outcome_full,
        pr_enqueue_linearization := None, pr_accepted_ordinal := None\<rparr>]"

lemma example_exact_join:
  "exact_join (Identifier ''r'') example_producers [example_consumer_row] [4, 4]"
  by (simp add: exact_join_def accepted_records_def example_producers_def example_producer_row_def
      example_consumer_row_def joinable_def)

theorem reconcile_joined_rows_witness:
  "exact_join (Identifier ''r'') example_producers [example_consumer_row] [4, 4] \<and>
   length (rr_joined_rows
     (reconcile (Identifier ''r'') example_producers [example_consumer_row] [4, 4])) = 1"
  using example_exact_join reconcile_joined_rows [OF example_exact_join _ refl]
  by (simp add: example_producers_def)

end
