(* ===== verification/Run_Gates.thy ===== *)
theory Run_Gates
  imports Reconciliation_Correct
begin

text \<open>
  The run gates of \<^verbatim>\<open>evaluate_run_status\<close>: when a run is valid and estimable, and how the gates that
  Stage 12 recomputes agree with the record-local rules of \<^verbatim>\<open>validate_manifest\<close>.
\<close>

subsection \<open>Sequences of checks\<close>

lemma seq_checks_Cons:
  "seq_checks (c # cs) = Inr [] \<longleftrightarrow> c = Inr [] \<and> seq_checks cs = Inr []"
  by (cases c; cases "map_result (\<lambda>c. c) cs") (auto simp: seq_checks_def)

lemma seq_checks_clean: "seq_checks cs = Inr [] \<longleftrightarrow> (\<forall>c\<in>set cs. c = Inr [])"
  by (induction cs) (simp_all add: seq_checks_Cons, simp add: seq_checks_def)

lemma check_that_clean: "check_that ok e = Inr [] \<longleftrightarrow> ok = Inr True"
  by (cases ok) (auto simp: check_that_def fail_if_def)

subsection \<open>The gates\<close>

lemma evaluate_completed:
  assumes "si_lifecycle_state input = LS_completed" and "si_counts input = Some c"
  shows "evaluate_run_status fp input =
    finish_status input (completed_gates fp input c
      ((initial_status input)\<lparr>st_lifecycle_completion := LC_complete\<rparr>))"
  using assms by (simp add: evaluate_run_status_def)

text \<open>The count identities name every counter.\<close>

lemma complete_count_identitiesD:
  assumes "complete_count_identities c"
  obtains offered full n where "rn_offered c = Some offered" "rn_full c = Some full" "rn_n_eff_p999 c = Some n"
  using assms by (auto simp: complete_count_identities_def split: option.splits)

lemma status_blockers_Nil:
  "status_blockers input output = [] \<longleftrightarrow>
     ag_status (si_access_integrity input) \<noteq> Gate_fail \<and> st_effective_tail output \<noteq> Gate_fail \<and>
     ab_status (si_block_completeness input) \<noteq> Completeness_incomplete \<and>
     st_validity output \<noteq> Validity_invalid \<and> st_zero_loss output \<noteq> Gate_fail"
  by (simp add: status_blockers_def)

lemma summary_for_estimable: "summary_for blockers = Est_estimable \<longleftrightarrow> blockers = []"
  by (auto simp: summary_for_def split: ConfirmatoryBlocker.splits)

lemma finish_estimable:
  "(\<exists>status. finish_status input output = Inr status \<and> st_confirmatory_estimability status = Est_estimable) \<longleftrightarrow>
     si_stage input = Stage_stage_a \<and> st_lifecycle_completion output \<noteq> LC_not_evaluated \<and>
     st_validity output = Validity_valid \<and> st_zero_loss output \<notin> {Gate_not_evaluated, Gate_fail} \<and>
     st_effective_tail output \<notin> {Gate_not_evaluated, Gate_fail} \<and> ab_authoritative (si_block_completeness input) \<and>
     ag_authoritative (si_access_integrity input) \<and>
     ab_status (si_block_completeness input) \<noteq> Completeness_incomplete \<and>
     ag_status (si_access_integrity input) \<noteq> Gate_fail"
  by (cases "st_validity output"; cases "st_zero_loss output"; cases "st_effective_tail output")
    (auto simp: finish_status_def Let_def summary_for_estimable status_blockers_Nil)

text \<open>
  C10. When a run is estimable. The run status is computed and says ESTIMABLE exactly for a
  completed Stage A run whose join passed, whose counters satisfy the count identities with no
  FULL attempt and an effective sample count of at least 200000, and whose authoritative evidence
  reports neither an incomplete block nor an access leak.
\<close>

theorem estimable_exact:
  "(\<exists>status. evaluate_run_status fp input = Inr status \<and>
      st_confirmatory_estimability status = Est_estimable) \<longleftrightarrow>
   si_stage input = Stage_stage_a \<and> si_lifecycle_state input = LS_completed \<and>
   si_join_status input = Join_passed \<and>
   (\<exists>c n. si_counts input = Some c \<and> complete_count_identities c \<and> rn_full c = Some 0 \<and>
      rn_n_eff_p999 c = Some n \<and> n_eff_at_least_threshold fp n) \<and>
   ab_authoritative (si_block_completeness input) \<and>
   ab_status (si_block_completeness input) \<noteq> Completeness_incomplete \<and>
   ag_authoritative (si_access_integrity input) \<and> ag_status (si_access_integrity input) \<noteq> Gate_fail"
proof -
  consider (waiting) "si_lifecycle_state input = LS_planned \<or> si_lifecycle_state input = LS_measurement_started"
    | (bare) "si_lifecycle_state input = LS_completed" "si_counts input = None"
    | (counted) c where "si_lifecycle_state input = LS_completed" "si_counts input = Some c"
    | (failed) "si_lifecycle_state input \<noteq> LS_completed" "si_lifecycle_state input \<noteq> LS_planned"
      "si_lifecycle_state input \<noteq> LS_measurement_started"
    by (cases "si_lifecycle_state input"; cases "si_counts input") auto
  then show ?thesis
  proof cases
    case waiting
    then show ?thesis by (auto simp: evaluate_run_status_def initial_status_def)
  next
    case bare
    then show ?thesis by (simp add: evaluate_run_status_def)
  next
    case counted
    show ?thesis
      unfolding evaluate_completed [OF counted] finish_estimable
      by (cases "rn_full c"; cases "rn_n_eff_p999 c")
        (auto simp: counted completed_gates_def initial_status_def Let_def
          elim: complete_count_identitiesD split: if_splits)
  next
    case failed
    then show ?thesis by (simp add: evaluate_run_status_def finish_estimable initial_status_def)
  qed
qed

subsection \<open>Agreement with the record-local rules\<close>

lemma status_blockers_canonical:
  "sorted (status_blockers input output) \<and> successively (\<noteq>) (status_blockers input output)"
  by (simp add: status_blockers_def less_eq_ConfirmatoryBlocker_def)

lemma status_blockers_mem:
  "Blocker_blocked_zero_loss \<in> set (status_blockers input output) \<longleftrightarrow> st_zero_loss output = Gate_fail"
  "Blocker_blocked_effective_tail \<in> set (status_blockers input output) \<longleftrightarrow>
     st_effective_tail output = Gate_fail"
  "Blocker_blocked_invalid_run \<in> set (status_blockers input output) \<longleftrightarrow>
     st_validity output = Validity_invalid"
  "Blocker_blocked_incomplete_block \<in> set (status_blockers input output) \<longleftrightarrow>
     ab_status (si_block_completeness input) = Completeness_incomplete"
  by (auto simp: status_blockers_def)

lemma summary_for_eq:
  "summary_for blockers =
     (if blockers = [] then Est_estimable else if length blockers > 1 then Est_blocked_multiple
      else blocker_summary (hd blockers))"
  by (cases "hd blockers") (simp_all add: summary_for_def)

text \<open>A manifest that carries the recomputed gates.\<close>

definition carries_status :: "'d RunManifest \<Rightarrow> RunStatus \<Rightarrow> bool" where
  "carries_status manifest status \<longleftrightarrow>
     rm_validity manifest = st_validity status \<and>
     rm_count_reconciliation manifest = st_count_reconciliation status \<and>
     rm_zero_loss_status manifest = st_zero_loss status \<and>
     rm_effective_tail_status manifest = st_effective_tail status \<and>
     rm_block_completeness manifest = st_block_completeness status \<and>
     rm_confirmatory_estimability manifest = st_confirmatory_estimability status \<and>
     rm_confirmatory_blockers manifest = st_confirmatory_blockers status"

lemma evaluate_errors: "evaluate_run_status fp input = Inl es \<Longrightarrow> es \<noteq> []"
  by (auto simp: evaluate_run_status_def finish_status_def Let_def split: if_splits option.splits)

lemma status_checks_clean:
  "status_checks ctx manifest = [] \<longleftrightarrow>
     (\<exists>status. evaluate_run_status (s12_at_least ctx) (manifest_status_input ctx manifest) = Inr status \<and>
        carries_status manifest status)"
  by (cases "evaluate_run_status (s12_at_least ctx) (manifest_status_input ctx manifest)")
    (auto simp: status_checks_def carries_status_def dest: evaluate_errors)

text \<open>
  The outcome of the evaluation for Stage A: pending, with no blocker, or final, with the blockers
  of the failed gates.
\<close>

definition status_pending :: "'d RunStatusInput \<Rightarrow> RunStatus \<Rightarrow> bool" where
  "status_pending input status \<longleftrightarrow>
     st_validity status = Validity_not_evaluated \<or> st_zero_loss status = Gate_not_evaluated \<or>
     st_effective_tail status = Gate_not_evaluated \<or> \<not> ab_authoritative (si_block_completeness input) \<or>
     \<not> ag_authoritative (si_access_integrity input)"

lemma status_blockers_update [simp]:
  "status_blockers input (status\<lparr>st_confirmatory_blockers := bs\<rparr>) = status_blockers input status"
  "status_blockers input (status\<lparr>st_confirmatory_estimability := e\<rparr>) = status_blockers input status"
  by (simp_all add: status_blockers_def)

lemma finish_stage_a:
  assumes "finish_status input output = Inr status" and "si_stage input = Stage_stage_a"
    and "st_confirmatory_blockers output = []" and "st_lifecycle_completion output \<noteq> LC_not_evaluated"
  shows "st_block_completeness status = st_block_completeness output"
    and "st_confirmatory_blockers status = (if status_pending input status then []
      else status_blockers input status)"
    and "st_confirmatory_estimability status = (if status_pending input status then Est_not_evaluated
      else summary_for (status_blockers input status))"
  using assms by (auto simp: finish_status_def status_pending_def Let_def split: if_splits)

lemma evaluate_cases:
  assumes "evaluate_run_status fp input = Inr status"
  obtains (waiting) "status = initial_status input"
      "si_lifecycle_state input = LS_planned \<or> si_lifecycle_state input = LS_measurement_started"
    | (finished) st0 where "finish_status input st0 = Inr status" "st_confirmatory_blockers st0 = []"
      "st_lifecycle_completion st0 \<noteq> LC_not_evaluated"
      "st_block_completeness st0 = ab_status (si_block_completeness input)"
proof -
  consider "si_lifecycle_state input = LS_planned \<or> si_lifecycle_state input = LS_measurement_started"
    | c where "si_lifecycle_state input = LS_completed" "si_counts input = Some c"
    | "\<not> (si_lifecycle_state input = LS_planned \<or> si_lifecycle_state input = LS_measurement_started)"
      "si_lifecycle_state input \<noteq> LS_completed"
    using assms
    by (cases "si_lifecycle_state input"; cases "si_counts input") (simp_all add: evaluate_run_status_def)
  then show thesis
  proof cases
    case 1
    then show thesis using assms by (intro waiting) (auto simp: evaluate_run_status_def)
  next
    case (2 c)
    show thesis
      by (rule finished [OF assms [unfolded evaluate_completed [OF 2]]])
        (simp_all add: completed_gates_def initial_status_def Let_def)
  next
    case 3
    have "finish_status input
        ((initial_status input)\<lparr>st_lifecycle_completion := LC_incomplete, st_validity := Validity_invalid\<rparr>) =
      Inr status"
      using assms unfolding evaluate_run_status_def Let_def if_not_P [OF 3(1)] if_not_P [OF 3(2)] .
    then show thesis by (rule finished) (simp_all add: initial_status_def)
  qed
qed

lemma evaluate_stage_a:
  assumes "evaluate_run_status fp input = Inr status" and "si_stage input = Stage_stage_a"
  shows "st_block_completeness status = ab_status (si_block_completeness input)"
    and "st_confirmatory_blockers status = (if status_pending input status then []
      else status_blockers input status)"
    and "st_confirmatory_estimability status = (if status_pending input status then Est_not_evaluated
      else summary_for (status_blockers input status))"
proof -
  from assms(1) have "st_block_completeness status = ab_status (si_block_completeness input) \<and>
      st_confirmatory_blockers status = (if status_pending input status then []
        else status_blockers input status) \<and>
      st_confirmatory_estimability status = (if status_pending input status then Est_not_evaluated
        else summary_for (status_blockers input status))"
  proof (cases rule: evaluate_cases)
    case waiting
    then show ?thesis by (simp add: initial_status_def status_pending_def)
  next
    case (finished st0)
    then show ?thesis using finish_stage_a [OF finished(1) assms(2) finished(2,3)] by simp
  qed
  then show "st_block_completeness status = ab_status (si_block_completeness input)"
    and "st_confirmatory_blockers status = (if status_pending input status then []
      else status_blockers input status)"
    and "st_confirmatory_estimability status = (if status_pending input status then Est_not_evaluated
      else summary_for (status_blockers input status))"
    by blast+
qed

text \<open>
  C11. The two validators agree on Stage A. Take a Stage A manifest that carries the gates
  recomputed by Stage 12, where authoritative block evidence is exactly evaluated block evidence
  and comes with authoritative access evidence. Then the record-local rules on blockers and
  estimability accept it: the blockers are in canonical order, list exactly the failed gates, and
  agree with the summary.
\<close>

theorem gate_validators_agree:
  assumes "rm_stage manifest = Stage_stage_a" and "status_checks ctx manifest = []"
    and "manifest_status_input ctx manifest = input"
    and "ab_authoritative (si_block_completeness input) \<longleftrightarrow>
      ab_status (si_block_completeness input) \<noteq> Completeness_not_evaluated"
    and "ab_authoritative (si_block_completeness input) \<Longrightarrow> ag_authoritative (si_access_integrity input)"
  shows "validate_blockers manifest = []"
proof -
  obtain status where e: "evaluate_run_status (s12_at_least ctx) input = Inr status"
    and c: "carries_status manifest status"
    using assms(2,3) by (auto simp: status_checks_clean)
  have stage: "si_stage input = Stage_stage_a"
    using assms(1,3) by (auto simp: manifest_status_input_def Let_def)
  note st = evaluate_stage_a [OF e stage]
  have m: "rm_validity manifest = st_validity status" "rm_zero_loss_status manifest = st_zero_loss status"
    "rm_effective_tail_status manifest = st_effective_tail status"
    "rm_block_completeness manifest = ab_status (si_block_completeness input)"
    "rm_confirmatory_estimability manifest = st_confirmatory_estimability status"
    "rm_confirmatory_blockers manifest = st_confirmatory_blockers status"
    using c st(1) by (simp_all add: carries_status_def)
  have pending: "evidence_pending manifest \<longleftrightarrow> status_pending input status"
    using assms(4,5) by (auto simp: evidence_pending_def status_pending_def m)
  show ?thesis
  proof (cases "status_pending input status")
    case True
    then show ?thesis by (simp add: validate_blockers_def expected_summary_def pending m st)
  next
    case False
    then show ?thesis
      using status_blockers_canonical [of input status]
      by (simp add: validate_blockers_def expected_summary_def local_mismatch_def pending m st
          status_blockers_mem summary_for_eq Let_def)
  qed
qed

end
