(* ===== verification/Stage12_Sound.thy ===== *)
theory Stage12_Sound
  imports Run_Gates
begin

text \<open>
  What the cross-record validator of Stage 12 guarantees for the manifests it accepts, and the
  manifests that it cannot accept or does not check.
\<close>

subsection \<open>Accepted record sets\<close>

text \<open>The context and the clean checks of an accepted set.\<close>

lemma manifests_of_set: "manifest \<in> set (manifests_of records) \<longleftrightarrow> Record_manifest manifest \<in> set records"
  by (induction records) (auto simp: manifests_of_def map_filter_simps split: ProtocolRecord.splits)

lemma accepted_manifest:
  assumes "stage12_validate ops fp digest artifacts evidence records = Inr []"
    and "Record_manifest manifest \<in> set records"
    and "stage12_context ops fp digest artifacts evidence records = ctx"
  shows "validate_manifest fp manifest = []" and "rm_protocol_version manifest = V2_0_0_pre_2"
    and "manifest_checks ctx manifest = Inr []"
proof -
  have clean: "concat (map (record_checks fp) records) = []"
    "manifest \<in> set (manifests_of records) \<Longrightarrow> manifest_checks ctx manifest = Inr []"
    using assms(1,3) by (auto simp: stage12_validate_def Let_def seq_checks_clean)
  then have "record_checks fp (Record_manifest manifest) = []" using assms(2) by auto
  then show "validate_manifest fp manifest = []" and "rm_protocol_version manifest = V2_0_0_pre_2"
    by (auto simp: record_checks_def)
  show "manifest_checks ctx manifest = Inr []" using clean(2) assms(2) by (simp add: manifests_of_set)
qed

lemma manifest_checks_clean:
  assumes "manifest_checks ctx manifest = Inr []"
  shows "manifest_self_hash ctx manifest = Inr []"
    and "c \<in> set (artifact_ref_checks ctx (manifest_base manifest) [] (rm_artifact_refs manifest)) \<Longrightarrow>
      c = Inr []"
    and "failure_relation_checks ctx manifest = []"
    and "require_raw_envelope ctx manifest Rel_producer_raw ''producer_raw'' = []"
    and "require_raw_envelope ctx manifest Rel_consumer_raw ''consumer_raw'' = []"
    and "require_raw_envelope ctx manifest Rel_joined_derived ''joined_derived'' = []"
    and "stream_checks ctx manifest = Inr []" and "schedule_checks ctx manifest = Inr []"
    and "status_checks ctx manifest = []"
  using assms by (simp_all add: manifest_checks_def seq_checks_clean)

subsection \<open>Artifacts\<close>

lemma artifact_ref_checks_clean:
  assumes "\<forall>c\<in>set (artifact_ref_checks ctx base seen refs). c = Inr []"
  shows "distinct (map ta_relationship refs) \<and> set (map ta_relationship refs) \<inter> set seen = {} \<and>
    (\<forall>r\<in>set refs. reference_resolves ctx (ta_artifact r) = Inr True)"
  using assms
proof (induction refs arbitrary: seen)
  case Nil
  show ?case by simp
next
  case (Cons r refs)
  from Cons.prems have "\<forall>c\<in>set (artifact_ref_checks ctx base (ta_relationship r # seen) refs). c = Inr []"
    by simp
  note IH = Cons.IH [OF this]
  moreover have "reference_resolves ctx (ta_artifact r) = Inr True"
    using Cons.prems by (auto simp: reference_resolves_def check_that_clean split: option.splits)
  ultimately show ?case using Cons.prems by auto
qed

lemma resolves_found:
  "reference_resolves ctx r = Inr True \<Longrightarrow>
     \<exists>a. find_artifact (s12_artifacts ctx) (id_value (ar_artifact_id r)) = Some a"
  by (auto simp: reference_resolves_def split: option.splits)

lemma has_relationship_Some:
  "has_relationship manifest wanted \<longleftrightarrow> (\<exists>r. relationship manifest wanted = Some r)"
  by (auto simp: has_relationship_def relationship_def list_ex_iff find_None_iff
      simp flip: not_None_eq)

lemma relationship_mem:
  "relationship manifest wanted = Some r \<Longrightarrow> r \<in> set (rm_artifact_refs manifest)"
  by (auto simp: relationship_def find_Some_iff)

subsection \<open>Decoding errors\<close>

lemma decode_row_errors: "decode_row env layout n bytes i st = Inl es \<Longrightarrow> es \<noteq> []"
  by (auto simp: decode_row_def decode_producer_row_def decode_consumer_row_def decode_joined_row_def
      decode_failure_def Let_def split: if_splits StreamKind.splits)

lemma decode_rows_errors: "decode_rows env layout n bytes is st = Inl es \<Longrightarrow> es \<noteq> []"
  by (induction "is" arbitrary: st) (auto split: sum.splits dest: decode_row_errors)

lemma decode_body_Inl: "decode_body env bytes = Inl es \<Longrightarrow> es \<noteq> []"
  by (auto simp: decode_body_def decode_failure_def Let_def split: sum.splits storage_error.splits
      option.splits if_splits dest: decode_rows_errors)

lemma decode_body_Inr: "decode_body env bytes = Inr d \<Longrightarrow> \<exists>st. d = decoded_stream env st"
  by (auto simp: decode_body_def decode_failure_def Let_def split: sum.splits storage_error.splits
      option.splits if_splits)

lemma decode_external_raw_Inl: "decode_external_raw digest env bytes = Inr (Inl es) \<Longrightarrow> es \<noteq> []"
  by (auto simp: decode_external_raw_def decode_failure_def split: ObservationStorage.splits if_splits sum.splits
      dest: decode_body_Inl)

lemma decode_external_raw_Inr:
  "decode_external_raw digest env bytes = Inr (Inr d) \<Longrightarrow> \<exists>st. d = decoded_stream env st"
  by (auto simp: decode_external_raw_def decode_failure_def split: ObservationStorage.splits if_splits sum.splits
      dest: decode_body_Inr)

subsection \<open>The streams of an accepted manifest\<close>

lemma stream_checks_clean:
  assumes "stream_checks ctx manifest = Inr []"
  obtains producer consumer joined reconciled where
    "decode_related ctx manifest Rel_producer_raw = Inr ([], producer)"
    "decode_related ctx manifest Rel_consumer_raw = Inr ([], consumer)"
    "decode_related ctx manifest Rel_joined_derived = Inr ([], joined)"
    "reconciled_streams ctx manifest producer consumer = ([], reconciled)"
    "passed_join_checks ctx manifest reconciled joined = []"
    "exact_audit_checks ctx manifest reconciled = Inr []"
proof -
  obtain e1 p e2 c e3 j where d: "decode_related ctx manifest Rel_producer_raw = Inr (e1, p)"
    "decode_related ctx manifest Rel_consumer_raw = Inr (e2, c)"
    "decode_related ctx manifest Rel_joined_derived = Inr (e3, j)"
    using assms by (auto simp: stream_checks_def split: sum.splits)
  obtain e4 r where r: "reconciled_streams ctx manifest p c = (e4, r)" by fastforce
  show thesis
    using assms d by (intro that [of p c j r]) (simp_all add: stream_checks_def d r seq_checks_clean)
qed

text \<open>A stream whose artifact and envelope are there is decoded.\<close>

lemma decode_related_clean:
  assumes "decode_related ctx manifest wanted = Inr ([], decoded)"
    and "raw_for ctx (relationship manifest wanted) = Some envelope"
    and "related_bytes ctx manifest wanted = Some bytes"
  shows "\<exists>st. decoded = Some (decoded_stream envelope st) \<and>
    decode_external_raw (s12_digest ctx) envelope (ab_bytes bytes) = Inr (Inr (decoded_stream envelope st))"
proof (cases "decode_external_raw (s12_digest ctx) envelope (ab_bytes bytes)")
  case (Inl e)
  then show ?thesis using assms by (simp add: decode_related_def)
next
  case (Inr r)
  show ?thesis
  proof (cases r)
    case (Inl es)
    then show ?thesis using assms Inr decode_external_raw_Inl by (fastforce simp: decode_related_def)
  next
    case (Inr d)
    then show ?thesis
      using assms \<open>_ = Inr r\<close> decode_external_raw_Inr by (fastforce simp: decode_related_def)
  qed
qed

lemma same_joined_row_eq: "same_joined_row = (=)"
  by (auto simp: same_joined_row_def fun_eq_iff)

text \<open>The references that a valid completed Stage A manifest must have.\<close>

lemma completed_references:
  assumes "validate_manifest fp manifest = []" and "rm_stage manifest = Stage_stage_a"
    and "rm_lifecycle_state manifest = LS_completed" and "rm_validity manifest = Validity_valid"
  shows "wanted \<in> set required_relationships \<Longrightarrow> has_relationship manifest wanted"
    and "rm_join_status manifest = Join_passed"
    and "\<exists>c. rm_counts manifest = Some c \<and> validate_counts fp manifest c = []"
    and "rm_integrity_evidence manifest \<noteq> None"
  using assms by (auto simp: validate_manifest_def)

text \<open>Envelope and bytes of such a reference.\<close>

lemma accepted_reference:
  assumes "manifest_checks ctx manifest = Inr []" and "has_relationship manifest wanted"
    and "wanted \<in> {Rel_producer_raw, Rel_consumer_raw, Rel_joined_derived}"
  shows "\<exists>r envelope bytes. relationship manifest wanted = Some r \<and>
    raw_for ctx (relationship manifest wanted) = Some envelope \<and>
    related_bytes ctx manifest wanted = Some bytes \<and>
    bytes_have_hash (s12_digest ctx) (ab_bytes bytes) (ar_sha256 (ta_artifact r)) = Inr True"
proof -
  note clean = manifest_checks_clean [OF assms(1)]
  obtain r where r: "relationship manifest wanted = Some r"
    using assms(2) by (auto simp: has_relationship_Some)
  have "\<forall>r\<in>set (rm_artifact_refs manifest). reference_resolves ctx (ta_artifact r) = Inr True"
    using artifact_ref_checks_clean clean(2) by blast
  then have resolves: "reference_resolves ctx (ta_artifact r) = Inr True" using relationship_mem [OF r] by blast
  moreover obtain bytes where "related_bytes ctx manifest wanted = Some bytes"
    using resolves_found [OF resolves] by (auto simp: related_bytes_def r)
  moreover have "raw_for ctx (relationship manifest wanted) \<noteq> None"
    using clean(4-6) assms(3) r by (auto simp: require_raw_envelope_def)
  ultimately show ?thesis by (auto simp: r related_bytes_def reference_resolves_def)
qed

subsection \<open>Soundness\<close>

text \<open>
  The stream stored under a relationship: its bytes have the hash that the manifest names, and they
  decode, under the envelope of the record set, to the given rows.
\<close>

definition stored_stream ::
  "'d stage12 \<Rightarrow> 'd RunManifest \<Rightarrow> ArtifactRelationship \<Rightarrow> DecodedRawStream \<Rightarrow> bool" where
  "stored_stream ctx manifest wanted decoded \<longleftrightarrow>
     (\<exists>r envelope bytes. relationship manifest wanted = Some r \<and>
        raw_for ctx (Some r) = Some envelope \<and> related_bytes ctx manifest wanted = Some bytes \<and>
        bytes_have_hash (s12_digest ctx) (ab_bytes bytes) (ar_sha256 (ta_artifact r)) = Inr True \<and>
        decode_external_raw (s12_digest ctx) envelope (ab_bytes bytes) = Inr (Inr decoded))"

text \<open>The envelopes of the producer and consumer relationships are of those kinds.\<close>

definition stream_kinds_agree :: "'d stage12 \<Rightarrow> 'd RunManifest \<Rightarrow> bool" where
  "stream_kinds_agree ctx manifest \<longleftrightarrow>
     map_option re_stream_kind (raw_for ctx (relationship manifest Rel_producer_raw)) = Some Stream_producer \<and>
     map_option re_stream_kind (raw_for ctx (relationship manifest Rel_consumer_raw)) = Some Stream_consumer"

text \<open>The counters of a manifest are those of a reconciliation, with nothing left in the queue.\<close>

definition counts_of :: "ReconciliationResult \<Rightarrow> 'd RunCounts \<Rightarrow> bool" where
  "counts_of result c \<longleftrightarrow>
     rn_offered c = Some (rr_producer_rows result) \<and> rn_attempted c = Some (rr_producer_rows result) \<and>
     rn_accepted c = Some (rr_accepted_rows result) \<and> rn_full c = Some (rr_full_rows result) \<and>
     rn_consumed c = Some (rr_consumer_rows result) \<and> rn_final_occupancy c = Some 0 \<and>
     rn_raw_sample_count c = Some (of_nat (length (rr_joined_rows result)))"

lemma counts_agree:
  assumes "\<not> counts_disagree c result" and "validate_counts fp manifest c = []"
  shows "counts_of result c"
  using assms by (auto simp: counts_disagree_def validate_counts_def counts_of_def Let_def split: option.splits)

lemma stored_streamI:
  assumes "manifest_checks ctx manifest = Inr []" and "has_relationship manifest wanted"
    and "wanted \<in> {Rel_producer_raw, Rel_consumer_raw, Rel_joined_derived}"
    and "decode_related ctx manifest wanted = Inr ([], decoded)"
  shows "\<exists>envelope st. raw_for ctx (relationship manifest wanted) = Some envelope \<and>
    decoded = Some (decoded_stream envelope st) \<and> stored_stream ctx manifest wanted (decoded_stream envelope st)"
proof -
  obtain r envelope bytes where r: "relationship manifest wanted = Some r"
    "raw_for ctx (relationship manifest wanted) = Some envelope"
    "related_bytes ctx manifest wanted = Some bytes"
    "bytes_have_hash (s12_digest ctx) (ab_bytes bytes) (ar_sha256 (ta_artifact r)) = Inr True"
    using accepted_reference [OF assms(1-3)] by blast
  from decode_related_clean [OF assms(4) r(2,3)] r show ?thesis by (auto simp: stored_stream_def)
qed

lemma stage12_context_select [simp]:
  "s12_digest (stage12_context ops fp digest artifacts evidence records) = digest"
  "s12_evidence (stage12_context ops fp digest artifacts evidence records) = evidence"
  "s12_artifacts (stage12_context ops fp digest artifacts evidence records) = artifacts"
  "s12_at_least (stage12_context ops fp digest artifacts evidence records) = fp"
  "s12_ops (stage12_context ops fp digest artifacts evidence records) = ops"
  by (simp_all add: stage12_context_def)

text \<open>The exact join of the two decoded streams of an accepted manifest.\<close>

lemma reconciled_streams_clean:
  assumes "reconciled_streams ctx manifest (Some producer) (Some consumer) = ([], reconciled)"
    and "dr_rows producer = Decoded_producer prows" and "dr_rows consumer = Decoded_consumer crows"
  shows "\<exists>e. find_evidence (s12_evidence ctx) (id_value (rm_run_id manifest)) = Some e \<and>
    reconciled = Some (reconcile (rm_run_id manifest)
      (map (\<lambda>row. make_producer_record (rm_run_id manifest) (dp_observation row)) prows)
      (map (\<lambda>row. make_consumer_record (rm_run_id manifest) (dc_observation row)) crows)
      (ev_expected_record_indices e)) \<and>
    rr_issues (the reconciled) = []"
  using assms by (auto simp: reconciled_streams_def Let_def split: option.splits)

text \<open>
  C5. Soundness of Stage 12. Suppose the validator accepts a record set without an error, and take
  a manifest of a valid completed Stage A run in it whose producer and consumer envelopes have
  those kinds. Then the stored producer and consumer artifacts have the named hashes and decode to
  rows that join exactly over the record mapping of the evidence; the stored joined artifact is
  exactly the derivation of that join; and the counters of the manifest are the numbers of rows.
\<close>

theorem stage12_accepts_exact_run:
  assumes "stage12_validate ops fp digest artifacts evidence records = Inr []"
    and "Record_manifest manifest \<in> set records"
    and "stage12_context ops fp digest artifacts evidence records = ctx"
    and "rm_stage manifest = Stage_stage_a" and "rm_lifecycle_state manifest = LS_completed"
    and "rm_validity manifest = Validity_valid"
    and "stream_kinds_agree ctx manifest"
  shows "\<exists>prows crows e c producers consumers.
    stored_stream ctx manifest Rel_producer_raw
      \<lparr>dr_stream_kind = Stream_producer, dr_rows = Decoded_producer prows\<rparr> \<and>
    stored_stream ctx manifest Rel_consumer_raw
      \<lparr>dr_stream_kind = Stream_consumer, dr_rows = Decoded_consumer crows\<rparr> \<and>
    producers = map (\<lambda>row. make_producer_record (rm_run_id manifest) (dp_observation row)) prows \<and>
    consumers = map (\<lambda>row. make_consumer_record (rm_run_id manifest) (dc_observation row)) crows \<and>
    find_evidence evidence (id_value (rm_run_id manifest)) = Some e \<and>
    exact_join (rm_run_id manifest) producers consumers (ev_expected_record_indices e) \<and>
    stored_stream ctx manifest Rel_joined_derived
      \<lparr>dr_stream_kind = Stream_joined_derived, dr_rows = Decoded_joined (rr_joined_rows
        (reconcile (rm_run_id manifest) producers consumers (ev_expected_record_indices e)))\<rparr> \<and>
    rm_counts manifest = Some c \<and>
    counts_of (reconcile (rm_run_id manifest) producers consumers (ev_expected_record_indices e)) c"
proof -
  note acc = accepted_manifest [OF assms(1-3)]
  note completed = completed_references [OF acc(1) assms(4-6)]
  have rel: "has_relationship manifest Rel_producer_raw" "has_relationship manifest Rel_consumer_raw"
    "has_relationship manifest Rel_joined_derived"
    by (simp_all add: completed(1) required_relationships_def)
  obtain producer consumer joined reconciled where s:
    "decode_related ctx manifest Rel_producer_raw = Inr ([], producer)"
    "decode_related ctx manifest Rel_consumer_raw = Inr ([], consumer)"
    "decode_related ctx manifest Rel_joined_derived = Inr ([], joined)"
    "reconciled_streams ctx manifest producer consumer = ([], reconciled)"
    "passed_join_checks ctx manifest reconciled joined = []"
    by (rule stream_checks_clean [OF manifest_checks_clean(7) [OF acc(3)]])
  obtain pe ps where p: "raw_for ctx (relationship manifest Rel_producer_raw) = Some pe"
    "producer = Some (decoded_stream pe ps)" "stored_stream ctx manifest Rel_producer_raw (decoded_stream pe ps)"
    using stored_streamI [OF acc(3) rel(1) _ s(1)] by auto
  obtain ce cs where c: "raw_for ctx (relationship manifest Rel_consumer_raw) = Some ce"
    "consumer = Some (decoded_stream ce cs)" "stored_stream ctx manifest Rel_consumer_raw (decoded_stream ce cs)"
    using stored_streamI [OF acc(3) rel(2) _ s(2)] by auto
  obtain je js where j: "joined = Some (decoded_stream je js)"
    "stored_stream ctx manifest Rel_joined_derived (decoded_stream je js)"
    using stored_streamI [OF acc(3) rel(3) _ s(3)] by auto
  have kinds: "re_stream_kind pe = Stream_producer" "re_stream_kind ce = Stream_consumer"
    using assms(7) by (auto simp: stream_kinds_agree_def p(1) c(1))
  define prows crows where "prows = ds_producer_rows ps" and "crows = ds_consumer_rows cs"
  have rows: "decoded_stream pe ps = \<lparr>dr_stream_kind = Stream_producer, dr_rows = Decoded_producer prows\<rparr>"
    "decoded_stream ce cs = \<lparr>dr_stream_kind = Stream_consumer, dr_rows = Decoded_consumer crows\<rparr>"
    by (simp_all add: decoded_stream_def kinds prows_def crows_def)
  obtain e where e: "find_evidence evidence (id_value (rm_run_id manifest)) = Some e"
    "reconciled = Some (reconcile (rm_run_id manifest)
      (map (\<lambda>row. make_producer_record (rm_run_id manifest) (dp_observation row)) prows)
      (map (\<lambda>row. make_consumer_record (rm_run_id manifest) (dc_observation row)) crows)
      (ev_expected_record_indices e))" "rr_issues (the reconciled) = []"
    using reconciled_streams_clean [OF s(4) [unfolded p(2) c(2)], of prows crows] rows assms(3) by auto
  let ?r = "the reconciled"
  have join: "rr_status ?r = Join_passed" using e(2,3) by (simp add: reconcile_status)
  have jrows: "decoded_stream je js =
      \<lparr>dr_stream_kind = Stream_joined_derived, dr_rows = Decoded_joined (rr_joined_rows ?r)\<rparr>"
    using s(5) join e(2) j(1)
    by (cases "re_stream_kind je")
      (auto simp: passed_join_checks_def decoded_stream_def same_joined_row_eq list.rel_eq)
  obtain counts where counts: "rm_counts manifest = Some counts" "validate_counts fp manifest counts = []"
    using completed(3) by blast
  then have "\<not> counts_disagree counts ?r" using s(5) join e(2) by (auto simp: passed_join_checks_def)
  from counts_agree [OF this counts(2)] show ?thesis
    using p(3) c(3) j(2) e rows jrows counts(1) by (auto simp: reconcile_status)
qed

end
