(* ===== verification/Join_Audit.thy ===== *)
theory Join_Audit
  imports Stage12_Sound Json_Canonical
begin

text \<open>
  The join audit document: \<^verbatim>\<open>make_join_audit\<close> writes a canonical text that the JSON reader reads back,
  whose self-hash verifies, and whose content is what the cross-record validator asks of it.
\<close>

subsection \<open>The audit object\<close>

text \<open>The members of an audit, and their values.\<close>

definition audit_members ::
  "Identifier \<Rightarrow> ReconciliationResult \<Rightarrow> JoinAuditInput \<Rightarrow> string \<Rightarrow> (string \<times> 'd Value) list" where
  "audit_members run_id result artifacts hash =
     [(''schema_version'', JString ''cpu-prefetch-join-audit/1''),
      (''protocol_version'', JString kProtocolVersion),
      (''run_id'', JString (id_value run_id)),
      (''join_status'', JString (if rr_status result = Join_passed then ''PASSED'' else ''FAILED'')),
      (''producer_rows'', uint_value (rr_producer_rows result)),
      (''accepted_rows'', uint_value (rr_accepted_rows result)),
      (''full_rows'', uint_value (rr_full_rows result)),
      (''consumer_rows'', uint_value (rr_consumer_rows result)),
      (''source_artifacts'', JArray [artifact_value (ja_producer_source artifacts),
         artifact_value (ja_consumer_source artifacts)]),
      (''issues'', JArray (map issue_value (rr_issues result))),
      (''joined_artifact'', case ja_joined_artifact artifacts of
         Some joined \<Rightarrow> artifact_value joined | None \<Rightarrow> JNull),
      (''record_sha256'', JString hash)]"

lemma audit_object_members: "audit_object run_id result artifacts = json_object (audit_members run_id result artifacts zero_hash)"
  by (simp only: audit_object_def audit_members_def)

lemma audit_keys: "distinct (map fst (audit_members run_id result artifacts hash))"
  by (simp add: audit_members_def)

text \<open>Every text in the audit is valid UTF-8.\<close>

definition audit_texts_ok :: "Identifier \<Rightarrow> ReconciliationResult \<Rightarrow> JoinAuditInput \<Rightarrow> bool" where
  "audit_texts_ok run_id result artifacts \<longleftrightarrow>
     utf8 (id_value run_id) \<and> utf8 (id_value (ar_artifact_id (ja_producer_source artifacts))) \<and>
     utf8 (id_value (ar_artifact_id (ja_consumer_source artifacts))) \<and>
     (case ja_joined_artifact artifacts of None \<Rightarrow> True | Some j \<Rightarrow> utf8 (id_value (ar_artifact_id j))) \<and>
     (\<forall>issue\<in>set (rr_issues result). utf8 (ve_path (issue_error issue)) \<and>
        utf8 (ve_rule_id (issue_error issue)) \<and> utf8 (ve_message (issue_error issue)))"

lemma artifact_value_plain: "utf8 (id_value (ar_artifact_id r)) \<Longrightarrow> plain ops (artifact_value r)"
  unfolding artifact_value_def
  by (rule plain_json_object) (simp_all add: ascii_utf8 Sha256_hex_ascii byte_def)

lemma FailureClass_ascii: "ascii (FailureClass_to_string c)"
  by (cases c) (simp_all add: byte_def)

lemma ErrorCategory_ascii: "ascii (ErrorCategory_to_string c)"
  by (cases c) (simp_all add: byte_def)

lemma issue_value_plain:
  "utf8 (ve_path (issue_error i)) \<Longrightarrow> utf8 (ve_rule_id (issue_error i)) \<Longrightarrow> utf8 (ve_message (issue_error i)) \<Longrightarrow>
     plain ops (issue_value i)"
  unfolding issue_value_def
  by (rule plain_json_object) (simp_all add: ascii_utf8 FailureClass_ascii ErrorCategory_ascii byte_def)

lemma audit_plain:
  assumes "audit_texts_ok run_id result artifacts" and "utf8 hash"
  shows "plain ops (JObject (json_object (audit_members run_id result artifacts hash)))"
proof (rule plain_json_object [OF audit_keys])
  have keys: "\<forall>m\<in>set (audit_members run_id result artifacts hash). utf8 (fst m)"
    by (simp add: audit_members_def ascii_utf8 byte_def)
  have "plain ops (JArray (map issue_value (rr_issues result)))"
    using assms(1) by (auto simp: list_all_iff audit_texts_ok_def issue_value_plain)
  moreover have "plain ops (case ja_joined_artifact artifacts of
      Some joined \<Rightarrow> artifact_value joined | None \<Rightarrow> JNull)"
    using assms(1) by (auto simp: audit_texts_ok_def artifact_value_plain split: option.splits)
  ultimately have "\<forall>m\<in>set (audit_members run_id result artifacts hash). plain ops (snd m)"
    using assms by (simp add: audit_members_def audit_texts_ok_def artifact_value_plain ascii_utf8
        kProtocolVersion_def byte_def)
  with keys show "\<forall>m\<in>set (audit_members run_id result artifacts hash). utf8 (fst m) \<and> plain ops (snd m)"
    by blast
qed

text \<open>Setting the hash of the audit object gives the object with that hash.\<close>

lemma audit_assign:
  "assign_member ''record_sha256'' (JString h) (json_object (audit_members run_id result artifacts g)) =
     json_object (audit_members run_id result artifacts h)"
  by (subst json_object_assign [OF audit_keys]) (simp_all add: audit_members_def)

lemma audit_lookup:
  "map_of (json_object (audit_members run_id result artifacts h)) key =
     map_of (audit_members run_id result artifacts h) key"
  by (simp add: json_object_lookup [OF audit_keys])

text \<open>What \<open>make_join_audit\<close> returns: the canonical text of the object with its own hash.\<close>

lemma make_join_audit_text:
  assumes "make_join_audit ops digest run_id result artifacts = Inr (Inr text)"
    and "audit_texts_ok run_id result artifacts"
  obtains zero d where
    "canonicalize ops (JObject (json_object (audit_members run_id result artifacts zero_hash))) = Inr zero"
    "workload_sha256 digest (string_bytes zero) = Inr d"
    "json_parse ops text = Inr (JObject (json_object (audit_members run_id result artifacts (Sha256Digest_hex d))))"
proof -
  obtain zero d where z: "canonicalize ops (JObject (audit_object run_id result artifacts)) = Inr zero"
    "workload_sha256 digest (string_bytes zero) = Inr d"
    "canonicalize ops (JObject (assign_member ''record_sha256'' (JString (Sha256Digest_hex d))
       (audit_object run_id result artifacts))) = Inr text"
    using assms(1) by (auto simp: make_join_audit_def Let_def split: if_splits sum.splits)
  have "plain ops (JObject (json_object (audit_members run_id result artifacts (Sha256Digest_hex d))))"
    by (rule audit_plain [OF assms(2) ascii_utf8 [OF Sha256Digest_hex_ascii]])
  from plain_text [OF this] z(3) have
    "json_parse ops text = Inr (JObject (json_object (audit_members run_id result artifacts (Sha256Digest_hex d))))"
    by (auto simp: audit_object_members audit_assign)
  with that z(1,2) show ?thesis by (simp add: audit_object_members)
qed

lemma audit_self_hash:
  fixes ops :: "'d binary64_ops"
  assumes "canonicalize ops (JObject (json_object (audit_members run_id result artifacts zero_hash))) = Inr zero"
    and "workload_sha256 digest (string_bytes zero) = Inr d" and "digest_32 digest"
  shows "zero_self_hash_matches ops digest
    (JObject (json_object (audit_members run_id result artifacts (Sha256Digest_hex d)))) ''record_sha256'' = Inr True"
proof -
  have "string_member (json_object (audit_members run_id result artifacts (Sha256Digest_hex d) ::
      (string \<times> 'd Value) list)) ''record_sha256'' = Sha256Digest_hex d"
    by (simp add: string_member_def audit_lookup) (simp add: audit_members_def)
  with assms workload_sha256_hex [OF assms(3,2)] show ?thesis
    by (simp add: zero_self_hash_matches_def audit_assign)
qed

subsection \<open>The issues of a reconciliation\<close>

definition issue_ascii :: "Issue \<Rightarrow> bool" where
  "issue_ascii issue \<longleftrightarrow> ascii (ve_path (issue_error issue)) \<and> ascii (ve_rule_id (issue_error issue)) \<and>
     ascii (ve_message (issue_error issue))"

lemma issue_if_ascii:
  "ascii path \<Longrightarrow> ascii rule \<Longrightarrow> ascii message \<Longrightarrow>
     list_all issue_ascii (issue_if b failure category path rule message)"
  by (simp add: issue_if_def issue_ascii_def)

lemma row_issues_ascii:
  "list_all issue_ascii (producer_row_issues run_id expected index next_accepted row)"
  "list_all issue_ascii (consumer_row_issues run_id index consumer producer)"
  by (simp_all add: producer_row_issues_def consumer_row_issues_def Let_def issue_if_ascii
      ascii_std_to_string byte_def split: option.split)

lemma producers_ascii:
  "\<forall>i \<in> set (fst (reconcile_producers run_id expected index next_accepted rows)). issue_ascii i"
proof (induction rows arbitrary: index next_accepted)
  case (Cons row rows)
  have "set (fst (reconcile_producers run_id expected index next_accepted (row # rows))) =
      set (producer_row_issues run_id expected index next_accepted row) \<union>
      set (fst (reconcile_producers run_id expected (Suc index)
        (if counts_as_accepted row then next_accepted + 1 else next_accepted) rows))"
    by (simp add: Let_def split_beta)
  with Cons.IH row_issues_ascii(1) show ?case by (auto simp: list_all_iff)
qed simp

lemma consumers_ascii: "\<forall>i \<in> set (reconcile_consumers run_id index consumers accepted). issue_ascii i"
  using row_issues_ascii(2)
  by (induction run_id index consumers accepted rule: reconcile_consumers.induct) (auto simp: list_all_iff)

lemma derive_rows_ascii: "\<forall>i \<in> set (fst (derive_rows index accepted consumers)). issue_ascii i"
proof -
  have e: "\<forall>e\<in>set es. issue_ascii (Issue c e)" if "derive_joined_record p i r k = Inl es" for p i r k es c
    using that
    by (auto simp: derive_joined_record_def joined_failure_def issue_ascii_def Let_def byte_def
        split: ProducerOutcome.splits option.splits if_splits)
  show ?thesis
    by (induction index accepted consumers rule: derive_rows.induct)
      (auto simp: split_beta dest: e split: sum.splits)
qed

lemma reconcile_issues_ascii:
  "\<forall>i \<in> set (rr_issues (reconcile run_id producers consumers expected)). issue_ascii i"
proof (cases "audit_exact run_id producers consumers expected")
  case True
  obtain issues rows where d: "derive_rows 0 (accepted_at producers) consumers = (issues, rows)"
    by fastforce
  show ?thesis
    using derive_rows_ascii [of 0 "accepted_at producers" consumers] by (simp add: reconcile_audit_passed [OF True d] d)
next
  case False
  obtain p full acc where r: "reconcile_producers run_id expected 0 0 producers = (p, full, acc)"
    by (metis prod_cases3)
  have "\<forall>i \<in> set p. issue_ascii i" using producers_ascii [of run_id expected 0 0 producers] r by simp
  then show ?thesis
    unfolding reconcile_audit_failed(2) [OF False] audit_issues_def r Let_def prod.case
    using consumers_ascii [of run_id 0 consumers acc] by (auto simp: issue_if_def issue_ascii_def byte_def)
qed

lemma reconcile_texts_ok:
  assumes "utf8 (id_value run_id)" and "utf8 (id_value (ar_artifact_id (ja_producer_source artifacts)))"
    and "utf8 (id_value (ar_artifact_id (ja_consumer_source artifacts)))"
    and "\<And>j. ja_joined_artifact artifacts = Some j \<Longrightarrow> utf8 (id_value (ar_artifact_id j))"
  shows "audit_texts_ok run_id (reconcile run_id producers consumers expected) artifacts"
  using assms reconcile_issues_ascii [of run_id producers consumers expected]
  by (auto simp: audit_texts_ok_def issue_ascii_def ascii_utf8 split: option.splits)

subsection \<open>Properties of the audit\<close>

text \<open>
  The artifacts that \<^verbatim>\<open>validate\<close> names to \<open>make_join_audit\<close> when it regenerates the audit of a run.
\<close>

definition audit_artifacts ::
  "TypedArtifactReference \<Rightarrow> TypedArtifactReference \<Rightarrow> TypedArtifactReference option \<Rightarrow> JoinAuditInput" where
  "audit_artifacts producer consumer joined =
     \<lparr>ja_producer_source = ta_artifact producer, ja_consumer_source = ta_artifact consumer,
      ja_joined_artifact = map_option ta_artifact joined\<rparr>"

lemma artifact_value_matches: "json_artifact_matches (artifact_value r) r"
  by (simp add: json_artifact_matches_def artifact_value_def string_member_def json_object_lookup)

text \<open>The content check on an audit object of a passed join.\<close>

lemma audit_content_members:
  fixes ctx :: "'d stage12"
  assumes "rm_join_status manifest = Join_passed" and "rr_status result = Join_passed"
    and "relationship manifest Rel_producer_raw = Some producer"
    and "relationship manifest Rel_consumer_raw = Some consumer"
    and "relationship manifest Rel_joined_derived = Some joined"
    and "unat (rr_accepted_rows result) + unat (rr_full_rows result) = unat (rr_producer_rows result)"
    and "obj = json_object (audit_members (rm_run_id manifest) result
      (audit_artifacts producer consumer (Some joined)) hash)"
  shows "audit_content_ok ctx manifest document obj =
    zero_self_hash_matches (s12_ops ctx) (s12_digest ctx) document ''record_sha256''"
proof -
  let ?ms = "audit_members (rm_run_id manifest) result (audit_artifacts producer consumer (Some joined)) hash ::
    (string \<times> 'd Value) list"
  have get: "map_of obj k = map_of ?ms k" for k by (simp add: assms(7) audit_lookup)
  have members: "map_of obj ''schema_version'' = Some (JString ''cpu-prefetch-join-audit/1'')"
    "map_of obj ''protocol_version'' = Some (JString kProtocolVersion)"
    "map_of obj ''run_id'' = Some (JString (id_value (rm_run_id manifest)))"
    "map_of obj ''join_status'' = Some (JString ''PASSED'')"
    "map_of obj ''producer_rows'' = Some (uint_value (rr_producer_rows result))"
    "map_of obj ''accepted_rows'' = Some (uint_value (rr_accepted_rows result))"
    "map_of obj ''full_rows'' = Some (uint_value (rr_full_rows result))"
    "map_of obj ''consumer_rows'' = Some (uint_value (rr_consumer_rows result))"
    "map_of obj ''source_artifacts'' =
      Some (JArray [artifact_value (ta_artifact producer), artifact_value (ta_artifact consumer)])"
    "map_of obj ''joined_artifact'' = Some (artifact_value (ta_artifact joined))"
    by (simp_all add: get audit_members_def audit_artifacts_def assms(2))
  have "unat (rr_accepted_rows result) + unat (rr_full_rows result) < 2 ^ 64"
    using assms(6) unat_u64_lt [of "rr_producer_rows result"] by simp
  then have sum: "rr_accepted_rows result \<le> u64_max - rr_full_rows result"
      "rr_producer_rows result = rr_accepted_rows result + rr_full_rows result"
    using assms(6) overflow_guard [of "rr_full_rows result" "rr_accepted_rows result"]
    by (simp_all add: not_less add.commute word_eq_unat unat_plus_u64)
  show ?thesis
    using sum
    by (simp add: audit_content_ok_def Let_def string_member_def uint_member_def members assms(1,3-5)
        artifact_value_matches uint_value_def)
qed

text \<open>Any audit of a passed result with consistent counts passes the content check.\<close>

lemma audit_checks_passed:
  assumes "make_join_audit (s12_ops ctx) (s12_digest ctx) (rm_run_id manifest) result
      (audit_artifacts producer consumer (Some joined)) = Inr (Inr text)"
    and "audit_texts_ok (rm_run_id manifest) result (audit_artifacts producer consumer (Some joined))"
    and "rm_join_status manifest = Join_passed" and "rr_status result = Join_passed"
    and "relationship manifest Rel_producer_raw = Some producer"
    and "relationship manifest Rel_consumer_raw = Some consumer"
    and "relationship manifest Rel_joined_derived = Some joined"
    and "unat (rr_accepted_rows result) + unat (rr_full_rows result) = unat (rr_producer_rows result)"
    and "related_bytes ctx manifest Rel_join_audit = Some bytes" and "bytes_string (ab_bytes bytes) = text"
    and "digest_32 (s12_digest ctx)"
  shows "audit_checks ctx manifest = Inr []"
proof -
  let ?in = "audit_artifacts producer consumer (Some joined)"
  obtain zero d where z:
    "canonicalize (s12_ops ctx) (JObject (json_object (audit_members (rm_run_id manifest) result ?in zero_hash))) =
      Inr zero"
    "workload_sha256 (s12_digest ctx) (string_bytes zero) = Inr d"
    "json_parse (s12_ops ctx) text =
      Inr (JObject (json_object (audit_members (rm_run_id manifest) result ?in (Sha256Digest_hex d))))"
    by (rule make_join_audit_text [OF assms(1,2)])
  show ?thesis
    using audit_content_members [OF assms(3-8) refl, of ctx _ "Sha256Digest_hex d"]
      audit_self_hash [OF z(1,2) assms(11)]
    by (simp add: audit_checks_def assms(9,10) parse_artifact_json_def z(3) check_that_clean)
qed

text \<open>
  C12. The audit of a passed join is accepted. When two streams join exactly, the text that
  \<open>make_join_audit\<close> writes for them, stored as the join audit of a manifest that says PASSED and names
  the same artifacts, passes both audit checks of the cross-record validator: it reads back as a
  JSON object whose version, identity, status, sources and counts are right and whose self-hash
  verifies, and it is the text that the validator regenerates.
\<close>

theorem passed_audit_accepted:
  assumes "exact_join (rm_run_id manifest) producers consumers expected" and "length producers < 2 ^ 64"
    and "reconcile (rm_run_id manifest) producers consumers expected = result"
    and "rm_join_status manifest = Join_passed"
    and "relationship manifest Rel_producer_raw = Some producer"
    and "relationship manifest Rel_consumer_raw = Some consumer"
    and "relationship manifest Rel_joined_derived = Some joined"
    and "make_join_audit (s12_ops ctx) (s12_digest ctx) (rm_run_id manifest) result
      (audit_artifacts producer consumer (Some joined)) = Inr (Inr text)"
    and "related_bytes ctx manifest Rel_join_audit = Some bytes" and "bytes_string (ab_bytes bytes) = text"
    and "digest_32 (s12_digest ctx)" and "utf8 (id_value (rm_run_id manifest))"
    and "\<forall>r\<in>{producer, consumer, joined}. utf8 (id_value (ar_artifact_id (ta_artifact r)))"
  shows "audit_checks ctx manifest = Inr [] \<and> exact_audit_checks ctx manifest (Some result) = Inr []"
proof
  let ?in = "audit_artifacts producer consumer (Some joined)"
  have ok: "audit_texts_ok (rm_run_id manifest) result ?in"
    unfolding assms(3) [symmetric]
    by (rule reconcile_texts_ok) (use assms(12,13) in \<open>auto simp: audit_artifacts_def\<close>)
  have passed: "rr_status result = Join_passed" using assms(1,3) reconcile_status by auto
  have counts: "unat (rr_accepted_rows result) + unat (rr_full_rows result) = unat (rr_producer_rows result)"
    using reconcile_joined_rows [OF assms(1-3)] by simp
  show "audit_checks ctx manifest = Inr []"
    by (rule audit_checks_passed [OF assms(8) ok assms(4) passed assms(5-7) counts assms(9-11)])
  have "\<exists>audit. relationship manifest Rel_join_audit = Some audit"
    using assms(9) by (auto simp: related_bytes_def split: option.splits)
  then show "exact_audit_checks ctx manifest (Some result) = Inr []"
    using assms(5-10) passed
    by (auto simp: exact_audit_checks_def audit_artifacts_def check_that_def)
qed

end
