(* ===== verification/Stage12_Example.thy ===== *)
theory Stage12_Example
  imports Join_Audit
begin

text \<open>
  A record set that the cross-record validator accepts: a valid completed Stage A run with its two
  schedules, its three raw envelopes and the eight artifacts it refers to. The kind of the stream
  stored as producer stream, the number that the counters claim and the run of the raw envelopes
  are parameters; the raw streams are empty. It shows that the soundness theorem applies, and what
  the validator does not check.
\<close>

subsection \<open>The records\<close>

definition zero_digest :: "u8 list \<Rightarrow> u8 list option" where
  "zero_digest bytes = Some (replicate 32 0)"

definition ex_ref :: "string \<Rightarrow> ArtifactReference" where
  "ex_ref name = \<lparr>ar_artifact_id = Identifier name, ar_sha256 = Sha256 (replicate 32 0)\<rparr>"

definition ex_typed :: "ArtifactRelationship \<Rightarrow> string \<Rightarrow> TypedArtifactReference" where
  "ex_typed relation name = \<lparr>ta_artifact = ex_ref name, ta_relationship = relation\<rparr>"

definition ex_checksum :: ChecksumEvidence where
  "ex_checksum = \<lparr>ce_algorithm_record_id = Identifier ''x'', ce_algorithm_version = ''1'', ce_value_hex = ''00''\<rparr>"

definition ex_envelope :: "Identifier \<Rightarrow> StreamKind \<Rightarrow> string \<Rightarrow> ArtifactReference list \<Rightarrow> RawObservationEnvelope" where
  "ex_envelope run kind name sources =
     \<lparr>re_schema_version = V2_0_0_pre_2, re_protocol_version = V2_0_0_pre_2,
      re_artifact_id = Identifier name, re_run_id = run, re_stream_kind = kind,
      re_logical_row_schema_version = V2_0_0_pre_2,
      re_physical_format_record_id = Identifier kRawFormatId, re_encoding = kRawEncoding,
      re_time_unit = kRawTimeUnit, re_endianness = Little_endian, re_compression = kRawCompression,
      re_row_count = 0, re_byte_count = 0, re_storage = External_storage ''file'',
      re_source_artifacts = sources, re_integrity_artifact_ref = ex_ref ''i'',
      re_artifact_sha256 = Sha256 (replicate 32 0)\<rparr>"

definition ex_schedule :: "u64 \<Rightarrow> string \<Rightarrow> unit ScheduleRecord" where
  "ex_schedule offered name =
     \<lparr>sc_schema_version = V2_0_0_pre_2, sc_protocol_version = V2_0_0_pre_2, sc_schedule_id = Identifier name,
      sc_schedule_kind = Schedule_confirmatory, sc_arrival_family = Arrival_poisson_exponential,
      sc_namespace_id = Identifier ''n'',
      sc_rng = \<lparr>rng_algorithm = [], rng_version = [], rng_seed_id = Identifier ''s'',
        rng_derivation_record_id = Identifier ''d'', rng_parent_namespace_id = Identifier ''n''\<rparr>,
      sc_time_unit = ''PICOSECONDS'', sc_deadline_encoding = Deadline_absolute_integer_ticks,
      sc_origin_ticks = 0, sc_horizon_ticks = 1, sc_offered_count = offered,
      sc_nominal_offered_rate = \<lparr>er_numerator_events = 1, er_denominator_ticks = 1\<rparr>,
      sc_overflow_rule_record_id = Identifier ''o'',
      sc_deadline_storage = External_deadlines \<lparr>es_artifact_id = Identifier name, es_artifact_uri = [],
        es_row_count = offered, es_byte_count = 0, es_artifact_sha256 = Sha256 (replicate 32 0)\<rparr>,
      sc_decoded_deadlines_sha256 = Sha256 [], sc_schedule_sha256 = Sha256 [], sc_source_document = JNull\<rparr>"

definition ex_counts :: "u64 \<Rightarrow> unit RunCounts" where
  "ex_counts n =
     \<lparr>rn_offered = Some n, rn_attempted = Some n, rn_accepted = Some n, rn_full = Some 0,
      rn_consumed = Some n, rn_final_occupancy = Some 0, rn_raw_sample_count = Some n,
      rn_n_eff_p999 = Some (Number ''200000'' (Unsigned_integer 200000))\<rparr>"

definition ex_manifest :: "u64 \<Rightarrow> unit RunManifest" where
  "ex_manifest n =
     \<lparr>rm_schema_version = V2_0_0_pre_2, rm_protocol_version = V2_0_0_pre_2, rm_run_id = Identifier ''r'',
      rm_platform_id = Identifier ''pl'', rm_build_id = Identifier ''b'', rm_within_cell_ordinal = 0,
      rm_queue_provenance_id = Identifier ''q'',
      rm_provenance = \<lparr>rp_paper_repository_revision = [], rp_implementation_repository_revision = [],
        rp_build_artifact_sha256 = Sha256 [], rp_compiler_identity = [], rp_compiler_flags = [],
        rp_standard_library = [], rp_dependency_record_id = Identifier ''d''\<rparr>,
      rm_stage = Stage_stage_a, rm_run_mode = Mode_latency, rm_lifecycle_state = LS_completed,
      rm_block_id = Identifier ''bl'', rm_block_role = Block_h3_train, rm_package = Package_r0,
      rm_requested_hardware_state = Requested_h0, rm_verified_hardware_state = HW_verified_default,
      rm_placement = Placement_near, rm_working_set_class = l2_resident, rm_load_level = Load_l025,
      rm_capacity_events = 8, rm_time_unit = ''PICOSECONDS'',
      rm_schedule_refs = \<lparr>rs_measurement = ex_ref ''sm'', rs_warmup = ex_ref ''sw''\<rparr>,
      rm_seed_refs = \<lparr>sd_arrival = Identifier ''s'', sd_node_order = None, sd_event_order = Identifier ''s'',
        sd_warmup = Identifier ''s'', sd_derivation_record_id = Identifier ''d''\<rparr>,
      rm_validity = Validity_valid, rm_count_reconciliation = Gate_pass,
      rm_zero_loss_status = Gate_pass, rm_effective_tail_status = Gate_pass,
      rm_confirmatory_estimability = Est_estimable, rm_confirmatory_blockers = [],
      rm_block_completeness = Completeness_complete, rm_join_status = Join_passed,
      rm_counts = Some (ex_counts n),
      rm_integrity_evidence = Some \<lparr>pi_report_artifact = ex_ref ''i'',
        pi_final_consumer_rolling_checksum = ex_checksum, pi_event_records_pre_checksum = ex_checksum,
        pi_event_records_post_checksum = ex_checksum, pi_ordered_index_checksum = ex_checksum,
        pi_address_delta_checksum = ex_checksum\<rparr>,
      rm_failure_record_ids = [],
      rm_artifact_refs = [ex_typed Rel_producer_raw ''p'', ex_typed Rel_consumer_raw ''c'',
        ex_typed Rel_join_audit ''a'', ex_typed Rel_joined_derived ''j'',
        ex_typed Rel_phase_integrity_report ''i'', ex_typed Rel_provenance ''v''],
      rm_manifest_sha256 = Sha256 (replicate 32 0),
      rm_source_document = JObject [(''manifest_sha256'', JString zero_hash)]\<rparr>"

definition ex_records :: "Identifier \<Rightarrow> StreamKind \<Rightarrow> u64 \<Rightarrow> unit ProtocolRecord list" where
  "ex_records run kind n =
     [Record_manifest (ex_manifest n), Record_raw (ex_envelope run kind ''p'' []) JNull,
      Record_raw (ex_envelope run Stream_consumer ''c'' []) JNull,
      Record_raw (ex_envelope run Stream_joined_derived ''j'' [ex_ref ''p'', ex_ref ''c'']) JNull,
      Record_schedule (ex_schedule n ''sm''), Record_schedule (ex_schedule n ''sw'')]"

subsection \<open>The documents\<close>

text \<open>The canonical text of a document.\<close>

definition text_of :: "unit Value \<Rightarrow> string" where
  "text_of v = (case canonicalize example_ops v of Inl _ \<Rightarrow> [] | Inr t \<Rightarrow> t)"

definition ex_provenance :: "unit Value" where
  "ex_provenance = JObject (json_object
     [(''schema_version'', JString ''cpu-prefetch-queue-provenance/1''),
      (''protocol_version'', JString kPreviousProtocolVersion), (''queue_id'', JString ''q'')])"

definition ex_checksum_value :: "unit Value" where
  "ex_checksum_value = JObject (json_object
     [(''algorithm_record_id'', JString ''x''), (''algorithm_version'', JString ''1''), (''value_hex'', JString ''00'')])"

definition ex_integrity :: "unit Value" where
  "ex_integrity = JObject (json_object
     [(''protocol_version'', JString kProtocolVersion), (''artifact_id'', JString ''i''), (''run_id'', JString ''r''),
      (''content_checksum_match'', JBool True), (''final_consumer_rolling_checksum'', ex_checksum_value),
      (''event_records_pre_checksum'', ex_checksum_value), (''event_records_post_checksum'', ex_checksum_value),
      (''ordered_index_checksum'', ex_checksum_value), (''address_delta_checksum'', ex_checksum_value)])"

definition ex_result :: "u64 \<Rightarrow> ReconciliationResult" where
  "ex_result n = \<lparr>rr_status = Join_passed, rr_producer_rows = n, rr_accepted_rows = n, rr_full_rows = 0,
     rr_consumer_rows = n, rr_joined_rows = [], rr_issues = []\<rparr>"

definition ex_audit_input :: JoinAuditInput where
  "ex_audit_input = audit_artifacts (ex_typed Rel_producer_raw ''p'') (ex_typed Rel_consumer_raw ''c'')
     (Some (ex_typed Rel_joined_derived ''j''))"

definition ex_audit :: "u64 \<Rightarrow> string" where
  "ex_audit n = (case make_join_audit example_ops zero_digest (Identifier ''r'') (ex_result n) ex_audit_input of
     Inr (Inr text) \<Rightarrow> text | _ \<Rightarrow> [])"

definition ex_artifact :: "string \<Rightarrow> string \<Rightarrow> ArtifactBytes" where
  "ex_artifact name text = \<lparr>ab_artifact_id = Identifier name, ab_bytes = string_bytes text\<rparr>"

definition ex_artifacts :: "u64 \<Rightarrow> ArtifactBytes list" where
  "ex_artifacts n =
     [ex_artifact ''p'' [], ex_artifact ''c'' [], ex_artifact ''j'' [], ex_artifact ''a'' (ex_audit n),
      ex_artifact ''i'' (text_of ex_integrity), ex_artifact ''v'' (text_of ex_provenance),
      ex_artifact ''sm'' [], ex_artifact ''sw'' []]"

definition ex_evidence :: "RunEvidence list" where
  "ex_evidence =
     [\<lparr>ev_run_id = Identifier ''r'', ev_expected_record_indices = [],
       ev_block_completeness = \<lparr>ab_status = Completeness_complete, ab_authoritative = True\<rparr>,
       ev_access_integrity = \<lparr>ag_status = Gate_pass, ag_authoritative = True\<rparr>\<rparr>]"

definition ex_context :: "Identifier \<Rightarrow> StreamKind \<Rightarrow> u64 \<Rightarrow> unit stage12" where
  "ex_context run kind n =
     stage12_context example_ops (\<lambda>_. False) zero_digest (ex_artifacts n) ex_evidence (ex_records run kind n)"

subsection \<open>Hashes and texts\<close>

lemma zero_hex: "Sha256Digest_hex (Sha256Digest (replicate 32 0)) = zero_hash"
    "Sha256_hex (Sha256 (replicate 32 0)) = zero_hash"
  by code_simp+

lemma zero_digest_hash [simp]: "workload_sha256 zero_digest bytes = Inr (Sha256Digest (replicate 32 0))"
  by (simp add: workload_sha256_def zero_digest_def)

lemma zero_digest_32: "digest_32 zero_digest"
  by (simp add: digest_32_def zero_digest_def)

lemma zero_bytes_have_hash [simp]: "bytes_have_hash zero_digest bytes (Sha256 (replicate 32 0)) = Inr True"
  by (simp add: bytes_have_hash_def zero_hex)

lemma bytes_string_inverse [simp]: "bytes_string (string_bytes s) = s"
proof -
  have "char_of (unat (of_char c :: u8)) = c" for c :: char
  proof -
    have "unat (of_nat (of_char c) :: u8) = of_char c" by (simp add: unat_of_nat nat_of_char_less_256)
    then have "unat (of_char c :: u8) = of_char c" by (simp only: of_nat_of_char)
    then show ?thesis by simp
  qed
  then show ?thesis by (induction s) (simp_all add: bytes_string_def string_bytes_def)
qed

lemma text_of_plain: "plain example_ops v \<Longrightarrow> json_parse example_ops (text_of v) = Inr v"
  using plain_text [of example_ops v] by (auto simp: text_of_def)

lemma plain_bool [simp]: "plain ops (JBool b)"
  by (simp add: plain_def)

lemma ex_documents_plain: "plain example_ops ex_provenance" "plain example_ops ex_integrity"
proof -
  show "plain example_ops ex_provenance"
    unfolding ex_provenance_def
    by (rule plain_json_object) (simp_all add: ascii_utf8 byte_def kPreviousProtocolVersion_def)
  have "plain example_ops ex_checksum_value"
    unfolding ex_checksum_value_def by (rule plain_json_object) (simp_all add: ascii_utf8 byte_def)
  then show "plain example_ops ex_integrity"
    unfolding ex_integrity_def
    by (intro plain_json_object) (simp_all add: ascii_utf8 byte_def kProtocolVersion_def)
qed

lemma ex_texts_ok: "audit_texts_ok (Identifier ''r'') (ex_result n) ex_audit_input"
  by (simp add: audit_texts_ok_def ex_audit_input_def audit_artifacts_def ex_typed_def ex_ref_def ex_result_def
      ascii_utf8 byte_def)

lemma ex_audit_made:
  "make_join_audit example_ops zero_digest (Identifier ''r'') (ex_result n) ex_audit_input = Inr (Inr (ex_audit n))"
proof -
  obtain zero where z: "canonicalize example_ops (JObject (audit_object (Identifier ''r'') (ex_result n) ex_audit_input)) =
      Inr zero"
    using plain_text [OF audit_plain [OF ex_texts_ok ascii_utf8 [OF zero_hash_ascii]]]
    unfolding audit_object_members by blast
  obtain body where t: "canonicalize example_ops (JObject (assign_member ''record_sha256''
      (JString (Sha256Digest_hex (Sha256Digest (replicate 32 0))))
      (audit_object (Identifier ''r'') (ex_result n) ex_audit_input))) = Inr body"
    using plain_text [OF audit_plain [OF ex_texts_ok ascii_utf8 [OF Sha256Digest_hex_ascii]]]
    unfolding audit_object_members audit_assign by blast
  have "make_join_audit example_ops zero_digest (Identifier ''r'') (ex_result n) ex_audit_input = Inr (Inr body)"
    using z t by (simp add: make_join_audit_def Let_def ex_audit_input_def audit_artifacts_def)
      (simp add: ex_result_def)
  then show ?thesis by (simp add: ex_audit_def)
qed

subsection \<open>The sections of the manifest\<close>

lemma ex_context_select [simp]:
  "s12_digest (ex_context run kind n) = zero_digest" "s12_ops (ex_context run kind n) = example_ops"
  "s12_artifacts (ex_context run kind n) = ex_artifacts n" "s12_evidence (ex_context run kind n) = ex_evidence"
  "s12_failures (ex_context run kind n) = []"
  "s12_raw_envelopes (ex_context run kind n) =
     [ex_envelope run kind ''p'' [], ex_envelope run Stream_consumer ''c'' [],
      ex_envelope run Stream_joined_derived ''j'' [ex_ref ''p'', ex_ref ''c'']]"
  "s12_schedules (ex_context run kind n) = [ex_schedule n ''sm'', ex_schedule n ''sw'']"
  by (simp_all add: ex_context_def) (simp_all add: stage12_context_def ex_records_def map_filter_simps)

lemma ex_artifact_found [simp]:
  "find_artifact (ex_artifacts n) ''p'' = Some (ex_artifact ''p'' [])"
  "find_artifact (ex_artifacts n) ''c'' = Some (ex_artifact ''c'' [])"
  "find_artifact (ex_artifacts n) ''j'' = Some (ex_artifact ''j'' [])"
  "find_artifact (ex_artifacts n) ''a'' = Some (ex_artifact ''a'' (ex_audit n))"
  "find_artifact (ex_artifacts n) ''i'' = Some (ex_artifact ''i'' (text_of ex_integrity))"
  "find_artifact (ex_artifacts n) ''v'' = Some (ex_artifact ''v'' (text_of ex_provenance))"
  "find_artifact (ex_artifacts n) ''sm'' = Some (ex_artifact ''sm'' [])"
  "find_artifact (ex_artifacts n) ''sw'' = Some (ex_artifact ''sw'' [])"
  by (simp_all add: find_artifact_def ex_artifacts_def ex_artifact_def)

lemma ex_artifact_bytes [simp]: "ab_bytes (ex_artifact name text) = string_bytes text"
  by (simp add: ex_artifact_def)

lemma ex_typed_select [simp]:
  "ta_artifact (ex_typed relation name) = ex_ref name" "ta_relationship (ex_typed relation name) = relation"
  "ar_artifact_id (ex_ref name) = Identifier name" "ar_sha256 (ex_ref name) = Sha256 (replicate 32 0)"
  by (simp_all add: ex_typed_def ex_ref_def)

lemma ex_relationship [simp]:
  "relationship (ex_manifest n) Rel_producer_raw = Some (ex_typed Rel_producer_raw ''p'')"
  "relationship (ex_manifest n) Rel_consumer_raw = Some (ex_typed Rel_consumer_raw ''c'')"
  "relationship (ex_manifest n) Rel_join_audit = Some (ex_typed Rel_join_audit ''a'')"
  "relationship (ex_manifest n) Rel_joined_derived = Some (ex_typed Rel_joined_derived ''j'')"
  "relationship (ex_manifest n) Rel_phase_integrity_report = Some (ex_typed Rel_phase_integrity_report ''i'')"
  "relationship (ex_manifest n) Rel_provenance = Some (ex_typed Rel_provenance ''v'')"
  by (simp_all add: relationship_def ex_manifest_def)

lemma ex_raw_for [simp]:
  "raw_for (ex_context run kind n) (Some (ex_typed Rel_producer_raw ''p'')) = Some (ex_envelope run kind ''p'' [])"
  "raw_for (ex_context run kind n) (Some (ex_typed Rel_consumer_raw ''c'')) =
     Some (ex_envelope run Stream_consumer ''c'' [])"
  "raw_for (ex_context run kind n) (Some (ex_typed Rel_joined_derived ''j'')) =
     Some (ex_envelope run Stream_joined_derived ''j'' [ex_ref ''p'', ex_ref ''c''])"
  by (simp_all add: raw_for_def ex_envelope_def)

lemma ex_related_bytes [simp]:
  "relationship (ex_manifest n) wanted = Some (ex_typed relation name) \<Longrightarrow>
     related_bytes (ex_context run kind n) (ex_manifest n) wanted = find_artifact (ex_artifacts n) name"
  by (simp add: related_bytes_def)

lemma ex_manifest_select [simp]:
  "rm_run_id (ex_manifest n) = Identifier ''r''" "rm_join_status (ex_manifest n) = Join_passed"
  "rm_counts (ex_manifest n) = Some (ex_counts n)" "rm_stage (ex_manifest n) = Stage_stage_a"
  "rm_lifecycle_state (ex_manifest n) = LS_completed" "rm_validity (ex_manifest n) = Validity_valid"
  "rm_failure_record_ids (ex_manifest n) = []"
  by (simp_all add: ex_manifest_def)

lemma ex_local_checks: "r \<in> set (ex_records run kind n) \<Longrightarrow> record_checks (\<lambda>_. False) r = []"
proof -
  have "validate_manifest (\<lambda>_. False) (ex_manifest n) = []"
    using unat_u64_lt [of n]
    by (simp add: validate_manifest_def validate_blockers_def expected_summary_def evidence_pending_def
        local_mismatch_def stage_a_factors_invalid_def is_failure_lifecycle_def is_early_failure_def
        required_relationships_def has_relationship_def validate_counts_def at_least_200000_def
        ex_manifest_def ex_counts_def Let_def)
  moreover have "validate_schedule (ex_schedule n name) = []" for name
    by (simp add: validate_schedule_def ex_schedule_def)
  moreover have "validate_raw (ex_envelope run k name sources) = []" for k name sources
    by (simp add: validate_raw_def ex_envelope_def)
  ultimately show "r \<in> set (ex_records run kind n) \<Longrightarrow> record_checks (\<lambda>_. False) r = []"
    by (auto simp: ex_records_def record_checks_def)
      (simp_all add: ex_manifest_def ex_schedule_def ex_envelope_def)
qed

lemma ex_self_hash: "manifest_self_hash (ex_context run kind n) (ex_manifest n) = Inr []"
proof -
  have "plain example_ops (JObject [(''manifest_sha256'', JString zero_hash)])"
    by (simp add: plain_object ascii_utf8 zero_hash_ascii byte_def)
  from plain_text [OF this] obtain t where
    "canonicalize example_ops (JObject [(''manifest_sha256'', JString zero_hash)]) = Inr t" by blast
  moreover have "length zero_hash = 64" by (simp add: zero_hash_def)
  ultimately show ?thesis
    by (simp add: manifest_self_hash_def check_that_clean self_hash_ok_def ex_manifest_def string_member_def
        zero_hex zero_self_hash_matches_def assign_member_def)
qed

lemma ex_artifact_refs:
  "\<forall>c\<in>set (artifact_ref_checks (ex_context run kind n) base [] (rm_artifact_refs (ex_manifest n))). c = Inr []"
  by (simp add: ex_manifest_def check_that_clean)

lemma ex_raw_envelopes:
  "wanted \<in> {Rel_producer_raw, Rel_consumer_raw, Rel_joined_derived} \<Longrightarrow>
     require_raw_envelope (ex_context run kind n) (ex_manifest n) wanted name = []"
  by (auto simp: require_raw_envelope_def)

lemma ex_provenance_checks: "provenance_checks (ex_context run kind n) (ex_manifest n) = []"
proof -
  have "map_of (json_object [(''schema_version'', JString ''cpu-prefetch-queue-provenance/1''),
      (''protocol_version'', JString kPreviousProtocolVersion), (''queue_id'', JString ''q'')]) =
    map_of [(''schema_version'', JString ''cpu-prefetch-queue-provenance/1'' :: unit Value),
      (''protocol_version'', JString kPreviousProtocolVersion), (''queue_id'', JString ''q'')]"
    by (rule json_object_lookup) simp
  moreover have "rm_queue_provenance_id (ex_manifest n) = Identifier ''q''" by (simp add: ex_manifest_def)
  ultimately show ?thesis
    by (simp add: provenance_checks_def parse_artifact_json_def text_of_plain [OF ex_documents_plain(1)]
        parsed_object_def) (simp add: ex_provenance_def string_member_def)
qed

lemma ex_checksum_matches: "checksum_matches ex_checksum_value ex_checksum"
proof -
  have "map_of (json_object [(''algorithm_record_id'', JString ''x''), (''algorithm_version'', JString ''1''),
      (''value_hex'', JString ''00'')]) =
    map_of [(''algorithm_record_id'', JString ''x'' :: unit Value), (''algorithm_version'', JString ''1''),
      (''value_hex'', JString ''00'')]"
    by (rule json_object_lookup) simp
  then show ?thesis by (simp add: checksum_matches_def ex_checksum_value_def ex_checksum_def string_member_def)
qed

lemma ex_integrity_checks: "integrity_checks (ex_context run kind n) (ex_manifest n) = []"
proof -
  let ?ms = "[(''protocol_version'', JString kProtocolVersion), (''artifact_id'', JString ''i''),
    (''run_id'', JString ''r''), (''content_checksum_match'', JBool True),
    (''final_consumer_rolling_checksum'', ex_checksum_value),
    (''event_records_pre_checksum'', ex_checksum_value), (''event_records_post_checksum'', ex_checksum_value),
    (''ordered_index_checksum'', ex_checksum_value), (''address_delta_checksum'', ex_checksum_value)]"
  have "map_of (json_object ?ms) = map_of ?ms" by (rule json_object_lookup) simp
  moreover have "rm_integrity_evidence (ex_manifest n) = Some \<lparr>pi_report_artifact = ex_ref ''i'',
      pi_final_consumer_rolling_checksum = ex_checksum, pi_event_records_pre_checksum = ex_checksum,
      pi_event_records_post_checksum = ex_checksum, pi_ordered_index_checksum = ex_checksum,
      pi_address_delta_checksum = ex_checksum\<rparr>" by (simp add: ex_manifest_def)
  moreover have "re_integrity_artifact_ref (ex_envelope run k name sources) = ex_ref ''i''" for k name sources
    by (simp add: ex_envelope_def)
  ultimately show ?thesis
    by (simp add: integrity_checks_def parse_artifact_json_def text_of_plain [OF ex_documents_plain(2)]
        parsed_object_def) (simp add: ex_integrity_def integrity_report_ok_def string_member_def ex_checksum_matches)
qed

lemma ex_schedule_checks: "schedule_checks (ex_context run kind n) (ex_manifest n) = Inr []"
proof -
  have "schedule_for (ex_context run kind n) (ex_ref name) = Some (ex_schedule n name)"
    if "name = ''sm'' \<or> name = ''sw''" for name
    using that by (auto simp: schedule_for_def ex_schedule_def)
  moreover have "rm_schedule_refs (ex_manifest n) = \<lparr>rs_measurement = ex_ref ''sm'', rs_warmup = ex_ref ''sw''\<rparr>"
    by (simp add: ex_manifest_def)
  moreover have "sc_offered_count (ex_schedule n name) = n" "rn_offered (ex_counts n) = Some n" for name
    by (simp_all add: ex_schedule_def ex_counts_def)
  ultimately show ?thesis
    by (simp add: schedule_checks_def Let_def seq_checks_clean check_that_clean reference_resolves_def)
qed

lemma ex_status_checks: "status_checks (ex_context run kind n) (ex_manifest n) = []"
proof -
  have "s12_at_least (ex_context run kind n) = (\<lambda>_. False)" by (simp add: ex_context_def)
  then show ?thesis
    by (simp add: status_checks_clean manifest_status_input_def find_evidence_def ex_evidence_def
        invalidating_failure_def)
      (simp add: evaluate_run_status_def initial_status_def completed_gates_def finish_status_def status_blockers_def
        summary_for_def complete_count_identities_def n_eff_at_least_threshold_def carries_status_def ex_counts_def
        ex_manifest_def Let_def)
qed

subsection \<open>The streams\<close>

text \<open>An empty stream of any kind is decoded to no rows.\<close>

definition empty_rows :: "StreamKind \<Rightarrow> DecodedRows" where
  "empty_rows kind = (case kind of Stream_producer \<Rightarrow> Decoded_producer [] | Stream_consumer \<Rightarrow> Decoded_consumer []
     | Stream_joined_derived \<Rightarrow> Decoded_joined [])"

lemma ex_decode:
  assumes "make_row_layout (id_value run) = Inr layout" and "kind = Stream_joined_derived \<or> sources = []"
  shows "decode_external_raw zero_digest (ex_envelope run kind name sources) (string_bytes []) =
    Inr (Inr \<lparr>dr_stream_kind = kind, dr_rows = empty_rows kind\<rparr>)"
proof -
  have "raw_checked_multiply 0 row_bytes = Some 0" for row_bytes by (simp add: raw_checked_multiply_def)
  moreover have "validate_raw (ex_envelope run kind name sources\<lparr>re_storage := Inline_rows (logical_rows
      (ex_envelope run kind name sources) \<lparr>ds_producer_rows = [], ds_consumer_rows = [], ds_joined_rows = [],
       ds_expected_accepted = 0\<rparr>)\<rparr>) = []"
    by (cases kind) (simp_all add: validate_raw_def logical_rows_def ex_envelope_def validate_rows_def)
  ultimately show ?thesis
    using assms
    by (cases kind) (simp_all add: decode_external_raw_def decode_body_def decoded_stream_def empty_rows_def
        ex_envelope_def zero_hex Let_def string_bytes_def)
qed

lemma ex_decode_related:
  assumes "make_row_layout (id_value run) = Inr layout"
  shows "decode_related (ex_context run kind n) (ex_manifest n) Rel_producer_raw =
      Inr ([], Some \<lparr>dr_stream_kind = kind, dr_rows = empty_rows kind\<rparr>)"
    and "decode_related (ex_context run kind n) (ex_manifest n) Rel_consumer_raw =
      Inr ([], Some \<lparr>dr_stream_kind = Stream_consumer, dr_rows = Decoded_consumer []\<rparr>)"
    and "decode_related (ex_context run kind n) (ex_manifest n) Rel_joined_derived =
      Inr ([], Some \<lparr>dr_stream_kind = Stream_joined_derived, dr_rows = Decoded_joined []\<rparr>)"
  using ex_decode [OF assms] by (simp_all add: decode_related_def) (simp_all add: empty_rows_def)

lemma ex_audit_checks: "audit_checks (ex_context run kind n) (ex_manifest n) = Inr []"
  using ex_audit_made [of n] ex_texts_ok [of n] unfolding ex_audit_input_def
  by (intro audit_checks_passed) (auto simp: zero_digest_32 ex_result_def)

lemma ex_stream_checks:
  assumes "make_row_layout (id_value run) = Inr layout" and "kind = Stream_producer \<Longrightarrow> n = 0"
  shows "stream_checks (ex_context run kind n) (ex_manifest n) = Inr []"
proof (cases "kind = Stream_producer")
  case True
  then have n: "n = 0" using assms(2) by simp
  have r: "reconcile (Identifier ''r'') [] [] [] = ex_result 0"
    by (simp add: reconcile_def ex_result_def)
  have streams: "reconciled_streams (ex_context run kind n) (ex_manifest n)
      (Some \<lparr>dr_stream_kind = kind, dr_rows = empty_rows kind\<rparr>)
      (Some \<lparr>dr_stream_kind = Stream_consumer, dr_rows = Decoded_consumer []\<rparr>) = ([], Some (ex_result 0))"
    by (simp add: reconciled_streams_def True empty_rows_def find_evidence_def ex_evidence_def r Let_def)
      (simp add: ex_result_def)
  have passed: "passed_join_checks (ex_context run kind n) (ex_manifest n) (Some (ex_result 0))
      (Some \<lparr>dr_stream_kind = Stream_joined_derived, dr_rows = Decoded_joined []\<rparr>) = []"
    by (simp add: passed_join_checks_def ex_result_def counts_disagree_def n ex_counts_def ex_envelope_def)
  have "exact_audit_checks (ex_context run kind n) (ex_manifest n) (Some (ex_result 0)) = Inr []"
    using ex_audit_made [of 0] unfolding ex_audit_input_def audit_artifacts_def
    by (simp add: exact_audit_checks_def n check_that_clean) (simp add: ex_result_def)
  with passed streams show ?thesis
    by (simp add: stream_checks_def ex_decode_related [OF assms(1)] seq_checks_clean ex_audit_checks
        ex_integrity_checks)
next
  case False
  then have "reconciled_streams (ex_context run kind n) (ex_manifest n)
      (Some \<lparr>dr_stream_kind = kind, dr_rows = empty_rows kind\<rparr>)
      (Some \<lparr>dr_stream_kind = Stream_consumer, dr_rows = Decoded_consumer []\<rparr>) = ([], None)"
    by (cases kind) (simp_all add: reconciled_streams_def empty_rows_def)
  then show ?thesis
    by (simp add: stream_checks_def ex_decode_related [OF assms(1)] seq_checks_clean ex_audit_checks
        ex_integrity_checks passed_join_checks_def exact_audit_checks_def)
qed

text \<open>The record set is accepted.\<close>

lemma ex_accepted:
  assumes "make_row_layout (id_value run) = Inr layout" and "kind = Stream_producer \<Longrightarrow> n = 0"
  shows "stage12_validate example_ops (\<lambda>_. False) zero_digest (ex_artifacts n) ex_evidence (ex_records run kind n) =
    Inr []"
proof -
  have manifests: "manifests_of (ex_records run kind n) = [ex_manifest n]"
    by (simp add: manifests_of_def ex_records_def map_filter_simps)
  have checks: "manifest_checks (ex_context run kind n) (ex_manifest n) = Inr []"
    using ex_artifact_refs ex_raw_envelopes
    by (auto simp: manifest_checks_def seq_checks_clean ex_self_hash failure_relation_checks_def
        ex_provenance_checks ex_stream_checks [OF assms] ex_schedule_checks ex_status_checks)
  have dup: "duplicate_checks (ex_context run kind n) [ex_manifest n] = []"
    by (simp add: duplicate_checks_def ex_evidence_def) (simp add: ex_envelope_def ex_schedule_def)
  have ids: "reject_duplicate [] e (map (\<lambda>a. id_value (ab_artifact_id a)) (ex_artifacts n)) = []" for e
    by (simp add: ex_artifacts_def ex_artifact_def)
  show ?thesis
    unfolding stage12_validate_def Let_def ex_context_def [symmetric] manifests
    by (simp add: seq_checks_clean ex_local_checks dup ids checks)
qed

subsection \<open>Soundness applies\<close>

lemma ex_layouts: "\<exists>layout. make_row_layout (id_value (Identifier ''r'')) = Inr layout"
    "\<exists>layout. make_row_layout (id_value (Identifier ''other'')) = Inr layout"
  by (simp_all add: make_row_layout_cases prefix_size_def string_bytes_def utf8_first_def utf8_scalar_def)

lemma ex_accepted_r:
  "kind = Stream_producer \<Longrightarrow> n = 0 \<Longrightarrow>
     stage12_validate example_ops (\<lambda>_. False) zero_digest (ex_artifacts n) ex_evidence
       (ex_records (Identifier ''r'') kind n) = Inr []"
  using ex_layouts(1) ex_accepted by blast

lemma ex_evidence_found: "\<exists>e. find_evidence ex_evidence ''r'' = Some e \<and> ev_expected_record_indices e = []"
  by (simp add: find_evidence_def ex_evidence_def)

lemma ex_records_manifest: "Record_manifest (ex_manifest n) \<in> set (ex_records run kind n)"
  by (simp add: ex_records_def)

theorem stage12_accepts_exact_run_witness:
  "stage12_validate example_ops (\<lambda>_. False) zero_digest (ex_artifacts 0) ex_evidence
     (ex_records (Identifier ''r'') Stream_producer 0) = Inr [] \<and>
   (\<exists>prows producers consumers. stored_stream (ex_context (Identifier ''r'') Stream_producer 0) (ex_manifest 0) Rel_producer_raw
      \<lparr>dr_stream_kind = Stream_producer, dr_rows = Decoded_producer prows\<rparr> \<and>
    producers = map (\<lambda>row. make_producer_record (Identifier ''r'') (dp_observation row)) prows \<and>
    exact_join (Identifier ''r'') producers consumers [])"
proof -
  have "stream_kinds_agree (ex_context (Identifier ''r'') Stream_producer 0) (ex_manifest 0)"
    by (simp add: stream_kinds_agree_def ex_envelope_def)
  from stage12_accepts_exact_run [OF ex_accepted_r [OF refl refl] ex_records_manifest ex_context_def [symmetric]
      ex_manifest_select(4-6) this]
  obtain prows crows e producers consumers where w:
    "stored_stream (ex_context (Identifier ''r'') Stream_producer 0) (ex_manifest 0) Rel_producer_raw
      \<lparr>dr_stream_kind = Stream_producer, dr_rows = Decoded_producer prows\<rparr>"
    "producers = map (\<lambda>row. make_producer_record (Identifier ''r'') (dp_observation row)) prows"
    "find_evidence ex_evidence ''r'' = Some e"
    "exact_join (Identifier ''r'') producers consumers (ev_expected_record_indices e)"
    unfolding ex_manifest_select(1) Identifier.sel by (elim exE conjE) (rule that)
  moreover have "ev_expected_record_indices e = []" using w(3) ex_evidence_found by auto
  ultimately show ?thesis using ex_accepted_r [OF refl refl] by metis
qed

theorem gate_validators_agree_witness: "validate_blockers (ex_manifest 0) = []"
  using gate_validators_agree [OF ex_manifest_select(4) ex_status_checks refl]
  by (simp add: manifest_status_input_def find_evidence_def ex_evidence_def)

theorem passed_audit_accepted_witness:
  "audit_checks (ex_context (Identifier ''r'') Stream_producer 0) (ex_manifest 0) = Inr [] \<and>
   exact_audit_checks (ex_context (Identifier ''r'') Stream_producer 0) (ex_manifest 0)
     (Some (reconcile (Identifier ''r'') [] [] [])) = Inr []"
proof -
  have join: "exact_join (rm_run_id (ex_manifest 0)) [] [] []"
    by (simp add: exact_join_def accepted_records_def)
  have r: "reconcile (rm_run_id (ex_manifest 0)) [] [] [] = ex_result 0"
    by (simp add: reconcile_def ex_result_def)
  from passed_audit_accepted [OF join _ r, of "ex_typed Rel_producer_raw ''p''" "ex_typed Rel_consumer_raw ''c''"
      "ex_typed Rel_joined_derived ''j''" "ex_context (Identifier ''r'') Stream_producer 0" "ex_audit 0"]
  show ?thesis
    using ex_audit_made [of 0] r by (simp add: ex_audit_input_def zero_digest_32 ascii_utf8 byte_def)
qed

subsection \<open>What is not checked\<close>

text \<open>
  C32. The kind of a raw stream is not checked against its relationship. When the artifact that the
  manifest names as producer stream decodes to rows of another kind, or the consumer stream does,
  the cross-record validator skips the exact join, the comparison of the joined rows, the
  comparison of the counters and the regeneration of the audit, and reports nothing for that: what
  is left are the decoding errors, the content of the audit and the integrity report.
\<close>

theorem stream_kind_unchecked:
  assumes "decode_related ctx manifest Rel_producer_raw = Inr (e1, Some producer)"
    and "decode_related ctx manifest Rel_consumer_raw = Inr (e2, Some consumer)"
    and "decode_related ctx manifest Rel_joined_derived = Inr (e3, joined)"
    and "(\<forall>rows. dr_rows producer \<noteq> Decoded_producer rows) \<or> (\<forall>rows. dr_rows consumer \<noteq> Decoded_consumer rows)"
  shows "stream_checks ctx manifest =
    seq_checks [Inr (e1 @ e2 @ e3), audit_checks ctx manifest, Inr (integrity_checks ctx manifest)]"
proof -
  have "reconciled_streams ctx manifest (Some producer) (Some consumer) = ([], None)"
    using assms(4) by (auto simp: reconciled_streams_def split: DecodedRows.splits)
  then show ?thesis
    by (simp add: stream_checks_def assms(1-3) passed_join_checks_def exact_audit_checks_def)
      (simp add: seq_checks_def split: sum.splits)
qed

text \<open>A record set with counters that claim seven events and streams without a row is accepted.\<close>

theorem stream_kind_unchecked_witness:
  "stream_checks (ex_context (Identifier ''r'') Stream_consumer 7) (ex_manifest 7) = Inr [] \<and>
   stage12_validate example_ops (\<lambda>_. False) zero_digest (ex_artifacts 7) ex_evidence
     (ex_records (Identifier ''r'') Stream_consumer 7) = Inr [] \<and>
   rm_counts (ex_manifest 7) = Some (ex_counts 7) \<and> rn_accepted (ex_counts 7) = Some 7"
proof -
  obtain layout where l: "make_row_layout (id_value (Identifier ''r'')) = Inr layout" using ex_layouts(1) by blast
  have "stream_checks (ex_context (Identifier ''r'') Stream_consumer 7) (ex_manifest 7) = Inr []"
    using stream_kind_unchecked [OF ex_decode_related [OF l], of Stream_consumer 7]
    by (simp add: empty_rows_def seq_checks_clean ex_audit_checks ex_integrity_checks)
  then show ?thesis using ex_accepted [OF l, of Stream_consumer 7] by (simp add: ex_counts_def)
qed

text \<open>
  The run of a raw stream is not checked. The join of Stage 12 labels the decoded rows with the
  run of the manifest, whatever run their envelope and their bytes name: replacing the run in every
  decoded row changes nothing, so rows of another run that fit the record mapping are accepted, and
  the run-identity checks of the exact join cannot fail.
\<close>

theorem raw_run_identity_unchecked:
  assumes "dr_rows producer = Decoded_producer prows" and "dr_rows consumer = Decoded_consumer crows"
  shows "reconciled_streams ctx manifest
      (Some (producer\<lparr>dr_rows := Decoded_producer (map (\<lambda>row. row\<lparr>dp_run_id := other\<rparr>) prows)\<rparr>))
      (Some (consumer\<lparr>dr_rows := Decoded_consumer (map (\<lambda>row. row\<lparr>dc_run_id := other\<rparr>) crows)\<rparr>)) =
    reconciled_streams ctx manifest (Some producer) (Some consumer)"
  using assms
  by (cases "find_evidence (s12_evidence ctx) (id_value (rm_run_id manifest))")
    (simp_all add: reconciled_streams_def comp_def)

theorem raw_run_identity_unchecked_witness:
  "stage12_validate example_ops (\<lambda>_. False) zero_digest (ex_artifacts 0) ex_evidence
     (ex_records (Identifier ''other'') Stream_producer 0) = Inr [] \<and>
   rm_run_id (ex_manifest 0) = Identifier ''r'' \<and>
   re_run_id (ex_envelope (Identifier ''other'') Stream_producer ''p'' []) = Identifier ''other'' \<and>
   (\<forall>row :: DecodedProducerRow.
      reconciled_streams (ex_context (Identifier ''r'') Stream_producer 0) (ex_manifest 0)
        (Some \<lparr>dr_stream_kind = Stream_producer, dr_rows = Decoded_producer [row\<lparr>dp_run_id := ''other''\<rparr>]\<rparr>)
        (Some \<lparr>dr_stream_kind = Stream_consumer, dr_rows = Decoded_consumer []\<rparr>) =
      reconciled_streams (ex_context (Identifier ''r'') Stream_producer 0) (ex_manifest 0)
        (Some \<lparr>dr_stream_kind = Stream_producer, dr_rows = Decoded_producer [row]\<rparr>)
        (Some \<lparr>dr_stream_kind = Stream_consumer, dr_rows = Decoded_consumer []\<rparr>))"
  using raw_run_identity_unchecked
    [of "\<lparr>dr_stream_kind = Stream_producer, dr_rows = Decoded_producer [row]\<rparr>" "[row]"
      "\<lparr>dr_stream_kind = Stream_consumer, dr_rows = Decoded_consumer []\<rparr>" "[]"
      "ex_context (Identifier ''r'') Stream_producer 0" "ex_manifest 0" "''other''" for row]
    ex_layouts(2) ex_accepted [of "Identifier ''other''" _ Stream_producer 0]
  by (auto simp: ex_envelope_def)

text \<open>
  Two statuses that the protocol foresees are never accepted. A finished run outside Stage A must
  carry NOT_APPLICABLE for Stage 12 and may not for the record-local rules; a finished run whose
  gates are all evaluated must stay NOT_EVALUATED for Stage 12 while the access evidence is not
  authoritative, and may not for the record-local rules. In both cases every record set with such
  a manifest is rejected.
\<close>

theorem documented_statuses_rejected:
  assumes "Record_manifest manifest \<in> set records"
    and "stage12_context ops fp digest artifacts evidence records = ctx"
    and "rm_lifecycle_state manifest \<noteq> LS_planned" and "rm_lifecycle_state manifest \<noteq> LS_measurement_started"
    and "rm_stage manifest \<noteq> Stage_stage_a \<or>
      \<not> evidence_pending manifest \<and> \<not> ag_authoritative (si_access_integrity (manifest_status_input ctx manifest))"
  shows "stage12_validate ops fp digest artifacts evidence records \<noteq> Inr []"
proof
  assume "stage12_validate ops fp digest artifacts evidence records = Inr []"
  note acc = accepted_manifest [OF this assms(1,2)]
  let ?in = "manifest_status_input ctx manifest"
  have in_fields: "si_stage ?in = rm_stage manifest" "si_lifecycle_state ?in = rm_lifecycle_state manifest"
    by (simp_all add: manifest_status_input_def Let_def)
  have "rm_confirmatory_estimability manifest = expected_summary manifest"
    using acc(1,2) by (simp add: validate_manifest_def validate_blockers_def Let_def)
  moreover obtain status where e: "evaluate_run_status (s12_at_least ctx) ?in = Inr status"
    and c: "carries_status manifest status"
    using manifest_checks_clean(9) [OF acc(3)] by (auto simp: status_checks_clean)
  moreover have "st_confirmatory_estimability status =
      (if rm_stage manifest \<noteq> Stage_stage_a then Est_not_applicable else Est_not_evaluated)"
  proof (cases "rm_stage manifest = Stage_stage_a")
    case True
    with assms(5) have "status_pending ?in status" by (simp add: status_pending_def)
    with True evaluate_stage_a(3) [OF e] in_fields show ?thesis by simp
  next
    case False
    from e show ?thesis
    proof (cases rule: evaluate_cases)
      case waiting
      then show ?thesis using assms(3,4) in_fields by simp
    next
      case (finished st0)
      then show ?thesis using False in_fields by (auto simp: finish_status_def split: if_splits)
    qed
  qed
  moreover have "expected_summary manifest \<noteq> Est_not_applicable"
    by (cases "hd (rm_confirmatory_blockers manifest)") (simp_all add: expected_summary_def Let_def)
  moreover have "expected_summary manifest \<noteq> Est_not_evaluated" if "\<not> evidence_pending manifest"
    using that by (cases "hd (rm_confirmatory_blockers manifest)") (simp_all add: expected_summary_def Let_def)
  ultimately show False using assms(5) by (auto simp: carries_status_def split: if_splits)
qed

theorem documented_statuses_rejected_witness:
  "stage12_validate example_ops (\<lambda>_. False) zero_digest (ex_artifacts 0) ex_evidence
     [Record_manifest (ex_manifest 0\<lparr>rm_stage := Stage_pilot, rm_confirmatory_estimability := Est_not_applicable\<rparr>)] \<noteq>
     Inr []"
proof -
  let ?m = "ex_manifest 0\<lparr>rm_stage := Stage_pilot, rm_confirmatory_estimability := Est_not_applicable\<rparr>"
  have "rm_lifecycle_state ?m \<noteq> LS_planned" "rm_lifecycle_state ?m \<noteq> LS_measurement_started"
    "rm_stage ?m \<noteq> Stage_stage_a" by simp_all
  from documented_statuses_rejected [OF _ refl this(1,2) disjI1 [OF this(3)]] show ?thesis by simp
qed

end
