(* ===== verification/Load.thy ===== *)
theory Load
  imports Semantic
begin

text \<open>
  The loader of protocol documents, \<^verbatim>\<open>protocol/load.cpp\<close>. A \<^verbatim>\<open>LoadFailure\<close> carries its errors out of every
  helper and is caught by \<^verbatim>\<open>load_document\<close>, so each function returns a result and \<open>take_result\<close> passes
  the first failure on; the members of an aggregate are read in the order they are written. The sign
  of a binary64 number is the argument \<open>fp_negative\<close> (\<^verbatim>\<open>x < 0.0\<close>).
\<close>

subsection \<open>Reading members\<close>

definition take_result :: "'e + 'a \<Rightarrow> ('a \<Rightarrow> 'e + 'b) \<Rightarrow> 'e + 'b" where
  "take_result result continue = (case result of Inl errors \<Rightarrow> Inl errors | Inr v \<Rightarrow> continue v)"

definition object_of :: "'d Value \<Rightarrow> string \<Rightarrow> (string \<times> 'd Value) list Result" where
  "object_of value path =
     (case as_object value of
        None \<Rightarrow> Inl [ValidationError invalid_type path ''SCHEMA-TYPE'' ''expected object'']
      | Some obj \<Rightarrow> Inr obj)"

definition array_of :: "'d Value \<Rightarrow> string \<Rightarrow> 'd Value list Result" where
  "array_of value path =
     (case as_array value of
        None \<Rightarrow> Inl [ValidationError invalid_type path ''SCHEMA-TYPE'' ''expected array'']
      | Some items \<Rightarrow> Inr items)"

definition required :: "(string \<times> 'd Value) list \<Rightarrow> string \<Rightarrow> string \<Rightarrow> 'd Value Result" where
  "required obj key path =
     (case map_of obj key of
        None \<Rightarrow> Inl [ValidationError missing_field (path @ ''/'' @ key) ''SCHEMA-REQUIRED''
          ''required field is missing'']
      | Some v \<Rightarrow> Inr v)"

text \<open>The first member, in key order, that is not allowed.\<close>

definition reject_unknown :: "(string \<times> 'd Value) list \<Rightarrow> string list \<Rightarrow> string \<Rightarrow> unit Result" where
  "reject_unknown obj allowed path =
     (case find (\<lambda>m. fst m \<notin> set allowed) obj of
        Some m \<Rightarrow> Inl [ValidationError unknown_field (path @ ''/'' @ fst m) ''SCHEMA-ADDITIONAL''
          ''unknown field is not permitted by the versioned schema'']
      | None \<Rightarrow> Inr ())"

definition string_of :: "'d Value \<Rightarrow> string \<Rightarrow> bool \<Rightarrow> string Result" where
  "string_of value path allow_empty =
     (case as_string value of
        None \<Rightarrow> Inl [ValidationError invalid_type path ''SCHEMA-TYPE'' ''expected string'']
      | Some s \<Rightarrow>
          if \<not> allow_empty \<and> s = []
          then Inl [ValidationError invalid_id path ''SCHEMA-MIN-LENGTH'' ''string must not be empty'']
          else Inr s)"

text \<open>A member that must be present, read by \<open>f\<close> under its own path.\<close>

definition read_field ::
  "(string \<times> 'd Value) list \<Rightarrow> string \<Rightarrow> string \<Rightarrow> ('d Value \<Rightarrow> string \<Rightarrow> 'a Result) \<Rightarrow> 'a Result" where
  "read_field obj key path f =
     take_result (required obj key path) (\<lambda>v. f v (path @ ''/'' @ key))"

definition string_field :: "(string \<times> 'd Value) list \<Rightarrow> string \<Rightarrow> string \<Rightarrow> string Result" where
  "string_field obj key path =
     read_field obj key path (\<lambda>v p. string_of v p False)"

definition unit_field :: "(string \<times> 'd Value) list \<Rightarrow> string \<Rightarrow> string \<Rightarrow> string Result" where
  "unit_field obj key path =
     read_field obj key path (\<lambda>v p. take_result (string_of v p True) (\<lambda>u.
       if u = []
       then Inl [ValidationError invalid_unit p ''DAT-TIME-UNIT''
         ''unit must be present explicitly and must not be empty'']
       else Inr u))"

definition bool_field :: "(string \<times> 'd Value) list \<Rightarrow> string \<Rightarrow> string \<Rightarrow> bool Result" where
  "bool_field obj key path =
     read_field obj key path (\<lambda>v p.
       case as_bool v of
         None \<Rightarrow> Inl [ValidationError invalid_type p ''SCHEMA-TYPE'' ''expected boolean'']
       | Some b \<Rightarrow> Inr b)"

definition uint_of :: "'d Value \<Rightarrow> string \<Rightarrow> u64 Result" where
  "uint_of value path =
     (case map_option number_value (as_number value) of
        Some (Signed_integer i) \<Rightarrow>
          if i < 0
          then Inl [ValidationError out_of_range path ''SCHEMA-MINIMUM'' ''integer must be nonnegative'']
          else Inr (of_int i)
      | Some (Unsigned_integer u) \<Rightarrow> Inr u
      | _ \<Rightarrow> Inl [ValidationError invalid_type path ''SCHEMA-INTEGER'' ''expected exact integer''])"

definition uint_field :: "(string \<times> 'd Value) list \<Rightarrow> string \<Rightarrow> string \<Rightarrow> u64 Result" where
  "uint_field obj key path =
     read_field obj key path uint_of"

text \<open>The comparison \<^verbatim>\<open>number_of(value) < 0.0\<close>: an integer keeps its sign when it becomes a double.\<close>

definition number_negative :: "('d \<Rightarrow> bool) \<Rightarrow> 'd Number \<Rightarrow> bool" where
  "number_negative fp_negative number =
     (case number_value number of
        Signed_integer i \<Rightarrow> i < 0
      | Unsigned_integer _ \<Rightarrow> False
      | Binary64 d \<Rightarrow> fp_negative d)"

definition exact_number_of :: "'d Value \<Rightarrow> string \<Rightarrow> 'd Number Result" where
  "exact_number_of value path =
     (case as_number value of
        None \<Rightarrow> Inl [ValidationError invalid_type path ''SCHEMA-NUMBER'' ''expected number'']
      | Some number \<Rightarrow> Inr number)"

definition id_of :: "'d Value \<Rightarrow> string \<Rightarrow> Identifier Result" where
  "id_of value path = take_result (string_of value path False) (\<lambda>s. Identifier_parse s path)"

definition id_field :: "(string \<times> 'd Value) list \<Rightarrow> string \<Rightarrow> string \<Rightarrow> Identifier Result" where
  "id_field obj key path =
     read_field obj key path id_of"

definition optional_nullable_id ::
  "(string \<times> 'd Value) list \<Rightarrow> string \<Rightarrow> string \<Rightarrow> Identifier option Result" where
  "optional_nullable_id obj key path =
     (case map_of obj key of
        None \<Rightarrow> Inr None
      | Some v \<Rightarrow>
          if is_null v then Inr None
          else take_result (id_of v (path @ ''/'' @ key)) (\<lambda>i. Inr (Some i)))"

definition version_field :: "(string \<times> 'd Value) list \<Rightarrow> string \<Rightarrow> string \<Rightarrow> ProtocolVersion Result" where
  "version_field obj key path =
     read_field obj key path (\<lambda>v p. take_result (string_of v p False) (\<lambda>s. parse_protocol_version s p))"

definition sha_of :: "'d Value \<Rightarrow> string \<Rightarrow> Sha256 Result" where
  "sha_of value path = take_result (string_of value path False) (\<lambda>s. Sha256_parse s path)"

definition sha_field :: "(string \<times> 'd Value) list \<Rightarrow> string \<Rightarrow> string \<Rightarrow> Sha256 Result" where
  "sha_field obj key path = read_field obj key path sha_of"

text \<open>A member that is a token of an enumeration; the enumeration's table is searched from the front.\<close>

definition enum_value :: "'d Value \<Rightarrow> string \<Rightarrow> string \<Rightarrow> (string \<times> 'e) list \<Rightarrow> 'e Result" where
  "enum_value value path rule entries =
     take_result (string_of value path False) (\<lambda>s. parse_enum_value s path rule entries)"

definition enum_field ::
  "(string \<times> 'd Value) list \<Rightarrow> string \<Rightarrow> string \<Rightarrow> string \<Rightarrow> (string \<times> 'e) list \<Rightarrow> 'e Result" where
  "enum_field obj key path rule entries =
     read_field obj key path (\<lambda>v p. enum_value v p rule entries)"

text \<open>\<^verbatim>\<open>take(parse(string_field(object, key, path), path + "/" + key))\<close> for the parsers of the model.\<close>

definition token_field ::
  "(string \<times> 'd Value) list \<Rightarrow> string \<Rightarrow> string \<Rightarrow> (string \<Rightarrow> string \<Rightarrow> 'e Result) \<Rightarrow> 'e Result" where
  "token_field obj key path parse =
     take_result (string_field obj key path) (\<lambda>s. parse s (path @ ''/'' @ key))"

text \<open>The loops over an array: item \<open>i\<close> has the path of the array and its index.\<close>

fun load_items ::
  "('d Value \<Rightarrow> string \<Rightarrow> 'a Result) \<Rightarrow> string \<Rightarrow> nat \<Rightarrow> 'd Value list \<Rightarrow> 'a list Result" where
  "load_items f path index [] = Inr []"
| "load_items f path index (v # vs) =
     take_result (f v (path @ ''/'' @ std_to_string index)) (\<lambda>x.
     take_result (load_items f path (Suc index) vs) (\<lambda>xs. Inr (x # xs)))"

definition array_items :: "('d Value \<Rightarrow> string \<Rightarrow> 'a Result) \<Rightarrow> 'd Value \<Rightarrow> string \<Rightarrow> 'a list Result" where
  "array_items f value path = take_result (array_of value path) (load_items f path 0)"

definition string_array :: "'d Value \<Rightarrow> string \<Rightarrow> bool \<Rightarrow> string list Result" where
  "string_array value path require_nonempty =
     take_result (array_of value path) (\<lambda>items.
     (if require_nonempty \<and> items = [] then Inl [ValidationError out_of_range path ''SCHEMA-MIN-ITEMS''
          ''array must contain at least one item''] else
     load_items (\<lambda>v p. string_of v p False) path 0 items))"

definition artifact_reference :: "'d Value \<Rightarrow> string \<Rightarrow> ArtifactReference Result" where
  "artifact_reference value path =
     take_result (object_of value path) (\<lambda>obj.
     take_result (reject_unknown obj [''artifact_id'', ''sha256''] path) (\<lambda>_.
     take_result (id_field obj ''artifact_id'' path) (\<lambda>artifact.
     take_result (sha_field obj ''sha256'' path) (\<lambda>sha.
     Inr \<lparr>ar_artifact_id = artifact, ar_sha256 = sha\<rparr>))))"

definition artifact_reference_array :: "'d Value \<Rightarrow> string \<Rightarrow> bool \<Rightarrow> ArtifactReference list Result" where
  "artifact_reference_array value path require_nonempty =
     take_result (array_of value path) (\<lambda>items.
     (if require_nonempty \<and> items = [] then Inl [ValidationError out_of_range path ''SCHEMA-MIN-ITEMS''
          ''artifact reference array must not be empty''] else
     load_items artifact_reference path 0 items))"

text \<open>A member that may be missing, read by \<open>f\<close> where it is present.\<close>

definition optional_member ::
  "(string \<times> 'd Value) list \<Rightarrow> string \<Rightarrow> string \<Rightarrow> ('d Value \<Rightarrow> string \<Rightarrow> 'a Result) \<Rightarrow> 'a option Result" where
  "optional_member obj key path f =
     (case map_of obj key of
        None \<Rightarrow> Inr None
      | Some v \<Rightarrow> take_result (f v (path @ ''/'' @ key)) (\<lambda>x. Inr (Some x)))"

subsection \<open>Schedules\<close>

definition schedule_kinds :: "(string \<times> ScheduleKind) list" where
  "schedule_kinds =
     [(''WARMUP'', Schedule_warmup), (''CALIBRATION'', Schedule_calibration),
      (''PILOT'', Schedule_pilot), (''CONFIRMATORY'', Schedule_confirmatory),
      (''DIAGNOSTIC'', Schedule_diagnostic), (''STAGE_B'', Schedule_stage_b),
      (''STAGE_C'', Schedule_stage_c)]"

definition arrival_families :: "(string \<times> ArrivalFamily) list" where
  "arrival_families =
     [(''POISSON_EXPONENTIAL'', Arrival_poisson_exponential),
      (''CONTINUOUS_READY'', Arrival_continuous_ready),
      (''PREDECLARED_BURST'', Arrival_predeclared_burst),
      (''PREDECLARED_OTHER'', Arrival_predeclared_other)]"

definition deadline_encodings :: "(string \<times> DeadlineEncoding) list" where
  "deadline_encodings =
     [(''ABSOLUTE_INTEGER_TICKS'', Deadline_absolute_integer_ticks),
      (''DELTA_INTEGER_TICKS'', Deadline_delta_integer_ticks)]"

definition load_rng :: "(string \<times> 'd Value) list \<Rightarrow> RngMetadata Result" where
  "load_rng obj =
     take_result (required obj ''rng'' ''$out'') (\<lambda>v.
     take_result (object_of v ''$out/rng'') (\<lambda>rng.
     take_result (reject_unknown rng
         [''algorithm'', ''version'', ''seed_id'', ''derivation_record_id'', ''parent_namespace_id''] ''$out/rng'') (\<lambda>_.
     take_result (string_field rng ''algorithm'' ''$out/rng'') (\<lambda>algorithm.
     take_result (string_field rng ''version'' ''$out/rng'') (\<lambda>version.
     take_result (id_field rng ''seed_id'' ''$out/rng'') (\<lambda>seed.
     take_result (id_field rng ''derivation_record_id'' ''$out/rng'') (\<lambda>derivation.
     take_result (id_field rng ''parent_namespace_id'' ''$out/rng'') (\<lambda>parent.
     Inr \<lparr>rng_algorithm = algorithm, rng_version = version, rng_seed_id = seed,
         rng_derivation_record_id = derivation, rng_parent_namespace_id = parent\<rparr>))))))))"

text \<open>The second flag is read only where the first one is true.\<close>

definition load_boundary :: "(string \<times> 'd Value) list \<Rightarrow> unit Result" where
  "load_boundary obj =
     take_result (required obj ''inclusion_boundary'' ''$out'') (\<lambda>v.
     take_result (object_of v ''$out/inclusion_boundary'') (\<lambda>boundary.
     take_result (reject_unknown boundary [''start_inclusive'', ''end_exclusive''] ''$out/inclusion_boundary'') (\<lambda>_.
     take_result (bool_field boundary ''start_inclusive'' ''$out/inclusion_boundary'') (\<lambda>start.
     take_result (if start then bool_field boundary ''end_exclusive'' ''$out/inclusion_boundary'' else Inr False) (\<lambda>stop.
     (if \<not> start \<or> \<not> stop then Inl [ValidationError cross_field ''$out/inclusion_boundary'' ''SCH-HALF-OPEN''
          ''the protocol requires an inclusive origin and exclusive end''] else
     Inr ()))))))"

definition load_rate :: "(string \<times> 'd Value) list \<Rightarrow> ExactRate Result" where
  "load_rate obj =
     take_result (required obj ''nominal_offered_rate'' ''$out'') (\<lambda>v.
     take_result (object_of v ''$out/nominal_offered_rate'') (\<lambda>rate.
     take_result (reject_unknown rate [''numerator_events'', ''denominator_ticks''] ''$out/nominal_offered_rate'') (\<lambda>_.
     take_result (uint_field rate ''numerator_events'' ''$out/nominal_offered_rate'') (\<lambda>num.
     take_result (uint_field rate ''denominator_ticks'' ''$out/nominal_offered_rate'') (\<lambda>den.
     (if den = 0 then Inl [ValidationError out_of_range ''$out/nominal_offered_rate/denominator_ticks''
          ''SCH-RATE-DENOMINATOR'' ''exact rate denominator must be positive''] else
     Inr \<lparr>er_numerator_events = num, er_denominator_ticks = den\<rparr>))))))"

definition load_external_deadlines :: "(string \<times> 'd Value) list \<Rightarrow> ExternalScheduleStorage Result" where
  "load_external_deadlines storage =
     take_result (reject_unknown storage
         [''mode'', ''artifact_id'', ''artifact_uri'', ''row_count'', ''byte_count'', ''artifact_sha256'']
         ''$out/deadline_storage'') (\<lambda>_.
     take_result (id_field storage ''artifact_id'' ''$out/deadline_storage'') (\<lambda>artifact.
     take_result (string_field storage ''artifact_uri'' ''$out/deadline_storage'') (\<lambda>uri.
     take_result (uint_field storage ''row_count'' ''$out/deadline_storage'') (\<lambda>rows.
     take_result (uint_field storage ''byte_count'' ''$out/deadline_storage'') (\<lambda>bytes.
     take_result (sha_field storage ''artifact_sha256'' ''$out/deadline_storage'') (\<lambda>sha.
     Inr \<lparr>es_artifact_id = artifact, es_artifact_uri = uri, es_row_count = rows, es_byte_count = bytes,
         es_artifact_sha256 = sha\<rparr>))))))"

definition load_inline_deadlines :: "(string \<times> 'd Value) list \<Rightarrow> u64 list Result" where
  "load_inline_deadlines storage =
     take_result (reject_unknown storage [''mode'', ''deadline_ticks''] ''$out/deadline_storage'') (\<lambda>_.
     read_field storage ''deadline_ticks'' ''$out/deadline_storage'' (array_items uint_of))"

definition load_deadline_storage :: "(string \<times> 'd Value) list \<Rightarrow> DeadlineStorage Result" where
  "load_deadline_storage obj =
     take_result (required obj ''deadline_storage'' ''$out'') (\<lambda>v.
     take_result (object_of v ''$out/deadline_storage'') (\<lambda>storage.
     take_result (string_field storage ''mode'' ''$out/deadline_storage'') (\<lambda>mode.
       if mode = ''EXTERNAL_IMMUTABLE_ARTIFACT''
       then take_result (load_external_deadlines storage) (\<lambda>external. Inr (External_deadlines external))
       else if mode = ''INLINE_TEST_ONLY''
       then take_result (load_inline_deadlines storage) (\<lambda>ticks. Inr (Inline_deadlines ticks))
       else Inl [ValidationError unknown_enum ''$out/deadline_storage/mode'' ''DAT-STORAGE-MODE''
         (''unknown storage mode: '' @ mode)])))"

definition schedule_fields :: "string list" where
  "schedule_fields =
     [''schema_version'', ''protocol_version'', ''schedule_id'', ''schedule_kind'', ''arrival_family'',
      ''namespace_id'', ''rng'', ''time_unit'', ''deadline_encoding'', ''origin_ticks'', ''horizon_ticks'',
      ''inclusion_boundary'', ''offered_count'', ''nominal_offered_rate'', ''overflow_rule_record_id'',
      ''immutable_ordering'', ''deadline_storage'', ''decoded_deadlines_sha256'', ''schedule_sha256'']"

definition load_schedule :: "'d Value \<Rightarrow> 'd ScheduleRecord Result" where
  "load_schedule document =
     take_result (object_of document ''$out'') (\<lambda>obj.
     take_result (reject_unknown obj schedule_fields ''$out'') (\<lambda>_.
     take_result (load_rng obj) (\<lambda>rng.
     take_result (load_boundary obj) (\<lambda>_.
     take_result (bool_field obj ''immutable_ordering'' ''$out'') (\<lambda>immutable.
     (if \<not> immutable then Inl [ValidationError cross_field ''$out/immutable_ordering'' ''SCH-IMMUTABLE''
          ''schedule ordering must be immutable''] else
     take_result (load_rate obj) (\<lambda>rate.
     take_result (load_deadline_storage obj) (\<lambda>storage.
     take_result (unit_field obj ''time_unit'' ''$out'') (\<lambda>time_unit.
     take_result (version_field obj ''schema_version'' ''$out'') (\<lambda>schema.
     take_result (version_field obj ''protocol_version'' ''$out'') (\<lambda>protocol.
     take_result (id_field obj ''schedule_id'' ''$out'') (\<lambda>schedule.
     take_result (enum_field obj ''schedule_kind'' ''$out'' ''SCH-KIND'' schedule_kinds) (\<lambda>kind.
     take_result (enum_field obj ''arrival_family'' ''$out'' ''SCH-ARRIVAL'' arrival_families) (\<lambda>family.
     take_result (id_field obj ''namespace_id'' ''$out'') (\<lambda>name_space.
     take_result (enum_field obj ''deadline_encoding'' ''$out'' ''SCH-ENCODING'' deadline_encodings) (\<lambda>encoding.
     take_result (uint_field obj ''origin_ticks'' ''$out'') (\<lambda>origin.
     take_result (uint_field obj ''horizon_ticks'' ''$out'') (\<lambda>horizon.
     take_result (uint_field obj ''offered_count'' ''$out'') (\<lambda>offered.
     take_result (id_field obj ''overflow_rule_record_id'' ''$out'') (\<lambda>rule.
     take_result (sha_field obj ''decoded_deadlines_sha256'' ''$out'') (\<lambda>decoded.
     take_result (sha_field obj ''schedule_sha256'' ''$out'') (\<lambda>sha.
     Inr \<lparr>sc_schema_version = schema, sc_protocol_version = protocol, sc_schedule_id = schedule,
         sc_schedule_kind = kind, sc_arrival_family = family, sc_namespace_id = name_space, sc_rng = rng,
         sc_time_unit = time_unit, sc_deadline_encoding = encoding, sc_origin_ticks = origin,
         sc_horizon_ticks = horizon, sc_offered_count = offered, sc_nominal_offered_rate = rate,
         sc_overflow_rule_record_id = rule, sc_deadline_storage = storage,
         sc_decoded_deadlines_sha256 = decoded, sc_schedule_sha256 = sha, sc_source_document = document\<rparr>))))))))))))))))))))))"

subsection \<open>Raw observations\<close>

definition producer_outcomes :: "(string \<times> ProducerOutcome) list" where
  "producer_outcomes =
     [(''ACCEPTED'', Outcome_accepted), (''FULL'', Outcome_full)]"

definition producer_row :: "'d Value \<Rightarrow> string \<Rightarrow> ProducerRecord Result" where
  "producer_row value path =
     take_result (object_of value path) (\<lambda>obj.
     take_result (reject_unknown obj
         [''run_id'', ''logical_sequence'', ''record_index'', ''scheduled_arrival'',
           ''producer_handle_begin'', ''record_lookup_completion'', ''enqueue_invocation'',
           ''enqueue_linearization'', ''enqueue_attempt_completion'', ''attempted'',
           ''outcome'', ''accepted_ordinal''] path) (\<lambda>_.
     take_result (bool_field obj ''attempted'' path) (\<lambda>attempted.
     (if \<not> attempted then Inl [ValidationError cross_field (path @ ''/attempted'') ''RAW-ATTEMPTED''
          ''producer rows always represent an attempted enqueue''] else
     take_result (enum_field obj ''outcome'' path ''RAW-OUTCOME'' producer_outcomes) (\<lambda>outcome.
     take_result (optional_member obj ''enqueue_linearization'' path uint_of) (\<lambda>linearization.
     take_result (optional_member obj ''accepted_ordinal'' path uint_of) (\<lambda>ordinal.
     (if outcome = Outcome_accepted \<and> (linearization = None \<or> ordinal = None) then Inl [ValidationError missing_field path
          ''RAW-ACCEPTED-FIELDS'' ''accepted rows require enqueue_linearization and accepted_ordinal''] else
     (if outcome = Outcome_full \<and> (linearization \<noteq> None \<or> ordinal \<noteq> None) then Inl [ValidationError cross_field path
          ''RAW-FULL-FIELDS'' ''FULL rows must not contain a linearization timestamp or accepted ordinal''] else
     take_result (id_field obj ''run_id'' path) (\<lambda>x_run_id.
     take_result (uint_field obj ''logical_sequence'' path) (\<lambda>x_logical_sequence.
     take_result (uint_field obj ''record_index'' path) (\<lambda>x_record_index.
     take_result (uint_field obj ''scheduled_arrival'' path) (\<lambda>x_scheduled_arrival.
     take_result (uint_field obj ''producer_handle_begin'' path) (\<lambda>x_producer_handle_begin.
     take_result (uint_field obj ''record_lookup_completion'' path) (\<lambda>x_record_lookup_completion.
     take_result (uint_field obj ''enqueue_invocation'' path) (\<lambda>x_enqueue_invocation.
     take_result (uint_field obj ''enqueue_attempt_completion'' path) (\<lambda>x_enqueue_attempt_completion.
     Inr \<lparr>pr_run_id = x_run_id, pr_logical_sequence = x_logical_sequence,
         pr_record_index = x_record_index, pr_scheduled_arrival = x_scheduled_arrival,
         pr_producer_handle_begin = x_producer_handle_begin,
         pr_record_lookup_completion = x_record_lookup_completion,
         pr_enqueue_invocation = x_enqueue_invocation, pr_enqueue_linearization = linearization,
         pr_enqueue_attempt_completion = x_enqueue_attempt_completion, pr_outcome = outcome,
         pr_accepted_ordinal = ordinal\<rparr>)))))))))))))))))"

definition consumer_row :: "'d Value \<Rightarrow> string \<Rightarrow> ConsumerRecord Result" where
  "consumer_row value path =
     take_result (object_of value path) (\<lambda>obj.
     take_result (reject_unknown obj
         [''run_id'', ''consumed_ordinal'', ''observed_record_index'', ''dequeue_invocation'',
           ''dequeue_linearization'', ''dequeue_completion'', ''consumer_action_completion''] path) (\<lambda>_.
     take_result (id_field obj ''run_id'' path) (\<lambda>x_run_id.
     take_result (uint_field obj ''consumed_ordinal'' path) (\<lambda>x_consumed_ordinal.
     take_result (uint_field obj ''observed_record_index'' path) (\<lambda>x_observed_record_index.
     take_result (uint_field obj ''dequeue_invocation'' path) (\<lambda>x_dequeue_invocation.
     take_result (uint_field obj ''dequeue_linearization'' path) (\<lambda>x_dequeue_linearization.
     take_result (uint_field obj ''dequeue_completion'' path) (\<lambda>x_dequeue_completion.
     take_result (uint_field obj ''consumer_action_completion'' path) (\<lambda>x_consumer_action_completion.
     Inr \<lparr>cr_run_id = x_run_id, cr_consumed_ordinal = x_consumed_ordinal,
         cr_observed_record_index = x_observed_record_index,
         cr_dequeue_invocation = x_dequeue_invocation,
         cr_dequeue_linearization = x_dequeue_linearization,
         cr_dequeue_completion = x_dequeue_completion,
         cr_consumer_action_completion = x_consumer_action_completion\<rparr>)))))))))"

definition joined_fields :: "string list" where
  "joined_fields =
     [''run_id'', ''accepted_ordinal'', ''logical_sequence'', ''record_index'',
      ''producer_row_ordinal'', ''consumer_row_ordinal'', ''scheduled_arrival'',
      ''producer_handle_begin'', ''record_lookup_completion'', ''enqueue_invocation'',
      ''enqueue_linearization'', ''enqueue_attempt_completion'', ''dequeue_invocation'',
      ''dequeue_linearization'', ''dequeue_completion'', ''consumer_action_completion'',
      ''producer_lateness'', ''pointer_lookup_interval'', ''enqueue_service_time'',
      ''admission_delay'', ''queue_residence'', ''dequeue_service_time'',
      ''post_dequeue_delivery_interval'', ''consumer_action_interval'',
      ''end_to_end_latency'']"

definition joined_row :: "'d Value \<Rightarrow> string \<Rightarrow> JoinedRecord Result" where
  "joined_row value path =
     take_result (object_of value path) (\<lambda>obj.
     take_result (reject_unknown obj joined_fields path) (\<lambda>_.
     take_result (id_field obj ''run_id'' path) (\<lambda>x_run_id.
     take_result (uint_field obj ''accepted_ordinal'' path) (\<lambda>x_accepted_ordinal.
     take_result (uint_field obj ''logical_sequence'' path) (\<lambda>x_logical_sequence.
     take_result (uint_field obj ''record_index'' path) (\<lambda>x_record_index.
     take_result (uint_field obj ''producer_row_ordinal'' path) (\<lambda>x_producer_row_ordinal.
     take_result (uint_field obj ''consumer_row_ordinal'' path) (\<lambda>x_consumer_row_ordinal.
     take_result (uint_field obj ''scheduled_arrival'' path) (\<lambda>x_scheduled_arrival.
     take_result (uint_field obj ''producer_handle_begin'' path) (\<lambda>x_producer_handle_begin.
     take_result (uint_field obj ''record_lookup_completion'' path) (\<lambda>x_record_lookup_completion.
     take_result (uint_field obj ''enqueue_invocation'' path) (\<lambda>x_enqueue_invocation.
     take_result (uint_field obj ''enqueue_linearization'' path) (\<lambda>x_enqueue_linearization.
     take_result (uint_field obj ''enqueue_attempt_completion'' path) (\<lambda>x_enqueue_attempt_completion.
     take_result (uint_field obj ''dequeue_invocation'' path) (\<lambda>x_dequeue_invocation.
     take_result (uint_field obj ''dequeue_linearization'' path) (\<lambda>x_dequeue_linearization.
     take_result (uint_field obj ''dequeue_completion'' path) (\<lambda>x_dequeue_completion.
     take_result (uint_field obj ''consumer_action_completion'' path) (\<lambda>x_consumer_action_completion.
     take_result (uint_field obj ''producer_lateness'' path) (\<lambda>x_producer_lateness.
     take_result (uint_field obj ''pointer_lookup_interval'' path) (\<lambda>x_pointer_lookup_interval.
     take_result (uint_field obj ''enqueue_service_time'' path) (\<lambda>x_enqueue_service_time.
     take_result (uint_field obj ''admission_delay'' path) (\<lambda>x_admission_delay.
     take_result (uint_field obj ''queue_residence'' path) (\<lambda>x_queue_residence.
     take_result (uint_field obj ''dequeue_service_time'' path) (\<lambda>x_dequeue_service_time.
     take_result (uint_field obj ''post_dequeue_delivery_interval'' path) (\<lambda>x_post_dequeue_delivery_interval.
     take_result (uint_field obj ''consumer_action_interval'' path) (\<lambda>x_consumer_action_interval.
     take_result (uint_field obj ''end_to_end_latency'' path) (\<lambda>x_end_to_end_latency.
     Inr \<lparr>jr_run_id = x_run_id, jr_accepted_ordinal = x_accepted_ordinal,
         jr_logical_sequence = x_logical_sequence, jr_record_index = x_record_index,
         jr_producer_row_ordinal = x_producer_row_ordinal,
         jr_consumer_row_ordinal = x_consumer_row_ordinal,
         jr_scheduled_arrival = x_scheduled_arrival,
         jr_producer_handle_begin = x_producer_handle_begin,
         jr_record_lookup_completion = x_record_lookup_completion,
         jr_enqueue_invocation = x_enqueue_invocation,
         jr_enqueue_linearization = x_enqueue_linearization,
         jr_enqueue_attempt_completion = x_enqueue_attempt_completion,
         jr_dequeue_invocation = x_dequeue_invocation,
         jr_dequeue_linearization = x_dequeue_linearization,
         jr_dequeue_completion = x_dequeue_completion,
         jr_consumer_action_completion = x_consumer_action_completion,
         jr_producer_lateness = x_producer_lateness,
         jr_pointer_lookup_interval = x_pointer_lookup_interval,
         jr_enqueue_service_time = x_enqueue_service_time, jr_admission_delay = x_admission_delay,
         jr_queue_residence = x_queue_residence, jr_dequeue_service_time = x_dequeue_service_time,
         jr_post_dequeue_delivery_interval = x_post_dequeue_delivery_interval,
         jr_consumer_action_interval = x_consumer_action_interval,
         jr_end_to_end_latency = x_end_to_end_latency\<rparr>)))))))))))))))))))))))))))"

definition stream_kinds :: "(string \<times> StreamKind) list" where
  "stream_kinds =
     [(''PRODUCER'', Stream_producer), (''CONSUMER'', Stream_consumer),
      (''JOINED_DERIVED'', Stream_joined_derived)]"

definition byte_orders :: "(string \<times> Endianness) list" where
  "byte_orders =
     [(''LITTLE_ENDIAN'', Little_endian), (''BIG_ENDIAN'', Big_endian),
      (''NOT_APPLICABLE'', Endianness_not_applicable)]"

definition raw_fields :: "string list" where
  "raw_fields =
     [''schema_version'', ''protocol_version'', ''artifact_id'', ''run_id'',
      ''stream_kind'', ''logical_row_schema_version'', ''physical_format_record_id'',
      ''encoding'', ''time_unit'', ''endianness'', ''compression'', ''row_count'',
      ''byte_count'', ''immutable_ordering'', ''storage'', ''source_artifacts'',
      ''integrity_artifact_ref'', ''artifact_sha256'']"

definition load_inline_rows :: "StreamKind \<Rightarrow> 'd Value \<Rightarrow> string \<Rightarrow> InlineObservationRows Result" where
  "load_inline_rows kind value path =
     (case kind of
        Stream_producer \<Rightarrow> take_result (array_items producer_row value path) (\<lambda>xs. Inr (Producer_rows xs))
      | Stream_consumer \<Rightarrow> take_result (array_items consumer_row value path) (\<lambda>xs. Inr (Consumer_rows xs))
      | Stream_joined_derived \<Rightarrow> take_result (array_items joined_row value path) (\<lambda>xs. Inr (Joined_rows xs)))"

definition load_external_storage :: "(string \<times> 'd Value) list \<Rightarrow> ObservationStorage Result" where
  "load_external_storage storage =
     take_result (reject_unknown storage [''mode'', ''artifact_uri''] ''$out/storage'') (\<lambda>_.
     take_result (string_field storage ''artifact_uri'' ''$out/storage'') (\<lambda>uri.
     Inr (External_storage uri)))"

definition load_inline_storage :: "StreamKind \<Rightarrow> (string \<times> 'd Value) list \<Rightarrow> ObservationStorage Result" where
  "load_inline_storage kind storage =
     take_result (reject_unknown storage [''mode'', ''inline_rows''] ''$out/storage'') (\<lambda>_.
     take_result (read_field storage ''inline_rows'' ''$out/storage'' (load_inline_rows kind)) (\<lambda>rows.
     Inr (Inline_rows rows)))"

definition load_observation_storage :: "StreamKind \<Rightarrow> (string \<times> 'd Value) list \<Rightarrow> ObservationStorage Result" where
  "load_observation_storage kind obj =
     take_result (required obj ''storage'' ''$out'') (\<lambda>v.
     take_result (object_of v ''$out/storage'') (\<lambda>storage.
     take_result (string_field storage ''mode'' ''$out/storage'') (\<lambda>mode.
       if mode = ''EXTERNAL_IMMUTABLE_ARTIFACT'' then load_external_storage storage
       else if mode = ''INLINE_TEST_ONLY'' then load_inline_storage kind storage
       else Inl [ValidationError unknown_enum ''$out/storage/mode'' ''DAT-STORAGE-MODE''
         (''unknown storage mode: '' @ mode)])))"

definition load_sources :: "StreamKind \<Rightarrow> (string \<times> 'd Value) list \<Rightarrow> ArtifactReference list Result" where
  "load_sources kind obj =
     take_result (optional_member obj ''source_artifacts'' ''$out'' (\<lambda>v p. artifact_reference_array v p False)) (\<lambda>found.
     (let sources = (case found of None \<Rightarrow> [] | Some xs \<Rightarrow> xs) in
     (if kind = Stream_joined_derived \<and> length sources < 2 then Inl [ValidationError missing_evidence ''$out/source_artifacts''
          ''DAT-JOIN-SOURCES'' ''joined streams require at least two source artifacts''] else
     Inr sources)))"

definition load_raw :: "'d Value \<Rightarrow> RawObservationEnvelope Result" where
  "load_raw document =
     take_result (object_of document ''$out'') (\<lambda>obj.
     take_result (reject_unknown obj raw_fields ''$out'') (\<lambda>_.
     take_result (enum_field obj ''stream_kind'' ''$out'' ''DAT-STREAM-KIND'' stream_kinds) (\<lambda>kind.
     take_result (bool_field obj ''immutable_ordering'' ''$out'') (\<lambda>immutable.
     (if \<not> immutable then Inl [ValidationError cross_field ''$out/immutable_ordering'' ''DAT-IMMUTABLE-ORDER''
          ''raw observation order must be immutable''] else
     take_result (load_observation_storage kind obj) (\<lambda>storage.
     take_result (load_sources kind obj) (\<lambda>sources.
     take_result (version_field obj ''schema_version'' ''$out'') (\<lambda>x_schema_version.
     take_result (version_field obj ''protocol_version'' ''$out'') (\<lambda>x_protocol_version.
     take_result (id_field obj ''artifact_id'' ''$out'') (\<lambda>x_artifact_id.
     take_result (id_field obj ''run_id'' ''$out'') (\<lambda>x_run_id.
     take_result (version_field obj ''logical_row_schema_version'' ''$out'') (\<lambda>x_logical_row_schema_version.
     take_result (id_field obj ''physical_format_record_id'' ''$out'') (\<lambda>x_physical_format_record_id.
     take_result (string_field obj ''encoding'' ''$out'') (\<lambda>x_encoding.
     take_result (unit_field obj ''time_unit'' ''$out'') (\<lambda>x_time_unit.
     take_result (enum_field obj ''endianness'' ''$out'' ''DAT-ENDIANNESS'' byte_orders) (\<lambda>x_endianness.
     take_result (string_field obj ''compression'' ''$out'') (\<lambda>x_compression.
     take_result (uint_field obj ''row_count'' ''$out'') (\<lambda>x_row_count.
     take_result (uint_field obj ''byte_count'' ''$out'') (\<lambda>x_byte_count.
     take_result (read_field obj ''integrity_artifact_ref'' ''$out'' artifact_reference) (\<lambda>x_integrity_artifact_ref.
     take_result (sha_field obj ''artifact_sha256'' ''$out'') (\<lambda>x_artifact_sha256.
     Inr \<lparr>re_schema_version = x_schema_version, re_protocol_version = x_protocol_version,
         re_artifact_id = x_artifact_id, re_run_id = x_run_id, re_stream_kind = kind,
         re_logical_row_schema_version = x_logical_row_schema_version,
         re_physical_format_record_id = x_physical_format_record_id, re_encoding = x_encoding,
         re_time_unit = x_time_unit, re_endianness = x_endianness, re_compression = x_compression,
         re_row_count = x_row_count, re_byte_count = x_byte_count, re_storage = storage,
         re_source_artifacts = sources, re_integrity_artifact_ref = x_integrity_artifact_ref,
         re_artifact_sha256 = x_artifact_sha256\<rparr>)))))))))))))))))))))"

subsection \<open>Run manifests\<close>

definition checksum_evidence :: "'d Value \<Rightarrow> string \<Rightarrow> ChecksumEvidence Result" where
  "checksum_evidence value path =
     take_result (object_of value path) (\<lambda>obj.
     take_result (reject_unknown obj [''algorithm_record_id'', ''algorithm_version'', ''value_hex''] path) (\<lambda>_.
     take_result (string_field obj ''value_hex'' path) (\<lambda>checksum.
     (if \<not> list_all (\<lambda>c. hex_value c \<noteq> None) checksum then Inl [ValidationError invalid_hash (path @ ''/value_hex'')
          ''DAT-CHECKSUM-HEX'' ''checksum value must be nonempty lowercase hexadecimal''] else
     take_result (id_field obj ''algorithm_record_id'' path) (\<lambda>x_algorithm_record_id.
     take_result (string_field obj ''algorithm_version'' path) (\<lambda>x_algorithm_version.
     Inr \<lparr>ce_algorithm_record_id = x_algorithm_record_id,
         ce_algorithm_version = x_algorithm_version, ce_value_hex = checksum\<rparr>))))))"

definition phase_integrity :: "'d Value \<Rightarrow> string \<Rightarrow> PhaseIntegrityRecord Result" where
  "phase_integrity value path =
     take_result (object_of value path) (\<lambda>obj.
     take_result (reject_unknown obj
         [''report_artifact'', ''final_consumer_rolling_checksum'',
           ''event_records_pre_checksum'', ''event_records_post_checksum'',
           ''ordered_index_checksum'', ''address_delta_checksum''] path) (\<lambda>_.
     take_result (read_field obj ''report_artifact'' path artifact_reference) (\<lambda>x_report_artifact.
     take_result (read_field obj ''final_consumer_rolling_checksum'' path checksum_evidence) (\<lambda>x_final_consumer_rolling_checksum.
     take_result (read_field obj ''event_records_pre_checksum'' path checksum_evidence) (\<lambda>x_event_records_pre_checksum.
     take_result (read_field obj ''event_records_post_checksum'' path checksum_evidence) (\<lambda>x_event_records_post_checksum.
     take_result (read_field obj ''ordered_index_checksum'' path checksum_evidence) (\<lambda>x_ordered_index_checksum.
     take_result (read_field obj ''address_delta_checksum'' path checksum_evidence) (\<lambda>x_address_delta_checksum.
     Inr \<lparr>pi_report_artifact = x_report_artifact,
         pi_final_consumer_rolling_checksum = x_final_consumer_rolling_checksum,
         pi_event_records_pre_checksum = x_event_records_pre_checksum,
         pi_event_records_post_checksum = x_event_records_post_checksum,
         pi_ordered_index_checksum = x_ordered_index_checksum,
         pi_address_delta_checksum = x_address_delta_checksum\<rparr>))))))))"

definition load_effective :: "('d \<Rightarrow> bool) \<Rightarrow> (string \<times> 'd Value) list \<Rightarrow> string \<Rightarrow> 'd Number option Result" where
  "load_effective fp_negative obj path =
     (case map_of obj ''n_eff_p999'' of
        None \<Rightarrow> Inr None
      | Some v \<Rightarrow>
          if is_null v then Inr None
          else take_result (exact_number_of v (path @ ''/n_eff_p999'')) (\<lambda>number.
            if number_negative fp_negative number
            then Inl [ValidationError out_of_range (path @ ''/n_eff_p999'') ''SCHEMA-MINIMUM''
              ''effective tail count must be nonnegative'']
            else Inr (Some number)))"

definition run_counts :: "('d \<Rightarrow> bool) \<Rightarrow> 'd Value \<Rightarrow> string \<Rightarrow> 'd RunCounts Result" where
  "run_counts fp_negative value path =
     take_result (object_of value path) (\<lambda>obj.
     take_result (reject_unknown obj
         [''offered'', ''attempted'', ''accepted'', ''full'', ''consumed'',
           ''final_occupancy'', ''raw_sample_count'', ''n_eff_p999''] path) (\<lambda>_.
     take_result (load_effective fp_negative obj path) (\<lambda>effective.
     take_result (optional_member obj ''offered'' path uint_of) (\<lambda>x_offered.
     take_result (optional_member obj ''attempted'' path uint_of) (\<lambda>x_attempted.
     take_result (optional_member obj ''accepted'' path uint_of) (\<lambda>x_accepted.
     take_result (optional_member obj ''full'' path uint_of) (\<lambda>x_full.
     take_result (optional_member obj ''consumed'' path uint_of) (\<lambda>x_consumed.
     take_result (optional_member obj ''final_occupancy'' path uint_of) (\<lambda>x_final_occupancy.
     take_result (optional_member obj ''raw_sample_count'' path uint_of) (\<lambda>x_raw_sample_count.
     Inr \<lparr>rn_offered = x_offered, rn_attempted = x_attempted, rn_accepted = x_accepted,
         rn_full = x_full, rn_consumed = x_consumed, rn_final_occupancy = x_final_occupancy,
         rn_raw_sample_count = x_raw_sample_count, rn_n_eff_p999 = effective\<rparr>))))))))))"

definition run_provenance :: "'d Value \<Rightarrow> string \<Rightarrow> RunProvenance Result" where
  "run_provenance value path =
     take_result (object_of value path) (\<lambda>obj.
     take_result (reject_unknown obj
         [''paper_repository_revision'', ''implementation_repository_revision'',
           ''build_artifact_sha256'', ''compiler_identity'', ''compiler_flags'',
           ''standard_library'', ''dependency_record_id''] path) (\<lambda>_.
     take_result (string_field obj ''paper_repository_revision'' path) (\<lambda>x_paper_repository_revision.
     take_result (string_field obj ''implementation_repository_revision'' path) (\<lambda>x_implementation_repository_revision.
     take_result (sha_field obj ''build_artifact_sha256'' path) (\<lambda>x_build_artifact_sha256.
     take_result (string_field obj ''compiler_identity'' path) (\<lambda>x_compiler_identity.
     take_result (read_field obj ''compiler_flags'' path (\<lambda>v p. string_array v p False)) (\<lambda>x_compiler_flags.
     take_result (string_field obj ''standard_library'' path) (\<lambda>x_standard_library.
     take_result (id_field obj ''dependency_record_id'' path) (\<lambda>x_dependency_record_id.
     Inr \<lparr>rp_paper_repository_revision = x_paper_repository_revision,
         rp_implementation_repository_revision = x_implementation_repository_revision,
         rp_build_artifact_sha256 = x_build_artifact_sha256,
         rp_compiler_identity = x_compiler_identity, rp_compiler_flags = x_compiler_flags,
         rp_standard_library = x_standard_library,
         rp_dependency_record_id = x_dependency_record_id\<rparr>)))))))))"

definition run_schedule_refs :: "'d Value \<Rightarrow> string \<Rightarrow> RunScheduleReferences Result" where
  "run_schedule_refs value path =
     take_result (object_of value path) (\<lambda>obj.
     take_result (reject_unknown obj [''measurement'', ''warmup''] path) (\<lambda>_.
     take_result (read_field obj ''measurement'' path artifact_reference) (\<lambda>x_measurement.
     take_result (read_field obj ''warmup'' path artifact_reference) (\<lambda>x_warmup.
     Inr \<lparr>rs_measurement = x_measurement, rs_warmup = x_warmup\<rparr>))))"

definition run_seed_refs :: "'d Value \<Rightarrow> string \<Rightarrow> RunSeedReferences Result" where
  "run_seed_refs value path =
     take_result (object_of value path) (\<lambda>obj.
     take_result (reject_unknown obj [''arrival'', ''node_order'', ''event_order'', ''warmup'', ''derivation_record_id''] path) (\<lambda>_.
     take_result (id_field obj ''arrival'' path) (\<lambda>x_arrival.
     take_result (optional_nullable_id obj ''node_order'' path) (\<lambda>x_node_order.
     take_result (id_field obj ''event_order'' path) (\<lambda>x_event_order.
     take_result (id_field obj ''warmup'' path) (\<lambda>x_warmup.
     take_result (id_field obj ''derivation_record_id'' path) (\<lambda>x_derivation_record_id.
     Inr \<lparr>sd_arrival = x_arrival, sd_node_order = x_node_order, sd_event_order = x_event_order,
         sd_warmup = x_warmup, sd_derivation_record_id = x_derivation_record_id\<rparr>)))))))"

definition relationships :: "(string \<times> ArtifactRelationship) list" where
  "relationships =
     [(''PRODUCER_RAW'', Rel_producer_raw), (''CONSUMER_RAW'', Rel_consumer_raw),
      (''JOIN_AUDIT'', Rel_join_audit), (''JOINED_DERIVED'', Rel_joined_derived),
      (''PHASE_INTEGRITY_REPORT'', Rel_phase_integrity_report), (''SCHEDULE'', Rel_schedule),
      (''COUNTER'', Rel_counter), (''DERIVED'', Rel_derived), (''PROVENANCE'', Rel_provenance),
      (''FAILURE_EVIDENCE'', Rel_failure_evidence)]"

definition typed_artifact :: "'d Value \<Rightarrow> string \<Rightarrow> TypedArtifactReference Result" where
  "typed_artifact value path =
     take_result (object_of value path) (\<lambda>obj.
     take_result (reject_unknown obj [''artifact_id'', ''relationship'', ''sha256''] path) (\<lambda>_.
     take_result (id_field obj ''artifact_id'' path) (\<lambda>artifact.
     take_result (sha_field obj ''sha256'' path) (\<lambda>sha.
     take_result (enum_field obj ''relationship'' path ''DAT-ARTIFACT-RELATIONSHIP'' relationships) (\<lambda>relationship.
     Inr \<lparr>ta_artifact = \<lparr>ar_artifact_id = artifact, ar_sha256 = sha\<rparr>, ta_relationship = relationship\<rparr>)))))"

definition load_blockers ::
  "ProtocolVersion \<Rightarrow> (string \<times> 'd Value) list \<Rightarrow> ConfirmatoryBlocker list Result" where
  "load_blockers protocol obj =
     (case map_of obj ''confirmatory_blockers'' of
        None \<Rightarrow>
          if protocol = V2_0_0_pre_2
          then Inl [ValidationError missing_field ''$out/confirmatory_blockers'' ''SCHEMA-REQUIRED''
            ''2.0.0-pre.2 requires the exhaustive confirmatory blocker array'']
          else Inr []
      | Some v \<Rightarrow>
          if protocol = V2_0_0_pre_2
          then take_result (array_of v ''$out/confirmatory_blockers'') (\<lambda>items.
            load_items (\<lambda>w p. take_result (string_of w p False) (\<lambda>s. parse_confirmatory_blocker s p))
              ''$out/confirmatory_blockers'' 0 items)
          else Inl [ValidationError unknown_field ''$out/confirmatory_blockers'' ''SCHEMA-ADDITIONAL''
            ''2.0.0-pre.1 does not contain confirmatory_blockers''])"

definition manifest_fields :: "string list" where
  "manifest_fields =
     [''schema_version'', ''protocol_version'', ''run_id'', ''platform_id'', ''build_id'',
      ''within_cell_ordinal'', ''queue_provenance_id'', ''provenance'', ''stage'',
      ''run_mode'', ''lifecycle_state'', ''block_id'', ''block_role'', ''package'',
      ''requested_hardware_state'', ''verified_hardware_state'', ''placement'',
      ''working_set_class'', ''load_level'', ''capacity_events'', ''time_unit'',
      ''schedule_refs'', ''seed_refs'', ''validity'', ''count_reconciliation'',
      ''zero_loss_status'', ''effective_tail_status'', ''confirmatory_estimability'',
      ''confirmatory_blockers'', ''block_completeness'', ''join_status'', ''counts'',
      ''integrity_evidence'', ''failure_record_ids'', ''artifact_refs'',
      ''manifest_sha256'']"

definition load_manifest :: "('d \<Rightarrow> bool) \<Rightarrow> 'd Value \<Rightarrow> 'd RunManifest Result" where
  "load_manifest fp_negative document =
     take_result (object_of document ''$out'') (\<lambda>obj.
     take_result (reject_unknown obj manifest_fields ''$out'') (\<lambda>_.
     take_result (version_field obj ''schema_version'' ''$out'') (\<lambda>x_schema_version.
     take_result (version_field obj ''protocol_version'' ''$out'') (\<lambda>x_protocol_version.
     (if x_schema_version \<noteq> x_protocol_version then Inl [ValidationError unsupported_version ''$out/protocol_version'' ''GOV-004''
          ''schema_version and protocol_version must identify the same snapshot''] else
     take_result (token_field obj ''stage'' ''$out'' parse_stage) (\<lambda>x_stage.
     take_result (token_field obj ''run_mode'' ''$out'' parse_run_mode) (\<lambda>x_run_mode.
     take_result (token_field obj ''lifecycle_state'' ''$out'' parse_lifecycle_state) (\<lambda>x_lifecycle_state.
     take_result (token_field obj ''block_role'' ''$out'' parse_block_role) (\<lambda>x_block_role.
     take_result (token_field obj ''package'' ''$out'' parse_queue_package) (\<lambda>x_package.
     take_result (token_field obj ''requested_hardware_state'' ''$out'' parse_requested_hardware_state) (\<lambda>x_requested_hardware_state.
     take_result (token_field obj ''verified_hardware_state'' ''$out'' parse_verified_hardware_state) (\<lambda>x_verified_hardware_state.
     take_result (token_field obj ''placement'' ''$out'' parse_placement) (\<lambda>x_placement.
     take_result (token_field obj ''working_set_class'' ''$out'' parse_working_set_class) (\<lambda>x_working_set_class.
     take_result (token_field obj ''load_level'' ''$out'' parse_load_level) (\<lambda>x_load_level.
     take_result (token_field obj ''validity'' ''$out'' parse_run_validity) (\<lambda>x_validity.
     take_result (token_field obj ''count_reconciliation'' ''$out'' parse_gate_status) (\<lambda>x_count_reconciliation.
     take_result (token_field obj ''zero_loss_status'' ''$out'' parse_gate_status) (\<lambda>x_zero_loss_status.
     take_result (token_field obj ''effective_tail_status'' ''$out'' parse_gate_status) (\<lambda>x_effective_tail_status.
     take_result (token_field obj ''confirmatory_estimability'' ''$out'' parse_confirmatory_estimability) (\<lambda>x_confirmatory_estimability.
     take_result (load_blockers x_protocol_version obj) (\<lambda>x_confirmatory_blockers.
     take_result (token_field obj ''block_completeness'' ''$out'' parse_block_completeness) (\<lambda>x_block_completeness.
     take_result (token_field obj ''join_status'' ''$out'' parse_join_status) (\<lambda>x_join_status.
     take_result (optional_member obj ''counts'' ''$out'' (run_counts fp_negative)) (\<lambda>x_counts.
     take_result (optional_member obj ''integrity_evidence'' ''$out'' phase_integrity) (\<lambda>x_integrity_evidence.
     take_result (read_field obj ''failure_record_ids'' ''$out'' (array_items id_of)) (\<lambda>x_failure_record_ids.
     take_result (read_field obj ''artifact_refs'' ''$out'' (array_items typed_artifact)) (\<lambda>x_artifact_refs.
     take_result (unit_field obj ''time_unit'' ''$out'') (\<lambda>x_time_unit.
     take_result (id_field obj ''run_id'' ''$out'') (\<lambda>x_run_id.
     take_result (id_field obj ''platform_id'' ''$out'') (\<lambda>x_platform_id.
     take_result (id_field obj ''build_id'' ''$out'') (\<lambda>x_build_id.
     take_result (uint_field obj ''within_cell_ordinal'' ''$out'') (\<lambda>x_within_cell_ordinal.
     take_result (id_field obj ''queue_provenance_id'' ''$out'') (\<lambda>x_queue_provenance_id.
     take_result (read_field obj ''provenance'' ''$out'' run_provenance) (\<lambda>x_provenance.
     take_result (id_field obj ''block_id'' ''$out'') (\<lambda>x_block_id.
     take_result (uint_field obj ''capacity_events'' ''$out'') (\<lambda>x_capacity_events.
     take_result (read_field obj ''schedule_refs'' ''$out'' run_schedule_refs) (\<lambda>x_schedule_refs.
     take_result (read_field obj ''seed_refs'' ''$out'' run_seed_refs) (\<lambda>x_seed_refs.
     take_result (sha_field obj ''manifest_sha256'' ''$out'') (\<lambda>x_manifest_sha256.
     Inr \<lparr>rm_schema_version = x_schema_version, rm_protocol_version = x_protocol_version,
         rm_run_id = x_run_id, rm_platform_id = x_platform_id, rm_build_id = x_build_id,
         rm_within_cell_ordinal = x_within_cell_ordinal,
         rm_queue_provenance_id = x_queue_provenance_id, rm_provenance = x_provenance,
         rm_stage = x_stage, rm_run_mode = x_run_mode, rm_lifecycle_state = x_lifecycle_state,
         rm_block_id = x_block_id, rm_block_role = x_block_role, rm_package = x_package,
         rm_requested_hardware_state = x_requested_hardware_state,
         rm_verified_hardware_state = x_verified_hardware_state, rm_placement = x_placement,
         rm_working_set_class = x_working_set_class, rm_load_level = x_load_level,
         rm_capacity_events = x_capacity_events, rm_time_unit = x_time_unit,
         rm_schedule_refs = x_schedule_refs, rm_seed_refs = x_seed_refs, rm_validity = x_validity,
         rm_count_reconciliation = x_count_reconciliation,
         rm_zero_loss_status = x_zero_loss_status,
         rm_effective_tail_status = x_effective_tail_status,
         rm_confirmatory_estimability = x_confirmatory_estimability,
         rm_confirmatory_blockers = x_confirmatory_blockers,
         rm_block_completeness = x_block_completeness, rm_join_status = x_join_status,
         rm_counts = x_counts, rm_integrity_evidence = x_integrity_evidence,
         rm_failure_record_ids = x_failure_record_ids, rm_artifact_refs = x_artifact_refs,
         rm_manifest_sha256 = x_manifest_sha256, rm_source_document = document\<rparr>)))))))))))))))))))))))))))))))))))))))"

subsection \<open>Block plans\<close>

definition load_lineage :: "(string \<times> 'd Value) list \<Rightarrow> ReplacementLineage Result" where
  "load_lineage lineage =
     take_result (reject_unknown lineage
         [''replaced_block_ordinal'', ''replaced_block_role'', ''replaced_seed_subspace_id''] ''$out/replacement_lineage'') (\<lambda>_.
     take_result (uint_field lineage ''replaced_block_ordinal'' ''$out/replacement_lineage'') (\<lambda>x_replaced_block_ordinal.
     take_result (token_field lineage ''replaced_block_role'' ''$out/replacement_lineage'' parse_block_role) (\<lambda>x_replaced_block_role.
     take_result (id_field lineage ''replaced_seed_subspace_id'' ''$out/replacement_lineage'') (\<lambda>x_replaced_seed_subspace_id.
     Inr \<lparr>ln_replaced_block_ordinal = x_replaced_block_ordinal,
         ln_replaced_block_role = x_replaced_block_role,
         ln_replaced_seed_subspace_id = x_replaced_seed_subspace_id\<rparr>))))"

definition optional_lineage :: "(string \<times> 'd Value) list \<Rightarrow> ReplacementLineage option Result" where
  "optional_lineage obj =
     (case map_of obj ''replacement_lineage'' of
        None \<Rightarrow> Inr None
      | Some v \<Rightarrow>
          if is_null v then Inr None
          else take_result (object_of v ''$out/replacement_lineage'') (\<lambda>lineage.
            take_result (load_lineage lineage) (\<lambda>x. Inr (Some x))))"

definition load_whole_plots ::
  "(string \<times> 'd Value) list \<Rightarrow> (RequestedHardwareState \<times> RequestedHardwareState) Result" where
  "load_whole_plots obj =
     take_result (required obj ''whole_plot_order'' ''$out'') (\<lambda>v.
     take_result (array_of v ''$out/whole_plot_order'') (\<lambda>plots.
     (if length plots \<noteq> 2 then Inl [ValidationError out_of_range ''$out/whole_plot_order'' ''BLK-WHOLE-PLOTS''
          ''whole_plot_order must contain exactly two states''] else
     take_result (string_of (plots ! 0) ''$out/whole_plot_order/0'' False) (\<lambda>first.
     take_result (parse_requested_hardware_state first ''$out/whole_plot_order/0'') (\<lambda>first.
     take_result (string_of (plots ! 1) ''$out/whole_plot_order/1'' False) (\<lambda>second.
     take_result (parse_requested_hardware_state second ''$out/whole_plot_order/1'') (\<lambda>second.
     Inr (first, second))))))))"

definition load_cell :: "'d Value \<Rightarrow> string \<Rightarrow> StageACell Result" where
  "load_cell value path =
     take_result (object_of value path) (\<lambda>obj.
     take_result (reject_unknown obj
         [''cell_ordinal'', ''package'', ''requested_hardware_state'', ''placement'',
           ''working_set_class'', ''load_level'', ''arrival_seed_ref'', ''node_seed_ref'',
           ''event_seed_ref''] path) (\<lambda>_.
     take_result (uint_field obj ''cell_ordinal'' path) (\<lambda>x_cell_ordinal.
     take_result (token_field obj ''package'' path parse_queue_package) (\<lambda>x_package.
     take_result (token_field obj ''requested_hardware_state'' path parse_requested_hardware_state) (\<lambda>x_requested_hardware_state.
     take_result (token_field obj ''placement'' path parse_placement) (\<lambda>x_placement.
     take_result (token_field obj ''working_set_class'' path parse_working_set_class) (\<lambda>x_working_set_class.
     take_result (token_field obj ''load_level'' path parse_load_level) (\<lambda>x_load_level.
     take_result (id_field obj ''arrival_seed_ref'' path) (\<lambda>x_arrival_seed_ref.
     take_result (optional_nullable_id obj ''node_seed_ref'' path) (\<lambda>x_node_seed_ref.
     take_result (id_field obj ''event_seed_ref'' path) (\<lambda>x_event_seed_ref.
     Inr \<lparr>cell_cell_ordinal = x_cell_ordinal, cell_package = x_package,
         cell_requested_hardware_state = x_requested_hardware_state, cell_placement = x_placement,
         cell_working_set_class = x_working_set_class, cell_load_level = x_load_level,
         cell_arrival_seed_ref = x_arrival_seed_ref, cell_node_seed_ref = x_node_seed_ref,
         cell_event_seed_ref = x_event_seed_ref\<rparr>)))))))))))"

definition block_fields :: "string list" where
  "block_fields =
     [''schema_version'', ''protocol_version'', ''block_id'', ''platform_id'',
      ''build_id'', ''stage'', ''block_role'', ''block_ordinal'', ''seed_subspace_id'',
      ''replaces_block_id'', ''replacement_authorization_id'', ''replacement_lineage'',
      ''whole_plot_order'', ''cells'', ''access_state'', ''plan_sha256'']"

definition load_block_plan :: "'d Value \<Rightarrow> 'd BlockPlan Result" where
  "load_block_plan document =
     take_result (object_of document ''$out'') (\<lambda>obj.
     take_result (reject_unknown obj block_fields ''$out'') (\<lambda>_.
     take_result (token_field obj ''stage'' ''$out'' parse_stage) (\<lambda>stage.
     (if stage \<noteq> Stage_stage_a then Inl [ValidationError cross_field ''$out/stage'' ''BLK-STAGE-A''
          ''block plans in this schema are Stage A only''] else
     take_result (token_field obj ''block_role'' ''$out'' parse_block_role) (\<lambda>role.
     (if role = Block_not_applicable then Inl [ValidationError unknown_enum ''$out/block_role'' ''BLK-ROLE''
          ''Stage A block role cannot be NOT_APPLICABLE''] else
     take_result (optional_nullable_id obj ''replaces_block_id'' ''$out'') (\<lambda>replaces.
     take_result (optional_nullable_id obj ''replacement_authorization_id'' ''$out'') (\<lambda>authorization.
     take_result (optional_lineage obj) (\<lambda>lineage.
     (if (replaces = None) \<noteq> (authorization = None) \<or> (replaces = None) \<noteq> (lineage = None) then Inl [ValidationError cross_field
          ''$out/replaces_block_id'' ''BLK-REPLACEMENT-SHAPE''
          ''replacement identity, authorization, and lineage must be all null or all present''] else
     take_result (load_whole_plots obj) (\<lambda>order.
     take_result (read_field obj ''cells'' ''$out'' (array_items load_cell)) (\<lambda>cells.
     take_result (version_field obj ''schema_version'' ''$out'') (\<lambda>x_schema_version.
     take_result (version_field obj ''protocol_version'' ''$out'') (\<lambda>x_protocol_version.
     take_result (id_field obj ''block_id'' ''$out'') (\<lambda>x_block_id.
     take_result (id_field obj ''platform_id'' ''$out'') (\<lambda>x_platform_id.
     take_result (id_field obj ''build_id'' ''$out'') (\<lambda>x_build_id.
     take_result (uint_field obj ''block_ordinal'' ''$out'') (\<lambda>x_block_ordinal.
     take_result (id_field obj ''seed_subspace_id'' ''$out'') (\<lambda>x_seed_subspace_id.
     take_result (token_field obj ''access_state'' ''$out'' parse_access_state) (\<lambda>x_access_state.
     take_result (sha_field obj ''plan_sha256'' ''$out'') (\<lambda>x_plan_sha256.
     Inr \<lparr>bp_schema_version = x_schema_version, bp_protocol_version = x_protocol_version,
         bp_block_id = x_block_id, bp_platform_id = x_platform_id, bp_build_id = x_build_id,
         bp_stage = stage, bp_block_role = role, bp_block_ordinal = x_block_ordinal,
         bp_seed_subspace_id = x_seed_subspace_id, bp_replaces_block_id = replaces,
         bp_replacement_authorization_id = authorization, bp_replacement_lineage = lineage,
         bp_whole_plot_order = order, bp_cells = cells, bp_access_state = x_access_state,
         bp_plan_sha256 = x_plan_sha256, bp_source_document = document\<rparr>)))))))))))))))))))))"

subsection \<open>Failure records\<close>

definition failure_scopes :: "(string \<times> FailureScope) list" where
  "failure_scopes =
     [(''RUN'', Scope_run), (''BLOCK'', Scope_block), (''PLATFORM'', Scope_platform),
      (''BUILD'', Scope_build), (''PROTOCOL'', Scope_protocol), (''ACCESS'', Scope_access)]"

definition failure_categories :: "(string \<times> FailureCategory) list" where
  "failure_categories =
     [(''CORRECTNESS'', Failure_correctness),
      (''COUNT_RECONCILIATION'', Failure_count_reconciliation), (''CLOCK'', Failure_clock),
      (''AFFINITY'', Failure_affinity), (''NUMA'', Failure_numa),
      (''HARDWARE_STATE'', Failure_hardware_state),
      (''PROCESS_INTERRUPTION'', Failure_process_interruption),
      (''SAMPLE_LOSS'', Failure_sample_loss), (''BUFFER_OVERFLOW'', Failure_buffer_overflow),
      (''CORRUPT_OUTPUT'', Failure_corrupt_output), (''MANIFEST'', Failure_manifest),
      (''ADDRESS_PATTERN'', Failure_address_pattern), (''PHASE_RESET'', Failure_phase_reset),
      (''ENVIRONMENT'', Failure_environment), (''ACCESS_LEAKAGE'', Failure_access_leakage),
      (''OTHER_MEASUREMENT'', Failure_other_measurement)]"

definition detected_phases :: "(string \<times> DetectedPhase) list" where
  "detected_phases =
     [(''PRE_RUN'', Detected_pre_run), (''WARMUP'', Detected_warmup),
      (''RESET'', Detected_reset), (''MEASUREMENT'', Detected_measurement),
      (''DRAIN'', Detected_drain), (''POST_RUN'', Detected_post_run),
      (''ANALYSIS'', Detected_analysis), (''ACCESS_AUDIT'', Detected_access_audit)]"

definition block_consequences :: "(string \<times> BlockConsequence) list" where
  "block_consequences =
     [(''NONE'', Consequence_none),
      (''ORIGINAL_BLOCK_INCOMPLETE'', Consequence_original_block_incomplete),
      (''STUDY_UNRESOLVED'', Consequence_study_unresolved),
      (''NOT_APPLICABLE'', Consequence_not_applicable)]"

definition resolution_statuses :: "(string \<times> ResolutionStatus) list" where
  "resolution_statuses =
     [(''OPEN'', Resolution_open),
      (''RETAINED_DIAGNOSTIC_ONLY'', Resolution_retained_diagnostic_only),
      (''REPLACEMENT_AUTHORIZED'', Resolution_replacement_authorized),
      (''REPLACEMENT_DENIED'', Resolution_replacement_denied),
      (''RESOLVED_BEFORE_MEASUREMENT'', Resolution_resolved_before_measurement),
      (''STUDY_STOPPED'', Resolution_study_stopped)]"

definition failure_fields :: "string list" where
  "failure_fields =
     [''schema_version'', ''protocol_version'', ''failure_record_id'', ''platform_id'',
      ''stage'', ''scope'', ''run_id'', ''block_id'', ''build_id'', ''category'',
      ''detected_phase'', ''observed_at_utc'', ''description'', ''invalidates_run'',
      ''block_consequence'', ''resolution_status'', ''replacement_authorization_id'',
      ''replacement_block_id'', ''supersedes_id'', ''evidence_refs'', ''record_sha256'']"

definition load_failure :: "'d Value \<Rightarrow> 'd FailureRecord Result" where
  "load_failure document =
     take_result (object_of document ''$out'') (\<lambda>obj.
     take_result (reject_unknown obj failure_fields ''$out'') (\<lambda>_.
     take_result (enum_field obj ''scope'' ''$out'' ''FAIL-SCOPE'' failure_scopes) (\<lambda>scope.
     take_result (optional_nullable_id obj ''run_id'' ''$out'') (\<lambda>run.
     take_result (optional_nullable_id obj ''block_id'' ''$out'') (\<lambda>block.
     (if scope = Scope_run \<and> (run = None \<or> block = None) then Inl [ValidationError missing_field ''$out/run_id''
          ''FAIL-RUN-IDENTITY'' ''run-scoped failures require both run_id and block_id''] else
     take_result (enum_field obj ''resolution_status'' ''$out'' ''FAIL-RESOLUTION'' resolution_statuses) (\<lambda>status.
     take_result (optional_nullable_id obj ''replacement_authorization_id'' ''$out'') (\<lambda>authorization.
     take_result (optional_nullable_id obj ''replacement_block_id'' ''$out'') (\<lambda>replacement.
     (if status = Resolution_replacement_authorized \<and> (authorization = None \<or> replacement = None) then Inl [ValidationError missing_field
          ''$out/replacement_authorization_id'' ''FAIL-REPLACEMENT-EVIDENCE''
          ''authorized replacement requires authorization and replacement block IDs''] else
     take_result (version_field obj ''schema_version'' ''$out'') (\<lambda>x_schema_version.
     take_result (version_field obj ''protocol_version'' ''$out'') (\<lambda>x_protocol_version.
     take_result (id_field obj ''failure_record_id'' ''$out'') (\<lambda>x_failure_record_id.
     take_result (id_field obj ''platform_id'' ''$out'') (\<lambda>x_platform_id.
     take_result (token_field obj ''stage'' ''$out'' parse_stage) (\<lambda>x_stage.
     take_result (optional_nullable_id obj ''build_id'' ''$out'') (\<lambda>x_build_id.
     take_result (enum_field obj ''category'' ''$out'' ''FAIL-CATEGORY'' failure_categories) (\<lambda>x_category.
     take_result (enum_field obj ''detected_phase'' ''$out'' ''FAIL-PHASE'' detected_phases) (\<lambda>x_detected_phase.
     take_result (string_field obj ''observed_at_utc'' ''$out'') (\<lambda>x_observed_at_utc.
     take_result (string_field obj ''description'' ''$out'') (\<lambda>x_description.
     take_result (bool_field obj ''invalidates_run'' ''$out'') (\<lambda>x_invalidates_run.
     take_result (enum_field obj ''block_consequence'' ''$out'' ''FAIL-BLOCK-CONSEQUENCE'' block_consequences) (\<lambda>x_block_consequence.
     take_result (optional_nullable_id obj ''supersedes_id'' ''$out'') (\<lambda>x_supersedes_id.
     take_result (read_field obj ''evidence_refs'' ''$out'' (\<lambda>v p. artifact_reference_array v p True)) (\<lambda>x_evidence_refs.
     take_result (sha_field obj ''record_sha256'' ''$out'') (\<lambda>x_record_sha256.
     Inr \<lparr>fr_schema_version = x_schema_version, fr_protocol_version = x_protocol_version,
         fr_failure_record_id = x_failure_record_id, fr_platform_id = x_platform_id,
         fr_stage = x_stage, fr_scope = scope, fr_run_id = run, fr_block_id = block,
         fr_build_id = x_build_id, fr_category = x_category, fr_detected_phase = x_detected_phase,
         fr_observed_at_utc = x_observed_at_utc, fr_description = x_description,
         fr_invalidates_run = x_invalidates_run, fr_block_consequence = x_block_consequence,
         fr_resolution_status = status, fr_replacement_authorization_id = authorization,
         fr_replacement_block_id = replacement, fr_supersedes_id = x_supersedes_id,
         fr_evidence_refs = x_evidence_refs, fr_record_sha256 = x_record_sha256,
         fr_source_document = document\<rparr>)))))))))))))))))))))))))"

subsection \<open>Freeze records\<close>

definition optional_artifact_ref ::
  "(string \<times> 'd Value) list \<Rightarrow> string \<Rightarrow> string \<Rightarrow> ArtifactReference option Result" where
  "optional_artifact_ref obj key path =
     optional_member obj key path artifact_reference"

definition optional_string ::
  "(string \<times> 'd Value) list \<Rightarrow> string \<Rightarrow> string \<Rightarrow> bool \<Rightarrow> string option Result" where
  "optional_string obj key path nullable =
     (case map_of obj key of
        None \<Rightarrow> Inr None
      | Some v \<Rightarrow>
          if nullable \<and> is_null v then Inr None
          else take_result (string_of v (path @ ''/'' @ key) True) (\<lambda>s. Inr (Some s)))"

definition optional_string_array :: "(string \<times> 'd Value) list \<Rightarrow> string \<Rightarrow> bool \<Rightarrow> string list Result" where
  "optional_string_array obj key require_nonempty =
     (case map_of obj key of
        None \<Rightarrow> Inr []
      | Some v \<Rightarrow> string_array v (''$out/'' @ key) require_nonempty)"

definition record_kinds :: "(string \<times> RecordKind) list" where
  "record_kinds =
     [(''PROTOCOL_FREEZE'', Kind_protocol_freeze),
      (''SELECTION_FREEZE'', Kind_selection_freeze),
      (''VALIDATION_UNSEAL'', Kind_validation_unseal), (''H3_EVALUATED'', Kind_h3_evaluated),
      (''H1H2_RELEASED'', Kind_h1h2_released),
      (''REPLACEMENT_AUTHORIZATION'', Kind_replacement_authorization),
      (''AMENDMENT'', Kind_amendment)]"

definition readiness_boundaries :: "(string \<times> ReadinessBoundary) list" where
  "readiness_boundaries =
     [(''READY_FOR_IMPLEMENTATION'', Readiness_ready_for_implementation),
      (''BLOCKED_BEFORE_IMPLEMENTATION'', Readiness_blocked_before_implementation),
      (''BLOCKED_BEFORE_PILOT'', Readiness_blocked_before_pilot),
      (''BLOCKED_BEFORE_CONFIRMATORY_EXECUTION'', Readiness_blocked_before_confirmatory_execution),
      (''SUBMISSION_ONLY'', Readiness_submission_only)]"

definition freeze_statuses :: "(string \<times> FreezeStatus) list" where
  "freeze_statuses =
     [(''OPEN'', Freeze_open), (''FROZEN'', Freeze_frozen),
      (''AUTHORIZED'', Freeze_authorized), (''REJECTED'', Freeze_rejected),
      (''SUPERSEDED'', Freeze_superseded)]"

definition authorization_statuses :: "(string \<times> AuthorizationStatus) list" where
  "authorization_statuses =
     [(''NOT_APPLICABLE'', Authorization_not_applicable), (''PENDING'', Authorization_pending),
      (''AUTHORIZED'', Authorization_authorized), (''REJECTED'', Authorization_rejected)]"

definition authority_roles :: "(string \<times> AuthorityRole) list" where
  "authority_roles =
     [(''PROTOCOL_OWNER'', Authority_protocol_owner),
      (''FREEZE_AUTHORITY'', Authority_freeze_authority),
      (''VALIDATION_CUSTODIAN'', Authority_validation_custodian),
      (''CONFIRMATORY_ANALYST'', Authority_confirmatory_analyst),
      (''REPLACEMENT_AUTHORITY'', Authority_replacement_authority),
      (''PLATFORM_OPERATOR'', Authority_platform_operator), (''AUTHOR'', Authority_author)]"

definition access_classes :: "(string \<times> AccessClass) list" where
  "access_classes =
     [(''TREATMENT_BLIND'', Class_treatment_blind), (''TRAINING_ONLY'', Class_training_only),
      (''VALIDATION_SEALED'', Class_validation_sealed),
      (''VALIDATION_UNSEALED'', Class_validation_unsealed),
      (''PUBLIC_PROTOCOL'', Class_public_protocol),
      (''PLATFORM_EVIDENCE'', Class_platform_evidence)]"

definition context_names :: "(string \<times> H3Context) list" where
  "context_names =
     [(''NEAR_L2_L050'', Context_near_l2_l050), (''NEAR_LLC_L050'', Context_near_llc_l050),
      (''NEAR_BEYOND_LLC_L050'', Context_near_beyond_llc_l050),
      (''FAR_L2_L050'', Context_far_l2_l050), (''FAR_LLC_L050'', Context_far_llc_l050),
      (''FAR_BEYOND_LLC_L050'', Context_far_beyond_llc_l050)]"

definition load_authority :: "(string \<times> 'd Value) list \<Rightarrow> Authority Result" where
  "load_authority obj =
     take_result (required obj ''authority'' ''$out'') (\<lambda>v.
     take_result (object_of v ''$out/authority'') (\<lambda>authority.
     take_result (reject_unknown authority [''authority_id'', ''role'', ''attestation'', ''signature_artifact_id''] ''$out/authority'') (\<lambda>_.
     take_result (id_field authority ''authority_id'' ''$out/authority'') (\<lambda>x_authority_id.
     take_result (enum_field authority ''role'' ''$out/authority'' ''ACC-AUTHORITY-ROLE'' authority_roles) (\<lambda>x_role.
     take_result (string_field authority ''attestation'' ''$out/authority'') (\<lambda>x_attestation.
     take_result (optional_nullable_id authority ''signature_artifact_id'' ''$out/authority'') (\<lambda>x_signature_artifact_id.
     Inr \<lparr>au_authority_id = x_authority_id, au_role = x_role, au_attestation = x_attestation,
         au_signature_artifact_id = x_signature_artifact_id\<rparr>)))))))"

definition load_candidate :: "'d Value \<Rightarrow> string \<Rightarrow> H3Candidate Result" where
  "load_candidate value path =
     take_result (object_of value path) (\<lambda>candidate.
     take_result (reject_unknown candidate [''package'', ''requested_hardware_state''] path) (\<lambda>_.
     take_result (token_field candidate ''package'' path parse_queue_package) (\<lambda>package.
     take_result (token_field candidate ''requested_hardware_state'' path parse_requested_hardware_state) (\<lambda>state.
     (if package = Package_nblfq_mpsc \<or> package = Package_not_applicable \<or> state = Requested_not_applicable then Inl [ValidationError
          unknown_enum path ''ACC-H3-CANDIDATE'' ''H3 candidate must be one of the ten Stage A package/state candidates''] else
     Inr \<lparr>hc_package = package, hc_requested_hardware_state = state\<rparr>)))))"

text \<open>The contexts in the order of the enumeration, which is the key order of the map they fill.\<close>

fun load_candidates ::
  "(string \<times> 'd Value) list \<Rightarrow> (string \<times> H3Context) list \<Rightarrow> (H3Context \<times> H3Candidate) list Result" where
  "load_candidates obj [] = Inr []"
| "load_candidates obj ((name, ctx) # rest) =
     take_result (required obj name ''$out/h3_selections'') (\<lambda>v.
     take_result (load_candidate v (''$out/h3_selections/'' @ name)) (\<lambda>candidate.
     take_result (load_candidates obj rest) (\<lambda>selections. Inr ((ctx, candidate) # selections))))"

definition load_selections :: "'d Value \<Rightarrow> (H3Context \<times> H3Candidate) list Result" where
  "load_selections value =
     take_result (object_of value ''$out/h3_selections'') (\<lambda>obj.
     take_result (reject_unknown obj (map fst context_names) ''$out/h3_selections'') (\<lambda>_.
     load_candidates obj context_names))"

definition load_replacement :: "'d Value \<Rightarrow> ReplacementAuthorization Result" where
  "load_replacement value =
     take_result (object_of value ''$out/replacement'') (\<lambda>obj.
     take_result (reject_unknown obj
         [''original_block_id'', ''replacement_block_id'', ''replacement_block_ordinal'',
           ''block_role'', ''replacement_seed_subspace_id'', ''failure_record_id'',
           ''replacement_budget_record_id''] ''$out/replacement'') (\<lambda>_.
     take_result (id_field obj ''original_block_id'' ''$out/replacement'') (\<lambda>x_original_block_id.
     take_result (id_field obj ''replacement_block_id'' ''$out/replacement'') (\<lambda>x_replacement_block_id.
     take_result (uint_field obj ''replacement_block_ordinal'' ''$out/replacement'') (\<lambda>x_replacement_block_ordinal.
     take_result (token_field obj ''block_role'' ''$out/replacement'' parse_block_role) (\<lambda>x_block_role.
     take_result (id_field obj ''replacement_seed_subspace_id'' ''$out/replacement'') (\<lambda>x_replacement_seed_subspace_id.
     take_result (id_field obj ''failure_record_id'' ''$out/replacement'') (\<lambda>x_failure_record_id.
     take_result (id_field obj ''replacement_budget_record_id'' ''$out/replacement'') (\<lambda>x_replacement_budget_record_id.
     Inr \<lparr>ra_original_block_id = x_original_block_id,
         ra_replacement_block_id = x_replacement_block_id,
         ra_replacement_block_ordinal = x_replacement_block_ordinal, ra_block_role = x_block_role,
         ra_replacement_seed_subspace_id = x_replacement_seed_subspace_id,
         ra_failure_record_id = x_failure_record_id,
         ra_replacement_budget_record_id = x_replacement_budget_record_id\<rparr>)))))))))"

definition load_input_artifact :: "'d Value \<Rightarrow> string \<Rightarrow> AccessInputArtifact Result" where
  "load_input_artifact value path =
     take_result (object_of value path) (\<lambda>item.
     take_result (reject_unknown item [''artifact_id'', ''sha256'', ''access_class''] path) (\<lambda>_.
     take_result (id_field item ''artifact_id'' path) (\<lambda>artifact.
     take_result (sha_field item ''sha256'' path) (\<lambda>sha.
     take_result (enum_field item ''access_class'' path ''ACC-ACCESS-CLASS'' access_classes) (\<lambda>cls.
     Inr \<lparr>ai_artifact = \<lparr>ar_artifact_id = artifact, ar_sha256 = sha\<rparr>, ai_access_class = cls\<rparr>)))))"

definition load_input_artifacts :: "(string \<times> 'd Value) list \<Rightarrow> AccessInputArtifact list Result" where
  "load_input_artifacts obj =
     take_result (required obj ''input_artifacts'' ''$out'') (\<lambda>v.
     take_result (array_of v ''$out/input_artifacts'') (\<lambda>items.
     (if items = [] then Inl [ValidationError out_of_range ''$out/input_artifacts'' ''SCHEMA-MIN-ITEMS''
          ''freeze record requires at least one input artifact''] else
     load_items load_input_artifact ''$out/input_artifacts'' 0 items)))"

definition freeze_fields :: "string list" where
  "freeze_fields =
     [''schema_version'', ''protocol_version'', ''record_id'', ''record_kind'',
      ''decision_id'', ''readiness_boundary'', ''status'', ''authorization_status'',
      ''created_at_utc'', ''authority'', ''decision_value'', ''rationale'',
      ''access_state_before'', ''access_state_after'', ''affected_block_ids'',
      ''h3_selections'', ''training_input_artifacts'', ''selection_rule_version'',
      ''selection_record_checksum_sha256'', ''selection_record_ref'',
      ''validation_namespace_id'', ''validation_artifact_ref'',
      ''validation_unseal_record_ref'', ''h3_evaluation_artifact_ref'',
      ''h3_access_record_ref'', ''replacement'', ''supersedes_id'',
      ''prior_protocol_version'', ''new_protocol_version'', ''affected_documents'',
      ''affected_schema_ids'', ''affected_estimands'', ''affected_contrast_ids'',
      ''pilot_record_disposition'', ''prior_authoritative_hashes'',
      ''outcome_access_prohibited'', ''input_artifacts'', ''record_sha256'']"

text \<open>A list that stays empty where its member is missing.\<close>

definition default_list :: "'a list option \<Rightarrow> 'a list" where
  "default_list found = (case found of None \<Rightarrow> [] | Some xs \<Rightarrow> xs)"

definition load_freeze :: "'d Value \<Rightarrow> 'd FreezeRecord Result" where
  "load_freeze document =
     take_result (object_of document ''$out'') (\<lambda>obj.
     take_result (reject_unknown obj freeze_fields ''$out'') (\<lambda>_.
     take_result (enum_field obj ''record_kind'' ''$out'' ''ACC-RECORD-KIND'' record_kinds) (\<lambda>kind.
     take_result (load_authority obj) (\<lambda>authority.
     take_result (optional_member obj ''affected_block_ids'' ''$out'' (array_items id_of)) (\<lambda>blocks.
     take_result (optional_member obj ''h3_selections'' ''$out'' (\<lambda>v p. load_selections v)) (\<lambda>selections.
     take_result (optional_member obj ''training_input_artifacts'' ''$out'' (\<lambda>v p. artifact_reference_array v p True)) (\<lambda>training.
     take_result (optional_member obj ''selection_record_checksum_sha256'' ''$out'' sha_of) (\<lambda>checksum.
     take_result (optional_member obj ''replacement'' ''$out'' (\<lambda>v p. load_replacement v)) (\<lambda>replacement.
     take_result (optional_member obj ''prior_authoritative_hashes'' ''$out'' (\<lambda>v p. artifact_reference_array v p True)) (\<lambda>prior.
     take_result (load_input_artifacts obj) (\<lambda>inputs.
     take_result (version_field obj ''schema_version'' ''$out'') (\<lambda>x_schema_version.
     take_result (version_field obj ''protocol_version'' ''$out'') (\<lambda>x_protocol_version.
     take_result (id_field obj ''record_id'' ''$out'') (\<lambda>x_record_id.
     take_result (string_field obj ''decision_id'' ''$out'') (\<lambda>x_decision_id.
     take_result (enum_field obj ''readiness_boundary'' ''$out'' ''ACC-READINESS'' readiness_boundaries) (\<lambda>x_readiness_boundary.
     take_result (enum_field obj ''status'' ''$out'' ''ACC-STATUS'' freeze_statuses) (\<lambda>x_status.
     take_result (enum_field obj ''authorization_status'' ''$out'' ''ACC-AUTHORIZATION'' authorization_statuses) (\<lambda>x_authorization_status.
     take_result (string_field obj ''created_at_utc'' ''$out'') (\<lambda>x_created_at_utc.
     take_result (optional_string obj ''rationale'' ''$out'' False) (\<lambda>x_rationale.
     take_result (token_field obj ''access_state_before'' ''$out'' parse_access_state) (\<lambda>x_access_state_before.
     take_result (token_field obj ''access_state_after'' ''$out'' parse_access_state) (\<lambda>x_access_state_after.
     take_result (bool_field obj ''outcome_access_prohibited'' ''$out'') (\<lambda>x_outcome_access_prohibited.
     take_result (optional_string obj ''selection_rule_version'' ''$out'' False) (\<lambda>x_selection_rule_version.
     take_result (optional_artifact_ref obj ''selection_record_ref'' ''$out'') (\<lambda>x_selection_record_ref.
     take_result (optional_nullable_id obj ''validation_namespace_id'' ''$out'') (\<lambda>x_validation_namespace_id.
     take_result (optional_artifact_ref obj ''validation_artifact_ref'' ''$out'') (\<lambda>x_validation_artifact_ref.
     take_result (optional_artifact_ref obj ''validation_unseal_record_ref'' ''$out'') (\<lambda>x_validation_unseal_record_ref.
     take_result (optional_artifact_ref obj ''h3_evaluation_artifact_ref'' ''$out'') (\<lambda>x_h3_evaluation_artifact_ref.
     take_result (optional_artifact_ref obj ''h3_access_record_ref'' ''$out'') (\<lambda>x_h3_access_record_ref.
     take_result (optional_nullable_id obj ''supersedes_id'' ''$out'') (\<lambda>x_supersedes_id.
     take_result (optional_string obj ''prior_protocol_version'' ''$out'' True) (\<lambda>x_prior_protocol_version.
     take_result (optional_string obj ''new_protocol_version'' ''$out'' True) (\<lambda>x_new_protocol_version.
     take_result (optional_string_array obj ''affected_documents'' True) (\<lambda>x_affected_documents.
     take_result (optional_string_array obj ''affected_schema_ids'' True) (\<lambda>x_affected_schema_ids.
     take_result (optional_string_array obj ''affected_estimands'' True) (\<lambda>x_affected_estimands.
     take_result (optional_string_array obj ''affected_contrast_ids'' False) (\<lambda>x_affected_contrast_ids.
     take_result (optional_string obj ''pilot_record_disposition'' ''$out'' False) (\<lambda>x_pilot_record_disposition.
     take_result (sha_field obj ''record_sha256'' ''$out'') (\<lambda>x_record_sha256.
     Inr \<lparr>fz_schema_version = x_schema_version, fz_protocol_version = x_protocol_version,
         fz_record_id = x_record_id, fz_record_kind = kind, fz_decision_id = x_decision_id,
         fz_readiness_boundary = x_readiness_boundary, fz_status = x_status,
         fz_authorization_status = x_authorization_status, fz_created_at_utc = x_created_at_utc,
         fz_authority = authority, fz_decision_value = map_of obj ''decision_value'',
         fz_rationale = x_rationale, fz_access_state_before = x_access_state_before,
         fz_access_state_after = x_access_state_after,
         fz_outcome_access_prohibited = x_outcome_access_prohibited,
         fz_affected_block_ids = default_list blocks, fz_h3_selections = default_list selections,
         fz_training_input_artifacts = default_list training,
         fz_selection_rule_version = x_selection_rule_version,
         fz_selection_record_checksum_sha256 = checksum,
         fz_selection_record_ref = x_selection_record_ref,
         fz_validation_namespace_id = x_validation_namespace_id,
         fz_validation_artifact_ref = x_validation_artifact_ref,
         fz_validation_unseal_record_ref = x_validation_unseal_record_ref,
         fz_h3_evaluation_artifact_ref = x_h3_evaluation_artifact_ref,
         fz_h3_access_record_ref = x_h3_access_record_ref, fz_replacement = replacement,
         fz_supersedes_id = x_supersedes_id, fz_prior_protocol_version = x_prior_protocol_version,
         fz_new_protocol_version = x_new_protocol_version,
         fz_affected_documents = x_affected_documents,
         fz_affected_schema_ids = x_affected_schema_ids,
         fz_affected_estimands = x_affected_estimands,
         fz_affected_contrast_ids = x_affected_contrast_ids,
         fz_pilot_record_disposition = x_pilot_record_disposition,
         fz_prior_authoritative_hashes = default_list prior, fz_input_artifacts = inputs,
         fz_record_sha256 = x_record_sha256, fz_source_document = document\<rparr>)))))))))))))))))))))))))))))))))))))))"

subsection \<open>Platforms\<close>

definition load_cpu :: "(string \<times> 'd Value) list \<Rightarrow> PlatformCpu Result" where
  "load_cpu obj =
     take_result (required obj ''cpu'' ''$out'') (\<lambda>v.
     take_result (object_of v ''$out/cpu'') (\<lambda>cpu.
     take_result (reject_unknown cpu
         [''vendor'', ''model'', ''stepping'', ''microcode'', ''cache_line_bytes'',
           ''atomic_width_bits'', ''atomic_alignment_bytes''] ''$out/cpu'') (\<lambda>_.
     take_result (string_field cpu ''vendor'' ''$out/cpu'') (\<lambda>x_vendor.
     take_result (string_field cpu ''model'' ''$out/cpu'') (\<lambda>x_model.
     take_result (string_field cpu ''stepping'' ''$out/cpu'') (\<lambda>x_stepping.
     take_result (string_field cpu ''microcode'' ''$out/cpu'') (\<lambda>x_microcode.
     take_result (uint_field cpu ''cache_line_bytes'' ''$out/cpu'') (\<lambda>x_cache_line_bytes.
     take_result (uint_field cpu ''atomic_width_bits'' ''$out/cpu'') (\<lambda>x_atomic_width_bits.
     take_result (uint_field cpu ''atomic_alignment_bytes'' ''$out/cpu'') (\<lambda>x_atomic_alignment_bytes.
     Inr \<lparr>cpu_vendor = x_vendor, cpu_model = x_model, cpu_stepping = x_stepping,
         cpu_microcode = x_microcode, cpu_cache_line_bytes = x_cache_line_bytes,
         cpu_atomic_width_bits = x_atomic_width_bits,
         cpu_atomic_alignment_bytes = x_atomic_alignment_bytes\<rparr>))))))))))"

definition core_pair :: "(string \<times> 'd Value) list \<Rightarrow> string \<Rightarrow> (u64 \<times> u64) Result" where
  "core_pair topology key =
     take_result (required topology key ''$out/topology'') (\<lambda>v.
     take_result (array_of v (''$out/topology/'' @ key)) (\<lambda>items.
     (if length items \<noteq> 2 then Inl [ValidationError out_of_range (''$out/topology/'' @ key) ''PLATFORM-CORE-PAIR''
          ''core pair requires exactly two CPU identifiers''] else
     take_result (uint_of (items ! 0) (''$out/topology/'' @ key @ ''/0'')) (\<lambda>first.
     take_result (uint_of (items ! 1) (''$out/topology/'' @ key @ ''/1'')) (\<lambda>second.
     Inr (first, second))))))"

definition load_topology :: "(string \<times> 'd Value) list \<Rightarrow> PlatformTopology Result" where
  "load_topology obj =
     take_result (required obj ''topology'' ''$out'') (\<lambda>v.
     take_result (object_of v ''$out/topology'') (\<lambda>topology.
     take_result (reject_unknown topology
         [''sockets'', ''numa_nodes'', ''physical_cores'', ''smt_enabled'', ''cache_domains'',
           ''near_core_pair'', ''far_core_pair''] ''$out/topology'') (\<lambda>_.
     take_result (uint_field topology ''sockets'' ''$out/topology'') (\<lambda>x_sockets.
     take_result (uint_field topology ''numa_nodes'' ''$out/topology'') (\<lambda>x_numa_nodes.
     take_result (uint_field topology ''physical_cores'' ''$out/topology'') (\<lambda>x_physical_cores.
     take_result (bool_field topology ''smt_enabled'' ''$out/topology'') (\<lambda>x_smt_enabled.
     take_result (read_field topology ''cache_domains'' ''$out/topology'' (\<lambda>v p. string_array v p True)) (\<lambda>x_cache_domains.
     take_result (core_pair topology ''near_core_pair'') (\<lambda>x_near_core_pair.
     take_result (core_pair topology ''far_core_pair'') (\<lambda>x_far_core_pair.
     Inr \<lparr>top_sockets = x_sockets, top_numa_nodes = x_numa_nodes,
         top_physical_cores = x_physical_cores, top_smt_enabled = x_smt_enabled,
         top_cache_domains = x_cache_domains, top_near_core_pair = x_near_core_pair,
         top_far_core_pair = x_far_core_pair\<rparr>))))))))))"

definition load_memory :: "(string \<times> 'd Value) list \<Rightarrow> PlatformMemory Result" where
  "load_memory obj =
     take_result (required obj ''memory'' ''$out'') (\<lambda>v.
     take_result (object_of v ''$out/memory'') (\<lambda>memory.
     take_result (reject_unknown memory
         [''population'', ''base_page_bytes'', ''residency_verification_method''] ''$out/memory'') (\<lambda>_.
     take_result (string_field memory ''population'' ''$out/memory'') (\<lambda>x_population.
     take_result (uint_field memory ''base_page_bytes'' ''$out/memory'') (\<lambda>x_base_page_bytes.
     take_result (string_field memory ''residency_verification_method'' ''$out/memory'') (\<lambda>x_residency_verification_method.
     Inr \<lparr>mem_population = x_population, mem_base_page_bytes = x_base_page_bytes,
         mem_residency_verification_method = x_residency_verification_method\<rparr>))))))"

definition load_software :: "(string \<times> 'd Value) list \<Rightarrow> PlatformSoftware Result" where
  "load_software obj =
     take_result (required obj ''software'' ''$out'') (\<lambda>v.
     take_result (object_of v ''$out/software'') (\<lambda>software.
     take_result (reject_unknown software
         [''operating_system'', ''kernel'', ''compiler'', ''standard_library'',
           ''language_standard'', ''flags'', ''link_mode''] ''$out/software'') (\<lambda>_.
     take_result (string_field software ''operating_system'' ''$out/software'') (\<lambda>x_operating_system.
     take_result (string_field software ''kernel'' ''$out/software'') (\<lambda>x_kernel.
     take_result (string_field software ''compiler'' ''$out/software'') (\<lambda>x_compiler.
     take_result (string_field software ''standard_library'' ''$out/software'') (\<lambda>x_standard_library.
     take_result (string_field software ''language_standard'' ''$out/software'') (\<lambda>x_language_standard.
     take_result (read_field software ''flags'' ''$out/software'' (\<lambda>v p. string_array v p False)) (\<lambda>x_flags.
     take_result (string_field software ''link_mode'' ''$out/software'') (\<lambda>x_link_mode.
     Inr \<lparr>sw_operating_system = x_operating_system, sw_kernel = x_kernel, sw_compiler = x_compiler,
         sw_standard_library = x_standard_library, sw_language_standard = x_language_standard,
         sw_flags = x_flags, sw_link_mode = x_link_mode\<rparr>))))))))))"

definition load_clock :: "(string \<times> 'd Value) list \<Rightarrow> PlatformClock Result" where
  "load_clock obj =
     take_result (required obj ''clock'' ''$out'') (\<lambda>v.
     take_result (object_of v ''$out/clock'') (\<lambda>clock.
     take_result (reject_unknown clock
         [''source'', ''time_unit'', ''conversion_record_id'', ''serialization_record_id'',
           ''acceptance_record_id''] ''$out/clock'') (\<lambda>_.
     take_result (string_field clock ''source'' ''$out/clock'') (\<lambda>x_source.
     take_result (unit_field clock ''time_unit'' ''$out/clock'') (\<lambda>x_time_unit.
     take_result (id_field clock ''conversion_record_id'' ''$out/clock'') (\<lambda>x_conversion_record_id.
     take_result (id_field clock ''serialization_record_id'' ''$out/clock'') (\<lambda>x_serialization_record_id.
     take_result (id_field clock ''acceptance_record_id'' ''$out/clock'') (\<lambda>x_acceptance_record_id.
     Inr \<lparr>ck_source = x_source, ck_time_unit = x_time_unit,
         ck_conversion_record_id = x_conversion_record_id,
         ck_serialization_record_id = x_serialization_record_id,
         ck_acceptance_record_id = x_acceptance_record_id\<rparr>))))))))"

definition load_hardware_state :: "'d Value \<Rightarrow> string \<Rightarrow> RequestedAndVerifiedHardwareState Result" where
  "load_hardware_state value path =
     take_result (object_of value path) (\<lambda>obj.
     take_result (reject_unknown obj
         [''requested'', ''verified'', ''readback_artifact_id'',
           ''behavioral_probe_artifact_id'', ''privileged_authority_id''] path) (\<lambda>_.
     take_result (token_field obj ''requested'' path parse_requested_hardware_state) (\<lambda>x_requested.
     take_result (token_field obj ''verified'' path parse_verified_hardware_state) (\<lambda>x_verified.
     take_result (id_field obj ''readback_artifact_id'' path) (\<lambda>x_readback_artifact_id.
     take_result (id_field obj ''behavioral_probe_artifact_id'' path) (\<lambda>x_behavioral_probe_artifact_id.
     take_result (id_field obj ''privileged_authority_id'' path) (\<lambda>x_privileged_authority_id.
     Inr \<lparr>hv_requested = x_requested, hv_verified = x_verified,
         hv_readback_artifact_id = x_readback_artifact_id,
         hv_behavioral_probe_artifact_id = x_behavioral_probe_artifact_id,
         hv_privileged_authority_id = x_privileged_authority_id\<rparr>)))))))"

definition platform_fields :: "string list" where
  "platform_fields =
     [''schema_version'', ''protocol_version'', ''platform_id'', ''cpu'', ''topology'',
      ''memory'', ''software'', ''clock'', ''hardware_prefetch_states'', ''record_sha256'']"

definition load_platform :: "'d Value \<Rightarrow> 'd PlatformRecord Result" where
  "load_platform document =
     take_result (object_of document ''$out'') (\<lambda>obj.
     take_result (reject_unknown obj platform_fields ''$out'') (\<lambda>_.
     take_result (load_cpu obj) (\<lambda>cpu.
     take_result (load_topology obj) (\<lambda>topology.
     take_result (load_memory obj) (\<lambda>memory.
     take_result (load_software obj) (\<lambda>software.
     take_result (load_clock obj) (\<lambda>clock.
     take_result (required obj ''hardware_prefetch_states'' ''$out'') (\<lambda>v.
     take_result (array_of v ''$out/hardware_prefetch_states'') (\<lambda>items.
     (if length items < 2 then Inl [ValidationError out_of_range ''$out/hardware_prefetch_states'' ''HWP-STATE-COUNT''
          ''platform record requires at least two requested hardware states''] else
     take_result (load_items load_hardware_state ''$out/hardware_prefetch_states'' 0 items) (\<lambda>states.
     take_result (version_field obj ''schema_version'' ''$out'') (\<lambda>x_schema_version.
     take_result (version_field obj ''protocol_version'' ''$out'') (\<lambda>x_protocol_version.
     take_result (id_field obj ''platform_id'' ''$out'') (\<lambda>x_platform_id.
     take_result (sha_field obj ''record_sha256'' ''$out'') (\<lambda>x_record_sha256.
     Inr \<lparr>pf_schema_version = x_schema_version, pf_protocol_version = x_protocol_version,
         pf_platform_id = x_platform_id, pf_cpu = cpu, pf_topology = topology, pf_memory = memory,
         pf_software = software, pf_clock = clock, pf_hardware_prefetch_states = states,
         pf_record_sha256 = x_record_sha256, pf_source_document = document\<rparr>)))))))))))))))"

subsection \<open>Documents\<close>

fun load_value :: "('d \<Rightarrow> bool) \<Rightarrow> DocumentKind \<Rightarrow> 'd Value \<Rightarrow> 'd ProtocolRecord Result" where
  "load_value fp_negative Document_platform document =
     take_result (load_platform document) (\<lambda>r. Inr (Record_platform r))"
| "load_value fp_negative Document_schedule document =
     take_result (load_schedule document) (\<lambda>r. Inr (Record_schedule r))"
| "load_value fp_negative Document_raw_observation document =
     take_result (load_raw document) (\<lambda>r. Inr (Record_raw r document))"
| "load_value fp_negative Document_run_manifest document =
     take_result (load_manifest fp_negative document) (\<lambda>r. Inr (Record_manifest r))"
| "load_value fp_negative Document_block_plan document =
     take_result (load_block_plan document) (\<lambda>r. Inr (Record_block r))"
| "load_value fp_negative Document_failure_record document =
     take_result (load_failure document) (\<lambda>r. Inr (Record_failure r))"
| "load_value fp_negative Document_freeze_record document =
     take_result (load_freeze document) (\<lambda>r. Inr (Record_freeze r))"

definition load_document ::
  "'d binary64_ops \<Rightarrow> ('d \<Rightarrow> bool) \<Rightarrow> DocumentKind \<Rightarrow> string \<Rightarrow> 'd ProtocolRecord Result" where
  "load_document ops fp_negative kind json_text =
     take_result (json_parse ops json_text) (load_value fp_negative kind)"

definition amendment_view :: "'d FreezeRecord \<Rightarrow> AmendmentRecord Result" where
  "amendment_view record =
     (case (fz_supersedes_id record, fz_prior_protocol_version record, fz_new_protocol_version record) of
        (Some supersedes, Some prior, Some new) \<Rightarrow>
          if fz_record_kind record \<noteq> Kind_amendment \<or> fz_affected_documents record = [] \<or>
             fz_affected_schema_ids record = [] \<or> fz_affected_estimands record = [] \<or>
             fz_prior_authoritative_hashes record = []
          then Inl [ValidationError missing_evidence ''$out'' ''GOV-AMENDMENT-SHAPE''
            ''amendment view requires every protocol amendment evidence field'']
          else Inr \<lparr>am_record_id = fz_record_id record, am_supersedes_id = supersedes,
            am_prior_protocol_version = prior, am_new_protocol_version = new,
            am_affected_documents = fz_affected_documents record,
            am_affected_schema_ids = fz_affected_schema_ids record,
            am_affected_estimands = fz_affected_estimands record,
            am_affected_contrast_ids = fz_affected_contrast_ids record,
            am_prior_authoritative_hashes = fz_prior_authoritative_hashes record,
            am_record_sha256 = fz_record_sha256 record\<rparr>
      | _ \<Rightarrow> Inl [ValidationError missing_evidence ''$out'' ''GOV-AMENDMENT-SHAPE''
            ''amendment view requires every protocol amendment evidence field''])"

fun source_document :: "'d ProtocolRecord \<Rightarrow> 'd Value" where
  "source_document (Record_platform r) = pf_source_document r"
| "source_document (Record_schedule r) = sc_source_document r"
| "source_document (Record_raw r document) = document"
| "source_document (Record_manifest r) = rm_source_document r"
| "source_document (Record_block r) = bp_source_document r"
| "source_document (Record_failure r) = fr_source_document r"
| "source_document (Record_freeze r) = fz_source_document r"

definition ScientificConfiguration_load ::
  "'d binary64_ops \<Rightarrow> ('d \<Rightarrow> bool) \<Rightarrow> ('d \<Rightarrow> bool) \<Rightarrow> DocumentKind \<Rightarrow> string \<Rightarrow> 'd ProtocolRecord Result" where
  "ScientificConfiguration_load ops fp_negative fp_at_least_200000 kind text =
     take_result (load_document ops fp_negative kind text) (\<lambda>record.
       result_of (stage4_validate fp_at_least_200000 record) record)"

end
