(* ===== verification/Block_Planning.thy ===== *)
theory Block_Planning
  imports Load Json_Objects
begin

text \<open>
  Stage A block planning, \<^verbatim>\<open>orchestration/block_planning.hpp\<close> and \<^verbatim>\<open>orchestration/block_planning.cpp\<close>: the
  registered factorial, block identities, role namespaces, seed catalogs, the generator of a block
  plan and the validators of plans and pools. SHA-256 is the argument \<open>digest\<close>; an exception of the
  workload library (a failed digest, an exhausted permutation stream) is on the left of an outer sum.
  A \<^verbatim>\<open>std::set\<close> is the list of its distinct members in the order of insertion.
\<close>

subsection \<open>Inputs\<close>

definition kStageACellsPerBlock :: nat where "kStageACellsPerBlock = 180"
definition kStageACellsPerWholePlot :: nat where "kStageACellsPerWholePlot = 90"
definition kArrivalSeedCountPerBlock :: nat where "kArrivalSeedCountPerBlock = 18"
definition kArenaSeedCountPerBlock :: nat where "kArenaSeedCountPerBlock = 6"

record RoleNamespaceBinding =
  nb_role :: BlockRole
  nb_namespace_id :: Identifier
  nb_parent_namespace_id :: Identifier

record RoleNamespaceRegistry =
  ng_common_stage_a_namespace_id :: Identifier
  ng_role_bindings :: "RoleNamespaceBinding list"

record BlockSeedCatalog =
  bs_role :: BlockRole
  bs_role_namespace_id :: Identifier
  bs_block_subspace_id :: Identifier
  bs_derivation_artifact :: ArtifactReference
  bs_whole_plot_key :: PhiloxKey
  bs_h0_cell_order_key :: PhiloxKey
  bs_h1_cell_order_key :: PhiloxKey
  bs_arrival_seed_ids :: "Identifier list"
  bs_node_seed_ids :: "Identifier list"
  bs_event_seed_ids :: "Identifier list"

record ReplacementPlanInput =
  rl_replaced_block_id :: Identifier
  rl_replacement_authorization_id :: Identifier
  rl_replaced_block_ordinal :: u64
  rl_replaced_block_role :: BlockRole
  rl_replaced_seed_subspace_id :: Identifier

record BlockGenerationInput =
  gi_platform_id :: Identifier
  gi_build_id :: Identifier
  gi_role :: BlockRole
  gi_block_ordinal :: u64
  gi_seeds :: BlockSeedCatalog
  gi_replacement :: "ReplacementPlanInput option"

record 'd GeneratedBlockPlan =
  gp_plan :: "'d BlockPlan"
  gp_canonical_json :: string

subsection \<open>Names and indices of the factors\<close>

type_synonym WithinPlotKey = "QueuePackage \<times> Placement \<times> WorkingSetClass \<times> LoadLevel"

definition opaque :: "string \<Rightarrow> bool" where
  "opaque value \<longleftrightarrow> value \<noteq> [] \<and> CHR ''/'' \<notin> set value \<and> CHR 0x5C \<notin> set value"

fun role_name :: "BlockRole \<Rightarrow> string" where
  "role_name Block_h3_train = ''H3_TRAIN''"
| "role_name Block_h3_validation = ''H3_VALIDATION''"
| "role_name Block_h1h2_supplemental = ''H1H2_SUPPLEMENTAL''"
| "role_name Block_not_applicable = []"

fun package_name :: "QueuePackage \<Rightarrow> string" where
  "package_name Package_r0 = ''R0''"
| "package_name Package_r1 = ''R1''"
| "package_name Package_r2 = ''R2''"
| "package_name Package_l0 = ''L0''"
| "package_name Package_l1 = ''L1''"
| "package_name Package_nblfq_mpsc = []"
| "package_name Package_not_applicable = []"

fun hardware_name :: "RequestedHardwareState \<Rightarrow> string" where
  "hardware_name Requested_h0 = ''H0''"
| "hardware_name Requested_h1 = ''H1''"
| "hardware_name Requested_not_applicable = []"

fun placement_name :: "Placement \<Rightarrow> string" where
  "placement_name Placement_near = ''NEAR''"
| "placement_name Placement_far = ''FAR''"
| "placement_name Placement_stage_c_other = []"
| "placement_name Placement_not_applicable = []"

fun working_set_name :: "WorkingSetClass \<Rightarrow> string" where
  "working_set_name l2_resident = ''L2_RESIDENT''"
| "working_set_name llc_resident = ''LLC_RESIDENT''"
| "working_set_name beyond_llc = ''BEYOND_LLC''"
| "working_set_name WS_not_applicable = []"

fun load_name :: "LoadLevel \<Rightarrow> string" where
  "load_name Load_l025 = ''L025''"
| "load_name Load_l050 = ''L050''"
| "load_name Load_l075 = ''L075''"
| "load_name Load_calibration_ready = []"
| "load_name Load_stage_c_other = []"
| "load_name Load_not_applicable = []"

definition linked :: "QueuePackage \<Rightarrow> bool" where
  "linked package \<longleftrightarrow> package = Package_l0 \<or> package = Package_l1"

definition placement_index :: "Placement \<Rightarrow> nat option" where
  "placement_index placement =
     (if placement = Placement_near then Some 0
      else if placement = Placement_far then Some 1 else None)"

definition working_set_index :: "WorkingSetClass \<Rightarrow> nat option" where
  "working_set_index working_set =
     (if working_set = l2_resident then Some 0
      else if working_set = llc_resident then Some 1
      else if working_set = beyond_llc then Some 2 else None)"

definition load_index :: "LoadLevel \<Rightarrow> nat option" where
  "load_index load =
     (if load = Load_l025 then Some 0
      else if load = Load_l050 then Some 1
      else if load = Load_l075 then Some 2 else None)"

definition arena_index :: "Placement \<Rightarrow> WorkingSetClass \<Rightarrow> nat option" where
  "arena_index placement working_set =
     (case (placement_index placement, working_set_index working_set) of
        (Some p, Some w) \<Rightarrow> Some (p * 3 + w)
      | _ \<Rightarrow> None)"

definition arrival_index :: "Placement \<Rightarrow> WorkingSetClass \<Rightarrow> LoadLevel \<Rightarrow> nat option" where
  "arrival_index placement working_set load =
     (case (arena_index placement working_set, load_index load) of
        (Some a, Some l) \<Rightarrow> Some (a * 3 + l)
      | _ \<Rightarrow> None)"

definition stage_a_packages :: "QueuePackage list" where
  "stage_a_packages = [Package_r0, Package_r1, Package_r2, Package_l0, Package_l1]"

definition stage_a_states :: "RequestedHardwareState list" where
  "stage_a_states = [Requested_h0, Requested_h1]"

definition stage_a_placements :: "Placement list" where
  "stage_a_placements = [Placement_near, Placement_far]"

definition stage_a_working_sets :: "WorkingSetClass list" where
  "stage_a_working_sets = [l2_resident, llc_resident, beyond_llc]"

definition stage_a_loads :: "LoadLevel list" where
  "stage_a_loads = [Load_l025, Load_l050, Load_l075]"

definition expected_stage_a_cells :: "CellKey list" where
  "expected_stage_a_cells =
     [(package, state, placement, working_set, load).
        package \<leftarrow> stage_a_packages, state \<leftarrow> stage_a_states, placement \<leftarrow> stage_a_placements,
        working_set \<leftarrow> stage_a_working_sets, load \<leftarrow> stage_a_loads]"

text \<open>The vector \<^verbatim>\<open>base\<close> of \<^verbatim>\<open>generate_block_plan\<close>.\<close>

definition within_plot_base :: "WithinPlotKey list" where
  "within_plot_base =
     [(package, placement, working_set, load).
        package \<leftarrow> stage_a_packages, placement \<leftarrow> stage_a_placements,
        working_set \<leftarrow> stage_a_working_sets, load \<leftarrow> stage_a_loads]"

subsection \<open>Documents and hashes\<close>

definition sha_from_text :: "(u8 list \<Rightarrow> u8 list option) \<Rightarrow> string \<Rightarrow> workload_error + Sha256 Result" where
  "sha_from_text digest text =
     take_result (workload_sha256 digest (string_bytes text)) (\<lambda>d.
       Inr (Sha256_parse (Sha256Digest_hex d) ''$/sha256''))"

text \<open>Continuing with the value of a result that may also have thrown.\<close>

definition take_thrown ::
  "workload_error + 'a Result \<Rightarrow> ('a \<Rightarrow> workload_error + 'b Result) \<Rightarrow> workload_error + 'b Result" where
  "take_thrown result continue =
     (case result of
        Inl exc \<Rightarrow> Inl exc
      | Inr (Inl errors) \<Rightarrow> Inr (Inl errors)
      | Inr (Inr v) \<Rightarrow> continue v)"

definition identity_document :: "Identifier \<Rightarrow> Identifier \<Rightarrow> BlockRole \<Rightarrow> u64 \<Rightarrow> 'd Value" where
  "identity_document platform_id build_id role ordinal =
     JObject (json_object
       [(''block_ordinal'', uint_value ordinal),
        (''block_role'', JString (role_name role)),
        (''build_id'', JString (id_value build_id)),
        (''platform_id'', JString (id_value platform_id)),
        (''protocol_version'', JString kProtocolVersion),
        (''stage'', JString ''STAGE_A'')])"

definition cell_document :: "StageACell \<Rightarrow> 'd Value" where
  "cell_document cell =
     JObject (json_object
       [(''arrival_seed_ref'', JString (id_value (cell_arrival_seed_ref cell))),
        (''cell_ordinal'', uint_value (cell_cell_ordinal cell)),
        (''event_seed_ref'', JString (id_value (cell_event_seed_ref cell))),
        (''load_level'', JString (load_name (cell_load_level cell))),
        (''node_seed_ref'', case cell_node_seed_ref cell of
           Some node \<Rightarrow> JString (id_value node) | None \<Rightarrow> JNull),
        (''package'', JString (package_name (cell_package cell))),
        (''placement'', JString (placement_name (cell_placement cell))),
        (''requested_hardware_state'', JString (hardware_name (cell_requested_hardware_state cell))),
        (''working_set_class'', JString (working_set_name (cell_working_set_class cell)))])"

definition replacement_members :: "ReplacementPlanInput option \<Rightarrow> (string \<times> 'd Value) list" where
  "replacement_members replacement =
     (case replacement of
        Some r \<Rightarrow>
          [(''replacement_authorization_id'', JString (id_value (rl_replacement_authorization_id r))),
           (''replacement_lineage'', JObject (json_object
              [(''replaced_block_ordinal'', uint_value (rl_replaced_block_ordinal r)),
               (''replaced_block_role'', JString (role_name (rl_replaced_block_role r))),
               (''replaced_seed_subspace_id'', JString (id_value (rl_replaced_seed_subspace_id r)))])),
           (''replaces_block_id'', JString (id_value (rl_replaced_block_id r)))]
      | None \<Rightarrow>
          [(''replacement_authorization_id'', JNull), (''replacement_lineage'', JNull),
           (''replaces_block_id'', JNull)])"

definition block_document ::
  "BlockGenerationInput \<Rightarrow> Identifier \<Rightarrow> RequestedHardwareState \<times> RequestedHardwareState \<Rightarrow>
     StageACell list \<Rightarrow> string \<Rightarrow> 'd Value" where
  "block_document input block_id whole_plot_order cells plan_hash =
     JObject (json_object
       ([(''access_state'', JString ''PLANNED''),
         (''block_id'', JString (id_value block_id)),
         (''block_ordinal'', uint_value (gi_block_ordinal input)),
         (''block_role'', JString (role_name (gi_role input))),
         (''build_id'', JString (id_value (gi_build_id input))),
         (''cells'', JArray (map cell_document cells)),
         (''plan_sha256'', JString plan_hash),
         (''platform_id'', JString (id_value (gi_platform_id input))),
         (''protocol_version'', JString kProtocolVersion)] @
        replacement_members (gi_replacement input) @
        [(''schema_version'', JString kProtocolVersion),
         (''seed_subspace_id'', JString (id_value (bs_block_subspace_id (gi_seeds input)))),
         (''stage'', JString ''STAGE_A''),
         (''whole_plot_order'', JArray [JString (hardware_name (fst whole_plot_order)),
            JString (hardware_name (snd whole_plot_order))])]))"

definition find_binding :: "RoleNamespaceRegistry \<Rightarrow> BlockRole \<Rightarrow> RoleNamespaceBinding option" where
  "find_binding registry role = find (\<lambda>binding. nb_role binding = role) (ng_role_bindings registry)"

definition verify_plan_hash ::
  "'d binary64_ops \<Rightarrow> (u8 list \<Rightarrow> u8 list option) \<Rightarrow> 'd BlockPlan \<Rightarrow> workload_error + bool" where
  "verify_plan_hash ops digest block =
     (case as_object (bp_source_document block) of
        None \<Rightarrow> Inr False
      | Some source \<Rightarrow>
          if map_of source ''plan_sha256'' = None then Inr False
          else (case canonicalize ops (JObject (assign_member ''plan_sha256'' (JString zero_hash) source)) of
              Inl _ \<Rightarrow> Inr False
            | Inr canonical \<Rightarrow>
                take_result (sha_from_text digest canonical) (\<lambda>digested.
                  Inr (case digested of Inl _ \<Rightarrow> False | Inr sha \<Rightarrow> sha = bp_plan_sha256 block))))"

definition make_block_id ::
  "'d binary64_ops \<Rightarrow> (u8 list \<Rightarrow> u8 list option) \<Rightarrow> Identifier \<Rightarrow> Identifier \<Rightarrow> BlockRole \<Rightarrow> u64 \<Rightarrow>
     workload_error + Identifier Result" where
  "make_block_id ops digest platform_id build_id role block_ordinal =
     (if \<not> opaque (id_value platform_id) \<or> \<not> opaque (id_value build_id) \<or> role_name role = []
      then Inr (Inl [ValidationError invalid_id ''$/block_id'' ''BLK-ID-FIELDS''
        ''block identity fields must be opaque and Stage A compatible''])
      else take_thrown (Inr (canonicalize ops (identity_document platform_id build_id role block_ordinal)))
        (\<lambda>canonical. take_thrown (sha_from_text digest canonical) (\<lambda>sha.
          Inr (Identifier_parse (''stage-a-block-'' @ Sha256_hex sha) ''$/block_id''))))"

subsection \<open>Namespaces and seed catalogs\<close>

text \<open>
  The loop over the bindings with the sets \<^verbatim>\<open>roles\<close> and \<^verbatim>\<open>identifiers\<close>: a role that is known already
  leaves its namespace out of \<^verbatim>\<open>identifiers\<close>. The roles seen are returned with the errors.
\<close>

fun check_bindings ::
  "Identifier \<Rightarrow> nat \<Rightarrow> BlockRole list \<Rightarrow> string list \<Rightarrow> RoleNamespaceBinding list \<Rightarrow>
     ValidationError list \<times> BlockRole list" where
  "check_bindings parent index roles identifiers [] = ([], roles)"
| "check_bindings parent index roles identifiers (binding # rest) =
     (let shape = fail_if (role_name (nb_role binding) = [] \<or> \<not> opaque (id_value (nb_namespace_id binding)) \<or>
              \<not> opaque (id_value (nb_parent_namespace_id binding)) \<or> nb_parent_namespace_id binding \<noteq> parent)
            (ValidationError cross_field (''$/role_namespaces/role_bindings/'' @ std_to_string index)
              ''BLK-ROLE-NAMESPACE-PARENT''
              (''every registered role needs an explicit distinct child of the common '' @ ''namespace''));
          duplicate = [ValidationError duplicate_value ''$/role_namespaces/role_bindings''
            ''BLK-ROLE-NAMESPACE-UNIQUE'' ''role and namespace bindings must be unique and nonoverlapping''];
          name = id_value (nb_namespace_id binding);
          (unique, roles', identifiers') =
            (if nb_role binding \<in> set roles then (duplicate, roles, identifiers)
             else if name \<in> set identifiers then (duplicate, nb_role binding # roles, identifiers)
             else ([], nb_role binding # roles, name # identifiers));
          (errors, seen) = check_bindings parent (Suc index) roles' identifiers' rest
      in (shape @ unique @ errors, seen))"

definition required_roles :: "BlockRole list" where
  "required_roles = [Block_h3_train, Block_h3_validation, Block_h1h2_supplemental]"

definition validate_role_namespaces :: "RoleNamespaceRegistry \<Rightarrow> ValidationError list" where
  "validate_role_namespaces registry =
     (let common = ng_common_stage_a_namespace_id registry;
          (errors, roles) = check_bindings common 0 [] [id_value common] (ng_role_bindings registry)
      in fail_if (\<not> opaque (id_value common))
           (ValidationError invalid_id ''$/role_namespaces/common_stage_a_namespace_id'' ''BLK-NAMESPACE-OPAQUE''
             ''common Stage A namespace must be an opaque stored identity'') @
         errors @
         concat (map (\<lambda>role. fail_if (role \<notin> set roles)
           (ValidationError missing_evidence ''$/role_namespaces/role_bindings'' ''BLK-ROLE-NAMESPACE-COMPLETE''
             ''training, validation, and supplemental namespaces are all required'')) required_roles) @
         fail_if (length (ng_role_bindings registry) \<noteq> length required_roles)
           (ValidationError out_of_range ''$/role_namespaces/role_bindings'' ''BLK-ROLE-NAMESPACE-EXACT''
             ''the common Stage A pool has exactly three role namespaces''))"

text \<open>The lambda \<^verbatim>\<open>inspect\<close>: the identifiers seen so far are returned with the errors.\<close>

fun inspect_seeds ::
  "string \<Rightarrow> nat \<Rightarrow> string list \<Rightarrow> Identifier list \<Rightarrow> ValidationError list \<times> string list" where
  "inspect_seeds path index identifiers [] = ([], identifiers)"
| "inspect_seeds path index identifiers (seed # rest) =
     (let value = id_value seed;
          (errors, seen) = inspect_seeds path (Suc index)
            (if value \<in> set identifiers then identifiers else value # identifiers) rest
      in (fail_if (\<not> opaque value)
            (ValidationError invalid_id (path @ ''/'' @ std_to_string index) ''BLK-SEED-OPAQUE''
              ''seed identity must be stored and must not be interpreted as a path'') @
          fail_if (value \<in> set identifiers)
            (ValidationError duplicate_value path ''BLK-SEED-DOMAIN-SEPARATION''
              ''arrival, node, and event seed identities must be domain-separated'') @
          errors, seen))"

definition validate_seed_catalog :: "BlockSeedCatalog \<Rightarrow> RoleNamespaceRegistry \<Rightarrow> ValidationError list" where
  "validate_seed_catalog catalog registry =
     (let (arrival_errors, arrivals) =
            inspect_seeds ''$/seed_catalog/arrival_seed_ids'' 0 [] (bs_arrival_seed_ids catalog);
          (node_errors, nodes) =
            inspect_seeds ''$/seed_catalog/node_seed_ids'' 0 arrivals (bs_node_seed_ids catalog);
          (event_errors, events) =
            inspect_seeds ''$/seed_catalog/event_seed_ids'' 0 nodes (bs_event_seed_ids catalog)
      in validate_role_namespaces registry @
         fail_if (map_option nb_namespace_id (find_binding registry (bs_role catalog)) \<noteq>
               Some (bs_role_namespace_id catalog) \<or>
             \<not> opaque (id_value (bs_block_subspace_id catalog)) \<or>
             bs_block_subspace_id catalog = bs_role_namespace_id catalog \<or>
             bs_block_subspace_id catalog = ng_common_stage_a_namespace_id registry)
           (ValidationError reference_mismatch ''$/seed_catalog'' ''BLK-SEED-SUBSPACE-ROLE''
             ''block seed subspace must explicitly belong to its immutable role namespace'') @
         fail_if (\<not> opaque (id_value (ar_artifact_id (bs_derivation_artifact catalog))))
           (ValidationError invalid_id ''$/seed_catalog/derivation_artifact'' ''BLK-SEED-DERIVATION''
             ''randomization derivation evidence must have an opaque artifact identity'') @
         fail_if (length (bs_arrival_seed_ids catalog) \<noteq> kArrivalSeedCountPerBlock \<or>
             length (bs_node_seed_ids catalog) \<noteq> kArenaSeedCountPerBlock \<or>
             length (bs_event_seed_ids catalog) \<noteq> kArenaSeedCountPerBlock)
           (ValidationError out_of_range ''$/seed_catalog'' ''BLK-SEED-CARDINALITY''
             ''a block needs 18 arrival and six node/event arena seed identities'') @
         arrival_errors @ node_errors @ event_errors)"

subsection \<open>Validating a plan\<close>

text \<open>Whether the seeds of a cell are those of its context in the catalog.\<close>

definition seeds_shared :: "BlockSeedCatalog \<Rightarrow> StageACell \<Rightarrow> nat \<Rightarrow> nat \<Rightarrow> bool" where
  "seeds_shared seeds cell arrival arena \<longleftrightarrow>
     cell_arrival_seed_ref cell = bs_arrival_seed_ids seeds ! arrival \<and>
     cell_event_seed_ref cell = bs_event_seed_ids seeds ! arena \<and>
     cell_node_seed_ref cell =
       (if linked (cell_package cell) then Some (bs_node_seed_ids seeds ! arena) else None)"

text \<open>The checks of the factors and the seeds of one cell.\<close>

definition factor_errors :: "BlockSeedCatalog \<Rightarrow> string \<Rightarrow> StageACell \<Rightarrow> ValidationError list" where
  "factor_errors seeds path cell =
     (let unregistered = [ValidationError unknown_enum path ''BLK-REGISTERED-FACTORS''
            ''cell contains a factor outside the registered Stage A product''] in
      (case (arrival_index (cell_placement cell) (cell_working_set_class cell) (cell_load_level cell),
             arena_index (cell_placement cell) (cell_working_set_class cell)) of
         (Some arrival, Some arena) \<Rightarrow>
           if arrival \<ge> length (bs_arrival_seed_ids seeds) \<or> arena \<ge> length (bs_event_seed_ids seeds) \<or>
              arena \<ge> length (bs_node_seed_ids seeds)
           then unregistered
           else fail_if (\<not> seeds_shared seeds cell arrival arena)
             (ValidationError reference_mismatch path ''BLK-SEED-SHARING''
               (''arrival and persistent arena seed references must follow their '' @
                ''role-compatible matched domains''))
       | _ \<Rightarrow> unregistered))"

text \<open>
  The loop over the cells with the set \<^verbatim>\<open>actual\<close> and the array \<^verbatim>\<open>by_ordinal\<close>; a cell with a bad ordinal or
  an unregistered factor is left by \<^verbatim>\<open>continue\<close>.
\<close>

fun inspect_cells ::
  "BlockSeedCatalog \<Rightarrow> nat \<Rightarrow> CellKey list \<Rightarrow> StageACell option list \<Rightarrow> StageACell list \<Rightarrow>
     ValidationError list \<times> CellKey list \<times> StageACell option list" where
  "inspect_cells seeds index actual by_ordinal [] = ([], actual, by_ordinal)"
| "inspect_cells seeds index actual by_ordinal (cell # rest) =
     (let path = ''$/cells/'' @ std_to_string index;
          duplicate = fail_if (cell_key cell \<in> set actual)
            (ValidationError duplicate_value path ''BLK-FACTOR-DUPLICATE''
              ''each registered Stage A factor tuple must occur exactly once'');
          actual' = (if cell_key cell \<in> set actual then actual else cell_key cell # actual);
          ordinal = unat (cell_cell_ordinal cell)
      in if ordinal \<ge> length by_ordinal \<or> by_ordinal ! ordinal \<noteq> None
         then (let (errors, result) = inspect_cells seeds (Suc index) actual' by_ordinal rest
           in (duplicate @
               [ValidationError duplicate_value (path @ ''/cell_ordinal'') ''BLK-CELL-ORDINAL-EXACT''
                 ''cell ordinals must be unique and exactly cover 0 through 179''] @ errors, result))
         else
           (let (errors, result) = inspect_cells seeds (Suc index) actual' (by_ordinal[ordinal := Some cell]) rest
            in (duplicate @ factor_errors seeds path cell @ errors, result)))"

text \<open>The loop over the ordinals; either failure ends it.\<close>

fun check_plot_order ::
  "RequestedHardwareState \<times> RequestedHardwareState \<Rightarrow> nat \<Rightarrow> StageACell option list \<Rightarrow>
     ValidationError list" where
  "check_plot_order order ordinal [] = []"
| "check_plot_order order ordinal (None # rest) =
     [ValidationError missing_evidence ''$/cells'' ''BLK-CELL-ORDINAL-EXACT''
       ''cell ordinals must be unique and exactly cover 0 through 179'']"
| "check_plot_order order ordinal (Some cell # rest) =
     (if cell_requested_hardware_state cell \<noteq>
         (if ordinal < kStageACellsPerWholePlot then fst order else snd order)
      then [ValidationError cross_field (''$/cells/'' @ std_to_string ordinal) ''BLK-WHOLE-PLOT-ORDER''
        (''the first and second 90 logical ordinals must follow the frozen whole-plot '' @ ''order'')]
      else check_plot_order order (Suc ordinal) rest)"

definition within_plot_key :: "StageACell \<Rightarrow> WithinPlotKey" where
  "within_plot_key cell =
     (cell_package cell, cell_placement cell, cell_working_set_class cell, cell_load_level cell)"

definition check_plot_composition :: "StageACell option list \<Rightarrow> nat \<Rightarrow> ValidationError list" where
  "check_plot_composition by_ordinal plot =
     (let cells = take kStageACellsPerWholePlot (drop (plot * kStageACellsPerWholePlot) by_ordinal);
          within = remdups (map within_plot_key (List.map_filter (\<lambda>c. c) cells))
      in fail_if (length within \<noteq> kStageACellsPerWholePlot)
           (ValidationError cross_field ''$/cells'' ''BLK-WHOLE-PLOT-COMPOSITION''
             (''each hardware whole plot must contain all 90 package/context/load cells '' @ ''once'')))"

text \<open>The part of \<^verbatim>\<open>validate_block_plan\<close> from the loop over the cells on.\<close>

definition cell_checks :: "BlockSeedCatalog \<Rightarrow> 'd BlockPlan \<Rightarrow> ValidationError list" where
  "cell_checks seeds block =
     (let (cell_errors, actual, by_ordinal) =
        inspect_cells seeds 0 [] (replicate kStageACellsPerBlock None) (bp_cells block)
      in cell_errors @
         fail_if (length (bp_cells block) \<noteq> kStageACellsPerBlock \<or>
             length actual \<noteq> length expected_stage_a_cells \<or>
             \<not> list_all (\<lambda>key. key \<in> set actual) expected_stage_a_cells)
           (ValidationError cross_field ''$/cells'' ''BLK-EXACT-FACTORIAL-PROOF''
             ''block must equal the complete registered 5x2x2x3x3 Cartesian product'') @
         check_plot_order (bp_whole_plot_order block) 0 by_ordinal @
         check_plot_composition by_ordinal 0 @ check_plot_composition by_ordinal 1)"

definition validate_block_plan ::
  "'d binary64_ops \<Rightarrow> ('d \<Rightarrow> bool) \<Rightarrow> (u8 list \<Rightarrow> u8 list option) \<Rightarrow> 'd BlockPlan \<Rightarrow> BlockSeedCatalog \<Rightarrow>
     RoleNamespaceRegistry \<Rightarrow> workload_error + ValidationError list" where
  "validate_block_plan ops fp_at_least_200000 digest block seeds registry =
     take_result (make_block_id ops digest (bp_platform_id block) (bp_build_id block) (bp_block_role block)
         (bp_block_ordinal block)) (\<lambda>expected_id.
     take_result (verify_plan_hash ops digest block) (\<lambda>hash_ok.
       Inr (validate_seed_catalog seeds registry @
          stage4_validate fp_at_least_200000 (Record_block block) @
          fail_if (bp_protocol_version block \<noteq> V2_0_0_pre_2 \<or> bp_schema_version block \<noteq> V2_0_0_pre_2 \<or>
              bp_stage block \<noteq> Stage_stage_a)
            (ValidationError unsupported_version ''$/block_plan'' ''BLK-CURRENT-STAGE-A''
              ''new Stage 14 plans must use protocol 2.0.0-pre.2 and STAGE_A'') @
          fail_if (expected_id \<noteq> Inr (bp_block_id block) \<or> \<not> opaque (id_value (bp_block_id block)) \<or>
              \<not> opaque (id_value (bp_build_id block)))
            (ValidationError invalid_id ''$/block_id'' ''BLK-CANONICAL-ID''
              ''block ID must be derived from explicit fields and never from a path'') @
          fail_if (bp_block_role block \<noteq> bs_role seeds \<or> bp_seed_subspace_id block \<noteq> bs_block_subspace_id seeds)
            (ValidationError reference_mismatch ''$/seed_subspace_id'' ''BLK-SEED-CATALOG-BINDING''
              ''block role and seed subspace must match the immutable seed catalog'') @
          fail_if (\<not> hash_ok)
            (ValidationError invalid_hash ''$/plan_sha256'' ''BLK-PLAN-ZEROSELF-HASH''
              ''plan hash must match the accepted zero-self canonical record profile'') @
          cell_checks seeds block)))"

subsection \<open>Generating a plan\<close>

fun plot_cells ::
  "BlockSeedCatalog \<Rightarrow> RequestedHardwareState \<Rightarrow> u64 \<Rightarrow> usize list \<Rightarrow> StageACell list Result" where
  "plot_cells seeds state ordinal [] = Inr []"
| "plot_cells seeds state ordinal (selected # rest) =
     (case within_plot_base ! unat selected of (package, placement, working_set, load) \<Rightarrow>
       (case (arrival_index placement working_set load, arena_index placement working_set) of
          (Some arrival, Some arena) \<Rightarrow>
            take_result (plot_cells seeds state (ordinal + 1) rest) (\<lambda>cells. Inr
              (\<lparr>cell_cell_ordinal = ordinal, cell_package = package, cell_requested_hardware_state = state,
                cell_placement = placement, cell_working_set_class = working_set, cell_load_level = load,
                cell_arrival_seed_ref = bs_arrival_seed_ids seeds ! arrival,
                cell_node_seed_ref = (if linked package then Some (bs_node_seed_ids seeds ! arena) else None),
                cell_event_seed_ref = bs_event_seed_ids seeds ! arena\<rparr> # cells))
        | _ \<Rightarrow> Inl [ValidationError cross_field ''$/cells'' ''BLK-FACTOR-INDEX''
            ''registered factor could not map to its seed domain'']))"

text \<open>The two plots of a block, the second numbered on from the first.\<close>

definition generate_cells ::
  "BlockSeedCatalog \<Rightarrow> RequestedHardwareState \<times> RequestedHardwareState \<Rightarrow> usize list \<Rightarrow> usize list \<Rightarrow>
     StageACell list Result" where
  "generate_cells seeds whole_plot_order h0_order h1_order =
     (let order_of = (\<lambda>state. if state = Requested_h0 then h0_order else h1_order) in
      take_result (plot_cells seeds (fst whole_plot_order) 0 (order_of (fst whole_plot_order))) (\<lambda>cells1.
      take_result (plot_cells seeds (snd whole_plot_order) (of_nat (length cells1))
          (order_of (snd whole_plot_order))) (\<lambda>cells2. Inr (cells1 @ cells2))))"

definition finish_block_plan ::
  "'d binary64_ops \<Rightarrow> ('d \<Rightarrow> bool) \<Rightarrow> ('d \<Rightarrow> bool) \<Rightarrow> (u8 list \<Rightarrow> u8 list option) \<Rightarrow> BlockGenerationInput \<Rightarrow>
     RoleNamespaceRegistry \<Rightarrow> (string \<Rightarrow> 'd Value) \<Rightarrow> workload_error + 'd GeneratedBlockPlan Result" where
  "finish_block_plan ops fp_negative fp_at_least_200000 digest input registry document =
     take_thrown (Inr (canonicalize ops (document zero_hash))) (\<lambda>zero_canonical.
     take_thrown (sha_from_text digest zero_canonical) (\<lambda>plan_hash.
     (let final_document = document (Sha256_hex plan_hash) in
     take_thrown (Inr (canonicalize ops final_document)) (\<lambda>canonical.
     take_thrown (Inr (load_value fp_negative Document_block_plan final_document)) (\<lambda>loaded.
       case loaded of
         Record_block loaded_plan \<Rightarrow>
           take_result (validate_block_plan ops fp_at_least_200000 digest loaded_plan (gi_seeds input) registry)
             (\<lambda>validation. Inr (result_of validation \<lparr>gp_plan = loaded_plan, gp_canonical_json = canonical\<rparr>))
       | _ \<Rightarrow> Inr (Inl [ValidationError invalid_type ''$/block_plan'' ''BLK-GENERATION-TYPE''
           ''generated document did not decode as a block plan'']))))))"

definition generate_block_plan ::
  "'d binary64_ops \<Rightarrow> ('d \<Rightarrow> bool) \<Rightarrow> ('d \<Rightarrow> bool) \<Rightarrow> (u8 list \<Rightarrow> u8 list option) \<Rightarrow> BlockGenerationInput \<Rightarrow>
     RoleNamespaceRegistry \<Rightarrow> workload_error + 'd GeneratedBlockPlan Result" where
  "generate_block_plan ops fp_negative fp_at_least_200000 digest input registry =
     (let seeds = gi_seeds input; seed_errors = validate_seed_catalog seeds registry in
      if seed_errors \<noteq> [] then Inr (Inl seed_errors)
      else if gi_role input \<noteq> bs_role seeds \<or> \<not> opaque (id_value (gi_build_id input))
      then Inr (Inl [ValidationError reference_mismatch ''$/block_generation'' ''BLK-GENERATION-IDENTITY''
        ''block role and build identity must match explicit prospective inputs''])
      else if (case gi_replacement input of None \<Rightarrow> False | Some r \<Rightarrow> rl_replaced_block_role r \<noteq> gi_role input)
      then Inr (Inl [ValidationError cross_field ''$/replacement'' ''BLK-ROLE-IMMUTABLE''
        ''replacement must preserve the original block role''])
      else take_thrown (make_block_id ops digest (gi_platform_id input) (gi_build_id input) (gi_role input)
          (gi_block_ordinal input)) (\<lambda>block_id.
        if map_option rl_replaced_block_id (gi_replacement input) = Some block_id
        then Inr (Inl [ValidationError cross_field ''$/replacement/replaced_block_id'' ''BLK-REPLACEMENT-NEW-ID''
          ''replacement block identity must be new''])
        else
          take_result (make_permutation 2 (stream_draw (bs_whole_plot_key seeds))) (\<lambda>plots.
          take_result (make_permutation (of_nat (length within_plot_base)) (stream_draw (bs_h0_cell_order_key seeds))) (\<lambda>h0_order.
          take_result (make_permutation (of_nat (length within_plot_base)) (stream_draw (bs_h1_cell_order_key seeds))) (\<lambda>h1_order.
          (let whole_plot_order = (stage_a_states ! unat (plots ! 0), stage_a_states ! unat (plots ! 1)) in
          take_thrown (Inr (generate_cells seeds whole_plot_order h0_order h1_order)) (\<lambda>cells.
            finish_block_plan ops fp_negative fp_at_least_200000 digest input registry
              (block_document input block_id whole_plot_order cells))))))))"

subsection \<open>Validating a pool\<close>

record pool_state =
  ps_block_ids :: "string list"
  ps_ordinals :: "u64 list"
  ps_subspaces :: "string list"
  ps_seed_ids :: "string list"
  ps_roles :: "BlockRole \<Rightarrow> u64"
  ps_h0_first :: u64
  ps_h1_first :: u64

text \<open>The three insertions, each tried only where the ones before it were new.\<close>

definition insert_identity :: "'d BlockPlan \<Rightarrow> BlockSeedCatalog \<Rightarrow> pool_state \<Rightarrow> bool \<times> pool_state" where
  "insert_identity block catalog s =
     (let block_id = id_value (bp_block_id block); ordinal = bp_block_ordinal block;
          subspace = id_value (bs_block_subspace_id catalog);
          s1 = s\<lparr>ps_block_ids := block_id # ps_block_ids s\<rparr>;
          s2 = s1\<lparr>ps_ordinals := ordinal # ps_ordinals s\<rparr>
      in if block_id \<in> set (ps_block_ids s) then (True, s)
         else if ordinal \<in> set (ps_ordinals s) then (True, s1)
         else if subspace \<in> set (ps_subspaces s) then (True, s2)
         else (False, s2\<lparr>ps_subspaces := subspace # ps_subspaces s\<rparr>))"

fun insert_seeds :: "Identifier list \<Rightarrow> string list \<Rightarrow> ValidationError list \<times> string list" where
  "insert_seeds [] seen = ([], seen)"
| "insert_seeds (seed # rest) seen =
     (let name = id_value seed;
          (errors, result) = insert_seeds rest (if name \<in> set seen then seen else name # seen)
      in (fail_if (name \<in> set seen)
            (ValidationError duplicate_value ''$/block_pool/seed_catalogs'' ''BLK-POOL-SEED-NO-REUSE''
              ''role-specific block seed identities cannot overlap across blocks'') @ errors, result))"

fun inspect_pool ::
  "('d BlockPlan \<Rightarrow> BlockSeedCatalog \<Rightarrow> workload_error + ValidationError list) \<Rightarrow> nat \<Rightarrow>
     ('d BlockPlan \<times> BlockSeedCatalog) list \<Rightarrow> pool_state \<Rightarrow> workload_error + ValidationError list \<times> pool_state" where
  "inspect_pool validate index [] s = Inr ([], s)"
| "inspect_pool validate index ((block, catalog) # rest) s =
     take_result (validate block catalog) (\<lambda>block_errors.
       let (known, s1) = insert_identity block catalog s;
           role = bp_block_role block;
           first = fst (bp_whole_plot_order block);
           (seed_errors, seen) = insert_seeds
             (bs_arrival_seed_ids catalog @ bs_node_seed_ids catalog @ bs_event_seed_ids catalog) (ps_seed_ids s1);
           s2 = s1\<lparr>ps_roles := (ps_roles s1)(role := ps_roles s1 role + 1),
             ps_h0_first := ps_h0_first s1 + (if first = Requested_h0 then 1 else 0),
             ps_h1_first := ps_h1_first s1 + (if first = Requested_h1 then 1 else 0),
             ps_seed_ids := seen\<rparr>
       in take_result (inspect_pool validate (Suc index) rest s2) (\<lambda>(errors, result).
            Inr (block_errors @
              fail_if known
                (ValidationError duplicate_value (''$/block_pool/'' @ std_to_string index) ''BLK-POOL-IDENTITY-UNIQUE''
                  ''block IDs, ordinals, and block seed subspaces must be globally unique'') @
              seed_errors @ errors, result)))"

definition pool_count_overflow :: "ValidationError list" where
  "pool_count_overflow =
     [ValidationError out_of_range ''$/block_pool'' ''BLK-POOL-COUNT-OVERFLOW'' ''role-count sum overflows u64'']"

definition validate_block_pool ::
  "'d binary64_ops \<Rightarrow> ('d \<Rightarrow> bool) \<Rightarrow> (u8 list \<Rightarrow> u8 list option) \<Rightarrow> 'd BlockPlan list \<Rightarrow>
     BlockSeedCatalog list \<Rightarrow> RoleNamespaceRegistry \<Rightarrow> u64 \<Rightarrow> u64 \<Rightarrow> u64 \<Rightarrow> workload_error + ValidationError list" where
  "validate_block_pool ops fp_at_least_200000 digest blocks seed_catalogs registry
       expected_train_blocks expected_validation_blocks expected_supplemental_blocks =
     (if expected_train_blocks > u64_max - expected_validation_blocks then Inr pool_count_overflow
      else if expected_train_blocks + expected_validation_blocks > u64_max - expected_supplemental_blocks
      then Inr pool_count_overflow
      else
        (let expected_total = expected_train_blocks + expected_validation_blocks + expected_supplemental_blocks in
         take_result (inspect_pool (\<lambda>block catalog. validate_block_plan ops fp_at_least_200000 digest block catalog registry) 0
             (zip blocks seed_catalogs)
             \<lparr>ps_block_ids = [], ps_ordinals = [], ps_subspaces = [], ps_seed_ids = [], ps_roles = (\<lambda>_. 0),
               ps_h0_first = 0, ps_h1_first = 0\<rparr>) (\<lambda>(errors, s). Inr (
           fail_if (of_nat (length blocks) \<noteq> expected_total \<or> length seed_catalogs \<noteq> length blocks)
             (ValidationError out_of_range ''$/block_pool'' ''BLK-POOL-EXACT-COUNT''
               ''block and seed-catalog counts must equal the frozen role-count sum'') @
           errors @
           fail_if (ps_roles s Block_h3_train \<noteq> expected_train_blocks \<or>
               ps_roles s Block_h3_validation \<noteq> expected_validation_blocks \<or>
               ps_roles s Block_h1h2_supplemental \<noteq> expected_supplemental_blocks)
             (ValidationError cross_field ''$/block_pool/roles'' ''BLK-POOL-ROLE-COUNTS''
               ''immutable block roles must exactly equal the prospective precision counts'') @
           fail_if ((if ps_h0_first s > ps_h1_first s then ps_h0_first s - ps_h1_first s
                else ps_h1_first s - ps_h0_first s) > 1)
             (ValidationError cross_field ''$/block_pool/whole_plot_order'' ''BLK-WHOLE-PLOT-COUNTERBALANCE''
               ''H0-first and H1-first whole-plot counts must differ by at most one'')))))"

end
