(* ===== verification/Precision.thy ===== *)
theory Precision
  imports Block_Planning
begin

text \<open>
  The prospective precision plan, \<^verbatim>\<open>orchestration/precision.hpp\<close> and \<^verbatim>\<open>orchestration/precision.cpp\<close>: the
  registered contrast families, the comparisons of candidates and the arithmetic that turns the
  required block counts into the counts of the three block roles.
\<close>

subsection \<open>Data\<close>

definition kH1ContrastCount :: nat where "kH1ContrastCount = 7"
definition kH2ContrastCount :: nat where "kH2ContrastCount = 20"
definition kH3TrainingPairCount :: nat where "kH3TrainingPairCount = 270"
definition kH3ValidationFamilyCount :: nat where "kH3ValidationFamilyCount = 540"
definition kH3ReportedComparisonCount :: nat where "kH3ReportedComparisonCount = 54"
definition kH3SelectionRuleId :: string where
  "kH3SelectionRuleId = ''H3-MEAN-LOG-P999-MIN-CANDIDATE-ORDER-v1''"

datatype PrecisionState = Precision_not_evaluated | Precision_resolved | Precision_infeasible

record ProspectiveCounts =
  pc_r_h1 :: u64
  pc_r_h2 :: u64
  pc_r12 :: u64
  pc_rtrain :: u64
  pc_rval :: u64
  pc_rtotal :: u64
  pc_nruns :: u64

record ProspectivePrecisionEvidence =
  pe_delta_star :: ArtifactReference
  pe_bootstrap_configuration :: ArtifactReference
  pe_h1_sizing :: ArtifactReference
  pe_h2_sizing :: ArtifactReference
  pe_h3_training_sizing :: ArtifactReference
  pe_h3_validation_sizing :: ArtifactReference
  pe_input_artifacts :: "AccessInputArtifact list"

record PrecisionPlanInput =
  pn_counts :: "ProspectiveCounts option"
  pn_evidence :: "ProspectivePrecisionEvidence option"

record RoleCounts =
  ro_h3_train :: u64
  ro_h3_validation :: u64
  ro_h1h2_supplemental :: u64

record PrecisionResult =
  px_state :: PrecisionState
  px_counts :: "ProspectiveCounts option"
  px_role_counts :: "RoleCounts option"
  px_evidence :: "ProspectivePrecisionEvidence option"
  px_blockers :: "string list"

record H3Comparison =
  cmp_context :: H3Context
  cmp_left :: H3Candidate
  cmp_right :: H3Candidate

subsection \<open>Registered families\<close>

definition h1_contrast_ids :: "string list" where
  "h1_contrast_ids =
     [''H1-SW-R1'', ''H1-SW-R2'', ''H1-HQ'', ''H1-HS-R1'', ''H1-HS-R2'', ''H1-HS-L1'', ''H1-R12'']"

definition h2_contrast_ids :: "string list" where
  "h2_contrast_ids =
     [''H2-P-H'', ''H2-P-R1'', ''H2-P-R2'', ''H2-P-L1'', ''H2-W12-H'',
      ''H2-W12-R1'', ''H2-W12-R2'', ''H2-W12-L1'', ''H2-W23-H'', ''H2-W23-R1'',
      ''H2-W23-R2'', ''H2-W23-L1'', ''H2-A12-H'', ''H2-A12-R1'', ''H2-A12-R2'',
      ''H2-A12-L1'', ''H2-A23-H'', ''H2-A23-R1'', ''H2-A23-R2'', ''H2-A23-L1'']"

definition h3_contexts :: "H3Context list" where
  "h3_contexts =
     [Context_near_l2_l050, Context_near_llc_l050, Context_near_beyond_llc_l050,
      Context_far_l2_l050, Context_far_llc_l050, Context_far_beyond_llc_l050]"

definition h3_candidates :: "H3Candidate list" where
  "h3_candidates =
     concat (map (\<lambda>package. map (\<lambda>state. \<lparr>hc_package = package, hc_requested_hardware_state = state\<rparr>)
       [Requested_h0, Requested_h1]) [Package_r0, Package_r1, Package_r2, Package_l0, Package_l1])"

definition candidate_equal :: "H3Candidate \<Rightarrow> H3Candidate \<Rightarrow> bool" where
  "candidate_equal left right \<longleftrightarrow>
     hc_package left = hc_package right \<and> hc_requested_hardware_state left = hc_requested_hardware_state right"

definition candidate_valid :: "H3Candidate \<Rightarrow> bool" where
  "candidate_valid candidate \<longleftrightarrow> list_ex (candidate_equal candidate) h3_candidates"

definition evidence_valid :: "ArtifactReference \<Rightarrow> bool" where
  "evidence_valid evidence \<longleftrightarrow> opaque (id_value (ar_artifact_id evidence))"

definition h3_training_pairs :: "H3Comparison list" where
  "h3_training_pairs =
     concat (map (\<lambda>ctx. concat (map (\<lambda>left. map (\<lambda>right.
       \<lparr>cmp_context = ctx, cmp_left = h3_candidates ! left, cmp_right = h3_candidates ! right\<rparr>)
       [Suc left..<length h3_candidates]) [0..<length h3_candidates])) h3_contexts)"

definition h3_validation_family :: "H3Comparison list" where
  "h3_validation_family =
     concat (map (\<lambda>ctx. concat (map (\<lambda>left. map (\<lambda>right.
       \<lparr>cmp_context = ctx, cmp_left = h3_candidates ! left, cmp_right = h3_candidates ! right\<rparr>)
       (filter (\<lambda>right. left \<noteq> right) [0..<length h3_candidates])) [0..<length h3_candidates])) h3_contexts)"

text \<open>The \<^verbatim>\<open>std::map\<close> of the selections is the list of its entries, one for each context it has.\<close>

definition six_selections :: "(H3Context \<times> H3Candidate) list \<Rightarrow> bool" where
  "six_selections selections \<longleftrightarrow>
     length selections = length h3_contexts \<and>
     list_all (\<lambda>ctx. case map_of selections ctx of None \<Rightarrow> False | Some candidate \<Rightarrow> candidate_valid candidate) h3_contexts"

definition h3_reported_comparisons :: "(H3Context \<times> H3Candidate) list \<Rightarrow> H3Comparison list Result" where
  "h3_reported_comparisons selections =
     (if \<not> six_selections selections
      then Inl [ValidationError cross_field ''$/h3_selections'' ''H3-EXACT-SIX-SELECTIONS''
        ''reporting requires one registered candidate for each of six stable contexts'']
      else Inr (concat (map (\<lambda>ctx. map (\<lambda>alternative.
        \<lparr>cmp_context = ctx, cmp_left = the (map_of selections ctx), cmp_right = alternative\<rparr>)
        (filter (\<lambda>alternative. \<not> candidate_equal (the (map_of selections ctx)) alternative) h3_candidates)) h3_contexts)))"

subsection \<open>The precision plan\<close>

definition sizing_references :: "ProspectivePrecisionEvidence \<Rightarrow> ArtifactReference list" where
  "sizing_references evidence =
     [pe_delta_star evidence, pe_bootstrap_configuration evidence, pe_h1_sizing evidence,
      pe_h2_sizing evidence, pe_h3_training_sizing evidence, pe_h3_validation_sizing evidence]"

text \<open>\<^verbatim>\<open>std::all_of\<close> with the insertion into the set of the identities.\<close>

fun references_distinct :: "string list \<Rightarrow> ArtifactReference list \<Rightarrow> bool" where
  "references_distinct ids [] \<longleftrightarrow> True"
| "references_distinct ids (reference # rest) \<longleftrightarrow>
     evidence_valid reference \<and> id_value (ar_artifact_id reference) \<notin> set ids \<and>
     references_distinct (id_value (ar_artifact_id reference) # ids) rest"

definition source_permitted :: "AccessInputArtifact \<Rightarrow> bool" where
  "source_permitted source \<longleftrightarrow>
     evidence_valid (ai_artifact source) \<and>
     (ai_access_class source = Class_treatment_blind \<or> ai_access_class source = Class_public_protocol \<or>
      ai_access_class source = Class_platform_evidence)"

text \<open>The loop returns at the first source that is not permitted.\<close>

fun check_sources :: "nat \<Rightarrow> AccessInputArtifact list \<Rightarrow> ValidationError list" where
  "check_sources index [] = []"
| "check_sources index (source # rest) =
     (if \<not> source_permitted source
      then [ValidationError cross_field (''$/precision/input_artifacts/'' @ std_to_string index)
        ''PRECISION-NO-OUTCOME-ACCESS''
        (''training, validation, or unsealed outcomes cannot '' @ ''size any precision family'')]
      else check_sources (Suc index) rest)"

definition evaluate_precision_plan :: "PrecisionPlanInput \<Rightarrow> PrecisionResult Result" where
  "evaluate_precision_plan input =
     (case (pn_counts input, pn_evidence input) of
        (Some n, Some evidence) \<Rightarrow>
          (let sums = pc_rtrain n + pc_rval n;
               roles = \<lparr>ro_h3_train = pc_rtrain n, ro_h3_validation = pc_rval n,
                 ro_h1h2_supplemental = (if pc_r12 n > sums then pc_r12 n - sums else 0)\<rparr>
           in if \<not> references_distinct [] (sizing_references evidence)
           then Inl [ValidationError missing_evidence ''$/precision/evidence'' ''PRECISION-EVIDENCE-EXACT''
             (''delta, bootstrap, separate H1/H2, and separate H3 '' @
              ''sizing evidence must be distinct and immutable'')]
           else if pe_input_artifacts evidence = []
           then Inl [ValidationError missing_evidence ''$/precision/input_artifacts'' ''PRECISION-PROSPECTIVE-SOURCES''
             ''prospective sizing must name treatment-blind input evidence'']
           else if check_sources 0 (pe_input_artifacts evidence) \<noteq> []
           then Inl (check_sources 0 (pe_input_artifacts evidence))
           else if pc_r_h1 n < 20 \<or> pc_r_h2 n < 20 \<or> pc_rtrain n < 12 \<or> pc_rval n < 8
           then Inl [ValidationError out_of_range ''$/precision/counts'' ''PRECISION-MINIMA''
             ''H1/H2 require at least 20 blocks, H3 training 12, and validation 8'']
           else if pc_r12 n \<noteq> max (pc_r_h1 n) (pc_r_h2 n)
           then Inl [ValidationError cross_field ''$/precision/counts/r12'' ''PRECISION-R12''
             ''R12 must equal max(R_H1,R_H2) with separate families'']
           else if pc_rtrain n > u64_max - pc_rval n
           then Inl [ValidationError out_of_range ''$/precision/counts'' ''PRECISION-COUNT-OVERFLOW''
             ''Rtrain+Rval overflows u64'']
           else if pc_rtotal n \<noteq> max (pc_r12 n) sums
           then Inl [ValidationError cross_field ''$/precision/counts/rtotal'' ''PRECISION-RTOTAL''
             ''Rtotal must equal max(R12,Rtrain+Rval) without outcome-based resizing'']
           else if pc_rtotal n > u64_max div of_nat kStageACellsPerBlock \<or>
               pc_nruns n \<noteq> pc_rtotal n * of_nat kStageACellsPerBlock
           then Inl [ValidationError cross_field ''$/precision/counts/nruns'' ''PRECISION-NRUNS''
             ''Nruns must equal checked 180*Rtotal'']
           else if pc_r_h1 n > 30 \<or> pc_r_h2 n > 30
           then Inr \<lparr>px_state = Precision_infeasible, px_counts = Some n, px_role_counts = Some roles,
             px_evidence = Some evidence,
             px_blockers = [''an H1 or H2 requirement exceeds the frozen go/no-go ceiling of 30'']\<rparr>
           else if length h1_contrast_ids \<noteq> kH1ContrastCount \<or> length h2_contrast_ids \<noteq> kH2ContrastCount \<or>
               length h3_training_pairs \<noteq> kH3TrainingPairCount \<or>
               length h3_validation_family \<noteq> kH3ValidationFamilyCount
           then Inl [ValidationError cross_field ''$/precision/registries'' ''PRECISION-REGISTRY-INTERNAL''
             ''registered family cardinality is inconsistent'']
           else Inr \<lparr>px_state = Precision_resolved, px_counts = Some n, px_role_counts = Some roles,
             px_evidence = Some evidence, px_blockers = []\<rparr>)
      | _ \<Rightarrow> Inr \<lparr>px_state = Precision_not_evaluated, px_counts = None, px_role_counts = None, px_evidence = None,
             px_blockers = [''prospective precision counts and immutable evidence are required'']\<rparr>)"

subsection \<open>The registered families are complete\<close>

lemma registered_families:
  "length h1_contrast_ids = 7" "length h2_contrast_ids = 20"
  "length h3_training_pairs = 270" "length h3_validation_family = 540"
  "length h3_candidates = 10" "distinct h3_candidates" "distinct h3_contexts" "set h3_contexts = UNIV"
proof -
  have "ctx \<in> set h3_contexts" for ctx by (cases ctx) (simp_all add: h3_contexts_def)
  then show "set h3_contexts = UNIV" by blast
qed (code_simp, code_simp, code_simp, code_simp, code_simp, code_simp, code_simp)


subsection \<open>The arithmetic of the counts\<close>

text \<open>The counts a resolved plan must have, over the unbounded integers.\<close>

definition counts_resolved :: "ProspectiveCounts \<Rightarrow> bool" where
  "counts_resolved n \<longleftrightarrow>
     20 \<le> unat (pc_r_h1 n) \<and> unat (pc_r_h1 n) \<le> 30 \<and> 20 \<le> unat (pc_r_h2 n) \<and> unat (pc_r_h2 n) \<le> 30 \<and>
     12 \<le> unat (pc_rtrain n) \<and> 8 \<le> unat (pc_rval n) \<and>
     unat (pc_r12 n) = max (unat (pc_r_h1 n)) (unat (pc_r_h2 n)) \<and>
     unat (pc_rtotal n) = max (unat (pc_r12 n)) (unat (pc_rtrain n) + unat (pc_rval n)) \<and>
     unat (pc_nruns n) = 180 * unat (pc_rtotal n)"

definition evidence_prospective :: "ProspectivePrecisionEvidence \<Rightarrow> bool" where
  "evidence_prospective evidence \<longleftrightarrow>
     (\<forall>reference \<in> set (sizing_references evidence). opaque (id_value (ar_artifact_id reference))) \<and>
     distinct (map (\<lambda>reference. id_value (ar_artifact_id reference)) (sizing_references evidence)) \<and>
     pe_input_artifacts evidence \<noteq> [] \<and>
     (\<forall>source \<in> set (pe_input_artifacts evidence). opaque (id_value (ar_artifact_id (ai_artifact source))) \<and>
        ai_access_class source \<notin> {Class_training_only, Class_validation_sealed, Class_validation_unsealed})"

lemma references_distinct_iff:
  "references_distinct ids refs \<longleftrightarrow>
     (\<forall>r \<in> set refs. opaque (id_value (ar_artifact_id r))) \<and> distinct (map (\<lambda>r. id_value (ar_artifact_id r)) refs) \<and>
     set (map (\<lambda>r. id_value (ar_artifact_id r)) refs) \<inter> set ids = {}"
  by (induction refs arbitrary: ids) (auto simp: evidence_valid_def)

lemma source_permitted_iff:
  "source_permitted source \<longleftrightarrow> opaque (id_value (ar_artifact_id (ai_artifact source))) \<and>
     ai_access_class source \<notin> {Class_training_only, Class_validation_sealed, Class_validation_unsealed}"
  by (cases "ai_access_class source") (simp_all add: source_permitted_def evidence_valid_def)

lemma check_sources_clean: "check_sources index sources = [] \<longleftrightarrow> (\<forall>s \<in> set sources. source_permitted s)"
  by (induction sources arbitrary: index) auto

lemma evidence_prospective_iff:
  "evidence_prospective evidence \<longleftrightarrow>
     references_distinct [] (sizing_references evidence) \<and> pe_input_artifacts evidence \<noteq> [] \<and>
     check_sources 0 (pe_input_artifacts evidence) = []"
  by (auto simp: evidence_prospective_def references_distinct_iff check_sources_clean source_permitted_iff)

lemma unat_max: "unat (max a b :: u64) = max (unat a) (unat b)"
  by (simp add: max_def word_le_nat_alt)

lemma sums_fit: "\<not> (a :: u64) > u64_max - b \<longleftrightarrow> unat a + unat b < 2 ^ 64"
proof -
  have "unat (u64_max - b) = 2 ^ 64 - 1 - unat b" by (simp add: unat_sub)
  then show ?thesis using unat_u64_lt [of b] by (auto simp: word_less_nat_alt not_less)
qed

lemma product_fits:
  "\<not> ((t :: u64) > u64_max div of_nat kStageACellsPerBlock \<or> r \<noteq> t * of_nat kStageACellsPerBlock) \<longleftrightarrow> unat r = 180 * unat t"
proof -
  have d: "unat (u64_max div (180 :: u64)) = (2 ^ 64 - 1) div 180" by (simp add: unat_div)
  have r: "unat r < 2 ^ 64" by (rule unat_u64_lt)
  show ?thesis
  proof (cases "180 * unat t < 2 ^ 64")
    case True
    then have "unat (t * 180) = 180 * unat t" by (simp add: unat_word_ariths mult.commute)
    moreover have "\<not> t > u64_max div 180" using True unfolding word_less_nat_alt d by simp
    ultimately show ?thesis by (simp add: kStageACellsPerBlock_def word_unat_eq_iff eq_commute)
  next
    case False
    then have "t > u64_max div 180" unfolding word_less_nat_alt d by simp
    with False r show ?thesis by (simp add: kStageACellsPerBlock_def)
  qed
qed

definition role_counts_of :: "ProspectiveCounts \<Rightarrow> RoleCounts" where
  "role_counts_of n = \<lparr>ro_h3_train = pc_rtrain n, ro_h3_validation = pc_rval n,
     ro_h1h2_supplemental = of_nat (unat (pc_r12 n) - (unat (pc_rtrain n) + unat (pc_rval n)))\<rparr>"

text \<open>
  C35. A precision plan is resolved exactly when its evidence is prospective (distinct immutable sizing records, and
  sources without outcomes) and its counts, read as natural numbers without wrap-around, are within their bounds and
  consistent; the result then carries the plan and role counts that add up to the total number of blocks.
\<close>

theorem precision_resolved_exact:
  "(evaluate_precision_plan input = Inr r \<and> px_state r = Precision_resolved) \<longleftrightarrow>
     (\<exists>n evidence. pn_counts input = Some n \<and> pn_evidence input = Some evidence \<and>
        evidence_prospective evidence \<and> counts_resolved n \<and>
        r = \<lparr>px_state = Precision_resolved, px_counts = Some n, px_role_counts = Some (role_counts_of n),
          px_evidence = Some evidence, px_blockers = []\<rparr> \<and>
        unat (ro_h3_train (role_counts_of n)) + unat (ro_h3_validation (role_counts_of n)) +
          unat (ro_h1h2_supplemental (role_counts_of n)) = unat (pc_rtotal n))"
proof -
  have roles: "(if pc_r12 n > pc_rtrain n + pc_rval n then pc_r12 n - (pc_rtrain n + pc_rval n) else 0) =
      ro_h1h2_supplemental (role_counts_of n)" if "unat (pc_rtrain n) + unat (pc_rval n) < 2 ^ 64" for n
    using unat_plus_u64 [OF that]
    by (auto simp: role_counts_of_def word_less_nat_alt word_unat_eq_iff unat_sub word_le_nat_alt unat_of_nat_u64
        unat_u64_lt less_imp_diff_less)
  have total_roles: "unat (ro_h3_train (role_counts_of n)) + unat (ro_h3_validation (role_counts_of n)) +
      unat (ro_h1h2_supplemental (role_counts_of n)) = unat (pc_rtotal n)" if "counts_resolved n" for n
    using that unat_u64_lt [of "pc_r12 n"] by (auto simp: role_counts_of_def counts_resolved_def unat_of_nat_u64 less_imp_diff_less)
  have counts: "counts_resolved n \<longleftrightarrow> \<not> (pc_r_h1 n < 20 \<or> pc_r_h2 n < 20 \<or> pc_rtrain n < 12 \<or> pc_rval n < 8) \<and>
      pc_r12 n = max (pc_r_h1 n) (pc_r_h2 n) \<and> \<not> pc_rtrain n > u64_max - pc_rval n \<and>
      pc_rtotal n = max (pc_r12 n) (pc_rtrain n + pc_rval n) \<and>
      \<not> (pc_rtotal n > u64_max div of_nat kStageACellsPerBlock \<or> pc_nruns n \<noteq> pc_rtotal n * of_nat kStageACellsPerBlock) \<and>
      \<not> (pc_r_h1 n > 30 \<or> pc_r_h2 n > 30)" for n
    unfolding sums_fit product_fits
    using unat_u64_lt [of "pc_rtotal n"] unat_plus_u64 [of "pc_rtrain n" "pc_rval n"]
    by (auto simp: counts_resolved_def word_less_nat_alt word_unat_eq_iff unat_max)
  show ?thesis
  proof (cases "pn_counts input"; cases "pn_evidence input")
    fix n evidence
    assume some: "pn_counts input = Some n" "pn_evidence input = Some evidence"
    show ?thesis
    proof (cases "evidence_prospective evidence \<and> counts_resolved n")
      case True
      then have "unat (pc_rtrain n) + unat (pc_rval n) < 2 ^ 64" unfolding counts sums_fit by simp
      from roles [OF this] show ?thesis using True total_roles [of n]
        by (simp add: evaluate_precision_plan_def some Let_def evidence_prospective_iff counts registered_families
            kH1ContrastCount_def kH2ContrastCount_def kH3TrainingPairCount_def kH3ValidationFamilyCount_def)
          (auto simp: role_counts_of_def)
    next
      case False
      define m where "m = (max :: u64 \<Rightarrow> u64 \<Rightarrow> u64)"
      from False have "\<not> (evaluate_precision_plan input = Inr r \<and> px_state r = Precision_resolved)"
        unfolding evidence_prospective_iff counts evaluate_precision_plan_def m_def [symmetric]
        by (auto simp: some Let_def split: if_splits)
      with False show ?thesis by (auto simp: some)
    qed
  qed (auto simp: evaluate_precision_plan_def)
qed

end
