(* ===== verification/Access.thy ===== *)
theory Access
  imports Precision Semantic Cross_Record
begin

text \<open>
  Access control over outcomes, \<^verbatim>\<open>orchestration/access.hpp\<close> and \<^verbatim>\<open>orchestration/access.cpp\<close>: the authority
  policy, the append-only access ledger and the authorisation of outcome access (the replacement of
  blocks and the Stage 14 validator are in \<^verbatim>\<open>Stage14\<close>). SHA-256 is the argument \<open>digest\<close>; its exception is
  on the left of an outer sum. A \<^verbatim>\<open>std::set\<close> is the list of its members; the ledger is a loop over the
  records whose variables are a record passed along, and the records before the current one are a list.
\<close>

subsection \<open>Data\<close>

datatype AccessPrincipalRole =
    Principal_freeze_authority | Principal_custodian | Principal_training_analyst
  | Principal_validation_authority | Principal_confirmatory_analyst | Principal_replacement_authority

datatype OutcomeDomain = Outcome_h3_training | Outcome_h3_validation | Outcome_h1h2

record PrincipalAssignment =
  pa_role :: AccessPrincipalRole
  pa_authority_id :: Identifier

record RoleOverlapAuthorization =
  ov_first :: AccessPrincipalRole
  ov_second :: AccessPrincipalRole
  ov_authority_id :: Identifier
  ov_authorization_artifact :: ArtifactReference

record AuthorityPolicy =
  ap_assignments :: "PrincipalAssignment list"
  ap_permitted_overlaps :: "RoleOverlapAuthorization list"

record ArtifactAccessRecord =
  aa_artifact :: ArtifactReference
  aa_access_class :: AccessClass
  aa_block_id :: "Identifier option"
  aa_namespace_id :: "Identifier option"
  aa_block_role :: "BlockRole option"
  aa_issuing_role :: "AccessPrincipalRole option"
  aa_issuer_id :: "Identifier option"

record ReplacementBudget =
  rb_platform_id :: Identifier
  rb_maximum_replacement_blocks :: u64
  rb_budget_artifact :: ArtifactReference

datatype ReplacementDecisionState = Replacement_authorized | Replacement_study_unresolved

record 'd ReplacementDecision =
  rd_state :: ReplacementDecisionState
  rd_replacement_plan :: "'d GeneratedBlockPlan option"
  rd_blockers :: "string list"

record 'd ReplacementRequest =
  rq_replaced_block :: "'d BlockPlan"
  rq_invalid_run :: "'d RunManifest"
  rq_failure :: "'d FailureRecord"
  rq_authorization :: "'d FreezeRecord"
  rq_replacement_input :: BlockGenerationInput

record AccessRequest =
  aq_actor_id :: Identifier
  aq_actor_role :: AccessPrincipalRole
  aq_domain :: OutcomeDomain
  aq_block_id :: Identifier

record AccessLedgerResult =
  al_final_state :: AccessState
  al_errors :: "ValidationError list"

subsection \<open>Lookups\<close>

fun principal_for :: "RecordKind \<Rightarrow> AccessPrincipalRole option" where
  "principal_for Kind_protocol_freeze = Some Principal_freeze_authority"
| "principal_for Kind_selection_freeze = Some Principal_freeze_authority"
| "principal_for Kind_validation_unseal = Some Principal_custodian"
| "principal_for Kind_h1h2_released = Some Principal_custodian"
| "principal_for Kind_h3_evaluated = Some Principal_confirmatory_analyst"
| "principal_for Kind_replacement_authorization = Some Principal_replacement_authority"
| "principal_for Kind_amendment = None"

fun protocol_role_for :: "AccessPrincipalRole \<Rightarrow> AuthorityRole option" where
  "protocol_role_for Principal_freeze_authority = Some Authority_freeze_authority"
| "protocol_role_for Principal_custodian = Some Authority_validation_custodian"
| "protocol_role_for Principal_confirmatory_analyst = Some Authority_confirmatory_analyst"
| "protocol_role_for Principal_replacement_authority = Some Authority_replacement_authority"
| "protocol_role_for Principal_training_analyst = None"
| "protocol_role_for Principal_validation_authority = None"

definition assignment_for :: "AuthorityPolicy \<Rightarrow> AccessPrincipalRole \<Rightarrow> PrincipalAssignment option" where
  "assignment_for policy role = find (\<lambda>assignment. pa_role assignment = role) (ap_assignments policy)"

definition artifact_for :: "ArtifactAccessRecord list \<Rightarrow> ArtifactReference \<Rightarrow> ArtifactAccessRecord option" where
  "artifact_for artifacts reference = find (\<lambda>r. aa_artifact r = reference) artifacts"

definition id_in :: "'d BlockPlan list \<Rightarrow> Identifier \<Rightarrow> 'd BlockPlan option" where
  "id_in blocks block_id = find (\<lambda>block. bp_block_id block = block_id) blocks"

definition role_allowed_for_record :: "'d FreezeRecord \<Rightarrow> BlockRole \<Rightarrow> bool" where
  "role_allowed_for_record r role \<longleftrightarrow>
     (case fz_record_kind r of
        Kind_selection_freeze \<Rightarrow> role = Block_h3_train
      | Kind_validation_unseal \<Rightarrow> role = Block_h3_validation
      | Kind_h3_evaluated \<Rightarrow> role = Block_h3_validation
      | Kind_h1h2_released \<Rightarrow> role = Block_h3_train \<or> role = Block_h3_validation \<or> role = Block_h1h2_supplemental
      | Kind_protocol_freeze \<Rightarrow> role = Block_h3_train \<or> role = Block_h3_validation \<or> role = Block_h1h2_supplemental
      | Kind_amendment \<Rightarrow> role = Block_h3_train \<or> role = Block_h3_validation \<or> role = Block_h1h2_supplemental
      | Kind_replacement_authorization \<Rightarrow> True)"

subsection \<open>Hashes of access records\<close>

definition freeze_self_hash_matches ::
  "'d binary64_ops \<Rightarrow> (u8 list \<Rightarrow> u8 list option) \<Rightarrow> 'd FreezeRecord \<Rightarrow> workload_error + bool" where
  "freeze_self_hash_matches ops digest r =
     (case as_object (fz_source_document r) of
        None \<Rightarrow> Inr False
      | Some obj \<Rightarrow>
          if map_of obj ''record_sha256'' = None then Inr False
          else (case canonicalize ops (JObject (assign_member ''record_sha256'' (JString zero_hash) obj)) of
                  Inl _ \<Rightarrow> Inr False
                | Inr canonical \<Rightarrow>
                    take_result (workload_sha256 digest (string_bytes canonical)) (\<lambda>d.
                      Inr (Sha256Digest_hex d = Sha256_hex (fz_record_sha256 r)))))"

text \<open>The payload is built key by key; a missing key ends the function.\<close>

fun selection_payload :: "(string \<times> 'd Value) list \<Rightarrow> string list \<Rightarrow> (string \<times> 'd Value) list option" where
  "selection_payload obj [] = Some []"
| "selection_payload obj (key # keys) =
     (case map_of obj key of
        None \<Rightarrow> None
      | Some value \<Rightarrow> map_option (\<lambda>payload. (key, value) # payload) (selection_payload obj keys))"

definition selection_checksum_matches ::
  "'d binary64_ops \<Rightarrow> (u8 list \<Rightarrow> u8 list option) \<Rightarrow> 'd FreezeRecord \<Rightarrow> workload_error + bool" where
  "selection_checksum_matches ops digest r =
     (case fz_selection_record_checksum_sha256 r of
        None \<Rightarrow> Inr False
      | Some checksum \<Rightarrow>
          (case as_object (fz_source_document r) of
             None \<Rightarrow> Inr False
           | Some obj \<Rightarrow>
               (case selection_payload obj [''h3_selections'', ''training_input_artifacts'', ''selection_rule_version''] of
                  None \<Rightarrow> Inr False
                | Some payload \<Rightarrow>
                    (case canonicalize ops (JObject (json_object payload)) of
                       Inl _ \<Rightarrow> Inr False
                     | Inr canonical \<Rightarrow>
                         take_result (workload_sha256 digest (string_bytes canonical)) (\<lambda>d.
                           Inr (Sha256Digest_hex d = Sha256_hex checksum))))))"

subsection \<open>Timestamps\<close>

record UtcTimestamp =
  ut_fields :: "nat list"
  ut_fraction :: string

definition parse_digits :: "string \<Rightarrow> nat \<Rightarrow> nat \<Rightarrow> nat option" where
  "parse_digits value offset count' =
     (if offset + count' > length value then None
      else fold (\<lambda>c result. case result of
          None \<Rightarrow> None
        | Some n \<Rightarrow> if is_digit c then Some (n * 10 + (of_char c - 48)) else None)
        (take count' (drop offset value)) (Some 0))"

definition leap :: "nat \<Rightarrow> bool" where
  "leap year \<longleftrightarrow> (year mod 4 = 0 \<and> year mod 100 \<noteq> 0) \<or> year mod 400 = 0"

definition month_days :: "nat list" where
  "month_days = [31, 28, 31, 30, 31, 30, 31, 31, 30, 31, 30, 31]"

fun parse_timestamp_fields :: "string \<Rightarrow> (nat \<times> nat) list \<Rightarrow> nat list option" where
  "parse_timestamp_fields value [] = Some []"
| "parse_timestamp_fields value ((offset, width) # rest) =
     (case parse_digits value offset width of
        None \<Rightarrow> None
      | Some field \<Rightarrow> map_option (\<lambda>others. field # others) (parse_timestamp_fields value rest))"

definition parse_utc :: "string \<Rightarrow> UtcTimestamp option" where
  "parse_utc value =
     (if length value < 20 \<or> last value \<noteq> CHR ''Z'' \<or> value ! 4 \<noteq> CHR ''-'' \<or> value ! 7 \<noteq> CHR ''-'' \<or>
         value ! 10 \<noteq> CHR ''T'' \<or> value ! 13 \<noteq> CHR '':'' \<or> value ! 16 \<noteq> CHR '':''
      then None
      else (case parse_timestamp_fields value [(0, 4), (5, 2), (8, 2), (11, 2), (14, 2), (17, 2)] of
              None \<Rightarrow> None
            | Some parsed \<Rightarrow>
                if parsed ! 1 = 0 \<or> parsed ! 1 > 12 \<or> parsed ! 3 > 23 \<or> parsed ! 4 > 59 \<or> parsed ! 5 > 60 then None
                else (let maximum_day = (if parsed ! 1 = 2 \<and> leap (parsed ! 0) then 29 else month_days ! (parsed ! 1 - 1)) in
                  if parsed ! 2 = 0 \<or> parsed ! 2 > maximum_day then None
                  else if length value > 20 then
                    (if value ! 19 \<noteq> CHR ''.'' \<or> length value = 21 then None
                     else (let fraction = take (length value - 21) (drop 20 value) in
                       if fraction = [] \<or> \<not> list_all is_digit fraction then None
                       else Some \<lparr>ut_fields = parsed, ut_fraction = rev (dropWhile (\<lambda>c. c = CHR ''0'') (rev fraction))\<rparr>))
                  else Some \<lparr>ut_fields = parsed, ut_fraction = []\<rparr>)))"

fun fields_less :: "nat list \<Rightarrow> nat list \<Rightarrow> bool" where
  "fields_less [] bs \<longleftrightarrow> bs \<noteq> []"
| "fields_less (a # as) [] \<longleftrightarrow> False"
| "fields_less (a # as) (b # bs) \<longleftrightarrow> a < b \<or> (a = b \<and> fields_less as bs)"

definition timestamp_less :: "UtcTimestamp \<Rightarrow> UtcTimestamp \<Rightarrow> bool" where
  "timestamp_less left right \<longleftrightarrow>
     (if ut_fields left \<noteq> ut_fields right then fields_less (ut_fields left) (ut_fields right)
      else (let n = max (length (ut_fraction left)) (length (ut_fraction right));
                pad = (\<lambda>s. s @ replicate (n - length s) (CHR ''0''))
            in string_less (pad (ut_fraction left)) (pad (ut_fraction right))))"

subsection \<open>References\<close>

text \<open>The records before the current one are \<open>earlier\<close>, in their order.\<close>

definition record_reference :: "'d FreezeRecord list \<Rightarrow> ArtifactReference \<Rightarrow> 'd FreezeRecord option" where
  "record_reference earlier reference =
     find (\<lambda>r. id_value (fz_record_id r) = id_value (ar_artifact_id reference) \<and>
       fz_record_sha256 r = ar_sha256 reference) earlier"

definition access_reference_resolves ::
  "'d FreezeRecord list \<Rightarrow> ArtifactAccessRecord list \<Rightarrow> ArtifactReference \<Rightarrow> bool" where
  "access_reference_resolves earlier artifacts reference \<longleftrightarrow>
     artifact_for artifacts reference \<noteq> None \<or> record_reference earlier reference \<noteq> None"

definition same_factor :: "'d RunManifest \<Rightarrow> StageACell \<Rightarrow> bool" where
  "same_factor run cell \<longleftrightarrow>
     rm_package run = cell_package cell \<and> rm_requested_hardware_state run = cell_requested_hardware_state cell \<and>
     rm_placement run = cell_placement cell \<and> rm_working_set_class run = cell_working_set_class cell \<and>
     rm_load_level run = cell_load_level cell"

text \<open>The sort by ordinal; the plans it is applied to have distinct ordinals, so its order is the only one.\<close>

definition ordered_factor_sequence :: "'d BlockPlan \<Rightarrow> CellKey list" where
  "ordered_factor_sequence block = map cell_key (sort_key (\<lambda>cell. unat (cell_cell_ordinal cell)) (bp_cells block))"

subsection \<open>The training freeze\<close>

definition decision_u64 :: "(string \<times> 'd Value) list \<Rightarrow> string \<Rightarrow> u64 option" where
  "decision_u64 obj key =
     (case map_of obj key of
        Some (JNumber number) \<Rightarrow>
          (case number_value number of
             Unsigned_integer value \<Rightarrow> Some value
           | Signed_integer value \<Rightarrow> if 0 \<le> value then Some (of_int value) else None
           | Binary64 _ \<Rightarrow> None)
      | _ \<Rightarrow> None)"

definition decision_string :: "(string \<times> 'd Value) list \<Rightarrow> string \<Rightarrow> string" where
  "decision_string obj key =
     (case map_of obj key of
        None \<Rightarrow> []
      | Some value \<Rightarrow> (case as_string value of None \<Rightarrow> [] | Some s \<Rightarrow> s))"

fun all_strings :: "'d Value list \<Rightarrow> string list option" where
  "all_strings [] = Some []"
| "all_strings (item # items) =
     (case as_string item of None \<Rightarrow> None | Some s \<Rightarrow> map_option (\<lambda>rest. s # rest) (all_strings items))"

definition decision_strings :: "(string \<times> 'd Value) list \<Rightarrow> string \<Rightarrow> string list option" where
  "decision_strings obj key =
     (case map_of obj key of
        None \<Rightarrow> None
      | Some value \<Rightarrow> (case as_array value of None \<Rightarrow> None | Some items \<Rightarrow> all_strings items))"

definition exact_strings :: "string list option \<Rightarrow> string list \<Rightarrow> bool" where
  "exact_strings actual expected \<longleftrightarrow> actual = Some expected"

record TrainingOpenDecision =
  to_counts :: ProspectiveCounts
  to_delta_star_artifact_id :: string
  to_bootstrap_configuration_artifact_id :: string

definition exact_affected_blocks :: "'d FreezeRecord \<Rightarrow> 'd BlockPlan list \<Rightarrow> BlockRole option \<Rightarrow> bool" where
  "exact_affected_blocks r blocks role \<longleftrightarrow>
     (let replaced = (\<lambda>block. list_ex (\<lambda>candidate. bp_replaces_block_id candidate = Some (bp_block_id block)) blocks);
          expected = map (\<lambda>block. id_value (bp_block_id block))
            (filter (\<lambda>block. \<not> replaced block \<and> (case role of None \<Rightarrow> True | Some b \<Rightarrow> bp_block_role block = b)) blocks);
          actual = map id_value (fz_affected_block_ids r)
      in expected \<noteq> [] \<and> set actual = set expected \<and> length (remdups actual) = length (fz_affected_block_ids r))"

definition counts_equal :: "ProspectiveCounts \<Rightarrow> ProspectiveCounts \<Rightarrow> bool" where
  "counts_equal left right \<longleftrightarrow>
     pc_r_h1 left = pc_r_h1 right \<and> pc_r_h2 left = pc_r_h2 right \<and> pc_r12 left = pc_r12 right \<and>
     pc_rtrain left = pc_rtrain right \<and> pc_rval left = pc_rval right \<and> pc_rtotal left = pc_rtotal right \<and>
     pc_nruns left = pc_nruns right"

definition input_contains :: "'d FreezeRecord \<Rightarrow> ArtifactReference \<Rightarrow> bool" where
  "input_contains r reference \<longleftrightarrow>
     list_ex (\<lambda>input. ai_artifact input = reference \<and> ai_access_class input \<noteq> Class_training_only \<and>
       ai_access_class input \<noteq> Class_validation_sealed \<and> ai_access_class input \<noteq> Class_validation_unsealed)
       (fz_input_artifacts r)"

definition candidate_order :: "string list" where
  "candidate_order = [''R0:H0'', ''R0:H1'', ''R1:H0'', ''R1:H1'', ''R2:H0'', ''R2:H1'', ''L0:H0'', ''L0:H1'', ''L1:H0'', ''L1:H1'']"

definition context_order :: "string list" where
  "context_order = [''NEAR_L2_L050'', ''NEAR_LLC_L050'', ''NEAR_BEYOND_LLC_L050'', ''FAR_L2_L050'', ''FAR_LLC_L050'',
     ''FAR_BEYOND_LLC_L050'']"

definition training_rules_frozen :: "(string \<times> 'd Value) list \<Rightarrow> bool" where
  "training_rules_frozen obj \<longleftrightarrow>
     length obj = 20 \<and>
     exact_strings (decision_strings obj ''candidate_order'') candidate_order \<and>
     exact_strings (decision_strings obj ''h3_context_order'') context_order \<and>
     exact_strings (decision_strings obj ''h1_contrast_ids'') h1_contrast_ids \<and>
     exact_strings (decision_strings obj ''h2_contrast_ids'') h2_contrast_ids \<and>
     decision_u64 obj ''h3_training_pair_count'' = Some (of_nat kH3TrainingPairCount) \<and>
     decision_u64 obj ''h3_validation_family_count'' = Some (of_nat kH3ValidationFamilyCount) \<and>
     decision_u64 obj ''h3_reported_comparison_count'' = Some (of_nat kH3ReportedComparisonCount) \<and>
     decision_string obj ''tie_break_rule_id'' = kH3SelectionRuleId \<and>
     opaque (decision_string obj ''delta_star_artifact_id'') \<and>
     opaque (decision_string obj ''bootstrap_configuration_artifact_id'') \<and>
     opaque (decision_string obj ''bootstrap_seed_id'') \<and>
     opaque (decision_string obj ''precision_profile_id'')"

definition decision_counts :: "(string \<times> 'd Value) list \<Rightarrow> ProspectiveCounts option" where
  "decision_counts obj =
     (case (decision_u64 obj ''r_h1'', decision_u64 obj ''r_h2'', decision_u64 obj ''r12'', decision_u64 obj ''rtrain'',
            decision_u64 obj ''rval'', decision_u64 obj ''rtotal'', decision_u64 obj ''nruns'') of
        (Some r_h1, Some r_h2, Some r12, Some rtrain, Some rval, Some rtotal, Some nruns) \<Rightarrow>
          Some \<lparr>pc_r_h1 = r_h1, pc_r_h2 = r_h2, pc_r12 = r12, pc_rtrain = rtrain, pc_rval = rval,
            pc_rtotal = rtotal, pc_nruns = nruns\<rparr>
      | _ \<Rightarrow> None)"

definition decode_training_open_decision :: "'d FreezeRecord \<Rightarrow> TrainingOpenDecision Result" where
  "decode_training_open_decision r =
     (case fz_decision_value r of
        None \<Rightarrow> Inl [ValidationError missing_evidence ''$/decision_value'' ''ACCESS-TRAINING-FREEZE-EVIDENCE''
          ''TRAINING_OPEN requires the complete prospective precision freeze object'']
      | Some decision \<Rightarrow>
          (let rules = Inl [ValidationError missing_evidence ''$/decision_value'' ''ACCESS-TRAINING-FREEZE-EVIDENCE''
                 (''TRAINING_OPEN must freeze candidate/context order, exact families, rules, and '' @ ''evidence identities'')]
           in case as_object decision of
             None \<Rightarrow> rules
           | Some obj \<Rightarrow>
               if \<not> training_rules_frozen obj then rules
               else (case decision_strings obj ''schema_artifact_ids'' of
                 None \<Rightarrow> Inl [ValidationError missing_evidence ''$/decision_value/schema_artifact_ids''
                   ''ACCESS-TRAINING-FREEZE-SCHEMAS''
                   ''TRAINING_OPEN requires nonempty distinct immutable schema identities'']
               | Some schemas \<Rightarrow>
                   if schemas = [] \<or> \<not> (list_all opaque schemas \<and> distinct schemas)
                   then Inl [ValidationError missing_evidence ''$/decision_value/schema_artifact_ids''
                     ''ACCESS-TRAINING-FREEZE-SCHEMAS''
                     ''TRAINING_OPEN requires nonempty distinct immutable schema identities'']
                   else (case decision_counts obj of
                     None \<Rightarrow> Inl [ValidationError missing_evidence ''$/decision_value'' ''ACCESS-TRAINING-FREEZE-COUNTS''
                       ''TRAINING_OPEN requires all seven prospective count fields as exact integers'']
                   | Some frozen_counts \<Rightarrow>
                       (let input_ids = map (\<lambda>input. id_value (ar_artifact_id (ai_artifact input))) (fz_input_artifacts r);
                            delta = decision_string obj ''delta_star_artifact_id'';
                            bootstrap = decision_string obj ''bootstrap_configuration_artifact_id''
                        in if delta \<notin> set input_ids \<or> bootstrap \<notin> set input_ids \<or>
                            \<not> list_all (\<lambda>schema. schema \<in> set input_ids) schemas
                        then Inl [ValidationError reference_mismatch ''$/decision_value'' ''ACCESS-TRAINING-FREEZE-INPUTS''
                          (''every named delta, bootstrap, and schema artifact requires an exact hashed '' @ ''input reference'')]
                        else Inr \<lparr>to_counts = frozen_counts, to_delta_star_artifact_id = delta,
                          to_bootstrap_configuration_artifact_id = bootstrap\<rparr>)))))"

subsection \<open>The authority policy\<close>

definition required_principals :: "AccessPrincipalRole list" where
  "required_principals =
     [Principal_freeze_authority, Principal_custodian, Principal_training_analyst, Principal_validation_authority,
      Principal_confirmatory_analyst, Principal_replacement_authority]"

text \<open>A role is inserted only for an opaque identity: the condition is evaluated from the left.\<close>

fun check_assignments ::
  "nat \<Rightarrow> AccessPrincipalRole list \<Rightarrow> PrincipalAssignment list \<Rightarrow> ValidationError list \<times> AccessPrincipalRole list" where
  "check_assignments index roles [] = ([], roles)"
| "check_assignments index roles (assignment # rest) =
     (let bad = (\<not> opaque (id_value (pa_authority_id assignment)) \<or> pa_role assignment \<in> set roles);
          (errors, seen) = check_assignments (Suc index) (if bad then roles else pa_role assignment # roles) rest
      in (fail_if bad
            (ValidationError duplicate_value (''$/authority_policy/assignments/'' @ std_to_string index)
              ''ACCESS-AUTHORITY-ASSIGNMENT'' ''each operational access role requires one opaque authority identity'') @
          errors, seen))"

definition overlap_permitted ::
  "AuthorityPolicy \<Rightarrow> ArtifactAccessRecord list \<Rightarrow> PrincipalAssignment \<Rightarrow> PrincipalAssignment \<Rightarrow> bool" where
  "overlap_permitted policy artifacts first second \<longleftrightarrow>
     list_ex (\<lambda>candidate.
       ((ov_first candidate = pa_role first \<and> ov_second candidate = pa_role second) \<or>
        (ov_first candidate = pa_role second \<and> ov_second candidate = pa_role first)) \<and>
       ov_authority_id candidate = pa_authority_id first \<and>
       artifact_for artifacts (ov_authorization_artifact candidate) \<noteq> None) (ap_permitted_overlaps policy)"

fun check_overlaps ::
  "AuthorityPolicy \<Rightarrow> ArtifactAccessRecord list \<Rightarrow> PrincipalAssignment list \<Rightarrow> ValidationError list" where
  "check_overlaps policy artifacts [] = []"
| "check_overlaps policy artifacts (first # rest) =
     concat (map (\<lambda>second. fail_if (pa_authority_id first = pa_authority_id second \<and>
         \<not> overlap_permitted policy artifacts first second)
       (ValidationError missing_evidence ''$/authority_policy/permitted_overlaps'' ''ACCESS-AUTHORITY-SEGREGATION''
         (''one principal may hold multiple roles only with immutable authorization '' @ ''evidence''))) rest) @
     check_overlaps policy artifacts rest"

definition validate_authority_policy :: "AuthorityPolicy \<Rightarrow> ArtifactAccessRecord list \<Rightarrow> ValidationError list" where
  "validate_authority_policy policy artifacts =
     (let (errors, roles) = check_assignments 0 [] (ap_assignments policy) in
      errors @
      concat (map (\<lambda>role. fail_if (role \<notin> set roles)
        (ValidationError missing_evidence ''$/authority_policy/assignments'' ''ACCESS-AUTHORITY-COMPLETE''
          ''all six imported access roles require explicit principals'')) required_principals) @
      fail_if (length (ap_assignments policy) \<noteq> length required_principals)
        (ValidationError out_of_range ''$/authority_policy/assignments'' ''ACCESS-AUTHORITY-EXACT''
          ''the authority registry must contain exactly the six imported access roles'') @
      check_overlaps policy artifacts (ap_assignments policy))"

subsection \<open>The ledger: transitions by kind\<close>

text \<open>Each branch gives the errors it adds and whether the transition is allowed.\<close>

definition protocol_freeze_step ::
  "'d BlockPlan list \<Rightarrow> string \<Rightarrow> 'd FreezeRecord \<Rightarrow> ValidationError list \<times> bool" where
  "protocol_freeze_step blocks path r =
     (let before = fz_access_state_before r; after = fz_access_state_after r;
          pairs = (before = Access_planned \<and> after = Access_collected_sealed) \<or>
            (before = Access_collected_sealed \<and> after = Access_training_open) \<or>
            (before = Access_h1h2_released \<and> after = Access_archived);
          prohibited = fz_outcome_access_prohibited r \<and> au_role (fz_authority r) = Authority_freeze_authority;
          bad_collection = (after = Access_collected_sealed \<and> \<not> exact_affected_blocks r blocks None);
          bad_training = (after = Access_training_open \<and> \<not> exact_affected_blocks r blocks (Some Block_h3_train));
          decision_errors = (if after = Access_training_open
            then (case decode_training_open_decision r of Inl errors \<Rightarrow> errors | Inr _ \<Rightarrow> []) else []);
          bad_decision = (after = Access_training_open \<and>
            (case decode_training_open_decision r of Inl _ \<Rightarrow> True | Inr _ \<Rightarrow> False));
          bad_archive = (after = Access_archived \<and> \<not> exact_affected_blocks r blocks None)
      in (fail_if bad_collection
            (ValidationError cross_field (path @ ''/affected_block_ids'') ''ACCESS-COLLECTION-EXACT-BLOCKS''
              ''collection sealing must name the complete frozen common block pool'') @
          fail_if bad_training
            (ValidationError cross_field (path @ ''/affected_block_ids'') ''ACCESS-TRAINING-EXACT-BLOCKS''
              ''opening training must name exactly every H3_TRAIN block'') @
          decision_errors @
          fail_if bad_archive
            (ValidationError cross_field (path @ ''/affected_block_ids'') ''ACCESS-ARCHIVE-EXACT-BLOCKS''
              ''archival must name the complete frozen common block pool''),
          pairs \<and> prohibited \<and> \<not> bad_collection \<and> \<not> bad_training \<and> \<not> bad_decision \<and> \<not> bad_archive))"

definition training_artifact_ok ::
  "ArtifactAccessRecord list \<Rightarrow> 'd FreezeRecord \<Rightarrow> ArtifactReference \<Rightarrow> bool" where
  "training_artifact_ok artifacts r training \<longleftrightarrow>
     (case artifact_for artifacts training of
        None \<Rightarrow> False
      | Some artifact \<Rightarrow> aa_access_class artifact = Class_training_only \<and> aa_block_role artifact = Some Block_h3_train) \<and>
     list_ex (\<lambda>input. ai_artifact input = training \<and> ai_access_class input = Class_training_only) (fz_input_artifacts r)"

definition selection_freeze_step ::
  "'d binary64_ops \<Rightarrow> (u8 list \<Rightarrow> u8 list option) \<Rightarrow> 'd BlockPlan list \<Rightarrow> ArtifactAccessRecord list \<Rightarrow> string \<Rightarrow>
     'd FreezeRecord \<Rightarrow> workload_error + (ValidationError list \<times> bool)" where
  "selection_freeze_step ops digest blocks artifacts path r =
     take_result (selection_checksum_matches ops digest r) (\<lambda>checksum.
       (let before = fz_access_state_before r; after = fz_access_state_after r;
            exact = exact_affected_blocks r blocks (Some Block_h3_train);
            rule = (fz_selection_rule_version r = Some kH3SelectionRuleId);
            training_inputs = length (filter (\<lambda>input. ai_access_class input = Class_training_only) (fz_input_artifacts r));
            exact_inputs = (training_inputs = length (fz_training_input_artifacts r))
        in Inr (
          fail_if (\<not> exact)
            (ValidationError cross_field (path @ ''/affected_block_ids'') ''ACCESS-SELECTION-EXACT-BLOCKS''
              ''selection freeze must name exactly every H3_TRAIN block'') @
          fail_if (\<not> rule)
            (ValidationError cross_field (path @ ''/selection_rule_version'') ''ACCESS-H3-SELECTION-RULE''
              (''selection must use arithmetic mean log(p99.9), minimum candidate, and the '' @
               ''frozen candidate-order tie break'')) @
          fail_if (\<not> checksum)
            (ValidationError invalid_hash (path @ ''/selection_record_checksum_sha256'') ''ACCESS-SELECTION-PAYLOAD-HASH''
              (''selection checksum must bind contexts, candidates, rule, and every '' @ ''training artifact reference'')) @
          fail_if (\<not> six_selections (fz_h3_selections r))
            (ValidationError cross_field (path @ ''/h3_selections'') ''ACCESS-H3-SIX-CONTEXTS''
              ''selection must freeze one registered candidate in each stable context'') @
          concat (map (\<lambda>training. fail_if (\<not> training_artifact_ok artifacts r training)
            (ValidationError reference_mismatch (path @ ''/training_input_artifacts'') ''ACCESS-TRAINING-ONLY''
              ''selection can consume only named H3 training artifacts'')) (fz_training_input_artifacts r)) @
          fail_if (\<not> exact_inputs)
            (ValidationError reference_mismatch (path @ ''/input_artifacts'') ''ACCESS-TRAINING-INPUTS-EXACT''
              (''selection input hashes must exactly equal the named H3 training '' @ ''artifacts'')),
          before = Access_training_open \<and> after = Access_selection_frozen \<and> exact \<and> rule \<and> checksum \<and> exact_inputs)))"

definition validation_approved ::
  "ArtifactAccessRecord list \<Rightarrow> AuthorityPolicy \<Rightarrow> 'd FreezeRecord \<Rightarrow> bool" where
  "validation_approved artifacts authorities r \<longleftrightarrow>
     (case assignment_for authorities Principal_validation_authority of
        None \<Rightarrow> False
      | Some assignment \<Rightarrow>
          list_ex (\<lambda>input. case artifact_for artifacts (ai_artifact input) of
              None \<Rightarrow> False
            | Some artifact \<Rightarrow> aa_issuing_role artifact = Some Principal_validation_authority \<and>
                aa_issuer_id artifact = Some (pa_authority_id assignment)) (fz_input_artifacts r))"

definition validation_unseal_step ::
  "'d BlockPlan list \<Rightarrow> ArtifactAccessRecord list \<Rightarrow> RoleNamespaceRegistry \<Rightarrow> AuthorityPolicy \<Rightarrow>
     'd FreezeRecord list \<Rightarrow> string \<Rightarrow> 'd FreezeRecord \<Rightarrow> ValidationError list \<times> bool" where
  "validation_unseal_step blocks artifacts namespaces authorities earlier path r =
     (let before = fz_access_state_before r; after = fz_access_state_after r;
          exact = exact_affected_blocks r blocks (Some Block_h3_validation);
          binding = find (\<lambda>b. nb_role b = Block_h3_validation) (ng_role_bindings namespaces);
          namespace_errors =
            (case (fz_validation_namespace_id r, binding, fz_validation_artifact_ref r) of
               (Some namespace_id, Some b, Some artifact_ref) \<Rightarrow>
                 if namespace_id \<noteq> nb_namespace_id b
                 then [ValidationError reference_mismatch (path @ ''/validation_namespace_id'') ''ACCESS-VALIDATION-NAMESPACE''
                   ''unseal must name the frozen validation role namespace and artifact'']
                 else fail_if (case artifact_for artifacts artifact_ref of
                      None \<Rightarrow> True
                    | Some artifact \<Rightarrow> aa_access_class artifact \<noteq> Class_validation_sealed \<or>
                        aa_namespace_id artifact \<noteq> Some namespace_id)
                   (ValidationError reference_mismatch (path @ ''/validation_artifact_ref'') ''ACCESS-VALIDATION-SEALED''
                     ''validation evidence must resolve as sealed in the frozen namespace'')
             | _ \<Rightarrow> [ValidationError reference_mismatch (path @ ''/validation_namespace_id'') ''ACCESS-VALIDATION-NAMESPACE''
                   ''unseal must name the frozen validation role namespace and artifact''])
      in (fail_if (\<not> exact)
            (ValidationError cross_field (path @ ''/affected_block_ids'') ''ACCESS-UNSEAL-EXACT-BLOCKS''
              ''validation unsealing must name exactly every H3_VALIDATION block'') @
          namespace_errors @
          fail_if (\<not> validation_approved artifacts authorities r)
            (ValidationError missing_evidence (path @ ''/input_artifacts'') ''ACCESS-VALIDATION-AUTHORITY''
              ''validation authority approval must precede custodian unsealing'') @
          fail_if (case fz_selection_record_ref r of None \<Rightarrow> True | Some reference \<Rightarrow> record_reference earlier reference = None)
            (ValidationError reference_mismatch (path @ ''/selection_record_ref'') ''ACCESS-SELECTION-PREDECESSOR''
              ''validation unseal must hash-link the earlier selection freeze''),
          before = Access_selection_frozen \<and> after = Access_validation_unsealed \<and> exact))"

definition h3_evaluated_step ::
  "'d BlockPlan list \<Rightarrow> ArtifactAccessRecord list \<Rightarrow> 'd FreezeRecord list \<Rightarrow> string \<Rightarrow> 'd FreezeRecord \<Rightarrow>
     ValidationError list \<times> bool" where
  "h3_evaluated_step blocks artifacts earlier path r =
     (let before = fz_access_state_before r; after = fz_access_state_after r;
          exact = exact_affected_blocks r blocks (Some Block_h3_validation);
          linked_records = (case (fz_selection_record_ref r, fz_validation_unseal_record_ref r, fz_h3_evaluation_artifact_ref r) of
            (Some selection, Some unseal, Some evaluation) \<Rightarrow>
              record_reference earlier selection \<noteq> None \<and> record_reference earlier unseal \<noteq> None \<and>
              artifact_for artifacts evaluation \<noteq> None
          | _ \<Rightarrow> False)
      in (fail_if (\<not> exact)
            (ValidationError cross_field (path @ ''/affected_block_ids'') ''ACCESS-H3-EVALUATION-EXACT-BLOCKS''
              ''H3 evaluation must name exactly every H3_VALIDATION block'') @
          fail_if (\<not> linked_records)
            (ValidationError reference_mismatch path ''ACCESS-H3-EVALUATION-LINEAGE''
              (''H3 evaluation must link selection, unseal, validation, and evaluation '' @ ''hashes'')),
          before = Access_validation_unsealed \<and> after = Access_h3_evaluated \<and> exact))"

definition h1h2_released_step ::
  "'d BlockPlan list \<Rightarrow> ArtifactAccessRecord list \<Rightarrow> string \<Rightarrow> 'd FreezeRecord \<Rightarrow> ValidationError list \<times> bool" where
  "h1h2_released_step blocks artifacts path r =
     (let before = fz_access_state_before r; after = fz_access_state_after r;
          exact = exact_affected_blocks r blocks None;
          sealed = (case (fz_h3_evaluation_artifact_ref r, fz_h3_access_record_ref r) of
            (Some evaluation, Some audit) \<Rightarrow> artifact_for artifacts evaluation \<noteq> None \<and> artifact_for artifacts audit \<noteq> None
          | _ \<Rightarrow> False)
      in (fail_if (\<not> exact)
            (ValidationError cross_field (path @ ''/affected_block_ids'') ''ACCESS-H1H2-EXACT-BLOCKS''
              ''H1/H2 release must name the complete common block pool'') @
          fail_if (\<not> sealed)
            (ValidationError reference_mismatch path ''ACCESS-H1H2-SEALED-H3''
              ''H1/H2 release requires immutable H3 evaluation and access-audit evidence''),
          before = Access_h3_evaluated \<and> after = Access_h1h2_released \<and> exact))"

definition amendment_step ::
  "string list \<Rightarrow> 'd FreezeRecord list \<Rightarrow> string \<Rightarrow> 'd FreezeRecord \<Rightarrow> (ValidationError list \<times> bool) \<times> string list" where
  "amendment_step targets earlier path r =
     (let lineage_error = [ValidationError duplicate_value (path @ ''/supersedes_id'') ''ACCESS-AMENDMENT-LINEAGE''
            ''amendments require one earlier unbranched supersession target''];
          (lineage, targets') = (case fz_supersedes_id r of
              None \<Rightarrow> (lineage_error, targets)
            | Some superseded \<Rightarrow>
                if id_value superseded \<in> set targets then (lineage_error, targets)
                else (fail_if (case find (\<lambda>previous. fz_record_id previous = superseded) earlier of
                        None \<Rightarrow> True
                      | Some target \<Rightarrow> \<not> list_ex (\<lambda>reference. id_value (ar_artifact_id reference) = id_value (fz_record_id target) \<and>
                          ar_sha256 reference = fz_record_sha256 target) (fz_prior_authoritative_hashes r))
                      (ValidationError reference_mismatch (path @ ''/prior_authoritative_hashes'') ''ACCESS-AMENDMENT-PREDECESSOR''
                        ''amendment must name and hash its earlier superseded record''),
                      id_value superseded # targets));
          outcome_inputs = list_ex (\<lambda>input. ai_access_class input = Class_training_only \<or>
            ai_access_class input = Class_validation_unsealed) (fz_input_artifacts r)
      in ((lineage @
           fail_if outcome_inputs
             (ValidationError cross_field (path @ ''/input_artifacts'') ''ACCESS-AMENDMENT-NO-OUTCOMES''
               ''an amendment cannot be selected from training or validation outcomes''),
           fz_access_state_before r = fz_access_state_after r \<and> fz_outcome_access_prohibited r), targets'))"

subsection \<open>The ledger: the loop\<close>

record LedgerState =
  lg_final_state :: AccessState
  lg_record_ids :: "string list"
  lg_amendment_targets :: "string list"
  lg_previous_timestamp :: "UtcTimestamp option"

text \<open>The checks every record has, before its kind is looked at.\<close>

definition common_record_errors ::
  "('d \<Rightarrow> bool) \<Rightarrow> 'd BlockPlan list \<Rightarrow> ArtifactAccessRecord list \<Rightarrow> AuthorityPolicy \<Rightarrow> 'd FreezeRecord list \<Rightarrow> string \<Rightarrow>
     LedgerState \<Rightarrow> bool \<Rightarrow> 'd FreezeRecord \<Rightarrow> ValidationError list" where
  "common_record_errors fp_at_least_200000 blocks artifacts authorities earlier path st hash_ok r =
     stage4_validate fp_at_least_200000 (Record_freeze r) @
     fail_if (id_value (fz_record_id r) \<in> set (lg_record_ids st))
       (ValidationError duplicate_value (path @ ''/record_id'') ''ACCESS-APPEND-ONLY-ID''
         ''an append-only access ledger cannot overwrite a record identity'') @
     fail_if (\<not> hash_ok)
       (ValidationError invalid_hash (path @ ''/record_sha256'') ''ACCESS-ZEROSELF-HASH''
         ''access record hash must bind its complete canonical source document'') @
     fail_if (case parse_utc (fz_created_at_utc r) of
          None \<Rightarrow> True
        | Some timestamp \<Rightarrow> (case lg_previous_timestamp st of None \<Rightarrow> False | Some previous \<Rightarrow> timestamp_less timestamp previous))
       (ValidationError cross_field (path @ ''/created_at_utc'') ''ACCESS-CHRONOLOGY''
         ''access ledger timestamps must be normalized UTC and nondecreasing'') @
     concat (map (\<lambda>input. fail_if (\<not> access_reference_resolves earlier artifacts (ai_artifact input))
       (ValidationError reference_mismatch (path @ ''/input_artifacts'') ''ACCESS-INPUT-RESOLUTION''
         ''every access input must resolve to immutable prior or external evidence'')) (fz_input_artifacts r)) @
     (case principal_for (fz_record_kind r) of
        None \<Rightarrow> []
      | Some needed \<Rightarrow>
          fail_if (case (assignment_for authorities needed, protocol_role_for needed) of
              (Some assignment, Some expected_role) \<Rightarrow>
                pa_authority_id assignment \<noteq> au_authority_id (fz_authority r) \<or> au_role (fz_authority r) \<noteq> expected_role
            | _ \<Rightarrow> True)
            (ValidationError reference_mismatch (path @ ''/authority'') ''ACCESS-AUTHORITY-BINDING''
              ''record authority must match the frozen operational role assignment'')) @
     concat (map (\<lambda>block_id. fail_if (case id_in blocks block_id of
          None \<Rightarrow> True
        | Some block \<Rightarrow> \<not> role_allowed_for_record r (bp_block_role block))
       (ValidationError reference_mismatch (path @ ''/affected_block_ids'') ''ACCESS-AFFECTED-BLOCK-ROLE''
         (''affected block must exist and have a role compatible with this '' @ ''transition''))) (fz_affected_block_ids r))"

text \<open>The branch of the record's kind, with the amendment targets after it.\<close>

definition kind_step ::
  "'d binary64_ops \<Rightarrow> (u8 list \<Rightarrow> u8 list option) \<Rightarrow> 'd BlockPlan list \<Rightarrow> ArtifactAccessRecord list \<Rightarrow>
     RoleNamespaceRegistry \<Rightarrow> AuthorityPolicy \<Rightarrow> 'd FreezeRecord list \<Rightarrow> string \<Rightarrow> string list \<Rightarrow> 'd FreezeRecord \<Rightarrow>
     workload_error + ((ValidationError list \<times> bool) \<times> string list)" where
  "kind_step ops digest blocks artifacts namespaces authorities earlier path targets r =
     (case fz_record_kind r of
        Kind_protocol_freeze \<Rightarrow> Inr (protocol_freeze_step blocks path r, targets)
      | Kind_selection_freeze \<Rightarrow>
          take_result (selection_freeze_step ops digest blocks artifacts path r) (\<lambda>step. Inr (step, targets))
      | Kind_validation_unseal \<Rightarrow> Inr (validation_unseal_step blocks artifacts namespaces authorities earlier path r, targets)
      | Kind_h3_evaluated \<Rightarrow> Inr (h3_evaluated_step blocks artifacts earlier path r, targets)
      | Kind_h1h2_released \<Rightarrow> Inr (h1h2_released_step blocks artifacts path r, targets)
      | Kind_amendment \<Rightarrow> Inr (amendment_step targets earlier path r)
      | Kind_replacement_authorization \<Rightarrow> Inr (([], False), targets))"

definition access_record_path :: "nat \<Rightarrow> string" where
  "access_record_path index = ''$/access_records/'' @ std_to_string index"

text \<open>One iteration: the errors it adds and the variables after it.\<close>

definition ledger_step ::
  "'d binary64_ops \<Rightarrow> ('d \<Rightarrow> bool) \<Rightarrow> (u8 list \<Rightarrow> u8 list option) \<Rightarrow> 'd BlockPlan list \<Rightarrow> ArtifactAccessRecord list \<Rightarrow>
     RoleNamespaceRegistry \<Rightarrow> AuthorityPolicy \<Rightarrow> 'd FreezeRecord list \<Rightarrow> LedgerState \<Rightarrow> 'd FreezeRecord \<Rightarrow>
     workload_error + (ValidationError list \<times> LedgerState)" where
  "ledger_step ops fp_at_least_200000 digest blocks artifacts namespaces authorities earlier st r =
     (let path = access_record_path (length earlier) in
      take_result (freeze_self_hash_matches ops digest r) (\<lambda>hash_ok.
      (let common = common_record_errors fp_at_least_200000 blocks artifacts authorities earlier path st hash_ok r;
           st1 = st\<lparr>lg_record_ids := id_value (fz_record_id r) # lg_record_ids st,
             lg_previous_timestamp := (case parse_utc (fz_created_at_utc r) of
               None \<Rightarrow> lg_previous_timestamp st | Some timestamp \<Rightarrow> Some timestamp)\<rparr>
       in if fz_record_kind r = Kind_replacement_authorization then Inr (common, st1)
       else take_result (kind_step ops digest blocks artifacts namespaces authorities earlier path (lg_amendment_targets st) r)
         (\<lambda>((errors, allowed), targets).
           Inr (common @
             fail_if (fz_access_state_before r \<noteq> lg_final_state st)
               (ValidationError cross_field (path @ ''/access_state_before'') ''ACCESS-PREDECESSOR-STATE''
                 ''access transition must begin at the exact preceding ledger state'') @
             errors @
             fail_if (\<not> allowed)
               (ValidationError cross_field path ''ACCESS-ILLEGAL-TRANSITION''
                 ''record kind does not authorize this access-state transition''),
             st1\<lparr>lg_amendment_targets := targets,
               lg_final_state := (if allowed then fz_access_state_after r else lg_final_state st)\<rparr>)))))"

fun ledger_loop ::
  "'d binary64_ops \<Rightarrow> ('d \<Rightarrow> bool) \<Rightarrow> (u8 list \<Rightarrow> u8 list option) \<Rightarrow> 'd BlockPlan list \<Rightarrow> ArtifactAccessRecord list \<Rightarrow>
     RoleNamespaceRegistry \<Rightarrow> AuthorityPolicy \<Rightarrow> 'd FreezeRecord list \<Rightarrow> LedgerState \<Rightarrow> 'd FreezeRecord list \<Rightarrow>
     workload_error + (ValidationError list \<times> LedgerState)" where
  "ledger_loop ops fp digest blocks artifacts namespaces authorities earlier st [] = Inr ([], st)"
| "ledger_loop ops fp digest blocks artifacts namespaces authorities earlier st (r # records) =
     take_result (ledger_step ops fp digest blocks artifacts namespaces authorities earlier st r) (\<lambda>(errors, st').
     take_result (ledger_loop ops fp digest blocks artifacts namespaces authorities (earlier @ [r]) st' records)
       (\<lambda>(rest, st''). Inr (errors @ rest, st'')))"

fun duplicate_block_errors :: "string list \<Rightarrow> 'd BlockPlan list \<Rightarrow> ValidationError list" where
  "duplicate_block_errors ids [] = []"
| "duplicate_block_errors ids (block # blocks) =
     fail_if (id_value (bp_block_id block) \<in> set ids)
       (ValidationError duplicate_value ''$/blocks'' ''ACCESS-BLOCK-UNIQUE''
         ''block identities in an access graph must be unique'') @
     duplicate_block_errors (id_value (bp_block_id block) # ids) blocks"

definition validate_access_ledger ::
  "'d binary64_ops \<Rightarrow> ('d \<Rightarrow> bool) \<Rightarrow> (u8 list \<Rightarrow> u8 list option) \<Rightarrow> 'd BlockPlan list \<Rightarrow> 'd FreezeRecord list \<Rightarrow>
     ArtifactAccessRecord list \<Rightarrow> RoleNamespaceRegistry \<Rightarrow> AuthorityPolicy \<Rightarrow> workload_error + AccessLedgerResult" where
  "validate_access_ledger ops fp_at_least_200000 digest blocks records artifacts namespaces authorities =
     take_result (ledger_loop ops fp_at_least_200000 digest blocks artifacts namespaces authorities []
       \<lparr>lg_final_state = Access_planned, lg_record_ids = [], lg_amendment_targets = [], lg_previous_timestamp = None\<rparr> records)
       (\<lambda>(errors, st). Inr \<lparr>al_final_state = lg_final_state st,
         al_errors = validate_authority_policy authorities artifacts @ validate_role_namespaces namespaces @
           duplicate_block_errors [] blocks @ errors\<rparr>)"

text \<open>The enumerators are compared in their order.\<close>

fun AccessState_rank :: "AccessState \<Rightarrow> nat" where
  "AccessState_rank Access_planned = 0"
| "AccessState_rank Access_collected_sealed = 1"
| "AccessState_rank Access_training_open = 2"
| "AccessState_rank Access_selection_frozen = 3"
| "AccessState_rank Access_validation_unsealed = 4"
| "AccessState_rank Access_h3_evaluated = 5"
| "AccessState_rank Access_h1h2_released = 6"
| "AccessState_rank Access_archived = 7"

definition authorize_outcome_access ::
  "AccessLedgerResult \<Rightarrow> 'd BlockPlan list \<Rightarrow> AuthorityPolicy \<Rightarrow> AccessRequest \<Rightarrow> bool Result" where
  "authorize_outcome_access ledger blocks authorities request =
     (if al_errors ledger \<noteq> []
      then Inl [ValidationError missing_evidence ''$/access_ledger'' ''ACCESS-LEDGER-NOT-VALID''
        ''outcome access is denied while the ledger has validation errors'']
      else (let identity_error = Inl [ValidationError reference_mismatch ''$/access_request'' ''ACCESS-REQUEST-IDENTITY''
                  ''actor assignment and active block identity must be frozen and resolvable''];
                replaced = list_ex (\<lambda>item. bp_replaces_block_id item = Some (aq_block_id request)) blocks
            in case (assignment_for authorities (aq_actor_role request), id_in blocks (aq_block_id request)) of
              (Some assignment, Some block) \<Rightarrow>
                if pa_authority_id assignment \<noteq> aq_actor_id request \<or> replaced then identity_error
                else (let rank = AccessState_rank (al_final_state ledger);
                          allowed = (case aq_domain request of
                              Outcome_h3_training \<Rightarrow> aq_actor_role request = Principal_training_analyst \<and>
                                bp_block_role block = Block_h3_train \<and> rank \<ge> AccessState_rank Access_training_open
                            | Outcome_h3_validation \<Rightarrow> aq_actor_role request = Principal_confirmatory_analyst \<and>
                                bp_block_role block = Block_h3_validation \<and> rank \<ge> AccessState_rank Access_validation_unsealed
                            | Outcome_h1h2 \<Rightarrow> aq_actor_role request = Principal_confirmatory_analyst \<and>
                                rank \<ge> AccessState_rank Access_h1h2_released)
                      in if \<not> allowed
                      then Inl [ValidationError missing_evidence ''$/access_request'' ''ACCESS-OUTCOME-DENIED''
                        ''role, block role, or access chronology does not permit this outcome access'']
                      else Inr True)
            | _ \<Rightarrow> identity_error))"

end
