(* ===== verification/Load_Correct.thy ===== *)
theory Load_Correct
  imports Load Json_Objects
begin

text \<open>
  The loader on documents: it keeps the document it read, refuses fields outside the schema of its
  kind, and reads back the documents that the program writes.
\<close>

subsection \<open>Chains of steps\<close>

lemma take_result_simps [simp]: "take_result (Inr x) f = f x" "take_result (Inl e) f = Inl e"
  by (simp_all add: take_result_def)

lemma take_result_Inr: "take_result r f = Inr v \<longleftrightarrow> (\<exists>x. r = Inr x \<and> f x = Inr v)"
  by (cases r) simp_all

subsection \<open>Objects written by the program\<close>

text \<open>Reading a member of an object that was built from distinct members.\<close>

lemma required_object:
  "distinct (map fst ms) \<Longrightarrow> required (json_object ms) key path = required ms key path"
  by (simp add: required_def json_object_lookup)

lemma read_field_object:
  "distinct (map fst ms) \<Longrightarrow> read_field (json_object ms) key path f = read_field ms key path f"
  by (simp add: read_field_def required_object)

lemma read_field_found: "map_of ms key = Some v \<Longrightarrow> read_field ms key path f = f v (path @ ''/'' @ key)"
  by (simp add: read_field_def required_def)

lemma reject_unknown_iff: "reject_unknown obj allowed path = Inr u \<longleftrightarrow> fst ` set obj \<subseteq> set allowed"
proof (cases "find (\<lambda>m. fst m \<notin> set allowed) obj")
  case None
  then have "fst ` set obj \<subseteq> set allowed" by (auto simp: find_None_iff)
  with None show ?thesis by (simp add: reject_unknown_def)
next
  case (Some m)
  then have "m \<in> set obj" "fst m \<notin> set allowed" by (auto simp: find_Some_iff in_set_conv_nth)
  with Some show ?thesis by (auto simp: reject_unknown_def)
qed

lemma reject_unknown_object:
  "distinct (map fst ms) \<Longrightarrow> fst ` set ms \<subseteq> set allowed \<Longrightarrow> reject_unknown (json_object ms) allowed path = Inr ()"
  by (simp add: reject_unknown_iff json_object_set)

lemma string_of_string [simp]: "s \<noteq> [] \<Longrightarrow> string_of (JString s) path b = Inr s"
  by (simp add: string_of_def)

lemma uint_of_uint [simp]: "uint_of (uint_value u) path = Inr u"
  by (simp add: uint_of_def uint_value_def)

lemma id_of_string [simp]: "s \<noteq> [] \<Longrightarrow> id_of (JString s) path = Inr (Identifier s)"
  by (simp add: id_of_def Identifier_parse_def)

lemma object_of_object [simp]: "object_of (JObject ms) path = Inr ms"
  by (simp add: object_of_def)

lemma array_of_array [simp]: "array_of (JArray vs) path = Inr vs"
  by (simp add: array_of_def)

lemma load_items_map:
  assumes "\<And>x p. x \<in> set xs \<Longrightarrow> f (g x) p = Inr x"
  shows "load_items f path n (map g xs) = Inr xs"
  using assms by (induction xs arbitrary: n) simp_all

subsection \<open>Hashes\<close>

lemma hex_value_digit:
  assumes "n < 16"
  shows "hex_value (hex_digits ! n) = Some (of_nat n)"
proof -
  from assms have "n \<in> set [0..<16]" by simp
  then show ?thesis by (auto simp: upt_rec hex_value_def hex_digits_def)
qed

lemma high_nibble: "drop_bit 4 (b :: u8) AND 15 = drop_bit 4 b"
proof -
  have m: "(15 :: u8) = mask 4" by (simp add: mask_eq_exp_minus_1)
  show ?thesis unfolding m by (rule bit_word_eqI) (auto simp: bit_simps dest: bit_imp_le_length)
qed

lemma Sha256_hex_digest: "Sha256_hex (Sha256 bytes) = Sha256Digest_hex (Sha256Digest bytes)"
  by (simp add: Sha256_hex_def Sha256Digest_hex_def high_nibble)

lemma sha256_digits_hex: "sha256_digits (Sha256Digest_hex (Sha256Digest bytes)) = Some bytes"
  by (induction bytes) (simp_all add: Sha256Digest_hex_def hex_value_digit unat_nibbles byte_nibbles)

lemma Sha256_parse_digest:
  "length bytes = 32 \<Longrightarrow> Sha256_parse (Sha256Digest_hex (Sha256Digest bytes)) path = Inr (Sha256 bytes)"
  by (simp add: Sha256_parse_def Sha256Digest_hex_length sha256_digits_hex)

lemma sha_of_hex: "length bytes = 32 \<Longrightarrow> sha_of (JString (Sha256_hex (Sha256 bytes))) path = Inr (Sha256 bytes)"
proof -
  assume l: "length bytes = 32"
  then have "Sha256Digest_hex (Sha256Digest bytes) \<noteq> []" using Sha256Digest_hex_length [of bytes] by auto
  with l show ?thesis by (simp add: sha_of_def Sha256_hex_digest Sha256_parse_digest)
qed

subsection \<open>Fields and source documents\<close>

fun document_fields :: "DocumentKind \<Rightarrow> string list" where
  "document_fields Document_platform = platform_fields"
| "document_fields Document_schedule = schedule_fields"
| "document_fields Document_raw_observation = raw_fields"
| "document_fields Document_run_manifest = manifest_fields"
| "document_fields Document_block_plan = block_fields"
| "document_fields Document_failure_record = failure_fields"
| "document_fields Document_freeze_record = freeze_fields"

lemma object_of_Inr: "object_of v path = Inr obj \<longleftrightarrow> v = JObject obj"
  by (cases v) (auto simp: object_of_def)

lemmas document_loaders = load_platform_def load_schedule_def load_raw_def load_manifest_def
  load_block_plan_def load_failure_def load_freeze_def

lemma load_value_document:
  assumes "load_value fp_negative kind document = Inr r"
  shows "source_document r = document" and "\<exists>obj. document = JObject obj \<and> fst ` set obj \<subseteq> set (document_fields kind)"
  using assms by (cases kind;
    auto simp: take_result_Inr document_loaders object_of_Inr reject_unknown_iff Let_def split: if_splits)+

text \<open>The kind of a document decides the kind of its record.\<close>

fun record_kind_of :: "'d ProtocolRecord \<Rightarrow> DocumentKind" where
  "record_kind_of (Record_platform r) = Document_platform"
| "record_kind_of (Record_schedule r) = Document_schedule"
| "record_kind_of (Record_raw r document) = Document_raw_observation"
| "record_kind_of (Record_manifest r) = Document_run_manifest"
| "record_kind_of (Record_block r) = Document_block_plan"
| "record_kind_of (Record_failure r) = Document_failure_record"
| "record_kind_of (Record_freeze r) = Document_freeze_record"

lemma load_value_kind: "load_value fp_negative kind document = Inr r \<Longrightarrow> record_kind_of r = kind"
  by (cases kind) (auto simp: take_result_Inr)

text \<open>
  A configuration that is loaded has passed every check: its text parses to an object with fields of
  the schema of its kind only, the record is of that kind and keeps the document it was read from, and
  the record-local validator finds nothing against it.
\<close>

theorem configuration_fail_closed:
  assumes "ScientificConfiguration_load ops fp_negative fp_at_least_200000 kind text = Inr r"
  shows "json_parse ops text = Inr (source_document r)"
    and "\<exists>obj. source_document r = JObject obj \<and> fst ` set obj \<subseteq> set (document_fields kind)"
    and "record_kind_of r = kind"
    and "stage4_validate fp_at_least_200000 r = []"
proof -
  obtain document where "json_parse ops text = Inr document" "load_value fp_negative kind document = Inr r"
    "stage4_validate fp_at_least_200000 r = []"
    using assms by (auto simp: ScientificConfiguration_load_def load_document_def take_result_Inr)
  with load_value_document [of fp_negative kind document r] load_value_kind
  show "json_parse ops text = Inr (source_document r)"
    and "\<exists>obj. source_document r = JObject obj \<and> fst ` set obj \<subseteq> set (document_fields kind)"
    and "record_kind_of r = kind" and "stage4_validate fp_at_least_200000 r = []"
    by simp_all
qed

end
