(* ===== verification/Block_Plan_Design.thy ===== *)
theory Block_Plan_Design
  imports Block_Planning Load_Correct
begin

text \<open>
  What the plan validator accepts: exactly the plans bound to their identity, hash and seed catalog
  whose cells are the complete registered factorial laid out as a split-plot design.
\<close>

lemmas block_sizes = kStageACellsPerBlock_def kStageACellsPerWholePlot_def
  kArrivalSeedCountPerBlock_def kArenaSeedCountPerBlock_def

text \<open>When a chain of steps succeeds.\<close>

lemma take_thrown_simps [simp]: "take_thrown (Inr (Inr x)) f = f x" "take_thrown (Inr (Inl e)) f = Inr (Inl e)"
    "take_thrown (Inl exc) f = Inl exc"
  by (simp_all add: take_thrown_def)

lemma take_thrown_Inr: "take_thrown r f = Inr (Inr v) \<longleftrightarrow> (\<exists>x. r = Inr (Inr x) \<and> f x = Inr (Inr v))"
  by (auto simp: take_thrown_def split: sum.splits) (metis sum.exhaust)

subsection \<open>The registered factors\<close>

lemmas stage_a_factors = stage_a_packages_def stage_a_states_def stage_a_placements_def
  stage_a_working_sets_def stage_a_loads_def

lemma expected_cells_facts:
  "length expected_stage_a_cells = 180" "distinct expected_stage_a_cells"
  "length within_plot_base = 90" "distinct within_plot_base"
  by (code_simp, code_simp, code_simp, code_simp)

lemma expected_cells_set:
  "set expected_stage_a_cells =
     {(p, s, pl, w, l). p \<in> set stage_a_packages \<and> s \<in> set stage_a_states \<and> (p, pl, w, l) \<in> set within_plot_base}"
  by (auto simp: expected_stage_a_cells_def within_plot_base_def image_iff)

lemma within_base_set:
  "(p, pl, w, l) \<in> set within_plot_base \<longleftrightarrow>
     p \<in> set stage_a_packages \<and> pl \<in> set stage_a_placements \<and> w \<in> set stage_a_working_sets \<and> l \<in> set stage_a_loads"
  by (auto simp: within_plot_base_def image_iff)

text \<open>The indices of the factors are defined exactly on the registered levels.\<close>

lemma arena_index_Some:
  "(\<exists>a. arena_index pl w = Some a) \<longleftrightarrow> pl \<in> set stage_a_placements \<and> w \<in> set stage_a_working_sets"
  by (auto simp: arena_index_def placement_index_def working_set_index_def stage_a_factors)

lemma arena_index_less: "arena_index pl w = Some a \<Longrightarrow> a < 6"
  by (auto simp: arena_index_def placement_index_def working_set_index_def split: if_splits option.splits)

lemma arrival_index_Some:
  "(\<exists>a. arrival_index pl w l = Some a) \<longleftrightarrow>
     pl \<in> set stage_a_placements \<and> w \<in> set stage_a_working_sets \<and> l \<in> set stage_a_loads"
  by (auto simp: arrival_index_def arena_index_def placement_index_def working_set_index_def
      load_index_def stage_a_factors)

lemma arrival_index_less: "arrival_index pl w l = Some a \<Longrightarrow> a < 18"
  by (auto simp: arrival_index_def arena_index_def placement_index_def working_set_index_def
      load_index_def split: if_splits option.splits)

subsection \<open>The loop over the cells\<close>

text \<open>A cell whose context is registered and whose seeds are those of its context.\<close>

definition cell_seeded :: "BlockSeedCatalog \<Rightarrow> StageACell \<Rightarrow> bool" where
  "cell_seeded seeds cell \<longleftrightarrow>
     (case (arrival_index (cell_placement cell) (cell_working_set_class cell) (cell_load_level cell),
            arena_index (cell_placement cell) (cell_working_set_class cell)) of
        (Some arrival, Some arena) \<Rightarrow>
          arrival < length (bs_arrival_seed_ids seeds) \<and> arena < length (bs_event_seed_ids seeds) \<and>
          arena < length (bs_node_seed_ids seeds) \<and> seeds_shared seeds cell arrival arena
      | _ \<Rightarrow> False)"

lemma factor_errors_clean: "factor_errors seeds path cell = [] \<longleftrightarrow> cell_seeded seeds cell"
  by (auto simp: factor_errors_def cell_seeded_def Let_def not_less split: option.splits)

definition place_cells :: "StageACell list \<Rightarrow> StageACell option list \<Rightarrow> StageACell option list" where
  "place_cells cells by_ordinal =
     fold (\<lambda>cell slots. slots[unat (cell_cell_ordinal cell) := Some cell]) cells by_ordinal"

abbreviation ordinal_of :: "StageACell \<Rightarrow> nat" where
  "ordinal_of cell \<equiv> unat (cell_cell_ordinal cell)"

lemma inspect_cells_clean:
  "fst (inspect_cells seeds index actual by_ordinal cells) = [] \<longleftrightarrow>
     distinct (map cell_key cells) \<and> set (map cell_key cells) \<inter> set actual = {} \<and>
     distinct (map ordinal_of cells) \<and>
     (\<forall>cell \<in> set cells. ordinal_of cell < length by_ordinal \<and> by_ordinal ! ordinal_of cell = None) \<and>
     (\<forall>cell \<in> set cells. cell_seeded seeds cell)"
proof (induction cells arbitrary: index actual by_ordinal)
  case (Cons cell cells)
  let ?o = "ordinal_of cell"
  show ?case
  proof (cases "?o < length by_ordinal \<and> by_ordinal ! ?o = None")
    case False
    then show ?thesis by (auto simp: Let_def case_prod_unfold)
  next
    case True
    have slots: "(\<forall>c \<in> set cells. ordinal_of c < length by_ordinal \<and> by_ordinal[?o := Some cell] ! ordinal_of c = None) \<longleftrightarrow>
        ?o \<notin> ordinal_of ` set cells \<and> (\<forall>c \<in> set cells. ordinal_of c < length by_ordinal \<and> by_ordinal ! ordinal_of c = None)"
      using True by (auto simp: nth_list_update image_iff)
    have step: "fst (inspect_cells seeds index actual by_ordinal (cell # cells)) = [] \<longleftrightarrow>
        cell_key cell \<notin> set actual \<and> cell_seeded seeds cell \<and>
        fst (inspect_cells seeds (Suc index) (cell_key cell # actual) (by_ordinal[?o := Some cell]) cells) = []"
      using True by (simp add: Let_def case_prod_unfold factor_errors_clean)
    show ?thesis
      unfolding step Cons.IH using True slots by auto
  qed
qed simp

lemma inspect_cells_result:
  assumes "fst (inspect_cells seeds index actual by_ordinal cells) = []"
  shows "snd (inspect_cells seeds index actual by_ordinal cells) =
    (rev (map cell_key cells) @ actual, place_cells cells by_ordinal)"
  using assms
proof (induction cells arbitrary: index actual by_ordinal)
  case (Cons cell cells)
  have "\<not> (length by_ordinal \<le> ordinal_of cell \<or> by_ordinal ! ordinal_of cell \<noteq> None)" and "cell_key cell \<notin> set actual"
    using Cons.prems inspect_cells_clean [of seeds index actual by_ordinal "cell # cells"] by auto
  with Cons show ?case by (simp add: Let_def case_prod_unfold place_cells_def)
qed (simp add: place_cells_def)

lemma place_cells_length [simp]: "length (place_cells cells slots) = length slots"
  by (induction cells arbitrary: slots) (simp_all add: place_cells_def)

lemma place_cells_other:
  "i \<notin> ordinal_of ` set cells \<Longrightarrow> place_cells cells slots ! i = slots ! i"
  by (induction cells arbitrary: slots) (auto simp: place_cells_def nth_list_update)

lemma place_cells_nth:
  assumes "distinct (map ordinal_of cells)" and "cell \<in> set cells" and "\<forall>c \<in> set cells. ordinal_of c < length slots"
  shows "place_cells cells slots ! ordinal_of cell = Some cell"
  using assms
proof (induction cells arbitrary: slots)
  case (Cons c cells)
  show ?case
  proof (cases "cell = c")
    case True
    then have "place_cells cells (slots[ordinal_of c := Some c]) ! ordinal_of c = slots[ordinal_of c := Some c] ! ordinal_of c"
      using Cons.prems by (intro place_cells_other) auto
    with True Cons.prems show ?thesis by (simp add: place_cells_def)
  next
    case False
    with Cons.prems have "cell \<in> set cells" by simp
    with Cons.IH [of "slots[ordinal_of c := Some c]"] Cons.prems show ?thesis by (simp add: place_cells_def)
  qed
qed simp

lemma check_plot_order_clean:
  "check_plot_order order n slots = [] \<longleftrightarrow>
     (\<forall>i < length slots. \<exists>cell. slots ! i = Some cell \<and>
        cell_requested_hardware_state cell = (if n + i < kStageACellsPerWholePlot then fst order else snd order))"
proof (induction slots arbitrary: n)
  case (Cons slot slots)
  then show ?case
    by (cases slot) (auto simp: All_less_Suc2 Cons.IH [of "Suc n"])
qed simp

subsection \<open>The design\<close>

text \<open>
  The complete registered factorial, once, on the ordinals 0 to 179: the first 90 cells form the whole
  plot of the first hardware state and the others that of the second, and every cell refers to the
  seeds of its context.
\<close>

definition split_plot_design :: "BlockSeedCatalog \<Rightarrow> 'd BlockPlan \<Rightarrow> bool" where
  "split_plot_design seeds block \<longleftrightarrow>
     mset (map cell_key (bp_cells block)) = mset expected_stage_a_cells \<and>
     mset (map ordinal_of (bp_cells block)) = mset [0..<180] \<and>
     bp_whole_plot_order block \<in> {(Requested_h0, Requested_h1), (Requested_h1, Requested_h0)} \<and>
     (\<forall>cell \<in> set (bp_cells block). cell_requested_hardware_state cell =
        (if ordinal_of cell < 90 then fst (bp_whole_plot_order block) else snd (bp_whole_plot_order block))) \<and>
     (\<forall>cell \<in> set (bp_cells block). cell_seeded seeds cell)"

lemma mset_eq_distinct:
  assumes "distinct ys"
  shows "mset xs = mset ys \<longleftrightarrow> distinct xs \<and> set xs = set ys"
  using assms by (metis mset_eq_imp_distinct_iff set_eq_iff_mset_eq_distinct)

lemma full_ordinals:
  assumes "distinct xs" and "length xs = n" and "\<forall>x \<in> set xs. x < n"
  shows "set xs = {0..<n}"
  by (rule card_subset_eq) (use assms in \<open>auto simp: distinct_card\<close>)

text \<open>The slots of a complete numbering, as a function of the ordinal.\<close>

lemma slots_function:
  assumes "mset (map ordinal_of cells) = mset [0..<180]"
  obtains c where "\<And>i. i < 180 \<Longrightarrow> c i \<in> set cells \<and> ordinal_of (c i) = i \<and>
    place_cells cells (replicate 180 None) ! i = Some (c i)"
proof -
  have o: "distinct (map ordinal_of cells)" "set (map ordinal_of cells) = {0..<180}"
    using assms by (simp_all only: mset_eq_distinct [OF distinct_upt] set_upt)
  have "\<exists>cell \<in> set cells. ordinal_of cell = i \<and> place_cells cells (replicate 180 None) ! i = Some cell" if "i < 180" for i
  proof -
    have "i \<in> set (map ordinal_of cells)" using o(2) that by simp
    then obtain cell where "cell \<in> set cells" "i = ordinal_of cell" by auto
    moreover have "\<forall>c \<in> set cells. ordinal_of c < length (replicate 180 (None :: StageACell option))"
      using o(2) by auto
    ultimately show ?thesis using place_cells_nth [OF o(1)] by blast
  qed
  then have "\<exists>c. \<forall>i < 180. c i \<in> set cells \<and> ordinal_of (c i) = i \<and>
      place_cells cells (replicate 180 None) ! i = Some (c i)"
    by (intro choice_iff' [THEN iffD1]) blast
  with that show ?thesis by blast
qed

lemma plot_composition_clean:
  assumes "mset (map ordinal_of cells) = mset [0..<180]" and "distinct (map cell_key cells)" and "plot < 2"
    and "\<forall>cell \<in> set cells. cell_requested_hardware_state cell = (if ordinal_of cell < 90 then a else b)"
  shows "check_plot_composition (place_cells cells (replicate 180 None)) plot = []"
proof -
  let ?slots = "place_cells cells (replicate 180 None)" and ?is = "[plot * 90..<plot * 90 + 90]"
  from slots_function [OF assms(1)] obtain c where
    c: "i < 180 \<Longrightarrow> c i \<in> set cells \<and> ordinal_of (c i) = i \<and> ?slots ! i = Some (c i)" for i by blast
  have plot: "plot * 90 + 90 \<le> 180" using assms(3) by simp
  have "take 90 (drop (plot * 90) ?slots) = map (\<lambda>i. Some (c i)) ?is"
    using plot c by (intro nth_equalityI) auto
  then have cells: "List.map_filter (\<lambda>x. x) (take 90 (drop (plot * 90) ?slots)) = map c ?is"
    by (simp add: List.map_filter_def comp_def)
  have "inj_on (\<lambda>i. within_plot_key (c i)) (set ?is)"
  proof (rule inj_onI)
    fix i j
    assume i: "i \<in> set ?is" and j: "j \<in> set ?is" and eq: "within_plot_key (c i) = within_plot_key (c j)"
    have lt: "i < 180" "j < 180" using i j plot by auto
    have side: "i < 90 \<longleftrightarrow> j < 90" using i j assms(3) by (auto simp: less_2_cases_iff)
    have "cell_requested_hardware_state (c i) = cell_requested_hardware_state (c j)"
      using assms(4) c [OF lt(1)] c [OF lt(2)] side by simp
    with eq have "cell_key (c i) = cell_key (c j)" by (simp add: within_plot_key_def cell_key_def)
    then have "c i = c j" using assms(2) c lt by (metis distinct_map inj_on_def)
    then show "i = j" using c lt by metis
  qed
  then have "distinct (map within_plot_key (map c ?is))" by (simp add: distinct_map comp_def inj_on_def)
  then show ?thesis
    by (simp add: check_plot_composition_def block_sizes Let_def cells distinct_remdups_id del: map_map)
qed

lemma cell_checks_iff:
  "cell_checks seeds block = [] \<longleftrightarrow>
     (let cells = bp_cells block; slots = place_cells cells (replicate 180 None) in
      distinct (map cell_key cells) \<and> distinct (map ordinal_of cells) \<and>
      (\<forall>cell \<in> set cells. ordinal_of cell < 180 \<and> cell_seeded seeds cell) \<and>
      length cells = 180 \<and> set expected_stage_a_cells \<subseteq> set (map cell_key cells) \<and>
      check_plot_order (bp_whole_plot_order block) 0 slots = [] \<and>
      check_plot_composition slots 0 = [] \<and> check_plot_composition slots 1 = [])" (is "?l \<longleftrightarrow> ?r")
proof (cases "fst (inspect_cells seeds 0 [] (replicate 180 None) (bp_cells block)) = []")
  case True
  from inspect_cells_result [OF True] have
    "inspect_cells seeds 0 [] (replicate 180 None) (bp_cells block) =
       ([], rev (map cell_key (bp_cells block)), place_cells (bp_cells block) (replicate 180 None))"
    using True by (simp add: prod_eq_iff)
  then have l: "?l \<longleftrightarrow> length (bp_cells block) = 180 \<and> set expected_stage_a_cells \<subseteq> set (map cell_key (bp_cells block)) \<and>
      check_plot_order (bp_whole_plot_order block) 0 (place_cells (bp_cells block) (replicate 180 None)) = [] \<and>
      check_plot_composition (place_cells (bp_cells block) (replicate 180 None)) 0 = [] \<and>
      check_plot_composition (place_cells (bp_cells block) (replicate 180 None)) 1 = []"
    by (auto simp: cell_checks_def kStageACellsPerBlock_def expected_cells_facts list_all_iff)
  show ?thesis unfolding l Let_def using True [unfolded inspect_cells_clean] by auto
next
  case False
  then have "\<not> ?l" by (auto simp: cell_checks_def kStageACellsPerBlock_def case_prod_unfold Let_def)
  moreover have "\<not> ?r" using False [unfolded inspect_cells_clean] by (auto simp: Let_def)
  ultimately show ?thesis by blast
qed

lemma design_cell_checks:
  assumes "split_plot_design seeds block"
  shows "cell_checks seeds block = []"
proof -
  let ?cells = "bp_cells block" and ?order = "bp_whole_plot_order block"
  note d = assms [unfolded split_plot_design_def]
  have keys: "distinct (map cell_key ?cells)" "set (map cell_key ?cells) = set expected_stage_a_cells"
    using d by (simp_all only: mset_eq_distinct [OF expected_cells_facts(2)])
  have ordinals: "distinct (map ordinal_of ?cells)" "set (map ordinal_of ?cells) = {0..<180}"
    using d by (simp_all only: mset_eq_distinct [OF distinct_upt] set_upt)
  have len: "length ?cells = 180" using d expected_cells_facts(1) by (metis length_map size_mset)
  from slots_function [of ?cells] d obtain c where
    c: "i < 180 \<Longrightarrow> c i \<in> set ?cells \<and> ordinal_of (c i) = i \<and> place_cells ?cells (replicate 180 None) ! i = Some (c i)" for i
    by blast
  have "check_plot_order ?order 0 (place_cells ?cells (replicate 180 None)) = []"
    using c d by (auto simp: check_plot_order_clean block_sizes)
  then show ?thesis
    using keys ordinals len d plot_composition_clean [of ?cells _ "fst ?order" "snd ?order"]
    by (auto simp: cell_checks_iff Let_def)
qed

lemma cell_checks_design:
  assumes "cell_checks seeds block = []" and "\<not> whole_plots_invalid (bp_whole_plot_order block)"
  shows "split_plot_design seeds block"
proof -
  let ?cells = "bp_cells block" and ?order = "bp_whole_plot_order block"
  note c = assms(1) [unfolded cell_checks_iff Let_def]
  have "set expected_stage_a_cells = set (map cell_key ?cells)"
    by (rule card_subset_eq)
      (use c in \<open>simp_all add: distinct_card expected_cells_facts flip: set_map\<close>)
  then have keys: "mset (map cell_key ?cells) = mset expected_stage_a_cells"
    using c by (auto simp only: mset_eq_distinct [OF expected_cells_facts(2)])
  have "set (map ordinal_of ?cells) = {0..<180}" by (rule full_ordinals) (use c in auto)
  then have ordinals: "mset (map ordinal_of ?cells) = mset [0..<180]"
    using c by (simp only: mset_eq_distinct [OF distinct_upt] set_upt)
  have "cell_requested_hardware_state cell = (if ordinal_of cell < 90 then fst ?order else snd ?order)"
    if "cell \<in> set ?cells" for cell
  proof -
    have "place_cells ?cells (replicate 180 None) ! ordinal_of cell = Some cell"
      by (rule place_cells_nth) (use c that in auto)
    moreover have "ordinal_of cell < 180" using c that by blast
    ultimately show ?thesis using c by (auto simp: check_plot_order_clean block_sizes)
  qed
  moreover have "?order \<in> {(Requested_h0, Requested_h1), (Requested_h1, Requested_h0)}"
    using assms(2) by (cases ?order) (auto simp: whole_plots_invalid_def)
  ultimately show ?thesis using keys ordinals c by (auto simp: split_plot_design_def)
qed

subsection \<open>The plan validator\<close>

text \<open>A replacement plan names the block it replaces, its authorization and a lineage with the same role.\<close>

definition lineage_fresh :: "'d BlockPlan \<Rightarrow> bool" where
  "lineage_fresh block \<longleftrightarrow>
     (case (bp_replaces_block_id block, bp_replacement_authorization_id block, bp_replacement_lineage block) of
        (None, None, None) \<Rightarrow> True
      | (Some replaces, Some _, Some lineage) \<Rightarrow>
          bp_block_id block \<noteq> replaces \<and> bp_block_ordinal block \<noteq> ln_replaced_block_ordinal lineage \<and>
          bp_seed_subspace_id block \<noteq> ln_replaced_seed_subspace_id lineage \<and>
          bp_block_role block = ln_replaced_block_role lineage
      | _ \<Rightarrow> False)"

text \<open>A plan of the current protocol with the identity and the hash of its content, and the catalog's role.\<close>

definition plan_bound ::
  "'d binary64_ops \<Rightarrow> (u8 list \<Rightarrow> u8 list option) \<Rightarrow> BlockSeedCatalog \<Rightarrow> 'd BlockPlan \<Rightarrow> bool" where
  "plan_bound ops digest seeds block \<longleftrightarrow>
     bp_protocol_version block = V2_0_0_pre_2 \<and> bp_schema_version block = V2_0_0_pre_2 \<and>
     bp_stage block = Stage_stage_a \<and> bp_block_role block = bs_role seeds \<and>
     bp_seed_subspace_id block = bs_block_subspace_id seeds \<and>
     make_block_id ops digest (bp_platform_id block) (bp_build_id block) (bp_block_role block)
       (bp_block_ordinal block) = Inr (Inr (bp_block_id block)) \<and>
     verify_plan_hash ops digest block = Inr True"

lemma cell_seeded_node:
  "cell_seeded seeds cell \<Longrightarrow> linked (cell_package cell) \<longleftrightarrow> cell_node_seed_ref cell \<noteq> None"
  by (auto simp: cell_seeded_def seeds_shared_def split: option.splits if_splits)

lemma validate_block_design:
  assumes "split_plot_design seeds block"
  shows "validate_block block = [] \<longleftrightarrow> lineage_fresh block"
proof -
  note d = assms [unfolded split_plot_design_def]
  have keys: "distinct (map cell_key (bp_cells block))"
    using d by (simp only: mset_eq_distinct [OF expected_cells_facts(2)])
  have ordinals: "distinct (map ordinal_of (bp_cells block))" "set (map ordinal_of (bp_cells block)) = {0..<180}"
    using d by (simp_all only: mset_eq_distinct [OF distinct_upt] set_upt)
  have len: "length (bp_cells block) = 180" using d expected_cells_facts(1) by (metis length_map size_mset)
  have words: "distinct (map cell_cell_ordinal (bp_cells block))"
    using ordinals(1) by (auto simp: distinct_map inj_on_def)
  have "of_nat k \<in> set (map cell_cell_ordinal (bp_cells block))" if "k < 180" for k
  proof -
    have "k \<in> set (map ordinal_of (bp_cells block))" using ordinals(2) that by simp
    then show ?thesis by force
  qed
  then have all: "list_all (\<lambda>k. of_nat k \<in> set (map cell_cell_ordinal (bp_cells block))) [0..<180]"
    by (simp add: list_all_iff)
  have plots: "\<not> whole_plots_invalid (bp_whole_plot_order block)"
    using d by (auto simp: whole_plots_invalid_def)
  have seeded: "\<forall>cell \<in> set (bp_cells block). cell_seeded seeds cell" using d by blast
  have nodes: "linked (cell_package (snd m)) \<longleftrightarrow> cell_node_seed_ref (snd m) \<noteq> None"
    if "m \<in> set (enumerate 0 (bp_cells block))" for m
  proof (rule cell_seeded_node)
    have "snd m \<in> set (bp_cells block)" using that by (auto simp: in_set_enumerate_eq) (metis nth_mem)
    with seeded show "cell_seeded seeds (snd m)" by blast
  qed
  show ?thesis
    using plots len keys words all nodes
    by (auto simp: validate_block_def lineage_fresh_def distinct_remdups_id linked_def case_prod_unfold
        split: option.splits)
qed

lemma make_block_id_opaque:
  assumes "make_block_id ops digest platform build role ordinal = Inr (Inr i)"
  shows "opaque (id_value i)" and "opaque (id_value build)" and "opaque (id_value platform)" and "role_name role \<noteq> []"
proof -
  have "\<exists>sha. i = Identifier (''stage-a-block-'' @ Sha256_hex sha)"
    using assms by (auto simp: make_block_id_def take_thrown_Inr Identifier_parse_def split: if_splits)
  moreover have "hex_digits ! n \<in> set hex_digits" if "n < 16" for n
    using that by (intro nth_mem) (simp add: hex_digits_def)
  then have "c \<in> set hex_digits" if "c \<in> set (Sha256_hex sha)" for c sha
    using that by (auto simp: Sha256_hex_def unat_nibbles)
  then have "CHR ''/'' \<notin> set (Sha256_hex sha) \<and> CHR 0x5C \<notin> set (Sha256_hex sha)" for sha
    by (auto simp: hex_digits_def)
  ultimately show "opaque (id_value i)" by (auto simp: opaque_def)
  show "opaque (id_value build)" "opaque (id_value platform)" "role_name role \<noteq> []"
    using assms by (auto simp: make_block_id_def split: if_splits)
qed

lemma plan_accepted:
  "validate_block_plan ops fp_at_least_200000 digest block seeds registry = Inr [] \<longleftrightarrow>
     validate_seed_catalog seeds registry = [] \<and> plan_bound ops digest seeds block \<and> lineage_fresh block \<and>
     split_plot_design seeds block" (is "?l \<longleftrightarrow> ?r")
proof -
  have l: "?l \<longleftrightarrow> validate_seed_catalog seeds registry = [] \<and> validate_block block = [] \<and>
      plan_bound ops digest seeds block \<and> cell_checks seeds block = []"
    using make_block_id_opaque [of ops digest "bp_platform_id block" "bp_build_id block" "bp_block_role block"
        "bp_block_ordinal block" "bp_block_id block"]
    by (auto simp: validate_block_plan_def take_result_def plan_bound_def split: sum.splits)
  have "validate_block block = [] \<and> cell_checks seeds block = [] \<longleftrightarrow> lineage_fresh block \<and> split_plot_design seeds block"
  proof
    assume v: "validate_block block = [] \<and> cell_checks seeds block = []"
    then have "split_plot_design seeds block"
      by (intro cell_checks_design) (simp_all add: validate_block_def)
    with v validate_block_design show "lineage_fresh block \<and> split_plot_design seeds block" by blast
  next
    assume "lineage_fresh block \<and> split_plot_design seeds block"
    with validate_block_design design_cell_checks show "validate_block block = [] \<and> cell_checks seeds block = []" by blast
  qed
  with l show ?thesis by blast
qed

text \<open>
  C33. The plan validator accepts exactly the plans that are bound to their catalog, identity and hash,
  whose replacement lineage is fresh, and whose cells are the complete registered factorial laid out as
  a split-plot design; no other plan passes and none of these is refused.
\<close>

theorem block_plan_accepted_exact:
  "validate_block_plan ops fp_at_least_200000 digest block seeds registry = Inr [] \<longleftrightarrow>
     validate_seed_catalog seeds registry = [] \<and> plan_bound ops digest seeds block \<and> lineage_fresh block \<and>
     split_plot_design seeds block"
  by (rule plan_accepted)

end
