(* ===== verification/Stage14.thy ===== *)
theory Stage14
  imports Access Block_Plan_Design
begin

text \<open>
  The second half of \<^verbatim>\<open>orchestration/access.cpp\<close>: the decision to replace a complete block and the
  Stage 14 validator, which checks the blocks, the precision plan, the access ledger and the replacement
  lineage of a set of records together.
\<close>

subsection \<open>Replacement of a block\<close>

abbreviation replacement_count :: "'d BlockPlan list \<Rightarrow> u64" where
  "replacement_count blocks \<equiv> of_nat (length (filter (\<lambda>block. bp_replaces_block_id block \<noteq> None) blocks))"

definition invalid_required_run :: "'d ReplacementRequest \<Rightarrow> bool" where
  "invalid_required_run request \<longleftrightarrow>
     (let block = rq_replaced_block request; run = rq_invalid_run request; failure = rq_failure request in
      rm_stage run = Stage_stage_a \<and> rm_block_id run = bp_block_id block \<and> rm_block_role run = bp_block_role block \<and>
      rm_validity run = Validity_invalid \<and> rm_block_completeness run = Completeness_incomplete \<and>
      list_ex (same_factor run) (bp_cells block) \<and>
      fr_failure_record_id failure \<in> set (rm_failure_record_ids run) \<and>
      fr_run_id failure = Some (rm_run_id run) \<and> fr_block_id failure = Some (bp_block_id block) \<and>
      fr_invalidates_run failure \<and> fr_block_consequence failure = Consequence_original_block_incomplete)"

definition budget_hash_bound :: "'d FreezeRecord \<Rightarrow> ReplacementBudget \<Rightarrow> bool" where
  "budget_hash_bound authorization budget \<longleftrightarrow>
     list_ex (\<lambda>input. ai_artifact input = rb_budget_artifact budget \<and>
       (ai_access_class input = Class_public_protocol \<or> ai_access_class input = Class_platform_evidence \<or>
        ai_access_class input = Class_treatment_blind)) (fz_input_artifacts authorization)"

text \<open>The authorisation names the block, the failure and the budget; \<open>hash_ok\<close> is its self hash.\<close>

definition authorization_lineage ::
  "('d \<Rightarrow> bool) \<Rightarrow> 'd ReplacementRequest \<Rightarrow> ReplacementBudget \<Rightarrow> bool \<Rightarrow> ReplacementAuthorization option" where
  "authorization_lineage fp_at_least_200000 request budget hash_ok =
     (let authorization = rq_authorization request; block = rq_replaced_block request in
      case fz_replacement authorization of
        None \<Rightarrow> None
      | Some replacement \<Rightarrow>
          if stage4_validate fp_at_least_200000 (Record_freeze authorization) = [] \<and> hash_ok \<and>
             fz_record_kind authorization = Kind_replacement_authorization \<and>
             fz_affected_block_ids authorization = [bp_block_id block] \<and>
             ra_original_block_id replacement = bp_block_id block \<and>
             ra_failure_record_id replacement = fr_failure_record_id (rq_failure request) \<and>
             id_value (ra_replacement_budget_record_id replacement) = id_value (ar_artifact_id (rb_budget_artifact budget)) \<and>
             budget_hash_bound authorization budget
          then Some replacement else None)"

definition failure_authorized :: "'d ReplacementRequest \<Rightarrow> ReplacementAuthorization \<Rightarrow> bool" where
  "failure_authorized request authorized \<longleftrightarrow>
     (let failure = rq_failure request in
      fr_resolution_status failure = Resolution_replacement_authorized \<and>
      fr_replacement_authorization_id failure = Some (fz_record_id (rq_authorization request)) \<and>
      fr_replacement_block_id failure = Some (ra_replacement_block_id authorized))"

definition new_block_bound :: "'d ReplacementRequest \<Rightarrow> ReplacementAuthorization \<Rightarrow> Identifier Result \<Rightarrow> bool" where
  "new_block_bound request authorized generated_id \<longleftrightarrow>
     (let input = rq_replacement_input request; block = rq_replaced_block request in
      generated_id = Inr (ra_replacement_block_id authorized) \<and>
      gi_platform_id input = bp_platform_id block \<and> gi_build_id input = bp_build_id block \<and>
      gi_block_ordinal input = ra_replacement_block_ordinal authorized \<and> gi_role input = ra_block_role authorized \<and>
      bs_block_subspace_id (gi_seeds input) = ra_replacement_seed_subspace_id authorized \<and>
      (case gi_replacement input of
         None \<Rightarrow> False
       | Some replacement \<Rightarrow>
           rl_replacement_authorization_id replacement = fz_record_id (rq_authorization request) \<and>
           rl_replaced_block_id replacement = bp_block_id block \<and>
           rl_replaced_block_ordinal replacement = bp_block_ordinal block \<and>
           rl_replaced_block_role replacement = bp_block_role block \<and>
           rl_replaced_seed_subspace_id replacement = bp_seed_subspace_id block))"

definition decide_complete_block_replacement ::
  "'d binary64_ops \<Rightarrow> ('d \<Rightarrow> bool) \<Rightarrow> ('d \<Rightarrow> bool) \<Rightarrow> (u8 list \<Rightarrow> u8 list option) \<Rightarrow> 'd ReplacementRequest \<Rightarrow>
     'd BlockPlan list \<Rightarrow> ReplacementBudget \<Rightarrow> RoleNamespaceRegistry \<Rightarrow> workload_error + 'd ReplacementDecision Result" where
  "decide_complete_block_replacement ops fp_negative fp_at_least_200000 digest request existing_blocks budget namespaces =
     (let block = rq_replaced_block request; input = rq_replacement_input request in
      if bp_platform_id block \<noteq> rb_platform_id budget \<or> id_in existing_blocks (bp_block_id block) = None \<or>
         \<not> opaque (id_value (ar_artifact_id (rb_budget_artifact budget)))
      then Inr (Inl [ValidationError reference_mismatch ''$/replacement'' ''REPLACEMENT-PLATFORM-BUDGET''
        ''target block and frozen budget must share an explicit platform''])
      else if replacement_count existing_blocks \<ge> rb_maximum_replacement_blocks budget
      then Inr (Inr \<lparr>rd_state = Replacement_study_unresolved, rd_replacement_plan = None,
        rd_blockers = [''R_replacement_max is exhausted; collection must stop unresolved'']\<rparr>)
      else if list_ex (\<lambda>b. bp_replaces_block_id b = Some (bp_block_id block)) existing_blocks
      then Inr (Inl [ValidationError duplicate_value ''$/replacement/replaces_block_id'' ''REPLACEMENT-NO-BRANCH''
        ''an incomplete block may have only one direct replacement''])
      else if \<not> invalid_required_run request
      then Inr (Inl [ValidationError missing_evidence ''$/replacement/failure'' ''REPLACEMENT-INVALID-REQUIRED-RUN''
        (''replacement requires a retained invalid required '' @ ''run and matching invalidating failure record'')])
      else take_result
        (if stage4_validate fp_at_least_200000 (Record_freeze (rq_authorization request)) \<noteq> [] then Inr False
         else freeze_self_hash_matches ops digest (rq_authorization request)) (\<lambda>hash_ok.
      (case authorization_lineage fp_at_least_200000 request budget hash_ok of
        None \<Rightarrow> Inr (Inl [ValidationError reference_mismatch ''$/replacement/authorization'' ''REPLACEMENT-AUTHORIZATION-LINEAGE''
          (''authorization must name the exact block, invalid '' @ ''failure, and frozen budget hash'')])
      | Some authorized \<Rightarrow>
          if \<not> failure_authorized request authorized
          then Inr (Inl [ValidationError reference_mismatch ''$/replacement/failure/resolution_status''
            ''REPLACEMENT-FAILURE-AUTHORIZATION''
            ''failure resolution must link the exact authorization and replacement block''])
          else take_result (make_block_id ops digest (gi_platform_id input) (gi_build_id input) (gi_role input)
              (gi_block_ordinal input)) (\<lambda>generated_id.
            if \<not> new_block_bound request authorized generated_id
            then Inr (Inl [ValidationError reference_mismatch ''$/replacement/new_plan'' ''REPLACEMENT-NEW-BLOCK-BINDING''
              (''new identity, ordinal, role, seed subspace, and '' @ ''authorization must match exactly'')])
            else if list_ex (\<lambda>b. Inr (bp_block_id b) = generated_id \<or> bp_block_ordinal b = gi_block_ordinal input \<or>
                bp_seed_subspace_id b = bs_block_subspace_id (gi_seeds input)) existing_blocks
            then Inr (Inl [ValidationError duplicate_value ''$/replacement/new_plan'' ''REPLACEMENT-NEW-IDENTITY''
              ''replacement ID, ordinal, and seed subspace must all be new''])
            else take_thrown (generate_block_plan ops fp_negative fp_at_least_200000 digest input namespaces) (\<lambda>generated.
              if bp_whole_plot_order (gp_plan generated) = bp_whole_plot_order block \<and>
                 ordered_factor_sequence (gp_plan generated) = ordered_factor_sequence block
              then Inr (Inl [ValidationError cross_field ''$/replacement/new_plan/cells'' ''REPLACEMENT-NEW-RANDOM-ORDER''
                ''replacement must realize a new randomized whole/cell order''])
              else Inr (Inr \<lparr>rd_state = Replacement_authorized, rd_replacement_plan = Some generated, rd_blockers = []\<rparr>))))))"

subsection \<open>The Stage 14 validator\<close>

record Stage14Validator =
  s14_namespaces :: RoleNamespaceRegistry
  s14_seed_catalogs :: "BlockSeedCatalog list"
  s14_artifacts :: "ArtifactAccessRecord list"
  s14_authorities :: AuthorityPolicy
  s14_precision :: "PrecisionResult option"
  s14_replacement_budget :: "ReplacementBudget option"

text \<open>The loop that sorts the records into four vectors.\<close>

definition blocks_of :: "'d ProtocolRecord list \<Rightarrow> 'd BlockPlan list" where
  "blocks_of records = concat (map (\<lambda>r. case r of Record_block b \<Rightarrow> [b] | _ \<Rightarrow> []) records)"
definition freezes_of :: "'d ProtocolRecord list \<Rightarrow> 'd FreezeRecord list" where
  "freezes_of records = concat (map (\<lambda>r. case r of Record_freeze f \<Rightarrow> [f] | _ \<Rightarrow> []) records)"
definition failures_of :: "'d ProtocolRecord list \<Rightarrow> 'd FailureRecord list" where
  "failures_of records = concat (map (\<lambda>r. case r of Record_failure f \<Rightarrow> [f] | _ \<Rightarrow> []) records)"
definition run_manifests_of :: "'d ProtocolRecord list \<Rightarrow> 'd RunManifest list" where
  "run_manifests_of records = concat (map (\<lambda>r. case r of Record_manifest m \<Rightarrow> [m] | _ \<Rightarrow> []) records)"

text \<open>A second child of a block has a child before it.\<close>

fun branch_errors :: "string list \<Rightarrow> 'd BlockPlan list \<Rightarrow> ValidationError list" where
  "branch_errors replaced [] = []"
| "branch_errors replaced (block # blocks) =
     (case bp_replaces_block_id block of
        None \<Rightarrow> branch_errors replaced blocks
      | Some original \<Rightarrow>
          fail_if (id_value original \<in> set replaced)
            (ValidationError duplicate_value ''$/blocks/replaces_block_id'' ''REPLACEMENT-NO-BRANCH''
              ''an incomplete block may have only one direct replacement'') @
          branch_errors (id_value original # replaced) blocks)"

fun seed_reuse_errors :: "string list \<Rightarrow> Identifier list \<Rightarrow> ValidationError list \<times> string list" where
  "seed_reuse_errors all_seed_ids [] = ([], all_seed_ids)"
| "seed_reuse_errors all_seed_ids (seed # seeds) =
     (let (errors, ids) = seed_reuse_errors (id_value seed # all_seed_ids) seeds in
      (fail_if (id_value seed \<in> set all_seed_ids)
        (ValidationError duplicate_value ''$/seed_catalogs'' ''BLK-POOL-SEED-NO-REUSE''
          ''original and replacement block seed subspaces cannot overlap'') @ errors, ids))"

definition catalog_for :: "BlockSeedCatalog list \<Rightarrow> 'd BlockPlan \<Rightarrow> BlockSeedCatalog option" where
  "catalog_for catalogs block = find (\<lambda>candidate. bs_block_subspace_id candidate = bp_seed_subspace_id block) catalogs"

definition seed_ids_of :: "BlockSeedCatalog \<Rightarrow> Identifier list" where
  "seed_ids_of catalog = bs_arrival_seed_ids catalog @ bs_node_seed_ids catalog @ bs_event_seed_ids catalog"

fun check_block_seeds ::
  "'d binary64_ops \<Rightarrow> ('d \<Rightarrow> bool) \<Rightarrow> (u8 list \<Rightarrow> u8 list option) \<Rightarrow> RoleNamespaceRegistry \<Rightarrow> BlockSeedCatalog list \<Rightarrow>
     string list \<Rightarrow> 'd BlockPlan list \<Rightarrow> workload_error + ValidationError list" where
  "check_block_seeds ops fp digest namespaces catalogs all_seed_ids [] = Inr []"
| "check_block_seeds ops fp digest namespaces catalogs all_seed_ids (block # blocks) =
     (case catalog_for catalogs block of
        None \<Rightarrow> take_result (check_block_seeds ops fp digest namespaces catalogs all_seed_ids blocks) (\<lambda>errors.
          Inr (ValidationError missing_evidence ''$/blocks/seed_subspace_id'' ''BLK-SEED-CATALOG-MISSING''
            ''every block requires its immutable role-compatible seed catalog'' # errors))
      | Some catalog \<Rightarrow>
          (let (reuse, all_seed_ids') = seed_reuse_errors all_seed_ids (seed_ids_of catalog) in
           take_result (validate_block_plan ops fp digest block catalog namespaces) (\<lambda>block_errors.
           take_result (check_block_seeds ops fp digest namespaces catalogs all_seed_ids' blocks) (\<lambda>errors.
             Inr (block_errors @ reuse @ errors)))))"

text \<open>The blocks without a replacement that have a catalog, with it.\<close>

definition active_pool :: "BlockSeedCatalog list \<Rightarrow> 'd BlockPlan list \<Rightarrow> ('d BlockPlan \<times> BlockSeedCatalog) list" where
  "active_pool catalogs blocks =
     (let replaced = concat (map (\<lambda>b. case bp_replaces_block_id b of None \<Rightarrow> [] | Some original \<Rightarrow> [id_value original]) blocks) in
      concat (map (\<lambda>b. case catalog_for catalogs b of
          None \<Rightarrow> []
        | Some catalog \<Rightarrow> if id_value (bp_block_id b) \<in> set replaced then [] else [(b, catalog)]) blocks))"

definition pool_errors ::
  "'d binary64_ops \<Rightarrow> ('d \<Rightarrow> bool) \<Rightarrow> (u8 list \<Rightarrow> u8 list option) \<Rightarrow> Stage14Validator \<Rightarrow> 'd BlockPlan list \<Rightarrow>
     workload_error + ValidationError list" where
  "pool_errors ops fp digest v blocks =
     (let unresolved = Inr [ValidationError missing_evidence ''$/precision'' ''BLK-POOL-PRECISION-UNRESOLVED''
            ''final common block-pool completeness requires resolved prospective counts''];
          active = active_pool (s14_seed_catalogs v) blocks
      in case s14_precision v of
           None \<Rightarrow> unresolved
         | Some precision \<Rightarrow>
             (case px_role_counts precision of
                None \<Rightarrow> unresolved
              | Some roles \<Rightarrow>
                  if px_state precision \<noteq> Precision_resolved then unresolved
                  else validate_block_pool ops fp digest (map fst active) (map snd active) (s14_namespaces v)
                    (ro_h3_train roles) (ro_h3_validation roles) (ro_h1h2_supplemental roles)))"

definition training_open_errors :: "Stage14Validator \<Rightarrow> 'd FreezeRecord list \<Rightarrow> ValidationError list" where
  "training_open_errors v freezes =
     (case filter (\<lambda>f. fz_record_kind f = Kind_protocol_freeze \<and> fz_access_state_after f = Access_training_open) freezes of
        [training_open] \<Rightarrow>
          (case (decode_training_open_decision training_open, s14_precision v) of
             (Inr decision, Some precision) \<Rightarrow>
               (case px_counts precision of
                  None \<Rightarrow> []
                | Some counts' \<Rightarrow> fail_if (\<not> counts_equal (to_counts decision) counts')
                    (ValidationError reference_mismatch ''$/access_records/decision_value'' ''ACCESS-PRECISION-FREEZE-COUNTS''
                      ''TRAINING_OPEN counts must equal the resolved prospective precision plan'')) @
               (case px_evidence precision of
                  None \<Rightarrow> []
                | Some evidence \<Rightarrow>
                    fail_if (\<not> (to_delta_star_artifact_id decision = id_value (ar_artifact_id (pe_delta_star evidence)) \<and>
                          to_bootstrap_configuration_artifact_id decision =
                            id_value (ar_artifact_id (pe_bootstrap_configuration evidence))) \<or>
                        \<not> list_all (input_contains training_open) (sizing_references evidence) \<or>
                        \<not> list_all (\<lambda>input. input_contains training_open (ai_artifact input)) (pe_input_artifacts evidence))
                      (ValidationError reference_mismatch ''$/access_records/input_artifacts'' ''ACCESS-PRECISION-FREEZE-INPUTS''
                        (''TRAINING_OPEN must hash-bind the exact delta, bootstrap, separate family '' @
                         ''sizing, and prospective source evidence'')))
           | _ \<Rightarrow> [])
      | _ \<Rightarrow> [ValidationError missing_evidence ''$/access_records'' ''ACCESS-TRAINING-FREEZE-UNIQUE''
          ''the common block pool requires exactly one immutable TRAINING_OPEN freeze''])"

definition budget_errors :: "Stage14Validator \<Rightarrow> 'd BlockPlan list \<Rightarrow> ValidationError list" where
  "budget_errors v blocks =
     (case s14_replacement_budget v of
        Some budget \<Rightarrow>
          fail_if (artifact_for (s14_artifacts v) (rb_budget_artifact budget) = None)
            (ValidationError reference_mismatch ''$/replacement_budget/budget_artifact'' ''REPLACEMENT-BUDGET-EVIDENCE''
              (''the frozen replacement budget must resolve by exact artifact ID and '' @ ''SHA-256'')) @
          fail_if (replacement_count blocks > rb_maximum_replacement_blocks budget)
            (ValidationError out_of_range ''$/replacement_budget'' ''REPLACEMENT-BUDGET-EXCEEDED''
              (''replacement count exceeds R_replacement_max and study must remain '' @ ''unresolved''))
      | None \<Rightarrow>
          fail_if (list_ex (\<lambda>b. bp_replaces_block_id b \<noteq> None) blocks)
            (ValidationError missing_evidence ''$/replacement_budget'' ''REPLACEMENT-BUDGET-MISSING''
              ''replacement blocks require a frozen platform budget''))"

definition original_resolved :: "'d BlockPlan \<Rightarrow> 'd BlockPlan option \<Rightarrow> bool" where
  "original_resolved block found \<longleftrightarrow>
     (case (found, bp_replacement_lineage block) of
        (Some original, Some lineage) \<Rightarrow>
          bp_platform_id block = bp_platform_id original \<and> bp_build_id block = bp_build_id original \<and>
          bp_block_role block = bp_block_role original \<and> bp_block_ordinal block \<noteq> bp_block_ordinal original \<and>
          bp_seed_subspace_id block \<noteq> bp_seed_subspace_id original \<and>
          ln_replaced_block_ordinal lineage = bp_block_ordinal original \<and>
          ln_replaced_block_role lineage = bp_block_role original \<and>
          ln_replaced_seed_subspace_id lineage = bp_seed_subspace_id original \<and>
          \<not> (bp_whole_plot_order block = bp_whole_plot_order original \<and>
             ordered_factor_sequence block = ordered_factor_sequence original)
      | _ \<Rightarrow> False)"

definition authorization_resolved ::
  "ReplacementBudget option \<Rightarrow> 'd BlockPlan \<Rightarrow> Identifier \<Rightarrow> 'd FreezeRecord \<Rightarrow> ReplacementAuthorization \<Rightarrow> bool" where
  "authorization_resolved found_budget block original authorization replacement \<longleftrightarrow>
     (case found_budget of
        None \<Rightarrow> False
      | Some budget \<Rightarrow>
          ra_replacement_block_id replacement = bp_block_id block \<and> ra_original_block_id replacement = original \<and>
          ra_replacement_block_ordinal replacement = bp_block_ordinal block \<and>
          ra_replacement_seed_subspace_id replacement = bp_seed_subspace_id block \<and>
          ra_block_role replacement = bp_block_role block \<and>
          id_value (ra_replacement_budget_record_id replacement) = id_value (ar_artifact_id (rb_budget_artifact budget)) \<and>
          input_contains authorization (rb_budget_artifact budget))"

definition failure_resolved ::
  "'d RunManifest list \<Rightarrow> 'd BlockPlan \<Rightarrow> Identifier \<Rightarrow> 'd FreezeRecord \<Rightarrow> 'd FailureRecord option \<Rightarrow> bool" where
  "failure_resolved manifests block original authorization found \<longleftrightarrow>
     (case found of
        None \<Rightarrow> False
      | Some failure \<Rightarrow>
          (case fr_run_id failure of
             None \<Rightarrow> False
           | Some run_id \<Rightarrow> list_ex (\<lambda>run. rm_run_id run = run_id \<and> rm_validity run = Validity_invalid) manifests) \<and>
          fr_invalidates_run failure \<and> fr_block_id failure = Some original \<and>
          fr_resolution_status failure = Resolution_replacement_authorized \<and>
          fr_replacement_authorization_id failure = Some (fz_record_id authorization) \<and>
          fr_replacement_block_id failure = Some (bp_block_id block))"

definition replacement_errors ::
  "ReplacementBudget option \<Rightarrow> 'd BlockPlan list \<Rightarrow> 'd FreezeRecord list \<Rightarrow> 'd FailureRecord list \<Rightarrow> 'd RunManifest list \<Rightarrow>
     'd BlockPlan \<Rightarrow> ValidationError list" where
  "replacement_errors budget blocks freezes failures manifests block =
     (case (bp_replaces_block_id block, bp_replacement_authorization_id block) of
        (Some original, Some authorization_id) \<Rightarrow>
          if \<not> original_resolved block (find (\<lambda>candidate. bp_block_id candidate = original) blocks)
          then [ValidationError reference_mismatch ''$/replacement_lineage'' ''REPLACEMENT-ORIGINAL-RESOLUTION''
            (''replacement lineage must resolve the retained original with the same '' @
             ''platform/build/role and a new ordinal, seed subspace, and randomized order'')]
          else (let record_error = [ValidationError reference_mismatch ''$/replacement_authorization_id''
                      ''REPLACEMENT-RECORD-RESOLUTION''
                      (''replacement plan must resolve an authorization naming both block '' @ ''identities'')]
                in case find (\<lambda>f. fz_record_id f = authorization_id) freezes of
                  None \<Rightarrow> record_error
                | Some authorization \<Rightarrow>
                    (case fz_replacement authorization of
                       None \<Rightarrow> record_error
                     | Some replacement \<Rightarrow>
                         if \<not> authorization_resolved budget block original authorization replacement then record_error
                         else fail_if (\<not> failure_resolved manifests block original authorization
                             (find (\<lambda>f. fr_failure_record_id f = ra_failure_record_id replacement) failures))
                           (ValidationError missing_evidence ''$/replacement/failure_record_id''
                             ''REPLACEMENT-INVALID-RUN-RESOLUTION''
                             (''replacement authorization must resolve a retained invalid required run and '' @ ''failure''))))
      | _ \<Rightarrow> [])"

definition stage14_validate ::
  "'d binary64_ops \<Rightarrow> ('d \<Rightarrow> bool) \<Rightarrow> (u8 list \<Rightarrow> u8 list option) \<Rightarrow> Stage14Validator \<Rightarrow> 'd ProtocolRecord list \<Rightarrow>
     workload_error + ValidationError list" where
  "stage14_validate ops fp_at_least_200000 digest v records =
     (let blocks = blocks_of records; freezes = freezes_of records; failures = failures_of records;
          manifests = run_manifests_of records
      in take_result (check_block_seeds ops fp_at_least_200000 digest (s14_namespaces v) (s14_seed_catalogs v) [] blocks) (\<lambda>seed_errors.
         take_result (pool_errors ops fp_at_least_200000 digest v blocks) (\<lambda>pool.
         take_result (validate_access_ledger ops fp_at_least_200000 digest blocks freezes (s14_artifacts v) (s14_namespaces v)
           (s14_authorities v)) (\<lambda>ledger.
           Inr (concat (map (stage4_validate fp_at_least_200000) records) @ branch_errors [] blocks @ seed_errors @ pool @
             al_errors ledger @ training_open_errors v freezes @ budget_errors v blocks @
             concat (map (replacement_errors (s14_replacement_budget v) blocks freezes failures manifests) blocks))))))"

subsection \<open>Authorised replacements\<close>

text \<open>What the generator gives back has passed the plan validator.\<close>

lemma block_record_Inr:
  "(case r of Record_block b \<Rightarrow> f b | _ \<Rightarrow> Inr (Inl e)) = Inr (Inr g) \<longleftrightarrow> (\<exists>b. r = Record_block b \<and> f b = Inr (Inr g))"
  by (cases r) auto

lemma generated_plan_valid:
  assumes "generate_block_plan ops fp_negative fp_at_least_200000 digest input registry = Inr (Inr g)"
  shows "validate_block_plan ops fp_at_least_200000 digest (gp_plan g) (gi_seeds input) registry = Inr []"
proof -
  obtain document where "finish_block_plan ops fp_negative fp_at_least_200000 digest input registry document = Inr (Inr g)"
    using assms by (auto simp: generate_block_plan_def Let_def take_thrown_Inr take_result_Inr split: if_splits)
  then show ?thesis
    by (auto simp: finish_block_plan_def Let_def take_thrown_Inr take_result_Inr result_of_def block_record_Inr split: if_splits)
qed

text \<open>The identities of a new block that no existing block has.\<close>

definition identity_fresh :: "'d BlockPlan list \<Rightarrow> BlockGenerationInput \<Rightarrow> Identifier \<Rightarrow> bool" where
  "identity_fresh blocks input block_id \<longleftrightarrow>
     list_all (\<lambda>b. bp_block_id b \<noteq> block_id \<and> bp_block_ordinal b \<noteq> gi_block_ordinal input \<and>
       bp_seed_subspace_id b \<noteq> bs_block_subspace_id (gi_seeds input)) blocks"

definition new_random_order :: "'d BlockPlan \<Rightarrow> 'd BlockPlan \<Rightarrow> bool" where
  "new_random_order new original \<longleftrightarrow>
     bp_whole_plot_order new \<noteq> bp_whole_plot_order original \<or> ordered_factor_sequence new \<noteq> ordered_factor_sequence original"


end
