(* ===== verification/Access_Correct.thy ===== *)
theory Access_Correct
  imports Access Load_Correct
begin

text \<open>
  What an error-free access ledger says: its transitions are the registered chain of states in order,
  and outcomes are released only behind the records that must precede them.
\<close>

subsection \<open>The chain of states\<close>

text \<open>The transitions an access ledger may record, in the only order it may record them.\<close>

definition access_chain :: "(RecordKind \<times> AccessState \<times> AccessState) list" where
  "access_chain =
     [(Kind_protocol_freeze, Access_planned, Access_collected_sealed),
      (Kind_protocol_freeze, Access_collected_sealed, Access_training_open),
      (Kind_selection_freeze, Access_training_open, Access_selection_frozen),
      (Kind_validation_unseal, Access_selection_frozen, Access_validation_unsealed),
      (Kind_h3_evaluated, Access_validation_unsealed, Access_h3_evaluated),
      (Kind_h1h2_released, Access_h3_evaluated, Access_h1h2_released),
      (Kind_protocol_freeze, Access_h1h2_released, Access_archived)]"

definition transition_of :: "'d FreezeRecord \<Rightarrow> RecordKind \<times> AccessState \<times> AccessState" where
  "transition_of r = (fz_record_kind r, fz_access_state_before r, fz_access_state_after r)"

definition is_transition :: "'d FreezeRecord \<Rightarrow> bool" where
  "is_transition r \<longleftrightarrow> fz_record_kind r \<noteq> Kind_replacement_authorization \<and> fz_record_kind r \<noteq> Kind_amendment"

lemma chain_rank:
  assumes "(k, before, after) \<in> set access_chain"
  shows "AccessState_rank before < 7" and "access_chain ! AccessState_rank before = (k, before, after)"
    and "AccessState_rank after = Suc (AccessState_rank before)"
  using assms by (auto simp: access_chain_def)

lemma rank_inj: "AccessState_rank a = AccessState_rank b \<longleftrightarrow> a = b"
  by (cases a; cases b) simp_all

subsection \<open>One record\<close>

text \<open>A branch without an error that allows the transition takes it from the chain, or is an amendment in place.\<close>

lemma kind_step_chain:
  assumes "kind_step ops digest blocks artifacts namespaces authorities earlier path targets r = Inr ((errors, True), targets')"
    and "fz_record_kind r \<noteq> Kind_replacement_authorization"
  shows "if is_transition r then transition_of r \<in> set access_chain
    else fz_record_kind r = Kind_amendment \<and> fz_access_state_before r = fz_access_state_after r"
proof (cases "fz_record_kind r")
  case Kind_protocol_freeze
  with assms show ?thesis
    by (auto simp: kind_step_def protocol_freeze_step_def Let_def is_transition_def transition_of_def access_chain_def)
next
  case Kind_selection_freeze
  with assms show ?thesis
    by (auto simp: kind_step_def selection_freeze_step_def take_result_Inr Let_def is_transition_def transition_of_def access_chain_def)
next
  case Kind_validation_unseal
  with assms show ?thesis
    by (auto simp: kind_step_def validation_unseal_step_def Let_def is_transition_def transition_of_def access_chain_def)
next
  case Kind_h3_evaluated
  with assms show ?thesis
    by (auto simp: kind_step_def h3_evaluated_step_def Let_def is_transition_def transition_of_def access_chain_def)
next
  case Kind_h1h2_released
  with assms show ?thesis
    by (auto simp: kind_step_def h1h2_released_step_def Let_def is_transition_def transition_of_def access_chain_def)
next
  case Kind_amendment
  with assms show ?thesis
    by (auto simp: kind_step_def amendment_step_def Let_def is_transition_def split: option.splits if_splits prod.splits)
next
  case Kind_replacement_authorization
  with assms show ?thesis by simp
qed

lemma ledger_step_clean:
  assumes "ledger_step ops fp digest blocks artifacts namespaces authorities earlier st r = Inr ([], st')"
  obtains path where
    "common_record_errors fp blocks artifacts authorities earlier path st True r = []"
    "freeze_self_hash_matches ops digest r = Inr True"
    "fz_record_kind r = Kind_replacement_authorization \<longrightarrow> lg_final_state st' = lg_final_state st"
    "fz_record_kind r \<noteq> Kind_replacement_authorization \<longrightarrow>
       lg_final_state st = fz_access_state_before r \<and> lg_final_state st' = fz_access_state_after r \<and>
       (\<exists>targets targets'. kind_step ops digest blocks artifacts namespaces authorities earlier path targets r =
          Inr (([], True), targets'))"
proof -
  let ?path = "access_record_path (length earlier)"
  from assms obtain hash_ok where hash: "freeze_self_hash_matches ops digest r = Inr hash_ok"
    by (auto simp: ledger_step_def Let_def take_result_Inr)
  have common: "common_record_errors fp blocks artifacts authorities earlier ?path st hash_ok r = []"
    using assms by (auto simp: ledger_step_def Let_def take_result_Inr hash split: if_splits)
  then have hash_ok by (simp add: common_record_errors_def)
  with common hash have 1: "common_record_errors fp blocks artifacts authorities earlier ?path st True r = []"
      "freeze_self_hash_matches ops digest r = Inr True" by simp_all
  show ?thesis
  proof (cases "fz_record_kind r = Kind_replacement_authorization")
    case True
    with assms have "lg_final_state st' = lg_final_state st"
      by (simp add: ledger_step_def Let_def hash) (metis LedgerState.select_convs(1) LedgerState.surjective LedgerState.update_convs(2,4))
    with True show ?thesis by (intro that [OF 1]) simp_all
  next
    case False
    with assms obtain errors allowed targets where
      step: "kind_step ops digest blocks artifacts namespaces authorities earlier ?path (lg_amendment_targets st) r =
        Inr ((errors, allowed), targets)" by (auto simp: ledger_step_def Let_def hash take_result_Inr)
    from assms False have ok: "errors = []" allowed "fz_access_state_before r = lg_final_state st"
      by (simp_all add: ledger_step_def Let_def hash step)
    from assms False have "lg_final_state st' = fz_access_state_after r"
      by (auto simp: ledger_step_def Let_def hash step ok)
    with ok step False show ?thesis by (intro that [OF 1]) auto
  qed
qed

lemma ledger_step_rank:
  assumes "ledger_step ops fp digest blocks artifacts namespaces authorities earlier st r = Inr ([], st')"
  shows "if is_transition r
    then transition_of r \<in> set access_chain \<and> lg_final_state st = fz_access_state_before r \<and>
      lg_final_state st' = fz_access_state_after r
    else lg_final_state st' = lg_final_state st"
  using assms
proof (rule ledger_step_clean)
  fix path
  assume *: "fz_record_kind r = Kind_replacement_authorization \<longrightarrow> lg_final_state st' = lg_final_state st"
    "fz_record_kind r \<noteq> Kind_replacement_authorization \<longrightarrow>
       lg_final_state st = fz_access_state_before r \<and> lg_final_state st' = fz_access_state_after r \<and>
       (\<exists>targets targets'. kind_step ops digest blocks artifacts namespaces authorities earlier path targets r =
          Inr (([], True), targets'))"
  show ?thesis
  proof (cases "fz_record_kind r = Kind_replacement_authorization")
    case False
    with * obtain targets targets' where
      "kind_step ops digest blocks artifacts namespaces authorities earlier path targets r = Inr (([], True), targets')"
      by blast
    from kind_step_chain [OF this False] False * show ?thesis by (auto split: if_splits)
  qed (use * in \<open>simp add: is_transition_def\<close>)
qed

subsection \<open>The loop\<close>

lemma ledger_loop_chain:
  assumes "ledger_loop ops fp digest blocks artifacts namespaces authorities earlier st records = Inr ([], st')"
  shows "AccessState_rank (lg_final_state st) \<le> AccessState_rank (lg_final_state st')"
    and "map transition_of (filter is_transition records) =
      take (AccessState_rank (lg_final_state st') - AccessState_rank (lg_final_state st))
        (drop (AccessState_rank (lg_final_state st)) access_chain)"
proof -
  have "AccessState_rank (lg_final_state st) \<le> AccessState_rank (lg_final_state st') \<and>
    map transition_of (filter is_transition records) =
      take (AccessState_rank (lg_final_state st') - AccessState_rank (lg_final_state st))
        (drop (AccessState_rank (lg_final_state st)) access_chain)"
    using assms
  proof (induction records arbitrary: earlier st)
    case (Cons r records)
    then obtain st1 where step: "ledger_step ops fp digest blocks artifacts namespaces authorities earlier st r = Inr ([], st1)"
      and rest: "ledger_loop ops fp digest blocks artifacts namespaces authorities (earlier @ [r]) st1 records = Inr ([], st')"
      by (auto simp: take_result_Inr)
    note IH = Cons.IH [OF rest]
    note r = ledger_step_rank [OF step]
    show ?case
    proof (cases "is_transition r")
      case True
      let ?n = "AccessState_rank (lg_final_state st)"
      have chain: "transition_of r \<in> set access_chain" and st: "lg_final_state st = fz_access_state_before r"
          "lg_final_state st1 = fz_access_state_after r" using r True by simp_all
      note c = chain_rank [OF chain [unfolded transition_of_def], folded st]
      have "length access_chain = 7" by (simp add: access_chain_def)
      then have "drop ?n access_chain = transition_of r # drop (Suc ?n) access_chain"
        using Cons_nth_drop_Suc [of ?n access_chain] c(1,2) st by (simp add: transition_of_def)
      with IH c(3) True show ?thesis by (auto simp: Suc_le_eq Suc_diff_Suc take_Cons' split: if_splits)
    qed (use IH r in simp)
  qed simp
  then show "AccessState_rank (lg_final_state st) \<le> AccessState_rank (lg_final_state st')"
    and "map transition_of (filter is_transition records) =
      take (AccessState_rank (lg_final_state st') - AccessState_rank (lg_final_state st))
        (drop (AccessState_rank (lg_final_state st)) access_chain)" by simp_all
qed

lemma ledger_loop_record:
  assumes "ledger_loop ops fp digest blocks artifacts namespaces authorities earlier st (xs @ r # ys) = Inr ([], st')"
  shows "\<exists>st1 st2. ledger_step ops fp digest blocks artifacts namespaces authorities (earlier @ xs) st1 r = Inr ([], st2)"
  using assms
proof (induction xs arbitrary: earlier st)
  case Nil
  then show ?case by (auto simp: take_result_Inr)
next
  case (Cons x xs)
  then obtain st1 where "ledger_loop ops fp digest blocks artifacts namespaces authorities (earlier @ [x]) st1 (xs @ r # ys) = Inr ([], st')"
    by (auto simp: take_result_Inr)
  from Cons.IH [OF this] show ?case by simp
qed

lemma clean_ledger:
  assumes "validate_access_ledger ops fp digest blocks records artifacts namespaces authorities = Inr ledger"
    and "al_errors ledger = []"
  obtains st where "ledger_loop ops fp digest blocks artifacts namespaces authorities []
      \<lparr>lg_final_state = Access_planned, lg_record_ids = [], lg_amendment_targets = [], lg_previous_timestamp = None\<rparr> records =
      Inr ([], st)" and "al_final_state ledger = lg_final_state st"
    and "validate_authority_policy authorities artifacts = []"
  using assms by (auto simp: validate_access_ledger_def take_result_Inr)

text \<open>
  C6. When the access ledger has no error, the records that change the access state (amendments and replacement
  authorisations apart) are exactly the first transitions of the fixed chain from PLANNED through the sealed collection,
  training, selection, unsealing, H3 evaluation and H1/H2 release to ARCHIVED, in this order and each once, up to the
  final state that the ledger reports: no phase is skipped, repeated or reordered.
\<close>

theorem ledger_follows_chain:
  assumes "validate_access_ledger ops fp digest blocks records artifacts namespaces authorities = Inr ledger"
    and "al_errors ledger = []"
  shows "map transition_of (filter is_transition records) = take (AccessState_rank (al_final_state ledger)) access_chain"
proof -
  obtain st where loop: "ledger_loop ops fp digest blocks artifacts namespaces authorities []
      \<lparr>lg_final_state = Access_planned, lg_record_ids = [], lg_amendment_targets = [], lg_previous_timestamp = None\<rparr> records =
      Inr ([], st)" and final: "al_final_state ledger = lg_final_state st" using assms by (rule clean_ledger)
  from ledger_loop_chain(2) [OF loop] show ?thesis by (simp add: final)
qed

subsection \<open>Outcome access\<close>

text \<open>A training freeze, a selection and an unsealing that a clean ledger accepts.\<close>

definition training_opened :: "'d BlockPlan list \<Rightarrow> 'd FreezeRecord \<Rightarrow> bool" where
  "training_opened blocks r \<longleftrightarrow>
     fz_record_kind r = Kind_protocol_freeze \<and> fz_access_state_after r = Access_training_open \<and>
     fz_outcome_access_prohibited r \<and> exact_affected_blocks r blocks (Some Block_h3_train) \<and>
     (\<exists>decision. decode_training_open_decision r = Inr decision)"

definition selection_frozen ::
  "'d binary64_ops \<Rightarrow> (u8 list \<Rightarrow> u8 list option) \<Rightarrow> 'd BlockPlan list \<Rightarrow> ArtifactAccessRecord list \<Rightarrow> 'd FreezeRecord \<Rightarrow> bool" where
  "selection_frozen ops digest blocks artifacts r \<longleftrightarrow>
     fz_record_kind r = Kind_selection_freeze \<and> exact_affected_blocks r blocks (Some Block_h3_train) \<and>
     six_selections (fz_h3_selections r) \<and> fz_selection_rule_version r = Some kH3SelectionRuleId \<and>
     selection_checksum_matches ops digest r = Inr True \<and> freeze_self_hash_matches ops digest r = Inr True \<and>
     (\<forall>training \<in> set (fz_training_input_artifacts r). training_artifact_ok artifacts r training)"

definition validation_unsealed ::
  "'d BlockPlan list \<Rightarrow> ArtifactAccessRecord list \<Rightarrow> RoleNamespaceRegistry \<Rightarrow> AuthorityPolicy \<Rightarrow> 'd FreezeRecord \<Rightarrow> bool" where
  "validation_unsealed blocks artifacts namespaces authorities r \<longleftrightarrow>
     fz_record_kind r = Kind_validation_unseal \<and> exact_affected_blocks r blocks (Some Block_h3_validation) \<and>
     validation_approved artifacts authorities r \<and>
     map_option pa_authority_id (assignment_for authorities Principal_custodian) = Some (au_authority_id (fz_authority r)) \<and>
     (\<exists>b sealed_ref artifact. find (\<lambda>b. nb_role b = Block_h3_validation) (ng_role_bindings namespaces) = Some b \<and>
        fz_validation_artifact_ref r = Some sealed_ref \<and> artifact_for artifacts sealed_ref = Some artifact \<and>
        aa_access_class artifact = Class_validation_sealed \<and> aa_namespace_id artifact = Some (nb_namespace_id b))"

lemma filter_map_Cons:
  assumes "map f (filter P rs) = a # xs"
  shows "\<exists>pre r post. rs = pre @ r # post \<and> f r = a \<and> map f (filter P post) = xs"
  using assms by (auto simp: map_eq_Cons_conv filter_eq_Cons_iff)

lemma filter_map_append:
  assumes "map f (filter P rs) = xs @ ys"
  shows "\<exists>pre post. rs = pre @ post \<and> map f (filter P post) = ys"
  using assms
proof (induction xs arbitrary: rs)
  case (Cons x xs)
  then obtain pre r post where "rs = pre @ r # post" "map f (filter P post) = xs @ ys"
    using filter_map_Cons [of f P rs] by auto
  with Cons.IH [of post] show ?case by (metis append.assoc append_Cons)
qed auto

text \<open>The record that a clean ledger has for each position of the chain it has reached.\<close>

lemma chain_record:
  assumes "map transition_of (filter is_transition records) = take k access_chain" and "i < k" and "i < 7"
  shows "\<exists>pre r post. records = pre @ r # post \<and> transition_of r = access_chain ! i \<and>
    map transition_of (filter is_transition post) = drop (Suc i) (take k access_chain)"
proof -
  have "length access_chain = 7" by (simp add: access_chain_def)
  then have i: "i < length (take k access_chain)" using assms(2,3) by simp
  note id_take_nth_drop [OF i]
  also have "take k access_chain ! i = access_chain ! i" using assms(2) by simp
  finally have "map transition_of (filter is_transition records) =
      take i (take k access_chain) @ (access_chain ! i # drop (Suc i) (take k access_chain))" unfolding assms(1) .
  then have "\<exists>pre post. records = pre @ post \<and>
      map transition_of (filter is_transition post) = access_chain ! i # drop (Suc i) (take k access_chain)"
    by (rule filter_map_append)
  then show ?thesis
  proof (elim exE conjE)
    fix pre post
    assume rs: "records = pre @ post"
    assume "map transition_of (filter is_transition post) = access_chain ! i # drop (Suc i) (take k access_chain)"
    then have "\<exists>pre' r post'. post = pre' @ r # post' \<and> transition_of r = access_chain ! i \<and>
        map transition_of (filter is_transition post') = drop (Suc i) (take k access_chain)" by (rule filter_map_Cons)
    with rs show ?thesis by (elim exE conjE) (intro exI [of _ "pre @ _"] exI conjI, simp_all)
  qed
qed

lemma two_records:
  assumes "map transition_of (filter is_transition records) = take k access_chain" and "Suc i < k" and "i < 6"
  shows "\<exists>pre r mid s post. records = pre @ r # mid @ s # post \<and>
    transition_of r = access_chain ! i \<and> transition_of s = access_chain ! Suc i"
proof -
  obtain pre r post where r: "records = pre @ r # post" "transition_of r = access_chain ! i"
    "map transition_of (filter is_transition post) = drop (Suc i) (take k access_chain)"
    using chain_record [OF assms(1), of i] assms(2,3) by auto
  have "length access_chain = 7" by (simp add: access_chain_def)
  then have "drop (Suc i) (take k access_chain) = access_chain ! Suc i # drop (Suc (Suc i)) (take k access_chain)"
    using Cons_nth_drop_Suc [of "Suc i" "take k access_chain"] assms(2,3) by simp
  with r(3) obtain mid s rest where "post = mid @ s # rest" "transition_of s = access_chain ! Suc i"
    using filter_map_Cons by metis
  with r show ?thesis by blast
qed

lemma record_sound:
  assumes "ledger_step ops fp digest blocks artifacts namespaces authorities earlier st r = Inr ([], st')"
  shows "transition_of r = access_chain ! 1 \<Longrightarrow> training_opened blocks r"
    and "transition_of r = access_chain ! 2 \<Longrightarrow> selection_frozen ops digest blocks artifacts r"
    and "transition_of r = access_chain ! 3 \<Longrightarrow> validation_unsealed blocks artifacts namespaces authorities r"
proof -
  obtain path where common: "common_record_errors fp blocks artifacts authorities earlier path st True r = []"
    and hash: "freeze_self_hash_matches ops digest r = Inr True"
    and step: "fz_record_kind r \<noteq> Kind_replacement_authorization \<longrightarrow>
       (\<exists>targets targets'. kind_step ops digest blocks artifacts namespaces authorities earlier path targets r =
          Inr (([], True), targets'))"
    using assms by (rule ledger_step_clean) blast
  show "training_opened blocks r" if "transition_of r = access_chain ! 1"
    using that step
    by (auto simp: transition_of_def access_chain_def kind_step_def protocol_freeze_step_def Let_def training_opened_def
        split: sum.splits)
  show "selection_frozen ops digest blocks artifacts r" if "transition_of r = access_chain ! 2"
    using that step hash
    by (auto simp: transition_of_def access_chain_def kind_step_def selection_freeze_step_def take_result_Inr Let_def
        selection_frozen_def)
  show "validation_unsealed blocks artifacts namespaces authorities r" if "transition_of r = access_chain ! 3"
  proof -
    have kind: "fz_record_kind r = Kind_validation_unseal" using that by (simp add: transition_of_def access_chain_def)
    with step obtain targets where "kind_step ops digest blocks artifacts namespaces authorities earlier path targets r =
        Inr (([], True), targets)" by (auto simp: kind_step_def)
    with kind have unseal: "validation_unseal_step blocks artifacts namespaces authorities earlier path r = ([], True)"
      by (simp add: kind_step_def)
    have "map_option pa_authority_id (assignment_for authorities Principal_custodian) = Some (au_authority_id (fz_authority r))"
      using common by (auto simp: common_record_errors_def kind split: option.splits)
    moreover have "exact_affected_blocks r blocks (Some Block_h3_validation)" "validation_approved artifacts authorities r"
      using unseal by (simp_all add: validation_unseal_step_def Let_def)
    moreover have "\<exists>b sealed_ref artifact. find (\<lambda>b. nb_role b = Block_h3_validation) (ng_role_bindings namespaces) = Some b \<and>
        fz_validation_artifact_ref r = Some sealed_ref \<and> artifact_for artifacts sealed_ref = Some artifact \<and>
        aa_access_class artifact = Class_validation_sealed \<and> aa_namespace_id artifact = Some (nb_namespace_id b)"
      using unseal by (auto simp: validation_unseal_step_def Let_def split: option.splits if_splits)
    ultimately show ?thesis using kind by (simp add: validation_unsealed_def)
  qed
qed

lemma authorized_rank:
  assumes "authorize_outcome_access ledger blocks authorities request = Inr b"
  shows "al_errors ledger = []"
    and "aq_domain request = Outcome_h3_training \<Longrightarrow> 2 \<le> AccessState_rank (al_final_state ledger)"
    and "aq_domain request = Outcome_h3_validation \<Longrightarrow> 4 \<le> AccessState_rank (al_final_state ledger)"
    and "aq_domain request = Outcome_h1h2 \<Longrightarrow> 6 \<le> AccessState_rank (al_final_state ledger)"
  using assms by (auto simp: authorize_outcome_access_def Let_def split: if_splits option.splits)

text \<open>The actor holds the role the domain needs and the block has no replacement.\<close>

definition request_bound :: "AuthorityPolicy \<Rightarrow> 'd BlockPlan list \<Rightarrow> AccessRequest \<Rightarrow> bool" where
  "request_bound authorities blocks request \<longleftrightarrow>
     (\<exists>assignment block. assignment_for authorities (aq_actor_role request) = Some assignment \<and>
      pa_authority_id assignment = aq_actor_id request \<and> id_in blocks (aq_block_id request) = Some block \<and>
      (\<forall>item \<in> set blocks. bp_replaces_block_id item \<noteq> Some (aq_block_id request)) \<and>
      (case aq_domain request of
         Outcome_h3_training \<Rightarrow> aq_actor_role request = Principal_training_analyst \<and> bp_block_role block = Block_h3_train
       | Outcome_h3_validation \<Rightarrow> aq_actor_role request = Principal_confirmatory_analyst \<and> bp_block_role block = Block_h3_validation
       | Outcome_h1h2 \<Rightarrow> aq_actor_role request = Principal_confirmatory_analyst))"

lemma authorized_identity:
  assumes "authorize_outcome_access ledger blocks authorities request = Inr b"
  shows "request_bound authorities blocks request"
proof (cases "aq_domain request")
  case Outcome_h3_training
  with assms show ?thesis
    by (auto simp: authorize_outcome_access_def request_bound_def Let_def list_ex_iff split: if_splits option.splits)
next
  case Outcome_h3_validation
  with assms show ?thesis
    by (auto simp: authorize_outcome_access_def request_bound_def Let_def list_ex_iff split: if_splits option.splits)
next
  case Outcome_h1h2
  with assms show ?thesis
    by (auto simp: authorize_outcome_access_def request_bound_def Let_def list_ex_iff split: if_splits option.splits)
qed

text \<open>
  C7. Outcome access is granted only to the assigned principal of the requested role, for an active block of the
  requested role, and only after the records that the protocol requires: training outcomes after a valid training freeze,
  validation outcomes after a selection frozen on training data alone and, later, an unsealing approved by the validation
  authority for exactly the validation blocks, and H1/H2 outcomes after the H3 evaluation and its release.
\<close>

theorem outcome_access_guarded:
  assumes "validate_access_ledger ops fp digest blocks records artifacts namespaces authorities = Inr ledger"
    and "authorize_outcome_access ledger blocks authorities request = Inr granted"
  shows "request_bound authorities blocks request \<and>
    (case aq_domain request of
      Outcome_h3_training \<Rightarrow> \<exists>r \<in> set records. training_opened blocks r
    | Outcome_h3_validation \<Rightarrow> \<exists>pre selection mid unseal post. records = pre @ selection # mid @ unseal # post \<and>
        selection_frozen ops digest blocks artifacts selection \<and>
        validation_unsealed blocks artifacts namespaces authorities unseal
    | Outcome_h1h2 \<Rightarrow> \<exists>pre evaluation mid release post. records = pre @ evaluation # mid @ release # post \<and>
        fz_record_kind evaluation = Kind_h3_evaluated \<and> fz_record_kind release = Kind_h1h2_released)"
proof -
  note rank = authorized_rank [OF assms(2)]
  obtain st where loop: "ledger_loop ops fp digest blocks artifacts namespaces authorities []
      \<lparr>lg_final_state = Access_planned, lg_record_ids = [], lg_amendment_targets = [], lg_previous_timestamp = None\<rparr> records =
      Inr ([], st)" and final: "al_final_state ledger = lg_final_state st" using assms(1) rank(1) by (rule clean_ledger)
  have chain: "map transition_of (filter is_transition records) = take (AccessState_rank (al_final_state ledger)) access_chain"
    using ledger_loop_chain(2) [OF loop] by (simp add: final)
  have sound: "transition_of r = access_chain ! 1 \<Longrightarrow> training_opened blocks r"
    "transition_of r = access_chain ! 2 \<Longrightarrow> selection_frozen ops digest blocks artifacts r"
    "transition_of r = access_chain ! 3 \<Longrightarrow> validation_unsealed blocks artifacts namespaces authorities r"
    if split: "records = xs @ r # ys" for xs r ys
  proof -
    obtain st1 st2 where "ledger_step ops fp digest blocks artifacts namespaces authorities ([] @ xs) st1 r = Inr ([], st2)"
      using ledger_loop_record [OF loop [unfolded split]] by blast
    from record_sound [OF this] show "transition_of r = access_chain ! 1 \<Longrightarrow> training_opened blocks r"
      "transition_of r = access_chain ! 2 \<Longrightarrow> selection_frozen ops digest blocks artifacts r"
      "transition_of r = access_chain ! 3 \<Longrightarrow> validation_unsealed blocks artifacts namespaces authorities r" by blast+
  qed
  have id: "request_bound authorities blocks request" by (rule authorized_identity [OF assms(2)])
  show ?thesis
  proof (cases "aq_domain request")
    case Outcome_h3_training
    with rank(2) chain_record [OF chain, of 1] obtain pre r post where
      "records = pre @ r # post" "transition_of r = access_chain ! 1" by auto
    with sound(1) [of pre r post] Outcome_h3_training id show ?thesis by auto
  next
    case Outcome_h3_validation
    with rank(3) two_records [OF chain, of 2] obtain pre r mid s post where
      split: "records = pre @ r # mid @ s # post" and rs: "transition_of r = access_chain ! 2" "transition_of s = access_chain ! 3"
      by (auto simp: eval_nat_numeral)
    have "selection_frozen ops digest blocks artifacts r" using sound(2) [of pre r "mid @ s # post"] split rs by simp
    moreover have "validation_unsealed blocks artifacts namespaces authorities s"
      using sound(3) [of "pre @ r # mid" s post] split rs by simp
    ultimately have "\<exists>pre selection mid unseal post. records = pre @ selection # mid @ unseal # post \<and>
        selection_frozen ops digest blocks artifacts selection \<and> validation_unsealed blocks artifacts namespaces authorities unseal"
      using split by blast
    with Outcome_h3_validation id show ?thesis by simp
  next
    case Outcome_h1h2
    with rank(4) two_records [OF chain, of 4] obtain pre r mid s post where
      split: "records = pre @ r # mid @ s # post" and "transition_of r = access_chain ! 4" "transition_of s = access_chain ! 5"
      by (auto simp: eval_nat_numeral)
    then have "fz_record_kind r = Kind_h3_evaluated" "fz_record_kind s = Kind_h1h2_released"
      by (simp_all add: transition_of_def access_chain_def)
    with split have "\<exists>pre evaluation mid release post. records = pre @ evaluation # mid @ release # post \<and>
        fz_record_kind evaluation = Kind_h3_evaluated \<and> fz_record_kind release = Kind_h1h2_released" by blast
    with Outcome_h1h2 id show ?thesis by simp
  qed
qed

end
