(* ===== verification/Access_Example.thy ===== *)
theory Access_Example
  imports Access_Correct Stage12_Example
begin

text \<open>
  An access ledger that the validator accepts, from the sealing of the collection to the unsealing of
  the validation blocks, with one training and one validation block. The record that the unsealing names
  as its selection is a parameter.
\<close>

definition ex_block :: "string \<Rightarrow> BlockRole \<Rightarrow> unit BlockPlan" where
  "ex_block name role =
     \<lparr>bp_schema_version = V2_0_0_pre_2, bp_protocol_version = V2_0_0_pre_2, bp_block_id = Identifier name,
      bp_platform_id = Identifier ''p'', bp_build_id = Identifier ''b'', bp_stage = Stage_stage_a,
      bp_block_role = role, bp_block_ordinal = 0, bp_seed_subspace_id = Identifier ''s'',
      bp_replaces_block_id = None, bp_replacement_authorization_id = None, bp_replacement_lineage = None,
      bp_whole_plot_order = (Requested_h0, Requested_h1), bp_cells = [], bp_access_state = Access_planned,
      bp_plan_sha256 = Sha256 [], bp_source_document = JNull\<rparr>"

definition ex_blocks :: "unit BlockPlan list" where
  "ex_blocks = [ex_block ''t'' Block_h3_train, ex_block ''v'' Block_h3_validation]"

definition access_artifacts :: "ArtifactAccessRecord list" where
  "access_artifacts =
     map (\<lambda>(name, class, role, namespace, issuer).
       \<lparr>aa_artifact = ex_ref name, aa_access_class = class, aa_block_id = None, aa_namespace_id = namespace,
        aa_block_role = role, aa_issuing_role = map_option (\<lambda>_. Principal_validation_authority) issuer,
        aa_issuer_id = issuer\<rparr>)
     [(''delta'', Class_public_protocol, None, None, None), (''boot'', Class_public_protocol, None, None, None),
      (''schema'', Class_public_protocol, None, None, None), (''outcomes'', Class_training_only, Some Block_h3_train, None, None),
      (''sealed'', Class_validation_sealed, None, Some (Identifier ''ns-v''), None),
      (''approval'', Class_public_protocol, None, None, Some (Identifier ''va''))]"

definition ex_namespaces :: RoleNamespaceRegistry where
  "ex_namespaces =
     \<lparr>ng_common_stage_a_namespace_id = Identifier ''ns'',
      ng_role_bindings = map (\<lambda>(role, name). \<lparr>nb_role = role, nb_namespace_id = Identifier name,
        nb_parent_namespace_id = Identifier ''ns''\<rparr>)
        [(Block_h3_train, ''ns-t''), (Block_h3_validation, ''ns-v''), (Block_h1h2_supplemental, ''ns-s'')]\<rparr>"

definition ex_authorities :: AuthorityPolicy where
  "ex_authorities =
     \<lparr>ap_assignments = map (\<lambda>(role, name). \<lparr>pa_role = role, pa_authority_id = Identifier name\<rparr>)
        [(Principal_freeze_authority, ''fa''), (Principal_custodian, ''cu''), (Principal_training_analyst, ''ta''),
         (Principal_validation_authority, ''va''), (Principal_confirmatory_analyst, ''ca''),
         (Principal_replacement_authority, ''ra'')],
      ap_permitted_overlaps = []\<rparr>"

definition ex_decision :: "unit Value" where
  "ex_decision = JObject
    [(''bootstrap_configuration_artifact_id'', JString ''boot''),
     (''bootstrap_seed_id'', JString ''seed''),
     (''candidate_order'', JArray (map JString candidate_order)),
     (''delta_star_artifact_id'', JString ''delta''),
     (''h1_contrast_ids'', JArray (map JString h1_contrast_ids)),
     (''h2_contrast_ids'', JArray (map JString h2_contrast_ids)),
     (''h3_context_order'', JArray (map JString context_order)),
     (''h3_reported_comparison_count'', JNumber (Number ''54'' (Unsigned_integer 54))),
     (''h3_training_pair_count'', JNumber (Number ''270'' (Unsigned_integer 270))),
     (''h3_validation_family_count'', JNumber (Number ''540'' (Unsigned_integer 540))),
     (''nruns'', JNumber (Number ''3600'' (Unsigned_integer 3600))),
     (''precision_profile_id'', JString ''profile''),
     (''r12'', JNumber (Number ''20'' (Unsigned_integer 20))),
     (''r_h1'', JNumber (Number ''20'' (Unsigned_integer 20))),
     (''r_h2'', JNumber (Number ''20'' (Unsigned_integer 20))),
     (''rtotal'', JNumber (Number ''20'' (Unsigned_integer 20))),
     (''rtrain'', JNumber (Number ''12'' (Unsigned_integer 12))),
     (''rval'', JNumber (Number ''8'' (Unsigned_integer 8))),
     (''schema_artifact_ids'', JArray (map JString [''schema''])),
     (''tie_break_rule_id'', JString kH3SelectionRuleId)]"

definition ex_source :: "unit Value" where
  "ex_source = JObject [(''h3_selections'', JNull), (''record_sha256'', JNull), (''selection_rule_version'', JNull),
     (''training_input_artifacts'', JNull)]"

definition ex_freeze ::
  "string \<Rightarrow> RecordKind \<Rightarrow> AccessState \<Rightarrow> AccessState \<Rightarrow> Authority \<Rightarrow> string list \<Rightarrow> AccessInputArtifact list \<Rightarrow> unit FreezeRecord" where
  "ex_freeze name kind before after authority blocks inputs =
     \<lparr>fz_schema_version = V2_0_0_pre_2, fz_protocol_version = V2_0_0_pre_2, fz_record_id = Identifier name,
      fz_record_kind = kind, fz_decision_id = ''d'', fz_readiness_boundary = Readiness_submission_only,
      fz_status = (if kind = Kind_validation_unseal then Freeze_authorized else Freeze_frozen),
      fz_authorization_status = Authorization_authorized, fz_created_at_utc = ''2024-02-29T12:00:00Z'',
      fz_authority = authority, fz_decision_value = None, fz_rationale = None,
      fz_access_state_before = before, fz_access_state_after = after,
      fz_outcome_access_prohibited = (kind \<noteq> Kind_validation_unseal), fz_affected_block_ids = map Identifier blocks,
      fz_h3_selections = map (\<lambda>ctx. (ctx, \<lparr>hc_package = Package_r0, hc_requested_hardware_state = Requested_h0\<rparr>)) h3_contexts,
      fz_training_input_artifacts = [ex_ref ''outcomes''], fz_selection_rule_version = Some kH3SelectionRuleId,
      fz_selection_record_checksum_sha256 = Some (Sha256 (replicate 32 0)), fz_selection_record_ref = None,
      fz_validation_namespace_id = Some (Identifier ''ns-v''), fz_validation_artifact_ref = Some (ex_ref ''sealed''),
      fz_validation_unseal_record_ref = None, fz_h3_evaluation_artifact_ref = None, fz_h3_access_record_ref = None,
      fz_replacement = None, fz_supersedes_id = None, fz_prior_protocol_version = None, fz_new_protocol_version = None,
      fz_affected_documents = [], fz_affected_schema_ids = [], fz_affected_estimands = [], fz_affected_contrast_ids = [],
      fz_pilot_record_disposition = None, fz_prior_authoritative_hashes = [], fz_input_artifacts = inputs,
      fz_record_sha256 = Sha256 (replicate 32 0), fz_source_document = ex_source\<rparr>"

definition access_input :: "AccessClass \<Rightarrow> string \<Rightarrow> AccessInputArtifact" where
  "access_input class name = \<lparr>ai_artifact = ex_ref name, ai_access_class = class\<rparr>"

definition ex_authority :: "string \<Rightarrow> AuthorityRole \<Rightarrow> Authority" where
  "ex_authority name role = \<lparr>au_authority_id = Identifier name, au_role = role, au_attestation = [], au_signature_artifact_id = None\<rparr>"

definition ex_training :: "unit FreezeRecord list" where
  "ex_training =
     [ex_freeze ''seal'' Kind_protocol_freeze Access_planned Access_collected_sealed
        (ex_authority ''fa'' Authority_freeze_authority) [''t'', ''v''] [],
      (ex_freeze ''open'' Kind_protocol_freeze Access_collected_sealed Access_training_open
        (ex_authority ''fa'' Authority_freeze_authority) [''t'']
        (map (access_input Class_public_protocol) [''delta'', ''boot'', ''schema'']))\<lparr>fz_decision_value := Some ex_decision\<rparr>,
      ex_freeze ''select'' Kind_selection_freeze Access_training_open Access_selection_frozen
        (ex_authority ''fa'' Authority_freeze_authority) [''t''] [access_input Class_training_only ''outcomes'']]"

definition ex_unseal :: "string \<Rightarrow> unit FreezeRecord" where
  "ex_unseal selection =
     (ex_freeze ''unseal'' Kind_validation_unseal Access_selection_frozen Access_validation_unsealed
        (ex_authority ''cu'' Authority_validation_custodian) [''v''] [access_input Class_public_protocol ''approval''])
        \<lparr>fz_selection_record_ref := Some (ex_ref selection)\<rparr>"

definition ex_ledger :: "string \<Rightarrow> unit FreezeRecord list" where
  "ex_ledger selection = ex_training @ [ex_unseal selection]"

subsection \<open>The ledger is accepted\<close>

text \<open>The canonical text of a source exists, and every digest is zero.\<close>

lemma sorted_plain:
  assumes "sorted_wrt string_less (map fst ms)" and "\<forall>m \<in> set ms. ascii (fst m) \<and> plain ops (snd m)"
  shows "\<exists>t. canonicalize ops (JObject ms) = Inr t"
  using assms plain_text [of ops "JObject ms"] by (auto simp: plain_object ascii_utf8)

lemma source_texts:
  fixes ops :: "'d binary64_ops"
  shows "\<exists>t. canonicalize ops (JObject (assign_member ''record_sha256'' (JString zero_hash)
     [(''h3_selections'', JNull), (''record_sha256'', JNull), (''selection_rule_version'', JNull), (''training_input_artifacts'', JNull)])) = Inr t"
    and "\<exists>t. canonicalize ops (JObject (json_object
     [(''h3_selections'', JNull), (''training_input_artifacts'', JNull), (''selection_rule_version'', JNull)])) = Inr t"
proof -
  let ?ms = "[(''h3_selections'', JNull), (''record_sha256'', JNull), (''selection_rule_version'', JNull), (''training_input_artifacts'', JNull)] :: (string \<times> 'd Value) list"
  have sorted: "sorted_wrt string_less (map fst ?ms)" by code_simp
  have "assign_member ''record_sha256'' (JString zero_hash) ?ms = map (\<lambda>m. (fst m, if fst m = ''record_sha256'' then JString zero_hash else snd m)) ?ms"
    by (rule assign_member_known [OF sorted]) simp
  with sorted show "\<exists>t. canonicalize ops (JObject (assign_member ''record_sha256'' (JString zero_hash) ?ms)) = Inr t"
    by (intro sorted_plain) (auto simp: zero_hash_ascii ascii_utf8 byte_def)
  let ?ps = "[(''h3_selections'', JNull), (''training_input_artifacts'', JNull), (''selection_rule_version'', JNull)] :: (string \<times> 'd Value) list"
  have "distinct (map fst ?ps)" by simp
  then show "\<exists>t. canonicalize ops (JObject (json_object ?ps)) = Inr t"
    by (intro sorted_plain json_object_sorted) (auto simp: json_object_set byte_def)
qed

lemma source_hashes:
  assumes "fz_source_document r = ex_source" "fz_record_sha256 r = Sha256 (replicate 32 0)"
  shows "freeze_self_hash_matches ops zero_digest r = Inr True"
    and "fz_selection_record_checksum_sha256 r = Some (Sha256 (replicate 32 0)) \<Longrightarrow>
      selection_checksum_matches ops zero_digest r = Inr True"
  using source_texts [of ops] assms
  by (auto simp: freeze_self_hash_matches_def selection_checksum_matches_def ex_source_def Sha256_hex_digest)

lemma step_accepted:
  assumes "freeze_self_hash_matches ops digest r = Inr True"
    and "common_record_errors fp blocks artifacts authorities earlier (access_record_path (length earlier)) st True r = []"
    and "kind_step ops digest blocks artifacts namespaces authorities earlier (access_record_path (length earlier))
      (lg_amendment_targets st) r = Inr (([], True), lg_amendment_targets st)"
    and "fz_record_kind r \<noteq> Kind_replacement_authorization" and "fz_access_state_before r = lg_final_state st"
    and "parse_utc (fz_created_at_utc r) = Some timestamp"
  shows "ledger_step ops fp digest blocks artifacts namespaces authorities earlier st r = Inr ([],
    st\<lparr>lg_record_ids := id_value (fz_record_id r) # lg_record_ids st, lg_previous_timestamp := Some timestamp,
      lg_final_state := fz_access_state_after r\<rparr>)"
  using assms by (simp add: ledger_step_def Let_def)

definition ex_timestamp :: UtcTimestamp where
  "ex_timestamp = \<lparr>ut_fields = [2024, 2, 29, 12, 0, 0], ut_fraction = []\<rparr>"

text \<open>The variables after the first \<open>n\<close> records.\<close>

definition ex_states :: "AccessState list" where
  "ex_states = [Access_planned, Access_collected_sealed, Access_training_open, Access_selection_frozen, Access_validation_unsealed]"

definition ex_names :: "string list" where
  "ex_names = [''seal'', ''open'', ''select'', ''unseal'']"

definition ex_state :: "nat \<Rightarrow> LedgerState" where
  "ex_state n =
     \<lparr>lg_final_state = ex_states ! n, lg_record_ids = rev (take n ex_names), lg_amendment_targets = [],
      lg_previous_timestamp = (if n = 0 then None else Some ex_timestamp)\<rparr>"

lemma ex_utc: "parse_utc ''2024-02-29T12:00:00Z'' = Some ex_timestamp"
  by code_simp

lemma ex_timestamp_equal: "\<not> timestamp_less ex_timestamp ex_timestamp"
  by (simp add: timestamp_less_def)

text \<open>The definitions that the checks of a record look up.\<close>

lemmas ex_lookups = common_record_errors_def ex_training_def ex_unseal_def ex_freeze_def validate_freeze_def ex_state_def
  ex_states_def ex_names_def ex_utc ex_timestamp_equal access_reference_resolves_def artifact_for_def access_artifacts_def
  access_input_def ex_ref_def assignment_for_def ex_authorities_def ex_authority_def id_in_def ex_blocks_def ex_block_def
  role_allowed_for_record_def require_blocks_def h3_contexts_def protocol_freeze_step_def validation_unseal_step_def
  exact_affected_blocks_def validation_approved_def record_reference_def ex_namespaces_def

lemma ex_common:
  "common_record_errors (\<lambda>_. True) ex_blocks access_artifacts ex_authorities [] (access_record_path 0) (ex_state 0) True
     (ex_training ! 0) = []"
  "common_record_errors (\<lambda>_. True) ex_blocks access_artifacts ex_authorities (take 1 ex_training) (access_record_path 1) (ex_state 1) True
     (ex_training ! 1) = []"
  "common_record_errors (\<lambda>_. True) ex_blocks access_artifacts ex_authorities (take 2 ex_training) (access_record_path 2) (ex_state 2) True
     (ex_training ! 2) = []"
  "common_record_errors (\<lambda>_. True) ex_blocks access_artifacts ex_authorities ex_training (access_record_path 3) (ex_state 3) True
     (ex_unseal ''select'') = []"
  "common_record_errors (\<lambda>_. True) ex_blocks access_artifacts ex_authorities ex_training (access_record_path 3) (ex_state 3) True
     (ex_unseal ''open'') = []"
  by (simp_all add: ex_lookups)

lemma ex_kinds:
  "protocol_freeze_step ex_blocks (access_record_path 0) (ex_training ! 0) = ([], True)"
  "protocol_freeze_step ex_blocks (access_record_path 1) (ex_training ! 1) = ([], True)"
  "validation_unseal_step ex_blocks access_artifacts ex_namespaces ex_authorities ex_training (access_record_path 3)
     (ex_unseal ''select'') = ([], True)"
  "validation_unseal_step ex_blocks access_artifacts ex_namespaces ex_authorities ex_training (access_record_path 3)
     (ex_unseal ''open'') = ([], True)"
  by (simp add: ex_lookups, code_simp, simp_all add: ex_lookups)

lemma ex_selection:
  "exact_affected_blocks (ex_training ! 2) ex_blocks (Some Block_h3_train)" "six_selections (fz_h3_selections (ex_training ! 2))"
  "list_all (training_artifact_ok access_artifacts (ex_training ! 2)) (fz_training_input_artifacts (ex_training ! 2))"
  by (code_simp, code_simp, code_simp)

lemma ex_record:
  "ex_training ! 0 = ex_freeze ''seal'' Kind_protocol_freeze Access_planned Access_collected_sealed
     (ex_authority ''fa'' Authority_freeze_authority) [''t'', ''v''] []"
  "ex_training ! Suc 0 = (ex_freeze ''open'' Kind_protocol_freeze Access_collected_sealed Access_training_open
     (ex_authority ''fa'' Authority_freeze_authority) [''t'']
     (map (access_input Class_public_protocol) [''delta'', ''boot'', ''schema'']))\<lparr>fz_decision_value := Some ex_decision\<rparr>"
  "ex_training ! 2 = ex_freeze ''select'' Kind_selection_freeze Access_training_open Access_selection_frozen
     (ex_authority ''fa'' Authority_freeze_authority) [''t''] [access_input Class_training_only ''outcomes'']"
  by (simp_all add: ex_training_def)

lemma ex_training_records: "[ex_training ! 0, ex_training ! 1, ex_training ! 2] = ex_training"
  by (simp add: ex_training_def)

abbreviation ex_step :: "unit FreezeRecord list \<Rightarrow> nat \<Rightarrow> unit FreezeRecord \<Rightarrow> workload_error + ValidationError list \<times> LedgerState" where
  "ex_step earlier n r \<equiv> ledger_step example_ops (\<lambda>_. True) zero_digest ex_blocks access_artifacts ex_namespaces ex_authorities
     earlier (ex_state n) r"

text \<open>The fields of the records that the loop reads.\<close>

lemma ex_freeze_fields:
  "fz_source_document (ex_freeze name kind before after authority blocks inputs) = ex_source"
  "fz_record_sha256 (ex_freeze name kind before after authority blocks inputs) = Sha256 (replicate 32 0)"
  "fz_selection_record_checksum_sha256 (ex_freeze name kind before after authority blocks inputs) = Some (Sha256 (replicate 32 0))"
  "fz_created_at_utc (ex_freeze name kind before after authority blocks inputs) = ''2024-02-29T12:00:00Z''"
  "fz_record_id (ex_freeze name kind before after authority blocks inputs) = Identifier name"
  "fz_record_kind (ex_freeze name kind before after authority blocks inputs) = kind"
  "fz_access_state_before (ex_freeze name kind before after authority blocks inputs) = before"
  "fz_access_state_after (ex_freeze name kind before after authority blocks inputs) = after"
  by (simp_all add: ex_freeze_def)

lemma ex_step_accepted:
  assumes "fz_source_document r = ex_source" "fz_record_sha256 r = Sha256 (replicate 32 0)"
    and "fz_created_at_utc r = ''2024-02-29T12:00:00Z''" and "fz_record_kind r \<noteq> Kind_replacement_authorization"
    and "common_record_errors (\<lambda>_. True) ex_blocks access_artifacts ex_authorities earlier (access_record_path n) (ex_state n) True r = []"
    and "kind_step example_ops zero_digest ex_blocks access_artifacts ex_namespaces ex_authorities earlier (access_record_path n) [] r =
      Inr (([], True), [])"
    and "length earlier = n" and "n < 4" and "fz_access_state_before r = ex_states ! n"
    and "fz_access_state_after r = ex_states ! Suc n" and "fz_record_id r = Identifier (ex_names ! n)"
  shows "ex_step earlier n r = Inr ([], ex_state (Suc n))"
proof -
  have "lg_amendment_targets (ex_state n) = []" "lg_final_state (ex_state n) = ex_states ! n" by (simp_all add: ex_state_def)
  then have "ex_step earlier n r = Inr ([], (ex_state n)\<lparr>lg_record_ids := id_value (fz_record_id r) # lg_record_ids (ex_state n),
      lg_previous_timestamp := Some ex_timestamp, lg_final_state := fz_access_state_after r\<rparr>)"
    using assms source_hashes(1) [OF assms(1,2)] ex_utc by (intro step_accepted) simp_all
  moreover have "length ex_names = 4" by (simp add: ex_names_def)
  ultimately show ?thesis using assms(8,10,11) by (simp add: ex_state_def take_Suc_conv_app_nth)
qed

lemma ex_selection_step:
  "selection_freeze_step example_ops zero_digest ex_blocks access_artifacts path (ex_training ! 2) = Inr ([], True)"
proof -
  let ?r = "ex_training ! 2"
  have fields: "fz_selection_rule_version ?r = Some kH3SelectionRuleId" "fz_training_input_artifacts ?r = [ex_ref ''outcomes'']"
    "fz_input_artifacts ?r = [access_input Class_training_only ''outcomes'']"
    "fz_access_state_before ?r = Access_training_open" "fz_access_state_after ?r = Access_selection_frozen"
    by (simp_all add: ex_record ex_freeze_def)
  have "selection_checksum_matches example_ops zero_digest ?r = Inr True"
    by (rule source_hashes) (simp_all add: ex_record ex_freeze_fields)
  with ex_selection fields show ?thesis
    by (simp add: selection_freeze_step_def Let_def list_all_iff access_input_def)
qed

lemma ex_steps:
  "ex_step [] 0 (ex_training ! 0) = Inr ([], ex_state 1)"
  "ex_step [ex_training ! 0] 1 (ex_training ! 1) = Inr ([], ex_state 2)"
  "ex_step [ex_training ! 0, ex_training ! 1] 2 (ex_training ! 2) = Inr ([], ex_state 3)"
  "selection \<in> {''select'', ''open''} \<Longrightarrow> ex_step ex_training 3 (ex_unseal selection) = Inr ([], ex_state 4)"
proof -
  have takes: "take 1 ex_training = [ex_training ! 0]" "take 2 ex_training = [ex_training ! 0, ex_training ! 1]"
    "length ex_training = 3" by (simp_all add: ex_training_def)
  note fields = ex_record ex_freeze_fields ex_states_def ex_names_def
  have kinds: "fz_record_kind (ex_training ! 0) = Kind_protocol_freeze" "fz_record_kind (ex_training ! Suc 0) = Kind_protocol_freeze"
    "fz_record_kind (ex_training ! 2) = Kind_selection_freeze" "fz_record_kind (ex_unseal selection) = Kind_validation_unseal"
    for selection by (simp_all add: ex_record ex_freeze_fields ex_unseal_def)
  let ?kind = "kind_step example_ops zero_digest ex_blocks access_artifacts ex_namespaces ex_authorities"
  have k: "?kind [] (access_record_path 0) [] (ex_training ! 0) = Inr (([], True), [])"
    "?kind (take 1 ex_training) (access_record_path 1) [] (ex_training ! 1) = Inr (([], True), [])"
    "?kind (take 2 ex_training) (access_record_path 2) [] (ex_training ! 2) = Inr (([], True), [])"
    using ex_kinds(1,2) ex_selection_step by (simp_all add: kind_step_def kinds)
  show "ex_step [] 0 (ex_training ! 0) = Inr ([], ex_state 1)"
    unfolding One_nat_def by (rule ex_step_accepted [OF _ _ _ _ ex_common(1) k(1)]) (simp_all add: fields)
  have "ex_step (take 1 ex_training) 1 (ex_training ! 1) = Inr ([], ex_state (Suc 1))"
    by (rule ex_step_accepted [OF _ _ _ _ ex_common(2) k(2)]) (simp_all add: fields takes)
  then show "ex_step [ex_training ! 0] 1 (ex_training ! 1) = Inr ([], ex_state 2)"
    unfolding takes by (simp add: numeral_2_eq_2)
  have "ex_step (take 2 ex_training) 2 (ex_training ! 2) = Inr ([], ex_state (Suc 2))"
    by (rule ex_step_accepted [OF _ _ _ _ ex_common(3) k(3)]) (simp_all add: fields takes)
  then show "ex_step [ex_training ! 0, ex_training ! 1] 2 (ex_training ! 2) = Inr ([], ex_state 3)"
    unfolding takes by (simp add: numeral_3_eq_3)
  show "ex_step ex_training 3 (ex_unseal selection) = Inr ([], ex_state 4)" if "selection \<in> {''select'', ''open''}"
  proof -
    have "?kind ex_training (access_record_path 3) [] (ex_unseal selection) = Inr (([], True), [])"
      using that ex_kinds(3,4) by (auto simp: kind_step_def kinds)
    moreover have "common_record_errors (\<lambda>_. True) ex_blocks access_artifacts ex_authorities ex_training (access_record_path 3)
        (ex_state 3) True (ex_unseal selection) = []" using that ex_common(4,5) by auto
    ultimately have "ex_step ex_training 3 (ex_unseal selection) = Inr ([], ex_state (Suc 3))"
      by (intro ex_step_accepted) (simp_all add: fields takes ex_unseal_def)
    then show ?thesis by (simp add: eval_nat_numeral)
  qed
qed

lemma ex_policy: "validate_authority_policy ex_authorities access_artifacts = []" "validate_role_namespaces ex_namespaces = []"
    "duplicate_block_errors [] ex_blocks = []"
  by (code_simp, code_simp, code_simp)

lemma ex_ledger_accepted:
  assumes "selection \<in> {''select'', ''open''}"
  shows "validate_access_ledger example_ops (\<lambda>_. True) zero_digest ex_blocks (ex_ledger selection) access_artifacts ex_namespaces
    ex_authorities = Inr \<lparr>al_final_state = Access_validation_unsealed, al_errors = []\<rparr>"
proof -
  have start: "\<lparr>lg_final_state = Access_planned, lg_record_ids = [], lg_amendment_targets = [], lg_previous_timestamp = None\<rparr> = ex_state 0"
    by (simp add: ex_state_def ex_states_def)
  have ledger: "ex_ledger selection = [ex_training ! 0, ex_training ! 1, ex_training ! 2, ex_unseal selection]"
    by (simp add: ex_ledger_def ex_training_def)
  have "ex_step [ex_training ! 0, ex_training ! 1, ex_training ! 2] 3 (ex_unseal selection) = Inr ([], ex_state 4)"
    unfolding ex_training_records by (rule ex_steps(4) [OF assms])
  moreover have "lg_final_state (ex_state 4) = Access_validation_unsealed" by (simp add: ex_state_def ex_states_def)
  ultimately show ?thesis
    unfolding validate_access_ledger_def start ledger by (simp add: ex_steps [unfolded One_nat_def] ex_policy)
qed

subsection \<open>The theorems at this ledger\<close>

definition ex_request :: AccessRequest where
  "ex_request = \<lparr>aq_actor_id = Identifier ''ca'', aq_actor_role = Principal_confirmatory_analyst,
     aq_domain = Outcome_h3_validation, aq_block_id = Identifier ''v''\<rparr>"

lemma ex_request_granted:
  "authorize_outcome_access \<lparr>al_final_state = Access_validation_unsealed, al_errors = []\<rparr> ex_blocks ex_authorities ex_request = Inr True"
  by code_simp

lemma ex_select: "''select'' \<in> {''select'', ''open''}" "''open'' \<in> {''select'', ''open''}"
  by simp_all

theorem ledger_follows_chain_witness:
  "map transition_of (filter is_transition (ex_ledger ''select'')) = take 4 access_chain"
  using ledger_follows_chain [OF ex_ledger_accepted [OF ex_select(1)]] by simp

theorem outcome_access_guarded_witness:
  "\<exists>pre selection mid unseal post. ex_ledger ''select'' = pre @ selection # mid @ unseal # post \<and>
     selection_frozen example_ops zero_digest ex_blocks access_artifacts selection \<and>
     validation_unsealed ex_blocks access_artifacts ex_namespaces ex_authorities unseal"
  using outcome_access_guarded [OF ex_ledger_accepted [OF ex_select(1)] ex_request_granted]
  by (simp add: ex_request_def)

text \<open>The unsealing need not name the selection: a ledger that names the training freeze instead is accepted.\<close>

theorem unseal_link_unchecked:
  "validate_access_ledger example_ops (\<lambda>_. True) zero_digest ex_blocks (ex_ledger ''open'') access_artifacts ex_namespaces
     ex_authorities = Inr \<lparr>al_final_state = Access_validation_unsealed, al_errors = []\<rparr> \<and>
   (\<exists>unseal reference linked_record. unseal \<in> set (ex_ledger ''open'') \<and> fz_record_kind unseal = Kind_validation_unseal \<and>
      fz_selection_record_ref unseal = Some reference \<and>
      record_reference (ex_ledger ''open'') reference = Some linked_record \<and> fz_record_kind linked_record = Kind_protocol_freeze)"
proof -
  have u: "ex_unseal ''open'' \<in> set (ex_ledger ''open'')" by (simp add: ex_ledger_def)
  have "record_reference (ex_ledger ''open'') (ex_ref ''open'') = Some (ex_training ! Suc 0)"
    by (simp add: record_reference_def ex_ledger_def ex_training_def ex_freeze_fields ex_ref_def ex_unseal_def)
  moreover have "fz_record_kind (ex_unseal ''open'') = Kind_validation_unseal"
      "fz_selection_record_ref (ex_unseal ''open'') = Some (ex_ref ''open'')" "fz_record_kind (ex_training ! Suc 0) = Kind_protocol_freeze"
    by (simp_all add: ex_unseal_def ex_record ex_freeze_fields)
  ultimately show ?thesis using ex_ledger_accepted [OF ex_select(2)] u by blast
qed

end
