(* ===== verification/Schedule.thy ===== *)
theory Schedule
  imports Semantic Json_Objects Json_Canonical
begin

text \<open>
  Arrival schedules, \<^verbatim>\<open>schedule/schedule.hpp\<close> and \<^verbatim>\<open>schedule/schedule.cpp\<close>: the derivation record of a
  schedule, the decoder and validator of its deadlines and the check of the uses of schedules across
  treatments and roles. SHA-256 is the argument \<open>digest\<close>. The errors of a function are the concatenation
  of what its statements add, in their order; a \<^verbatim>\<open>std::map\<close> of a loop is a map passed along.
\<close>

unbundle bit_operations_syntax

subsection \<open>Constants and data\<close>

definition kScheduleAlgorithm :: string where
  "kScheduleAlgorithm = ''POISSON-EXPONENTIAL-PHILOX-DECIMAL80-FLOOR-ABS-PS''"
definition kScheduleVersion :: string where
  "kScheduleVersion = ''1''"
definition kScheduleSuite :: string where
  "kScheduleSuite = ''POISSON-EXPONENTIAL-PHILOX-DECIMAL80-FLOOR-ABS-PS-v1''"
definition kScheduleTimeUnit :: string where
  "kScheduleTimeUnit = ''ps''"
definition kScheduleOverflowRule :: string where
  "kScheduleOverflowRule = ''SCHEDULE-U64-ABS-FAIL-CLOSED-v1''"
definition kDerivationSchema :: string where
  "kDerivationSchema = ''cpu-prefetch-schedule-derivation-v1''"
definition kDerivationHashProfile :: string where
  "kDerivationHashProfile = ''SCHEDULE-DERIVATION-JCS-I64-ZEROSELF-SHA256-v1''"
definition kScheduleDomainProtocolVersion :: string where
  "kScheduleDomainProtocolVersion = ''2.0.0-pre.1''"
definition kCanonicalizationSuite :: string where
  "kCanonicalizationSuite = ''JCS-I64-v1''"

record PreparedSchedule =
  ps_deadlines :: "u64 list"
  ps_artifact_sha256 :: string
  ps_decoded_deadlines_sha256 :: string
  ps_schedule_sha256 :: string

datatype NamespaceRole =
    Namespace_warmup | Namespace_calibration | Namespace_pilot | Namespace_h3_train
  | Namespace_h3_validation | Namespace_h1h2_supplemental | Namespace_diagnostic

record 'd ScheduleUse =
  su_schedule :: "'d ScheduleRecord option"
  su_namespace_role :: NamespaceRole
  su_treatment_id :: string
  su_common_schedule_family_id :: string

subsection \<open>Hashes and encodings\<close>

definition schedule_append_u64_be :: "u8 list \<Rightarrow> u64 \<Rightarrow> u8 list" where
  "schedule_append_u64_be out value =
     fold (\<lambda>shift out. out @ [ucast (drop_bit (shift - 8) value AND 0xff)]) [64, 56, 48, 40, 32, 24, 16, 8] out"

definition schedule_append_field :: "u8 list \<Rightarrow> u8 list \<Rightarrow> u8 list" where
  "schedule_append_field out value = schedule_append_u64_be out (of_nat (length value)) @ value"

definition append_string_field :: "u8 list \<Rightarrow> string \<Rightarrow> u8 list" where
  "append_string_field out value = schedule_append_field out (string_bytes value)"

definition append_integer_field :: "u8 list \<Rightarrow> u64 \<Rightarrow> u8 list" where
  "append_integer_field out value =
     schedule_append_field out (map (\<lambda>index. ucast (drop_bit (56 - index * 8) value AND 0xff)) [0..<8])"

text \<open>The lowercase digits of the digest, or nothing when the library fails.\<close>

definition schedule_sha256_hex :: "(u8 list \<Rightarrow> u8 list option) \<Rightarrow> u8 list \<Rightarrow> string" where
  "schedule_sha256_hex digest input =
     (case digest input of
        None \<Rightarrow> []
      | Some output_bytes \<Rightarrow>
          if length output_bytes \<noteq> 32 then []
          else concat (map (\<lambda>value. [hex_digits ! unat (drop_bit 4 value), hex_digits ! unat (value AND 15)])
            output_bytes))"

definition decode_u64_be :: "u8 list \<Rightarrow> u64" where
  "decode_u64_be input = fold (\<lambda>value result. push_bit 8 result OR ucast value) input 0"

definition decoded_hash ::
  "(u8 list \<Rightarrow> u8 list option) \<Rightarrow> 'd ScheduleRecord \<Rightarrow> u64 list \<Rightarrow> string" where
  "decoded_hash digest schedule deadlines =
     (let preimage = append_string_field [] ''cpu-prefetch/decoded-deadlines-sha256/v1'';
          preimage = append_string_field preimage kScheduleDomainProtocolVersion;
          preimage = append_string_field preimage kScheduleSuite;
          preimage = append_string_field preimage kScheduleTimeUnit;
          preimage = append_integer_field preimage (sc_origin_ticks schedule);
          preimage = append_integer_field preimage (sc_horizon_ticks schedule);
          preimage = append_integer_field preimage (er_numerator_events (sc_nominal_offered_rate schedule));
          preimage = append_integer_field preimage (er_denominator_ticks (sc_nominal_offered_rate schedule));
          preimage = append_integer_field preimage (of_nat (length deadlines));
          preimage = fold (\<lambda>deadline out. append_integer_field out deadline) deadlines preimage
      in schedule_sha256_hex digest preimage)"

definition envelope_hash ::
  "'d binary64_ops \<Rightarrow> (u8 list \<Rightarrow> u8 list option) \<Rightarrow> 'd ScheduleRecord \<Rightarrow> string Result" where
  "envelope_hash ops digest schedule =
     (case as_object (sc_source_document schedule) of
        None \<Rightarrow> Inl [ValidationError invalid_type ''$out'' ''SCH-ENVELOPE-OBJECT''
          ''schedule source document must be an object'']
      | Some source \<Rightarrow>
          if map_of source ''schedule_sha256'' = None
          then Inl [ValidationError missing_field ''$out/schedule_sha256'' ''SCH-ENVELOPE-HASH''
            ''schedule hash field is missing'']
          else (case canonicalize ops (JObject (assign_member ''schedule_sha256'' (JString zero_hash) source)) of
                  Inl errors \<Rightarrow> Inl errors
                | Inr canonical \<Rightarrow>
                    (let result = schedule_sha256_hex digest (string_bytes canonical) in
                     if result = []
                     then Inl [ValidationError missing_evidence ''$out/schedule_sha256'' ''SCH-SHA256''
                       ''OpenSSL SHA-256 failed'']
                     else Inr result)))"

fun role_matches_kind :: "NamespaceRole \<Rightarrow> ScheduleKind \<Rightarrow> bool" where
  "role_matches_kind Namespace_warmup kind \<longleftrightarrow> kind = Schedule_warmup"
| "role_matches_kind Namespace_calibration kind \<longleftrightarrow> kind = Schedule_calibration"
| "role_matches_kind Namespace_pilot kind \<longleftrightarrow> kind = Schedule_pilot"
| "role_matches_kind Namespace_h3_train kind \<longleftrightarrow> kind = Schedule_confirmatory"
| "role_matches_kind Namespace_h3_validation kind \<longleftrightarrow> kind = Schedule_confirmatory"
| "role_matches_kind Namespace_h1h2_supplemental kind \<longleftrightarrow> kind = Schedule_confirmatory"
| "role_matches_kind Namespace_diagnostic kind \<longleftrightarrow> kind = Schedule_diagnostic"

definition is_confirmatory_role :: "NamespaceRole \<Rightarrow> bool" where
  "is_confirmatory_role role \<longleftrightarrow>
     role = Namespace_h3_train \<or> role = Namespace_h3_validation \<or> role = Namespace_h1h2_supplemental"

definition same_schedule :: "'d ScheduleRecord \<Rightarrow> 'd ScheduleRecord \<Rightarrow> bool" where
  "same_schedule left right \<longleftrightarrow>
     sc_schedule_id left = sc_schedule_id right \<and>
     sc_schedule_sha256 left = sc_schedule_sha256 right \<and>
     sc_decoded_deadlines_sha256 left = sc_decoded_deadlines_sha256 right \<and>
     sc_namespace_id left = sc_namespace_id right \<and>
     rng_parent_namespace_id (sc_rng left) = rng_parent_namespace_id (sc_rng right) \<and>
     rng_seed_id (sc_rng left) = rng_seed_id (sc_rng right) \<and>
     rng_derivation_record_id (sc_rng left) = rng_derivation_record_id (sc_rng right) \<and>
     rng_algorithm (sc_rng left) = rng_algorithm (sc_rng right) \<and>
     rng_version (sc_rng left) = rng_version (sc_rng right) \<and>
     sc_schedule_kind left = sc_schedule_kind right \<and>
     sc_arrival_family left = sc_arrival_family right \<and>
     sc_time_unit left = sc_time_unit right \<and>
     sc_deadline_encoding left = sc_deadline_encoding right \<and>
     sc_origin_ticks left = sc_origin_ticks right \<and>
     sc_horizon_ticks left = sc_horizon_ticks right \<and>
     sc_offered_count left = sc_offered_count right \<and>
     er_numerator_events (sc_nominal_offered_rate left) = er_numerator_events (sc_nominal_offered_rate right) \<and>
     er_denominator_ticks (sc_nominal_offered_rate left) = er_denominator_ticks (sc_nominal_offered_rate right)"

subsection \<open>Derivation records\<close>

definition derivation_fields :: "string list" where
  "derivation_fields =
     [''record_schema'', ''protocol_version'', ''record_id'', ''schedule_suite'', ''base_rng_suite'',
      ''purpose'', ''seed_id'', ''parent_namespace_id'', ''namespace_id'', ''derived_key_u32be_hex'',
      ''python_version'', ''decimal_version'', ''libmpdec_version'', ''canonicalization_suite'',
      ''record_hash_profile'', ''record_sha256'']"

text \<open>The lambda \<^verbatim>\<open>field\<close>: the errors it adds and the text it returns, empty after an error.\<close>

definition derivation_field :: "(string \<times> 'd Value) list \<Rightarrow> string \<Rightarrow> ValidationError list \<times> string" where
  "derivation_field obj name =
     (let path = ''$derivation/'' @ name in
      case map_of obj name of
        None \<Rightarrow> ([ValidationError missing_field path ''SCH-DERIVATION-FIELD''
          ''required schedule derivation field is missing''], [])
      | Some value \<Rightarrow>
          (case as_string value of
             None \<Rightarrow> ([ValidationError invalid_type path ''SCH-DERIVATION-FIELD''
               ''schedule derivation fields must be strings''], [])
           | Some s \<Rightarrow> ([], s)))"

definition expect_binding :: "string \<Rightarrow> string \<Rightarrow> string \<Rightarrow> string \<Rightarrow> ValidationError list" where
  "expect_binding actual expected name rule =
     fail_if (actual \<noteq> [] \<and> actual \<noteq> expected)
       (ValidationError reference_mismatch (''$derivation/'' @ name) rule
         ''schedule derivation value does not match its accepted binding'')"

definition lowercase_hex :: "string \<Rightarrow> bool" where
  "lowercase_hex value \<longleftrightarrow>
     list_all (\<lambda>c. (of_char c \<ge> (of_char (CHR ''0'') :: nat) \<and> of_char c \<le> (of_char (CHR ''9'') :: nat)) \<or>
       (of_char c \<ge> (of_char (CHR ''a'') :: nat) \<and> of_char c \<le> (of_char (CHR ''f'') :: nat))) value"

text \<open>The values the record must have, with their rules.\<close>

definition derivation_bindings :: "'d ScheduleRecord \<Rightarrow> (string \<times> string \<times> string) list" where
  "derivation_bindings schedule =
     [(''record_schema'', kDerivationSchema, ''SCH-DERIVATION-SCHEMA''),
      (''protocol_version'', kProtocolVersion, ''SCH-DERIVATION-PROTOCOL''),
      (''record_id'', id_value (rng_derivation_record_id (sc_rng schedule)), ''SCH-DERIVATION-RECORD-ID''),
      (''schedule_suite'', kScheduleSuite, ''SCH-DERIVATION-SUITE''),
      (''base_rng_suite'', ''PHILOX4X32-10-HMAC-SHA256-v1'', ''SCH-DERIVATION-BASE-RNG''),
      (''purpose'', ''arrival-schedule'', ''SCH-DERIVATION-PURPOSE''),
      (''seed_id'', id_value (rng_seed_id (sc_rng schedule)), ''SCH-DERIVATION-SEED''),
      (''parent_namespace_id'', id_value (rng_parent_namespace_id (sc_rng schedule)), ''SCH-DERIVATION-PARENT''),
      (''namespace_id'', id_value (sc_namespace_id schedule), ''SCH-DERIVATION-NAMESPACE''),
      (''canonicalization_suite'', kCanonicalizationSuite, ''SCH-DERIVATION-CANONICAL''),
      (''record_hash_profile'', kDerivationHashProfile, ''SCH-DERIVATION-HASH-PROFILE'')]"

definition derivation_hash_errors ::
  "'d binary64_ops \<Rightarrow> (u8 list \<Rightarrow> u8 list option) \<Rightarrow> (string \<times> 'd Value) list \<Rightarrow> string \<Rightarrow> ValidationError list" where
  "derivation_hash_errors ops digest obj declared_hash =
     (if length declared_hash \<noteq> 64 \<or> \<not> lowercase_hex declared_hash
      then [ValidationError invalid_hash ''$derivation/record_sha256'' ''SCH-DERIVATION-HASH''
        ''derivation SHA-256 must be lowercase hexadecimal'']
      else (case canonicalize ops (JObject (assign_member ''record_sha256'' (JString zero_hash) obj)) of
              Inl errors \<Rightarrow> errors
            | Inr canonical \<Rightarrow>
                (let computed_hash = schedule_sha256_hex digest (string_bytes canonical) in
                 if computed_hash = []
                 then [ValidationError missing_evidence ''$derivation/record_sha256'' ''SCH-SHA256''
                   ''OpenSSL SHA-256 failed'']
                 else fail_if (computed_hash \<noteq> declared_hash)
                   (ValidationError reference_mismatch ''$derivation/record_sha256'' ''SCH-DERIVATION-HASH''
                     ''canonical derivation SHA-256 does not match''))))"

definition validate_derivation_record ::
  "'d binary64_ops \<Rightarrow> (u8 list \<Rightarrow> u8 list option) \<Rightarrow> 'd ScheduleRecord \<Rightarrow> string \<Rightarrow> ValidationError list" where
  "validate_derivation_record ops digest schedule derivation_record_json =
     (case json_parse ops derivation_record_json of
        Inl errors \<Rightarrow> errors
      | Inr parsed \<Rightarrow>
          (case as_object parsed of
             None \<Rightarrow> [ValidationError invalid_type ''$derivation'' ''SCH-DERIVATION-OBJECT''
               ''schedule derivation record must be an object'']
           | Some obj \<Rightarrow>
               (let field = (\<lambda>name. snd (derivation_field obj name)) in
                concat (map (\<lambda>(name, _). fail_if (name \<notin> set derivation_fields)
                  (ValidationError unknown_field (''$derivation/'' @ name) ''SCH-DERIVATION-FIELD''
                    ''unknown schedule derivation field'')) obj) @
                concat (map (\<lambda>name. fst (derivation_field obj name)) derivation_fields) @
                concat (map (\<lambda>(name, expected, rule). expect_binding (field name) expected name rule)
                  (derivation_bindings schedule)) @
                fail_if (length (field ''derived_key_u32be_hex'') \<noteq> 16 \<or> \<not> lowercase_hex (field ''derived_key_u32be_hex''))
                  (ValidationError invalid_hash ''$derivation/derived_key_u32be_hex'' ''SCH-DERIVATION-KEY''
                    ''derived Philox key identity must be 16 lowercase hex digits'') @
                fail_if (take 5 (field ''python_version'') \<noteq> ''3.14.'' \<or> field ''decimal_version'' = [] \<or>
                    field ''libmpdec_version'' = [])
                  (ValidationError unsupported_version ''$derivation/python_version'' ''SCH-DERIVATION-RUNTIME''
                    ''derivation must record Python 3.14.x and exact decimal/libmpdec versions'') @
                derivation_hash_errors ops digest obj (field ''record_sha256''))))"

subsection \<open>Decoding and validating a schedule\<close>

definition suite_errors :: "'d ScheduleRecord \<Rightarrow> ValidationError list" where
  "suite_errors schedule =
     fail_if (sc_arrival_family schedule \<noteq> Arrival_poisson_exponential)
       (ValidationError cross_field ''$out/arrival_family'' ''SCH-SUITE-FAMILY''
         ''ADR-0029 requires POISSON_EXPONENTIAL'') @
     fail_if (rng_algorithm (sc_rng schedule) \<noteq> kScheduleAlgorithm \<or> rng_version (sc_rng schedule) \<noteq> kScheduleVersion)
       (ValidationError unsupported_version ''$out/rng'' ''SCH-SUITE-ID''
         ''schedule RNG algorithm/version does not identify ADR-0029'') @
     fail_if (sc_time_unit schedule \<noteq> kScheduleTimeUnit)
       (ValidationError invalid_unit ''$out/time_unit'' ''SCH-TIME-UNIT''
         ''ADR-0029 requires picosecond schedule ticks'') @
     fail_if (sc_deadline_encoding schedule \<noteq> Deadline_absolute_integer_ticks)
       (ValidationError unknown_enum ''$out/deadline_encoding'' ''SCH-SUITE-ENCODING''
         ''ADR-0029 requires absolute integer deadlines'') @
     fail_if (id_value (sc_overflow_rule_record_id schedule) \<noteq> kScheduleOverflowRule)
       (ValidationError reference_mismatch ''$out/overflow_rule_record_id'' ''SCH-OVERFLOW-RULE''
         ''schedule does not bind the accepted overflow rule'') @
     fail_if (er_numerator_events (sc_nominal_offered_rate schedule) = 0 \<or>
         er_denominator_ticks (sc_nominal_offered_rate schedule) = 0 \<or>
         gcd (unat (er_numerator_events (sc_nominal_offered_rate schedule)))
           (unat (er_denominator_ticks (sc_nominal_offered_rate schedule))) \<noteq> 1)
       (ValidationError cross_field ''$out/nominal_offered_rate'' ''SCH-RATE-CANONICAL''
         ''ADR-0029 requires a positive reduced rational rate'') @
     fail_if (sc_horizon_ticks schedule > u64_max - sc_origin_ticks schedule)
       (ValidationError out_of_range ''$out/horizon_ticks'' ''SCH-HORIZON-OVERFLOW''
         ''origin plus horizon overflows uint64'')"

text \<open>The loop over the artifact takes eight bytes at a time.\<close>

function decode_deadlines :: "u8 list \<Rightarrow> u64 list" where
  "decode_deadlines artifact_bytes =
     (if artifact_bytes = [] then []
      else decode_u64_be (take 8 artifact_bytes) # decode_deadlines (drop 8 artifact_bytes))"
  by pat_completeness auto
termination by (relation "measure length") simp_all

declare decode_deadlines.simps [simp del]

definition read_storage ::
  "(u8 list \<Rightarrow> u8 list option) \<Rightarrow> 'd ScheduleRecord \<Rightarrow> u8 list \<Rightarrow> (u64 list \<times> string) Result" where
  "read_storage digest schedule artifact_bytes =
     (case sc_deadline_storage schedule of
        External_deadlines external \<Rightarrow>
          (let artifact_hash = schedule_sha256_hex digest artifact_bytes;
               errors =
                 fail_if (sc_offered_count schedule > u64_max div 8 \<or>
                     es_byte_count external \<noteq> sc_offered_count schedule * 8)
                   (ValidationError out_of_range ''$out/deadline_storage/byte_count'' ''SCH-BYTE-COUNT''
                     ''byte_count must equal eight times offered_count'') @
                 fail_if (length artifact_bytes \<noteq> unat (es_byte_count external))
                   (ValidationError cross_field ''$artifact'' ''SCH-ARTIFACT-SIZE''
                     ''artifact size does not equal byte_count'') @
                 (if artifact_hash = []
                  then [ValidationError missing_evidence ''$artifact'' ''SCH-SHA256'' ''OpenSSL SHA-256 failed'']
                  else fail_if (artifact_hash \<noteq> Sha256_hex (es_artifact_sha256 external))
                    (ValidationError reference_mismatch ''$out/deadline_storage/artifact_sha256'' ''SCH-ARTIFACT-HASH''
                      ''artifact SHA-256 does not match the envelope''))
           in if errors = [] then Inr (decode_deadlines artifact_bytes, artifact_hash) else Inl errors)
      | Inline_deadlines deadline_ticks \<Rightarrow>
          if artifact_bytes \<noteq> []
          then Inl [ValidationError cross_field ''$artifact'' ''SCH-INLINE-BYTES''
            ''inline test schedules do not accept external bytes'']
          else Inr (deadline_ticks, []))"

text \<open>The loop over the decoded deadlines; \<open>previous\<close> is the deadline before the current index.\<close>

fun deadline_errors :: "u64 \<Rightarrow> u64 \<Rightarrow> nat \<Rightarrow> u64 option \<Rightarrow> u64 list \<Rightarrow> ValidationError list" where
  "deadline_errors origin horizon_end index previous [] = []"
| "deadline_errors origin horizon_end index previous (deadline # rest) =
     (let path = ''$deadlines/'' @ std_to_string index in
      fail_if (case previous of None \<Rightarrow> False | Some p \<Rightarrow> deadline < p)
        (ValidationError cross_field path ''SCH-NONDECREASING'' ''decoded deadlines must be nondecreasing'') @
      fail_if (deadline < origin \<or> deadline \<ge> horizon_end)
        (ValidationError cross_field path ''SCH-HALF-OPEN''
          ''decoded deadline is outside [origin, origin+horizon)'') @
      deadline_errors origin horizon_end (Suc index) (Some deadline) rest)"

definition decoded_hash_errors :: "string \<Rightarrow> 'd ScheduleRecord \<Rightarrow> ValidationError list" where
  "decoded_hash_errors computed schedule =
     (if computed = []
      then [ValidationError missing_evidence ''$out/decoded_deadlines_sha256'' ''SCH-SHA256'' ''OpenSSL SHA-256 failed'']
      else fail_if (computed \<noteq> Sha256_hex (sc_decoded_deadlines_sha256 schedule))
        (ValidationError reference_mismatch ''$out/decoded_deadlines_sha256'' ''SCH-DECODED-HASH''
          ''decoded deadline SHA-256 does not match the envelope''))"

definition envelope_hash_errors :: "string Result \<Rightarrow> 'd ScheduleRecord \<Rightarrow> ValidationError list" where
  "envelope_hash_errors computed schedule =
     (case computed of
        Inl errors \<Rightarrow> errors
      | Inr hash \<Rightarrow> fail_if (hash \<noteq> Sha256_hex (sc_schedule_sha256 schedule))
          (ValidationError reference_mismatch ''$out/schedule_sha256'' ''SCH-ENVELOPE-HASH''
            ''canonical schedule SHA-256 does not match''))"

definition decode_and_validate ::
  "'d binary64_ops \<Rightarrow> (u8 list \<Rightarrow> u8 list option) \<Rightarrow> 'd ScheduleRecord \<Rightarrow> u8 list \<Rightarrow> string \<Rightarrow> PreparedSchedule Result" where
  "decode_and_validate ops digest schedule artifact_bytes derivation_record_json =
     (let errors = validate_schedule schedule @
            validate_derivation_record ops digest schedule derivation_record_json @ suite_errors schedule
      in if errors \<noteq> [] then Inl errors
      else (case read_storage digest schedule artifact_bytes of
              Inl errors \<Rightarrow> Inl errors
            | Inr (deadlines, artifact_hash) \<Rightarrow>
                (let horizon_end = sc_origin_ticks schedule + sc_horizon_ticks schedule;
                     computed_decoded_hash = decoded_hash digest schedule deadlines;
                     computed_envelope_hash = envelope_hash ops digest schedule;
                     errors =
                       fail_if (length deadlines \<noteq> unat (sc_offered_count schedule))
                         (ValidationError cross_field ''$out/offered_count'' ''SCH-DECODED-COUNT''
                           ''decoded deadline count does not equal offered_count'') @
                       deadline_errors (sc_origin_ticks schedule) horizon_end 0 None deadlines @
                       decoded_hash_errors computed_decoded_hash schedule @
                       envelope_hash_errors computed_envelope_hash schedule
                 in if errors \<noteq> [] then Inl errors
                 else (case computed_envelope_hash of
                         Inl errors \<Rightarrow> Inl errors
                       | Inr hash \<Rightarrow>
                           Inr \<lparr>ps_deadlines = deadlines, ps_artifact_sha256 = artifact_hash,
                             ps_decoded_deadlines_sha256 = computed_decoded_hash, ps_schedule_sha256 = hash\<rparr>))))"

subsection \<open>Uses of schedules\<close>

text \<open>The owner of a namespace, the first use of a family and the confirmatory parent, while they grow.\<close>

record 'd UseState =
  us_namespaces :: "string \<rightharpoonup> NamespaceRole \<times> 'd ScheduleRecord"
  us_families :: "string \<rightharpoonup> 'd ScheduleRecord"
  us_confirmatory_parent :: string

definition use_namespace ::
  "string \<Rightarrow> 'd ScheduleUse \<Rightarrow> 'd ScheduleRecord \<Rightarrow> 'd UseState \<Rightarrow> ValidationError list \<times> 'd UseState" where
  "use_namespace path use schedule st =
     (let namespace_id = id_value (sc_namespace_id schedule) in
      case us_namespaces st namespace_id of
        None \<Rightarrow> ([], st\<lparr>us_namespaces := (us_namespaces st)(namespace_id \<mapsto> (su_namespace_role use, schedule))\<rparr>)
      | Some (role, owner) \<Rightarrow>
          (if role \<noteq> su_namespace_role use
           then [ValidationError duplicate_value (path @ ''/namespace_role'') ''SCH-NAMESPACE-DISJOINT''
             ''distinct lifecycle roles must use disjoint child namespaces'']
           else fail_if (\<not> same_schedule owner schedule)
             (ValidationError duplicate_value (path @ ''/schedule'') ''SCH-NAMESPACE-COLLISION''
               ''one child namespace cannot identify different logical schedules''), st))"

definition use_parent ::
  "string \<Rightarrow> 'd ScheduleUse \<Rightarrow> 'd ScheduleRecord \<Rightarrow> 'd UseState \<Rightarrow> ValidationError list \<times> 'd UseState" where
  "use_parent path use schedule st =
     (let parent = id_value (rng_parent_namespace_id (sc_rng schedule)) in
      if \<not> is_confirmatory_role (su_namespace_role use) then ([], st)
      else if us_confirmatory_parent st = [] then ([], st\<lparr>us_confirmatory_parent := parent\<rparr>)
      else (fail_if (us_confirmatory_parent st \<noteq> parent)
        (ValidationError reference_mismatch (path @ ''/schedule/rng/parent_namespace_id'') ''SCH-STAGE-A-PARENT''
          ''confirmatory role subspaces must share the common Stage A parent''), st))"

definition use_family ::
  "string \<Rightarrow> 'd ScheduleUse \<Rightarrow> 'd ScheduleRecord \<Rightarrow> 'd UseState \<Rightarrow> ValidationError list \<times> 'd UseState" where
  "use_family path use schedule st =
     (let family = su_common_schedule_family_id use in
      if family = [] then ([], st)
      else (case us_families st family of
              None \<Rightarrow> ([], st\<lparr>us_families := (us_families st)(family \<mapsto> schedule)\<rparr>)
            | Some first \<Rightarrow>
                (fail_if (\<not> same_schedule first schedule)
                  (ValidationError reference_mismatch (path @ ''/schedule'') ''SCH-COMMON-FAMILY''
                    ''matched treatments in one family must use the same logical schedule''), st)))"

fun validate_uses_from :: "nat \<Rightarrow> 'd UseState \<Rightarrow> 'd ScheduleUse list \<Rightarrow> ValidationError list" where
  "validate_uses_from index st [] = []"
| "validate_uses_from index st (use # uses) =
     (let path = ''$schedule_uses/'' @ std_to_string index in
      case su_schedule use of
        None \<Rightarrow> ValidationError missing_field (path @ ''/schedule'') ''SCH-USE-RECORD''
          ''schedule use requires a record'' # validate_uses_from (Suc index) st uses
      | Some schedule \<Rightarrow>
          (let (namespace_errors, st1) = use_namespace path use schedule st;
               (parent_errors, st2) = use_parent path use schedule st1;
               (family_errors, st3) = use_family path use schedule st2
           in fail_if (su_treatment_id use = [])
                (ValidationError invalid_id (path @ ''/treatment_id'') ''SCH-USE-ID''
                  ''treatment identity must be explicit'') @
              fail_if (su_common_schedule_family_id use = [])
                (ValidationError invalid_id (path @ ''/common_schedule_family_id'') ''SCH-FAMILY-ID''
                  ''common schedule family identity must be explicit'') @
              fail_if (\<not> role_matches_kind (su_namespace_role use) (sc_schedule_kind schedule))
                (ValidationError cross_field (path @ ''/namespace_role'') ''SCH-NAMESPACE-ROLE''
                  ''namespace role does not match schedule kind'') @
              namespace_errors @ parent_errors @ family_errors @ validate_uses_from (Suc index) st3 uses))"

definition validate_schedule_uses :: "'d ScheduleUse list \<Rightarrow> ValidationError list" where
  "validate_schedule_uses uses =
     validate_uses_from 0 \<lparr>us_namespaces = Map.empty, us_families = Map.empty, us_confirmatory_parent = []\<rparr> uses"

end
