(* ===== verification/Schedule_Correct.thy ===== *)
theory Schedule_Correct
  imports Schedule
begin

text \<open>
  What the schedule decoder accepts: exactly the schedules of the registered suite whose deadlines are
  ordered within the horizon and whose hashes match; the deadlines it returns are those that the
  artifact encodes.
\<close>

unbundle bit_operations_syntax

subsection \<open>Deadlines as bytes\<close>

lemma decode_snoc: "decode_u64_be (bs @ [b]) = push_bit 8 (decode_u64_be bs) OR ucast b"
  by (simp add: decode_u64_be_def)

lemma decode_bit:
  "length bs \<le> 8 \<Longrightarrow> bit (decode_u64_be bs) n \<longleftrightarrow>
     n < 8 * length bs \<and> bit (rev bs ! (n div 8)) (n mod 8)"
proof (induction bs arbitrary: n rule: rev_induct)
  case Nil
  then show ?case by (simp add: decode_u64_be_def)
next
  case (snoc b bs)
  show ?case
  proof (cases "n < 8")
    case True
    then show ?thesis using snoc.prems by (simp add: decode_snoc bit_simps)
  next
    case False
    then obtain m where m: "n = m + 8" by (metis add.commute le_add_diff_inverse not_less)
    have b: "\<not> bit (ucast b :: u64) n" using False bit_imp_le_length [of b n] by (auto simp: bit_simps)
    have fits: "bit (decode_u64_be bs) m \<Longrightarrow> m + 8 < 64" using snoc by simp
    have "bit (decode_u64_be (bs @ [b])) n \<longleftrightarrow> m + 8 < 64 \<and> bit (decode_u64_be bs) m"
      using b by (simp add: decode_snoc bit_or_iff bit_push_bit_iff m)
    also have "\<dots> \<longleftrightarrow> bit (decode_u64_be bs) m" using fits by blast
    also have "\<dots> \<longleftrightarrow> m < 8 * length bs \<and> bit (rev bs ! (m div 8)) (m mod 8)" using snoc by simp
    also have "m div 8 = (m + 8) div 8 - Suc 0" by simp
    finally show ?thesis by (simp add: m)
  qed
qed

lemma u64_be_nth: "i < 8 \<Longrightarrow> u64_be v ! i = ucast (drop_bit (56 - 8 * i) v AND 255)"
proof -
  assume "i < 8"
  then have "i \<in> set [0..<8]" by simp
  then show ?thesis by (auto simp: upt_rec u64_be_def append_u64_be_def)
qed

lemma u64_be_bit: "i < 8 \<Longrightarrow> bit (u64_be v ! i) j \<longleftrightarrow> j < 8 \<and> bit v (56 - 8 * i + j)"
proof -
  assume i: "i < 8"
  have m: "(255 :: u64) = mask 8" by (simp add: mask_eq_exp_minus_1)
  show ?thesis by (auto simp: u64_be_nth [OF i] m bit_simps)
qed

lemma decode_u64_be_inverse: "decode_u64_be (u64_be v) = v"
proof (rule bit_word_eqI)
  fix n :: nat
  assume "n < LENGTH(64)"
  then have n: "n < 64" by simp
  then have d: "n div 8 < 8" by simp
  have "rev (u64_be v) ! (n div 8) = u64_be v ! (7 - n div 8)" using d by (simp add: rev_nth)
  moreover have "56 - 8 * (7 - n div 8) + n mod 8 = n" using d by presburger
  ultimately show "bit (decode_u64_be (u64_be v)) n = bit v n"
    using n d by (simp add: decode_bit u64_be_bit)
qed

lemma u64_be_decode: "length bs = 8 \<Longrightarrow> u64_be (decode_u64_be bs) = bs"
proof (rule nth_equalityI)
  fix i
  assume bs: "length bs = 8" and "i < length (u64_be (decode_u64_be bs))"
  then have i: "i < 8" by simp
  show "u64_be (decode_u64_be bs) ! i = bs ! i"
  proof (rule bit_word_eqI)
    fix j :: nat
    assume "j < LENGTH(8)"
    then have j: "j < 8" by simp
    have "56 - 8 * i = 8 * (7 - i)" using i by simp
    then have n: "(56 - 8 * i + j) div 8 = 7 - i" "(56 - 8 * i + j) mod 8 = j" "56 - 8 * i + j < 64" using i j by simp_all
    have "rev bs ! (7 - i) = bs ! i" using i bs by (simp add: rev_nth)
    with n i j bs show "bit (u64_be (decode_u64_be bs) ! i) j = bit (bs ! i) j"
      by (simp add: u64_be_bit decode_bit)
  qed
qed simp

text \<open>An artifact is the concatenation of its deadlines.\<close>

definition encode_deadlines :: "u64 list \<Rightarrow> u8 list" where
  "encode_deadlines deadlines = concat (map u64_be deadlines)"

lemma length_encode [simp]: "length (encode_deadlines ds) = 8 * length ds"
  by (induction ds) (simp_all add: encode_deadlines_def)

lemma decode_encode: "decode_deadlines (encode_deadlines ds) = ds"
proof (induction ds)
  case Nil
  then show ?case by (subst decode_deadlines.simps) (simp add: encode_deadlines_def)
next
  case (Cons d ds)
  have e: "encode_deadlines (d # ds) = u64_be d @ encode_deadlines ds" by (simp add: encode_deadlines_def)
  have "u64_be d \<noteq> []" using length_u64_be [of d] by (metis length_0_conv zero_neq_numeral)
  with Cons show ?case by (subst decode_deadlines.simps) (simp add: e decode_u64_be_inverse)
qed

lemma encode_decode: "length bs = 8 * n \<Longrightarrow> encode_deadlines (decode_deadlines bs) = bs"
proof (induction n arbitrary: bs)
  case 0
  then show ?case by (subst decode_deadlines.simps) (simp add: encode_deadlines_def)
next
  case (Suc n)
  then have "bs \<noteq> []" by auto
  with Suc show ?case
    by (subst decode_deadlines.simps) (simp add: encode_deadlines_def u64_be_decode)
qed

subsection \<open>The registered suite\<close>

definition suite_registered :: "'d ScheduleRecord \<Rightarrow> bool" where
  "suite_registered schedule \<longleftrightarrow>
     sc_arrival_family schedule = Arrival_poisson_exponential \<and>
     rng_algorithm (sc_rng schedule) = kScheduleAlgorithm \<and> rng_version (sc_rng schedule) = kScheduleVersion \<and>
     sc_time_unit schedule = kScheduleTimeUnit \<and> sc_deadline_encoding schedule = Deadline_absolute_integer_ticks \<and>
     id_value (sc_overflow_rule_record_id schedule) = kScheduleOverflowRule \<and>
     0 < unat (er_numerator_events (sc_nominal_offered_rate schedule)) \<and>
     0 < unat (er_denominator_ticks (sc_nominal_offered_rate schedule)) \<and>
     coprime (unat (er_numerator_events (sc_nominal_offered_rate schedule)))
       (unat (er_denominator_ticks (sc_nominal_offered_rate schedule))) \<and>
     0 < unat (sc_horizon_ticks schedule) \<and>
     unat (sc_origin_ticks schedule) + unat (sc_horizon_ticks schedule) < 2 ^ 64"

lemma horizon_fits:
  "\<not> sc_horizon_ticks schedule > u64_max - sc_origin_ticks schedule \<longleftrightarrow>
     unat (sc_origin_ticks schedule) + unat (sc_horizon_ticks schedule) < 2 ^ 64"
proof -
  have "unat (u64_max - sc_origin_ticks schedule) = 2 ^ 64 - 1 - unat (sc_origin_ticks schedule)" by (simp add: unat_sub)
  then show ?thesis using unat_u64_lt [of "sc_origin_ticks schedule"] by (auto simp: word_less_nat_alt not_less)
qed

lemma suite_errors_clean:
  "suite_errors schedule = [] \<and> sc_horizon_ticks schedule \<noteq> 0 \<longleftrightarrow> suite_registered schedule"
  using horizon_fits [of schedule]
  by (auto simp: suite_errors_def suite_registered_def unat_gt_0 coprime_iff_gcd_eq_1)

subsection \<open>The deadlines\<close>

definition within_horizon :: "'d ScheduleRecord \<Rightarrow> u64 \<Rightarrow> bool" where
  "within_horizon schedule deadline \<longleftrightarrow>
     unat (sc_origin_ticks schedule) \<le> unat deadline \<and>
     unat deadline < unat (sc_origin_ticks schedule) + unat (sc_horizon_ticks schedule)"

lemma deadline_errors_clean:
  "deadline_errors origin horizon_end index previous ds = [] \<longleftrightarrow>
     sorted (case previous of None \<Rightarrow> ds | Some p \<Rightarrow> p # ds) \<and> list_all (\<lambda>d. origin \<le> d \<and> d < horizon_end) ds"
  by (induction ds arbitrary: index previous) (auto simp: Let_def not_less not_le split: option.splits)

lemma validate_deadlines_clean:
  "validate_deadlines Deadline_absolute_integer_ticks origin horizon_end index previous accumulated ds = [] \<longleftrightarrow>
     deadline_errors origin horizon_end index' previous ds = []"
proof (induction ds arbitrary: index index' previous)
  case (Cons d ds)
  from Cons.IH [of "Suc index" "Some d" "Suc index'"] show ?case by (simp add: Let_def)
qed simp

lemma ordered_within:
  assumes "suite_registered schedule"
  shows "deadline_errors (sc_origin_ticks schedule) (sc_origin_ticks schedule + sc_horizon_ticks schedule) 0 None ds = [] \<longleftrightarrow>
    sorted ds \<and> list_all (within_horizon schedule) ds"
  using assms
  by (auto simp: deadline_errors_clean within_horizon_def list_all_iff word_le_nat_alt word_less_nat_alt
      suite_registered_def unat_plus_u64)

text \<open>The storage of a schedule: the artifact encodes the deadlines, or they are in the record.\<close>

definition stored_deadlines ::
  "(u8 list \<Rightarrow> u8 list option) \<Rightarrow> 'd ScheduleRecord \<Rightarrow> u8 list \<Rightarrow> u64 list \<Rightarrow> string \<Rightarrow> bool" where
  "stored_deadlines digest schedule artifact_bytes deadlines artifact_hash \<longleftrightarrow>
     length deadlines = unat (sc_offered_count schedule) \<and>
     (case sc_deadline_storage schedule of
        External_deadlines external \<Rightarrow>
          artifact_bytes = encode_deadlines deadlines \<and>
          unat (es_byte_count external) = 8 * length deadlines \<and> unat (es_row_count external) = length deadlines \<and>
          schedule_sha256_hex digest artifact_bytes = artifact_hash \<and> artifact_hash \<noteq> [] \<and>
          artifact_hash = Sha256_hex (es_artifact_sha256 external)
      | Inline_deadlines ticks \<Rightarrow> artifact_bytes = [] \<and> deadlines = ticks \<and> artifact_hash = [])"

lemma if_sum_simps: "(if b then Inr x else Inl y) = Inr z \<longleftrightarrow> b \<and> x = z"
    "(if b then [e] else es) = [] \<longleftrightarrow> \<not> b \<and> es = []"
  by auto

lemma byte_count_exact:
  "\<not> (offered > u64_max div 8 \<or> count' \<noteq> offered * 8) \<longleftrightarrow> unat (count' :: u64) = 8 * unat (offered :: u64)"
proof -
  have d: "unat (u64_max div (8 :: u64)) = (2 ^ 64 - 1) div 8" by (simp add: unat_div)
  have c: "unat count' < 2 ^ 64" by (rule unat_u64_lt)
  show ?thesis
  proof (cases "8 * unat offered < 2 ^ 64")
    case True
    then have "unat (offered * 8) = 8 * unat offered" by (simp add: unat_word_ariths mult.commute)
    moreover have "\<not> offered > u64_max div 8" using True unfolding word_less_nat_alt d by simp
    ultimately show ?thesis by (simp add: word_unat_eq_iff eq_commute)
  next
    case False
    then have "offered > u64_max div 8" unfolding word_less_nat_alt d by simp
    with False c show ?thesis by simp
  qed
qed

lemma read_storage_exact:
  assumes "validate_schedule schedule = []"
  shows "read_storage digest schedule artifact_bytes = Inr (deadlines, artifact_hash) \<and>
      length deadlines = unat (sc_offered_count schedule) \<longleftrightarrow>
    stored_deadlines digest schedule artifact_bytes deadlines artifact_hash"
proof (cases "sc_deadline_storage schedule")
  case (External_deadlines external)
  let ?n = "unat (sc_offered_count schedule)"
  have row: "es_row_count external = sc_offered_count schedule"
    using assms by (simp add: validate_schedule_def External_deadlines)
  have "read_storage digest schedule artifact_bytes = Inr (deadlines, artifact_hash) \<longleftrightarrow>
      unat (es_byte_count external) = 8 * ?n \<and> length artifact_bytes = unat (es_byte_count external) \<and>
      artifact_hash \<noteq> [] \<and> artifact_hash = Sha256_hex (es_artifact_sha256 external) \<and>
      schedule_sha256_hex digest artifact_bytes = artifact_hash \<and> decode_deadlines artifact_bytes = deadlines"
    unfolding byte_count_exact [of "sc_offered_count schedule" "es_byte_count external", symmetric]
    by (auto simp: read_storage_def External_deadlines Let_def if_sum_simps)
  also have "(\<dots> \<and> length deadlines = ?n) \<longleftrightarrow> stored_deadlines digest schedule artifact_bytes deadlines artifact_hash"
    (is "?a \<longleftrightarrow> ?b")
  proof
    assume a: ?a
    then have "artifact_bytes = encode_deadlines deadlines" using encode_decode [of artifact_bytes ?n] by simp
    with a show ?b by (auto simp: stored_deadlines_def External_deadlines row)
  next
    assume b: ?b
    then have "artifact_bytes = encode_deadlines deadlines" by (simp add: stored_deadlines_def External_deadlines)
    then have "decode_deadlines artifact_bytes = deadlines" "length artifact_bytes = 8 * length deadlines"
      by (simp_all add: decode_encode)
    with b show ?a by (auto simp: stored_deadlines_def External_deadlines)
  qed
  finally show ?thesis by blast
next
  case (Inline_deadlines ticks)
  then show ?thesis by (auto simp: read_storage_def stored_deadlines_def)
qed

lemma record_clean:
  assumes suite: "suite_registered schedule"
    and stored: "stored_deadlines digest schedule artifact_bytes ds artifact_hash"
    and ordered: "deadline_errors (sc_origin_ticks schedule) (sc_origin_ticks schedule + sc_horizon_ticks schedule) 0 None ds = []"
  shows "validate_schedule schedule = []"
proof -
  have basic: "sc_horizon_ticks schedule \<noteq> 0" "er_denominator_ticks (sc_nominal_offered_rate schedule) \<noteq> 0"
      "sc_arrival_family schedule = Arrival_poisson_exponential"
      "sc_deadline_encoding schedule = Deadline_absolute_integer_ticks"
    using suite by (auto simp: suite_registered_def)
  have sums: "semantic_checked_add (sc_origin_ticks schedule) (sc_horizon_ticks schedule) =
      Some (sc_origin_ticks schedule + sc_horizon_ticks schedule)"
    using suite horizon_fits [of schedule] by (auto simp: suite_registered_def semantic_checked_add_def)
  show ?thesis
  proof (cases "sc_deadline_storage schedule")
    case (External_deadlines external)
    with stored have "es_row_count external = sc_offered_count schedule" by (simp add: stored_deadlines_def word_unat_eq_iff)
    with basic External_deadlines show ?thesis by (simp add: validate_schedule_def)
  next
    case (Inline_deadlines ticks)
    with stored have "ticks = ds" "of_nat (length ds) = sc_offered_count schedule"
      by (auto simp: stored_deadlines_def word_unat_eq_iff unat_of_nat_u64 unat_u64_lt)
    moreover have "validate_deadlines (sc_deadline_encoding schedule) (sc_origin_ticks schedule)
        (sc_origin_ticks schedule + sc_horizon_ticks schedule) 0 None (sc_origin_ticks schedule) ds = []"
      unfolding basic(4) validate_deadlines_clean [of _ _ _ _ _ _ 0] by (rule ordered)
    ultimately show ?thesis using basic Inline_deadlines unfolding validate_schedule_def sums by simp
  qed
qed

lemma decode_and_validate_steps:
  "decode_and_validate ops digest schedule artifact_bytes derivation = Inr prepared \<longleftrightarrow>
     validate_schedule schedule = [] \<and> validate_derivation_record ops digest schedule derivation = [] \<and>
     suite_errors schedule = [] \<and>
     (\<exists>ds hash env. read_storage digest schedule artifact_bytes = Inr (ds, hash) \<and> envelope_hash ops digest schedule = Inr env \<and>
        length ds = unat (sc_offered_count schedule) \<and>
        deadline_errors (sc_origin_ticks schedule) (sc_origin_ticks schedule + sc_horizon_ticks schedule) 0 None ds = [] \<and>
        decoded_hash_errors (decoded_hash digest schedule ds) schedule = [] \<and> envelope_hash_errors (Inr env) schedule = [] \<and>
        prepared = \<lparr>ps_deadlines = ds, ps_artifact_sha256 = hash,
          ps_decoded_deadlines_sha256 = decoded_hash digest schedule ds, ps_schedule_sha256 = env\<rparr>)"
proof (cases "validate_schedule schedule = [] \<and> validate_derivation_record ops digest schedule derivation = [] \<and>
    suite_errors schedule = []")
  case True
  show ?thesis
  proof (cases "read_storage digest schedule artifact_bytes")
    case (Inr stored)
    obtain ds hash where stored: "stored = (ds, hash)" by fastforce
    show ?thesis
      using True Inr stored
      by (cases "envelope_hash ops digest schedule") (auto simp: decode_and_validate_def Let_def split: if_splits)
  qed (use True in \<open>simp add: decode_and_validate_def Let_def\<close>)
qed (auto simp: decode_and_validate_def Let_def)

text \<open>
  C36. A schedule is prepared exactly when its derivation record is valid, its suite is the registered one, the deadlines
  are the ones stored inline or encoded big-endian in the hashed artifact, they are nondecreasing and lie in the half-open
  horizon without wrap-around, and both the decoded and the envelope hash agree with the record.
\<close>

theorem decode_and_validate_exact:
  "decode_and_validate ops digest schedule artifact_bytes derivation = Inr prepared \<longleftrightarrow>
     validate_derivation_record ops digest schedule derivation = [] \<and> suite_registered schedule \<and>
     stored_deadlines digest schedule artifact_bytes (ps_deadlines prepared) (ps_artifact_sha256 prepared) \<and>
     sorted (ps_deadlines prepared) \<and> list_all (within_horizon schedule) (ps_deadlines prepared) \<and>
     decoded_hash digest schedule (ps_deadlines prepared) = ps_decoded_deadlines_sha256 prepared \<and>
     ps_decoded_deadlines_sha256 prepared \<noteq> [] \<and>
     ps_decoded_deadlines_sha256 prepared = Sha256_hex (sc_decoded_deadlines_sha256 schedule) \<and>
     envelope_hash ops digest schedule = Inr (ps_schedule_sha256 prepared) \<and>
     ps_schedule_sha256 prepared = Sha256_hex (sc_schedule_sha256 schedule)"
  (is "?l \<longleftrightarrow> ?r")
proof
  assume ?l
  then obtain ds hash env where v: "validate_schedule schedule = []" "validate_derivation_record ops digest schedule derivation = []"
      "suite_errors schedule = []" and read: "read_storage digest schedule artifact_bytes = Inr (ds, hash)"
    and env: "envelope_hash ops digest schedule = Inr env" "length ds = unat (sc_offered_count schedule)"
    and checks: "deadline_errors (sc_origin_ticks schedule) (sc_origin_ticks schedule + sc_horizon_ticks schedule) 0 None ds = []"
      "decoded_hash_errors (decoded_hash digest schedule ds) schedule = []" "envelope_hash_errors (Inr env) schedule = []"
    and prepared: "prepared = \<lparr>ps_deadlines = ds, ps_artifact_sha256 = hash,
      ps_decoded_deadlines_sha256 = decoded_hash digest schedule ds, ps_schedule_sha256 = env\<rparr>"
    unfolding decode_and_validate_steps by blast
  have suite: "suite_registered schedule"
    unfolding suite_errors_clean [symmetric] using v by (simp add: validate_schedule_def)
  have "stored_deadlines digest schedule artifact_bytes ds hash" using read_storage_exact [OF v(1)] read env(2) by blast
  with v(2) suite env checks show ?r
    unfolding ordered_within [OF suite]
    by (auto simp: prepared decoded_hash_errors_def envelope_hash_errors_def if_sum_simps)
next
  assume r: ?r
  then have suite: "suite_registered schedule" by simp
  let ?ds = "ps_deadlines prepared"
  have ordered: "deadline_errors (sc_origin_ticks schedule) (sc_origin_ticks schedule + sc_horizon_ticks schedule) 0 None ?ds = []"
    unfolding ordered_within [OF suite] using r by simp
  have "sc_horizon_ticks schedule \<noteq> 0" "suite_errors schedule = []" using suite suite_errors_clean by blast+
  moreover have v: "validate_schedule schedule = []"
    using r by (intro record_clean [OF suite _ ordered, of digest artifact_bytes "ps_artifact_sha256 prepared"]) simp
  moreover have "read_storage digest schedule artifact_bytes = Inr (?ds, ps_artifact_sha256 prepared)"
      "length ?ds = unat (sc_offered_count schedule)"
    using read_storage_exact [OF v] r by blast+
  ultimately show ?l
    unfolding decode_and_validate_steps using r ordered
    by (intro conjI exI) (auto simp: decoded_hash_errors_def envelope_hash_errors_def if_sum_simps)
qed

subsection \<open>The derivation record\<close>

text \<open>The string member of an object.\<close>

definition string_member_of :: "(string \<times> 'd Value) list \<Rightarrow> string \<Rightarrow> string option" where
  "string_member_of obj name = Option.bind (map_of obj name) as_string"

lemma derivation_field_clean:
  "fst (derivation_field obj name) = [] \<longleftrightarrow> string_member_of obj name \<noteq> None"
  "string_member_of obj name = Some s \<Longrightarrow> snd (derivation_field obj name) = s"
  by (auto simp: derivation_field_def string_member_of_def Let_def split: option.splits)

text \<open>
  A record is accepted when its members are the sixteen strings, the bound ones each empty or equal to
  the value they are bound to.
\<close>

lemma derivation_members:
  assumes "json_parse ops text = Inr (JObject obj)" and "validate_derivation_record ops digest schedule text = []"
  shows "fst ` set obj \<subseteq> set derivation_fields"
    and "\<forall>name \<in> set derivation_fields. string_member_of obj name \<noteq> None"
    and "\<forall>(name, expected, rule) \<in> set (derivation_bindings schedule).
      string_member_of obj name = Some [] \<or> string_member_of obj name = Some expected"
proof -
  let ?field = "\<lambda>name. snd (derivation_field obj name)"
  have clean: "concat (map (\<lambda>(name, _). fail_if (name \<notin> set derivation_fields)
      (ValidationError unknown_field (''$derivation/'' @ name) ''SCH-DERIVATION-FIELD''
        ''unknown schedule derivation field'')) obj) = []"
    "concat (map (\<lambda>name. fst (derivation_field obj name)) derivation_fields) = []"
    "concat (map (\<lambda>(name, expected, rule). expect_binding (?field name) expected name rule) (derivation_bindings schedule)) = []"
    using assms unfolding validate_derivation_record_def Let_def
    by (simp_all only: sum.case option.case as_object.simps append_is_Nil_conv)
  from clean(1) show "fst ` set obj \<subseteq> set derivation_fields" by auto
  from clean(2) show strings: "\<forall>name \<in> set derivation_fields. string_member_of obj name \<noteq> None"
    by (auto simp: derivation_field_clean)
  have bound: "name \<in> set derivation_fields" if "(name, expected, rule) \<in> set (derivation_bindings schedule)" for name expected rule
    using that by (auto simp: derivation_bindings_def derivation_fields_def)
  show "\<forall>(name, expected, rule) \<in> set (derivation_bindings schedule).
      string_member_of obj name = Some [] \<or> string_member_of obj name = Some expected"
  proof (intro ballI, clarify)
    fix name expected rule
    assume m: "(name, expected, rule) \<in> set (derivation_bindings schedule)" and "string_member_of obj name \<noteq> Some expected"
    moreover obtain s where s: "string_member_of obj name = Some s" using strings bound [OF m] by auto
    moreover have "expect_binding s expected name rule = []"
      using clean(3) m derivation_field_clean(2) [OF s] by auto
    ultimately show "string_member_of obj name = Some []" by (auto simp: expect_binding_def)
  qed
qed

subsection \<open>Uses of schedules\<close>

lemma same_schedule_equiv:
  "same_schedule s s" "same_schedule s t \<Longrightarrow> same_schedule t s"
  "same_schedule s t \<Longrightarrow> same_schedule t u \<Longrightarrow> same_schedule s u"
  "same_schedule s t \<Longrightarrow> same_schedule s u \<longleftrightarrow> same_schedule t u"
  by (auto simp: same_schedule_def)

definition use_explicit :: "'d ScheduleUse \<Rightarrow> bool" where
  "use_explicit use \<longleftrightarrow>
     (case su_schedule use of
        None \<Rightarrow> False
      | Some schedule \<Rightarrow> su_treatment_id use \<noteq> [] \<and> su_common_schedule_family_id use \<noteq> [] \<and>
          role_matches_kind (su_namespace_role use) (sc_schedule_kind schedule) \<and>
          id_value (rng_parent_namespace_id (sc_rng schedule)) \<noteq> [])"

abbreviation use_schedule :: "'d ScheduleUse \<Rightarrow> 'd ScheduleRecord" where
  "use_schedule use \<equiv> the (su_schedule use)"

abbreviation use_parent_id :: "'d ScheduleUse \<Rightarrow> string" where
  "use_parent_id use \<equiv> id_value (rng_parent_namespace_id (sc_rng (use_schedule use)))"

text \<open>
  Two uses agree: one child namespace has one role and one schedule, one family has one schedule, and
  confirmatory uses share their parent namespace.
\<close>

definition uses_agree :: "'d ScheduleUse \<Rightarrow> 'd ScheduleUse \<Rightarrow> bool" where
  "uses_agree left right \<longleftrightarrow>
     (sc_namespace_id (use_schedule left) = sc_namespace_id (use_schedule right) \<longrightarrow>
        su_namespace_role left = su_namespace_role right \<and> same_schedule (use_schedule left) (use_schedule right)) \<and>
     (is_confirmatory_role (su_namespace_role left) \<and> is_confirmatory_role (su_namespace_role right) \<longrightarrow>
        use_parent_id left = use_parent_id right) \<and>
     (su_common_schedule_family_id left = su_common_schedule_family_id right \<longrightarrow>
        same_schedule (use_schedule left) (use_schedule right))"

definition state_agrees :: "'d UseState \<Rightarrow> 'd ScheduleUse \<Rightarrow> bool" where
  "state_agrees st use \<longleftrightarrow>
     (\<forall>role owner. us_namespaces st (id_value (sc_namespace_id (use_schedule use))) = Some (role, owner) \<longrightarrow>
        role = su_namespace_role use \<and> same_schedule owner (use_schedule use)) \<and>
     (is_confirmatory_role (su_namespace_role use) \<and> us_confirmatory_parent st \<noteq> [] \<longrightarrow>
        us_confirmatory_parent st = use_parent_id use) \<and>
     (\<forall>first. us_families st (su_common_schedule_family_id use) = Some first \<longrightarrow> same_schedule first (use_schedule use))"

definition state_after :: "string \<Rightarrow> 'd ScheduleUse \<Rightarrow> 'd UseState \<Rightarrow> 'd UseState" where
  "state_after path use st =
     snd (use_family path use (use_schedule use) (snd (use_parent path use (use_schedule use)
       (snd (use_namespace path use (use_schedule use) st)))))"

lemma use_step_clean:
  assumes "use_explicit use"
  shows "validate_uses_from index st (use # uses) = [] \<longleftrightarrow>
    state_agrees st use \<and> validate_uses_from (Suc index) (state_after (''$schedule_uses/'' @ std_to_string index) use st) uses = []"
proof -
  let ?path = "''$schedule_uses/'' @ std_to_string index"
  obtain schedule where s: "su_schedule use = Some schedule" using assms by (auto simp: use_explicit_def split: option.splits)
  have ns: "fst (use_namespace path use schedule st) = [] \<longleftrightarrow>
      (\<forall>role owner. us_namespaces st (id_value (sc_namespace_id schedule)) = Some (role, owner) \<longrightarrow>
        role = su_namespace_role use \<and> same_schedule owner schedule)" for path
    by (auto simp: use_namespace_def Let_def split: option.splits)
  have parent: "fst (use_parent path use schedule st') = [] \<longleftrightarrow>
      (is_confirmatory_role (su_namespace_role use) \<and> us_confirmatory_parent st' \<noteq> [] \<longrightarrow>
        us_confirmatory_parent st' = use_parent_id use)" for path st'
    by (simp add: use_parent_def Let_def s)
  have family: "fst (use_family path use schedule st') = [] \<longleftrightarrow>
      (\<forall>first. us_families st' (su_common_schedule_family_id use) = Some first \<longrightarrow> same_schedule first schedule)" for path st'
    using assms by (auto simp: use_family_def Let_def use_explicit_def s split: option.splits)
  have kept: "us_confirmatory_parent (snd (use_namespace path use schedule st)) = us_confirmatory_parent st"
      "us_families (snd (use_parent path use schedule st')) = us_families st'"
      "us_families (snd (use_namespace path use schedule st)) = us_families st" for path st'
    by (auto simp: use_namespace_def use_parent_def Let_def split: option.splits)
  show ?thesis
    using assms
    by (simp add: Let_def s case_prod_unfold ns parent family kept state_agrees_def state_after_def use_explicit_def)
qed

lemma state_after_agrees:
  assumes "use_explicit use" and "state_agrees st use"
  shows "state_agrees (state_after path use st) v \<longleftrightarrow> state_agrees st v \<and> uses_agree use v"
proof -
  obtain schedule where s: "su_schedule use = Some schedule" using assms by (auto simp: use_explicit_def split: option.splits)
  have ids: "id_value a = id_value b \<longleftrightarrow> a = b" for a b by (cases a; cases b) simp
  have e: "us_namespaces (state_after path use st) =
      (case us_namespaces st (id_value (sc_namespace_id schedule)) of
         None \<Rightarrow> (us_namespaces st)(id_value (sc_namespace_id schedule) \<mapsto> (su_namespace_role use, schedule))
       | Some _ \<Rightarrow> us_namespaces st)"
    "us_confirmatory_parent (state_after path use st) =
      (if is_confirmatory_role (su_namespace_role use) \<and> us_confirmatory_parent st = [] then use_parent_id use
       else us_confirmatory_parent st)"
    "us_families (state_after path use st) =
      (case us_families st (su_common_schedule_family_id use) of
         None \<Rightarrow> (us_families st)(su_common_schedule_family_id use \<mapsto> schedule)
       | Some _ \<Rightarrow> us_families st)"
    using assms(1)
    by (auto simp: state_after_def use_namespace_def use_parent_def use_family_def Let_def s use_explicit_def split: option.splits)
  have parent: "use_parent_id use \<noteq> []" using assms(1) by (simp add: use_explicit_def s)
  let ?ns = "id_value (sc_namespace_id schedule)"
  have 1: "(\<forall>role owner. us_namespaces (state_after path use st) (id_value (sc_namespace_id (use_schedule v))) = Some (role, owner) \<longrightarrow>
        role = su_namespace_role v \<and> same_schedule owner (use_schedule v)) \<longleftrightarrow>
      (\<forall>role owner. us_namespaces st (id_value (sc_namespace_id (use_schedule v))) = Some (role, owner) \<longrightarrow>
        role = su_namespace_role v \<and> same_schedule owner (use_schedule v)) \<and>
      (sc_namespace_id schedule = sc_namespace_id (use_schedule v) \<longrightarrow>
        su_namespace_role use = su_namespace_role v \<and> same_schedule schedule (use_schedule v))"
  proof (cases "us_namespaces st ?ns")
    case None
    then show ?thesis by (auto simp: e ids)
  next
    case (Some entry)
    obtain role owner where entry: "entry = (role, owner)" by fastforce
    with assms(2) Some have "role = su_namespace_role use" "same_schedule owner schedule" by (auto simp: state_agrees_def s)
    moreover have "same_schedule owner w \<longleftrightarrow> same_schedule schedule w" for w
      by (rule same_schedule_equiv(4)) fact
    ultimately show ?thesis using Some entry by (auto simp: e)
  qed
  have 2: "(\<forall>first. us_families (state_after path use st) (su_common_schedule_family_id v) = Some first \<longrightarrow>
        same_schedule first (use_schedule v)) \<longleftrightarrow>
      (\<forall>first. us_families st (su_common_schedule_family_id v) = Some first \<longrightarrow> same_schedule first (use_schedule v)) \<and>
      (su_common_schedule_family_id use = su_common_schedule_family_id v \<longrightarrow> same_schedule schedule (use_schedule v))"
  proof (cases "us_families st (su_common_schedule_family_id use)")
    case None
    then show ?thesis by (auto simp: e)
  next
    case (Some first)
    with assms(2) have "same_schedule first schedule" by (auto simp: state_agrees_def s)
    then have "same_schedule first w \<longleftrightarrow> same_schedule schedule w" for w by (rule same_schedule_equiv(4))
    with Some show ?thesis by (auto simp: e)
  qed
  have 3: "(is_confirmatory_role (su_namespace_role v) \<and> us_confirmatory_parent (state_after path use st) \<noteq> [] \<longrightarrow>
        us_confirmatory_parent (state_after path use st) = use_parent_id v) \<longleftrightarrow>
      (is_confirmatory_role (su_namespace_role v) \<and> us_confirmatory_parent st \<noteq> [] \<longrightarrow> us_confirmatory_parent st = use_parent_id v) \<and>
      (is_confirmatory_role (su_namespace_role use) \<and> is_confirmatory_role (su_namespace_role v) \<longrightarrow> use_parent_id use = use_parent_id v)"
    using assms(2) parent by (auto simp: e state_agrees_def)
  show ?thesis
    unfolding state_agrees_def [of "state_after path use st"] 1 2 3 by (auto simp: state_agrees_def uses_agree_def s)
qed

lemma validate_uses_from_clean:
  assumes "list_all use_explicit uses"
  shows "validate_uses_from index st uses = [] \<longleftrightarrow> list_all (state_agrees st) uses \<and> sorted_wrt uses_agree uses"
  using assms
proof (induction uses arbitrary: index st)
  case (Cons use uses)
  then have use: "use_explicit use" by simp
  show ?case
  proof (cases "state_agrees st use")
    case True
    with Cons show ?thesis
      by (auto simp: use_step_clean [OF use] state_after_agrees [OF use True] list_all_iff simp del: validate_uses_from.simps)
  qed (simp add: use_step_clean [OF use] del: validate_uses_from.simps)
qed simp

lemma uses_agree_sym: "uses_agree u v \<longleftrightarrow> uses_agree v u"
  by (auto simp: uses_agree_def intro: same_schedule_equiv(2))

lemma uses_agree_refl: "uses_agree u u"
  by (simp add: uses_agree_def same_schedule_def)

lemma sorted_wrt_symmetric:
  assumes "\<And>u v. P u v \<longleftrightarrow> P v u" and "\<And>u. P u u"
  shows "sorted_wrt P xs \<longleftrightarrow> (\<forall>u \<in> set xs. \<forall>v \<in> set xs. P u v)"
  using assms by (induction xs) auto

lemma validate_uses_explicit:
  assumes "validate_uses_from index st uses = []"
  shows "list_all (\<lambda>use. case su_schedule use of None \<Rightarrow> False | Some schedule \<Rightarrow> su_treatment_id use \<noteq> [] \<and>
      su_common_schedule_family_id use \<noteq> [] \<and> role_matches_kind (su_namespace_role use) (sc_schedule_kind schedule)) uses"
  using assms
proof (induction uses arbitrary: index st)
  case (Cons use uses)
  then show ?case by (cases "su_schedule use") (auto simp: Let_def split: prod.splits)
qed simp

text \<open>
  C37. Schedule uses are accepted by the single pass with its two maps exactly when every use is explicit and every two
  uses agree: one role and one logical schedule per namespace, one logical schedule per family, and one parent namespace
  for the confirmatory roles. The parent namespaces are nonempty identifiers.
\<close>

theorem schedule_uses_exact:
  assumes "list_all (\<lambda>use. case su_schedule use of None \<Rightarrow> True
      | Some schedule \<Rightarrow> id_value (rng_parent_namespace_id (sc_rng schedule)) \<noteq> []) uses"
  shows "validate_schedule_uses uses = [] \<longleftrightarrow>
    list_all use_explicit uses \<and> list_all (\<lambda>left. list_all (uses_agree left) uses) uses"
proof -
  have "list_all use_explicit uses" if "validate_schedule_uses uses = []"
    using validate_uses_explicit [OF that [unfolded validate_schedule_uses_def]] assms
    by (auto simp: list_all_iff use_explicit_def split: option.splits)
  moreover have "validate_schedule_uses uses = [] \<longleftrightarrow> (\<forall>u \<in> set uses. \<forall>v \<in> set uses. uses_agree u v)" if "list_all use_explicit uses"
    unfolding validate_schedule_uses_def validate_uses_from_clean [OF that]
      sorted_wrt_symmetric [of uses_agree, OF uses_agree_sym uses_agree_refl]
    by (auto simp: state_agrees_def list_all_iff)
  ultimately show ?thesis by (auto simp: list_all_iff)
qed

end
