(* ===== verification/Schedule_Example.thy ===== *)
theory Schedule_Example
  imports Schedule_Correct Stage12_Example
begin

text \<open>
  Two matched treatments that share a schedule, and a derivation record whose bound members are empty:
  the validator accepts both.
\<close>

definition ex_uses :: "unit ScheduleUse list" where
  "ex_uses = map (\<lambda>treatment. \<lparr>su_schedule = Some (ex_schedule 1 ''m''), su_namespace_role = Namespace_h3_train,
     su_treatment_id = treatment, su_common_schedule_family_id = ''f''\<rparr>) [''R0'', ''R1'']"

theorem schedule_uses_exact_witness:
  "validate_schedule_uses ex_uses = [] \<and> list_all (\<lambda>left. list_all (uses_agree left) ex_uses) ex_uses"
proof -
  have "list_all (\<lambda>use. case su_schedule use of None \<Rightarrow> True
      | Some schedule \<Rightarrow> id_value (rng_parent_namespace_id (sc_rng schedule)) \<noteq> []) ex_uses"
    by (simp add: ex_uses_def ex_schedule_def)
  from schedule_uses_exact [OF this] show ?thesis
    by (simp add: ex_uses_def ex_schedule_def use_explicit_def uses_agree_def same_schedule_def)
qed

subsection \<open>A derivation record with empty bindings\<close>

definition ex_member :: "string \<Rightarrow> string" where
  "ex_member name =
     (if name = ''derived_key_u32be_hex'' then replicate 16 (CHR ''0'')
      else if name = ''python_version'' then ''3.14.0''
      else if name = ''decimal_version'' \<or> name = ''libmpdec_version'' then ''1''
      else if name = ''record_sha256'' then zero_hash else [])"

definition ex_derivation :: "(string \<times> 'd Value) list" where
  "ex_derivation = json_object (map (\<lambda>name. (name, JString (ex_member name))) derivation_fields)"

lemma derivation_fields_facts: "distinct derivation_fields" "\<forall>name \<in> set derivation_fields. ascii name"
  by (simp_all add: derivation_fields_def byte_def)

lemma ex_member_ascii: "ascii (ex_member name)"
  using zero_hash_ascii by (simp add: ex_member_def) (simp add: ascii_def list_all_iff byte_def)

lemma ex_derivation_lookup:
  "map_of ex_derivation name = (if name \<in> set derivation_fields then Some (JString (ex_member name)) else None)"
proof -
  have d: "distinct (map fst (map (\<lambda>name. (name, JString (ex_member name))) derivation_fields))"
    using derivation_fields_facts by (simp add: comp_def)
  show ?thesis unfolding ex_derivation_def json_object_lookup [OF d] by (simp add: map_of_map_restrict restrict_map_def)
qed

lemma ex_derivation_keys: "fst ` set ex_derivation = set derivation_fields"
proof -
  have d: "distinct (map fst (map (\<lambda>name. (name, JString (ex_member name))) derivation_fields))"
    using derivation_fields_facts by (simp add: comp_def)
  show ?thesis unfolding ex_derivation_def json_object_set [OF d] by force
qed

lemma ex_derivation_member: "m \<in> set ex_derivation \<Longrightarrow> fst m \<in> set derivation_fields"
  using ex_derivation_keys by blast

lemma ex_derivation_plain: "plain ops (JObject ex_derivation)"
  unfolding ex_derivation_def using derivation_fields_facts
  by (intro plain_json_object) (auto simp: comp_def ascii_utf8 ex_member_ascii)

theorem derivation_bindings_unchecked:
  fixes ops :: "'d binary64_ops"
  shows "\<exists>json. json_parse ops json = Inr (JObject ex_derivation) \<and> validate_derivation_record ops zero_digest schedule json = [] \<and>
     string_member_of ex_derivation ''seed_id'' = Some [] \<and> string_member_of ex_derivation ''record_id'' = Some []"
proof -
  let ?obj = "ex_derivation :: (string \<times> 'd Value) list"
  obtain json where json: "canonicalize ops (JObject ?obj) = Inr json" "json_parse ops json = Inr (JObject ?obj)"
    using plain_text [OF ex_derivation_plain] by blast
  have field: "derivation_field ?obj name = ([], ex_member name)" if "name \<in> set derivation_fields" for name
    using that by (simp add: derivation_field_def ex_derivation_lookup Let_def)
  have fields: "\<forall>name \<in> set derivation_fields. derivation_field ?obj name = ([], ex_member name)" using field by blast
  have same: "assign_member ''record_sha256'' (JString zero_hash) ?obj = ?obj"
  proof (rule assign_member_same)
    show "sorted_wrt string_less (map fst ?obj)" unfolding ex_derivation_def by (rule json_object_sorted)
    show "map_of ?obj ''record_sha256'' = Some (JString zero_hash)"
      unfolding ex_derivation_lookup by (simp add: derivation_fields_def ex_member_def)
  qed
  have hex: "schedule_sha256_hex zero_digest bytes = zero_hash" for bytes
    by (simp add: schedule_sha256_hex_def zero_digest_def zero_hash_def hex_digits_def eval_nat_numeral)
  have "lowercase_hex zero_hash" "length zero_hash = 64" by (simp_all add: lowercase_hex_def zero_hash_def list_all_iff)
  then have hash: "derivation_hash_errors ops zero_digest ?obj zero_hash = []"
    using json(1) by (simp add: derivation_hash_errors_def same hex Let_def) (simp add: zero_hash_def)
  have "validate_derivation_record ops zero_digest schedule json = []"
  proof -
    let ?field = "\<lambda>name. snd (derivation_field ?obj name)"
    have unknown: "concat (map (\<lambda>(name, _). fail_if (name \<notin> set derivation_fields) (e name)) ?obj) = []" for e
      using ex_derivation_member by fastforce
    have strings: "concat (map (\<lambda>name. fst (derivation_field ?obj name)) derivation_fields) = []" using fields by simp
    have "\<forall>(name, expected, rule) \<in> set (derivation_bindings schedule). name \<in> set derivation_fields \<and> ex_member name = []"
      by (simp add: derivation_bindings_def derivation_fields_def ex_member_def)
    then have bound: "concat (map (\<lambda>(name, expected, rule). expect_binding (?field name) expected name rule) (derivation_bindings schedule)) = []"
      using field by (auto simp: expect_binding_def)
    have rest: "?field ''derived_key_u32be_hex'' = replicate 16 (CHR ''0'')" "?field ''python_version'' = ''3.14.0''"
      "?field ''decimal_version'' = ''1''" "?field ''libmpdec_version'' = ''1''" "?field ''record_sha256'' = zero_hash"
      using field by (simp_all add: derivation_fields_def ex_member_def)
    have "lowercase_hex (replicate 16 (CHR ''0''))" by (simp add: lowercase_hex_def list_all_iff)
    then show ?thesis
      unfolding validate_derivation_record_def json(2) sum.case as_object.simps option.case Let_def unknown strings bound rest hash by simp
  qed
  then show ?thesis using json(2) by (auto simp: string_member_of_def ex_derivation_lookup derivation_fields_def ex_member_def)
qed

end
