(* ===== verification/Load_Schedule.thy ===== *)
theory Load_Schedule
  imports Load_Correct
begin

text \<open>
  The loader reads a schedule back: the document that states the fields of a schedule record under the
  names of the schema is loaded to that record, through its canonical text.
\<close>

subsection \<open>The document of a schedule\<close>

definition version_name :: "ProtocolVersion \<Rightarrow> string" where
  "version_name v = (case v of V2_0_0_pre_1 \<Rightarrow> kPreviousProtocolVersion | V2_0_0_pre_2 \<Rightarrow> kProtocolVersion)"

definition token_of :: "(string \<times> 'e) list \<Rightarrow> 'e \<Rightarrow> string" where
  "token_of entries v = fst (the (find (\<lambda>m. snd m = v) entries))"

definition rng_members :: "RngMetadata \<Rightarrow> (string \<times> 'd Value) list" where
  "rng_members rng =
     [(''algorithm'', JString (rng_algorithm rng)), (''version'', JString (rng_version rng)),
      (''seed_id'', JString (id_value (rng_seed_id rng))),
      (''derivation_record_id'', JString (id_value (rng_derivation_record_id rng))),
      (''parent_namespace_id'', JString (id_value (rng_parent_namespace_id rng)))]"

definition rate_members :: "ExactRate \<Rightarrow> (string \<times> 'd Value) list" where
  "rate_members rate =
     [(''numerator_events'', uint_value (er_numerator_events rate)), (''denominator_ticks'', uint_value (er_denominator_ticks rate))]"

definition storage_members :: "DeadlineStorage \<Rightarrow> (string \<times> 'd Value) list" where
  "storage_members storage =
     (case storage of
        External_deadlines e \<Rightarrow>
          [(''mode'', JString ''EXTERNAL_IMMUTABLE_ARTIFACT''), (''artifact_id'', JString (id_value (es_artifact_id e))),
           (''artifact_uri'', JString (es_artifact_uri e)), (''row_count'', uint_value (es_row_count e)),
           (''byte_count'', uint_value (es_byte_count e)), (''artifact_sha256'', JString (Sha256_hex (es_artifact_sha256 e)))]
      | Inline_deadlines ticks \<Rightarrow>
          [(''mode'', JString ''INLINE_TEST_ONLY''), (''deadline_ticks'', JArray (map uint_value ticks))])"

definition boundary_members :: "(string \<times> 'd Value) list" where
  "boundary_members = [(''start_inclusive'', JBool True), (''end_exclusive'', JBool True)]"

definition schedule_members :: "'d ScheduleRecord \<Rightarrow> (string \<times> 'd Value) list" where
  "schedule_members s =
     [(''schema_version'', JString (version_name (sc_schema_version s))),
      (''protocol_version'', JString (version_name (sc_protocol_version s))),
      (''schedule_id'', JString (id_value (sc_schedule_id s))),
      (''schedule_kind'', JString (token_of schedule_kinds (sc_schedule_kind s))),
      (''arrival_family'', JString (token_of arrival_families (sc_arrival_family s))),
      (''namespace_id'', JString (id_value (sc_namespace_id s))),
      (''rng'', JObject (json_object (rng_members (sc_rng s)))),
      (''time_unit'', JString (sc_time_unit s)),
      (''deadline_encoding'', JString (token_of deadline_encodings (sc_deadline_encoding s))),
      (''origin_ticks'', uint_value (sc_origin_ticks s)),
      (''horizon_ticks'', uint_value (sc_horizon_ticks s)),
      (''inclusion_boundary'', JObject (json_object boundary_members)),
      (''offered_count'', uint_value (sc_offered_count s)),
      (''nominal_offered_rate'', JObject (json_object (rate_members (sc_nominal_offered_rate s)))),
      (''overflow_rule_record_id'', JString (id_value (sc_overflow_rule_record_id s))),
      (''immutable_ordering'', JBool True),
      (''deadline_storage'', JObject (json_object (storage_members (sc_deadline_storage s)))),
      (''decoded_deadlines_sha256'', JString (Sha256_hex (sc_decoded_deadlines_sha256 s))),
      (''schedule_sha256'', JString (Sha256_hex (sc_schedule_sha256 s)))]"

definition schedule_document :: "'d ScheduleRecord \<Rightarrow> 'd Value" where
  "schedule_document s = JObject (json_object (schedule_members s))"

subsection \<open>Texts that can be written\<close>

definition written :: "string \<Rightarrow> bool" where
  "written s \<longleftrightarrow> s \<noteq> [] \<and> utf8 s"

definition hash_32 :: "Sha256 \<Rightarrow> bool" where
  "hash_32 h \<longleftrightarrow> length (sha256_bytes h) = 32"

definition schedule_writable :: "'d ScheduleRecord \<Rightarrow> bool" where
  "schedule_writable s \<longleftrightarrow>
     list_all (\<lambda>i. written (id_value i)) [sc_schedule_id s, sc_namespace_id s, sc_overflow_rule_record_id s,
       rng_seed_id (sc_rng s), rng_derivation_record_id (sc_rng s), rng_parent_namespace_id (sc_rng s)] \<and>
     list_all written [rng_algorithm (sc_rng s), rng_version (sc_rng s), sc_time_unit s] \<and>
     hash_32 (sc_decoded_deadlines_sha256 s) \<and> hash_32 (sc_schedule_sha256 s) \<and>
     (case sc_deadline_storage s of
        External_deadlines e \<Rightarrow> written (id_value (es_artifact_id e)) \<and> written (es_artifact_uri e) \<and> hash_32 (es_artifact_sha256 e)
      | Inline_deadlines _ \<Rightarrow> True)"

lemma sha_of_written: "hash_32 h \<Longrightarrow> sha_of (JString (Sha256_hex h)) path = Inr h"
  using sha_of_hex [of "sha256_bytes h" path] by (cases h) (simp add: hash_32_def)

lemma written_texts [simp]: "written s \<Longrightarrow> s \<noteq> []" "written s \<Longrightarrow> utf8 s"
  by (simp_all add: written_def)

lemma Identifier_value [simp]: "Identifier (id_value i) = i"
  by (cases i) simp

lemma version_parsed [simp]: "parse_protocol_version (version_name v) path = Inr v" "version_name v \<noteq> []" "utf8 (version_name v)"
proof -
  show "utf8 (version_name v)"
    by (cases v) (simp_all add: version_name_def kPreviousProtocolVersion_def kProtocolVersion_def ascii_utf8 byte_def)
qed (cases v; simp add: version_name_def parse_protocol_version_def kPreviousProtocolVersion_def kProtocolVersion_def)+

lemma tokens_read:
  "enum_value (JString (token_of schedule_kinds k)) path rule schedule_kinds = Inr k"
  "enum_value (JString (token_of arrival_families f)) path rule arrival_families = Inr f"
  "enum_value (JString (token_of deadline_encodings e)) path rule deadline_encodings = Inr e"
    apply (cases k; simp add: token_of_def schedule_kinds_def enum_value_def)
   apply (cases f; simp add: token_of_def arrival_families_def enum_value_def)
  apply (cases e; simp add: token_of_def deadline_encodings_def enum_value_def)
  done

lemma tokens_utf8: "utf8 (token_of schedule_kinds k)" "utf8 (token_of arrival_families f)" "utf8 (token_of deadline_encodings e)"
    apply (cases k; simp add: token_of_def schedule_kinds_def ascii_utf8 byte_def)
   apply (cases f; simp add: token_of_def arrival_families_def ascii_utf8 byte_def)
  apply (cases e; simp add: token_of_def deadline_encodings_def ascii_utf8 byte_def)
  done

subsection \<open>Reading the document back\<close>

lemmas field_readers = string_field_def unit_field_def bool_field_def uint_field_def id_field_def version_field_def sha_field_def
  enum_field_def

lemma members_distinct:
  "distinct (map fst (rng_members rng))" "distinct (map fst (rate_members rate))" "distinct (map fst (storage_members storage))"
  "distinct (map fst boundary_members)" "distinct (map fst (schedule_members s))"
  by (simp_all add: rng_members_def rate_members_def storage_members_def boundary_members_def schedule_members_def
      split: DeadlineStorage.split)

lemma schedule_lookup: "map_of (json_object (schedule_members s)) = map_of (schedule_members s)"
  by (rule json_object_lookup) (rule members_distinct)

lemma members_known:
  "reject_unknown (json_object (rng_members rng))
     [''algorithm'', ''version'', ''seed_id'', ''derivation_record_id'', ''parent_namespace_id''] path = Inr ()"
  "reject_unknown (json_object (rate_members rate)) [''numerator_events'', ''denominator_ticks''] path = Inr ()"
  "reject_unknown (json_object (storage_members (External_deadlines e)))
     [''mode'', ''artifact_id'', ''artifact_uri'', ''row_count'', ''byte_count'', ''artifact_sha256''] path = Inr ()"
  "reject_unknown (json_object (storage_members (Inline_deadlines ticks))) [''mode'', ''deadline_ticks''] path = Inr ()"
  "reject_unknown (json_object boundary_members) [''start_inclusive'', ''end_exclusive''] path = Inr ()"
  "reject_unknown (json_object (schedule_members s)) schedule_fields path = Inr ()"
  unfolding reject_unknown_iff json_object_set [OF members_distinct(1)] json_object_set [OF members_distinct(2)]
    json_object_set [OF members_distinct(3)] json_object_set [OF members_distinct(4)] json_object_set [OF members_distinct(5)]
  by (simp_all add: rng_members_def rate_members_def storage_members_def boundary_members_def schedule_members_def schedule_fields_def)

lemma nested_read:
  fixes s :: "'d ScheduleRecord"
  assumes "schedule_writable s"
  shows "load_rng (json_object (schedule_members s)) = Inr (sc_rng s)"
    and "load_boundary (json_object (schedule_members s)) = Inr ()"
    and "er_denominator_ticks (sc_nominal_offered_rate s) \<noteq> 0 \<Longrightarrow>
      load_rate (json_object (schedule_members s)) = Inr (sc_nominal_offered_rate s)"
    and "load_deadline_storage (json_object (schedule_members s)) = Inr (sc_deadline_storage s)"
proof -
  note d = members_distinct
  note read = read_field_object [OF d(1)] read_field_object [OF d(2)] read_field_object [OF d(3)] read_field_object [OF d(4)]
    members_known
  have objects: "required (json_object (schedule_members s)) ''rng'' path = Inr (JObject (json_object (rng_members (sc_rng s))))"
    "required (json_object (schedule_members s)) ''inclusion_boundary'' path = Inr (JObject (json_object boundary_members))"
    "required (json_object (schedule_members s)) ''nominal_offered_rate'' path =
      Inr (JObject (json_object (rate_members (sc_nominal_offered_rate s))))"
    "required (json_object (schedule_members s)) ''deadline_storage'' path =
      Inr (JObject (json_object (storage_members (sc_deadline_storage s))))" for path
    by (simp_all add: required_def schedule_lookup) (simp_all add: schedule_members_def)
  show "load_rng (json_object (schedule_members s)) = Inr (sc_rng s)"
    using assms by (simp add: load_rng_def objects field_readers read)
      (simp add: rng_members_def read_field_def required_def schedule_writable_def)
  show "load_boundary (json_object (schedule_members s)) = Inr ()"
  proof -
    have "bool_field (json_object (boundary_members :: (string \<times> 'd Value) list)) ''start_inclusive'' path = Inr True"
      "bool_field (json_object (boundary_members :: (string \<times> 'd Value) list)) ''end_exclusive'' path = Inr True" for path
      by (simp_all add: bool_field_def read) (simp_all add: boundary_members_def read_field_def required_def)
    then show ?thesis by (simp add: load_boundary_def objects members_known)
  qed
  show "load_rate (json_object (schedule_members s)) = Inr (sc_nominal_offered_rate s)"
    if "er_denominator_ticks (sc_nominal_offered_rate s) \<noteq> 0"
    using that by (simp add: load_rate_def objects field_readers read) (simp add: rate_members_def read_field_def required_def)
  show "load_deadline_storage (json_object (schedule_members s)) = Inr (sc_deadline_storage s)"
  proof (cases "sc_deadline_storage s")
    case (External_deadlines e)
    let ?obj = "json_object (storage_members (External_deadlines e)) :: (string \<times> 'd Value) list"
    have "string_field ?obj ''mode'' path = Inr ''EXTERNAL_IMMUTABLE_ARTIFACT''" for path
      by (simp add: string_field_def read) (simp add: storage_members_def read_field_def required_def)
    moreover have "load_external_deadlines ?obj = Inr e"
      using assms External_deadlines
      by (simp add: load_external_deadlines_def field_readers read)
        (simp add: storage_members_def read_field_def required_def schedule_writable_def sha_of_written)
    ultimately show ?thesis using External_deadlines by (simp add: load_deadline_storage_def objects)
  next
    case (Inline_deadlines ticks)
    let ?obj = "json_object (storage_members (Inline_deadlines ticks)) :: (string \<times> 'd Value) list"
    have "string_field ?obj ''mode'' path = Inr ''INLINE_TEST_ONLY''" for path
      by (simp add: string_field_def read) (simp add: storage_members_def read_field_def required_def)
    moreover have "load_inline_deadlines ?obj = Inr ticks"
      by (simp add: load_inline_deadlines_def read)
        (simp add: storage_members_def read_field_def required_def array_items_def load_items_map)
    ultimately show ?thesis using Inline_deadlines by (simp add: load_deadline_storage_def objects)
  qed
qed

text \<open>The members of the document, each read by the reader of its field.\<close>

lemma schedule_fields_read:
  fixes s :: "'d ScheduleRecord"
  defines "obj \<equiv> json_object (schedule_members s)"
  assumes "schedule_writable s"
  shows "bool_field obj ''immutable_ordering'' path = Inr True" "unit_field obj ''time_unit'' path = Inr (sc_time_unit s)"
    "version_field obj ''schema_version'' path = Inr (sc_schema_version s)"
    "version_field obj ''protocol_version'' path = Inr (sc_protocol_version s)"
    "id_field obj ''schedule_id'' path = Inr (sc_schedule_id s)" "id_field obj ''namespace_id'' path = Inr (sc_namespace_id s)"
    "id_field obj ''overflow_rule_record_id'' path = Inr (sc_overflow_rule_record_id s)"
    "enum_field obj ''schedule_kind'' path rule schedule_kinds = Inr (sc_schedule_kind s)"
    "enum_field obj ''arrival_family'' path rule arrival_families = Inr (sc_arrival_family s)"
    "enum_field obj ''deadline_encoding'' path rule deadline_encodings = Inr (sc_deadline_encoding s)"
    "uint_field obj ''origin_ticks'' path = Inr (sc_origin_ticks s)" "uint_field obj ''horizon_ticks'' path = Inr (sc_horizon_ticks s)"
    "uint_field obj ''offered_count'' path = Inr (sc_offered_count s)"
    "sha_field obj ''decoded_deadlines_sha256'' path = Inr (sc_decoded_deadlines_sha256 s)"
    "sha_field obj ''schedule_sha256'' path = Inr (sc_schedule_sha256 s)"
proof -
  have texts: "written (sc_time_unit s)" "written (id_value (sc_schedule_id s))" "written (id_value (sc_namespace_id s))"
    "written (id_value (sc_overflow_rule_record_id s))" "hash_32 (sc_decoded_deadlines_sha256 s)" "hash_32 (sc_schedule_sha256 s)"
    using assms(2) by (simp_all add: schedule_writable_def)
  have lookup: "required obj key path = required (schedule_members s) key path" for key path
    unfolding obj_def by (rule required_object) (rule members_distinct)
  show "bool_field obj ''immutable_ordering'' path = Inr True" "unit_field obj ''time_unit'' path = Inr (sc_time_unit s)"
    "version_field obj ''schema_version'' path = Inr (sc_schema_version s)"
    "version_field obj ''protocol_version'' path = Inr (sc_protocol_version s)"
    "id_field obj ''schedule_id'' path = Inr (sc_schedule_id s)" "id_field obj ''namespace_id'' path = Inr (sc_namespace_id s)"
    "id_field obj ''overflow_rule_record_id'' path = Inr (sc_overflow_rule_record_id s)"
    "enum_field obj ''schedule_kind'' path rule schedule_kinds = Inr (sc_schedule_kind s)"
    "enum_field obj ''arrival_family'' path rule arrival_families = Inr (sc_arrival_family s)"
    "enum_field obj ''deadline_encoding'' path rule deadline_encodings = Inr (sc_deadline_encoding s)"
    "uint_field obj ''origin_ticks'' path = Inr (sc_origin_ticks s)" "uint_field obj ''horizon_ticks'' path = Inr (sc_horizon_ticks s)"
    "uint_field obj ''offered_count'' path = Inr (sc_offered_count s)"
    "sha_field obj ''decoded_deadlines_sha256'' path = Inr (sc_decoded_deadlines_sha256 s)"
    "sha_field obj ''schedule_sha256'' path = Inr (sc_schedule_sha256 s)"
    unfolding field_readers read_field_def lookup
    by (simp_all add: required_def schedule_members_def texts tokens_read sha_of_written)
qed

lemma load_schedule_document:
  assumes "schedule_writable s" and "er_denominator_ticks (sc_nominal_offered_rate s) \<noteq> 0"
  shows "load_schedule (schedule_document s) = Inr (s\<lparr>sc_source_document := schedule_document s\<rparr>)"
  unfolding load_schedule_def schedule_document_def
  by (simp add: members_known nested_read [OF assms(1)] assms(2) schedule_fields_read [OF assms(1)])

text \<open>The document has a canonical text that reads back to it.\<close>

lemma schedule_document_plain:
  fixes s :: "'d ScheduleRecord"
  assumes "schedule_writable s"
  shows "plain ops (schedule_document s)"
proof -
  have hex: "utf8 (Sha256_hex h)" for h by (simp add: ascii_utf8 Sha256_hex_ascii)
  note texts = assms [unfolded schedule_writable_def, simplified]
  have b: "plain ops (JBool b)" for b by (simp add: plain_def)
  have nested: "plain ops (JObject (json_object (rng_members (sc_rng s))))"
    "plain ops (JObject (json_object (boundary_members :: (string \<times> 'd Value) list)))"
    "plain ops (JObject (json_object (rate_members (sc_nominal_offered_rate s))))"
    "plain ops (JObject (json_object (storage_members (sc_deadline_storage s))))"
    using texts
    by (intro plain_json_object members_distinct;
      auto simp: rng_members_def rate_members_def boundary_members_def storage_members_def hex b ascii_utf8 byte_def list_all_iff
        split: DeadlineStorage.splits)+
  show ?thesis
    unfolding schedule_document_def
    using texts nested
    by (intro plain_json_object members_distinct) (auto simp: schedule_members_def hex b tokens_utf8 ascii_utf8 byte_def)
qed

text \<open>
  C38. Every valid schedule record whose identifiers and texts are nonempty valid UTF-8 and whose hashes have 32 bytes
  (\<open>schedule_writable\<close>), written as a canonical JSON document, is read, loaded and validated by
  ScientificConfiguration::load as the same record.
\<close>

theorem schedule_text_loads:
  assumes "schedule_writable s" and "validate_schedule s = []"
  shows "\<exists>json. canonicalize ops (schedule_document s) = Inr json \<and>
    ScientificConfiguration_load ops fp_negative fp_at_least_200000 Document_schedule json =
      Inr (Record_schedule (s\<lparr>sc_source_document := schedule_document s\<rparr>))"
proof -
  obtain json where json: "canonicalize ops (schedule_document s) = Inr json" "json_parse ops json = Inr (schedule_document s)"
    using plain_text [OF schedule_document_plain [OF assms(1)]] by blast
  have den: "er_denominator_ticks (sc_nominal_offered_rate s) \<noteq> 0" using assms(2) by (simp add: validate_schedule_def)
  have "validate_schedule (s\<lparr>sc_source_document := d\<rparr>) = validate_schedule s" for d
    by (cases "sc_deadline_storage s"; cases "semantic_checked_add (sc_origin_ticks s) (sc_horizon_ticks s)")
      (simp_all add: validate_schedule_def del: semantic_checked_add_Some)
  with assms(2) have "validate_schedule (s\<lparr>sc_source_document := schedule_document s\<rparr>) = []" by simp
  with json show ?thesis
    by (simp add: ScientificConfiguration_load_def load_document_def load_schedule_document [OF assms(1) den] result_of_def)
qed

definition example_schedule :: "unit ScheduleRecord" where
  "example_schedule =
     \<lparr>sc_schema_version = V2_0_0_pre_2, sc_protocol_version = V2_0_0_pre_1, sc_schedule_id = Identifier ''s'',
      sc_schedule_kind = Schedule_pilot, sc_arrival_family = Arrival_continuous_ready, sc_namespace_id = Identifier ''n'',
      sc_rng = \<lparr>rng_algorithm = ''a'', rng_version = ''1'', rng_seed_id = Identifier ''seed'',
        rng_derivation_record_id = Identifier ''d'', rng_parent_namespace_id = Identifier ''p''\<rparr>,
      sc_time_unit = ''ps'', sc_deadline_encoding = Deadline_absolute_integer_ticks, sc_origin_ticks = 5,
      sc_horizon_ticks = 10, sc_offered_count = 2, sc_nominal_offered_rate = \<lparr>er_numerator_events = 1, er_denominator_ticks = 7\<rparr>,
      sc_overflow_rule_record_id = Identifier ''o'', sc_deadline_storage = Inline_deadlines [5, 14],
      sc_decoded_deadlines_sha256 = Sha256 (replicate 32 1), sc_schedule_sha256 = Sha256 (replicate 32 2),
      sc_source_document = JNull\<rparr>"

theorem schedule_text_loads_witness:
  "schedule_writable example_schedule \<and> validate_schedule example_schedule = [] \<and>
   (\<exists>json. canonicalize example_ops (schedule_document example_schedule) = Inr json \<and>
     ScientificConfiguration_load example_ops (\<lambda>_. False) (\<lambda>_. False) Document_schedule json =
       Inr (Record_schedule (example_schedule\<lparr>sc_source_document := schedule_document example_schedule\<rparr>)))"
proof -
  have w: "schedule_writable example_schedule"
    by (simp add: schedule_writable_def example_schedule_def written_def hash_32_def ascii_utf8 byte_def del: written_texts)
  have v: "validate_schedule example_schedule = []"
    by (simp add: validate_schedule_def example_schedule_def semantic_checked_add_def)
  from schedule_text_loads [OF w v] w v show ?thesis by blast
qed

end
