(* ===== verification/Exact_Rational.thy ===== *)
theory Exact_Rational
  imports Validation Complex_Main
begin

text \<open>
  The exact arithmetic of \<^verbatim>\<open>calibration/calibration.cpp\<close>: checked operations on 64-bit integers, rational
  rates with 64-bit numerator and denominator, their comparison by continued fractions and the inverse of the
  empirical distribution function. No floating point is involved; every operation is related to its meaning
  over the rational or natural numbers.
\<close>

subsection \<open>Checked arithmetic\<close>

definition cal_checked_multiply :: "u64 \<Rightarrow> u64 \<Rightarrow> u64 option" where
  "cal_checked_multiply left right = (if left \<noteq> 0 \<and> right > u64_max div left then None else Some (left * right))"

definition checked_ceil_divide :: "u64 \<Rightarrow> u64 \<Rightarrow> u64 option" where
  "checked_ceil_divide numerator denominator =
     (if denominator = 0 then None
      else if numerator mod denominator \<noteq> 0
      then (if numerator div denominator = u64_max then None else Some (numerator div denominator + 1))
      else Some (numerator div denominator))"

text \<open>\<^verbatim>\<open>std::gcd\<close> on unsigned integers.\<close>

definition u64_gcd :: "u64 \<Rightarrow> u64 \<Rightarrow> u64" where
  "u64_gcd a b = of_nat (gcd (unat a) (unat b))"

lemma cal_checked_multiply_Some [simp]:
  "cal_checked_multiply a b = Some c \<longleftrightarrow> unat a * unat b < 2 ^ 64 \<and> unat c = unat a * unat b"
proof -
  have "unat (a * b) = unat a * unat b" if "unat a * unat b < 2 ^ 64" using unat_times_u64 [OF that] .
  moreover have "(a \<noteq> 0 \<and> b > u64_max div a) \<longleftrightarrow> 2 ^ 64 \<le> unat a * unat b" by (simp only: mul_guard')
  ultimately show ?thesis by (auto simp: cal_checked_multiply_def word_eq_unat simp del: not_le)
qed

lemma product_Some:
  assumes "unat a * unat b < 2 ^ 64"
  shows "\<exists>c. cal_checked_multiply a b = Some c \<and> unat c = unat a * unat b"
  using unat_times_u64 [OF assms] assms by auto

text \<open>The quotient rounded up; the overflow of the increment never happens.\<close>

definition ceil_div :: "nat \<Rightarrow> nat \<Rightarrow> nat" where
  "ceil_div n d = (n + d - 1) div d"

lemma ceil_div_eq:
  assumes "0 < d"
  shows "ceil_div n d = (if n mod d = 0 then n div d else Suc (n div d))"
proof -
  have "ceil_div n d = (n mod d + (d - 1) + d * (n div d)) div d"
    unfolding ceil_div_def using assms by (metis (no_types, lifting) Nat.add_diff_assoc Suc_leI add.assoc add.commute mult_div_mod_eq One_nat_def)
  also have "\<dots> = n div d + (n mod d + (d - 1)) div d" using assms by (intro div_mult_self2) simp
  also have "(n mod d + (d - 1)) div d = (if n mod d = 0 then 0 else 1)"
  proof (cases "n mod d = 0")
    case False
    have "n mod d < d" using assms by simp
    then have "n mod d + (d - 1) = (n mod d - 1) + d" and "n mod d - 1 < d" using False by arith+
    then show ?thesis using False assms by (simp only: div_add_self2) simp
  qed (use assms in simp)
  finally show ?thesis by simp
qed

lemma ceil_div_least: "0 < d \<Longrightarrow> ceil_div n d \<le> k \<longleftrightarrow> n \<le> k * d"
proof -
  assume d: "0 < d"
  have "ceil_div n d \<le> k \<longleftrightarrow> (n + d - 1) div d < Suc k" unfolding ceil_div_def by (simp add: less_Suc_eq_le)
  also have "\<dots> \<longleftrightarrow> n + d - 1 < Suc k * d" using d by (simp add: div_less_iff_less_mult)
  also have "\<dots> \<longleftrightarrow> n \<le> k * d" using d by auto
  finally show ?thesis .
qed

lemma checked_ceil_divide_Some [simp]:
  "checked_ceil_divide n d = Some q \<longleftrightarrow> d \<noteq> 0 \<and> unat q = ceil_div (unat n) (unat d)"
proof (cases "d = 0")
  case False
  then have d: "0 < unat d" by (simp add: word_eq_unat)
  have not_max: "n div d \<noteq> u64_max" if "n mod d \<noteq> 0"
  proof
    assume "n div d = u64_max"
    then have "unat n div unat d = 18446744073709551615" by (simp add: word_eq_unat unat_div)
    then have "unat n = unat d * 18446744073709551615 + unat n mod unat d" by (metis mult_div_mod_eq)
    moreover have "0 < unat n mod unat d" using that by (simp add: word_eq_unat unat_mod)
    ultimately show False using d unat_u64_lt_num [of n] by linarith
  qed
  show ?thesis
  proof (cases "n mod d = 0")
    case True
    then have "unat n mod unat d = 0" by (simp add: word_eq_unat unat_mod)
    then show ?thesis using False True by (auto simp: checked_ceil_divide_def ceil_div_eq [OF d] unat_div word_eq_unat)
  next
    case rest: False
    then have "unat n mod unat d \<noteq> 0" by (simp add: word_eq_unat unat_mod)
    then show ?thesis
      using False rest not_max [OF rest] unat_Suc_not_max [OF not_max [OF rest]]
      by (auto simp: checked_ceil_divide_def ceil_div_eq [OF d] unat_div word_eq_unat [of "n div d + 1"])
  qed
qed (simp add: checked_ceil_divide_def)

subsection \<open>Rational rates\<close>

record ExactRational =
  xr_numerator :: u64
  xr_denominator :: u64

definition make_rational :: "u64 \<Rightarrow> u64 \<Rightarrow> string \<Rightarrow> ExactRational Result" where
  "make_rational numerator denominator path =
     (if denominator = 0
      then Inl [ValidationError out_of_range path ''CAL-RATIONAL-DENOMINATOR''
             ''exact rational denominator must be nonzero'']
      else
        let divisor = u64_gcd numerator denominator
        in Inr \<lparr>xr_numerator = numerator div divisor, xr_denominator = denominator div divisor\<rparr>)"

record ThroughputObservation =
  to_consumed_events :: u64
  to_ticks_per_second :: u64
  to_interval_ticks :: u64

definition exact_throughput :: "ThroughputObservation \<Rightarrow> ExactRational Result" where
  "exact_throughput observation =
     (if to_ticks_per_second observation = 0 \<or> to_interval_ticks observation = 0
      then Inl [ValidationError out_of_range ''$/service_run'' ''CAL-SERVICE-UNITS''
             ''tick frequency and interval must be nonzero'']
      else
        let divisor = u64_gcd (to_consumed_events observation) (to_interval_ticks observation);
            consumed = to_consumed_events observation div divisor;
            interval = to_interval_ticks observation div divisor;
            divisor' = u64_gcd (to_ticks_per_second observation) interval;
            frequency = to_ticks_per_second observation div divisor';
            interval' = interval div divisor'
        in (case cal_checked_multiply consumed frequency of
              None \<Rightarrow> Inl [ValidationError out_of_range ''$/service_run/consumed_events''
                ''CAL-SERVICE-THROUGHPUT-OVERFLOW'' ''exact throughput numerator overflows u64'']
            | Some numerator \<Rightarrow> Inr \<lparr>xr_numerator = numerator, xr_denominator = interval'\<rparr>))"

declare of_nat_unat [simp del]

text \<open>
  The loop of \<^verbatim>\<open>compare\<close>: it compares the continued fractions of both sides. The denominators are nonzero in
  every iteration of the code.
\<close>

function compare_loop :: "u64 \<Rightarrow> u64 \<Rightarrow> u64 \<Rightarrow> u64 \<Rightarrow> bool \<Rightarrow> int" where
  "compare_loop left_numerator left_denominator right_numerator right_denominator inverted =
     (let left_quotient = left_numerator div left_denominator;
          right_quotient = right_numerator div right_denominator
      in if left_quotient \<noteq> right_quotient
         then (let result = (if left_quotient < right_quotient then -1 else 1) in if inverted then - result else result)
         else
           let left_remainder = left_numerator mod left_denominator;
               right_remainder = right_numerator mod right_denominator
           in if left_remainder = 0 \<or> right_remainder = 0
              then (if left_remainder = 0 \<and> right_remainder = 0 then 0
                    else let result = (if left_remainder = 0 then -1 else 1) in if inverted then - result else result)
              else compare_loop left_denominator left_remainder right_denominator right_remainder (\<not> inverted))"
  by pat_completeness auto
termination
  by (relation "measure (\<lambda>(n, d, _). if d = 0 then Suc (unat n) else unat d)") (auto simp: word_eq_unat unat_mod)

declare compare_loop.simps [simp del]

definition compare_rational :: "ExactRational \<Rightarrow> ExactRational \<Rightarrow> int Result" where
  "compare_rational left right =
     (if xr_denominator left = 0 \<or> xr_denominator right = 0
      then Inl [ValidationError out_of_range ''$/rate'' ''CAL-RATIONAL-DENOMINATOR''
             ''exact rational denominator must be nonzero'']
      else Inr (compare_loop (xr_numerator left) (xr_denominator left) (xr_numerator right) (xr_denominator right) False))"

definition multiply_rational :: "ExactRational \<Rightarrow> ExactRational \<Rightarrow> string \<Rightarrow> ExactRational Result" where
  "multiply_rational left right path =
     (if xr_denominator left = 0 \<or> xr_denominator right = 0
      then Inl [ValidationError out_of_range path ''CAL-RATIONAL-DENOMINATOR''
             ''exact rational denominator must be nonzero'']
      else
        let divisor = u64_gcd (xr_numerator left) (xr_denominator right);
            left_numerator = xr_numerator left div divisor;
            right_denominator = xr_denominator right div divisor;
            divisor' = u64_gcd (xr_numerator right) (xr_denominator left);
            right_numerator = xr_numerator right div divisor';
            left_denominator = xr_denominator left div divisor'
        in (case (cal_checked_multiply left_numerator right_numerator,
                  cal_checked_multiply left_denominator right_denominator) of
              (Some numerator, Some denominator) \<Rightarrow> make_rational numerator denominator path
            | _ \<Rightarrow> Inl [ValidationError out_of_range path ''CAL-RATIONAL-OVERFLOW''
                ''exact rational multiplication overflows u64'']))"

subsection \<open>Quantiles\<close>

definition inverse_ecdf :: "u64 list \<Rightarrow> u64 \<Rightarrow> u64 \<Rightarrow> u64 Result" where
  "inverse_ecdf values probability_numerator probability_denominator =
     (let overflow = Inl [ValidationError out_of_range ''$/quantile/rank'' ''CAL-QUANTILE-OVERFLOW''
            ''quantile rank overflows u64'']
      in if values = [] \<or> probability_numerator = 0 \<or> probability_numerator > probability_denominator \<or>
            probability_denominator = 0
         then Inl [ValidationError out_of_range ''$/quantile'' ''CAL-INVERSE-ECDF-INPUT''
                ''inverse ECDF needs data and probability in (0,1]'']
         else
           let count = of_nat (length values) in
           (case cal_checked_multiply (count div probability_denominator) probability_numerator of
              None \<Rightarrow> overflow
            | Some whole \<Rightarrow>
                (case cal_checked_multiply (count mod probability_denominator) probability_numerator of
                   None \<Rightarrow> overflow
                 | Some remainder_product \<Rightarrow>
                     (case checked_ceil_divide remainder_product probability_denominator of
                        None \<Rightarrow> overflow
                      | Some remainder_rank \<Rightarrow>
                          if whole > u64_max - remainder_rank then overflow
                          else
                            let rank = whole + remainder_rank in
                            if rank = 0 \<or> rank > count
                            then Inl [ValidationError cross_field ''$/quantile/rank'' ''CAL-QUANTILE-RANK''
                                   ''quantile rank is outside the observed sequence'']
                            else Inr (sort values ! unat (rank - 1))))))"

subsection \<open>The meaning of a rate\<close>

definition rate_value :: "ExactRational \<Rightarrow> rat" where
  "rate_value q = of_nat (unat (xr_numerator q)) / of_nat (unat (xr_denominator q))"

definition reduced_rate :: "ExactRational \<Rightarrow> bool" where
  "reduced_rate q \<longleftrightarrow> xr_denominator q \<noteq> 0 \<and> coprime (unat (xr_numerator q)) (unat (xr_denominator q))"

lemma unat_u64_gcd [simp]: "unat (u64_gcd a b) = gcd (unat a) (unat b)"
proof -
  have "gcd (unat a) (unat b) < 2 ^ 64"
  proof (cases "unat a = 0")
    case True
    then show ?thesis using unat_u64_lt [of b] by simp
  next
    case False
    then have "gcd (unat a) (unat b) \<le> unat a" by (simp add: gcd_le1_nat)
    then show ?thesis using unat_u64_lt [of a] by linarith
  qed
  then show ?thesis unfolding u64_gcd_def by (rule unat_of_nat_u64)
qed

lemma unat_nonzero: "(w :: u64) \<noteq> 0 \<longleftrightarrow> 0 < unat w"
  by (simp add: word_eq_unat)

lemma cross_products:
  assumes "(0 :: nat) < b" and "0 < d"
  shows "(of_nat a / of_nat b :: rat) = of_nat c / of_nat d \<longleftrightarrow> a * d = c * b"
proof -
  have "(of_nat a / of_nat b :: rat) = of_nat c / of_nat d \<longleftrightarrow> (of_nat (a * d) :: rat) = of_nat (c * b)"
    using assms by (simp add: field_simps)
  then show ?thesis unfolding of_nat_eq_iff .
qed

text \<open>A rate has one reduced form.\<close>

lemma reduced_rate_unique:
  assumes "reduced_rate p" and "reduced_rate q" and "rate_value p = rate_value q"
  shows "p = q"
proof -
  have "unat (xr_numerator p) * unat (xr_denominator q) = unat (xr_numerator q) * unat (xr_denominator p)"
    using assms by (simp add: reduced_rate_def rate_value_def unat_nonzero cross_products)
  with assms coprime_crossproduct_nat [of "unat (xr_numerator p)" "unat (xr_denominator p)"
      "unat (xr_numerator q)" "unat (xr_denominator q)"]
  show ?thesis by (auto simp: reduced_rate_def word_eq_unat intro: ExactRational.equality)
qed

lemma gcd_cancel:
  assumes "(0 :: nat) < d"
  shows "0 < d div gcd n d" and "coprime (n div gcd n d) (d div gcd n d)"
    and "(of_nat (n div gcd n d) / of_nat (d div gcd n d) :: rat) = of_nat n / of_nat d"
proof -
  have g: "0 < gcd n d" using assms by (simp add: gcd_pos_nat)
  show pos: "0 < d div gcd n d" using assms g by (simp add: div_greater_zero_iff gcd_le2_nat)
  show "coprime (n div gcd n d) (d div gcd n d)" using assms by (intro div_gcd_coprime) simp
  have "n div gcd n d * d = n * (d div gcd n d)"
    by (metis dvd_div_mult gcd_dvd1 gcd_dvd2 mult.commute div_mult_swap)
  then show "(of_nat (n div gcd n d) / of_nat (d div gcd n d) :: rat) = of_nat n / of_nat d"
    using cross_products [OF pos assms] by simp
qed

lemma make_rational_exact:
  "make_rational n d path = Inr q \<longleftrightarrow> d \<noteq> 0 \<and> reduced_rate q \<and> rate_value q = of_nat (unat n) / of_nat (unat d)"
proof (cases "d = 0")
  case False
  let ?q = "\<lparr>xr_numerator = n div u64_gcd n d, xr_denominator = d div u64_gcd n d\<rparr>"
  have "reduced_rate ?q" "rate_value ?q = of_nat (unat n) / of_nat (unat d)"
    using gcd_cancel [of "unat d" "unat n"] False
    by (auto simp: reduced_rate_def rate_value_def unat_nonzero unat_div)
  then show ?thesis using False reduced_rate_unique [of q ?q] by (auto simp: make_rational_def Let_def)
qed (simp add: make_rational_def)

lemma throughput_reduced:
  fixes c f i :: nat
  assumes "0 < i" and "0 < f"
  defines "c' \<equiv> c div gcd c i" and "i' \<equiv> i div gcd c i"
  defines "f' \<equiv> f div gcd f i'" and "i'' \<equiv> i' div gcd f i'"
  shows "0 < i''" and "coprime (c' * f') i''" and "(of_nat (c' * f') / of_nat i'' :: rat) = of_nat (c * f) / of_nat i"
proof -
  note first = gcd_cancel [OF assms(1), of c, folded c'_def i'_def]
  note second = gcd_cancel [OF first(1), of f, folded f'_def i''_def]
  show "0 < i''" by (rule second(1))
  have "i'' dvd i'" unfolding i''_def by (rule div_dvd_iff_mult [THEN iffD2]) (use first(1) in auto)
  then have "coprime c' i''" using first(2) by (meson coprime_divisors dvd_refl)
  then show "coprime (c' * f') i''" using second(2) by simp
  have "(of_nat (c' * f') / of_nat i'' :: rat) = of_nat c' * (of_nat f' / of_nat i'')" by simp
  also have "\<dots> = of_nat f * (of_nat c' / of_nat i')" unfolding second(3) by simp
  also have "\<dots> = of_nat (c * f) / of_nat i" unfolding first(3) by simp
  finally show "(of_nat (c' * f') / of_nat i'' :: rat) = of_nat (c * f) / of_nat i" .
qed

lemma exact_throughput_exact:
  "exact_throughput obs = Inr q \<longleftrightarrow> to_ticks_per_second obs \<noteq> 0 \<and> to_interval_ticks obs \<noteq> 0 \<and> reduced_rate q \<and>
     rate_value q = of_nat (unat (to_consumed_events obs) * unat (to_ticks_per_second obs)) / of_nat (unat (to_interval_ticks obs))"
proof (cases "to_ticks_per_second obs = 0 \<or> to_interval_ticks obs = 0")
  case False
  let ?c = "unat (to_consumed_events obs)" and ?f = "unat (to_ticks_per_second obs)" and ?i = "unat (to_interval_ticks obs)"
  let ?i' = "?i div gcd ?c ?i"
  let ?n = "?c div gcd ?c ?i * (?f div gcd ?f ?i')" and ?d = "?i' div gcd ?f ?i'"
  have r: "0 < ?d" "coprime ?n ?d" "(of_nat ?n / of_nat ?d :: rat) = of_nat (?c * ?f) / of_nat ?i"
    using throughput_reduced [of ?i ?f ?c] False by (auto simp: unat_nonzero)
  have q: "exact_throughput obs = Inr q \<longleftrightarrow> ?n < 2 ^ 64 \<and> unat (xr_numerator q) = ?n \<and> unat (xr_denominator q) = ?d"
    using False by (cases q) (auto simp: exact_throughput_def Let_def unat_div word_eq_unat split: option.split)
  show ?thesis
  proof
    assume "exact_throughput obs = Inr q"
    then show "to_ticks_per_second obs \<noteq> 0 \<and> to_interval_ticks obs \<noteq> 0 \<and> reduced_rate q \<and>
        rate_value q = of_nat (?c * ?f) / of_nat ?i"
      unfolding q using r False by (auto simp: reduced_rate_def rate_value_def unat_nonzero)
  next
    assume a: "to_ticks_per_second obs \<noteq> 0 \<and> to_interval_ticks obs \<noteq> 0 \<and> reduced_rate q \<and>
        rate_value q = of_nat (?c * ?f) / of_nat ?i"
    then have "unat (xr_numerator q) * ?d = ?n * unat (xr_denominator q)"
      using cross_products [of "unat (xr_denominator q)" ?d "unat (xr_numerator q)" ?n] r
      by (auto simp: reduced_rate_def rate_value_def unat_nonzero)
    then have "unat (xr_numerator q) = ?n" "unat (xr_denominator q) = ?d"
      using a r coprime_crossproduct_nat [of "unat (xr_numerator q)" "unat (xr_denominator q)" ?n ?d]
      by (auto simp: reduced_rate_def)
    then show "exact_throughput obs = Inr q" unfolding q using unat_u64_lt [of "xr_numerator q"] by simp
  qed
qed (auto simp: exact_throughput_def)

subsection \<open>Comparison\<close>

lemma compare_step:
  fixes a b c d :: int
  assumes "0 < b" and "0 < d" and "0 \<le> a" and "0 \<le> c"
  shows "a div b < c div d \<Longrightarrow> a * d < c * b"
    and "a div b = c div d \<Longrightarrow> a * d - c * b = a mod b * d - c mod d * b"
proof -
  show "a * d < c * b" if "a div b < c div d"
  proof -
    have a: "a = b * (a div b) + a mod b" "a mod b < b" and c: "c = d * (c div d) + c mod d" "0 \<le> c mod d"
      using assms by simp_all
    have "a * d < (b * (a div b) + b) * d" using assms(2) by (intro mult_strict_right_mono) (use a in linarith)+
    also have "\<dots> = b * d * (a div b + 1)" by (simp add: algebra_simps)
    also have "\<dots> \<le> b * d * (c div d)" using that assms(1,2) by (intro mult_left_mono) simp_all
    also have "\<dots> = d * (c div d) * b" by (simp add: algebra_simps)
    also have "\<dots> \<le> c * b" using assms(1) by (intro mult_right_mono) (use c in linarith)+
    finally show ?thesis .
  qed
  show "a * d - c * b = a mod b * d - c mod d * b" if "a div b = c div d"
  proof -
    let ?q = "a div b"
    have a: "a = b * ?q + a mod b" and c: "c = d * ?q + c mod d" using that by (metis mult_div_mod_eq)+
    have "(b * q + r) * d - (d * q + s) * b = r * d - s * b" for q r s :: int by (simp add: algebra_simps)
    from this [of ?q "a mod b" "c mod d"] show ?thesis unfolding a [symmetric] c [symmetric] .
  qed
qed

lemma remainder_sign:
  fixes x y b d :: int
  assumes "0 < b" and "0 < d" and "0 \<le> x" and "0 \<le> y" and "x = 0 \<or> y = 0"
  shows "sgn (x * d - y * b) = (if x = 0 \<and> y = 0 then 0 else if x = 0 then -1 else 1)"
  using assms by (auto simp: sgn_mult)

lemma compare_loop_exact:
  assumes "dl \<noteq> 0" and "dr \<noteq> 0"
  shows "compare_loop nl dl nr dr inverted =
    (if inverted then -1 else 1) * sgn (int (unat nl) * int (unat dr) - int (unat nr) * int (unat dl))"
  using assms
proof (induction nl dl nr dr inverted rule: compare_loop.induct)
  case (1 nl dl nr dr inverted)
  let ?a = "int (unat nl)" and ?b = "int (unat dl)" and ?c = "int (unat nr)" and ?d = "int (unat dr)"
  have pos: "0 < ?b" "0 < ?d" "0 \<le> ?a" "0 \<le> ?c" using "1.prems" by (auto simp: unat_nonzero)
  have q: "nl div dl < nr div dr \<longleftrightarrow> ?a div ?b < ?c div ?d" "nr div dr < nl div dl \<longleftrightarrow> ?c div ?d < ?a div ?b"
    "nl div dl = nr div dr \<longleftrightarrow> ?a div ?b = ?c div ?d"
    by (simp_all add: word_less_nat_alt word_eq_unat unat_div zdiv_int [symmetric])
  have r: "nl mod dl = 0 \<longleftrightarrow> ?a mod ?b = 0" "nr mod dr = 0 \<longleftrightarrow> ?c mod ?d = 0"
    by (simp_all add: word_eq_unat unat_mod zmod_int [symmetric])
  have m: "0 \<le> ?a mod ?b" "0 \<le> ?c mod ?d" using pos by simp_all
  consider (less) "?a div ?b < ?c div ?d" | (greater) "?c div ?d < ?a div ?b" | (equal) "?a div ?b = ?c div ?d" by linarith
  then show ?case
  proof cases
    case less
    then show ?thesis using compare_step(1) [OF pos] q by (subst compare_loop.simps) (simp add: Let_def)
  next
    case greater
    then show ?thesis
      using compare_step(1) [OF pos(2) pos(1) pos(4) pos(3)] q by (subst compare_loop.simps) (auto simp: Let_def)
  next
    case equal
    note diff = compare_step(2) [OF pos equal]
    show ?thesis
    proof (cases "nl mod dl = 0 \<or> nr mod dr = 0")
      case True
      have "compare_loop nl dl nr dr inverted = (if inverted then -1 else 1) *
          (if nl mod dl = 0 \<and> nr mod dr = 0 then 0 else if nl mod dl = 0 then -1 else 1)"
        using equal q(3) True by (subst compare_loop.simps) (simp add: Let_def)
      then show ?thesis unfolding diff using remainder_sign [OF pos(1,2) m] True r by simp
    next
      case False
      have "compare_loop nl dl nr dr inverted = compare_loop dl (nl mod dl) dr (nr mod dr) (\<not> inverted)"
        using equal q False by (subst compare_loop.simps) (simp add: Let_def)
      also have "\<dots> = (if inverted then 1 else -1) * sgn (?b * (?c mod ?d) - ?d * (?a mod ?b))"
        using "1.IH" [OF refl refl _ refl refl] equal q(3) False by (simp add: unat_mod zmod_int)
      also have "?b * (?c mod ?d) - ?d * (?a mod ?b) = - (?a * ?d - ?c * ?b)" unfolding diff by (simp add: mult.commute)
      finally show ?thesis by (simp add: sgn_minus del: minus_diff_eq)
    qed
  qed
qed

lemma rate_sign:
  assumes "0 < b" and "0 < d"
  shows "sgn (int a * int d - int c * int b) = (if (of_nat a / of_nat b :: rat) < of_nat c / of_nat d then -1
    else if (of_nat a / of_nat b :: rat) = of_nat c / of_nat d then 0 else 1)"
proof -
  have "(of_nat a / of_nat b :: rat) < of_nat c / of_nat d \<longleftrightarrow> (of_nat (a * d) :: rat) < of_nat (c * b)"
    using assms by (simp add: field_simps)
  then have less: "(of_nat a / of_nat b :: rat) < of_nat c / of_nat d \<longleftrightarrow> a * d < c * b" unfolding of_nat_less_iff .
  have "sgn (int (a * d) - int (c * b)) = (if a * d < c * b then -1 else if a * d = c * b then 0 else 1)"
    by (simp add: sgn_if del: of_nat_mult)
  then show ?thesis unfolding less cross_products [OF assms] by simp
qed

lemma compare_rational_value:
  "compare_rational left right =
     (if xr_denominator left = 0 \<or> xr_denominator right = 0
      then Inl [ValidationError out_of_range ''$/rate'' ''CAL-RATIONAL-DENOMINATOR''
             ''exact rational denominator must be nonzero'']
      else Inr (if rate_value left < rate_value right then -1 else if rate_value left = rate_value right then 0 else 1))"
  by (simp add: compare_rational_def compare_loop_exact rate_sign rate_value_def unat_nonzero)

text \<open>
  C40. The comparison of two rates by continued fractions, on 64-bit integers and without overflow, always ends and
  returns the order of the two rational numbers; a zero denominator is an error.
\<close>

theorem compare_rational_exact:
  "compare_rational left right =
     (if xr_denominator left = 0 \<or> xr_denominator right = 0
      then Inl [ValidationError out_of_range ''$/rate'' ''CAL-RATIONAL-DENOMINATOR''
             ''exact rational denominator must be nonzero'']
      else Inr (if rate_value left < rate_value right then -1 else if rate_value left = rate_value right then 0 else 1))"
  by (rule compare_rational_value)

subsection \<open>Products\<close>

lemma cross_cancel:
  fixes a b c d :: nat
  assumes "0 < b" and "0 < d"
  defines "a' \<equiv> a div gcd a d" and "d' \<equiv> d div gcd a d" and "c' \<equiv> c div gcd c b" and "b' \<equiv> b div gcd c b"
  shows "0 < b' * d'" and "(of_nat (a' * c') / of_nat (b' * d') :: rat) = of_nat a / of_nat b * (of_nat c / of_nat d)"
    and "coprime a b \<Longrightarrow> coprime c d \<Longrightarrow> coprime (a' * c') (b' * d')"
proof -
  note ad = gcd_cancel [OF assms(2), of a, folded a'_def d'_def] and cb = gcd_cancel [OF assms(1), of c, folded c'_def b'_def]
  show "0 < b' * d'" using ad(1) cb(1) by simp
  have "(of_nat (a' * c') / of_nat (b' * d') :: rat) = (of_nat a' / of_nat d') * (of_nat c' / of_nat b')" by simp
  also have "\<dots> = of_nat a / of_nat b * (of_nat c / of_nat d)" unfolding ad(3) cb(3) by simp
  finally show "(of_nat (a' * c') / of_nat (b' * d') :: rat) = of_nat a / of_nat b * (of_nat c / of_nat d)" .
  have part: "x div gcd x y dvd x" "y div gcd x y dvd y" for x y :: nat
    by (metis dvd_div_mult_self dvd_triv_left gcd_dvd1, metis dvd_div_mult_self dvd_triv_left gcd_dvd2)
  show "coprime (a' * c') (b' * d')" if "coprime a b" "coprime c d"
  proof -
    have "coprime a' b'" "coprime c' d'"
      unfolding a'_def b'_def c'_def d'_def using that part by (meson coprime_divisors)+
    then show ?thesis using ad(2) cb(2) by (simp add: coprime_commute)
  qed
qed

lemma multiply_rational_sound:
  assumes "multiply_rational left right path = Inr q"
  shows "reduced_rate q" and "rate_value q = rate_value left * rate_value right"
proof -
  have d: "0 < unat (xr_denominator left)" "0 < unat (xr_denominator right)"
    using assms by (auto simp: multiply_rational_def unat_nonzero split: if_splits)
  obtain n m where nm: "unat n = unat (xr_numerator left) div gcd (unat (xr_numerator left)) (unat (xr_denominator right)) *
        (unat (xr_numerator right) div gcd (unat (xr_numerator right)) (unat (xr_denominator left)))"
      "unat m = unat (xr_denominator left) div gcd (unat (xr_numerator right)) (unat (xr_denominator left)) *
        (unat (xr_denominator right) div gcd (unat (xr_numerator left)) (unat (xr_denominator right)))"
    and "make_rational n m path = Inr q"
    using assms by (auto simp: multiply_rational_def Let_def unat_div split: if_splits option.splits)
  then show "reduced_rate q" "rate_value q = rate_value left * rate_value right"
    using cross_cancel(2) [OF d, of "unat (xr_numerator left)" "unat (xr_numerator right)"]
    unfolding make_rational_exact by (simp_all add: rate_value_def)
qed

text \<open>For reduced rates the product is found whenever it is representable at all.\<close>

lemma multiply_rational_complete:
  assumes "reduced_rate left" and "reduced_rate right" and "reduced_rate q" and "rate_value q = rate_value left * rate_value right"
  shows "multiply_rational left right path = Inr q"
proof -
  let ?a = "unat (xr_numerator left)" and ?b = "unat (xr_denominator left)"
    and ?c = "unat (xr_numerator right)" and ?d = "unat (xr_denominator right)"
  let ?n = "?a div gcd ?a ?d * (?c div gcd ?c ?b)" and ?m = "?b div gcd ?c ?b * (?d div gcd ?a ?d)"
  have pos: "0 < ?b" "0 < ?d" "0 < unat (xr_denominator q)" using assms by (simp_all add: reduced_rate_def unat_nonzero)
  have cop: "coprime ?a ?b" "coprime ?c ?d" "coprime (unat (xr_numerator q)) (unat (xr_denominator q))"
    using assms by (simp_all add: reduced_rate_def)
  note cancel = cross_cancel [OF pos(1,2), where a = ?a and c = ?c]
  have "unat (xr_numerator q) * ?m = ?n * unat (xr_denominator q)"
    using cross_products [OF pos(3) cancel(1), of "unat (xr_numerator q)" ?n] assms(4) cancel(2)
    unfolding rate_value_def by (simp only: simp_thms)
  then have eq: "unat (xr_numerator q) = ?n" "unat (xr_denominator q) = ?m"
    using coprime_crossproduct_nat [of "unat (xr_numerator q)" "unat (xr_denominator q)" ?n ?m] cop cancel(3) by auto
  have fits: "?n < 2 ^ 64" "?m < 2 ^ 64" unfolding eq [symmetric] by (rule unat_u64_lt)+
  have "cal_checked_multiply (xr_numerator left div u64_gcd (xr_numerator left) (xr_denominator right))
      (xr_numerator right div u64_gcd (xr_numerator right) (xr_denominator left)) = Some (xr_numerator q)"
    unfolding cal_checked_multiply_Some unat_div unat_u64_gcd using fits(1) eq(1) by simp
  moreover have "cal_checked_multiply (xr_denominator left div u64_gcd (xr_numerator right) (xr_denominator left))
      (xr_denominator right div u64_gcd (xr_numerator left) (xr_denominator right)) = Some (xr_denominator q)"
    unfolding cal_checked_multiply_Some unat_div unat_u64_gcd using fits(2) eq(2) by simp
  ultimately have "multiply_rational left right path = make_rational (xr_numerator q) (xr_denominator q) path"
    using assms(1,2) by (simp add: multiply_rational_def Let_def reduced_rate_def del: cal_checked_multiply_Some)
  also have "\<dots> = Inr q" unfolding make_rational_exact using assms(3) by (simp add: rate_value_def reduced_rate_def)
  finally show ?thesis .
qed

subsection \<open>The inverse of the empirical distribution\<close>

text \<open>The least observed value whose cumulative share reaches \<open>n / d\<close>.\<close>

definition quantile :: "u64 list \<Rightarrow> nat \<Rightarrow> nat \<Rightarrow> u64 \<Rightarrow> bool" where
  "quantile values n d v \<longleftrightarrow> v \<in> set values \<and> n * length values \<le> d * length (filter (\<lambda>x. x \<le> v) values) \<and>
     d * length (filter (\<lambda>x. x < v) values) < n * length values"

lemma length_filter_mono: "(\<And>x. P x \<Longrightarrow> Q x) \<Longrightarrow> length (filter P xs) \<le> length (filter Q xs)"
  by (induction xs) (auto simp: le_SucI)

lemma quantile_unique: "quantile values n d v \<Longrightarrow> quantile values n d w \<Longrightarrow> v = w"
proof (rule ccontr)
  have less: "\<not> v < w" if "quantile values n d v" "quantile values n d w" for v w
  proof
    assume vw: "v < w"
    have "length (filter (\<lambda>x. x \<le> v) values) \<le> length (filter (\<lambda>x. x < w) values)"
      by (rule length_filter_mono) (use vw in auto)
    then have "d * length (filter (\<lambda>x. x \<le> v) values) \<le> d * length (filter (\<lambda>x. x < w) values)" by simp
    with that show False unfolding quantile_def by linarith
  qed
  assume "quantile values n d v" "quantile values n d w" "v \<noteq> w"
  with less [of v w] less [of w v] show False by auto
qed

lemma sorted_rank:
  assumes "sorted xs" and "i < length xs"
  shows "i < length (filter (\<lambda>x. x \<le> xs ! i) xs)" and "length (filter (\<lambda>x. x < xs ! i) xs) \<le> i"
proof -
  have split: "length (filter P xs) = length (filter P (take k xs)) + length (filter P (drop k xs))" for P k
    by (metis append_take_drop_id filter_append length_append)
  have "\<forall>x \<in> set (take (Suc i) xs). x \<le> xs ! i"
    using assms by (auto simp: in_set_conv_nth sorted_iff_nth_mono)
  then have "filter (\<lambda>x. x \<le> xs ! i) (take (Suc i) xs) = take (Suc i) xs" by (simp add: filter_id_conv)
  then show "i < length (filter (\<lambda>x. x \<le> xs ! i) xs)" using assms(2) by (simp add: split [of _ "Suc i"])
  have "\<forall>x \<in> set (drop i xs). \<not> x < xs ! i"
    using assms by (auto simp: in_set_conv_nth sorted_iff_nth_mono not_less)
  then have "filter (\<lambda>x. x < xs ! i) (drop i xs) = []" by (simp add: filter_empty_conv)
  then show "length (filter (\<lambda>x. x < xs ! i) xs) \<le> i"
    using length_filter_le [of "\<lambda>x. x < xs ! i" "take i xs"] by (simp add: split [of _ i])
qed

lemma length_filter_sort: "length (filter P (sort values)) = length (filter P (values :: 'a::linorder list))"
  by (metis mset_filter mset_sort size_mset)

lemma quantile_rank:
  assumes "values \<noteq> []" and "0 < n" and "n \<le> d"
  shows "0 < ceil_div (n * length values) d" and "ceil_div (n * length values) d \<le> length values"
    and "quantile values n d (sort values ! (ceil_div (n * length values) d - 1))"
proof -
  let ?k = "ceil_div (n * length values) d"
  have d: "0 < d" using assms by simp
  have nc: "0 < n * length values" using assms by simp
  show pos: "0 < ?k" using ceil_div_least [OF d, of "n * length values" 0] nc by (auto intro: gr0I)
  show le: "?k \<le> length values" using ceil_div_least [OF d] assms by (simp add: mult.commute)
  let ?v = "sort values ! (?k - 1)"
  have i: "?k - 1 < length (sort values)" using pos le by simp
  note rank = sorted_rank [OF sorted_sort i, unfolded length_filter_sort]
  have "n * length values \<le> ?k * d" using ceil_div_least [OF d] by blast
  also have "\<dots> \<le> length (filter (\<lambda>x. x \<le> ?v) values) * d" by (rule mult_right_mono) (use rank(1) pos in auto)
  finally have upper: "n * length values \<le> d * length (filter (\<lambda>x. x \<le> ?v) values)" by (simp add: mult.commute)
  have "\<not> ?k \<le> ?k - 1" using pos by arith
  then have "\<not> n * length values \<le> (?k - 1) * d" using ceil_div_least [OF d] by blast
  moreover have "length (filter (\<lambda>x. x < ?v) values) * d \<le> (?k - 1) * d" by (rule mult_right_mono) (use rank(2) in auto)
  ultimately have "length (filter (\<lambda>x. x < ?v) values) * d < n * length values" by linarith
  then have lower: "d * length (filter (\<lambda>x. x < ?v) values) < n * length values" by (simp only: mult.commute)
  have "?v \<in> set values" using nth_mem [OF i] by simp
  with upper lower show "quantile values n d ?v" unfolding quantile_def by blast
qed

lemma split_rank:
  assumes "0 < d"
  shows "m div d * n + ceil_div (m mod d * n) d = ceil_div (n * m) d"
proof -
  have "n * m = d * (m div d * n) + m mod d * n"
  proof -
    have "n * (d * q + r) = d * (q * n) + r * n" for q r by (simp add: algebra_simps)
    from this [of "m div d" "m mod d"] show ?thesis by simp
  qed
  moreover have "ceil_div (d * a + b) d = a + ceil_div b d" for a b
  proof -
    have "d * a + b + d - 1 = (b + d - 1) + d * a" using assms by simp
    then show ?thesis unfolding ceil_div_def using assms by (simp only: div_mult_self2)
  qed
  ultimately show ?thesis by simp
qed

theorem inverse_ecdf_exact:
  assumes "length values < 2 ^ 64"
  shows "inverse_ecdf values n d = Inr v \<longleftrightarrow> values \<noteq> [] \<and> 0 < n \<and> n \<le> d \<and>
    length values mod unat d * unat n < 2 ^ 64 \<and> quantile values (unat n) (unat d) v"
proof (cases "values \<noteq> [] \<and> 0 < n \<and> n \<le> d \<and> length values mod unat d * unat n < 2 ^ 64")
  case True
  let ?count = "of_nat (length values) :: u64" and ?l = "length values"
  have count: "unat ?count = ?l" using assms by (rule unat_of_nat_u64)
  have nd: "0 < unat n" "unat n \<le> unat d" "d \<noteq> 0" "n \<noteq> 0" using True by (auto simp: word_less_nat_alt word_le_nat_alt word_eq_unat)
  have rank: "0 < ceil_div (unat n * ?l) (unat d)" "ceil_div (unat n * ?l) (unat d) \<le> ?l"
    "quantile values (unat n) (unat d) (sort values ! (ceil_div (unat n * ?l) (unat d) - 1))"
    using quantile_rank [of "values" "unat n" "unat d"] True nd by blast+
  have "?l div unat d * unat n \<le> ?l div unat d * unat d" using nd by simp
  also have "\<dots> \<le> ?l" by (rule div_times_less_eq_dividend)
  finally have "?l div unat d * unat n < 2 ^ 64" using assms by linarith
  then have "unat (?count div d) * unat n < 2 ^ 64" by (simp add: unat_div count)
  from product_Some [OF this] obtain whole
    where whole: "cal_checked_multiply (?count div d) n = Some whole" "unat whole = ?l div unat d * unat n"
    unfolding unat_div count by blast
  obtain product where product: "cal_checked_multiply (?count mod d) n = Some product" "unat product = ?l mod unat d * unat n"
    using product_Some [of "?count mod d" n] True unfolding unat_mod count by blast
  have sum: "unat whole + ceil_div (unat product) (unat d) = ceil_div (unat n * ?l) (unat d)"
    unfolding whole product using nd by (intro split_rank) simp
  obtain extra where extra: "checked_ceil_divide product d = Some extra" "unat extra = ceil_div (unat product) (unat d)"
  proof -
    have "ceil_div (unat product) (unat d) < 2 ^ 64" using sum rank(2) assms by linarith
    then show ?thesis using that [of "of_nat (ceil_div (unat product) (unat d))"] nd by (simp add: unat_of_nat_u64)
  qed
  have fits: "unat whole + unat extra < 2 ^ 64" using sum extra rank(2) assms by linarith
  have total: "unat (whole + extra) = ceil_div (unat n * ?l) (unat d)" using sum extra unat_plus_u64 [OF fits] by simp
  have "\<not> whole > u64_max - extra" using add_guard [of extra whole] fits by (simp add: add.commute)
  moreover have "whole + extra \<noteq> 0" using rank(1) total by (simp add: word_eq_unat)
  moreover have "\<not> whole + extra > ?count" using rank(2) total count by (simp add: word_less_nat_alt)
  moreover have "unat (whole + extra - 1) = ceil_div (unat n * ?l) (unat d) - 1"
    using total calculation(2) by (simp add: unat_minus_one)
  ultimately have "inverse_ecdf values n d = Inr (sort values ! (ceil_div (unat n * ?l) (unat d) - 1))"
    using True nd whole product extra by (auto simp: inverse_ecdf_def Let_def not_less simp del: cal_checked_multiply_Some checked_ceil_divide_Some)
  then show ?thesis using True rank(3) quantile_unique by auto
next
  case False
  have count: "unat (of_nat (length values) :: u64) = length values" using assms by (rule unat_of_nat_u64)
  show ?thesis
  proof
    assume "inverse_ecdf values n d = Inr v"
    then obtain whole product where "cal_checked_multiply (of_nat (length values) mod d) n = Some product"
      "values \<noteq> []" "n \<noteq> 0" "n \<le> d" "d \<noteq> 0"
      by (auto simp: inverse_ecdf_def Let_def not_less simp del: cal_checked_multiply_Some split: if_splits option.splits)
    with False show "values \<noteq> [] \<and> 0 < n \<and> n \<le> d \<and> length values mod unat d * unat n < 2 ^ 64 \<and>
        quantile values (unat n) (unat d) v"
      by (auto simp: unat_mod count word_less_nat_alt word_eq_unat)
  qed (use False in auto)
qed

end
