(* ===== verification/Service_Rate.thy ===== *)
theory Service_Rate
  imports Exact_Rational Protocol_Model
begin

text \<open>
  Service-rate calibration, \<^verbatim>\<open>calibration/calibration.hpp\<close> and \<^verbatim>\<open>calibration/calibration.cpp\<close>: the validation of
  identifiers, references, governance and contexts, the sixty required cells and \<^verbatim>\<open>evaluate_service_rate\<close>.
  Counters of type \<^verbatim>\<open>std::size_t\<close> that count elements of a vector are natural numbers, and a \<^verbatim>\<open>std::set\<close>
  of strings is the list of its elements.
\<close>

subsection \<open>Data\<close>

definition kServiceRateMethodId :: string where "kServiceRateMethodId = ''SERVICE-RATE-NP-LTL95C95-MIN-v1''"
definition kMinimumValidIndependentRuns :: nat where "kMinimumValidIndependentRuns = 59"
definition kRequiredServiceCellCount :: nat where "kRequiredServiceCellCount = 60"

datatype EvaluationState = Eval_not_evaluated | Eval_resolved | Eval_ineligible

datatype CalibrationRunValidity = Cal_valid | Cal_invalid

record EvidenceReference =
  vr_artifact_id :: string
  vr_sha256 :: string

record CalibrationGovernance =
  cg_owner_ids :: "string list"
  cg_authority_artifact :: EvidenceReference
  cg_stand_budget_artifact :: EvidenceReference

record ServiceCellKey =
  sk_package :: QueuePackage
  sk_hardware_state :: RequestedHardwareState
  sk_placement :: Placement
  sk_working_set :: WorkingSetClass

record StageAContext =
  sx_platform_id :: string
  sx_build_id :: string
  sx_queue_implementation_id :: string
  sx_consumer_action_id :: string
  sx_placement_evidence_id :: string
  sx_capacity_evidence_id :: string
  sx_working_set_evidence_id :: string
  sx_hardware_state_evidence_id :: string
  sx_software_policy_id :: string
  sx_clock_policy_id :: string
  sx_logical_capacity :: u64

record ServiceCellPlan =
  sp_key :: ServiceCellKey
  sp_context :: StageAContext
  sp_duration_ticks :: u64
  sp_ticks_per_second :: u64
  sp_planned_run_ids :: "Identifier list"

record ServiceRatePlan =
  sr_record_id :: string
  sr_estimator_id :: string
  sr_seed_namespace_id :: string
  sr_assumptions :: "string list"
  sr_governance :: CalibrationGovernance
  sr_cells :: "ServiceCellPlan list"

record ServiceRunEvidence =
  sv_run_id :: Identifier
  sv_key :: ServiceCellKey
  sv_context :: StageAContext
  sv_stage :: Stage
  sv_run_mode :: RunMode
  sv_arrival_family :: ArrivalFamily
  sv_validity :: CalibrationRunValidity
  sv_consumed_events :: u64
  sv_interval_ticks :: u64
  sv_ticks_per_second :: u64
  sv_raw_run_artifacts :: "EvidenceReference list"
  sv_integrity_artifact :: "EvidenceReference option"
  sv_failure_artifact :: "EvidenceReference option"

record ServiceRunDecision =
  sd_run_id :: Identifier
  sd_validity :: CalibrationRunValidity
  sd_consumed_events :: u64
  sd_interval_ticks :: u64
  sd_ticks_per_second :: u64
  sd_throughput :: "ExactRational option"
  sd_raw_run_artifacts :: "EvidenceReference list"
  sd_integrity_artifact :: "EvidenceReference option"
  sd_failure_artifact :: "EvidenceReference option"

record ServiceCellResult =
  sl_key :: ServiceCellKey
  sl_state :: EvaluationState
  sl_planned_runs :: nat
  sl_present_runs :: nat
  sl_valid_runs :: nat
  sl_mu_cell :: "ExactRational option"
  sl_run_decisions :: "ServiceRunDecision list"
  sl_blockers :: "string list"

record ServiceRateResult =
  sq_state :: EvaluationState
  sq_cells :: "ServiceCellResult list"
  sq_mu_ref :: "ExactRational option"
  sq_candidate_loads :: "ExactRational list"
  sq_blockers :: "string list"

subsection \<open>Validation of the parts\<close>

definition valid_sha256 :: "string \<Rightarrow> bool" where
  "valid_sha256 value \<longleftrightarrow> length value = 64 \<and>
     list_all (\<lambda>c. (of_char c \<ge> (of_char (CHR ''0'') :: nat) \<and> of_char c \<le> (of_char (CHR ''9'') :: nat)) \<or>
       (of_char c \<ge> (of_char (CHR ''a'') :: nat) \<and> of_char c \<le> (of_char (CHR ''f'') :: nat))) value"

definition valid_opaque_id :: "string \<Rightarrow> bool" where
  "valid_opaque_id value \<longleftrightarrow> value \<noteq> [] \<and> CHR ''/'' \<notin> set value"

definition valid_reference :: "EvidenceReference \<Rightarrow> bool" where
  "valid_reference reference \<longleftrightarrow> valid_opaque_id (vr_artifact_id reference) \<and> valid_sha256 (vr_sha256 reference)"

definition valid_governance :: "CalibrationGovernance \<Rightarrow> bool" where
  "valid_governance governance \<longleftrightarrow>
     cg_owner_ids governance \<noteq> [] \<and> distinct (cg_owner_ids governance) \<and>
     list_all valid_opaque_id (cg_owner_ids governance) \<and>
     valid_reference (cg_authority_artifact governance) \<and> valid_reference (cg_stand_budget_artifact governance)"

definition valid_context :: "StageAContext \<Rightarrow> bool" where
  "valid_context context \<longleftrightarrow>
     valid_opaque_id (sx_platform_id context) \<and> valid_opaque_id (sx_build_id context) \<and>
     valid_opaque_id (sx_queue_implementation_id context) \<and> valid_opaque_id (sx_consumer_action_id context) \<and>
     valid_opaque_id (sx_placement_evidence_id context) \<and> valid_opaque_id (sx_capacity_evidence_id context) \<and>
     valid_opaque_id (sx_working_set_evidence_id context) \<and> valid_opaque_id (sx_hardware_state_evidence_id context) \<and>
     valid_opaque_id (sx_software_policy_id context) \<and> valid_opaque_id (sx_clock_policy_id context) \<and>
     sx_logical_capacity context \<noteq> 0"

definition references_valid :: "EvidenceReference list \<Rightarrow> bool" where
  "references_valid references \<longleftrightarrow> list_all valid_reference references"

text \<open>The numeric values of the enumerations, as \<^verbatim>\<open>static_cast<unsigned int>\<close> gives them.\<close>

fun package_number :: "QueuePackage \<Rightarrow> nat" where
  "package_number Package_r0 = 0"
| "package_number Package_r1 = 1"
| "package_number Package_r2 = 2"
| "package_number Package_l0 = 3"
| "package_number Package_l1 = 4"
| "package_number Package_nblfq_mpsc = 5"
| "package_number Package_not_applicable = 6"

fun hardware_number :: "RequestedHardwareState \<Rightarrow> nat" where
  "hardware_number Requested_h0 = 0"
| "hardware_number Requested_h1 = 1"
| "hardware_number Requested_not_applicable = 2"

fun placement_number :: "Placement \<Rightarrow> nat" where
  "placement_number Placement_near = 0"
| "placement_number Placement_far = 1"
| "placement_number Placement_stage_c_other = 2"
| "placement_number Placement_not_applicable = 3"

fun working_set_number :: "WorkingSetClass \<Rightarrow> nat" where
  "working_set_number l2_resident = 0"
| "working_set_number llc_resident = 1"
| "working_set_number beyond_llc = 2"
| "working_set_number WS_not_applicable = 3"

definition service_key_name :: "ServiceCellKey \<Rightarrow> string" where
  "service_key_name key =
     std_to_string (package_number (sk_package key)) @ '':'' @
     std_to_string (hardware_number (sk_hardware_state key)) @ '':'' @
     std_to_string (placement_number (sk_placement key)) @ '':'' @
     std_to_string (working_set_number (sk_working_set key))"

definition required_service_cells :: "ServiceCellKey list" where
  "required_service_cells =
     concat (map (\<lambda>package. concat (map (\<lambda>state. concat (map (\<lambda>placement. map (\<lambda>working_set.
       \<lparr>sk_package = package, sk_hardware_state = state, sk_placement = placement, sk_working_set = working_set\<rparr>)
       [l2_resident, llc_resident, beyond_llc]) [Placement_near, Placement_far]))
       [Requested_h0, Requested_h1])) [Package_r0, Package_r1, Package_r2, Package_l0, Package_l1])"

definition expected_service_key :: "ServiceCellKey \<Rightarrow> bool" where
  "expected_service_key key \<longleftrightarrow> key \<in> set required_service_cells"

subsection \<open>Planned and present runs\<close>

text \<open>The loops that insert the planned runs, and that match the evidence with them.\<close>

fun insert_planned :: "string \<Rightarrow> Identifier list \<Rightarrow> string list \<Rightarrow> string list Result" where
  "insert_planned path [] planned_runs = Inr planned_runs"
| "insert_planned path (run_id # rest) planned_runs =
     (if id_value run_id \<in> set planned_runs
      then Inl [ValidationError duplicate_value path ''CAL-PLAN-RUN-UNIQUE'' ''planned run identity must be globally unique'']
      else insert_planned path rest (id_value run_id # planned_runs))"

fun check_present :: "string \<Rightarrow> string list \<Rightarrow> Identifier list \<Rightarrow> string list \<Rightarrow> unit Result" where
  "check_present path planned_runs [] present = Inr ()"
| "check_present path planned_runs (run_id # rest) present =
     (if id_value run_id \<notin> set planned_runs
      then Inl [ValidationError reference_mismatch path ''CAL-NO-TOP-UP'' ''run was not in the prospective plan'']
      else if id_value run_id \<in> set present
      then Inl [ValidationError duplicate_value path ''CAL-RUN-EVIDENCE-UNIQUE'' ''run evidence must be unique'']
      else check_present path planned_runs rest (id_value run_id # present))"

fun check_service_cells :: "ServiceCellPlan list \<Rightarrow> string list \<Rightarrow> string list \<Rightarrow> string list Result" where
  "check_service_cells [] cell_names planned_runs = Inr planned_runs"
| "check_service_cells (cell # rest) cell_names planned_runs =
     (if \<not> expected_service_key (sp_key cell) \<or> \<not> valid_context (sp_context cell) \<or> sp_duration_ticks cell = 0 \<or>
         sp_ticks_per_second cell = 0 \<or> service_key_name (sp_key cell) \<in> set cell_names
      then Inl [ValidationError cross_field ''$/service_plan/cells'' ''CAL-SERVICE-CELL-PLAN''
             ''service cell is invalid or duplicated'']
      else
        (case insert_planned ''$/service_plan/cells/planned_run_ids'' (sp_planned_run_ids cell) planned_runs of
           Inl e \<Rightarrow> Inl e
         | Inr planned_runs' \<Rightarrow> check_service_cells rest (service_key_name (sp_key cell) # cell_names) planned_runs'))"

subsection \<open>One cell\<close>

definition service_evidence_matches :: "ServiceCellKey \<Rightarrow> ServiceCellPlan \<Rightarrow> ServiceRunEvidence \<Rightarrow> bool" where
  "service_evidence_matches key cell evidence \<longleftrightarrow>
     sv_key evidence = key \<and> sv_context evidence = sp_context cell \<and> sv_stage evidence = Stage_calibration \<and>
     sv_run_mode evidence = Mode_service_rate_calibration \<and> sv_arrival_family evidence = Arrival_continuous_ready \<and>
     sv_interval_ticks evidence = sp_duration_ticks cell \<and> sv_ticks_per_second evidence = sp_ticks_per_second cell"

definition service_references_ok :: "ServiceRunEvidence \<Rightarrow> bool" where
  "service_references_ok evidence \<longleftrightarrow>
     references_valid (sv_raw_run_artifacts evidence) \<and>
     (case sv_integrity_artifact evidence of None \<Rightarrow> True | Some reference \<Rightarrow> valid_reference reference) \<and>
     (case sv_failure_artifact evidence of None \<Rightarrow> True | Some reference \<Rightarrow> valid_reference reference)"

definition service_decision :: "ServiceRunEvidence \<Rightarrow> ExactRational option \<Rightarrow> ServiceRunDecision" where
  "service_decision evidence throughput =
     \<lparr>sd_run_id = sv_run_id evidence, sd_validity = sv_validity evidence, sd_consumed_events = sv_consumed_events evidence,
      sd_interval_ticks = sv_interval_ticks evidence, sd_ticks_per_second = sv_ticks_per_second evidence,
      sd_throughput = throughput, sd_raw_run_artifacts = sv_raw_run_artifacts evidence,
      sd_integrity_artifact = sv_integrity_artifact evidence, sd_failure_artifact = sv_failure_artifact evidence\<rparr>"

text \<open>Replace the minimum when the new rate is the first or a smaller one.\<close>

definition update_minimum :: "ExactRational \<Rightarrow> ExactRational option \<Rightarrow> ExactRational option Result" where
  "update_minimum rate minimum =
     (case (case minimum of Some old \<Rightarrow> compare_rational rate old | None \<Rightarrow> Inr (-1)) of
        Inl e \<Rightarrow> Inl e
      | Inr is_new_minimum \<Rightarrow> Inr (if is_new_minimum < 0 then Some rate else minimum))"

text \<open>One planned run of a cell.\<close>

definition service_run_step ::
  "ServiceCellKey \<Rightarrow> ServiceCellPlan \<Rightarrow> ServiceRunEvidence list \<Rightarrow> Identifier \<Rightarrow> ServiceCellResult \<times> ExactRational option \<Rightarrow>
     (ServiceCellResult \<times> ExactRational option) Result" where
  "service_run_step key cell runs planned_run_id state =
     (let (result, minimum) = state in
      (case List.find (\<lambda>candidate. sv_run_id candidate = planned_run_id) runs of
         None \<Rightarrow> Inr (result\<lparr>sl_blockers := sl_blockers result @
                    [''planned run evidence is missing: '' @ id_value planned_run_id]\<rparr>, minimum)
       | Some evidence \<Rightarrow>
           let present = result\<lparr>sl_present_runs := Suc (sl_present_runs result)\<rparr> in
           if \<not> service_evidence_matches key cell evidence
           then Inl [ValidationError reference_mismatch ''$/service_runs'' ''CAL-SERVICE-STAGE-A-MATCH''
                  ''service evidence differs from its Stage A context or fixed plan'']
           else if \<not> service_references_ok evidence
           then Inl [ValidationError invalid_hash ''$/service_runs/artifacts'' ''CAL-EVIDENCE-REFERENCE''
                  ''evidence reference is malformed'']
           else if sv_validity evidence = Cal_invalid
           then (if sv_failure_artifact evidence = None
                 then Inl [ValidationError missing_evidence ''$/service_runs/failure_artifact'' ''CAL-INVALID-REQUIRES-FAILURE''
                        ''invalid calibration run needs failure evidence'']
                 else Inr (present\<lparr>sl_run_decisions := sl_run_decisions present @ [service_decision evidence None]\<rparr>, minimum))
           else if sv_raw_run_artifacts evidence = [] \<or> sv_integrity_artifact evidence = None
           then Inl [ValidationError missing_evidence ''$/service_runs'' ''CAL-VALID-REQUIRES-EVIDENCE''
                  ''valid calibration run needs raw and integrity evidence'']
           else
             (case exact_throughput \<lparr>to_consumed_events = sv_consumed_events evidence,
                     to_ticks_per_second = sv_ticks_per_second evidence, to_interval_ticks = sv_interval_ticks evidence\<rparr> of
                Inl e \<Rightarrow> Inl e
              | Inr throughput \<Rightarrow>
                  (case update_minimum throughput minimum of
                     Inl e \<Rightarrow> Inl e
                   | Inr minimum' \<Rightarrow>
                       Inr (present\<lparr>sl_run_decisions := sl_run_decisions present @ [service_decision evidence (Some throughput)],
                              sl_valid_runs := Suc (sl_valid_runs present)\<rparr>, minimum')))))"

fun service_cell_runs ::
  "ServiceCellKey \<Rightarrow> ServiceCellPlan \<Rightarrow> ServiceRunEvidence list \<Rightarrow> Identifier list \<Rightarrow> ServiceCellResult \<times> ExactRational option \<Rightarrow>
     (ServiceCellResult \<times> ExactRational option) Result" where
  "service_cell_runs key cell runs [] state = Inr state"
| "service_cell_runs key cell runs (planned_run_id # rest) state =
     (case service_run_step key cell runs planned_run_id state of
        Inl e \<Rightarrow> Inl e
      | Inr state' \<Rightarrow> service_cell_runs key cell runs rest state')"

definition absent_cell :: "ServiceCellKey \<Rightarrow> ServiceCellResult" where
  "absent_cell key =
     \<lparr>sl_key = key, sl_state = Eval_not_evaluated, sl_planned_runs = 0, sl_present_runs = 0, sl_valid_runs = 0,
      sl_mu_cell = None, sl_run_decisions = [], sl_blockers = [''cell absent from prospective plan'']\<rparr>"

definition fresh_cell :: "ServiceCellKey \<Rightarrow> ServiceCellPlan \<Rightarrow> ServiceCellResult" where
  "fresh_cell key cell =
     \<lparr>sl_key = key, sl_state = Eval_resolved, sl_planned_runs = length (sp_planned_run_ids cell), sl_present_runs = 0,
      sl_valid_runs = 0, sl_mu_cell = None, sl_run_decisions = [], sl_blockers = []\<rparr>"

text \<open>The end of a cell: the blockers, the minimum of the cell and the minimum over the cells.\<close>

definition finish_service_cell ::
  "ServiceCellKey \<Rightarrow> ServiceCellResult \<Rightarrow> ExactRational option \<Rightarrow> ServiceRateResult \<Rightarrow> ServiceRateResult Result" where
  "finish_service_cell key cell_result minimum result =
     (let blockers = sl_blockers cell_result @
            (if sl_present_runs cell_result \<noteq> sl_planned_runs cell_result then [''prospective run plan is incomplete''] else []) @
            (if sl_valid_runs cell_result < kMinimumValidIndependentRuns then [''fewer than 59 valid independent runs''] else []);
          blocked = cell_result\<lparr>sl_blockers := blockers\<rparr>
      in if blockers \<noteq> []
         then Inr (result\<lparr>sq_state := Eval_not_evaluated,
                sq_blockers := sq_blockers result @ [''unresolved service cell '' @ service_key_name key],
                sq_cells := sq_cells result @ [blocked\<lparr>sl_state := Eval_not_evaluated\<rparr>]\<rparr>)
         else
           (case minimum of
              None \<Rightarrow> Inl [ValidationError cross_field ''$/service_runs'' ''CAL-SERVICE-MINIMUM-MISSING''
                ''a resolved service cell must contain a valid throughput minimum'']
            | Some rate \<Rightarrow>
                (case update_minimum rate (sq_mu_ref result) of
                   Inl e \<Rightarrow> Inl e
                 | Inr mu_ref \<Rightarrow> Inr (result\<lparr>sq_mu_ref := mu_ref,
                       sq_cells := sq_cells result @ [blocked\<lparr>sl_mu_cell := minimum\<rparr>]\<rparr>))))"

definition service_cell_step ::
  "ServiceCellPlan list \<Rightarrow> ServiceRunEvidence list \<Rightarrow> ServiceCellKey \<Rightarrow> ServiceRateResult \<Rightarrow> ServiceRateResult Result" where
  "service_cell_step cells runs key result =
     (case List.find (\<lambda>candidate. sp_key candidate = key) cells of
        None \<Rightarrow> Inr (result\<lparr>sq_state := Eval_not_evaluated,
           sq_blockers := sq_blockers result @ [''missing required service cell '' @ service_key_name key],
           sq_cells := sq_cells result @ [absent_cell key]\<rparr>)
      | Some cell \<Rightarrow>
          (case service_cell_runs key cell runs (sp_planned_run_ids cell) (fresh_cell key cell, None) of
             Inl e \<Rightarrow> Inl e
           | Inr (cell_result, minimum) \<Rightarrow> finish_service_cell key cell_result minimum result))"

fun service_cells ::
  "ServiceCellPlan list \<Rightarrow> ServiceRunEvidence list \<Rightarrow> ServiceCellKey list \<Rightarrow> ServiceRateResult \<Rightarrow> ServiceRateResult Result" where
  "service_cells cells runs [] result = Inr result"
| "service_cells cells runs (key # rest) result =
     (case service_cell_step cells runs key result of
        Inl e \<Rightarrow> Inl e
      | Inr result' \<Rightarrow> service_cells cells runs rest result')"

subsection \<open>The evaluation\<close>

definition load_factors :: "ExactRational list" where
  "load_factors = [\<lparr>xr_numerator = 1, xr_denominator = 4\<rparr>, \<lparr>xr_numerator = 1, xr_denominator = 2\<rparr>,
     \<lparr>xr_numerator = 3, xr_denominator = 4\<rparr>]"

definition service_plan_identity :: "ServiceRatePlan \<Rightarrow> bool" where
  "service_plan_identity rate_plan \<longleftrightarrow>
     valid_opaque_id (sr_record_id rate_plan) \<and> valid_opaque_id (sr_seed_namespace_id rate_plan) \<and> sr_assumptions rate_plan \<noteq> [] \<and>
     \<not> list_ex (\<lambda>assumption. assumption = []) (sr_assumptions rate_plan) \<and> valid_governance (sr_governance rate_plan) \<and>
     sr_estimator_id rate_plan = kServiceRateMethodId"

definition finish_service_rate :: "ServiceRatePlan \<Rightarrow> ServiceRateResult \<Rightarrow> ServiceRateResult Result" where
  "finish_service_rate rate_plan result =
     (let checked =
            (if length (sr_cells rate_plan) \<noteq> kRequiredServiceCellCount
             then result\<lparr>sq_state := Eval_not_evaluated,
                    sq_blockers := sq_blockers result @ [''service plan is not the exact 60-cell product'']\<rparr>
             else result)
      in (case (sq_state checked, sq_mu_ref checked) of
            (Eval_resolved, Some mu_ref) \<Rightarrow>
              (case map_result (\<lambda>factor. multiply_rational mu_ref factor ''$/candidate_loads'') load_factors of
                 Inl e \<Rightarrow> Inl e
               | Inr loads \<Rightarrow> Inr (checked\<lparr>sq_candidate_loads := sq_candidate_loads checked @ loads\<rparr>))
          | _ \<Rightarrow> Inr (checked\<lparr>sq_mu_ref := None\<rparr>)))"

definition evaluate_service_rate :: "ServiceRatePlan \<Rightarrow> ServiceRunEvidence list \<Rightarrow> ServiceRateResult Result" where
  "evaluate_service_rate rate_plan runs =
     (if \<not> service_plan_identity rate_plan
      then Inl [ValidationError missing_field ''$/service_plan'' ''CAL-SERVICE-PLAN-IDENTITY''
             ''plan requires explicit identity, namespace, and accepted estimator'']
      else
        (case check_service_cells (sr_cells rate_plan) [] [] of
           Inl e \<Rightarrow> Inl e
         | Inr planned_runs \<Rightarrow>
             (case check_present ''$/service_runs/run_id'' planned_runs (map sv_run_id runs) [] of
                Inl e \<Rightarrow> Inl e
              | Inr _ \<Rightarrow>
                  (case service_cells (sr_cells rate_plan) runs required_service_cells
                          \<lparr>sq_state = Eval_resolved, sq_cells = [], sq_mu_ref = None, sq_candidate_loads = [], sq_blockers = []\<rparr> of
                     Inl e \<Rightarrow> Inl e
                   | Inr result \<Rightarrow> finish_service_rate rate_plan result))))"

end
