(* ===== verification/Service_Rate_Correct.thy ===== *)
theory Service_Rate_Correct
  imports Service_Rate
begin

text \<open>
  What a resolved service-rate calibration means: the reference rate is the least throughput of all valid
  runs, every required cell has at least 59 of them, and the candidate loads are exact fractions of it.
\<close>

subsection \<open>Minima\<close>

definition run_rate :: "ServiceRunEvidence \<Rightarrow> rat" where
  "run_rate e = of_nat (unat (sv_consumed_events e) * unat (sv_ticks_per_second e)) / of_nat (unat (sv_interval_ticks e))"

definition least_rate :: "rat set \<Rightarrow> ExactRational option \<Rightarrow> bool" where
  "least_rate R m \<longleftrightarrow>
     (case m of None \<Rightarrow> R = {} | Some q \<Rightarrow> reduced_rate q \<and> rate_value q \<in> R \<and> (\<forall>x \<in> R. rate_value q \<le> x))"

lemma update_minimum_least:
  assumes "least_rate R m" and "reduced_rate rate"
  shows "\<exists>m'. update_minimum rate m = Inr m' \<and> least_rate (insert (rate_value rate) R) m'"
proof (cases m)
  case (Some old)
  then show ?thesis
    using assms unfolding update_minimum_def compare_rational_value
    by (auto simp: least_rate_def reduced_rate_def)
qed (use assms in \<open>auto simp: update_minimum_def least_rate_def\<close>)

subsection \<open>The runs of a cell\<close>

definition run_of :: "ServiceRunEvidence list \<Rightarrow> Identifier \<Rightarrow> ServiceRunEvidence option" where
  "run_of runs run_id = List.find (\<lambda>candidate. sv_run_id candidate = run_id) runs"

definition valid_evidence :: "ServiceRunEvidence list \<Rightarrow> Identifier list \<Rightarrow> ServiceRunEvidence list" where
  "valid_evidence runs ids = filter (\<lambda>e. sv_validity e = Cal_valid) (List.map_filter (run_of runs) ids)"

lemma valid_evidence_simps [simp]:
  "valid_evidence runs [] = []"
  "valid_evidence runs (i # ids) =
     (case run_of runs i of None \<Rightarrow> [] | Some e \<Rightarrow> if sv_validity e = Cal_valid then [e] else []) @ valid_evidence runs ids"
  by (auto simp: valid_evidence_def map_filter_simps split: option.split)

text \<open>The effect of one planned run, on every branch that does not fail.\<close>

lemma service_run_step_cases:
  assumes "service_run_step key cell runs i (c, m) = Inr (c', m')" and "least_rate R m"
  shows "(run_of runs i = None \<and> m' = m \<and> sl_blockers c' \<noteq> [] \<and> sl_valid_runs c' = sl_valid_runs c \<and>
       sl_present_runs c' = sl_present_runs c \<and> sl_planned_runs c' = sl_planned_runs c) \<or>
     (\<exists>e. run_of runs i = Some e \<and> service_evidence_matches key cell e \<and> sl_blockers c' = sl_blockers c \<and>
        sl_present_runs c' = Suc (sl_present_runs c) \<and> sl_planned_runs c' = sl_planned_runs c \<and>
        (if sv_validity e = Cal_valid then sl_valid_runs c' = Suc (sl_valid_runs c) \<and> least_rate (insert (run_rate e) R) m'
         else sl_valid_runs c' = sl_valid_runs c \<and> m' = m))"
proof (cases "run_of runs i")
  case None
  then show ?thesis using assms(1) by (auto simp: service_run_step_def run_of_def)
next
  case (Some e)
  show ?thesis
  proof (cases "sv_validity e")
    case Cal_invalid
    with Some assms(1) show ?thesis by (auto simp: service_run_step_def run_of_def Let_def)
  next
    case Cal_valid
    obtain q where q: "exact_throughput \<lparr>to_consumed_events = sv_consumed_events e, to_ticks_per_second = sv_ticks_per_second e,
        to_interval_ticks = sv_interval_ticks e\<rparr> = Inr q" and m': "update_minimum q m = Inr m'"
      and rest: "service_evidence_matches key cell e" "sl_blockers c' = sl_blockers c"
        "sl_present_runs c' = Suc (sl_present_runs c)" "sl_valid_runs c' = Suc (sl_valid_runs c)" "sl_planned_runs c' = sl_planned_runs c"
      using Some assms(1) Cal_valid by (auto simp: service_run_step_def run_of_def Let_def)
    from q have "reduced_rate q" "rate_value q = run_rate e" by (simp_all add: exact_throughput_exact run_rate_def)
    with update_minimum_least [OF assms(2), of q] m' have "least_rate (insert (run_rate e) R) m'" by auto
    with Some rest Cal_valid show ?thesis by auto
  qed
qed

lemma service_cell_runs_sound:
  assumes "service_cell_runs key cell runs ids (c, m) = Inr (c', m')" and "least_rate R m" and "sl_blockers c' = []"
  shows "least_rate (R \<union> run_rate ` set (valid_evidence runs ids)) m'"
    and "sl_valid_runs c' = sl_valid_runs c + length (valid_evidence runs ids)"
    and "\<forall>i \<in> set ids. \<exists>e. run_of runs i = Some e \<and> service_evidence_matches key cell e" and "sl_blockers c = []"
proof -
  have "least_rate (R \<union> run_rate ` set (valid_evidence runs ids)) m' \<and>
    sl_valid_runs c' = sl_valid_runs c + length (valid_evidence runs ids) \<and>
    (\<forall>i \<in> set ids. \<exists>e. run_of runs i = Some e \<and> service_evidence_matches key cell e) \<and> sl_blockers c = []"
    using assms
  proof (induction ids arbitrary: c m R)
    case (Cons i ids)
    obtain c1 m1 where step: "service_run_step key cell runs i (c, m) = Inr (c1, m1)"
      and rest: "service_cell_runs key cell runs ids (c1, m1) = Inr (c', m')"
      using Cons.prems(1) by auto
    note branch = service_run_step_cases [OF step Cons.prems(2)]
    show ?case
    proof (cases "run_of runs i")
      case None
      with branch have "sl_blockers c1 \<noteq> []" "m1 = m" by auto
      with Cons.IH [OF rest _ Cons.prems(3)] Cons.prems(2) show ?thesis by auto
    next
      case (Some e)
      show ?thesis
      proof (cases "sv_validity e")
        case Cal_valid
        with branch Some have "least_rate (insert (run_rate e) R) m1" by auto
        from Cons.IH [OF rest this Cons.prems(3)] branch Some Cal_valid show ?thesis by (auto simp: insert_commute)
      next
        case Cal_invalid
        with branch Some Cons.prems(2) have "least_rate R m1" by auto
        from Cons.IH [OF rest this Cons.prems(3)] branch Some Cal_invalid show ?thesis by auto
      qed
    qed
  qed auto
  then show "least_rate (R \<union> run_rate ` set (valid_evidence runs ids)) m'"
    "sl_valid_runs c' = sl_valid_runs c + length (valid_evidence runs ids)"
    "\<forall>i \<in> set ids. \<exists>e. run_of runs i = Some e \<and> service_evidence_matches key cell e" "sl_blockers c = []" by blast+
qed

subsection \<open>The cells\<close>

definition planned_cell :: "ServiceCellPlan list \<Rightarrow> ServiceCellKey \<Rightarrow> ServiceCellPlan option" where
  "planned_cell cells key = List.find (\<lambda>candidate. sp_key candidate = key) cells"

definition cell_valid_runs :: "ServiceCellPlan list \<Rightarrow> ServiceRunEvidence list \<Rightarrow> ServiceCellKey \<Rightarrow> ServiceRunEvidence list" where
  "cell_valid_runs cells runs key =
     (case planned_cell cells key of None \<Rightarrow> [] | Some cell \<Rightarrow> valid_evidence runs (sp_planned_run_ids cell))"

definition cell_resolved :: "ServiceCellPlan list \<Rightarrow> ServiceRunEvidence list \<Rightarrow> ServiceCellKey \<Rightarrow> bool" where
  "cell_resolved cells runs key \<longleftrightarrow>
     (\<exists>cell. planned_cell cells key = Some cell \<and> kMinimumValidIndependentRuns \<le> length (cell_valid_runs cells runs key) \<and>
        (\<forall>i \<in> set (sp_planned_run_ids cell). \<exists>e. run_of runs i = Some e \<and> service_evidence_matches key cell e))"

lemma service_cell_step_sound:
  assumes "service_cell_step cells runs key r = Inr r'" and "sq_state r' = Eval_resolved" and "least_rate R (sq_mu_ref r)"
  shows "sq_state r = Eval_resolved \<and> least_rate (R \<union> run_rate ` set (cell_valid_runs cells runs key)) (sq_mu_ref r') \<and>
    cell_resolved cells runs key \<and> sq_candidate_loads r' = sq_candidate_loads r"
proof -
  obtain cell where cell: "planned_cell cells key = Some cell"
    using assms(1,2) by (auto simp: service_cell_step_def planned_cell_def split: option.splits)
  then obtain c m where runs: "service_cell_runs key cell runs (sp_planned_run_ids cell) (fresh_cell key cell, None) = Inr (c, m)"
    and finish: "finish_service_cell key c m r = Inr r'"
    using assms(1) by (auto simp: service_cell_step_def planned_cell_def split: prod.splits)
  have blockers: "sl_blockers c = []" "\<not> sl_valid_runs c < kMinimumValidIndependentRuns"
    using finish assms(2) by (auto simp: finish_service_cell_def Let_def split: if_splits)
  obtain q mu where q: "m = Some q" and mu: "update_minimum q (sq_mu_ref r) = Inr mu" "sq_mu_ref r' = mu"
      "sq_state r' = sq_state r" "sq_candidate_loads r' = sq_candidate_loads r"
    using finish assms(2) by (auto simp: finish_service_cell_def Let_def split: if_splits)
  note sound = service_cell_runs_sound [OF runs _ blockers(1), of "{}"]
  have none: "least_rate {} None" by (simp add: least_rate_def)
  have V: "cell_valid_runs cells runs key = valid_evidence runs (sp_planned_run_ids cell)" by (simp add: cell_valid_runs_def cell)
  have least: "least_rate (run_rate ` set (cell_valid_runs cells runs key)) (Some q)" using sound(1) [OF none] q V by simp
  then have "reduced_rate q" by (simp add: least_rate_def)
  with update_minimum_least [OF assms(3), of q] mu have "least_rate (insert (rate_value q) R) mu" by auto
  with least have "least_rate (R \<union> run_rate ` set (cell_valid_runs cells runs key)) mu"
    by (cases mu) (auto simp: least_rate_def dest: order_trans)
  moreover have "cell_resolved cells runs key"
    using sound(2) [OF none] sound(3) [OF none] blockers(2) cell V by (simp add: cell_resolved_def fresh_cell_def)
  ultimately show ?thesis using mu assms(2) by simp
qed

lemma service_cells_unresolved:
  assumes "service_cells cells runs keys r = Inr r'" and "sq_state r \<noteq> Eval_resolved"
  shows "sq_state r' \<noteq> Eval_resolved"
  using assms
proof (induction keys arbitrary: r)
  case (Cons key keys)
  then obtain r1 where step: "service_cell_step cells runs key r = Inr r1" and rest: "service_cells cells runs keys r1 = Inr r'" by auto
  from step Cons.prems(2) have "sq_state r1 \<noteq> Eval_resolved"
    by (auto simp: service_cell_step_def finish_service_cell_def Let_def split: option.splits if_splits prod.splits)
  with Cons.IH [OF rest] show ?case by blast
qed auto

lemma service_cells_sound:
  assumes "service_cells cells runs keys r = Inr r'" and "sq_state r' = Eval_resolved" and "least_rate R (sq_mu_ref r)"
  shows "least_rate (R \<union> (\<Union>key \<in> set keys. run_rate ` set (cell_valid_runs cells runs key))) (sq_mu_ref r') \<and>
    (\<forall>key \<in> set keys. cell_resolved cells runs key) \<and> sq_candidate_loads r' = sq_candidate_loads r"
  using assms
proof (induction keys arbitrary: r R)
  case (Cons key keys)
  obtain r1 where step: "service_cell_step cells runs key r = Inr r1" and rest: "service_cells cells runs keys r1 = Inr r'"
    using Cons.prems(1) by auto
  have "sq_state r1 = Eval_resolved" using service_cells_unresolved [OF rest] Cons.prems(2) by blast
  note first = service_cell_step_sound [OF step this Cons.prems(3)]
  then have "least_rate (R \<union> run_rate ` set (cell_valid_runs cells runs key)) (sq_mu_ref r1)" by blast
  from Cons.IH [OF rest Cons.prems(2) this] first show ?case by (simp add: Un_assoc)
qed auto

subsection \<open>The plan and the evidence\<close>

lemma insert_planned_Inr:
  "insert_planned path ids seen = Inr seen' \<longleftrightarrow>
     distinct (map id_value ids) \<and> set (map id_value ids) \<inter> set seen = {} \<and> seen' = rev (map id_value ids) @ seen"
  by (induction ids arbitrary: seen) auto

lemma check_present_Inr:
  "check_present path known ids seen = Inr () \<longleftrightarrow>
     distinct (map id_value ids) \<and> set (map id_value ids) \<subseteq> set known \<and> set (map id_value ids) \<inter> set seen = {}"
  by (induction ids arbitrary: seen) auto

definition planned_names :: "ServiceCellPlan list \<Rightarrow> string list" where
  "planned_names cells = concat (map (\<lambda>cell. map id_value (sp_planned_run_ids cell)) cells)"

lemma check_service_cells_Inr:
  assumes "check_service_cells cells names seen = Inr seen'"
  shows "list_all (\<lambda>cell. expected_service_key (sp_key cell) \<and> distinct (sp_planned_run_ids cell)) cells"
    and "distinct (map sp_key cells)" and "set seen' = set seen \<union> set (planned_names cells)"
proof -
  have "list_all (\<lambda>cell. expected_service_key (sp_key cell) \<and> distinct (sp_planned_run_ids cell)) cells \<and>
    distinct (map (service_key_name \<circ> sp_key) cells) \<and> set (map (service_key_name \<circ> sp_key) cells) \<inter> set names = {} \<and>
    set seen' = set seen \<union> set (planned_names cells)"
    using assms
  proof (induction cells arbitrary: names seen)
    case (Cons cell cells)
    obtain seen1 where step: "insert_planned ''$/service_plan/cells/planned_run_ids'' (sp_planned_run_ids cell) seen = Inr seen1"
      "check_service_cells cells (service_key_name (sp_key cell) # names) seen1 = Inr seen'"
      "expected_service_key (sp_key cell)" "service_key_name (sp_key cell) \<notin> set names"
      using Cons.prems by auto
    from Cons.IH [OF step(2)] step show ?case
      by (auto simp: insert_planned_Inr planned_names_def distinct_map)
  qed (simp add: planned_names_def)
  then show "list_all (\<lambda>cell. expected_service_key (sp_key cell) \<and> distinct (sp_planned_run_ids cell)) cells"
    "set seen' = set seen \<union> set (planned_names cells)" "distinct (map sp_key cells)"
    by (auto simp: distinct_map intro: inj_on_imageI2)
qed

lemma run_of_present:
  assumes "distinct (map id_value (map sv_run_id runs))" and "e \<in> set runs"
  shows "run_of runs (sv_run_id e) = Some e"
proof -
  have "x = e" if "x \<in> set runs" "sv_run_id x = sv_run_id e" for x
    using assms that by (auto simp: distinct_map inj_on_def)
  then show ?thesis unfolding run_of_def using assms(2)
    by (induction runs) auto
qed

lemma planned_cell_present:
  assumes "distinct (map sp_key cells)" and "cell \<in> set cells"
  shows "planned_cell cells (sp_key cell) = Some cell"
  using assms unfolding planned_cell_def by (induction cells) (auto simp: rev_image_eqI)

lemma run_of_Some: "run_of runs i = Some e \<Longrightarrow> e \<in> set runs \<and> sv_run_id e = i"
  by (auto simp: run_of_def find_Some_iff)

lemma valid_evidence_set:
  "set (valid_evidence runs ids) = {e. sv_validity e = Cal_valid \<and> (\<exists>i \<in> set ids. run_of runs i = Some e)}"
  by (induction ids) (auto split: option.splits if_splits)

lemma valid_evidence_distinct: "distinct ids \<Longrightarrow> distinct (valid_evidence runs ids)"
  by (induction ids) (auto simp: valid_evidence_set dest: run_of_Some split: option.splits)

text \<open>Every run of the evidence belongs to one planned cell.\<close>

lemma runs_are_planned:
  assumes "set (map id_value (map sv_run_id runs)) \<subseteq> set (planned_names cells)" and "e \<in> set runs"
  shows "\<exists>cell \<in> set cells. sv_run_id e \<in> set (sp_planned_run_ids cell)"
proof -
  have "id_value (sv_run_id e) \<in> set (planned_names cells)" using assms by auto
  then obtain cell i where "cell \<in> set cells" "i \<in> set (sp_planned_run_ids cell)" "id_value (sv_run_id e) = id_value i"
    by (auto simp: planned_names_def)
  then show ?thesis using Identifier.expand [of "sv_run_id e" i] by auto
qed

lemma planned_run_counts:
  assumes "cell_resolved cells runs key" and "list_all (\<lambda>cell. distinct (sp_planned_run_ids cell)) cells"
  shows "kMinimumValidIndependentRuns \<le> length (filter (\<lambda>e. sv_key e = key \<and> sv_validity e = Cal_valid) runs)"
proof -
  obtain cell where cell: "planned_cell cells key = Some cell" "kMinimumValidIndependentRuns \<le> length (cell_valid_runs cells runs key)"
    and present: "\<forall>i \<in> set (sp_planned_run_ids cell). \<exists>e. run_of runs i = Some e \<and> service_evidence_matches key cell e"
    using assms(1) by (auto simp: cell_resolved_def)
  let ?valid = "valid_evidence runs (sp_planned_run_ids cell)"
  have V: "cell_valid_runs cells runs key = ?valid" by (simp add: cell_valid_runs_def cell)
  have "cell \<in> set cells" using cell(1) by (auto simp: planned_cell_def find_Some_iff)
  then have "distinct ?valid" using assms(2) by (intro valid_evidence_distinct) (auto simp: list_all_iff)
  then have "length ?valid = card (set ?valid)" by (rule distinct_card [symmetric])
  also have "\<dots> \<le> card (set (filter (\<lambda>e. sv_key e = key \<and> sv_validity e = Cal_valid) runs))"
    using present by (intro card_mono) (fastforce simp: valid_evidence_set service_evidence_matches_def dest: run_of_Some)+
  also have "\<dots> \<le> length (filter (\<lambda>e. sv_key e = key \<and> sv_validity e = Cal_valid) runs)" by (rule card_length)
  finally show ?thesis using cell(2) V by simp
qed

text \<open>The rates that the loop over the cells looks at are the rates of all valid runs.\<close>

lemma all_valid_runs:
  assumes "distinct (map id_value (map sv_run_id runs))"
    and "set (map id_value (map sv_run_id runs)) \<subseteq> set (planned_names cells)"
    and "distinct (map sp_key cells)" and "list_all (\<lambda>cell. expected_service_key (sp_key cell)) cells"
  shows "(\<Union>key \<in> set required_service_cells. run_rate ` set (cell_valid_runs cells runs key)) =
    run_rate ` {e \<in> set runs. sv_validity e = Cal_valid}"
proof -
  have "e \<in> set runs" "sv_validity e = Cal_valid" if "e \<in> set (cell_valid_runs cells runs key)" for e key
    using that by (auto simp: cell_valid_runs_def valid_evidence_set dest: run_of_Some split: option.splits)
  moreover have "\<exists>key \<in> set required_service_cells. e \<in> set (cell_valid_runs cells runs key)"
    if e: "e \<in> set runs" "sv_validity e = Cal_valid" for e
  proof -
    obtain cell where cell: "cell \<in> set cells" "sv_run_id e \<in> set (sp_planned_run_ids cell)"
      using runs_are_planned [OF assms(2) e(1)] by blast
    then have "sp_key cell \<in> set required_service_cells" using assms(4) by (auto simp: list_all_iff expected_service_key_def)
    moreover have "e \<in> set (cell_valid_runs cells runs (sp_key cell))"
      using cell e run_of_present [OF assms(1) e(1)] planned_cell_present [OF assms(3) cell(1)]
      by (auto simp: cell_valid_runs_def valid_evidence_set)
    ultimately show ?thesis by blast
  qed
  ultimately show ?thesis by (auto intro!: rev_image_eqI) blast
qed

subsection \<open>Resolved calibrations\<close>

lemma load_factor_values: "map rate_value load_factors = [1 / 4, 1 / 2, 3 / 4]"
  by (simp add: load_factors_def rate_value_def)

lemma candidate_values:
  assumes "map_result (\<lambda>factor. multiply_rational mu factor path) factors = Inr loads"
  shows "map rate_value loads = map (\<lambda>factor. rate_value mu * rate_value factor) factors"
  using assms unfolding map_result_Inr by (induction rule: list_all2_induct) (simp_all add: multiply_rational_sound(2))

text \<open>
  C39. When a service-rate calibration is resolved, the reference rate is the least exact throughput of all valid
  runs of the evidence and is attained by one of them; each of the sixty required cells has at least 59 valid
  runs; every run, valid or not, is calibration evidence that matches its planned cell; and the three candidate
  loads are exactly a quarter, a half and three quarters of the reference rate.
\<close>

theorem service_rate_resolved:
  assumes "evaluate_service_rate rate_plan runs = Inr result" and "sq_state result = Eval_resolved"
  shows "\<exists>mu. sq_mu_ref result = Some mu \<and>
    (\<exists>e \<in> set runs. sv_validity e = Cal_valid \<and> rate_value mu = run_rate e) \<and>
    (\<forall>e \<in> set runs. sv_validity e = Cal_valid \<longrightarrow> rate_value mu \<le> run_rate e) \<and>
    list_all (\<lambda>key. 59 \<le> length (filter (\<lambda>e. sv_key e = key \<and> sv_validity e = Cal_valid) runs)) required_service_cells \<and>
    list_all (\<lambda>e. \<exists>cell \<in> set (sr_cells rate_plan). service_evidence_matches (sp_key cell) cell e) runs \<and>
    map rate_value (sq_candidate_loads result) = [rate_value mu / 4, rate_value mu / 2, 3 * rate_value mu / 4]"
proof -
  let ?cells = "sr_cells rate_plan"
  obtain seen r where checked: "check_service_cells ?cells [] [] = Inr seen"
      "check_present ''$/service_runs/run_id'' seen (map sv_run_id runs) [] = Inr ()"
    and loop: "service_cells ?cells runs required_service_cells
      \<lparr>sq_state = Eval_resolved, sq_cells = [], sq_mu_ref = None, sq_candidate_loads = [], sq_blockers = []\<rparr> = Inr r"
    and finish: "finish_service_rate rate_plan r = Inr result"
    using assms(1) by (auto simp: evaluate_service_rate_def)
  have state: "sq_state r = Eval_resolved"
    using finish assms(2)
    by (cases "sq_state r"; cases "sq_mu_ref r") (auto simp: finish_service_rate_def Let_def split: if_splits)
  note plan_ok = check_service_cells_Inr [OF checked(1)]
  have present: "distinct (map id_value (map sv_run_id runs))" "set (map id_value (map sv_run_id runs)) \<subseteq> set (planned_names ?cells)"
    using checked(2) plan_ok(3) unfolding check_present_Inr by auto
  have keys: "list_all (\<lambda>cell. expected_service_key (sp_key cell)) ?cells" "list_all (\<lambda>cell. distinct (sp_planned_run_ids cell)) ?cells"
    using plan_ok(1) by (simp_all add: list_all_iff)
  have sound: "least_rate (run_rate ` {e \<in> set runs. sv_validity e = Cal_valid}) (sq_mu_ref r)"
      "\<forall>key \<in> set required_service_cells. cell_resolved ?cells runs key" "sq_candidate_loads r = []"
    using service_cells_sound [OF loop state, of "{}"] all_valid_runs [OF present plan_ok(2) keys(1)]
    by (simp_all add: least_rate_def [of "{}"])
  have counts: "list_all (\<lambda>key. 59 \<le> length (filter (\<lambda>e. sv_key e = key \<and> sv_validity e = Cal_valid) runs)) required_service_cells"
    using planned_run_counts [OF _ keys(2)] sound(2) by (simp add: list_all_iff kMinimumValidIndependentRuns_def)
  have "{e \<in> set runs. sv_validity e = Cal_valid} \<noteq> {}"
  proof
    assume none: "{e \<in> set runs. sv_validity e = Cal_valid} = {}"
    then have "filter (\<lambda>e. sv_key e = key \<and> sv_validity e = Cal_valid) runs = []" for key by (auto simp: filter_empty_conv)
    with counts show False by (simp add: required_service_cells_def)
  qed
  then obtain mu where mu: "sq_mu_ref r = Some mu" using sound(1) by (cases "sq_mu_ref r") (auto simp: least_rate_def)
  with finish assms(2) state obtain loads where result: "sq_mu_ref result = Some mu" "sq_candidate_loads result = loads"
    and loads: "map_result (\<lambda>factor. multiply_rational mu factor ''$/candidate_loads'') load_factors = Inr loads"
    using sound(3) by (auto simp: finish_service_rate_def Let_def split: if_splits)
  have "\<exists>cell \<in> set ?cells. service_evidence_matches (sp_key cell) cell e" if e: "e \<in> set runs" for e
  proof -
    obtain cell where cell: "cell \<in> set ?cells" "sv_run_id e \<in> set (sp_planned_run_ids cell)"
      using runs_are_planned [OF present(2) e] by blast
    then have "cell_resolved ?cells runs (sp_key cell)"
      using sound(2) keys(1) by (auto simp: list_all_iff expected_service_key_def)
    with cell run_of_present [OF present(1) e] planned_cell_present [OF plan_ok(2) cell(1)] show ?thesis
      unfolding cell_resolved_def by (metis option.inject)
  qed
  moreover have "map rate_value (sq_candidate_loads result) = map (\<lambda>f. rate_value mu * f) (map rate_value load_factors)"
    using candidate_values [OF loads] result(2) by (simp add: comp_def)
  ultimately show ?thesis
    using sound(1) mu result(1) counts unfolding load_factor_values by (auto simp: least_rate_def list_all_iff)
qed

end
