(* ===== verification/Service_Rate_Example.thy ===== *)
theory Service_Rate_Example
  imports Service_Rate_Correct
begin

text \<open>
  A calibration with the sixty required cells and 59 valid runs in each of them, all with the same throughput of
  one event per second, is resolved. The evaluation of its 3540 runs is a computation over the lists, so it is
  carried out by the lemmas below for any evidence with one throughput.
\<close>

subsection \<open>Evidence with one throughput\<close>

definition uniform_run :: "ServiceCellKey \<Rightarrow> ServiceCellPlan \<Rightarrow> ExactRational \<Rightarrow> ServiceRunEvidence \<Rightarrow> bool" where
  "uniform_run key cell rate e \<longleftrightarrow>
     service_evidence_matches key cell e \<and> service_references_ok e \<and> sv_validity e = Cal_valid \<and>
     sv_raw_run_artifacts e \<noteq> [] \<and> sv_integrity_artifact e \<noteq> None \<and>
     exact_throughput \<lparr>to_consumed_events = sv_consumed_events e, to_ticks_per_second = sv_ticks_per_second e,
       to_interval_ticks = sv_interval_ticks e\<rparr> = Inr rate"

lemma update_minimum_same:
  assumes "reduced_rate rate" and "m = None \<or> m = Some rate"
  shows "update_minimum rate m = Inr (Some rate)"
  using assms by (auto simp: update_minimum_def compare_rational_value reduced_rate_def)

lemma uniform_cell_runs:
  assumes "reduced_rate rate" and "\<forall>i \<in> set ids. \<exists>e. run_of runs i = Some e \<and> uniform_run key cell rate e"
    and "m = None \<or> m = Some rate"
  shows "\<exists>c'. service_cell_runs key cell runs ids (c, m) = Inr (c', if ids = [] then m else Some rate) \<and>
    sl_blockers c' = sl_blockers c \<and> sl_present_runs c' = sl_present_runs c + length ids \<and>
    sl_valid_runs c' = sl_valid_runs c + length ids \<and> sl_planned_runs c' = sl_planned_runs c"
  using assms(2,3)
proof (induction ids arbitrary: c m)
  case (Cons i ids)
  then obtain e where e: "run_of runs i = Some e" "uniform_run key cell rate e" by auto
  then obtain c1 where step: "service_run_step key cell runs i (c, m) = Inr (c1, Some rate)"
    and c1: "sl_blockers c1 = sl_blockers c" "sl_present_runs c1 = Suc (sl_present_runs c)"
      "sl_valid_runs c1 = Suc (sl_valid_runs c)" "sl_planned_runs c1 = sl_planned_runs c"
    using update_minimum_same [OF assms(1) Cons.prems(2)]
    by (auto simp: service_run_step_def run_of_def uniform_run_def Let_def)
  from Cons.IH [of "Some rate" c1] Cons.prems(1) step c1 show ?case by auto
qed auto

lemma uniform_cells:
  assumes "reduced_rate rate" and "\<forall>key \<in> set keys. \<exists>cell. planned_cell cells key = Some cell \<and>
      59 \<le> length (sp_planned_run_ids cell) \<and>
      (\<forall>i \<in> set (sp_planned_run_ids cell). \<exists>e. run_of runs i = Some e \<and> uniform_run key cell rate e)"
    and "sq_mu_ref r = None \<or> sq_mu_ref r = Some rate"
  shows "\<exists>r'. service_cells cells runs keys r = Inr r' \<and> sq_state r' = sq_state r \<and>
    sq_mu_ref r' = (if keys = [] then sq_mu_ref r else Some rate)"
  using assms(2,3)
proof (induction keys arbitrary: r)
  case (Cons key keys)
  then obtain cell where cell: "planned_cell cells key = Some cell" "59 \<le> length (sp_planned_run_ids cell)"
    and uniform: "\<forall>i \<in> set (sp_planned_run_ids cell). \<exists>e. run_of runs i = Some e \<and> uniform_run key cell rate e" by auto
  obtain c where c: "service_cell_runs key cell runs (sp_planned_run_ids cell) (fresh_cell key cell, None) = Inr (c, Some rate)"
      "sl_blockers c = []" "sl_present_runs c = sl_planned_runs c" "59 \<le> sl_valid_runs c"
    using uniform_cell_runs [OF assms(1) uniform, of None "fresh_cell key cell"] cell(2)
    by (cases "sp_planned_run_ids cell = []") (auto simp: fresh_cell_def)
  obtain r1 where step: "service_cell_step cells runs key r = Inr r1" and r1: "sq_state r1 = sq_state r" "sq_mu_ref r1 = Some rate"
    using cell(1) c update_minimum_same [OF assms(1) Cons.prems(2)]
    by (auto simp: service_cell_step_def planned_cell_def finish_service_cell_def kMinimumValidIndependentRuns_def Let_def)
  from Cons.IH [of r1] Cons.prems(1) step r1 show ?case by auto
qed auto

subsection \<open>The example\<close>

definition one_per_second :: ExactRational where
  "one_per_second = \<lparr>xr_numerator = 1, xr_denominator = 1\<rparr>"

definition ex_reference :: EvidenceReference where
  "ex_reference = \<lparr>vr_artifact_id = ''a'', vr_sha256 = replicate 64 (CHR ''0'')\<rparr>"

definition cal_context :: StageAContext where
  "cal_context =
     \<lparr>sx_platform_id = ''p'', sx_build_id = ''b'', sx_queue_implementation_id = ''q'', sx_consumer_action_id = ''c'',
      sx_placement_evidence_id = ''e'', sx_capacity_evidence_id = ''k'', sx_working_set_evidence_id = ''w'',
      sx_hardware_state_evidence_id = ''h'', sx_software_policy_id = ''s'', sx_clock_policy_id = ''t'', sx_logical_capacity = 8\<rparr>"

definition ex_run_id :: "ServiceCellKey \<Rightarrow> nat \<Rightarrow> Identifier" where
  "ex_run_id key i = Identifier (service_key_name key @ ''#'' @ replicate i (CHR ''r''))"

definition ex_cell :: "ServiceCellKey \<Rightarrow> ServiceCellPlan" where
  "ex_cell key = \<lparr>sp_key = key, sp_context = cal_context, sp_duration_ticks = 1, sp_ticks_per_second = 1,
     sp_planned_run_ids = map (ex_run_id key) [0..<59]\<rparr>"

definition ex_service_run :: "ServiceCellKey \<Rightarrow> nat \<Rightarrow> ServiceRunEvidence" where
  "ex_service_run key i =
     \<lparr>sv_run_id = ex_run_id key i, sv_key = key, sv_context = cal_context, sv_stage = Stage_calibration,
      sv_run_mode = Mode_service_rate_calibration, sv_arrival_family = Arrival_continuous_ready, sv_validity = Cal_valid,
      sv_consumed_events = 1, sv_interval_ticks = 1, sv_ticks_per_second = 1, sv_raw_run_artifacts = [ex_reference],
      sv_integrity_artifact = Some ex_reference, sv_failure_artifact = None\<rparr>"

definition ex_service_runs :: "ServiceRunEvidence list" where
  "ex_service_runs = concat (map (\<lambda>key. map (ex_service_run key) [0..<59]) required_service_cells)"

definition ex_service_plan :: ServiceRatePlan where
  "ex_service_plan =
     \<lparr>sr_record_id = ''r'', sr_estimator_id = kServiceRateMethodId, sr_seed_namespace_id = ''n'', sr_assumptions = [''x''],
      sr_governance = \<lparr>cg_owner_ids = [''o''], cg_authority_artifact = ex_reference, cg_stand_budget_artifact = ex_reference\<rparr>,
      sr_cells = map ex_cell required_service_cells\<rparr>"

text \<open>The names of the keys are four digits, so they tell the keys apart.\<close>

definition key_number :: "ServiceCellKey \<Rightarrow> nat" where
  "key_number key = ((package_number (sk_package key) * 2 + hardware_number (sk_hardware_state key)) * 2 +
     placement_number (sk_placement key)) * 3 + working_set_number (sk_working_set key)"

lemma key_numbers: "map key_number required_service_cells = [0..<60]"
  by (simp add: required_service_cells_def key_number_def upt_rec)

lemma enum_numbers:
  "package_number p < 10" "hardware_number h < 10" "placement_number l < 10" "working_set_number w < 10"
  by (cases p; cases h; cases l; cases w; simp)+

lemma service_key_name_digits:
  "service_key_name key = [char_of (48 + package_number (sk_package key)), CHR '':'',
     char_of (48 + hardware_number (sk_hardware_state key)), CHR '':'',
     char_of (48 + placement_number (sk_placement key)), CHR '':'', char_of (48 + working_set_number (sk_working_set key))]"
  using enum_numbers by (simp add: service_key_name_def std_to_string.simps)

lemma digit_code: "m < 10 \<Longrightarrow> (48 + m) mod 256 = 48 + (m :: nat)"
  by simp

lemma service_key_names: "distinct (map service_key_name required_service_cells)" "length required_service_cells = 60"
proof -
  have "key_number a = key_number b" if "service_key_name a = service_key_name b" for a b
    using that by (simp add: service_key_name_digits digit_code enum_numbers key_number_def)
  moreover have "distinct (map key_number required_service_cells)" unfolding key_numbers by simp
  ultimately show "distinct (map service_key_name required_service_cells)"
    unfolding distinct_map inj_on_def by blast
  show "length required_service_cells = 60" using arg_cong [OF key_numbers, of length] by simp
qed

lemma service_key_name_plain: "CHR ''#'' \<notin> set (service_key_name key)"
proof -
  have "char_of (48 + m) \<noteq> CHR ''#''" if "m < 10" for m :: nat
  proof
    assume "char_of (48 + m) = CHR ''#''"
    then have "(of_char (char_of (48 + m) :: char) :: nat) = of_char CHR ''#''" by (rule arg_cong)
    then show False using that by (simp add: digit_code)
  qed
  then show ?thesis using enum_numbers by (auto simp: service_key_name_digits dest: sym)
qed

lemma ex_run_id_inj: "ex_run_id key i = ex_run_id key' j \<Longrightarrow> service_key_name key = service_key_name key' \<and> i = j"
proof -
  assume "ex_run_id key i = ex_run_id key' j"
  then have eq: "service_key_name key @ CHR ''#'' # replicate i (CHR ''r'') = service_key_name key' @ CHR ''#'' # replicate j (CHR ''r'')"
    by (simp add: ex_run_id_def)
  have "takeWhile (\<lambda>c. c \<noteq> CHR ''#'') (service_key_name k @ CHR ''#'' # xs) = service_key_name k" for k xs
    using service_key_name_plain [of k] by (subst takeWhile_append2) (auto split: if_splits)
  from arg_cong [OF eq, of "takeWhile (\<lambda>c. c \<noteq> CHR ''#'')", unfolded this] arg_cong [OF eq, of length]
  show ?thesis by simp
qed

lemma ex_name_inj:
  "id_value (ex_run_id key i) = id_value (ex_run_id key' j) \<Longrightarrow> service_key_name key = service_key_name key' \<and> i = j"
  using ex_run_id_inj Identifier.expand by blast

definition cal_run_names :: "ServiceCellKey \<Rightarrow> string list" where
  "cal_run_names key = map (\<lambda>i. id_value (ex_run_id key i)) [0..<59]"

lemma cal_run_names_facts:
  "distinct (cal_run_names key)" "service_key_name key \<noteq> service_key_name key' \<Longrightarrow> set (cal_run_names key) \<inter> set (cal_run_names key') = {}"
proof -
  have "inj_on (\<lambda>i. id_value (ex_run_id key i)) (set [0..<59])" using ex_name_inj by (meson inj_onI)
  then show "distinct (cal_run_names key)" by (simp only: cal_run_names_def distinct_map distinct_upt simp_thms)
  show "set (cal_run_names key) \<inter> set (cal_run_names key') = {}" if "service_key_name key \<noteq> service_key_name key'"
    using that ex_name_inj unfolding cal_run_names_def set_map by blast
qed

lemma cal_run_names_distinct:
  "distinct (map service_key_name keys) \<Longrightarrow> distinct (concat (map cal_run_names keys))"
proof (induction keys)
  case (Cons key keys)
  have "set (cal_run_names key) \<inter> set (cal_run_names k) = {}" if "k \<in> set keys" for k
    using Cons.prems that by (intro cal_run_names_facts(2)) (metis distinct.simps(2) image_eqI list.simps(9) set_map)
  with Cons cal_run_names_facts(1) show ?case by (simp add: disjoint_iff)
qed simp

lemma ex_service_run_id [simp]: "sv_run_id (ex_service_run key i) = ex_run_id key i"
  by (simp add: ex_service_run_def)

lemma ex_run_names: "map id_value (map sv_run_id ex_service_runs) = concat (map cal_run_names required_service_cells)"
  by (simp add: ex_service_runs_def map_concat comp_def cal_run_names_def [abs_def] del: upt_Suc)

lemma ex_runs_distinct: "distinct (map id_value (map sv_run_id ex_service_runs))"
  unfolding ex_run_names by (rule cal_run_names_distinct [OF service_key_names(1)])

lemma ex_cell_names: "map id_value (sp_planned_run_ids (ex_cell key)) = cal_run_names key"
  by (simp add: ex_cell_def cal_run_names_def comp_def del: upt_Suc)

lemma ex_plan_checked:
  assumes "distinct (map service_key_name keys)" and "set keys \<subseteq> set required_service_cells"
    and "\<forall>key \<in> set keys. service_key_name key \<notin> set names"
    and "\<forall>key \<in> set keys. set (cal_run_names key) \<inter> set seen = {}"
  shows "\<exists>seen'. check_service_cells (map ex_cell keys) names seen = Inr seen'"
  using assms
proof (induction keys arbitrary: names seen)
  case (Cons key keys)
  have ids: "insert_planned path (sp_planned_run_ids (ex_cell key)) seen = Inr (rev (cal_run_names key) @ seen)" for path
    using Cons.prems(4) unfolding insert_planned_Inr ex_cell_names by (simp add: cal_run_names_facts(1))
  have other: "service_key_name k \<noteq> service_key_name key" if "k \<in> set keys" for k
    using Cons.prems(1) that by (metis distinct.simps(2) image_eqI list.simps(9) set_map)
  have "\<exists>seen'. check_service_cells (map ex_cell keys) (service_key_name key # names) (rev (cal_run_names key) @ seen) = Inr seen'"
    using Cons.prems other cal_run_names_facts(2) by (intro Cons.IH) (auto simp: Int_Un_distrib)
  moreover have "valid_context cal_context" "expected_service_key key"
    using Cons.prems(2) by (simp_all add: valid_context_def cal_context_def valid_opaque_id_def expected_service_key_def)
  moreover have "sp_key (ex_cell key) = key" "sp_context (ex_cell key) = cal_context" "sp_duration_ticks (ex_cell key) \<noteq> 0"
    "sp_ticks_per_second (ex_cell key) \<noteq> 0" by (simp_all add: ex_cell_def del: upt_Suc)
  ultimately show ?case using ids Cons.prems(3) by simp
qed simp

lemma ex_reference_valid: "valid_reference ex_reference"
  by (simp add: valid_reference_def ex_reference_def valid_opaque_id_def valid_sha256_def list_all_iff)

lemma one_per_second_reduced: "reduced_rate one_per_second" "rate_value one_per_second = 1"
  by (simp_all add: reduced_rate_def one_per_second_def rate_value_def)

lemma load_factors_reduced: "f \<in> set load_factors \<Longrightarrow> reduced_rate f"
  using coprime_Suc_right_nat [of 3] by (auto simp: load_factors_def reduced_rate_def)

lemma ex_run_uniform: "uniform_run key (ex_cell key) one_per_second (ex_service_run key i)"
  using one_per_second_reduced
  by (simp add: uniform_run_def service_evidence_matches_def ex_service_run_def ex_cell_def service_references_ok_def references_valid_def
      ex_reference_valid exact_throughput_exact del: upt_Suc)

lemma ex_planned_cell: "key \<in> set required_service_cells \<Longrightarrow> planned_cell (map ex_cell required_service_cells) key = Some (ex_cell key)"
  using planned_cell_present [of "map ex_cell required_service_cells" "ex_cell key"] service_key_names(1)
  by (auto simp: ex_cell_def comp_def distinct_map simp del: upt_Suc)

lemma ex_service_result:
  "\<exists>result. evaluate_service_rate ex_service_plan ex_service_runs = Inr result \<and> sq_state result = Eval_resolved"
proof -
  let ?cells = "map ex_cell required_service_cells"
  obtain seen where seen: "check_service_cells ?cells [] [] = Inr seen"
    using ex_plan_checked [OF service_key_names(1) subset_refl, of "[]" "[]"] by auto
  have "set (map id_value (map sv_run_id ex_service_runs)) \<subseteq> set (planned_names ?cells)"
    unfolding ex_run_names planned_names_def by (simp add: comp_def ex_cell_names)
  then have present: "check_present ''$/service_runs/run_id'' seen (map sv_run_id ex_service_runs) [] = Inr ()"
    using ex_runs_distinct check_service_cells_Inr(3) [OF seen] unfolding check_present_Inr by simp
  have run: "run_of ex_service_runs (ex_run_id key i) = Some (ex_service_run key i)"
    if "key \<in> set required_service_cells" "i < 59" for key i
  proof -
    have "ex_service_run key i \<in> set ex_service_runs" using that unfolding ex_service_runs_def by (auto simp del: upt_Suc intro!: bexI [of _ key])
    from run_of_present [OF ex_runs_distinct this] show ?thesis by simp
  qed
  define start where "start = \<lparr>sq_state = Eval_resolved, sq_cells = [], sq_mu_ref = None, sq_candidate_loads = [], sq_blockers = []\<rparr>"
  have "\<exists>r. service_cells ?cells ex_service_runs required_service_cells start = Inr r \<and> sq_state r = sq_state start \<and>
      sq_mu_ref r = (if required_service_cells = [] then sq_mu_ref start else Some one_per_second)"
  proof (rule uniform_cells [OF one_per_second_reduced(1)])
    show "\<forall>key \<in> set required_service_cells. \<exists>cell. planned_cell ?cells key = Some cell \<and> 59 \<le> length (sp_planned_run_ids cell) \<and>
        (\<forall>i \<in> set (sp_planned_run_ids cell). \<exists>e. run_of ex_service_runs i = Some e \<and> uniform_run key cell one_per_second e)"
    proof
      fix key
      assume key: "key \<in> set required_service_cells"
      have "\<forall>i \<in> set (sp_planned_run_ids (ex_cell key)). \<exists>e. run_of ex_service_runs i = Some e \<and> uniform_run key (ex_cell key) one_per_second e"
        using run [OF key] ex_run_uniform by (auto simp: ex_cell_def simp del: upt_Suc)
      moreover have "59 \<le> length (sp_planned_run_ids (ex_cell key))" by (simp add: ex_cell_def)
      ultimately show "\<exists>cell. planned_cell ?cells key = Some cell \<and> 59 \<le> length (sp_planned_run_ids cell) \<and>
          (\<forall>i \<in> set (sp_planned_run_ids cell). \<exists>e. run_of ex_service_runs i = Some e \<and> uniform_run key cell one_per_second e)"
        using ex_planned_cell [OF key] by blast
    qed
  qed (simp add: start_def)
  moreover have "required_service_cells \<noteq> []" using service_key_names(2) by auto
  moreover have "sq_state start = Eval_resolved" by (simp add: start_def)
  ultimately obtain r where r: "service_cells ?cells ex_service_runs required_service_cells start = Inr r"
      "sq_state r = Eval_resolved" "sq_mu_ref r = Some one_per_second" by auto
  have "multiply_rational one_per_second f path = Inr f" if "f \<in> set load_factors" for f path
    using multiply_rational_complete [OF one_per_second_reduced(1) load_factors_reduced [OF that] load_factors_reduced [OF that]]
    by (simp add: one_per_second_reduced(2))
  then have "map_result (\<lambda>f. multiply_rational one_per_second f ''$/candidate_loads'') load_factors = Inr load_factors"
    unfolding map_result_Inr by (auto simp: list_all2_same)
  then have "\<exists>result. finish_service_rate ex_service_plan r = Inr result \<and> sq_state result = Eval_resolved"
    using r service_key_names(2) by (auto simp: finish_service_rate_def ex_service_plan_def kRequiredServiceCellCount_def Let_def)
  moreover have "service_plan_identity ex_service_plan"
    by (simp add: service_plan_identity_def ex_service_plan_def valid_opaque_id_def valid_governance_def ex_reference_valid)
  ultimately show ?thesis
    using seen present r(1) by (simp add: evaluate_service_rate_def ex_service_plan_def start_def)
qed

theorem service_rate_resolved_witness:
  "\<exists>result mu. evaluate_service_rate ex_service_plan ex_service_runs = Inr result \<and> sq_state result = Eval_resolved \<and>
     sq_mu_ref result = Some mu \<and> rate_value mu = 1 \<and> map rate_value (sq_candidate_loads result) = [1 / 4, 1 / 2, 3 / 4]"
proof -
  obtain result where result: "evaluate_service_rate ex_service_plan ex_service_runs = Inr result" "sq_state result = Eval_resolved"
    using ex_service_result by blast
  have rate: "run_rate e = 1" if "e \<in> set ex_service_runs" for e
    using that by (auto simp: ex_service_runs_def ex_service_run_def run_rate_def simp del: upt_Suc)
  obtain mu e where "sq_mu_ref result = Some mu" "e \<in> set ex_service_runs" "rate_value mu = run_rate e"
      "map rate_value (sq_candidate_loads result) = [rate_value mu / 4, rate_value mu / 2, 3 * rate_value mu / 4]"
    using service_rate_resolved [OF result] by auto
  with result rate show ?thesis by auto
qed

end
